(* ===== verification/Prelude.thy ===== *)
theory Prelude
  imports Main "HOL-Library.Word" "HOL-Library.Char_ord" "HOL-Library.List_Lexorder"
begin

section \<open>Shared vocabulary of the development\<close>

text \<open>
  What every component shares: Go's early-return validators as lists of checks, Go's
  \<open>for index, x := range xs\<close> loops with an early return, byte strings with the anchored
  regular expressions the packages compile, decimal formatting, 64-bit signed arithmetic and
  \<open>time.Time\<close>. Strings are byte strings (\<open>char list\<close>), as in Go.
\<close>

named_theorems pattern_defs \<open>definitions of the anchored regular expressions\<close>
named_theorems time_defs \<open>definitions of the operations of time.Time\<close>

subsection \<open>Validators: a list of checks, the first failure wins\<close>

text \<open>
  A Go validator is a sequence of \<open>if c { return err }\<close> statements. Its model is the list
  of its checks in source order; \<open>None\<close> is Go's nil error.
\<close>

definition fail_if :: "bool \<Rightarrow> 'e \<Rightarrow> 'e option" where
  "fail_if c e = (if c then Some e else None)"

fun first_error :: "'e option list \<Rightarrow> 'e option" where
  "first_error [] = None"
| "first_error (None # cs) = first_error cs"
| "first_error (Some e # cs) = Some e"

lemma fail_if_None [simp]: "fail_if c e = None \<longleftrightarrow> \<not> c"
  by (simp add: fail_if_def)

lemma fail_if_True [simp]: "fail_if True e = Some e"
  by (simp add: fail_if_def)

lemma fail_if_False [simp]: "fail_if False e = None"
  by (simp add: fail_if_def)

lemma first_error_Cons_None [simp]:
  "first_error (c # cs) = None \<longleftrightarrow> c = None \<and> first_error cs = None"
  by (cases c) auto

lemma first_error_append_None [simp]:
  "first_error (cs @ ds) = None \<longleftrightarrow> first_error cs = None \<and> first_error ds = None"
  by (induction cs) auto

lemma first_error_Some_mem: "first_error cs = Some e \<Longrightarrow> Some e \<in> set cs"
  by (induction cs rule: first_error.induct) auto

lemma guarded_Inr:
  "(case c of None \<Rightarrow> r | Some e \<Rightarrow> Inl e) = Inr x \<longleftrightarrow> c = None \<and> r = Inr x"
  by (cases c) auto

subsection \<open>Go range loops with an early return\<close>

fun range_loop :: "(nat \<Rightarrow> 's \<Rightarrow> 'a \<Rightarrow> 'e + 's) \<Rightarrow> nat \<Rightarrow> 's \<Rightarrow> 'a list \<Rightarrow> 'e + 's" where
  "range_loop f i s [] = Inr s"
| "range_loop f i s (x # xs) =
     (case f i s x of Inl e \<Rightarrow> Inl e | Inr s' \<Rightarrow> range_loop f (Suc i) s' xs)"

lemma range_loop_append:
  "range_loop f i s (xs @ ys) =
     (case range_loop f i s xs of
        Inl e \<Rightarrow> Inl e
      | Inr s' \<Rightarrow> range_loop f (i + length xs) s' ys)"
  by (induction xs arbitrary: i s) (auto split: sum.splits)

lemma range_loop_snoc:
  "range_loop f i s (xs @ [x]) = Inr t \<longleftrightarrow>
     (\<exists>s'. range_loop f i s xs = Inr s' \<and> f (i + length xs) s' x = Inr t)"
  by (auto simp: range_loop_append split: sum.splits)

lemma range_loop_prefix:
  "range_loop f i s (xs @ ys) = Inr t \<Longrightarrow> \<exists>s'. range_loop f i s xs = Inr s'"
  by (auto simp: range_loop_append split: sum.splits)

lemma range_loop_invariant:
  assumes "range_loop f i s xs = Inr t" and "P s"
    and "\<And>j s' x s''. \<lbrakk>P s'; x \<in> set xs; f j s' x = Inr s''\<rbrakk> \<Longrightarrow> P s''"
  shows "P t"
  using assms
proof (induction xs arbitrary: i s)
  case Nil
  then show ?case by simp
next
  case (Cons x xs)
  from Cons.prems(1) obtain s' where s': "f i s x = Inr s'" "range_loop f (Suc i) s' xs = Inr t"
    by (auto split: sum.splits)
  from s' Cons.prems have "P s'" by (meson list.set_intros(1))
  with s'(2) Cons.prems(3) show ?case
    by (intro Cons.IH [of "Suc i" s']) (auto intro: list.set_intros)
qed

text \<open>Induction over the accepted prefixes of a loop.\<close>

lemma range_loop_induct [consumes 1, case_names init step]:
  assumes "range_loop f 0 s xs = Inr t"
    and "P [] s"
    and "\<And>ys y u v. range_loop f 0 s ys = Inr u \<Longrightarrow> P ys u \<Longrightarrow> f (length ys) u y = Inr v \<Longrightarrow>
      P (ys @ [y]) v"
  shows "P xs t"
  using assms(1)
proof (induction xs arbitrary: t rule: rev_induct)
  case Nil
  then show ?case using assms(2) by simp
next
  case (snoc y ys)
  then obtain u where "range_loop f 0 s ys = Inr u" "f (length ys) u y = Inr t"
    by (auto simp: range_loop_snoc)
  then show ?case using snoc.IH assms(3) by blast
qed

text \<open>Loops that only check: no state is threaded through.\<close>

fun check_each :: "(nat \<Rightarrow> 'a \<Rightarrow> 'e option) \<Rightarrow> nat \<Rightarrow> 'a list \<Rightarrow> 'e option" where
  "check_each f i [] = None"
| "check_each f i (x # xs) = (case f i x of Some e \<Rightarrow> Some e | None \<Rightarrow> check_each f (Suc i) xs)"

lemma check_each_None:
  "check_each f i xs = None \<longleftrightarrow> (\<forall>k < length xs. f (i + k) (xs ! k) = None)"
proof (induction xs arbitrary: i)
  case Nil
  then show ?case by simp
next
  case (Cons x xs)
  show ?case
    by (auto simp: Cons.IH less_Suc_eq_0_disj split: option.splits)
qed

text \<open>
  Loops over a \<open>seen\<close> map: the element's own checks, then the duplicate check on its key. The
  loop accepts exactly the lists whose elements pass and whose keys are new and distinct.
\<close>

fun check_unique ::
  "('a \<Rightarrow> 'k) \<Rightarrow> (nat \<Rightarrow> 'a \<Rightarrow> 'e option) \<Rightarrow> (nat \<Rightarrow> 'a \<Rightarrow> 'e) \<Rightarrow> nat \<Rightarrow> 'k list \<Rightarrow> 'a list \<Rightarrow> 'e option"
where
  "check_unique key ok dup i seen [] = None"
| "check_unique key ok dup i seen (x # xs) =
     (case ok i x of
        Some e \<Rightarrow> Some e
      | None \<Rightarrow>
          (if key x \<in> set seen then Some (dup i x)
           else check_unique key ok dup (Suc i) (key x # seen) xs))"

lemma check_unique_None:
  "check_unique key ok dup i seen xs = None \<longleftrightarrow>
     (\<forall>k < length xs. ok (i + k) (xs ! k) = None) \<and>
     distinct (map key xs) \<and> set (map key xs) \<inter> set seen = {}"
proof (induction xs arbitrary: i seen)
  case Nil
  then show ?case by simp
next
  case (Cons x xs)
  show ?case
    by (auto simp: Cons.IH less_Suc_eq_0_disj split: option.splits)
qed

lemma check_unique_distinct:
  "check_unique key ok dup i seen xs = None \<Longrightarrow> distinct (map key xs)"
  by (simp add: check_unique_None)

end
