(* ===== verification/GoText.thy ===== *)
theory GoText
  imports Prelude
begin

section \<open>Byte strings, anchored patterns and decimal formatting\<close>

text \<open>
  The anchored regular expressions of the packages, each as an executable predicate on byte
  strings. All of them are \<open>^...$\<close> expressions over ASCII classes without the \<open>m\<close> flag, so
  a match is a match of the whole string. Also \<open>strings.Split\<close>, \<open>strings.HasPrefix\<close> and its
  kin, and the decimal verbs \<open>%d\<close> and \<open>%020d\<close> of \<open>fmt.Sprintf\<close>.
\<close>

subsection \<open>Character classes\<close>

definition lower :: string where "lower = ''abcdefghijklmnopqrstuvwxyz''"
definition upper :: string where "upper = ''ABCDEFGHIJKLMNOPQRSTUVWXYZ''"
definition digits :: string where "digits = ''0123456789''"
definition hex_lower :: string where "hex_lower = ''0123456789abcdef''"

definition is_lower :: "char \<Rightarrow> bool" where "is_lower c = (c \<in> set lower)"
definition is_upper :: "char \<Rightarrow> bool" where "is_upper c = (c \<in> set upper)"
definition is_digit :: "char \<Rightarrow> bool" where "is_digit c = (c \<in> set digits)"
definition is_hex :: "char \<Rightarrow> bool" where "is_hex c = (c \<in> set hex_lower)"
definition is_alnum :: "char \<Rightarrow> bool" where "is_alnum c = (is_lower c \<or> is_upper c \<or> is_digit c)"

text \<open>\<open>[a-z0-9-]\<close>.\<close>

definition is_ident_char :: "char \<Rightarrow> bool" where
  "is_ident_char c = (is_lower c \<or> is_digit c \<or> c = CHR ''-'')"

lemmas char_class_defs =
  lower_def upper_def digits_def hex_lower_def
  is_lower_def is_upper_def is_digit_def is_hex_def is_alnum_def is_ident_char_def

lemma list_all_replicate [simp]: "list_all P (replicate n x) \<longleftrightarrow> n = 0 \<or> P x"
  by (induction n) auto

subsection \<open>Strings functions\<close>

fun has_prefix :: "string \<Rightarrow> string \<Rightarrow> bool" where
  "has_prefix s [] = True"
| "has_prefix [] (p # ps) = False"
| "has_prefix (c # s) (p # ps) = (c = p \<and> has_prefix s ps)"

definition has_suffix :: "string \<Rightarrow> string \<Rightarrow> bool" where
  "has_suffix s suffix = has_prefix (rev s) (rev suffix)"

definition trim_prefix :: "string \<Rightarrow> string \<Rightarrow> string" where
  "trim_prefix s p = (if has_prefix s p then drop (length p) s else s)"

definition trim_suffix :: "string \<Rightarrow> string \<Rightarrow> string" where
  "trim_suffix s p = (if has_suffix s p then take (length s - length p) s else s)"

text \<open>\<open>strings.Split(s, sep)\<close> for a one-byte separator: never empty.\<close>

fun split_on :: "char \<Rightarrow> string \<Rightarrow> string list" where
  "split_on sep [] = [[]]"
| "split_on sep (c # s) =
     (if c = sep then [] # split_on sep s
      else (case split_on sep s of [] \<Rightarrow> [[c]] | w # ws \<Rightarrow> (c # w) # ws))"

text \<open>\<open>strings.Contains(s, sub)\<close>.\<close>

fun contains :: "string \<Rightarrow> string \<Rightarrow> bool" where
  "contains [] sub = (sub = [])"
| "contains (c # s) sub = (has_prefix (c # s) sub \<or> contains s sub)"

lemma has_prefix_iff: "has_prefix s p \<longleftrightarrow> (\<exists>t. s = p @ t)"
  by (induction s p rule: has_prefix.induct) auto

lemma has_suffix_iff: "has_suffix s p \<longleftrightarrow> (\<exists>t. s = t @ p)"
  by (auto simp: has_suffix_def has_prefix_iff)
     (metis rev_append rev_rev_ident)

lemma has_prefix_append [simp]: "has_prefix (p @ t) p"
  by (auto simp: has_prefix_iff)

lemma split_on_nonempty [simp]: "split_on sep s \<noteq> []"
  by (induction s) (auto split: list.splits)

subsection \<open>The compiled patterns\<close>

text \<open>\<open>^op-[0-9a-f]{16}$\<close> and \<open>^plan-[0-9a-f]{16}$\<close>.\<close>

definition operationIDPattern :: "string \<Rightarrow> bool" where
  "operationIDPattern s =
     (has_prefix s ''op-'' \<and> length s = 19 \<and> list_all is_hex (drop 3 s))"

definition planIDPattern :: "string \<Rightarrow> bool" where
  "planIDPattern s =
     (has_prefix s ''plan-'' \<and> length s = 21 \<and> list_all is_hex (drop 5 s))"

text \<open>\<open>^[0-9a-f]{64}$\<close>.\<close>

definition sha256Pattern :: "string \<Rightarrow> bool" where
  "sha256Pattern s = (length s = 64 \<and> list_all is_hex s)"

text \<open>\<open>^[a-z][a-z0-9-]{0,63}$\<close>.\<close>

definition identifierPattern :: "string \<Rightarrow> bool" where
  "identifierPattern s =
     (s \<noteq> [] \<and> length s \<le> 64 \<and> is_lower (hd s) \<and> list_all is_ident_char (tl s))"

text \<open>\<open>^WF-[A-Z0-9]+-[0-9]{2}$\<close>.\<close>

definition workflowIDPattern :: "string \<Rightarrow> bool" where
  "workflowIDPattern s =
     (has_prefix s ''WF-'' \<and>
      (let body = drop 3 s; n = length body in
         4 \<le> n \<and> list_all (\<lambda>c. is_upper c \<or> is_digit c) (take (n - 3) body) \<and>
         body ! (n - 3) = CHR ''-'' \<and> list_all is_digit (drop (n - 2) body)))"

text \<open>\<open>^[a-z][a-z0-9-]{4,28}[a-z0-9]$\<close>.\<close>

definition projectIDPattern :: "string \<Rightarrow> bool" where
  "projectIDPattern s =
     (6 \<le> length s \<and> length s \<le> 30 \<and> is_lower (hd s) \<and>
      list_all is_ident_char (tl s) \<and> (is_lower (last s) \<or> is_digit (last s)))"

text \<open>\<open>^[a-z](?:[a-z0-9-]{0,61}[a-z0-9])?$\<close>.\<close>

definition environmentPattern :: "string \<Rightarrow> bool" where
  "environmentPattern s =
     (s \<noteq> [] \<and> length s \<le> 63 \<and> is_lower (hd s) \<and>
      list_all is_ident_char (tl s) \<and> (is_lower (last s) \<or> is_digit (last s)))"

text \<open>\<open>^[a-z][a-z0-9]*(?:\.[A-Za-z][A-Za-z0-9]*){2,}$\<close>.\<close>

definition permissionPattern :: "string \<Rightarrow> bool" where
  "permissionPattern s =
     (case split_on CHR ''.'' s of
        [] \<Rightarrow> False
      | w # ws \<Rightarrow>
          w \<noteq> [] \<and> is_lower (hd w) \<and> list_all (\<lambda>c. is_lower c \<or> is_digit c) (tl w) \<and>
          2 \<le> length ws \<and>
          list_all (\<lambda>v. v \<noteq> [] \<and> (is_lower (hd v) \<or> is_upper (hd v)) \<and> list_all is_alnum (tl v)) ws)"

text \<open>\<open>^[0-9]{4}-[0-9]{2}-[0-9]{2}$\<close>.\<close>

definition datePattern :: "string \<Rightarrow> bool" where
  "datePattern s =
     (length s = 10 \<and> list_all is_digit (take 4 s) \<and> s ! 4 = CHR ''-'' \<and>
      list_all is_digit (take 2 (drop 5 s)) \<and> s ! 7 = CHR ''-'' \<and> list_all is_digit (drop 8 s))"

text \<open>\<open>^[a-z0-9][A-Za-z0-9._/-]{0,511}$\<close>.\<close>

definition evidenceRefPattern :: "string \<Rightarrow> bool" where
  "evidenceRefPattern s =
     (s \<noteq> [] \<and> length s \<le> 512 \<and> (is_lower (hd s) \<or> is_digit (hd s)) \<and>
      list_all (\<lambda>c. is_alnum c \<or> c \<in> set ''._/-'') (tl s))"

text \<open>
  \<open>^[a-z][a-z0-9-]{4,28}[a-z0-9]@[a-z][a-z0-9-]{4,28}[a-z0-9]\.iam\.gserviceaccount\.com$\<close>.
\<close>

definition serviceAccountPattern :: "string \<Rightarrow> bool" where
  "serviceAccountPattern s =
     (case split_on CHR ''@'' s of
        [account, domain] \<Rightarrow>
          projectIDPattern account \<and> has_suffix domain ''.iam.gserviceaccount.com'' \<and>
          projectIDPattern (trim_suffix domain ''.iam.gserviceaccount.com'')
      | _ \<Rightarrow> False)"

text \<open>
  The scope of a plan resource:
  \<open>^projects/(P)/(?:global|regions/R|zones/R|locations/R)$\<close> with \<open>P\<close> the project pattern and
  \<open>R = [a-z][a-z0-9-]{0,62}\<close>. The result is the captured project.
\<close>

definition scopeNamePattern :: "string \<Rightarrow> bool" where
  "scopeNamePattern s =
     (s \<noteq> [] \<and> length s \<le> 63 \<and> is_lower (hd s) \<and> list_all is_ident_char (tl s))"

definition resourceScopeProject :: "string \<Rightarrow> string option" where
  "resourceScopeProject s =
     (case split_on CHR ''/'' s of
        [h, p, g] \<Rightarrow>
          (if h = ''projects'' \<and> projectIDPattern p \<and> g = ''global'' then Some p else None)
      | [h, p, k, r] \<Rightarrow>
          (if h = ''projects'' \<and> projectIDPattern p \<and>
              k \<in> set [''regions'', ''zones'', ''locations''] \<and> scopeNamePattern r
           then Some p else None)
      | _ \<Rightarrow> None)"

lemmas [pattern_defs] =
  operationIDPattern_def planIDPattern_def sha256Pattern_def identifierPattern_def
  workflowIDPattern_def projectIDPattern_def environmentPattern_def permissionPattern_def
  datePattern_def evidenceRefPattern_def serviceAccountPattern_def scopeNamePattern_def
  resourceScopeProject_def has_suffix_def trim_prefix_def trim_suffix_def Let_def

subsection \<open>Decimal formatting\<close>

definition digit_char :: "nat \<Rightarrow> char" where
  "digit_char d = digits ! (d mod 10)"

text \<open>The low \<open>n\<close> decimal digits, most significant first.\<close>

fun low_digits :: "nat \<Rightarrow> nat \<Rightarrow> string" where
  "low_digits 0 k = []"
| "low_digits (Suc n) k = low_digits n (k div 10) @ [digit_char k]"

text \<open>\<open>%d\<close>.\<close>

fun decimal :: "nat \<Rightarrow> string" where
  "decimal k = (if k < 10 then [digit_char k] else decimal (k div 10) @ [digit_char k])"

declare decimal.simps [simp del]

text \<open>\<open>%020d\<close>: zero padding on the left, never truncation.\<close>

definition pad20 :: "nat \<Rightarrow> string" where
  "pad20 k = (let s = decimal k in replicate (20 - length s) CHR ''0'' @ s)"

lemma length_low_digits [simp]: "length (low_digits n k) = n"
  by (induction n arbitrary: k) auto

lemma low_digits_zero [simp]: "low_digits n 0 = replicate n CHR ''0''"
proof (induction n)
  case 0
  then show ?case by simp
next
  case (Suc n)
  then show ?case by (simp add: digit_char_def digits_def replicate_append_same)
qed

lemma low_digits_decimal:
  "k < 10 ^ n \<Longrightarrow> 0 < n \<Longrightarrow> low_digits n k = replicate (n - length (decimal k)) CHR ''0'' @ decimal k \<and>
     length (decimal k) \<le> n"
proof (induction n arbitrary: k)
  case 0
  then show ?case by simp
next
  case (Suc n)
  show ?case
  proof (cases "k < 10")
    case True
    then show ?thesis by (simp add: decimal.simps [of k])
  next
    case False
    from False Suc.prems(1) have "0 < n" by (cases n) auto
    moreover have "k div 10 < 10 ^ n" using Suc.prems(1) by (simp add: div_less_iff_less_mult)
    ultimately show ?thesis
      using Suc.IH [of "k div 10"] False by (simp add: decimal.simps [of k])
  qed
qed

lemma pad20_low_digits: "k < 10 ^ 20 \<Longrightarrow> pad20 k = low_digits 20 k"
  using low_digits_decimal [of k 20] by (simp add: pad20_def Let_def)

text \<open>Fixed-width decimals compare as their numbers do.\<close>

lemma digit_char_less: "a < 10 \<Longrightarrow> b < 10 \<Longrightarrow> digit_char a < digit_char b \<longleftrightarrow> a < b"
proof -
  assume "a < 10" "b < 10"
  then have "a \<in> {0,1,2,3,4,5,6,7,8,9}" "b \<in> {0,1,2,3,4,5,6,7,8,9}" by auto
  then show ?thesis
    by (auto simp: digit_char_def digits_def less_char_def)
qed

lemma lex_append_same_length:
  fixes xs ys :: "'a :: order list"
  shows "length xs = length ys \<Longrightarrow> xs @ us < ys @ vs \<longleftrightarrow> xs < ys \<or> xs = ys \<and> us < vs"
  by (induction xs ys rule: list_induct2) auto

lemma less_div_mod_ten:
  "(j::nat) < k \<longleftrightarrow> j div 10 < k div 10 \<or> j div 10 = k div 10 \<and> j mod 10 < k mod 10"
proof -
  have "j = 10 * (j div 10) + j mod 10" "k = 10 * (k div 10) + k mod 10"
    by simp_all
  moreover have "j mod 10 < 10" "k mod 10 < 10" by simp_all
  ultimately show ?thesis
    by (cases "j div 10" "k div 10" rule: linorder_cases) linarith+
qed

lemma low_digits_less:
  "j < 10 ^ n \<Longrightarrow> k < 10 ^ n \<Longrightarrow> low_digits n j < low_digits n k \<longleftrightarrow> j < k"
proof (induction n arbitrary: j k)
  case 0
  then show ?case by simp
next
  case (Suc n)
  have div: "j div 10 < 10 ^ n" "k div 10 < 10 ^ n"
    using Suc.prems by (simp_all add: div_less_iff_less_mult)
  have eq: "low_digits n (j div 10) = low_digits n (k div 10) \<longleftrightarrow> j div 10 = k div 10"
    using Suc.IH [OF div] Suc.IH [OF div(2,1)] by (metis less_irrefl linorder_neqE_nat)
  have "digit_char j < digit_char k \<longleftrightarrow> j mod 10 < k mod 10"
    using digit_char_less [of "j mod 10" "k mod 10"] by (simp add: digit_char_def)
  moreover have "j < k \<longleftrightarrow> j div 10 < k div 10 \<or> j div 10 = k div 10 \<and> j mod 10 < k mod 10"
    by (rule less_div_mod_ten)
  ultimately show ?case
    using Suc.IH [OF div] eq by (simp add: lex_append_same_length)
qed

lemma pad20_less:
  "j < 10 ^ 20 \<Longrightarrow> k < 10 ^ 20 \<Longrightarrow> pad20 j < pad20 k \<longleftrightarrow> j < k"
  by (simp add: pad20_low_digits low_digits_less)

lemma length_pad20: "k < 10 ^ 20 \<Longrightarrow> length (pad20 k) = 20"
  by (simp add: pad20_low_digits)

lemma pad20_inject: "j < 10 ^ 20 \<Longrightarrow> k < 10 ^ 20 \<Longrightarrow> pad20 j = pad20 k \<longleftrightarrow> j = k"
  using pad20_less [of j k] pad20_less [of k j] by (metis less_irrefl linorder_neqE_nat)

end
