(* ===== verification/GoTime.thy ===== *)
theory GoTime
  imports Prelude
begin

section \<open>Signed 64-bit arithmetic and time.Time\<close>

text \<open>
  An \<open>int64\<close> is an \<open>int\<close> whose arithmetic is wrapped explicitly where the code can overflow.
  A \<open>time.Time\<close> is its instant (nanoseconds since the zero time, January 1 of year 1, UTC), the
  offset of its zone in seconds, and a tag for the rest of its representation (the location
  pointer), which only \<open>==\<close> on structs can see; \<open>Equal\<close>, \<open>Before\<close> and \<open>After\<close> compare
  instants. Monotonic readings play no part: every time the code compares was decoded from JSON
  or passed through \<open>UTC()\<close>, which strips them. A \<open>time.Duration\<close> is an \<open>int64\<close> of nanoseconds.
\<close>

definition wrap64 :: "int \<Rightarrow> int" where
  "wrap64 x = signed_take_bit 63 x"

definition max_int64 :: int where "max_int64 = 9223372036854775807"
definition min_int64 :: int where "min_int64 = - 9223372036854775808"

definition is_int64 :: "int \<Rightarrow> bool" where
  "is_int64 x = (min_int64 \<le> x \<and> x \<le> max_int64)"

lemmas int64_defs = max_int64_def min_int64_def is_int64_def

lemma wrap64_id: "is_int64 x \<Longrightarrow> wrap64 x = x"
  unfolding wrap64_def int64_defs
  by (rule signed_take_bit_int_eq_self) simp_all

lemma is_int64_wrap64: "is_int64 (wrap64 x)"
  unfolding wrap64_def int64_defs
  using signed_take_bit_int_less_exp [of 63 x] signed_take_bit_int_greater_eq_minus_exp [of 63 x]
  by simp

definition second :: int where "second = 1000000000"
definition minute :: int where "minute = 60 * second"
definition hour :: int where "hour = 60 * minute"

lemmas duration_defs = second_def minute_def hour_def

record gotime =
  t_ns :: int
  t_zone :: int
  t_loc :: nat

definition time_zero :: gotime where
  "time_zero = \<lparr>t_ns = 0, t_zone = 0, t_loc = 0\<rparr>"

definition utc :: "int \<Rightarrow> gotime" where
  "utc n = \<lparr>t_ns = n, t_zone = 0, t_loc = 0\<rparr>"

definition time_IsZero :: "gotime \<Rightarrow> bool" where
  "time_IsZero t = (t_ns t = 0)"

definition time_Before :: "gotime \<Rightarrow> gotime \<Rightarrow> bool" where
  "time_Before a b = (t_ns a < t_ns b)"

definition time_After :: "gotime \<Rightarrow> gotime \<Rightarrow> bool" where
  "time_After a b = (t_ns b < t_ns a)"

definition time_Equal :: "gotime \<Rightarrow> gotime \<Rightarrow> bool" where
  "time_Equal a b = (t_ns a = t_ns b)"

text \<open>\<open>a.Sub(b)\<close> saturates at the bounds of a Duration.\<close>

definition time_Sub :: "gotime \<Rightarrow> gotime \<Rightarrow> int" where
  "time_Sub a b = max min_int64 (min max_int64 (t_ns a - t_ns b))"

text \<open>\<open>t.Add(d)\<close>: the seconds saturate at the bounds of the 64-bit representation.\<close>

definition time_Add :: "gotime \<Rightarrow> int \<Rightarrow> gotime" where
  "time_Add t d =
     (let n = t_ns t + d; sec = n div second; ns = n mod second;
          sec' = (if sec > max_int64 then max_int64
                  else if sec < min_int64 then - max_int64 else sec)
      in t\<lparr>t_ns := sec' * second + ns\<rparr>)"

lemmas [time_defs] =
  time_zero_def utc_def time_IsZero_def time_Before_def time_After_def time_Equal_def time_Sub_def

text \<open>Within the representable range, \<open>Add\<close> and \<open>Sub\<close> are exact.\<close>

definition representable :: "gotime \<Rightarrow> bool" where
  "representable t = (min_int64 * second \<le> t_ns t \<and> t_ns t < (max_int64 + 1) * second)"

lemma time_Add_exact:
  assumes "min_int64 * second \<le> t_ns t + d" and "t_ns t + d < (max_int64 + 1) * second"
  shows "t_ns (time_Add t d) = t_ns t + d"
proof -
  have "min_int64 \<le> (t_ns t + d) div second"
    using assms(1) by (simp add: second_def int64_defs zdiv_mono1)
  moreover have "(t_ns t + d) div second \<le> max_int64"
    using assms(2) by (simp add: second_def int64_defs)
  ultimately show ?thesis
    by (simp add: time_Add_def Let_def)
qed

lemma time_Add_zone [simp]: "t_zone (time_Add t d) = t_zone t" "t_loc (time_Add t d) = t_loc t"
  by (simp_all add: time_Add_def Let_def)

lemma time_Sub_le: "0 \<le> d \<Longrightarrow> d < max_int64 \<Longrightarrow> time_Sub a b \<le> d \<longleftrightarrow> t_ns a - t_ns b \<le> d"
  by (auto simp: time_Sub_def int64_defs)

lemma is_int64_Sub: "is_int64 (time_Sub a b)"
  by (simp add: time_Sub_def int64_defs)

text \<open>The repeated check \<open>value.IsZero()\<close>, then \<open>_, offset := value.Zone(); offset != 0\<close>.\<close>

definition valid_utc :: "gotime \<Rightarrow> bool" where
  "valid_utc t = (\<not> time_IsZero t \<and> t_zone t = 0)"

end
