(* ===== verification/Domain.thy ===== *)
theory Domain
  imports GoText GoTime
begin

section \<open>internal/domain: the closed registries\<close>

text \<open>
  The persisted enumerations of \<open>internal/domain\<close>. A Go string type is a datatype with one
  constructor per declared constant and a last constructor for every other string, so that the
  invalid values the code tests for exist in the model; \<open>ApprovalClass\<close> is a \<open>uint8\<close>. The locale
  \<open>text_codec\<close> is the contract of \<open>encoding.TextMarshaler\<close> and \<open>TextUnmarshaler\<close> that the JSON
  layer relies on; every enumeration with both methods interprets it.
\<close>

datatype domain_error =
    ErrInvalidApprovalClass string
  | ErrInvalidEnvironmentClass string
  | ErrInvalidExposureDelta string
  | ErrInvalidExecutionIdentity string
  | ErrInvalidJournalEntryKind string
  | ErrInvalidStepOutcome string
  | ErrInvalidOperationState string

subsection \<open>The codec contract\<close>

text \<open>
  \<open>unmarshal\<close> passes the destination pointer and its content explicitly: \<open>None\<close> is the nil
  destination, the result is the new destination and the error.
\<close>

locale text_codec =
  fixes parse :: "string \<Rightarrow> 'e + 'a"
    and marshal :: "'a \<Rightarrow> 'e + string"
    and unmarshal :: "'a option \<Rightarrow> string \<Rightarrow> 'a option \<times> 'e option"
  assumes parse_iff_marshal: "parse s = Inr x \<longleftrightarrow> marshal x = Inr s"
    and unmarshal_parsed: "parse s = Inr x \<Longrightarrow> unmarshal (Some d) s = (Some x, None)"
    and unmarshal_rejected: "parse s = Inl e \<Longrightarrow> \<exists>e'. unmarshal (Some d) s = (Some d, Some e')"
    and unmarshal_nil: "\<exists>e'. unmarshal None s = (None, Some e')"
begin

lemma marshal_injective: "marshal x = Inr s \<Longrightarrow> marshal y = Inr s \<Longrightarrow> x = y"
  using parse_iff_marshal by (metis sum.inject(2))

lemma parse_injective: "parse s = Inr x \<Longrightarrow> parse t = Inr x \<Longrightarrow> s = t"
  using parse_iff_marshal by (metis sum.inject(2))

lemma unmarshal_marshal: "marshal x = Inr s \<Longrightarrow> unmarshal (Some d) s = (Some x, None)"
  by (simp add: parse_iff_marshal unmarshal_parsed)

lemma unmarshal_error_keeps_destination:
  "unmarshal d s = (d', Some e) \<Longrightarrow> d' = d"
proof (cases d)
  case None
  assume "unmarshal d s = (d', Some e)"
  with None unmarshal_nil [of s] show ?thesis by auto
next
  case (Some v)
  assume "unmarshal d s = (d', Some e)"
  with Some show ?thesis
    by (cases "parse s") (use unmarshal_rejected [of s _ v] unmarshal_parsed [of s _ v] in auto)
qed

lemma unmarshal_ok_iff:
  "unmarshal (Some d) s = (Some x, None) \<longleftrightarrow> marshal x = Inr s"
proof (cases "parse s")
  case (Inl e)
  then show ?thesis
    using unmarshal_rejected [of s e d] parse_iff_marshal [of s x] by auto
next
  case (Inr y)
  then show ?thesis
    using unmarshal_parsed [of s y d] parse_iff_marshal [of s x] by auto
qed

end

subsection \<open>String enumerations\<close>

text \<open>
  The Go conversion \<open>T(s)\<close> of a string to an enumeration: the constant of that name when there is
  one. \<open>closed_enum\<close> states what makes it a conversion, and derives the codec laws once.
\<close>

definition enum_of :: "('a \<Rightarrow> string) \<Rightarrow> (string \<Rightarrow> 'a) \<Rightarrow> 'a list \<Rightarrow> string \<Rightarrow> 'a" where
  "enum_of str other registry s =
     (case find (\<lambda>x. str x = s) registry of Some x \<Rightarrow> x | None \<Rightarrow> other s)"

locale closed_enum =
  fixes str :: "'a \<Rightarrow> string"
    and other :: "string \<Rightarrow> 'a"
    and registry :: "'a list"
  assumes str_other: "str (other s) = s"
    and registry_names: "distinct (map str registry)"
    and other_outside: "other s \<notin> set registry"
begin

lemma str_enum_of: "str (enum_of str other registry s) = s"
  by (auto simp: enum_of_def str_other find_Some_iff split: option.splits)

lemma enum_of_str: "x \<in> set registry \<Longrightarrow> enum_of str other registry (str x) = x"
proof -
  assume x: "x \<in> set registry"
  then obtain y where y: "find (\<lambda>z. str z = str x) registry = Some y"
    by (metis (mono_tags, lifting) find_None_iff not_Some_eq)
  then have "str y = str x" "y \<in> set registry"
    by (auto simp: find_Some_iff)
  with x registry_names have "y = x"
    by (auto simp: distinct_map dest: inj_onD)
  with y show ?thesis by (simp add: enum_of_def)
qed

lemma enum_of_valid:
  "enum_of str other registry s \<in> set registry \<longleftrightarrow> s \<in> str ` set registry"
  using enum_of_str str_enum_of by (metis image_eqI imageE)

lemma enum_codec:
  assumes parse: "\<And>s. parse s = (if enum_of str other registry s \<in> set registry
                                 then Inr (enum_of str other registry s) else Inl (err s))"
    and marshal: "\<And>x. marshal x = (if x \<in> set registry then Inr (str x) else Inl (err (str x)))"
    and nil: "\<And>s. unmarshal None s = (None, Some nilerr)"
    and some: "\<And>d s. unmarshal (Some d) s =
                 (case parse s of Inl e \<Rightarrow> (Some d, Some e) | Inr x \<Rightarrow> (Some x, None))"
  shows "text_codec parse marshal unmarshal"
proof
  fix s x
  show "parse s = Inr x \<longleftrightarrow> marshal x = Inr s"
    using enum_of_str str_enum_of by (auto simp: parse marshal split: if_splits)
next
  fix s x d
  show "parse s = Inr x \<Longrightarrow> unmarshal (Some d) s = (Some x, None)"
    by (simp add: some)
next
  fix s e d
  show "parse s = Inl e \<Longrightarrow> \<exists>e'. unmarshal (Some d) s = (Some d, Some e')"
    by (simp add: some)
next
  fix s
  show "\<exists>e'. unmarshal None s = (None, Some e')"
    by (simp add: nil)
qed

end

end
