(* ===== verification/DomainEnums.thy ===== *)
theory DomainEnums
  imports Domain
begin

section \<open>internal/domain: approval, environment, exposure, identity, lifecycle states\<close>

text \<open>
  One group per enumeration of \<open>internal/domain\<close>: the constants, \<open>string(x)\<close>, the registry, the
  conversion \<open>T(s)\<close>, \<open>Valid\<close>, \<open>Parse...\<close>, \<open>MarshalText\<close> and \<open>UnmarshalText\<close>, then the interpretation
  of the codec contract. \<open>ApprovalClass\<close>, the ordered \<open>uint8\<close> class, comes last with
  \<open>MaxApprovalClass\<close>.
\<close>

subsection \<open>EnvironmentClass (environment.go)\<close>

datatype EnvironmentClass =
    EnvironmentProduction
  | EnvironmentStaging
  | EnvironmentRehearsal
  | EnvironmentDisposable
  | EnvironmentOther string

fun EnvironmentClass_string :: "EnvironmentClass \<Rightarrow> string" where
  "EnvironmentClass_string EnvironmentProduction = ''production''"
| "EnvironmentClass_string EnvironmentStaging = ''staging''"
| "EnvironmentClass_string EnvironmentRehearsal = ''rehearsal''"
| "EnvironmentClass_string EnvironmentDisposable = ''disposable''"
| "EnvironmentClass_string (EnvironmentOther s) = s"

definition environmentClass_registry :: "EnvironmentClass list" where
  "environmentClass_registry =
     [EnvironmentProduction,
      EnvironmentStaging,
      EnvironmentRehearsal,
      EnvironmentDisposable]"

definition EnvironmentClass_of :: "string \<Rightarrow> EnvironmentClass" where
  "EnvironmentClass_of = enum_of EnvironmentClass_string EnvironmentOther environmentClass_registry"

definition EnvironmentClass_Valid :: "EnvironmentClass \<Rightarrow> bool" where
  "EnvironmentClass_Valid x = (x \<in> set environmentClass_registry)"

definition ParseEnvironmentClass :: "string \<Rightarrow> domain_error + EnvironmentClass" where
  "ParseEnvironmentClass value =
     (if EnvironmentClass_Valid (EnvironmentClass_of value) then Inr (EnvironmentClass_of value) else Inl (ErrInvalidEnvironmentClass value))"

definition EnvironmentClass_MarshalText :: "EnvironmentClass \<Rightarrow> domain_error + string" where
  "EnvironmentClass_MarshalText x =
     (if EnvironmentClass_Valid x then Inr (EnvironmentClass_string x) else Inl (ErrInvalidEnvironmentClass (EnvironmentClass_string x)))"

fun EnvironmentClass_UnmarshalText :: "EnvironmentClass option \<Rightarrow> string \<Rightarrow> EnvironmentClass option \<times> domain_error option" where
  "EnvironmentClass_UnmarshalText None text = (None, Some (ErrInvalidEnvironmentClass ''nil destination''))"
| "EnvironmentClass_UnmarshalText (Some d) text =
     (case ParseEnvironmentClass text of Inl e \<Rightarrow> (Some d, Some e) | Inr x \<Rightarrow> (Some x, None))"

interpretation EnvironmentClass_enum: closed_enum EnvironmentClass_string EnvironmentOther environmentClass_registry
  by unfold_locales (auto simp: environmentClass_registry_def)

lemma EnvironmentClass_Valid_cases [simp]:
  "EnvironmentClass_Valid EnvironmentProduction"
  "EnvironmentClass_Valid EnvironmentStaging"
  "EnvironmentClass_Valid EnvironmentRehearsal"
  "EnvironmentClass_Valid EnvironmentDisposable"
  "\<not> EnvironmentClass_Valid (EnvironmentOther s)"
  by (simp_all add: EnvironmentClass_Valid_def environmentClass_registry_def)

interpretation EnvironmentClass_codec: text_codec
  "ParseEnvironmentClass" EnvironmentClass_MarshalText EnvironmentClass_UnmarshalText
  by (rule EnvironmentClass_enum.enum_codec [where err = ErrInvalidEnvironmentClass and nilerr = "ErrInvalidEnvironmentClass ''nil destination''"])
     (auto simp: ParseEnvironmentClass_def EnvironmentClass_MarshalText_def EnvironmentClass_of_def EnvironmentClass_Valid_def)

subsection \<open>ExposureDelta (exposure.go)\<close>

datatype ExposureDelta =
    ExposureNone
  | ExposurePrivate
  | ExposureTunnel
  | ExposureExternal
  | ExposureDeltaOther string

fun ExposureDelta_string :: "ExposureDelta \<Rightarrow> string" where
  "ExposureDelta_string ExposureNone = ''none''"
| "ExposureDelta_string ExposurePrivate = ''private''"
| "ExposureDelta_string ExposureTunnel = ''tunnel''"
| "ExposureDelta_string ExposureExternal = ''external''"
| "ExposureDelta_string (ExposureDeltaOther s) = s"

definition exposureDelta_registry :: "ExposureDelta list" where
  "exposureDelta_registry =
     [ExposureNone,
      ExposurePrivate,
      ExposureTunnel,
      ExposureExternal]"

definition ExposureDelta_of :: "string \<Rightarrow> ExposureDelta" where
  "ExposureDelta_of = enum_of ExposureDelta_string ExposureDeltaOther exposureDelta_registry"

definition ExposureDelta_Valid :: "ExposureDelta \<Rightarrow> bool" where
  "ExposureDelta_Valid x = (x \<in> set exposureDelta_registry)"

definition ParseExposureDelta :: "string \<Rightarrow> domain_error + ExposureDelta" where
  "ParseExposureDelta value =
     (if ExposureDelta_Valid (ExposureDelta_of value) then Inr (ExposureDelta_of value) else Inl (ErrInvalidExposureDelta value))"

definition ExposureDelta_MarshalText :: "ExposureDelta \<Rightarrow> domain_error + string" where
  "ExposureDelta_MarshalText x =
     (if ExposureDelta_Valid x then Inr (ExposureDelta_string x) else Inl (ErrInvalidExposureDelta (ExposureDelta_string x)))"

fun ExposureDelta_UnmarshalText :: "ExposureDelta option \<Rightarrow> string \<Rightarrow> ExposureDelta option \<times> domain_error option" where
  "ExposureDelta_UnmarshalText None text = (None, Some (ErrInvalidExposureDelta ''nil destination''))"
| "ExposureDelta_UnmarshalText (Some d) text =
     (case ParseExposureDelta text of Inl e \<Rightarrow> (Some d, Some e) | Inr x \<Rightarrow> (Some x, None))"

interpretation ExposureDelta_enum: closed_enum ExposureDelta_string ExposureDeltaOther exposureDelta_registry
  by unfold_locales (auto simp: exposureDelta_registry_def)

lemma ExposureDelta_Valid_cases [simp]:
  "ExposureDelta_Valid ExposureNone"
  "ExposureDelta_Valid ExposurePrivate"
  "ExposureDelta_Valid ExposureTunnel"
  "ExposureDelta_Valid ExposureExternal"
  "\<not> ExposureDelta_Valid (ExposureDeltaOther s)"
  by (simp_all add: ExposureDelta_Valid_def exposureDelta_registry_def)

interpretation ExposureDelta_codec: text_codec
  "ParseExposureDelta" ExposureDelta_MarshalText ExposureDelta_UnmarshalText
  by (rule ExposureDelta_enum.enum_codec [where err = ErrInvalidExposureDelta and nilerr = "ErrInvalidExposureDelta ''nil destination''"])
     (auto simp: ParseExposureDelta_def ExposureDelta_MarshalText_def ExposureDelta_of_def ExposureDelta_Valid_def)

subsection \<open>ExecutionIdentity (identity.go)\<close>

datatype ExecutionIdentity =
    IdentityHuman
  | IdentityOperator
  | IdentityProvisioner
  | IdentityDestructive
  | IdentityVM
  | IdentityReconciler
  | IdentityTransfer
  | IdentityRestore
  | IdentityRecovery
  | IdentityTestOperator
  | IdentityTestDestructive
  | IdentityHost
  | IdentityOther string

fun ExecutionIdentity_string :: "ExecutionIdentity \<Rightarrow> string" where
  "ExecutionIdentity_string IdentityHuman = ''human''"
| "ExecutionIdentity_string IdentityOperator = ''operator''"
| "ExecutionIdentity_string IdentityProvisioner = ''provisioner''"
| "ExecutionIdentity_string IdentityDestructive = ''destructive''"
| "ExecutionIdentity_string IdentityVM = ''vm''"
| "ExecutionIdentity_string IdentityReconciler = ''reconciler''"
| "ExecutionIdentity_string IdentityTransfer = ''transfer''"
| "ExecutionIdentity_string IdentityRestore = ''restore''"
| "ExecutionIdentity_string IdentityRecovery = ''recovery''"
| "ExecutionIdentity_string IdentityTestOperator = ''test-operator''"
| "ExecutionIdentity_string IdentityTestDestructive = ''test-destructive''"
| "ExecutionIdentity_string IdentityHost = ''host''"
| "ExecutionIdentity_string (IdentityOther s) = s"

definition executionIdentity_registry :: "ExecutionIdentity list" where
  "executionIdentity_registry =
     [IdentityHuman,
      IdentityOperator,
      IdentityProvisioner,
      IdentityDestructive,
      IdentityVM,
      IdentityReconciler,
      IdentityTransfer,
      IdentityRestore,
      IdentityRecovery,
      IdentityTestOperator,
      IdentityTestDestructive,
      IdentityHost]"

definition ExecutionIdentity_of :: "string \<Rightarrow> ExecutionIdentity" where
  "ExecutionIdentity_of = enum_of ExecutionIdentity_string IdentityOther executionIdentity_registry"

definition ExecutionIdentity_Valid :: "ExecutionIdentity \<Rightarrow> bool" where
  "ExecutionIdentity_Valid x = (x \<in> set executionIdentity_registry)"

definition ParseExecutionIdentity :: "string \<Rightarrow> domain_error + ExecutionIdentity" where
  "ParseExecutionIdentity value =
     (if ExecutionIdentity_Valid (ExecutionIdentity_of value) then Inr (ExecutionIdentity_of value) else Inl (ErrInvalidExecutionIdentity value))"

definition ExecutionIdentity_MarshalText :: "ExecutionIdentity \<Rightarrow> domain_error + string" where
  "ExecutionIdentity_MarshalText x =
     (if ExecutionIdentity_Valid x then Inr (ExecutionIdentity_string x) else Inl (ErrInvalidExecutionIdentity (ExecutionIdentity_string x)))"

fun ExecutionIdentity_UnmarshalText :: "ExecutionIdentity option \<Rightarrow> string \<Rightarrow> ExecutionIdentity option \<times> domain_error option" where
  "ExecutionIdentity_UnmarshalText None text = (None, Some (ErrInvalidExecutionIdentity ''nil destination''))"
| "ExecutionIdentity_UnmarshalText (Some d) text =
     (case ParseExecutionIdentity text of Inl e \<Rightarrow> (Some d, Some e) | Inr x \<Rightarrow> (Some x, None))"

interpretation ExecutionIdentity_enum: closed_enum ExecutionIdentity_string IdentityOther executionIdentity_registry
  by unfold_locales (auto simp: executionIdentity_registry_def)

lemma ExecutionIdentity_Valid_cases [simp]:
  "ExecutionIdentity_Valid IdentityHuman"
  "ExecutionIdentity_Valid IdentityOperator"
  "ExecutionIdentity_Valid IdentityProvisioner"
  "ExecutionIdentity_Valid IdentityDestructive"
  "ExecutionIdentity_Valid IdentityVM"
  "ExecutionIdentity_Valid IdentityReconciler"
  "ExecutionIdentity_Valid IdentityTransfer"
  "ExecutionIdentity_Valid IdentityRestore"
  "ExecutionIdentity_Valid IdentityRecovery"
  "ExecutionIdentity_Valid IdentityTestOperator"
  "ExecutionIdentity_Valid IdentityTestDestructive"
  "ExecutionIdentity_Valid IdentityHost"
  "\<not> ExecutionIdentity_Valid (IdentityOther s)"
  by (simp_all add: ExecutionIdentity_Valid_def executionIdentity_registry_def)

interpretation ExecutionIdentity_codec: text_codec
  "ParseExecutionIdentity" ExecutionIdentity_MarshalText ExecutionIdentity_UnmarshalText
  by (rule ExecutionIdentity_enum.enum_codec [where err = ErrInvalidExecutionIdentity and nilerr = "ErrInvalidExecutionIdentity ''nil destination''"])
     (auto simp: ParseExecutionIdentity_def ExecutionIdentity_MarshalText_def ExecutionIdentity_of_def ExecutionIdentity_Valid_def)

subsection \<open>OperationState (operation.go)\<close>

datatype OperationState =
    OperationDiscover
  | OperationValidate
  | OperationPlan
  | OperationApprovedWaiting
  | OperationLock
  | OperationProtect
  | OperationExecute
  | OperationPaused
  | OperationVerify
  | OperationDocument
  | OperationRollback
  | OperationComplete
  | OperationCompleteWithFailedVerification
  | OperationCompleteWithDocumentationError
  | OperationVerifiedRollback
  | OperationCancelled
  | OperationFailed
  | OperationFailedCleanup
  | OperationOther string

fun OperationState_string :: "OperationState \<Rightarrow> string" where
  "OperationState_string OperationDiscover = ''DISCOVER''"
| "OperationState_string OperationValidate = ''VALIDATE''"
| "OperationState_string OperationPlan = ''PLAN''"
| "OperationState_string OperationApprovedWaiting = ''APPROVED_WAITING''"
| "OperationState_string OperationLock = ''LOCK''"
| "OperationState_string OperationProtect = ''PROTECT''"
| "OperationState_string OperationExecute = ''EXECUTE''"
| "OperationState_string OperationPaused = ''PAUSED''"
| "OperationState_string OperationVerify = ''VERIFY''"
| "OperationState_string OperationDocument = ''DOCUMENT''"
| "OperationState_string OperationRollback = ''ROLLBACK''"
| "OperationState_string OperationComplete = ''COMPLETE''"
| "OperationState_string OperationCompleteWithFailedVerification = ''COMPLETE_WITH_FAILED_VERIFICATION''"
| "OperationState_string OperationCompleteWithDocumentationError = ''COMPLETE_WITH_DOCUMENTATION_ERROR''"
| "OperationState_string OperationVerifiedRollback = ''VERIFIED_ROLLBACK''"
| "OperationState_string OperationCancelled = ''CANCELLED''"
| "OperationState_string OperationFailed = ''FAILED''"
| "OperationState_string OperationFailedCleanup = ''FAILED_CLEANUP''"
| "OperationState_string (OperationOther s) = s"

definition operationState_registry :: "OperationState list" where
  "operationState_registry =
     [OperationDiscover,
      OperationValidate,
      OperationPlan,
      OperationApprovedWaiting,
      OperationLock,
      OperationProtect,
      OperationExecute,
      OperationPaused,
      OperationVerify,
      OperationDocument,
      OperationRollback,
      OperationComplete,
      OperationCompleteWithFailedVerification,
      OperationCompleteWithDocumentationError,
      OperationVerifiedRollback,
      OperationCancelled,
      OperationFailed,
      OperationFailedCleanup]"

definition OperationState_of :: "string \<Rightarrow> OperationState" where
  "OperationState_of = enum_of OperationState_string OperationOther operationState_registry"

definition OperationState_Valid :: "OperationState \<Rightarrow> bool" where
  "OperationState_Valid x = (x \<in> set operationState_registry)"

definition ParseOperationState :: "string \<Rightarrow> domain_error + OperationState" where
  "ParseOperationState value =
     (if OperationState_Valid (OperationState_of value) then Inr (OperationState_of value) else Inl (ErrInvalidOperationState value))"

definition OperationState_MarshalText :: "OperationState \<Rightarrow> domain_error + string" where
  "OperationState_MarshalText x =
     (if OperationState_Valid x then Inr (OperationState_string x) else Inl (ErrInvalidOperationState (OperationState_string x)))"

fun OperationState_UnmarshalText :: "OperationState option \<Rightarrow> string \<Rightarrow> OperationState option \<times> domain_error option" where
  "OperationState_UnmarshalText None text = (None, Some (ErrInvalidOperationState ''nil destination''))"
| "OperationState_UnmarshalText (Some d) text =
     (case ParseOperationState text of Inl e \<Rightarrow> (Some d, Some e) | Inr x \<Rightarrow> (Some x, None))"

interpretation OperationState_enum: closed_enum OperationState_string OperationOther operationState_registry
  by unfold_locales (auto simp: operationState_registry_def)

lemma OperationState_Valid_cases [simp]:
  "OperationState_Valid OperationDiscover"
  "OperationState_Valid OperationValidate"
  "OperationState_Valid OperationPlan"
  "OperationState_Valid OperationApprovedWaiting"
  "OperationState_Valid OperationLock"
  "OperationState_Valid OperationProtect"
  "OperationState_Valid OperationExecute"
  "OperationState_Valid OperationPaused"
  "OperationState_Valid OperationVerify"
  "OperationState_Valid OperationDocument"
  "OperationState_Valid OperationRollback"
  "OperationState_Valid OperationComplete"
  "OperationState_Valid OperationCompleteWithFailedVerification"
  "OperationState_Valid OperationCompleteWithDocumentationError"
  "OperationState_Valid OperationVerifiedRollback"
  "OperationState_Valid OperationCancelled"
  "OperationState_Valid OperationFailed"
  "OperationState_Valid OperationFailedCleanup"
  "\<not> OperationState_Valid (OperationOther s)"
  by (simp_all add: OperationState_Valid_def operationState_registry_def)

interpretation OperationState_codec: text_codec
  "ParseOperationState" OperationState_MarshalText OperationState_UnmarshalText
  by (rule OperationState_enum.enum_codec [where err = ErrInvalidOperationState and nilerr = "ErrInvalidOperationState ''nil destination''"])
     (auto simp: ParseOperationState_def OperationState_MarshalText_def OperationState_of_def OperationState_Valid_def)

text \<open>Whether no transition may leave a state.\<close>

definition terminalOperationStates :: "OperationState set" where
  "terminalOperationStates =
     {OperationComplete, OperationCompleteWithFailedVerification,
      OperationCompleteWithDocumentationError, OperationVerifiedRollback, OperationCancelled,
      OperationFailed, OperationFailedCleanup}"

definition OperationState_Terminal :: "OperationState \<Rightarrow> bool" where
  "OperationState_Terminal state = (state \<in> terminalOperationStates)"

lemma OperationState_Terminal_cases [simp]:
  "\<not> OperationState_Terminal OperationDiscover"
  "\<not> OperationState_Terminal OperationValidate"
  "\<not> OperationState_Terminal OperationPlan"
  "\<not> OperationState_Terminal OperationApprovedWaiting"
  "\<not> OperationState_Terminal OperationLock"
  "\<not> OperationState_Terminal OperationProtect"
  "\<not> OperationState_Terminal OperationExecute"
  "\<not> OperationState_Terminal OperationPaused"
  "\<not> OperationState_Terminal OperationVerify"
  "\<not> OperationState_Terminal OperationDocument"
  "\<not> OperationState_Terminal OperationRollback"
  "OperationState_Terminal OperationComplete"
  "OperationState_Terminal OperationCompleteWithFailedVerification"
  "OperationState_Terminal OperationCompleteWithDocumentationError"
  "OperationState_Terminal OperationVerifiedRollback"
  "OperationState_Terminal OperationCancelled"
  "OperationState_Terminal OperationFailed"
  "OperationState_Terminal OperationFailedCleanup"
  "\<not> OperationState_Terminal (OperationOther s)"
  by (simp_all add: OperationState_Terminal_def terminalOperationStates_def)

subsection \<open>JournalEntryKind (journal.go)\<close>

datatype JournalEntryKind =
    JournalEntryTransition
  | JournalEntryStep
  | JournalEntryCancellationRequest
  | JournalEntryKindOther string

fun JournalEntryKind_string :: "JournalEntryKind \<Rightarrow> string" where
  "JournalEntryKind_string JournalEntryTransition = ''transition''"
| "JournalEntryKind_string JournalEntryStep = ''step''"
| "JournalEntryKind_string JournalEntryCancellationRequest = ''cancellation-request''"
| "JournalEntryKind_string (JournalEntryKindOther s) = s"

definition journalEntryKind_registry :: "JournalEntryKind list" where
  "journalEntryKind_registry =
     [JournalEntryTransition,
      JournalEntryStep,
      JournalEntryCancellationRequest]"

definition JournalEntryKind_of :: "string \<Rightarrow> JournalEntryKind" where
  "JournalEntryKind_of = enum_of JournalEntryKind_string JournalEntryKindOther journalEntryKind_registry"

definition JournalEntryKind_Valid :: "JournalEntryKind \<Rightarrow> bool" where
  "JournalEntryKind_Valid x = (x \<in> set journalEntryKind_registry)"

definition JournalEntryKind_MarshalText :: "JournalEntryKind \<Rightarrow> domain_error + string" where
  "JournalEntryKind_MarshalText x =
     (if JournalEntryKind_Valid x then Inr (JournalEntryKind_string x) else Inl (ErrInvalidJournalEntryKind (JournalEntryKind_string x)))"

fun JournalEntryKind_UnmarshalText :: "JournalEntryKind option \<Rightarrow> string \<Rightarrow> JournalEntryKind option \<times> domain_error option" where
  "JournalEntryKind_UnmarshalText None text = (None, Some (ErrInvalidJournalEntryKind ''nil destination''))"
| "JournalEntryKind_UnmarshalText (Some d) text =
     (if \<not> JournalEntryKind_Valid (JournalEntryKind_of text) then (Some d, Some (ErrInvalidJournalEntryKind text)) else (Some (JournalEntryKind_of text), None))"

interpretation JournalEntryKind_enum: closed_enum JournalEntryKind_string JournalEntryKindOther journalEntryKind_registry
  by unfold_locales (auto simp: journalEntryKind_registry_def)

lemma JournalEntryKind_Valid_cases [simp]:
  "JournalEntryKind_Valid JournalEntryTransition"
  "JournalEntryKind_Valid JournalEntryStep"
  "JournalEntryKind_Valid JournalEntryCancellationRequest"
  "\<not> JournalEntryKind_Valid (JournalEntryKindOther s)"
  by (simp_all add: JournalEntryKind_Valid_def journalEntryKind_registry_def)

interpretation JournalEntryKind_codec: text_codec
  "(\<lambda>s. if JournalEntryKind_Valid (JournalEntryKind_of s) then Inr (JournalEntryKind_of s) else Inl (ErrInvalidJournalEntryKind s))" JournalEntryKind_MarshalText JournalEntryKind_UnmarshalText
  by (rule JournalEntryKind_enum.enum_codec [where err = ErrInvalidJournalEntryKind and nilerr = "ErrInvalidJournalEntryKind ''nil destination''"])
     (auto simp: JournalEntryKind_MarshalText_def JournalEntryKind_of_def JournalEntryKind_Valid_def)

subsection \<open>StepOutcome (journal.go)\<close>

datatype StepOutcome =
    StepDone
  | StepFailed
  | StepUnknown
  | StepOutcomeOther string

fun StepOutcome_string :: "StepOutcome \<Rightarrow> string" where
  "StepOutcome_string StepDone = ''DONE''"
| "StepOutcome_string StepFailed = ''FAILED''"
| "StepOutcome_string StepUnknown = ''UNKNOWN''"
| "StepOutcome_string (StepOutcomeOther s) = s"

definition stepOutcome_registry :: "StepOutcome list" where
  "stepOutcome_registry =
     [StepDone,
      StepFailed,
      StepUnknown]"

definition StepOutcome_of :: "string \<Rightarrow> StepOutcome" where
  "StepOutcome_of = enum_of StepOutcome_string StepOutcomeOther stepOutcome_registry"

definition StepOutcome_Valid :: "StepOutcome \<Rightarrow> bool" where
  "StepOutcome_Valid x = (x \<in> set stepOutcome_registry)"

definition StepOutcome_MarshalText :: "StepOutcome \<Rightarrow> domain_error + string" where
  "StepOutcome_MarshalText x =
     (if StepOutcome_Valid x then Inr (StepOutcome_string x) else Inl (ErrInvalidStepOutcome (StepOutcome_string x)))"

fun StepOutcome_UnmarshalText :: "StepOutcome option \<Rightarrow> string \<Rightarrow> StepOutcome option \<times> domain_error option" where
  "StepOutcome_UnmarshalText None text = (None, Some (ErrInvalidStepOutcome ''nil destination''))"
| "StepOutcome_UnmarshalText (Some d) text =
     (if \<not> StepOutcome_Valid (StepOutcome_of text) then (Some d, Some (ErrInvalidStepOutcome text)) else (Some (StepOutcome_of text), None))"

interpretation StepOutcome_enum: closed_enum StepOutcome_string StepOutcomeOther stepOutcome_registry
  by unfold_locales (auto simp: stepOutcome_registry_def)

lemma StepOutcome_Valid_cases [simp]:
  "StepOutcome_Valid StepDone"
  "StepOutcome_Valid StepFailed"
  "StepOutcome_Valid StepUnknown"
  "\<not> StepOutcome_Valid (StepOutcomeOther s)"
  by (simp_all add: StepOutcome_Valid_def stepOutcome_registry_def)

interpretation StepOutcome_codec: text_codec
  "(\<lambda>s. if StepOutcome_Valid (StepOutcome_of s) then Inr (StepOutcome_of s) else Inl (ErrInvalidStepOutcome s))" StepOutcome_MarshalText StepOutcome_UnmarshalText
  by (rule StepOutcome_enum.enum_codec [where err = ErrInvalidStepOutcome and nilerr = "ErrInvalidStepOutcome ''nil destination''"])
     (auto simp: StepOutcome_MarshalText_def StepOutcome_of_def StepOutcome_Valid_def)

subsection \<open>FailureBehavior (retry.go)\<close>

datatype FailureBehavior =
    FailureFail
  | FailurePause
  | FailureRollback
  | FailureBehaviorOther string

fun FailureBehavior_string :: "FailureBehavior \<Rightarrow> string" where
  "FailureBehavior_string FailureFail = ''fail''"
| "FailureBehavior_string FailurePause = ''pause''"
| "FailureBehavior_string FailureRollback = ''rollback''"
| "FailureBehavior_string (FailureBehaviorOther s) = s"

definition failureBehavior_registry :: "FailureBehavior list" where
  "failureBehavior_registry =
     [FailureFail,
      FailurePause,
      FailureRollback]"

definition FailureBehavior_of :: "string \<Rightarrow> FailureBehavior" where
  "FailureBehavior_of = enum_of FailureBehavior_string FailureBehaviorOther failureBehavior_registry"

definition FailureBehavior_Valid :: "FailureBehavior \<Rightarrow> bool" where
  "FailureBehavior_Valid x = (x \<in> set failureBehavior_registry)"

interpretation FailureBehavior_enum: closed_enum FailureBehavior_string FailureBehaviorOther failureBehavior_registry
  by unfold_locales (auto simp: failureBehavior_registry_def)

lemma FailureBehavior_Valid_cases [simp]:
  "FailureBehavior_Valid FailureFail"
  "FailureBehavior_Valid FailurePause"
  "FailureBehavior_Valid FailureRollback"
  "\<not> FailureBehavior_Valid (FailureBehaviorOther s)"
  by (simp_all add: FailureBehavior_Valid_def failureBehavior_registry_def)

subsection \<open>RetryFailureClass (retry.go)\<close>

datatype RetryFailureClass =
    RetryFailureTransient
  | RetryFailureTimeout
  | RetryFailureValidation
  | RetryFailurePermission
  | RetryFailureStaleFingerprint
  | RetryFailureClassOther string

fun RetryFailureClass_string :: "RetryFailureClass \<Rightarrow> string" where
  "RetryFailureClass_string RetryFailureTransient = ''transient''"
| "RetryFailureClass_string RetryFailureTimeout = ''timeout''"
| "RetryFailureClass_string RetryFailureValidation = ''validation''"
| "RetryFailureClass_string RetryFailurePermission = ''permission''"
| "RetryFailureClass_string RetryFailureStaleFingerprint = ''stale-fingerprint''"
| "RetryFailureClass_string (RetryFailureClassOther s) = s"

definition retryFailureClass_registry :: "RetryFailureClass list" where
  "retryFailureClass_registry =
     [RetryFailureTransient,
      RetryFailureTimeout,
      RetryFailureValidation,
      RetryFailurePermission,
      RetryFailureStaleFingerprint]"

definition RetryFailureClass_of :: "string \<Rightarrow> RetryFailureClass" where
  "RetryFailureClass_of = enum_of RetryFailureClass_string RetryFailureClassOther retryFailureClass_registry"

definition RetryFailureClass_Valid :: "RetryFailureClass \<Rightarrow> bool" where
  "RetryFailureClass_Valid x = (x \<in> set retryFailureClass_registry)"

interpretation RetryFailureClass_enum: closed_enum RetryFailureClass_string RetryFailureClassOther retryFailureClass_registry
  by unfold_locales (auto simp: retryFailureClass_registry_def)

lemma RetryFailureClass_Valid_cases [simp]:
  "RetryFailureClass_Valid RetryFailureTransient"
  "RetryFailureClass_Valid RetryFailureTimeout"
  "RetryFailureClass_Valid RetryFailureValidation"
  "RetryFailureClass_Valid RetryFailurePermission"
  "RetryFailureClass_Valid RetryFailureStaleFingerprint"
  "\<not> RetryFailureClass_Valid (RetryFailureClassOther s)"
  by (simp_all add: RetryFailureClass_Valid_def retryFailureClass_registry_def)

subsection \<open>MutationObservation (retry.go)\<close>

datatype MutationObservation =
    MutationNotOccurred
  | MutationOccurred
  | MutationUnknown
  | MutationObservationOther string

fun MutationObservation_string :: "MutationObservation \<Rightarrow> string" where
  "MutationObservation_string MutationNotOccurred = ''not-occurred''"
| "MutationObservation_string MutationOccurred = ''occurred''"
| "MutationObservation_string MutationUnknown = ''unknown''"
| "MutationObservation_string (MutationObservationOther s) = s"

definition mutationObservation_registry :: "MutationObservation list" where
  "mutationObservation_registry =
     [MutationNotOccurred,
      MutationOccurred,
      MutationUnknown]"

definition MutationObservation_of :: "string \<Rightarrow> MutationObservation" where
  "MutationObservation_of = enum_of MutationObservation_string MutationObservationOther mutationObservation_registry"

definition MutationObservation_Valid :: "MutationObservation \<Rightarrow> bool" where
  "MutationObservation_Valid x = (x \<in> set mutationObservation_registry)"

interpretation MutationObservation_enum: closed_enum MutationObservation_string MutationObservationOther mutationObservation_registry
  by unfold_locales (auto simp: mutationObservation_registry_def)

lemma MutationObservation_Valid_cases [simp]:
  "MutationObservation_Valid MutationNotOccurred"
  "MutationObservation_Valid MutationOccurred"
  "MutationObservation_Valid MutationUnknown"
  "\<not> MutationObservation_Valid (MutationObservationOther s)"
  by (simp_all add: MutationObservation_Valid_def mutationObservation_registry_def)

subsection \<open>ApprovalClass (approval.go)\<close>

text \<open>A \<open>uint8\<close> enumeration: the constants are 0 to 5 and a higher value is a stronger class.\<close>

type_synonym ApprovalClass = "8 word"

definition ApprovalRead :: ApprovalClass where "ApprovalRead = 0"
definition ApprovalSafeWrite :: ApprovalClass where "ApprovalSafeWrite = 1"
definition ApprovalProtected :: ApprovalClass where "ApprovalProtected = 2"
definition ApprovalSecuritySensitive :: ApprovalClass where "ApprovalSecuritySensitive = 3"
definition ApprovalDestructive :: ApprovalClass where "ApprovalDestructive = 4"
definition ApprovalDataDestructive :: ApprovalClass where "ApprovalDataDestructive = 5"
definition approvalClassCount :: ApprovalClass where "approvalClassCount = 6"

lemmas approval_defs =
  ApprovalRead_def ApprovalSafeWrite_def ApprovalProtected_def ApprovalSecuritySensitive_def
  ApprovalDestructive_def ApprovalDataDestructive_def approvalClassCount_def

definition approvalClassNames :: "string list" where
  "approvalClassNames =
     [''read'', ''safe-write'', ''protected'', ''security-sensitive'', ''destructive'',
      ''data-destructive'']"

fun parse_class :: "string \<Rightarrow> ApprovalClass \<Rightarrow> string list \<Rightarrow> domain_error + ApprovalClass" where
  "parse_class value class [] = Inl (ErrInvalidApprovalClass value)"
| "parse_class value class (name # names) =
     (if value = name then Inr class else parse_class value (class + 1) names)"

definition ParseApprovalClass :: "string \<Rightarrow> domain_error + ApprovalClass" where
  "ParseApprovalClass value = parse_class value 0 approvalClassNames"

definition ApprovalClass_Valid :: "ApprovalClass \<Rightarrow> bool" where
  "ApprovalClass_Valid class = (class < approvalClassCount)"

definition ApprovalClass_String :: "ApprovalClass \<Rightarrow> string" where
  "ApprovalClass_String class =
     (if \<not> ApprovalClass_Valid class then ''ApprovalClass('' @ decimal (unat class) @ '')''
      else approvalClassNames ! unat class)"

definition ApprovalClass_MarshalText :: "ApprovalClass \<Rightarrow> domain_error + string" where
  "ApprovalClass_MarshalText class =
     (if \<not> ApprovalClass_Valid class then Inl (ErrInvalidApprovalClass (decimal (unat class)))
      else Inr (ApprovalClass_String class))"

fun ApprovalClass_UnmarshalText ::
  "ApprovalClass option \<Rightarrow> string \<Rightarrow> ApprovalClass option \<times> domain_error option" where
  "ApprovalClass_UnmarshalText None text = (None, Some (ErrInvalidApprovalClass ''nil destination''))"
| "ApprovalClass_UnmarshalText (Some d) text =
     (case ParseApprovalClass text of Inl e \<Rightarrow> (Some d, Some e) | Inr x \<Rightarrow> (Some x, None))"

definition max_class_step :: "nat \<Rightarrow> ApprovalClass \<Rightarrow> ApprovalClass \<Rightarrow> domain_error + ApprovalClass" where
  "max_class_step i strongest class =
     (if \<not> ApprovalClass_Valid class then Inl (ErrInvalidApprovalClass (decimal (unat class)))
      else if class > strongest then Inr class else Inr strongest)"

definition MaxApprovalClass :: "ApprovalClass list \<Rightarrow> domain_error + ApprovalClass" where
  "MaxApprovalClass classes =
     (if classes = [] then Inl (ErrInvalidApprovalClass ''empty input'')
      else range_loop max_class_step 0 ApprovalRead classes)"

lemma ApprovalClass_Valid_iff:
  "ApprovalClass_Valid class \<longleftrightarrow>
     class \<in> {ApprovalRead, ApprovalSafeWrite, ApprovalProtected, ApprovalSecuritySensitive,
              ApprovalDestructive, ApprovalDataDestructive}"
proof
  assume "ApprovalClass_Valid class"
  then have "unat class < 6"
    by (simp add: ApprovalClass_Valid_def approvalClassCount_def word_less_nat_alt)
  then have "unat class = 0 \<or> unat class = 1 \<or> unat class = 2 \<or> unat class = 3 \<or>
      unat class = 4 \<or> unat class = 5" by linarith
  then show "class \<in> {ApprovalRead, ApprovalSafeWrite, ApprovalProtected,
      ApprovalSecuritySensitive, ApprovalDestructive, ApprovalDataDestructive}"
    by (simp add: approval_defs word_unat_eq_iff)
qed (auto simp: ApprovalClass_Valid_def approval_defs)

lemma ApprovalClass_Valid_consts [simp]:
  "ApprovalClass_Valid ApprovalRead" "ApprovalClass_Valid ApprovalSafeWrite"
  "ApprovalClass_Valid ApprovalProtected" "ApprovalClass_Valid ApprovalSecuritySensitive"
  "ApprovalClass_Valid ApprovalDestructive" "ApprovalClass_Valid ApprovalDataDestructive"
  by (simp_all add: ApprovalClass_Valid_iff)

lemma ApprovalClass_MarshalText_consts [simp]:
  "ApprovalClass_MarshalText ApprovalRead = Inr ''read''"
  "ApprovalClass_MarshalText ApprovalSafeWrite = Inr ''safe-write''"
  "ApprovalClass_MarshalText ApprovalProtected = Inr ''protected''"
  "ApprovalClass_MarshalText ApprovalSecuritySensitive = Inr ''security-sensitive''"
  "ApprovalClass_MarshalText ApprovalDestructive = Inr ''destructive''"
  "ApprovalClass_MarshalText ApprovalDataDestructive = Inr ''data-destructive''"
  by (simp_all add: ApprovalClass_MarshalText_def ApprovalClass_String_def approvalClassNames_def)
     (simp_all add: approval_defs)

lemma ParseApprovalClass_iff:
  "ParseApprovalClass s = Inr x \<longleftrightarrow>
     s = ''read'' \<and> x = ApprovalRead \<or> s = ''safe-write'' \<and> x = ApprovalSafeWrite \<or>
     s = ''protected'' \<and> x = ApprovalProtected \<or>
     s = ''security-sensitive'' \<and> x = ApprovalSecuritySensitive \<or>
     s = ''destructive'' \<and> x = ApprovalDestructive \<or>
     s = ''data-destructive'' \<and> x = ApprovalDataDestructive"
  by (auto simp: ParseApprovalClass_def approvalClassNames_def approval_defs split: if_splits)

interpretation ApprovalClass_codec: text_codec
  ParseApprovalClass ApprovalClass_MarshalText ApprovalClass_UnmarshalText
proof
  fix s x
  show "ParseApprovalClass s = Inr x \<longleftrightarrow> ApprovalClass_MarshalText x = Inr s"
  proof
    assume "ParseApprovalClass s = Inr x"
    then show "ApprovalClass_MarshalText x = Inr s"
      unfolding ParseApprovalClass_iff by (elim disjE conjE) simp_all
  next
    assume m: "ApprovalClass_MarshalText x = Inr s"
    then have "ApprovalClass_Valid x"
      by (simp add: ApprovalClass_MarshalText_def split: if_splits)
    with m show "ParseApprovalClass s = Inr x"
      unfolding ApprovalClass_Valid_iff ParseApprovalClass_iff
      by (elim insertE emptyE) simp_all
  qed
next
  fix s x and d :: ApprovalClass
  assume "ParseApprovalClass s = Inr x"
  then show "ApprovalClass_UnmarshalText (Some d) s = (Some x, None)" by simp
next
  fix s e and d :: ApprovalClass
  assume "ParseApprovalClass s = Inl e"
  then show "\<exists>e'. ApprovalClass_UnmarshalText (Some d) s = (Some d, Some e')" by simp
qed simp

lemma max_class_loop:
  "range_loop max_class_step i a cs = Inr m \<longleftrightarrow>
     (\<forall>c \<in> set cs. ApprovalClass_Valid c) \<and> m = fold max cs a"
proof (induction cs arbitrary: i a)
  case Nil
  then show ?case by auto
next
  case (Cons c cs)
  have step: "max_class_step i a c =
      (if ApprovalClass_Valid c then Inr (max c a)
       else Inl (ErrInvalidApprovalClass (decimal (unat c))))"
    by (auto simp: max_class_step_def max_def)
  show ?case
    by (auto simp: step Cons.IH)
qed


end
