(* ===== verification/PlanTypes.thy ===== *)
theory PlanTypes
  imports DomainEnums
begin

section \<open>internal/domain: retry policies and the plan vocabulary\<close>

text \<open>
  The bounded retry contract of \<open>retry.go\<close> and the data of \<open>plan.go\<close>: the closed value sets, the
  step and contract types, and the reviewable \<open>Plan\<close>. A pointer field is an option. A slice field of
  \<open>Plan\<close> is an optional list, \<open>None\<close> being the nil slice, because \<open>internal/policy\<close> tells nil from
  empty. \<open>redact.Text\<close> is the string it holds. Amounts in dollars are \<open>usd\<close>
  values: finite binary fractions and the three special floats.
\<close>

subsection \<open>StepEffect (plan.go)\<close>

datatype StepEffect =
    StepEffectRead
  | StepEffectMutation
  | StepEffectOther string

fun StepEffect_string :: "StepEffect \<Rightarrow> string" where
  "StepEffect_string StepEffectRead = ''read''"
| "StepEffect_string StepEffectMutation = ''mutation''"
| "StepEffect_string (StepEffectOther s) = s"

definition stepEffect_registry :: "StepEffect list" where
  "stepEffect_registry =
     [StepEffectRead,
      StepEffectMutation]"

definition StepEffect_of :: "string \<Rightarrow> StepEffect" where
  "StepEffect_of = enum_of StepEffect_string StepEffectOther stepEffect_registry"

definition StepEffect_Valid :: "StepEffect \<Rightarrow> bool" where
  "StepEffect_Valid x = (x \<in> set stepEffect_registry)"

interpretation StepEffect_enum: closed_enum StepEffect_string StepEffectOther stepEffect_registry
  by unfold_locales (auto simp: stepEffect_registry_def)

lemma StepEffect_Valid_cases [simp]:
  "StepEffect_Valid StepEffectRead"
  "StepEffect_Valid StepEffectMutation"
  "\<not> StepEffect_Valid (StepEffectOther s)"
  by (simp_all add: StepEffect_Valid_def stepEffect_registry_def)

subsection \<open>PointOfNoReturnTrigger (plan.go)\<close>

datatype PointOfNoReturnTrigger =
    PointOfNoReturnStepStart
  | PointOfNoReturnMutationObserved
  | PointOfNoReturnStepComplete
  | PointOfNoReturnTriggerOther string

fun PointOfNoReturnTrigger_string :: "PointOfNoReturnTrigger \<Rightarrow> string" where
  "PointOfNoReturnTrigger_string PointOfNoReturnStepStart = ''step-start''"
| "PointOfNoReturnTrigger_string PointOfNoReturnMutationObserved = ''mutation-observed''"
| "PointOfNoReturnTrigger_string PointOfNoReturnStepComplete = ''step-complete''"
| "PointOfNoReturnTrigger_string (PointOfNoReturnTriggerOther s) = s"

definition pointOfNoReturnTrigger_registry :: "PointOfNoReturnTrigger list" where
  "pointOfNoReturnTrigger_registry =
     [PointOfNoReturnStepStart,
      PointOfNoReturnMutationObserved,
      PointOfNoReturnStepComplete]"

definition PointOfNoReturnTrigger_of :: "string \<Rightarrow> PointOfNoReturnTrigger" where
  "PointOfNoReturnTrigger_of = enum_of PointOfNoReturnTrigger_string PointOfNoReturnTriggerOther pointOfNoReturnTrigger_registry"

definition PointOfNoReturnTrigger_Valid :: "PointOfNoReturnTrigger \<Rightarrow> bool" where
  "PointOfNoReturnTrigger_Valid x = (x \<in> set pointOfNoReturnTrigger_registry)"

interpretation PointOfNoReturnTrigger_enum: closed_enum PointOfNoReturnTrigger_string PointOfNoReturnTriggerOther pointOfNoReturnTrigger_registry
  by unfold_locales (auto simp: pointOfNoReturnTrigger_registry_def)

lemma PointOfNoReturnTrigger_Valid_cases [simp]:
  "PointOfNoReturnTrigger_Valid PointOfNoReturnStepStart"
  "PointOfNoReturnTrigger_Valid PointOfNoReturnMutationObserved"
  "PointOfNoReturnTrigger_Valid PointOfNoReturnStepComplete"
  "\<not> PointOfNoReturnTrigger_Valid (PointOfNoReturnTriggerOther s)"
  by (simp_all add: PointOfNoReturnTrigger_Valid_def pointOfNoReturnTrigger_registry_def)

subsection \<open>CostSource (plan.go)\<close>

datatype CostSource =
    CostSourceListPriceTable
  | CostSourceBudgetAPI
  | CostSourceOther string

fun CostSource_string :: "CostSource \<Rightarrow> string" where
  "CostSource_string CostSourceListPriceTable = ''list-price-table''"
| "CostSource_string CostSourceBudgetAPI = ''budget-api''"
| "CostSource_string (CostSourceOther s) = s"

definition costSource_registry :: "CostSource list" where
  "costSource_registry =
     [CostSourceListPriceTable,
      CostSourceBudgetAPI]"

definition CostSource_of :: "string \<Rightarrow> CostSource" where
  "CostSource_of = enum_of CostSource_string CostSourceOther costSource_registry"

definition CostSource_Valid :: "CostSource \<Rightarrow> bool" where
  "CostSource_Valid x = (x \<in> set costSource_registry)"

interpretation CostSource_enum: closed_enum CostSource_string CostSourceOther costSource_registry
  by unfold_locales (auto simp: costSource_registry_def)

lemma CostSource_Valid_cases [simp]:
  "CostSource_Valid CostSourceListPriceTable"
  "CostSource_Valid CostSourceBudgetAPI"
  "\<not> CostSource_Valid (CostSourceOther s)"
  by (simp_all add: CostSource_Valid_def costSource_registry_def)

subsection \<open>BudgetState (plan.go)\<close>

datatype BudgetState =
    BudgetOK
  | BudgetMissing
  | BudgetUnavailable
  | BudgetStateOther string

fun BudgetState_string :: "BudgetState \<Rightarrow> string" where
  "BudgetState_string BudgetOK = ''ok''"
| "BudgetState_string BudgetMissing = ''missing''"
| "BudgetState_string BudgetUnavailable = ''unavailable''"
| "BudgetState_string (BudgetStateOther s) = s"

definition budgetState_registry :: "BudgetState list" where
  "budgetState_registry =
     [BudgetOK,
      BudgetMissing,
      BudgetUnavailable]"

definition BudgetState_of :: "string \<Rightarrow> BudgetState" where
  "BudgetState_of = enum_of BudgetState_string BudgetStateOther budgetState_registry"

definition BudgetState_Valid :: "BudgetState \<Rightarrow> bool" where
  "BudgetState_Valid x = (x \<in> set budgetState_registry)"

interpretation BudgetState_enum: closed_enum BudgetState_string BudgetStateOther budgetState_registry
  by unfold_locales (auto simp: budgetState_registry_def)

lemma BudgetState_Valid_cases [simp]:
  "BudgetState_Valid BudgetOK"
  "BudgetState_Valid BudgetMissing"
  "BudgetState_Valid BudgetUnavailable"
  "\<not> BudgetState_Valid (BudgetStateOther s)"
  by (simp_all add: BudgetState_Valid_def budgetState_registry_def)

subsection \<open>RecoveryAssetKind (plan.go)\<close>

datatype RecoveryAssetKind =
    RecoveryAssetPBMRecoveryPoint
  | RecoveryAssetSnapshot
  | RecoveryAssetKindOther string

fun RecoveryAssetKind_string :: "RecoveryAssetKind \<Rightarrow> string" where
  "RecoveryAssetKind_string RecoveryAssetPBMRecoveryPoint = ''pbm-recovery-point''"
| "RecoveryAssetKind_string RecoveryAssetSnapshot = ''snapshot''"
| "RecoveryAssetKind_string (RecoveryAssetKindOther s) = s"

definition recoveryAssetKind_registry :: "RecoveryAssetKind list" where
  "recoveryAssetKind_registry =
     [RecoveryAssetPBMRecoveryPoint,
      RecoveryAssetSnapshot]"

definition RecoveryAssetKind_of :: "string \<Rightarrow> RecoveryAssetKind" where
  "RecoveryAssetKind_of = enum_of RecoveryAssetKind_string RecoveryAssetKindOther recoveryAssetKind_registry"

definition RecoveryAssetKind_Valid :: "RecoveryAssetKind \<Rightarrow> bool" where
  "RecoveryAssetKind_Valid x = (x \<in> set recoveryAssetKind_registry)"

interpretation RecoveryAssetKind_enum: closed_enum RecoveryAssetKind_string RecoveryAssetKindOther recoveryAssetKind_registry
  by unfold_locales (auto simp: recoveryAssetKind_registry_def)

lemma RecoveryAssetKind_Valid_cases [simp]:
  "RecoveryAssetKind_Valid RecoveryAssetPBMRecoveryPoint"
  "RecoveryAssetKind_Valid RecoveryAssetSnapshot"
  "\<not> RecoveryAssetKind_Valid (RecoveryAssetKindOther s)"
  by (simp_all add: RecoveryAssetKind_Valid_def recoveryAssetKind_registry_def)

subsection \<open>ExposureProfile (plan.go)\<close>

datatype ExposureProfile =
    ExposureProfileACC01
  | ExposureProfileACC02
  | ExposureProfileACC03
  | ExposureProfileACC04
  | ExposureProfileACC05
  | ExposureProfileACC06
  | ExposureProfileACC07
  | ExposureProfileACC08
  | ExposureProfileOther string

fun ExposureProfile_string :: "ExposureProfile \<Rightarrow> string" where
  "ExposureProfile_string ExposureProfileACC01 = ''ACC-01''"
| "ExposureProfile_string ExposureProfileACC02 = ''ACC-02''"
| "ExposureProfile_string ExposureProfileACC03 = ''ACC-03''"
| "ExposureProfile_string ExposureProfileACC04 = ''ACC-04''"
| "ExposureProfile_string ExposureProfileACC05 = ''ACC-05''"
| "ExposureProfile_string ExposureProfileACC06 = ''ACC-06''"
| "ExposureProfile_string ExposureProfileACC07 = ''ACC-07''"
| "ExposureProfile_string ExposureProfileACC08 = ''ACC-08''"
| "ExposureProfile_string (ExposureProfileOther s) = s"

definition exposureProfile_registry :: "ExposureProfile list" where
  "exposureProfile_registry =
     [ExposureProfileACC01,
      ExposureProfileACC02,
      ExposureProfileACC03,
      ExposureProfileACC04,
      ExposureProfileACC05,
      ExposureProfileACC06,
      ExposureProfileACC07,
      ExposureProfileACC08]"

definition ExposureProfile_of :: "string \<Rightarrow> ExposureProfile" where
  "ExposureProfile_of = enum_of ExposureProfile_string ExposureProfileOther exposureProfile_registry"

definition ExposureProfile_Valid :: "ExposureProfile \<Rightarrow> bool" where
  "ExposureProfile_Valid x = (x \<in> set exposureProfile_registry)"

interpretation ExposureProfile_enum: closed_enum ExposureProfile_string ExposureProfileOther exposureProfile_registry
  by unfold_locales (auto simp: exposureProfile_registry_def)

lemma ExposureProfile_Valid_cases [simp]:
  "ExposureProfile_Valid ExposureProfileACC01"
  "ExposureProfile_Valid ExposureProfileACC02"
  "ExposureProfile_Valid ExposureProfileACC03"
  "ExposureProfile_Valid ExposureProfileACC04"
  "ExposureProfile_Valid ExposureProfileACC05"
  "ExposureProfile_Valid ExposureProfileACC06"
  "ExposureProfile_Valid ExposureProfileACC07"
  "ExposureProfile_Valid ExposureProfileACC08"
  "\<not> ExposureProfile_Valid (ExposureProfileOther s)"
  by (simp_all add: ExposureProfile_Valid_def exposureProfile_registry_def)

subsection \<open>ExposureSourceKind (plan.go)\<close>

datatype ExposureSourceKind =
    ExposureSourceCIDR
  | ExposureSourceTag
  | ExposureSourceServiceAccount
  | ExposureSourceIAP
  | ExposureSourceTunnel
  | ExposureSourcePrivateRange
  | ExposureSourceKindOther string

fun ExposureSourceKind_string :: "ExposureSourceKind \<Rightarrow> string" where
  "ExposureSourceKind_string ExposureSourceCIDR = ''cidr''"
| "ExposureSourceKind_string ExposureSourceTag = ''tag''"
| "ExposureSourceKind_string ExposureSourceServiceAccount = ''service-account''"
| "ExposureSourceKind_string ExposureSourceIAP = ''iap''"
| "ExposureSourceKind_string ExposureSourceTunnel = ''tunnel''"
| "ExposureSourceKind_string ExposureSourcePrivateRange = ''private-range''"
| "ExposureSourceKind_string (ExposureSourceKindOther s) = s"

definition exposureSourceKind_registry :: "ExposureSourceKind list" where
  "exposureSourceKind_registry =
     [ExposureSourceCIDR,
      ExposureSourceTag,
      ExposureSourceServiceAccount,
      ExposureSourceIAP,
      ExposureSourceTunnel,
      ExposureSourcePrivateRange]"

definition ExposureSourceKind_of :: "string \<Rightarrow> ExposureSourceKind" where
  "ExposureSourceKind_of = enum_of ExposureSourceKind_string ExposureSourceKindOther exposureSourceKind_registry"

definition ExposureSourceKind_Valid :: "ExposureSourceKind \<Rightarrow> bool" where
  "ExposureSourceKind_Valid x = (x \<in> set exposureSourceKind_registry)"

interpretation ExposureSourceKind_enum: closed_enum ExposureSourceKind_string ExposureSourceKindOther exposureSourceKind_registry
  by unfold_locales (auto simp: exposureSourceKind_registry_def)

lemma ExposureSourceKind_Valid_cases [simp]:
  "ExposureSourceKind_Valid ExposureSourceCIDR"
  "ExposureSourceKind_Valid ExposureSourceTag"
  "ExposureSourceKind_Valid ExposureSourceServiceAccount"
  "ExposureSourceKind_Valid ExposureSourceIAP"
  "ExposureSourceKind_Valid ExposureSourceTunnel"
  "ExposureSourceKind_Valid ExposureSourcePrivateRange"
  "\<not> ExposureSourceKind_Valid (ExposureSourceKindOther s)"
  by (simp_all add: ExposureSourceKind_Valid_def exposureSourceKind_registry_def)

subsection \<open>ExposureAuthentication (plan.go)\<close>

datatype ExposureAuthentication =
    ExposureAuthIAP
  | ExposureAuthSCRAM
  | ExposureAuthVPN
  | ExposureAuthOverlay
  | ExposureAuthenticationOther string

fun ExposureAuthentication_string :: "ExposureAuthentication \<Rightarrow> string" where
  "ExposureAuthentication_string ExposureAuthIAP = ''iap-os-login''"
| "ExposureAuthentication_string ExposureAuthSCRAM = ''scram-sha-256''"
| "ExposureAuthentication_string ExposureAuthVPN = ''vpn''"
| "ExposureAuthentication_string ExposureAuthOverlay = ''overlay''"
| "ExposureAuthentication_string (ExposureAuthenticationOther s) = s"

definition exposureAuthentication_registry :: "ExposureAuthentication list" where
  "exposureAuthentication_registry =
     [ExposureAuthIAP,
      ExposureAuthSCRAM,
      ExposureAuthVPN,
      ExposureAuthOverlay]"

definition ExposureAuthentication_of :: "string \<Rightarrow> ExposureAuthentication" where
  "ExposureAuthentication_of = enum_of ExposureAuthentication_string ExposureAuthenticationOther exposureAuthentication_registry"

definition ExposureAuthentication_Valid :: "ExposureAuthentication \<Rightarrow> bool" where
  "ExposureAuthentication_Valid x = (x \<in> set exposureAuthentication_registry)"

interpretation ExposureAuthentication_enum: closed_enum ExposureAuthentication_string ExposureAuthenticationOther exposureAuthentication_registry
  by unfold_locales (auto simp: exposureAuthentication_registry_def)

lemma ExposureAuthentication_Valid_cases [simp]:
  "ExposureAuthentication_Valid ExposureAuthIAP"
  "ExposureAuthentication_Valid ExposureAuthSCRAM"
  "ExposureAuthentication_Valid ExposureAuthVPN"
  "ExposureAuthentication_Valid ExposureAuthOverlay"
  "\<not> ExposureAuthentication_Valid (ExposureAuthenticationOther s)"
  by (simp_all add: ExposureAuthentication_Valid_def exposureAuthentication_registry_def)

subsection \<open>ExposureTrust (plan.go)\<close>

datatype ExposureTrust =
    ExposureTrustNone
  | ExposureTrustPrivate
  | ExposureTrustPublic
  | ExposureTrustOther string

fun ExposureTrust_string :: "ExposureTrust \<Rightarrow> string" where
  "ExposureTrust_string ExposureTrustNone = ''none''"
| "ExposureTrust_string ExposureTrustPrivate = ''private''"
| "ExposureTrust_string ExposureTrustPublic = ''public''"
| "ExposureTrust_string (ExposureTrustOther s) = s"

definition exposureTrust_registry :: "ExposureTrust list" where
  "exposureTrust_registry =
     [ExposureTrustNone,
      ExposureTrustPrivate,
      ExposureTrustPublic]"

definition ExposureTrust_of :: "string \<Rightarrow> ExposureTrust" where
  "ExposureTrust_of = enum_of ExposureTrust_string ExposureTrustOther exposureTrust_registry"

definition ExposureTrust_Valid :: "ExposureTrust \<Rightarrow> bool" where
  "ExposureTrust_Valid x = (x \<in> set exposureTrust_registry)"

interpretation ExposureTrust_enum: closed_enum ExposureTrust_string ExposureTrustOther exposureTrust_registry
  by unfold_locales (auto simp: exposureTrust_registry_def)

lemma ExposureTrust_Valid_cases [simp]:
  "ExposureTrust_Valid ExposureTrustNone"
  "ExposureTrust_Valid ExposureTrustPrivate"
  "ExposureTrust_Valid ExposureTrustPublic"
  "\<not> ExposureTrust_Valid (ExposureTrustOther s)"
  by (simp_all add: ExposureTrust_Valid_def exposureTrust_registry_def)

subsection \<open>Retry policies (retry.go)\<close>

definition MaxStepAttempts :: "32 word" where "MaxStepAttempts = 10"
definition MaxRetryBackoffSeconds :: int where "MaxRetryBackoffSeconds = 3600"
definition MaxStepTimeoutSeconds :: int where "MaxStepTimeoutSeconds = 86400"

lemmas retry_limits = MaxStepAttempts_def MaxRetryBackoffSeconds_def MaxStepTimeoutSeconds_def

record RetryPolicy =
  rp_MaxAttempts :: "32 word"
  rp_InitialBackoffSeconds :: int
  rp_MaxBackoffSeconds :: int

definition RetryPolicy_Valid :: "RetryPolicy \<Rightarrow> bool" where
  "RetryPolicy_Valid policy =
     (if rp_MaxAttempts policy = 0 \<or> rp_MaxAttempts policy > MaxStepAttempts then False
      else if rp_MaxAttempts policy = 1 then
        rp_InitialBackoffSeconds policy = 0 \<and> rp_MaxBackoffSeconds policy = 0
      else
        rp_InitialBackoffSeconds policy > 0 \<and>
        rp_InitialBackoffSeconds policy \<le> rp_MaxBackoffSeconds policy \<and>
        rp_MaxBackoffSeconds policy \<le> MaxRetryBackoffSeconds)"

lemma RetryPolicy_Valid_backoff:
  "RetryPolicy_Valid p \<Longrightarrow>
     0 \<le> rp_InitialBackoffSeconds p \<and> rp_InitialBackoffSeconds p \<le> rp_MaxBackoffSeconds p \<and>
     rp_MaxBackoffSeconds p \<le> 3600"
  by (auto simp: RetryPolicy_Valid_def MaxRetryBackoffSeconds_def split: if_splits)

lemma RetryPolicy_Valid_attempts:
  "RetryPolicy_Valid p \<Longrightarrow> 1 \<le> unat (rp_MaxAttempts p) \<and> unat (rp_MaxAttempts p) \<le> 10"
proof -
  assume "RetryPolicy_Valid p"
  then have "rp_MaxAttempts p \<noteq> 0" "rp_MaxAttempts p \<le> 10"
    by (auto simp: RetryPolicy_Valid_def MaxStepAttempts_def not_less split: if_splits)
  moreover from this have "unat (rp_MaxAttempts p) \<le> 10"
    by (simp add: word_le_nat_alt)
  ultimately show ?thesis
    by (metis One_nat_def Suc_leI unat_eq_zero neq0_conv)
qed

subsection \<open>Step contracts (plan.go)\<close>

type_synonym Text = string

record ExecutionExposureRequirement =
  er_Delta :: ExposureDelta
  er_Profile :: ExposureProfile
  er_InternetWide :: bool
  er_SimulationPreconditionID :: string

record ExecutionStepContract =
  sc_ID :: string
  sc_Executor :: string
  sc_ExecutingIdentity :: ExecutionIdentity
  sc_CommandSummary :: Text
  sc_Effect :: StepEffect
  sc_MinimumApproval :: ApprovalClass
  sc_TargetKinds :: "string list"
  sc_RequiredPermissions :: "string list"
  sc_RequiresStepUp :: bool
  sc_RequiresRecoveryAsset :: bool
  sc_ExposureRequirement :: "ExecutionExposureRequirement option"
  sc_Idempotent :: bool
  sc_Retry :: RetryPolicy
  sc_CancelSafe :: bool
  sc_TimeoutSeconds :: int
  sc_SuccessCondition :: Text
  sc_FailureBehavior :: FailureBehavior

subsection \<open>The plan (plan.go, permission.go)\<close>

record IdentityPlan =
  ip_Default :: ExecutionIdentity
  ip_HostControlSteps :: ExecutionIdentity
  ip_DeleteSteps :: ExecutionIdentity
  ip_BootstrapSteps :: ExecutionIdentity

definition DefaultIdentityPlan :: IdentityPlan where
  "DefaultIdentityPlan =
     \<lparr>ip_Default = IdentityOperator, ip_HostControlSteps = IdentityProvisioner,
      ip_DeleteSteps = IdentityDestructive, ip_BootstrapSteps = IdentityHuman\<rparr>"

record PlanPolicyHash =
  ph_Local :: string
  ph_Approved :: string
  ph_Match :: bool

record PlanIntent =
  pi_ValidUntil :: gotime
  pi_WindowStart :: gotime

record PlanResource =
  pr_Kind :: string
  pr_Scope :: string
  pr_Name :: string
  pr_Fingerprint :: string

record PlanPrecondition =
  pp_ID :: string
  pp_OK :: bool
  pp_Detail :: Text

record PlanPermission =
  pm_StepID :: string
  pm_Identity :: ExecutionIdentity
  pm_Permission :: string
  pm_Resource :: PlanResource
  pm_Granted :: bool

record PlanStep =
  ps_ID :: string
  ps_Executor :: string
  ps_ExecutingIdentity :: ExecutionIdentity
  ps_CommandRedacted :: Text
  ps_Idempotent :: bool
  ps_Retry :: RetryPolicy
  ps_CancelSafe :: bool
  ps_TimeoutSeconds :: int
  ps_SuccessCondition :: Text
  ps_FailureBehavior :: FailureBehavior
  ps_Targets :: "PlanResource list option"

text \<open>A \<open>float64\<close> amount: \<open>Finite m e\<close> is \<open>m * 2 ^ e\<close>, or a special value.\<close>

datatype usd = Finite int int | NaN | PosInf | NegInf

record PlanCostRate =
  cr_AmountUSD :: usd
  cr_Period :: string

record PlanCostItem =
  ci_Resource :: string
  ci_Kind :: string
  ci_AmountUSD :: usd

record PlanCostIncremental =
  cn_AmountUSD :: usd
  cn_Period :: string
  cn_Plan :: string

record PlanCostBudget =
  cb_State :: BudgetState
  cb_Reason :: Text
  cb_CeilingUSD :: "usd option"

record PlanCost =
  pc_RunRate :: PlanCostRate
  pc_Items :: "PlanCostItem list option"
  pc_Incremental :: "PlanCostIncremental option"
  pc_Source :: CostSource
  pc_PriceTableDate :: string
  pc_Stale :: bool
  pc_Assumptions :: "Text list option"
  pc_Unpriced :: "string list option"
  pc_Budget :: PlanCostBudget

record PlanDowntime =
  pd_ExpectedSeconds :: int
  pd_Kind :: string

record PlanRecoveryAsset =
  ra_Kind :: RecoveryAssetKind
  ra_Resource :: PlanResource
  ra_Protects :: "PlanResource list option"
  ra_EvidenceRef :: string
  ra_VerifiedAt :: gotime
  ra_RestoreTo :: "gotime option"

record PlanRollback =
  rb_Boundary :: string
  rb_Assets :: "PlanRecoveryAsset list option"

record PlanExposureSource =
  xs_Kind :: ExposureSourceKind
  xs_Value :: string

record PlanExposurePort =
  xp_Protocol :: string
  xp_Number :: "16 word"

record PlanExposureTLS =
  xt_Required :: bool
  xt_HostnameVerification :: bool
  xt_Trust :: ExposureTrust

record PlanExposureControls =
  xc_Profile :: ExposureProfile
  xc_Targets :: "PlanResource list option"
  xc_Sources :: "PlanExposureSource list option"
  xc_Ports :: "PlanExposurePort list option"
  xc_Authentication :: ExposureAuthentication
  xc_TLS :: PlanExposureTLS
  xc_ExpiresAt :: "gotime option"
  xc_ReviewAt :: "gotime option"
  xc_AuditLogging :: bool
  xc_RevocationWorkflowID :: string
  xc_SimulationPreconditionID :: string
  xc_InternetWide :: bool
  xc_PermanentInternetWideAcknowledged :: bool

record Plan =
  pl_PlanID :: string
  pl_PlanHash :: string
  pl_WorkflowID :: string
  pl_ProjectID :: string
  pl_Environment :: string
  pl_EnvironmentClass :: EnvironmentClass
  pl_Principal :: string
  pl_CreatedAt :: gotime
  pl_ApprovalClass :: ApprovalClass
  pl_ExpiresAt :: gotime
  pl_CoolingOffSeconds :: int
  pl_Identity :: IdentityPlan
  pl_PolicyHash :: PlanPolicyHash
  pl_StepUpRequired :: bool
  pl_Intent :: "PlanIntent option"
  pl_Resources :: "PlanResource list option"
  pl_Preconditions :: "PlanPrecondition list option"
  pl_Permissions :: "PlanPermission list option"
  pl_Steps :: "PlanStep list option"
  pl_Cost :: PlanCost
  pl_Downtime :: PlanDowntime
  pl_Exposure :: ExposureDelta
  pl_ExposureControls :: "PlanExposureControls option"
  pl_Protection :: "Text list option"
  pl_Rollback :: PlanRollback
  pl_PointOfNoReturn :: string
  pl_PointOfNoReturnTrigger :: PointOfNoReturnTrigger
  pl_Verification :: "Text list option"

text \<open>The elements a \<open>range\<close> over a slice visits: a nil slice has none.\<close>

definition elems :: "'a list option \<Rightarrow> 'a list" where
  "elems s = (case s of None \<Rightarrow> [] | Some xs \<Rightarrow> xs)"

lemma elems_simps [simp]: "elems None = []" "elems (Some xs) = xs"
  by (simp_all add: elems_def)


end
