(* ===== verification/ExecutionContract.thy ===== *)
theory ExecutionContract
  imports PlanTypes
begin

section \<open>internal/domain: execution contracts (plan.go)\<close>

text \<open>
  \<open>NewExecutionContract\<close>, the only constructor of the immutable contract every other layer binds
  to. The loop over the steps threads \<open>seen\<close>, \<open>rollbackRequired\<close> and the one exposure requirement
  of the contract. \<open>json.Marshal\<close> of the contract's fields and SHA-256 are the parameters
  \<open>marshal\<close> and \<open>sha256hex\<close>; the defensive copies are the identity in a value model. The abstract
  specification \<open>contract_spec\<close> says which inputs are accepted, without the loop.
\<close>

datatype contract_error = ErrInvalidExecutionContract string

text \<open>The field list encoded for the digest.\<close>

type_synonym contract_payload =
  "string \<times> string \<times> string \<times> PointOfNoReturnTrigger \<times> ExecutionStepContract list"

record ExecutionContract =
  ec_workflowID :: string
  ec_rollbackBoundary :: string
  ec_pointOfNoReturn :: string
  ec_pointOfNoReturnTrigger :: PointOfNoReturnTrigger
  ec_steps :: "ExecutionStepContract list"
  ec_digest :: string

subsection \<open>Validation of one step\<close>

definition validateExecutionExposureRequirement ::
  "ExecutionStepContract \<Rightarrow> contract_error option" where
  "validateExecutionExposureRequirement step =
     (case sc_ExposureRequirement step of
        None \<Rightarrow> None
      | Some requirement \<Rightarrow>
          first_error
            [fail_if (sc_Effect step \<noteq> StepEffectMutation \<or>
                      sc_MinimumApproval step < ApprovalSecuritySensitive \<or>
                      \<not> ExposureDelta_Valid (er_Delta requirement) \<or>
                      er_Delta requirement = ExposureNone \<or>
                      \<not> ExposureProfile_Valid (er_Profile requirement) \<or>
                      \<not> identifierPattern (er_SimulationPreconditionID requirement))
               (ErrInvalidExecutionContract ''invalid exposure requirement''),
             fail_if (er_InternetWide requirement \<and>
                      (er_Delta requirement \<noteq> ExposureExternal \<or>
                       er_Profile requirement \<noteq> ExposureProfileACC08 \<or>
                       sc_MinimumApproval step \<noteq> ApprovalDataDestructive))
               (ErrInvalidExecutionContract ''internet-wide exposure requires external ACC-08 AP-5''),
             fail_if (\<not> er_InternetWide requirement \<and> er_Profile requirement = ExposureProfileACC08)
               (ErrInvalidExecutionContract ''ACC-08 is reserved for internet-wide exposure'')])"

definition validateContractStrings ::
  "string list \<Rightarrow> (string \<Rightarrow> bool) \<Rightarrow> contract_error option" where
  "validateContractStrings values pattern =
     (if values = [] then Some (ErrInvalidExecutionContract ''empty'')
      else check_unique id (\<lambda>i v. fail_if (\<not> pattern v) (ErrInvalidExecutionContract ''malformed''))
             (\<lambda>i v. ErrInvalidExecutionContract ''duplicate'') 0 [] values)"

text \<open>The checks of one step that do not look at the other steps, in source order.\<close>

definition contract_step_shape :: "nat \<Rightarrow> ExecutionStepContract \<Rightarrow> contract_error option list" where
  "contract_step_shape index step =
     [fail_if (\<not> identifierPattern (sc_ID step) \<or> \<not> identifierPattern (sc_Executor step) \<or>
               \<not> ExecutionIdentity_Valid (sc_ExecutingIdentity step) \<or>
               \<not> StepEffect_Valid (sc_Effect step) \<or>
               \<not> ApprovalClass_Valid (sc_MinimumApproval step) \<or>
               \<not> RetryPolicy_Valid (sc_Retry step) \<or> sc_TimeoutSeconds step \<le> 0 \<or>
               sc_TimeoutSeconds step > MaxStepTimeoutSeconds \<or>
               sc_CommandSummary step = [] \<or> sc_SuccessCondition step = [] \<or>
               \<not> FailureBehavior_Valid (sc_FailureBehavior step))
        (ErrInvalidExecutionContract (''invalid step '' @ decimal index)),
      fail_if (sc_Effect step = StepEffectMutation \<and> sc_MinimumApproval step = ApprovalRead)
        (ErrInvalidExecutionContract ''mutation step has read approval''),
      fail_if (sc_RequiresStepUp step \<and>
               (sc_Effect step \<noteq> StepEffectMutation \<or> sc_MinimumApproval step < ApprovalDestructive))
        (ErrInvalidExecutionContract ''step-up requires an AP-4 or stronger mutation step''),
      fail_if (sc_RequiresRecoveryAsset step \<and>
               (sc_Effect step \<noteq> StepEffectMutation \<or> sc_MinimumApproval step < ApprovalDestructive))
        (ErrInvalidExecutionContract ''recovery assets require an AP-4 or stronger mutation step''),
      fail_if (sc_Effect step = StepEffectMutation \<and>
               sc_MinimumApproval step = ApprovalDataDestructive \<and>
               \<not> sc_RequiresRecoveryAsset step)
        (ErrInvalidExecutionContract ''AP-5 mutation step requires recovery assets''),
      validateExecutionExposureRequirement step]"

definition contract_step_strings :: "ExecutionStepContract \<Rightarrow> contract_error option list" where
  "contract_step_strings step =
     [map_option (\<lambda>_. ErrInvalidExecutionContract ''invalid target kinds'')
        (validateContractStrings (sc_TargetKinds step) identifierPattern),
      map_option (\<lambda>_. ErrInvalidExecutionContract ''invalid required permissions'')
        (validateContractStrings (sc_RequiredPermissions step) permissionPattern)]"

subsection \<open>The constructor\<close>

record contract_loop =
  cl_seen :: "string list"
  cl_rollbackRequired :: bool
  cl_exposureRequirement :: "ExecutionExposureRequirement option"

definition contract_step ::
  "nat \<Rightarrow> contract_loop \<Rightarrow> ExecutionStepContract \<Rightarrow> contract_error + contract_loop" where
  "contract_step index st step =
     (case first_error
        (contract_step_shape index step @
         [case (sc_ExposureRequirement step, cl_exposureRequirement st) of
            (Some r, Some r') \<Rightarrow>
              fail_if (r' \<noteq> r) (ErrInvalidExecutionContract ''inconsistent exposure requirements'')
          | _ \<Rightarrow> None,
          fail_if (sc_ID step \<in> set (cl_seen st)) (ErrInvalidExecutionContract ''duplicate step'')] @
         contract_step_strings step)
      of Some e \<Rightarrow> Inl e
       | None \<Rightarrow>
           Inr \<lparr>cl_seen = sc_ID step # cl_seen st,
                cl_rollbackRequired = cl_rollbackRequired st \<or>
                  sc_Effect step = StepEffectMutation \<or> sc_FailureBehavior step = FailureRollback,
                cl_exposureRequirement =
                  (case sc_ExposureRequirement step of
                     None \<Rightarrow> cl_exposureRequirement st
                   | Some r \<Rightarrow> Some r)\<rparr>)"

definition contract_loop_init :: contract_loop where
  "contract_loop_init =
     \<lparr>cl_seen = [], cl_rollbackRequired = False, cl_exposureRequirement = None\<rparr>"

definition NewExecutionContract ::
  "(contract_payload \<Rightarrow> string option) \<Rightarrow> (string \<Rightarrow> string) \<Rightarrow>
   string \<Rightarrow> string \<Rightarrow> string \<Rightarrow> PointOfNoReturnTrigger \<Rightarrow> ExecutionStepContract list \<Rightarrow>
   contract_error + ExecutionContract" where
  "NewExecutionContract marshal sha256hex workflowID rollbackBoundary pointOfNoReturn trigger steps =
     (if \<not> workflowIDPattern workflowID \<or> \<not> identifierPattern rollbackBoundary \<or> steps = [] then
        Inl (ErrInvalidExecutionContract ''invalid workflow, rollback boundary, or steps'')
      else case range_loop contract_step 0 contract_loop_init steps of
        Inl e \<Rightarrow> Inl e
      | Inr st \<Rightarrow>
          (case first_error
             (if pointOfNoReturn \<noteq> [] then
                [fail_if (\<not> identifierPattern pointOfNoReturn)
                   (ErrInvalidExecutionContract ''invalid point of no return''),
                 fail_if (pointOfNoReturn \<notin> set (cl_seen st))
                   (ErrInvalidExecutionContract ''point of no return is not a step''),
                 fail_if (\<not> PointOfNoReturnTrigger_Valid trigger)
                   (ErrInvalidExecutionContract ''invalid point-of-no-return trigger'')]
              else
                [fail_if (PointOfNoReturnTrigger_string trigger \<noteq> [])
                   (ErrInvalidExecutionContract ''trigger without point of no return'')])
           of Some e \<Rightarrow> Inl e
            | None \<Rightarrow>
                if cl_rollbackRequired st \<and> rollbackBoundary = ''none'' then
                  Inl (ErrInvalidExecutionContract
                         ''mutation or rollback step requires a rollback boundary'')
                else
                  (case marshal (workflowID, rollbackBoundary, pointOfNoReturn, trigger, steps) of
                     None \<Rightarrow> Inl (ErrInvalidExecutionContract ''digest encoding'')
                   | Some encoded \<Rightarrow>
                       Inr \<lparr>ec_workflowID = workflowID, ec_rollbackBoundary = rollbackBoundary,
                            ec_pointOfNoReturn = pointOfNoReturn,
                            ec_pointOfNoReturnTrigger = trigger, ec_steps = steps,
                            ec_digest = sha256hex encoded\<rparr>)))"

subsection \<open>What the constructor accepts\<close>

text \<open>One exposure requirement, well formed for the step that carries it.\<close>

definition exposure_requirement_ok ::
  "ExecutionStepContract \<Rightarrow> ExecutionExposureRequirement \<Rightarrow> bool" where
  "exposure_requirement_ok step r \<longleftrightarrow>
     sc_Effect step = StepEffectMutation \<and> ApprovalSecuritySensitive \<le> sc_MinimumApproval step \<and>
     ExposureDelta_Valid (er_Delta r) \<and> er_Delta r \<noteq> ExposureNone \<and>
     ExposureProfile_Valid (er_Profile r) \<and> identifierPattern (er_SimulationPreconditionID r) \<and>
     (er_InternetWide r \<longleftrightarrow> er_Profile r = ExposureProfileACC08) \<and>
     (er_InternetWide r \<longrightarrow>
        er_Delta r = ExposureExternal \<and> sc_MinimumApproval step = ApprovalDataDestructive)"

text \<open>A step the contract may contain, whatever the other steps are.\<close>

definition step_contract_ok :: "ExecutionStepContract \<Rightarrow> bool" where
  "step_contract_ok step \<longleftrightarrow>
     identifierPattern (sc_ID step) \<and> identifierPattern (sc_Executor step) \<and>
     ExecutionIdentity_Valid (sc_ExecutingIdentity step) \<and> StepEffect_Valid (sc_Effect step) \<and>
     ApprovalClass_Valid (sc_MinimumApproval step) \<and> RetryPolicy_Valid (sc_Retry step) \<and>
     0 < sc_TimeoutSeconds step \<and> sc_TimeoutSeconds step \<le> MaxStepTimeoutSeconds \<and>
     sc_CommandSummary step \<noteq> [] \<and> sc_SuccessCondition step \<noteq> [] \<and>
     FailureBehavior_Valid (sc_FailureBehavior step) \<and>
     (sc_Effect step = StepEffectMutation \<longrightarrow> sc_MinimumApproval step \<noteq> ApprovalRead) \<and>
     (sc_RequiresStepUp step \<or> sc_RequiresRecoveryAsset step \<longrightarrow>
        sc_Effect step = StepEffectMutation \<and> ApprovalDestructive \<le> sc_MinimumApproval step) \<and>
     (sc_Effect step = StepEffectMutation \<and> sc_MinimumApproval step = ApprovalDataDestructive \<longrightarrow>
        sc_RequiresRecoveryAsset step) \<and>
     (\<forall>r. sc_ExposureRequirement step = Some r \<longrightarrow> exposure_requirement_ok step r) \<and>
     sc_TargetKinds step \<noteq> [] \<and> distinct (sc_TargetKinds step) \<and>
     (\<forall>k \<in> set (sc_TargetKinds step). identifierPattern k) \<and>
     sc_RequiredPermissions step \<noteq> [] \<and> distinct (sc_RequiredPermissions step) \<and>
     (\<forall>p \<in> set (sc_RequiredPermissions step). permissionPattern p)"

definition exposures :: "ExecutionStepContract list \<Rightarrow> ExecutionExposureRequirement set" where
  "exposures steps = {r. \<exists>s \<in> set steps. sc_ExposureRequirement s = Some r}"

definition needs_rollback :: "ExecutionStepContract list \<Rightarrow> bool" where
  "needs_rollback steps \<longleftrightarrow>
     (\<exists>s \<in> set steps. sc_Effect s = StepEffectMutation \<or> sc_FailureBehavior s = FailureRollback)"

definition agree :: "'a set \<Rightarrow> bool" where
  "agree A \<longleftrightarrow> (\<forall>r \<in> A. \<forall>r' \<in> A. r = r')"

definition contract_spec ::
  "string \<Rightarrow> string \<Rightarrow> string \<Rightarrow> PointOfNoReturnTrigger \<Rightarrow> ExecutionStepContract list \<Rightarrow> bool" where
  "contract_spec workflowID rollbackBoundary pointOfNoReturn trigger steps \<longleftrightarrow>
     workflowIDPattern workflowID \<and> identifierPattern rollbackBoundary \<and> steps \<noteq> [] \<and>
     (\<forall>s \<in> set steps. step_contract_ok s) \<and> distinct (map sc_ID steps) \<and>
     agree (exposures steps) \<and>
     (if pointOfNoReturn = [] then PointOfNoReturnTrigger_string trigger = []
      else pointOfNoReturn \<in> sc_ID ` set steps \<and> PointOfNoReturnTrigger_Valid trigger) \<and>
     (needs_rollback steps \<longrightarrow> rollbackBoundary \<noteq> ''none'')"

lemma validateContractStrings_None:
  "validateContractStrings vs p = None \<longleftrightarrow> vs \<noteq> [] \<and> distinct vs \<and> (\<forall>v \<in> set vs. p v)"
  by (auto simp add: validateContractStrings_def check_unique_None all_set_conv_all_nth)

lemma exposure_requirement_None:
  "validateExecutionExposureRequirement step = None \<longleftrightarrow>
     (\<forall>r. sc_ExposureRequirement step = Some r \<longrightarrow> exposure_requirement_ok step r)"
  by (auto simp: validateExecutionExposureRequirement_def exposure_requirement_ok_def not_less
      split: option.splits)

lemma contract_step_checks_None:
  "first_error (contract_step_shape i step @ contract_step_strings step) = None \<longleftrightarrow>
     step_contract_ok step"
  unfolding step_contract_ok_def
  by (simp add: contract_step_shape_def contract_step_strings_def validateContractStrings_None
      exposure_requirement_None not_less not_le) blast

text \<open>The requirement of a step agrees with the one seen so far, if both exist.\<close>

definition compatible :: "'a option \<Rightarrow> 'a option \<Rightarrow> bool" where
  "compatible a b \<longleftrightarrow> (\<forall>r r'. a = Some r \<and> b = Some r' \<longrightarrow> r = r')"

text \<open>One iteration accepts the step and leaves this state.\<close>

lemma contract_step_Inr:
  "contract_step i st step = Inr st' \<longleftrightarrow>
     step_contract_ok step \<and> sc_ID step \<notin> set (cl_seen st) \<and>
     compatible (sc_ExposureRequirement step) (cl_exposureRequirement st) \<and>
     st' = \<lparr>cl_seen = sc_ID step # cl_seen st,
            cl_rollbackRequired = cl_rollbackRequired st \<or> needs_rollback [step],
            cl_exposureRequirement =
              (case sc_ExposureRequirement step of None \<Rightarrow> cl_exposureRequirement st | Some r \<Rightarrow> Some r)\<rparr>"
proof -
  let ?mid = "[case (sc_ExposureRequirement step, cl_exposureRequirement st) of
      (Some r, Some r') \<Rightarrow>
        fail_if (r' \<noteq> r) (ErrInvalidExecutionContract ''inconsistent exposure requirements'')
    | _ \<Rightarrow> None,
    fail_if (sc_ID step \<in> set (cl_seen st)) (ErrInvalidExecutionContract ''duplicate step'')]"
  have "first_error ?mid = None \<longleftrightarrow> sc_ID step \<notin> set (cl_seen st) \<and>
      compatible (sc_ExposureRequirement step) (cl_exposureRequirement st)"
    by (cases "sc_ExposureRequirement step"; cases "cl_exposureRequirement st")
       (auto simp: compatible_def)
  then have "first_error (contract_step_shape i step @ ?mid @ contract_step_strings step) = None \<longleftrightarrow>
      step_contract_ok step \<and> sc_ID step \<notin> set (cl_seen st) \<and>
      compatible (sc_ExposureRequirement step) (cl_exposureRequirement st)"
    using contract_step_checks_None [of i step] unfolding first_error_append_None by blast
  then show ?thesis
    unfolding contract_step_def guarded_Inr needs_rollback_def by auto
qed

lemma exposures_Cons:
  "exposures (s # ss) = set_option (sc_ExposureRequirement s) \<union> exposures ss"
  by (cases "sc_ExposureRequirement s") (auto simp: exposures_def)

lemma agree_step:
  "agree (set_option a \<union> (set_option b \<union> E)) \<longleftrightarrow>
     compatible b a \<and>
     agree (set_option (case b of None \<Rightarrow> a | Some r \<Rightarrow> Some r) \<union> E)"
  by (cases a; cases b) (auto simp: agree_def compatible_def)

lemma contract_loop_Inr:
  "(\<exists>st'. range_loop contract_step i st steps = Inr st' \<and>
          cl_seen st' = seen \<and> cl_rollbackRequired st' = rb) \<longleftrightarrow>
     (\<forall>s \<in> set steps. step_contract_ok s) \<and> distinct (map sc_ID steps) \<and>
     set (map sc_ID steps) \<inter> set (cl_seen st) = {} \<and>
     agree (set_option (cl_exposureRequirement st) \<union> exposures steps) \<and>
     seen = rev (map sc_ID steps) @ cl_seen st \<and>
     rb = (cl_rollbackRequired st \<or> needs_rollback steps)"
proof (induction steps arbitrary: i st)
  case Nil
  show ?case
    by (cases "cl_exposureRequirement st") (auto simp: exposures_def needs_rollback_def agree_def)
next
  case (Cons s steps)
  let ?st = "\<lparr>cl_seen = sc_ID s # cl_seen st,
      cl_rollbackRequired = cl_rollbackRequired st \<or> needs_rollback [s],
      cl_exposureRequirement =
        (case sc_ExposureRequirement s of None \<Rightarrow> cl_exposureRequirement st | Some r \<Rightarrow> Some r)\<rparr>"
  let ?ok = "step_contract_ok s \<and> sc_ID s \<notin> set (cl_seen st) \<and>
     compatible (sc_ExposureRequirement s) (cl_exposureRequirement st)"
  have run: "range_loop contract_step i st (s # steps) = Inr st' \<longleftrightarrow>
      ?ok \<and> range_loop contract_step (Suc i) ?st steps = Inr st'" for st'
  proof (cases "contract_step i st s")
    case (Inl e)
    then have "\<not> ?ok" using contract_step_Inr [of i st s ?st] by auto
    with Inl show ?thesis by auto
  next
    case (Inr t)
    then have "?ok" "t = ?st" using contract_step_Inr [of i st s t] by blast+
    with Inr show ?thesis by auto
  qed
  have rb: "needs_rollback (s # steps) \<longleftrightarrow> needs_rollback [s] \<or> needs_rollback steps"
    by (auto simp: needs_rollback_def)
  have "(\<exists>st'. range_loop contract_step i st (s # steps) = Inr st' \<and>
          cl_seen st' = seen \<and> cl_rollbackRequired st' = rb) \<longleftrightarrow>
      ?ok \<and> (\<exists>st'. range_loop contract_step (Suc i) ?st steps = Inr st' \<and>
          cl_seen st' = seen \<and> cl_rollbackRequired st' = rb)"
    unfolding run by blast
  then show ?case
    unfolding Cons.IH exposures_Cons agree_step rb by auto
qed

subsection \<open>Properties\<close>

lemma contract_run_accepts:
  assumes "workflowIDPattern workflowID" "identifierPattern rollbackBoundary" "steps \<noteq> []"
    and "range_loop contract_step 0 contract_loop_init steps = Inr st"
  shows "NewExecutionContract marshal sha256hex workflowID rollbackBoundary pointOfNoReturn trigger steps
      = Inr c \<longleftrightarrow>
     (if pointOfNoReturn = [] then PointOfNoReturnTrigger_string trigger = []
      else identifierPattern pointOfNoReturn \<and> pointOfNoReturn \<in> set (cl_seen st) \<and>
           PointOfNoReturnTrigger_Valid trigger) \<and>
     \<not> (cl_rollbackRequired st \<and> rollbackBoundary = ''none'') \<and>
     (\<exists>encoded. marshal (workflowID, rollbackBoundary, pointOfNoReturn, trigger, steps) = Some encoded \<and>
        c = \<lparr>ec_workflowID = workflowID, ec_rollbackBoundary = rollbackBoundary,
             ec_pointOfNoReturn = pointOfNoReturn, ec_pointOfNoReturnTrigger = trigger,
             ec_steps = steps, ec_digest = sha256hex encoded\<rparr>)"
  using assms unfolding NewExecutionContract_def
  by (auto simp: guarded_Inr split: option.splits if_splits)

lemma contract_seen_ids:
  assumes "range_loop contract_step 0 contract_loop_init steps = Inr st"
  shows "(\<forall>s \<in> set steps. step_contract_ok s) \<and> distinct (map sc_ID steps) \<and>
     agree (exposures steps) \<and> set (cl_seen st) = sc_ID ` set steps \<and>
     cl_rollbackRequired st = needs_rollback steps"
  using contract_loop_Inr [of 0 contract_loop_init steps "cl_seen st" "cl_rollbackRequired st"] assms
  by (auto simp: contract_loop_init_def)

lemma contract_loop_accepts:
  assumes "\<forall>s \<in> set steps. step_contract_ok s" "distinct (map sc_ID steps)" "agree (exposures steps)"
  shows "\<exists>st. range_loop contract_step 0 contract_loop_init steps = Inr st"
  using contract_loop_Inr [of 0 contract_loop_init steps "rev (map sc_ID steps)" "needs_rollback steps"]
    assms
  by (auto simp: contract_loop_init_def)

lemma contract_accepts_iff:
  "NewExecutionContract marshal sha256hex workflowID rollbackBoundary pointOfNoReturn trigger steps
      = Inr c \<longleftrightarrow>
     contract_spec workflowID rollbackBoundary pointOfNoReturn trigger steps \<and>
     (\<exists>encoded. marshal (workflowID, rollbackBoundary, pointOfNoReturn, trigger, steps) = Some encoded \<and>
        c = \<lparr>ec_workflowID = workflowID, ec_rollbackBoundary = rollbackBoundary,
             ec_pointOfNoReturn = pointOfNoReturn, ec_pointOfNoReturnTrigger = trigger,
             ec_steps = steps, ec_digest = sha256hex encoded\<rparr>)"
    (is "?new = Inr c \<longleftrightarrow> ?spec")
proof (cases "workflowIDPattern workflowID \<and> identifierPattern rollbackBoundary \<and> steps \<noteq> []")
  case False
  then show ?thesis
    by (auto simp: NewExecutionContract_def contract_spec_def)
next
  case shape: True
  show ?thesis
  proof (cases "range_loop contract_step 0 contract_loop_init steps")
    case (Inl e)
    with contract_loop_accepts [of steps] have
      "\<not> ((\<forall>s \<in> set steps. step_contract_ok s) \<and> distinct (map sc_ID steps) \<and> agree (exposures steps))"
      by auto
    moreover have "?new = Inl e" using shape Inl by (simp add: NewExecutionContract_def)
    ultimately show ?thesis by (auto simp: contract_spec_def)
  next
    case (Inr st)
    have "pointOfNoReturn \<in> sc_ID ` set steps \<Longrightarrow> identifierPattern pointOfNoReturn"
      using contract_seen_ids [OF Inr] by (auto simp: step_contract_ok_def)
    then show ?thesis
      using contract_run_accepts [of workflowID rollbackBoundary steps st] shape Inr
        contract_seen_ids [OF Inr]
      by (auto simp: contract_spec_def)
  qed
qed

text \<open>
  C32. \<open>NewExecutionContract\<close> accepts exactly the inputs that satisfy the declarative contract
  specification (every step well formed, distinct step identifiers, one exposure requirement for
  the whole contract, a point of no return that names a step and has a valid trigger, a rollback
  boundary whenever a step can mutate or roll back) and whose fields can be encoded; the result
  carries the inputs unchanged and the digest of their encoding.
\<close>

theorem NewExecutionContract_iff:
  "NewExecutionContract marshal sha256hex workflowID rollbackBoundary pointOfNoReturn trigger steps
      = Inr c \<longleftrightarrow>
     contract_spec workflowID rollbackBoundary pointOfNoReturn trigger steps \<and>
     (\<exists>encoded. marshal (workflowID, rollbackBoundary, pointOfNoReturn, trigger, steps) = Some encoded \<and>
        c = \<lparr>ec_workflowID = workflowID, ec_rollbackBoundary = rollbackBoundary,
             ec_pointOfNoReturn = pointOfNoReturn, ec_pointOfNoReturnTrigger = trigger,
             ec_steps = steps, ec_digest = sha256hex encoded\<rparr>)"
  by (rule contract_accepts_iff)

end
