(* ===== verification/Retry.thy ===== *)
theory Retry
  imports ExecutionContract
begin

section \<open>internal/workflow: retry decisions (retry.go)\<close>

text \<open>
  \<open>DecideRetry\<close>, a pure decision. Attempts are \<open>uint32\<close> words; the delay is an \<open>int64\<close> whose
  doubling and whose conversion to a Duration are wrapped explicitly, so that the absence of
  overflow is a theorem.
\<close>

record RetryDecision =
  rd_Retry :: bool
  rd_Delay :: int
  rd_Reason :: string

definition noRetry :: "string \<Rightarrow> RetryDecision" where
  "noRetry reason = \<lparr>rd_Retry = False, rd_Delay = 0, rd_Reason = reason\<rparr>"

lemma noRetry_simps [simp]: "\<not> rd_Retry (noRetry reason)" "rd_Delay (noRetry reason) = 0"
  by (simp_all add: noRetry_def)

text \<open>The loop over the steps of the contract: a second match returns at once.\<close>

definition retry_match ::
  "string \<Rightarrow> nat \<Rightarrow> ExecutionStepContract option \<Rightarrow> ExecutionStepContract \<Rightarrow>
     RetryDecision + ExecutionStepContract option" where
  "retry_match stepID i matched step =
     (if sc_ID step = stepID then
        (if matched \<noteq> None then Inl (noRetry ''ambiguous retry step'') else Inr (Some step))
      else Inr matched)"

lemma unat_succ_below: "e < a \<Longrightarrow> unat (e + 1) = unat e + 1" for e a :: "32 word"
  by unat_arith

text \<open>
  The doubling loop. \<open>MaxBackoffSeconds/2\<close> truncates toward zero, which on the non-negative
  values of a valid policy is \<open>div\<close>.
\<close>

function retry_backoff :: "int \<Rightarrow> 32 word \<Rightarrow> 32 word \<Rightarrow> int \<Rightarrow> int" where
  "retry_backoff maxBackoff attempt exponent delaySeconds =
     (if exponent < attempt then
        (if delaySeconds \<ge> maxBackoff div 2 then maxBackoff
         else retry_backoff maxBackoff attempt (exponent + 1) (wrap64 (delaySeconds * 2)))
      else delaySeconds)"
  by pat_completeness auto
termination
proof (relation "measure (\<lambda>(maxBackoff, attempt, exponent, delaySeconds). unat attempt - unat exponent)")
  show "wf (measure (\<lambda>(maxBackoff :: int, attempt :: 32 word, exponent :: 32 word,
      delaySeconds :: int). unat attempt - unat exponent))" by simp
next
  fix maxBackoff delaySeconds :: int and attempt exponent :: "32 word"
  assume lt: "exponent < attempt"
  then have "unat (exponent + 1) = unat exponent + 1"
    by (rule unat_succ_below)
  with lt show "((maxBackoff, attempt, exponent + 1, wrap64 (delaySeconds * 2)),
      maxBackoff, attempt, exponent, delaySeconds)
    \<in> measure (\<lambda>(maxBackoff, attempt, exponent, delaySeconds). unat attempt - unat exponent)"
    by (simp add: word_less_nat_alt)
qed


declare retry_backoff.simps [simp del]

definition DecideRetry ::
  "ExecutionContract \<Rightarrow> string \<Rightarrow> 32 word \<Rightarrow> RetryFailureClass \<Rightarrow> MutationObservation \<Rightarrow>
     RetryDecision" where
  "DecideRetry contract stepID attempt failure mutation =
     (case range_loop (retry_match stepID) 0 None (ec_steps contract) of
        Inl refusal \<Rightarrow> refusal
      | Inr None \<Rightarrow> noRetry ''invalid retry input''
      | Inr (Some matched) \<Rightarrow>
          if \<not> RetryPolicy_Valid (sc_Retry matched) \<or> attempt = 0 \<or>
             \<not> RetryFailureClass_Valid failure \<or> \<not> MutationObservation_Valid mutation then
            noRetry ''invalid retry input''
          else if failure = RetryFailureValidation then
            noRetry ''validation failures require a new plan''
          else if failure = RetryFailurePermission then
            noRetry ''permission failures require revalidation''
          else if failure = RetryFailureStaleFingerprint then
            noRetry ''stale fingerprints require rediscovery and a new plan''
          else if mutation = MutationUnknown then
            noRetry ''unknown mutation state requires rediscovery''
          else if \<not> sc_Idempotent matched \<and> mutation = MutationOccurred then
            noRetry ''non-idempotent mutation was not proven absent''
          else if attempt \<ge> rp_MaxAttempts (sc_Retry matched) then
            noRetry ''retry limit reached''
          else
            (let delaySeconds = retry_backoff (rp_MaxBackoffSeconds (sc_Retry matched)) attempt 1
                                  (rp_InitialBackoffSeconds (sc_Retry matched));
                 delaySeconds' = (if delaySeconds > rp_MaxBackoffSeconds (sc_Retry matched)
                                  then rp_MaxBackoffSeconds (sc_Retry matched) else delaySeconds)
             in \<lparr>rd_Retry = True, rd_Delay = wrap64 (delaySeconds' * second),
                 rd_Reason = ''bounded transient retry''\<rparr>))"

subsection \<open>The step search\<close>

lemma retry_search:
  "range_loop (retry_match stepID) i acc steps =
     (let ms = filter (\<lambda>s. sc_ID s = stepID) steps
      in case (acc, ms) of
           (None, []) \<Rightarrow> Inr None
         | (None, [s]) \<Rightarrow> Inr (Some s)
         | (Some s, []) \<Rightarrow> Inr (Some s)
         | _ \<Rightarrow> Inl (noRetry ''ambiguous retry step''))"
proof (induction steps arbitrary: i acc)
  case Nil
  then show ?case by (cases acc) auto
next
  case (Cons s steps)
  then show ?case
    by (cases acc; cases "filter (\<lambda>s. sc_ID s = stepID) steps")
       (auto simp: retry_match_def Let_def split: list.splits)
qed

lemma retry_search_iff:
  "range_loop (retry_match stepID) 0 None steps = Inr (Some s) \<longleftrightarrow>
     filter (\<lambda>s. sc_ID s = stepID) steps = [s]"
  by (auto simp: retry_search Let_def split: list.splits)

lemma retry_search_refusal:
  "range_loop (retry_match stepID) 0 None steps = Inl d \<Longrightarrow> d = noRetry ''ambiguous retry step''"
  by (auto simp: retry_search Let_def split: list.splits)

subsection \<open>The delay\<close>

text \<open>The delay after \<open>n\<close> doublings, in closed form.\<close>

definition backoff_after :: "int \<Rightarrow> int \<Rightarrow> nat \<Rightarrow> int" where
  "backoff_after initial maxBackoff n =
     (if n = 0 then initial
      else if initial * 2 ^ (n - 1) \<ge> maxBackoff div 2 then maxBackoff
      else initial * 2 ^ n)"

lemma backoff_after_step:
  assumes "0 < d" "\<not> maxBackoff div 2 \<le> d"
  shows "backoff_after (d * 2) maxBackoff n = backoff_after d maxBackoff (Suc n)"
proof (cases n)
  case (Suc k)
  with assms show ?thesis by (cases k) (simp_all add: backoff_after_def mult.assoc)
qed (use assms in \<open>simp add: backoff_after_def\<close>)

lemma retry_backoff_closed:
  assumes "0 < d" "d \<le> maxBackoff" "maxBackoff \<le> MaxRetryBackoffSeconds"
  shows "retry_backoff maxBackoff attempt e d = backoff_after d maxBackoff (unat attempt - unat e)"
  using assms
proof (induction maxBackoff attempt e d rule: retry_backoff.induct)
  case (1 maxBackoff attempt e d)
  show ?case
  proof (cases "e < attempt")
    case False
    then show ?thesis
      by (subst retry_backoff.simps) (simp add: backoff_after_def word_less_nat_alt)
  next
    case lt: True
    then have n: "unat attempt - unat e = Suc (unat attempt - unat (e + 1))"
      by (simp add: unat_succ_below word_less_nat_alt)
    show ?thesis
    proof (cases "maxBackoff div 2 \<le> d")
      case True
      then have "maxBackoff div 2 \<le> d * 2 ^ k" for k :: nat
        using 1(2) by (smt (verit) mult_le_cancel_left1 one_le_power)
      with True lt n show ?thesis
        by (subst retry_backoff.simps) (simp add: backoff_after_def)
    next
      case False
      have small: "d * 2 \<le> maxBackoff" using False by linarith
      then have "wrap64 (d * 2) = d * 2"
        using 1(2,4) by (intro wrap64_id) (simp add: int64_defs MaxRetryBackoffSeconds_def)
      with 1 lt False small n show ?thesis
        by (subst retry_backoff.simps) (simp add: backoff_after_step)
    qed
  qed
qed

lemma backoff_after_bounds:
  assumes "0 < d" "d \<le> maxBackoff"
  shows "min (d * 2 ^ n) maxBackoff \<le> backoff_after d maxBackoff n \<and>
     backoff_after d maxBackoff n \<le> maxBackoff \<and>
     backoff_after d maxBackoff n \<le> d * 2 ^ n + 1 \<and> 0 < backoff_after d maxBackoff n"
proof (cases n)
  case (Suc k)
  have "0 < d * 2 ^ k" using assms(1) by simp
  with Suc assms show ?thesis by (simp add: backoff_after_def mult.left_commute [of d 2]) linarith
qed (use assms in \<open>simp add: backoff_after_def\<close>)

lemma backoff_after_mono:
  assumes "0 < d" "d \<le> maxBackoff"
  shows "backoff_after d maxBackoff n \<le> backoff_after d maxBackoff (Suc n)"
proof (cases "d * 2 ^ n \<ge> maxBackoff div 2")
  case True
  then show ?thesis using backoff_after_bounds [OF assms, of n] by (simp add: backoff_after_def)
next
  case False
  have "n = 0 \<or> (\<exists>k. n = Suc k \<and> d * 2 ^ k \<le> d * 2 ^ n)"
    using assms by (cases n) auto
  with False assms show ?thesis by (auto simp: backoff_after_def)
qed

subsection \<open>What a decision says\<close>

definition retry_allowed ::
  "ExecutionStepContract \<Rightarrow> 32 word \<Rightarrow> RetryFailureClass \<Rightarrow> MutationObservation \<Rightarrow> bool" where
  "retry_allowed step attempt failure mutation \<longleftrightarrow>
     RetryPolicy_Valid (sc_Retry step) \<and> 0 < attempt \<and> attempt < rp_MaxAttempts (sc_Retry step) \<and>
     failure \<in> {RetryFailureTransient, RetryFailureTimeout} \<and>
     (mutation = MutationNotOccurred \<or> mutation = MutationOccurred \<and> sc_Idempotent step)"

lemma retry_policy_retrying:
  "RetryPolicy_Valid p \<Longrightarrow> 0 < a \<Longrightarrow> a < rp_MaxAttempts p \<Longrightarrow>
     0 < rp_InitialBackoffSeconds p \<and> rp_InitialBackoffSeconds p \<le> rp_MaxBackoffSeconds p \<and>
     rp_MaxBackoffSeconds p \<le> MaxRetryBackoffSeconds"
proof -
  assume "0 < a" "a < rp_MaxAttempts p" "RetryPolicy_Valid p"
  moreover from this have "rp_MaxAttempts p \<noteq> 1"
    by unat_arith
  ultimately show ?thesis by (auto simp: RetryPolicy_Valid_def split: if_splits)
qed

lemma DecideRetry_allowed:
  assumes "filter (\<lambda>s. sc_ID s = stepID) (ec_steps contract) = [step]"
    and "retry_allowed step attempt failure mutation"
  shows "DecideRetry contract stepID attempt failure mutation =
     \<lparr>rd_Retry = True,
      rd_Delay = backoff_after (rp_InitialBackoffSeconds (sc_Retry step))
        (rp_MaxBackoffSeconds (sc_Retry step)) (unat attempt - 1) * second,
      rd_Reason = ''bounded transient retry''\<rparr>"
proof -
  let ?p = "sc_Retry step"
  let ?d = "backoff_after (rp_InitialBackoffSeconds ?p) (rp_MaxBackoffSeconds ?p) (unat attempt - 1)"
  from assms(2) have policy: "0 < rp_InitialBackoffSeconds ?p"
    "rp_InitialBackoffSeconds ?p \<le> rp_MaxBackoffSeconds ?p"
    "rp_MaxBackoffSeconds ?p \<le> MaxRetryBackoffSeconds"
    using retry_policy_retrying by (auto simp: retry_allowed_def)
  have loop: "retry_backoff (rp_MaxBackoffSeconds ?p) attempt 1 (rp_InitialBackoffSeconds ?p) = ?d"
    using retry_backoff_closed [OF policy, of attempt 1] by simp
  note d = backoff_after_bounds [OF policy(1,2), of "unat attempt - 1"]
  with policy(3) have "wrap64 (?d * second) = ?d * second"
    by (intro wrap64_id) (simp add: int64_defs duration_defs MaxRetryBackoffSeconds_def)
  with assms(2) loop d retry_search_iff [THEN iffD2, OF assms(1)] show ?thesis
    by (cases failure; cases mutation)
       (auto simp: DecideRetry_def retry_allowed_def Let_def not_less not_le
         RetryFailureClass_Valid_def MutationObservation_Valid_def
         retryFailureClass_registry_def mutationObservation_registry_def)
qed

lemma DecideRetry_refused:
  assumes "filter (\<lambda>s. sc_ID s = stepID) (ec_steps contract) = [step]"
    and "\<not> retry_allowed step attempt failure mutation"
  shows "\<exists>reason. DecideRetry contract stepID attempt failure mutation = noRetry reason"
  using assms(2) retry_search_iff [THEN iffD2, OF assms(1)]
  by (cases failure; cases mutation)
     (auto simp: DecideRetry_def retry_allowed_def word_neq_0_conv not_le not_less Let_def)

lemma DecideRetry_no_unique_step:
  assumes "\<nexists>step. filter (\<lambda>s. sc_ID s = stepID) (ec_steps contract) = [step]"
  shows "\<exists>reason. DecideRetry contract stepID attempt failure mutation = noRetry reason"
proof (cases "range_loop (retry_match stepID) 0 None (ec_steps contract)")
  case (Inl d)
  then show ?thesis using retry_search_refusal by (auto simp: DecideRetry_def)
next
  case (Inr m)
  then show ?thesis using assms retry_search_iff by (cases m) (auto simp: DecideRetry_def)
qed

subsection \<open>Properties\<close>

text \<open>
  \<open>DecideRetry\<close> allows another attempt exactly when one step of the contract has the given
  identifier, its policy is valid, the one-based attempt is below the limit, the failure is
  transient or a timeout, and the mutation is proven absent or the step is idempotent. Every
  refusal, ambiguous and invalid input included, carries a zero delay.
\<close>

theorem DecideRetry_iff:
  "(rd_Retry (DecideRetry contract stepID attempt failure mutation) \<longleftrightarrow>
      (\<exists>step. filter (\<lambda>s. sc_ID s = stepID) (ec_steps contract) = [step] \<and>
         retry_allowed step attempt failure mutation)) \<and>
   (rd_Retry (DecideRetry contract stepID attempt failure mutation) \<or>
    rd_Delay (DecideRetry contract stepID attempt failure mutation) = 0)"
proof (cases "\<exists>step. filter (\<lambda>s. sc_ID s = stepID) (ec_steps contract) = [step]")
  case False
  then show ?thesis
    using DecideRetry_no_unique_step [OF False, of attempt failure mutation]
    by auto
next
  case True
  then obtain step where step: "filter (\<lambda>s. sc_ID s = stepID) (ec_steps contract) = [step]" ..
  show ?thesis
    using DecideRetry_allowed [OF step, of attempt failure mutation]
      DecideRetry_refused [OF step, of attempt failure mutation]
    by (cases "retry_allowed step attempt failure mutation") (auto simp: step)
qed

text \<open>
  The delay of an allowed retry is the exponential backoff of the step's policy, computed
  without overflow: after attempt n it is the initial backoff times 2^(n-1) capped at the maximum,
  up to one second (with an odd maximum the loop reaches the cap one second early), it is never
  above one hour, and it does not decrease from one attempt to the next.
\<close>

theorem DecideRetry_delay:
  assumes "filter (\<lambda>s. sc_ID s = stepID) (ec_steps contract) = [step]"
    and "rd_Retry (DecideRetry contract stepID attempt failure mutation)"
  shows "\<exists>d. rd_Delay (DecideRetry contract stepID attempt failure mutation) = d * second \<and>
     min (rp_InitialBackoffSeconds (sc_Retry step) * 2 ^ (unat attempt - 1))
       (rp_MaxBackoffSeconds (sc_Retry step)) \<le> d \<and>
     d \<le> rp_InitialBackoffSeconds (sc_Retry step) * 2 ^ (unat attempt - 1) + 1 \<and>
     0 < d \<and> d \<le> rp_MaxBackoffSeconds (sc_Retry step) \<and> d * second \<le> hour \<and>
     (rd_Retry (DecideRetry contract stepID (attempt + 1) failure mutation) \<longrightarrow>
        d * second \<le> rd_Delay (DecideRetry contract stepID (attempt + 1) failure mutation))"
proof -
  let ?p = "sc_Retry step"
  let ?b = "backoff_after (rp_InitialBackoffSeconds ?p) (rp_MaxBackoffSeconds ?p)"
  have allowed: "retry_allowed step a failure mutation"
    if "rd_Retry (DecideRetry contract stepID a failure mutation)" for a
    using that DecideRetry_refused [OF assms(1), of a failure mutation]
    by (metis noRetry_simps(1))
  have delay: "rd_Delay (DecideRetry contract stepID a failure mutation) = ?b (unat a - 1) * second"
    if "rd_Retry (DecideRetry contract stepID a failure mutation)" for a
    using DecideRetry_allowed [OF assms(1) allowed [OF that]] by simp
  from allowed [OF assms(2)] have a: "0 < attempt" "attempt < rp_MaxAttempts ?p"
    and policy: "0 < rp_InitialBackoffSeconds ?p"
      "rp_InitialBackoffSeconds ?p \<le> rp_MaxBackoffSeconds ?p"
      "rp_MaxBackoffSeconds ?p \<le> 3600"
    using retry_policy_retrying by (auto simp: retry_allowed_def MaxRetryBackoffSeconds_def)
  have next_attempt: "unat (attempt + 1) - 1 = Suc (unat attempt - 1)"
    using a by (simp add: unat_succ_below [OF a(2)] word_less_nat_alt)
  note bounds = backoff_after_bounds [OF policy(1,2), of "unat attempt - 1"]
  have "?b (unat attempt - 1) * second \<le> hour"
    using bounds policy by (simp add: duration_defs)
  then show ?thesis
    using delay [OF assms(2)] bounds delay [of "attempt + 1"] next_attempt
      backoff_after_mono [OF policy(1,2), of "unat attempt - 1"]
    by (intro exI [of _ "?b (unat attempt - 1)"]) (auto simp: duration_defs)
qed

definition sample_retry_step :: ExecutionStepContract where
  "sample_retry_step =
     \<lparr>sc_ID = ''step-a'', sc_Executor = ''exec'', sc_ExecutingIdentity = IdentityOperator,
      sc_CommandSummary = ''summary'', sc_Effect = StepEffectRead, sc_MinimumApproval = ApprovalRead,
      sc_TargetKinds = [''kind''], sc_RequiredPermissions = [''compute.instances.get''],
      sc_RequiresStepUp = False, sc_RequiresRecoveryAsset = False, sc_ExposureRequirement = None,
      sc_Idempotent = True,
      sc_Retry = \<lparr>rp_MaxAttempts = 5, rp_InitialBackoffSeconds = 3, rp_MaxBackoffSeconds = 20\<rparr>,
      sc_CancelSafe = True, sc_TimeoutSeconds = 60, sc_SuccessCondition = ''done'',
      sc_FailureBehavior = FailureFail\<rparr>"

definition sample_retry_contract :: ExecutionContract where
  "sample_retry_contract =
     \<lparr>ec_workflowID = ''wf'', ec_rollbackBoundary = ''none'', ec_pointOfNoReturn = [],
      ec_pointOfNoReturnTrigger = PointOfNoReturnTrigger_of [], ec_steps = [sample_retry_step],
      ec_digest = []\<rparr>"

lemma sample_retry_value:
  "DecideRetry sample_retry_contract ''step-a'' 2 RetryFailureTransient MutationOccurred =
     \<lparr>rd_Retry = True, rd_Delay = 6000000000, rd_Reason = ''bounded transient retry''\<rparr>"
  by code_simp

theorem DecideRetry_delay_witness:
  "\<exists>d. 6000000000 = d * second \<and> d \<le> 3 * 2 ^ 1 + 1 \<and> 0 < d"
proof -
  have "filter (\<lambda>s. sc_ID s = ''step-a'') (ec_steps sample_retry_contract) = [sample_retry_step]"
    by (simp add: sample_retry_contract_def sample_retry_step_def)
  moreover have
    "rd_Retry (DecideRetry sample_retry_contract ''step-a'' 2 RetryFailureTransient MutationOccurred)"
    by (simp add: sample_retry_value)
  ultimately show ?thesis
    using DecideRetry_delay [of "''step-a''" sample_retry_contract sample_retry_step 2
        RetryFailureTransient MutationOccurred]
    by (auto simp: sample_retry_value sample_retry_step_def)
qed

end
