(* ===== verification/Definitions.thy ===== *)
theory Definitions
  imports ExecutionContract
begin

section \<open>internal/workflow: definitions and their registry (definition.go)\<close>

text \<open>
  \<open>NewDefinition\<close> checks the steps itself and then builds the execution contract; the zero
  \<open>Definition\<close> is \<open>definition_zero\<close>. The registry is a Go map from workflow identifiers, here an
  association list with distinct keys (the order of a Go map is never observed). The clones copy
  every slice, which is the identity on values, except that \<open>cloneDefinition\<close> does not copy the
  point-of-no-return trigger. The locale \<open>keyed_registry\<close> is the contract of a registry that is
  built once and looked up afterwards.
\<close>

datatype definition_error = ErrInvalidDefinition string string

record StepDefinition =
  sd_ID :: string
  sd_Executor :: string
  sd_ExecutingIdentity :: ExecutionIdentity
  sd_CommandSummary :: Text
  sd_Effect :: StepEffect
  sd_MinimumApproval :: ApprovalClass
  sd_TargetKinds :: "string list"
  sd_RequiredPermissions :: "string list"
  sd_RequiresStepUp :: bool
  sd_RequiresRecoveryAsset :: bool
  sd_ExposureRequirement :: "ExecutionExposureRequirement option"
  sd_Idempotent :: bool
  sd_Retry :: RetryPolicy
  sd_CancelSafe :: bool
  sd_TimeoutSeconds :: int
  sd_SuccessCondition :: Text
  sd_FailureBehavior :: FailureBehavior

record Definition =
  d_workflowID :: string
  d_rollbackBoundary :: string
  d_pointOfNoReturn :: string
  d_pointOfNoReturnTrigger :: PointOfNoReturnTrigger
  d_steps :: "StepDefinition list"
  d_contract :: ExecutionContract

definition noTrigger :: PointOfNoReturnTrigger where
  "noTrigger = PointOfNoReturnTrigger_of []"

definition contract_zero :: ExecutionContract where
  "contract_zero =
     \<lparr>ec_workflowID = [], ec_rollbackBoundary = [], ec_pointOfNoReturn = [],
      ec_pointOfNoReturnTrigger = noTrigger, ec_steps = [], ec_digest = []\<rparr>"

definition definition_zero :: Definition where
  "definition_zero =
     \<lparr>d_workflowID = [], d_rollbackBoundary = [], d_pointOfNoReturn = [],
      d_pointOfNoReturnTrigger = noTrigger, d_steps = [], d_contract = contract_zero\<rparr>"

subsection \<open>NewDefinition\<close>

definition contract_of_step :: "StepDefinition \<Rightarrow> ExecutionStepContract" where
  "contract_of_step step =
     \<lparr>sc_ID = sd_ID step, sc_Executor = sd_Executor step,
      sc_ExecutingIdentity = sd_ExecutingIdentity step, sc_CommandSummary = sd_CommandSummary step,
      sc_Effect = sd_Effect step, sc_MinimumApproval = sd_MinimumApproval step,
      sc_TargetKinds = sd_TargetKinds step, sc_RequiredPermissions = sd_RequiredPermissions step,
      sc_RequiresStepUp = sd_RequiresStepUp step,
      sc_RequiresRecoveryAsset = sd_RequiresRecoveryAsset step,
      sc_ExposureRequirement = sd_ExposureRequirement step, sc_Idempotent = sd_Idempotent step,
      sc_Retry = sd_Retry step, sc_CancelSafe = sd_CancelSafe step,
      sc_TimeoutSeconds = sd_TimeoutSeconds step, sc_SuccessCondition = sd_SuccessCondition step,
      sc_FailureBehavior = sd_FailureBehavior step\<rparr>"

definition step_path :: "nat \<Rightarrow> string \<Rightarrow> string" where
  "step_path index field = ''steps['' @ decimal index @ '']'' @ field"

text \<open>One iteration of the loop; the state is the set of identifiers seen.\<close>

definition definition_step ::
  "nat \<Rightarrow> string list \<Rightarrow> StepDefinition \<Rightarrow> definition_error + string list" where
  "definition_step index seen step =
     (let err = (\<lambda>field reason. ErrInvalidDefinition (step_path index field) reason) in
      case first_error
        [fail_if (\<not> identifierPattern (sd_ID step))
           (err ''.id'' ''must match [a-z][a-z0-9-]{0,63}''),
         fail_if (sd_ID step \<in> set seen) (err ''.id'' ''duplicate value''),
         fail_if (sd_Executor step = []) (err ''.executor'' ''must not be empty''),
         fail_if (\<not> ExecutionIdentity_Valid (sd_ExecutingIdentity step))
           (err ''.executingIdentity'' ''unknown value''),
         fail_if (\<not> RetryPolicy_Valid (sd_Retry step)) (err ''.retry'' ''must be explicit and bounded''),
         fail_if (sd_TimeoutSeconds step \<le> 0 \<or> sd_TimeoutSeconds step > MaxStepTimeoutSeconds)
           (err ''.timeoutSeconds'' ''must be positive and bounded''),
         fail_if (sd_SuccessCondition step = []) (err ''.successCondition'' ''must not be empty''),
         fail_if (\<not> FailureBehavior_Valid (sd_FailureBehavior step))
           (err ''.failureBehavior'' ''unknown value'')]
      of Some e \<Rightarrow> Inl e
       | None \<Rightarrow> Inr (sd_ID step # seen))"

definition NewDefinition ::
  "(contract_payload \<Rightarrow> string option) \<Rightarrow> (string \<Rightarrow> string) \<Rightarrow>
   string \<Rightarrow> string \<Rightarrow> string \<Rightarrow> PointOfNoReturnTrigger \<Rightarrow> StepDefinition list \<Rightarrow>
   definition_error + Definition" where
  "NewDefinition marshal sha256hex workflowID rollbackBoundary pointOfNoReturn trigger steps =
     (if \<not> workflowIDPattern workflowID then
        Inl (ErrInvalidDefinition ''workflowId'' ''must match WF-<GROUP>-<NN>'')
      else if steps = [] then
        Inl (ErrInvalidDefinition ''steps'' ''must contain at least one implemented step'')
      else case range_loop definition_step 0 [] steps of
        Inl e \<Rightarrow> Inl e
      | Inr seen \<Rightarrow>
          (case NewExecutionContract marshal sha256hex workflowID rollbackBoundary pointOfNoReturn
                  trigger (map contract_of_step steps) of
             Inl _ \<Rightarrow> Inl (ErrInvalidDefinition ''steps'' ''contain an invalid execution contract'')
           | Inr contract \<Rightarrow>
               Inr \<lparr>d_workflowID = workflowID, d_rollbackBoundary = rollbackBoundary,
                    d_pointOfNoReturn = pointOfNoReturn, d_pointOfNoReturnTrigger = trigger,
                    d_steps = steps, d_contract = contract\<rparr>))"

subsection \<open>The registry\<close>

type_synonym Registry = "(string \<times> Definition) list"

text \<open>\<open>cloneDefinition\<close> leaves \<open>pointOfNoReturnTrigger\<close> at its zero value.\<close>

definition cloneDefinition :: "Definition \<Rightarrow> Definition" where
  "cloneDefinition d = d\<lparr>d_pointOfNoReturnTrigger := noTrigger\<rparr>"

definition registry_step :: "nat \<Rightarrow> Registry \<Rightarrow> Definition \<Rightarrow> definition_error + Registry" where
  "registry_step index registered d =
     (if d_workflowID d = [] \<or> d_steps d = [] \<or> ec_workflowID (d_contract d) = [] then
        Inl (ErrInvalidDefinition (''definitions['' @ decimal index @ '']'')
               ''was not constructed by NewDefinition'')
      else if map_of registered (d_workflowID d) \<noteq> None then
        Inl (ErrInvalidDefinition (''definitions['' @ decimal index @ '']'')
               ''duplicates a workflowId'')
      else Inr (registered @ [(d_workflowID d, cloneDefinition d)]))"

definition NewRegistry :: "Definition list \<Rightarrow> definition_error + Registry" where
  "NewRegistry definitions = range_loop registry_step 0 [] definitions"

definition Registry_Lookup :: "Registry \<Rightarrow> string \<Rightarrow> Definition \<times> bool" where
  "Registry_Lookup registry workflowID =
     (case map_of registry workflowID of
        None \<Rightarrow> (definition_zero, False)
      | Some d \<Rightarrow> (cloneDefinition d, True))"

definition Registry_Len :: "Registry \<Rightarrow> nat" where
  "Registry_Len registry = length registry"

subsection \<open>The contract of a registry\<close>

text \<open>
  \<open>build\<close> registers a list of values under their keys or refuses it, \<open>look\<close> finds the stored copy
  of a value. From the three laws a client knows every answer of a built registry.
\<close>

locale keyed_registry =
  fixes build :: "'v list \<Rightarrow> 'e + 'r"
    and look :: "'r \<Rightarrow> string \<Rightarrow> 'v option"
    and size_of :: "'r \<Rightarrow> nat"
    and key :: "'v \<Rightarrow> string"
    and stored :: "'v \<Rightarrow> 'v"
    and acceptable :: "'v \<Rightarrow> bool"
  assumes build_iff: "(\<exists>r. build vs = Inr r) \<longleftrightarrow> (\<forall>v \<in> set vs. acceptable v) \<and> distinct (map key vs)"
    and look_built: "build vs = Inr r \<Longrightarrow> look r k = map_option stored (find (\<lambda>v. key v = k) vs)"
    and size_built: "build vs = Inr r \<Longrightarrow> size_of r = length vs"
begin

lemma look_registered:
  assumes "build vs = Inr r" and "v \<in> set vs"
  shows "look r (key v) = Some (stored v)"
proof -
  from assms build_iff have "distinct (map key vs)" by blast
  with assms(2) have "find (\<lambda>w. key w = key v) vs = Some v"
    by (induction vs) (auto simp: image_iff)
  with look_built [OF assms(1)] show ?thesis by simp
qed

lemma look_missing:
  "build vs = Inr r \<Longrightarrow> look r k = None \<longleftrightarrow> k \<notin> key ` set vs"
  by (auto simp: look_built find_None_iff)

lemma duplicate_refused:
  "v \<in> set vs \<Longrightarrow> build (v # vs) \<noteq> Inr r"
  using build_iff [of "v # vs"] by auto

end

text \<open>\<open>Lookup\<close> with its second result folded into an option.\<close>

definition registry_look :: "Registry \<Rightarrow> string \<Rightarrow> Definition option" where
  "registry_look registry workflowID =
     (case Registry_Lookup registry workflowID of (d, ok) \<Rightarrow> if ok then Some d else None)"

definition constructed :: "Definition \<Rightarrow> bool" where
  "constructed d \<longleftrightarrow> d_workflowID d \<noteq> [] \<and> d_steps d \<noteq> [] \<and> ec_workflowID (d_contract d) \<noteq> []"

lemma registry_step_Inr:
  "registry_step i r d = Inr r' \<longleftrightarrow>
     constructed d \<and> d_workflowID d \<notin> fst ` set r \<and>
     r' = r @ [(d_workflowID d, cloneDefinition d)]"
  by (auto simp: registry_step_def constructed_def map_of_eq_None_iff)

lemma registry_loop_Inr:
  "range_loop registry_step i r ds = Inr r' \<longleftrightarrow>
     (\<forall>d \<in> set ds. constructed d) \<and> distinct (map d_workflowID ds) \<and>
     fst ` set r \<inter> d_workflowID ` set ds = {} \<and>
     r' = r @ map (\<lambda>d. (d_workflowID d, cloneDefinition d)) ds"
proof (induction ds arbitrary: i r)
  case Nil
  then show ?case by auto
next
  case (Cons d ds)
  show ?case
  proof (cases "registry_step i r d")
    case (Inl e)
    then have "\<not> (constructed d \<and> d_workflowID d \<notin> fst ` set r)"
      using registry_step_Inr [of i r d "r @ [(d_workflowID d, cloneDefinition d)]"] by auto
    with Inl show ?thesis by auto
  next
    case (Inr t)
    then have t: "constructed d" "d_workflowID d \<notin> fst ` set r"
      "t = r @ [(d_workflowID d, cloneDefinition d)]"
      by (simp_all add: registry_step_Inr)
    with Inr show ?thesis by (auto simp: Cons.IH)
  qed
qed

lemma NewRegistry_Inr:
  "NewRegistry ds = Inr r \<longleftrightarrow>
     (\<forall>d \<in> set ds. constructed d) \<and> distinct (map d_workflowID ds) \<and>
     r = map (\<lambda>d. (d_workflowID d, cloneDefinition d)) ds"
  by (simp add: NewRegistry_def registry_loop_Inr)

lemma cloneDefinition_idem [simp]: "cloneDefinition (cloneDefinition d) = cloneDefinition d"
  by (simp add: cloneDefinition_def)

lemma registry_look_map:
  "registry_look (map (\<lambda>d. (d_workflowID d, cloneDefinition d)) ds) k =
     map_option cloneDefinition (find (\<lambda>d. d_workflowID d = k) ds)"
  by (induction ds) (auto simp: registry_look_def Registry_Lookup_def split: option.splits)

interpretation workflow_registry:
  keyed_registry NewRegistry registry_look Registry_Len d_workflowID cloneDefinition constructed
  by unfold_locales (auto simp: NewRegistry_Inr registry_look_map Registry_Len_def)

subsection \<open>Properties\<close>

lemma definition_loop_Inr:
  "(\<exists>seen'. range_loop definition_step i seen steps = Inr seen') \<longleftrightarrow>
     (\<forall>s \<in> set steps. identifierPattern (sd_ID s) \<and> sd_Executor s \<noteq> [] \<and>
        ExecutionIdentity_Valid (sd_ExecutingIdentity s) \<and> RetryPolicy_Valid (sd_Retry s) \<and>
        0 < sd_TimeoutSeconds s \<and> sd_TimeoutSeconds s \<le> MaxStepTimeoutSeconds \<and>
        sd_SuccessCondition s \<noteq> [] \<and> FailureBehavior_Valid (sd_FailureBehavior s)) \<and>
     distinct (map sd_ID steps) \<and> sd_ID ` set steps \<inter> set seen = {}"
proof (induction steps arbitrary: i seen)
  case Nil
  then show ?case by simp
next
  case (Cons s steps)
  have step: "definition_step i seen s = Inr t \<longleftrightarrow>
      identifierPattern (sd_ID s) \<and> sd_ID s \<notin> set seen \<and> sd_Executor s \<noteq> [] \<and>
      ExecutionIdentity_Valid (sd_ExecutingIdentity s) \<and> RetryPolicy_Valid (sd_Retry s) \<and>
      0 < sd_TimeoutSeconds s \<and> sd_TimeoutSeconds s \<le> MaxStepTimeoutSeconds \<and>
      sd_SuccessCondition s \<noteq> [] \<and> FailureBehavior_Valid (sd_FailureBehavior s) \<and>
      t = sd_ID s # seen" for t
    unfolding definition_step_def Let_def guarded_Inr by (auto simp: not_le not_less)
  show ?case
  proof (cases "definition_step i seen s")
    case (Inl e)
    with step [of "sd_ID s # seen"] show ?thesis by auto
  next
    case (Inr t)
    with step [of t] Cons.IH [of "Suc i" t] show ?thesis by auto
  qed
qed

text \<open>
  \<open>NewDefinition\<close> accepts exactly the definitions whose execution contract is accepted: its own
  checks of the steps refuse nothing the contract would allow. The definition then carries its
  arguments unchanged and a contract over the same steps, with the same workflow identifier.
\<close>

theorem NewDefinition_iff_contract:
  "NewDefinition marshal sha256hex wid boundary ponr trigger steps = Inr d \<longleftrightarrow>
     (\<exists>c. NewExecutionContract marshal sha256hex wid boundary ponr trigger
             (map contract_of_step steps) = Inr c \<and>
        d = \<lparr>d_workflowID = wid, d_rollbackBoundary = boundary, d_pointOfNoReturn = ponr,
             d_pointOfNoReturnTrigger = trigger, d_steps = steps, d_contract = c\<rparr> \<and>
        ec_workflowID c = wid \<and> ec_steps c = map contract_of_step steps \<and> constructed d)"
proof -
  have loop: "\<exists>seen. range_loop definition_step 0 [] steps = Inr seen" "steps \<noteq> []"
    "workflowIDPattern wid"
    if "contract_spec wid boundary ponr trigger (map contract_of_step steps)"
    using that
    by (auto simp: contract_spec_def step_contract_ok_def definition_loop_Inr contract_of_step_def
        identifierPattern_def comp_def)
  show ?thesis
  proof (cases "NewExecutionContract marshal sha256hex wid boundary ponr trigger
             (map contract_of_step steps)")
    case (Inl e)
    then show ?thesis by (auto simp: NewDefinition_def split: sum.splits)
  next
    case (Inr c)
    then have spec: "contract_spec wid boundary ponr trigger (map contract_of_step steps)"
      and c: "ec_workflowID c = wid" "ec_steps c = map contract_of_step steps"
      using contract_accepts_iff by auto
    have "wid \<noteq> []" using loop(3) [OF spec] by (auto simp: workflowIDPattern_def)
    with loop [OF spec] Inr c show ?thesis by (auto simp: NewDefinition_def constructed_def)
  qed
qed

text \<open>
  A registry is built exactly from constructed definitions with distinct workflow identifiers,
  it holds one entry for each, and \<open>Lookup\<close> answers a registered identifier with the clone of its
  definition, whose execution contract, steps and rollback boundary are those registered but whose
  point-of-no-return trigger is the empty value, and any other identifier with the zero definition
  and False.
\<close>

theorem NewRegistry_Lookup:
  "((\<exists>r. NewRegistry ds = Inr r) \<longleftrightarrow> (\<forall>d \<in> set ds. constructed d) \<and> distinct (map d_workflowID ds)) \<and>
   (NewRegistry ds = Inr r \<longrightarrow>
      Registry_Len r = length ds \<and>
      (\<forall>d \<in> set ds. Registry_Lookup r (d_workflowID d) = (cloneDefinition d, True) \<and>
         d_contract (cloneDefinition d) = d_contract d \<and> d_steps (cloneDefinition d) = d_steps d \<and>
         d_rollbackBoundary (cloneDefinition d) = d_rollbackBoundary d \<and>
         PointOfNoReturnTrigger_string (d_pointOfNoReturnTrigger (cloneDefinition d)) = []) \<and>
      (\<forall>k. k \<notin> d_workflowID ` set ds \<longrightarrow> Registry_Lookup r k = (definition_zero, False)))"
proof (intro conjI impI ballI allI)
  show "(\<exists>r. NewRegistry ds = Inr r) \<longleftrightarrow>
      (\<forall>d \<in> set ds. constructed d) \<and> distinct (map d_workflowID ds)"
    by (rule workflow_registry.build_iff)
next
  assume r: "NewRegistry ds = Inr r"
  show "Registry_Len r = length ds" by (rule workflow_registry.size_built [OF r])
  show "Registry_Lookup r k = (definition_zero, False)" if "k \<notin> d_workflowID ` set ds" for k
    using workflow_registry.look_missing [OF r, of k] that
    by (auto simp: registry_look_def Registry_Lookup_def split: option.splits)
  fix d assume "d \<in> set ds"
  from workflow_registry.look_registered [OF r this]
  show "Registry_Lookup r (d_workflowID d) = (cloneDefinition d, True)"
    by (auto simp: registry_look_def Registry_Lookup_def split: option.splits)
  show "PointOfNoReturnTrigger_string (d_pointOfNoReturnTrigger (cloneDefinition d)) = []"
    by (simp add: cloneDefinition_def noTrigger_def PointOfNoReturnTrigger_of_def
        PointOfNoReturnTrigger_enum.str_enum_of)
qed (simp_all add: cloneDefinition_def)

definition sample_definition :: Definition where
  "sample_definition =
     \<lparr>d_workflowID = ''WF-A-01'', d_rollbackBoundary = ''none'', d_pointOfNoReturn = [],
      d_pointOfNoReturnTrigger = noTrigger,
      d_steps = [\<lparr>sd_ID = ''step-a'', sd_Executor = ''exec'', sd_ExecutingIdentity = IdentityOperator,
        sd_CommandSummary = ''summary'', sd_Effect = StepEffectRead,
        sd_MinimumApproval = ApprovalRead, sd_TargetKinds = [''kind''],
        sd_RequiredPermissions = [''compute.instances.get''], sd_RequiresStepUp = False,
        sd_RequiresRecoveryAsset = False, sd_ExposureRequirement = None, sd_Idempotent = True,
        sd_Retry = \<lparr>rp_MaxAttempts = 1, rp_InitialBackoffSeconds = 0, rp_MaxBackoffSeconds = 0\<rparr>,
        sd_CancelSafe = True, sd_TimeoutSeconds = 60, sd_SuccessCondition = ''done'',
        sd_FailureBehavior = FailureFail\<rparr>],
      d_contract = contract_zero\<lparr>ec_workflowID := ''WF-A-01''\<rparr>\<rparr>"

theorem NewRegistry_Lookup_witness:
  "\<exists>r. NewRegistry [sample_definition] = Inr r \<and>
     Registry_Lookup r ''WF-A-01'' = (cloneDefinition sample_definition, True)"
proof -
  have "constructed sample_definition" by (simp add: constructed_def sample_definition_def contract_zero_def)
  then obtain r where r: "NewRegistry [sample_definition] = Inr r"
    by (simp add: NewRegistry_Inr)
  with NewRegistry_Lookup [of "[sample_definition]" r] show ?thesis
    by (auto simp: sample_definition_def)
qed

end
