(* ===== verification/Machine.thy ===== *)
theory Machine
  imports ExecutionContract
begin

section \<open>internal/workflow: the operation state machine (machine.go)\<close>

text \<open>
  The transition table, \<open>CanTransition\<close> and the \<open>Machine\<close> that checks every durable state change.
  A \<open>*Machine\<close> is an optional record (\<open>None\<close> is the nil pointer); the methods that mutate it
  return the new machine with the error. Also \<open>cancellationRouteReachable\<close> of
  \<open>cancellation.go\<close>, a breadth-first search of the table: Go visits the successors in the
  unspecified order of a map, the model in the order of the table, and
  \<open>cancellationRouteReachable_iff\<close> shows that the answer does not depend on the order. The rules of
  \<open>machine_step\<close> are the ways other code can advance a machine.
\<close>

datatype machine_error =
    ErrInvalidTransition string
  | ErrInvalidMachineBinding
  | ErrMachineState OperationState

subsection \<open>The transition table\<close>

fun transitions :: "OperationState \<Rightarrow> OperationState list" where
  "transitions OperationDiscover = [OperationValidate, OperationCancelled, OperationFailed]"
| "transitions OperationValidate = [OperationPlan, OperationCancelled, OperationFailed]"
| "transitions OperationPlan =
     [OperationApprovedWaiting, OperationLock, OperationCancelled, OperationFailed]"
| "transitions OperationApprovedWaiting = [OperationLock, OperationCancelled]"
| "transitions OperationLock =
     [OperationProtect, OperationExecute, OperationCancelled, OperationFailed]"
| "transitions OperationProtect =
     [OperationExecute, OperationPaused, OperationRollback, OperationCancelled, OperationFailed]"
| "transitions OperationExecute =
     [OperationPaused, OperationVerify, OperationRollback, OperationCancelled, OperationFailed]"
| "transitions OperationPaused =
     [OperationDiscover, OperationRollback, OperationCancelled, OperationFailed]"
| "transitions OperationVerify =
     [OperationDocument, OperationCompleteWithFailedVerification, OperationRollback]"
| "transitions OperationDocument = [OperationComplete, OperationCompleteWithDocumentationError]"
| "transitions OperationRollback = [OperationVerifiedRollback, OperationFailedCleanup]"
| "transitions _ = []"

definition CanTransition :: "OperationState \<Rightarrow> OperationState \<Rightarrow> bool" where
  "CanTransition from to =
     (if \<not> OperationState_Valid from \<or> \<not> OperationState_Valid to then False
      else to \<in> set (transitions from))"

lemma transitions_valid: "t \<in> set (transitions s) \<Longrightarrow> OperationState_Valid s \<and> OperationState_Valid t"
  by (cases s rule: transitions.cases) auto

lemma CanTransition_iff: "CanTransition s t \<longleftrightarrow> t \<in> set (transitions s)"
  using transitions_valid by (auto simp: CanTransition_def)

lemma transitions_distinct: "distinct (transitions s)"
  by (cases s rule: transitions.cases) auto

lemma transitions_terminal_iff:
  "OperationState_Valid s \<Longrightarrow> transitions s = [] \<longleftrightarrow> OperationState_Terminal s"
  by (cases s rule: transitions.cases) auto

subsection \<open>The machine\<close>

record Machine =
  m_operationID :: string
  m_planID :: string
  m_state :: OperationState
  m_generation :: "64 word"

definition RestoreMachine :: "string \<Rightarrow> string \<Rightarrow> OperationState \<Rightarrow> machine_error + Machine" where
  "RestoreMachine operationID planID state =
     (if \<not> operationIDPattern operationID \<or> \<not> planIDPattern planID then Inl ErrInvalidMachineBinding
      else if \<not> OperationState_Valid state then Inl (ErrMachineState state)
      else Inr \<lparr>m_operationID = operationID, m_planID = planID, m_state = state, m_generation = 0\<rparr>)"

definition NewMachine :: "string \<Rightarrow> string \<Rightarrow> machine_error + Machine" where
  "NewMachine operationID planID = RestoreMachine operationID planID OperationDiscover"

definition cancellationAuthorizationRequired :: "OperationState \<Rightarrow> bool" where
  "cancellationAuthorizationRequired state =
     (state = OperationProtect \<or> state = OperationExecute \<or> state = OperationPaused)"

fun Machine_transition ::
  "Machine option \<Rightarrow> OperationState \<Rightarrow> bool \<Rightarrow> Machine option \<times> machine_error option" where
  "Machine_transition None nxt authorized = (None, Some (ErrInvalidTransition ''nil machine''))"
| "Machine_transition (Some machine) nxt authorized =
     (if \<not> OperationState_Valid nxt then (Some machine, Some (ErrMachineState nxt))
      else if \<not> CanTransition (m_state machine) nxt then
        (Some machine,
         Some (ErrInvalidTransition
           (OperationState_string (m_state machine) @ '' -> '' @ OperationState_string nxt)))
      else if nxt = OperationCancelled \<and> cancellationAuthorizationRequired (m_state machine) \<and>
              \<not> authorized then
        (Some machine, Some (ErrInvalidTransition ''cancellation decision required''))
      else (Some (machine\<lparr>m_state := nxt, m_generation := m_generation machine + 1\<rparr>), None))"

definition Machine_Transition ::
  "Machine option \<Rightarrow> OperationState \<Rightarrow> Machine option \<times> machine_error option" where
  "Machine_Transition machine nxt = Machine_transition machine nxt False"

lemma Machine_transition_ok:
  "Machine_transition (Some m) nxt auth = (Some m', None) \<longleftrightarrow>
     CanTransition (m_state m) nxt \<and>
     \<not> (nxt = OperationCancelled \<and> cancellationAuthorizationRequired (m_state m) \<and> \<not> auth) \<and>
     m' = m\<lparr>m_state := nxt, m_generation := m_generation m + 1\<rparr>"
  by (auto simp: CanTransition_def)

lemma Machine_transition_error:
  "Machine_transition mo nxt auth = (mo', Some e) \<Longrightarrow> mo' = mo"
  by (cases mo) (auto split: if_splits)

declare Machine_transition.simps [simp del]

subsection \<open>Runs of a machine\<close>

text \<open>
  A step of a machine, with the flag that tells whether a cancellation decision authorised it:
  \<open>Transition\<close> passes \<open>False\<close>, \<open>ApplyCancellation\<close> and the journal replay of CANCELLED \<open>True\<close>.
\<close>

inductive machine_step :: "Machine \<Rightarrow> bool \<Rightarrow> OperationState \<Rightarrow> Machine \<Rightarrow> bool" where
  step: "Machine_transition (Some m) nxt auth = (Some m', None) \<Longrightarrow> machine_step m auth nxt m'"

inductive_simps machine_step_iff: "machine_step m auth nxt m'"

text \<open>\<open>machine_run m es m'\<close>: the machine goes from \<open>m\<close> to \<open>m'\<close> by the events \<open>es\<close>.\<close>

inductive machine_run :: "Machine \<Rightarrow> (bool \<times> OperationState) list \<Rightarrow> Machine \<Rightarrow> bool" where
  run_nil: "machine_run m [] m"
| run_snoc: "machine_run m es m' \<Longrightarrow> machine_step m' auth nxt m'' \<Longrightarrow>
     machine_run m (es @ [(auth, nxt)]) m''"

inductive_cases machine_run_snocE: "machine_run m (es @ [e]) m'"

lemma machine_step_facts:
  "machine_step m auth nxt m' \<Longrightarrow>
     CanTransition (m_state m) nxt \<and> m_state m' = nxt \<and> m_operationID m' = m_operationID m \<and>
     m_planID m' = m_planID m \<and> m_generation m' = m_generation m + 1"
  by (auto simp: machine_step_iff Machine_transition_ok)

text \<open>What every run keeps: the binding, a valid state, and a generation that counts the steps.\<close>

lemma machine_run_invariant:
  "machine_run m es m' \<Longrightarrow>
     m_operationID m' = m_operationID m \<and> m_planID m' = m_planID m \<and>
     m_generation m' = m_generation m + of_nat (length es) \<and>
     (OperationState_Valid (m_state m) \<longrightarrow> OperationState_Valid (m_state m')) \<and>
     m_state m' = last (m_state m # map snd es)"
proof (induction rule: machine_run.induct)
  case (run_nil m)
  then show ?case by simp
next
  case (run_snoc m es m' auth nxt m'')
  from run_snoc.hyps(2) have "CanTransition (m_state m') nxt" "m_state m'' = nxt"
    "m_operationID m'' = m_operationID m'" "m_planID m'' = m_planID m'"
    "m_generation m'' = m_generation m' + 1"
    by (simp_all add: machine_step_facts)
  with run_snoc.IH show ?case
    by (simp add: CanTransition_def split: if_splits)
qed

text \<open>The states a run visits, the first one included.\<close>

abbreviation visited_states :: "Machine \<Rightarrow> (bool \<times> OperationState) list \<Rightarrow> OperationState list" where
  "visited_states m es \<equiv> m_state m # map snd es"

text \<open>A state whose only way in is from \<open>s\<close> is entered after \<open>s\<close> was visited.\<close>

lemma machine_run_predecessor:
  assumes "machine_run m es m'" and "m_state m \<noteq> t" and "t \<in> set (visited_states m es)"
    and "\<And>s. CanTransition s t \<Longrightarrow> s \<in> P"
  shows "\<exists>s \<in> P. s \<in> set (visited_states m es)"
  using assms(1-3)
proof (induction rule: machine_run.induct)
  case (run_nil m)
  then show ?case by simp
next
  case (run_snoc m es m' auth nxt m'')
  show ?case
  proof (cases "t \<in> set (visited_states m es)")
    case True
    then show ?thesis using run_snoc by auto
  next
    case False
    with run_snoc.prems have "nxt = t" by auto
    with run_snoc.hyps(2) have "CanTransition (m_state m') t" by (simp add: machine_step_facts)
    then have "m_state m' \<in> P" by (rule assms(4))
    moreover have "m_state m' \<in> set (visited_states m es)"
      using machine_run_invariant [OF run_snoc.hyps(1)] by (metis last_in_set list.discI)
    ultimately show ?thesis by auto
  qed
qed

lemma transitions_into:
  "CanTransition s OperationComplete \<Longrightarrow> s = OperationDocument"
  "CanTransition s OperationCompleteWithDocumentationError \<Longrightarrow> s = OperationDocument"
  "CanTransition s OperationDocument \<Longrightarrow> s = OperationVerify"
  "CanTransition s OperationCompleteWithFailedVerification \<Longrightarrow> s = OperationVerify"
  "CanTransition s OperationVerify \<Longrightarrow> s = OperationExecute"
  "CanTransition s OperationVerifiedRollback \<Longrightarrow> s = OperationRollback"
  "CanTransition s OperationFailedCleanup \<Longrightarrow> s = OperationRollback"
  "CanTransition s OperationExecute \<Longrightarrow> s \<in> {OperationLock, OperationProtect}"
  "CanTransition s OperationProtect \<Longrightarrow> s = OperationLock"
  by (cases s rule: transitions.cases; simp add: CanTransition_iff)+

subsection \<open>Reachability of a cancellation route (cancellation.go)\<close>

text \<open>
  The contract of the search, over any successor function: it pops a state, answers True when the
  target is a successor, and otherwise queues the unvisited successors that are not terminal.
\<close>

definition route_successors ::
  "('s \<Rightarrow> 's list) \<Rightarrow> ('s \<Rightarrow> bool) \<Rightarrow> 's list \<Rightarrow> 's \<Rightarrow> 's list" where
  "route_successors succs terminal visited state =
     filter (\<lambda>n. \<not> terminal n \<and> n \<notin> set visited) (succs state)"

inductive live_path :: "('s \<Rightarrow> 's list) \<Rightarrow> ('s \<Rightarrow> bool) \<Rightarrow> 's \<Rightarrow> 's \<Rightarrow> bool"
  for succs :: "'s \<Rightarrow> 's list" and terminal :: "'s \<Rightarrow> bool" where
  live_refl: "live_path succs terminal s s"
| live_next: "live_path succs terminal s t \<Longrightarrow> u \<in> set (succs t) \<Longrightarrow> \<not> terminal u \<Longrightarrow>
     live_path succs terminal s u"

locale route_search =
  fixes succs :: "'s \<Rightarrow> 's list"
    and terminal :: "'s \<Rightarrow> bool"
    and search :: "'s \<Rightarrow> 's list \<Rightarrow> 's list \<Rightarrow> bool"
  assumes search_Nil: "search target visited [] = False"
    and search_Cons: "search target visited (state # pending) =
      (target \<in> set (succs state) \<or>
       (let new = route_successors succs terminal visited state
        in search target (visited @ new) (pending @ new)))"
    and search_induct: "(\<And>target visited. P target visited []) \<Longrightarrow>
      (\<And>target visited state pending.
         (target \<notin> set (succs state) \<Longrightarrow>
            P target (visited @ route_successors succs terminal visited state)
              (pending @ route_successors succs terminal visited state)) \<Longrightarrow>
         P target visited (state # pending)) \<Longrightarrow> P target visited pending"
begin

lemma search_sound:
  "search target visited pending \<Longrightarrow>
     (\<forall>p \<in> set pending. live_path succs terminal start p) \<Longrightarrow>
     \<exists>s. live_path succs terminal start s \<and> target \<in> set (succs s)"
proof (induction target visited pending rule: search_induct)
  case (1 target visited)
  then show ?case by (simp add: search_Nil)
next
  case (2 target visited state pending)
  show ?case
  proof (cases "target \<in> set (succs state)")
    case True
    with 2 show ?thesis by auto
  next
    case False
    with 2 show ?thesis
      by (auto simp: search_Cons Let_def route_successors_def intro: live_next)
  qed
qed

text \<open>A failed search has seen a set closed under live successors, none of which reaches the target.\<close>

lemma search_complete:
  "\<not> search target visited pending \<Longrightarrow> set pending \<subseteq> set visited \<Longrightarrow>
     (\<forall>v \<in> set visited - set pending. target \<notin> set (succs v) \<and>
        (\<forall>n \<in> set (succs v). terminal n \<or> n \<in> set visited)) \<Longrightarrow>
     \<exists>V. set visited \<subseteq> V \<and>
        (\<forall>v \<in> V. target \<notin> set (succs v) \<and> (\<forall>n \<in> set (succs v). terminal n \<or> n \<in> V))"
proof (induction target visited pending rule: search_induct)
  case (1 target visited)
  then show ?case by (intro exI [of _ "set visited"]) auto
next
  case (2 target visited state pending)
  let ?new = "route_successors succs terminal visited state"
  from 2(2) have target: "target \<notin> set (succs state)" and
    run: "\<not> search target (visited @ ?new) (pending @ ?new)"
    by (auto simp: search_Cons Let_def)
  have new: "\<forall>n \<in> set (succs state). terminal n \<or> n \<in> set (visited @ ?new)"
    by (auto simp: route_successors_def)
  have "\<exists>V. set (visited @ ?new) \<subseteq> V \<and>
      (\<forall>v \<in> V. target \<notin> set (succs v) \<and> (\<forall>n \<in> set (succs v). terminal n \<or> n \<in> V))"
  proof (rule 2(1) [OF target run])
    show "set (pending @ ?new) \<subseteq> set (visited @ ?new)" using 2(3) by auto
    show "\<forall>v \<in> set (visited @ ?new) - set (pending @ ?new). target \<notin> set (succs v) \<and>
        (\<forall>n \<in> set (succs v). terminal n \<or> n \<in> set (visited @ ?new))"
    proof
      fix v assume "v \<in> set (visited @ ?new) - set (pending @ ?new)"
      then have v: "v = state \<or> v \<in> set visited - set (state # pending)" by auto
      then show "target \<notin> set (succs v) \<and>
          (\<forall>n \<in> set (succs v). terminal n \<or> n \<in> set (visited @ ?new))"
      proof
        assume "v = state"
        then show ?thesis using target new by blast
      next
        assume "v \<in> set visited - set (state # pending)"
        then show ?thesis using 2(4) by (metis Un_iff set_append)
      qed
    qed
  qed
  then show ?case by auto
qed

lemma search_iff:
  "search target [start] [start] \<longleftrightarrow>
     (\<exists>s. live_path succs terminal start s \<and> target \<in> set (succs s))"
proof
  assume "search target [start] [start]"
  then show "\<exists>s. live_path succs terminal start s \<and> target \<in> set (succs s)"
    by (rule search_sound) (simp add: live_refl)
next
  assume ex: "\<exists>s. live_path succs terminal start s \<and> target \<in> set (succs s)"
  show "search target [start] [start]"
  proof (rule ccontr)
    assume "\<not> search target [start] [start]"
    from search_complete [OF this] obtain V where V: "start \<in> V"
      "\<forall>v \<in> V. target \<notin> set (succs v) \<and> (\<forall>n \<in> set (succs v). terminal n \<or> n \<in> V)"
      by auto
    have "s \<in> V" if "live_path succs terminal start s" for s
      using that V by (induction rule: live_path.induct) auto
    with V ex show False by blast
  qed
qed

end

function cancellation_search ::
  "OperationState \<Rightarrow> OperationState list \<Rightarrow> OperationState list \<Rightarrow> bool" where
  "cancellation_search target visited [] = False"
| "cancellation_search target visited (state # pending) =
     (if CanTransition state target then True
      else
        let new = route_successors transitions OperationState_Terminal visited state
        in cancellation_search target (visited @ new) (pending @ new))"
  by pat_completeness auto
termination
proof (relation "measures
    [\<lambda>(target, visited, pending). card (set operationState_registry - set visited),
     \<lambda>(target, visited, pending). length pending]")
  show "wf (measures
    [\<lambda>(target, visited, pending). card (set operationState_registry - set visited),
     \<lambda>(target :: OperationState, visited, pending). length pending])" by simp
next
  fix target visited state pending x
  assume "\<not> CanTransition state target"
    and x: "x = route_successors transitions OperationState_Terminal visited state"
  show "((target, visited @ x, pending @ x), target, visited, state # pending) \<in> measures
    [\<lambda>(target, visited, pending). card (set operationState_registry - set visited),
     \<lambda>(target, visited, pending). length pending]"
  proof (cases "x = []")
    case True
    then show ?thesis by simp
  next
    case False
    then obtain n where "n \<in> set x" by (meson last_in_set)
    then have "n \<in> set operationState_registry - set visited"
      using transitions_valid x by (auto simp: route_successors_def OperationState_Valid_def)
    then have "card (set operationState_registry - set (visited @ x)) <
        card (set operationState_registry - set visited)"
      using \<open>n \<in> set x\<close> by (intro psubset_card_mono) auto
    then show ?thesis by simp
  qed
qed

definition cancellationRouteReachable :: "OperationState \<Rightarrow> OperationState \<Rightarrow> bool" where
  "cancellationRouteReachable current target = cancellation_search target [current] [current]"

interpretation cancellation_route: route_search transitions OperationState_Terminal cancellation_search
proof unfold_locales
  fix P :: "OperationState \<Rightarrow> OperationState list \<Rightarrow> OperationState list \<Rightarrow> bool"
    and target visited pending
  assume "\<And>target visited. P target visited []"
    and "\<And>target visited state pending.
      (target \<notin> set (transitions state) \<Longrightarrow>
         P target (visited @ route_successors transitions OperationState_Terminal visited state)
           (pending @ route_successors transitions OperationState_Terminal visited state)) \<Longrightarrow>
      P target visited (state # pending)"
  then show "P target visited pending"
    by (induction target visited pending rule: cancellation_search.induct)
       (simp_all add: CanTransition_iff)
qed (simp_all add: CanTransition_iff Let_def)

subsection \<open>Executable runs\<close>

fun replay :: "Machine \<Rightarrow> (bool \<times> OperationState) list \<Rightarrow> Machine option" where
  "replay m [] = Some m"
| "replay m ((auth, nxt) # es) =
     (case Machine_transition (Some m) nxt auth of
        (Some m', None) \<Rightarrow> replay m' es
      | _ \<Rightarrow> None)"

lemma machine_run_Cons:
  "machine_run m' es m'' \<Longrightarrow> machine_step m auth nxt m' \<Longrightarrow> machine_run m ((auth, nxt) # es) m''"
proof (induction rule: machine_run.induct)
  case (run_nil m')
  then show ?case using run_snoc [OF machine_run.run_nil [of m]] by simp
next
  case (run_snoc m' es m1 a n m2)
  then have "machine_run m (((auth, nxt) # es) @ [(a, n)]) m2"
    by (intro machine_run.run_snoc) auto
  then show ?case by simp
qed

lemma replay_run: "replay m es = Some m' \<Longrightarrow> machine_run m es m'"
  by (induction m es rule: replay.induct)
     (auto intro: machine_run.run_nil machine_run_Cons machine_step.step
        split: prod.splits option.splits)

subsection \<open>Properties\<close>

lemma NewMachine_ok:
  "NewMachine op plan = Inr m \<longleftrightarrow>
     operationIDPattern op \<and> planIDPattern plan \<and>
     m = \<lparr>m_operationID = op, m_planID = plan, m_state = OperationDiscover, m_generation = 0\<rparr>"
  by (auto simp: NewMachine_def RestoreMachine_def)

lemma run_visits_predecessor:
  assumes "machine_run m es m'" "m_state m = OperationDiscover"
    and "t \<in> set (visited_states m es)" "t \<noteq> OperationDiscover"
    and "\<And>s. CanTransition s t \<Longrightarrow> s = p"
  shows "p \<in> set (visited_states m es)"
  using machine_run_predecessor [OF assms(1) _ assms(3), of "{p}"] assms(2,4,5) by auto

text \<open>
  C37. Along every run of a machine from its mandatory discovery boundary, whatever its outcome, the
  identity of the machine never changes and its generation counts its transitions modulo 2^64; and it
  reports a completed operation (COMPLETE, with or without a documentation error) only after it went
  through LOCK, EXECUTE, VERIFY and DOCUMENT.
\<close>

theorem completed_only_after_verification:
  assumes "NewMachine op plan = Inr m" and "machine_run m es m'"
  shows "m_operationID m' = op \<and> m_planID m' = plan \<and> m_generation m' = of_nat (length es) \<and>
     (m_state m' \<in> {OperationComplete, OperationCompleteWithDocumentationError} \<longrightarrow>
       {OperationLock, OperationExecute, OperationVerify, OperationDocument} \<subseteq> snd ` set es)"
proof -
  from assms(1) have m: "m_state m = OperationDiscover" "m_operationID m = op" "m_planID m = plan"
    "m_generation m = 0" by (auto simp: NewMachine_ok)
  note inv = machine_run_invariant [OF assms(2)]
  have last: "m_state m' \<in> set (visited_states m es)"
    using inv by (metis last_in_set list.discI)
  note came = run_visits_predecessor [OF assms(2) m(1)]
  have "{OperationLock, OperationExecute, OperationVerify, OperationDocument} \<subseteq> snd ` set es"
    if completed: "m_state m' = OperationComplete \<or> m_state m' = OperationCompleteWithDocumentationError"
  proof -
    have doc: "OperationDocument \<in> set (visited_states m es)"
    proof (rule came [OF last])
      show "m_state m' \<noteq> OperationDiscover" using completed by auto
      show "CanTransition s (m_state m') \<Longrightarrow> s = OperationDocument" for s
        using completed transitions_into(1,2) [of s] by auto
    qed
    have ver: "OperationVerify \<in> set (visited_states m es)"
      by (rule came [OF doc]) (use transitions_into(3) in auto)
    have exe: "OperationExecute \<in> set (visited_states m es)"
      by (rule came [OF ver]) (use transitions_into(5) in auto)
    obtain s where s: "s \<in> {OperationLock, OperationProtect}" "s \<in> set (visited_states m es)"
      using machine_run_predecessor [OF assms(2) _ exe transitions_into(8)] m(1) by auto
    have "OperationLock \<in> set (visited_states m es)"
    proof (cases "s = OperationLock")
      case False
      with s have "OperationProtect \<in> set (visited_states m es)" by auto
      then show ?thesis by (rule came) (use transitions_into(9) in auto)
    qed (use s in auto)
    with doc ver exe m show ?thesis by auto
  qed
  with inv m show ?thesis by auto
qed

definition sample_run :: "(bool \<times> OperationState) list" where
  "sample_run = map (Pair False)
     [OperationValidate, OperationPlan, OperationLock, OperationExecute, OperationVerify,
      OperationDocument, OperationComplete]"

definition sample_op :: string where "sample_op = ''op-0123456789abcdef''"
definition sample_plan :: string where "sample_plan = ''plan-0123456789abcdef''"

lemma sample_ids [simp]: "operationIDPattern sample_op" "planIDPattern sample_plan"
  by (simp_all add: sample_op_def sample_plan_def pattern_defs char_class_defs)

definition machine_at :: "OperationState \<Rightarrow> 64 word \<Rightarrow> Machine" where
  "machine_at s n =
     \<lparr>m_operationID = sample_op, m_planID = sample_plan, m_state = s, m_generation = n\<rparr>"

lemma sample_run_replay:
  "replay (machine_at OperationDiscover 0) sample_run = Some (machine_at OperationComplete 7)"
  by (simp add: sample_run_def machine_at_def Machine_transition.simps CanTransition_def)

theorem completed_only_after_verification_witness:
  "OperationVerify \<in> snd ` set sample_run"
proof -
  have "NewMachine sample_op sample_plan = Inr (machine_at OperationDiscover 0)"
    by (simp add: NewMachine_ok machine_at_def)
  from completed_only_after_verification [OF this replay_run [OF sample_run_replay]]
  show ?thesis by (simp add: machine_at_def)
qed

text \<open>
  From PROTECT, EXECUTE and PAUSED, where a mutation may have happened, \<open>Transition\<close> never
  cancels: the machine is unchanged and the error is returned. Any failed transition leaves the
  machine as it was, and a successful one moves to exactly the requested state.
\<close>

theorem Transition_cancellation_guard:
  "(cancellationAuthorizationRequired (m_state m) \<longrightarrow>
      (\<exists>e. Machine_Transition (Some m) OperationCancelled = (Some m, Some e))) \<and>
   (\<forall>e mo. Machine_Transition (Some m) nxt = (mo, Some e) \<longrightarrow> mo = Some m) \<and>
   (\<forall>mo. Machine_Transition (Some m) nxt = (mo, None) \<longrightarrow>
      nxt \<in> set (transitions (m_state m)) \<and>
      mo = Some (m\<lparr>m_state := nxt, m_generation := m_generation m + 1\<rparr>))"
  unfolding Machine_Transition_def
  by (auto simp: Machine_transition.simps CanTransition_iff [symmetric]
      cancellationAuthorizationRequired_def split: if_splits)

theorem Transition_cancellation_guard_witness:
  "\<exists>e. Machine_Transition (Some (machine_at OperationExecute 3)) OperationCancelled =
     (Some (machine_at OperationExecute 3), Some e)"
proof -
  have "cancellationAuthorizationRequired (m_state (machine_at OperationExecute 3))"
    by (simp add: machine_at_def cancellationAuthorizationRequired_def)
  then show ?thesis
    using Transition_cancellation_guard [of "machine_at OperationExecute 3" OperationCancelled]
    by blast
qed

text \<open>The states from which a live path exists, by target.\<close>

lemma live_path_closed:
  "live_path succs terminal s t \<Longrightarrow> s \<in> S \<Longrightarrow>
     (\<And>v n. v \<in> S \<Longrightarrow> n \<in> set (succs v) \<Longrightarrow> \<not> terminal n \<Longrightarrow> n \<in> S) \<Longrightarrow> t \<in> S"
  by (induction rule: live_path.induct) auto

lemma cancellationRouteReachable_search:
  "cancellationRouteReachable current target \<longleftrightarrow>
     (\<exists>s. live_path transitions OperationState_Terminal current s \<and> CanTransition s target)"
  unfolding cancellationRouteReachable_def cancellation_route.search_iff CanTransition_iff ..

lemma cancellation_routes:
  "cancellationRouteReachable current OperationCancelled \<longleftrightarrow>
     current \<in> {OperationDiscover, OperationValidate, OperationPlan, OperationApprovedWaiting,
       OperationLock, OperationProtect, OperationExecute, OperationPaused}"
  "cancellationRouteReachable current OperationRollback \<longleftrightarrow>
     current \<in> {OperationDiscover, OperationValidate, OperationPlan, OperationApprovedWaiting,
       OperationLock, OperationProtect, OperationExecute, OperationPaused, OperationVerify}"
  by (cases current rule: transitions.cases;
      simp add: cancellationRouteReachable_def CanTransition_def route_successors_def)+

text \<open>
  The breadth-first search of the transition table answers exactly whether the target can be
  entered from a state reachable through non-terminal states, whatever order the successors are
  visited in; it terminates on every input. In particular a cancellation request can still be
  honoured by CANCELLED from every state up to PAUSED, and by ROLLBACK from VERIFY too, but from
  DOCUMENT, ROLLBACK and the terminal states it has no route.
\<close>

theorem cancellationRouteReachable_iff:
  "(cancellationRouteReachable current target \<longleftrightarrow>
      (\<exists>s. live_path transitions OperationState_Terminal current s \<and> CanTransition s target)) \<and>
   (cancellationRouteReachable current OperationCancelled \<longleftrightarrow>
      current \<in> {OperationDiscover, OperationValidate, OperationPlan, OperationApprovedWaiting,
        OperationLock, OperationProtect, OperationExecute, OperationPaused}) \<and>
   (cancellationRouteReachable current OperationRollback \<longleftrightarrow>
      current \<in> {OperationDiscover, OperationValidate, OperationPlan, OperationApprovedWaiting,
        OperationLock, OperationProtect, OperationExecute, OperationPaused, OperationVerify})"
  by (intro conjI cancellationRouteReachable_search cancellation_routes)

text \<open>
  C38. The lifecycle cannot get stuck and cannot be resurrected: a valid state has no successor
  exactly when it is terminal, from every valid state some terminal state can be reached through the
  table, and no run leaves a terminal state.
\<close>

theorem lifecycle_ends:
  "(OperationState_Valid s \<longrightarrow>
      (transitions s = [] \<longleftrightarrow> OperationState_Terminal s) \<and>
      (\<exists>t. OperationState_Terminal t \<and> CanTransition\<^sup>*\<^sup>* s t)) \<and>
   (OperationState_Terminal (m_state m) \<longrightarrow> machine_run m es m' \<longrightarrow> es = [] \<and> m' = m)"
proof (intro conjI impI)
  assume v: "OperationState_Valid s"
  show "transitions s = [] \<longleftrightarrow> OperationState_Terminal s" by (rule transitions_terminal_iff [OF v])
  have direct: "\<exists>t. OperationState_Terminal t \<and> CanTransition\<^sup>*\<^sup>* s t"
    if "CanTransition s t" "OperationState_Terminal t" for s t using that by blast
  show "\<exists>t. OperationState_Terminal t \<and> CanTransition\<^sup>*\<^sup>* s t"
  proof (cases "OperationState_Terminal s")
    case False
    have hop: "CanTransition OperationVerify OperationCompleteWithFailedVerification"
      "CanTransition OperationDocument OperationComplete"
      "CanTransition OperationRollback OperationVerifiedRollback"
      by (simp_all add: CanTransition_def)
    with False v show ?thesis
      by (cases s rule: transitions.cases)
         (auto simp: CanTransition_iff
           intro: direct [of _ OperationCancelled] direct [of _ OperationComplete]
             direct [of _ OperationVerifiedRollback]
             direct [of _ OperationCompleteWithFailedVerification])
  qed blast
next
  assume t: "OperationState_Terminal (m_state m)" and run: "machine_run m es m'"
  from run t show "es = []"
  proof (induction rule: machine_run.induct)
    case (run_snoc m es m' auth nxt m'')
    then have "es = []" by simp
    with run_snoc.hyps(1) have "m' = m"
      by (auto elim: machine_run.cases)
    with run_snoc have "CanTransition (m_state m) nxt" by (simp add: machine_step_facts)
    then have "OperationState_Valid (m_state m)" "nxt \<in> set (transitions (m_state m))"
      using transitions_valid by (auto simp: CanTransition_iff)
    with run_snoc.prems transitions_terminal_iff [of "m_state m"] show ?case by simp
  qed simp
  with run show "m' = m" by (auto elim: machine_run.cases)
qed

theorem lifecycle_ends_witness:
  "\<exists>t. OperationState_Terminal t \<and> CanTransition\<^sup>*\<^sup>* OperationExecute t"
  using lifecycle_ends [of OperationExecute "machine_at OperationComplete 0" "[]"
      "machine_at OperationComplete 0"]
  by simp

end
