(* ===== verification/Journal.thy ===== *)
theory Journal
  imports Machine
begin

section \<open>internal/workflow: the operation journal (journal.go)\<close>

text \<open>
  The durable entries of \<open>internal/domain/journal.go\<close>, the closed invariants of one entry
  (\<open>ValidateJournalEntry\<close> and its helpers), and \<open>ValidateJournal\<close>, which replays one operation
  history through a machine. The local variables of its loop are the fields of \<open>journal_state\<close>, one
  iteration is \<open>journal_entry\<close>, and each of the three kinds of entry has its own handler. The empty
  state string, Go's absent pending cancellation, is \<open>noState\<close>; a missing key of the attempts map
  reads 0, so the map is a function.
\<close>

definition JournalSchemaV1 :: string where "JournalSchemaV1 = ''JournalEntryV1''"

record JournalCancellationRequest =
  jc_RequestedAt :: gotime
  jc_CurrentStepID :: string
  jc_ExecutionContractHash :: string
  jc_MutationObservation :: MutationObservation
  jc_RequiredRoute :: OperationState

record JournalStep =
  jt_ID :: string
  jt_Outcome :: StepOutcome
  jt_ExecutingIdentity :: ExecutionIdentity
  jt_Attempt :: "32 word"
  jt_StartedAt :: gotime
  jt_EndedAt :: "gotime option"
  jt_MutationOccurred :: bool
  jt_ResultSummary :: Text

record JournalPause =
  jp_PausedAt :: gotime
  jp_PauseReason :: Text
  jp_MutationOccurred :: bool
  jp_ResumeBy :: gotime
  jp_ReapprovalRequired :: bool

record JournalEntry =
  je_Schema :: string
  je_OperationID :: string
  je_PlanID :: string
  je_ContractHash :: string
  je_Sequence :: "64 word"
  je_Kind :: JournalEntryKind
  je_RecordedAt :: gotime
  je_OperationState :: OperationState
  je_Step :: "JournalStep option"
  je_Pause :: "JournalPause option"
  je_Cancellation :: "JournalCancellationRequest option"

datatype journal_error =
    ErrInvalidJournalEntry string string
  | ErrInvalidJournalStream nat string
  | ErrInvalidJournalStreamEntry nat journal_error
  | ErrInvalidJournalStreamTransition nat machine_error

subsection \<open>One entry\<close>

definition validateJournalTime :: "string \<Rightarrow> gotime \<Rightarrow> journal_error option" where
  "validateJournalTime path value =
     first_error
       [fail_if (time_IsZero value) (ErrInvalidJournalEntry path ''must not be zero''),
        fail_if (t_zone value \<noteq> 0) (ErrInvalidJournalEntry path ''must be UTC'')]"

definition validateJournalPause :: "JournalPause \<Rightarrow> gotime \<Rightarrow> journal_error option" where
  "validateJournalPause pause recordedAt =
     first_error
       [validateJournalTime ''pause.pausedAt'' (jp_PausedAt pause),
        fail_if (time_Before recordedAt (jp_PausedAt pause))
          (ErrInvalidJournalEntry ''recordedAt'' ''must not precede pause.pausedAt''),
        fail_if (jp_PauseReason pause = [])
          (ErrInvalidJournalEntry ''pause.pauseReason'' ''must not be empty''),
        validateJournalTime ''pause.resumeBy'' (jp_ResumeBy pause),
        fail_if (\<not> time_After (jp_ResumeBy pause) (jp_PausedAt pause))
          (ErrInvalidJournalEntry ''pause.resumeBy'' ''must be later than pausedAt'')]"

definition validateJournalStep :: "JournalStep \<Rightarrow> gotime \<Rightarrow> journal_error option" where
  "validateJournalStep step recordedAt =
     first_error
       ([fail_if (\<not> identifierPattern (jt_ID step))
           (ErrInvalidJournalEntry ''step.id'' ''must match [a-z][a-z0-9-]{0,63}''),
         fail_if (\<not> StepOutcome_Valid (jt_Outcome step))
           (ErrInvalidJournalEntry ''step.outcome'' ''unknown value''),
         fail_if (\<not> ExecutionIdentity_Valid (jt_ExecutingIdentity step))
           (ErrInvalidJournalEntry ''step.executingIdentity'' ''unknown value''),
         fail_if (jt_Attempt step = 0)
           (ErrInvalidJournalEntry ''step.attempt'' ''must start at 1''),
         validateJournalTime ''step.startedAt'' (jt_StartedAt step),
         fail_if (time_Before recordedAt (jt_StartedAt step))
           (ErrInvalidJournalEntry ''recordedAt'' ''must not precede step.startedAt'')] @
        (case jt_EndedAt step of
           None \<Rightarrow>
             [fail_if (jt_Outcome step \<noteq> StepUnknown)
                (ErrInvalidJournalEntry ''step.endedAt'' ''is required for DONE and FAILED'')]
         | Some endedAt \<Rightarrow>
             [validateJournalTime ''step.endedAt'' endedAt,
              fail_if (time_Before endedAt (jt_StartedAt step))
                (ErrInvalidJournalEntry ''step.endedAt'' ''must not precede step.startedAt''),
              fail_if (time_Before recordedAt endedAt)
                (ErrInvalidJournalEntry ''recordedAt'' ''must not precede step.endedAt'')]))"

definition cancellation_route_for :: "MutationObservation \<Rightarrow> OperationState" where
  "cancellation_route_for observation =
     (if observation \<noteq> MutationNotOccurred then OperationRollback else OperationCancelled)"

definition validateJournalCancellation ::
  "JournalCancellationRequest \<Rightarrow> gotime \<Rightarrow> string \<Rightarrow> journal_error option" where
  "validateJournalCancellation request recordedAt contractHash =
     first_error
       [validateJournalTime ''cancellation.requestedAt'' (jc_RequestedAt request),
        fail_if (\<not> time_Equal (jc_RequestedAt request) recordedAt)
          (ErrInvalidJournalEntry ''cancellation.requestedAt'' ''must equal recordedAt''),
        fail_if (\<not> identifierPattern (jc_CurrentStepID request))
          (ErrInvalidJournalEntry ''cancellation.currentStepId'' ''must be a canonical step identifier''),
        fail_if (\<not> sha256Pattern (jc_ExecutionContractHash request))
          (ErrInvalidJournalEntry ''cancellation.executionContractHash'' ''must be a contract digest''),
        fail_if (jc_ExecutionContractHash request \<noteq> contractHash)
          (ErrInvalidJournalEntry ''cancellation.executionContractHash'' ''must match the journal contract''),
        fail_if (\<not> MutationObservation_Valid (jc_MutationObservation request))
          (ErrInvalidJournalEntry ''cancellation.mutationObservation'' ''unknown value''),
        fail_if (jc_RequiredRoute request \<noteq> cancellation_route_for (jc_MutationObservation request))
          (ErrInvalidJournalEntry ''cancellation.requiredRoute'' ''does not match the mutation observation'')]"

text \<open>The \<open>switch\<close> on the kind of the entry; a kind outside the switch was refused before it.\<close>

definition validate_entry_kind :: "JournalEntry \<Rightarrow> journal_error option list" where
  "validate_entry_kind entry =
     (if je_Kind entry = JournalEntryTransition then
        [fail_if (je_Step entry \<noteq> None)
           (ErrInvalidJournalEntry ''step'' ''must be absent for a transition''),
         (if je_OperationState entry = OperationPaused then
            (case je_Pause entry of
               None \<Rightarrow> Some (ErrInvalidJournalEntry ''pause'' ''is required for a PAUSED transition'')
             | Some pause \<Rightarrow> validateJournalPause pause (je_RecordedAt entry))
          else fail_if (je_Pause entry \<noteq> None)
            (ErrInvalidJournalEntry ''pause'' ''is allowed only for a PAUSED transition'')),
         fail_if (je_Cancellation entry \<noteq> None)
           (ErrInvalidJournalEntry ''cancellation'' ''must be absent for a transition'')]
      else if je_Kind entry = JournalEntryStep then
        [fail_if (je_Step entry = None)
           (ErrInvalidJournalEntry ''step'' ''is required for a step entry''),
         fail_if (je_Pause entry \<noteq> None)
           (ErrInvalidJournalEntry ''pause'' ''must be absent for a step entry''),
         fail_if (je_Cancellation entry \<noteq> None)
           (ErrInvalidJournalEntry ''cancellation'' ''must be absent for a step entry''),
         (case je_Step entry of
            None \<Rightarrow> None
          | Some step \<Rightarrow> validateJournalStep step (je_RecordedAt entry))]
      else if je_Kind entry = JournalEntryCancellationRequest then
        [fail_if (je_Step entry \<noteq> None \<or> je_Pause entry \<noteq> None)
           (ErrInvalidJournalEntry ''cancellation'' ''request must not contain step or pause data''),
         (case je_Cancellation entry of
            None \<Rightarrow> Some (ErrInvalidJournalEntry ''cancellation'' ''is required for a cancellation request'')
          | Some request \<Rightarrow>
              validateJournalCancellation request (je_RecordedAt entry) (je_ContractHash entry))]
      else [])"

definition ValidateJournalEntry :: "JournalEntry \<Rightarrow> journal_error option" where
  "ValidateJournalEntry entry =
     first_error
       ([fail_if (je_Schema entry \<noteq> JournalSchemaV1)
           (ErrInvalidJournalEntry ''schema'' ''must be JournalEntryV1''),
         fail_if (\<not> operationIDPattern (je_OperationID entry))
           (ErrInvalidJournalEntry ''operationId'' ''must match op-<16 lowercase hex>''),
         fail_if (\<not> planIDPattern (je_PlanID entry))
           (ErrInvalidJournalEntry ''planId'' ''must match plan-<16 lowercase hex>''),
         fail_if (\<not> sha256Pattern (je_ContractHash entry))
           (ErrInvalidJournalEntry ''contractHash'' ''must be a contract digest''),
         fail_if (je_Sequence entry = 0) (ErrInvalidJournalEntry ''sequence'' ''must start at 1''),
         fail_if (\<not> JournalEntryKind_Valid (je_Kind entry))
           (ErrInvalidJournalEntry ''kind'' ''unknown value''),
         validateJournalTime ''recordedAt'' (je_RecordedAt entry),
         fail_if (\<not> OperationState_Valid (je_OperationState entry))
           (ErrInvalidJournalEntry ''operationState'' ''unknown value'')] @
        validate_entry_kind entry)"

subsection \<open>The replay of a history\<close>

abbreviation noState :: OperationState where
  "noState \<equiv> OperationOther ''''"

record journal_state =
  js_machine :: "Machine option"
  js_previousTime :: gotime
  js_attempts :: "string \<Rightarrow> 32 word"
  js_completed :: "string list"
  js_mutationMayHaveOccurred :: bool
  js_paused :: "JournalPause option"
  js_pendingCancellation :: OperationState
  js_pendingCurrentStepID :: string
  js_pendingStepStartBoundary :: gotime
  js_pendingRequestedAt :: gotime

definition journal_init :: journal_state where
  "journal_init =
     \<lparr>js_machine = None, js_previousTime = time_zero, js_attempts = (\<lambda>_. 0), js_completed = [],
      js_mutationMayHaveOccurred = False, js_paused = None, js_pendingCancellation = noState,
      js_pendingCurrentStepID = [], js_pendingStepStartBoundary = time_zero,
      js_pendingRequestedAt = time_zero\<rparr>"

definition clear_pending_step :: "journal_state \<Rightarrow> journal_state" where
  "clear_pending_step st =
     st\<lparr>js_pendingCurrentStepID := [], js_pendingStepStartBoundary := time_zero,
        js_pendingRequestedAt := time_zero\<rparr>"

text \<open>A cancellation request entry: its effect, and its checks.\<close>

definition record_request ::
  "gotime \<Rightarrow> journal_state \<Rightarrow> JournalCancellationRequest \<Rightarrow> journal_state" where
  "record_request priorTime st request =
     st\<lparr>js_mutationMayHaveOccurred := js_mutationMayHaveOccurred st \<or>
          jc_MutationObservation request \<noteq> MutationNotOccurred,
        js_pendingCancellation := jc_RequiredRoute request,
        js_pendingCurrentStepID := jc_CurrentStepID request,
        js_pendingStepStartBoundary := priorTime,
        js_pendingRequestedAt := jc_RequestedAt request\<rparr>"

definition journal_cancellation ::
  "nat \<Rightarrow> gotime \<Rightarrow> journal_state \<Rightarrow> JournalEntry \<Rightarrow> JournalCancellationRequest \<Rightarrow>
     journal_error + journal_state" where
  "journal_cancellation index priorTime st entry request =
     (case js_machine st of
        None \<Rightarrow> Inl (ErrInvalidJournalStream (index + 1)
                  ''cancellation request precedes the initial transition'')
      | Some m \<Rightarrow>
          (case first_error
             [fail_if (je_OperationState entry \<noteq> m_state m)
                (ErrInvalidJournalStream (index + 1)
                   ''cancellation request state does not match the current state''),
              fail_if (js_pendingCancellation st \<noteq> noState)
                (ErrInvalidJournalStream (index + 1)
                   ''multiple pending cancellation requests are ambiguous''),
              fail_if (js_mutationMayHaveOccurred st \<and>
                       jc_MutationObservation request = MutationNotOccurred)
                (ErrInvalidJournalStream (index + 1)
                   ''cancellation request discards observed mutation''),
              fail_if (\<not> cancellationRouteReachable (m_state m) (jc_RequiredRoute request))
                (ErrInvalidJournalStream (index + 1)
                   ''cancellation request has no reachable route'')]
           of Some e \<Rightarrow> Inl e
            | None \<Rightarrow>
                Inr (record_request priorTime st request)))"

text \<open>The checks of a transition entry before the machine moves.\<close>

definition transition_guards ::
  "nat \<Rightarrow> journal_state \<Rightarrow> Machine \<Rightarrow> JournalEntry \<Rightarrow> journal_error option" where
  "transition_guards index st m entry =
     first_error
       ([fail_if (js_pendingCancellation st \<noteq> noState \<and>
                  CanTransition (m_state m) (js_pendingCancellation st) \<and>
                  je_OperationState entry \<noteq> js_pendingCancellation st)
           (ErrInvalidJournalStream (index + 1)
              ''pending cancellation was not honored at the first compatible boundary'')] @
        (if m_state m = OperationPaused then
           (case js_paused st of
              None \<Rightarrow> [Some (ErrInvalidJournalStream (index + 1)
                        ''PAUSED state is missing its durable metadata'')]
            | Some paused \<Rightarrow>
                [fail_if (je_OperationState entry = OperationDiscover \<and>
                          \<not> time_Before (je_RecordedAt entry) (jp_ResumeBy paused))
                   (ErrInvalidJournalStream (index + 1)
                      ''transition leaves PAUSED at or after resumeBy''),
                 fail_if (je_OperationState entry = OperationDiscover \<and> jp_ReapprovalRequired paused)
                   (ErrInvalidJournalStream (index + 1)
                      ''resume requires fresh approval evidence from the future resume coordinator'')])
         else []) @
        [fail_if (je_OperationState entry = OperationCancelled \<and> js_mutationMayHaveOccurred st)
           (ErrInvalidJournalStream (index + 1)
              ''CANCELLED after possible mutation must route through ROLLBACK'')])"

text \<open>The machine's transition, authorised when the journal records CANCELLED.\<close>

definition journal_machine_transition ::
  "Machine \<Rightarrow> OperationState \<Rightarrow> Machine option \<times> machine_error option" where
  "journal_machine_transition m nxt =
     (if nxt = OperationCancelled then Machine_transition (Some m) nxt True
      else Machine_Transition (Some m) nxt)"

text \<open>What happens to a pending cancellation after the machine moved to \<open>m\<close>.\<close>

definition settle_pending ::
  "nat \<Rightarrow> journal_state \<Rightarrow> Machine \<Rightarrow> JournalEntry \<Rightarrow> journal_error + journal_state" where
  "settle_pending index st m entry =
     (if je_OperationState entry = js_pendingCancellation st then
        Inr (clear_pending_step (st\<lparr>js_pendingCancellation := noState\<rparr>))
      else if js_pendingCancellation st \<noteq> noState \<and>
              \<not> cancellationRouteReachable (m_state m) (js_pendingCancellation st) then
        Inl (ErrInvalidJournalStream (index + 1)
               ''transition made the pending cancellation unreachable'')
      else if js_pendingCancellation st \<noteq> noState then Inr (clear_pending_step st)
      else Inr st)"

text \<open>The pause metadata of a transition entry.\<close>

definition record_pause ::
  "nat \<Rightarrow> journal_state \<Rightarrow> JournalEntry \<Rightarrow> journal_error + journal_state" where
  "record_pause index st entry =
     (case je_Pause entry of
        None \<Rightarrow> Inr (st\<lparr>js_paused := None\<rparr>)
      | Some pause \<Rightarrow>
          if js_mutationMayHaveOccurred st \<and> \<not> jp_MutationOccurred pause then
            Inl (ErrInvalidJournalStream (index + 1)
                   ''PAUSED metadata must not discard observed mutation'')
          else
            (let mutation = js_mutationMayHaveOccurred st \<or> jp_MutationOccurred pause
             in Inr (st\<lparr>js_mutationMayHaveOccurred := mutation,
                        js_pendingCancellation :=
                          (if js_pendingCancellation st \<noteq> noState \<and> mutation then OperationRollback
                           else js_pendingCancellation st),
                        js_paused := Some pause\<rparr>)))"

definition journal_transition ::
  "nat \<Rightarrow> string \<Rightarrow> string \<Rightarrow> journal_state \<Rightarrow> JournalEntry \<Rightarrow> journal_error + journal_state" where
  "journal_transition index operationID planID st entry =
     (case js_machine st of
        None \<Rightarrow>
          if je_OperationState entry \<noteq> OperationDiscover then
            Inl (ErrInvalidJournalStream (index + 1) ''first transition must be DISCOVER'')
          else (case NewMachine operationID planID of
                  Inl _ \<Rightarrow> Inl (ErrInvalidJournalStream (index + 1)
                            ''initial transition has an invalid machine binding'')
                | Inr m \<Rightarrow> Inr (st\<lparr>js_machine := Some m\<rparr>))
      | Some m \<Rightarrow>
          (case transition_guards index st m entry of
             Some e \<Rightarrow> Inl e
           | None \<Rightarrow>
               (case journal_machine_transition m (je_OperationState entry) of
                  (_, Some e) \<Rightarrow> Inl (ErrInvalidJournalStreamTransition (index + 1) e)
                | (None, None) \<Rightarrow> Inr st
                | (Some m', None) \<Rightarrow>
                    (case settle_pending index (st\<lparr>js_machine := Some m'\<rparr>) m' entry of
                       Inl e \<Rightarrow> Inl e
                     | Inr st' \<Rightarrow> record_pause index st' entry))))"

text \<open>A step entry: its effect, and its checks.\<close>

definition record_step :: "journal_state \<Rightarrow> JournalStep \<Rightarrow> journal_state" where
  "record_step st step =
     (let mutation = js_mutationMayHaveOccurred st \<or> jt_MutationOccurred step \<or>
                     jt_Outcome step = StepUnknown
      in (clear_pending_step st)
           \<lparr>js_attempts := (js_attempts st)(jt_ID step := jt_Attempt step),
            js_mutationMayHaveOccurred := mutation,
            js_pendingCancellation :=
              (if js_pendingCancellation st \<noteq> noState \<and> mutation then OperationRollback
               else js_pendingCancellation st),
            js_completed :=
              (if jt_Outcome step = StepDone then jt_ID step # js_completed st
               else js_completed st)\<rparr>)"

definition journal_step_entry ::
  "nat \<Rightarrow> gotime \<Rightarrow> journal_state \<Rightarrow> JournalEntry \<Rightarrow> JournalStep \<Rightarrow> journal_error + journal_state" where
  "journal_step_entry index priorTime st entry step =
     (case js_machine st of
        None \<Rightarrow> Inl (ErrInvalidJournalStream (index + 1) ''step precedes the initial transition'')
      | Some m \<Rightarrow>
          (let pending = js_pendingCancellation st; current = js_pendingCurrentStepID st;
               boundary = (if current \<noteq> [] then js_pendingStepStartBoundary st else priorTime)
           in case first_error
             [fail_if (m_state m = OperationPaused)
                (ErrInvalidJournalStream (index + 1) ''step entry cannot execute while PAUSED''),
              fail_if (je_OperationState entry \<noteq> m_state m)
                (ErrInvalidJournalStream (index + 1)
                   ''step operationState does not match the current state''),
              fail_if (pending \<noteq> noState \<and> current = [] \<and> CanTransition (m_state m) pending)
                (ErrInvalidJournalStream (index + 1) ''step follows a cancellation-safe boundary''),
              fail_if (pending \<noteq> noState \<and> current \<noteq> [] \<and> jt_ID step \<noteq> current)
                (ErrInvalidJournalStream (index + 1)
                   ''cancellation request does not match the in-flight step''),
              fail_if (pending \<noteq> noState \<and> current \<noteq> [] \<and>
                       time_After (jt_StartedAt step) (js_pendingRequestedAt st))
                (ErrInvalidJournalStream (index + 1)
                   ''matched step started after the cancellation request''),
              fail_if (time_Before (jt_StartedAt step) boundary)
                (ErrInvalidJournalStream (index + 1)
                   ''step started before the current journal boundary''),
              fail_if (jt_ID step \<in> set (js_completed st))
                (ErrInvalidJournalStream (index + 1) ''step attempt follows a DONE outcome''),
              fail_if (jt_Attempt step \<noteq> js_attempts st (jt_ID step) + 1)
                (ErrInvalidJournalStream (index + 1)
                   ''step attempts must start at 1 and increment without gaps'')]
           of Some e \<Rightarrow> Inl e
            | None \<Rightarrow>
                Inr (record_step st step)))"

definition journal_prologue ::
  "nat \<Rightarrow> string \<Rightarrow> string \<Rightarrow> string \<Rightarrow> journal_state \<Rightarrow> JournalEntry \<Rightarrow> journal_error option" where
  "journal_prologue index operationID planID contractHash st entry =
     first_error
       [map_option (ErrInvalidJournalStreamEntry (index + 1)) (ValidateJournalEntry entry),
        fail_if (je_Sequence entry \<noteq> of_nat (index + 1))
          (ErrInvalidJournalStream (index + 1) ''sequence must be contiguous and start at 1''),
        fail_if (je_OperationID entry \<noteq> operationID \<or> je_PlanID entry \<noteq> planID \<or>
                 je_ContractHash entry \<noteq> contractHash)
          (ErrInvalidJournalStream (index + 1)
             ''operationId, planId, and contractHash must remain constant''),
        fail_if (\<not> time_IsZero (js_previousTime st) \<and>
                 time_Before (je_RecordedAt entry) (js_previousTime st))
          (ErrInvalidJournalStream (index + 1) ''recordedAt must not move backwards''),
        fail_if (case js_machine st of None \<Rightarrow> False | Some m \<Rightarrow> OperationState_Terminal (m_state m))
          (ErrInvalidJournalStream (index + 1) ''entry follows a terminal transition'')]"

text \<open>
  One iteration. The entry passed \<open>ValidateJournalEntry\<close>, so a request or step entry carries its
  data; the code dereferences the pointer there.
\<close>

definition journal_entry ::
  "string \<Rightarrow> string \<Rightarrow> string \<Rightarrow> nat \<Rightarrow> journal_state \<Rightarrow> JournalEntry \<Rightarrow>
     journal_error + journal_state" where
  "journal_entry operationID planID contractHash index st entry =
     (case journal_prologue index operationID planID contractHash st entry of
        Some e \<Rightarrow> Inl e
      | None \<Rightarrow>
          (let priorTime = js_previousTime st;
               st' = st\<lparr>js_previousTime := je_RecordedAt entry\<rparr>
           in if je_Kind entry = JournalEntryCancellationRequest then
                (case je_Cancellation entry of
                   None \<Rightarrow> Inr st'
                 | Some request \<Rightarrow> journal_cancellation index priorTime st' entry request)
              else if je_Kind entry = JournalEntryTransition then
                journal_transition index operationID planID st' entry
              else (case je_Step entry of
                      None \<Rightarrow> Inr st'
                    | Some step \<Rightarrow> journal_step_entry index priorTime st' entry step)))"

definition journal_replay :: "JournalEntry list \<Rightarrow> journal_error + journal_state" where
  "journal_replay entries =
     (case entries of
        [] \<Rightarrow> Inl (ErrInvalidJournalStream 0 ''must contain the initial DISCOVER transition'')
      | e # _ \<Rightarrow>
          range_loop (journal_entry (je_OperationID e) (je_PlanID e) (je_ContractHash e))
            0 journal_init entries)"

definition ValidateJournal :: "JournalEntry list \<Rightarrow> journal_error option" where
  "ValidateJournal entries =
     (case journal_replay entries of Inl e \<Rightarrow> Some e | Inr _ \<Rightarrow> None)"

subsection \<open>Object names\<close>

definition to_lower :: "char \<Rightarrow> char" where
  "to_lower c = (if is_upper c then char_of (of_char c + 32 :: nat) else c)"

definition journalEntryID :: "JournalEntry \<Rightarrow> string" where
  "journalEntryID entry =
     (if je_Kind entry = JournalEntryStep then
        (case je_Step entry of Some step \<Rightarrow> jt_ID step | None \<Rightarrow> [])
      else if je_Kind entry = JournalEntryCancellationRequest then ''cancellation-request''
      else ''state-'' @ map to_lower (map (\<lambda>c. if c = CHR ''_'' then CHR ''-'' else c)
             (OperationState_string (je_OperationState entry))))"

definition JournalObjectName :: "JournalEntry \<Rightarrow> journal_error + string" where
  "JournalObjectName entry =
     (case ValidateJournalEntry entry of
        Some e \<Rightarrow> Inl e
      | None \<Rightarrow> Inr (pad20 (unat (je_Sequence entry)) @ ''-'' @ journalEntryID entry @ ''.json''))"

text \<open>\<open>EncodeJournalEntry\<close>; \<open>marshal\<close> is \<open>json.Marshal\<close>.\<close>

definition EncodeJournalEntry ::
  "(JournalEntry \<Rightarrow> string option) \<Rightarrow> JournalEntry \<Rightarrow> journal_error + string" where
  "EncodeJournalEntry marshal entry =
     (case ValidateJournalEntry entry of
        Some e \<Rightarrow> Inl e
      | None \<Rightarrow>
          (case marshal entry of
             None \<Rightarrow> Inl (ErrInvalidJournalEntry ''encode'' ''json'')
           | Some encoded \<Rightarrow> Inr encoded))"

subsection \<open>What an accepted entry does\<close>

text \<open>The entry records that a mutation happened or may have happened.\<close>

definition entry_mutation :: "JournalEntry \<Rightarrow> bool" where
  "entry_mutation e \<longleftrightarrow>
     (case je_Step e of None \<Rightarrow> False | Some s \<Rightarrow> jt_MutationOccurred s \<or> jt_Outcome s = StepUnknown) \<or>
     (case je_Pause e of None \<Rightarrow> False | Some p \<Rightarrow> jp_MutationOccurred p) \<or>
     (case je_Cancellation e of None \<Rightarrow> False | Some c \<Rightarrow> jc_MutationObservation c \<noteq> MutationNotOccurred)"

definition entry_ok :: "string \<Rightarrow> string \<Rightarrow> string \<Rightarrow> nat \<Rightarrow> journal_state \<Rightarrow> JournalEntry \<Rightarrow> bool" where
  "entry_ok operationID planID contractHash i st e \<longleftrightarrow>
     ValidateJournalEntry e = None \<and> je_Sequence e = of_nat (i + 1) \<and>
     je_OperationID e = operationID \<and> je_PlanID e = planID \<and> je_ContractHash e = contractHash \<and>
     (time_IsZero (js_previousTime st) \<or> t_ns (js_previousTime st) \<le> t_ns (je_RecordedAt e)) \<and>
     (\<forall>m. js_machine st = Some m \<longrightarrow> \<not> OperationState_Terminal (m_state m))"

lemma journal_prologue_None:
  "journal_prologue i op plan h st e = None \<longleftrightarrow> entry_ok op plan h i st e"
  by (auto simp: journal_prologue_def entry_ok_def time_Before_def not_less split: option.splits)

lemma entry_kinds:
  "ValidateJournalEntry e = None \<Longrightarrow>
     (je_Kind e = JournalEntryTransition \<and> je_Step e = None \<and> je_Cancellation e = None \<and>
        (je_Pause e \<noteq> None \<longleftrightarrow> je_OperationState e = OperationPaused)) \<or>
     (je_Kind e = JournalEntryStep \<and> je_Pause e = None \<and> je_Cancellation e = None \<and>
        (\<exists>s. je_Step e = Some s \<and> validateJournalStep s (je_RecordedAt e) = None)) \<or>
     (je_Kind e = JournalEntryCancellationRequest \<and> je_Pause e = None \<and> je_Step e = None \<and>
        (\<exists>c. je_Cancellation e = Some c \<and>
           jc_RequiredRoute c = cancellation_route_for (jc_MutationObservation c)))"
  by (cases "je_Kind e")
     (auto simp: ValidateJournalEntry_def validate_entry_kind_def validateJournalCancellation_def
       JournalEntryKind_Valid_def journalEntryKind_registry_def split: option.splits if_splits)

lemma entry_valid_facts:
  "ValidateJournalEntry e = None \<Longrightarrow>
     operationIDPattern (je_OperationID e) \<and> planIDPattern (je_PlanID e) \<and>
     OperationState_Valid (je_OperationState e) \<and> t_ns (je_RecordedAt e) \<noteq> 0 \<and>
     je_OperationState e \<noteq> noState"
  by (auto simp: ValidateJournalEntry_def validateJournalTime_def time_IsZero_def)

lemma validateJournalStep_id: "validateJournalStep s t = None \<Longrightarrow> identifierPattern (jt_ID s)"
  by (simp add: validateJournalStep_def)

subsubsection \<open>Request entries\<close>

abbreviation at_entry :: "journal_state \<Rightarrow> JournalEntry \<Rightarrow> journal_state" where
  "at_entry st e \<equiv> st\<lparr>js_previousTime := je_RecordedAt e\<rparr>"

lemma journal_request_Inr:
  assumes "entry_ok op plan h i st e" "je_Kind e = JournalEntryCancellationRequest"
    and "journal_entry op plan h i st e = Inr st'"
  shows "\<exists>m r. js_machine st = Some m \<and> je_Cancellation e = Some r \<and> je_Step e = None \<and>
     je_Pause e = None \<and> je_OperationState e = m_state m \<and> js_pendingCancellation st = noState \<and>
     \<not> (js_mutationMayHaveOccurred st \<and> jc_MutationObservation r = MutationNotOccurred) \<and>
     jc_RequiredRoute r = cancellation_route_for (jc_MutationObservation r) \<and>
     cancellationRouteReachable (m_state m) (jc_RequiredRoute r) \<and> 
     st' = record_request (js_previousTime st) (at_entry st e) r"
proof -
  from assms(1) have "ValidateJournalEntry e = None" by (simp add: entry_ok_def)
  from entry_kinds [OF this] assms(2) obtain r where r: "je_Cancellation e = Some r" "je_Pause e = None"
    "je_Step e = None" "jc_RequiredRoute r = cancellation_route_for (jc_MutationObservation r)"
    by auto
  with assms show ?thesis
    by (auto simp: journal_entry_def journal_prologue_None [THEN iffD2, OF assms(1)] Let_def
        journal_cancellation_def guarded_Inr
        split: option.splits)
qed

subsubsection \<open>Step entries\<close>

lemma journal_step_Inr:
  assumes "entry_ok op plan h i st e" "je_Kind e = JournalEntryStep"
    and "journal_entry op plan h i st e = Inr st'"
  shows "\<exists>m s. js_machine st = Some m \<and> je_Step e = Some s \<and> je_Cancellation e = None \<and>
     je_Pause e = None \<and> je_OperationState e = m_state m \<and> m_state m \<noteq> OperationPaused \<and>
     jt_ID s \<notin> set (js_completed st) \<and> jt_Attempt s = js_attempts st (jt_ID s) + 1 \<and>
     \<not> (js_pendingCancellation st \<noteq> noState \<and> js_pendingCurrentStepID st = [] \<and>
        CanTransition (m_state m) (js_pendingCancellation st)) \<and>
     st' = record_step (at_entry st e) s"
proof -
  from assms(1) have "ValidateJournalEntry e = None" by (simp add: entry_ok_def)
  from entry_kinds [OF this] assms(2) obtain s where s: "je_Step e = Some s" "je_Pause e = None"
    "je_Cancellation e = None" by auto
  let ?st = "st\<lparr>js_previousTime := je_RecordedAt e\<rparr>"
  from assms(2,3) s have run: "journal_step_entry i (js_previousTime st) ?st e s = Inr st'"
    by (simp add: journal_entry_def journal_prologue_None [THEN iffD2, OF assms(1)] Let_def)
  then obtain m where m: "js_machine st = Some m"
    by (cases "js_machine st") (simp_all add: journal_step_entry_def)
  from run m show ?thesis
    unfolding journal_step_entry_def Let_def
    by (simp add: guarded_Inr s)
qed

subsubsection \<open>Transition entries\<close>

lemma journal_machine_transition_ok:
  "journal_machine_transition m nxt = (Some m', None) \<longleftrightarrow>
     machine_step m (nxt = OperationCancelled) nxt m'"
  by (simp add: journal_machine_transition_def Machine_Transition_def machine_step_iff)

lemma journal_machine_transition_not_nil:
  "journal_machine_transition m nxt \<noteq> (None, None)"
  by (auto simp: journal_machine_transition_def Machine_Transition_def Machine_transition.simps)

lemma transition_guards_None:
  "transition_guards i st m e = None \<Longrightarrow>
     (js_pendingCancellation st \<noteq> noState \<longrightarrow>
        CanTransition (m_state m) (js_pendingCancellation st) \<longrightarrow>
        je_OperationState e = js_pendingCancellation st) \<and>
     (m_state m = OperationPaused \<longrightarrow>
        (\<exists>p. js_paused st = Some p \<and>
           (je_OperationState e = OperationDiscover \<longrightarrow>
              time_Before (je_RecordedAt e) (jp_ResumeBy p) \<and> \<not> jp_ReapprovalRequired p))) \<and>
     (je_OperationState e = OperationCancelled \<longrightarrow> \<not> js_mutationMayHaveOccurred st)"
  by (auto simp: transition_guards_def split: if_splits option.splits)

lemma journal_initial_Inr:
  assumes "entry_ok op plan h i st e" "je_Kind e = JournalEntryTransition" "js_machine st = None"
    and "journal_entry op plan h i st e = Inr st'"
  shows "\<exists>m. NewMachine op plan = Inr m \<and> je_OperationState e = OperationDiscover \<and>
     st' = st\<lparr>js_previousTime := je_RecordedAt e, js_machine := Some m\<rparr>"
  using assms
  by (auto simp: journal_entry_def journal_prologue_None [THEN iffD2, OF assms(1)] Let_def
      journal_transition_def split: sum.splits if_splits)

lemma record_pause_Inr:
  "record_pause i st e = Inr st' \<Longrightarrow> je_Step e = None \<Longrightarrow> je_Cancellation e = None \<Longrightarrow>
     js_machine st' = js_machine st \<and> js_previousTime st' = js_previousTime st \<and>
     js_attempts st' = js_attempts st \<and> js_completed st' = js_completed st \<and>
     js_mutationMayHaveOccurred st' = (js_mutationMayHaveOccurred st \<or> entry_mutation e) \<and>
     js_paused st' = je_Pause e \<and>
     js_pendingCurrentStepID st' = js_pendingCurrentStepID st \<and>
     (js_mutationMayHaveOccurred st \<and> je_Pause e \<noteq> None \<longrightarrow> entry_mutation e) \<and>
     js_pendingCancellation st' =
       (if js_pendingCancellation st \<noteq> noState \<and> je_Pause e \<noteq> None \<and>
           (js_mutationMayHaveOccurred st \<or> entry_mutation e)
        then OperationRollback else js_pendingCancellation st)"
  by (auto simp: record_pause_def entry_mutation_def Let_def split: option.splits if_splits)

lemma settle_pending_Inr:
  "settle_pending i st m e = Inr st' \<Longrightarrow>
     js_machine st' = js_machine st \<and> js_previousTime st' = js_previousTime st \<and>
     js_attempts st' = js_attempts st \<and> js_completed st' = js_completed st \<and>
     js_mutationMayHaveOccurred st' = js_mutationMayHaveOccurred st \<and>
     js_pendingCancellation st' =
       (if je_OperationState e = js_pendingCancellation st then noState
        else js_pendingCancellation st) \<and>
     (js_pendingCancellation st' \<noteq> noState \<longrightarrow>
        cancellationRouteReachable (m_state m) (js_pendingCancellation st')) \<and>
     (js_pendingCancellation st \<noteq> noState \<longrightarrow> js_pendingCurrentStepID st' = []) \<and>
     (js_pendingCancellation st = noState \<longrightarrow>
        js_pendingCurrentStepID st' \<in> {[], js_pendingCurrentStepID st})"
  by (auto simp: settle_pending_def clear_pending_step_def split: if_splits)

lemma journal_transition_Inr:
  assumes "entry_ok op plan h i st e" "je_Kind e = JournalEntryTransition" "js_machine st = Some m"
    and "journal_entry op plan h i st e = Inr st'"
  shows "\<exists>m'. machine_step m (je_OperationState e = OperationCancelled) (je_OperationState e) m' \<and>
     je_Step e = None \<and> je_Cancellation e = None \<and>
     transition_guards i st m e = None \<and>
     js_machine st' = Some m' \<and> js_previousTime st' = je_RecordedAt e \<and>
     js_attempts st' = js_attempts st \<and> js_completed st' = js_completed st \<and>
     js_mutationMayHaveOccurred st' = (js_mutationMayHaveOccurred st \<or> entry_mutation e) \<and>
     js_paused st' = je_Pause e \<and>
     (if je_OperationState e = js_pendingCancellation st then js_pendingCancellation st' = noState
      else if js_pendingCancellation st = noState then js_pendingCancellation st' = noState
      else cancellationRouteReachable (m_state m') (js_pendingCancellation st) \<and>
        js_pendingCancellation st' =
          (if je_Pause e \<noteq> None \<and> (js_mutationMayHaveOccurred st \<or> entry_mutation e)
           then OperationRollback else js_pendingCancellation st))"
proof -
  let ?st = "st\<lparr>js_previousTime := je_RecordedAt e\<rparr>"
  from assms(1) have "ValidateJournalEntry e = None" by (simp add: entry_ok_def)
  from entry_kinds [OF this] assms(2) have absent: "je_Step e = None" "je_Cancellation e = None"
    by auto
  have same: "transition_guards i ?st m e = transition_guards i st m e"
    by (simp add: transition_guards_def)
  from assms(2-4) have tr: "journal_transition i op plan ?st e = Inr st'"
    by (simp add: journal_entry_def journal_prologue_None [THEN iffD2, OF assms(1)] Let_def)
  then have guards: "transition_guards i st m e = None"
    using assms(3) same by (auto simp: journal_transition_def guarded_Inr)
  obtain m' where m': "journal_machine_transition m (je_OperationState e) = (Some m', None)"
    using tr assms(3) journal_machine_transition_not_nil [of m "je_OperationState e"]
    by (auto simp: journal_transition_def guarded_Inr split: prod.splits option.splits)
  then obtain u where u: "settle_pending i (?st\<lparr>js_machine := Some m'\<rparr>) m' e = Inr u"
    and rp: "record_pause i u e = Inr st'"
    using tr assms(3) by (auto simp: journal_transition_def guarded_Inr split: sum.splits)
  show ?thesis
    using settle_pending_Inr [OF u] record_pause_Inr [OF rp absent] m' guards absent
    by (intro exI [of _ m']) (auto simp: journal_machine_transition_ok split: if_splits)
qed

subsubsection \<open>The cases of an accepted entry\<close>

lemma journal_entry_cases [consumes 1, case_names initial request step transition]:
  assumes "journal_entry op plan h i st e = Inr st'"
  obtains m where "entry_ok op plan h i st e" "js_machine st = None"
      "je_Kind e = JournalEntryTransition" "NewMachine op plan = Inr m"
      "je_OperationState e = OperationDiscover" "je_Step e = None" "je_Cancellation e = None"
      "je_Pause e = None" "st' = (at_entry st e)\<lparr>js_machine := Some m\<rparr>"
    | m r where "entry_ok op plan h i st e" "js_machine st = Some m"
      "je_Kind e = JournalEntryCancellationRequest" "je_Cancellation e = Some r" "je_Step e = None"
      "je_Pause e = None" "je_OperationState e = m_state m" "js_pendingCancellation st = noState"
      "\<not> (js_mutationMayHaveOccurred st \<and> jc_MutationObservation r = MutationNotOccurred)"
      "jc_RequiredRoute r = cancellation_route_for (jc_MutationObservation r)"
      "cancellationRouteReachable (m_state m) (jc_RequiredRoute r)"
      "st' = record_request (js_previousTime st) (at_entry st e) r"
    | m s where "entry_ok op plan h i st e" "js_machine st = Some m"
      "je_Kind e = JournalEntryStep" "je_Step e = Some s" "je_Cancellation e = None"
      "je_Pause e = None" "je_OperationState e = m_state m" "m_state m \<noteq> OperationPaused"
      "jt_ID s \<notin> set (js_completed st)" "jt_Attempt s = js_attempts st (jt_ID s) + 1"
      "st' = record_step (at_entry st e) s"
    | m m' where "entry_ok op plan h i st e" "js_machine st = Some m"
      "je_Kind e = JournalEntryTransition" "je_Step e = None" "je_Cancellation e = None"
      "je_Pause e \<noteq> None \<longleftrightarrow> je_OperationState e = OperationPaused"
      "machine_step m (je_OperationState e = OperationCancelled) (je_OperationState e) m'"
      "transition_guards i st m e = None"
      "js_machine st' = Some m'" "js_previousTime st' = je_RecordedAt e"
      "js_attempts st' = js_attempts st" "js_completed st' = js_completed st"
      "js_mutationMayHaveOccurred st' = (js_mutationMayHaveOccurred st \<or> entry_mutation e)"
      "js_paused st' = je_Pause e"
      "if je_OperationState e = js_pendingCancellation st then js_pendingCancellation st' = noState
       else if js_pendingCancellation st = noState then js_pendingCancellation st' = noState
       else cancellationRouteReachable (m_state m') (js_pendingCancellation st) \<and>
         js_pendingCancellation st' =
           (if je_Pause e \<noteq> None \<and> (js_mutationMayHaveOccurred st \<or> entry_mutation e)
            then OperationRollback else js_pendingCancellation st)"
proof -
  have ok: "entry_ok op plan h i st e"
    using assms by (simp add: journal_entry_def guarded_Inr journal_prologue_None)
  then have valid: "ValidateJournalEntry e = None" by (simp add: entry_ok_def)
  consider (t) "je_Kind e = JournalEntryTransition" | (s) "je_Kind e = JournalEntryStep"
    | (r) "je_Kind e = JournalEntryCancellationRequest"
    using entry_kinds [OF valid] by blast
  then show thesis
  proof cases
    case t
    with entry_kinds [OF valid] have absent: "je_Step e = None" "je_Cancellation e = None"
      "je_Pause e \<noteq> None \<longleftrightarrow> je_OperationState e = OperationPaused" by auto
    show ?thesis
    proof (cases "js_machine st")
      case None
      from journal_initial_Inr [OF ok t None assms] absent ok None t that(1) show ?thesis
        by auto
    next
      case (Some m)
      from journal_transition_Inr [OF ok t Some assms] obtain m' where m':
        "machine_step m (je_OperationState e = OperationCancelled) (je_OperationState e) m'"
        "transition_guards i st m e = None"
        "js_machine st' = Some m'" "js_previousTime st' = je_RecordedAt e"
        "js_attempts st' = js_attempts st" "js_completed st' = js_completed st"
        "js_mutationMayHaveOccurred st' = (js_mutationMayHaveOccurred st \<or> entry_mutation e)"
        "js_paused st' = je_Pause e"
        "if je_OperationState e = js_pendingCancellation st then js_pendingCancellation st' = noState
         else if js_pendingCancellation st = noState then js_pendingCancellation st' = noState
         else cancellationRouteReachable (m_state m') (js_pendingCancellation st) \<and>
           js_pendingCancellation st' =
             (if je_Pause e \<noteq> None \<and> (js_mutationMayHaveOccurred st \<or> entry_mutation e)
              then OperationRollback else js_pendingCancellation st)" by blast
      show ?thesis by (rule that(4) [OF ok Some t absent m'])
    qed
  next
    case s
    from journal_step_Inr [OF ok s assms] ok s that(3) show ?thesis by blast
  next
    case r
    from journal_request_Inr [OF ok r assms] ok r that(2) show ?thesis by blast
  qed
qed

text \<open>The loop of \<open>ValidateJournal\<close> on the entries it was given.\<close>

definition journal_loop :: "JournalEntry list \<Rightarrow> JournalEntry list \<Rightarrow> journal_error + journal_state" where
  "journal_loop entries xs =
     range_loop (journal_entry (je_OperationID (hd entries)) (je_PlanID (hd entries))
       (je_ContractHash (hd entries))) 0 journal_init xs"

lemma ValidateJournal_None:
  "ValidateJournal entries = None \<longleftrightarrow> entries \<noteq> [] \<and> (\<exists>st. journal_loop entries entries = Inr st)"
  by (cases entries)
     (auto simp: ValidateJournal_def journal_replay_def journal_loop_def split: sum.splits)

lemma journal_loop_induct [consumes 1, case_names init step]:
  assumes "journal_loop entries xs = Inr t"
    and "P [] journal_init"
    and "\<And>ys y u v. journal_loop entries ys = Inr u \<Longrightarrow> P ys u \<Longrightarrow>
      journal_entry (je_OperationID (hd entries)) (je_PlanID (hd entries))
        (je_ContractHash (hd entries)) (length ys) u y = Inr v \<Longrightarrow> P (ys @ [y]) v"
  shows "P xs t"
  using assms(1) unfolding journal_loop_def
  by (rule range_loop_induct [of _ _ _ _ P]) (use assms(2,3) in \<open>simp_all add: journal_loop_def\<close>)

lemma journal_entry_ok:
  "journal_entry op plan h i st e = Inr st' \<Longrightarrow> entry_ok op plan h i st e"
  by (cases rule: journal_entry_cases)

lemma journal_init_simps [simp]:
  "js_machine journal_init = None" "js_previousTime journal_init = time_zero"
  "js_attempts journal_init = (\<lambda>_. 0)" "js_completed journal_init = []"
  "\<not> js_mutationMayHaveOccurred journal_init" "js_paused journal_init = None"
  "js_pendingCancellation journal_init = noState"
  by (simp_all add: journal_init_def)

lemma record_request_simps [simp]:
  "js_machine (record_request t st r) = js_machine st"
  "js_previousTime (record_request t st r) = js_previousTime st"
  "js_attempts (record_request t st r) = js_attempts st"
  "js_completed (record_request t st r) = js_completed st"
  "js_mutationMayHaveOccurred (record_request t st r) \<longleftrightarrow>
     js_mutationMayHaveOccurred st \<or> jc_MutationObservation r \<noteq> MutationNotOccurred"
  "js_paused (record_request t st r) = js_paused st"
  "js_pendingCancellation (record_request t st r) = jc_RequiredRoute r"
  by (simp_all add: record_request_def)

lemma record_step_simps [simp]:
  "js_machine (record_step st s) = js_machine st"
  "js_previousTime (record_step st s) = js_previousTime st"
  "js_attempts (record_step st s) = (js_attempts st)(jt_ID s := jt_Attempt s)"
  "js_completed (record_step st s) =
     (if jt_Outcome s = StepDone then jt_ID s # js_completed st else js_completed st)"
  "js_mutationMayHaveOccurred (record_step st s) \<longleftrightarrow>
     js_mutationMayHaveOccurred st \<or> jt_MutationOccurred s \<or> jt_Outcome s = StepUnknown"
  "js_paused (record_step st s) = js_paused st"
  "js_pendingCancellation (record_step st s) =
     (if js_pendingCancellation st \<noteq> noState \<and>
         (js_mutationMayHaveOccurred st \<or> jt_MutationOccurred s \<or> jt_Outcome s = StepUnknown)
      then OperationRollback else js_pendingCancellation st)"
  by (simp_all add: record_step_def clear_pending_step_def Let_def)

subsection \<open>Invariants of the replay\<close>

lemma sorted_map_snoc:
  "sorted (map f xs @ [f y]) \<longleftrightarrow> sorted (map f xs) \<and> (xs = [] \<or> f (last xs) \<le> f y)"
  for f :: "'a \<Rightarrow> int"
  by (cases xs rule: rev_cases) (auto simp: sorted_append)

lemma journal_entry_time:
  "journal_entry op plan h i st e = Inr st' \<Longrightarrow> js_previousTime st' = je_RecordedAt e"
  by (cases rule: journal_entry_cases) auto

lemma journal_headers:
  "journal_loop entries xs = Inr st \<Longrightarrow>
     (\<forall>k < length xs. ValidateJournalEntry (xs ! k) = None \<and> je_Sequence (xs ! k) = of_nat (k + 1) \<and>
        je_OperationID (xs ! k) = je_OperationID (hd entries) \<and>
        je_PlanID (xs ! k) = je_PlanID (hd entries) \<and>
        je_ContractHash (xs ! k) = je_ContractHash (hd entries)) \<and>
     sorted (map (\<lambda>e. t_ns (je_RecordedAt e)) xs) \<and>
     js_previousTime st = (if xs = [] then time_zero else je_RecordedAt (last xs))"
proof (induction rule: journal_loop_induct)
  case init
  then show ?case by simp
next
  case (step ys y u v)
  note ok = journal_entry_ok [OF step.hyps(2), unfolded entry_ok_def]
  have "ys \<noteq> [] \<Longrightarrow> t_ns (js_previousTime u) \<noteq> 0"
    using step.IH entry_valid_facts [of "last ys"] by (auto simp: last_conv_nth)
  with step.IH ok have "ys = [] \<or> t_ns (je_RecordedAt (last ys)) \<le> t_ns (je_RecordedAt y)"
    by (auto simp: time_IsZero_def split: if_splits)
  with step.IH ok show ?case
    by (auto simp: less_Suc_eq nth_append journal_entry_time [OF step.hyps(2)]
        sorted_map_snoc [of "\<lambda>e. t_ns (je_RecordedAt e)", simplified])
qed

text \<open>The transitions a journal records after its first entry.\<close>

definition journal_events :: "JournalEntry list \<Rightarrow> (bool \<times> OperationState) list" where
  "journal_events entries =
     map (\<lambda>e. (je_OperationState e = OperationCancelled, je_OperationState e))
       (filter (\<lambda>e. je_Kind e = JournalEntryTransition) (tl entries))"

lemma journal_events_snoc:
  "ys \<noteq> [] \<Longrightarrow> journal_events (ys @ [e]) =
     journal_events ys @
       (if je_Kind e = JournalEntryTransition
        then [(je_OperationState e = OperationCancelled, je_OperationState e)] else [])"
  by (simp add: journal_events_def)

lemma journal_machine:
  "journal_loop entries xs = Inr st \<Longrightarrow>
     (xs = [] \<longleftrightarrow> js_machine st = None) \<and>
     (xs \<noteq> [] \<longrightarrow> je_Kind (hd xs) = JournalEntryTransition \<and>
        (\<exists>m0 m. NewMachine (je_OperationID (hd entries)) (je_PlanID (hd entries)) = Inr m0 \<and>
           js_machine st = Some m \<and> machine_run m0 (journal_events xs) m \<and>
           m_state m = je_OperationState (last xs)))"
proof (induction rule: journal_loop_induct)
  case init
  then show ?case by simp
next
  case (step ys y u v)
  note IH = step.IH
  from step.hyps(2) show ?case
  proof (cases rule: journal_entry_cases)
    case (initial m)
    with IH have ys: "ys = []" by simp
    show ?thesis
      using initial by (auto simp: ys journal_events_def NewMachine_ok intro: machine_run.run_nil)
  next
    case (transition m m')
    with IH obtain m0 where "ys \<noteq> []" "je_Kind (hd ys) = JournalEntryTransition"
      "NewMachine (je_OperationID (hd entries)) (je_PlanID (hd entries)) = Inr m0"
      "machine_run m0 (journal_events ys) m" by auto
    with transition show ?thesis
      by (auto simp: journal_events_snoc machine_step_facts intro: machine_run.run_snoc)
  next
    case (request m r)
    with IH show ?thesis by (auto simp: journal_events_snoc)
  next
    case (step m s)
    with IH show ?thesis by (auto simp: journal_events_snoc)
  qed
qed

text \<open>The state before each later entry.\<close>

lemma journal_steps:
  "journal_loop entries xs = Inr st \<Longrightarrow> Suc k < length xs \<Longrightarrow>
     \<not> OperationState_Terminal (je_OperationState (xs ! k)) \<and>
     (if je_Kind (xs ! Suc k) = JournalEntryTransition
      then CanTransition (je_OperationState (xs ! k)) (je_OperationState (xs ! Suc k))
      else je_OperationState (xs ! Suc k) = je_OperationState (xs ! k))"
proof (induction arbitrary: k rule: journal_loop_induct)
  case init
  then show ?case by simp
next
  case (step ys y u v)
  show ?case
  proof (cases "Suc k < length ys")
    case True
    with step.IH show ?thesis by (simp add: nth_append)
  next
    case False
    with step.prems have k: "Suc k = length ys" by simp
    then have len: "length ys = Suc k" by simp
    then have ne: "ys \<noteq> []" by auto
    with len have ys: "ys ! k = last ys" by (simp add: last_conv_nth)
    from journal_machine [OF step.hyps(1)] ne obtain m where m: "js_machine u = Some m"
      "m_state m = je_OperationState (last ys)" by auto
    note ok = journal_entry_ok [OF step.hyps(2), unfolded entry_ok_def]
    have live: "\<not> OperationState_Terminal (je_OperationState (last ys))" using ok m by auto
    from step.hyps(2) show ?thesis
    proof (cases rule: journal_entry_cases)
      case (transition m1 m')
      with machine_step_facts [OF transition(7)] m k ys live show ?thesis by (simp add: nth_append)
    qed (use m k ys live in \<open>simp_all add: nth_append\<close>)
  qed
qed

lemma journal_mutation:
  "journal_loop entries xs = Inr st \<Longrightarrow>
     js_mutationMayHaveOccurred st = (\<exists>e \<in> set xs. entry_mutation e) \<and>
     (\<forall>k < length xs. je_Kind (xs ! k) = JournalEntryTransition \<and>
        je_OperationState (xs ! k) = OperationCancelled \<longrightarrow>
        \<not> (\<exists>e \<in> set (take (Suc k) xs). entry_mutation e))"
proof (induction rule: journal_loop_induct)
  case init
  then show ?case by simp
next
  case (step ys y u v)
  from step.hyps(2) have "js_mutationMayHaveOccurred v = (js_mutationMayHaveOccurred u \<or> entry_mutation y)"
    by (cases rule: journal_entry_cases) (auto simp: entry_mutation_def)
  moreover have "je_Kind y = JournalEntryTransition \<Longrightarrow> je_OperationState y = OperationCancelled \<Longrightarrow>
      \<not> js_mutationMayHaveOccurred u \<and> \<not> entry_mutation y"
    using step.hyps(2)
    by (cases rule: journal_entry_cases) (auto dest: transition_guards_None simp: entry_mutation_def)
  ultimately show ?case
    using step.IH by (auto simp: less_Suc_eq nth_append)
qed

subsubsection \<open>Attempts\<close>

definition steps_of :: "string \<Rightarrow> JournalEntry list \<Rightarrow> JournalStep list" where
  "steps_of sid entries =
     concat (map (\<lambda>e. case je_Step e of
        None \<Rightarrow> [] | Some s \<Rightarrow> if jt_ID s = sid then [s] else []) entries)"

lemma steps_of_snoc:
  "steps_of sid (ys @ [e]) = steps_of sid ys @
     (case je_Step e of None \<Rightarrow> [] | Some s \<Rightarrow> if jt_ID s = sid then [s] else [])"
  by (simp add: steps_of_def)

lemma journal_attempts:
  "journal_loop entries xs = Inr st \<Longrightarrow>
     js_attempts st sid = of_nat (length (steps_of sid xs)) \<and>
     (sid \<in> set (js_completed st) \<longleftrightarrow> (\<exists>s \<in> set (steps_of sid xs). jt_Outcome s = StepDone)) \<and>
     (\<forall>k < length (steps_of sid xs). jt_Attempt (steps_of sid xs ! k) = of_nat (k + 1) \<and>
        (jt_Outcome (steps_of sid xs ! k) = StepDone \<longrightarrow> Suc k = length (steps_of sid xs)))"
proof (induction rule: journal_loop_induct)
  case init
  then show ?case by (simp add: steps_of_def)
next
  case (step ys y u v)
  note IH = step.IH
  from step.hyps(2) show ?case
  proof (cases rule: journal_entry_cases)
    case (step m s)
    show ?thesis
    proof (cases "jt_ID s = sid")
      case False
      with step IH show ?thesis by (auto simp: steps_of_snoc)
    next
      case True
      then have fresh: "\<forall>t \<in> set (steps_of sid ys). jt_Outcome t \<noteq> StepDone"
        using step IH by auto
      then have "\<forall>k < length (steps_of sid ys). jt_Outcome (steps_of sid ys ! k) \<noteq> StepDone"
        by (meson nth_mem)
      with fresh True step IH show ?thesis
        by (auto simp: steps_of_snoc less_Suc_eq nth_append)
    qed
  qed (use IH in \<open>auto simp: steps_of_snoc\<close>)
qed

subsubsection \<open>Pauses and pending cancellations\<close>

lemma journal_pause:
  "journal_loop entries xs = Inr st \<Longrightarrow>
     (case js_paused st of
        None \<Rightarrow> \<forall>m. js_machine st = Some m \<longrightarrow> m_state m \<noteq> OperationPaused
      | Some p \<Rightarrow> (\<forall>m. js_machine st = Some m \<longrightarrow> m_state m = OperationPaused) \<and>
          (\<exists>j < length xs. je_Pause (xs ! j) = Some p \<and>
             (\<forall>i. j < i \<and> i < length xs \<longrightarrow>
                je_Kind (xs ! i) = JournalEntryCancellationRequest)))"
proof (induction rule: journal_loop_induct)
  case init
  then show ?case by simp
next
  case (step ys y u v)
  note IH = step.IH
  from step.hyps(2) show ?case
  proof (cases rule: journal_entry_cases)
    case (initial m)
    then have "ys = []" using journal_machine [OF step.hyps(1)] by simp
    with step.hyps(1) initial show ?thesis
      by (auto simp: journal_loop_def NewMachine_ok)
  next
    case (request m r)
    show ?thesis
    proof (cases "js_paused u")
      case None
      with request IH show ?thesis by auto
    next
      case (Some p)
      with request IH obtain j where j: "j < length ys" "je_Pause (ys ! j) = Some p"
        "\<forall>i. j < i \<and> i < length ys \<longrightarrow> je_Kind (ys ! i) = JournalEntryCancellationRequest"
        "m_state m = OperationPaused" by auto
      have "\<exists>j < length (ys @ [y]). je_Pause ((ys @ [y]) ! j) = Some p \<and>
          (\<forall>i. j < i \<and> i < length (ys @ [y]) \<longrightarrow>
             je_Kind ((ys @ [y]) ! i) = JournalEntryCancellationRequest)"
        using j request by (intro exI [of _ j]) (auto simp: nth_append less_Suc_eq)
      with Some request j show ?thesis by auto
    qed
  next
    case (step m s)
    with IH show ?thesis by (auto split: option.splits)
  next
    case (transition m m')
    have "m_state m' = je_OperationState y" using transition machine_step_facts by blast
    with transition show ?thesis
      by (cases "je_Pause y") (auto intro!: exI [of _ "length ys"])
  qed
qed

definition honored_states :: "OperationState list" where
  "honored_states =
     [OperationCancelled, OperationRollback, OperationVerifiedRollback, OperationFailedCleanup]"

lemma honored_closed: "CanTransition s t \<Longrightarrow> s \<in> set honored_states \<Longrightarrow> t \<in> set honored_states"
  by (cases s) (auto simp: CanTransition_iff honored_states_def)

lemma rollback_route_wider:
  "cancellationRouteReachable s OperationCancelled \<Longrightarrow> cancellationRouteReachable s OperationRollback"
  by (auto simp: cancellation_routes)

lemma journal_pending:
  "journal_loop entries xs = Inr st \<Longrightarrow>
     (js_pendingCancellation st = noState \<or>
      js_pendingCancellation st \<in> {OperationCancelled, OperationRollback} \<and>
      (\<exists>m. js_machine st = Some m \<and>
         cancellationRouteReachable (m_state m) (js_pendingCancellation st))) \<and>
     (\<forall>e \<in> set xs. je_Kind e = JournalEntryCancellationRequest \<longrightarrow>
        js_pendingCancellation st \<noteq> noState \<or>
        (\<exists>m. js_machine st = Some m \<and> m_state m \<in> set honored_states))"
proof (induction rule: journal_loop_induct)
  case init
  then show ?case by simp
next
  case (step ys y u v)
  note IH = step.IH
  from step.hyps(2) show ?case
  proof (cases rule: journal_entry_cases)
    case (initial m)
    then have "ys = []" using journal_machine [OF step.hyps(1)] by simp
    with step.hyps(1) initial show ?thesis by (auto simp: journal_loop_def)
  next
    case (request m r)
    then show ?thesis by (auto simp: cancellation_route_for_def)
  next
    case (step m s)
    with IH show ?thesis by (auto intro: rollback_route_wider)
  next
    case (transition m m')
    have m': "m_state m' = je_OperationState y" "CanTransition (m_state m) (m_state m')"
      using machine_step_facts [OF transition(7)] by simp_all
    have "je_OperationState y \<noteq> noState"
      using transition(1) by (auto simp: entry_ok_def dest: entry_valid_facts)
    then show ?thesis
      using IH transition m' honored_closed [OF m'(2)]
      by (auto split: if_splits intro: rollback_route_wider simp: honored_states_def)
  qed
qed

subsection \<open>Properties\<close>

lemma journal_loop_take:
  assumes "journal_loop entries xs = Inr st"
  shows "\<exists>st'. journal_loop entries (take n xs) = Inr st'"
  using assms range_loop_prefix [of _ 0 journal_init "take n xs" "drop n xs" st]
  by (simp add: journal_loop_def)

text \<open>The state of the replay just before the entry at \<open>k\<close>.\<close>

lemma journal_at:
  assumes "ValidateJournal es = None" and "k < length es"
  obtains u v where "journal_loop es (take k es) = Inr u"
    "journal_entry (je_OperationID (hd es)) (je_PlanID (hd es)) (je_ContractHash (hd es)) k u (es ! k) = Inr v"
    "journal_loop es (take (Suc k) es) = Inr v"
proof -
  from assms(1) obtain st where "journal_loop es es = Inr st" by (auto simp: ValidateJournal_None)
  from journal_loop_take [OF this, of "Suc k"] obtain v where
    v: "journal_loop es (take (Suc k) es) = Inr v" ..
  moreover from v obtain u where "journal_loop es (take k es) = Inr u"
    "journal_entry (je_OperationID (hd es)) (je_PlanID (hd es)) (je_ContractHash (hd es)) k u (es ! k) = Inr v"
    using assms(2) by (auto simp: journal_loop_def take_Suc_conv_app_nth range_loop_snoc)
  ultimately show thesis using that by blast
qed

lemma journal_sequence:
  assumes "journal_loop entries xs = Inr st" and "k < length xs"
  shows "unat (je_Sequence (xs ! k)) = k + 1 \<and> k + 1 < 2 ^ 64"
proof -
  note headers = journal_headers [OF assms(1)]
  have seq0: "je_Sequence (xs ! j) \<noteq> 0" if "j < length xs" for j
    using headers that by (auto simp: ValidateJournalEntry_def)
  have "k + 1 < 2 ^ 64"
  proof (rule ccontr)
    assume "\<not> k + 1 < 2 ^ 64"
    then have lt: "2 ^ 64 - 1 < length xs" using assms(2) by simp
    with headers have "je_Sequence (xs ! (2 ^ 64 - 1)) = of_nat (2 ^ 64 - 1 + 1)" by blast
    also have "(of_nat (2 ^ 64 - 1 + 1) :: 64 word) = 0" by simp
    finally show False using seq0 [OF lt] by blast
  qed
  moreover from this have "unat (of_nat (k + 1) :: 64 word) = k + 1"
    by (simp add: unat_of_nat take_bit_nat_eq_self del: of_nat_add of_nat_Suc)
  ultimately show ?thesis using headers assms(2) by auto
qed

text \<open>
  An accepted journal is never empty, its sequence numbers count from one without a gap (so it
  is shorter than 2^64 entries), all entries bind the same operation, plan and contract hash,
  recorded times never go back, and every non-empty prefix of it is itself accepted.
\<close>

theorem ValidateJournal_headers:
  assumes "ValidateJournal es = None"
  shows "es \<noteq> [] \<and> length es < 2 ^ 64 \<and>
     (\<forall>k < length es. unat (je_Sequence (es ! k)) = k + 1 \<and>
        je_OperationID (es ! k) = je_OperationID (es ! 0) \<and>
        je_PlanID (es ! k) = je_PlanID (es ! 0) \<and>
        je_ContractHash (es ! k) = je_ContractHash (es ! 0)) \<and>
     sorted (map (\<lambda>e. t_ns (je_RecordedAt e)) es) \<and>
     (\<forall>n. 0 < n \<longrightarrow> ValidateJournal (take n es) = None)"
proof -
  from assms obtain st where ne: "es \<noteq> []" and run: "journal_loop es es = Inr st"
    by (auto simp: ValidateJournal_None)
  note headers = journal_headers [OF run]
  have len: "length es < 2 ^ 64"
    using journal_sequence [OF run, of "length es - 1"] ne by simp
  have take: "ValidateJournal (take n es) = None" if "0 < n" for n
    using journal_loop_take [OF run, of n] that ne
    by (cases es; cases n) (auto simp: ValidateJournal_None journal_loop_def)
  have hd: "hd es = es ! 0" using ne by (rule hd_conv_nth)
  show ?thesis
    using ne len take headers [unfolded hd] journal_sequence [OF run] by blast
qed

text \<open>
  C3. An accepted journal is the history of one operation machine: it opens with the DISCOVER
  transition, its transitions form a run of a new machine for its operation and plan, every
  entry records the state the machine is then in (a step or request entry keeps the state), and no
  entry follows a terminal state.
\<close>

theorem ValidateJournal_replays:
  assumes "ValidateJournal es = None"
  shows "\<exists>m0 m. NewMachine (je_OperationID (es ! 0)) (je_PlanID (es ! 0)) = Inr m0 \<and>
     machine_run m0 (journal_events es) m \<and> m_state m = je_OperationState (last es) \<and>
     je_Kind (es ! 0) = JournalEntryTransition \<and> je_OperationState (es ! 0) = OperationDiscover \<and>
     (\<forall>k. Suc k < length es \<longrightarrow>
        \<not> OperationState_Terminal (je_OperationState (es ! k)) \<and>
        (if je_Kind (es ! Suc k) = JournalEntryTransition
         then CanTransition (je_OperationState (es ! k)) (je_OperationState (es ! Suc k))
         else je_OperationState (es ! Suc k) = je_OperationState (es ! k)))"
proof -
  from assms obtain st where ne: "es \<noteq> []" and run: "journal_loop es es = Inr st"
    by (auto simp: ValidateJournal_None)
  from ne obtain u v where first: "journal_loop es (take 0 es) = Inr u"
    "journal_entry (je_OperationID (hd es)) (je_PlanID (hd es)) (je_ContractHash (hd es)) 0 u (es ! 0) = Inr v"
    by (metis journal_at [OF assms] length_greater_0_conv)
  then have "je_OperationState (es ! 0) = OperationDiscover"
    by (elim journal_entry_cases) (auto simp: journal_loop_def)
  with journal_machine [OF run] journal_steps [OF run] ne show ?thesis
    by (auto simp: hd_conv_nth)
qed

text \<open>
  C5. An accepted journal reaches CANCELLED only when nothing in it, the cancelling entry included,
  records a mutation or a possible one: no mutating or UNKNOWN step attempt, no mutating pause and
  no cancellation request that could not exclude a mutation.
\<close>

theorem ValidateJournal_cancelled_clean:
  assumes "ValidateJournal es = None" and "je_OperationState (last es) = OperationCancelled"
  shows "\<not> (\<exists>e \<in> set es. entry_mutation e)"
proof -
  from assms(1) obtain st where ne: "es \<noteq> []" and run: "journal_loop es es = Inr st"
    by (auto simp: ValidateJournal_None)
  have "je_Kind (last es) = JournalEntryTransition"
  proof (cases "length es")
    case 0
    with ne show ?thesis by simp
  next
    case (Suc n)
    have last: "last es = es ! n" using ne Suc by (simp add: last_conv_nth)
    show ?thesis
    proof (cases n)
      case 0
      with journal_machine [OF run] ne last show ?thesis by (simp add: hd_conv_nth)
    next
      case (Suc k)
      with journal_steps [OF run, of k] \<open>length es = Suc n\<close> last assms(2) show ?thesis
        by (auto split: if_splits)
    qed
  qed
  moreover have "last es = es ! (length es - 1)" using ne by (rule last_conv_nth)
  ultimately have "\<not> (\<exists>e \<in> set (take (Suc (length es - 1)) es). entry_mutation e)"
    using journal_mutation [OF run] ne assms(2) by (metis diff_less length_greater_0_conv zero_less_one)
  then show ?thesis using ne by simp
qed

text \<open>
  In an accepted journal the attempts of every step are numbered 1, 2, 3, ... in the order they
  were recorded, and only the last attempt of a step can be DONE.
\<close>

theorem ValidateJournal_attempts:
  assumes "ValidateJournal es = None"
  shows "\<forall>k < length (steps_of sid es).
     jt_Attempt (steps_of sid es ! k) = of_nat (k + 1) \<and>
     (jt_Outcome (steps_of sid es ! k) = StepDone \<longrightarrow> k = length (steps_of sid es) - 1)"
proof -
  from assms obtain st where "journal_loop es es = Inr st" by (auto simp: ValidateJournal_None)
  from journal_attempts [OF this, of sid] show ?thesis by auto
qed

text \<open>
  C31. Once an accepted journal records a cancellation request the operation can no longer complete:
  either it already went to CANCELLED or into the rollback, or it is in a state from which the
  cancellation or the rollback can still be reached. If it ended, it ended cancelled, rolled back
  or with a failed cleanup.
\<close>

theorem ValidateJournal_request_honored:
  assumes "ValidateJournal es = None"
    and "e \<in> set es" "je_Kind e = JournalEntryCancellationRequest"
  shows "(je_OperationState (last es) \<in> set honored_states \<or>
      (\<exists>route \<in> {OperationCancelled, OperationRollback}.
         cancellationRouteReachable (je_OperationState (last es)) route)) \<and>
     (OperationState_Terminal (je_OperationState (last es)) \<longrightarrow>
      je_OperationState (last es) \<in>
        {OperationCancelled, OperationVerifiedRollback, OperationFailedCleanup})"
proof -
  from assms obtain st where ne: "es \<noteq> []" and run: "journal_loop es es = Inr st"
    by (auto simp: ValidateJournal_None)
  from journal_machine [OF run] ne obtain m where m: "js_machine st = Some m"
    "m_state m = je_OperationState (last es)" by auto
  from journal_pending [OF run] m assms(2,3)
  have 1: "je_OperationState (last es) \<in> set honored_states \<or>
      (\<exists>route \<in> {OperationCancelled, OperationRollback}.
         cancellationRouteReachable (je_OperationState (last es)) route)"
    by auto
  then show ?thesis by (auto simp: cancellation_routes honored_states_def)
qed

text \<open>
  In an accepted journal an operation comes back to DISCOVER only from a pause, strictly before
  the resume deadline that pause recorded, and only when the pause needs no new approval; between
  the pause and the resumption there are only cancellation requests, so no step ran while paused.
\<close>

theorem ValidateJournal_resume:
  assumes "ValidateJournal es = None" and "Suc k < length es"
    and "je_Kind (es ! Suc k) = JournalEntryTransition"
    and "je_OperationState (es ! Suc k) = OperationDiscover"
  shows "je_OperationState (es ! k) = OperationPaused \<and>
     (\<exists>j p. j \<le> k \<and> je_Pause (es ! j) = Some p \<and>
        (\<forall>i. j < i \<and> i \<le> k \<longrightarrow> je_Kind (es ! i) = JournalEntryCancellationRequest) \<and>
        time_Before (je_RecordedAt (es ! Suc k)) (jp_ResumeBy p) \<and> \<not> jp_ReapprovalRequired p)"
proof -
  from assms(1) obtain st where run: "journal_loop es es = Inr st"
    by (auto simp: ValidateJournal_None)
  from journal_steps [OF run assms(2)] assms(3,4)
  have "CanTransition (je_OperationState (es ! k)) OperationDiscover" by simp
  then have paused: "je_OperationState (es ! k) = OperationPaused"
    by (cases "je_OperationState (es ! k)" rule: transitions.cases) (simp_all add: CanTransition_iff)
  from journal_at [OF assms(1,2)] obtain u v where u: "journal_loop es (take (Suc k) es) = Inr u"
    and entry: "journal_entry (je_OperationID (hd es)) (je_PlanID (hd es)) (je_ContractHash (hd es))
      (Suc k) u (es ! Suc k) = Inr v" by metis
  have last: "last (take (Suc k) es) = es ! k" "take (Suc k) es \<noteq> []"
    using assms(2) by (auto simp: take_Suc_conv_app_nth)
  with journal_machine [OF u] obtain m where m: "js_machine u = Some m" "m_state m = OperationPaused"
    using paused by auto
  from entry obtain p where p: "js_paused u = Some p"
    "time_Before (je_RecordedAt (es ! Suc k)) (jp_ResumeBy p)" "\<not> jp_ReapprovalRequired p"
  proof (cases rule: journal_entry_cases)
    case (transition m1 m')
    with transition_guards_None [OF transition(8)] m assms(4) that show thesis by auto
  qed (use m assms(3) in auto)
  from journal_pause [OF u] p(1) obtain j where j: "j < length (take (Suc k) es)"
    "je_Pause (take (Suc k) es ! j) = Some p"
    "\<forall>i. j < i \<and> i < length (take (Suc k) es) \<longrightarrow>
       je_Kind (take (Suc k) es ! i) = JournalEntryCancellationRequest" by auto
  with paused p assms(2) show ?thesis
    by (intro conjI exI [of _ j] exI [of _ p]) auto
qed

lemma JournalObjectName_Inr:
  "ValidateJournalEntry e = None \<Longrightarrow>
     JournalObjectName e = Inr (pad20 (unat (je_Sequence e)) @ ''-'' @ journalEntryID e @ ''.json'')"
  by (simp add: JournalObjectName_def)

text \<open>
  The object names of an accepted journal sort lexically in the order of its entries, and are
  therefore distinct: listing the objects of an operation by name yields its history.
\<close>

theorem JournalObjectName_sorted:
  assumes "ValidateJournal es = None" and "i < j" "j < length es"
  shows "\<exists>a b. JournalObjectName (es ! i) = Inr a \<and> JournalObjectName (es ! j) = Inr b \<and> a < b"
proof -
  from assms(1) obtain st where run: "journal_loop es es = Inr st"
    by (auto simp: ValidateJournal_None)
  have valid: "ValidateJournalEntry (es ! k) = None" if "k < length es" for k
    using journal_headers [OF run] that by blast
  have "unat w < 10 ^ 20" for w :: "64 word" by (rule less_trans [OF unsigned_less]) simp
  then have "pad20 (unat (je_Sequence (es ! i))) < pad20 (unat (je_Sequence (es ! j))) \<and>
      length (pad20 (unat (je_Sequence (es ! i)))) = length (pad20 (unat (je_Sequence (es ! j))))"
    using journal_sequence [OF run, of i] journal_sequence [OF run, of j] assms(2,3)
    by (simp add: pad20_less length_pad20 del: One_nat_def)
  with valid assms(2,3) show ?thesis
    by (simp add: JournalObjectName_Inr lex_append_same_length)
qed

subsection \<open>Concrete journals\<close>

definition sample_hash :: string where "sample_hash = replicate 64 CHR ''a''"

definition sample_entry :: "64 word \<Rightarrow> JournalEntryKind \<Rightarrow> OperationState \<Rightarrow> JournalEntry" where
  "sample_entry n kind state =
     \<lparr>je_Schema = JournalSchemaV1, je_OperationID = sample_op, je_PlanID = sample_plan,
      je_ContractHash = sample_hash, je_Sequence = n, je_Kind = kind,
      je_RecordedAt = utc (1000 * uint n), je_OperationState = state, je_Step = None,
      je_Pause = None, je_Cancellation = None\<rparr>"

definition sample_step ::
  "64 word \<Rightarrow> int \<Rightarrow> 32 word \<Rightarrow> StepOutcome \<Rightarrow> bool \<Rightarrow> OperationState \<Rightarrow> JournalEntry" where
  "sample_step n started attempt outcome mutated state =
     (sample_entry n JournalEntryStep state)
       \<lparr>je_Step := Some \<lparr>jt_ID = ''step-a'', jt_Outcome = outcome,
          jt_ExecutingIdentity = IdentityOperator, jt_Attempt = attempt,
          jt_StartedAt = utc started, jt_EndedAt = Some (utc (1000 * uint n - 100)),
          jt_MutationOccurred = mutated, jt_ResultSummary = ''ok''\<rparr>\<rparr>"

definition sample_request :: "64 word \<Rightarrow> MutationObservation \<Rightarrow> OperationState \<Rightarrow> JournalEntry" where
  "sample_request n observation state =
     (sample_entry n JournalEntryCancellationRequest state)
       \<lparr>je_Cancellation := Some \<lparr>jc_RequestedAt = utc (1000 * uint n), jc_CurrentStepID = ''step-a'',
          jc_ExecutionContractHash = sample_hash, jc_MutationObservation = observation,
          jc_RequiredRoute = cancellation_route_for observation\<rparr>\<rparr>"

definition sample_pause :: "64 word \<Rightarrow> bool \<Rightarrow> JournalEntry" where
  "sample_pause n mutated =
     (sample_entry n JournalEntryTransition OperationPaused)
       \<lparr>je_Pause := Some \<lparr>jp_PausedAt = utc (1000 * uint n), jp_PauseReason = ''maintenance'',
          jp_MutationOccurred = mutated, jp_ResumeBy = utc 1000000, jp_ReapprovalRequired = False\<rparr>\<rparr>"

text \<open>A run that retries a step, is asked to cancel while the step runs, and rolls back.\<close>

definition rollback_journal :: "JournalEntry list" where
  "rollback_journal =
     [sample_entry 1 JournalEntryTransition OperationDiscover,
      sample_entry 2 JournalEntryTransition OperationValidate,
      sample_entry 3 JournalEntryTransition OperationPlan,
      sample_entry 4 JournalEntryTransition OperationLock,
      sample_entry 5 JournalEntryTransition OperationExecute,
      sample_step 6 5500 1 StepFailed False OperationExecute,
      sample_request 7 MutationUnknown OperationExecute,
      sample_step 8 6500 2 StepDone True OperationExecute,
      sample_entry 9 JournalEntryTransition OperationRollback,
      sample_entry 10 JournalEntryTransition OperationVerifiedRollback]"

definition cancelled_journal :: "JournalEntry list" where
  "cancelled_journal =
     [sample_entry 1 JournalEntryTransition OperationDiscover,
      sample_entry 2 JournalEntryTransition OperationValidate,
      sample_request 3 MutationNotOccurred OperationValidate,
      sample_entry 4 JournalEntryTransition OperationCancelled]"

definition paused_journal :: "JournalEntry list" where
  "paused_journal =
     [sample_entry 1 JournalEntryTransition OperationDiscover,
      sample_entry 2 JournalEntryTransition OperationValidate,
      sample_entry 3 JournalEntryTransition OperationPlan,
      sample_entry 4 JournalEntryTransition OperationLock,
      sample_entry 5 JournalEntryTransition OperationProtect,
      sample_pause 6 False,
      sample_entry 7 JournalEntryTransition OperationDiscover]"

lemma sample_entry_fields [simp]:
  "je_Schema (sample_entry n kind state) = JournalSchemaV1"
  "je_OperationID (sample_entry n kind state) = sample_op"
  "je_PlanID (sample_entry n kind state) = sample_plan"
  "je_ContractHash (sample_entry n kind state) = sample_hash"
  "je_Sequence (sample_entry n kind state) = n" "je_Kind (sample_entry n kind state) = kind"
  "je_RecordedAt (sample_entry n kind state) = utc (1000 * uint n)"
  "je_OperationState (sample_entry n kind state) = state"
  "je_Step (sample_entry n kind state) = None" "je_Pause (sample_entry n kind state) = None"
  "je_Cancellation (sample_entry n kind state) = None"
  by (simp_all add: sample_entry_def)

lemma sample_request_fields [simp]:
  "je_OperationID (sample_request n obs state) = sample_op" "je_PlanID (sample_request n obs state) = sample_plan"
  "je_ContractHash (sample_request n obs state) = sample_hash" "je_Sequence (sample_request n obs state) = n"
  "je_Kind (sample_request n obs state) = JournalEntryCancellationRequest" "je_RecordedAt (sample_request n obs state) = utc (1000 * uint n)"
  "je_OperationState (sample_request n obs state) = state"
  "je_Step (sample_request n obs state) = None"
  "je_Pause (sample_request n obs state) = None"
  "je_Cancellation (sample_request n obs state) = Some \<lparr>jc_RequestedAt = utc (1000 * uint n), jc_CurrentStepID = ''step-a'',
     jc_ExecutionContractHash = sample_hash, jc_MutationObservation = obs,
     jc_RequiredRoute = cancellation_route_for obs\<rparr>"
  by (simp_all add: sample_request_def)

lemma sample_step_fields [simp]:
  "je_OperationID (sample_step n started attempt outcome mutated state) = sample_op" "je_PlanID (sample_step n started attempt outcome mutated state) = sample_plan"
  "je_ContractHash (sample_step n started attempt outcome mutated state) = sample_hash" "je_Sequence (sample_step n started attempt outcome mutated state) = n"
  "je_Kind (sample_step n started attempt outcome mutated state) = JournalEntryStep" "je_RecordedAt (sample_step n started attempt outcome mutated state) = utc (1000 * uint n)"
  "je_OperationState (sample_step n started attempt outcome mutated state) = state"
  "je_Step (sample_step n started attempt outcome mutated state) = Some \<lparr>jt_ID = ''step-a'', jt_Outcome = outcome, jt_ExecutingIdentity = IdentityOperator,
     jt_Attempt = attempt, jt_StartedAt = utc started,
     jt_EndedAt = Some (utc (1000 * uint n - 100)), jt_MutationOccurred = mutated,
     jt_ResultSummary = ''ok''\<rparr>"
  "je_Pause (sample_step n started attempt outcome mutated state) = None"
  "je_Cancellation (sample_step n started attempt outcome mutated state) = None"
  by (simp_all add: sample_step_def)

lemma sample_pause_fields [simp]:
  "je_OperationID (sample_pause n mutated) = sample_op" "je_PlanID (sample_pause n mutated) = sample_plan"
  "je_ContractHash (sample_pause n mutated) = sample_hash" "je_Sequence (sample_pause n mutated) = n"
  "je_Kind (sample_pause n mutated) = JournalEntryTransition" "je_RecordedAt (sample_pause n mutated) = utc (1000 * uint n)"
  "je_OperationState (sample_pause n mutated) = OperationPaused"
  "je_Step (sample_pause n mutated) = None"
  "je_Pause (sample_pause n mutated) = Some \<lparr>jp_PausedAt = utc (1000 * uint n), jp_PauseReason = ''maintenance'',
     jp_MutationOccurred = mutated, jp_ResumeBy = utc 1000000, jp_ReapprovalRequired = False\<rparr>"
  "je_Cancellation (sample_pause n mutated) = None"
  by (simp_all add: sample_pause_def)

lemma sample_patterns [simp]:
  "sha256Pattern (sample_hash)" "identifierPattern ''step-a''"
  by (simp_all add: sample_hash_def pattern_defs char_class_defs)

lemmas entry_evaluation =
  ValidateJournalEntry_def validate_entry_kind_def validateJournalTime_def validateJournalStep_def
  validateJournalCancellation_def validateJournalPause_def time_defs cancellation_route_for_def
  JournalEntryKind_Valid_def journalEntryKind_registry_def StepOutcome_Valid_def
  stepOutcome_registry_def MutationObservation_Valid_def mutationObservation_registry_def
  ExecutionIdentity_Valid_def executionIdentity_registry_def

lemma uint_nonzero: "n \<noteq> 0 \<Longrightarrow> uint n \<noteq> 0" for n :: "64 word"
  by (simp add: unsigned_eq_0_iff)

lemma sample_transition_valid [simp]:
  "n \<noteq> 0 \<Longrightarrow> OperationState_Valid state \<Longrightarrow> state \<noteq> OperationPaused \<Longrightarrow>
     ValidateJournalEntry (sample_entry n JournalEntryTransition state) = None"
  by (simp add: uint_nonzero entry_evaluation)

lemma sample_pause_valid [simp]:
  "n \<noteq> 0 \<Longrightarrow> 1000 * uint n < 1000000 \<Longrightarrow> ValidateJournalEntry (sample_pause n mutated) = None"
  by (simp add: uint_nonzero entry_evaluation sample_pause_def)

lemma sample_request_valid [simp]:
  "n \<noteq> 0 \<Longrightarrow> OperationState_Valid state \<Longrightarrow> MutationObservation_Valid obs \<Longrightarrow>
     ValidateJournalEntry (sample_request n obs state) = None"
  by (simp add: uint_nonzero entry_evaluation sample_request_def)

lemma sample_step_valid [simp]:
  "n \<noteq> 0 \<Longrightarrow> attempt \<noteq> 0 \<Longrightarrow> OperationState_Valid state \<Longrightarrow> StepOutcome_Valid outcome \<Longrightarrow>
     0 < started \<Longrightarrow> started < 1000 * uint n - 100 \<Longrightarrow>
     ValidateJournalEntry (sample_step n started attempt outcome mutated state) = None"
  by (simp add: uint_nonzero entry_evaluation sample_step_def)

lemmas journal_evaluation =
  ValidateJournal_def journal_replay_def journal_entry_def journal_prologue_def journal_init_def
  journal_transition_def journal_cancellation_def journal_step_entry_def transition_guards_def
  journal_machine_transition_def Machine_Transition_def Machine_transition.simps CanTransition_def
  settle_pending_def record_pause_def record_request_def record_step_def clear_pending_step_def
  NewMachine_def RestoreMachine_def cancellation_routes time_defs Let_def
  cancellationAuthorizationRequired_def cancellation_route_for_def
  MutationObservation_Valid_def mutationObservation_registry_def
  StepOutcome_Valid_def stepOutcome_registry_def

text \<open>The three journals are accepted.\<close>

lemma cancelled_journal_ok: "ValidateJournal cancelled_journal = None"
  by (simp add: cancelled_journal_def journal_evaluation)

lemma paused_journal_ok: "ValidateJournal paused_journal = None"
  by (simp add: paused_journal_def journal_evaluation)

lemma rollback_journal_ok: "ValidateJournal rollback_journal = None"
  by (simp add: rollback_journal_def journal_evaluation)
theorem ValidateJournal_headers_witness:
  "length rollback_journal < 2 ^ 64 \<and> ValidateJournal (take 7 rollback_journal) = None"
  using ValidateJournal_headers [OF rollback_journal_ok] by simp

theorem ValidateJournal_replays_witness:
  "\<exists>m0 m. NewMachine sample_op sample_plan = Inr m0 \<and>
     machine_run m0 (journal_events rollback_journal) m \<and> m_state m = OperationVerifiedRollback"
proof -
  have "rollback_journal ! 0 = sample_entry 1 JournalEntryTransition OperationDiscover"
    "last rollback_journal = sample_entry 10 JournalEntryTransition OperationVerifiedRollback"
    by (simp_all add: rollback_journal_def)
  with ValidateJournal_replays [OF rollback_journal_ok] show ?thesis
    by (auto simp: sample_entry_def)
qed

theorem ValidateJournal_cancelled_clean_witness:
  "\<not> (\<exists>e \<in> set cancelled_journal. entry_mutation e)"
  using ValidateJournal_cancelled_clean [OF cancelled_journal_ok]
  by (simp add: rollback_journal_def cancelled_journal_def paused_journal_def)

theorem ValidateJournal_attempts_witness:
  "jt_Attempt (steps_of ''step-a'' rollback_journal ! 1) = 2"
proof -
  have "length (steps_of ''step-a'' rollback_journal) = 2"
    by (simp add: steps_of_def rollback_journal_def cancelled_journal_def paused_journal_def)
  with ValidateJournal_attempts [OF rollback_journal_ok, of "''step-a''"]
  have "jt_Attempt (steps_of ''step-a'' rollback_journal ! 1) = of_nat (1 + 1)" by simp
  then show ?thesis by simp
qed

theorem ValidateJournal_request_honored_witness:
  "je_OperationState (last rollback_journal) \<in>
     {OperationCancelled, OperationVerifiedRollback, OperationFailedCleanup}"
proof -
  have "sample_request 7 MutationUnknown OperationExecute \<in> set rollback_journal"
    by (simp add: rollback_journal_def)
  moreover have "je_Kind (sample_request 7 MutationUnknown OperationExecute) =
      JournalEntryCancellationRequest"
    by (simp add: sample_request_def sample_entry_def)
  moreover have "OperationState_Terminal (je_OperationState (last rollback_journal))"
    by (simp add: rollback_journal_def sample_entry_def)
  ultimately show ?thesis
    using ValidateJournal_request_honored [OF rollback_journal_ok] by blast
qed

theorem ValidateJournal_resume_witness:
  "je_OperationState (paused_journal ! 5) = OperationPaused"
  using ValidateJournal_resume [OF paused_journal_ok, of 5] by (simp add: rollback_journal_def cancelled_journal_def paused_journal_def)

theorem JournalObjectName_sorted_witness:
  "\<exists>a b. JournalObjectName (rollback_journal ! 1) = Inr a \<and>
     JournalObjectName (rollback_journal ! 9) = Inr b \<and> a < b"
  using JournalObjectName_sorted [OF rollback_journal_ok, of 1 9] by (simp add: rollback_journal_def)

end
