(* ===== verification/CancellationController.thy ===== *)
theory CancellationController
  imports Journal
begin

section \<open>internal/workflow: cancellation (cancellation.go)\<close>

text \<open>
  The cancellation controller: what a request is answered in each state, the durable request and its
  restoration from the journal, the routing at the next safe boundary, and the one-shot
  authorization that \<open>ApplyCancellation\<close> consumes. A decision holds a pointer to its authorization,
  which holds a pointer to its machine and an atomic flag; copies of a decision share both. They
  live in an explicit store (\<open>cancel_heap\<close>): machines by address, authorizations by their index. A
  nil pointer is \<open>None\<close>; an address outside the store, which Go does not have, reads as nil.
  \<open>marshal\<close> is \<open>json.Marshal\<close> of an entry and \<open>sha256hex\<close> the hexadecimal SHA-256 of the bytes
  written to the digest. A method's error return is \<open>Inl\<close>: it leaves the controller as it was and
  returns the zero decision.
\<close>

datatype cancellation_error = ErrInvalidCancellation string

datatype CancellationAction =
    CancellationNone
  | CancellationPersist
  | CancellationCancel
  | CancellationRollback
  | CancellationActionOther string

definition cancellationAvailableUI :: string where
  "cancellationAvailableUI = ''Cancellation is available at this safe boundary.''"

definition cancellationUnavailableUI :: string where
  "cancellationUnavailableUI = ''Cancellation requires a durable request before the next safe boundary.''"

definition cancellationNoRouteUI :: string where
  "cancellationNoRouteUI = ''Cancellation is unavailable in this operation state.''"

definition cancellationQueuedUI :: string where
  "cancellationQueuedUI = ''Cancellation queued; operation will stop at the next safe boundary.''"

definition cancellationCancelUI :: string where
  "cancellationCancelUI = ''Cancellation accepted; no mutation may have occurred.''"

definition cancellationRollbackUI :: string where
  "cancellationRollbackUI = ''Cancellation accepted; rollback and independent verification are required.''"

record cancellationBinding =
  cb_operationID :: string
  cb_planID :: string
  cb_contractHash :: string
  cb_journalHash :: string
  cb_sequence :: "64 word"
  cb_requestedAt :: gotime
  cb_stepID :: string
  cb_cancelSafe :: bool

definition binding_zero :: cancellationBinding where
  "binding_zero =
     \<lparr>cb_operationID = [], cb_planID = [], cb_contractHash = [], cb_journalHash = [],
      cb_sequence = 0, cb_requestedAt = time_zero, cb_stepID = [], cb_cancelSafe = False\<rparr>"

record CancellationController =
  cc_queued :: bool
  cc_target :: OperationState
  cc_binding :: cancellationBinding

definition controller_zero :: CancellationController where
  "controller_zero = \<lparr>cc_queued = False, cc_target = noState, cc_binding = binding_zero\<rparr>"

record CancellationRequest =
  cr_OperationID :: string
  cr_PlanID :: string
  cr_Sequence :: "64 word"
  cr_RequestedAt :: gotime

record CancellationDecision =
  cd_Action :: CancellationAction
  cd_Target :: OperationState
  cd_JournalEntry :: "JournalEntry option"
  cd_UIState :: string
  cd_authorization :: "nat option"

record cancellationAuthorization =
  ca_machine :: nat
  ca_generation :: "64 word"
  ca_from :: OperationState
  ca_target :: OperationState
  ca_binding :: cancellationBinding
  ca_used :: bool

record cancel_heap =
  ch_machines :: "nat \<Rightarrow> Machine option"
  ch_auths :: "cancellationAuthorization list"

definition deref :: "cancel_heap \<Rightarrow> nat option \<Rightarrow> (nat \<times> Machine) option" where
  "deref h p =
     (case p of
        None \<Rightarrow> None
      | Some a \<Rightarrow> (case ch_machines h a of None \<Rightarrow> None | Some m \<Rightarrow> Some (a, m)))"

subsection \<open>Targets, states and the point of no return\<close>

definition cancellationTarget :: "bool \<Rightarrow> OperationState" where
  "cancellationTarget mutationMayHaveOccurred =
     (if mutationMayHaveOccurred then OperationRollback else OperationCancelled)"

definition cancellationStateIsStructurallyPreMutation :: "OperationState \<Rightarrow> bool" where
  "cancellationStateIsStructurallyPreMutation state =
     (state \<in> set [OperationDiscover, OperationValidate, OperationPlan, OperationApprovedWaiting,
        OperationLock])"

definition UIState :: "CancellationController \<Rightarrow> OperationState \<Rightarrow> bool \<Rightarrow> bool \<Rightarrow> string" where
  "UIState controller current cancelSafe mutationMayHaveOccurred =
     (let target =
            (if cc_queued controller \<and> cc_target controller = OperationRollback
             then OperationRollback else cancellationTarget mutationMayHaveOccurred)
      in if \<not> OperationState_Valid current \<or> OperationState_Terminal current \<or>
            (cancelSafe \<and> \<not> CanTransition current target) \<or>
            (\<not> cancelSafe \<and> \<not> cancellationRouteReachable current target)
         then cancellationNoRouteUI
         else if cc_queued controller then cancellationQueuedUI
         else if \<not> cancelSafe then cancellationUnavailableUI
         else cancellationAvailableUI)"

text \<open>The last index of a step identifier in the contract, as the map of the code holds it.\<close>

fun step_index :: "nat \<Rightarrow> string \<Rightarrow> ExecutionStepContract list \<Rightarrow> nat option" where
  "step_index i sid [] = None"
| "step_index i sid (s # ss) =
     (case step_index (Suc i) sid ss of
        Some j \<Rightarrow> Some j
      | None \<Rightarrow> if sc_ID s = sid then Some i else None)"

text \<open>Whether one step entry proves that the point of no return was reached.\<close>

definition entry_past_point ::
  "ExecutionContract \<Rightarrow> nat \<Rightarrow> JournalEntry \<Rightarrow> bool" where
  "entry_past_point contract pointIndex entry =
     (case (if je_Kind entry = JournalEntryStep then je_Step entry else None) of
        None \<Rightarrow> False
      | Some step \<Rightarrow>
          (case step_index 0 (jt_ID step) (ec_steps contract) of
             None \<Rightarrow> True
           | Some index \<Rightarrow>
               index > pointIndex \<or>
               (index = pointIndex \<and>
                (case ec_pointOfNoReturnTrigger contract of
                   PointOfNoReturnStepStart \<Rightarrow> True
                 | PointOfNoReturnMutationObserved \<Rightarrow>
                     jt_MutationOccurred step \<or> jt_Outcome step = StepUnknown
                 | PointOfNoReturnStepComplete \<Rightarrow> jt_Outcome step = StepDone
                 | _ \<Rightarrow> False))))"

definition pointOfNoReturnReached :: "ExecutionContract \<Rightarrow> JournalEntry list \<Rightarrow> bool" where
  "pointOfNoReturnReached contract entries =
     (if ec_pointOfNoReturn contract = [] then False
      else case step_index 0 (ec_pointOfNoReturn contract) (ec_steps contract) of
        None \<Rightarrow> True
      | Some pointIndex \<Rightarrow>
          if \<not> PointOfNoReturnTrigger_Valid (ec_pointOfNoReturnTrigger contract) then True
          else list_ex (entry_past_point contract pointIndex) entries)"

subsection \<open>The journal hash\<close>

text \<open>\<open>binary.BigEndian.PutUint64\<close>.\<close>

definition be64 :: "nat \<Rightarrow> string" where
  "be64 n = map (\<lambda>i. char_of (n div 256 ^ (7 - i) mod 256)) [0..<8]"

fun journal_bytes ::
  "(JournalEntry \<Rightarrow> string option) \<Rightarrow> JournalEntry list \<Rightarrow> journal_error + string" where
  "journal_bytes marshal [] = Inr []"
| "journal_bytes marshal (entry # entries) =
     (case EncodeJournalEntry marshal entry of
        Inl e \<Rightarrow> Inl e
      | Inr encoded \<Rightarrow>
          (case journal_bytes marshal entries of
             Inl e \<Rightarrow> Inl e
           | Inr rest \<Rightarrow> Inr (be64 (length encoded) @ encoded @ rest)))"

definition cancellationJournalHash ::
  "(JournalEntry \<Rightarrow> string option) \<Rightarrow> (string \<Rightarrow> string) \<Rightarrow> JournalEntry list \<Rightarrow>
     journal_error + string" where
  "cancellationJournalHash marshal sha256hex entries =
     (case journal_bytes marshal entries of
        Inl e \<Rightarrow> Inl e
      | Inr bytes \<Rightarrow> Inr (sha256hex bytes))"

subsection \<open>RestoreCancellationController\<close>

record restore_state =
  rs_target :: OperationState
  rs_binding :: cancellationBinding
  rs_nextStep :: nat

text \<open>The step check shared by the two replays of the contract: the entry is the next step's.\<close>

definition contract_step_matches :: "ExecutionStepContract list \<Rightarrow> nat \<Rightarrow> JournalStep \<Rightarrow> bool" where
  "contract_step_matches steps nextStep step =
     (nextStep < length steps \<and> jt_ID step = sc_ID (steps ! nextStep) \<and>
      jt_ExecutingIdentity step = sc_ExecutingIdentity (steps ! nextStep))"

definition advance_step :: "nat \<Rightarrow> JournalEntry \<Rightarrow> nat" where
  "advance_step nextStep entry =
     (case je_Step entry of
        None \<Rightarrow> nextStep
      | Some step \<Rightarrow> if jt_Outcome step = StepDone then nextStep + 1 else nextStep)"

definition restore_request ::
  "(JournalEntry \<Rightarrow> string option) \<Rightarrow> (string \<Rightarrow> string) \<Rightarrow> ExecutionContract \<Rightarrow>
   JournalEntry list \<Rightarrow> restore_state \<Rightarrow> JournalEntry \<Rightarrow> JournalCancellationRequest \<Rightarrow>
     cancellation_error + restore_state" where
  "restore_request marshal sha256hex contract entries st entry request =
     (case cancellationJournalHash marshal sha256hex (take (unat (je_Sequence entry)) entries) of
        Inl _ \<Rightarrow> Inl (ErrInvalidCancellation ''cannot bind the durable journal'')
      | Inr journalHash \<Rightarrow>
          if jc_ExecutionContractHash request \<noteq> ec_digest contract then
            Inl (ErrInvalidCancellation ''cancellation request does not match the execution contract'')
          else if rs_nextStep st \<ge> length (ec_steps contract) \<or>
                  jc_CurrentStepID request \<noteq> sc_ID (ec_steps contract ! rs_nextStep st) then
            Inl (ErrInvalidCancellation ''cancellation step is outside the execution contract'')
          else
            (let step = ec_steps contract ! rs_nextStep st
             in Inr (st\<lparr>rs_target := jc_RequiredRoute request,
                  rs_binding :=
                    \<lparr>cb_operationID = je_OperationID entry, cb_planID = je_PlanID entry,
                     cb_contractHash = jc_ExecutionContractHash request,
                     cb_journalHash = journalHash, cb_sequence = je_Sequence entry,
                     cb_requestedAt = jc_RequestedAt request, cb_stepID = sc_ID step,
                     cb_cancelSafe = sc_CancelSafe step\<rparr>\<rparr>)))"

definition restore_entry ::
  "(JournalEntry \<Rightarrow> string option) \<Rightarrow> (string \<Rightarrow> string) \<Rightarrow> ExecutionContract \<Rightarrow>
   JournalEntry list \<Rightarrow> nat \<Rightarrow> restore_state \<Rightarrow> JournalEntry \<Rightarrow>
     cancellation_error + restore_state" where
  "restore_entry marshal sha256hex contract entries index st entry =
     (if je_Kind entry = JournalEntryStep then
        (case je_Step entry of
           None \<Rightarrow> Inr st
         | Some step \<Rightarrow>
             if \<not> contract_step_matches (ec_steps contract) (rs_nextStep st) step then
               Inl (ErrInvalidCancellation ''journal step contradicts the execution contract'')
             else
               Inr (st\<lparr>rs_nextStep := advance_step (rs_nextStep st) entry,
                  rs_target :=
                    (if rs_target st \<noteq> noState \<and>
                        (jt_MutationOccurred step \<or> jt_Outcome step = StepUnknown)
                     then OperationRollback else rs_target st)\<rparr>))
      else if je_Kind entry = JournalEntryCancellationRequest then
        (case je_Cancellation entry of
           None \<Rightarrow> Inr st
         | Some request \<Rightarrow> restore_request marshal sha256hex contract entries st entry request)
      else if rs_target st \<noteq> noState \<and> je_Kind entry = JournalEntryTransition \<and>
              je_OperationState entry = rs_target st then
        Inr (st\<lparr>rs_target := noState, rs_binding := binding_zero\<rparr>)
      else Inr st)"

definition restore_init :: restore_state where
  "restore_init = \<lparr>rs_target = noState, rs_binding = binding_zero, rs_nextStep = 0\<rparr>"

definition RestoreCancellationController ::
  "(JournalEntry \<Rightarrow> string option) \<Rightarrow> (string \<Rightarrow> string) \<Rightarrow>
   JournalEntry list \<Rightarrow> string \<Rightarrow> string \<Rightarrow> ExecutionContract \<Rightarrow>
     cancellation_error + CancellationController" where
  "RestoreCancellationController marshal sha256hex entries operationID planID contract =
     (case first_error
        [fail_if (ValidateJournal entries \<noteq> None) (ErrInvalidCancellation ''invalid journal''),
         fail_if (entries = [] \<or> je_OperationID (hd entries) \<noteq> operationID \<or>
                  je_PlanID (hd entries) \<noteq> planID)
           (ErrInvalidCancellation ''journal binding mismatch''),
         fail_if (\<not> sha256Pattern (ec_digest contract))
           (ErrInvalidCancellation ''invalid execution contract''),
         fail_if (je_ContractHash (hd entries) \<noteq> ec_digest contract)
           (ErrInvalidCancellation ''journal does not match the execution contract'')]
      of Some e \<Rightarrow> Inl e
       | None \<Rightarrow>
           (case range_loop (restore_entry marshal sha256hex contract entries) 0 restore_init entries of
              Inl e \<Rightarrow> Inl e
            | Inr st \<Rightarrow>
                (case first_error
                   [fail_if (rs_target st \<noteq> noState \<and> pointOfNoReturnReached contract entries)
                      (ErrInvalidCancellation ''point of no return has been reached''),
                    fail_if (rs_target st = OperationRollback \<and> ec_rollbackBoundary contract = ''none'')
                      (ErrInvalidCancellation ''execution contract has no rollback boundary'')]
                 of Some e \<Rightarrow> Inl e
                  | None \<Rightarrow>
                      Inr \<lparr>cc_queued = (rs_target st \<noteq> noState), cc_target = rs_target st,
                           cc_binding = rs_binding st\<rparr>)))"

subsection \<open>Requests\<close>

definition validateCancellationRequest :: "CancellationRequest \<Rightarrow> cancellation_error option" where
  "validateCancellationRequest request =
     first_error
       [fail_if (\<not> operationIDPattern (cr_OperationID request) \<or> \<not> planIDPattern (cr_PlanID request) \<or>
                 cr_Sequence request = 0 \<or> time_IsZero (cr_RequestedAt request))
          (ErrInvalidCancellation ''invalid request identity''),
        fail_if (t_zone (cr_RequestedAt request) \<noteq> 0)
          (ErrInvalidCancellation ''invalid request time'')]"

definition validateCancellationFoundation ::
  "(JournalEntry \<Rightarrow> string option) \<Rightarrow> (string \<Rightarrow> string) \<Rightarrow>
   Machine \<Rightarrow> CancellationRequest \<Rightarrow> ExecutionContract \<Rightarrow> JournalEntry list \<Rightarrow>
     cancellation_error + string" where
  "validateCancellationFoundation marshal sha256hex machine request contract entries =
     (case first_error
        [fail_if (ValidateJournal entries \<noteq> None \<or> entries = [])
           (ErrInvalidCancellation ''invalid durable journal''),
         fail_if (\<not> sha256Pattern (ec_digest contract) \<or> ec_workflowID contract = [] \<or>
                  ec_steps contract = [])
           (ErrInvalidCancellation ''invalid execution contract''),
         fail_if (je_Sequence (hd entries) \<noteq> 1 \<or>
                  je_OperationID (hd entries) \<noteq> m_operationID machine \<or>
                  je_PlanID (hd entries) \<noteq> m_planID machine \<or>
                  je_ContractHash (hd entries) \<noteq> ec_digest contract)
           (ErrInvalidCancellation
              ''initial journal entry does not bind the operation, plan, and contract''),
         fail_if (je_OperationState (last entries) \<noteq> m_state machine \<or>
                  cr_Sequence request \<noteq> je_Sequence (last entries) + 1 \<or>
                  \<not> time_After (cr_RequestedAt request) (je_RecordedAt (last entries)))
           (ErrInvalidCancellation ''request does not extend the current machine journal'')]
      of Some e \<Rightarrow> Inl e
       | None \<Rightarrow>
           (case RestoreCancellationController marshal sha256hex entries
                   (m_operationID machine) (m_planID machine) contract of
              Inl _ \<Rightarrow> Inl (ErrInvalidCancellation ''durable journal contradicts the execution contract'')
            | Inr _ \<Rightarrow>
                (case cancellationJournalHash marshal sha256hex entries of
                   Inl _ \<Rightarrow> Inl (ErrInvalidCancellation ''cannot bind the durable journal'')
                 | Inr journalHash \<Rightarrow> Inr journalHash)))"

record context_state =
  cx_nextStep :: nat
  cx_observation :: MutationObservation

definition context_entry ::
  "ExecutionStepContract list \<Rightarrow> nat \<Rightarrow> context_state \<Rightarrow> JournalEntry \<Rightarrow>
     cancellation_error + context_state" where
  "context_entry steps index st entry =
     (if je_Kind entry = JournalEntryCancellationRequest then
        Inl (ErrInvalidCancellation ''durable journal already contains a cancellation request'')
      else
        (let st1 = (case je_Pause entry of
                      Some pause \<Rightarrow> if jp_MutationOccurred pause
                                    then st\<lparr>cx_observation := MutationOccurred\<rparr> else st
                    | None \<Rightarrow> st)
         in if je_Kind entry \<noteq> JournalEntryStep then Inr st1
            else (case je_Step entry of
                    None \<Rightarrow> Inr st1
                  | Some step \<Rightarrow>
                      if \<not> contract_step_matches steps (cx_nextStep st1) step then
                        Inl (ErrInvalidCancellation ''journal steps do not match the execution contract'')
                      else
                        Inr (st1\<lparr>cx_observation :=
                               (if jt_Outcome step = StepUnknown then MutationUnknown
                                else if jt_MutationOccurred step \<and> cx_observation st1 \<noteq> MutationUnknown
                                then MutationOccurred else cx_observation st1),
                             cx_nextStep := advance_step (cx_nextStep st1) entry\<rparr>))))"

definition context_init :: context_state where
  "context_init = \<lparr>cx_nextStep = 0, cx_observation = MutationNotOccurred\<rparr>"

definition cancellationContext ::
  "(JournalEntry \<Rightarrow> string option) \<Rightarrow> (string \<Rightarrow> string) \<Rightarrow>
   Machine \<Rightarrow> ExecutionContract \<Rightarrow> JournalEntry list \<Rightarrow> CancellationRequest \<Rightarrow>
     cancellation_error + ExecutionStepContract \<times> MutationObservation" where
  "cancellationContext marshal sha256hex machine contract entries request =
     (case validateCancellationFoundation marshal sha256hex machine request contract entries of
        Inl e \<Rightarrow> Inl e
      | Inr _ \<Rightarrow>
          if pointOfNoReturnReached contract entries then
            Inl (ErrInvalidCancellation ''point of no return has been reached'')
          else if ec_workflowID contract = [] \<or> ec_steps contract = [] then
            Inl (ErrInvalidCancellation ''missing execution contract'')
          else (case range_loop (context_entry (ec_steps contract)) 0 context_init entries of
                  Inl e \<Rightarrow> Inl e
                | Inr st \<Rightarrow>
                    if cx_nextStep st \<ge> length (ec_steps contract) then
                      Inl (ErrInvalidCancellation ''execution contract has no current step'')
                    else Inr (ec_steps contract ! cx_nextStep st, cx_observation st)))"

definition cancellationJournalEntry ::
  "CancellationRequest \<Rightarrow> OperationState \<Rightarrow> string \<Rightarrow> string \<Rightarrow> MutationObservation \<Rightarrow> JournalEntry" where
  "cancellationJournalEntry request state stepID contractHash observation =
     \<lparr>je_Schema = JournalSchemaV1, je_OperationID = cr_OperationID request,
      je_PlanID = cr_PlanID request, je_ContractHash = contractHash,
      je_Sequence = cr_Sequence request, je_Kind = JournalEntryCancellationRequest,
      je_RecordedAt = cr_RequestedAt request, je_OperationState = state, je_Step = None,
      je_Pause = None,
      je_Cancellation = Some
        \<lparr>jc_RequestedAt = cr_RequestedAt request, jc_CurrentStepID = stepID,
         jc_ExecutionContractHash = contractHash, jc_MutationObservation = observation,
         jc_RequiredRoute = cancellationTarget (observation \<noteq> MutationNotOccurred)\<rparr>\<rparr>"

subsection \<open>Routing\<close>

text \<open>A routed decision allocates its authorization: the new index is the length of the store.\<close>

definition routeCancellationTo ::
  "cancel_heap \<Rightarrow> nat \<Rightarrow> Machine \<Rightarrow> OperationState \<Rightarrow> cancellationBinding \<Rightarrow>
     cancellation_error + cancel_heap \<times> CancellationController \<times> CancellationDecision" where
  "routeCancellationTo h address machine target binding =
     (if \<not> CanTransition (m_state machine) target then
        Inl (ErrInvalidCancellation ''cannot route'')
      else
        Inr (h\<lparr>ch_auths := ch_auths h @
                 [\<lparr>ca_machine = address, ca_generation = m_generation machine,
                   ca_from = m_state machine, ca_target = target, ca_binding = binding,
                   ca_used = False\<rparr>]\<rparr>,
             controller_zero,
             \<lparr>cd_Action = (if target = OperationRollback then CancellationRollback
                           else CancellationCancel),
              cd_Target = target, cd_JournalEntry = None,
              cd_UIState = (if target = OperationRollback then cancellationRollbackUI
                            else cancellationCancelUI),
              cd_authorization = Some (length (ch_auths h))\<rparr>))"

definition routeCancellation ::
  "cancel_heap \<Rightarrow> nat \<Rightarrow> Machine \<Rightarrow> bool \<Rightarrow> cancellationBinding \<Rightarrow>
     cancellation_error + cancel_heap \<times> CancellationController \<times> CancellationDecision" where
  "routeCancellation h address machine mutationMayHaveOccurred binding =
     routeCancellationTo h address machine (cancellationTarget mutationMayHaveOccurred) binding"

definition persist_decision :: "JournalEntry \<Rightarrow> CancellationDecision" where
  "persist_decision entry =
     \<lparr>cd_Action = CancellationPersist, cd_Target = noState, cd_JournalEntry = Some entry,
      cd_UIState = cancellationUnavailableUI, cd_authorization = None\<rparr>"

text \<open>The part of \<open>Request\<close> after the structurally safe states: an operation that may have mutated.\<close>

definition request_in_flight ::
  "(JournalEntry \<Rightarrow> string option) \<Rightarrow> (string \<Rightarrow> string) \<Rightarrow> CancellationController \<Rightarrow>
   cancel_heap \<Rightarrow> nat \<Rightarrow> Machine \<Rightarrow> CancellationRequest \<Rightarrow> ExecutionContract \<Rightarrow>
   JournalEntry list \<Rightarrow> cancellationBinding \<Rightarrow>
     cancellation_error + cancel_heap \<times> CancellationController \<times> CancellationDecision" where
  "request_in_flight marshal sha256hex controller h address machine request contract entries binding =
     (let current = m_state machine in
      case cancellationContext marshal sha256hex machine contract entries request of
        Inl e \<Rightarrow> Inl e
      | Inr (step, observation) \<Rightarrow>
          if observation \<noteq> MutationNotOccurred \<and> ec_rollbackBoundary contract = ''none'' then
            Inl (ErrInvalidCancellation ''execution contract has no rollback boundary'')
          else if current = OperationPaused then
            routeCancellation h address machine (observation \<noteq> MutationNotOccurred)
              (binding\<lparr>cb_stepID := sc_ID step, cb_cancelSafe := sc_CancelSafe step\<rparr>)
          else if current \<noteq> OperationProtect \<and> current \<noteq> OperationExecute then
            Inl (ErrInvalidCancellation ''state has no safe cancellation route'')
          else
            (let entry = cancellationJournalEntry request current (sc_ID step) (ec_digest contract)
                           observation
             in if ValidateJournal (entries @ [entry]) \<noteq> None then
                  Inl (ErrInvalidCancellation ''request does not extend the durable journal'')
                else Inr (h, controller, persist_decision entry)))"

definition Request ::
  "(JournalEntry \<Rightarrow> string option) \<Rightarrow> (string \<Rightarrow> string) \<Rightarrow> CancellationController \<Rightarrow>
   cancel_heap \<Rightarrow> nat option \<Rightarrow> CancellationRequest \<Rightarrow> ExecutionContract \<Rightarrow>
   JournalEntry list \<Rightarrow>
     cancellation_error + cancel_heap \<times> CancellationController \<times> CancellationDecision" where
  "Request marshal sha256hex controller h pointer request contract entries =
     (case deref h pointer of
        None \<Rightarrow> Inl (ErrInvalidCancellation ''nil machine'')
      | Some (address, machine) \<Rightarrow>
          (let current = m_state machine in
           case first_error
             [fail_if (m_operationID machine \<noteq> cr_OperationID request \<or>
                       m_planID machine \<noteq> cr_PlanID request)
                (ErrInvalidCancellation ''request does not match machine binding''),
              validateCancellationRequest request,
              fail_if (\<not> OperationState_Valid current \<or> OperationState_Terminal current)
                (ErrInvalidCancellation ''state cannot accept cancellation'')]
           of Some e \<Rightarrow> Inl e
            | None \<Rightarrow>
                (case validateCancellationFoundation marshal sha256hex machine request contract
                        entries of
                   Inl e \<Rightarrow> Inl e
                 | Inr journalHash \<Rightarrow>
                     if cc_queued controller then
                       Inl (ErrInvalidCancellation ''cancellation request already recorded'')
                     else
                       (let binding =
                              \<lparr>cb_operationID = cr_OperationID request, cb_planID = cr_PlanID request,
                               cb_contractHash = ec_digest contract, cb_journalHash = journalHash,
                               cb_sequence = cr_Sequence request,
                               cb_requestedAt = cr_RequestedAt request, cb_stepID = [],
                               cb_cancelSafe = False\<rparr>
                        in if cancellationStateIsStructurallyPreMutation current
                           then routeCancellationTo h address machine OperationCancelled binding
                           else request_in_flight marshal sha256hex controller h address machine
                                  request contract entries binding))))"

subsection \<open>The next safe boundary\<close>

definition matchesMachine :: "cancellationBinding \<Rightarrow> Machine \<Rightarrow> bool" where
  "matchesMachine binding machine =
     (cb_operationID binding = m_operationID machine \<and> cb_planID binding = m_planID machine)"

definition cancellationBoundaryRecorded :: "JournalEntry list \<Rightarrow> cancellationBinding \<Rightarrow> bool" where
  "cancellationBoundaryRecorded entries binding =
     list_ex (\<lambda>entry. je_Sequence entry > cb_sequence binding \<and> je_Kind entry = JournalEntryStep \<and>
        (case je_Step entry of
           None \<Rightarrow> False
         | Some step \<Rightarrow> jt_ID step = cb_stepID binding \<and> jt_EndedAt step \<noteq> None)) entries"

definition AtBoundary ::
  "(JournalEntry \<Rightarrow> string option) \<Rightarrow> (string \<Rightarrow> string) \<Rightarrow> CancellationController \<Rightarrow>
   cancel_heap \<Rightarrow> nat option \<Rightarrow> ExecutionContract \<Rightarrow> JournalEntry list \<Rightarrow>
     cancellation_error + cancel_heap \<times> CancellationController \<times> CancellationDecision" where
  "AtBoundary marshal sha256hex controller h pointer contract entries =
     (case deref h pointer of
        None \<Rightarrow> Inl (ErrInvalidCancellation ''nil machine'')
      | Some (address, machine) \<Rightarrow>
          (let current = m_state machine in
           case first_error
             [fail_if (\<not> matchesMachine (cc_binding controller) machine \<and> cc_queued controller)
                (ErrInvalidCancellation ''queued request does not match machine binding''),
              fail_if (\<not> OperationState_Valid current \<or> OperationState_Terminal current)
                (ErrInvalidCancellation ''state cannot reach a cancellation boundary''),
              fail_if (\<not> cc_queued controller)
                (ErrInvalidCancellation ''no durable cancellation request''),
              fail_if (entries = [] \<or> je_OperationState (last entries) \<noteq> current)
                (ErrInvalidCancellation ''journal state does not match the current machine boundary'')]
           of Some e \<Rightarrow> Inl e
            | None \<Rightarrow>
                (case RestoreCancellationController marshal sha256hex entries
                        (m_operationID machine) (m_planID machine) contract of
                   Inl _ \<Rightarrow> Inl (ErrInvalidCancellation ''durable cancellation request changed'')
                 | Inr fresh \<Rightarrow>
                     if \<not> cc_queued fresh \<or> cc_binding fresh \<noteq> cc_binding controller then
                       Inl (ErrInvalidCancellation ''durable cancellation request changed'')
                     else if \<not> cancellationBoundaryRecorded entries (cc_binding controller) then
                       Inl (ErrInvalidCancellation ''no durable safe boundary after request'')
                     else if \<not> CanTransition current (cc_target fresh) then
                       Inl (ErrInvalidCancellation ''state has no safe cancellation route'')
                     else routeCancellationTo h address machine (cc_target fresh) (cc_binding fresh))))"

subsection \<open>ApplyCancellation\<close>

definition cancellationActionMatchesTarget :: "CancellationAction \<Rightarrow> OperationState \<Rightarrow> bool" where
  "cancellationActionMatchesTarget action target =
     (action = CancellationCancel \<and> target = OperationCancelled \<or>
      action = CancellationRollback \<and> target = OperationRollback)"

datatype apply_error =
    ApplyInvalid cancellation_error
  | ApplyTransition machine_error

definition find_auth :: "cancel_heap \<Rightarrow> nat option \<Rightarrow> (nat \<times> cancellationAuthorization) option" where
  "find_auth h p =
     (case p of
        None \<Rightarrow> None
      | Some i \<Rightarrow> if i < length (ch_auths h) then Some (i, ch_auths h ! i) else None)"

definition auth_matches ::
  "nat \<Rightarrow> Machine \<Rightarrow> CancellationDecision \<Rightarrow> cancellationAuthorization \<Rightarrow> bool" where
  "auth_matches address machine decision auth =
     (ca_machine auth = address \<and> ca_target auth = cd_Target decision \<and>
      matchesMachine (ca_binding auth) machine \<and>
      sha256Pattern (cb_contractHash (ca_binding auth)) \<and>
      sha256Pattern (cb_journalHash (ca_binding auth)) \<and>
      cb_sequence (ca_binding auth) \<noteq> 0 \<and> \<not> time_IsZero (cb_requestedAt (ca_binding auth)) \<and>
      cancellationActionMatchesTarget (cd_Action decision) (cd_Target decision))"

text \<open>The compare-and-swap sets the flag before the boundary is compared.\<close>

definition ApplyCancellation ::
  "cancel_heap \<Rightarrow> nat option \<Rightarrow> CancellationDecision \<Rightarrow> cancel_heap \<times> apply_error option" where
  "ApplyCancellation h pointer decision =
     (case (deref h pointer, find_auth h (cd_authorization decision)) of
        (Some (address, machine), Some (i, auth)) \<Rightarrow>
          (if \<not> auth_matches address machine decision auth then
             (h, Some (ApplyInvalid (ErrInvalidCancellation ''missing or mismatched authorization'')))
           else if ca_used auth then
             (h, Some (ApplyInvalid (ErrInvalidCancellation ''cancellation authorization already consumed'')))
           else
             (let h' = h\<lparr>ch_auths := (ch_auths h)[i := auth\<lparr>ca_used := True\<rparr>]\<rparr>
              in if ca_generation auth \<noteq> m_generation machine \<or> ca_from auth \<noteq> m_state machine then
                   (h', Some (ApplyInvalid (ErrInvalidCancellation ''cancellation boundary changed'')))
                 else
                   (case Machine_transition (Some machine) (cd_Target decision) True of
                      (Some machine', None) \<Rightarrow>
                        (h'\<lparr>ch_machines := (ch_machines h')(address \<mapsto> machine')\<rparr>, None)
                    | (_, Some e) \<Rightarrow> (h', Some (ApplyTransition e))
                    | (None, None) \<Rightarrow> (h', None))))
      | _ \<Rightarrow> (h, Some (ApplyInvalid (ErrInvalidCancellation ''missing or mismatched authorization''))))"

text \<open>\<open>Transition\<close> on a machine of the store.\<close>

definition heap_Transition ::
  "cancel_heap \<Rightarrow> nat option \<Rightarrow> OperationState \<Rightarrow> cancel_heap \<times> machine_error option" where
  "heap_Transition h pointer nxt =
     (case deref h pointer of
        None \<Rightarrow> (h, snd (Machine_Transition None nxt))
      | Some (address, machine) \<Rightarrow>
          (case Machine_Transition (Some machine) nxt of
             (Some machine', err) \<Rightarrow>
               (h\<lparr>ch_machines := (ch_machines h)(address \<mapsto> machine')\<rparr>, err)
           | (None, err) \<Rightarrow> (h, err)))"

subsection \<open>The store\<close>

lemma deref_Some: "deref h p = Some (a, m) \<longleftrightarrow> p = Some a \<and> ch_machines h a = Some m"
  by (auto simp: deref_def split: option.splits)

lemma find_auth_Some:
  "find_auth h p = Some (i, auth) \<longleftrightarrow> p = Some i \<and> i < length (ch_auths h) \<and> auth = ch_auths h ! i"
  by (auto simp: find_auth_def split: option.splits)

text \<open>Everything the package lets other code do to the store.\<close>

inductive cancel_step :: "cancel_heap \<Rightarrow> cancel_heap \<Rightarrow> bool" where
  step_new: "NewMachine op plan = Inr m \<Longrightarrow> ch_machines h a = None \<Longrightarrow>
     cancel_step h (h\<lparr>ch_machines := (ch_machines h)(a \<mapsto> m)\<rparr>)"
| step_restore: "RestoreMachine op plan state = Inr m \<Longrightarrow> ch_machines h a = None \<Longrightarrow>
     cancel_step h (h\<lparr>ch_machines := (ch_machines h)(a \<mapsto> m)\<rparr>)"
| step_transition: "heap_Transition h p nxt = (h', err) \<Longrightarrow> cancel_step h h'"
| step_apply: "ApplyCancellation h p d = (h', err) \<Longrightarrow> cancel_step h h'"
| step_request: "Request marshal sha c h p r contract entries = Inr (h', c', d) \<Longrightarrow> cancel_step h h'"
| step_boundary: "AtBoundary marshal sha c h p contract entries = Inr (h', c', d) \<Longrightarrow> cancel_step h h'"

lemma heap_Transition_auths: "heap_Transition h p nxt = (h', err) \<Longrightarrow> ch_auths h' = ch_auths h"
  by (auto simp: heap_Transition_def split: option.splits prod.splits)

lemma routeCancellationTo_Inr:
  "routeCancellationTo h a m target binding = Inr (h', c, d) \<longleftrightarrow>
     CanTransition (m_state m) target \<and>
     h' = h\<lparr>ch_auths := ch_auths h @
         [\<lparr>ca_machine = a, ca_generation = m_generation m, ca_from = m_state m, ca_target = target,
           ca_binding = binding, ca_used = False\<rparr>]\<rparr> \<and>
     c = controller_zero \<and>
     d = \<lparr>cd_Action = (if target = OperationRollback then CancellationRollback else CancellationCancel),
          cd_Target = target, cd_JournalEntry = None,
          cd_UIState = (if target = OperationRollback then cancellationRollbackUI
                        else cancellationCancelUI),
          cd_authorization = Some (length (ch_auths h))\<rparr>"
  by (auto simp: routeCancellationTo_def)

text \<open>What a routed decision was routed from.\<close>

definition routed ::
  "cancel_heap \<Rightarrow> nat option \<Rightarrow> cancel_heap \<Rightarrow> CancellationController \<Rightarrow> CancellationDecision \<Rightarrow>
     nat \<Rightarrow> Machine \<Rightarrow> OperationState \<Rightarrow> cancellationBinding \<Rightarrow> bool" where
  "routed h p h' c d a m target binding \<longleftrightarrow>
     deref h p = Some (a, m) \<and> target \<in> {OperationCancelled, OperationRollback} \<and>
     matchesMachine binding m \<and> routeCancellationTo h a m target binding = Inr (h', c, d)"

text \<open>An answer of \<open>Request\<close> is a routed decision or a durable request to persist.\<close>

lemma foundation_Inr:
  "validateCancellationFoundation marshal sha m r contract es = Inr jh \<longleftrightarrow>
     ValidateJournal es = None \<and> es \<noteq> [] \<and> sha256Pattern (ec_digest contract) \<and>
     ec_workflowID contract \<noteq> [] \<and> ec_steps contract \<noteq> [] \<and>
     je_Sequence (hd es) = 1 \<and> je_OperationID (hd es) = m_operationID m \<and>
     je_PlanID (hd es) = m_planID m \<and> je_ContractHash (hd es) = ec_digest contract \<and>
     je_OperationState (last es) = m_state m \<and> cr_Sequence r = je_Sequence (last es) + 1 \<and>
     time_After (cr_RequestedAt r) (je_RecordedAt (last es)) \<and>
     (\<exists>c. RestoreCancellationController marshal sha es (m_operationID m) (m_planID m) contract = Inr c) \<and>
     cancellationJournalHash marshal sha es = Inr jh"
  unfolding validateCancellationFoundation_def guarded_Inr
  by (auto split: sum.splits)

lemma Request_cases [consumes 1, case_names routed persist]:
  assumes "Request marshal sha c h p r contract es = Inr (h', c', d)"
  obtains (routed) a m target binding jh where "routed h p h' c' d a m target binding"
      "validateCancellationFoundation marshal sha m r contract es = Inr jh"
      "cancellationStateIsStructurallyPreMutation (m_state m) \<longrightarrow> target = OperationCancelled"
      "cb_contractHash binding = ec_digest contract" "cb_journalHash binding = jh"
      "cb_sequence binding = cr_Sequence r" "cb_requestedAt binding = cr_RequestedAt r"
      "validateCancellationRequest r = None"
      "\<not> cancellationStateIsStructurallyPreMutation (m_state m) \<longrightarrow> m_state m = OperationPaused \<and>
         (\<exists>step obs. cancellationContext marshal sha m contract es r = Inr (step, obs) \<and>
            target = cancellationTarget (obs \<noteq> MutationNotOccurred))"
    | (persist) a m step obs jh where "deref h p = Some (a, m)" "h' = h" "c' = c" "\<not> cc_queued c"
      "m_operationID m = cr_OperationID r" "m_planID m = cr_PlanID r"
      "validateCancellationFoundation marshal sha m r contract es = Inr jh"
      "cancellationContext marshal sha m contract es r = Inr (step, obs)"
      "m_state m \<in> {OperationProtect, OperationExecute}"
      "\<not> (obs \<noteq> MutationNotOccurred \<and> ec_rollbackBoundary contract = ''none'')"
      "ValidateJournal (es @ [cancellationJournalEntry r (m_state m) (sc_ID step)
         (ec_digest contract) obs]) = None"
      "d = persist_decision (cancellationJournalEntry r (m_state m) (sc_ID step) (ec_digest contract) obs)"
proof -
  from assms obtain a m where m: "deref h p = Some (a, m)"
    by (auto simp: Request_def split: option.splits)
  from assms m have ids: "m_operationID m = cr_OperationID r" "m_planID m = cr_PlanID r"
    and valid: "validateCancellationRequest r = None" and idle: "\<not> cc_queued c"
    by (auto simp: Request_def Let_def guarded_Inr split: sum.splits if_splits)
  obtain jh where jh: "validateCancellationFoundation marshal sha m r contract es = Inr jh"
    using assms m by (auto simp: Request_def Let_def guarded_Inr split: sum.splits)
  define binding where "binding = \<lparr>cb_operationID = cr_OperationID r, cb_planID = cr_PlanID r,
    cb_contractHash = ec_digest contract, cb_journalHash = jh, cb_sequence = cr_Sequence r,
    cb_requestedAt = cr_RequestedAt r, cb_stepID = [], cb_cancelSafe = False\<rparr>"
  have run: "(if cancellationStateIsStructurallyPreMutation (m_state m)
      then routeCancellationTo h a m OperationCancelled binding
      else request_in_flight marshal sha c h a m r contract es binding) = Inr (h', c', d)"
    using assms m jh idle unfolding binding_def Request_def
    by (simp only: Let_def guarded_Inr option.case prod.case sum.case if_False)
  show thesis
  proof (cases "cancellationStateIsStructurallyPreMutation (m_state m)")
    case True
    with run have "routed h p h' c' d a m OperationCancelled binding"
      using m ids by (simp add: routed_def matchesMachine_def binding_def)
    with True jh valid show thesis by (intro routed) (auto simp: binding_def)
  next
    case False
    with run have flight: "request_in_flight marshal sha c h a m r contract es binding = Inr (h', c', d)"
      by simp
    then obtain step obs where ctx: "cancellationContext marshal sha m contract es r = Inr (step, obs)"
      by (auto simp: request_in_flight_def Let_def split: sum.splits)
    show thesis
    proof (cases "m_state m = OperationPaused")
      case True
      let ?b = "binding\<lparr>cb_stepID := sc_ID step, cb_cancelSafe := sc_CancelSafe step\<rparr>"
      let ?t = "cancellationTarget (obs \<noteq> MutationNotOccurred)"
      from flight ctx True have "routed h p h' c' d a m ?t ?b"
        using m ids
        by (auto simp: request_in_flight_def Let_def routed_def matchesMachine_def binding_def
            routeCancellation_def cancellationTarget_def split: if_splits)
      with False True jh valid ctx show thesis by (intro routed) (auto simp: binding_def)
    next
      case False
      with flight ctx jh m ids idle show thesis
        by (intro persist) (auto simp: request_in_flight_def Let_def split: if_splits)
    qed
  qed
qed

lemma AtBoundary_Inr:
  assumes "AtBoundary marshal sha c h p contract es = Inr (h', c', d)"
  shows "\<exists>a m fresh.
     deref h p = Some (a, m) \<and> cc_queued c \<and> es \<noteq> [] \<and> je_OperationState (last es) = m_state m \<and>
     RestoreCancellationController marshal sha es (m_operationID m) (m_planID m) contract = Inr fresh \<and>
     cc_queued fresh \<and> cc_binding fresh = cc_binding c \<and> matchesMachine (cc_binding fresh) m \<and>
     cancellationBoundaryRecorded es (cc_binding fresh) \<and>
     CanTransition (m_state m) (cc_target fresh) \<and>
     routeCancellationTo h a m (cc_target fresh) (cc_binding fresh) = Inr (h', c', d)"
  using assms
  by (auto simp: AtBoundary_def Let_def guarded_Inr split: option.splits sum.splits if_splits)

subsection \<open>One-shot authorizations\<close>

text \<open>How the authorizations may evolve: none disappears, none changes but its flag, no flag is reset.\<close>

definition auths_evolve :: "cancellationAuthorization list \<Rightarrow> cancellationAuthorization list \<Rightarrow> bool" where
  "auths_evolve as bs \<longleftrightarrow>
     length as \<le> length bs \<and>
     (\<forall>i < length as. (ca_used (as ! i) \<longrightarrow> ca_used (bs ! i)) \<and>
        (bs ! i)\<lparr>ca_used := ca_used (as ! i)\<rparr> = as ! i)"

lemma auths_evolve_refl [simp]: "auths_evolve as as"
  by (simp add: auths_evolve_def)

lemma auths_evolve_append [simp]: "auths_evolve as (as @ cs)"
  by (simp add: auths_evolve_def nth_append)

lemma auths_evolve_use: "i < length as \<Longrightarrow> auths_evolve as (as[i := (as ! i)\<lparr>ca_used := True\<rparr>])"
  by (simp add: auths_evolve_def nth_list_update)

lemma auths_evolve_trans:
  assumes "auths_evolve as bs" and "auths_evolve bs cs"
  shows "auths_evolve as cs"
  unfolding auths_evolve_def
proof (intro conjI allI impI)
  show "length as \<le> length cs" using assms by (simp add: auths_evolve_def)
  fix i assume i: "i < length as"
  with assms have ab: "(ca_used (as ! i) \<longrightarrow> ca_used (bs ! i)) \<and> (bs ! i)\<lparr>ca_used := ca_used (as ! i)\<rparr> = as ! i"
    and bc: "(ca_used (bs ! i) \<longrightarrow> ca_used (cs ! i)) \<and> (cs ! i)\<lparr>ca_used := ca_used (bs ! i)\<rparr> = bs ! i"
    by (auto simp: auths_evolve_def)
  then show "ca_used (as ! i) \<Longrightarrow> ca_used (cs ! i)" by blast
  have "(cs ! i)\<lparr>ca_used := ca_used (as ! i)\<rparr> =
      ((cs ! i)\<lparr>ca_used := ca_used (bs ! i)\<rparr>)\<lparr>ca_used := ca_used (as ! i)\<rparr>" by simp
  with ab bc show "(cs ! i)\<lparr>ca_used := ca_used (as ! i)\<rparr> = as ! i" by simp
qed

lemma ApplyCancellation_cases [consumes 1, case_names refused stale granted]:
  assumes "ApplyCancellation h p d = (h', err)"
  obtains (refused) e where "h' = h" "err = Some (ApplyInvalid e)"
    | (stale) e i where "i < length (ch_auths h)" "cd_authorization d = Some i" "err = Some e"
      "h' = h\<lparr>ch_auths := (ch_auths h)[i := (ch_auths h ! i)\<lparr>ca_used := True\<rparr>]\<rparr>"
    | (granted) a m i where "deref h p = Some (a, m)" "i < length (ch_auths h)"
      "cd_authorization d = Some i" "auth_matches a m d (ch_auths h ! i)" "\<not> ca_used (ch_auths h ! i)"
      "ca_generation (ch_auths h ! i) = m_generation m" "ca_from (ch_auths h ! i) = m_state m"
      "err = None" "CanTransition (m_state m) (cd_Target d)"
      "h' = h\<lparr>ch_auths := (ch_auths h)[i := (ch_auths h ! i)\<lparr>ca_used := True\<rparr>],
             ch_machines := (ch_machines h)(a \<mapsto>
               m\<lparr>m_state := cd_Target d, m_generation := m_generation m + 1\<rparr>)\<rparr>"
proof (cases "deref h p")
  case None
  with assms refused show thesis by (auto simp: ApplyCancellation_def)
next
  case deref: (Some am)
  obtain a m where am: "am = (a, m)" by force
  show thesis
  proof (cases "find_auth h (cd_authorization d)")
    case None
    with assms deref am refused show thesis by (auto simp: ApplyCancellation_def)
  next
    case (Some ia)
    then obtain i where i: "ia = (i, ch_auths h ! i)" "cd_authorization d = Some i" "i < length (ch_auths h)"
      by (cases ia) (auto simp: find_auth_Some)
    show thesis
    proof (cases "auth_matches a m d (ch_auths h ! i) \<and> \<not> ca_used (ch_auths h ! i)")
      case False
      with assms deref am Some i refused show thesis
        by (auto simp: ApplyCancellation_def split: if_splits)
    next
      case fresh: True
      show thesis
      proof (cases "ca_generation (ch_auths h ! i) = m_generation m \<and> ca_from (ch_auths h ! i) = m_state m")
        case False
        with fresh assms deref am Some i stale [of i] show thesis
          by (auto simp: ApplyCancellation_def Let_def split: if_splits)
      next
        case same: True
        obtain mo e where tr: "Machine_transition (Some m) (cd_Target d) True = (mo, e)" by force
        show thesis
        proof (cases e)
          case (Some e')
          with tr same fresh assms deref am \<open>find_auth h (cd_authorization d) = Some ia\<close> i stale [of i]
          show thesis by (cases mo) (auto simp: ApplyCancellation_def Let_def)
        next
          case None
          then obtain m' where "mo = Some m'"
            using tr by (cases mo) (auto simp: Machine_transition.simps split: if_splits)
          with None tr have m': "CanTransition (m_state m) (cd_Target d)"
            "mo = Some (m\<lparr>m_state := cd_Target d, m_generation := m_generation m + 1\<rparr>)"
            using Machine_transition_ok [of m "cd_Target d" True m'] by auto
          show thesis
            using assms deref am \<open>find_auth h (cd_authorization d) = Some ia\<close> i fresh same tr None m'
            by (intro granted [OF _ i(3,2)]) (auto simp: ApplyCancellation_def Let_def)
        qed
      qed
    qed
  qed
qed

lemma cancel_step_auths: "cancel_step h h' \<Longrightarrow> auths_evolve (ch_auths h) (ch_auths h')"
proof (induction rule: cancel_step.induct)
  case (step_transition h p nxt h' err)
  then show ?case by (simp add: heap_Transition_auths)
next
  case (step_apply h p d h' err)
  then show ?case by (cases rule: ApplyCancellation_cases) (simp_all add: auths_evolve_use)
next
  case (step_request marshal sha c h p r contract entries h' c' d)
  then show ?case by (cases rule: Request_cases) (auto simp: routed_def routeCancellationTo_Inr)
next
  case (step_boundary marshal sha c h p contract entries h' c' d)
  then show ?case by (auto dest!: AtBoundary_Inr simp: routeCancellationTo_Inr)
qed simp_all

lemma cancel_steps_auths: "cancel_step\<^sup>*\<^sup>* h h' \<Longrightarrow> auths_evolve (ch_auths h) (ch_auths h')"
  by (induction rule: rtranclp_induct) (auto intro: auths_evolve_trans dest: cancel_step_auths)

lemma used_refuses:
  assumes "find_auth h (cd_authorization d) = Some (i, auth)" "ca_used auth"
  shows "\<exists>e. ApplyCancellation h p d = (h, Some (ApplyInvalid e))"
  using assms
  by (cases "deref h p") (auto simp: ApplyCancellation_def)

subsection \<open>Properties of the authorization\<close>

text \<open>
  C30. A cancellation authorization works once: after \<open>ApplyCancellation\<close> succeeded, whatever the
  package's operations do to the machines and authorizations in between, every later decision that
  holds the same authorization, a copy included, is refused and changes nothing, on any machine.
\<close>

theorem ApplyCancellation_one_shot:
  assumes "ApplyCancellation h p d = (h1, None)" and "cancel_step\<^sup>*\<^sup>* h1 h2"
    and "cd_authorization d' = cd_authorization d"
  shows "\<exists>e. ApplyCancellation h2 q d' = (h2, Some (ApplyInvalid e))"
  using assms(1)
proof (cases rule: ApplyCancellation_cases)
  case (granted a m i)
  have len: "i < length (ch_auths h1)" and used: "ca_used (ch_auths h1 ! i)"
    using granted(2,10) by auto
  with cancel_steps_auths [OF assms(2)] have "i < length (ch_auths h2)" "ca_used (ch_auths h2 ! i)"
    by (auto simp: auths_evolve_def)
  then show ?thesis
    using granted(3) assms(3) by (intro used_refuses [of _ _ i "ch_auths h2 ! i"]) (simp_all add: find_auth_Some)
qed auto

text \<open>
  \<open>ApplyCancellation\<close> succeeds only for a live authorization of exactly this machine, in the
  state and generation in which the decision was routed, with a target of CANCELLED or ROLLBACK that
  agrees with the action and that the table allows; it then moves this machine to the target and
  touches no other. Whenever it fails no machine changes, and a failure after the flag was taken
  leaves the authorization consumed.
\<close>

theorem ApplyCancellation_effect:
  assumes "ApplyCancellation h p d = (h', err)"
  shows "(err = None \<longrightarrow>
      (\<exists>a m i. p = Some a \<and> ch_machines h a = Some m \<and> cd_authorization d = Some i \<and>
         i < length (ch_auths h) \<and> \<not> ca_used (ch_auths h ! i) \<and> ca_used (ch_auths h' ! i) \<and>
         ca_machine (ch_auths h ! i) = a \<and> ca_from (ch_auths h ! i) = m_state m \<and>
         ca_generation (ch_auths h ! i) = m_generation m \<and> ca_target (ch_auths h ! i) = cd_Target d \<and>
         (cd_Action d, cd_Target d) \<in>
           {(CancellationCancel, OperationCancelled), (CancellationRollback, OperationRollback)} \<and>
         CanTransition (m_state m) (cd_Target d) \<and>
         ch_machines h' = (ch_machines h)(a \<mapsto>
           m\<lparr>m_state := cd_Target d, m_generation := m_generation m + 1\<rparr>))) \<and>
     (err \<noteq> None \<longrightarrow> ch_machines h' = ch_machines h \<and> auths_evolve (ch_auths h) (ch_auths h'))"
  using assms
proof (cases rule: ApplyCancellation_cases)
  case (granted a m i)
  then show ?thesis
    by (auto simp: deref_Some auth_matches_def cancellationActionMatchesTarget_def)
qed (auto simp: auths_evolve_use)

lemma routed_apply:
  assumes "routed h p h' c d a m target binding"
    and "validateCancellationRequest r = None" "cb_requestedAt binding = cr_RequestedAt r"
    and "cb_sequence binding = cr_Sequence r" "sha256Pattern (cb_contractHash binding)"
    and "sha256Pattern (cb_journalHash binding)"
  shows "\<exists>h''. ApplyCancellation h' p d = (h'', None) \<and>
     ch_machines h'' = (ch_machines h)(a \<mapsto> m\<lparr>m_state := target, m_generation := m_generation m + 1\<rparr>)"
proof -
  from assms(1) have route: "deref h p = Some (a, m)" "target \<in> {OperationCancelled, OperationRollback}"
    "matchesMachine binding m" "CanTransition (m_state m) target" "cd_Target d = target"
    "cd_Action d = (if target = OperationRollback then CancellationRollback else CancellationCancel)"
    "cd_authorization d = Some (length (ch_auths h))"
    "h' = h\<lparr>ch_auths := ch_auths h @
         [\<lparr>ca_machine = a, ca_generation = m_generation m, ca_from = m_state m, ca_target = target,
           ca_binding = binding, ca_used = False\<rparr>]\<rparr>"
    by (auto simp: routed_def routeCancellationTo_Inr)
  then have "Machine_transition (Some m) target True =
      (Some (m\<lparr>m_state := target, m_generation := m_generation m + 1\<rparr>), None)"
    by (simp add: Machine_transition_ok)
  with route assms(2-6) show ?thesis
    by (auto simp: ApplyCancellation_def deref_def find_auth_def auth_matches_def Let_def
        validateCancellationRequest_def cancellationActionMatchesTarget_def split: option.splits)
qed

lemma stale_refused:
  assumes "routed h p h' c d a m target binding"
    and "heap_Transition h' p nxt = (h'', None)"
  shows "\<exists>h3 e. ApplyCancellation h'' p d = (h3, Some e) \<and> ch_machines h3 = ch_machines h''"
proof -
  from assms(1) have route: "deref h p = Some (a, m)" "cd_authorization d = Some (length (ch_auths h))"
    "h' = h\<lparr>ch_auths := ch_auths h @
         [\<lparr>ca_machine = a, ca_generation = m_generation m, ca_from = m_state m, ca_target = target,
           ca_binding = binding, ca_used = False\<rparr>]\<rparr>"
    by (auto simp: routed_def routeCancellationTo_Inr)
  then have "deref h' p = Some (a, m)" by (auto simp: deref_Some)
  with assms(2) have h'': "ch_auths h'' = ch_auths h'"
    "deref h'' p = Some (a, m\<lparr>m_state := nxt, m_generation := m_generation m + 1\<rparr>)"
    using heap_Transition_auths [OF assms(2)]
    by (auto simp: heap_Transition_def Machine_Transition_def deref_Some Machine_transition.simps
        split: if_splits)
  obtain h3 err where run: "ApplyCancellation h'' p d = (h3, err)" by force
  then show ?thesis
  proof (cases rule: ApplyCancellation_cases)
    case (granted b m' i)
    with route h'' have "m_generation m = m_generation m + 1" by auto
    then show ?thesis by simp
  qed (use run in auto)
qed

text \<open>
  A routed decision authorises the current boundary and no other: applied at once it moves the
  machine to its target, but after any other successful transition of the machine it is refused and
  consumed, even if the machine is still in the same state.
\<close>

theorem Request_authorizes_one_boundary:
  assumes "Request marshal sha256hex c h (Some a) r contract es = Inr (h', c', d)"
    and "cd_authorization d = Some i" and "\<forall>s. sha256Pattern (sha256hex s)"
  shows "(\<exists>h'' m. ch_machines h a = Some m \<and> ApplyCancellation h' (Some a) d = (h'', None) \<and>
        ch_machines h'' = (ch_machines h)(a \<mapsto>
          m\<lparr>m_state := cd_Target d, m_generation := m_generation m + 1\<rparr>)) \<and>
     (\<forall>nxt h''. heap_Transition h' (Some a) nxt = (h'', None) \<longrightarrow>
        (\<exists>h3 e. ApplyCancellation h'' (Some a) d = (h3, Some e) \<and> ch_machines h3 = ch_machines h''))"
  using assms(1)
proof (cases rule: Request_cases)
  case (persist a m step obs jh)
  with assms(2) show ?thesis by (simp add: persist_decision_def)
next
  case (routed b m target binding jh)
  obtain bytes where "jh = sha256hex bytes"
    using routed(2) by (auto simp: foundation_Inr cancellationJournalHash_def split: sum.splits)
  then have hash: "sha256Pattern (cb_contractHash binding)" "sha256Pattern (cb_journalHash binding)"
    using routed(2,4,5) assms(3) by (simp_all add: foundation_Inr)
  have target: "cd_Target d = target" "b = a" "ch_machines h a = Some m"
    using routed(1) by (auto simp: routed_def routeCancellationTo_Inr deref_Some)
  from routed_apply [OF routed(1,8,7,6) hash] target stale_refused [OF routed(1)]
  show ?thesis by blast
qed

subsection \<open>A concrete request\<close>

definition sample_contract :: ExecutionContract where
  "sample_contract =
     \<lparr>ec_workflowID = ''WF-A-01'', ec_rollbackBoundary = ''undo'', ec_pointOfNoReturn = [],
      ec_pointOfNoReturnTrigger = PointOfNoReturnTriggerOther [],
      ec_steps = [\<lparr>sc_ID = ''step-a'', sc_Executor = ''exec'',
        sc_ExecutingIdentity = IdentityOperator, sc_CommandSummary = ''summary'',
        sc_Effect = StepEffectMutation, sc_MinimumApproval = ApprovalDestructive,
        sc_TargetKinds = [''kind''], sc_RequiredPermissions = [''compute.instances.get''],
        sc_RequiresStepUp = False, sc_RequiresRecoveryAsset = False, sc_ExposureRequirement = None,
        sc_Idempotent = True,
        sc_Retry = \<lparr>rp_MaxAttempts = 3, rp_InitialBackoffSeconds = 1, rp_MaxBackoffSeconds = 5\<rparr>,
        sc_CancelSafe = False, sc_TimeoutSeconds = 60, sc_SuccessCondition = ''done'',
        sc_FailureBehavior = FailureRollback\<rparr>],
      ec_digest = sample_hash\<rparr>"

definition sample_heap :: "OperationState \<Rightarrow> 64 word \<Rightarrow> cancel_heap" where
  "sample_heap s n = \<lparr>ch_machines = [0 \<mapsto> machine_at s n], ch_auths = []\<rparr>"

definition sample_cancel :: "64 word \<Rightarrow> CancellationRequest" where
  "sample_cancel n =
     \<lparr>cr_OperationID = sample_op, cr_PlanID = sample_plan, cr_Sequence = n,
      cr_RequestedAt = utc (1000 * uint n)\<rparr>"

definition early_journal :: "JournalEntry list" where
  "early_journal =
     [sample_entry 1 JournalEntryTransition OperationDiscover,
      sample_entry 2 JournalEntryTransition OperationValidate]"

lemma early_journal_ok: "ValidateJournal early_journal = None"
  by (simp add: early_journal_def journal_evaluation)

lemmas request_evaluation =
  Request_def deref_def validateCancellationRequest_def validateCancellationFoundation_def
  RestoreCancellationController_def restore_entry_def restore_request_def restore_init_def
  cancellationJournalHash_def EncodeJournalEntry_def contract_step_matches_def advance_step_def
  time_defs Let_def sample_cancel_def sample_contract_def sample_heap_def machine_at_def
  cancellationStateIsStructurallyPreMutation_def pointOfNoReturnReached_def
  routeCancellationTo_def CanTransition_def

definition sample_binding :: cancellationBinding where
  "sample_binding =
     \<lparr>cb_operationID = sample_op, cb_planID = sample_plan, cb_contractHash = sample_hash,
      cb_journalHash = sample_hash, cb_sequence = 3, cb_requestedAt = utc 3000, cb_stepID = [],
      cb_cancelSafe = False\<rparr>"

definition early_heap :: "bool \<Rightarrow> cancel_heap" where
  "early_heap used =
     \<lparr>ch_machines = [0 \<mapsto> machine_at (if used then OperationCancelled else OperationValidate)
                          (if used then 2 else 1)],
      ch_auths = [\<lparr>ca_machine = 0, ca_generation = 1, ca_from = OperationValidate,
        ca_target = OperationCancelled, ca_binding = sample_binding, ca_used = used\<rparr>]\<rparr>"

definition early_decision :: CancellationDecision where
  "early_decision =
     \<lparr>cd_Action = CancellationCancel, cd_Target = OperationCancelled, cd_JournalEntry = None,
      cd_UIState = cancellationCancelUI, cd_authorization = Some 0\<rparr>"

lemma early_request:
  "Request (\<lambda>_. Some ''entry'') (\<lambda>_. sample_hash) controller_zero (sample_heap OperationValidate 1)
     (Some 0) (sample_cancel 3) sample_contract early_journal =
   Inr (early_heap False, controller_zero, early_decision)"
  using early_journal_ok
  by (simp add: request_evaluation early_journal_def controller_zero_def early_heap_def
      early_decision_def sample_binding_def)

lemma early_apply:
  "ApplyCancellation (early_heap False) (Some 0) early_decision = (early_heap True, None)"
  by (simp add: ApplyCancellation_def early_heap_def early_decision_def deref_def find_auth_def
      auth_matches_def matchesMachine_def machine_at_def sample_binding_def time_defs Let_def
      cancellationActionMatchesTarget_def Machine_transition.simps CanTransition_def)

theorem ApplyCancellation_one_shot_witness:
  "\<exists>e. ApplyCancellation (early_heap True) (Some 0) early_decision =
     (early_heap True, Some (ApplyInvalid e))"
  using ApplyCancellation_one_shot [OF early_apply] by blast

theorem ApplyCancellation_effect_witness:
  "ca_used (ch_auths (early_heap True) ! 0)"
proof -
  from ApplyCancellation_effect [OF early_apply] obtain i where
    "cd_authorization early_decision = Some i" "ca_used (ch_auths (early_heap True) ! i)" by auto
  then show ?thesis by (simp add: early_decision_def)
qed

theorem Request_authorizes_one_boundary_witness:
  "\<exists>h''. ApplyCancellation (early_heap False) (Some 0) early_decision = (h'', None)"
proof -
  have "cd_authorization early_decision = Some 0" "\<forall>s :: string. sha256Pattern ((\<lambda>_. sample_hash) s)"
    by (simp_all add: early_decision_def)
  from Request_authorizes_one_boundary [OF early_request this] show ?thesis by blast
qed

end
