(* ===== verification/CancellationJournal.thy ===== *)
theory CancellationJournal
  imports CancellationController
begin

section \<open>Cancellation and the journal agree\<close>

text \<open>
  The journal keeps a pending cancellation in \<open>ValidateJournal\<close>, and \<open>RestoreCancellationController\<close>
  recomputes it in a replay of its own. The lemmas here relate the two replays: the restored target is
  the pending one, a decision at the boundary can be recorded, and a persisted request is restored.
\<close>

subsection \<open>The two replays\<close>

lemma cancelled_route_direct:
  "cancellationRouteReachable s OperationCancelled \<Longrightarrow> CanTransition s OperationCancelled"
  by (auto simp: cancellation_routes CanTransition_iff)

text \<open>A pause never follows a pending request whose route is CANCELLED.\<close>

lemma pause_forces_rollback:
  assumes "journal_loop entries ys = Inr u" "js_machine u = Some m"
    and "transition_guards i u m e = None" "je_OperationState e = OperationPaused"
    and "js_pendingCancellation u \<noteq> noState"
  shows "js_pendingCancellation u = OperationRollback"
proof -
  from journal_pending [OF assms(1)] assms(2,5) have
    "js_pendingCancellation u = OperationRollback \<or>
     js_pendingCancellation u = OperationCancelled \<and> CanTransition (m_state m) OperationCancelled"
    by (auto intro: cancelled_route_direct)
  with transition_guards_None [OF assms(3)] assms(4) show ?thesis by auto
qed

lemma journal_pending_clean:
  "journal_loop entries xs = Inr st \<Longrightarrow>
     js_pendingCancellation st = OperationCancelled \<longrightarrow> \<not> js_mutationMayHaveOccurred st"
proof (induction rule: journal_loop_induct)
  case init
  then show ?case by simp
next
  case (step ys y u v)
  note IH = step.IH
  from step.hyps(2) show ?case
  proof (cases rule: journal_entry_cases)
    case (transition m m')
    have "js_pendingCancellation u \<noteq> noState \<Longrightarrow> je_Pause y \<noteq> None \<Longrightarrow>
        js_pendingCancellation u = OperationRollback"
      using pause_forces_rollback [OF step.hyps(1) transition(2,8)] transition(6) by blast
    with transition IH show ?thesis by (auto simp: entry_mutation_def split: if_splits option.splits)
  qed (use IH in \<open>auto simp: cancellation_route_for_def split: if_splits\<close>)
qed

lemma restore_agrees:
  "journal_loop entries xs = Inr st \<Longrightarrow>
     \<forall>rs. range_loop (restore_entry marshal sha contract es) 0 restore_init xs = Inr rs \<longrightarrow>
       rs_target rs = js_pendingCancellation st"
proof (induction rule: journal_loop_induct)
  case init
  then show ?case by (simp add: restore_init_def)
next
  case (step ys y u v)
  show ?case
  proof (intro allI impI)
    fix rs
    assume "range_loop (restore_entry marshal sha contract es) 0 restore_init (ys @ [y]) = Inr rs"
    then obtain r0 where r0: "range_loop (restore_entry marshal sha contract es) 0 restore_init ys = Inr r0"
      and entry: "restore_entry marshal sha contract es (length ys) r0 y = Inr rs"
      by (auto simp: range_loop_snoc)
    from step.IH r0 have same: "rs_target r0 = js_pendingCancellation u" by blast
    from step.hyps(2) show "rs_target rs = js_pendingCancellation v"
    proof (cases rule: journal_entry_cases)
      case (initial m)
      then have "ys = []" using journal_machine [OF step.hyps(1)] by simp
      with step.hyps(1) initial entry same show ?thesis
        by (auto simp: restore_entry_def journal_loop_def)
    next
      case (request m r)
      with entry show ?thesis
        by (auto simp: restore_entry_def restore_request_def Let_def split: sum.splits if_splits)
    next
      case (step m s)
      have "js_pendingCancellation u \<noteq> noState \<Longrightarrow> js_mutationMayHaveOccurred u \<Longrightarrow>
          js_pendingCancellation u = OperationRollback"
        using journal_pending [OF step.hyps(1)] journal_pending_clean [OF step.hyps(1)] by auto
      with step entry same show ?thesis
        by (auto simp: restore_entry_def split: if_splits)
    next
      case (transition m m')
      have "je_OperationState y \<noteq> noState"
        using transition(1) by (auto simp: entry_ok_def dest: entry_valid_facts)
      moreover have "js_pendingCancellation u \<noteq> noState \<Longrightarrow> je_Pause y \<noteq> None \<Longrightarrow>
          js_pendingCancellation u = OperationRollback"
        using pause_forces_rollback [OF step.hyps(1) transition(2,8)] transition(6) by blast
      ultimately show ?thesis
        using transition(3,15) entry same by (auto simp: restore_entry_def split: if_splits)
    qed
  qed
qed

lemma Restore_Inr:
  "RestoreCancellationController marshal sha es op plan contract = Inr c \<longleftrightarrow>
     ValidateJournal es = None \<and> es \<noteq> [] \<and> je_OperationID (hd es) = op \<and> je_PlanID (hd es) = plan \<and>
     sha256Pattern (ec_digest contract) \<and> je_ContractHash (hd es) = ec_digest contract \<and>
     (\<exists>rs. range_loop (restore_entry marshal sha contract es) 0 restore_init es = Inr rs \<and>
        \<not> (rs_target rs \<noteq> noState \<and> pointOfNoReturnReached contract es) \<and>
        \<not> (rs_target rs = OperationRollback \<and> ec_rollbackBoundary contract = ''none'') \<and>
        c = \<lparr>cc_queued = (rs_target rs \<noteq> noState), cc_target = rs_target rs,
             cc_binding = rs_binding rs\<rparr>)"
proof (cases "range_loop (restore_entry marshal sha contract es) 0 restore_init es")
  case (Inl e)
  then show ?thesis by (simp add: RestoreCancellationController_def guarded_Inr)
next
  case (Inr rs)
  show ?thesis
    unfolding RestoreCancellationController_def guarded_Inr Inr sum.case first_error_Cons_None
      first_error.simps(1) fail_if_None sum.inject eq_commute [of _ c]
    by (simp only: simp_thms de_Morgan_disj not_not conj_assoc)
qed

subsection \<open>Recording a decision\<close>

text \<open>\<open>e\<close> is a well-formed next entry of the journal: a transition to \<open>target\<close>.\<close>

definition next_transition :: "JournalEntry list \<Rightarrow> OperationState \<Rightarrow> JournalEntry \<Rightarrow> bool" where
  "next_transition es target e \<longleftrightarrow>
     ValidateJournalEntry e = None \<and> je_Kind e = JournalEntryTransition \<and>
     je_OperationState e = target \<and> je_Sequence e = je_Sequence (last es) + 1 \<and>
     je_OperationID e = je_OperationID (hd es) \<and> je_PlanID e = je_PlanID (hd es) \<and>
     je_ContractHash e = je_ContractHash (hd es) \<and>
     t_ns (je_RecordedAt (last es)) \<le> t_ns (je_RecordedAt e)"

lemma journal_snoc:
  assumes "journal_loop es es = Inr st" "es \<noteq> []"
  shows "ValidateJournal (es @ [e]) = None \<longleftrightarrow>
     (\<exists>st'. journal_entry (je_OperationID (hd es)) (je_PlanID (hd es)) (je_ContractHash (hd es))
        (length es) st e = Inr st')"
  using assms by (auto simp: ValidateJournal_None journal_loop_def range_loop_snoc)

lemma next_entry_ok:
  assumes run: "journal_loop es es = Inr st" and "es \<noteq> []" and "js_machine st = Some m"
    and "\<not> OperationState_Terminal (m_state m)" and "next_transition es target e"
  shows "entry_ok (je_OperationID (hd es)) (je_PlanID (hd es)) (je_ContractHash (hd es)) (length es) st e"
proof -
  have "length es - 1 < length es" using assms(2) by (cases es) simp_all
  with journal_headers [OF run] have "je_Sequence (es ! (length es - 1)) = of_nat (length es - 1 + 1)"
    by blast
  then have seq: "je_Sequence (last es) = of_nat (length es)"
    using assms(2) by (cases es rule: rev_cases) simp_all
  have time: "js_previousTime st = je_RecordedAt (last es)"
    using journal_headers [OF run] assms(2) by simp
  show ?thesis
    using assms(3-5) seq time by (simp add: entry_ok_def next_transition_def add.commute)
qed

text \<open>A pending cancellation whose route the table allows can be recorded at once.\<close>

lemma pending_transition_recorded:
  assumes run: "journal_loop es es = Inr st" and ne: "es \<noteq> []" and m: "js_machine st = Some m"
    and pending: "js_pendingCancellation st = target" "target \<noteq> noState"
    and route: "CanTransition (m_state m) target" and e: "next_transition es target e"
  shows "ValidateJournal (es @ [e]) = None"
proof -
  have target: "target \<in> {OperationCancelled, OperationRollback}"
    using journal_pending [OF run] pending by auto
  have live: "\<not> OperationState_Terminal (m_state m)"
    using route transitions_terminal_iff [of "m_state m"] transitions_valid [of target "m_state m"]
    by (auto simp: CanTransition_iff)
  note ok = next_entry_ok [OF run ne m live e]
  from e have kind: "je_Kind e = JournalEntryTransition" "je_OperationState e = target"
    and valid: "ValidateJournalEntry e = None" by (simp_all add: next_transition_def)
  from entry_kinds [OF valid] kind target have absent: "je_Pause e = None" by auto
  have clean: "target = OperationCancelled \<Longrightarrow> \<not> js_mutationMayHaveOccurred st"
    using journal_pending_clean [OF run] pending by simp
  have paused: "m_state m = OperationPaused \<Longrightarrow> js_paused st \<noteq> None"
    using journal_pause [OF run] m by (auto split: option.splits)
  have guards: "transition_guards (length es) (at_entry st e) m e = None"
    using kind target pending clean paused by (auto simp: transition_guards_def split: option.splits)
  have moved: "journal_machine_transition m target =
      (Some (m\<lparr>m_state := target, m_generation := m_generation m + 1\<rparr>), None)"
    using route target by (auto simp: journal_machine_transition_def Machine_Transition_def Machine_transition_ok)
  have "\<exists>st'. journal_entry (je_OperationID (hd es)) (je_PlanID (hd es)) (je_ContractHash (hd es))
      (length es) st e = Inr st'"
    using kind guards moved pending absent m
    by (simp add: journal_entry_def journal_prologue_None [THEN iffD2, OF ok] Let_def
        journal_transition_def settle_pending_def record_pause_def)
  then show ?thesis using journal_snoc [OF run ne] by blast
qed

text \<open>
  C4. The two replays of the journal agree: the controller that \<open>RestoreCancellationController\<close>
  rebuilds has exactly the pending route of \<open>ValidateJournal\<close>'s replay, and it is queued exactly when
  there is one; a queued controller routes to CANCELLED only when the journal holds no evidence of
  a mutation, and never past the point of no return or into a missing rollback boundary.
\<close>

theorem Restore_agrees_with_journal:
  assumes "RestoreCancellationController marshal sha256hex es op plan contract = Inr c"
  shows "\<exists>st. journal_replay es = Inr st \<and> cc_target c = js_pendingCancellation st \<and>
     (cc_queued c \<longleftrightarrow> js_pendingCancellation st \<noteq> noState) \<and>
     (cc_queued c \<longrightarrow> cc_target c \<in> {OperationCancelled, OperationRollback} \<and>
        \<not> pointOfNoReturnReached contract es) \<and>
     (cc_target c = OperationCancelled \<longrightarrow> \<not> (\<exists>e \<in> set es. entry_mutation e)) \<and>
     (cc_target c = OperationRollback \<longrightarrow> ec_rollbackBoundary contract \<noteq> ''none'')"
proof -
  from assms obtain st rs where ne: "es \<noteq> []" and run: "journal_loop es es = Inr st"
    and rs: "range_loop (restore_entry marshal sha256hex contract es) 0 restore_init es = Inr rs"
    and c: "c = \<lparr>cc_queued = (rs_target rs \<noteq> noState), cc_target = rs_target rs,
             cc_binding = rs_binding rs\<rparr>"
    and ok: "\<not> (rs_target rs \<noteq> noState \<and> pointOfNoReturnReached contract es)"
      "\<not> (rs_target rs = OperationRollback \<and> ec_rollbackBoundary contract = ''none'')"
    by (auto simp: Restore_Inr ValidateJournal_None)
  from restore_agrees [OF run] rs have same: "rs_target rs = js_pendingCancellation st" by blast
  have "journal_replay es = Inr st"
    using ne run by (cases es) (simp_all add: journal_replay_def journal_loop_def)
  with c ok same journal_pending [OF run] journal_pending_clean [OF run] journal_mutation [OF run]
  show ?thesis by auto
qed

lemma step_index_Some: "step_index k sid ss = Some j \<Longrightarrow> k \<le> j \<and> j - k < length ss \<and> sc_ID (ss ! (j - k)) = sid"
proof (induction ss arbitrary: k j)
  case (Cons s ss)
  show ?case
  proof (cases "step_index (Suc k) sid ss")
    case None
    with Cons.prems show ?thesis by (simp split: if_splits)
  next
    case (Some i)
    with Cons.prems have "i = j" by simp
    with Cons.IH [OF Some] show ?thesis by (auto simp: Suc_diff_le [symmetric] nth_Cons' Suc_le_eq)
  qed
qed simp

text \<open>
  The journal is before the point of no return of the contract: no step after that step was attempted, and
  what was recorded of the step itself does not meet its trigger.
\<close>

definition before_point_of_no_return :: "ExecutionContract \<Rightarrow> JournalEntry list \<Rightarrow> bool" where
  "before_point_of_no_return contract es \<longleftrightarrow>
     ec_pointOfNoReturn contract = [] \<or>
     (\<exists>n < length (ec_steps contract). sc_ID (ec_steps contract ! n) = ec_pointOfNoReturn contract \<and>
        (\<forall>e \<in> set es. \<forall>s. je_Kind e = JournalEntryStep \<and> je_Step e = Some s \<longrightarrow>
           (\<exists>i \<le> n. sc_ID (ec_steps contract ! i) = jt_ID s \<and>
              (i = n \<longrightarrow>
                 ec_pointOfNoReturnTrigger contract \<noteq> PointOfNoReturnStepStart \<and>
                 (ec_pointOfNoReturnTrigger contract = PointOfNoReturnMutationObserved \<longrightarrow>
                    \<not> jt_MutationOccurred s \<and> jt_Outcome s \<noteq> StepUnknown) \<and>
                 (ec_pointOfNoReturnTrigger contract = PointOfNoReturnStepComplete \<longrightarrow> jt_Outcome s \<noteq> StepDone)))))"

lemma before_point:
  assumes "\<not> pointOfNoReturnReached contract es"
  shows "before_point_of_no_return contract es"
proof (cases "ec_pointOfNoReturn contract = []")
  case False
  with assms obtain n where n: "step_index 0 (ec_pointOfNoReturn contract) (ec_steps contract) = Some n"
    and es: "\<And>e. e \<in> set es \<Longrightarrow> \<not> entry_past_point contract n e"
    by (auto simp: pointOfNoReturnReached_def list_ex_iff split: option.splits if_splits)
  have "\<exists>i \<le> n. sc_ID (ec_steps contract ! i) = jt_ID s \<and>
      (i = n \<longrightarrow>
         ec_pointOfNoReturnTrigger contract \<noteq> PointOfNoReturnStepStart \<and>
         (ec_pointOfNoReturnTrigger contract = PointOfNoReturnMutationObserved \<longrightarrow>
            \<not> jt_MutationOccurred s \<and> jt_Outcome s \<noteq> StepUnknown) \<and>
         (ec_pointOfNoReturnTrigger contract = PointOfNoReturnStepComplete \<longrightarrow> jt_Outcome s \<noteq> StepDone))"
    if "e \<in> set es" "je_Kind e = JournalEntryStep" "je_Step e = Some s" for e s
  proof -
    from es [OF that(1)] that(2,3) obtain i where i: "step_index 0 (jt_ID s) (ec_steps contract) = Some i" "\<not> n < i"
      and trigger: "i = n \<Longrightarrow> \<not> (case ec_pointOfNoReturnTrigger contract of PointOfNoReturnStepStart \<Rightarrow> True
        | PointOfNoReturnMutationObserved \<Rightarrow> jt_MutationOccurred s \<or> jt_Outcome s = StepUnknown
        | PointOfNoReturnStepComplete \<Rightarrow> jt_Outcome s = StepDone | _ \<Rightarrow> False)"
      by (auto simp: entry_past_point_def split: option.splits)
    then show ?thesis using step_index_Some [OF i(1)] by (intro exI [of _ i]) auto
  qed
  then show ?thesis
    unfolding before_point_of_no_return_def using step_index_Some [OF n] by (intro disjI2 exI [of _ n]) auto
qed (simp add: before_point_of_no_return_def)

text \<open>The request that a restored controller is bound to.\<close>

lemma restored_request:
  assumes "range_loop (restore_entry marshal sha contract es) 0 restore_init xs = Inr rs"
  shows "rs_target rs \<noteq> noState \<longrightarrow> (\<exists>k < length xs. \<exists>r. je_Kind (xs ! k) = JournalEntryCancellationRequest \<and>
    je_Cancellation (xs ! k) = Some r \<and> cb_sequence (rs_binding rs) = je_Sequence (xs ! k) \<and>
    cb_stepID (rs_binding rs) = jc_CurrentStepID r)"
  using assms
proof (induction rule: range_loop_induct)
  case init
  then show ?case by (simp add: restore_init_def)
next
  case (step ys y u v)
  have later: "\<exists>k < length (ys @ [y]). \<exists>r. je_Kind ((ys @ [y]) ! k) = JournalEntryCancellationRequest \<and>
      je_Cancellation ((ys @ [y]) ! k) = Some r \<and> cb_sequence (rs_binding v) = je_Sequence ((ys @ [y]) ! k) \<and>
      cb_stepID (rs_binding v) = jc_CurrentStepID r"
    if "rs_binding v = rs_binding u" "rs_target u \<noteq> noState"
  proof -
    from step.IH that obtain k r where "k < length ys" "je_Kind (ys ! k) = JournalEntryCancellationRequest"
      "je_Cancellation (ys ! k) = Some r" "cb_sequence (rs_binding v) = je_Sequence (ys ! k)"
      "cb_stepID (rs_binding v) = jc_CurrentStepID r" by auto
    then show ?thesis by (intro exI [of _ k] conjI exI [of _ r]) (simp_all add: nth_append)
  qed
  have here: "\<exists>k < length (ys @ [y]). \<exists>r. je_Kind ((ys @ [y]) ! k) = JournalEntryCancellationRequest \<and>
      je_Cancellation ((ys @ [y]) ! k) = Some r \<and> cb_sequence (rs_binding v) = je_Sequence ((ys @ [y]) ! k) \<and>
      cb_stepID (rs_binding v) = jc_CurrentStepID r"
    if "je_Kind y = JournalEntryCancellationRequest" "je_Cancellation y = Some r"
      "cb_sequence (rs_binding v) = je_Sequence y" "cb_stepID (rs_binding v) = jc_CurrentStepID r" for r
    using that by (intro exI [of _ "length ys"] conjI exI [of _ r]) simp_all
  show ?case
  proof
    assume target: "rs_target v \<noteq> noState"
    show "\<exists>k < length (ys @ [y]). \<exists>r. je_Kind ((ys @ [y]) ! k) = JournalEntryCancellationRequest \<and>
      je_Cancellation ((ys @ [y]) ! k) = Some r \<and> cb_sequence (rs_binding v) = je_Sequence ((ys @ [y]) ! k) \<and>
      cb_stepID (rs_binding v) = jc_CurrentStepID r"
    proof (cases "je_Kind y = JournalEntryCancellationRequest \<and> je_Cancellation y \<noteq> None")
      case True
      then obtain r where r: "je_Cancellation y = Some r" by auto
      with True step.hyps(2) have "restore_request marshal sha contract es u y r = Inr v"
        by (simp add: restore_entry_def)
      then show ?thesis
        by (intro here [of r]) (use True r in \<open>auto simp: restore_request_def Let_def split: sum.splits if_splits\<close>)
    next
      case False
      then show ?thesis
        using step.hyps(2) target
        by (intro later) (auto simp: restore_entry_def split: if_splits option.splits)
    qed
  qed
qed

text \<open>
  C29. A decision made at a boundary can be recorded: when \<open>AtBoundary\<close> routes, the machine has the identity
  and the state of the journal and may move to the decided target, an ended attempt of the step that the
  cancellation request names was recorded after that request, no recorded attempt reached the point of no
  return, and any well-formed next transition to the decided target extends the journal to one that is still
  accepted; a decision to cancel is made only for a journal without evidence of a mutation.
\<close>

theorem AtBoundary_recordable:
  assumes "AtBoundary marshal sha256hex c h p contract es = Inr (h', c', d)"
  shows "(\<exists>address m. deref h p = Some (address, m) \<and> es \<noteq> [] \<and> m_state m = je_OperationState (last es) \<and>
       m_operationID m = je_OperationID (last es) \<and> m_planID m = je_PlanID (last es) \<and>
       CanTransition (m_state m) (cd_Target d)) \<and>
     (\<exists>k i request attempt. k < i \<and> i < length es \<and>
       je_Kind (es ! k) = JournalEntryCancellationRequest \<and> je_Cancellation (es ! k) = Some request \<and>
       je_Kind (es ! i) = JournalEntryStep \<and> je_Step (es ! i) = Some attempt \<and>
       jt_ID attempt = jc_CurrentStepID request \<and> jt_EndedAt attempt \<noteq> None) \<and>
     \<not> cc_queued c' \<and> before_point_of_no_return contract es \<and>
     (cd_Target d = OperationCancelled \<longrightarrow> \<not> (\<exists>e \<in> set es. entry_mutation e)) \<and>
     (\<forall>e. next_transition es (cd_Target d) e \<longrightarrow> ValidateJournal (es @ [e]) = None)"
proof -
  from AtBoundary_Inr [OF assms] obtain a m fresh where
    m: "deref h p = Some (a, m)" "je_OperationState (last es) = m_state m" "es \<noteq> []" and
    fresh: "RestoreCancellationController marshal sha256hex es (m_operationID m) (m_planID m) contract
      = Inr fresh" "cc_queued fresh" "cc_binding fresh = cc_binding c"
      "cancellationBoundaryRecorded es (cc_binding fresh)"
      "CanTransition (m_state m) (cc_target fresh)" and
    route: "c' = controller_zero" "cd_Target d = cc_target fresh"
    by (auto simp: routeCancellationTo_Inr)
  obtain st rs where run: "journal_loop es es = Inr st" and
    rs: "range_loop (restore_entry marshal sha256hex contract es) 0 restore_init es = Inr rs"
      "cc_target fresh = rs_target rs" "cc_queued fresh = (rs_target rs \<noteq> noState)"
      "\<not> (rs_target rs \<noteq> noState \<and> pointOfNoReturnReached contract es)" "cc_binding fresh = rs_binding rs" and
    ids: "je_OperationID (hd es) = m_operationID m" "je_PlanID (hd es) = m_planID m"
    using fresh(1) by (auto simp: Restore_Inr ValidateJournal_None)
  from restore_agrees [OF run] rs fresh(2) have
    pending: "js_pendingCancellation st = cc_target fresh" "cc_target fresh \<noteq> noState" by auto
  from journal_machine [OF run] m(3) obtain jm where
    jm: "js_machine st = Some jm" "m_state jm = je_OperationState (last es)" by auto
  have "ValidateJournal (es @ [e]) = None" if "next_transition es (cd_Target d) e" for e
    by (rule pending_transition_recorded [OF run m(3) jm(1) pending])
      (use that route fresh(5) jm(2) m(2) in simp_all)
  moreover have "\<exists>k i request attempt. k < i \<and> i < length es \<and>
       je_Kind (es ! k) = JournalEntryCancellationRequest \<and> je_Cancellation (es ! k) = Some request \<and>
       je_Kind (es ! i) = JournalEntryStep \<and> je_Step (es ! i) = Some attempt \<and>
       jt_ID attempt = jc_CurrentStepID request \<and> jt_EndedAt attempt \<noteq> None"
  proof -
    from restored_request [OF rs(1)] pending(2) rs(2) obtain k request where k: "k < length es"
      "je_Kind (es ! k) = JournalEntryCancellationRequest" "je_Cancellation (es ! k) = Some request"
      "cb_sequence (rs_binding rs) = je_Sequence (es ! k)" "cb_stepID (rs_binding rs) = jc_CurrentStepID request" by auto
    from fresh(4) obtain i attempt where i: "i < length es" "cb_sequence (rs_binding rs) < je_Sequence (es ! i)"
      "je_Kind (es ! i) = JournalEntryStep" "je_Step (es ! i) = Some attempt"
      "jt_ID attempt = cb_stepID (rs_binding rs)" "jt_EndedAt attempt \<noteq> None"
      by (auto simp: cancellationBoundaryRecorded_def list_ex_iff in_set_conv_nth rs(5) split: option.splits)
    then have "k < i"
      using journal_sequence [OF run k(1)] journal_sequence [OF run i(1)] k(4) by (simp add: word_less_nat_alt)
    with k i show ?thesis by metis
  qed
  moreover have "m_operationID m = je_OperationID (last es)" "m_planID m = je_PlanID (last es)"
    using journal_headers [OF run] ids m(3) by (auto simp: last_conv_nth)
  moreover have "before_point_of_no_return contract es" using before_point rs(2,4) pending(2) by simp
  ultimately show ?thesis
    using m fresh(5) rs route pending journal_pending_clean [OF run] journal_mutation [OF run]
    by (auto simp: controller_zero_def)
qed

subsection \<open>A persisted request is restored\<close>

lemma context_restores:
  "range_loop (context_entry (ec_steps contract)) 0 context_init xs = Inr cx \<Longrightarrow>
     \<exists>rs. range_loop (restore_entry marshal sha contract es) 0 restore_init xs = Inr rs \<and>
       rs_target rs = noState \<and> rs_nextStep rs = cx_nextStep cx"
proof (induction xs arbitrary: cx rule: rev_induct)
  case Nil
  then show ?case by (auto simp: restore_init_def context_init_def)
next
  case (snoc x xs)
  then obtain c0 where c0: "range_loop (context_entry (ec_steps contract)) 0 context_init xs = Inr c0"
    and x: "context_entry (ec_steps contract) (length xs) c0 x = Inr cx"
    by (auto simp: range_loop_snoc)
  from snoc.IH [OF c0] obtain r0 where r0:
    "range_loop (restore_entry marshal sha contract es) 0 restore_init xs = Inr r0"
    "rs_target r0 = noState" "rs_nextStep r0 = cx_nextStep c0" by blast
  have "\<exists>rs. restore_entry marshal sha contract es (length xs) r0 x = Inr rs \<and>
      rs_target rs = noState \<and> rs_nextStep rs = cx_nextStep cx"
    using x r0 by (auto simp: context_entry_def restore_entry_def Let_def split: if_splits option.splits)
  with r0(1) show ?case by (auto simp: range_loop_snoc)
qed

lemma journal_bytes_snoc:
  "journal_bytes marshal xs = Inr b \<Longrightarrow> EncodeJournalEntry marshal e = Inr enc \<Longrightarrow>
     \<exists>b'. journal_bytes marshal (xs @ [e]) = Inr b'"
  by (induction xs arbitrary: b) (auto split: sum.splits)

lemma point_snoc_request:
  "je_Kind e \<noteq> JournalEntryStep \<Longrightarrow>
     pointOfNoReturnReached contract (es @ [e]) = pointOfNoReturnReached contract es"
  by (auto simp: pointOfNoReturnReached_def entry_past_point_def split: option.splits)

lemma cancellationContext_Inr:
  "cancellationContext marshal sha m contract es r = Inr (step, obs) \<longleftrightarrow>
     (\<exists>jh. validateCancellationFoundation marshal sha m r contract es = Inr jh) \<and>
     \<not> pointOfNoReturnReached contract es \<and> ec_workflowID contract \<noteq> [] \<and> ec_steps contract \<noteq> [] \<and>
     (\<exists>cx. range_loop (context_entry (ec_steps contract)) 0 context_init es = Inr cx \<and>
        cx_nextStep cx < length (ec_steps contract) \<and> step = ec_steps contract ! cx_nextStep cx \<and>
        obs = cx_observation cx)"
  by (auto simp: cancellationContext_def not_le split: sum.splits if_splits)

text \<open>
  A request made in flight is durable: when \<open>Request\<close> asks for an entry to be persisted, the
  machine, the store and the controller are unchanged, the journal extended by exactly that entry is
  accepted, and restoring from the extended journal gives a queued controller bound to this request,
  with the route the entry demands.
\<close>

theorem Request_persist_restores:
  assumes "Request marshal sha256hex c h p r contract es = Inr (h', c', d)"
    and "cd_JournalEntry d = Some e" and "marshal e \<noteq> None"
  shows "h' = h \<and> c' = c \<and> ValidateJournal (es @ [e]) = None \<and>
     (\<exists>c''. RestoreCancellationController marshal sha256hex (es @ [e]) (cr_OperationID r)
          (cr_PlanID r) contract = Inr c'' \<and>
        cc_queued c'' \<and> (\<exists>q. je_Cancellation e = Some q \<and> cc_target c'' = jc_RequiredRoute q \<and>
          cb_stepID (cc_binding c'') = jc_CurrentStepID q) \<and>
        cb_sequence (cc_binding c'') = cr_Sequence r \<and>
        cb_requestedAt (cc_binding c'') = cr_RequestedAt r \<and>
        cb_contractHash (cc_binding c'') = ec_digest contract)"
  using assms(1)
proof (cases rule: Request_cases)
  case (routed a m target binding jh)
  with assms(2) show ?thesis by (auto simp: routed_def routeCancellationTo_Inr)
next
  case (persist a m step obs jh)
  from persist(12) assms(2) have e: "e = cancellationJournalEntry r (m_state m) (sc_ID step) (ec_digest contract) obs"
    by (simp add: persist_decision_def)
  with persist(11) have valid: "ValidateJournal (es @ [e]) = None" by simp
  from persist(7) have found: "es \<noteq> []" "sha256Pattern (ec_digest contract)"
    "je_OperationID (hd es) = m_operationID m" "je_PlanID (hd es) = m_planID m"
    "je_ContractHash (hd es) = ec_digest contract" "cancellationJournalHash marshal sha256hex es = Inr jh"
    by (simp_all add: foundation_Inr)
  from persist(8) obtain cx where cx: "\<not> pointOfNoReturnReached contract es"
    "range_loop (context_entry (ec_steps contract)) 0 context_init es = Inr cx"
    "cx_nextStep cx < length (ec_steps contract)" "step = ec_steps contract ! cx_nextStep cx"
    by (auto simp: cancellationContext_Inr)
  from context_restores [OF cx(2)] obtain rs where
    rs: "range_loop (restore_entry marshal sha256hex contract (es @ [e])) 0 restore_init es = Inr rs"
      "rs_target rs = noState" "rs_nextStep rs = cx_nextStep cx" by blast
  have kind: "je_Kind e = JournalEntryCancellationRequest" by (simp add: e cancellationJournalEntry_def)
  from valid obtain st where run: "journal_loop (es @ [e]) (es @ [e]) = Inr st"
    by (auto simp: ValidateJournal_None)
  from journal_sequence [OF run, of "length es"] have seq: "unat (je_Sequence e) = length es + 1"
    by simp
  have "ValidateJournalEntry e = None" using journal_headers [OF run] by (auto simp: nth_append)
  then obtain enc where "EncodeJournalEntry marshal e = Inr enc"
    using assms(3) by (auto simp: EncodeJournalEntry_def)
  moreover obtain b where "journal_bytes marshal es = Inr b"
    using found(6) by (auto simp: cancellationJournalHash_def split: sum.splits)
  ultimately obtain bytes where "journal_bytes marshal (es @ [e]) = Inr bytes"
    using journal_bytes_snoc by blast
  with seq have hash: "cancellationJournalHash marshal sha256hex (take (unat (je_Sequence e)) (es @ [e]))
      = Inr (sha256hex bytes)" by (simp add: cancellationJournalHash_def)
  let ?route = "cancellationTarget (obs \<noteq> MutationNotOccurred)"
  obtain rs' where rs': "restore_entry marshal sha256hex contract (es @ [e]) (length es) rs e = Inr rs'"
    "rs_target rs' = ?route" "cb_sequence (rs_binding rs') = cr_Sequence r"
    "cb_requestedAt (rs_binding rs') = cr_RequestedAt r" "cb_stepID (rs_binding rs') = sc_ID step"
    "cb_contractHash (rs_binding rs') = ec_digest contract"
    using hash kind rs cx(3,4)
    by (auto simp: restore_entry_def restore_request_def e cancellationJournalEntry_def Let_def)
  have loop: "range_loop (restore_entry marshal sha256hex contract (es @ [e])) 0 restore_init (es @ [e]) = Inr rs'"
    using rs(1) rs'(1) by (simp add: range_loop_append)
  have point: "\<not> pointOfNoReturnReached contract (es @ [e])"
    using cx(1) kind by (simp add: point_snoc_request)
  have "RestoreCancellationController marshal sha256hex (es @ [e]) (cr_OperationID r) (cr_PlanID r) contract
      = Inr \<lparr>cc_queued = True, cc_target = ?route, cc_binding = rs_binding rs'\<rparr>"
    using valid found persist(5,6,10) loop rs'(2) point
    by (auto simp: Restore_Inr cancellationTarget_def)
  with valid persist(2,3) rs' show ?thesis
    by (auto simp: e cancellationJournalEntry_def)
qed

subsection \<open>A request after a resumed pause\<close>

text \<open>
  C39. In the states DISCOVER to LOCK \<open>Request\<close> never looks at the mutations the journal records: an
  operation that mutated, paused and was resumed to DISCOVER is answered with a decision to cancel,
  although no CANCELLED entry can then extend its journal.
\<close>

theorem Request_ignores_mutation_before_lock:
  assumes "Request marshal sha256hex c h p r contract es = Inr (h', c', d)"
    and "deref h p = Some (a, m)" and "cancellationStateIsStructurallyPreMutation (m_state m)"
    and "e0 \<in> set es" "entry_mutation e0"
  shows "cd_Action d = CancellationCancel \<and> cd_Target d = OperationCancelled \<and>
     (\<forall>e. je_Kind e = JournalEntryTransition \<and> je_OperationState e = OperationCancelled \<longrightarrow>
        ValidateJournal (es @ [e]) \<noteq> None)"
proof -
  have "cd_Action d = CancellationCancel \<and> cd_Target d = OperationCancelled"
    using assms(1)
  proof (cases rule: Request_cases)
    case (routed a m target binding jh)
    with assms(2,3) show ?thesis by (auto simp: routed_def routeCancellationTo_Inr)
  next
    case (persist b n step obs jh)
    with assms(2,3) show ?thesis by (auto simp: cancellationStateIsStructurallyPreMutation_def)
  qed
  moreover have "ValidateJournal (es @ [e]) \<noteq> None"
    if e: "je_Kind e = JournalEntryTransition" "je_OperationState e = OperationCancelled" for e
  proof
    assume "ValidateJournal (es @ [e]) = None"
    then obtain st where run: "journal_loop (es @ [e]) (es @ [e]) = Inr st"
      by (auto simp: ValidateJournal_None)
    from journal_mutation [OF run] have "\<forall>k < length (es @ [e]).
        je_Kind ((es @ [e]) ! k) = JournalEntryTransition \<and>
        je_OperationState ((es @ [e]) ! k) = OperationCancelled \<longrightarrow>
        \<not> (\<exists>x \<in> set (take (Suc k) (es @ [e])). entry_mutation x)" by blast
    from this [rule_format, of "length es"] e assms(4,5) show False by auto
  qed
  ultimately show ?thesis by blast
qed

subsection \<open>Concrete histories\<close>

definition execute_journal :: "JournalEntry list" where
  "execute_journal =
     [sample_entry 1 JournalEntryTransition OperationDiscover,
      sample_entry 2 JournalEntryTransition OperationValidate,
      sample_entry 3 JournalEntryTransition OperationPlan,
      sample_entry 4 JournalEntryTransition OperationLock,
      sample_entry 5 JournalEntryTransition OperationExecute]"

definition requested_journal :: "JournalEntry list" where
  "requested_journal = execute_journal @ [sample_request 6 MutationNotOccurred OperationExecute]"

definition boundary_journal :: "JournalEntry list" where
  "boundary_journal = requested_journal @ [sample_step 7 5500 1 StepFailed False OperationExecute]"

lemma in_flight_journals_ok:
  "ValidateJournal execute_journal = None" "ValidateJournal requested_journal = None"
  "ValidateJournal boundary_journal = None"
  by (simp_all add: boundary_journal_def requested_journal_def execute_journal_def journal_evaluation)

lemma sample_request_is_persisted:
  "cancellationJournalEntry (sample_cancel 6) OperationExecute ''step-a'' sample_hash MutationNotOccurred
     = sample_request 6 MutationNotOccurred OperationExecute"
  by (simp add: cancellationJournalEntry_def sample_cancel_def sample_request_def sample_entry_def
      cancellationTarget_def cancellation_route_for_def)

lemma in_flight_request:
  "Request (\<lambda>_. Some ''entry'') (\<lambda>_. sample_hash) controller_zero (sample_heap OperationExecute 4)
     (Some 0) (sample_cancel 6) sample_contract execute_journal =
   Inr (sample_heap OperationExecute 4, controller_zero,
        persist_decision (sample_request 6 MutationNotOccurred OperationExecute))"
  using in_flight_journals_ok(1,2) sample_request_is_persisted
  by (simp add: request_evaluation execute_journal_def requested_journal_def controller_zero_def
      request_in_flight_def cancellationContext_def context_entry_def context_init_def)

lemma requested_restore:
  "\<exists>c. RestoreCancellationController (\<lambda>_. Some ''entry'') (\<lambda>_. sample_hash) requested_journal
     sample_op sample_plan sample_contract = Inr c \<and> cc_target c = OperationCancelled"
  using in_flight_journals_ok(2)
  by (simp add: request_evaluation execute_journal_def requested_journal_def cancellation_route_for_def)

definition queued_controller :: CancellationController where
  "queued_controller =
     \<lparr>cc_queued = True, cc_target = OperationCancelled,
      cc_binding = sample_binding\<lparr>cb_sequence := 6, cb_requestedAt := utc 6000, cb_stepID := ''step-a''\<rparr>\<rparr>"

lemma boundary_answer:
  "\<exists>h' d. AtBoundary (\<lambda>_. Some ''entry'') (\<lambda>_. sample_hash) queued_controller
     (sample_heap OperationExecute 4) (Some 0) sample_contract boundary_journal =
       Inr (h', controller_zero, d) \<and> cd_Target d = OperationCancelled"
  using in_flight_journals_ok(3)
  by (simp add: request_evaluation AtBoundary_def boundary_journal_def execute_journal_def
      requested_journal_def cancellation_route_for_def queued_controller_def sample_binding_def
      matchesMachine_def cancellationBoundaryRecorded_def controller_zero_def)

definition resumed_journal :: "JournalEntry list" where
  "resumed_journal =
     [sample_entry 1 JournalEntryTransition OperationDiscover,
      sample_entry 2 JournalEntryTransition OperationValidate,
      sample_entry 3 JournalEntryTransition OperationPlan,
      sample_entry 4 JournalEntryTransition OperationLock,
      sample_entry 5 JournalEntryTransition OperationExecute,
      sample_step 6 5500 1 StepFailed True OperationExecute,
      sample_pause 7 True,
      sample_entry 8 JournalEntryTransition OperationDiscover]"

lemma resumed_journal_ok: "ValidateJournal resumed_journal = None"
  by (simp add: resumed_journal_def journal_evaluation)

lemma resumed_request:
  "\<exists>h' c' d. Request (\<lambda>_. Some ''entry'') (\<lambda>_. sample_hash) controller_zero
     (sample_heap OperationDiscover 6) (Some 0) (sample_cancel 9) sample_contract resumed_journal =
       Inr (h', c', d)"
  using resumed_journal_ok
  by (simp add: request_evaluation resumed_journal_def controller_zero_def)

theorem Restore_agrees_with_journal_witness:
  "\<exists>st. journal_replay requested_journal = Inr st \<and> js_pendingCancellation st = OperationCancelled"
  using requested_restore Restore_agrees_with_journal by metis

theorem AtBoundary_recordable_witness:
  "ValidateJournal (boundary_journal @ [sample_entry 8 JournalEntryTransition OperationCancelled]) = None"
proof -
  have entry: "next_transition boundary_journal OperationCancelled
      (sample_entry 8 JournalEntryTransition OperationCancelled)"
    by (simp add: next_transition_def boundary_journal_def requested_journal_def execute_journal_def
        time_defs)
  from boundary_answer obtain h' d where answer: "AtBoundary (\<lambda>_. Some ''entry'') (\<lambda>_. sample_hash) queued_controller
      (sample_heap OperationExecute 4) (Some 0) sample_contract boundary_journal = Inr (h', controller_zero, d)"
    "cd_Target d = OperationCancelled" by blast
  from AtBoundary_recordable [OF answer(1)] entry answer(2) show ?thesis by simp
qed

theorem Request_persist_restores_witness:
  "\<exists>c''. RestoreCancellationController (\<lambda>_. Some ''entry'') (\<lambda>_. sample_hash)
     (execute_journal @ [sample_request 6 MutationNotOccurred OperationExecute])
     (cr_OperationID (sample_cancel 6)) (cr_PlanID (sample_cancel 6)) sample_contract = Inr c'' \<and>
     cc_queued c''"
  using Request_persist_restores [OF in_flight_request] by (auto simp: persist_decision_def)

theorem Request_ignores_mutation_before_lock_witness:
  "ValidateJournal resumed_journal = None \<and>
   ValidateJournal (resumed_journal @ [sample_entry 9 JournalEntryTransition OperationCancelled]) \<noteq> None"
proof -
  let ?e = "sample_step 6 5500 1 StepFailed True OperationExecute"
  have e: "?e \<in> set resumed_journal" "entry_mutation ?e"
    by (simp_all add: resumed_journal_def entry_mutation_def)
  have m: "deref (sample_heap OperationDiscover 6) (Some 0) = Some (0, machine_at OperationDiscover 6)"
    "cancellationStateIsStructurallyPreMutation (m_state (machine_at OperationDiscover 6))"
    by (simp_all add: deref_def sample_heap_def machine_at_def
        cancellationStateIsStructurallyPreMutation_def)
  obtain h' c' d where "Request (\<lambda>_. Some ''entry'') (\<lambda>_. sample_hash) controller_zero
     (sample_heap OperationDiscover 6) (Some 0) (sample_cancel 9) sample_contract resumed_journal =
       Inr (h', c', d)" using resumed_request by blast
  from Request_ignores_mutation_before_lock [OF this m e] resumed_journal_ok show ?thesis by simp
qed

end
