(* ===== verification/GoStd.thy ===== *)
theory GoStd
  imports GoText
begin

section \<open>Fragments of the Go standard library\<close>

text \<open>
  The parts of \<open>unicode/utf8\<close>, \<open>strings\<close> and \<open>net/netip\<close> that the validators use: UTF-8 decoding by
  \<open>range\<close>, the space and control classes of \<open>unicode\<close>, \<open>strings.TrimSpace\<close>, and the IPv4 side of
  \<open>netip\<close> (an address of another family is refused by every caller, so it parses to \<open>None\<close>).
\<close>

subsection \<open>Bytes, runes and strings.TrimSpace\<close>

definition byte :: "char \<Rightarrow> nat" where "byte c = of_char c"

definition continuation :: "nat \<Rightarrow> bool" where
  "continuation b = (128 \<le> b \<and> b \<le> 191)"

definition rune_error :: nat where "rune_error = 65533"

text \<open>\<open>for _, r := range s\<close>: an ill-formed byte decodes to U+FFFD and advances by one.\<close>

function runes :: "nat list \<Rightarrow> nat list" where
  "runes bs =
     (case bs of
        [] \<Rightarrow> []
      | b0 # r0 \<Rightarrow>
          if b0 < 128 then b0 # runes r0
          else (case r0 of
              b1 # r1 \<Rightarrow>
                if 194 \<le> b0 \<and> b0 \<le> 223 \<and> continuation b1
                then ((b0 - 192) * 64 + (b1 - 128)) # runes r1
                else (case r1 of
                    b2 # r2 \<Rightarrow>
                      if 224 \<le> b0 \<and> b0 \<le> 239 \<and> continuation b1 \<and> continuation b2 \<and>
                         (b0 = 224 \<longrightarrow> 160 \<le> b1) \<and> (b0 = 237 \<longrightarrow> b1 \<le> 159)
                      then ((b0 - 224) * 4096 + (b1 - 128) * 64 + (b2 - 128)) # runes r2
                      else (case r2 of
                          b3 # r3 \<Rightarrow>
                            if 240 \<le> b0 \<and> b0 \<le> 244 \<and> continuation b1 \<and> continuation b2 \<and>
                               continuation b3 \<and> (b0 = 240 \<longrightarrow> 144 \<le> b1) \<and> (b0 = 244 \<longrightarrow> b1 \<le> 143)
                            then ((b0 - 240) * 262144 + (b1 - 128) * 4096 + (b2 - 128) * 64 + (b3 - 128))
                                 # runes r3
                            else rune_error # runes r0
                        | [] \<Rightarrow> rune_error # runes r0)
                  | [] \<Rightarrow> rune_error # runes r0)
            | [] \<Rightarrow> rune_error # runes r0))"
  by pat_completeness auto
termination by (relation "measure length") (auto split: list.splits)

declare runes.simps [simp del]

definition unicode_IsSpace :: "nat \<Rightarrow> bool" where
  "unicode_IsSpace r =
     (r \<in> set [9, 10, 11, 12, 13, 32, 133, 160, 5760, 8232, 8233, 8239, 8287, 12288] \<or>
      (8192 \<le> r \<and> r \<le> 8202))"

definition unicode_IsControl :: "nat \<Rightarrow> bool" where
  "unicode_IsControl r = (r \<le> 31 \<or> (127 \<le> r \<and> r \<le> 159))"

text \<open>\<open>strings.TrimSpace(value) != value\<close>: the first or the last rune is a space.\<close>

definition trim_changes :: "string \<Rightarrow> bool" where
  "trim_changes s =
     (let rs = runes (map byte s)
      in rs \<noteq> [] \<and> (unicode_IsSpace (hd rs) \<or> unicode_IsSpace (last rs)))"

subsection \<open>IPv4 prefixes\<close>

definition digits_value :: "string \<Rightarrow> int" where
  "digits_value s = foldl (\<lambda>n c. n * 10 + (int (byte c) - 48)) 0 s"

text \<open>One decimal field of \<open>netip\<close>: no sign, no leading zero.\<close>

definition decimal_field :: "int \<Rightarrow> string \<Rightarrow> int option" where
  "decimal_field limit s =
     (if s \<noteq> [] \<and> list_all is_digit s \<and> (length s = 1 \<or> hd s \<noteq> CHR ''0'') \<and>
         digits_value s \<le> limit
      then Some (digits_value s) else None)"

type_synonym ipv4 = "32 word"

text \<open>A prefix: the address and the number of bits.\<close>

type_synonym ipv4_prefix = "ipv4 \<times> nat"

definition parse_ipv4 :: "string \<Rightarrow> ipv4 option" where
  "parse_ipv4 s =
     (case map (decimal_field 255) (split_on CHR ''.'' s) of
        [Some a, Some b, Some c, Some d] \<Rightarrow>
          Some (word_of_int (((a * 256 + b) * 256 + c) * 256 + d))
      | _ \<Rightarrow> None)"

text \<open>\<open>netip.ParsePrefix\<close>, IPv4 only.\<close>

definition parse_prefix :: "string \<Rightarrow> ipv4_prefix option" where
  "parse_prefix s =
     (case split_on CHR ''/'' s of
        [a, b] \<Rightarrow>
          (case (parse_ipv4 a, decimal_field 32 b) of
             (Some addr, Some bits) \<Rightarrow> Some (addr, nat bits)
           | _ \<Rightarrow> None)
      | _ \<Rightarrow> None)"

text \<open>\<open>prefix.Masked()\<close> and \<open>prefix.Contains(addr)\<close>.\<close>

definition prefix_Masked :: "ipv4_prefix \<Rightarrow> ipv4_prefix" where
  "prefix_Masked p = (push_bit (32 - snd p) (drop_bit (32 - snd p) (fst p)), snd p)"

definition prefix_Contains :: "ipv4_prefix \<Rightarrow> ipv4 \<Rightarrow> bool" where
  "prefix_Contains p addr = (drop_bit (32 - snd p) addr = drop_bit (32 - snd p) (fst p))"

lemma prefix_Contains_inj:
  "inj_on (\<lambda>a. take_bit (32 - snd n) a) {a. prefix_Contains n a}"
proof (rule inj_onI)
  fix a b :: ipv4
  assume "a \<in> {a. prefix_Contains n a}" "b \<in> {a. prefix_Contains n a}"
    "take_bit (32 - snd n) a = take_bit (32 - snd n) b"
  then have "push_bit (32 - snd n) (drop_bit (32 - snd n) a) + take_bit (32 - snd n) a =
      push_bit (32 - snd n) (drop_bit (32 - snd n) b) + take_bit (32 - snd n) b"
    by (simp add: prefix_Contains_def)
  then show "a = b" by (simp add: bits_ident)
qed

lemma card_prefix: "card {a. prefix_Contains n a} \<le> 2 ^ (32 - snd n)"
proof -
  let ?f = "\<lambda>a :: ipv4. unat (take_bit (32 - snd n) a)"
  have "inj_on ?f {a. prefix_Contains n a}"
    using prefix_Contains_inj [of n]
    by (auto simp: inj_on_def dest!: word_unat_eq_iff [THEN iffD2])
  moreover have "?f ` {a. prefix_Contains n a} \<subseteq> {..< 2 ^ (32 - snd n)}"
    by (auto simp: unsigned_take_bit_eq)
  ultimately have "card {a. prefix_Contains n a} \<le> card {..< (2 :: nat) ^ (32 - snd n)}"
    by (rule card_inj_on_le) simp
  then show ?thesis by simp
qed

lemma prefix_within:
  assumes "snd n \<le> snd m" and "prefix_Contains n (fst m)" and "prefix_Contains m a"
  shows "prefix_Contains n a"
proof -
  have split: "drop_bit (32 - snd n) x = drop_bit (min 32 (snd m) - snd n) (drop_bit (32 - snd m) x)" for x :: ipv4
    using assms(1) by (simp add: drop_bit_drop_bit min_def)
  show ?thesis using assms(2,3) by (simp add: prefix_Contains_def split)
qed

subsection \<open>Texts without white space\<close>

lemma runes_ascii: "list_all (\<lambda>b. b < 128) bs \<Longrightarrow> runes bs = bs"
  by (induction bs) (simp_all add: runes.simps)

lemma not_trimmed:
  assumes "list_all (\<lambda>c. byte c < 128 \<and> 32 < byte c) s"
  shows "\<not> trim_changes s"
proof (cases "s = []")
  case False
  have "runes (map byte s) = map byte s"
    using assms by (intro runes_ascii) (auto simp: list_all_iff)
  moreover have "32 < byte (hd s) \<and> byte (hd s) < 128" "32 < byte (last s) \<and> byte (last s) < 128"
    using assms False by (simp_all add: list_all_iff)
  ultimately show ?thesis
    using False by (simp add: trim_changes_def unicode_IsSpace_def hd_map last_map)
qed (simp add: trim_changes_def runes.simps)

end
