(* ===== verification/PlanPolicy.thy ===== *)
theory PlanPolicy
  imports ExecutionContract GoStd
begin

section \<open>internal/policy: plan validation (plan.go)\<close>

text \<open>
  The structural invariants of a plan: \<open>validatePlanStructure\<close> and every validator it calls, in
  source order. A slice is \<open>'a list option\<close> (\<open>None\<close> is nil), a \<open>float64\<close> amount a \<open>usd\<close>, a Go map
  keyed by a string is searched by that key, last insertion first. The parts of the standard library
  the validators use are modelled in \<open>GoStd\<close>, and here \<open>time.Parse(time.DateOnly)\<close> on a string of
  the right shape.
\<close>

datatype plan_error =
    ErrInvalidPlan string string
  | ErrInvalidPlanEncoding
  | ErrExpiredPlan string

subsection \<open>Text of the principal\<close>

definition validatePrincipal :: "string \<Rightarrow> plan_error option" where
  "validatePrincipal s =
     first_error
       [fail_if (s = [] \<or> length s > 254 \<or> trim_changes s)
          (ErrInvalidPlan ''principal'' ''must be a non-empty canonical identity''),
        fail_if (list_ex (\<lambda>r. unicode_IsSpace r \<or> unicode_IsControl r) (runes (map byte s)))
          (ErrInvalidPlan ''principal'' ''must not contain whitespace or control characters'')]"

subsection \<open>Times, amounts, hashes\<close>

definition validateUTCTime :: "string \<Rightarrow> gotime \<Rightarrow> plan_error option" where
  "validateUTCTime path t =
     first_error
       [fail_if (time_IsZero t) (ErrInvalidPlan path ''must not be zero''),
        fail_if (t_zone t \<noteq> 0) (ErrInvalidPlan path ''must be UTC'')]"

definition validateAmount :: "string \<Rightarrow> usd \<Rightarrow> plan_error option" where
  "validateAmount path amount =
     fail_if (case amount of Finite m e \<Rightarrow> m < 0 | _ \<Rightarrow> True)
       (ErrInvalidPlan path ''must be a finite non-negative number'')"

definition validateIdentityPlan :: "IdentityPlan \<Rightarrow> plan_error option" where
  "validateIdentityPlan identity =
     fail_if (identity \<noteq> DefaultIdentityPlan)
       (ErrInvalidPlan ''identity'' ''must route default/operator, host-control/provisioner, delete/destructive, and bootstrap/human'')"

definition validatePolicyHash :: "PlanPolicyHash \<Rightarrow> plan_error option" where
  "validatePolicyHash h =
     first_error
       [fail_if (ph_Local h \<noteq> [] \<and> \<not> sha256Pattern (ph_Local h))
          (ErrInvalidPlan ''policyHash.local'' ''must be empty or 64 lowercase hex characters''),
        fail_if (ph_Approved h \<noteq> [] \<and> \<not> sha256Pattern (ph_Approved h))
          (ErrInvalidPlan ''policyHash.approved'' ''must be empty or 64 lowercase hex characters''),
        fail_if (ph_Match h \<noteq> (ph_Local h \<noteq> [] \<and> ph_Local h = ph_Approved h))
          (ErrInvalidPlan ''policyHash.match'' ''does not agree with local and approved hashes'')]"

definition validateIntent :: "PlanIntent \<Rightarrow> plan_error option" where
  "validateIntent intent =
     first_error
       [validateUTCTime ''intent.windowStart'' (pi_WindowStart intent),
        validateUTCTime ''intent.validUntil'' (pi_ValidUntil intent),
        fail_if (\<not> time_After (pi_ValidUntil intent) (pi_WindowStart intent))
          (ErrInvalidPlan ''intent.validUntil'' ''must be later than windowStart'')]"

subsection \<open>Resources and preconditions\<close>

definition nul :: string where "nul = [char_of (0 :: nat)]"

definition stablePlanResourceKey :: "PlanResource \<Rightarrow> string" where
  "stablePlanResourceKey r = pr_Scope r @ nul @ pr_Kind r @ nul @ pr_Name r"

definition planResourceKey :: "PlanResource \<Rightarrow> string" where
  "planResourceKey r = pr_Scope r @ nul @ pr_Kind r @ nul @ pr_Name r @ nul @ pr_Fingerprint r"

text \<open>A Go map filled by a loop over \<open>xs\<close>: the last element with the key.\<close>

definition last_by :: "('a \<Rightarrow> 'k) \<Rightarrow> 'a list \<Rightarrow> 'k \<Rightarrow> 'a option" where
  "last_by key xs k = find (\<lambda>x. key x = k) (rev xs)"

definition resource_shape :: "string \<Rightarrow> nat \<Rightarrow> PlanResource \<Rightarrow> plan_error option" where
  "resource_shape projectID index r =
     (let path = ''resources['' @ decimal index @ '']'' in
      first_error
        [fail_if (\<not> identifierPattern (pr_Kind r) \<or> \<not> identifierPattern (pr_Name r) \<or>
                  pr_Fingerprint r = [])
           (ErrInvalidPlan path ''kind and name must be canonical identifiers and fingerprint must not be empty''),
         fail_if (resourceScopeProject (pr_Scope r) \<noteq> Some projectID)
           (ErrInvalidPlan (path @ ''.scope'') ''must be a canonical scope in the plan project'')])"

definition validateResources :: "PlanResource list \<Rightarrow> string \<Rightarrow> plan_error option" where
  "validateResources resources projectID =
     check_unique stablePlanResourceKey (resource_shape projectID)
       (\<lambda>i r. ErrInvalidPlan (''resources['' @ decimal i @ '']'') ''duplicate kind and name'')
       0 [] resources"

definition validatePreconditions :: "PlanPrecondition list \<Rightarrow> plan_error option" where
  "validatePreconditions preconditions =
     check_unique pp_ID
       (\<lambda>i p. fail_if (\<not> identifierPattern (pp_ID p))
                (ErrInvalidPlan (''preconditions['' @ decimal i @ ''].id'') ''must be a canonical identifier''))
       (\<lambda>i p. ErrInvalidPlan (''preconditions['' @ decimal i @ ''].id'') ''duplicate value'')
       0 [] preconditions"

definition passedPrecondition :: "PlanPrecondition list \<Rightarrow> string \<Rightarrow> bool" where
  "passedPrecondition preconditions identifier =
     (if \<not> identifierPattern identifier then False
      else case find (\<lambda>p. pp_ID p = identifier) preconditions of
        None \<Rightarrow> False
      | Some p \<Rightarrow> pp_OK p)"

subsection \<open>Steps\<close>

text \<open>The targets of one step: each is a plan resource, none twice.\<close>

definition step_targets ::
  "string \<Rightarrow> PlanResource list \<Rightarrow> PlanResource list \<Rightarrow> plan_error option" where
  "step_targets path resources targets =
     check_unique planResourceKey
       (\<lambda>i target. fail_if (last_by planResourceKey resources (planResourceKey target) \<noteq> Some target)
          (ErrInvalidPlan (path @ ''.targets'') ''must exactly match a fingerprinted plan resource''))
       (\<lambda>i target. ErrInvalidPlan (path @ ''.targets'') ''contains a duplicate resource'')
       0 [] targets"

record steps_state =
  ss_seen :: "string list"
  ss_covered :: "string list"

definition plan_step ::
  "PlanResource list \<Rightarrow> nat \<Rightarrow> steps_state \<Rightarrow> PlanStep \<Rightarrow> plan_error + steps_state" where
  "plan_step resources index st step =
     (let path = ''steps['' @ decimal index @ '']'' in
      case first_error
        [fail_if (\<not> identifierPattern (ps_ID step))
           (ErrInvalidPlan (path @ ''.id'') ''must be a canonical identifier''),
         fail_if (ps_ID step \<in> set (ss_seen st)) (ErrInvalidPlan (path @ ''.id'') ''duplicate value''),
         fail_if (\<not> identifierPattern (ps_Executor step))
           (ErrInvalidPlan (path @ ''.executor'') ''must be a canonical identifier''),
         fail_if (\<not> ExecutionIdentity_Valid (ps_ExecutingIdentity step))
           (ErrInvalidPlan (path @ ''.executingIdentity'') ''unknown value''),
         fail_if (ps_CommandRedacted step = [])
           (ErrInvalidPlan (path @ ''.commandRedacted'') ''must not be empty''),
         fail_if (\<not> RetryPolicy_Valid (ps_Retry step))
           (ErrInvalidPlan (path @ ''.retry'') ''must be an explicit bounded retry policy''),
         fail_if (ps_TimeoutSeconds step \<le> 0 \<or> ps_TimeoutSeconds step > MaxStepTimeoutSeconds)
           (ErrInvalidPlan (path @ ''.timeoutSeconds'') ''must be positive and bounded''),
         fail_if (ps_SuccessCondition step = [])
           (ErrInvalidPlan (path @ ''.successCondition'') ''must not be empty''),
         fail_if (\<not> FailureBehavior_Valid (ps_FailureBehavior step))
           (ErrInvalidPlan (path @ ''.failureBehavior'') ''unknown value''),
         fail_if (elems (ps_Targets step) = [])
           (ErrInvalidPlan (path @ ''.targets'') ''must bind at least one fingerprinted plan resource''),
         step_targets path resources (elems (ps_Targets step))]
      of Some e \<Rightarrow> Inl e
       | None \<Rightarrow>
           Inr \<lparr>ss_seen = ps_ID step # ss_seen st,
                ss_covered = map planResourceKey (elems (ps_Targets step)) @ ss_covered st\<rparr>)"

definition validateSteps ::
  "PlanStep list \<Rightarrow> string \<Rightarrow> PlanResource list \<Rightarrow> plan_error option" where
  "validateSteps steps pointOfNoReturn resources =
     (if steps = [] then Some (ErrInvalidPlan ''steps'' ''must contain at least one step'')
      else case range_loop (plan_step resources) 0 \<lparr>ss_seen = [], ss_covered = []\<rparr> steps of
        Inl e \<Rightarrow> Some e
      | Inr st \<Rightarrow>
          first_error
            [fail_if (length (remdups (ss_covered st)) \<noteq> length resources)
               (ErrInvalidPlan ''steps.targets'' ''must cover every plan resource''),
             fail_if (pointOfNoReturn \<noteq> [] \<and> pointOfNoReturn \<notin> set (ss_seen st))
               (ErrInvalidPlan ''pointOfNoReturn'' ''must name a step in this plan'')])"

subsection \<open>Permissions\<close>

definition permission_key :: "PlanPermission \<Rightarrow> string" where
  "permission_key p =
     pm_StepID p @ nul @ ExecutionIdentity_string (pm_Identity p) @ nul @ pm_Permission p @ nul @
     planResourceKey (pm_Resource p)"

definition permission_shape ::
  "PlanStep list \<Rightarrow> PlanResource list \<Rightarrow> nat \<Rightarrow> PlanPermission \<Rightarrow> plan_error option" where
  "permission_shape steps resources index p =
     (let path = ''permissions['' @ decimal index @ '']'' in
      case last_by ps_ID steps (pm_StepID p) of
        None \<Rightarrow> Some (ErrInvalidPlan (path @ ''.stepId'') ''must name a step in this plan'')
      | Some step \<Rightarrow>
          first_error
            [fail_if (\<not> ExecutionIdentity_Valid (pm_Identity p))
               (ErrInvalidPlan (path @ ''.identity'') ''unknown value''),
             fail_if (pm_Identity p \<noteq> ps_ExecutingIdentity step)
               (ErrInvalidPlan (path @ ''.identity'') ''must match the named step''),
             fail_if (\<not> permissionPattern (pm_Permission p))
               (ErrInvalidPlan (path @ ''.permission'') ''must be an exact permission name''),
             fail_if (last_by planResourceKey resources (planResourceKey (pm_Resource p)) \<noteq>
                      Some (pm_Resource p))
               (ErrInvalidPlan (path @ ''.resource'') ''must exactly match a fingerprinted plan resource'')])"

definition validatePermissions ::
  "PlanPermission list \<Rightarrow> ApprovalClass \<Rightarrow> PlanStep list \<Rightarrow> PlanResource list \<Rightarrow> plan_error option" where
  "validatePermissions permissions approvalClass steps resources =
     first_error
       ([fail_if (approvalClass \<noteq> ApprovalRead \<and> permissions = [])
           (ErrInvalidPlan ''permissions'' ''must contain exact permission checks for a mutating plan''),
         check_unique permission_key (permission_shape steps resources)
           (\<lambda>i p. ErrInvalidPlan (''permissions['' @ decimal i @ '']'')
              ''duplicates a step, identity, permission, and resource'') 0 [] permissions] @
        (if approvalClass \<noteq> ApprovalRead then
           [check_each (\<lambda>i step.
              first_error
                [fail_if (ps_ID step \<notin> set (map pm_StepID permissions))
                   (ErrInvalidPlan ''permissions'' ''must cover every mutating-plan step''),
                 fail_if (ps_ExecutingIdentity step \<notin> set (map pm_Identity permissions))
                   (ErrInvalidPlan ''permissions'' ''must cover every executing identity'')]) 0 steps,
            check_each (\<lambda>i r.
              fail_if (planResourceKey r \<notin> set (map (\<lambda>p. planResourceKey (pm_Resource p)) permissions))
                (ErrInvalidPlan ''permissions'' ''must cover every affected resource'')) 0 resources]
         else []))"

subsection \<open>Cost\<close>

definition leap_year :: "int \<Rightarrow> bool" where
  "leap_year y = (y mod 4 = 0 \<and> (y mod 100 \<noteq> 0 \<or> y mod 400 = 0))"

definition days_in :: "int \<Rightarrow> int \<Rightarrow> int" where
  "days_in y m =
     (if m = 2 then (if leap_year y then 29 else 28)
      else if m \<in> set [4, 6, 9, 11] then 30 else 31)"

text \<open>\<open>time.Parse(time.DateOnly, s)\<close> on a string that matches \<open>datePattern\<close>.\<close>

definition real_date :: "string \<Rightarrow> bool" where
  "real_date s =
     (let y = digits_value (take 4 s); m = digits_value (take 2 (drop 5 s));
          d = digits_value (drop 8 s)
      in 1 \<le> m \<and> m \<le> 12 \<and> 1 \<le> d \<and> d \<le> days_in y m)"

definition validateCost :: "PlanCost \<Rightarrow> plan_error option" where
  "validateCost cost =
     first_error
       ([validateAmount ''cost.runRate.amountUSD'' (cr_AmountUSD (pc_RunRate cost)),
         fail_if (cr_Period (pc_RunRate cost) = [])
           (ErrInvalidPlan ''cost.runRate.period'' ''must not be empty''),
         check_each (\<lambda>i item.
           first_error
             [fail_if (ci_Resource item = [] \<or> ci_Kind item = [])
                (ErrInvalidPlan (''cost.items['' @ decimal i @ '']'') ''resource and kind must not be empty''),
              validateAmount (''cost.items['' @ decimal i @ ''].amountUSD'') (ci_AmountUSD item)])
           0 (elems (pc_Items cost))] @
        (case pc_Incremental cost of
           None \<Rightarrow> []
         | Some inc \<Rightarrow>
             [validateAmount ''cost.incremental.amountUSD'' (cn_AmountUSD inc),
              fail_if (cn_Period inc = [] \<or> cn_Plan inc = [])
                (ErrInvalidPlan ''cost.incremental'' ''period and plan must not be empty'')]) @
        [fail_if (\<not> CostSource_Valid (pc_Source cost)) (ErrInvalidPlan ''cost.source'' ''unknown value''),
         fail_if (\<not> datePattern (pc_PriceTableDate cost))
           (ErrInvalidPlan ''cost.priceTableDate'' ''must use YYYY-MM-DD''),
         fail_if (\<not> real_date (pc_PriceTableDate cost))
           (ErrInvalidPlan ''cost.priceTableDate'' ''must be a real calendar date''),
         fail_if (\<not> BudgetState_Valid (cb_State (pc_Budget cost)))
           (ErrInvalidPlan ''cost.budget.state'' ''unknown value''),
         fail_if (cb_State (pc_Budget cost) = BudgetOK \<and> cb_CeilingUSD (pc_Budget cost) = None)
           (ErrInvalidPlan ''cost.budget.ceilingUSD'' ''is required when budget state is ok''),
         fail_if (cb_State (pc_Budget cost) = BudgetUnavailable \<and> cb_Reason (pc_Budget cost) = [])
           (ErrInvalidPlan ''cost.budget.reason'' ''is required when budget state is unavailable''),
         fail_if (cb_State (pc_Budget cost) \<noteq> BudgetOK \<and> cb_CeilingUSD (pc_Budget cost) \<noteq> None)
           (ErrInvalidPlan ''cost.budget.ceilingUSD'' ''is allowed only when budget state is ok''),
         (case cb_CeilingUSD (pc_Budget cost) of
            None \<Rightarrow> None
          | Some ceiling \<Rightarrow> validateAmount ''cost.budget.ceilingUSD'' ceiling)])"

subsection \<open>Exposure\<close>

definition rfc1918Networks :: "ipv4_prefix list" where
  "rfc1918Networks = [(0x0A000000, 8), (0xAC100000, 12), (0xC0A80000, 16)]"

definition whollyWithinRFC1918 :: "ipv4_prefix \<Rightarrow> bool" where
  "whollyWithinRFC1918 p =
     list_ex (\<lambda>n. snd n \<le> snd p \<and> prefix_Contains n (fst p)) rfc1918Networks"

definition validExposureSource :: "PlanExposureSource \<Rightarrow> bool" where
  "validExposureSource source =
     (if xs_Kind source = ExposureSourceCIDR \<or> xs_Kind source = ExposureSourcePrivateRange then
        (case parse_prefix (xs_Value source) of
           None \<Rightarrow> False
         | Some p \<Rightarrow>
             if p \<noteq> prefix_Masked p then False
             else if xs_Kind source = ExposureSourcePrivateRange then whollyWithinRFC1918 p
             else 24 \<le> snd p \<or> xs_Value source = ''0.0.0.0/0'')
      else if xs_Kind source = ExposureSourceTag \<or> xs_Kind source = ExposureSourceTunnel then
        identifierPattern (xs_Value source)
      else if xs_Kind source = ExposureSourceServiceAccount then
        serviceAccountPattern (xs_Value source)
      else if xs_Kind source = ExposureSourceIAP then xs_Value source = ''35.235.240.0/20''
      else False)"

definition sourceAllowedForExposure :: "ExposureDelta \<Rightarrow> ExposureSourceKind \<Rightarrow> bool" where
  "sourceAllowedForExposure exposure kind =
     (case exposure of
        ExposurePrivate \<Rightarrow>
          kind = ExposureSourcePrivateRange \<or> kind = ExposureSourceTag \<or>
          kind = ExposureSourceServiceAccount
      | ExposureTunnel \<Rightarrow> kind = ExposureSourceIAP \<or> kind = ExposureSourceTunnel
      | ExposureExternal \<Rightarrow> kind = ExposureSourceCIDR
      | _ \<Rightarrow> False)"

definition validExposureAuthentication :: "ExposureDelta \<Rightarrow> PlanExposureControls \<Rightarrow> bool" where
  "validExposureAuthentication exposure controls =
     (if exposure = ExposureTunnel then xc_Authentication controls = ExposureAuthIAP
      else if exposure = ExposureExternal then
        xc_Authentication controls = ExposureAuthSCRAM \<or>
        xc_Authentication controls = ExposureAuthVPN \<or>
        xc_Authentication controls = ExposureAuthOverlay
      else xc_Authentication controls \<noteq> ExposureAuthIAP)"

definition validExposureTLS :: "ExposureDelta \<Rightarrow> PlanExposureTLS \<Rightarrow> bool" where
  "validExposureTLS exposure tls =
     (if exposure = ExposureNone \<or> \<not> xt_Required tls \<or> \<not> xt_HostnameVerification tls \<or>
         xt_Trust tls = ExposureTrustNone
      then False
      else exposure \<noteq> ExposureExternal \<or> xt_Trust tls = ExposureTrustPublic)"

definition validateExposureLifetime :: "Plan \<Rightarrow> PlanExposureControls \<Rightarrow> plan_error option" where
  "validateExposureLifetime plan controls =
     (let hasExpiry = (xc_ExpiresAt controls \<noteq> None); hasReview = (xc_ReviewAt controls \<noteq> None);
          dates =
            (case xc_ExpiresAt controls of
               None \<Rightarrow> []
             | Some t \<Rightarrow>
                 [validateUTCTime ''exposureControls.expiresAt'' t,
                  fail_if (\<not> time_After t (pl_CreatedAt plan))
                    (ErrInvalidPlan ''exposureControls.expiresAt'' ''must be after plan creation'')]) @
            (case xc_ReviewAt controls of
               None \<Rightarrow> []
             | Some t \<Rightarrow>
                 [validateUTCTime ''exposureControls.reviewAt'' t,
                  fail_if (\<not> time_After t (pl_CreatedAt plan))
                    (ErrInvalidPlan ''exposureControls.reviewAt'' ''must be after plan creation'')])
      in if xc_InternetWide controls then
           (if xc_Profile controls \<noteq> ExposureProfileACC08 \<or>
               pl_ApprovalClass plan \<noteq> ApprovalDataDestructive then
              Some (ErrInvalidPlan ''exposureControls.internetWide'' ''requires ACC-08 and AP-5'')
            else if xc_PermanentInternetWideAcknowledged controls then
              fail_if (hasExpiry \<or> hasReview)
                (ErrInvalidPlan ''exposureControls'' ''permanent internet-wide access cannot carry a lifetime'')
            else first_error
              (fail_if (\<not> hasExpiry \<or> hasReview)
                 (ErrInvalidPlan ''exposureControls.expiresAt'' ''internet-wide access requires an expiry'') #
               dates))
         else first_error
           (fail_if (xc_PermanentInternetWideAcknowledged controls \<or> hasExpiry = hasReview)
              (ErrInvalidPlan ''exposureControls'' ''requires exactly one expiry or review date'') #
            dates))"

definition maxRecoveryAssets :: nat where "maxRecoveryAssets = 64"
definition maxExposureTargets :: nat where "maxExposureTargets = 64"
definition maxExposureSources :: nat where "maxExposureSources = 64"
definition maxExposurePorts :: nat where "maxExposurePorts = 16"

definition bounded :: "nat \<Rightarrow> 'a list \<Rightarrow> bool" where
  "bounded n xs = (xs \<noteq> [] \<and> length xs \<le> n)"

definition exposure_source_key :: "PlanExposureSource \<Rightarrow> string" where
  "exposure_source_key source = ExposureSourceKind_string (xs_Kind source) @ nul @ xs_Value source"

definition internet_source :: "PlanExposureSource \<Rightarrow> bool" where
  "internet_source source = (xs_Kind source = ExposureSourceCIDR \<and> xs_Value source = ''0.0.0.0/0'')"

text \<open>The checks of the controls after their presence was established.\<close>

definition exposure_control_checks :: "Plan \<Rightarrow> PlanExposureControls \<Rightarrow> plan_error option list" where
  "exposure_control_checks plan controls =
     (let targets = elems (xc_Targets controls); sources = elems (xc_Sources controls);
          ports = elems (xc_Ports controls)
      in [fail_if (\<not> ExposureProfile_Valid (xc_Profile controls) \<or>
                   \<not> ExposureAuthentication_Valid (xc_Authentication controls) \<or>
                   \<not> ExposureTrust_Valid (xt_Trust (xc_TLS controls)))
            (ErrInvalidPlan ''exposureControls'' ''contains an unknown closed value''),
          fail_if (\<not> bounded maxExposureTargets targets \<or> \<not> bounded maxExposureSources sources \<or>
                   \<not> bounded maxExposurePorts ports)
            (ErrInvalidPlan ''exposureControls'' ''requires bounded non-empty targets, sources, and ports''),
          check_unique planResourceKey
            (\<lambda>i t. fail_if (planResourceKey t \<notin> set (map planResourceKey (elems (pl_Resources plan))))
               (ErrInvalidPlan ''exposureControls.targets'' ''must exactly match fingerprinted plan resources''))
            (\<lambda>i t. ErrInvalidPlan ''exposureControls.targets'' ''contains a duplicate target'')
            0 [] targets,
          check_unique exposure_source_key
            (\<lambda>i source. fail_if (\<not> ExposureSourceKind_Valid (xs_Kind source) \<or>
                 \<not> validExposureSource source \<or>
                 \<not> sourceAllowedForExposure (pl_Exposure plan) (xs_Kind source))
               (ErrInvalidPlan ''exposureControls.sources'' ''contains a noncanonical source''))
            (\<lambda>i source. ErrInvalidPlan ''exposureControls.sources'' ''contains a duplicate source'')
            0 [] sources,
          check_unique id
            (\<lambda>i port. fail_if (xp_Protocol port \<noteq> ''tcp'' \<or> xp_Number port \<noteq> 27017)
               (ErrInvalidPlan ''exposureControls.ports'' ''only tcp/27017 is supported''))
            (\<lambda>i port. ErrInvalidPlan ''exposureControls.ports'' ''contains a duplicate port'')
            0 [] ports,
          fail_if (\<not> validExposureAuthentication (pl_Exposure plan) controls)
            (ErrInvalidPlan ''exposureControls.authentication'' ''does not match the exposure path''),
          fail_if (\<not> validExposureTLS (pl_Exposure plan) (xc_TLS controls))
            (ErrInvalidPlan ''exposureControls.tls'' ''access requires trusted TLS with hostname verification''),
          fail_if (\<not> xc_AuditLogging controls \<or> xc_RevocationWorkflowID controls \<noteq> ''WF-ACC-04'')
            (ErrInvalidPlan ''exposureControls'' ''requires audit logging and the kill-switch revocation workflow''),
          fail_if (\<not> passedPrecondition (elems (pl_Preconditions plan)) (xc_SimulationPreconditionID controls))
            (ErrInvalidPlan ''exposureControls.simulationPreconditionId'' ''must reference a passed plan precondition''),
          fail_if (xc_InternetWide controls \<noteq> list_ex internet_source sources)
            (ErrInvalidPlan ''exposureControls.internetWide'' ''must exactly match a 0.0.0.0/0 source''),
          fail_if (\<not> xc_InternetWide controls \<and> xc_Profile controls = ExposureProfileACC08)
            (ErrInvalidPlan ''exposureControls.profile'' ''ACC-08 is reserved for internet-wide exposure''),
          validateExposureLifetime plan controls])"

definition validateExposureControls :: "Plan \<Rightarrow> plan_error option" where
  "validateExposureControls plan =
     (if pl_Exposure plan = ExposureNone then
        fail_if (pl_ExposureControls plan \<noteq> None)
          (ErrInvalidPlan ''exposureControls'' ''must be absent when exposure is none'')
      else case pl_ExposureControls plan of
        None \<Rightarrow> Some (ErrInvalidPlan ''exposureControls'' ''requires AP-3 approval and complete controls'')
      | Some controls \<Rightarrow>
          if pl_ApprovalClass plan < ApprovalSecuritySensitive then
            Some (ErrInvalidPlan ''exposureControls'' ''requires AP-3 approval and complete controls'')
          else first_error (exposure_control_checks plan controls))"

subsection \<open>Recovery assets\<close>

definition safeEvidenceReference :: "string \<Rightarrow> bool" where
  "safeEvidenceReference reference =
     (evidenceRefPattern reference \<and> \<not> contains reference ''//'' \<and>
      list_all (\<lambda>w. w \<noteq> ''.'' \<and> w \<noteq> ''..'') (split_on CHR ''/'' reference))"

definition protects_checks ::
  "string \<Rightarrow> PlanResource list \<Rightarrow> PlanRecoveryAsset \<Rightarrow> plan_error option" where
  "protects_checks path resources asset =
     check_unique planResourceKey
       (\<lambda>i protected.
          first_error
            [fail_if (stablePlanResourceKey protected = stablePlanResourceKey (ra_Resource asset))
               (ErrInvalidPlan (path @ ''.protects'') ''must not claim that a recovery asset protects itself''),
             fail_if (last_by planResourceKey resources (planResourceKey protected) \<noteq> Some protected)
               (ErrInvalidPlan (path @ ''.protects'') ''must exactly match fingerprinted plan resources'')])
       (\<lambda>i protected. ErrInvalidPlan (path @ ''.protects'') ''contains a duplicate protected resource'')
       0 [] (elems (ra_Protects asset))"

definition recovery_kind_checks :: "string \<Rightarrow> Plan \<Rightarrow> PlanRecoveryAsset \<Rightarrow> plan_error option list" where
  "recovery_kind_checks path plan asset =
     (if ra_Kind asset = RecoveryAssetPBMRecoveryPoint then
        (case ra_RestoreTo asset of
           None \<Rightarrow> [Some (ErrInvalidPlan path ''PBM proof requires a recovery-point resource and restoreTo'')]
         | Some restoreTo \<Rightarrow>
             [fail_if (pr_Kind (ra_Resource asset) \<noteq> ''pbm-recovery-point'')
                (ErrInvalidPlan path ''PBM proof requires a recovery-point resource and restoreTo''),
              validateUTCTime (path @ ''.restoreTo'') restoreTo,
              fail_if (time_Before restoreTo (pl_CreatedAt plan) \<or> time_After restoreTo (pl_ExpiresAt plan))
                (ErrInvalidPlan (path @ ''.restoreTo'') ''must cover plan creation within plan validity'')])
      else if ra_Kind asset = RecoveryAssetSnapshot then
        [fail_if (pr_Kind (ra_Resource asset) \<noteq> ''snapshot'' \<or> ra_RestoreTo asset \<noteq> None)
           (ErrInvalidPlan path ''snapshot proof requires a snapshot resource and no restoreTo''),
         fail_if (time_Sub (pl_CreatedAt plan) (ra_VerifiedAt asset) > hour)
           (ErrInvalidPlan (path @ ''.verifiedAt'') ''snapshot proof must be at most one hour old'')]
      else [])"

definition recovery_asset_key :: "PlanRecoveryAsset \<Rightarrow> string" where
  "recovery_asset_key asset =
     RecoveryAssetKind_string (ra_Kind asset) @ nul @ planResourceKey (ra_Resource asset)"

text \<open>The stable keys of every target of every step.\<close>

definition targeted_keys :: "PlanStep list \<Rightarrow> string list" where
  "targeted_keys steps = concat (map (\<lambda>s. map stablePlanResourceKey (elems (ps_Targets s))) steps)"

text \<open>One iteration; the state is the set of keys seen.\<close>

definition recovery_asset ::
  "Plan \<Rightarrow> nat \<Rightarrow> string list \<Rightarrow> PlanRecoveryAsset \<Rightarrow> plan_error + string list" where
  "recovery_asset plan index seen asset =
     (let path = ''rollback.assets['' @ decimal index @ '']'';
          protects = elems (ra_Protects asset)
      in case first_error
        ([fail_if (\<not> RecoveryAssetKind_Valid (ra_Kind asset))
            (ErrInvalidPlan (path @ ''.kind'') ''unknown value''),
          fail_if (recovery_asset_key asset \<in> set seen)
            (ErrInvalidPlan path ''duplicates a recovery asset''),
          fail_if (stablePlanResourceKey (ra_Resource asset) \<in> set (targeted_keys (elems (pl_Steps plan))))
            (ErrInvalidPlan (path @ ''.resource'') ''must not be a target of the same plan''),
          fail_if (\<not> bounded maxExposureTargets protects)
            (ErrInvalidPlan (path @ ''.protects'') ''must contain bounded protected plan resources''),
          protects_checks path (elems (pl_Resources plan)) asset,
          fail_if (\<not> safeEvidenceReference (ra_EvidenceRef asset))
            (ErrInvalidPlan (path @ ''.evidenceRef'') ''must be a canonical non-secret object reference''),
          validateUTCTime (path @ ''.verifiedAt'') (ra_VerifiedAt asset),
          fail_if (time_After (ra_VerifiedAt asset) (pl_CreatedAt plan) \<or>
                   time_Sub (pl_CreatedAt plan) (ra_VerifiedAt asset) >
                   time_Sub (pl_ExpiresAt plan) (pl_CreatedAt plan))
            (ErrInvalidPlan (path @ ''.verifiedAt'') ''must be current within the plan validity interval'')] @
         recovery_kind_checks path plan asset)
      of Some e \<Rightarrow> Inl e
       | None \<Rightarrow> Inr (recovery_asset_key asset # seen))"

definition validateRecoveryAssets :: "Plan \<Rightarrow> plan_error option" where
  "validateRecoveryAssets plan =
     (let assets = elems (rb_Assets (pl_Rollback plan)) in
      if length assets > maxRecoveryAssets then
        Some (ErrInvalidPlan ''rollback.assets'' ''exceeds the bounded asset count'')
      else if pl_ApprovalClass plan = ApprovalDataDestructive \<and> assets = [] then
        Some (ErrInvalidPlan ''rollback.assets'' ''requires recovery proof for a data-destructive plan'')
      else case range_loop (recovery_asset plan) 0 [] assets of
        Inl e \<Rightarrow> Some e
      | Inr _ \<Rightarrow>
          fail_if (validateResources (map ra_Resource assets) (pl_ProjectID plan) \<noteq> None \<and> assets \<noteq> [])
            (ErrInvalidPlan ''rollback.assets'' ''must contain unique fingerprinted resources in the plan project''))"

subsection \<open>The whole plan\<close>

definition validateCanonicalPlanCollections :: "Plan \<Rightarrow> plan_error option" where
  "validateCanonicalPlanCollections plan =
     first_error
       [fail_if (pl_Resources plan = None \<or> pl_Preconditions plan = None \<or> pl_Permissions plan = None \<or>
                 pl_Steps plan = None \<or> pc_Items (pl_Cost plan) = None \<or>
                 pc_Assumptions (pl_Cost plan) = None \<or> pc_Unpriced (pl_Cost plan) = None \<or>
                 pl_Protection plan = None \<or> rb_Assets (pl_Rollback plan) = None \<or>
                 pl_Verification plan = None)
          (ErrInvalidPlan ''collections'' ''required arrays must use canonical non-null encoding''),
        fail_if (list_ex (\<lambda>s. ps_Targets s = None) (elems (pl_Steps plan)))
          (ErrInvalidPlan ''steps.targets'' ''required arrays must use canonical non-null encoding''),
        fail_if (list_ex (\<lambda>a. ra_Protects a = None) (elems (rb_Assets (pl_Rollback plan))))
          (ErrInvalidPlan ''rollback.assets.protects'' ''required arrays must use canonical non-null encoding''),
        (case pl_ExposureControls plan of
           None \<Rightarrow> None
         | Some c \<Rightarrow>
             fail_if (xc_Targets c = None \<or> xc_Sources c = None \<or> xc_Ports c = None)
               (ErrInvalidPlan ''exposureControls'' ''required arrays must use canonical non-null encoding''))]"

definition plan_identity_checks :: "Plan \<Rightarrow> plan_error option list" where
  "plan_identity_checks plan =
     [fail_if (\<not> planIDPattern (pl_PlanID plan))
        (ErrInvalidPlan ''planId'' ''must match plan-<16 lowercase hex>''),
      fail_if (\<not> sha256Pattern (pl_PlanHash plan))
        (ErrInvalidPlan ''planHash'' ''must be 64 lowercase hex characters''),
      fail_if (\<not> workflowIDPattern (pl_WorkflowID plan))
        (ErrInvalidPlan ''workflowId'' ''must match WF-<GROUP>-<NN>''),
      fail_if (\<not> projectIDPattern (pl_ProjectID plan))
        (ErrInvalidPlan ''projectId'' ''must be a canonical project identifier''),
      fail_if (\<not> environmentPattern (pl_Environment plan))
        (ErrInvalidPlan ''environment'' ''must be a canonical environment name''),
      fail_if (\<not> EnvironmentClass_Valid (pl_EnvironmentClass plan))
        (ErrInvalidPlan ''environmentClass'' ''unknown value''),
      validatePrincipal (pl_Principal plan),
      validateUTCTime ''createdAt'' (pl_CreatedAt plan),
      fail_if (\<not> ApprovalClass_Valid (pl_ApprovalClass plan))
        (ErrInvalidPlan ''approvalClass'' ''unknown value''),
      validateUTCTime ''expiresAt'' (pl_ExpiresAt plan),
      fail_if (\<not> time_After (pl_ExpiresAt plan) (pl_CreatedAt plan))
        (ErrInvalidPlan ''expiresAt'' ''must be later than createdAt''),
      fail_if (pl_CoolingOffSeconds plan < 0)
        (ErrInvalidPlan ''coolingOffSeconds'' ''must not be negative''),
      fail_if (pl_CoolingOffSeconds plan > time_Sub (pl_ExpiresAt plan) (pl_CreatedAt plan) div second)
        (ErrInvalidPlan ''coolingOffSeconds'' ''must fit within plan validity''),
      validateIdentityPlan (pl_Identity plan),
      validatePolicyHash (pl_PolicyHash plan),
      fail_if (pl_EnvironmentClass plan \<noteq> EnvironmentProduction \<and> pl_StepUpRequired plan)
        (ErrInvalidPlan ''stepUpRequired'' ''must be false outside production''),
      fail_if (pl_EnvironmentClass plan = EnvironmentProduction \<and>
               pl_ApprovalClass plan < ApprovalDestructive \<and> pl_StepUpRequired plan)
        (ErrInvalidPlan ''stepUpRequired'' ''requires a production AP-4 or stronger plan''),
      (case pl_Intent plan of None \<Rightarrow> None | Some intent \<Rightarrow> validateIntent intent)]"

definition plan_content_checks :: "Plan \<Rightarrow> plan_error option list" where
  "plan_content_checks plan =
     (let resources = elems (pl_Resources plan); steps = elems (pl_Steps plan) in
     [validateResources resources (pl_ProjectID plan),
      fail_if (pl_ApprovalClass plan \<noteq> ApprovalRead \<and> resources = [])
        (ErrInvalidPlan ''resources'' ''must identify at least one fingerprinted mutation target''),
      validatePreconditions (elems (pl_Preconditions plan)),
      validateSteps steps (pl_PointOfNoReturn plan) resources,
      (if pl_PointOfNoReturn plan = [] then
         fail_if (PointOfNoReturnTrigger_string (pl_PointOfNoReturnTrigger plan) \<noteq> [])
           (ErrInvalidPlan ''pointOfNoReturnTrigger'' ''must be absent without pointOfNoReturn'')
       else fail_if (\<not> PointOfNoReturnTrigger_Valid (pl_PointOfNoReturnTrigger plan))
           (ErrInvalidPlan ''pointOfNoReturnTrigger'' ''unknown value'')),
      validatePermissions (elems (pl_Permissions plan)) (pl_ApprovalClass plan) steps resources,
      validateCost (pl_Cost plan),
      fail_if (pd_ExpectedSeconds (pl_Downtime plan) < 0)
        (ErrInvalidPlan ''downtime.expectedSeconds'' ''must not be negative''),
      fail_if (pd_Kind (pl_Downtime plan) = [])
        (ErrInvalidPlan ''downtime.kind'' ''must not be empty''),
      fail_if (\<not> ExposureDelta_Valid (pl_Exposure plan))
        (ErrInvalidPlan ''exposure'' ''unknown value''),
      validateExposureControls plan,
      fail_if (pl_ApprovalClass plan \<ge> ApprovalProtected \<and> elems (pl_Protection plan) = [])
        (ErrInvalidPlan ''protection'' ''must describe at least one safeguard for AP-2 or stronger''),
      fail_if (rb_Boundary (pl_Rollback plan) = [])
        (ErrInvalidPlan ''rollback.boundary'' ''must not be empty; use none when unavailable''),
      validateRecoveryAssets plan,
      fail_if (elems (pl_Verification plan) = [])
        (ErrInvalidPlan ''verification'' ''must contain at least one independent check'')])"

definition validatePlanStructure :: "Plan \<Rightarrow> plan_error option" where
  "validatePlanStructure plan =
     first_error (validateCanonicalPlanCollections plan # plan_identity_checks plan @ plan_content_checks plan)"

end
