(* ===== verification/PlanSamples.thy ===== *)
theory PlanSamples
  imports PlanPolicy
begin

section \<open>A concrete plan\<close>

text \<open>
  One plan that exercises every validator: data-destructive (AP-5), a two-step mutation of two
  resources with a point of no return, an internet-wide exposure with an expiry, and two recovery
  assets. The witnesses of the plan properties evaluate the model on it. The flag selects a variant in
  which the fingerprint of the database holds a NUL and the exposure targets the resource with the
  same key that splits its name and fingerprint at that NUL.
\<close>

lemma nul_char: "nul = [CHR 0x00]"
  by (simp add: nul_def char_of_def)

definition sample_resource :: "string \<Rightarrow> string \<Rightarrow> PlanResource" where
  "sample_resource kind name =
     \<lparr>pr_Kind = kind, pr_Scope = ''projects/demo-project/global'', pr_Name = name,
      pr_Fingerprint = ''fp''\<rparr>"

definition sample_db :: "bool \<Rightarrow> PlanResource" where
  "sample_db b =
     (if b then (sample_resource ''instance'' ''db'')\<lparr>pr_Fingerprint := ''f'' @ nul @ ''p''\<rparr>
      else sample_resource ''instance'' ''db'')"

definition sample_target :: "bool \<Rightarrow> PlanResource" where
  "sample_target b =
     (if b then (sample_resource ''instance'' (''db'' @ nul @ ''f''))\<lparr>pr_Fingerprint := ''p''\<rparr>
      else sample_resource ''instance'' ''db'')"

definition sample_step :: "string \<Rightarrow> ExecutionIdentity \<Rightarrow> PlanResource list \<Rightarrow> PlanStep" where
  "sample_step name identity targets =
     \<lparr>ps_ID = name, ps_Executor = ''gcloud'', ps_ExecutingIdentity = identity,
      ps_CommandRedacted = ''run'', ps_Idempotent = True,
      ps_Retry = \<lparr>rp_MaxAttempts = 3, rp_InitialBackoffSeconds = 1, rp_MaxBackoffSeconds = 5\<rparr>,
      ps_CancelSafe = True, ps_TimeoutSeconds = 60, ps_SuccessCondition = ''ready'',
      ps_FailureBehavior = FailureRollback, ps_Targets = Some targets\<rparr>"

definition sample_permission :: "string \<Rightarrow> ExecutionIdentity \<Rightarrow> PlanResource \<Rightarrow> PlanPermission" where
  "sample_permission name identity r =
     \<lparr>pm_StepID = name, pm_Identity = identity, pm_Permission = ''compute.disks.delete'',
      pm_Resource = r, pm_Granted = True\<rparr>"

definition sample_cost :: PlanCost where
  "sample_cost =
     \<lparr>pc_RunRate = \<lparr>cr_AmountUSD = Finite 5 1, cr_Period = ''month''\<rparr>,
      pc_Items = Some [\<lparr>ci_Resource = ''data'', ci_Kind = ''disk'', ci_AmountUSD = Finite 5 1\<rparr>],
      pc_Incremental = None, pc_Source = CostSourceListPriceTable, pc_PriceTableDate = ''2024-02-29'',
      pc_Stale = False, pc_Assumptions = Some [], pc_Unpriced = Some [],
      pc_Budget = \<lparr>cb_State = BudgetOK, cb_Reason = [], cb_CeilingUSD = Some (Finite 25 2)\<rparr>\<rparr>"

definition sample_controls :: "bool \<Rightarrow> PlanExposureControls" where
  "sample_controls b =
     \<lparr>xc_Profile = ExposureProfileACC08, xc_Targets = Some [sample_target b],
      xc_Sources = Some [\<lparr>xs_Kind = ExposureSourceCIDR, xs_Value = ''0.0.0.0/0''\<rparr>,
                         \<lparr>xs_Kind = ExposureSourceCIDR, xs_Value = ''203.0.113.0/24''\<rparr>],
      xc_Ports = Some [\<lparr>xp_Protocol = ''tcp'', xp_Number = 27017\<rparr>],
      xc_Authentication = ExposureAuthSCRAM,
      xc_TLS = \<lparr>xt_Required = True, xt_HostnameVerification = True, xt_Trust = ExposureTrustPublic\<rparr>,
      xc_ExpiresAt = Some (utc (200 * hour)), xc_ReviewAt = None, xc_AuditLogging = True,
      xc_RevocationWorkflowID = ''WF-ACC-04'', xc_SimulationPreconditionID = ''simulated'',
      xc_InternetWide = True, xc_PermanentInternetWideAcknowledged = False\<rparr>"

definition sample_assets :: "bool \<Rightarrow> PlanRecoveryAsset list" where
  "sample_assets b =
     [\<lparr>ra_Kind = RecoveryAssetSnapshot, ra_Resource = sample_resource ''snapshot'' ''snap'',
       ra_Protects = Some [sample_resource ''disk'' ''data''], ra_EvidenceRef = ''evidence/snap.json'',
       ra_VerifiedAt = utc (99 * hour), ra_RestoreTo = None\<rparr>,
      \<lparr>ra_Kind = RecoveryAssetPBMRecoveryPoint, ra_Resource = sample_resource ''pbm-recovery-point'' ''point'',
       ra_Protects = Some [sample_db b], ra_EvidenceRef = ''evidence/pbm.json'',
       ra_VerifiedAt = utc (100 * hour), ra_RestoreTo = Some (utc (101 * hour))\<rparr>]"

definition sample_plan_for :: "bool \<Rightarrow> Plan" where
  "sample_plan_for b =
     \<lparr>pl_PlanID = ''plan-0123456789abcdef'', pl_PlanHash = replicate 64 CHR ''a'',
      pl_WorkflowID = ''WF-DB-07'', pl_ProjectID = ''demo-project'', pl_Environment = ''prod'',
      pl_EnvironmentClass = EnvironmentProduction, pl_Principal = ''user:ops@example.com'',
      pl_CreatedAt = utc (100 * hour), pl_ApprovalClass = ApprovalDataDestructive,
      pl_ExpiresAt = utc (124 * hour), pl_CoolingOffSeconds = 3600, pl_Identity = DefaultIdentityPlan,
      pl_PolicyHash = \<lparr>ph_Local = replicate 64 CHR ''b'', ph_Approved = replicate 64 CHR ''b'', ph_Match = True\<rparr>,
      pl_StepUpRequired = True,
      pl_Intent = Some \<lparr>pi_ValidUntil = utc (110 * hour), pi_WindowStart = utc (101 * hour)\<rparr>,
      pl_Resources = Some [sample_resource ''disk'' ''data'', sample_db b],
      pl_Preconditions = Some [\<lparr>pp_ID = ''simulated'', pp_OK = True, pp_Detail = []\<rparr>],
      pl_Permissions = Some [sample_permission ''drop'' IdentityDestructive (sample_resource ''disk'' ''data''),
                             sample_permission ''open'' IdentityOperator (sample_db b)],
      pl_Steps = Some [sample_step ''drop'' IdentityDestructive [sample_resource ''disk'' ''data''],
                       sample_step ''open'' IdentityOperator [sample_db b]],
      pl_Cost = sample_cost, pl_Downtime = \<lparr>pd_ExpectedSeconds = 60, pd_Kind = ''planned''\<rparr>,
      pl_Exposure = ExposureExternal, pl_ExposureControls = Some (sample_controls b),
      pl_Protection = Some [''backup first''],
      pl_Rollback = \<lparr>rb_Boundary = ''restore'', rb_Assets = Some (sample_assets b)\<rparr>,
      pl_PointOfNoReturn = ''drop'', pl_PointOfNoReturnTrigger = PointOfNoReturnStepStart,
      pl_Verification = Some [''count documents'']\<rparr>"

abbreviation sample_plan_value :: Plan where
  "sample_plan_value \<equiv> sample_plan_for False"

subsection \<open>The plan is valid\<close>

lemmas sample_plan_defs =
  sample_plan_for_def sample_resource_def sample_step_def sample_permission_def sample_cost_def
  sample_controls_def sample_assets_def sample_db_def sample_target_def
lemmas plan_evaluation =
  sample_plan_defs validateUTCTime_def validateAmount_def validateIntent_def validatePolicyHash_def
  validateIdentityPlan_def time_defs int64_defs duration_defs pattern_defs char_class_defs
  stablePlanResourceKey_def planResourceKey_def nul_char bounded_def digits_value_def retry_limits
  ApprovalRead_def ApprovalProtected_def ApprovalSecuritySensitive_def ApprovalDestructive_def
  ApprovalDataDestructive_def ApprovalClass_Valid_def approvalClassCount_def

lemma sample_principal: "validatePrincipal ''user:ops@example.com'' = None"
  by (simp add: validatePrincipal_def trim_changes_def byte_def runes.simps unicode_IsSpace_def
      unicode_IsControl_def Let_def)

lemma sample_identity: "first_error (plan_identity_checks (sample_plan_for b)) = None"
  by (simp add: plan_identity_checks_def sample_principal plan_evaluation)

lemma sample_resources: "validateResources (elems (pl_Resources (sample_plan_for b))) ''demo-project'' = None"
  by (cases b) (simp_all add: validateResources_def resource_shape_def plan_evaluation)

lemma sample_steps: "validateSteps (elems (pl_Steps (sample_plan_for b))) ''drop'' (elems (pl_Resources (sample_plan_for b))) = None"
  by (cases b) (simp_all add: validateSteps_def plan_step_def step_targets_def last_by_def RetryPolicy_Valid_def plan_evaluation
    )

lemma sample_permissions: "validatePermissions (elems (pl_Permissions (sample_plan_for b))) ApprovalDataDestructive
   (elems (pl_Steps (sample_plan_for b))) (elems (pl_Resources (sample_plan_for b))) = None"
  by (cases b) (simp_all add: validatePermissions_def permission_shape_def permission_key_def last_by_def plan_evaluation)

lemma sample_cost_ok: "validateCost sample_cost = None"
  by (simp add: validateCost_def real_date_def days_in_def leap_year_def byte_def plan_evaluation)

lemma sample_exposure: "validateExposureControls (sample_plan_for b) = None"
  by (cases b) (simp_all add: validateExposureControls_def exposure_control_checks_def validateExposureLifetime_def 
    validExposureSource_def sourceAllowedForExposure_def validExposureAuthentication_def validExposureTLS_def 
    passedPrecondition_def parse_prefix_def parse_ipv4_def decimal_field_def prefix_Masked_def byte_def
    exposure_source_key_def internet_source_def
    maxExposureTargets_def maxExposureSources_def maxExposurePorts_def plan_evaluation)

lemma sample_recovery: "validateRecoveryAssets (sample_plan_for b) = None"
  by (cases b) (simp_all add: validateRecoveryAssets_def recovery_asset_def recovery_kind_checks_def protects_checks_def
    recovery_asset_key_def targeted_keys_def safeEvidenceReference_def validateResources_def resource_shape_def
    last_by_def maxRecoveryAssets_def maxExposureTargets_def plan_evaluation)

lemma sample_content: "first_error (plan_content_checks (sample_plan_for b)) = None"
proof -
  let ?p = "sample_plan_for b"
  have fields: "pl_ProjectID ?p = ''demo-project''" "pl_PointOfNoReturn ?p = ''drop''"
    "pl_ApprovalClass ?p = ApprovalDataDestructive" "pl_Cost ?p = sample_cost"
    "elems (pl_Resources ?p) \<noteq> []" "elems (pl_Protection ?p) \<noteq> []" "elems (pl_Verification ?p) \<noteq> []"
    by (simp_all add: sample_plan_for_def)
  have rest: "validatePreconditions (elems (pl_Preconditions ?p)) = None"
    "PointOfNoReturnTrigger_Valid (pl_PointOfNoReturnTrigger ?p)"
    "pl_Downtime ?p = \<lparr>pd_ExpectedSeconds = 60, pd_Kind = ''planned''\<rparr>"
    "ExposureDelta_Valid (pl_Exposure ?p)" "rb_Boundary (pl_Rollback ?p) \<noteq> []"
    by (simp_all add: sample_plan_for_def validatePreconditions_def pattern_defs char_class_defs)
  show ?thesis
    by (simp add: plan_content_checks_def Let_def fields rest sample_resources sample_steps
        sample_permissions sample_cost_ok sample_exposure sample_recovery)
qed

lemma sample_plan_valid: "validatePlanStructure (sample_plan_for b) = None"
proof -
  have "validateCanonicalPlanCollections (sample_plan_for b) = None"
    by (simp add: validateCanonicalPlanCollections_def sample_plan_defs)
  then show ?thesis
    by (simp add: validatePlanStructure_def sample_identity sample_content)
qed

end
