(* ===== verification/SealedValue.thy ===== *)
theory SealedValue
  imports Main
begin

section \<open>The contract of a sealed value\<close>

text \<open>
  A value that carries the digest of its own content: a plan with its hash, the harness state with
  its integrity value. \<open>shape\<close> is the validity of the value whatever its digest, \<open>seal\<close> validates and
  computes the digest, \<open>verify\<close> validates and recomputes it. What a seal promises is proved here once.
\<close>

locale sealed_value =
  fixes shape :: "'p \<Rightarrow> 'e option"
    and digest :: "'p \<Rightarrow> 'e + string"
    and hash_of :: "'p \<Rightarrow> string"
    and with_hash :: "string \<Rightarrow> 'p \<Rightarrow> 'p"
    and normal :: "'p \<Rightarrow> 'p"
    and canonical :: "string \<Rightarrow> bool"
    and zero :: string
    and seal :: "'p \<Rightarrow> 'e + 'p"
    and verify :: "'p \<Rightarrow> 'e option"
  assumes digest_with_hash: "digest (with_hash h p) = digest p"
    and with_with: "with_hash h (with_hash g p) = with_hash h p"
    and hash_with: "hash_of (with_hash h p) = h"
    and with_own: "with_hash (hash_of p) p = p"
    and normal_idem: "normal (normal p) = normal p"
    and normal_with: "normal (with_hash h p) = with_hash h (normal p)"
    and shape_with: "shape (with_hash h p) = None \<longleftrightarrow>
      canonical h \<and> shape (with_hash zero p) = None"
    and shape_normal: "shape p = None \<Longrightarrow> normal p = p"
    and canonical_zero: "canonical zero"
    and seal_Inr: "seal p = Inr q \<longleftrightarrow>
      shape (with_hash zero (normal p)) = None \<and>
      (\<exists>d. digest (with_hash zero (normal p)) = Inr d \<and> q = with_hash d (normal p))"
    and verify_None: "verify p = None \<longleftrightarrow> shape p = None \<and> digest p = Inr (hash_of p)"
begin

lemma seal_verifies:
  "seal p = Inr q \<Longrightarrow> canonical (hash_of q) \<Longrightarrow> verify q = None \<and> with_hash (hash_of q) (normal p) = q"
proof -
  assume "seal p = Inr q" and canonical: "canonical (hash_of q)"
  then obtain d where d: "shape (with_hash zero (normal p)) = None" "digest (normal p) = Inr d"
    "q = with_hash d (normal p)" by (auto simp: seal_Inr digest_with_hash)
  then have "shape q = None" using canonical shape_with [of d "normal p"] by (simp add: hash_with)
  with d show ?thesis by (simp add: verify_None digest_with_hash hash_with)
qed

lemma verify_seal_fixed: "verify p = None \<Longrightarrow> seal p = Inr p"
proof -
  assume "verify p = None"
  then have p: "shape p = None" "digest p = Inr (hash_of p)" by (simp_all add: verify_None)
  then have "shape (with_hash zero p) = None"
    using shape_with [of "hash_of p" p] by (simp add: with_own)
  with p show ?thesis by (simp add: seal_Inr shape_normal digest_with_hash with_own)
qed

lemma seal_idempotent: "seal p = Inr q \<Longrightarrow> canonical (hash_of q) \<Longrightarrow> seal q = Inr q"
  using seal_verifies verify_seal_fixed by blast

text \<open>Two verified values with the same hash have the same digest; altered content is detected.\<close>

lemma verified_hash_binds:
  "verify p = None \<Longrightarrow> verify q = None \<Longrightarrow> hash_of p = hash_of q \<Longrightarrow> digest p = digest q"
  by (simp add: verify_None)

lemma alteration_detected:
  "verify p = None \<Longrightarrow> hash_of q = hash_of p \<Longrightarrow> digest q \<noteq> digest p \<Longrightarrow> verify q \<noteq> None"
  by (simp add: verify_None)

end

end
