(* ===== verification/PlanSeal.thy ===== *)
theory PlanSeal
  imports PlanSamples SealedValue
begin

section \<open>internal/policy: sealing and verifying plans (plan.go)\<close>

text \<open>
  The content hash of a plan: normalisation of nil slices, sealing, verification and the expiry gate.
  \<open>marshal\<close> is \<open>json.Marshal\<close> of a plan and \<open>sha256hex\<close> the hexadecimal SHA-256 of bytes. The plan
  interprets \<open>sealed_value\<close>, the contract of a value that carries the digest of its own content.
\<close>

subsection \<open>Normalisation\<close>

definition non_nil :: "'a list option \<Rightarrow> 'a list option" where
  "non_nil s = (case s of None \<Rightarrow> Some [] | Some xs \<Rightarrow> Some xs)"

definition normalizePlanCollections :: "Plan \<Rightarrow> Plan" where
  "normalizePlanCollections plan =
     (let plan1 = plan
            \<lparr>pl_Resources := non_nil (pl_Resources plan),
             pl_Preconditions := non_nil (pl_Preconditions plan),
             pl_Permissions := non_nil (pl_Permissions plan),
             pl_Steps :=
               Some (map (\<lambda>s. s\<lparr>ps_Targets := non_nil (ps_Targets s)\<rparr>) (elems (pl_Steps plan))),
             pl_Cost := (pl_Cost plan)
               \<lparr>pc_Items := non_nil (pc_Items (pl_Cost plan)),
                pc_Assumptions := non_nil (pc_Assumptions (pl_Cost plan)),
                pc_Unpriced := non_nil (pc_Unpriced (pl_Cost plan))\<rparr>,
             pl_Protection := non_nil (pl_Protection plan),
             pl_Rollback := (pl_Rollback plan)
               \<lparr>rb_Assets :=
                  Some (map (\<lambda>a. a\<lparr>ra_Protects := non_nil (ra_Protects a)\<rparr>)
                    (elems (rb_Assets (pl_Rollback plan))))\<rparr>,
             pl_Verification := non_nil (pl_Verification plan)\<rparr>
      in case pl_ExposureControls plan of
           None \<Rightarrow> plan1
         | Some c \<Rightarrow>
             plan1\<lparr>pl_ExposureControls := Some (c
               \<lparr>xc_Targets := non_nil (xc_Targets c), xc_Sources := non_nil (xc_Sources c),
                xc_Ports := non_nil (xc_Ports c)\<rparr>)\<rparr>)"

subsection \<open>Hashing, sealing and verifying\<close>

definition zeroPlanHash :: string where
  "zeroPlanHash = replicate 64 CHR ''0''"

definition computePlanHash ::
  "(Plan \<Rightarrow> string option) \<Rightarrow> (string \<Rightarrow> string) \<Rightarrow> Plan \<Rightarrow> plan_error + string" where
  "computePlanHash marshal sha256hex plan =
     (case marshal (plan\<lparr>pl_PlanHash := []\<rparr>) of
        None \<Rightarrow> Inl ErrInvalidPlanEncoding
      | Some encoded \<Rightarrow> Inr (sha256hex encoded))"

definition SealPlan ::
  "(Plan \<Rightarrow> string option) \<Rightarrow> (string \<Rightarrow> string) \<Rightarrow> Plan \<Rightarrow> plan_error + Plan" where
  "SealPlan marshal sha256hex plan =
     (let plan1 = (normalizePlanCollections plan)\<lparr>pl_PlanHash := zeroPlanHash\<rparr> in
      case validatePlanStructure plan1 of
        Some e \<Rightarrow> Inl e
      | None \<Rightarrow>
          (case computePlanHash marshal sha256hex plan1 of
             Inl e \<Rightarrow> Inl e
           | Inr digest \<Rightarrow> Inr (plan1\<lparr>pl_PlanHash := digest\<rparr>)))"

definition SealPlanAt ::
  "(Plan \<Rightarrow> string option) \<Rightarrow> (string \<Rightarrow> string) \<Rightarrow> Plan \<Rightarrow> gotime \<Rightarrow> int \<Rightarrow> plan_error + Plan" where
  "SealPlanAt marshal sha256hex plan createdAt planValidity =
     (case validateUTCTime ''createdAt'' createdAt of
        Some e \<Rightarrow> Inl e
      | None \<Rightarrow>
          if planValidity \<le> 0 then Inl (ErrInvalidPlan ''planValidity'' ''must be positive'')
          else
            (let expiresAt = time_Add createdAt planValidity in
             if \<not> time_After expiresAt createdAt then
               Inl (ErrInvalidPlan ''planValidity'' ''overflows the expiry boundary'')
             else SealPlan marshal sha256hex
               (plan\<lparr>pl_CreatedAt := createdAt, pl_ExpiresAt := expiresAt\<rparr>)))"

definition ComputePlanHash ::
  "(Plan \<Rightarrow> string option) \<Rightarrow> (string \<Rightarrow> string) \<Rightarrow> Plan \<Rightarrow> plan_error + string" where
  "ComputePlanHash marshal sha256hex plan =
     (let plan1 = (normalizePlanCollections plan)\<lparr>pl_PlanHash := zeroPlanHash\<rparr> in
      case validatePlanStructure plan1 of
        Some e \<Rightarrow> Inl e
      | None \<Rightarrow> computePlanHash marshal sha256hex plan1)"

definition VerifyPlanHash ::
  "(Plan \<Rightarrow> string option) \<Rightarrow> (string \<Rightarrow> string) \<Rightarrow> Plan \<Rightarrow> plan_error option" where
  "VerifyPlanHash marshal sha256hex plan =
     (case validatePlanStructure plan of
        Some e \<Rightarrow> Some e
      | None \<Rightarrow>
          (case computePlanHash marshal sha256hex plan of
             Inl e \<Rightarrow> Some e
           | Inr digest \<Rightarrow>
               fail_if (pl_PlanHash plan \<noteq> digest)
                 (ErrInvalidPlan ''planHash'' ''does not match the plan contents'')))"

definition ValidatePlan ::
  "(Plan \<Rightarrow> string option) \<Rightarrow> (string \<Rightarrow> string) \<Rightarrow> Plan \<Rightarrow> plan_error option" where
  "ValidatePlan marshal sha256hex plan = VerifyPlanHash marshal sha256hex plan"

definition EncodePlan ::
  "(Plan \<Rightarrow> string option) \<Rightarrow> (string \<Rightarrow> string) \<Rightarrow> Plan \<Rightarrow> plan_error + string" where
  "EncodePlan marshal sha256hex plan =
     (case ValidatePlan marshal sha256hex plan of
        Some e \<Rightarrow> Inl e
      | None \<Rightarrow>
          (case marshal plan of
             None \<Rightarrow> Inl ErrInvalidPlanEncoding
           | Some encoded \<Rightarrow> Inr encoded))"

definition ValidatePlanAt ::
  "(Plan \<Rightarrow> string option) \<Rightarrow> (string \<Rightarrow> string) \<Rightarrow> Plan \<Rightarrow> gotime \<Rightarrow> plan_error option" where
  "ValidatePlanAt marshal sha256hex plan now =
     first_error
       [ValidatePlan marshal sha256hex plan,
        fail_if (time_IsZero now) (ErrInvalidPlan ''currentTime'' ''must not be zero''),
        fail_if (\<not> time_Before now (pl_ExpiresAt plan)) (ErrExpiredPlan (pl_PlanID plan))]"

subsection \<open>The plan is a sealed value\<close>

lemma non_nil_idem [simp]: "non_nil (non_nil s) = non_nil s"
  by (auto simp: non_nil_def split: option.splits)

lemma non_nil_Some [simp]: "s \<noteq> None \<Longrightarrow> non_nil s = s"
  by (auto simp: non_nil_def)

lemma elems_Some [simp]: "s \<noteq> None \<Longrightarrow> Some (elems s) = s"
  by auto

lemma normalize_idem:
  "normalizePlanCollections (normalizePlanCollections p) = normalizePlanCollections p"
  by (cases "pl_ExposureControls p") (simp_all add: normalizePlanCollections_def Let_def comp_def)

lemma normalize_hash:
  "normalizePlanCollections (p\<lparr>pl_PlanHash := h\<rparr>) = (normalizePlanCollections p)\<lparr>pl_PlanHash := h\<rparr>"
  by (cases "pl_ExposureControls p") (simp_all add: normalizePlanCollections_def Let_def)

lemma structure_hash:
  "validatePlanStructure (p\<lparr>pl_PlanHash := h\<rparr>) = None \<longleftrightarrow>
     sha256Pattern h \<and> validatePlanStructure (p\<lparr>pl_PlanHash := zeroPlanHash\<rparr>) = None"
proof -
  have zero: "sha256Pattern zeroPlanHash"
    by (simp add: zeroPlanHash_def sha256Pattern_def char_class_defs)
  have "validateExposureLifetime (p\<lparr>pl_PlanHash := h\<rparr>) = validateExposureLifetime p" for h
    by (intro ext) (simp add: validateExposureLifetime_def cong: if_cong option.case_cong)
  then have "exposure_control_checks (p\<lparr>pl_PlanHash := h\<rparr>) = exposure_control_checks p" for h
    by (intro ext) (simp add: exposure_control_checks_def)
  then have exposure: "validateExposureControls (p\<lparr>pl_PlanHash := h\<rparr>) = validateExposureControls p" for h
    by (simp add: validateExposureControls_def cong: if_cong option.case_cong)
  have "recovery_kind_checks path (p\<lparr>pl_PlanHash := h\<rparr>) = recovery_kind_checks path p" for h path
    by (intro ext) (simp add: recovery_kind_checks_def cong: if_cong option.case_cong)
  then have "recovery_asset (p\<lparr>pl_PlanHash := h\<rparr>) = recovery_asset p" for h
    by (intro ext) (simp add: recovery_asset_def)
  then have recovery: "validateRecoveryAssets (p\<lparr>pl_PlanHash := h\<rparr>) = validateRecoveryAssets p" for h
    by (simp add: validateRecoveryAssets_def Let_def cong: if_cong sum.case_cong)
  have same: "validateCanonicalPlanCollections (p\<lparr>pl_PlanHash := h\<rparr>) = validateCanonicalPlanCollections p"
    "plan_content_checks (p\<lparr>pl_PlanHash := h\<rparr>) = plan_content_checks p" for h
    by (simp_all add: validateCanonicalPlanCollections_def plan_content_checks_def exposure recovery)
  show ?thesis
    unfolding validatePlanStructure_def same
    by (simp add: plan_identity_checks_def zero) blast
qed

lemma structure_normal:
  "validatePlanStructure p = None \<Longrightarrow> normalizePlanCollections p = p"
proof -
  assume "validatePlanStructure p = None"
  then have canonical: "validateCanonicalPlanCollections p = None"
    by (simp add: validatePlanStructure_def)
  then have some: "pl_Resources p \<noteq> None" "pl_Preconditions p \<noteq> None" "pl_Permissions p \<noteq> None"
    "pl_Steps p \<noteq> None" "pc_Items (pl_Cost p) \<noteq> None" "pc_Assumptions (pl_Cost p) \<noteq> None"
    "pc_Unpriced (pl_Cost p) \<noteq> None" "pl_Protection p \<noteq> None" "rb_Assets (pl_Rollback p) \<noteq> None"
    "pl_Verification p \<noteq> None"
    by (simp_all add: validateCanonicalPlanCollections_def)
  from canonical have "map (\<lambda>s. s\<lparr>ps_Targets := non_nil (ps_Targets s)\<rparr>) (elems (pl_Steps p)) = elems (pl_Steps p)"
    by (intro map_idI) (auto simp: validateCanonicalPlanCollections_def list_ex_iff)
  moreover from canonical have "map (\<lambda>a. a\<lparr>ra_Protects := non_nil (ra_Protects a)\<rparr>)
      (elems (rb_Assets (pl_Rollback p))) = elems (rb_Assets (pl_Rollback p))"
    by (intro map_idI) (auto simp: validateCanonicalPlanCollections_def list_ex_iff)
  ultimately show ?thesis
    using some canonical
    by (cases "pl_ExposureControls p")
       (simp_all add: normalizePlanCollections_def validateCanonicalPlanCollections_def)
qed

lemma computePlanHash_hash:
  "computePlanHash marshal sha (p\<lparr>pl_PlanHash := h\<rparr>) = computePlanHash marshal sha p"
  by (simp add: computePlanHash_def)

lemma zeroPlanHash_pattern: "sha256Pattern zeroPlanHash"
  by (simp add: zeroPlanHash_def sha256Pattern_def char_class_defs)

interpretation plan_seal: sealed_value validatePlanStructure "computePlanHash marshal sha" pl_PlanHash
    "\<lambda>h p. p\<lparr>pl_PlanHash := h\<rparr>" normalizePlanCollections sha256Pattern zeroPlanHash
    "SealPlan marshal sha" "VerifyPlanHash marshal sha"
  for marshal sha
proof unfold_locales
  fix h and p :: Plan
  show "validatePlanStructure (p\<lparr>pl_PlanHash := h\<rparr>) = None \<longleftrightarrow>
      sha256Pattern h \<and> validatePlanStructure (p\<lparr>pl_PlanHash := zeroPlanHash\<rparr>) = None"
    by (rule structure_hash)
  show "normalizePlanCollections (p\<lparr>pl_PlanHash := h\<rparr>) = (normalizePlanCollections p)\<lparr>pl_PlanHash := h\<rparr>"
    by (rule normalize_hash)
next
  fix p q :: Plan
  show "SealPlan marshal sha p = Inr q \<longleftrightarrow>
      validatePlanStructure ((normalizePlanCollections p)\<lparr>pl_PlanHash := zeroPlanHash\<rparr>) = None \<and>
      (\<exists>d. computePlanHash marshal sha ((normalizePlanCollections p)\<lparr>pl_PlanHash := zeroPlanHash\<rparr>) = Inr d \<and>
         q = (normalizePlanCollections p)\<lparr>pl_PlanHash := d\<rparr>)"
    by (auto simp: SealPlan_def Let_def guarded_Inr split: sum.splits)
next
  fix p :: Plan
  show "VerifyPlanHash marshal sha p = None \<longleftrightarrow>
      validatePlanStructure p = None \<and> computePlanHash marshal sha p = Inr (pl_PlanHash p)"
    by (auto simp: VerifyPlanHash_def split: option.splits sum.splits)
qed (simp_all add: computePlanHash_hash normalize_idem structure_normal zeroPlanHash_pattern)

lemma SealPlan_hash:
  "SealPlan marshal sha p = Inr q \<Longrightarrow> \<exists>s. pl_PlanHash q = sha s"
  by (auto simp: plan_seal.seal_Inr computePlanHash_def split: option.splits)

subsection \<open>Properties\<close>

text \<open>
  C35. Sealing and verifying fit together: a sealed plan is the normalised plan with a hash and is
  valid, a valid plan is a fixed point of sealing, so sealing twice changes nothing; and
  \<open>ComputePlanHash\<close> returns exactly the hash \<open>SealPlan\<close> assigns.
\<close>

theorem SealPlan_ValidatePlan:
  assumes "\<forall>s. sha256Pattern (sha256hex s)"
  shows "(SealPlan marshal sha256hex p = Inr q \<longrightarrow>
      ValidatePlan marshal sha256hex q = None \<and>
      q = (normalizePlanCollections p)\<lparr>pl_PlanHash := pl_PlanHash q\<rparr> \<and>
      ComputePlanHash marshal sha256hex p = Inr (pl_PlanHash q)) \<and>
     (ValidatePlan marshal sha256hex p = None \<longleftrightarrow> SealPlan marshal sha256hex p = Inr p)"
proof (intro conjI impI)
  assume sealed: "SealPlan marshal sha256hex p = Inr q"
  have hash: "sha256Pattern (pl_PlanHash q)" using SealPlan_hash [OF sealed] assms by auto
  from plan_seal.seal_verifies [OF sealed hash]
  show "ValidatePlan marshal sha256hex q = None"
    "q = (normalizePlanCollections p)\<lparr>pl_PlanHash := pl_PlanHash q\<rparr>" by (simp_all add: ValidatePlan_def)
  from sealed show "ComputePlanHash marshal sha256hex p = Inr (pl_PlanHash q)"
    by (auto simp: plan_seal.seal_Inr ComputePlanHash_def Let_def)
next
  show "ValidatePlan marshal sha256hex p = None \<longleftrightarrow> SealPlan marshal sha256hex p = Inr p"
  proof
    assume "ValidatePlan marshal sha256hex p = None"
    then show "SealPlan marshal sha256hex p = Inr p"
      by (simp add: ValidatePlan_def plan_seal.verify_seal_fixed)
  next
    assume sealed: "SealPlan marshal sha256hex p = Inr p"
    have "sha256Pattern (pl_PlanHash p)" using SealPlan_hash [OF sealed] assms by auto
    from plan_seal.seal_verifies [OF sealed this] show "ValidatePlan marshal sha256hex p = None"
      by (simp add: ValidatePlan_def)
  qed
qed

text \<open>
  A valid plan cannot be altered behind its hash: if a changed plan keeps the hash and its
  encoding is not a second preimage of it, validation refuses the changed plan.
\<close>

theorem ValidatePlan_detects_alteration:
  assumes "ValidatePlan marshal sha256hex p = None" and "pl_PlanHash q = pl_PlanHash p"
    and "marshal (p\<lparr>pl_PlanHash := []\<rparr>) = Some a" and "marshal (q\<lparr>pl_PlanHash := []\<rparr>) = Some b"
    and "sha256hex b \<noteq> sha256hex a"
  shows "ValidatePlan marshal sha256hex q \<noteq> None"
proof -
  have "computePlanHash marshal sha256hex q \<noteq> computePlanHash marshal sha256hex p"
    using assms(3-5) by (simp add: computePlanHash_def)
  with assms(1,2) plan_seal.alteration_detected show ?thesis by (simp add: ValidatePlan_def)
qed

lemma validatePlanStructure_times:
  assumes "validatePlanStructure p = None"
  shows "t_ns (pl_CreatedAt p) < t_ns (pl_ExpiresAt p) \<and> 0 \<le> pl_CoolingOffSeconds p \<and>
     t_ns (pl_CreatedAt p) + pl_CoolingOffSeconds p * second \<le> t_ns (pl_ExpiresAt p) \<and>
     is_int64 (pl_CoolingOffSeconds p * second)"
proof -
  let ?d = "t_ns (pl_ExpiresAt p) - t_ns (pl_CreatedAt p)"
  from assms have facts: "t_ns (pl_CreatedAt p) < t_ns (pl_ExpiresAt p)" "0 \<le> pl_CoolingOffSeconds p"
    "pl_CoolingOffSeconds p \<le> max min_int64 (min max_int64 ?d) div second"
    by (auto simp: validatePlanStructure_def plan_identity_checks_def time_After_def time_Sub_def not_less)
  then have "pl_CoolingOffSeconds p * second \<le> max min_int64 (min max_int64 ?d)"
    unfolding second_def by linarith
  moreover have "max min_int64 (min max_int64 ?d) \<le> ?d" "max min_int64 (min max_int64 ?d) \<le> max_int64"
    using facts(1) by (auto simp: int64_defs)
  moreover have "0 \<le> pl_CoolingOffSeconds p * second" using facts(2) by (simp add: second_def)
  ultimately show ?thesis using facts by (auto simp: int64_defs)
qed

lemma SealPlan_structure:
  "SealPlan marshal sha p = Inr q \<Longrightarrow> sha256Pattern (pl_PlanHash q) \<Longrightarrow> validatePlanStructure q = None"
  using plan_seal.seal_verifies [of marshal sha p q] by (simp add: plan_seal.verify_None)

lemma SealPlan_times:
  "SealPlan marshal sha p = Inr q \<Longrightarrow>
     pl_CreatedAt q = pl_CreatedAt p \<and> pl_ExpiresAt q = pl_ExpiresAt p \<and> pl_PlanID q = pl_PlanID p"
  by (cases "pl_ExposureControls p")
     (auto simp: plan_seal.seal_Inr normalizePlanCollections_def Let_def)

text \<open>
  The times of a plan that \<open>SealPlanAt\<close> sealed are those of its arguments: it is created at the
  given instant, expires exactly \<open>planValidity\<close> later unless the clock saturates, its cooling-off
  period is non-negative and ends before it expires, and it is accepted from creation until just
  before its expiry and at no later time.
\<close>

theorem SealPlanAt_times:
  assumes "\<forall>s. sha256Pattern (sha256hex s)"
    and "SealPlanAt marshal sha256hex p createdAt planValidity = Inr q"
  shows "pl_CreatedAt q = createdAt \<and> pl_ExpiresAt q = time_Add createdAt planValidity \<and>
     t_ns createdAt < t_ns (pl_ExpiresAt q) \<and>
     0 \<le> pl_CoolingOffSeconds q \<and>
     t_ns createdAt + pl_CoolingOffSeconds q * second \<le> t_ns (pl_ExpiresAt q) \<and>
     is_int64 (pl_CoolingOffSeconds q * second) \<and>
     (\<forall>now. ValidatePlanAt marshal sha256hex q now = None \<longleftrightarrow>
        t_ns now \<noteq> 0 \<and> t_ns now < t_ns (pl_ExpiresAt q))"
proof -
  from assms(2) have sealed: "SealPlan marshal sha256hex
      (p\<lparr>pl_CreatedAt := createdAt, pl_ExpiresAt := time_Add createdAt planValidity\<rparr>) = Inr q"
    by (auto simp: SealPlanAt_def guarded_Inr Let_def split: if_splits)
  have hash: "sha256Pattern (pl_PlanHash q)" using SealPlan_hash [OF sealed] assms(1) by auto
  note times = SealPlan_times [OF sealed]
  note bounds = validatePlanStructure_times [OF SealPlan_structure [OF sealed hash]]
  have "ValidatePlan marshal sha256hex q = None"
    using plan_seal.seal_verifies [OF sealed hash] by (simp add: ValidatePlan_def)
  with times bounds show ?thesis
    by (auto simp: ValidatePlanAt_def time_IsZero_def time_Before_def)
qed

subsection \<open>A sealed plan\<close>

definition sample_marshal :: "Plan \<Rightarrow> string option" where
  "sample_marshal p = Some (pl_Principal p)"

definition sample_sha256hex :: "string \<Rightarrow> string" where
  "sample_sha256hex s =
     replicate 64 (if s = ''user:ops@example.com'' then CHR ''a'' else CHR ''b'')"

lemma sample_sha256hex_pattern: "\<forall>s. sha256Pattern (sample_sha256hex s)"
  by (simp add: sample_sha256hex_def sha256Pattern_def char_class_defs)

lemma sample_ValidatePlan: "ValidatePlan sample_marshal sample_sha256hex sample_plan_value = None"
  by (simp add: ValidatePlan_def plan_seal.verify_None sample_plan_valid)
     (simp add: computePlanHash_def sample_marshal_def sample_sha256hex_def sample_plan_for_def)

lemma sample_times: "time_Add (utc (100 * hour)) (24 * hour) = utc (124 * hour)"
  by (simp add: time_Add_def time_defs duration_defs int64_defs)

lemma sample_SealPlanAt:
  "SealPlanAt sample_marshal sample_sha256hex sample_plan_value (utc (100 * hour)) (24 * hour) =
     Inr sample_plan_value"
proof -
  have "sample_plan_value\<lparr>pl_CreatedAt := utc (100 * hour), pl_ExpiresAt := utc (124 * hour)\<rparr> =
      sample_plan_value"
    by (simp add: sample_plan_for_def)
  moreover have "SealPlan sample_marshal sample_sha256hex sample_plan_value = Inr sample_plan_value"
    using sample_ValidatePlan by (simp add: ValidatePlan_def plan_seal.verify_seal_fixed)
  moreover have "validateUTCTime ''createdAt'' (utc (100 * hour)) = None" "\<not> 24 * hour \<le> 0"
    "time_After (utc (124 * hour)) (utc (100 * hour))"
    by (simp_all add: validateUTCTime_def time_defs duration_defs)
  ultimately show ?thesis
    by (simp add: SealPlanAt_def sample_times Let_def del: mult_le_0_iff)
qed

theorem SealPlan_ValidatePlan_witness:
  "SealPlan sample_marshal sample_sha256hex sample_plan_value = Inr sample_plan_value"
  using SealPlan_ValidatePlan [OF sample_sha256hex_pattern] sample_ValidatePlan by blast

theorem ValidatePlan_detects_alteration_witness:
  "ValidatePlan sample_marshal sample_sha256hex
     (sample_plan_value\<lparr>pl_Principal := ''user:eve@example.com''\<rparr>) \<noteq> None"
  by (rule ValidatePlan_detects_alteration [OF sample_ValidatePlan, of _ "''user:ops@example.com''"
        "''user:eve@example.com''"])
     (simp_all add: sample_plan_for_def sample_marshal_def sample_sha256hex_def)

theorem SealPlanAt_times_witness:
  "ValidatePlanAt sample_marshal sample_sha256hex sample_plan_value (utc (123 * hour)) = None"
proof -
  have "t_ns (utc (123 * hour)) \<noteq> 0 \<and> t_ns (utc (123 * hour)) < t_ns (pl_ExpiresAt sample_plan_value)"
    by (simp add: sample_plan_for_def time_defs duration_defs)
  with SealPlanAt_times [OF sample_sha256hex_pattern sample_SealPlanAt] show ?thesis by blast
qed

end
