(* ===== verification/PlanGuarantees.thy ===== *)
theory PlanGuarantees
  imports PlanSeal
begin

section \<open>internal/policy: what a valid plan guarantees (plan.go)\<close>

text \<open>
  Consequences of \<open>validatePlanStructure plan = nil\<close> for the operator who approves the plan: the
  identity of resources, the coverage of steps and permissions, the limits of an exposure, the
  recovery assets and the demands of each approval class.
\<close>

subsection \<open>Resource keys\<close>

definition nul_free :: "string \<Rightarrow> bool" where
  "nul_free s = (CHR 0x00 \<notin> set s)"

lemma append_nul_inject:
  assumes "nul_free a" and "nul_free b" and "a @ nul @ x = b @ nul @ y"
  shows "a = b \<and> x = y"
  using assms
proof (induction a arbitrary: b)
  case Nil
  then show ?case by (cases b) (auto simp: nul_char nul_free_def)
next
  case (Cons c cs)
  then show ?case by (cases b) (auto simp: nul_char nul_free_def)
qed

lemma not_nul [simp]:
  "\<not> is_lower (CHR 0x00)" "\<not> is_ident_char (CHR 0x00)"
  by (simp_all add: char_class_defs)

lemma nul_free_name:
  "s \<noteq> [] \<Longrightarrow> is_lower (hd s) \<Longrightarrow> list_all is_ident_char (tl s) \<Longrightarrow> nul_free s"
  by (cases s) (auto simp: nul_free_def list_all_iff)

lemma identifier_nul_free: "identifierPattern s \<Longrightarrow> nul_free s"
  by (simp add: identifierPattern_def nul_free_name)

lemma project_nul_free: "projectIDPattern s \<Longrightarrow> nul_free s"
  by (cases s) (simp_all add: projectIDPattern_def nul_free_name)

lemma scope_name_nul_free: "scopeNamePattern s \<Longrightarrow> nul_free s"
  by (simp add: scopeNamePattern_def nul_free_name)

lemma set_split_on: "set s \<subseteq> insert sep (\<Union>w \<in> set (split_on sep s). set w)"
proof (induction sep s rule: split_on.induct)
  case (2 sep c s)
  obtain w ws where "split_on sep s = w # ws" by (cases "split_on sep s") auto
  with 2 show ?case by (cases "c = sep") (simp_all, blast+)
qed simp

lemma split_on_nul_free: "list_all nul_free (split_on CHR ''/'' s) \<Longrightarrow> nul_free s"
  using set_split_on [of s "CHR ''/''"] by (auto simp: nul_free_def list_all_iff)

lemma scope_nul_free:
  assumes "resourceScopeProject s = Some p"
  shows "nul_free s"
proof (rule split_on_nul_free)
  have words: "nul_free ''projects''" "nul_free ''global''" "nul_free ''regions''" "nul_free ''zones''"
    "nul_free ''locations''" by (simp_all add: nul_free_def)
  show "list_all nul_free (split_on CHR ''/'' s)"
    using assms words
    by (auto simp: resourceScopeProject_def project_nul_free scope_name_nul_free
        split: list.splits if_splits)
qed

definition stable_id :: "PlanResource \<Rightarrow> string \<times> string \<times> string" where
  "stable_id r = (pr_Scope r, pr_Kind r, pr_Name r)"

text \<open>A resource that \<open>validateResources\<close> accepts.\<close>

definition resource_ok :: "string \<Rightarrow> PlanResource \<Rightarrow> bool" where
  "resource_ok project r =
     (identifierPattern (pr_Kind r) \<and> identifierPattern (pr_Name r) \<and> pr_Fingerprint r \<noteq> [] \<and>
      resourceScopeProject (pr_Scope r) = Some project)"

lemma stable_key_inject:
  assumes "resource_ok p r" and "resource_ok q t"
  shows "stablePlanResourceKey r = stablePlanResourceKey t \<longleftrightarrow> stable_id r = stable_id t"
proof -
  have free: "nul_free (pr_Scope r)" "nul_free (pr_Kind r)" "nul_free (pr_Scope t)" "nul_free (pr_Kind t)"
    using assms by (auto simp: resource_ok_def intro: scope_nul_free identifier_nul_free)
  show ?thesis
  proof
    assume "stablePlanResourceKey r = stablePlanResourceKey t"
    then have "pr_Scope r = pr_Scope t \<and> pr_Kind r @ nul @ pr_Name r = pr_Kind t @ nul @ pr_Name t"
      unfolding stablePlanResourceKey_def by (rule append_nul_inject [OF free(1,3)])
    moreover from this have "pr_Kind r = pr_Kind t \<and> pr_Name r = pr_Name t"
      by (intro append_nul_inject [OF free(2,4)]) simp
    ultimately show "stable_id r = stable_id t" by (simp add: stable_id_def)
  qed (simp add: stable_id_def stablePlanResourceKey_def)
qed

lemma validateResources_None:
  "validateResources resources project = None \<longleftrightarrow>
     (\<forall>r \<in> set resources. resource_ok project r) \<and> distinct (map stable_id resources)"
proof -
  have "validateResources resources project = None \<longleftrightarrow>
     (\<forall>r \<in> set resources. resource_ok project r) \<and> distinct (map stablePlanResourceKey resources)"
    by (auto simp: validateResources_def check_unique_None resource_shape_def resource_ok_def Let_def
        all_set_conv_all_nth)
  moreover have "inj_on stablePlanResourceKey (set resources) \<longleftrightarrow> inj_on stable_id (set resources)"
    if "\<forall>r \<in> set resources. resource_ok project r"
    using that stable_key_inject unfolding inj_on_def by meson
  ultimately show ?thesis by (auto simp: distinct_map)
qed

text \<open>The full key ends with the fingerprint; it binds a resource unless the fingerprint has a NUL.\<close>

definition nuls :: "string \<Rightarrow> nat" where
  "nuls s = length (filter (\<lambda>c. c = CHR 0x00) s)"

lemma nuls_simps [simp]: "nuls (s @ t) = nuls s + nuls t" "nuls nul = 1"
  by (simp_all add: nuls_def nul_char)

lemma nuls_zero: "nuls s = 0 \<longleftrightarrow> nul_free s"
  by (auto simp: nuls_def nul_free_def filter_empty_conv)

lemma planResourceKey_inject:
  assumes "resource_ok project r" and "nul_free (pr_Fingerprint r)"
    and eq: "planResourceKey t = planResourceKey r"
  shows "t = r"
proof -
  have free: "nul_free (pr_Scope r)" "nul_free (pr_Kind r)" "nul_free (pr_Name r)"
    using assms(1) by (auto simp: resource_ok_def intro: scope_nul_free identifier_nul_free)
  have "nuls (planResourceKey t) = nuls (planResourceKey r)" using eq by simp
  then have "nuls (pr_Scope t) = 0 \<and> nuls (pr_Kind t) = 0 \<and> nuls (pr_Name t) = 0"
    using free assms(2) by (simp add: planResourceKey_def nuls_zero [symmetric])
  then have free': "nul_free (pr_Scope t)" "nul_free (pr_Kind t)" "nul_free (pr_Name t)"
    by (simp_all add: nuls_zero)
  have 1: "pr_Scope t = pr_Scope r \<and> pr_Kind t @ nul @ pr_Name t @ nul @ pr_Fingerprint t =
      pr_Kind r @ nul @ pr_Name r @ nul @ pr_Fingerprint r"
    using eq unfolding planResourceKey_def by (rule append_nul_inject [OF free'(1) free(1)])
  then have 2: "pr_Kind t = pr_Kind r \<and> pr_Name t @ nul @ pr_Fingerprint t = pr_Name r @ nul @ pr_Fingerprint r"
    by (intro append_nul_inject [OF free'(2) free(2)]) simp
  then have "pr_Name t = pr_Name r \<and> pr_Fingerprint t = pr_Fingerprint r"
    by (intro append_nul_inject [OF free'(3) free(3)]) simp
  with 1 2 show ?thesis by (cases t, cases r) simp
qed

subsection \<open>Steps\<close>

lemma last_by_Some: "last_by key xs k = Some x \<Longrightarrow> x \<in> set xs \<and> key x = k"
  using nth_mem [of _ "rev xs"] by (fastforce simp: last_by_def find_Some_iff)

lemma step_targets_None:
  "step_targets path resources targets = None \<longleftrightarrow>
     (\<forall>t \<in> set targets. last_by planResourceKey resources (planResourceKey t) = Some t) \<and>
     distinct (map planResourceKey targets)"
  by (auto simp: step_targets_def check_unique_None all_set_conv_all_nth)

text \<open>A step that passed every check of its own.\<close>

definition step_ok :: "PlanResource list \<Rightarrow> PlanStep \<Rightarrow> bool" where
  "step_ok resources s =
     (identifierPattern (ps_ID s) \<and> identifierPattern (ps_Executor s) \<and>
      ExecutionIdentity_Valid (ps_ExecutingIdentity s) \<and> ps_CommandRedacted s \<noteq> [] \<and>
      RetryPolicy_Valid (ps_Retry s) \<and> 0 < ps_TimeoutSeconds s \<and>
      ps_TimeoutSeconds s \<le> MaxStepTimeoutSeconds \<and> ps_SuccessCondition s \<noteq> [] \<and>
      FailureBehavior_Valid (ps_FailureBehavior s) \<and> elems (ps_Targets s) \<noteq> [] \<and>
      (\<forall>t \<in> set (elems (ps_Targets s)). last_by planResourceKey resources (planResourceKey t) = Some t) \<and>
      distinct (map planResourceKey (elems (ps_Targets s))))"

definition step_keys :: "PlanStep list \<Rightarrow> string set" where
  "step_keys steps = (\<Union>s \<in> set steps. planResourceKey ` set (elems (ps_Targets s)))"

lemma plan_step_Inr:
  "plan_step resources i st s = Inr st' \<longleftrightarrow>
     step_ok resources s \<and> ps_ID s \<notin> set (ss_seen st) \<and>
     st' = \<lparr>ss_seen = ps_ID s # ss_seen st,
            ss_covered = map planResourceKey (elems (ps_Targets s)) @ ss_covered st\<rparr>"
  by (auto simp: plan_step_def Let_def guarded_Inr step_ok_def step_targets_None not_le)

lemma plan_steps_Inr:
  assumes "range_loop (plan_step resources) 0 \<lparr>ss_seen = [], ss_covered = []\<rparr> steps = Inr st"
  shows "distinct (map ps_ID steps) \<and> list_all (step_ok resources) steps \<and>
     set (ss_seen st) = set (map ps_ID steps) \<and> set (ss_covered st) = step_keys steps"
  using assms
proof (induction rule: range_loop_induct)
  case init
  then show ?case by (simp add: step_keys_def)
next
  case (step ys y u v)
  then show ?case by (auto simp: plan_step_Inr step_keys_def)
qed

lemma validateSteps_None:
  assumes "validateSteps steps ponr resources = None"
  shows "steps \<noteq> [] \<and> distinct (map ps_ID steps) \<and> list_all (step_ok resources) steps \<and>
     card (step_keys steps) = length resources \<and> (ponr \<noteq> [] \<longrightarrow> ponr \<in> set (map ps_ID steps))"
proof -
  from assms obtain st where
    st: "range_loop (plan_step resources) 0 \<lparr>ss_seen = [], ss_covered = []\<rparr> steps = Inr st"
    and rest: "steps \<noteq> []" "length (remdups (ss_covered st)) = length resources"
      "ponr \<noteq> [] \<longrightarrow> ponr \<in> set (ss_seen st)"
    by (auto simp: validateSteps_def split: if_splits sum.splits)
  from plan_steps_Inr [OF st] rest show ?thesis
    by (simp add: length_remdups_card_conv)
qed

text \<open>The count of covered keys makes the coverage exact, whatever the fingerprints are.\<close>

lemma steps_cover:
  assumes "list_all (step_ok resources) steps" and "card (step_keys steps) = length resources"
  shows "inj_on planResourceKey (set resources) \<and> distinct resources \<and>
     (\<Union>s \<in> set steps. set (elems (ps_Targets s))) = set resources"
proof -
  have target: "t \<in> set resources" if "s \<in> set steps" "t \<in> set (elems (ps_Targets s))" for s t
    using that assms(1) last_by_Some [of planResourceKey resources "planResourceKey t" t]
    by (auto simp: list_all_iff step_ok_def)
  have sub: "step_keys steps \<subseteq> planResourceKey ` set resources"
    using target by (auto simp: step_keys_def)
  have "card (planResourceKey ` set resources) \<le> card (set resources)" by (simp add: card_image_le)
  moreover have "card (set resources) \<le> length resources" by (rule card_length)
  moreover have "card (step_keys steps) \<le> card (planResourceKey ` set resources)"
    using sub by (simp add: card_mono)
  ultimately have card: "card (planResourceKey ` set resources) = card (set resources)"
    "card (set resources) = length resources" "card (step_keys steps) = card (planResourceKey ` set resources)"
    using assms(2) by linarith+
  then have inj: "inj_on planResourceKey (set resources)" by (simp add: eq_card_imp_inj_on)
  have keys: "step_keys steps = planResourceKey ` set resources"
    using sub card(3) by (simp add: card_subset_eq)
  have "set resources \<subseteq> (\<Union>s \<in> set steps. set (elems (ps_Targets s)))"
  proof
    fix r assume r: "r \<in> set resources"
    then have "planResourceKey r \<in> step_keys steps" using keys by simp
    then obtain s t where "s \<in> set steps" "t \<in> set (elems (ps_Targets s))" "planResourceKey t = planResourceKey r"
      by (auto simp: step_keys_def)
    moreover from this have "t = r" using inj r target by (auto dest: inj_onD)
    ultimately show "r \<in> (\<Union>s \<in> set steps. set (elems (ps_Targets s)))" by blast
  qed
  with target inj card(2) show ?thesis by (auto simp: card_distinct)
qed

subsection \<open>Permissions\<close>

text \<open>The permission names a step with its identity and one of the resources.\<close>

definition permission_ok :: "PlanStep list \<Rightarrow> PlanResource list \<Rightarrow> PlanPermission \<Rightarrow> bool" where
  "permission_ok steps resources p =
     (permissionPattern (pm_Permission p) \<and> ExecutionIdentity_Valid (pm_Identity p) \<and>
      pm_Resource p \<in> set resources \<and>
      (\<exists>s \<in> set steps. ps_ID s = pm_StepID p \<and> ps_ExecutingIdentity s = pm_Identity p))"

lemma permission_shape_None:
  "permission_shape steps resources i p = None \<Longrightarrow> permission_ok steps resources p"
  by (auto simp: permission_shape_def Let_def permission_ok_def split: option.splits
      dest!: last_by_Some)

lemma validatePermissions_None:
  assumes "validatePermissions permissions ac steps resources = None"
  shows "(\<forall>p \<in> set permissions. permission_ok steps resources p) \<and>
     distinct (map permission_key permissions) \<and>
     (ac \<noteq> ApprovalRead \<longrightarrow>
        permissions \<noteq> [] \<and>
        (\<forall>s \<in> set steps. ps_ID s \<in> set (map pm_StepID permissions)) \<and>
        (\<forall>r \<in> set resources.
           planResourceKey r \<in> set (map (\<lambda>p. planResourceKey (pm_Resource p)) permissions)))"
proof -
  from assms have "check_unique permission_key (permission_shape steps resources)
      (\<lambda>i p. ErrInvalidPlan (''permissions['' @ decimal i @ '']'')
         ''duplicates a step, identity, permission, and resource'') 0 [] permissions = None"
    by (simp add: validatePermissions_def)
  then have "\<forall>p \<in> set permissions. permission_ok steps resources p" "distinct (map permission_key permissions)"
    by (auto simp: check_unique_None all_set_conv_all_nth intro: permission_shape_None)
  moreover have "permissions \<noteq> []" "\<forall>s \<in> set steps. ps_ID s \<in> set (map pm_StepID permissions)"
    "\<forall>r \<in> set resources. planResourceKey r \<in> set (map (\<lambda>p. planResourceKey (pm_Resource p)) permissions)"
    if "ac \<noteq> ApprovalRead"
    using assms that by (auto simp: validatePermissions_def check_each_None all_set_conv_all_nth)
  ultimately show ?thesis by blast
qed

subsection \<open>Parts of a valid plan\<close>

lemma valid_plan_parts:
  assumes "validatePlanStructure p = None"
  shows "validateResources (elems (pl_Resources p)) (pl_ProjectID p) = None"
    and "validateSteps (elems (pl_Steps p)) (pl_PointOfNoReturn p) (elems (pl_Resources p)) = None"
    and "validatePermissions (elems (pl_Permissions p)) (pl_ApprovalClass p) (elems (pl_Steps p))
           (elems (pl_Resources p)) = None"
    and "validateExposureControls p = None"
    and "validateRecoveryAssets p = None"
  using assms by (simp_all add: validatePlanStructure_def plan_content_checks_def Let_def)

subsection \<open>Exposure\<close>

lemma validExposureSource_prefix:
  assumes "validExposureSource x" and "xs_Kind x = ExposureSourceCIDR \<or> xs_Kind x = ExposureSourcePrivateRange"
  shows "\<exists>n. parse_prefix (xs_Value x) = Some n \<and> n = prefix_Masked n \<and>
     (if xs_Kind x = ExposureSourcePrivateRange then whollyWithinRFC1918 n
      else 24 \<le> snd n \<or> xs_Value x = ''0.0.0.0/0'')"
  using assms by (auto simp: validExposureSource_def split: option.splits if_splits)

text \<open>The addresses that a network source lets in.\<close>

definition source_admits :: "PlanExposureSource \<Rightarrow> ipv4 \<Rightarrow> bool" where
  "source_admits x a =
     (if xs_Kind x = ExposureSourceCIDR \<or> xs_Kind x = ExposureSourcePrivateRange then
        (case parse_prefix (xs_Value x) of None \<Rightarrow> False | Some n \<Rightarrow> prefix_Contains n a)
      else False)"

lemma private_range_admits:
  assumes "validExposureSource x" and "xs_Kind x = ExposureSourcePrivateRange" and "source_admits x a"
  shows "list_ex (\<lambda>n. prefix_Contains n a) rfc1918Networks"
proof -
  from validExposureSource_prefix [OF assms(1)] assms(2) obtain m where
    m: "parse_prefix (xs_Value x) = Some m" "whollyWithinRFC1918 m" by auto
  then have "prefix_Contains m a" using assms(2,3) by (simp add: source_admits_def)
  with m(2) prefix_within show ?thesis
    by (fastforce simp: whollyWithinRFC1918_def list_ex_iff)
qed

lemma narrow_source_admits:
  assumes "validExposureSource x" and "xs_Kind x = ExposureSourceCIDR" and "\<not> internet_source x"
  shows "card {a. source_admits x a} \<le> 256"
proof -
  from validExposureSource_prefix [OF assms(1)] assms(2,3) obtain m where
    m: "parse_prefix (xs_Value x) = Some m" "24 \<le> snd m" by (auto simp: internet_source_def)
  have "card {a. source_admits x a} \<le> 2 ^ (32 - snd m)"
    using card_prefix [of m] m(1) assms(2) by (simp add: source_admits_def)
  also have "\<dots> \<le> (2 :: nat) ^ 8" using m(2) by (intro power_increasing) auto
  finally show ?thesis by simp
qed

text \<open>The controls of a plan with an exposure, check by check.\<close>

lemma exposure_controls_None:
  assumes "validateExposureControls p = None" and "pl_ExposureControls p = Some c"
  shows "pl_Exposure p \<noteq> ExposureNone \<and> ApprovalSecuritySensitive \<le> pl_ApprovalClass p \<and>
     list_all (\<lambda>e. e = None) (exposure_control_checks p c)"
proof -
  have first: "first_error cs = None \<longleftrightarrow> list_all (\<lambda>e. e = None) cs" for cs :: "plan_error option list"
    by (induction cs) auto
  from assms show ?thesis
    by (auto simp: validateExposureControls_def first not_less split: if_splits)
qed

lemma exposure_sources_ok:
  assumes "list_all (\<lambda>e. e = None) (exposure_control_checks p c)"
  shows "\<forall>x \<in> set (elems (xc_Sources c)).
     validExposureSource x \<and> sourceAllowedForExposure (pl_Exposure p) (xs_Kind x)"
    and "length (elems (xc_Sources c)) \<le> 64"
    and "xc_InternetWide c \<longleftrightarrow> list_ex internet_source (elems (xc_Sources c))"
  using assms
  by (auto simp: exposure_control_checks_def Let_def check_unique_None all_set_conv_all_nth bounded_def
      maxExposureSources_def)

lemma exposure_ports_ok:
  assumes "list_all (\<lambda>e. e = None) (exposure_control_checks p c)"
  shows "elems (xc_Ports c) = [\<lparr>xp_Protocol = ''tcp'', xp_Number = 27017\<rparr>]"
proof -
  from assms have ports: "\<forall>x \<in> set (elems (xc_Ports c)). x = \<lparr>xp_Protocol = ''tcp'', xp_Number = 27017\<rparr>"
    "distinct (elems (xc_Ports c))" "elems (xc_Ports c) \<noteq> []"
    by (auto simp: exposure_control_checks_def Let_def check_unique_None all_set_conv_all_nth bounded_def)
  then show ?thesis
    by (cases "elems (xc_Ports c)" rule: remdups_adj.cases) auto
qed

subsection \<open>Recovery assets\<close>

text \<open>An asset that passed every check of its own.\<close>

definition asset_ok :: "Plan \<Rightarrow> PlanRecoveryAsset \<Rightarrow> bool" where
  "asset_ok p a =
     (stablePlanResourceKey (ra_Resource a) \<notin> set (targeted_keys (elems (pl_Steps p))) \<and>
      elems (ra_Protects a) \<noteq> [] \<and>
      (\<forall>r \<in> set (elems (ra_Protects a)). r \<in> set (elems (pl_Resources p)) \<and>
         stablePlanResourceKey r \<noteq> stablePlanResourceKey (ra_Resource a)) \<and>
      distinct (elems (ra_Protects a)) \<and>
      safeEvidenceReference (ra_EvidenceRef a) \<and>
      t_ns (ra_VerifiedAt a) \<le> t_ns (pl_CreatedAt p) \<and>
      time_Sub (pl_CreatedAt p) (ra_VerifiedAt a) \<le> time_Sub (pl_ExpiresAt p) (pl_CreatedAt p) \<and>
      (case ra_Kind a of
         RecoveryAssetSnapshot \<Rightarrow>
           pr_Kind (ra_Resource a) = ''snapshot'' \<and> ra_RestoreTo a = None \<and>
           t_ns (pl_CreatedAt p) - t_ns (ra_VerifiedAt a) \<le> hour
       | RecoveryAssetPBMRecoveryPoint \<Rightarrow>
           pr_Kind (ra_Resource a) = ''pbm-recovery-point'' \<and>
           (\<exists>t. ra_RestoreTo a = Some t \<and> t_ns (pl_CreatedAt p) \<le> t_ns t \<and> t_ns t \<le> t_ns (pl_ExpiresAt p))
       | _ \<Rightarrow> False))"

lemma protects_ok:
  assumes "protects_checks path resources a = None"
  shows "(\<forall>r \<in> set (elems (ra_Protects a)). r \<in> set resources \<and>
      stablePlanResourceKey r \<noteq> stablePlanResourceKey (ra_Resource a)) \<and> distinct (elems (ra_Protects a))"
  using assms
  by (auto simp: protects_checks_def check_unique_None all_set_conv_all_nth distinct_map dest: last_by_Some)

lemma recovery_asset_Inr:
  "recovery_asset p i seen a = Inr seen' \<Longrightarrow> asset_ok p a"
proof -
  assume ok: "recovery_asset p i seen a = Inr seen'"
  define path where "path = ''rollback.assets['' @ decimal i @ '']''"
  have kind: "(case ra_Kind a of
         RecoveryAssetSnapshot \<Rightarrow>
           pr_Kind (ra_Resource a) = ''snapshot'' \<and> ra_RestoreTo a = None \<and>
           t_ns (pl_CreatedAt p) - t_ns (ra_VerifiedAt a) \<le> hour
       | RecoveryAssetPBMRecoveryPoint \<Rightarrow>
           pr_Kind (ra_Resource a) = ''pbm-recovery-point'' \<and>
           (\<exists>t. ra_RestoreTo a = Some t \<and> t_ns (pl_CreatedAt p) \<le> t_ns t \<and> t_ns t \<le> t_ns (pl_ExpiresAt p))
       | _ \<Rightarrow> False)"
    if "RecoveryAssetKind_Valid (ra_Kind a)" "first_error (recovery_kind_checks path p a) = None"
    using that
    by (cases "ra_Kind a")
       (auto simp: recovery_kind_checks_def time_Before_def time_After_def not_less hour_def minute_def
          second_def time_Sub_le [of "3600000000000"] int64_defs split: option.splits)
  show ?thesis
    using ok kind protects_ok
    by (auto simp: recovery_asset_def Let_def guarded_Inr path_def asset_ok_def bounded_def time_After_def not_less)
qed

lemma validateRecoveryAssets_None:
  assumes "validateRecoveryAssets p = None"
  shows "list_all (asset_ok p) (elems (rb_Assets (pl_Rollback p))) \<and>
     (pl_ApprovalClass p = ApprovalDataDestructive \<longrightarrow> elems (rb_Assets (pl_Rollback p)) \<noteq> []) \<and>
     list_all (resource_ok (pl_ProjectID p)) (map ra_Resource (elems (rb_Assets (pl_Rollback p))))"
proof -
  from assms obtain seen where
    loop: "range_loop (recovery_asset p) 0 [] (elems (rb_Assets (pl_Rollback p))) = Inr seen"
    and rest: "pl_ApprovalClass p = ApprovalDataDestructive \<longrightarrow> elems (rb_Assets (pl_Rollback p)) \<noteq> []"
      "elems (rb_Assets (pl_Rollback p)) = [] \<or>
       validateResources (map ra_Resource (elems (rb_Assets (pl_Rollback p)))) (pl_ProjectID p) = None"
    by (auto simp: validateRecoveryAssets_def Let_def split: if_splits sum.splits)
  from loop have "list_all (asset_ok p) (elems (rb_Assets (pl_Rollback p)))"
    by (induction rule: range_loop_induct) (auto dest: recovery_asset_Inr)
  with rest show ?thesis by (auto simp: validateResources_None list_all_iff)
qed

subsection \<open>Properties\<close>

text \<open>
  The steps of a valid plan fit its resources exactly: step identifiers are distinct, no two
  resources have the same scope, kind and name, the targets of the steps are the resources of the plan,
  all of them and nothing else, no step repeats a target, every step has a positive bounded timeout
  and a valid retry policy, and a point of no return names one of the steps.
\<close>

theorem validatePlanStructure_steps:
  assumes "validatePlanStructure p = None"
  shows "elems (pl_Steps p) \<noteq> [] \<and> distinct (map ps_ID (elems (pl_Steps p))) \<and>
     distinct (map stable_id (elems (pl_Resources p))) \<and>
     (\<Union>s \<in> set (elems (pl_Steps p)). set (elems (ps_Targets s))) = set (elems (pl_Resources p)) \<and>
     list_all (\<lambda>s. elems (ps_Targets s) \<noteq> [] \<and> distinct (map stable_id (elems (ps_Targets s))) \<and>
       RetryPolicy_Valid (ps_Retry s) \<and> 0 < ps_TimeoutSeconds s \<and>
       ps_TimeoutSeconds s \<le> MaxStepTimeoutSeconds) (elems (pl_Steps p)) \<and>
     (pl_PointOfNoReturn p = [] \<or> pl_PointOfNoReturn p \<in> set (map ps_ID (elems (pl_Steps p))))"
proof -
  note parts = valid_plan_parts [OF assms]
  note steps = validateSteps_None [OF parts(2)]
  note cover = steps_cover [of "elems (pl_Resources p)" "elems (pl_Steps p)"]
  have ids: "distinct (map stable_id (elems (pl_Resources p)))"
    using parts(1) by (simp add: validateResources_None)
  have "distinct (map stable_id (elems (ps_Targets s)))" if "s \<in> set (elems (pl_Steps p))" for s
  proof -
    have "distinct (elems (ps_Targets s))"
      using steps that by (auto simp: list_all_iff step_ok_def distinct_map)
    moreover have "set (elems (ps_Targets s)) \<subseteq> set (elems (pl_Resources p))"
      using steps cover that by blast
    ultimately show ?thesis using ids by (auto simp: distinct_map intro: inj_on_subset)
  qed
  then show ?thesis using steps cover ids by (auto simp: list_all_iff step_ok_def)
qed

theorem validatePlanStructure_steps_witness:
  "''drop'' \<in> set (map ps_ID (elems (pl_Steps sample_plan_value)))"
proof -
  have "pl_PointOfNoReturn sample_plan_value = ''drop''" by (simp add: sample_plan_for_def)
  with validatePlanStructure_steps [OF sample_plan_valid [of False]] show ?thesis by simp
qed

text \<open>
  The permissions of a valid plan are exact: each names one of its steps with that step's identity
  and one of its resources, none is repeated; and unless the plan is read-only, every step has a
  permission checked for its own identity and every resource has a permission checked on it.
\<close>

theorem validatePlanStructure_permissions:
  assumes "validatePlanStructure p = None"
  shows "list_all (\<lambda>q. pm_Resource q \<in> set (elems (pl_Resources p)) \<and>
       list_ex (\<lambda>s. ps_ID s = pm_StepID q \<and> ps_ExecutingIdentity s = pm_Identity q) (elems (pl_Steps p)))
       (elems (pl_Permissions p)) \<and>
     distinct (elems (pl_Permissions p)) \<and>
     (pl_ApprovalClass p = ApprovalRead \<or>
       list_all (\<lambda>s. list_ex (\<lambda>q. pm_StepID q = ps_ID s \<and> pm_Identity q = ps_ExecutingIdentity s)
         (elems (pl_Permissions p))) (elems (pl_Steps p)) \<and>
       set (map pm_Resource (elems (pl_Permissions p))) = set (elems (pl_Resources p)))"
proof -
  let ?perms = "elems (pl_Permissions p)" and ?steps = "elems (pl_Steps p)"
    and ?resources = "elems (pl_Resources p)"
  note parts = valid_plan_parts [OF assms]
  note steps = validateSteps_None [OF parts(2)]
  note perms = validatePermissions_None [OF parts(3)]
  have inj: "inj_on planResourceKey (set ?resources)" using steps steps_cover by blast
  have ok: "permission_ok ?steps ?resources q" if "q \<in> set ?perms" for q using perms that by blast
  have step: "list_ex (\<lambda>q. pm_StepID q = ps_ID s \<and> pm_Identity q = ps_ExecutingIdentity s) ?perms"
    if "pl_ApprovalClass p \<noteq> ApprovalRead" "s \<in> set ?steps" for s
  proof -
    from perms that obtain q where q: "q \<in> set ?perms" "pm_StepID q = ps_ID s" by fastforce
    from ok [OF q(1)] q(2) obtain s' where
      "s' \<in> set ?steps" "ps_ID s' = ps_ID s" "ps_ExecutingIdentity s' = pm_Identity q"
      by (auto simp: permission_ok_def)
    moreover from this have "s' = s" using steps that(2) by (auto simp: distinct_map dest: inj_onD)
    ultimately show ?thesis using q by (auto simp: list_ex_iff)
  qed
  have resource: "r \<in> set (map pm_Resource ?perms)"
    if "pl_ApprovalClass p \<noteq> ApprovalRead" "r \<in> set ?resources" for r
  proof -
    from perms that obtain q where q: "q \<in> set ?perms" "planResourceKey (pm_Resource q) = planResourceKey r"
      by fastforce
    then have "pm_Resource q = r" using ok inj that(2) by (auto simp: permission_ok_def dest: inj_onD)
    with q show ?thesis by auto
  qed
  show ?thesis
    using ok step resource perms by (auto simp: list_all_iff list_ex_iff permission_ok_def distinct_map)
qed

theorem validatePlanStructure_permissions_witness:
  "distinct (elems (pl_Permissions sample_plan_value))"
  using validatePlanStructure_permissions [OF sample_plan_valid [of False]] by blast

text \<open>
  How far the exposure of a valid plan reaches: the only port is tcp/27017; a private exposure admits
  addresses of the RFC 1918 networks only; a tunnel admits no network source but the fixed IAP range;
  and an external exposure that is not internet-wide admits at most 64 * 256 addresses.
\<close>

theorem validatePlanStructure_exposure_reach:
  assumes "validatePlanStructure p = None" and "pl_ExposureControls p = Some c"
  shows "elems (xc_Ports c) = [\<lparr>xp_Protocol = ''tcp'', xp_Number = 27017\<rparr>] \<and>
     (pl_Exposure p = ExposurePrivate \<and>
        (\<forall>a. list_ex (\<lambda>x. source_admits x a) (elems (xc_Sources c)) \<longrightarrow>
           list_ex (\<lambda>n. prefix_Contains n a) rfc1918Networks) \<or>
      pl_Exposure p = ExposureTunnel \<and>
        list_all (\<lambda>x. xs_Kind x = ExposureSourceIAP \<and> xs_Value x = ''35.235.240.0/20'' \<or>
          xs_Kind x = ExposureSourceTunnel) (elems (xc_Sources c)) \<or>
      pl_Exposure p = ExposureExternal \<and>
        (xc_InternetWide c \<or>
         card {a. list_ex (\<lambda>x. source_admits x a) (elems (xc_Sources c))} \<le> 16384))"
proof -
  let ?xs = "elems (xc_Sources c)"
  note controls = exposure_controls_None [OF valid_plan_parts(4) [OF assms(1)] assms(2)]
  then have checks: "list_all (\<lambda>e. e = None) (exposure_control_checks p c)" by blast
  note sources = exposure_sources_ok [OF checks]
  have valid: "validExposureSource x" "sourceAllowedForExposure (pl_Exposure p) (xs_Kind x)"
    if "x \<in> set ?xs" for x using sources(1) that by auto
  have "?xs \<noteq> []" using checks by (simp add: exposure_control_checks_def Let_def bounded_def)
  then obtain x0 where "x0 \<in> set ?xs" by (cases ?xs) auto
  from valid(2) [OF this] consider "pl_Exposure p = ExposurePrivate" | "pl_Exposure p = ExposureTunnel" |
      "pl_Exposure p = ExposureExternal"
    by (cases "pl_Exposure p") (auto simp: sourceAllowedForExposure_def)
  then have "pl_Exposure p = ExposurePrivate \<and>
        (\<forall>a. list_ex (\<lambda>x. source_admits x a) ?xs \<longrightarrow> list_ex (\<lambda>n. prefix_Contains n a) rfc1918Networks) \<or>
      pl_Exposure p = ExposureTunnel \<and>
        list_all (\<lambda>x. xs_Kind x = ExposureSourceIAP \<and> xs_Value x = ''35.235.240.0/20'' \<or>
          xs_Kind x = ExposureSourceTunnel) ?xs \<or>
      pl_Exposure p = ExposureExternal \<and>
        (xc_InternetWide c \<or> card {a. list_ex (\<lambda>x. source_admits x a) ?xs} \<le> 16384)"
  proof cases
    case 1
    have "list_ex (\<lambda>n. prefix_Contains n a) rfc1918Networks" if "x \<in> set ?xs" "source_admits x a" for x a
      using valid [OF that(1)] that(2) 1 private_range_admits [of x a]
      by (auto simp: sourceAllowedForExposure_def source_admits_def split: if_splits)
    with 1 show ?thesis by (auto simp: list_ex_iff [of _ ?xs])
  next
    case 2
    with valid show ?thesis
      by (fastforce simp: list_all_iff sourceAllowedForExposure_def validExposureSource_def)
  next
    case 3
    have "card {a. list_ex (\<lambda>x. source_admits x a) ?xs} \<le> 16384" if "\<not> xc_InternetWide c"
    proof -
      have narrow: "card {a. source_admits x a} \<le> 256" if "x \<in> set ?xs" for x
        using valid [OF that] 3 sources(3) \<open>\<not> xc_InternetWide c\<close> that narrow_source_admits [of x]
        by (auto simp: sourceAllowedForExposure_def list_ex_iff)
      have "{a. list_ex (\<lambda>x. source_admits x a) ?xs} = (\<Union>x \<in> set ?xs. {a. source_admits x a})"
        by (auto simp: list_ex_iff)
      then have "card {a. list_ex (\<lambda>x. source_admits x a) ?xs} \<le> (\<Sum>x \<in> set ?xs. card {a. source_admits x a})"
        by (simp add: card_UN_le)
      also have "\<dots> \<le> card (set ?xs) * 256" using sum_bounded_above [of "set ?xs" "\<lambda>x. card {a. source_admits x a}" 256] narrow by simp
      also have "\<dots> \<le> 64 * 256" using sources(2) card_length [of ?xs] by simp
      finally show ?thesis by simp
    qed
    with 3 show ?thesis by blast
  qed
  with exposure_ports_ok [OF checks] show ?thesis by blast
qed

theorem validatePlanStructure_exposure_reach_witness:
  "elems (xc_Ports (sample_controls False)) = [\<lparr>xp_Protocol = ''tcp'', xp_Number = 27017\<rparr>]"
proof -
  have "pl_ExposureControls sample_plan_value = Some (sample_controls False)" by (simp add: sample_plan_for_def)
  from validatePlanStructure_exposure_reach [OF sample_plan_valid [of False] this] show ?thesis by blast
qed

text \<open>
  What opens the database to the network, and for how long: every exposure needs at least AP-3
  approval, TLS with hostname verification, an audit log, the kill-switch workflow WF-ACC-04 and a
  simulation precondition that passed; its grant expires or is due for review at a time after the
  creation of the plan, with one exception: access from the whole internet that was acknowledged as
  permanent. A source that admits the whole internet, and only that, makes the exposure internet-wide,
  which needs the external path, profile ACC-08 and AP-5; and ACC-08 is used for nothing else.
\<close>

theorem validatePlanStructure_exposure_gates:
  assumes "validatePlanStructure p = None" and "pl_Exposure p \<noteq> ExposureNone"
  shows "\<exists>c. pl_ExposureControls p = Some c \<and> ApprovalSecuritySensitive \<le> pl_ApprovalClass p \<and>
     xt_Required (xc_TLS c) \<and> xt_HostnameVerification (xc_TLS c) \<and> xc_AuditLogging c \<and>
     xc_RevocationWorkflowID c = ''WF-ACC-04'' \<and>
     list_ex (\<lambda>q. pp_ID q = xc_SimulationPreconditionID c \<and> pp_OK q) (elems (pl_Preconditions p)) \<and>
     (xc_InternetWide c \<longleftrightarrow> list_ex internet_source (elems (xc_Sources c))) \<and>
     (xc_InternetWide c \<longleftrightarrow> xc_Profile c = ExposureProfileACC08) \<and>
     (\<not> xc_InternetWide c \<or>
        pl_Exposure p = ExposureExternal \<and> pl_ApprovalClass p = ApprovalDataDestructive) \<and>
     ((\<exists>t. (xc_ExpiresAt c = Some t \<or> xc_ReviewAt c = Some t) \<and> t_ns (pl_CreatedAt p) < t_ns t) \<or>
      xc_InternetWide c \<and> xc_PermanentInternetWideAcknowledged c)"
proof -
  note exposed = valid_plan_parts(4) [OF assms(1)]
  with assms(2) obtain c where c: "pl_ExposureControls p = Some c"
    by (auto simp: validateExposureControls_def split: option.splits)
  from exposure_controls_None [OF exposed c] have
    checks: "list_all (\<lambda>e. e = None) (exposure_control_checks p c)"
    and approval: "ApprovalSecuritySensitive \<le> pl_ApprovalClass p" by blast+
  from checks have wide: "xc_InternetWide c \<longleftrightarrow> list_ex internet_source (elems (xc_Sources c))"
    and rest: "validExposureTLS (pl_Exposure p) (xc_TLS c)" "xc_AuditLogging c"
      "xc_RevocationWorkflowID c = ''WF-ACC-04''"
      "passedPrecondition (elems (pl_Preconditions p)) (xc_SimulationPreconditionID c)"
      "xc_InternetWide c \<or> xc_Profile c \<noteq> ExposureProfileACC08"
    and life: "validateExposureLifetime p c = None"
    by (auto simp: exposure_control_checks_def Let_def)
  have "pl_Exposure p = ExposureExternal" if "xc_InternetWide c"
    using that wide exposure_sources_ok(1) [OF checks]
    by (cases "pl_Exposure p") (auto simp: list_ex_iff internet_source_def sourceAllowedForExposure_def)
  moreover have "xc_InternetWide c \<longrightarrow> xc_Profile c = ExposureProfileACC08 \<and>
      pl_ApprovalClass p = ApprovalDataDestructive"
    using life by (auto simp: validateExposureLifetime_def Let_def split: if_splits)
  moreover have "(\<exists>t. (xc_ExpiresAt c = Some t \<or> xc_ReviewAt c = Some t) \<and> t_ns (pl_CreatedAt p) < t_ns t) \<or>
      xc_InternetWide c \<and> xc_PermanentInternetWideAcknowledged c"
    using life by (auto simp: validateExposureLifetime_def Let_def time_After_def split: if_splits option.splits)
  moreover have "list_ex (\<lambda>q. pp_ID q = xc_SimulationPreconditionID c \<and> pp_OK q) (elems (pl_Preconditions p))"
    using rest(4) by (auto simp: passedPrecondition_def list_ex_iff find_Some_iff split: if_splits option.splits)
  moreover have "xt_Required (xc_TLS c)" "xt_HostnameVerification (xc_TLS c)"
    using rest(1) by (auto simp: validExposureTLS_def split: if_splits)
  ultimately show ?thesis using c approval wide rest by blast
qed

theorem validatePlanStructure_exposure_gates_witness:
  "xc_Profile (sample_controls False) = ExposureProfileACC08 \<and>
     (\<exists>t. xc_ExpiresAt (sample_controls False) = Some t \<and> t_ns (pl_CreatedAt sample_plan_value) < t_ns t)"
proof -
  have p: "pl_Exposure sample_plan_value \<noteq> ExposureNone"
    "pl_ExposureControls sample_plan_value = Some (sample_controls False)"
    by (simp_all add: sample_plan_for_def)
  have c: "xc_InternetWide (sample_controls False)" "\<not> xc_PermanentInternetWideAcknowledged (sample_controls False)"
    "xc_ReviewAt (sample_controls False) = None"
    by (simp_all add: sample_controls_def)
  from validatePlanStructure_exposure_gates [OF sample_plan_valid [of False] p(1)] p(2) c show ?thesis by auto
qed

text \<open>
  The recovery proof of a valid plan: a data-destructive plan has at least one recovery asset; no asset
  is a target of the plan, whatever its fingerprint; each asset protects plan resources other than
  itself, none twice, and was verified before the plan was created and not longer before than the plan
  is valid; a snapshot is at most one hour old and a recovery point restores to a time within the
  validity of the plan.
\<close>

theorem validatePlanStructure_recovery:
  assumes "validatePlanStructure p = None"
  shows "(pl_ApprovalClass p = ApprovalDataDestructive \<longrightarrow> elems (rb_Assets (pl_Rollback p)) \<noteq> []) \<and>
     list_all (asset_ok p) (elems (rb_Assets (pl_Rollback p))) \<and>
     stable_id ` set (map ra_Resource (elems (rb_Assets (pl_Rollback p)))) \<inter>
       (\<Union>s \<in> set (elems (pl_Steps p)). stable_id ` set (elems (ps_Targets s))) = {}"
proof -
  let ?assets = "elems (rb_Assets (pl_Rollback p))"
  note parts = valid_plan_parts [OF assms]
  note assets = validateRecoveryAssets_None [OF parts(5)]
  note cover = steps_cover [of "elems (pl_Resources p)" "elems (pl_Steps p)"]
  have "stable_id t \<noteq> stable_id (ra_Resource a)"
    if a: "a \<in> set ?assets" and t: "s \<in> set (elems (pl_Steps p))" "t \<in> set (elems (ps_Targets s))" for a s t
  proof -
    have "resource_ok (pl_ProjectID p) (ra_Resource a)" "asset_ok p a"
      using assets a by (auto simp: list_all_iff)
    moreover have "t \<in> set (elems (pl_Resources p))" using t validateSteps_None [OF parts(2)] cover by blast
    then have "resource_ok (pl_ProjectID p) t" using parts(1) by (simp add: validateResources_None)
    moreover have "stablePlanResourceKey t \<in> set (targeted_keys (elems (pl_Steps p)))"
      using t by (auto simp: targeted_keys_def)
    ultimately show ?thesis using stable_key_inject [of "pl_ProjectID p" t "pl_ProjectID p" "ra_Resource a"]
      by (auto simp: asset_ok_def)
  qed
  then have "stable_id ` set (map ra_Resource ?assets) \<inter>
      (\<Union>s \<in> set (elems (pl_Steps p)). stable_id ` set (elems (ps_Targets s))) = {}" by fastforce
  with assets show ?thesis by blast
qed

theorem validatePlanStructure_recovery_witness:
  "list_all (asset_ok sample_plan_value) (sample_assets False)"
proof -
  have "elems (rb_Assets (pl_Rollback sample_plan_value)) = sample_assets False"
    by (simp add: sample_plan_for_def)
  with validatePlanStructure_recovery [OF sample_plan_valid [of False]] show ?thesis by simp
qed

text \<open>
  C40. The ladder of approval classes: a valid plan above read names resources and permissions; from AP-2 on
  it names a safeguard; an exposure needs AP-3; a step-up is asked only in production and from AP-4 on;
  AP-5 comes with a recovery asset. The four identity routes are the fixed ones, and the policy match
  flag is set exactly when both hashes are there and equal.
\<close>

theorem validatePlanStructure_ladder:
  assumes "validatePlanStructure p = None"
  shows "pl_ApprovalClass p \<le> 5 \<and>
     (1 \<le> pl_ApprovalClass p \<longrightarrow> elems (pl_Resources p) \<noteq> [] \<and> elems (pl_Permissions p) \<noteq> []) \<and>
     (2 \<le> pl_ApprovalClass p \<longrightarrow> elems (pl_Protection p) \<noteq> []) \<and>
     (pl_Exposure p \<noteq> ExposureNone \<longrightarrow> 3 \<le> pl_ApprovalClass p) \<and>
     (pl_StepUpRequired p \<longrightarrow> pl_EnvironmentClass p = EnvironmentProduction \<and> 4 \<le> pl_ApprovalClass p) \<and>
     (pl_ApprovalClass p = 5 \<longrightarrow> elems (rb_Assets (pl_Rollback p)) \<noteq> []) \<and>
     pl_Identity p = DefaultIdentityPlan \<and>
     (ph_Match (pl_PolicyHash p) \<longleftrightarrow>
        ph_Local (pl_PolicyHash p) \<noteq> [] \<and> ph_Local (pl_PolicyHash p) = ph_Approved (pl_PolicyHash p))"
proof -
  note parts = valid_plan_parts [OF assms]
  have above: "1 \<le> pl_ApprovalClass p \<Longrightarrow> pl_ApprovalClass p \<noteq> ApprovalRead"
    by (auto simp: ApprovalRead_def)
  have five: "c < 6 \<longleftrightarrow> c \<le> (5 :: 8 word)" for c
    by (auto simp: word_less_nat_alt word_le_nat_alt)
  from assms have "pl_ApprovalClass p \<le> 5" "pl_Identity p = DefaultIdentityPlan"
    "ph_Match (pl_PolicyHash p) \<longleftrightarrow>
       ph_Local (pl_PolicyHash p) \<noteq> [] \<and> ph_Local (pl_PolicyHash p) = ph_Approved (pl_PolicyHash p)"
    "pl_StepUpRequired p \<longrightarrow> pl_EnvironmentClass p = EnvironmentProduction \<and> 4 \<le> pl_ApprovalClass p"
    by (auto simp: validatePlanStructure_def plan_identity_checks_def ApprovalClass_Valid_def
        approvalClassCount_def five validateIdentityPlan_def validatePolicyHash_def ApprovalDestructive_def not_less)
  moreover from assms above have "1 \<le> pl_ApprovalClass p \<longrightarrow> elems (pl_Resources p) \<noteq> []"
    "2 \<le> pl_ApprovalClass p \<longrightarrow> elems (pl_Protection p) \<noteq> []"
    by (auto simp: validatePlanStructure_def plan_content_checks_def Let_def ApprovalProtected_def)
  moreover have "1 \<le> pl_ApprovalClass p \<longrightarrow> elems (pl_Permissions p) \<noteq> []"
    using validatePermissions_None [OF parts(3)] above by blast
  moreover have "pl_Exposure p \<noteq> ExposureNone \<longrightarrow> 3 \<le> pl_ApprovalClass p"
    using parts(4) by (auto simp: validateExposureControls_def ApprovalSecuritySensitive_def not_less split: option.splits if_splits)
  moreover have "pl_ApprovalClass p = 5 \<longrightarrow> elems (rb_Assets (pl_Rollback p)) \<noteq> []"
    using validateRecoveryAssets_None [OF parts(5)] by (simp add: ApprovalDataDestructive_def)
  ultimately show ?thesis by blast
qed

theorem validatePlanStructure_ladder_witness:
  "ph_Match (pl_PolicyHash sample_plan_value) \<and> pl_ApprovalClass sample_plan_value = 5 \<and>
     elems (rb_Assets (pl_Rollback sample_plan_value)) \<noteq> []"
proof -
  have "ph_Match (pl_PolicyHash sample_plan_value)" "pl_ApprovalClass sample_plan_value = 5"
    by (simp_all add: sample_plan_for_def ApprovalDataDestructive_def)
  with validatePlanStructure_ladder [OF sample_plan_valid [of False]] show ?thesis by blast
qed

text \<open>
  The targets of an exposure are resources of the plan, provided that no fingerprint holds a NUL
  character: unlike the targets of steps, permissions and recovery assets, which the code compares with
  the resource itself, they are compared by a key that joins the fields with NUL.
\<close>

theorem validatePlanStructure_exposure_targets:
  assumes "validatePlanStructure p = None" and "pl_ExposureControls p = Some c"
    and "list_all (\<lambda>r. nul_free (pr_Fingerprint r)) (elems (pl_Resources p))"
  shows "set (elems (xc_Targets c)) \<subseteq> set (elems (pl_Resources p)) \<and> elems (xc_Targets c) \<noteq> []"
proof -
  note parts = valid_plan_parts [OF assms(1)]
  from exposure_controls_None [OF parts(4) assms(2)] have
    targets: "\<forall>t \<in> set (elems (xc_Targets c)). planResourceKey t \<in> set (map planResourceKey (elems (pl_Resources p)))"
      "elems (xc_Targets c) \<noteq> []"
    by (auto simp: exposure_control_checks_def Let_def check_unique_None all_set_conv_all_nth bounded_def)
  have "t \<in> set (elems (pl_Resources p))" if t: "t \<in> set (elems (xc_Targets c))" for t
  proof -
    from targets(1) t obtain r where r: "r \<in> set (elems (pl_Resources p))" "planResourceKey t = planResourceKey r"
      by auto
    then have "resource_ok (pl_ProjectID p) r" "nul_free (pr_Fingerprint r)"
      using parts(1) assms(3) by (auto simp: validateResources_None list_all_iff)
    from planResourceKey_inject [OF this r(2)] r(1) show ?thesis by simp
  qed
  with targets(2) show ?thesis by blast
qed

theorem validatePlanStructure_exposure_targets_witness:
  "set (elems (xc_Targets (sample_controls False))) \<subseteq> set (elems (pl_Resources sample_plan_value))"
proof -
  have "pl_ExposureControls sample_plan_value = Some (sample_controls False)"
    "list_all (\<lambda>r. nul_free (pr_Fingerprint r)) (elems (pl_Resources sample_plan_value))"
    by (simp_all add: sample_plan_for_def sample_resource_def sample_db_def nul_free_def)
  from validatePlanStructure_exposure_targets [OF sample_plan_valid [of False] this] show ?thesis by blast
qed

text \<open>
  Without that proviso the check is not exact: a plan that passes every other check, and whose database
  has a fingerprint with a NUL, is accepted although its exposure targets something that is not a
  resource of the plan.
\<close>

theorem exposure_target_outside_plan:
  "\<exists>p c t. validatePlanStructure p = None \<and> pl_ExposureControls p = Some c \<and>
     t \<in> set (elems (xc_Targets c)) \<and> t \<notin> set (elems (pl_Resources p))"
proof (intro exI conjI)
  show "validatePlanStructure (sample_plan_for True) = None" by (rule sample_plan_valid)
  show "pl_ExposureControls (sample_plan_for True) = Some (sample_controls True)"
    by (simp add: sample_plan_for_def)
  show "sample_target True \<in> set (elems (xc_Targets (sample_controls True)))"
    by (simp add: sample_controls_def)
  show "sample_target True \<notin> set (elems (pl_Resources (sample_plan_for True)))"
    by (simp add: sample_plan_for_def sample_target_def sample_db_def sample_resource_def nul_char)
qed

end
