(* ===== verification/PlanGate.thy ===== *)
theory PlanGate
  imports PlanGuarantees
begin

section \<open>internal/policy: the execution gate (permission.go)\<close>

text \<open>
  \<open>PermissionChecks\<close>, which turns a probe response into plan evidence, and
  \<open>ValidatePlanForExecution\<close>, which compares a valid plan with the current evidence and the
  contract of its workflow. Each validator of the gate appends to a slice of blockers; its model
  returns the blockers it appends, and the gate concatenates them in source order. A plan may run
  exactly when there are none.
\<close>

subsection \<open>Evidence and blockers\<close>

definition executionEvidenceFreshness :: int where "executionEvidenceFreshness = 10 * minute"
definition stepUpFreshness :: int where "stepUpFreshness = 10 * minute"

datatype PlanBlockerKind =
    BlockerPlanBinding
  | BlockerContract
  | BlockerPlanTime
  | BlockerApproval
  | BlockerCoolingOff
  | BlockerIntent
  | BlockerPolicy
  | BlockerPrecondition
  | BlockerResource
  | BlockerRecovery
  | BlockerExposure
  | BlockerPermission
  | BlockerStepUp

record PlanBlocker =
  bl_Kind :: PlanBlockerKind
  bl_ID :: string
  bl_Identity :: ExecutionIdentity

definition blocker :: "PlanBlockerKind \<Rightarrow> string \<Rightarrow> PlanBlocker" where
  "blocker kind ident = \<lparr>bl_Kind = kind, bl_ID = ident, bl_Identity = IdentityOther []\<rparr>"

record PermissionProbe =
  pb_ProjectID :: string
  pb_StepID :: string
  pb_Identity :: ExecutionIdentity
  pb_Resource :: PlanResource
  pb_Required :: "string list"
  pb_Granted :: "string list"

record ApprovalEvidence =
  ap_PlanID :: string
  ap_PlanHash :: string
  ap_ProjectID :: string
  ap_Environment :: string
  ap_EnvironmentClass :: EnvironmentClass
  ap_Principal :: string
  ap_RecordObject :: string
  ap_ServerTimeCreated :: gotime

record IntentEvidence =
  ie_PlanID :: string
  ie_PlanHash :: string
  ie_ProjectID :: string
  ie_PolicyHash :: string
  ie_Environment :: string
  ie_EnvironmentClass :: EnvironmentClass
  ie_Principal :: string
  ie_WindowStart :: gotime
  ie_ValidUntil :: gotime
  ie_Active :: bool
  ie_SoleActive :: bool

record StepUpEvidence =
  su_PlanID :: string
  su_PlanHash :: string
  su_ProjectID :: string
  su_Environment :: string
  su_EnvironmentClass :: EnvironmentClass
  su_Principal :: string
  su_RecordObject :: string
  su_ServerTimeCreated :: gotime

record ExecutionEvidence =
  ev_PlanID :: string
  ev_PlanHash :: string
  ev_ProjectID :: string
  ev_Environment :: string
  ev_EnvironmentClass :: EnvironmentClass
  ev_Principal :: string
  ev_CheckedAt :: gotime
  ev_ObservedAt :: gotime
  ev_Approval :: "ApprovalEvidence option"
  ev_Intent :: "IntentEvidence option"
  ev_PolicyHash :: PlanPolicyHash
  ev_Preconditions :: "PlanPrecondition list"
  ev_Resources :: "PlanResource list"
  ev_RecoveryAssets :: "PlanRecoveryAsset list"
  ev_Permissions :: "PlanPermission list"
  ev_StepUp :: "StepUpEvidence option"

datatype gate_error =
    GateInvalid plan_error
  | GateBlocked string "PlanBlocker list"

text \<open>The methods of \<open>*BlockedPlanError\<close>; \<open>None\<close> is the nil receiver.\<close>

definition BlockedPlanError_Error :: "(string \<times> PlanBlocker list) option \<Rightarrow> string" where
  "BlockedPlanError_Error err =
     (case err of
        None \<Rightarrow> ''plan blocked''
      | Some (planID, blockers) \<Rightarrow>
          ''plan blocked: plan '' @ planID @ '' has '' @ decimal (length blockers) @ '' blocker(s)'')"

definition BlockedPlanError_ExitCode :: "(string \<times> PlanBlocker list) option \<Rightarrow> int" where
  "BlockedPlanError_ExitCode err = 3"

definition BlockedPlanError_PlanID :: "(string \<times> PlanBlocker list) option \<Rightarrow> string" where
  "BlockedPlanError_PlanID err = (case err of None \<Rightarrow> [] | Some (planID, blockers) \<Rightarrow> planID)"

definition BlockedPlanError_Blockers ::
  "(string \<times> PlanBlocker list) option \<Rightarrow> PlanBlocker list option" where
  "BlockedPlanError_Blockers err = map_option snd err"

subsection \<open>Permission probes\<close>

datatype probe_error = ErrInvalidPermissionProbe string

definition PermissionChecks :: "PermissionProbe \<Rightarrow> probe_error + PlanPermission list" where
  "PermissionChecks probe =
     (case first_error
       [fail_if (\<not> projectIDPattern (pb_ProjectID probe) \<or> \<not> identifierPattern (pb_StepID probe) \<or>
                 \<not> ExecutionIdentity_Valid (pb_Identity probe))
          (ErrInvalidPermissionProbe ''invalid step or identity''),
        fail_if (validateResources [pb_Resource probe] (pb_ProjectID probe) \<noteq> None)
          (ErrInvalidPermissionProbe ''incomplete fingerprinted resource''),
        fail_if (pb_Required probe = []) (ErrInvalidPermissionProbe ''required set is empty''),
        check_unique id
          (\<lambda>i p. fail_if (\<not> permissionPattern p) (ErrInvalidPermissionProbe ''malformed required permission''))
          (\<lambda>i p. ErrInvalidPermissionProbe ''duplicate required permission'') 0 [] (pb_Required probe),
        check_unique id
          (\<lambda>i p. fail_if (p \<notin> set (pb_Required probe))
             (ErrInvalidPermissionProbe ''response contains an unrequested permission''))
          (\<lambda>i p. ErrInvalidPermissionProbe ''duplicate granted permission'') 0 [] (pb_Granted probe)]
      of Some e \<Rightarrow> Inl e
       | None \<Rightarrow>
           Inr (map (\<lambda>p. \<lparr>pm_StepID = pb_StepID probe, pm_Identity = pb_Identity probe,
                          pm_Permission = p, pm_Resource = pb_Resource probe,
                          pm_Granted = p \<in> set (pb_Granted probe)\<rparr>) (pb_Required probe)))"

subsection \<open>Comparisons\<close>

definition planPermissionKey :: "PlanPermission \<Rightarrow> string" where
  "planPermissionKey p =
     pm_StepID p @ nul @ ExecutionIdentity_string (pm_Identity p) @ nul @ pm_Permission p @ nul @
     pr_Scope (pm_Resource p) @ nul @ pr_Kind (pm_Resource p) @ nul @ pr_Name (pm_Resource p) @ nul @
     pr_Fingerprint (pm_Resource p)"

definition validEvidenceTime :: "gotime \<Rightarrow> bool" where
  "validEvidenceTime t = (if time_IsZero t then False else t_zone t = 0)"

definition equalOptionalTime :: "gotime option \<Rightarrow> gotime option \<Rightarrow> bool" where
  "equalOptionalTime l r =
     (case (l, r) of
        (None, None) \<Rightarrow> True
      | (Some a, Some b) \<Rightarrow> time_Equal a b
      | _ \<Rightarrow> False)"

definition equalPlanResources :: "PlanResource list \<Rightarrow> PlanResource list \<Rightarrow> bool" where
  "equalPlanResources l r = (if length l \<noteq> length r then False else list_all2 (=) l r)"

definition equalRecoveryAssets :: "PlanRecoveryAsset list \<Rightarrow> PlanRecoveryAsset list \<Rightarrow> bool" where
  "equalRecoveryAssets l r =
     (if length l \<noteq> length r then False
      else list_all2 (\<lambda>a b.
        ra_Kind a = ra_Kind b \<and> ra_Resource a = ra_Resource b \<and>
        ra_EvidenceRef a = ra_EvidenceRef b \<and> time_Equal (ra_VerifiedAt a) (ra_VerifiedAt b) \<and>
        equalOptionalTime (ra_RestoreTo a) (ra_RestoreTo b) \<and>
        equalPlanResources (elems (ra_Protects a)) (elems (ra_Protects b))) l r)"

definition recoveryAssetsCover :: "PlanRecoveryAsset list \<Rightarrow> PlanResource \<Rightarrow> bool" where
  "recoveryAssetsCover assets target =
     list_ex (\<lambda>a. list_ex (\<lambda>protected. protected = target) (elems (ra_Protects a))) assets"

definition planStepMatchesContract :: "PlanStep \<Rightarrow> ExecutionStepContract \<Rightarrow> bool" where
  "planStepMatchesContract step expected =
     (ps_Executor step = sc_Executor expected \<and>
      ps_ExecutingIdentity step = sc_ExecutingIdentity expected \<and>
      ps_CommandRedacted step = sc_CommandSummary expected \<and>
      ps_Idempotent step = sc_Idempotent expected \<and> ps_Retry step = sc_Retry expected \<and>
      ps_CancelSafe step = sc_CancelSafe expected \<and>
      ps_TimeoutSeconds step = sc_TimeoutSeconds expected \<and>
      ps_SuccessCondition step = sc_SuccessCondition expected \<and>
      ps_FailureBehavior step = sc_FailureBehavior expected)"

definition planMatchesExposureRequirement ::
  "Plan \<Rightarrow> ExecutionExposureRequirement option \<Rightarrow> string list \<Rightarrow> bool" where
  "planMatchesExposureRequirement plan requirement expectedTargets =
     (case requirement of
        None \<Rightarrow> pl_Exposure plan = ExposureNone \<and> pl_ExposureControls plan = None
      | Some r \<Rightarrow>
          (if pl_Exposure plan \<noteq> er_Delta r then False
           else case pl_ExposureControls plan of
             None \<Rightarrow> False
           | Some c \<Rightarrow>
               if xc_Profile c \<noteq> er_Profile r \<or> xc_InternetWide c \<noteq> er_InternetWide r \<or>
                  xc_SimulationPreconditionID c \<noteq> er_SimulationPreconditionID r \<or>
                  \<not> validExposureTLS (er_Delta r) (xc_TLS c) \<or>
                  length (elems (xc_Targets c)) \<noteq> length (remdups expectedTargets)
               then False
               else list_all (\<lambda>t. planResourceKey t \<in> set expectedTargets) (elems (xc_Targets c))))"

text \<open>
  \<open>left.Date()\<close> and \<open>right.Date()\<close> compared year, month, day: the calendar orders dates as it orders the
  days counted from year 1, each in the zone of its time.
\<close>

definition calendar_day :: "gotime \<Rightarrow> int" where
  "calendar_day t = (t_ns t + t_zone t * second) div (24 * hour)"

definition utcDateAfter :: "gotime \<Rightarrow> gotime \<Rightarrow> bool" where
  "utcDateAfter l r = (calendar_day l > calendar_day r)"

definition validStepUpObject :: "string \<Rightarrow> Plan \<Rightarrow> bool" where
  "validStepUpObject object plan =
     (let prefix = ''plans/'' @ pl_Environment plan @ ''/'' @ pl_PlanID plan @ ''-stepup-'' in
      if \<not> has_prefix object prefix \<or> \<not> has_suffix object ''.json'' then False
      else (let sequence = trim_suffix (trim_prefix object prefix) ''.json''
            in sequence \<noteq> [] \<and> list_all is_digit sequence))"

subsection \<open>The contract of the workflow\<close>

text \<open>The accumulators of the loop over the contract's steps.\<close>

definition minimumApproval :: "ExecutionStepContract list \<Rightarrow> ApprovalClass" where
  "minimumApproval steps =
     foldl (\<lambda>m s. if sc_MinimumApproval s > m then sc_MinimumApproval s else m) ApprovalRead steps"

definition mutationCapable :: "ExecutionStepContract list \<Rightarrow> bool" where
  "mutationCapable steps = list_ex (\<lambda>s. sc_Effect s = StepEffectMutation) steps"

definition exposureRequirement :: "ExecutionStepContract list \<Rightarrow> ExecutionExposureRequirement option" where
  "exposureRequirement steps =
     foldl (\<lambda>r s. case sc_ExposureRequirement s of None \<Rightarrow> r | Some q \<Rightarrow> Some q) None steps"

text \<open>The accumulators of the loop over the plan's steps and their targets.\<close>

record binding_state =
  bs_expectedPermissions :: "string list"
  bs_mismatch :: bool
  bs_exposureTargets :: "string list"

definition bind_target ::
  "Plan \<Rightarrow> PlanStep \<Rightarrow> ExecutionStepContract \<Rightarrow> binding_state \<Rightarrow> PlanResource \<Rightarrow> binding_state" where
  "bind_target plan step expected st target =
     (if pr_Kind target \<notin> set (sc_TargetKinds expected) then st\<lparr>bs_mismatch := True\<rparr>
      else \<lparr>bs_expectedPermissions =
              map (\<lambda>permission. planPermissionKey
                \<lparr>pm_StepID = ps_ID step, pm_Identity = ps_ExecutingIdentity step,
                 pm_Permission = permission, pm_Resource = target, pm_Granted = False\<rparr>)
                (sc_RequiredPermissions expected) @ bs_expectedPermissions st,
            bs_mismatch =
              (bs_mismatch st \<or>
               sc_RequiresRecoveryAsset expected \<and>
               \<not> recoveryAssetsCover (elems (rb_Assets (pl_Rollback plan))) target),
            bs_exposureTargets =
              (if sc_ExposureRequirement expected \<noteq> None
               then planResourceKey target # bs_exposureTargets st else bs_exposureTargets st)\<rparr>)"

definition bind_step ::
  "Plan \<Rightarrow> binding_state \<Rightarrow> PlanStep \<times> ExecutionStepContract \<Rightarrow> binding_state" where
  "bind_step plan st pair =
     (case pair of (step, expected) \<Rightarrow>
       (if ps_ID step \<noteq> sc_ID expected \<or> \<not> planStepMatchesContract step expected
        then st\<lparr>bs_mismatch := True\<rparr>
        else foldl (bind_target plan step expected) st (elems (ps_Targets step))))"

definition bind_steps :: "Plan \<Rightarrow> ExecutionStepContract list \<Rightarrow> binding_state" where
  "bind_steps plan contractSteps =
     foldl (bind_step plan)
       \<lparr>bs_expectedPermissions = [], bs_mismatch = False, bs_exposureTargets = []\<rparr>
       (zip (elems (pl_Steps plan)) contractSteps)"

definition blocker_if :: "bool \<Rightarrow> PlanBlockerKind \<Rightarrow> string \<Rightarrow> PlanBlocker list" where
  "blocker_if c kind ident = (if c then [blocker kind ident] else [])"

text \<open>The blockers, and whether the contract requires approval, a step-up, a recovery asset.\<close>

definition validateExecutionContract ::
  "Plan \<Rightarrow> ExecutionContract \<Rightarrow> PlanBlocker list \<times> bool \<times> bool \<times> bool" where
  "validateExecutionContract plan contract =
     (let contractSteps = ec_steps contract; steps = elems (pl_Steps plan);
          permissions = elems (pl_Permissions plan) in
      if ec_workflowID contract \<noteq> pl_WorkflowID plan \<or> length contractSteps \<noteq> length steps \<or>
         ec_rollbackBoundary contract \<noteq> rb_Boundary (pl_Rollback plan) \<or>
         ec_pointOfNoReturn contract \<noteq> pl_PointOfNoReturn plan \<or>
         ec_pointOfNoReturnTrigger contract \<noteq> pl_PointOfNoReturnTrigger plan
      then ([blocker BlockerContract ''workflow-or-step-set''], True, True, True)
      else
        (let minimum = minimumApproval contractSteps;
             mutates = mutationCapable contractSteps;
             requiresStepUp = list_ex sc_RequiresStepUp contractSteps;
             requiresRecovery = list_ex sc_RequiresRecoveryAsset contractSteps;
             bound = bind_steps plan contractSteps;
             expected = bs_expectedPermissions bound
         in (blocker_if (\<not> planMatchesExposureRequirement plan (exposureRequirement contractSteps)
                           (bs_exposureTargets bound)) BlockerContract ''exposure-requirement'' @
             blocker_if (bs_mismatch bound \<or> pl_ApprovalClass plan < minimum \<or>
                         mutates \<and> pl_ApprovalClass plan = ApprovalRead)
               BlockerContract ''step-or-risk-mismatch'' @
             blocker_if (requiresRecovery \<and> elems (rb_Assets (pl_Rollback plan)) = [])
               BlockerRecovery ''workflow-requirement'' @
             (if length permissions \<noteq> length (remdups expected)
              then [blocker BlockerPermission ''workflow-required-set'']
              else blocker_if (list_ex (\<lambda>p. planPermissionKey p \<notin> set expected) permissions)
                     BlockerPermission ''workflow-required-set''),
             minimum \<noteq> ApprovalRead \<or> mutates, requiresStepUp, requiresRecovery)))"

subsection \<open>The validators of the evidence\<close>

definition validateExposureExecutionTime :: "Plan \<Rightarrow> gotime \<Rightarrow> PlanBlocker list" where
  "validateExposureExecutionTime plan checkedAt =
     (case pl_ExposureControls plan of
        None \<Rightarrow> []
      | Some c \<Rightarrow>
          if xc_PermanentInternetWideAcknowledged c then []
          else if (case xc_ExpiresAt c of None \<Rightarrow> False | Some t \<Rightarrow> \<not> time_After t checkedAt)
          then [blocker BlockerExposure ''expired'']
          else if (case xc_ReviewAt c of None \<Rightarrow> False | Some t \<Rightarrow> utcDateAfter checkedAt t)
          then [blocker BlockerExposure ''review-overdue'']
          else [])"

text \<open>\<open>approval.ServerTimeCreated.Add(time.Duration(plan.CoolingOffSeconds) * time.Second)\<close>.\<close>

definition readyAt :: "Plan \<Rightarrow> ApprovalEvidence \<Rightarrow> gotime" where
  "readyAt plan approval =
     time_Add (ap_ServerTimeCreated approval) (wrap64 (pl_CoolingOffSeconds plan * second))"

definition approval_bound :: "Plan \<Rightarrow> ExecutionEvidence \<Rightarrow> ApprovalEvidence \<Rightarrow> bool" where
  "approval_bound plan evidence approval =
     (ap_PlanID approval = pl_PlanID plan \<and> ap_PlanHash approval = pl_PlanHash plan \<and>
      ap_ProjectID approval = pl_ProjectID plan \<and> ap_Environment approval = pl_Environment plan \<and>
      ap_EnvironmentClass approval = pl_EnvironmentClass plan \<and>
      ap_Principal approval = pl_Principal plan \<and>
      ap_RecordObject approval =
        ''plans/'' @ pl_Environment plan @ ''/'' @ pl_PlanID plan @ ''-approval.json'' \<and>
      validEvidenceTime (ap_ServerTimeCreated approval) \<and>
      \<not> time_Before (ap_ServerTimeCreated approval) (pl_CreatedAt plan) \<and>
      \<not> time_After (ap_ServerTimeCreated approval) (ev_CheckedAt evidence))"

definition validateApprovalEvidence :: "Plan \<Rightarrow> ExecutionEvidence \<Rightarrow> PlanBlocker list" where
  "validateApprovalEvidence plan evidence =
     (case ev_Approval evidence of
        None \<Rightarrow> [blocker BlockerApproval ''missing'']
      | Some approval \<Rightarrow>
          blocker_if (\<not> approval_bound plan evidence approval) BlockerApproval ''invalid-binding'' @
          blocker_if (time_Before (ev_CheckedAt evidence) (readyAt plan approval))
            BlockerCoolingOff ''not-elapsed'' @
          blocker_if (time_Before (ev_ObservedAt evidence) (readyAt plan approval))
            BlockerCoolingOff ''revalidation-before-elapse'' @
          blocker_if (case pl_Intent plan of
                        None \<Rightarrow> False
                      | Some intent \<Rightarrow>
                          time_Before (ap_ServerTimeCreated approval) (pi_WindowStart intent))
            BlockerApproval ''window-confirmation'')"

definition validateIntentEvidence :: "Plan \<Rightarrow> ExecutionEvidence \<Rightarrow> PlanBlocker list" where
  "validateIntentEvidence plan evidence =
     (case pl_Intent plan of
        None \<Rightarrow> blocker_if (ev_Intent evidence \<noteq> None) BlockerIntent ''unexpected''
      | Some planned \<Rightarrow>
          (case ev_Intent evidence of
             None \<Rightarrow> [blocker BlockerIntent ''missing'']
           | Some intent \<Rightarrow>
               blocker_if (ie_PlanID intent \<noteq> pl_PlanID plan \<or> ie_PlanHash intent \<noteq> pl_PlanHash plan \<or>
                           ie_ProjectID intent \<noteq> pl_ProjectID plan \<or>
                           ie_PolicyHash intent \<noteq> ph_Approved (pl_PolicyHash plan) \<or>
                           ie_Environment intent \<noteq> pl_Environment plan \<or>
                           ie_EnvironmentClass intent \<noteq> pl_EnvironmentClass plan \<or>
                           ie_Principal intent \<noteq> pl_Principal plan \<or>
                           \<not> time_Equal (ie_WindowStart intent) (pi_WindowStart planned) \<or>
                           \<not> time_Equal (ie_ValidUntil intent) (pi_ValidUntil planned) \<or>
                           \<not> ie_Active intent \<or> \<not> ie_SoleActive intent)
                 BlockerIntent ''invalid-binding'' @
               blocker_if (time_Before (ev_CheckedAt evidence) (ie_WindowStart intent))
                 BlockerIntent ''before-window'' @
               blocker_if (time_After (ev_CheckedAt evidence) (ie_ValidUntil intent))
                 BlockerIntent ''expired'' @
               blocker_if (time_Before (ev_ObservedAt evidence) (ie_WindowStart intent) \<or>
                           time_After (ev_ObservedAt evidence) (ie_ValidUntil intent))
                 BlockerIntent ''revalidation-outside-window''))"

text \<open>
  The three evidence validators that index the evidence by a key: a blocker for each element whose
  key was seen before, one for a wrong count, one for each expected element that is not confirmed.
\<close>

fun duplicate_blockers :: "('a \<Rightarrow> string) \<Rightarrow> PlanBlocker \<Rightarrow> string list \<Rightarrow> 'a list \<Rightarrow> PlanBlocker list" where
  "duplicate_blockers key b seen [] = []"
| "duplicate_blockers key b seen (x # xs) =
     (if key x \<in> set seen then [b] else []) @ duplicate_blockers key b (key x # seen) xs"

definition evidence_blockers ::
  "PlanBlockerKind \<Rightarrow> ('a \<Rightarrow> string) \<Rightarrow> ('a \<Rightarrow> 'a option \<Rightarrow> bool) \<Rightarrow> ('a \<Rightarrow> PlanBlocker) \<Rightarrow>
   'a list \<Rightarrow> 'a list \<Rightarrow> PlanBlocker list" where
  "evidence_blockers kind key confirmed missing observed expected =
     duplicate_blockers key (blocker kind ''duplicate-evidence'') [] observed @
     blocker_if (length observed \<noteq> length expected) kind ''incomplete-evidence'' @
     concat (map (\<lambda>x. if confirmed x (last_by key observed (key x)) then [] else [missing x]) expected)"

definition validatePreconditionEvidence :: "Plan \<Rightarrow> ExecutionEvidence \<Rightarrow> PlanBlocker list" where
  "validatePreconditionEvidence plan evidence =
     evidence_blockers BlockerPrecondition pp_ID
       (\<lambda>x current. pp_OK x \<and>
          (case current of None \<Rightarrow> False | Some c \<Rightarrow> pp_OK c \<and> pp_Detail c = pp_Detail x))
       (\<lambda>x. blocker BlockerPrecondition (pp_ID x))
       (ev_Preconditions evidence) (elems (pl_Preconditions plan))"

definition validateResourceEvidence :: "Plan \<Rightarrow> ExecutionEvidence \<Rightarrow> PlanBlocker list" where
  "validateResourceEvidence plan evidence =
     evidence_blockers BlockerResource stablePlanResourceKey (\<lambda>x current. current = Some x)
       (\<lambda>x. blocker BlockerResource (pr_Kind x @ ''/'' @ pr_Name x))
       (ev_Resources evidence) (elems (pl_Resources plan))"

definition validatePermissionEvidence :: "Plan \<Rightarrow> ExecutionEvidence \<Rightarrow> PlanBlocker list" where
  "validatePermissionEvidence plan evidence =
     evidence_blockers BlockerPermission planPermissionKey
       (\<lambda>x current. pm_Granted x \<and>
          (case current of None \<Rightarrow> False | Some c \<Rightarrow> pm_Granted c \<and> c = x))
       (\<lambda>x. \<lparr>bl_Kind = BlockerPermission, bl_ID = pm_Permission x, bl_Identity = pm_Identity x\<rparr>)
       (ev_Permissions evidence) (elems (pl_Permissions plan))"

definition validateRecoveryEvidence :: "Plan \<Rightarrow> ExecutionEvidence \<Rightarrow> bool \<Rightarrow> PlanBlocker list" where
  "validateRecoveryEvidence plan evidence required =
     (let assets = elems (rb_Assets (pl_Rollback plan)) in
      if \<not> required \<and> assets = [] then
        blocker_if (ev_RecoveryAssets evidence \<noteq> []) BlockerRecovery ''unexpected''
      else blocker_if (\<not> equalRecoveryAssets assets (ev_RecoveryAssets evidence))
             BlockerRecovery ''stale-or-mismatched'')"

definition stepup_bound :: "Plan \<Rightarrow> ExecutionEvidence \<Rightarrow> StepUpEvidence \<Rightarrow> bool" where
  "stepup_bound plan evidence stepUp =
     (su_PlanID stepUp = pl_PlanID plan \<and> su_PlanHash stepUp = pl_PlanHash plan \<and>
      su_ProjectID stepUp = pl_ProjectID plan \<and> su_Environment stepUp = pl_Environment plan \<and>
      su_EnvironmentClass stepUp = pl_EnvironmentClass plan \<and>
      su_Principal stepUp = pl_Principal plan \<and>
      validStepUpObject (su_RecordObject stepUp) plan \<and>
      validEvidenceTime (su_ServerTimeCreated stepUp) \<and>
      \<not> time_Before (su_ServerTimeCreated stepUp) (ev_ObservedAt evidence) \<and>
      \<not> time_After (su_ServerTimeCreated stepUp) (ev_CheckedAt evidence) \<and>
      \<not> time_Sub (ev_CheckedAt evidence) (su_ServerTimeCreated stepUp) \<ge> stepUpFreshness)"

definition validateStepUpEvidence :: "Plan \<Rightarrow> ExecutionEvidence \<Rightarrow> PlanBlocker list" where
  "validateStepUpEvidence plan evidence =
     (if \<not> pl_StepUpRequired plan then
        blocker_if (ev_StepUp evidence \<noteq> None) BlockerStepUp ''unexpected''
      else case ev_StepUp evidence of
        None \<Rightarrow> [blocker BlockerStepUp ''missing'']
      | Some stepUp \<Rightarrow>
          blocker_if (\<not> stepup_bound plan evidence stepUp) BlockerStepUp ''invalid-or-stale'' @
          blocker_if (case ev_Approval evidence of
                        None \<Rightarrow> True
                      | Some approval \<Rightarrow>
                          time_Before (su_ServerTimeCreated stepUp) (readyAt plan approval))
            BlockerStepUp ''before-revalidation'')"

subsection \<open>The gate\<close>

definition time_blockers :: "Plan \<Rightarrow> ExecutionEvidence \<Rightarrow> PlanBlocker list" where
  "time_blockers plan evidence =
     blocker_if (\<not> validEvidenceTime (ev_ObservedAt evidence) \<or>
                 time_After (ev_ObservedAt evidence) (ev_CheckedAt evidence) \<or>
                 time_Before (ev_ObservedAt evidence) (pl_CreatedAt plan))
       BlockerPlanTime ''fresh-observation'' @
     blocker_if (time_Sub (ev_CheckedAt evidence) (ev_ObservedAt evidence) > executionEvidenceFreshness)
       BlockerPlanTime ''stale-observation'' @
     blocker_if (time_Before (ev_CheckedAt evidence) (pl_CreatedAt plan))
       BlockerPlanTime ''before-plan-creation''"

definition evidence_bound :: "Plan \<Rightarrow> ExecutionEvidence \<Rightarrow> bool" where
  "evidence_bound plan evidence =
     (ev_PlanID evidence = pl_PlanID plan \<and> ev_PlanHash evidence = pl_PlanHash plan \<and>
      ev_ProjectID evidence = pl_ProjectID plan \<and> ev_Environment evidence = pl_Environment plan \<and>
      ev_EnvironmentClass evidence = pl_EnvironmentClass plan \<and> ev_Principal evidence = pl_Principal plan)"

definition execution_blockers :: "Plan \<Rightarrow> ExecutionEvidence \<Rightarrow> ExecutionContract \<Rightarrow> PlanBlocker list" where
  "execution_blockers plan evidence contract =
     (case validateExecutionContract plan contract of
        (contractBlockers, contractRequiresApproval, contractRequiresStepUp, contractRequiresRecovery) \<Rightarrow>
          time_blockers plan evidence @
          blocker_if (\<not> evidence_bound plan evidence) BlockerPlanBinding ''execution-evidence'' @
          contractBlockers @
          validateExposureExecutionTime plan (ev_CheckedAt evidence) @
          (if contractRequiresApproval \<or> pl_ApprovalClass plan \<noteq> ApprovalRead \<or> pl_Intent plan \<noteq> None
           then validateApprovalEvidence plan evidence
           else blocker_if (ev_Approval evidence \<noteq> None) BlockerApproval ''unexpected'') @
          validateIntentEvidence plan evidence @
          blocker_if (\<not> ph_Match (pl_PolicyHash plan) \<or> ev_PolicyHash evidence \<noteq> pl_PolicyHash plan \<or>
                      \<not> ph_Match (ev_PolicyHash evidence)) BlockerPolicy ''approved-policy-hash'' @
          validatePreconditionEvidence plan evidence @
          validateResourceEvidence plan evidence @
          validateRecoveryEvidence plan evidence contractRequiresRecovery @
          validatePermissionEvidence plan evidence @
          blocker_if (pl_StepUpRequired plan \<noteq>
                      (pl_EnvironmentClass plan = EnvironmentProduction \<and> contractRequiresStepUp))
            BlockerStepUp ''workflow-requirement'' @
          validateStepUpEvidence plan evidence)"

definition ValidatePlanForExecution ::
  "(Plan \<Rightarrow> string option) \<Rightarrow> (string \<Rightarrow> string) \<Rightarrow>
   Plan \<Rightarrow> ExecutionEvidence \<Rightarrow> ExecutionContract \<Rightarrow> gate_error option" where
  "ValidatePlanForExecution marshal sha256hex plan evidence contract =
     (case ValidatePlan marshal sha256hex plan of
        Some e \<Rightarrow> Some (GateInvalid e)
      | None \<Rightarrow>
          if \<not> validEvidenceTime (ev_CheckedAt evidence) then
            Some (GateBlocked (pl_PlanID plan) [blocker BlockerPlanTime ''checked-at''])
          else
            (case ValidatePlanAt marshal sha256hex plan (ev_CheckedAt evidence) of
               Some e \<Rightarrow> Some (GateInvalid e)
             | None \<Rightarrow>
                 (let blockers = execution_blockers plan evidence contract in
                  if blockers \<noteq> [] then Some (GateBlocked (pl_PlanID plan) blockers) else None)))"

end
