(* ===== verification/PlanGateGuarantees.thy ===== *)
theory PlanGateGuarantees
  imports PlanGate
begin

section \<open>internal/policy: what the execution gate guarantees (permission.go)\<close>

text \<open>
  Consequences of \<open>ValidatePlanForExecution = nil\<close>: the plan runs the steps of its contract, within its
  times, with the approval, the permissions, the resources, the recovery assets and the step-up that
  the contract and the plan ask for, as the evidence shows them now.
\<close>

subsection \<open>Blockers\<close>

lemma blocker_if_Nil [simp]: "blocker_if c k i = [] \<longleftrightarrow> \<not> c"
  by (simp add: blocker_if_def)

lemma duplicate_blockers_Nil:
  "duplicate_blockers key b seen xs = [] \<longleftrightarrow> distinct (map key xs) \<and> set (map key xs) \<inter> set seen = {}"
  by (induction xs arbitrary: seen) auto

lemma evidence_blockers_Nil:
  "evidence_blockers kind key confirmed missing observed expected = [] \<longleftrightarrow>
     distinct (map key observed) \<and> length observed = length expected \<and>
     (\<forall>x \<in> set expected. confirmed x (last_by key observed (key x)))"
  by (auto simp: evidence_blockers_def duplicate_blockers_Nil)

text \<open>An accepted plan, component by component.\<close>

lemma gate_None:
  assumes "ValidatePlanForExecution marshal sha256hex p ev c = None"
  shows "ValidatePlan marshal sha256hex p = None" and "validatePlanStructure p = None"
    and "t_ns (ev_CheckedAt ev) < t_ns (pl_ExpiresAt p)" and "execution_blockers p ev c = []"
proof -
  from assms show v: "ValidatePlan marshal sha256hex p = None"
    by (simp add: ValidatePlanForExecution_def split: option.splits)
  from v show "validatePlanStructure p = None" by (simp add: ValidatePlan_def plan_seal.verify_None)
  from assms v show "t_ns (ev_CheckedAt ev) < t_ns (pl_ExpiresAt p)" "execution_blockers p ev c = []"
    by (auto simp: ValidatePlanForExecution_def ValidatePlanAt_def time_Before_def Let_def
        split: option.splits if_splits)
qed

text \<open>The contract part accepts: what it returns beside the empty list.\<close>

definition contract_needs_approval :: "ExecutionContract \<Rightarrow> bool" where
  "contract_needs_approval c =
     (minimumApproval (ec_steps c) \<noteq> ApprovalRead \<or> mutationCapable (ec_steps c))"

lemma execution_contract_Nil:
  assumes "validateExecutionContract p c = ([], a, s, r)"
  shows "a = contract_needs_approval c" and "s = list_ex sc_RequiresStepUp (ec_steps c)"
    and "r = list_ex sc_RequiresRecoveryAsset (ec_steps c)"
    and "ec_workflowID c = pl_WorkflowID p" and "length (ec_steps c) = length (elems (pl_Steps p))"
    and "planMatchesExposureRequirement p (exposureRequirement (ec_steps c))
           (bs_exposureTargets (bind_steps p (ec_steps c)))"
    and "\<not> bs_mismatch (bind_steps p (ec_steps c))"
    and "minimumApproval (ec_steps c) \<le> pl_ApprovalClass p"
    and "mutationCapable (ec_steps c) \<longrightarrow> pl_ApprovalClass p \<noteq> ApprovalRead"
    and "length (elems (pl_Permissions p)) =
           card (set (bs_expectedPermissions (bind_steps p (ec_steps c))))"
    and "\<forall>q \<in> set (elems (pl_Permissions p)).
           planPermissionKey q \<in> set (bs_expectedPermissions (bind_steps p (ec_steps c)))"
  using assms
  by (auto simp: validateExecutionContract_def Let_def contract_needs_approval_def not_less
      length_remdups_card_conv list_ex_iff split: if_splits)

lemma execution_blockers_Nil:
  assumes "execution_blockers p ev c = []"
  shows "time_blockers p ev = []" and "evidence_bound p ev"
    and "\<exists>a s r. validateExecutionContract p c = ([], a, s, r)"
    and "validateExposureExecutionTime p (ev_CheckedAt ev) = []"
    and "contract_needs_approval c \<or> pl_ApprovalClass p \<noteq> ApprovalRead \<or> pl_Intent p \<noteq> None \<Longrightarrow>
         validateApprovalEvidence p ev = []"
    and "validateIntentEvidence p ev = []"
    and "ph_Match (pl_PolicyHash p) \<and> ev_PolicyHash ev = pl_PolicyHash p"
    and "validatePreconditionEvidence p ev = []" and "validateResourceEvidence p ev = []"
    and "validateRecoveryEvidence p ev (list_ex sc_RequiresRecoveryAsset (ec_steps c)) = []"
    and "validatePermissionEvidence p ev = []"
    and "pl_StepUpRequired p \<longleftrightarrow>
         pl_EnvironmentClass p = EnvironmentProduction \<and> list_ex sc_RequiresStepUp (ec_steps c)"
    and "validateStepUpEvidence p ev = []"
proof -
  obtain b a s r where v: "validateExecutionContract p c = (b, a, s, r)"
    by (cases "validateExecutionContract p c") auto
  from assms v have "b = []" by (simp add: execution_blockers_def)
  with v have v: "validateExecutionContract p c = ([], a, s, r)" by simp
  note parts = execution_contract_Nil(1-3) [OF v]
  from v show "\<exists>a s r. validateExecutionContract p c = ([], a, s, r)" by blast
  show "contract_needs_approval c \<or> pl_ApprovalClass p \<noteq> ApprovalRead \<or> pl_Intent p \<noteq> None \<Longrightarrow>
         validateApprovalEvidence p ev = []"
    using assms v parts by (auto simp: execution_blockers_def split: if_splits)
  show "time_blockers p ev = []" "evidence_bound p ev"
    "validateExposureExecutionTime p (ev_CheckedAt ev) = []" "validateIntentEvidence p ev = []"
    "ph_Match (pl_PolicyHash p) \<and> ev_PolicyHash ev = pl_PolicyHash p"
    "validatePreconditionEvidence p ev = []" "validateResourceEvidence p ev = []"
    "validateRecoveryEvidence p ev (list_ex sc_RequiresRecoveryAsset (ec_steps c)) = []"
    "validatePermissionEvidence p ev = []"
    "pl_StepUpRequired p \<longleftrightarrow>
         pl_EnvironmentClass p = EnvironmentProduction \<and> list_ex sc_RequiresStepUp (ec_steps c)"
    "validateStepUpEvidence p ev = []"
    using assms v parts by (simp_all add: execution_blockers_def)
qed

subsection \<open>Steps of the contract\<close>

text \<open>A target of a step that the contract accepts, and the permission keys it calls for.\<close>

definition target_ok :: "Plan \<Rightarrow> ExecutionStepContract \<Rightarrow> PlanResource \<Rightarrow> bool" where
  "target_ok p e t =
     (pr_Kind t \<in> set (sc_TargetKinds e) \<and>
      (sc_RequiresRecoveryAsset e \<longrightarrow> recoveryAssetsCover (elems (rb_Assets (pl_Rollback p))) t))"

definition required_permission :: "PlanStep \<Rightarrow> PlanResource \<Rightarrow> bool \<Rightarrow> string \<Rightarrow> PlanPermission" where
  "required_permission s t granted permission =
     \<lparr>pm_StepID = ps_ID s, pm_Identity = ps_ExecutingIdentity s, pm_Permission = permission,
      pm_Resource = t, pm_Granted = granted\<rparr>"

definition target_keys :: "PlanStep \<Rightarrow> ExecutionStepContract \<Rightarrow> PlanResource \<Rightarrow> string set" where
  "target_keys s e t = (planPermissionKey \<circ> required_permission s t False) ` set (sc_RequiredPermissions e)"

lemma bind_targets_ok:
  assumes "\<not> bs_mismatch (foldl (bind_target p s e) st ts)"
  shows "\<not> bs_mismatch st \<and> (\<forall>t \<in> set ts. target_ok p e t) \<and>
     set (bs_expectedPermissions (foldl (bind_target p s e) st ts)) =
       set (bs_expectedPermissions st) \<union> (\<Union>t \<in> set ts. target_keys s e t) \<and>
     set (bs_exposureTargets (foldl (bind_target p s e) st ts)) =
       set (bs_exposureTargets st) \<union>
       (if sc_ExposureRequirement e \<noteq> None then planResourceKey ` set ts else {})"
  using assms
proof (induction ts arbitrary: st)
  case Nil
  then show ?case by simp
next
  case (Cons t ts)
  let ?st = "bind_target p s e st t"
  from Cons.IH [of ?st] Cons.prems have
    step: "\<not> bs_mismatch ?st" and
    rest: "\<forall>t \<in> set ts. target_ok p e t"
      "set (bs_expectedPermissions (foldl (bind_target p s e) ?st ts)) =
         set (bs_expectedPermissions ?st) \<union> (\<Union>t \<in> set ts. target_keys s e t)"
      "set (bs_exposureTargets (foldl (bind_target p s e) ?st ts)) =
         set (bs_exposureTargets ?st) \<union>
         (if sc_ExposureRequirement e \<noteq> None then planResourceKey ` set ts else {})"
    by simp_all
  from step have kind: "pr_Kind t \<in> set (sc_TargetKinds e)"
    by (auto simp: bind_target_def split: if_splits)
  with step have now: "\<not> bs_mismatch st" "target_ok p e t"
    "set (bs_expectedPermissions ?st) = set (bs_expectedPermissions st) \<union> target_keys s e t"
    "set (bs_exposureTargets ?st) = set (bs_exposureTargets st) \<union>
       (if sc_ExposureRequirement e \<noteq> None then {planResourceKey t} else {})"
    by (auto simp: bind_target_def target_ok_def target_keys_def required_permission_def)
  from now rest show ?case by auto
qed

definition step_bound :: "Plan \<Rightarrow> PlanStep \<Rightarrow> ExecutionStepContract \<Rightarrow> bool" where
  "step_bound p s e =
     (ps_ID s = sc_ID e \<and> planStepMatchesContract s e \<and>
      list_all (target_ok p e) (elems (ps_Targets s)))"

lemma bind_pairs_ok:
  assumes "\<not> bs_mismatch (foldl (bind_step p) st pairs)"
  shows "\<not> bs_mismatch st \<and> (\<forall>(s, e) \<in> set pairs. step_bound p s e) \<and>
     set (bs_expectedPermissions (foldl (bind_step p) st pairs)) =
       set (bs_expectedPermissions st) \<union>
       (\<Union>(s, e) \<in> set pairs. \<Union>t \<in> set (elems (ps_Targets s)). target_keys s e t) \<and>
     set (bs_exposureTargets (foldl (bind_step p) st pairs)) =
       set (bs_exposureTargets st) \<union>
       (\<Union>(s, e) \<in> set pairs. if sc_ExposureRequirement e \<noteq> None
          then planResourceKey ` set (elems (ps_Targets s)) else {})"
  using assms
proof (induction pairs arbitrary: st)
  case Nil
  then show ?case by simp
next
  case (Cons pair pairs)
  obtain s e where pair: "pair = (s, e)" by (cases pair)
  let ?st = "bind_step p st (s, e)"
  note IH = Cons.IH [of ?st]
  from IH Cons.prems have step: "\<not> bs_mismatch ?st" by (simp add: pair)
  then have id: "ps_ID s = sc_ID e \<and> planStepMatchesContract s e"
    by (auto simp: bind_step_def split: if_splits)
  then have st: "?st = foldl (bind_target p s e) st (elems (ps_Targets s))"
    by (simp add: bind_step_def)
  from bind_targets_ok [of p s e st "elems (ps_Targets s)"] step
  have now: "\<not> bs_mismatch st" "step_bound p s e"
    "set (bs_expectedPermissions ?st) =
       set (bs_expectedPermissions st) \<union> (\<Union>t \<in> set (elems (ps_Targets s)). target_keys s e t)"
    "set (bs_exposureTargets ?st) =
       set (bs_exposureTargets st) \<union>
       (if sc_ExposureRequirement e \<noteq> None then planResourceKey ` set (elems (ps_Targets s)) else {})"
    using id by (simp_all add: st step_bound_def list_all_iff)
  from IH Cons.prems now show ?case by (simp add: pair Un_assoc)
qed

lemma bind_steps_ok:
  assumes "\<not> bs_mismatch (bind_steps p es)" and "length es = length (elems (pl_Steps p))"
  shows "list_all2 (step_bound p) (elems (pl_Steps p)) es"
    and "set (bs_expectedPermissions (bind_steps p es)) =
       (\<Union>(s, e) \<in> set (zip (elems (pl_Steps p)) es). \<Union>t \<in> set (elems (ps_Targets s)). target_keys s e t)"
    and "set (bs_exposureTargets (bind_steps p es)) =
       (\<Union>(s, e) \<in> set (zip (elems (pl_Steps p)) es).
          if sc_ExposureRequirement e \<noteq> None then planResourceKey ` set (elems (ps_Targets s)) else {})"
  using bind_pairs_ok [OF assms(1) [unfolded bind_steps_def]] assms(2)
  by (auto simp: bind_steps_def list_all2_iff)

lemma minimumApproval_fold:
  "m \<le> foldl (\<lambda>m s. if sc_MinimumApproval s > m then sc_MinimumApproval s else m) m es \<and>
   (\<forall>e \<in> set es. sc_MinimumApproval e \<le>
      foldl (\<lambda>m s. if sc_MinimumApproval s > m then sc_MinimumApproval s else m) m es)"
proof (induction es arbitrary: m)
  case (Cons e es)
  let ?m = "if sc_MinimumApproval e > m then sc_MinimumApproval e else m"
  have "m \<le> ?m" "sc_MinimumApproval e \<le> ?m" by auto
  with Cons [of ?m] show ?case by (auto intro: order_trans)
qed simp

lemma minimumApproval_upper: "e \<in> set es \<Longrightarrow> sc_MinimumApproval e \<le> minimumApproval es"
  using minimumApproval_fold [of ApprovalRead es] by (simp add: minimumApproval_def)

subsection \<open>Permission keys\<close>

lemma ExecutionIdentity_nul_free: "ExecutionIdentity_Valid i \<Longrightarrow> nul_free (ExecutionIdentity_string i)"
  by (cases i) (simp_all add: nul_free_def)

lemma ExecutionIdentity_inject:
  "ExecutionIdentity_Valid i \<Longrightarrow> ExecutionIdentity_Valid j \<Longrightarrow>
     ExecutionIdentity_string i = ExecutionIdentity_string j \<Longrightarrow> i = j"
  using ExecutionIdentity_enum.enum_of_str by (metis ExecutionIdentity_Valid_def)

lemma permission_nul_free: "permissionPattern s \<Longrightarrow> nul_free s"
proof -
  assume s: "permissionPattern s"
  obtain w ws where words: "split_on CHR ''.'' s = w # ws" by (cases "split_on CHR ''.'' s") auto
  have free: "nul_free v" if "v \<noteq> []" "P (hd v)" "list_all Q (tl v)" "\<not> P (CHR 0x00)" "\<not> Q (CHR 0x00)"
    for v P Q
    using that by (cases v) (auto simp: nul_free_def list_all_iff)
  have first: "nul_free w"
    using s words by (intro free [of w is_lower "\<lambda>c. is_lower c \<or> is_digit c"])
      (auto simp: permissionPattern_def char_class_defs)
  have rest: "nul_free v" if "v \<in> set ws" for v
    using s words that by (intro free [of v "\<lambda>c. is_lower c \<or> is_upper c" is_alnum])
      (auto simp: permissionPattern_def list_all_iff char_class_defs)
  from first rest have "list_all nul_free (w # ws)" by (simp add: list_all_iff)
  then show ?thesis using set_split_on [of s "CHR ''.''"] words by (auto simp: nul_free_def list_all_iff)
qed

lemma planPermissionKey_alt: "planPermissionKey = permission_key"
  by (rule ext) (simp add: planPermissionKey_def permission_key_def planResourceKey_def)

text \<open>Two permissions with well-formed fields and equal keys name the same step, identity and permission.\<close>

lemma permission_key_inject:
  assumes key: "permission_key q = permission_key r"
    and q: "identifierPattern (pm_StepID q)" "ExecutionIdentity_Valid (pm_Identity q)" "permissionPattern (pm_Permission q)"
    and r: "identifierPattern (pm_StepID r)" "ExecutionIdentity_Valid (pm_Identity r)" "permissionPattern (pm_Permission r)"
  shows "pm_StepID q = pm_StepID r \<and> pm_Identity q = pm_Identity r \<and> pm_Permission q = pm_Permission r \<and>
     planResourceKey (pm_Resource q) = planResourceKey (pm_Resource r)"
proof -
  let ?i = "\<lambda>q. ExecutionIdentity_string (pm_Identity q)"
  have 1: "pm_StepID q = pm_StepID r \<and>
      ?i q @ nul @ pm_Permission q @ nul @ planResourceKey (pm_Resource q) =
      ?i r @ nul @ pm_Permission r @ nul @ planResourceKey (pm_Resource r)"
    using key q r unfolding permission_key_def by (intro append_nul_inject identifier_nul_free)
  then have 2: "?i q = ?i r \<and> pm_Permission q @ nul @ planResourceKey (pm_Resource q) =
      pm_Permission r @ nul @ planResourceKey (pm_Resource r)"
    using q r by (intro append_nul_inject ExecutionIdentity_nul_free) auto
  then have "pm_Permission q = pm_Permission r \<and> planResourceKey (pm_Resource q) = planResourceKey (pm_Resource r)"
    using q r by (intro append_nul_inject permission_nul_free) auto
  with 1 2 q r show ?thesis by (auto intro: ExecutionIdentity_inject)
qed

lemma validatePlanStructure_distinct_resources:
  "validatePlanStructure p = None \<Longrightarrow> distinct (elems (pl_Resources p))"
  using valid_plan_parts(1) [of p] by (simp add: validateResources_None distinct_map)

lemma evidence_same:
  assumes "evidence_blockers kind key confirmed missing observed expected = []"
    and "distinct expected" and "\<And>x c. confirmed x c \<Longrightarrow> \<exists>y. c = Some y \<and> (key y = key x \<longrightarrow> y = x)"
  shows "set observed = set expected"
proof -
  from assms(1) have obs: "distinct (map key observed)" "length observed = length expected"
    "\<forall>x \<in> set expected. confirmed x (last_by key observed (key x))"
    by (auto simp: evidence_blockers_Nil)
  have "set expected \<subseteq> set observed"
  proof
    fix x assume "x \<in> set expected"
    with obs(3) assms(3) obtain y where "last_by key observed (key x) = Some y" "key y = key x \<longrightarrow> y = x" by blast
    with last_by_Some [OF this(1)] show "x \<in> set observed" by auto
  qed
  moreover have "card (set expected) = card (set observed)"
    using obs(1,2) assms(2) by (simp add: distinct_map distinct_card)
  ultimately have "set expected = set observed" by (simp add: card_subset_eq)
  then show ?thesis by simp
qed

lemma equal_times: "equalOptionalTime x y \<longleftrightarrow> map_option t_ns y = map_option t_ns x"
  by (cases x; cases y) (auto simp: equalOptionalTime_def time_Equal_def)

lemma equal_resources: "equalPlanResources xs ys \<longleftrightarrow> ys = xs"
  by (auto simp: equalPlanResources_def list.rel_eq)

lemma list_all2_in_set: "list_all2 P xs ys \<Longrightarrow> x \<in> set xs \<Longrightarrow> \<exists>y \<in> set ys. P x y"
  by (induction rule: list_all2_induct) auto

subsection \<open>Properties\<close>

text \<open>
  C7. A plan that passes the gate runs its contract: its steps are the contract's steps in order, each with
  the executor, identity, command, idempotence, retry policy, cancel safety, timeout, success condition
  and failure behaviour of the contract and with targets of the allowed kinds only; its approval class
  is not below that of any step, and is above read when a step mutates.
\<close>

theorem gate_runs_the_contract:
  assumes "ValidatePlanForExecution marshal sha256hex p ev c = None"
  shows "ec_workflowID c = pl_WorkflowID p \<and>
     list_all2 (\<lambda>s e. ps_ID s = sc_ID e \<and> ps_Executor s = sc_Executor e \<and>
         ps_ExecutingIdentity s = sc_ExecutingIdentity e \<and> ps_CommandRedacted s = sc_CommandSummary e \<and>
         ps_Idempotent s = sc_Idempotent e \<and> ps_Retry s = sc_Retry e \<and> ps_CancelSafe s = sc_CancelSafe e \<and>
         ps_TimeoutSeconds s = sc_TimeoutSeconds e \<and> ps_SuccessCondition s = sc_SuccessCondition e \<and>
         ps_FailureBehavior s = sc_FailureBehavior e \<and>
         list_all (\<lambda>t. pr_Kind t \<in> set (sc_TargetKinds e)) (elems (ps_Targets s)))
       (elems (pl_Steps p)) (ec_steps c) \<and>
     list_all (\<lambda>e. sc_MinimumApproval e \<le> pl_ApprovalClass p \<and>
         (sc_Effect e = StepEffectMutation \<longrightarrow> 1 \<le> pl_ApprovalClass p)) (ec_steps c)"
proof -
  note gate = gate_None [OF assms]
  from execution_blockers_Nil(3) [OF gate(4)] obtain a s r where
    v: "validateExecutionContract p c = ([], a, s, r)" by blast
  note contract = execution_contract_Nil [OF v]
  note steps = list_all2_mono [OF bind_steps_ok(1) [OF contract(7,5)]]
  have approval: "sc_MinimumApproval e \<le> pl_ApprovalClass p" if "e \<in> set (ec_steps c)" for e
    using minimumApproval_upper [OF that] contract(8) by (rule order_trans)
  have "1 \<le> pl_ApprovalClass p" if "e \<in> set (ec_steps c)" "sc_Effect e = StepEffectMutation" for e
  proof -
    have "pl_ApprovalClass p \<noteq> 0" using that contract(9)
      by (auto simp: mutationCapable_def list_ex_iff ApprovalRead_def)
    then show ?thesis by (simp add: word_le_nat_alt unat_gt_0 Suc_le_eq)
  qed
  with approval contract(4) show ?thesis
    by (auto simp: list_all_iff step_bound_def target_ok_def planStepMatchesContract_def intro!: steps)
qed

text \<open>
  C8. No step runs without its permissions: for a contract that \<open>NewExecutionContract\<close> built, the current
  evidence shows every permission that the contract requires of a step, granted to the identity of that
  step on every target of it.
\<close>

theorem gate_permissions_granted:
  assumes "ValidatePlanForExecution marshal sha256hex p ev c = None"
    and "NewExecutionContract marshal' sha256hex' w b ponr trigger es = Inr c"
    and "(s, e) \<in> set (zip (elems (pl_Steps p)) (ec_steps c))" and "t \<in> set (elems (ps_Targets s))"
    and "permission \<in> set (sc_RequiredPermissions e)"
  shows "required_permission s t True permission \<in> set (ev_Permissions ev)"
proof -
  note gate = gate_None [OF assms(1)]
  note parts = valid_plan_parts [OF gate(2)]
  note steps = validateSteps_None [OF parts(2)]
  note perms = validatePermissions_None [OF parts(3)]
  from execution_blockers_Nil(3) [OF gate(4)] obtain a u r where
    v: "validateExecutionContract p c = ([], a, u, r)" by blast
  note contract = execution_contract_Nil [OF v]
  note bound = bind_steps_ok [OF contract(7,5)]
  let ?keys = "set (bs_expectedPermissions (bind_steps p (ec_steps c)))"
  let ?perms = "elems (pl_Permissions p)"
  have s: "s \<in> set (elems (pl_Steps p))" and e: "e \<in> set (ec_steps c)"
    using assms(3) by (auto dest: set_zip_leftD set_zip_rightD)
  have keys: "planPermissionKey ` set ?perms = ?keys"
  proof (rule card_subset_eq)
    show "planPermissionKey ` set ?perms \<subseteq> ?keys" using contract(11) by auto
    have "distinct (map planPermissionKey ?perms)" using perms by (simp add: planPermissionKey_alt)
    then have "card (planPermissionKey ` set ?perms) = length ?perms"
      by (metis distinct_card length_map set_map)
    then show "card (planPermissionKey ` set ?perms) = card ?keys" using contract(10) by simp
  qed simp
  have "planPermissionKey (required_permission s t False permission) \<in> ?keys"
    unfolding bound(2) using assms(3-5) by (force simp: target_keys_def)
  then obtain q where q: "q \<in> set ?perms"
    "planPermissionKey q = planPermissionKey (required_permission s t False permission)"
    using keys by (metis imageE)
  let ?r = "required_permission s t False permission"
  have "step_contract_ok e"
    using assms(2) e by (auto simp: contract_accepts_iff contract_spec_def)
  then have perm: "permissionPattern permission" using assms(5) by (auto simp: step_contract_ok_def)
  have sok: "step_ok (elems (pl_Resources p)) s" using steps s by (simp add: list_all_iff)
  have qok: "permission_ok (elems (pl_Steps p)) (elems (pl_Resources p)) q" using perms q by blast
  then have qid: "identifierPattern (pm_StepID q)"
    using steps by (auto simp: permission_ok_def list_all_iff step_ok_def)
  have same: "pm_StepID q = ps_ID s \<and> pm_Identity q = ps_ExecutingIdentity s \<and>
      pm_Permission q = permission \<and> planResourceKey (pm_Resource q) = planResourceKey t"
    using permission_key_inject [of q ?r] q(2) qid qok sok perm
    by (simp add: planPermissionKey_alt required_permission_def permission_ok_def step_ok_def)
  note cover = steps_cover [of "elems (pl_Resources p)" "elems (pl_Steps p)"]
  have "t \<in> set (elems (pl_Resources p))" using assms(4) s cover steps by blast
  moreover have "pm_Resource q \<in> set (elems (pl_Resources p))" using qok by (simp add: permission_ok_def)
  ultimately have "pm_Resource q = t" using same cover steps by (auto dest: inj_onD)
  moreover have "pm_Granted q \<and> q \<in> set (ev_Permissions ev)"
    using execution_blockers_Nil(11) [OF gate(4)] q(1) last_by_Some [of planPermissionKey "ev_Permissions ev"]
    by (fastforce simp: validatePermissionEvidence_def evidence_blockers_Nil split: option.splits)
  moreover have "q = required_permission s t True permission" if "pm_Resource q = t" "pm_Granted q"
    using same that by (cases q) (simp add: required_permission_def)
  ultimately show ?thesis by simp
qed

text \<open>Years 1 to 9999, the times that can be written in RFC 3339.\<close>

definition calendar_time :: "gotime \<Rightarrow> bool" where
  "calendar_time t = (0 \<le> t_ns t \<and> t_ns t < 366 * 10000 * 24 * hour)"

lemma readyAt_exact:
  assumes "calendar_time (pl_CreatedAt p)" and "calendar_time (pl_ExpiresAt p)"
    and "t_ns (pl_CreatedAt p) \<le> t_ns (ap_ServerTimeCreated a)"
    and "t_ns (ap_ServerTimeCreated a) \<le> t_ns (pl_ExpiresAt p)"
    and "validatePlanStructure p = None"
  shows "t_ns (readyAt p a) = t_ns (ap_ServerTimeCreated a) + pl_CoolingOffSeconds p * second"
proof -
  from validatePlanStructure_times [OF assms(5)] have
    cooling: "0 \<le> pl_CoolingOffSeconds p" "is_int64 (pl_CoolingOffSeconds p * second)" by auto
  then have "0 \<le> pl_CoolingOffSeconds p * second" by (simp add: second_def)
  then show ?thesis
    using assms(1-4) cooling
    by (simp add: readyAt_def wrap64_id time_Add_exact calendar_time_def duration_defs int64_defs)
qed

lemma gate_times:
  assumes "ValidatePlanForExecution marshal sha256hex p ev c = None"
  shows "t_ns (pl_CreatedAt p) \<le> t_ns (ev_ObservedAt ev)" and "t_ns (ev_ObservedAt ev) \<le> t_ns (ev_CheckedAt ev)"
    and "t_ns (ev_CheckedAt ev) < t_ns (pl_ExpiresAt p)"
    and "t_ns (ev_CheckedAt ev) - t_ns (ev_ObservedAt ev) \<le> 10 * minute"
proof -
  note gate = gate_None [OF assms]
  from execution_blockers_Nil(1) [OF gate(4)]
  show "t_ns (pl_CreatedAt p) \<le> t_ns (ev_ObservedAt ev)" "t_ns (ev_ObservedAt ev) \<le> t_ns (ev_CheckedAt ev)"
    "t_ns (ev_CheckedAt ev) - t_ns (ev_ObservedAt ev) \<le> 10 * minute"
    by (auto simp: time_blockers_def time_After_def time_Before_def not_less executionEvidenceFreshness_def
        time_Sub_le duration_defs int64_defs)
  from gate(3) show "t_ns (ev_CheckedAt ev) < t_ns (pl_ExpiresAt p)" .
qed

text \<open>
  C9. Nothing is changed without approval: when the contract has a mutating step, or the plan is above read
  or scheduled, the gate accepts only with an approval record for this very plan (identifier, hash,
  project, environment, class, principal, object name), made between its creation and the check; the whole
  cooling-off period lies between the approval and the last revalidation, which is at most ten minutes
  old at the check, before the plan expires; and a scheduled plan was approved, revalidated and checked
  inside its window. The plan is one whose creation and expiry lie in the years 1 to 9999, the only years
  that its JSON document can carry: within them the cooling-off period cannot overflow a duration.
\<close>

theorem gate_requires_approval:
  assumes "ValidatePlanForExecution marshal sha256hex p ev c = None"
    and "calendar_time (pl_CreatedAt p)" and "calendar_time (pl_ExpiresAt p)"
    and "list_ex (\<lambda>e. sc_Effect e = StepEffectMutation) (ec_steps c) \<or>
         pl_ApprovalClass p \<noteq> ApprovalRead \<or> pl_Intent p \<noteq> None"
  shows "\<exists>a. ev_Approval ev = Some a \<and>
     ap_PlanID a = pl_PlanID p \<and> ap_PlanHash a = pl_PlanHash p \<and> ap_ProjectID a = pl_ProjectID p \<and>
     ap_Environment a = pl_Environment p \<and> ap_EnvironmentClass a = pl_EnvironmentClass p \<and>
     ap_Principal a = pl_Principal p \<and>
     ap_RecordObject a = ''plans/'' @ pl_Environment p @ ''/'' @ pl_PlanID p @ ''-approval.json'' \<and>
     t_zone (ap_ServerTimeCreated a) = 0 \<and>
     t_ns (pl_CreatedAt p) \<le> t_ns (ap_ServerTimeCreated a) \<and>
     t_ns (ap_ServerTimeCreated a) + pl_CoolingOffSeconds p * second \<le> t_ns (ev_ObservedAt ev) \<and>
     t_ns (ap_ServerTimeCreated a) \<le> t_ns (ev_CheckedAt ev) \<and>
     t_ns (ev_ObservedAt ev) \<le> t_ns (ev_CheckedAt ev) \<and>
     t_ns (ev_CheckedAt ev) - t_ns (ev_ObservedAt ev) \<le> 10 * minute \<and>
     t_ns (ev_CheckedAt ev) < t_ns (pl_ExpiresAt p) \<and>
     (\<forall>w. pl_Intent p = Some w \<longrightarrow>
        t_ns (pi_WindowStart w) \<le> t_ns (ap_ServerTimeCreated a) \<and>
        t_ns (pi_WindowStart w) \<le> t_ns (ev_ObservedAt ev) \<and> t_ns (ev_CheckedAt ev) \<le> t_ns (pi_ValidUntil w))"
proof -
  note gate = gate_None [OF assms(1)]
  note times = gate_times [OF assms(1)]
  note blockers = execution_blockers_Nil [OF gate(4)]
  have "contract_needs_approval c \<or> pl_ApprovalClass p \<noteq> ApprovalRead \<or> pl_Intent p \<noteq> None"
    using assms(4) by (auto simp: contract_needs_approval_def mutationCapable_def)
  from blockers(5) [OF this] obtain a where
    a: "ev_Approval ev = Some a" "approval_bound p ev a" "\<not> time_Before (ev_ObservedAt ev) (readyAt p a)"
      "\<forall>w. pl_Intent p = Some w \<longrightarrow> \<not> time_Before (ap_ServerTimeCreated a) (pi_WindowStart w)"
    by (auto simp: validateApprovalEvidence_def split: option.splits)
  then have bounds: "t_ns (pl_CreatedAt p) \<le> t_ns (ap_ServerTimeCreated a)"
    "t_ns (ap_ServerTimeCreated a) \<le> t_ns (ev_CheckedAt ev)" "t_zone (ap_ServerTimeCreated a) = 0"
    by (auto simp: approval_bound_def validEvidenceTime_def time_Before_def time_After_def split: if_splits)
  have "t_ns (readyAt p a) = t_ns (ap_ServerTimeCreated a) + pl_CoolingOffSeconds p * second"
    using readyAt_exact [OF assms(2,3) bounds(1) _ gate(2)] bounds(2) times(3) by simp
  moreover have "t_ns (pi_WindowStart w) \<le> t_ns (ap_ServerTimeCreated a) \<and>
      t_ns (pi_WindowStart w) \<le> t_ns (ev_ObservedAt ev) \<and> t_ns (ev_CheckedAt ev) \<le> t_ns (pi_ValidUntil w)"
    if "pl_Intent p = Some w" for w
    using blockers(6) a(4) that
    by (auto simp: validateIntentEvidence_def time_defs split: option.splits)
  ultimately show ?thesis using a bounds times by (auto simp: approval_bound_def time_Before_def)
qed

text \<open>
  C36. The gate compares the plan with the world as it is now: the observed resources are exactly those of
  the plan, fingerprints included; the observed preconditions are those of the plan, with their details, and
  all of them hold; the policy hash is the approved one; the recovery assets found are those of the plan, one
  by one, with their resource, evidence, verification and restore times and what they protect, and protect
  every target for which the contract requires one; and an exposure, unless it was acknowledged as permanent,
  is not past its expiry nor, by the calendar day, past its review.
\<close>

theorem gate_compares_the_present:
  assumes "ValidatePlanForExecution marshal sha256hex p ev c = None"
  shows "set (ev_Resources ev) = set (elems (pl_Resources p)) \<and>
     set (ev_Preconditions ev) = set (elems (pl_Preconditions p)) \<and> list_all pp_OK (ev_Preconditions ev) \<and>
     ph_Match (ev_PolicyHash ev) \<and> ev_PolicyHash ev = pl_PolicyHash p \<and>
     list_all2 (\<lambda>planned found. ra_Kind found = ra_Kind planned \<and> ra_Resource found = ra_Resource planned \<and>
         ra_EvidenceRef found = ra_EvidenceRef planned \<and>
         t_ns (ra_VerifiedAt found) = t_ns (ra_VerifiedAt planned) \<and>
         map_option t_ns (ra_RestoreTo found) = map_option t_ns (ra_RestoreTo planned) \<and>
         elems (ra_Protects found) = elems (ra_Protects planned))
       (elems (rb_Assets (pl_Rollback p))) (ev_RecoveryAssets ev) \<and>
     (\<forall>s e. (s, e) \<in> set (zip (elems (pl_Steps p)) (ec_steps c)) \<and> sc_RequiresRecoveryAsset e \<longrightarrow>
        (\<forall>target \<in> set (elems (ps_Targets s)). \<exists>asset \<in> set (ev_RecoveryAssets ev).
           target \<in> set (elems (ra_Protects asset)))) \<and>
     (\<forall>x. pl_ExposureControls p = Some x \<and> \<not> xc_PermanentInternetWideAcknowledged x \<longrightarrow>
        (\<forall>t. xc_ExpiresAt x = Some t \<longrightarrow> t_ns (ev_CheckedAt ev) < t_ns t) \<and>
        (\<forall>t. xc_ReviewAt x = Some t \<longrightarrow>
           (t_ns (ev_CheckedAt ev) + t_zone (ev_CheckedAt ev) * second) div (24 * hour)
             \<le> (t_ns t + t_zone t * second) div (24 * hour)))"
proof -
  note gate = gate_None [OF assms]
  note blockers = execution_blockers_Nil [OF gate(4)]
  from blockers(3) obtain a u r where v: "validateExecutionContract p c = ([], a, u, r)" by blast
  note contract = execution_contract_Nil [OF v]
  note bound = bind_steps_ok(1) [OF contract(7,5)]
  have resources: "set (ev_Resources ev) = set (elems (pl_Resources p))"
    using blockers(9) validatePlanStructure_distinct_resources [OF gate(2)]
    unfolding validateResourceEvidence_def by (rule evidence_same) simp
  have "distinct (elems (pl_Preconditions p))"
    using gate(2) by (auto intro!: distinct_map [THEN iffD1, THEN conjunct1, of pp_ID] simp: validatePlanStructure_def plan_content_checks_def Let_def
        validatePreconditions_def dest: check_unique_distinct)
  with blockers(8) have pre: "set (ev_Preconditions ev) = set (elems (pl_Preconditions p))"
    unfolding validatePreconditionEvidence_def
    by (rule evidence_same) (auto intro: PlanPrecondition.equality split: option.splits)
  moreover have "list_all pp_OK (ev_Preconditions ev)"
    using blockers(8) pre
    by (auto simp: validatePreconditionEvidence_def evidence_blockers_Nil list_all_iff)
  moreover have assets: "list_all2 (\<lambda>planned found. ra_Kind found = ra_Kind planned \<and>
         ra_Resource found = ra_Resource planned \<and> ra_EvidenceRef found = ra_EvidenceRef planned \<and>
         t_ns (ra_VerifiedAt found) = t_ns (ra_VerifiedAt planned) \<and>
         map_option t_ns (ra_RestoreTo found) = map_option t_ns (ra_RestoreTo planned) \<and>
         elems (ra_Protects found) = elems (ra_Protects planned))
       (elems (rb_Assets (pl_Rollback p))) (ev_RecoveryAssets ev)"
  proof -
    have "equalRecoveryAssets (elems (rb_Assets (pl_Rollback p))) (ev_RecoveryAssets ev)"
      using blockers(10) by (auto simp: validateRecoveryEvidence_def Let_def equalRecoveryAssets_def split: if_splits)
    then show ?thesis
      unfolding equalRecoveryAssets_def equal_times equal_resources time_Equal_def
      by (auto split: if_splits elim!: list_all2_mono)
  qed
  moreover have "\<exists>asset \<in> set (ev_RecoveryAssets ev). t \<in> set (elems (ra_Protects asset))"
    if se: "(s, e) \<in> set (zip (elems (pl_Steps p)) (ec_steps c))" "sc_RequiresRecoveryAsset e"
      "t \<in> set (elems (ps_Targets s))" for s e t
  proof -
    from se(1) bound have "step_bound p s e" by (auto simp: list_all2_iff)
    with se(2,3) have "recoveryAssetsCover (elems (rb_Assets (pl_Rollback p))) t"
      by (auto simp: step_bound_def target_ok_def list_all_iff)
    then obtain planned where "planned \<in> set (elems (rb_Assets (pl_Rollback p)))"
      "t \<in> set (elems (ra_Protects planned))" by (auto simp: recoveryAssetsCover_def list_ex_iff)
    then show ?thesis using list_all2_in_set [OF assets] by metis
  qed
  moreover have "(\<forall>t. xc_ExpiresAt x = Some t \<longrightarrow> t_ns (ev_CheckedAt ev) < t_ns t) \<and>
        (\<forall>t. xc_ReviewAt x = Some t \<longrightarrow>
           (t_ns (ev_CheckedAt ev) + t_zone (ev_CheckedAt ev) * second) div (24 * hour)
             \<le> (t_ns t + t_zone t * second) div (24 * hour))"
    if "pl_ExposureControls p = Some x" "\<not> xc_PermanentInternetWideAcknowledged x" for x
    using blockers(4) that
    by (auto simp: validateExposureExecutionTime_def time_After_def utcDateAfter_def calendar_day_def not_less
        split: if_splits option.splits)
  moreover have "ph_Match (ev_PolicyHash ev)" "ev_PolicyHash ev = pl_PolicyHash p" using blockers(7) by simp_all
  ultimately show ?thesis using resources by blast
qed

text \<open>
  In production a plan whose contract asks for a step-up runs only with a fresh one: the plan is at least
  AP-4 and says so, and there is a step-up record for this plan, made after the cooling-off period and
  after the last revalidation, less than ten minutes before the check; nowhere else is a step-up
  record accepted.
\<close>

theorem gate_step_up:
  assumes "ValidatePlanForExecution marshal sha256hex p ev c = None"
  shows "if pl_EnvironmentClass p = EnvironmentProduction \<and> list_ex sc_RequiresStepUp (ec_steps c)
     then 4 \<le> pl_ApprovalClass p \<and> pl_StepUpRequired p \<and>
       (\<exists>u a. ev_StepUp ev = Some u \<and> ev_Approval ev = Some a \<and> stepup_bound p ev u \<and>
          t_ns (readyAt p a) \<le> t_ns (su_ServerTimeCreated u) \<and>
          t_ns (ev_ObservedAt ev) \<le> t_ns (su_ServerTimeCreated u) \<and>
          t_ns (su_ServerTimeCreated u) \<le> t_ns (ev_CheckedAt ev) \<and>
          t_ns (ev_CheckedAt ev) - t_ns (su_ServerTimeCreated u) < 10 * minute)
     else \<not> pl_StepUpRequired p \<and> ev_StepUp ev = None"
proof -
  note gate = gate_None [OF assms]
  note blockers = execution_blockers_Nil [OF gate(4)]
  have four: "4 \<le> pl_ApprovalClass p" if "pl_StepUpRequired p"
    using gate(2) that
    by (auto simp: validatePlanStructure_def plan_identity_checks_def ApprovalDestructive_def not_less)
  have fresh: "t_ns (ev_CheckedAt ev) - t_ns (su_ServerTimeCreated u) < 10 * minute"
    if "\<not> time_Sub (ev_CheckedAt ev) (su_ServerTimeCreated u) \<ge> stepUpFreshness" for u
    using that by (auto simp: time_Sub_def stepUpFreshness_def duration_defs int64_defs)
  show ?thesis
    using blockers(12,13) four fresh
    by (auto simp: validateStepUpEvidence_def stepup_bound_def time_Before_def time_After_def not_less
        split: option.splits)
qed

text \<open>
  A probe response becomes one check per required permission, in the order of the request: it is accepted
  exactly when the step, the identity and the resource are well formed, the required set is not empty,
  nothing repeats, and the response names nothing that was not asked for; a check is granted exactly when
  the response names it, so an omission is a denial.
\<close>

theorem PermissionChecks_iff:
  "PermissionChecks b = Inr checks \<longleftrightarrow>
     projectIDPattern (pb_ProjectID b) \<and> identifierPattern (pb_StepID b) \<and>
     ExecutionIdentity_Valid (pb_Identity b) \<and> resource_ok (pb_ProjectID b) (pb_Resource b) \<and>
     pb_Required b \<noteq> [] \<and> list_all permissionPattern (pb_Required b) \<and>
     distinct (pb_Required b) \<and> distinct (pb_Granted b) \<and> set (pb_Granted b) \<subseteq> set (pb_Required b) \<and>
     map pm_Permission checks = pb_Required b \<and>
     list_all (\<lambda>q. pm_StepID q = pb_StepID b \<and> pm_Identity q = pb_Identity b \<and>
       pm_Resource q = pb_Resource b \<and> (pm_Granted q \<longleftrightarrow> pm_Permission q \<in> set (pb_Granted b))) checks"
proof -
  let ?f = "\<lambda>p. \<lparr>pm_StepID = pb_StepID b, pm_Identity = pb_Identity b, pm_Permission = p,
      pm_Resource = pb_Resource b, pm_Granted = p \<in> set (pb_Granted b)\<rparr>"
  have result: "checks = map ?f required \<longleftrightarrow>
     map pm_Permission checks = required \<and>
     list_all (\<lambda>q. pm_StepID q = pb_StepID b \<and> pm_Identity q = pb_Identity b \<and>
       pm_Resource q = pb_Resource b \<and> (pm_Granted q \<longleftrightarrow> pm_Permission q \<in> set (pb_Granted b))) checks"
    for required
  proof (induction checks arbitrary: required)
    case Nil
    then show ?case by auto
  next
    case (Cons q qs)
    show ?case
    proof (cases required)
      case (Cons r rs)
      have "q = ?f r \<longleftrightarrow> pm_Permission q = r \<and> pm_StepID q = pb_StepID b \<and> pm_Identity q = pb_Identity b \<and>
          pm_Resource q = pb_Resource b \<and> (pm_Granted q \<longleftrightarrow> pm_Permission q \<in> set (pb_Granted b))"
        by (cases q) auto
      with Cons.IH [of rs] show ?thesis unfolding Cons by auto
    qed simp
  qed
  have required: "check_unique id
      (\<lambda>i p. fail_if (\<not> permissionPattern p) (ErrInvalidPermissionProbe ''malformed required permission''))
      dup 0 [] xs = None \<longleftrightarrow> list_all permissionPattern xs \<and> distinct xs" for dup xs
    by (simp add: check_unique_None list_all_length)
  have granted: "check_unique id
      (\<lambda>i p. fail_if (p \<notin> set (pb_Required b))
         (ErrInvalidPermissionProbe ''response contains an unrequested permission''))
      dup 0 [] xs = None \<longleftrightarrow> set xs \<subseteq> set (pb_Required b) \<and> distinct xs" for dup xs
    by (auto simp: check_unique_None subset_code(1) all_set_conv_all_nth)
  show ?thesis
    unfolding PermissionChecks_def guarded_Inr sum.inject eq_commute [of "map _ _" checks] result
    by (simp add: required granted validateResources_None) blast
qed

subsection \<open>A plan that passes the gate\<close>

definition sample_step_contract ::
  "string \<Rightarrow> ExecutionIdentity \<Rightarrow> string \<Rightarrow> bool \<Rightarrow> ExecutionExposureRequirement option \<Rightarrow> ExecutionStepContract" where
  "sample_step_contract name identity kind stepUp exposure =
     \<lparr>sc_ID = name, sc_Executor = ''gcloud'', sc_ExecutingIdentity = identity,
      sc_CommandSummary = ''run'', sc_Effect = StepEffectMutation,
      sc_MinimumApproval = ApprovalDataDestructive, sc_TargetKinds = [kind],
      sc_RequiredPermissions = [''compute.disks.delete''], sc_RequiresStepUp = stepUp,
      sc_RequiresRecoveryAsset = True, sc_ExposureRequirement = exposure, sc_Idempotent = True,
      sc_Retry = \<lparr>rp_MaxAttempts = 3, rp_InitialBackoffSeconds = 1, rp_MaxBackoffSeconds = 5\<rparr>,
      sc_CancelSafe = True, sc_TimeoutSeconds = 60, sc_SuccessCondition = ''ready'',
      sc_FailureBehavior = FailureRollback\<rparr>"

definition sample_requirement :: ExecutionExposureRequirement where
  "sample_requirement =
     \<lparr>er_Delta = ExposureExternal, er_Profile = ExposureProfileACC08, er_InternetWide = True,
      er_SimulationPreconditionID = ''simulated''\<rparr>"

definition sample_contract_steps :: "ExecutionStepContract list" where
  "sample_contract_steps =
     [sample_step_contract ''drop'' IdentityDestructive ''disk'' True None,
      sample_step_contract ''open'' IdentityOperator ''instance'' False (Some sample_requirement)]"

definition sample_gate_contract :: ExecutionContract where
  "sample_gate_contract =
     \<lparr>ec_workflowID = ''WF-DB-07'', ec_rollbackBoundary = ''restore'', ec_pointOfNoReturn = ''drop'',
      ec_pointOfNoReturnTrigger = PointOfNoReturnStepStart, ec_steps = sample_contract_steps,
      ec_digest = replicate 64 CHR ''c''\<rparr>"

definition sample_approval :: ApprovalEvidence where
  "sample_approval =
     \<lparr>ap_PlanID = ''plan-0123456789abcdef'', ap_PlanHash = replicate 64 CHR ''a'',
      ap_ProjectID = ''demo-project'', ap_Environment = ''prod'',
      ap_EnvironmentClass = EnvironmentProduction, ap_Principal = ''user:ops@example.com'',
      ap_RecordObject = ''plans/prod/plan-0123456789abcdef-approval.json'',
      ap_ServerTimeCreated = utc (101 * hour)\<rparr>"

definition sample_stepup :: StepUpEvidence where
  "sample_stepup =
     \<lparr>su_PlanID = ''plan-0123456789abcdef'', su_PlanHash = replicate 64 CHR ''a'',
      su_ProjectID = ''demo-project'', su_Environment = ''prod'',
      su_EnvironmentClass = EnvironmentProduction, su_Principal = ''user:ops@example.com'',
      su_RecordObject = ''plans/prod/plan-0123456789abcdef-stepup-1.json'',
      su_ServerTimeCreated = utc (102 * hour + 6 * minute)\<rparr>"

definition sample_intent :: IntentEvidence where
  "sample_intent =
     \<lparr>ie_PlanID = ''plan-0123456789abcdef'', ie_PlanHash = replicate 64 CHR ''a'',
      ie_ProjectID = ''demo-project'', ie_PolicyHash = replicate 64 CHR ''b'', ie_Environment = ''prod'',
      ie_EnvironmentClass = EnvironmentProduction, ie_Principal = ''user:ops@example.com'',
      ie_WindowStart = utc (101 * hour), ie_ValidUntil = utc (110 * hour), ie_Active = True,
      ie_SoleActive = True\<rparr>"

definition sample_evidence :: ExecutionEvidence where
  "sample_evidence =
     \<lparr>ev_PlanID = ''plan-0123456789abcdef'', ev_PlanHash = replicate 64 CHR ''a'',
      ev_ProjectID = ''demo-project'', ev_Environment = ''prod'',
      ev_EnvironmentClass = EnvironmentProduction, ev_Principal = ''user:ops@example.com'',
      ev_CheckedAt = utc (102 * hour + 10 * minute), ev_ObservedAt = utc (102 * hour + 5 * minute),
      ev_Approval = Some sample_approval, ev_Intent = Some sample_intent,
      ev_PolicyHash = \<lparr>ph_Local = replicate 64 CHR ''b'', ph_Approved = replicate 64 CHR ''b'', ph_Match = True\<rparr>,
      ev_Preconditions = elems (pl_Preconditions sample_plan_value),
      ev_Resources = elems (pl_Resources sample_plan_value), ev_RecoveryAssets = sample_assets False,
      ev_Permissions = elems (pl_Permissions sample_plan_value), ev_StepUp = Some sample_stepup\<rparr>"

lemma sample_gate_contract_built:
  "NewExecutionContract (\<lambda>_. Some ''contract'') (\<lambda>_. replicate 64 CHR ''c'') ''WF-DB-07'' ''restore''
     ''drop'' PointOfNoReturnStepStart sample_contract_steps = Inr sample_gate_contract"
proof -
  have "step_contract_ok (sample_step_contract ''drop'' IdentityDestructive ''disk'' True None)"
    "step_contract_ok (sample_step_contract ''open'' IdentityOperator ''instance'' False (Some sample_requirement))"
    by (simp_all add: step_contract_ok_def sample_step_contract_def exposure_requirement_ok_def
        sample_requirement_def RetryPolicy_Valid_def plan_evaluation)
  then have "contract_spec ''WF-DB-07'' ''restore'' ''drop'' PointOfNoReturnStepStart sample_contract_steps"
    by (simp add: contract_spec_def sample_contract_steps_def agree_def exposures_def needs_rollback_def
        pattern_defs char_class_defs) (auto simp: sample_step_contract_def)
  then show ?thesis by (simp add: contract_accepts_iff sample_gate_contract_def)
qed

lemmas sample_gate_defs =
  sample_gate_contract_def sample_contract_steps_def sample_step_contract_def sample_requirement_def
  sample_evidence_def sample_approval_def sample_stepup_def sample_intent_def blocker_if_def

lemma sample_contract_gate:
  "validateExecutionContract sample_plan_value sample_gate_contract = ([], True, True, True)"
  by (simp add: validateExecutionContract_def Let_def bind_steps_def bind_step_def bind_target_def
      planStepMatchesContract_def recoveryAssetsCover_def minimumApproval_def mutationCapable_def
      exposureRequirement_def planMatchesExposureRequirement_def validExposureTLS_def planPermissionKey_def
      sample_gate_defs plan_evaluation)

lemma sample_ready: "readyAt sample_plan_value sample_approval = utc (102 * hour)"
proof -
  have "wrap64 (3600 * second) = 3600 * second" by (rule wrap64_id) (simp add: duration_defs int64_defs)
  then show ?thesis
    by (simp add: readyAt_def time_Add_def sample_plan_for_def sample_approval_def time_defs duration_defs int64_defs)
qed

lemma sample_evidence_blockers:
  "time_blockers sample_plan_value sample_evidence = []" "evidence_bound sample_plan_value sample_evidence"
  "validateExposureExecutionTime sample_plan_value (ev_CheckedAt sample_evidence) = []"
  "validateIntentEvidence sample_plan_value sample_evidence = []"
  by (simp_all add: time_blockers_def evidence_bound_def validateExposureExecutionTime_def
      validateIntentEvidence_def validEvidenceTime_def executionEvidenceFreshness_def sample_gate_defs
      plan_evaluation)

lemma sample_current_blockers:
  "validatePreconditionEvidence sample_plan_value sample_evidence = []"
  "validateResourceEvidence sample_plan_value sample_evidence = []"
  "validatePermissionEvidence sample_plan_value sample_evidence = []"
  "validateRecoveryEvidence sample_plan_value sample_evidence True = []"
  by (simp_all add: validatePreconditionEvidence_def validateResourceEvidence_def
      validatePermissionEvidence_def validateRecoveryEvidence_def evidence_blockers_def last_by_def
      planPermissionKey_def equalRecoveryAssets_def equalPlanResources_def equalOptionalTime_def Let_def
      sample_gate_defs plan_evaluation)

lemma sample_approval_blockers:
  "validateApprovalEvidence sample_plan_value sample_evidence = []"
proof -
  have a: "ev_Approval sample_evidence = Some sample_approval"
    and i: "pl_Intent sample_plan_value = Some \<lparr>pi_ValidUntil = utc (110 * hour), pi_WindowStart = utc (101 * hour)\<rparr>"
    by (simp_all add: sample_evidence_def sample_plan_for_def)
  have "approval_bound sample_plan_value sample_evidence sample_approval"
    by (simp add: approval_bound_def validEvidenceTime_def sample_gate_defs plan_evaluation)
  moreover have "\<not> time_Before (ev_CheckedAt sample_evidence) (utc (102 * hour))"
    "\<not> time_Before (ev_ObservedAt sample_evidence) (utc (102 * hour))"
    "\<not> time_Before (ap_ServerTimeCreated sample_approval) (utc (101 * hour))"
    by (simp_all add: sample_evidence_def sample_approval_def time_defs duration_defs)
  ultimately show ?thesis
    by (simp add: validateApprovalEvidence_def a i sample_ready)
qed

lemma sample_stepup_blockers:
  "validateStepUpEvidence sample_plan_value sample_evidence = []"
proof -
  have a: "ev_Approval sample_evidence = Some sample_approval" "ev_StepUp sample_evidence = Some sample_stepup"
    and p: "pl_StepUpRequired sample_plan_value"
    by (simp_all add: sample_evidence_def sample_plan_for_def)
  have "validStepUpObject (su_RecordObject sample_stepup) sample_plan_value"
    by (simp add: validStepUpObject_def sample_stepup_def sample_plan_for_def has_suffix_def trim_prefix_def
        trim_suffix_def char_class_defs Let_def)
  then have "stepup_bound sample_plan_value sample_evidence sample_stepup"
    by (simp add: stepup_bound_def validEvidenceTime_def stepUpFreshness_def sample_gate_defs plan_evaluation)
  moreover have "\<not> time_Before (su_ServerTimeCreated sample_stepup) (utc (102 * hour))"
    by (simp add: sample_stepup_def time_defs duration_defs)
  ultimately show ?thesis by (simp add: validateStepUpEvidence_def a p sample_ready)
qed

lemma sample_gate:
  "ValidatePlanForExecution sample_marshal sample_sha256hex sample_plan_value sample_evidence
     sample_gate_contract = None"
proof -
  have p: "ph_Match (pl_PolicyHash sample_plan_value)" "ev_PolicyHash sample_evidence = pl_PolicyHash sample_plan_value"
    "pl_StepUpRequired sample_plan_value" "pl_EnvironmentClass sample_plan_value = EnvironmentProduction"
    "pl_ExpiresAt sample_plan_value = utc (124 * hour)"
    by (simp_all add: sample_evidence_def sample_plan_for_def)
  then have blockers: "execution_blockers sample_plan_value sample_evidence sample_gate_contract = []"
    by (simp add: execution_blockers_def sample_contract_gate sample_evidence_blockers sample_current_blockers
        sample_approval_blockers sample_stepup_blockers)
  have "validEvidenceTime (ev_CheckedAt sample_evidence)" "\<not> time_IsZero (ev_CheckedAt sample_evidence)"
    "time_Before (ev_CheckedAt sample_evidence) (utc (124 * hour))"
    by (simp_all add: sample_evidence_def validEvidenceTime_def time_defs duration_defs)
  then show ?thesis
    by (simp add: ValidatePlanForExecution_def ValidatePlanAt_def sample_ValidatePlan blockers p)
qed

lemma sample_calendar: "calendar_time (pl_CreatedAt sample_plan_value)" "calendar_time (pl_ExpiresAt sample_plan_value)"
  by (simp_all add: calendar_time_def sample_plan_for_def time_defs duration_defs)

theorem gate_runs_the_contract_witness:
  "sc_MinimumApproval (sample_step_contract ''drop'' IdentityDestructive ''disk'' True None)
     \<le> pl_ApprovalClass sample_plan_value"
  using gate_runs_the_contract [OF sample_gate]
  by (simp add: sample_gate_contract_def sample_contract_steps_def)

theorem gate_permissions_granted_witness:
  "required_permission (sample_step ''drop'' IdentityDestructive [sample_resource ''disk'' ''data''])
     (sample_resource ''disk'' ''data'') True ''compute.disks.delete'' \<in> set (ev_Permissions sample_evidence)"
  by (rule gate_permissions_granted [OF sample_gate sample_gate_contract_built,
        where e = "sample_step_contract ''drop'' IdentityDestructive ''disk'' True None"])
     (simp_all add: sample_plan_for_def sample_gate_contract_def sample_contract_steps_def sample_step_def
        sample_step_contract_def)

theorem gate_requires_approval_witness:
  "t_ns (ap_ServerTimeCreated sample_approval) + 3600 * second \<le> t_ns (ev_ObservedAt sample_evidence)"
proof -
  have "list_ex (\<lambda>e. sc_Effect e = StepEffectMutation) (ec_steps sample_gate_contract)"
    by (simp add: sample_gate_contract_def sample_contract_steps_def sample_step_contract_def)
  then have or: "list_ex (\<lambda>e. sc_Effect e = StepEffectMutation) (ec_steps sample_gate_contract) \<or>
      pl_ApprovalClass sample_plan_value \<noteq> ApprovalRead \<or> pl_Intent sample_plan_value \<noteq> None" ..
  have "ev_Approval sample_evidence = Some sample_approval" "pl_CoolingOffSeconds sample_plan_value = 3600"
    by (simp_all add: sample_evidence_def sample_plan_for_def)
  with gate_requires_approval [OF sample_gate sample_calendar or] show ?thesis by auto
qed

theorem gate_compares_the_present_witness:
  "list_all pp_OK (ev_Preconditions sample_evidence)"
  using gate_compares_the_present [OF sample_gate] by blast

theorem gate_step_up_witness:
  "4 \<le> pl_ApprovalClass sample_plan_value"
proof -
  have "pl_EnvironmentClass sample_plan_value = EnvironmentProduction"
    "list_ex sc_RequiresStepUp (ec_steps sample_gate_contract)"
    by (simp_all add: sample_plan_for_def sample_gate_contract_def sample_contract_steps_def sample_step_contract_def)
  with gate_step_up [OF sample_gate] show ?thesis by simp
qed

end
