(* ===== verification/Results.thy ===== *)
theory Results
  imports Prelude "HOL-Library.Finite_Map"
begin

section \<open>Results: Go's (value, error) pairs and maps of strings\<close>

text \<open>
  A function that returns a value and an error is a sum, \<open>Inl\<close> the error. \<open>check c r\<close> is
  \<open>if err := c; err != nil { return err }\<close> followed by \<open>r\<close>, \<open>bind_result m f\<close> is
  \<open>x, err := m\<close> with the same early return. A Go map with string keys is a finite map; reading a
  missing key of a \<open>map[string]string\<close> gives the empty string.
\<close>

definition check :: "'e option \<Rightarrow> 'e + 'a \<Rightarrow> 'e + 'a" where
  "check c r = (case c of None \<Rightarrow> r | Some e \<Rightarrow> Inl e)"

definition bind_result :: "'e + 'a \<Rightarrow> ('a \<Rightarrow> 'e + 'b) \<Rightarrow> 'e + 'b" where
  "bind_result m f = (case m of Inl e \<Rightarrow> Inl e | Inr x \<Rightarrow> f x)"

text \<open>The error of a call whose value is dropped.\<close>

definition error_of :: "'e + 'a \<Rightarrow> 'e option" where
  "error_of m = (case m of Inl e \<Rightarrow> Some e | Inr x \<Rightarrow> None)"

text \<open>A returned error that the caller replaces by its own.\<close>

definition replace_error :: "'f \<Rightarrow> 'e option \<Rightarrow> 'f option" where
  "replace_error e c = (case c of None \<Rightarrow> None | Some d \<Rightarrow> Some e)"

lemma check_None [simp]: "check None r = r"
  by (simp add: check_def)

lemma check_Some [simp]: "check (Some e) r = Inl e"
  by (simp add: check_def)

lemma check_Inr [simp]: "check c r = Inr x \<longleftrightarrow> c = None \<and> r = Inr x"
  by (cases c) auto

lemma bind_result_Inl [simp]: "bind_result (Inl e) f = Inl e"
  by (simp add: bind_result_def)

lemma bind_result_Inr [simp]: "bind_result (Inr x) f = f x"
  by (simp add: bind_result_def)

lemma bind_result_is_Inr: "bind_result m f = Inr y \<longleftrightarrow> (\<exists>x. m = Inr x \<and> f x = Inr y)"
  by (cases m) auto

lemma error_of_None [simp]: "error_of m = None \<longleftrightarrow> (\<exists>x. m = Inr x)"
  by (cases m) (auto simp: error_of_def)

lemma error_of_sum [simp]: "error_of (Inl e) = Some e" "error_of (Inr x) = None"
  by (simp_all add: error_of_def)

lemma replace_error_None [simp]: "replace_error e c = None \<longleftrightarrow> c = None"
  by (cases c) (auto simp: replace_error_def)

lemma replace_error_simps [simp]: "replace_error e None = None" "replace_error e (Some d) = Some e"
  by (simp_all add: replace_error_def)

lemma check_each_Cons_None:
  "check_each f i (x # xs) = None \<longleftrightarrow> f i x = None \<and> check_each f (Suc i) xs = None"
  by (cases "f i x") auto

type_synonym string_map = "(string, string) fmap"

definition value_at :: "string_map \<Rightarrow> string \<Rightarrow> string" where
  "value_at m k = (case fmlookup m k of Some v \<Rightarrow> v | None \<Rightarrow> [])"

end
