(* ===== verification/GeneratedResource.thy ===== *)
theory GeneratedResource
  imports Results DomainEnums
begin

section \<open>internal/config: the namespace of generated resources (resource.go)\<close>

text \<open>
  The name and the labels by which a cloud object is recognised as generated, and the selector of
  disposable test resources: the reserved prefix together with the mandatory labels.
\<close>

definition GeneratedResourcePrefix :: string where "GeneratedResourcePrefix = ''ctrldb-''"
definition TestResourcePrefix :: string where "TestResourcePrefix = ''ctrldb-test-''"
definition LabelManagedBy :: string where "LabelManagedBy = ''managed-by''"
definition LabelEnvironment :: string where "LabelEnvironment = ''environment''"
definition LabelPurpose :: string where "LabelPurpose = ''purpose''"
definition LabelManagedByValue :: string where "LabelManagedByValue = ''ctrldb''"
definition TestEnvironmentLabel :: string where "TestEnvironmentLabel = ''disposable''"
definition TestResourcePurposeLabel :: string where "TestResourcePurposeLabel = ''test''"

lemmas resource_constants =
  GeneratedResourcePrefix_def TestResourcePrefix_def LabelManagedBy_def LabelEnvironment_def
  LabelPurpose_def LabelManagedByValue_def TestEnvironmentLabel_def TestResourcePurposeLabel_def

datatype resource_error = ErrInvalidGeneratedResource string string

record GeneratedResource =
  gr_Name :: string
  gr_Labels :: string_map

text \<open>Both patterns are \<open>^[a-z](?:[a-z0-9-]{0,61}[a-z0-9])?$\<close>, the pattern of an environment name.\<close>

definition ExpectedLabels :: "string \<Rightarrow> EnvironmentClass \<Rightarrow> resource_error + string_map" where
  "ExpectedLabels environment cls =
     check (first_error
       [fail_if (\<not> environmentPattern environment)
          (ErrInvalidGeneratedResource ''environment''
             ''must be a lowercase DNS-label-style name of 1 to 63 characters''),
        fail_if (\<not> EnvironmentClass_Valid cls) (ErrInvalidGeneratedResource ''class'' ''unknown value''),
        fail_if (cls \<noteq> EnvironmentDisposable \<and>
            (environment = ''test'' \<or> has_prefix environment ''test-''))
          (ErrInvalidGeneratedResource ''environment''
             ''the test namespace is reserved for disposable resources'')])
     (let labels = fmupd LabelManagedBy LabelManagedByValue fmempty in
      Inr (if cls = EnvironmentDisposable
           then fmupd LabelPurpose TestResourcePurposeLabel
                  (fmupd LabelEnvironment TestEnvironmentLabel labels)
           else fmupd LabelEnvironment environment labels))"

definition ValidateGeneratedResource ::
  "GeneratedResource \<Rightarrow> string \<Rightarrow> EnvironmentClass \<Rightarrow> resource_error option" where
  "ValidateGeneratedResource resource environment cls =
     (if \<not> environmentPattern (gr_Name resource) then
        Some (ErrInvalidGeneratedResource ''name''
          ''must be a lowercase DNS-label-style name of 1 to 63 characters'')
      else case ExpectedLabels environment cls of
          Inl e \<Rightarrow> Some e
        | Inr wantLabels \<Rightarrow>
            first_error
              [fail_if (\<not> has_prefix (gr_Name resource) GeneratedResourcePrefix)
                 (ErrInvalidGeneratedResource ''name''
                    (''must use the '' @ GeneratedResourcePrefix @ '' namespace'')),
               (if cls = EnvironmentDisposable then
                  fail_if (\<not> has_prefix (gr_Name resource) TestResourcePrefix)
                    (ErrInvalidGeneratedResource ''name''
                       (''disposable resources must use the '' @ TestResourcePrefix @ '' namespace''))
                else
                  fail_if (has_prefix (gr_Name resource) TestResourcePrefix)
                    (ErrInvalidGeneratedResource ''name''
                       ''the test namespace is reserved for disposable resources'')),
               check_each (\<lambda>i key.
                  fail_if (value_at (gr_Labels resource) key \<noteq> value_at wantLabels key)
                    (ErrInvalidGeneratedResource (''labels.'' @ key)
                       (''must equal '' @ value_at wantLabels key))) 0
                 ([LabelManagedBy, LabelEnvironment] @
                  (if cls = EnvironmentDisposable then [LabelPurpose] else []))])"

definition IsTestResource :: "GeneratedResource \<Rightarrow> bool" where
  "IsTestResource resource =
     (ValidateGeneratedResource resource TestEnvironmentLabel EnvironmentDisposable = None)"

lemma disposable_labels: "ExpectedLabels TestEnvironmentLabel EnvironmentDisposable =
  Inr (fmupd LabelPurpose TestResourcePurposeLabel
    (fmupd LabelEnvironment TestEnvironmentLabel (fmupd LabelManagedBy LabelManagedByValue fmempty)))"
  by (simp add: ExpectedLabels_def resource_constants pattern_defs char_class_defs
      EnvironmentClass_Valid_def environmentClass_registry_def)

lemma expected_values:
  "value_at (fmupd LabelPurpose p (fmupd LabelEnvironment e (fmupd LabelManagedBy m fmempty))) LabelManagedBy = m"
  "value_at (fmupd LabelPurpose p (fmupd LabelEnvironment e (fmupd LabelManagedBy m fmempty))) LabelEnvironment = e"
  "value_at (fmupd LabelPurpose p (fmupd LabelEnvironment e (fmupd LabelManagedBy m fmempty))) LabelPurpose = p"
  by (simp_all add: value_at_def resource_constants)

text \<open>The selector, spelled out: the reserved prefix and three exact labels.\<close>

lemma IsTestResource_iff:
  "IsTestResource r \<longleftrightarrow>
     environmentPattern (gr_Name r) \<and> has_prefix (gr_Name r) TestResourcePrefix \<and>
     value_at (gr_Labels r) LabelManagedBy = LabelManagedByValue \<and>
     value_at (gr_Labels r) LabelEnvironment = TestEnvironmentLabel \<and>
     value_at (gr_Labels r) LabelPurpose = TestResourcePurposeLabel"
proof -
  have "IsTestResource r \<longleftrightarrow> environmentPattern (gr_Name r) \<and>
     has_prefix (gr_Name r) GeneratedResourcePrefix \<and> has_prefix (gr_Name r) TestResourcePrefix \<and>
     value_at (gr_Labels r) LabelManagedBy = LabelManagedByValue \<and>
     value_at (gr_Labels r) LabelEnvironment = TestEnvironmentLabel \<and>
     value_at (gr_Labels r) LabelPurpose = TestResourcePurposeLabel"
    unfolding IsTestResource_def ValidateGeneratedResource_def disposable_labels
    by (simp add: expected_values check_each_Cons_None del: check_each.simps(2))
  then show ?thesis by (auto simp: has_prefix_iff resource_constants)
qed

text \<open>No resource passes for two classes of which one is disposable.\<close>

lemma test_namespace_exclusive:
  "IsTestResource r \<Longrightarrow> cls \<noteq> EnvironmentDisposable \<Longrightarrow> ValidateGeneratedResource r env cls \<noteq> None"
  unfolding ValidateGeneratedResource_def IsTestResource_iff by (cases "ExpectedLabels env cls") simp_all

end
