(* ===== verification/IsolationBase.thy ===== *)
theory IsolationBase
  imports GeneratedResource GoStd
begin

section \<open>internal/isolation: identities, names and bounds (guard.go)\<close>

text \<open>
  What every guard of the package shares: its errors, the patterns of provider identities, the
  explicit resource identity with its canonical key, run identifiers and the names derived from
  them, principals, fingerprints and observation windows, and the caps of a run. \<open>errors.Is\<close> is
  \<open>guard_is\<close>. An \<open>int\<close> or \<open>int64\<close> is only compared here, so it is an \<open>int\<close>.
\<close>

subsection \<open>Errors\<close>

datatype guard_kind =
    ErrInvalidGuardInput
  | ErrUnsafeTarget
  | ErrCapacityExceeded
  | ErrNetworkOverlap
  | ErrNonDisposableLock
  | ErrInvalidRunID
  | ErrRunLockNotHeld
  | ErrStaleProof
  | ErrProofMismatch
  | ErrUnsafeFirewall
  | ErrPermissionProof
  | ErrForbiddenPermission
  | ErrInvalidOwnershipProof
  | ErrInvalidHarnessState
  | ErrHarnessStateMismatch
  | ErrHarnessStateStale
  | ErrHarnessAdmissionDenied

text \<open>
  \<open>guardError(kind, path, reason)\<close> wraps a sentinel (\<open>Guard\<close>) or an error that was returned by
  another guard (\<open>Guard_in\<close>).
\<close>

datatype guard_error =
    Guard guard_kind string string
  | Guard_in guard_error string string

fun guard_is :: "guard_kind \<Rightarrow> guard_error \<Rightarrow> bool" where
  "guard_is k (Guard k' path reason) = (k = k')"
| "guard_is k (Guard_in e path reason) = guard_is k e"

definition wrap_error :: "guard_error option \<Rightarrow> string \<Rightarrow> string \<Rightarrow> guard_error option" where
  "wrap_error c path reason = map_option (\<lambda>e. Guard_in e path reason) c"

lemma wrap_error_None [simp]: "wrap_error c path reason = None \<longleftrightarrow> c = None"
  by (simp add: wrap_error_def)

definition indexedField :: "string \<Rightarrow> nat \<Rightarrow> string" where
  "indexedField base index = base @ ''['' @ decimal index @ '']''"

subsection \<open>Patterns\<close>

definition is_lower_digit :: "char \<Rightarrow> bool" where
  "is_lower_digit c = (is_lower c \<or> is_digit c)"

text \<open>\<open>^[a-z0-9](?:M{0,n-2}[a-z0-9])?$\<close> for a class \<open>M\<close> that contains \<open>[a-z0-9]\<close>.\<close>

definition bounded_name :: "nat \<Rightarrow> (char \<Rightarrow> bool) \<Rightarrow> string \<Rightarrow> bool" where
  "bounded_name n mid s =
     (s \<noteq> [] \<and> length s \<le> n \<and> list_all mid s \<and> is_lower_digit (hd s) \<and> is_lower_digit (last s))"

text \<open>\<open>^[a-z0-9]+(?:-[a-z0-9]+)*$\<close>.\<close>

definition runIDPattern :: "string \<Rightarrow> bool" where
  "runIDPattern s = list_all (\<lambda>w. w \<noteq> [] \<and> list_all is_lower_digit w) (split_on CHR ''-'' s)"

text \<open>\<open>^[a-z][a-z0-9-]*(?:\.[a-z][a-z0-9-]*)+$\<close>.\<close>

definition servicePattern :: "string \<Rightarrow> bool" where
  "servicePattern s =
     (2 \<le> length (split_on CHR ''.'' s) \<and>
      list_all (\<lambda>w. w \<noteq> [] \<and> is_lower (hd w) \<and> list_all is_ident_char w) (split_on CHR ''.'' s))"

text \<open>\<open>^[a-z][A-Za-z0-9]{0,62}$\<close>.\<close>

definition resourceKindPattern :: "string \<Rightarrow> bool" where
  "resourceKindPattern s = (s \<noteq> [] \<and> length s \<le> 63 \<and> is_lower (hd s) \<and> list_all is_alnum s)"

text \<open>\<open>^[a-z]+(?:-[a-z]+)+[0-9]+$\<close>, on the parts between hyphens.\<close>

definition region_parts :: "string list \<Rightarrow> bool" where
  "region_parts ws =
     (2 \<le> length ws \<and> list_all (\<lambda>w. w \<noteq> [] \<and> list_all is_lower w) (butlast ws) \<and>
      (let w = last ws in
         takeWhile is_lower w \<noteq> [] \<and> dropWhile is_lower w \<noteq> [] \<and>
         list_all is_digit (dropWhile is_lower w)))"

definition regionPattern :: "string \<Rightarrow> bool" where
  "regionPattern s = region_parts (split_on CHR ''-'' s)"

text \<open>\<open>^[a-z]+(?:-[a-z]+)+[0-9]+-[a-z]$\<close>.\<close>

definition zonePattern :: "string \<Rightarrow> bool" where
  "zonePattern s =
     (let ws = split_on CHR ''-'' s in
        region_parts (butlast ws) \<and> length (last ws) = 1 \<and> list_all is_lower (last ws))"

text \<open>\<open>^[a-z0-9](?:[a-z0-9._-]{0,251}[a-z0-9])?$\<close>.\<close>

definition resourceNamePattern :: "string \<Rightarrow> bool" where
  "resourceNamePattern = bounded_name 253 (\<lambda>c. is_lower_digit c \<or> c \<in> set ''._-'')"

text \<open>\<open>^[a-z](?:[a-z0-9-]{0,61}[a-z0-9])?$\<close>.\<close>

definition computeResourceNamePattern :: "string \<Rightarrow> bool" where
  "computeResourceNamePattern = environmentPattern"

text \<open>
  \<open>^[a-z0-9](?:[a-z0-9._+-]{0,62}[a-z0-9])?@L(?:\.L)+$\<close> with
  \<open>L = [a-z0-9](?:[a-z0-9-]{0,61}[a-z0-9])?\<close>.
\<close>

definition userSubjectPattern :: "string \<Rightarrow> bool" where
  "userSubjectPattern s =
     (case split_on CHR ''@'' s of
        [local_part, domain] \<Rightarrow>
          bounded_name 64 (\<lambda>c. is_lower_digit c \<or> c \<in> set ''._+-'') local_part \<and>
          2 \<le> length (split_on CHR ''.'' domain) \<and>
          list_all (bounded_name 63 is_ident_char) (split_on CHR ''.'' domain)
      | _ \<Rightarrow> False)"

text \<open>\<open>^[A-Za-z0-9][A-Za-z0-9._-]{0,62}$\<close>.\<close>

definition inventoryVersionPattern :: "string \<Rightarrow> bool" where
  "inventoryVersionPattern s =
     (s \<noteq> [] \<and> length s \<le> 63 \<and> is_alnum (hd s) \<and>
      list_all (\<lambda>c. is_alnum c \<or> c \<in> set ''._-'') s)"

text \<open>The fingerprint test, and that it is the pattern \<open>^[0-9a-f]{64}$\<close>.\<close>

definition isSHA256Fingerprint :: "string \<Rightarrow> bool" where
  "isSHA256Fingerprint value =
     (length value = 64 \<and> list_all (\<lambda>c. is_hex c \<or> c \<in> set ''ABCDEF'') value \<and>
      list_all (\<lambda>c. \<not> is_upper c) value)"

lemma hex_class: "(is_hex c \<or> c \<in> set ''ABCDEF'') \<and> \<not> is_upper c \<longleftrightarrow> is_hex c"
  by (auto simp: char_class_defs)

lemma isSHA256Fingerprint_iff: "isSHA256Fingerprint s \<longleftrightarrow> sha256Pattern s"
  using hex_class by (auto simp: isSHA256Fingerprint_def sha256Pattern_def list_all_iff)

lemmas isolation_pattern_defs =
  is_lower_digit_def bounded_name_def runIDPattern_def servicePattern_def resourceKindPattern_def
  region_parts_def regionPattern_def zonePattern_def resourceNamePattern_def
  computeResourceNamePattern_def userSubjectPattern_def inventoryVersionPattern_def

subsection \<open>Fingerprints of values\<close>

definition canonicalJSONFingerprint ::
  "('a \<Rightarrow> string option) \<Rightarrow> (string \<Rightarrow> string) \<Rightarrow> 'a \<Rightarrow> guard_error + string" where
  "canonicalJSONFingerprint marshal sha256hex x =
     (case marshal x of
        None \<Rightarrow> Inl (Guard ErrInvalidGuardInput ''inventory'' ''could not be fingerprinted'')
      | Some encoded \<Rightarrow> Inr (sha256hex encoded))"

lemma canonicalJSONFingerprint_Inr:
  "canonicalJSONFingerprint marshal sha256hex x = Inr h \<longleftrightarrow>
     (\<exists>b. marshal x = Some b \<and> h = sha256hex b)"
  by (auto simp: canonicalJSONFingerprint_def split: option.splits)

subsection \<open>Run identifiers and the names of a run\<close>

definition maxRunIDLength :: nat where "maxRunIDLength = 32"
definition LabelRunID :: string where "LabelRunID = ''run-id''"

definition ValidateRunID :: "string \<Rightarrow> guard_error option" where
  "ValidateRunID runID =
     fail_if (length runID = 0 \<or> length runID > maxRunIDLength \<or> \<not> runIDPattern runID)
       (Guard ErrInvalidRunID ''runID'' ''must be a bounded lowercase hyphen-separated identifier'')"

definition RunResourcePrefix :: "string \<Rightarrow> guard_error + string" where
  "RunResourcePrefix runID =
     check (ValidateRunID runID) (Inr (TestResourcePrefix @ runID @ ''-''))"

lemma RunResourcePrefix_Inr:
  "RunResourcePrefix r = Inr p \<longleftrightarrow> ValidateRunID r = None \<and> p = TestResourcePrefix @ r @ ''-''"
  by (auto simp: RunResourcePrefix_def)

subsection \<open>Resource identities\<close>

datatype ResourceScope =
    ResourceScopeGlobal
  | ResourceScopeRegion
  | ResourceScopeZone
  | ResourceScopeOther string

text \<open>Services and kinds are open strings with a pattern; the code names these.\<close>

definition ComputeServiceName :: string where "ComputeServiceName = ''compute.googleapis.com''"
definition ComputeInstanceKind :: string where "ComputeInstanceKind = ''instances''"
definition ComputeDiskKind :: string where "ComputeDiskKind = ''disks''"
definition ComputeFirewallKind :: string where "ComputeFirewallKind = ''firewalls''"
definition ComputeNetworkKind :: string where "ComputeNetworkKind = ''networks''"
definition ComputeSubnetworkKind :: string where "ComputeSubnetworkKind = ''subnetworks''"
definition ComputeRouterKind :: string where "ComputeRouterKind = ''routers''"
definition ComputeRouterNATKind :: string where "ComputeRouterNATKind = ''routerNats''"
definition IAMServiceName :: string where "IAMServiceName = ''iam.googleapis.com''"
definition IAMServiceAccountKind :: string where "IAMServiceAccountKind = ''serviceAccounts''"
definition IAMRoleKind :: string where "IAMRoleKind = ''roles''"
definition RunServiceName :: string where "RunServiceName = ''run.googleapis.com''"
definition RunJobKind :: string where "RunJobKind = ''jobs''"
definition SchedulerServiceName :: string where "SchedulerServiceName = ''cloudscheduler.googleapis.com''"
definition SchedulerJobKind :: string where "SchedulerJobKind = ''jobs''"
definition CloudResourceManagerServiceName :: string where
  "CloudResourceManagerServiceName = ''cloudresourcemanager.googleapis.com''"
definition CloudResourceManagerProjectKind :: string where
  "CloudResourceManagerProjectKind = ''projects''"

lemmas service_kinds =
  ComputeServiceName_def ComputeInstanceKind_def ComputeDiskKind_def ComputeFirewallKind_def
  ComputeNetworkKind_def ComputeSubnetworkKind_def ComputeRouterKind_def ComputeRouterNATKind_def
  IAMServiceName_def IAMServiceAccountKind_def IAMRoleKind_def RunServiceName_def RunJobKind_def
  SchedulerServiceName_def SchedulerJobKind_def CloudResourceManagerServiceName_def
  CloudResourceManagerProjectKind_def

record ResourceIdentity =
  ri_Project :: string
  ri_Service :: string
  ri_Kind :: string
  ri_Scope :: ResourceScope
  ri_Location :: string
  ri_ParentName :: string
  ri_Name :: string
  ri_CanonicalKey :: string

definition invalid_target :: "string \<Rightarrow> string \<Rightarrow> guard_error" where
  "invalid_target field reason = Guard ErrInvalidGuardInput (''target.identity.'' @ field) reason"

definition validateKnownResourceScope :: "ResourceIdentity \<Rightarrow> guard_error option" where
  "validateKnownResourceScope identity =
     (if ri_Service identity = ComputeServiceName then
        (if ri_Kind identity = ComputeInstanceKind then
           fail_if (ri_Scope identity \<noteq> ResourceScopeZone)
             (invalid_target ''scope'' ''Compute instances must be zonal'')
         else if ri_Kind identity = ComputeDiskKind then
           fail_if (ri_Scope identity \<noteq> ResourceScopeZone \<and> ri_Scope identity \<noteq> ResourceScopeRegion)
             (invalid_target ''scope'' ''Compute disks must be zonal or regional'')
         else if ri_Kind identity \<in> set [ComputeFirewallKind, ComputeNetworkKind] then
           fail_if (ri_Scope identity \<noteq> ResourceScopeGlobal)
             (invalid_target ''scope'' ''Compute networks and firewalls must be global'')
         else if ri_Kind identity \<in> set [ComputeSubnetworkKind, ComputeRouterKind, ComputeRouterNATKind] then
           fail_if (ri_Scope identity \<noteq> ResourceScopeRegion)
             (invalid_target ''scope'' ''Compute subnetworks, routers, and NATs must be regional'')
         else None)
      else None)"

definition target_scopePath :: "ResourceIdentity \<Rightarrow> guard_error + string" where
  "target_scopePath identity =
     (case ri_Scope identity of
        ResourceScopeGlobal \<Rightarrow>
          check (fail_if (ri_Location identity \<noteq> ''global'')
            (invalid_target ''location'' ''must equal global for global scope'')) (Inr ''global'')
      | ResourceScopeRegion \<Rightarrow>
          check (fail_if (\<not> regionPattern (ri_Location identity))
            (invalid_target ''location'' ''must identify a canonical region''))
            (Inr (''regions/'' @ ri_Location identity))
      | ResourceScopeZone \<Rightarrow>
          check (fail_if (\<not> zonePattern (ri_Location identity))
            (invalid_target ''location'' ''must identify a canonical zone''))
            (Inr (''zones/'' @ ri_Location identity))
      | ResourceScopeOther s \<Rightarrow>
          Inl (invalid_target ''scope'' ''must be global, region, or zone''))"

definition target_parentPath :: "ResourceIdentity \<Rightarrow> guard_error + string" where
  "target_parentPath identity =
     (if ri_Service identity = ComputeServiceName \<and> ri_Kind identity = ComputeRouterNATKind then
        check (fail_if (\<not> computeResourceNamePattern (ri_ParentName identity))
          (invalid_target ''parentName'' ''must identify the parent Compute router''))
          (Inr (''|parent='' @ ri_ParentName identity))
      else
        check (fail_if (ri_ParentName identity \<noteq> [])
          (invalid_target ''parentName'' ''is only supported for nested router NAT resources''))
          (Inr []))"

definition CanonicalTargetKey :: "ResourceIdentity \<Rightarrow> guard_error + string" where
  "CanonicalTargetKey identity =
     check (first_error
       [fail_if (\<not> projectIDPattern (ri_Project identity))
          (invalid_target ''project'' ''must be a canonical explicit project ID''),
        fail_if (\<not> servicePattern (ri_Service identity))
          (invalid_target ''service'' ''must be a canonical service name''),
        fail_if (\<not> resourceKindPattern (ri_Kind identity))
          (invalid_target ''kind'' ''must be a canonical resource kind'')])
     (bind_result (target_scopePath identity) (\<lambda>scopePath.
        check (first_error
          [validateKnownResourceScope identity,
           fail_if (\<not> resourceNamePattern (ri_Name identity))
             (invalid_target ''name'' ''must be a canonical resource name''),
           fail_if (ri_Service identity = ComputeServiceName \<and>
               \<not> computeResourceNamePattern (ri_Name identity))
             (invalid_target ''name'' ''must be a 1-63 character RFC 1035 Compute resource name'')])
        (bind_result (target_parentPath identity) (\<lambda>parentPath.
           Inr (''ctrldb-target-key:v1|'' @ ri_Project identity @ ''|'' @ ri_Service identity @ ''|'' @
             scopePath @ parentPath @ ''|'' @ ri_Kind identity @ ''|'' @ ri_Name identity)))))"

definition validateResourceIdentity :: "ResourceIdentity \<Rightarrow> guard_error option" where
  "validateResourceIdentity identity =
     (case CanonicalTargetKey identity of
        Inl e \<Rightarrow> Some e
      | Inr wantKey \<Rightarrow>
          fail_if (ri_CanonicalKey identity \<noteq> wantKey)
            (invalid_target ''canonicalKey'' ''does not match the explicit identity fields''))"


subsection \<open>The canonical key determines the identity\<close>

lemma separator_inject:
  "c \<notin> set a \<Longrightarrow> c \<notin> set b \<Longrightarrow> a @ c # x = b @ c # y \<longleftrightarrow> a = b \<and> x = y"
proof (induction a arbitrary: b)
  case Nil
  then show ?case by (cases b) auto
next
  case (Cons d a)
  then show ?case by (cases b) auto
qed

lemma split_on_cover: "c \<in> set s \<Longrightarrow> c = sep \<or> (\<exists>w \<in> set (split_on sep s). c \<in> set w)"
proof (induction s)
  case Nil
  then show ?case by simp
next
  case (Cons d s)
  then show ?case by (cases "split_on sep s") auto
qed

definition bar_free :: "string \<Rightarrow> bool" where
  "bar_free s = (CHR ''|'' \<notin> set s)"

lemma not_bar:
  "\<not> is_lower CHR ''|''" "\<not> is_ident_char CHR ''|''" "\<not> is_alnum CHR ''|''" "\<not> is_digit CHR ''|''"
  by (simp_all add: char_class_defs)

lemma not_equals: "\<not> is_alnum CHR ''=''"
  by (simp add: char_class_defs)

lemma bar_free_project: "projectIDPattern s \<Longrightarrow> bar_free s"
  using not_bar by (cases s) (auto simp: projectIDPattern_def bar_free_def list_all_iff)

lemma bar_free_environment: "environmentPattern s \<Longrightarrow> bar_free s"
  using not_bar by (cases s) (auto simp: environmentPattern_def bar_free_def list_all_iff)

lemma bar_free_service: "servicePattern s \<Longrightarrow> bar_free s"
  using not_bar split_on_cover [of "CHR ''|''" s "CHR ''.''"]
  by (auto simp: servicePattern_def bar_free_def list_all_iff)

lemma bar_free_kind: "resourceKindPattern s \<Longrightarrow> bar_free s"
  using not_bar by (auto simp: resourceKindPattern_def bar_free_def list_all_iff)

lemma region_parts_chars:
  assumes "region_parts ws" and "w \<in> set ws" and "c \<in> set w"
  shows "is_lower c \<or> is_digit c"
proof (cases "w \<in> set (butlast ws)")
  case True
  then show ?thesis using assms by (auto simp: region_parts_def list_all_iff)
next
  case False
  then have w: "w = last ws"
    using assms(2) by (metis append_butlast_last_id empty_iff list.set(1) rotate1.simps(2) set_ConsD set_rotate1)
  have "c \<in> set (takeWhile is_lower w) \<or> c \<in> set (dropWhile is_lower w)"
    using assms(3) by (metis Un_iff set_append takeWhile_dropWhile_id)
  then show ?thesis
    using assms(1) w by (auto simp: region_parts_def list_all_iff Let_def dest: set_takeWhileD)
qed

lemma bar_free_region: "regionPattern s \<Longrightarrow> bar_free s"
  using not_bar split_on_cover [of "CHR ''|''" s "CHR ''-''"] region_parts_chars
  by (fastforce simp: regionPattern_def bar_free_def)

lemma bar_free_zone: "zonePattern s \<Longrightarrow> bar_free s"
proof -
  assume zone: "zonePattern s"
  let ?ws = "split_on CHR ''-'' s"
  have "is_lower c \<or> is_digit c" if "w \<in> set ?ws" "c \<in> set w" for w c
  proof (cases "w \<in> set (butlast ?ws)")
    case True
    then show ?thesis using zone that region_parts_chars by (auto simp: zonePattern_def Let_def)
  next
    case False
    have "?ws = butlast ?ws @ [last ?ws]" by simp
    then have "w = last ?ws" using that(1) False
      by (metis Un_iff empty_iff list.set(1) set_ConsD set_append)
    then show ?thesis using zone that(2) by (auto simp: zonePattern_def Let_def list_all_iff)
  qed
  then show ?thesis
    using not_bar split_on_cover [of "CHR ''|''" s "CHR ''-''"] by (fastforce simp: bar_free_def)
qed

lemma target_scopePath_bar_free: "target_scopePath i = Inr p \<Longrightarrow> bar_free p"
  by (auto simp: target_scopePath_def bar_free_def dest: bar_free_region bar_free_zone
      split: ResourceScope.splits)

lemma target_scopePath_Inr:
  "target_scopePath i = Inr p \<longleftrightarrow>
     ri_Scope i = ResourceScopeGlobal \<and> ri_Location i = ''global'' \<and> p = ''global'' \<or>
     ri_Scope i = ResourceScopeRegion \<and> regionPattern (ri_Location i) \<and> p = ''regions/'' @ ri_Location i \<or>
     ri_Scope i = ResourceScopeZone \<and> zonePattern (ri_Location i) \<and> p = ''zones/'' @ ri_Location i"
  by (auto simp: target_scopePath_def split: ResourceScope.splits)

lemma target_scopePath_inject:
  "target_scopePath i = Inr p \<Longrightarrow> target_scopePath j = Inr p \<Longrightarrow>
     ri_Scope i = ri_Scope j \<and> ri_Location i = ri_Location j"
  unfolding target_scopePath_Inr by (elim disjE conjE) simp_all

lemma CanonicalTargetKey_Inr:
  "CanonicalTargetKey i = Inr k \<longleftrightarrow>
     projectIDPattern (ri_Project i) \<and> servicePattern (ri_Service i) \<and> resourceKindPattern (ri_Kind i) \<and>
     validateKnownResourceScope i = None \<and> resourceNamePattern (ri_Name i) \<and>
     (ri_Service i = ComputeServiceName \<longrightarrow> computeResourceNamePattern (ri_Name i)) \<and>
     (\<exists>p q. target_scopePath i = Inr p \<and> target_parentPath i = Inr q \<and>
        k = ''ctrldb-target-key:v1|'' @ ri_Project i @ ''|'' @ ri_Service i @ ''|'' @ p @ q @ ''|'' @
          ri_Kind i @ ''|'' @ ri_Name i)"
  by (auto simp: CanonicalTargetKey_def bind_result_is_Inr)

lemma CanonicalTargetKey_inject:
  assumes "CanonicalTargetKey i = Inr k" and "CanonicalTargetKey j = Inr k"
  shows "i\<lparr>ri_CanonicalKey := c\<rparr> = j\<lparr>ri_CanonicalKey := c\<rparr>"
proof -
  from assms(1) obtain p q where i: "projectIDPattern (ri_Project i)" "servicePattern (ri_Service i)"
    "resourceKindPattern (ri_Kind i)" "target_scopePath i = Inr p" "target_parentPath i = Inr q"
    "k = ''ctrldb-target-key:v1|'' @ ri_Project i @ ''|'' @ ri_Service i @ ''|'' @ p @ q @ ''|'' @
      ri_Kind i @ ''|'' @ ri_Name i"
    by (auto simp: CanonicalTargetKey_Inr)
  from assms(2) obtain p' q' where j: "projectIDPattern (ri_Project j)" "servicePattern (ri_Service j)"
    "resourceKindPattern (ri_Kind j)" "target_scopePath j = Inr p'" "target_parentPath j = Inr q'"
    "k = ''ctrldb-target-key:v1|'' @ ri_Project j @ ''|'' @ ri_Service j @ ''|'' @ p' @ q' @ ''|'' @
      ri_Kind j @ ''|'' @ ri_Name j"
    by (auto simp: CanonicalTargetKey_Inr)
  have bars: "bar_free (ri_Project i)" "bar_free (ri_Project j)" "bar_free (ri_Service i)"
    "bar_free (ri_Service j)" "bar_free (ri_Kind i)" "bar_free (ri_Kind j)" "bar_free p" "bar_free p'"
    using i j bar_free_project bar_free_service bar_free_kind target_scopePath_bar_free by blast+
  have project: "ri_Project i = ri_Project j"
    and service: "ri_Service i = ri_Service j"
    and rest: "p @ q @ ''|'' @ ri_Kind i @ ''|'' @ ri_Name i = p' @ q' @ ''|'' @ ri_Kind j @ ''|'' @ ri_Name j"
    using i(6) j(6) bars by (auto simp: separator_inject bar_free_def)
  have parents: "q = [] \<and> ri_ParentName i = [] \<or>
      q = ''|parent='' @ ri_ParentName i \<and> bar_free (ri_ParentName i)"
    "q' = [] \<and> ri_ParentName j = [] \<or>
      q' = ''|parent='' @ ri_ParentName j \<and> bar_free (ri_ParentName j)"
    using i(5) j(5) bar_free_environment
    by (auto simp: target_parentPath_def computeResourceNamePattern_def split: if_splits)
  have no_eq: "CHR ''='' \<notin> set (ri_Kind i)" "CHR ''='' \<notin> set (ri_Kind j)"
    using i(3) j(3) not_equals by (auto simp: resourceKindPattern_def list_all_iff)
  have tail: "p = p' \<and> ri_ParentName i = ri_ParentName j \<and> ri_Kind i = ri_Kind j \<and> ri_Name i = ri_Name j"
  proof (cases "q = []"; cases "q' = []")
    assume "q = []" "q' = []"
    then have "p @ CHR ''|'' # (ri_Kind i @ CHR ''|'' # ri_Name i) =
        p' @ CHR ''|'' # (ri_Kind j @ CHR ''|'' # ri_Name j)" "ri_ParentName i = ri_ParentName j"
      using parents rest by auto
    then show ?thesis using bars unfolding bar_free_def by (metis separator_inject)
  next
    assume "q = []" and q': "q' \<noteq> []"
    then have "p @ CHR ''|'' # (ri_Kind i @ CHR ''|'' # ri_Name i) =
        p' @ CHR ''|'' # ((''parent='' @ ri_ParentName j) @ CHR ''|'' # (ri_Kind j @ CHR ''|'' # ri_Name j))"
      using parents rest by auto
    moreover have "CHR ''|'' \<notin> set (''parent='' @ ri_ParentName j)"
      using parents(2) q' by (auto simp: bar_free_def)
    ultimately have "ri_Kind i = ''parent='' @ ri_ParentName j"
      using bars unfolding bar_free_def by (metis separator_inject)
    with no_eq show ?thesis by simp
  next
    assume q: "q \<noteq> []" and "q' = []"
    then have "p' @ CHR ''|'' # (ri_Kind j @ CHR ''|'' # ri_Name j) =
        p @ CHR ''|'' # ((''parent='' @ ri_ParentName i) @ CHR ''|'' # (ri_Kind i @ CHR ''|'' # ri_Name i))"
      using parents rest by auto
    moreover have "CHR ''|'' \<notin> set (''parent='' @ ri_ParentName i)"
      using parents(1) q by (auto simp: bar_free_def)
    ultimately have "ri_Kind j = ''parent='' @ ri_ParentName i"
      using bars unfolding bar_free_def by (metis separator_inject)
    with no_eq show ?thesis by simp
  next
    assume q: "q \<noteq> []" "q' \<noteq> []"
    then have "p @ CHR ''|'' # (''parent='' @ ri_ParentName i @ CHR ''|'' # (ri_Kind i @ CHR ''|'' # ri_Name i)) =
        p' @ CHR ''|'' # (''parent='' @ ri_ParentName j @ CHR ''|'' # (ri_Kind j @ CHR ''|'' # ri_Name j))"
      using parents rest by auto
    then have "p = p' \<and> ri_ParentName i @ CHR ''|'' # (ri_Kind i @ CHR ''|'' # ri_Name i) =
        ri_ParentName j @ CHR ''|'' # (ri_Kind j @ CHR ''|'' # ri_Name j)"
      using bars unfolding bar_free_def by (simp add: separator_inject)
    moreover have "bar_free (ri_ParentName i)" "bar_free (ri_ParentName j)"
      using parents q by blast+
    ultimately show ?thesis using bars unfolding bar_free_def by (metis separator_inject)
  qed
  then have "ri_Scope i = ri_Scope j \<and> ri_Location i = ri_Location j"
    using target_scopePath_inject i(4) j(4) by blast
  with project service tail show ?thesis by simp
qed

lemma validateResourceIdentity_None:
  "validateResourceIdentity i = None \<longleftrightarrow> CanonicalTargetKey i = Inr (ri_CanonicalKey i)"
  by (auto simp: validateResourceIdentity_def split: sum.splits)

theorem validated_key_inject:
  assumes "validateResourceIdentity i = None" and "validateResourceIdentity j = None"
  shows "ri_CanonicalKey i = ri_CanonicalKey j \<longleftrightarrow> i = j"
proof
  assume "ri_CanonicalKey i = ri_CanonicalKey j"
  moreover from this have "i\<lparr>ri_CanonicalKey := []\<rparr> = j\<lparr>ri_CanonicalKey := []\<rparr>"
    using assms CanonicalTargetKey_inject [of i "ri_CanonicalKey i" j]
    by (simp add: validateResourceIdentity_None)
  ultimately show "i = j" by (cases i, cases j) simp
qed simp


subsection \<open>Principals\<close>

datatype PrincipalKind =
    PrincipalKindUser
  | PrincipalKindServiceAccount
  | PrincipalKindOther string

fun PrincipalKind_string :: "PrincipalKind \<Rightarrow> string" where
  "PrincipalKind_string PrincipalKindUser = ''user''"
| "PrincipalKind_string PrincipalKindServiceAccount = ''service-account''"
| "PrincipalKind_string (PrincipalKindOther s) = s"

record Principal =
  pq_Kind :: PrincipalKind
  pq_Subject :: string

definition zeroPrincipal :: Principal where
  "zeroPrincipal = \<lparr>pq_Kind = PrincipalKindOther [], pq_Subject = []\<rparr>"

text \<open>
  \<open>strings.ToLower\<close> changes the ASCII capitals; a subject with a byte outside ASCII is refused by
  both patterns, whatever \<open>ToLower\<close> makes of it.
\<close>

definition validPrincipal :: "Principal \<Rightarrow> bool" where
  "validPrincipal p =
     (if list_ex is_upper (pq_Subject p) \<or> trim_changes (pq_Subject p) then False
      else case pq_Kind p of
          PrincipalKindUser \<Rightarrow> userSubjectPattern (pq_Subject p)
        | PrincipalKindServiceAccount \<Rightarrow> serviceAccountPattern (pq_Subject p)
        | PrincipalKindOther s \<Rightarrow> False)"

lemma zeroPrincipal_invalid: "validPrincipal p \<Longrightarrow> p \<noteq> zeroPrincipal"
  by (auto simp: validPrincipal_def zeroPrincipal_def cong: if_cong PrincipalKind.case_cong)

subsection \<open>Plans, operations and observation windows\<close>

record PlanIdentity =
  pi_ID :: string
  pi_Hash :: string

record OperationBinding =
  ob_OperationID :: string
  ob_StepID :: string
  ob_Attempt :: "32 word"

definition validateOperationBinding :: "OperationBinding \<Rightarrow> guard_error option" where
  "validateOperationBinding binding =
     fail_if (\<not> operationIDPattern (ob_OperationID binding) \<or> \<not> identifierPattern (ob_StepID binding) \<or>
         ob_Attempt binding = 0)
       (Guard ErrInvalidGuardInput ''operation'' ''must identify one canonical durable step attempt'')"

text \<open>The errors of \<open>validateUTCWindow\<close> are bare sentinels, which every caller replaces.\<close>

definition validateUTCWindow :: "gotime \<Rightarrow> gotime \<Rightarrow> int \<Rightarrow> guard_kind option" where
  "validateUTCWindow start end maximum =
     first_error
       [fail_if (time_IsZero start \<or> time_IsZero end \<or> \<not> time_After end start) ErrInvalidHarnessState,
        check_each (\<lambda>i v. fail_if (t_zone v \<noteq> 0) ErrInvalidHarnessState) 0 [start, end],
        fail_if (maximum > 0 \<and> time_Sub end start > maximum) ErrHarnessStateStale]"

definition isFreshAt :: "gotime \<Rightarrow> gotime \<Rightarrow> gotime \<Rightarrow> bool" where
  "isFreshAt observedAt validUntil now =
     (if time_IsZero now then False
      else if t_zone now \<noteq> 0 then False
      else \<not> time_Before now observedAt \<and> time_Before now validUntil)"

lemma validateUTCWindow_None:
  "validateUTCWindow a b m = None \<longleftrightarrow>
     valid_utc a \<and> valid_utc b \<and> t_ns a < t_ns b \<and> (0 < m \<longrightarrow> time_Sub b a \<le> m)"
  by (auto simp: validateUTCWindow_def valid_utc_def time_After_def check_each_Cons_None
      simp del: check_each.simps(2))

text \<open>For a bound that is a Duration below the largest, the saturating subtraction is exact.\<close>

lemma validateUTCWindow_bounded:
  assumes "validateUTCWindow a b m = None" and "0 < m" and "m < max_int64"
  shows "t_ns b - t_ns a \<le> m"
  using assms by (simp add: validateUTCWindow_None time_Sub_le)

lemma isFreshAt_iff:
  "isFreshAt a b now \<longleftrightarrow> valid_utc now \<and> t_ns a \<le> t_ns now \<and> t_ns now < t_ns b"
  by (auto simp: isFreshAt_def valid_utc_def time_Before_def)

end
