(* ===== verification/IsolationPermissions.thy ===== *)
theory IsolationPermissions
  imports IsolationBase "HOL-Library.Product_Lexorder" "HOL-Library.Multiset"
begin

section \<open>internal/isolation: the permission proof (permission_proof.go)\<close>

text \<open>
  Permission evidence is a list of \<open>testIamPermissions\<close> tuples. The proof accepts observations that
  are exactly the pinned expectation, all about the mutation principal, with no granted write to
  Monitoring, Scheduler or Cloud Run. A Go map from keys to tuples is an association list;
  \<open>marshal\<close> encodes the canonical inventory, \<open>sha256hex\<close> is the hexadecimal SHA-256 of bytes.
\<close>

record PolicyInventoryPin =
  iv_ID :: string
  iv_Version :: string
  iv_Fingerprint :: string

definition validateInventoryPin :: "string \<Rightarrow> PolicyInventoryPin \<Rightarrow> guard_error option" where
  "validateInventoryPin path pin =
     fail_if (\<not> identifierPattern (iv_ID pin) \<or> \<not> inventoryVersionPattern (iv_Version pin) \<or>
         \<not> isSHA256Fingerprint (iv_Fingerprint pin))
       (Guard ErrInvalidGuardInput path ''must contain a canonical name, version, and SHA-256 fingerprint'')"

definition computeFirewallInsertPermissions :: "string list" where
  "computeFirewallInsertPermissions = [''compute.firewalls.create'', ''compute.networks.updatePolicy'']"

record PermissionObservation =
  pb_Identity :: Principal
  pb_Resource :: ResourceIdentity
  pb_Permission :: string
  pb_Granted :: bool

record PermissionProofInput =
  pf_Expected :: "PermissionObservation list"
  pf_Observed :: "PermissionObservation list"

record permissionObservationKey =
  pk_identityKind :: PrincipalKind
  pk_identitySubject :: string
  pk_resource :: string
  pk_permission :: string

definition newPermissionObservationKey :: "PermissionObservation \<Rightarrow> permissionObservationKey" where
  "newPermissionObservationKey item =
     \<lparr>pk_identityKind = pq_Kind (pb_Identity item), pk_identitySubject = pq_Subject (pb_Identity item),
      pk_resource = ri_CanonicalKey (pb_Resource item), pk_permission = pb_Permission item\<rparr>"

definition permission_error :: "string \<Rightarrow> string \<Rightarrow> guard_error" where
  "permission_error path reason = Guard ErrPermissionProof path reason"

definition validatePermissionObservation :: "string \<Rightarrow> PermissionObservation \<Rightarrow> guard_error option" where
  "validatePermissionObservation path item =
     first_error
       [fail_if (\<not> validPrincipal (pb_Identity item)) (permission_error path ''must contain a canonical principal''),
        replace_error (permission_error path ''must contain a canonical explicit resource identity'')
          (validateResourceIdentity (pb_Resource item)),
        fail_if (\<not> permissionPattern (pb_Permission item)) (permission_error path ''contains a malformed permission'')]"

definition permissionServiceAndAction :: "string \<Rightarrow> (string \<times> string) option" where
  "permissionServiceAndAction permission =
     (let parts = split_on CHR ''.'' permission in
      if length parts < 3 then None else Some (parts ! 0, parts ! (length parts - 1)))"

definition isForbiddenServiceWrite :: "string \<Rightarrow> bool" where
  "isForbiddenServiceWrite permission =
     (case permissionServiceAndAction permission of
        None \<Rightarrow> False
      | Some (service, action) \<Rightarrow>
          if service \<in> set [''monitoring'', ''cloudscheduler'', ''run''] then
            (if action = ''get'' \<or> action = ''list'' \<or> action = ''getIamPolicy'' then False
             else permission \<noteq> ''monitoring.timeSeries.query'' \<and> permission \<noteq> ''cloudscheduler.jobs.fullView'')
          else False)"

text \<open>The order of \<open>sortPermissionObservations\<close>, which \<open>PermissionInventoryFingerprint\<close> repeats inline.\<close>

definition permission_sort_key ::
  "PermissionObservation \<Rightarrow> string \<times> string \<times> string \<times> string \<times> bool" where
  "permission_sort_key item =
     (let k = newPermissionObservationKey item in
      (PrincipalKind_string (pk_identityKind k), pk_identitySubject k, pk_resource k, pk_permission k,
       pb_Granted item))"

definition sortPermissionObservations :: "PermissionObservation list \<Rightarrow> PermissionObservation list" where
  "sortPermissionObservations values = sort_key permission_sort_key values"

definition PermissionInventoryFingerprint ::
  "(PermissionObservation list \<Rightarrow> string option) \<Rightarrow> (string \<Rightarrow> string) \<Rightarrow> PermissionObservation list \<Rightarrow>
     guard_error + string" where
  "PermissionInventoryFingerprint marshal sha256hex expected =
     check (first_error
       [fail_if (length expected = 0) (permission_error ''expected'' ''must not be empty''),
        check_each (\<lambda>index item. validatePermissionObservation (indexedField ''expected'' index) item) 0 expected])
     (canonicalJSONFingerprint marshal sha256hex (sortPermissionObservations expected))"

type_synonym permission_map = "(permissionObservationKey \<times> PermissionObservation) list"

definition expected_permission ::
  "Principal \<Rightarrow> nat \<Rightarrow> permission_map \<Rightarrow> PermissionObservation \<Rightarrow> guard_error + permission_map" where
  "expected_permission mutationPrincipal index expectedByKey item =
     (let path = indexedField ''expected'' index; key = newPermissionObservationKey item in
      check (first_error
        [validatePermissionObservation path item,
         fail_if (pb_Identity item \<noteq> mutationPrincipal)
           (permission_error path ''does not cover the exact mutation principal''),
         fail_if (key \<in> set (map fst expectedByKey)) (permission_error path ''duplicates an earlier tuple''),
         fail_if (pb_Granted item \<and> isForbiddenServiceWrite (pb_Permission item))
           (Guard ErrForbiddenPermission path ''expects a forbidden service write'')])
      (Inr ((key, item) # expectedByKey)))"

definition observed_permission ::
  "Principal \<Rightarrow> permission_map \<Rightarrow> nat \<Rightarrow> permissionObservationKey list \<Rightarrow> PermissionObservation \<Rightarrow>
     guard_error + permissionObservationKey list" where
  "observed_permission mutationPrincipal expectedByKey index seen item =
     (let path = indexedField ''observed'' index; key = newPermissionObservationKey item in
      check (first_error
        [validatePermissionObservation path item,
         fail_if (pb_Identity item \<noteq> mutationPrincipal)
           (permission_error path ''does not cover the exact mutation principal''),
         fail_if (key \<in> set seen) (permission_error path ''duplicates an earlier tuple''),
         fail_if (pb_Granted item \<and> isForbiddenServiceWrite (pb_Permission item))
           (Guard ErrForbiddenPermission path ''observes a forbidden service write''),
         (case map_of expectedByKey key of
            None \<Rightarrow> Some (permission_error path ''is an unexpected tuple'')
          | Some want \<Rightarrow>
              fail_if (pb_Granted item \<noteq> pb_Granted want)
                (permission_error path ''does not match the expected decision''))])
      (Inr (key # seen)))"

definition ValidatePermissionProof ::
  "(PermissionObservation list \<Rightarrow> string option) \<Rightarrow> (string \<Rightarrow> string) \<Rightarrow> PolicyInventoryPin \<Rightarrow>
     PermissionProofInput \<Rightarrow> Principal \<Rightarrow> guard_error option" where
  "ValidatePermissionProof marshal sha256hex pin input mutationPrincipal =
     error_of (check (first_error
       [replace_error (permission_error ''permissionInventory'' ''must contain a valid policy pin'')
          (validateInventoryPin ''permissionInventory'' pin),
        fail_if (\<not> validPrincipal mutationPrincipal) (permission_error ''mutationPrincipal'' ''must be canonical''),
        fail_if (length (pf_Expected input) = 0) (permission_error ''expected'' ''must not be empty'')])
     (bind_result (range_loop (expected_permission mutationPrincipal) 0 [] (pf_Expected input)) (\<lambda>expectedByKey.
      bind_result (PermissionInventoryFingerprint marshal sha256hex (pf_Expected input)) (\<lambda>fingerprint.
      check (fail_if (fingerprint \<noteq> iv_Fingerprint pin)
          (permission_error ''inventory.fingerprint'' ''does not match the expected tuple inventory''))
      (bind_result (range_loop (observed_permission mutationPrincipal expectedByKey) 0 [] (pf_Observed input))
        (\<lambda>seen.
         check (fail_if (length seen \<noteq> length expectedByKey)
             (permission_error ''observed'' ''is missing an expected tuple''))
           (Inr ())))))))"

definition ProjectAuthorizationResource :: "string \<Rightarrow> guard_error + ResourceIdentity" where
  "ProjectAuthorizationResource projectID =
     check (fail_if (\<not> projectIDPattern projectID)
         (Guard ErrInvalidGuardInput ''projectID'' ''must be a canonical explicit project ID''))
       (let identity = \<lparr>ri_Project = projectID, ri_Service = CloudResourceManagerServiceName,
              ri_Kind = CloudResourceManagerProjectKind, ri_Scope = ResourceScopeGlobal,
              ri_Location = ''global'', ri_ParentName = [], ri_Name = projectID, ri_CanonicalKey = []\<rparr>
        in bind_result (CanonicalTargetKey identity) (\<lambda>key. Inr (identity\<lparr>ri_CanonicalKey := key\<rparr>)))"

subsection \<open>What the loops accept\<close>

definition permission_ok :: "Principal \<Rightarrow> PermissionObservation \<Rightarrow> bool" where
  "permission_ok p item =
     (pb_Identity item = p \<and> validPrincipal p \<and> validateResourceIdentity (pb_Resource item) = None \<and>
      permissionPattern (pb_Permission item) \<and>
      \<not> (pb_Granted item \<and> isForbiddenServiceWrite (pb_Permission item)))"

lemma validatePermissionObservation_None:
  "validatePermissionObservation path item = None \<longleftrightarrow>
     validPrincipal (pb_Identity item) \<and> validateResourceIdentity (pb_Resource item) = None \<and>
     permissionPattern (pb_Permission item)"
  by (auto simp: validatePermissionObservation_def)

lemma expected_permission_Inr:
  "expected_permission p i m x = Inr m' \<longleftrightarrow>
     permission_ok p x \<and> newPermissionObservationKey x \<notin> set (map fst m) \<and>
     m' = (newPermissionObservationKey x, x) # m"
  by (auto simp: expected_permission_def Let_def validatePermissionObservation_None permission_ok_def)

lemma observed_permission_Inr:
  "observed_permission p m i seen x = Inr seen' \<longleftrightarrow>
     permission_ok p x \<and> newPermissionObservationKey x \<notin> set seen \<and>
     (\<exists>want. map_of m (newPermissionObservationKey x) = Some want \<and> pb_Granted x = pb_Granted want) \<and>
     seen' = newPermissionObservationKey x # seen"
  by (auto simp: observed_permission_def Let_def validatePermissionObservation_None permission_ok_def
      split: option.splits)

lemma expected_permissions:
  "range_loop (expected_permission p) 0 [] xs = Inr m \<longleftrightarrow>
     list_all (permission_ok p) xs \<and> distinct (map newPermissionObservationKey xs) \<and>
     m = rev (map (\<lambda>x. (newPermissionObservationKey x, x)) xs)"
proof (induction xs arbitrary: m rule: rev_induct)
  case Nil
  then show ?case by auto
next
  case (snoc x xs)
  show ?case
    unfolding range_loop_snoc snoc.IH expected_permission_Inr
    by (auto simp: comp_def image_image)
qed

lemma observed_permissions:
  "range_loop (observed_permission p m) 0 [] xs = Inr seen \<longleftrightarrow>
     list_all (permission_ok p) xs \<and> distinct (map newPermissionObservationKey xs) \<and>
     list_all (\<lambda>x. \<exists>want. map_of m (newPermissionObservationKey x) = Some want \<and>
       pb_Granted x = pb_Granted want) xs \<and>
     seen = rev (map newPermissionObservationKey xs)"
proof (induction xs arbitrary: seen rule: rev_induct)
  case Nil
  then show ?case by auto
next
  case (snoc x xs)
  show ?case
    unfolding range_loop_snoc snoc.IH observed_permission_Inr
    by auto
qed

text \<open>A key with its decision is a tuple: identities are canonical.\<close>

lemma permission_tuple_key_inject:
  assumes "permission_ok p x" and "permission_ok p y"
    and "newPermissionObservationKey x = newPermissionObservationKey y" and "pb_Granted x = pb_Granted y"
  shows "x = y"
  using assms validated_key_inject [of "pb_Resource x" "pb_Resource y"]
  by (cases x, cases y) (auto simp: permission_ok_def newPermissionObservationKey_def)

lemma observed_are_expected:
  assumes e: "list_all (permission_ok p) es" "distinct (map newPermissionObservationKey es)"
    and o': "list_all (permission_ok p) xs" "distinct (map newPermissionObservationKey xs)"
  shows "list_all (\<lambda>x. \<exists>want. map_of (rev (map (\<lambda>x. (newPermissionObservationKey x, x)) es))
      (newPermissionObservationKey x) = Some want \<and> pb_Granted x = pb_Granted want) xs \<and>
     length xs = length es \<longleftrightarrow> mset xs = mset es" (is "?L \<longleftrightarrow> ?R")
proof -
  let ?m = "rev (map (\<lambda>x. (newPermissionObservationKey x, x)) es)"
  have d: "distinct (map fst ?m)" using e(2) by (simp add: rev_map [symmetric] comp_def)
  have found: "(\<exists>want. map_of ?m (newPermissionObservationKey x) = Some want \<and>
      pb_Granted x = pb_Granted want) \<longleftrightarrow> x \<in> set es" if "x \<in> set xs" for x
  proof
    assume "\<exists>want. map_of ?m (newPermissionObservationKey x) = Some want \<and> pb_Granted x = pb_Granted want"
    then obtain w where w: "map_of ?m (newPermissionObservationKey x) = Some w" "pb_Granted x = pb_Granted w"
      by blast
    from map_of_SomeD [OF w(1)] have "w \<in> set es" "newPermissionObservationKey x = newPermissionObservationKey w"
      by auto
    then show "x \<in> set es"
      using permission_tuple_key_inject [of p x w] w(2) e(1) o'(1) that by (auto simp: list_all_iff)
  next
    assume "x \<in> set es"
    then have "map_of ?m (newPermissionObservationKey x) = Some x"
      using d by (intro map_of_is_SomeI) auto
    then show "\<exists>want. map_of ?m (newPermissionObservationKey x) = Some want \<and> pb_Granted x = pb_Granted want"
      by blast
  qed
  have dx: "distinct xs" "distinct es" using e(2) o'(2) by (simp_all add: distinct_map)
  show ?thesis
  proof
    assume ?L
    then have "set xs \<subseteq> set es" "length xs = length es" using found by (auto simp: list_all_iff)
    then have "set xs = set es" using dx by (simp add: card_subset_eq distinct_card)
    then show ?R using dx set_eq_iff_mset_eq_distinct by blast
  next
    assume ?R
    then have "set xs = set es" "length xs = length es"
      using mset_eq_setD mset_eq_length by blast+
    then show ?L using found by (auto simp: list_all_iff)
  qed
qed

theorem ValidatePermissionProof_None:
  "ValidatePermissionProof marshal sha256hex pin input p = None \<longleftrightarrow>
     validateInventoryPin ''permissionInventory'' pin = None \<and> validPrincipal p \<and> pf_Expected input \<noteq> [] \<and>
     list_all (permission_ok p) (pf_Expected input) \<and>
     distinct (map newPermissionObservationKey (pf_Expected input)) \<and>
     PermissionInventoryFingerprint marshal sha256hex (pf_Expected input) = Inr (iv_Fingerprint pin) \<and>
     mset (pf_Observed input) = mset (pf_Expected input)"
    (is "?V \<longleftrightarrow> ?pin \<and> ?p \<and> ?ne \<and> ?ok \<and> ?d \<and> ?f \<and> ?m")
proof -
  let ?o = "pf_Observed input" and ?e = "pf_Expected input"
  have "?V \<longleftrightarrow> ?pin \<and> ?p \<and> ?ne \<and> ?ok \<and> ?d \<and> ?f \<and>
      list_all (permission_ok p) ?o \<and> distinct (map newPermissionObservationKey ?o) \<and>
      list_all (\<lambda>x. \<exists>want. map_of (rev (map (\<lambda>x. (newPermissionObservationKey x, x)) ?e))
        (newPermissionObservationKey x) = Some want \<and> pb_Granted x = pb_Granted want) ?o \<and>
      length ?o = length ?e"
    unfolding ValidatePermissionProof_def
    by (auto simp: bind_result_is_Inr expected_permissions observed_permissions)
  moreover have "list_all (permission_ok p) ?o \<and> distinct (map newPermissionObservationKey ?o)"
    if "?ok" "?d" "?m"
  proof -
    have "set ?o = set ?e" "mset (map newPermissionObservationKey ?o) = mset (map newPermissionObservationKey ?e)"
      using that(3) mset_eq_setD by (blast, simp)
    then show ?thesis
      using that(1,2) mset_eq_imp_distinct_iff unfolding list_all_iff by blast
  qed
  ultimately show ?thesis using observed_are_expected by blast
qed

end
