(* ===== verification/IsolationNetwork.thy ===== *)
theory IsolationNetwork
  imports IsolationBase
begin

section \<open>internal/isolation: the test network (guard.go, firewall.go)\<close>

text \<open>
  Canonical IPv4 prefixes and their overlap, the admission of the test network, and the validation of
  the discovered production networks. The overlap test of the code compares the base addresses only;
  it is shown to decide whether two canonical prefixes share an address.
\<close>

definition maxGCPSubnetPrefixBits :: nat where "maxGCPSubnetPrefixBits = 29"

definition parseCanonicalIPv4Prefix :: "string \<Rightarrow> ipv4_prefix option" where
  "parseCanonicalIPv4Prefix v =
     (case parse_prefix v of
        None \<Rightarrow> None
      | Some p \<Rightarrow> if p \<noteq> prefix_Masked p then None else Some p)"

definition privateRanges :: "ipv4_prefix list" where
  "privateRanges = [(0x0A000000, 8), (0xAC100000, 12), (0xC0A80000, 16)]"

definition isPrivateIPv4Prefix :: "ipv4_prefix \<Rightarrow> bool" where
  "isPrivateIPv4Prefix p =
     list_ex (\<lambda>privateRange. snd p \<ge> snd privateRange \<and> prefix_Contains privateRange (fst p)) privateRanges"

definition prefixesOverlap :: "ipv4_prefix \<Rightarrow> ipv4_prefix \<Rightarrow> bool" where
  "prefixesOverlap p q = (prefix_Contains p (fst q) \<or> prefix_Contains q (fst p))"

definition forbidden_network :: "ipv4_prefix \<Rightarrow> nat \<Rightarrow> string \<Rightarrow> guard_error option" where
  "forbidden_network testNetwork index v =
     (case parseCanonicalIPv4Prefix v of
        None \<Rightarrow> Some (Guard ErrInvalidGuardInput (indexedField ''forbiddenCIDRs'' index)
          ''must be a canonical IPv4 prefix'')
      | Some forbidden \<Rightarrow>
          fail_if (prefixesOverlap testNetwork forbidden)
            (Guard ErrNetworkOverlap (indexedField ''forbiddenCIDRs'' index) ''overlaps the test network''))"

definition ValidateNetworkCIDR :: "string \<Rightarrow> string list \<Rightarrow> guard_error option" where
  "ValidateNetworkCIDR testCIDR forbiddenCIDRs =
     (case parseCanonicalIPv4Prefix testCIDR of
        None \<Rightarrow> Some (Guard ErrInvalidGuardInput ''testCIDR'' ''must be a canonical IPv4 prefix'')
      | Some testNetwork \<Rightarrow>
          first_error
            [fail_if (snd testNetwork > maxGCPSubnetPrefixBits)
               (Guard ErrInvalidGuardInput ''testCIDR'' ''must be a provider-valid subnet prefix''),
             fail_if (\<not> isPrivateIPv4Prefix testNetwork)
               (Guard ErrNetworkOverlap ''testCIDR'' ''must be contained in an RFC 1918 range''),
             check_each (forbidden_network testNetwork) 0 forbiddenCIDRs])"

definition production_cidr :: "nat \<Rightarrow> string \<Rightarrow> guard_error option" where
  "production_cidr index v =
     fail_if (parseCanonicalIPv4Prefix v = None)
       (Guard ErrInvalidGuardInput (indexedField ''productionCIDRs'' index)
          ''must be a canonical IPv4 prefix'')"

definition validateProductionCIDRs :: "string list \<Rightarrow> guard_error option" where
  "validateProductionCIDRs values =
     check_unique (\<lambda>v. v) production_cidr
       (\<lambda>index v. Guard ErrInvalidGuardInput (indexedField ''productionCIDRs'' index)
          ''duplicates an earlier production CIDR'') 0 [] values"

subsection \<open>Overlap is a shared address\<close>

text \<open>The addresses of a network in text form; none when the text is not a canonical prefix.\<close>

definition network_has :: "string \<Rightarrow> ipv4 \<Rightarrow> bool" where
  "network_has v a = (case parseCanonicalIPv4Prefix v of None \<Rightarrow> False | Some p \<Rightarrow> prefix_Contains p a)"

lemma prefix_Contains_base: "prefix_Contains p (fst p)"
  by (simp add: prefix_Contains_def)

lemma prefix_Contains_wider:
  assumes "snd p \<le> snd q" and "prefix_Contains p a" and "prefix_Contains q a"
  shows "prefix_Contains p (fst q)"
proof (cases "snd q \<le> 32")
  case True
  then have sum: "32 - snd p = snd q - snd p + (32 - snd q)" using assms(1) by simp
  have drop: "drop_bit (32 - snd p) x = drop_bit (snd q - snd p) (drop_bit (32 - snd q) x)" for x :: ipv4
    by (subst sum) (simp add: drop_bit_drop_bit)
  show ?thesis
    using assms(2,3) unfolding prefix_Contains_def drop by simp
next
  case False
  then have "fst q = a" using assms(3) by (simp add: prefix_Contains_def)
  with assms(2) show ?thesis by simp
qed

lemma prefixesOverlap_iff: "prefixesOverlap p q \<longleftrightarrow> (\<exists>a. prefix_Contains p a \<and> prefix_Contains q a)"
proof
  assume "prefixesOverlap p q"
  then show "\<exists>a. prefix_Contains p a \<and> prefix_Contains q a"
    unfolding prefixesOverlap_def using prefix_Contains_base by blast
next
  assume "\<exists>a. prefix_Contains p a \<and> prefix_Contains q a"
  then show "prefixesOverlap p q"
    using prefix_Contains_wider [of p q] prefix_Contains_wider [of q p] linear [of "snd p" "snd q"]
    by (auto simp: prefixesOverlap_def)
qed

lemma ValidateNetworkCIDR_None:
  "ValidateNetworkCIDR t fs = None \<longleftrightarrow>
     (\<exists>p. parseCanonicalIPv4Prefix t = Some p \<and> snd p \<le> 29 \<and> isPrivateIPv4Prefix p \<and>
        list_all (\<lambda>v. \<exists>q. parseCanonicalIPv4Prefix v = Some q \<and> \<not> prefixesOverlap p q) fs)"
proof -
  have "forbidden_network p i v = None \<longleftrightarrow>
      (\<exists>q. parseCanonicalIPv4Prefix v = Some q \<and> \<not> prefixesOverlap p q)" for p i v
    by (auto simp: forbidden_network_def split: option.splits)
  then show ?thesis
    by (auto simp: ValidateNetworkCIDR_def maxGCPSubnetPrefixBits_def check_each_None
        list_all_length split: option.splits)
qed

lemma validateProductionCIDRs_None:
  "validateProductionCIDRs vs = None \<longleftrightarrow>
     list_all (\<lambda>v. \<exists>p. parseCanonicalIPv4Prefix v = Some p) vs \<and> distinct vs"
  by (auto simp: validateProductionCIDRs_def check_unique_None production_cidr_def list_all_length)

lemma private_addresses:
  assumes "isPrivateIPv4Prefix p" and "prefix_Contains p a"
  shows "list_ex (\<lambda>r. prefix_Contains r a) privateRanges"
  using assms prefix_within by (fastforce simp: isPrivateIPv4Prefix_def list_ex_iff)

text \<open>
  An admitted test network is private and isolated: every address of it lies in an RFC 1918 range
  and in none of the forbidden networks, all of which are well formed, and it is no narrower than a
  provider subnet may be (/29). The code only compares base addresses; the statement is about all.
\<close>

theorem test_network_isolated:
  assumes "ValidateNetworkCIDR testCIDR forbidden = None"
  shows "(\<exists>p. parseCanonicalIPv4Prefix testCIDR = Some p \<and> snd p \<le> 29) \<and>
    (\<forall>a. network_has testCIDR a \<longrightarrow>
       list_ex (\<lambda>r. prefix_Contains r a) privateRanges \<and>
       list_all (\<lambda>v. parseCanonicalIPv4Prefix v \<noteq> None \<and> \<not> network_has v a) forbidden)"
proof -
  from assms obtain p where p: "parseCanonicalIPv4Prefix testCIDR = Some p" "snd p \<le> 29"
    "isPrivateIPv4Prefix p"
    "list_all (\<lambda>v. \<exists>q. parseCanonicalIPv4Prefix v = Some q \<and> \<not> prefixesOverlap p q) forbidden"
    by (auto simp: ValidateNetworkCIDR_None)
  have "list_all (\<lambda>v. parseCanonicalIPv4Prefix v \<noteq> None \<and> \<not> network_has v a) forbidden"
    if "prefix_Contains p a" for a
    using p(4) that by (fastforce simp: list_all_iff network_has_def prefixesOverlap_iff)
  with p private_addresses show ?thesis by (auto simp: network_has_def)
qed

lemma sample_networks:
  "parseCanonicalIPv4Prefix ''10.90.0.0/24'' = Some (0x0A5A0000, 24)"
  "parseCanonicalIPv4Prefix ''10.20.0.0/16'' = Some (0x0A140000, 16)"
  by (simp_all add: parseCanonicalIPv4Prefix_def parse_prefix_def parse_ipv4_def decimal_field_def
      digits_value_def byte_def prefix_Masked_def is_digit_def digits_def)

lemma sample_network_admitted: "ValidateNetworkCIDR ''10.90.0.0/24'' [''10.20.0.0/16''] = None"
  unfolding ValidateNetworkCIDR_None
  by (simp add: sample_networks isPrivateIPv4Prefix_def privateRanges_def prefix_Contains_def
      prefixesOverlap_def)

lemma test_network_isolated_witness:
  "\<not> network_has ''10.20.0.0/16'' 0x0A5A0001 \<and> network_has ''10.90.0.0/24'' 0x0A5A0001"
proof -
  have "network_has ''10.90.0.0/24'' 0x0A5A0001"
    by (simp add: network_has_def sample_networks prefix_Contains_def)
  then show ?thesis using test_network_isolated [OF sample_network_admitted] by simp
qed

end
