(* ===== verification/IsolationLocks.thy ===== *)
theory IsolationLocks
  imports IsolationNetwork DomainEnums "HOL-Library.Product_Lexorder" "HOL-Library.Multiset"
begin

section \<open>internal/isolation: environment locks and pinned inventories (guard.go)\<close>

text \<open>
  The lock evidence of a run: one active disposable lock of this run held by the harness, and one
  observation for each declared non-disposable environment. The Go sets are lists, their sizes are
  counted without repetition.
\<close>

record EnvironmentIdentity =
  ei_Environment :: string
  ei_Class :: EnvironmentClass

record EnvironmentLock =
  el_Environment :: string
  el_Class :: EnvironmentClass
  el_RunID :: string
  el_Active :: bool
  el_Holder :: Principal

record environmentLockKey =
  lk_environment :: string
  lk_class :: EnvironmentClass
  lk_runID :: string

definition lock_key :: "EnvironmentLock \<Rightarrow> environmentLockKey" where
  "lock_key lock =
     \<lparr>lk_environment = el_Environment lock, lk_class = el_Class lock, lk_runID = el_RunID lock\<rparr>"

definition lock_identity :: "EnvironmentLock \<Rightarrow> EnvironmentIdentity" where
  "lock_identity lock = \<lparr>ei_Environment = el_Environment lock, ei_Class = el_Class lock\<rparr>"

subsection \<open>The declared environments\<close>

definition non_disposable_check :: "nat \<Rightarrow> EnvironmentIdentity \<Rightarrow> guard_error option" where
  "non_disposable_check index environment =
     fail_if (\<not> environmentPattern (ei_Environment environment) \<or>
         ei_Environment environment = TestEnvironmentLabel \<or> \<not> EnvironmentClass_Valid (ei_Class environment) \<or>
         ei_Class environment = EnvironmentDisposable)
       (Guard ErrInvalidGuardInput (indexedField ''expectedEnvironments'' index)
          ''must identify a non-disposable environment'')"

definition expected_environments_check :: "EnvironmentIdentity list \<Rightarrow> guard_error option" where
  "expected_environments_check expected =
     first_error
       [fail_if (length expected = 0) (Guard ErrInvalidGuardInput ''expectedEnvironments'' ''must not be empty''),
        check_unique ei_Environment non_disposable_check
          (\<lambda>index environment. Guard ErrInvalidGuardInput (indexedField ''expectedEnvironments'' index)
             ''duplicates an earlier environment'') 0 [] expected]"

definition environment_sort_key :: "EnvironmentIdentity \<Rightarrow> string \<times> string" where
  "environment_sort_key e = (ei_Environment e, EnvironmentClass_string (ei_Class e))"

definition NonDisposableEnvironmentInventoryFingerprint ::
  "(EnvironmentIdentity list \<Rightarrow> string option) \<Rightarrow> (string \<Rightarrow> string) \<Rightarrow> EnvironmentIdentity list \<Rightarrow>
     guard_error + string" where
  "NonDisposableEnvironmentInventoryFingerprint marshal sha256hex values =
     check (expected_environments_check values)
       (canonicalJSONFingerprint marshal sha256hex (sort_key environment_sort_key values))"

definition ProductionCIDRInventoryFingerprint ::
  "(string list \<Rightarrow> string option) \<Rightarrow> (string \<Rightarrow> string) \<Rightarrow> string list \<Rightarrow> guard_error + string" where
  "ProductionCIDRInventoryFingerprint marshal sha256hex values =
     check (first_error
       [fail_if (length values = 0) (Guard ErrInvalidGuardInput ''productionCIDRs'' ''must not be empty''),
        validateProductionCIDRs values])
     (canonicalJSONFingerprint marshal sha256hex (sort values))"

subsection \<open>The lock observations\<close>

record lock_state =
  ls_locks :: "environmentLockKey list"
  ls_environments :: "string list"
  ls_expected :: "EnvironmentIdentity list"
  ls_runLock :: bool

definition lock_step ::
  "EnvironmentIdentity list \<Rightarrow> string \<Rightarrow> Principal \<Rightarrow> nat \<Rightarrow> lock_state \<Rightarrow> EnvironmentLock \<Rightarrow>
     guard_error + lock_state" where
  "lock_step expected runID harnessPrincipal index st lock =
     (let path = indexedField ''locks'' index; key = lock_key lock;
          st' = st\<lparr>ls_locks := key # ls_locks st, ls_environments := el_Environment lock # ls_environments st\<rparr> in
      check (first_error
        [fail_if (\<not> environmentPattern (el_Environment lock) \<or> \<not> EnvironmentClass_Valid (el_Class lock))
           (Guard ErrInvalidGuardInput path ''must have canonical environment and class''),
         (if el_Active lock then
            fail_if (\<not> validPrincipal (el_Holder lock))
              (Guard ErrInvalidGuardInput path ''active observations require one canonical holder'')
          else
            fail_if (el_Holder lock \<noteq> zeroPrincipal)
              (Guard ErrInvalidGuardInput path ''inactive observations must not carry a holder'')),
         fail_if (key \<in> set (ls_locks st))
           (Guard ErrInvalidGuardInput path ''duplicates an earlier lock observation''),
         fail_if (el_Environment lock \<in> set (ls_environments st))
           (Guard ErrInvalidGuardInput path ''ambiguously repeats an environment'')])
      (if el_Class lock = EnvironmentDisposable then
         check (first_error
           [fail_if (el_Environment lock \<noteq> TestEnvironmentLabel \<or> el_RunID lock \<noteq> runID)
              (Guard ErrInvalidGuardInput path ''is an unexpected disposable lock''),
            fail_if (\<not> el_Active lock \<or> el_Holder lock \<noteq> harnessPrincipal)
              (Guard ErrRunLockNotHeld path ''is not held by the harness'')])
         (Inr (st'\<lparr>ls_runLock := True\<rparr>))
       else
         check (first_error
           [fail_if (el_RunID lock \<noteq> [])
              (Guard ErrInvalidGuardInput path ''non-disposable locks must not carry a run ID''),
            fail_if (el_Active lock \<and> el_Holder lock = harnessPrincipal)
              (Guard ErrNonDisposableLock path ''is held by the test harness''),
            fail_if (lock_identity lock \<notin> set expected)
              (Guard ErrInvalidGuardInput path ''is an unexpected non-disposable lock'')])
         (Inr (st'\<lparr>ls_expected := lock_identity lock # ls_expected st\<rparr>))))"

definition ValidateHarnessLocks ::
  "EnvironmentLock list \<Rightarrow> EnvironmentIdentity list \<Rightarrow> string \<Rightarrow> Principal \<Rightarrow> guard_error option" where
  "ValidateHarnessLocks locks expected runID harnessPrincipal =
     error_of (check (first_error
       [ValidateRunID runID,
        fail_if (\<not> validPrincipal harnessPrincipal)
          (Guard ErrInvalidGuardInput ''harnessPrincipal'' ''must be a canonical principal''),
        expected_environments_check expected])
     (bind_result (range_loop (lock_step expected runID harnessPrincipal) 0
         \<lparr>ls_locks = [], ls_environments = [], ls_expected = [], ls_runLock = False\<rparr> locks) (\<lambda>st.
       check (first_error
         [fail_if (\<not> ls_runLock st)
            (Guard ErrRunLockNotHeld ''locks'' ''is missing the run-specific disposable lock''),
          fail_if (length (remdups (ls_expected st)) \<noteq> length (remdups expected))
            (Guard ErrInvalidGuardInput ''locks'' ''is missing a declared non-disposable environment''),
          fail_if (length (ls_locks st) \<noteq> length (remdups expected) + 1)
            (Guard ErrInvalidGuardInput ''locks'' ''does not exactly match the declared lock set'')])
       (Inr ()))))"

subsection \<open>What the loops accept\<close>

definition non_disposable :: "EnvironmentIdentity \<Rightarrow> bool" where
  "non_disposable e =
     (environmentPattern (ei_Environment e) \<and> ei_Environment e \<noteq> TestEnvironmentLabel \<and>
      EnvironmentClass_Valid (ei_Class e) \<and> ei_Class e \<noteq> EnvironmentDisposable)"

lemma expected_environments_check_None:
  "expected_environments_check es = None \<longleftrightarrow>
     es \<noteq> [] \<and> list_all non_disposable es \<and> distinct (map ei_Environment es)"
proof -
  have "non_disposable_check i e = None \<longleftrightarrow> non_disposable e" for i e
    by (auto simp: non_disposable_check_def non_disposable_def)
  then show ?thesis
    by (auto simp: expected_environments_check_def check_unique_None list_all_length)
qed

definition run_lock :: "string \<Rightarrow> Principal \<Rightarrow> EnvironmentLock" where
  "run_lock runID p =
     \<lparr>el_Environment = TestEnvironmentLabel, el_Class = EnvironmentDisposable, el_RunID = runID,
      el_Active = True, el_Holder = p\<rparr>"

text \<open>A non-disposable observation that the harness may see.\<close>

definition foreign_lock_ok :: "Principal \<Rightarrow> EnvironmentLock \<Rightarrow> bool" where
  "foreign_lock_ok p l =
     (el_RunID l = [] \<and>
      (if el_Active l then validPrincipal (el_Holder l) \<and> el_Holder l \<noteq> p else el_Holder l = zeroPrincipal))"

definition lock_ok :: "EnvironmentIdentity list \<Rightarrow> string \<Rightarrow> Principal \<Rightarrow> EnvironmentLock \<Rightarrow> bool" where
  "lock_ok expected r p l =
     (l = run_lock r p \<or> foreign_lock_ok p l \<and> el_Class l \<noteq> EnvironmentDisposable \<and> lock_identity l \<in> set expected)"

lemma lock_step_Inr:
  assumes "list_all non_disposable expected" and "validPrincipal p"
  shows "lock_step expected r p i st l = Inr st' \<longleftrightarrow>
     lock_ok expected r p l \<and> lock_key l \<notin> set (ls_locks st) \<and> el_Environment l \<notin> set (ls_environments st) \<and>
     st' = \<lparr>ls_locks = lock_key l # ls_locks st, ls_environments = el_Environment l # ls_environments st,
       ls_expected = (if el_Class l = EnvironmentDisposable then ls_expected st else lock_identity l # ls_expected st),
       ls_runLock = (el_Class l = EnvironmentDisposable \<or> ls_runLock st)\<rparr>"
proof (cases "el_Class l = EnvironmentDisposable")
  case True
  have label: "environmentPattern TestEnvironmentLabel"
    by (simp add: TestEnvironmentLabel_def pattern_defs char_class_defs)
  have "el_Environment l = TestEnvironmentLabel \<and> el_RunID l = r \<and> el_Active l \<and> el_Holder l = p \<longleftrightarrow>
      l = run_lock r p"
    using True by (cases l) (auto simp: run_lock_def)
  then show ?thesis
    using True assms(2) label
    by (auto simp: lock_step_def Let_def lock_ok_def)
next
  case False
  have "environmentPattern (el_Environment l) \<and> EnvironmentClass_Valid (el_Class l)"
    if "lock_identity l \<in> set expected"
    using that assms(1) by (auto simp: list_all_iff non_disposable_def lock_identity_def)
  moreover have "l \<noteq> run_lock r p" using False by (auto simp: run_lock_def)
  ultimately show ?thesis
    using False by (auto simp: lock_step_def Let_def lock_ok_def foreign_lock_ok_def)
qed

lemma lock_loop:
  assumes "list_all non_disposable expected" and "validPrincipal p"
  shows "range_loop (lock_step expected r p) 0
      \<lparr>ls_locks = [], ls_environments = [], ls_expected = [], ls_runLock = False\<rparr> locks = Inr st \<longleftrightarrow>
    list_all (lock_ok expected r p) locks \<and> distinct (map el_Environment locks) \<and>
    st = \<lparr>ls_locks = rev (map lock_key locks), ls_environments = rev (map el_Environment locks),
      ls_expected = rev (map lock_identity (filter (\<lambda>l. el_Class l \<noteq> EnvironmentDisposable) locks)),
      ls_runLock = list_ex (\<lambda>l. el_Class l = EnvironmentDisposable) locks\<rparr>"
proof (induction locks arbitrary: st rule: rev_induct)
  case Nil
  then show ?case by auto
next
  case (snoc l locks)
  have key: "lock_key l \<notin> lock_key ` set locks" if "el_Environment l \<notin> el_Environment ` set locks"
    using that by (auto simp: lock_key_def)
  show ?case
    unfolding range_loop_snoc snoc.IH lock_step_Inr [OF assms]
    using key by (auto simp: image_image)
qed

text \<open>
  The lock evidence is accepted exactly when it is the run lock, held by the harness, next to one
  observation of each declared environment, none of which the harness holds.
\<close>

lemma filter_single:
  assumes "distinct (map k xs)" and "\<And>x. x \<in> set xs \<Longrightarrow> P x \<Longrightarrow> x = a" and "list_ex P xs"
  shows "filter P xs = [a]"
  using assms
proof (induction xs)
  case (Cons x xs)
  show ?case
  proof (cases "P x")
    case True
    then have x: "x = a" using Cons.prems(2) by simp
    have "\<not> P y" if "y \<in> set xs" for y
    proof
      assume "P y"
      then have "y = a" using Cons.prems(2) that by simp
      with x that Cons.prems(1) show False by auto
    qed
    with x True show ?thesis by (simp add: filter_empty_conv)
  next
    case False
    with Cons show ?thesis by auto
  qed
qed simp

theorem ValidateHarnessLocks_None:
  "ValidateHarnessLocks locks expected r p = None \<longleftrightarrow>
     ValidateRunID r = None \<and> validPrincipal p \<and> expected \<noteq> [] \<and> list_all non_disposable expected \<and>
     distinct (map ei_Environment expected) \<and>
     filter (\<lambda>l. el_Class l = EnvironmentDisposable) locks = [run_lock r p] \<and>
     list_all (foreign_lock_ok p) (filter (\<lambda>l. el_Class l \<noteq> EnvironmentDisposable) locks) \<and>
     mset (map lock_identity (filter (\<lambda>l. el_Class l \<noteq> EnvironmentDisposable) locks)) = mset expected"
  (is "?V \<longleftrightarrow> ?r \<and> ?p \<and> ?ne \<and> ?nd \<and> ?d \<and> ?one \<and> ?foreign \<and> ?m")
proof (cases "?r \<and> ?p \<and> ?ne \<and> ?nd \<and> ?d")
  case False
  then show ?thesis
    by (auto simp: ValidateHarnessLocks_def expected_environments_check_None)
next
  case True
  let ?ds = "filter (\<lambda>l. el_Class l = EnvironmentDisposable) locks"
  let ?fs = "filter (\<lambda>l. el_Class l \<noteq> EnvironmentDisposable) locks"
  let ?ids = "map lock_identity ?fs"
  have de: "distinct expected" using True by (simp add: distinct_map)
  have "?V \<longleftrightarrow> list_all (lock_ok expected r p) locks \<and> distinct (map el_Environment locks) \<and>
      list_ex (\<lambda>l. el_Class l = EnvironmentDisposable) locks \<and> card (set ?ids) = length expected \<and>
      length locks = length expected + 1"
    using True de
    by (auto simp: ValidateHarnessLocks_def expected_environments_check_None bind_result_is_Inr lock_loop
        distinct_remdups_id length_remdups_card_conv distinct_card)
  also have "\<dots> \<longleftrightarrow> ?one \<and> ?foreign \<and> ?m"
  proof (intro iffI)
    assume l: "list_all (lock_ok expected r p) locks \<and> distinct (map el_Environment locks) \<and>
      list_ex (\<lambda>l. el_Class l = EnvironmentDisposable) locks \<and> card (set ?ids) = length expected \<and>
      length locks = length expected + 1"
    have "?one"
      using l by (intro filter_single [of el_Environment]) (auto simp: list_all_iff lock_ok_def)
    moreover have "?foreign" using l by (auto simp: list_all_iff lock_ok_def run_lock_def)
    moreover have "set ?ids \<subseteq> set expected" using l by (auto simp: list_all_iff lock_ok_def run_lock_def)
    then have "set ?ids = set expected"
      using l de by (intro card_subset_eq) (simp_all add: distinct_card)
    moreover have "map ei_Environment ?ids = map el_Environment ?fs" by (simp add: lock_identity_def)
    then have "distinct ?ids" using l by (metis distinct_map distinct_map_filter)
    ultimately show "?one \<and> ?foreign \<and> ?m" using de set_eq_iff_mset_eq_distinct by blast
  next
    assume l: "?one \<and> ?foreign \<and> ?m"
    then have ids: "set ?ids = set expected" "length ?fs = length expected"
      using mset_eq_setD mset_eq_length by (blast, metis length_map)
    have ok: "lock_ok expected r p l" if "l \<in> set locks" for l
    proof (cases "el_Class l = EnvironmentDisposable")
      case True
      then have "l \<in> set ?ds" using that by simp
      then show ?thesis using l by (simp add: lock_ok_def)
    next
      case False
      then have "l \<in> set ?fs" "lock_identity l \<in> set ?ids" using that by auto
      then show ?thesis using l ids(1) False by (auto simp: lock_ok_def list_all_iff)
    qed
    have parts: "mset locks = mset ?ds + mset ?fs" by simp
    have "map el_Environment ?fs = map ei_Environment ?ids" by (simp add: lock_identity_def)
    then have "image_mset el_Environment (mset ?fs) = image_mset ei_Environment (mset ?ids)"
      by (metis mset_map)
    then have fs: "image_mset el_Environment (mset ?fs) = mset (map ei_Environment expected)"
      using l by simp
    have ds: "image_mset el_Environment (mset ?ds) = {#TestEnvironmentLabel#}"
      using l by (simp add: run_lock_def)
    have "mset (map el_Environment locks) = mset (TestEnvironmentLabel # map ei_Environment expected)"
      unfolding mset_map parts image_mset_union fs ds by simp
    moreover have "distinct (TestEnvironmentLabel # map ei_Environment expected)"
      using True by (auto simp: list_all_iff non_disposable_def)
    ultimately have "distinct (map el_Environment locks)" using mset_eq_imp_distinct_iff by blast
    moreover have "length locks = length ?ds + length ?fs" by (rule sum_length_filter_compl [symmetric])
    ultimately show "list_all (lock_ok expected r p) locks \<and> distinct (map el_Environment locks) \<and>
      list_ex (\<lambda>l. el_Class l = EnvironmentDisposable) locks \<and> card (set ?ids) = length expected \<and>
      length locks = length expected + 1"
      using ok l ids de by (auto simp: list_all_iff distinct_card list_ex_iff filter_eq_Cons_iff)
  qed
  finally show ?thesis using True by blast
qed

end
