(* ===== verification/KeyedSelection.thy ===== *)
theory KeyedSelection
  imports Main "HOL-Library.Multiset" "HOL-Library.Char_ord" "HOL-Library.List_Lexorder"
begin

section \<open>The contract of a selection by key\<close>

text \<open>
  Several guards take an unordered set of items as a slice, accept it when every item passes and no
  key repeats, and return it sorted by key. What a caller may rely on is proved here once: the
  selection adds and drops nothing, is sorted and free of duplicates, does not depend on the order in
  which the items were discovered, and is accepted again unchanged at the next boundary.
\<close>

lemma sort_key_unique:
  "mset xs = mset ys \<Longrightarrow> distinct (map k xs) \<Longrightarrow> sort_key k xs = sort_key k ys"
  by (rule sort_key_inj_key_eq) (simp_all add: distinct_map)

lemma distinct_map_finer:
  assumes "distinct (map f xs)" and "\<And>x y. x \<in> set xs \<Longrightarrow> y \<in> set xs \<Longrightarrow> g x = g y \<Longrightarrow> f x = f y"
  shows "distinct (map g xs)"
proof -
  have "inj_on f (set xs)" "distinct xs" using assms(1) by (simp_all add: distinct_map)
  then show ?thesis
    using assms(2) unfolding distinct_map inj_on_def by blast
qed

locale keyed_selection =
  fixes ready :: bool
    and ok :: "'r \<Rightarrow> bool"
    and key :: "'r \<Rightarrow> string"
    and admit :: "'r list \<Rightarrow> 'e + 'r list"
  assumes admit_Inr:
    "admit xs = Inr ys \<longleftrightarrow>
       ready \<and> list_all ok xs \<and> distinct (map key xs) \<and> ys = sort_key key xs"
begin

lemma selected: "admit xs = Inr ys \<Longrightarrow>
  mset ys = mset xs \<and> sorted (map key ys) \<and> distinct (map key ys) \<and> list_all ok ys"
proof -
  assume "admit xs = Inr ys"
  then have xs: ready "list_all ok xs" "distinct (map key xs)" "ys = sort_key key xs"
    by (simp_all add: admit_Inr)
  then have ys: "mset ys = mset xs" by simp
  then have "mset (map key ys) = mset (map key xs)" by simp
  then have "distinct (map key ys)" using xs(3) mset_eq_imp_distinct_iff by blast
  moreover have "set ys = set xs" using ys mset_eq_setD by blast
  ultimately show ?thesis using xs ys by (simp add: list_all_iff)
qed

lemma same_members: "admit xs = Inr ys \<Longrightarrow> set ys = set xs"
  using selected mset_eq_setD by blast

lemma order_irrelevant: "admit xs = Inr ys \<Longrightarrow> mset xs' = mset xs \<Longrightarrow> admit xs' = Inr ys"
proof -
  assume a: "admit xs = Inr ys" and m: "mset xs' = mset xs"
  from a have xs: ready "list_all ok xs" "distinct (map key xs)" "ys = sort_key key xs"
    by (simp_all add: admit_Inr)
  have "mset (map key xs') = mset (map key xs)" using m by simp
  then have "distinct (map key xs')" using xs(3) mset_eq_imp_distinct_iff by blast
  moreover have "list_all ok xs'" using xs(2) mset_eq_setD [OF m] by (simp add: list_all_iff)
  ultimately show ?thesis
    using xs(1,3,4) sort_key_unique [of xs xs' key] m by (simp add: admit_Inr)
qed

lemma selection_stable: "admit xs = Inr ys \<Longrightarrow> admit ys = Inr ys"
  using order_irrelevant selected by metis

lemma selection_subset:
  "admit xs = Inr ys \<Longrightarrow> admit (filter P xs) = Inr (filter P ys)"
proof -
  assume "admit xs = Inr ys"
  then have xs: ready "list_all ok xs" "distinct (map key xs)" "ys = sort_key key xs"
    by (simp_all add: admit_Inr)
  have "distinct (map key (filter P xs))" using xs(3) by (simp add: distinct_map_filter)
  with xs show ?thesis by (simp add: admit_Inr filter_sort list_all_iff)
qed

end

end
