(* ===== verification/IsolationTargets.thy ===== *)
theory IsolationTargets
  imports IsolationBase KeyedSelection
begin

section \<open>internal/isolation: mutation and cleanup targets (guard.go, ownership.go)\<close>

text \<open>
  The resources a test run may mutate, and those that teardown and the nightly wipe may delete. A
  label map is a finite map; \<open>cloneMutationTarget\<close> detaches a copy, which is the same value here.
\<close>

record MutationTarget =
  mt_Identity :: ResourceIdentity
  mt_Labels :: string_map

abbreviation target_key :: "MutationTarget \<Rightarrow> string" where
  "target_key t \<equiv> ri_CanonicalKey (mt_Identity t)"

subsection \<open>Cleanup capabilities\<close>

datatype CleanupCapability =
    CleanupComputeInstances
  | CleanupComputeDisks
  | CleanupComputeFirewalls
  | CleanupOther string

definition initialCleanupCapabilities :: "CleanupCapability list" where
  "initialCleanupCapabilities =
     [CleanupComputeDisks, CleanupComputeFirewalls, CleanupComputeInstances]"

definition InitialCleanupCapabilities :: "CleanupCapability list" where
  "InitialCleanupCapabilities = initialCleanupCapabilities"

definition ValidateCleanupCapabilities :: "CleanupCapability list \<Rightarrow> guard_error option" where
  "ValidateCleanupCapabilities values =
     first_error
       [fail_if (length values \<noteq> length initialCleanupCapabilities)
          (Guard ErrInvalidOwnershipProof ''cleanupCapabilities'' ''does not contain the complete supported set''),
        check_each (\<lambda>index expected.
            fail_if (values ! index \<noteq> expected)
              (Guard ErrInvalidOwnershipProof (indexedField ''cleanupCapabilities'' index)
                 ''does not match the canonical supported set''))
          0 initialCleanupCapabilities]"

lemma ValidateCleanupCapabilities_None:
  "ValidateCleanupCapabilities cs = None \<longleftrightarrow> cs = initialCleanupCapabilities"
  by (auto simp: ValidateCleanupCapabilities_def check_each_None list_eq_iff_nth_eq)

definition cleanupCapabilityFor :: "ResourceIdentity \<Rightarrow> CleanupCapability option" where
  "cleanupCapabilityFor identity =
     (if ri_Service identity \<noteq> ComputeServiceName then None
      else if ri_Kind identity = ComputeInstanceKind then Some CleanupComputeInstances
      else if ri_Kind identity = ComputeDiskKind then Some CleanupComputeDisks
      else if ri_Kind identity = ComputeFirewallKind then Some CleanupComputeFirewalls
      else None)"

definition labelCapableCleanupIdentity :: "ResourceIdentity \<Rightarrow> bool" where
  "labelCapableCleanupIdentity identity =
     (case cleanupCapabilityFor identity of
        None \<Rightarrow> False
      | Some capability \<Rightarrow> capability \<noteq> CleanupComputeFirewalls)"

lemma labelCapableCleanupIdentity_iff:
  "labelCapableCleanupIdentity i \<longleftrightarrow>
     ri_Service i = ComputeServiceName \<and>
     (ri_Kind i = ComputeInstanceKind \<or> ri_Kind i = ComputeDiskKind)"
  by (auto simp: labelCapableCleanupIdentity_def cleanupCapabilityFor_def service_kinds)

subsection \<open>Targets of a run\<close>

definition cloneMutationTarget :: "MutationTarget \<Rightarrow> MutationTarget" where
  "cloneMutationTarget target = target\<lparr>mt_Labels := mt_Labels target\<rparr>"

lemma cloneMutationTarget_id [simp]: "cloneMutationTarget t = t"
  by (simp add: cloneMutationTarget_def)

lemma map_cloneMutationTarget [simp]: "map cloneMutationTarget ts = ts"
  by (simp add: map_idI)

definition validateMutationTarget :: "MutationTarget \<Rightarrow> guard_error option" where
  "validateMutationTarget target =
     first_error
       [validateResourceIdentity (mt_Identity target),
        fail_if (\<not> IsTestResource
            \<lparr>gr_Name = ri_Name (mt_Identity target), gr_Labels = mt_Labels target\<rparr>)
          (Guard ErrUnsafeTarget ''target.labels'' ''do not have exact disposable identity'')]"

definition run_target_checks :: "string \<Rightarrow> string \<Rightarrow> nat \<Rightarrow> MutationTarget \<Rightarrow> guard_error option" where
  "run_target_checks runID pre index resource =
     (let path = indexedField ''targets'' index in
      first_error
        [wrap_error (validateMutationTarget resource) path ''has invalid full identity'',
         fail_if (\<not> labelCapableCleanupIdentity (mt_Identity resource))
           (Guard ErrUnsafeTarget path ''does not use the label-capable ownership contract''),
         fail_if (\<not> has_prefix (ri_Name (mt_Identity resource)) pre \<or>
             length (ri_Name (mt_Identity resource)) = length pre \<or>
             value_at (mt_Labels resource) LabelRunID \<noteq> runID)
           (Guard ErrUnsafeTarget path ''does not have exact run-scoped disposable identity'')])"

definition duplicate_target :: "nat \<Rightarrow> 'a \<Rightarrow> guard_error" where
  "duplicate_target index resource =
     Guard ErrInvalidGuardInput (indexedField ''targets'' index) ''duplicates an earlier target''"

definition SelectRunMutationTargets ::
  "string \<Rightarrow> MutationTarget list \<Rightarrow> guard_error + MutationTarget list" where
  "SelectRunMutationTargets runID resources =
     bind_result (RunResourcePrefix runID) (\<lambda>pre.
       check (check_unique target_key (run_target_checks runID pre) duplicate_target 0 [] resources)
         (Inr (sort_key target_key (map cloneMutationTarget resources))))"

subsection \<open>Firewall targets of a run\<close>

datatype FirewallPurpose =
    FirewallPurposeIAPSSH
  | FirewallPurposeInternalMongo
  | FirewallPurposeOther string

fun FirewallPurpose_string :: "FirewallPurpose \<Rightarrow> string" where
  "FirewallPurpose_string FirewallPurposeIAPSSH = ''iap-ssh''"
| "FirewallPurpose_string FirewallPurposeInternalMongo = ''internal-mongodb''"
| "FirewallPurpose_string (FirewallPurposeOther s) = s"

definition iapSSHFirewallRuleSuffix :: string where "iapSSHFirewallRuleSuffix = ''iap-ssh''"
definition mongoFirewallRuleSuffix :: string where "mongoFirewallRuleSuffix = ''internal''"

definition RunFirewallRuleName :: "string \<Rightarrow> FirewallPurpose \<Rightarrow> guard_error + string" where
  "RunFirewallRuleName runID purpose =
     bind_result (RunResourcePrefix runID) (\<lambda>pre.
       case purpose of
         FirewallPurposeIAPSSH \<Rightarrow> Inr (pre @ iapSSHFirewallRuleSuffix)
       | FirewallPurposeInternalMongo \<Rightarrow> Inr (pre @ mongoFirewallRuleSuffix)
       | FirewallPurposeOther s \<Rightarrow> Inl (Guard ErrUnsafeFirewall ''purpose'' ''is not recognized''))"

definition isExactRunFirewallName :: "string \<Rightarrow> string \<Rightarrow> bool" where
  "isExactRunFirewallName name runID =
     list_ex (\<lambda>purpose. RunFirewallRuleName runID purpose = Inr name)
       [FirewallPurposeIAPSSH, FirewallPurposeInternalMongo]"

lemma isExactRunFirewallName_iff:
  "isExactRunFirewallName name runID \<longleftrightarrow>
     ValidateRunID runID = None \<and>
     (name = TestResourcePrefix @ runID @ ''-iap-ssh'' \<or> name = TestResourcePrefix @ runID @ ''-internal'')"
  by (auto simp: isExactRunFirewallName_def RunFirewallRuleName_def bind_result_is_Inr
      RunResourcePrefix_Inr iapSSHFirewallRuleSuffix_def mongoFirewallRuleSuffix_def)

definition firewall_target_checks :: "string \<Rightarrow> nat \<Rightarrow> MutationTarget \<Rightarrow> guard_error option" where
  "firewall_target_checks runID index resource =
     (let path = indexedField ''targets'' index; identity = mt_Identity resource in
      first_error
        [wrap_error (validateResourceIdentity identity) path ''has invalid full identity'',
         fail_if (ri_Service identity \<noteq> ComputeServiceName \<or> ri_Kind identity \<noteq> ComputeFirewallKind \<or>
             ri_Scope identity \<noteq> ResourceScopeGlobal \<or> ri_Location identity \<noteq> ''global'')
           (Guard ErrUnsafeFirewall path ''is not a classic global Compute firewall''),
         fail_if (mt_Labels resource \<noteq> fmempty)
           (Guard ErrUnsafeFirewall path ''must not invent ordinary labels for a classic firewall''),
         fail_if (\<not> isExactRunFirewallName (ri_Name identity) runID)
           (Guard ErrUnsafeFirewall path ''is not one of the two exact run firewall identities'')])"

definition SelectRunFirewallMutationTargets ::
  "string \<Rightarrow> MutationTarget list \<Rightarrow> guard_error + MutationTarget list" where
  "SelectRunFirewallMutationTargets runID resources =
     check (error_of (RunResourcePrefix runID))
       (check (check_unique target_key (firewall_target_checks runID) duplicate_target 0 [] resources)
         (Inr (sort_key target_key (map cloneMutationTarget resources))))"

subsection \<open>Both selections keep the contract\<close>

lemma check_unique_keyed:
  assumes "\<And>i x. ok i x = None \<longleftrightarrow> P x"
  shows "check_unique k ok dup i [] xs = None \<longleftrightarrow> list_all P xs \<and> distinct (map k xs)"
  using assms by (auto simp: check_unique_None list_all_length)

definition run_target_ok :: "string \<Rightarrow> MutationTarget \<Rightarrow> bool" where
  "run_target_ok runID t =
     (ValidateRunID runID = None \<and> validateMutationTarget t = None \<and>
      labelCapableCleanupIdentity (mt_Identity t) \<and>
      has_prefix (ri_Name (mt_Identity t)) (TestResourcePrefix @ runID @ ''-'') \<and>
      ri_Name (mt_Identity t) \<noteq> TestResourcePrefix @ runID @ ''-'' \<and>
      value_at (mt_Labels t) LabelRunID = runID)"

definition firewall_target_ok :: "string \<Rightarrow> MutationTarget \<Rightarrow> bool" where
  "firewall_target_ok runID t =
     (validateResourceIdentity (mt_Identity t) = None \<and>
      ri_Service (mt_Identity t) = ComputeServiceName \<and> ri_Kind (mt_Identity t) = ComputeFirewallKind \<and>
      ri_Scope (mt_Identity t) = ResourceScopeGlobal \<and> ri_Location (mt_Identity t) = ''global'' \<and>
      mt_Labels t = fmempty \<and> isExactRunFirewallName (ri_Name (mt_Identity t)) runID)"

lemma run_target_checks_None:
  assumes "ValidateRunID r = None"
  shows "run_target_checks r (TestResourcePrefix @ r @ ''-'') i t = None \<longleftrightarrow> run_target_ok r t"
  using assms by (auto simp: run_target_checks_def run_target_ok_def Let_def has_prefix_iff)

lemma firewall_target_checks_None:
  "firewall_target_checks r i t = None \<longleftrightarrow> firewall_target_ok r t"
  by (auto simp: firewall_target_checks_def firewall_target_ok_def Let_def)

lemma SelectRunMutationTargets_Inr:
  "SelectRunMutationTargets r xs = Inr ys \<longleftrightarrow>
     ValidateRunID r = None \<and> list_all (run_target_ok r) xs \<and> distinct (map target_key xs) \<and>
     ys = sort_key target_key xs"
proof (cases "ValidateRunID r = None")
  case True
  show ?thesis
    using check_unique_keyed [where ok = "run_target_checks r (TestResourcePrefix @ r @ ''-'')",
        OF run_target_checks_None [OF True]] True
    by (simp add: SelectRunMutationTargets_def bind_result_is_Inr RunResourcePrefix_Inr) auto
qed (auto simp: SelectRunMutationTargets_def bind_result_is_Inr RunResourcePrefix_Inr)

lemma SelectRunFirewallMutationTargets_Inr:
  "SelectRunFirewallMutationTargets r xs = Inr ys \<longleftrightarrow>
     ValidateRunID r = None \<and> list_all (firewall_target_ok r) xs \<and> distinct (map target_key xs) \<and>
     ys = sort_key target_key xs"
  using check_unique_keyed [where ok = "firewall_target_checks r", OF firewall_target_checks_None]
  by (simp add: SelectRunFirewallMutationTargets_def RunResourcePrefix_Inr) auto

interpretation run_targets: keyed_selection
  "ValidateRunID r = None" "run_target_ok r" target_key "SelectRunMutationTargets r" for r
  by unfold_locales (rule SelectRunMutationTargets_Inr)

interpretation firewall_targets: keyed_selection
  "ValidateRunID r = None" "firewall_target_ok r" target_key "SelectRunFirewallMutationTargets r" for r
  by unfold_locales (rule SelectRunFirewallMutationTargets_Inr)


text \<open>A target belongs to one run only.\<close>

lemma run_target_one_run: "run_target_ok r t \<Longrightarrow> run_target_ok q t \<Longrightarrow> r = q"
  by (simp add: run_target_ok_def)

lemma append_last_neq: "last u \<noteq> last v \<Longrightarrow> u \<noteq> [] \<Longrightarrow> v \<noteq> [] \<Longrightarrow> x @ u \<noteq> y @ v"
  by (metis last_appendR)

lemma firewall_target_one_run: "firewall_target_ok r t \<Longrightarrow> firewall_target_ok q t \<Longrightarrow> r = q"
proof -
  have "x @ ''-iap-ssh'' \<noteq> y @ ''-internal''" for x y :: string
    by (rule append_last_neq) simp_all
  then have "r @ ''-iap-ssh'' \<noteq> q @ ''-internal''" "r @ ''-internal'' \<noteq> q @ ''-iap-ssh''"
    by metis+
  then show "firewall_target_ok r t \<Longrightarrow> firewall_target_ok q t \<Longrightarrow> r = q"
    by (auto simp: firewall_target_ok_def isExactRunFirewallName_iff)
qed

text \<open>No resource is a target under both ownership contracts.\<close>

lemma target_contracts_disjoint: "run_target_ok r t \<Longrightarrow> \<not> firewall_target_ok q t"
  by (auto simp: run_target_ok_def firewall_target_ok_def labelCapableCleanupIdentity_iff service_kinds)

lemma run_target_disposable:
  "run_target_ok r t \<Longrightarrow>
     IsTestResource \<lparr>gr_Name = ri_Name (mt_Identity t), gr_Labels = mt_Labels t\<rparr>"
  by (simp add: run_target_ok_def validateMutationTarget_def)

text \<open>
  At most two firewalls of one run: with one project, the canonical key is a function of the name.
\<close>

lemma CanonicalTargetKey_fields:
  "CanonicalTargetKey i = Inr k \<Longrightarrow> i\<lparr>ri_CanonicalKey := c\<rparr> = j\<lparr>ri_CanonicalKey := c\<rparr> \<Longrightarrow>
     CanonicalTargetKey j = Inr k"
proof -
  assume i: "CanonicalTargetKey i = Inr k" and "i\<lparr>ri_CanonicalKey := c\<rparr> = j\<lparr>ri_CanonicalKey := c\<rparr>"
  then have j: "j = i\<lparr>ri_CanonicalKey := ri_CanonicalKey j\<rparr>" by (cases i, cases j) simp
  have "CanonicalTargetKey (i\<lparr>ri_CanonicalKey := d\<rparr>) = CanonicalTargetKey i" for d
    by (cases i) (simp only: CanonicalTargetKey_def target_scopePath_def target_parentPath_def
        validateKnownResourceScope_def ResourceIdentity.simps)
  with i j show ?thesis by metis
qed

lemma firewall_targets_same_name:
  assumes "firewall_target_ok r t" and "firewall_target_ok r u"
    and "ri_Project (mt_Identity t) = ri_Project (mt_Identity u)"
    and "ri_Name (mt_Identity t) = ri_Name (mt_Identity u)"
  shows "t = u"
proof -
  let ?i = "mt_Identity t" and ?j = "mt_Identity u"
  have "ri_ParentName ?i = []" "ri_ParentName ?j = []"
    using assms(1,2)
    by (auto simp: firewall_target_ok_def validateResourceIdentity_None CanonicalTargetKey_Inr
        target_parentPath_def service_kinds)
  then have same: "?i\<lparr>ri_CanonicalKey := []\<rparr> = ?j\<lparr>ri_CanonicalKey := []\<rparr>"
    using assms by (intro ResourceIdentity.equality) (simp_all add: firewall_target_ok_def)
  have "CanonicalTargetKey ?i = Inr (ri_CanonicalKey ?i)" "CanonicalTargetKey ?j = Inr (ri_CanonicalKey ?j)"
    using assms(1,2) by (simp_all add: firewall_target_ok_def validateResourceIdentity_None)
  then have "ri_CanonicalKey ?i = ri_CanonicalKey ?j"
    using CanonicalTargetKey_fields [OF _ same] by (metis sum.inject(2))
  with same have "?i = ?j" by (cases ?i, cases ?j) simp
  moreover have "mt_Labels t = mt_Labels u" using assms(1,2) by (simp add: firewall_target_ok_def)
  ultimately show ?thesis by (cases t, cases u) simp
qed

subsection \<open>Cleanup and expiry\<close>

record CleanupPolicy =
  cp_ProjectID :: string

definition cleanup_target_checks :: "CleanupPolicy \<Rightarrow> nat \<Rightarrow> MutationTarget \<Rightarrow> guard_error option" where
  "cleanup_target_checks policy index resource =
     (let path = indexedField ''targets'' index in
      first_error
        [wrap_error (validateMutationTarget resource) path ''has invalid full identity'',
         fail_if (ri_Project (mt_Identity resource) \<noteq> cp_ProjectID policy)
           (Guard ErrUnsafeTarget path ''does not belong to the configured cleanup project''),
         fail_if (\<not> labelCapableCleanupIdentity (mt_Identity resource))
           (Guard ErrUnsafeTarget path ''uses a resource kind that cleanup does not support''),
         fail_if (\<not> IsTestResource
             \<lparr>gr_Name = ri_Name (mt_Identity resource), gr_Labels = mt_Labels resource\<rparr>)
           (Guard ErrUnsafeTarget path ''does not have exact disposable identity'')])"

definition ValidateCleanupTargets :: "CleanupPolicy \<Rightarrow> MutationTarget list \<Rightarrow> guard_error option" where
  "ValidateCleanupTargets policy resources =
     first_error
       [fail_if (\<not> projectIDPattern (cp_ProjectID policy))
          (Guard ErrInvalidGuardInput ''cleanupPolicy.projectID'' ''must be a canonical explicit project ID''),
        check_unique target_key (cleanup_target_checks policy) duplicate_target 0 [] resources]"

record ExpirableTarget =
  et_Target :: MutationTarget
  et_CreatedAt :: gotime

definition cloneExpirableTarget :: "ExpirableTarget \<Rightarrow> ExpirableTarget" where
  "cloneExpirableTarget target = target\<lparr>et_Target := cloneMutationTarget (et_Target target)\<rparr>"

definition expired_candidate ::
  "gotime \<Rightarrow> int \<Rightarrow> nat \<Rightarrow> ExpirableTarget list \<Rightarrow> ExpirableTarget \<Rightarrow> guard_error + ExpirableTarget list" where
  "expired_candidate now maxLifetime index selected candidate =
     check (fail_if (time_IsZero (et_CreatedAt candidate) \<or> time_After (et_CreatedAt candidate) now)
         (Guard ErrInvalidGuardInput (indexedField ''targets'' index @ ''.createdAt'')
            ''must be a non-future timestamp''))
       (Inr (if time_Sub now (et_CreatedAt candidate) \<ge> maxLifetime
             then selected @ [cloneExpirableTarget candidate] else selected))"

definition SelectExpiredTargets ::
  "CleanupPolicy \<Rightarrow> ExpirableTarget list \<Rightarrow> gotime \<Rightarrow> int \<Rightarrow> guard_error + ExpirableTarget list" where
  "SelectExpiredTargets policy candidates now maxLifetime =
     check (first_error
       [fail_if (time_IsZero now) (Guard ErrInvalidGuardInput ''now'' ''must not be zero''),
        fail_if (maxLifetime \<le> 0) (Guard ErrInvalidGuardInput ''maxLifetime'' ''must be positive''),
        ValidateCleanupTargets policy (map et_Target candidates)])
     (bind_result
       (range_loop (expired_candidate now maxLifetime) 0 [] candidates)
       (\<lambda>selected. Inr (sort_key (\<lambda>c. target_key (et_Target c)) selected)))"

definition cleanup_target_ok :: "CleanupPolicy \<Rightarrow> MutationTarget \<Rightarrow> bool" where
  "cleanup_target_ok policy t =
     (validateResourceIdentity (mt_Identity t) = None \<and>
      ri_Project (mt_Identity t) = cp_ProjectID policy \<and>
      labelCapableCleanupIdentity (mt_Identity t) \<and>
      IsTestResource \<lparr>gr_Name = ri_Name (mt_Identity t), gr_Labels = mt_Labels t\<rparr>)"

lemma cleanup_target_checks_None:
  "cleanup_target_checks policy i t = None \<longleftrightarrow> cleanup_target_ok policy t"
  by (auto simp: cleanup_target_checks_def cleanup_target_ok_def Let_def validateMutationTarget_def)

lemma ValidateCleanupTargets_None:
  "ValidateCleanupTargets policy ts = None \<longleftrightarrow>
     projectIDPattern (cp_ProjectID policy) \<and> list_all (cleanup_target_ok policy) ts \<and>
     distinct (map target_key ts)"
  using check_unique_keyed [where ok = "cleanup_target_checks policy", OF cleanup_target_checks_None]
  by (auto simp: ValidateCleanupTargets_def)

lemma cloneExpirableTarget_id [simp]: "cloneExpirableTarget c = c"
  by (simp add: cloneExpirableTarget_def)

lemma expiry_loop:
  "range_loop (expired_candidate now d) i acc cs = Inr ys \<longleftrightarrow>
     list_all (\<lambda>c. \<not> time_IsZero (et_CreatedAt c) \<and> t_ns (et_CreatedAt c) \<le> t_ns now) cs \<and>
     ys = acc @ filter (\<lambda>c. d \<le> time_Sub now (et_CreatedAt c)) cs"
proof (induction cs arbitrary: i acc)
  case Nil
  then show ?case by auto
next
  case (Cons c cs)
  show ?case
    by (cases "time_IsZero (et_CreatedAt c) \<or> t_ns now < t_ns (et_CreatedAt c)")
       (auto simp: Cons.IH expired_candidate_def [of now d i acc c] time_After_def)
qed

lemma time_Sub_ge: "min_int64 < d \<Longrightarrow> d \<le> max_int64 \<Longrightarrow> d \<le> time_Sub a b \<longleftrightarrow> d \<le> t_ns a - t_ns b"
  by (auto simp: time_Sub_def int64_defs)

lemma SelectExpiredTargets_Inr:
  assumes "is_int64 maxLifetime"
  shows "SelectExpiredTargets policy cs now maxLifetime = Inr ys \<longleftrightarrow>
     \<not> time_IsZero now \<and> 0 < maxLifetime \<and> projectIDPattern (cp_ProjectID policy) \<and>
     list_all (\<lambda>c. cleanup_target_ok policy (et_Target c) \<and> \<not> time_IsZero (et_CreatedAt c) \<and>
       t_ns (et_CreatedAt c) \<le> t_ns now) cs \<and>
     distinct (map (\<lambda>c. target_key (et_Target c)) cs) \<and>
     ys = sort_key (\<lambda>c. target_key (et_Target c))
       (filter (\<lambda>c. maxLifetime \<le> t_ns now - t_ns (et_CreatedAt c)) cs)"
  using assms
  by (cases "0 < maxLifetime")
     (auto simp: SelectExpiredTargets_def ValidateCleanupTargets_None bind_result_is_Inr expiry_loop
      list_all_iff comp_def time_Sub_ge is_int64_def int64_defs)

end
