(* ===== verification/IsolationCapacity.thy ===== *)
theory IsolationCapacity
  imports IsolationTargets
begin

section \<open>internal/isolation: caps and the capacity proof (guard.go)\<close>

text \<open>
  The caps of a test run and the proof that a plan's complete capacity inventory stays within them.
  \<open>marshal\<close> encodes the canonical snapshot, \<open>sha256hex\<close> is the hexadecimal SHA-256 of bytes. The Go
  sorts are unstable, which only matters for items with the same key; a snapshot with such items is
  refused by the proof.
\<close>

record MachineShape =
  ms_VCPUs :: int
  ms_MemoryMB :: int

record RunLimits =
  rl_MaxMachine :: MachineShape
  rl_MaxDiskGiB :: int
  rl_MaxInstances :: int
  rl_MaxLifetime :: int
  rl_MaxEstimatedCostMicros :: int

record RunRequest =
  rr_Machine :: MachineShape
  rr_DiskGiB :: int
  rr_Instances :: int
  rr_Lifetime :: int
  rr_EstimatedCostMicros :: int

definition validateRunLimits :: "RunLimits \<Rightarrow> guard_error option" where
  "validateRunLimits limits =
     first_error
       [fail_if (ms_VCPUs (rl_MaxMachine limits) \<le> 0)
          (Guard ErrInvalidGuardInput ''limits.maxMachine.vcpus'' ''must be positive''),
        fail_if (ms_MemoryMB (rl_MaxMachine limits) \<le> 0)
          (Guard ErrInvalidGuardInput ''limits.maxMachine.memoryMB'' ''must be positive''),
        fail_if (rl_MaxDiskGiB limits \<le> 0)
          (Guard ErrInvalidGuardInput ''limits.maxDiskGiB'' ''must be positive''),
        fail_if (rl_MaxInstances limits \<le> 0)
          (Guard ErrInvalidGuardInput ''limits.maxInstances'' ''must be positive''),
        fail_if (rl_MaxLifetime limits \<le> 0)
          (Guard ErrInvalidGuardInput ''limits.maxLifetime'' ''must be positive''),
        fail_if (rl_MaxEstimatedCostMicros limits < 0)
          (Guard ErrInvalidGuardInput ''limits.maxEstimatedCostMicros'' ''must not be negative'')]"

definition exceeds_cap :: "string \<Rightarrow> guard_error" where
  "exceeds_cap path = Guard ErrCapacityExceeded path ''exceeds configured cap''"

definition ValidateRunRequest :: "RunLimits \<Rightarrow> RunRequest \<Rightarrow> guard_error option" where
  "ValidateRunRequest limits request =
     first_error
       [validateRunLimits limits,
        fail_if (ms_VCPUs (rr_Machine request) \<le> 0)
          (Guard ErrInvalidGuardInput ''request.machine.vcpus'' ''must be positive''),
        fail_if (ms_MemoryMB (rr_Machine request) \<le> 0)
          (Guard ErrInvalidGuardInput ''request.machine.memoryMB'' ''must be positive''),
        fail_if (rr_DiskGiB request < 0)
          (Guard ErrInvalidGuardInput ''request.diskGiB'' ''must not be negative''),
        fail_if (rr_Instances request \<le> 0)
          (Guard ErrInvalidGuardInput ''request.instances'' ''must be positive''),
        fail_if (rr_Lifetime request \<le> 0)
          (Guard ErrInvalidGuardInput ''request.lifetime'' ''must be positive''),
        fail_if (rr_EstimatedCostMicros request < 0)
          (Guard ErrInvalidGuardInput ''request.estimatedCostMicros'' ''must not be negative''),
        fail_if (ms_VCPUs (rr_Machine request) > ms_VCPUs (rl_MaxMachine limits))
          (exceeds_cap ''request.machine.vcpus''),
        fail_if (ms_MemoryMB (rr_Machine request) > ms_MemoryMB (rl_MaxMachine limits))
          (exceeds_cap ''request.machine.memoryMB''),
        fail_if (rr_DiskGiB request > rl_MaxDiskGiB limits) (exceeds_cap ''request.diskGiB''),
        fail_if (rr_Instances request > rl_MaxInstances limits) (exceeds_cap ''request.instances''),
        fail_if (rr_Lifetime request > rl_MaxLifetime limits) (exceeds_cap ''request.lifetime''),
        fail_if (rr_EstimatedCostMicros request > rl_MaxEstimatedCostMicros limits)
          (exceeds_cap ''request.estimatedCostMicros'')]"

subsection \<open>The planned inventory\<close>

record PlannedInstance =
  pn_Identity :: ResourceIdentity
  pn_RunID :: string
  pn_Machine :: MachineShape

record PlannedDisk =
  pd_Identity :: ResourceIdentity
  pd_RunID :: string
  pd_SizeGiB :: int

record CapacityProofInput =
  ca_Plan :: PlanIdentity
  ca_SnapshotFingerprint :: string
  ca_Instances :: "PlannedInstance list"
  ca_Disks :: "PlannedDisk list"
  ca_Lifetime :: int
  ca_EstimatedCostMicros :: int

record capacityPayload =
  cs_Plan :: PlanIdentity
  cs_Instances :: "PlannedInstance list"
  cs_Disks :: "PlannedDisk list"
  cs_Lifetime :: int
  cs_EstimatedCostMicros :: int

abbreviation instance_key :: "PlannedInstance \<Rightarrow> string" where
  "instance_key n \<equiv> ri_CanonicalKey (pn_Identity n)"

abbreviation disk_key :: "PlannedDisk \<Rightarrow> string" where
  "disk_key d \<equiv> ri_CanonicalKey (pd_Identity d)"

definition plan_identity_check :: "string \<Rightarrow> PlanIdentity \<Rightarrow> guard_error option" where
  "plan_identity_check path plan =
     fail_if (\<not> planIDPattern (pi_ID plan) \<or> \<not> isSHA256Fingerprint (pi_Hash plan))
       (Guard ErrInvalidGuardInput path ''must identify a canonical immutable plan'')"

definition CapacitySnapshotFingerprint ::
  "(capacityPayload \<Rightarrow> string option) \<Rightarrow> (string \<Rightarrow> string) \<Rightarrow> CapacityProofInput \<Rightarrow> guard_error + string"
where
  "CapacitySnapshotFingerprint marshal sha256hex capacity =
     check (first_error
       [plan_identity_check ''capacity.plan'' (ca_Plan capacity),
        fail_if (length (ca_Instances capacity) = 0 \<or> ca_Lifetime capacity \<le> 0 \<or>
            ca_EstimatedCostMicros capacity < 0)
          (Guard ErrInvalidGuardInput ''capacity'' ''must contain a complete positive snapshot'')])
     (canonicalJSONFingerprint marshal sha256hex
       \<lparr>cs_Plan = ca_Plan capacity, cs_Instances = sort_key instance_key (ca_Instances capacity),
        cs_Disks = sort_key disk_key (ca_Disks capacity), cs_Lifetime = ca_Lifetime capacity,
        cs_EstimatedCostMicros = ca_EstimatedCostMicros capacity\<rparr>)"

definition planned_instance_checks ::
  "string \<Rightarrow> string \<Rightarrow> nat \<Rightarrow> PlannedInstance \<Rightarrow> guard_error option" where
  "planned_instance_checks runID pre index n =
     (let path = indexedField ''capacity.instances'' index; identity = pn_Identity n in
      first_error
        [wrap_error (validateResourceIdentity identity) path ''has invalid identity'',
         fail_if (ri_Service identity \<noteq> ComputeServiceName \<or> ri_Kind identity \<noteq> ComputeInstanceKind \<or>
             ri_Scope identity \<noteq> ResourceScopeZone \<or> \<not> has_prefix (ri_Name identity) pre \<or>
             length (ri_Name identity) = length pre \<or> pn_RunID n \<noteq> runID)
           (Guard ErrInvalidGuardInput path ''must identify a run-scoped Compute instance''),
         fail_if (ms_VCPUs (pn_Machine n) \<le> 0 \<or> ms_MemoryMB (pn_Machine n) \<le> 0)
           (Guard ErrInvalidGuardInput path ''must have a positive resolved machine shape'')])"

definition planned_disk_checks ::
  "string \<Rightarrow> string \<Rightarrow> nat \<Rightarrow> PlannedDisk \<Rightarrow> guard_error option" where
  "planned_disk_checks runID pre index d =
     (let path = indexedField ''capacity.disks'' index; identity = pd_Identity d in
      first_error
        [wrap_error (validateResourceIdentity identity) path ''has invalid identity'',
         fail_if (ri_Service identity \<noteq> ComputeServiceName \<or> ri_Kind identity \<noteq> ComputeDiskKind \<or>
             (ri_Scope identity \<noteq> ResourceScopeZone \<and> ri_Scope identity \<noteq> ResourceScopeRegion) \<or>
             \<not> has_prefix (ri_Name identity) pre \<or> length (ri_Name identity) = length pre \<or>
             pd_RunID d \<noteq> runID \<or> pd_SizeGiB d \<le> 0)
           (Guard ErrInvalidGuardInput path ''must identify a positive run-scoped Compute disk'')])"

definition maximum_machine :: "PlannedInstance list \<Rightarrow> MachineShape" where
  "maximum_machine ns =
     foldl (\<lambda>m n. \<lparr>ms_VCPUs = max (ms_VCPUs m) (ms_VCPUs (pn_Machine n)),
                    ms_MemoryMB = max (ms_MemoryMB m) (ms_MemoryMB (pn_Machine n))\<rparr>)
       \<lparr>ms_VCPUs = 0, ms_MemoryMB = 0\<rparr> ns"

definition maximum_disk :: "PlannedDisk list \<Rightarrow> int" where
  "maximum_disk ds = foldl (\<lambda>m d. max m (pd_SizeGiB d)) 0 ds"

definition target_in_inventory ::
  "string list \<Rightarrow> string list \<Rightarrow> nat \<Rightarrow> MutationTarget \<Rightarrow> guard_error option" where
  "target_in_inventory instanceKeys diskKeys index target =
     (let path = indexedField ''targets'' index; identity = mt_Identity target in
      if ri_Service identity = ComputeServiceName \<and> ri_Kind identity = ComputeInstanceKind then
        fail_if (target_key target \<notin> set instanceKeys)
          (Guard ErrInvalidGuardInput path ''is absent from the planned instance inventory'')
      else if ri_Service identity = ComputeServiceName \<and> ri_Kind identity = ComputeDiskKind then
        fail_if (target_key target \<notin> set diskKeys)
          (Guard ErrInvalidGuardInput path ''is absent from the planned disk inventory'')
      else None)"

definition validateCapacityProof ::
  "(capacityPayload \<Rightarrow> string option) \<Rightarrow> (string \<Rightarrow> string) \<Rightarrow> CapacityProofInput \<Rightarrow> RunLimits \<Rightarrow>
     string \<Rightarrow> MutationTarget list \<Rightarrow> guard_error option" where
  "validateCapacityProof marshal sha256hex capacity limits runID targets =
     (case check (plan_identity_check ''capacity.plan'' (ca_Plan capacity))
             (CapacitySnapshotFingerprint marshal sha256hex capacity) of
        Inl e \<Rightarrow> Some e
      | Inr fingerprint \<Rightarrow>
          (case check (first_error
               [fail_if (ca_SnapshotFingerprint capacity \<noteq> fingerprint)
                  (Guard ErrInvalidGuardInput ''capacity.snapshotFingerprint''
                     ''does not match the typed capacity snapshot''),
                fail_if (length (ca_Instances capacity) = 0)
                  (Guard ErrInvalidGuardInput ''capacity.instances''
                     ''must contain the full planned instance inventory'')])
               (RunResourcePrefix runID) of
             Inl e \<Rightarrow> Some e
           | Inr pre \<Rightarrow>
               first_error
                 [check_unique instance_key (planned_instance_checks runID pre)
                    (\<lambda>index n. Guard ErrInvalidGuardInput (indexedField ''capacity.instances'' index)
                       ''duplicates an earlier planned instance'') 0 [] (ca_Instances capacity),
                  check_unique disk_key (planned_disk_checks runID pre)
                    (\<lambda>index d. Guard ErrInvalidGuardInput (indexedField ''capacity.disks'' index)
                       ''duplicates an earlier planned disk'') 0 [] (ca_Disks capacity),
                  check_each (target_in_inventory (map instance_key (ca_Instances capacity))
                    (map disk_key (ca_Disks capacity))) 0 targets,
                  ValidateRunRequest limits
                    \<lparr>rr_Machine = maximum_machine (ca_Instances capacity),
                     rr_DiskGiB = maximum_disk (ca_Disks capacity),
                     rr_Instances = int (length (ca_Instances capacity)),
                     rr_Lifetime = ca_Lifetime capacity,
                     rr_EstimatedCostMicros = ca_EstimatedCostMicros capacity\<rparr>]))"

subsection \<open>The maxima bound every item\<close>

lemma foldl_max_bound:
  fixes f :: "'a \<Rightarrow> int"
  shows "m \<le> foldl (\<lambda>m x. max m (f x)) m xs \<and> (\<forall>x \<in> set xs. f x \<le> foldl (\<lambda>m x. max m (f x)) m xs)"
proof (induction xs arbitrary: m)
  case (Cons x xs)
  show ?case using Cons.IH [of "max m (f x)"] by auto
qed simp

lemma maximum_machine_parts:
  "ms_VCPUs (maximum_machine ns) = foldl (\<lambda>m n. max m (ms_VCPUs (pn_Machine n))) 0 ns"
  "ms_MemoryMB (maximum_machine ns) = foldl (\<lambda>m n. max m (ms_MemoryMB (pn_Machine n))) 0 ns"
proof -
  have "ms_VCPUs (foldl (\<lambda>m n. \<lparr>ms_VCPUs = max (ms_VCPUs m) (ms_VCPUs (pn_Machine n)),
          ms_MemoryMB = max (ms_MemoryMB m) (ms_MemoryMB (pn_Machine n))\<rparr>) s ns) =
        foldl (\<lambda>m n. max m (ms_VCPUs (pn_Machine n))) (ms_VCPUs s) ns \<and>
      ms_MemoryMB (foldl (\<lambda>m n. \<lparr>ms_VCPUs = max (ms_VCPUs m) (ms_VCPUs (pn_Machine n)),
          ms_MemoryMB = max (ms_MemoryMB m) (ms_MemoryMB (pn_Machine n))\<rparr>) s ns) =
        foldl (\<lambda>m n. max m (ms_MemoryMB (pn_Machine n))) (ms_MemoryMB s) ns" for s
    by (induction ns arbitrary: s) simp_all
  then show "ms_VCPUs (maximum_machine ns) = foldl (\<lambda>m n. max m (ms_VCPUs (pn_Machine n))) 0 ns"
    "ms_MemoryMB (maximum_machine ns) = foldl (\<lambda>m n. max m (ms_MemoryMB (pn_Machine n))) 0 ns"
    by (simp_all add: maximum_machine_def)
qed

lemma maximum_machine_bound:
  assumes "n \<in> set ns"
  shows "ms_VCPUs (pn_Machine n) \<le> ms_VCPUs (maximum_machine ns)"
    and "ms_MemoryMB (pn_Machine n) \<le> ms_MemoryMB (maximum_machine ns)"
  using assms foldl_max_bound [of 0 "\<lambda>n. ms_VCPUs (pn_Machine n)" ns]
    foldl_max_bound [of 0 "\<lambda>n. ms_MemoryMB (pn_Machine n)" ns]
  by (simp_all add: maximum_machine_parts)

lemma maximum_disk_bound: "d \<in> set ds \<Longrightarrow> pd_SizeGiB d \<le> maximum_disk ds"
  using foldl_max_bound [of 0 pd_SizeGiB ds] by (simp add: maximum_disk_def)

definition planned_instance_ok :: "string \<Rightarrow> PlannedInstance \<Rightarrow> bool" where
  "planned_instance_ok runID n =
     (validateResourceIdentity (pn_Identity n) = None \<and> ri_Service (pn_Identity n) = ComputeServiceName \<and>
      ri_Kind (pn_Identity n) = ComputeInstanceKind \<and> ri_Scope (pn_Identity n) = ResourceScopeZone \<and>
      has_prefix (ri_Name (pn_Identity n)) (TestResourcePrefix @ runID @ ''-'') \<and>
      length (ri_Name (pn_Identity n)) \<noteq> length (TestResourcePrefix @ runID @ ''-'') \<and>
      pn_RunID n = runID \<and> 0 < ms_VCPUs (pn_Machine n) \<and> 0 < ms_MemoryMB (pn_Machine n))"

definition planned_disk_ok :: "string \<Rightarrow> PlannedDisk \<Rightarrow> bool" where
  "planned_disk_ok runID d =
     (validateResourceIdentity (pd_Identity d) = None \<and> ri_Service (pd_Identity d) = ComputeServiceName \<and>
      ri_Kind (pd_Identity d) = ComputeDiskKind \<and>
      (ri_Scope (pd_Identity d) = ResourceScopeZone \<or> ri_Scope (pd_Identity d) = ResourceScopeRegion) \<and>
      has_prefix (ri_Name (pd_Identity d)) (TestResourcePrefix @ runID @ ''-'') \<and>
      length (ri_Name (pd_Identity d)) \<noteq> length (TestResourcePrefix @ runID @ ''-'') \<and>
      pd_RunID d = runID \<and> 0 < pd_SizeGiB d)"

lemma planned_checks_None:
  "planned_instance_checks r (TestResourcePrefix @ r @ ''-'') i n = None \<longleftrightarrow> planned_instance_ok r n"
  "planned_disk_checks r (TestResourcePrefix @ r @ ''-'') i d = None \<longleftrightarrow> planned_disk_ok r d"
  by (auto simp: planned_instance_checks_def planned_instance_ok_def planned_disk_checks_def
      planned_disk_ok_def Let_def)

lemma planned_loops:
  "check_unique instance_key (planned_instance_checks r (TestResourcePrefix @ r @ ''-'')) dup 0 [] ns = None \<longleftrightarrow>
     list_all (planned_instance_ok r) ns \<and> distinct (map instance_key ns)"
  "check_unique disk_key (planned_disk_checks r (TestResourcePrefix @ r @ ''-'')) dup' 0 [] ds = None \<longleftrightarrow>
     list_all (planned_disk_ok r) ds \<and> distinct (map disk_key ds)"
  by (rule check_unique_keyed, rule planned_checks_None)+

lemma capacity_proof_parts:
  assumes "validateCapacityProof marshal sha256hex c limits r ts = None"
  shows "CapacitySnapshotFingerprint marshal sha256hex c = Inr (ca_SnapshotFingerprint c)"
    and "ca_Instances c \<noteq> []" and "ValidateRunID r = None"
    and "list_all (planned_instance_ok r) (ca_Instances c)" and "distinct (map instance_key (ca_Instances c))"
    and "list_all (planned_disk_ok r) (ca_Disks c)" and "distinct (map disk_key (ca_Disks c))"
    and "\<forall>i < length ts. target_in_inventory (map instance_key (ca_Instances c)) (map disk_key (ca_Disks c))
      i (ts ! i) = None"
    and "ValidateRunRequest limits
      \<lparr>rr_Machine = maximum_machine (ca_Instances c), rr_DiskGiB = maximum_disk (ca_Disks c),
       rr_Instances = int (length (ca_Instances c)), rr_Lifetime = ca_Lifetime c,
       rr_EstimatedCostMicros = ca_EstimatedCostMicros c\<rparr> = None"
proof -
  from assms obtain fingerprint where f: "check (plan_identity_check ''capacity.plan'' (ca_Plan c))
      (CapacitySnapshotFingerprint marshal sha256hex c) = Inr fingerprint"
    by (auto simp: validateCapacityProof_def split: sum.splits)
  with assms obtain pre where p: "ca_SnapshotFingerprint c = fingerprint" "ca_Instances c \<noteq> []"
    "RunResourcePrefix r = Inr pre"
    by (auto simp: validateCapacityProof_def split: sum.splits)
  then have pre: "ValidateRunID r = None" "pre = TestResourcePrefix @ r @ ''-''"
    by (simp_all add: RunResourcePrefix_Inr)
  note rest = assms [unfolded validateCapacityProof_def f sum.case p(3) pre(2)]
  show "CapacitySnapshotFingerprint marshal sha256hex c = Inr (ca_SnapshotFingerprint c)"
    using f p(1) by simp
  show "ca_Instances c \<noteq> []" "ValidateRunID r = None" using p pre by simp_all
  show "list_all (planned_instance_ok r) (ca_Instances c)" "distinct (map instance_key (ca_Instances c))"
    "list_all (planned_disk_ok r) (ca_Disks c)" "distinct (map disk_key (ca_Disks c))"
    "\<forall>i < length ts. target_in_inventory (map instance_key (ca_Instances c)) (map disk_key (ca_Disks c))
      i (ts ! i) = None"
    "ValidateRunRequest limits
      \<lparr>rr_Machine = maximum_machine (ca_Instances c), rr_DiskGiB = maximum_disk (ca_Disks c),
       rr_Instances = int (length (ca_Instances c)), rr_Lifetime = ca_Lifetime c,
       rr_EstimatedCostMicros = ca_EstimatedCostMicros c\<rparr> = None"
    using rest p(1,2) by (simp_all add: planned_loops check_each_None)
qed

lemma ValidateRunRequest_caps:
  "ValidateRunRequest limits q = None \<Longrightarrow>
     ms_VCPUs (rr_Machine q) \<le> ms_VCPUs (rl_MaxMachine limits) \<and>
     ms_MemoryMB (rr_Machine q) \<le> ms_MemoryMB (rl_MaxMachine limits) \<and>
     rr_DiskGiB q \<le> rl_MaxDiskGiB limits \<and> rr_Instances q \<le> rl_MaxInstances limits \<and>
     0 < rr_Lifetime q \<and> rr_Lifetime q \<le> rl_MaxLifetime limits \<and>
     0 \<le> rr_EstimatedCostMicros q \<and> rr_EstimatedCostMicros q \<le> rl_MaxEstimatedCostMicros limits"
  by (simp add: ValidateRunRequest_def)

end
