(* ===== verification/IsolationFirewall.thy ===== *)
theory IsolationFirewall
  imports IsolationCapacity IsolationNetwork "HOL-Library.Product_Lexorder"
begin

section \<open>internal/isolation: run lifetimes and firewall rules (firewall.go)\<close>

text \<open>
  The lifetime record of a run, the two firewall rules that a run may own, and the proof that the
  insert targets are exactly the rules that discovery found absent. Ports are 16-bit words, the
  priority a 32-bit word, a generation a 64-bit word. A slice that is empty is normalised to nil by
  the code before it is compared or encoded, so a list stands for both.
\<close>

definition TestVPCName :: string where "TestVPCName = ''ctrldb-test-vpc''"
definition TestIAPSSHFirewallName :: string where "TestIAPSSHFirewallName = ''ctrldb-test-iap-ssh''"
definition TestInternalFirewallName :: string where "TestInternalFirewallName = ''ctrldb-test-internal''"
definition IAPTCPSourceCIDR :: string where "IAPTCPSourceCIDR = ''35.235.240.0/20''"
definition FirewallPortSSH :: "16 word" where "FirewallPortSSH = 22"
definition FirewallPortMongo :: "16 word" where "FirewallPortMongo = 27017"
definition FirewallPriority :: "32 word" where "FirewallPriority = 1000"
definition TestHarnessRevocationWorkflowID :: string where "TestHarnessRevocationWorkflowID = ''WF-TEST-01''"
definition testNodeTagPrefix :: string where "testNodeTagPrefix = ''ctrldb-test-n-''"
definition firewallDescriptionPrefix :: string where
  "firewallDescriptionPrefix = ''ctrldb:test-isolation:lifetime-sha256=''"
definition firewallDescriptionSuffix :: string where
  "firewallDescriptionSuffix = '';revoke='' @ TestHarnessRevocationWorkflowID"
definition FirewallDirectionIngress :: string where "FirewallDirectionIngress = ''INGRESS''"
definition FirewallIPProtocolTCP :: string where "FirewallIPProtocolTCP = ''tcp''"
definition FirewallLogMetadataNone :: string where "FirewallLogMetadataNone = []"

text \<open>\<open>^ctrldb-test-[a-z0-9](?:[a-z0-9-]{0,49}[a-z0-9])?$\<close> and \<open>^lifetime-[0-9a-f]{16}$\<close>.\<close>

definition testTagPattern :: "string \<Rightarrow> bool" where
  "testTagPattern s =
     (has_prefix s ''ctrldb-test-'' \<and> bounded_name 51 is_ident_char (drop 12 s))"

definition runLifetimeRecordIDPattern :: "string \<Rightarrow> bool" where
  "runLifetimeRecordIDPattern s =
     (has_prefix s ''lifetime-'' \<and> length s = 25 \<and> list_all is_hex (drop 9 s))"

record FirewallTrafficRule =
  ft_IPProtocol :: string
  ft_Ports :: "16 word list"

record FirewallLogConfig =
  fl_Enabled :: bool
  fl_Metadata :: string

record FirewallRule =
  fr_Identity :: ResourceIdentity
  fr_Description :: string
  fr_Network :: ResourceIdentity
  fr_RunID :: string
  fr_Purpose :: FirewallPurpose
  fr_Enabled :: bool
  fr_Priority :: "32 word"
  fr_Direction :: string
  fr_Allowed :: "FirewallTrafficRule list"
  fr_Denied :: "FirewallTrafficRule list"
  fr_DestinationCIDRs :: "string list"
  fr_SourceCIDRs :: "string list"
  fr_SourceTags :: "string list"
  fr_SourceServiceAccounts :: "string list"
  fr_TargetTags :: "string list"
  fr_TargetServiceAccounts :: "string list"
  fr_LogConfig :: FirewallLogConfig
  fr_ResourceManagerTags :: string_map
  fr_LifetimeContractFingerprint :: string

datatype FirewallObservationState =
    FirewallObservationAbsent
  | FirewallObservationPresent
  | FirewallObservationOther string

record FirewallObservation =
  fo_Identity :: ResourceIdentity
  fo_State :: FirewallObservationState
  fo_PresentRule :: "FirewallRule option"

record RunLifetimeContract =
  lc_ProjectID :: string
  lc_RunID :: string
  lc_Plan :: PlanIdentity
  lc_OperationID :: string
  lc_RecordID :: string
  lc_RecordGeneration :: "64 word"
  lc_CreatedAt :: gotime
  lc_ExpiresAt :: gotime
  lc_RevocationWorkflowID :: string

record FirewallValidationContext =
  fc_RunID :: string
  fc_Plan :: PlanIdentity
  fc_Operation :: OperationBinding
  fc_PlannedLifetime :: int
  fc_RunLimits :: RunLimits
  fc_RunLifetime :: RunLifetimeContract
  fc_FirewallMutationWindow :: int
  fc_ObservedAt :: gotime
  fc_Now :: gotime

subsection \<open>Normal form (guard.go)\<close>

definition cloneFirewallTrafficRules :: "FirewallTrafficRule list \<Rightarrow> FirewallTrafficRule list" where
  "cloneFirewallTrafficRules rules =
     sort_key (\<lambda>r. (ft_IPProtocol r, ft_Ports r))
       (map (\<lambda>r. r\<lparr>ft_Ports := sort (ft_Ports r)\<rparr>) rules)"

definition normalizeStrings :: "string list \<Rightarrow> string list" where
  "normalizeStrings values = sort values"

definition normalizeFirewallRule :: "FirewallRule \<Rightarrow> FirewallRule" where
  "normalizeFirewallRule rule = rule
     \<lparr>fr_Allowed := cloneFirewallTrafficRules (fr_Allowed rule),
      fr_Denied := cloneFirewallTrafficRules (fr_Denied rule),
      fr_DestinationCIDRs := normalizeStrings (fr_DestinationCIDRs rule),
      fr_SourceCIDRs := normalizeStrings (fr_SourceCIDRs rule),
      fr_SourceTags := normalizeStrings (fr_SourceTags rule),
      fr_SourceServiceAccounts := normalizeStrings (fr_SourceServiceAccounts rule),
      fr_TargetTags := normalizeStrings (fr_TargetTags rule),
      fr_TargetServiceAccounts := normalizeStrings (fr_TargetServiceAccounts rule),
      fr_ResourceManagerTags := fr_ResourceManagerTags rule\<rparr>"

definition equalFirewallTrafficRules :: "FirewallTrafficRule list \<Rightarrow> FirewallTrafficRule list \<Rightarrow> bool" where
  "equalFirewallTrafficRules xs ys =
     (length xs = length ys \<and>
      list_all (\<lambda>index. ft_IPProtocol (xs ! index) = ft_IPProtocol (ys ! index) \<and>
        ft_Ports (xs ! index) = ft_Ports (ys ! index)) [0..<length xs])"

definition equalFirewallRule :: "FirewallRule \<Rightarrow> FirewallRule \<Rightarrow> bool" where
  "equalFirewallRule x y =
     (let a = normalizeFirewallRule x; b = normalizeFirewallRule y in
      fr_Identity a = fr_Identity b \<and> fr_Description a = fr_Description b \<and>
      fr_Network a = fr_Network b \<and> fr_RunID a = fr_RunID b \<and> fr_Purpose a = fr_Purpose b \<and>
      fr_Enabled a = fr_Enabled b \<and> fr_Priority a = fr_Priority b \<and> fr_Direction a = fr_Direction b \<and>
      equalFirewallTrafficRules (fr_Allowed a) (fr_Allowed b) \<and>
      equalFirewallTrafficRules (fr_Denied a) (fr_Denied b) \<and>
      fr_DestinationCIDRs a = fr_DestinationCIDRs b \<and> fr_SourceCIDRs a = fr_SourceCIDRs b \<and>
      fr_SourceTags a = fr_SourceTags b \<and> fr_SourceServiceAccounts a = fr_SourceServiceAccounts b \<and>
      fr_TargetTags a = fr_TargetTags b \<and> fr_TargetServiceAccounts a = fr_TargetServiceAccounts b \<and>
      fr_LogConfig a = fr_LogConfig b \<and> fr_ResourceManagerTags a = fr_ResourceManagerTags b \<and>
      fr_LifetimeContractFingerprint a = fr_LifetimeContractFingerprint b)"

lemma equalFirewallTrafficRules_iff: "equalFirewallTrafficRules xs ys \<longleftrightarrow> xs = ys"
proof
  assume a: "equalFirewallTrafficRules xs ys"
  show "xs = ys"
  proof (rule nth_equalityI)
    show "length xs = length ys" using a by (simp add: equalFirewallTrafficRules_def)
    show "\<And>i. i < length xs \<Longrightarrow> xs ! i = ys ! i"
      using a by (auto simp: equalFirewallTrafficRules_def list_all_iff
          intro!: FirewallTrafficRule.equality)
  qed
qed (simp add: equalFirewallTrafficRules_def list_all_iff)

text \<open>The comparison decides equality of normal forms.\<close>

lemma equalFirewallRule_iff:
  "equalFirewallRule a b \<longleftrightarrow> normalizeFirewallRule a = normalizeFirewallRule b"
proof
  assume "equalFirewallRule a b"
  then show "normalizeFirewallRule a = normalizeFirewallRule b"
    unfolding equalFirewallRule_def Let_def equalFirewallTrafficRules_iff
    by (intro FirewallRule.equality) simp_all
qed (simp add: equalFirewallRule_def equalFirewallTrafficRules_iff)

lemma sort_sort: "sort (sort xs) = sort (xs :: 'a :: linorder list)"
  by (simp add: sorted_sort_id)

lemma clone_traffic_twice:
  "cloneFirewallTrafficRules (cloneFirewallTrafficRules rs) = cloneFirewallTrafficRules rs"
proof -
  let ?k = "\<lambda>r :: FirewallTrafficRule. (ft_IPProtocol r, ft_Ports r)"
  let ?f = "\<lambda>r :: FirewallTrafficRule. r\<lparr>ft_Ports := sort (ft_Ports r)\<rparr>"
  have "map ?f (sort_key ?k (map ?f rs)) = sort_key ?k (map ?f rs)"
    by (rule map_idI) (auto simp: sort_sort)
  then show ?thesis by (simp add: cloneFirewallTrafficRules_def sort_key_id_if_sorted)
qed

lemma normalizeFirewallRule_idem: "normalizeFirewallRule (normalizeFirewallRule r) = normalizeFirewallRule r"
  by (simp add: normalizeFirewallRule_def clone_traffic_twice normalizeStrings_def sort_sort)

subsection \<open>The lifetime record\<close>

definition RunLifetimeContractFingerprint ::
  "(RunLifetimeContract \<Rightarrow> string option) \<Rightarrow> (string \<Rightarrow> string) \<Rightarrow> RunLifetimeContract \<Rightarrow>
     guard_error + string" where
  "RunLifetimeContractFingerprint marshal sha256hex contract =
     check (first_error
       [fail_if (\<not> projectIDPattern (lc_ProjectID contract))
          (Guard ErrInvalidGuardInput ''runLifetime.projectID'' ''must identify the explicit configured project''),
        ValidateRunID (lc_RunID contract),
        plan_identity_check ''runLifetime.plan'' (lc_Plan contract),
        fail_if (\<not> operationIDPattern (lc_OperationID contract))
          (Guard ErrInvalidGuardInput ''runLifetime.operationID'' ''must identify one durable operation''),
        fail_if (\<not> runLifetimeRecordIDPattern (lc_RecordID contract) \<or> lc_RecordGeneration contract = 0)
          (Guard ErrInvalidGuardInput ''runLifetime.record'' ''must identify one immutable durable record generation''),
        fail_if (time_IsZero (lc_CreatedAt contract) \<or> time_IsZero (lc_ExpiresAt contract))
          (Guard ErrInvalidGuardInput ''runLifetime.timestamps'' ''must be complete''),
        check_each (\<lambda>i t. fail_if (t_zone t \<noteq> 0)
            (Guard ErrInvalidGuardInput ''runLifetime.timestamps'' ''must use UTC'')) 0
          [lc_CreatedAt contract, lc_ExpiresAt contract],
        fail_if (lc_RevocationWorkflowID contract \<noteq> TestHarnessRevocationWorkflowID)
          (Guard ErrUnsafeFirewall ''runLifetime.revocationWorkflowID'' ''must use the TEST-ISO teardown workflow'')])
     (canonicalJSONFingerprint marshal sha256hex contract)"

definition fingerprint_check :: "string \<Rightarrow> guard_error option" where
  "fingerprint_check lifetimeFingerprint =
     fail_if (\<not> isSHA256Fingerprint lifetimeFingerprint)
       (Guard ErrInvalidGuardInput ''runLifetime.fingerprint'' ''must be a SHA-256 fingerprint'')"

definition RunFirewallDescription :: "string \<Rightarrow> guard_error + string" where
  "RunFirewallDescription lifetimeFingerprint =
     check (fingerprint_check lifetimeFingerprint)
       (Inr (firewallDescriptionPrefix @ lifetimeFingerprint @ firewallDescriptionSuffix))"

definition RunNodeTag :: "string \<Rightarrow> guard_error + string" where
  "RunNodeTag lifetimeFingerprint =
     check (fingerprint_check lifetimeFingerprint) (Inr (testNodeTagPrefix @ take 49 lifetimeFingerprint))"

definition lifetime_checks ::
  "RunLifetimeContract \<Rightarrow> string \<Rightarrow> PlanIdentity \<Rightarrow> OperationBinding \<Rightarrow> int \<Rightarrow> RunLimits \<Rightarrow> int \<Rightarrow>
     gotime \<Rightarrow> gotime \<Rightarrow> guard_error option list" where
  "lifetime_checks contract runID plan operation plannedLifetime limits mutationWindow observedAt now =
     [fail_if (lc_RunID contract \<noteq> runID)
        (Guard ErrUnsafeFirewall ''runLifetime.runID'' ''does not match the owning run''),
      fail_if (lc_Plan contract \<noteq> plan)
        (Guard ErrUnsafeFirewall ''runLifetime.plan'' ''does not match the immutable test plan''),
      validateOperationBinding operation,
      fail_if (lc_OperationID contract \<noteq> ob_OperationID operation)
        (Guard ErrUnsafeFirewall ''runLifetime.operationID'' ''does not match the durable operation''),
      fail_if (time_IsZero observedAt \<or> time_IsZero now)
        (Guard ErrInvalidGuardInput ''runLifetime.observation'' ''requires nonzero observation and boundary times''),
      fail_if (t_zone observedAt \<noteq> 0) (Guard ErrInvalidGuardInput ''runLifetime.observedAt'' ''must use UTC''),
      fail_if (time_After observedAt now)
        (Guard ErrStaleProof ''runLifetime.observedAt'' ''must not be after the mutation-boundary time''),
      fail_if (time_After (lc_CreatedAt contract) observedAt)
        (Guard ErrStaleProof ''runLifetime.createdAt'' ''must not be after the provider evidence observation''),
      fail_if (plannedLifetime \<le> 0 \<or> rl_MaxLifetime limits \<le> 0)
        (Guard ErrInvalidGuardInput ''runLifetime'' ''requires positive trusted lifetime bounds''),
      fail_if (mutationWindow \<le> 0 \<or> mutationWindow > plannedLifetime \<or> mutationWindow > rl_MaxLifetime limits)
        (Guard ErrInvalidGuardInput ''firewallMutationWindow'' ''must be positive and within planned and configured lifetimes''),
      fail_if (time_After (lc_CreatedAt contract) now)
        (Guard ErrStaleProof ''runLifetime.createdAt'' ''must not be after the mutation-boundary time''),
      fail_if (\<not> time_Before now (lc_ExpiresAt contract))
        (Guard ErrStaleProof ''runLifetime.expiresAt'' ''must be strictly after the mutation-boundary time''),
      fail_if (time_Sub (lc_ExpiresAt contract) now < mutationWindow)
        (Guard ErrStaleProof ''runLifetime.expiresAt'' ''does not leave the approved firewall mutation and verification window''),
      fail_if (time_Sub (lc_ExpiresAt contract) (lc_CreatedAt contract) \<le> 0)
        (Guard ErrStaleProof ''runLifetime.expiresAt'' ''must be strictly after record creation''),
      fail_if (time_Sub (lc_ExpiresAt contract) (lc_CreatedAt contract) > plannedLifetime \<or>
          time_Sub (lc_ExpiresAt contract) (lc_CreatedAt contract) > rl_MaxLifetime limits)
        (Guard ErrCapacityExceeded ''runLifetime.expiresAt'' ''exceeds the planned or configured run lifetime'')]"

definition validateRunLifetimeContract ::
  "(RunLifetimeContract \<Rightarrow> string option) \<Rightarrow> (string \<Rightarrow> string) \<Rightarrow> RunLifetimeContract \<Rightarrow> string \<Rightarrow>
     PlanIdentity \<Rightarrow> OperationBinding \<Rightarrow> int \<Rightarrow> RunLimits \<Rightarrow> int \<Rightarrow> gotime \<Rightarrow> gotime \<Rightarrow>
     guard_error + string" where
  "validateRunLifetimeContract marshal sha256hex contract runID plan operation plannedLifetime limits
     mutationWindow observedAt now =
     bind_result (RunLifetimeContractFingerprint marshal sha256hex contract) (\<lambda>fingerprint.
       check (first_error (lifetime_checks contract runID plan operation plannedLifetime limits
           mutationWindow observedAt now))
         (Inr fingerprint))"

definition context_lifetime ::
  "(RunLifetimeContract \<Rightarrow> string option) \<Rightarrow> (string \<Rightarrow> string) \<Rightarrow> FirewallValidationContext \<Rightarrow>
     guard_error + string" where
  "context_lifetime marshal sha256hex c =
     validateRunLifetimeContract marshal sha256hex (fc_RunLifetime c) (fc_RunID c) (fc_Plan c)
       (fc_Operation c) (fc_PlannedLifetime c) (fc_RunLimits c) (fc_FirewallMutationWindow c)
       (fc_ObservedAt c) (fc_Now c)"

subsection \<open>One rule\<close>

definition validateTestTags :: "string \<Rightarrow> string list \<Rightarrow> bool \<Rightarrow> guard_error option" where
  "validateTestTags path tags required =
     first_error
       [fail_if (required \<and> length tags = 0) (Guard ErrInvalidGuardInput path ''must not be empty''),
        check_unique (\<lambda>tag. tag)
          (\<lambda>index tag. fail_if (\<not> testTagPattern tag)
            (Guard ErrUnsafeTarget (indexedField path index) ''must use the reserved test namespace''))
          (\<lambda>index tag. Guard ErrInvalidGuardInput (indexedField path index) ''duplicates an earlier tag'')
          0 [] tags]"

definition ValidateFirewallTags :: "string list \<Rightarrow> string list \<Rightarrow> guard_error option" where
  "ValidateFirewallTags sourceTags targetTags =
     first_error
       [validateTestTags ''sourceTags'' sourceTags False, validateTestTags ''targetTags'' targetTags True]"

definition source_outside_production :: "string list \<Rightarrow> nat \<Rightarrow> string \<Rightarrow> guard_error option" where
  "source_outside_production productionCIDRs index source =
     (case parseCanonicalIPv4Prefix source of
        None \<Rightarrow> Some (Guard ErrInvalidGuardInput (indexedField ''sourceCIDRs'' index)
          ''must be a canonical IPv4 prefix'')
      | Some p \<Rightarrow>
          check_each (\<lambda>productionIndex v.
            fail_if (case parseCanonicalIPv4Prefix v of None \<Rightarrow> False | Some production \<Rightarrow> prefixesOverlap p production)
              (Guard ErrNetworkOverlap (indexedField ''productionCIDRs'' productionIndex)
                 ''overlaps a firewall source'')) 0 productionCIDRs)"

definition unsafe_firewall :: "string \<Rightarrow> string \<Rightarrow> guard_error" where
  "unsafe_firewall path reason = Guard ErrUnsafeFirewall path reason"

definition purpose_shape :: "FirewallRule \<Rightarrow> string \<Rightarrow> string \<Rightarrow> guard_error option" where
  "purpose_shape rule runID lifetimeFingerprint =
     (case fr_Purpose rule of
        FirewallPurposeIAPSSH \<Rightarrow>
          fail_if (Inr (ri_Name (fr_Identity rule)) \<noteq> RunFirewallRuleName runID FirewallPurposeIAPSSH \<or>
              hd (ft_Ports (hd (fr_Allowed rule))) \<noteq> FirewallPortSSH \<or> length (fr_SourceTags rule) \<noteq> 0 \<or>
              fr_SourceCIDRs rule \<noteq> [IAPTCPSourceCIDR] \<or>
              map Inr (fr_TargetTags rule) \<noteq> [RunNodeTag lifetimeFingerprint] \<or>
              fr_LifetimeContractFingerprint rule \<noteq> lifetimeFingerprint)
            (unsafe_firewall ''shape'' ''does not match the IAP SSH purpose'')
      | FirewallPurposeInternalMongo \<Rightarrow>
          first_error
            [fail_if (Inr (ri_Name (fr_Identity rule)) \<noteq> RunFirewallRuleName runID FirewallPurposeInternalMongo \<or>
                hd (ft_Ports (hd (fr_Allowed rule))) \<noteq> FirewallPortMongo \<or> length (fr_SourceCIDRs rule) \<noteq> 0 \<or>
                fr_LifetimeContractFingerprint rule \<noteq> lifetimeFingerprint)
               (unsafe_firewall ''shape'' ''does not match the internal MongoDB purpose''),
             validateTestTags ''sourceTags'' (fr_SourceTags rule) True,
             fail_if (map Inr (fr_SourceTags rule) \<noteq> [RunNodeTag lifetimeFingerprint] \<or>
                 map Inr (fr_TargetTags rule) \<noteq> [RunNodeTag lifetimeFingerprint])
               (unsafe_firewall ''shape'' ''does not match the internal MongoDB purpose'')]
      | FirewallPurposeOther s \<Rightarrow> Some (unsafe_firewall ''purpose'' ''is not recognized''))"

definition firewall_rule_checks ::
  "FirewallRule \<Rightarrow> string list \<Rightarrow> string \<Rightarrow> string \<Rightarrow> string \<Rightarrow> guard_error option list" where
  "firewall_rule_checks rule productionCIDRs runID projectID lifetimeFingerprint =
     (let identity = fr_Identity rule; network = fr_Network rule in
     [ValidateRunID runID,
      fingerprint_check lifetimeFingerprint,
      fail_if (fr_RunID rule \<noteq> runID) (unsafe_firewall ''runID'' ''does not match the owning run''),
      (case RunFirewallDescription lifetimeFingerprint of
         Inl e \<Rightarrow> Some e
       | Inr expectedDescription \<Rightarrow>
           fail_if (fr_Description rule \<noteq> expectedDescription)
             (unsafe_firewall ''description'' ''does not bind the exact run lifetime contract'')),
      fail_if (\<not> fr_Enabled rule) (unsafe_firewall ''enabled'' ''must be enabled''),
      replace_error (unsafe_firewall ''identity'' ''must be a complete canonical firewall identity'')
        (validateResourceIdentity identity),
      replace_error (unsafe_firewall ''network'' ''must be a complete canonical network identity'')
        (validateResourceIdentity network),
      fail_if (ri_Service identity \<noteq> ComputeServiceName \<or> ri_Kind identity \<noteq> ComputeFirewallKind \<or>
          ri_Scope identity \<noteq> ResourceScopeGlobal \<or> ri_Service network \<noteq> ComputeServiceName \<or>
          ri_Kind network \<noteq> ComputeNetworkKind \<or> ri_Scope network \<noteq> ResourceScopeGlobal \<or>
          ri_Name network \<noteq> TestVPCName \<or> ri_Project identity \<noteq> ri_Project network \<or>
          ri_Project identity \<noteq> projectID)
        (unsafe_firewall ''identity'' ''must bind a global Compute firewall to the explicit test VPC project''),
      fail_if (fr_Priority rule \<noteq> FirewallPriority) (unsafe_firewall ''priority'' ''must use the fixed TEST-ISO priority''),
      fail_if (fr_Direction rule \<noteq> FirewallDirectionIngress) (unsafe_firewall ''direction'' ''must be ingress''),
      fail_if (length (fr_Allowed rule) \<noteq> 1 \<or> length (fr_Denied rule) \<noteq> 0 \<or>
          ft_IPProtocol (hd (fr_Allowed rule)) \<noteq> FirewallIPProtocolTCP \<or>
          length (ft_Ports (hd (fr_Allowed rule))) \<noteq> 1)
        (unsafe_firewall ''allow'' ''must contain one purpose-specific TCP port''),
      fail_if (length (fr_DestinationCIDRs rule) \<noteq> 0 \<or> length (fr_SourceServiceAccounts rule) \<noteq> 0 \<or>
          length (fr_TargetServiceAccounts rule) \<noteq> 0)
        (unsafe_firewall ''selectors'' ''contains a selector outside the admitted TEST-ISO shape''),
      fail_if (fl_Enabled (fr_LogConfig rule) \<or> fl_Metadata (fr_LogConfig rule) \<noteq> FirewallLogMetadataNone)
        (unsafe_firewall ''logConfig'' ''must be disabled without metadata''),
      fail_if (fr_ResourceManagerTags rule \<noteq> fmempty) (unsafe_firewall ''resourceManagerTags'' ''must be empty''),
      validateTestTags ''targetTags'' (fr_TargetTags rule) True,
      validateProductionCIDRs productionCIDRs,
      check_each (source_outside_production productionCIDRs) 0 (fr_SourceCIDRs rule),
      purpose_shape rule runID lifetimeFingerprint])"

definition validateFirewallRule ::
  "FirewallRule \<Rightarrow> string list \<Rightarrow> string \<Rightarrow> string \<Rightarrow> string \<Rightarrow> guard_error option" where
  "validateFirewallRule rule productionCIDRs runID projectID lifetimeFingerprint =
     first_error (firewall_rule_checks (normalizeFirewallRule rule) productionCIDRs runID projectID
       lifetimeFingerprint)"

definition ValidateFirewallRule ::
  "(RunLifetimeContract \<Rightarrow> string option) \<Rightarrow> (string \<Rightarrow> string) \<Rightarrow> FirewallRule \<Rightarrow> string list \<Rightarrow>
     FirewallValidationContext \<Rightarrow> guard_error option" where
  "ValidateFirewallRule marshal sha256hex rule productionCIDRs c =
     (case context_lifetime marshal sha256hex c of
        Inl e \<Rightarrow> Some e
      | Inr lifetimeFingerprint \<Rightarrow>
          validateFirewallRule rule productionCIDRs (fc_RunID c) (lc_ProjectID (fc_RunLifetime c))
            lifetimeFingerprint)"


subsection \<open>Both rules, their observations and the insert targets\<close>

record rules_state =
  rs_seen :: "FirewallPurpose list"
  rs_byKey :: "(string \<times> FirewallRule) list"

record observations_state =
  os_absent :: "string list"
  os_observed :: "string list"

abbreviation rule_key :: "FirewallRule \<Rightarrow> string" where
  "rule_key r \<equiv> ri_CanonicalKey (fr_Identity r)"

abbreviation observation_key :: "FirewallObservation \<Rightarrow> string" where
  "observation_key o' \<equiv> ri_CanonicalKey (fo_Identity o')"

definition rule_step ::
  "(FirewallRule \<Rightarrow> guard_error option) \<Rightarrow> nat \<Rightarrow> rules_state \<Rightarrow> FirewallRule \<Rightarrow> guard_error + rules_state"
where
  "rule_step valid index st rule =
     (let path = indexedField ''firewallRules'' index in
      check (first_error
        [fail_if (fr_Purpose rule \<in> set (rs_seen st))
           (Guard ErrInvalidGuardInput path ''duplicates an earlier firewall purpose''),
         wrap_error (valid rule) path ''failed its purpose proof'',
         fail_if (rule_key rule \<in> set (map fst (rs_byKey st)))
           (Guard ErrInvalidGuardInput path ''duplicates an earlier firewall identity'')])
      (Inr \<lparr>rs_seen = fr_Purpose rule # rs_seen st,
            rs_byKey = (rule_key rule, normalizeFirewallRule rule) # rs_byKey st\<rparr>))"

definition observation_step ::
  "(FirewallRule \<Rightarrow> guard_error option) \<Rightarrow> (string \<times> FirewallRule) list \<Rightarrow> nat \<Rightarrow> observations_state \<Rightarrow>
     FirewallObservation \<Rightarrow> guard_error + observations_state" where
  "observation_step valid rulesByKey index st observation =
     (let path = indexedField ''firewallObservations'' index; key = observation_key observation in
      check (wrap_error (validateResourceIdentity (fo_Identity observation)) (path @ ''.identity'')
          ''must identify one desired firewall'')
      (case map_of rulesByKey key of
         None \<Rightarrow> Inl (unsafe_firewall path ''does not identify a required firewall'')
       | Some desired \<Rightarrow>
           check (first_error
             [fail_if (fo_Identity observation \<noteq> fr_Identity desired)
                (unsafe_firewall path ''does not identify a required firewall''),
              fail_if (key \<in> set (os_observed st))
                (Guard ErrInvalidGuardInput path ''duplicates an earlier firewall observation'')])
           (case fo_State observation of
              FirewallObservationAbsent \<Rightarrow>
                check (fail_if (fo_PresentRule observation \<noteq> None)
                    (Guard ErrInvalidGuardInput path ''is ambiguous between absent and present''))
                  (Inr \<lparr>os_absent = key # os_absent st, os_observed = key # os_observed st\<rparr>)
            | FirewallObservationPresent \<Rightarrow>
                (case fo_PresentRule observation of
                   None \<Rightarrow> Inl (Guard ErrInvalidGuardInput path ''must include complete present provider state'')
                 | Some present \<Rightarrow>
                     check (first_error
                       [wrap_error (valid present) (path @ ''.presentRule'') ''is not a safe complete provider state'',
                        fail_if (\<not> equalFirewallRule present desired)
                          (Guard ErrProofMismatch (path @ ''.presentRule'')
                             ''differs from the desired normalized provider state'')])
                     (Inr \<lparr>os_absent = os_absent st, os_observed = key # os_observed st\<rparr>))
            | FirewallObservationOther s \<Rightarrow>
                Inl (Guard ErrInvalidGuardInput (path @ ''.state'') ''must be absent or present''))))"

definition firewall_target_keys :: "MutationTarget list \<Rightarrow> string list" where
  "firewall_target_keys selected =
     remdups (map target_key (filter (\<lambda>t. ri_Service (mt_Identity t) = ComputeServiceName \<and>
       ri_Kind (mt_Identity t) = ComputeFirewallKind) selected))"

definition observation_coverage ::
  "(string \<times> FirewallRule) list \<Rightarrow> string list \<Rightarrow> observations_state \<Rightarrow> guard_error option" where
  "observation_coverage rulesByKey targetKeys st =
     first_error
       [fail_if (length (os_observed st) \<noteq> length rulesByKey \<or> length targetKeys \<noteq> length (os_absent st))
          (unsafe_firewall ''firewallObservations'' ''does not exhaustively match desired rules and insert targets''),
        fail_if (list_ex (\<lambda>key. key \<notin> set targetKeys) (os_absent st))
          (unsafe_firewall ''targets'' ''must select every and only confirmed-absent firewall'')]"

definition ValidateFirewallRules ::
  "(RunLifetimeContract \<Rightarrow> string option) \<Rightarrow> (string \<Rightarrow> string) \<Rightarrow> FirewallRule list \<Rightarrow>
     FirewallObservation list \<Rightarrow> string list \<Rightarrow> MutationTarget list \<Rightarrow> FirewallValidationContext \<Rightarrow>
     guard_error option" where
  "ValidateFirewallRules marshal sha256hex rules observations productionCIDRs targets c =
     error_of (bind_result (context_lifetime marshal sha256hex c) (\<lambda>lifetimeFingerprint.
       check (first_error
         [fail_if (length rules \<noteq> 2)
            (unsafe_firewall ''firewallRules'' ''must contain both required purpose proofs''),
          fail_if (length observations \<noteq> length rules)
            (unsafe_firewall ''firewallObservations'' ''must contain one exhaustive observation per required rule'')])
       (bind_result (SelectRunFirewallMutationTargets (fc_RunID c) targets) (\<lambda>selected.
         let targetKeys = firewall_target_keys selected;
             valid = (\<lambda>rule. validateFirewallRule rule productionCIDRs (fc_RunID c)
               (lc_ProjectID (fc_RunLifetime c)) lifetimeFingerprint) in
         check (fail_if (length targetKeys \<noteq> length selected)
             (unsafe_firewall ''targets'' ''contains an unproved non-firewall mutation''))
         (bind_result (range_loop (rule_step valid) 0 \<lparr>rs_seen = [], rs_byKey = []\<rparr> rules) (\<lambda>st.
           check (first_error
             [fail_if (FirewallPurposeIAPSSH \<notin> set (rs_seen st))
                (unsafe_firewall ''firewallRules'' ''is missing the IAP SSH purpose''),
              fail_if (FirewallPurposeInternalMongo \<notin> set (rs_seen st))
                (unsafe_firewall ''firewallRules'' ''is missing the internal MongoDB purpose'')])
           (bind_result (range_loop (observation_step valid (rs_byKey st)) 0
               \<lparr>os_absent = [], os_observed = []\<rparr> observations) (\<lambda>obs.
             check (observation_coverage (rs_byKey st) targetKeys obs) (Inr ())))))))))"

subsection \<open>What the loops accept\<close>

lemma rule_loop:
  "range_loop (rule_step valid) 0 \<lparr>rs_seen = [], rs_byKey = []\<rparr> rules = Inr st \<longleftrightarrow>
     list_all (\<lambda>r. valid r = None) rules \<and> distinct (map fr_Purpose rules) \<and>
     distinct (map rule_key rules) \<and>
     st = \<lparr>rs_seen = rev (map fr_Purpose rules),
           rs_byKey = rev (map (\<lambda>r. (rule_key r, normalizeFirewallRule r)) rules)\<rparr>"
proof (induction rules arbitrary: st rule: rev_induct)
  case Nil
  then show ?case by auto
next
  case (snoc r rules)
  show ?case
    unfolding range_loop_snoc snoc.IH
    by (auto simp: rule_step_def Let_def comp_def image_image)
qed

definition observation_ok ::
  "(FirewallRule \<Rightarrow> guard_error option) \<Rightarrow> (string \<times> FirewallRule) list \<Rightarrow> FirewallObservation \<Rightarrow> bool" where
  "observation_ok valid rulesByKey observation =
     (validateResourceIdentity (fo_Identity observation) = None \<and>
      (case map_of rulesByKey (observation_key observation) of
         None \<Rightarrow> False
       | Some desired \<Rightarrow>
           fo_Identity observation = fr_Identity desired \<and>
           (case fo_State observation of
              FirewallObservationAbsent \<Rightarrow> fo_PresentRule observation = None
            | FirewallObservationPresent \<Rightarrow>
                (case fo_PresentRule observation of
                   None \<Rightarrow> False
                 | Some present \<Rightarrow> valid present = None \<and> equalFirewallRule present desired)
            | FirewallObservationOther s \<Rightarrow> False)))"

lemma observation_step_Inr:
  "observation_step valid m i st ob = Inr st' \<longleftrightarrow>
     observation_ok valid m ob \<and> observation_key ob \<notin> set (os_observed st) \<and>
     st' = \<lparr>os_absent = (if fo_State ob = FirewallObservationAbsent then [observation_key ob] else []) @ os_absent st,
            os_observed = observation_key ob # os_observed st\<rparr>"
  by (auto simp: observation_step_def Let_def observation_ok_def
      split: option.splits FirewallObservationState.splits)

lemma observation_loop:
  "range_loop (observation_step valid m) 0 \<lparr>os_absent = [], os_observed = []\<rparr> obs = Inr st \<longleftrightarrow>
     list_all (observation_ok valid m) obs \<and> distinct (map observation_key obs) \<and>
     st = \<lparr>os_absent = rev (map observation_key
              (filter (\<lambda>x. fo_State x = FirewallObservationAbsent) obs)),
           os_observed = rev (map observation_key obs)\<rparr>"
proof (induction obs arbitrary: st rule: rev_induct)
  case Nil
  then show ?case by auto
next
  case (snoc ob obs)
  show ?case
    unfolding range_loop_snoc snoc.IH observation_step_Inr by auto
qed

lemma firewall_target_keys_selected:
  assumes "SelectRunFirewallMutationTargets r ts = Inr selected"
  shows "firewall_target_keys selected = map target_key selected"
    and "set (map target_key selected) = set (map target_key ts)" and "distinct (map target_key selected)"
proof -
  have s: "list_all (firewall_target_ok r) selected" "distinct (map target_key selected)"
    "set selected = set ts"
    using firewall_targets.selected [OF assms] firewall_targets.same_members [OF assms] by simp_all
  then have "filter (\<lambda>t. ri_Service (mt_Identity t) = ComputeServiceName \<and>
      ri_Kind (mt_Identity t) = ComputeFirewallKind) selected = selected"
    by (intro filter_True) (auto simp: list_all_iff firewall_target_ok_def)
  with s show "firewall_target_keys selected = map target_key selected"
    by (simp add: firewall_target_keys_def distinct_remdups_id)
  show "set (map target_key selected) = set (map target_key ts)" "distinct (map target_key selected)"
    using s by simp_all
qed

definition firewall_rules_ok ::
  "(FirewallRule \<Rightarrow> guard_error option) \<Rightarrow> FirewallRule list \<Rightarrow> FirewallObservation list \<Rightarrow> bool" where
  "firewall_rules_ok valid rules obs =
     (length rules = 2 \<and> length obs = 2 \<and> list_all (\<lambda>r. valid r = None) rules \<and>
      distinct (map fr_Purpose rules) \<and> distinct (map rule_key rules) \<and>
      FirewallPurposeIAPSSH \<in> set (map fr_Purpose rules) \<and>
      FirewallPurposeInternalMongo \<in> set (map fr_Purpose rules) \<and>
      list_all (observation_ok valid (rev (map (\<lambda>r. (rule_key r, normalizeFirewallRule r)) rules))) obs \<and>
      distinct (map observation_key obs))"

lemma ValidateFirewallRules_None:
  "ValidateFirewallRules marshal sha rules obs cidrs ts c = None \<longleftrightarrow>
     (\<exists>fp selected. context_lifetime marshal sha c = Inr fp \<and>
        SelectRunFirewallMutationTargets (fc_RunID c) ts = Inr selected \<and>
        firewall_rules_ok (\<lambda>rule. validateFirewallRule rule cidrs (fc_RunID c)
          (lc_ProjectID (fc_RunLifetime c)) fp) rules obs \<and>
        length ts = length (filter (\<lambda>x. fo_State x = FirewallObservationAbsent) obs) \<and>
        set (map target_key ts) = set (map observation_key
          (filter (\<lambda>x. fo_State x = FirewallObservationAbsent) obs)))"
proof -
  have keys: "length (firewall_target_keys selected) = length selected \<and>
      set (firewall_target_keys selected) = set (map target_key ts) \<and> length selected = length ts"
    if "SelectRunFirewallMutationTargets r ts = Inr selected" for r selected
  proof -
    have "mset selected = mset ts" using firewall_targets.selected [OF that] by blast
    then have "length selected = length ts" by (rule mset_eq_length)
    then show ?thesis
      unfolding firewall_target_keys_selected(1) [OF that] firewall_target_keys_selected(2) [OF that]
      by (simp only: length_map simp_thms)
  qed
  let ?valid = "\<lambda>fp rule. validateFirewallRule rule cidrs (fc_RunID c) (lc_ProjectID (fc_RunLifetime c)) fp"
  let ?absent = "map observation_key (filter (\<lambda>x. fo_State x = FirewallObservationAbsent) obs)"
  let ?cover = "\<lambda>selected. length (firewall_target_keys selected) = length selected \<and>
      length (firewall_target_keys selected) = length ?absent \<and>
      (\<forall>k \<in> set ?absent. k \<in> set (firewall_target_keys selected))"
  let ?exact = "length ts = length ?absent \<and> set (map target_key ts) = set ?absent"
  have "ValidateFirewallRules marshal sha rules obs cidrs ts c = None \<longleftrightarrow>
      (\<exists>fp selected. context_lifetime marshal sha c = Inr fp \<and>
        SelectRunFirewallMutationTargets (fc_RunID c) ts = Inr selected \<and>
        firewall_rules_ok (?valid fp) rules obs \<and> ?cover selected)"
    by (simp add: ValidateFirewallRules_def bind_result_is_Inr Let_def rule_loop observation_loop
        observation_coverage_def firewall_rules_ok_def list_ex_iff)
      (intro iffI; elim exE conjE; intro exI conjI; (assumption | simp))
  moreover have "?cover selected \<longleftrightarrow> ?exact"
    if "SelectRunFirewallMutationTargets (fc_RunID c) ts = Inr selected"
      and "firewall_rules_ok (?valid fp) rules obs" for selected fp
  proof -
    note k = keys [OF that(1)]
    have "distinct ?absent"
      using that(2) by (simp add: firewall_rules_ok_def distinct_map_filter)
    then have card: "card (set ?absent) = length ?absent" by (rule distinct_card)
    have "card (set (map target_key ts)) = length ts"
      using firewall_target_keys_selected(2,3) [OF that(1)] k distinct_card length_map by metis
    then have one: "length ts = length ?absent \<Longrightarrow> set ?absent \<subseteq> set (map target_key ts) \<longleftrightarrow>
        set (map target_key ts) = set ?absent"
      using card by (metis List.finite_set card_subset_eq order_refl)
    have "?cover selected \<longleftrightarrow>
        length ts = length ?absent \<and> set ?absent \<subseteq> set (map target_key ts)"
      using k by (simp only: subset_eq) metis
    then show ?thesis using one by blast
  qed
  ultimately show ?thesis by (simp only: length_map) metis
qed

end
