(* ===== verification/FirewallShape.thy ===== *)
theory FirewallShape
  imports IsolationFirewall
begin

section \<open>internal/isolation: the shape of a validated firewall rule\<close>

text \<open>
  A rule that \<open>validateFirewallRule\<close> accepts is, field by field, the one rule of its purpose.
\<close>

subsection \<open>The only rule of a purpose\<close>

definition global_compute :: "string \<Rightarrow> string \<Rightarrow> string \<Rightarrow> ResourceIdentity" where
  "global_compute project kind name =
     \<lparr>ri_Project = project, ri_Service = ComputeServiceName, ri_Kind = kind,
      ri_Scope = ResourceScopeGlobal, ri_Location = ''global'', ri_ParentName = [], ri_Name = name,
      ri_CanonicalKey = ''ctrldb-target-key:v1|'' @ project @ ''|'' @ ComputeServiceName @ ''|global|'' @
        kind @ ''|'' @ name\<rparr>"

lemma global_compute_unique:
  assumes "validateResourceIdentity i = None" and "ri_Service i = ComputeServiceName"
    and "ri_Scope i = ResourceScopeGlobal" and "ri_Kind i \<noteq> ComputeRouterNATKind"
  shows "i = global_compute (ri_Project i) (ri_Kind i) (ri_Name i)"
proof -
  from assms(1) obtain p q where i: "target_scopePath i = Inr p" "target_parentPath i = Inr q"
    "ri_CanonicalKey i = ''ctrldb-target-key:v1|'' @ ri_Project i @ ''|'' @ ri_Service i @ ''|'' @ p @ q @
      ''|'' @ ri_Kind i @ ''|'' @ ri_Name i"
    unfolding validateResourceIdentity_None CanonicalTargetKey_Inr by blast
  have "p = ''global''" "ri_Location i = ''global''"
    using i(1) assms(3) by (auto simp: target_scopePath_Inr)
  moreover have "q = []" "ri_ParentName i = []"
    using i(2) assms(2,4) by (auto simp: target_parentPath_def)
  ultimately show ?thesis
    using i(3) assms(2,3) by (intro ResourceIdentity.equality) (simp_all add: global_compute_def)
qed

definition purpose_suffix :: "FirewallPurpose \<Rightarrow> string" where
  "purpose_suffix p = (if p = FirewallPurposeIAPSSH then ''iap-ssh'' else ''internal'')"

definition expected_rule :: "FirewallPurpose \<Rightarrow> string \<Rightarrow> string \<Rightarrow> string \<Rightarrow> FirewallRule" where
  "expected_rule purpose runID project fp =
     (let tag = testNodeTagPrefix @ take 49 fp; ssh = (purpose = FirewallPurposeIAPSSH) in
     \<lparr>fr_Identity = global_compute project ComputeFirewallKind
        (TestResourcePrefix @ runID @ ''-'' @ purpose_suffix purpose),
      fr_Description = firewallDescriptionPrefix @ fp @ firewallDescriptionSuffix,
      fr_Network = global_compute project ComputeNetworkKind TestVPCName,
      fr_RunID = runID, fr_Purpose = purpose, fr_Enabled = True, fr_Priority = FirewallPriority,
      fr_Direction = FirewallDirectionIngress,
      fr_Allowed = [\<lparr>ft_IPProtocol = FirewallIPProtocolTCP,
        ft_Ports = [if ssh then FirewallPortSSH else FirewallPortMongo]\<rparr>],
      fr_Denied = [], fr_DestinationCIDRs = [],
      fr_SourceCIDRs = (if ssh then [IAPTCPSourceCIDR] else []),
      fr_SourceTags = (if ssh then [] else [tag]),
      fr_SourceServiceAccounts = [], fr_TargetTags = [tag], fr_TargetServiceAccounts = [],
      fr_LogConfig = \<lparr>fl_Enabled = False, fl_Metadata = FirewallLogMetadataNone\<rparr>,
      fr_ResourceManagerTags = fmempty, fr_LifetimeContractFingerprint = fp\<rparr>)"


lemma sort_key_is_single: "sort_key k xs = [x] \<longleftrightarrow> xs = [x]"
proof
  assume a: "sort_key k xs = [x]"
  then have "length xs = 1" "set xs = {x}"
    using length_sort [of k xs] set_sort [of k xs] by simp_all
  then show "xs = [x]" by (cases xs) auto
qed simp

lemma sort_key_is_empty: "sort_key k xs = [] \<longleftrightarrow> xs = []"
  by (metis length_0_conv length_sort)

lemma single_port_rules:
  assumes "length rs = 1" and "length (ft_Ports (hd rs)) = 1"
  shows "rs = [\<lparr>ft_IPProtocol = ft_IPProtocol (hd rs), ft_Ports = [hd (ft_Ports (hd rs))]\<rparr>]"
proof -
  from assms(1) obtain x where rs: "rs = [x]" by (auto simp: length_Suc_conv)
  with assms(2) obtain q where "ft_Ports x = [q]" by (auto simp: length_Suc_conv)
  with rs show ?thesis by (cases x) simp
qed

lemma description_check:
  "(case RunFirewallDescription fp of Inl e \<Rightarrow> Some e | Inr d \<Rightarrow> fail_if (x \<noteq> d) e') = None \<longleftrightarrow>
     isSHA256Fingerprint fp \<and> x = firewallDescriptionPrefix @ fp @ firewallDescriptionSuffix"
  by (cases "isSHA256Fingerprint fp") (auto simp: RunFirewallDescription_def fingerprint_check_def)

text \<open>A normalised rule that passes is the expected one, and so is the rule it was made from.\<close>

lemma rule_checks_expected:
  assumes "first_error (firewall_rule_checks n cidrs r proj fp) = None"
  shows "n = expected_rule (fr_Purpose n) r proj fp"
    and "fr_Purpose n = FirewallPurposeIAPSSH \<or> fr_Purpose n = FirewallPurposeInternalMongo"
    and "isSHA256Fingerprint fp" and "ValidateRunID r = None" and "validateProductionCIDRs cidrs = None"
    and "check_each (source_outside_production cidrs) 0 (fr_SourceCIDRs n) = None"
proof -
  have checks: "ValidateRunID r = None" "isSHA256Fingerprint fp" "fr_RunID n = r"
    "fr_Description n = firewallDescriptionPrefix @ fp @ firewallDescriptionSuffix" "fr_Enabled n"
    "validateResourceIdentity (fr_Identity n) = None" "validateResourceIdentity (fr_Network n) = None"
    "ri_Service (fr_Identity n) = ComputeServiceName" "ri_Kind (fr_Identity n) = ComputeFirewallKind"
    "ri_Scope (fr_Identity n) = ResourceScopeGlobal" "ri_Service (fr_Network n) = ComputeServiceName"
    "ri_Kind (fr_Network n) = ComputeNetworkKind" "ri_Scope (fr_Network n) = ResourceScopeGlobal"
    "ri_Name (fr_Network n) = TestVPCName" "ri_Project (fr_Identity n) = ri_Project (fr_Network n)"
    "ri_Project (fr_Identity n) = proj" "fr_Priority n = FirewallPriority"
    "fr_Direction n = FirewallDirectionIngress" "length (fr_Allowed n) = 1" "fr_Denied n = []"
    "ft_IPProtocol (hd (fr_Allowed n)) = FirewallIPProtocolTCP" "length (ft_Ports (hd (fr_Allowed n))) = 1"
    "fr_DestinationCIDRs n = []" "fr_SourceServiceAccounts n = []" "fr_TargetServiceAccounts n = []"
    "\<not> fl_Enabled (fr_LogConfig n)" "fl_Metadata (fr_LogConfig n) = FirewallLogMetadataNone"
    "fr_ResourceManagerTags n = fmempty" "validateProductionCIDRs cidrs = None"
    "check_each (source_outside_production cidrs) 0 (fr_SourceCIDRs n) = None"
    "purpose_shape n r fp = None"
    using assms by (simp_all add: firewall_rule_checks_def Let_def fingerprint_check_def description_check)
  show "isSHA256Fingerprint fp" "ValidateRunID r = None" "validateProductionCIDRs cidrs = None"
    "check_each (source_outside_production cidrs) 0 (fr_SourceCIDRs n) = None"
    using checks by blast+
  show purpose: "fr_Purpose n = FirewallPurposeIAPSSH \<or> fr_Purpose n = FirewallPurposeInternalMongo"
    using checks(31) by (auto simp: purpose_shape_def split: FirewallPurpose.splits)
  have names: "RunFirewallRuleName r FirewallPurposeIAPSSH = Inr (TestResourcePrefix @ r @ ''-iap-ssh'')"
    "RunFirewallRuleName r FirewallPurposeInternalMongo = Inr (TestResourcePrefix @ r @ ''-internal'')"
    "RunNodeTag fp = Inr (testNodeTagPrefix @ take 49 fp)"
    using checks(1,2) by (simp_all add: RunFirewallRuleName_def RunResourcePrefix_def
        iapSSHFirewallRuleSuffix_def mongoFirewallRuleSuffix_def RunNodeTag_def fingerprint_check_def)
  have shape: "ri_Name (fr_Identity n) = TestResourcePrefix @ r @ ''-'' @ purpose_suffix (fr_Purpose n) \<and>
      hd (ft_Ports (hd (fr_Allowed n))) =
        (if fr_Purpose n = FirewallPurposeIAPSSH then FirewallPortSSH else FirewallPortMongo) \<and>
      fr_SourceCIDRs n = (if fr_Purpose n = FirewallPurposeIAPSSH then [IAPTCPSourceCIDR] else []) \<and>
      fr_SourceTags n = (if fr_Purpose n = FirewallPurposeIAPSSH then [] else [testNodeTagPrefix @ take 49 fp]) \<and>
      fr_TargetTags n = [testNodeTagPrefix @ take 49 fp] \<and> fr_LifetimeContractFingerprint n = fp"
    using purpose checks(31)
    by (elim disjE) (auto simp: purpose_shape_def names purpose_suffix_def)
  have identity: "fr_Identity n = global_compute proj ComputeFirewallKind
      (TestResourcePrefix @ r @ ''-'' @ purpose_suffix (fr_Purpose n))"
    using global_compute_unique [OF checks(6,8,10)] checks(9,16) shape by (simp add: service_kinds)
  have network: "fr_Network n = global_compute proj ComputeNetworkKind TestVPCName"
    using global_compute_unique [OF checks(7,11,13)] checks(12,14,15,16) by (simp add: service_kinds)
  have allowed: "fr_Allowed n = [\<lparr>ft_IPProtocol = FirewallIPProtocolTCP, ft_Ports =
      [if fr_Purpose n = FirewallPurposeIAPSSH then FirewallPortSSH else FirewallPortMongo]\<rparr>]"
    using single_port_rules [OF checks(19,22)] checks(21) shape by simp
  have log: "fr_LogConfig n = \<lparr>fl_Enabled = False, fl_Metadata = FirewallLogMetadataNone\<rparr>"
    using checks(26,27) by (cases "fr_LogConfig n") simp
  show "n = expected_rule (fr_Purpose n) r proj fp"
    by (rule FirewallRule.equality)
       (use checks identity network allowed log shape in \<open>simp_all add: expected_rule_def Let_def\<close>)
qed

lemma clone_traffic_is_single:
  "cloneFirewallTrafficRules rs = [\<lparr>ft_IPProtocol = t, ft_Ports = [q]\<rparr>] \<longleftrightarrow>
     rs = [\<lparr>ft_IPProtocol = t, ft_Ports = [q]\<rparr>]"
proof -
  have "x\<lparr>ft_Ports := sort (ft_Ports x)\<rparr> = \<lparr>ft_IPProtocol = t, ft_Ports = [q]\<rparr> \<longleftrightarrow>
      x = \<lparr>ft_IPProtocol = t, ft_Ports = [q]\<rparr>" for x :: FirewallTrafficRule
    by (cases x) (simp add: sort_key_is_single)
  then show ?thesis
    unfolding cloneFirewallTrafficRules_def sort_key_is_single map_eq_Cons_conv by auto
qed

lemma clone_traffic_is_empty: "cloneFirewallTrafficRules rs = [] \<longleftrightarrow> rs = []"
  by (simp add: cloneFirewallTrafficRules_def sort_key_is_empty)

lemma normal_form_expected:
  assumes "normalizeFirewallRule rule = expected_rule p r proj fp"
  shows "rule = expected_rule p r proj fp"
proof -
  have fields: "\<And>f. f (normalizeFirewallRule rule) = f (expected_rule p r proj fp)" using assms by simp
  show ?thesis
    using fields [of fr_Identity] fields [of fr_Description] fields [of fr_Network] fields [of fr_RunID]
      fields [of fr_Purpose] fields [of fr_Enabled] fields [of fr_Priority] fields [of fr_Direction]
      fields [of fr_Allowed] fields [of fr_Denied] fields [of fr_DestinationCIDRs]
      fields [of fr_SourceCIDRs] fields [of fr_SourceTags] fields [of fr_SourceServiceAccounts]
      fields [of fr_TargetTags] fields [of fr_TargetServiceAccounts] fields [of fr_LogConfig]
      fields [of fr_ResourceManagerTags] fields [of fr_LifetimeContractFingerprint]
    by (intro FirewallRule.equality)
       (simp_all add: normalizeFirewallRule_def expected_rule_def Let_def normalizeStrings_def
         clone_traffic_is_single clone_traffic_is_empty sort_key_is_single sort_key_is_empty split: if_splits)
qed

lemma validated_rule_expected:
  assumes "validateFirewallRule rule cidrs r proj fp = None"
  shows "rule = expected_rule (fr_Purpose rule) r proj fp"
    and "fr_Purpose rule = FirewallPurposeIAPSSH \<or> fr_Purpose rule = FirewallPurposeInternalMongo"
    and "isSHA256Fingerprint fp" and "ValidateRunID r = None" and "validateProductionCIDRs cidrs = None"
    and "check_each (source_outside_production cidrs) 0 (fr_SourceCIDRs rule) = None"
proof -
  note n = rule_checks_expected [OF assms [unfolded validateFirewallRule_def]]
  have purpose: "fr_Purpose (normalizeFirewallRule rule) = fr_Purpose rule"
    by (simp add: normalizeFirewallRule_def)
  show rule: "rule = expected_rule (fr_Purpose rule) r proj fp"
    using normal_form_expected n(1) unfolding purpose by blast
  show "fr_Purpose rule = FirewallPurposeIAPSSH \<or> fr_Purpose rule = FirewallPurposeInternalMongo"
    using n(2) by (simp add: purpose)
  show "isSHA256Fingerprint fp" "ValidateRunID r = None" "validateProductionCIDRs cidrs = None"
    using n(3-5) by blast+
  have "normalizeFirewallRule rule = rule" using rule n(1) unfolding purpose by metis
  with n(6) show "check_each (source_outside_production cidrs) 0 (fr_SourceCIDRs rule) = None" by simp
qed


end
