(* ===== verification/IsolationOwnership.thy ===== *)
theory IsolationOwnership
  imports FirewallShape
begin

section \<open>internal/isolation: ownership of singletons and of cleanup targets (ownership.go)\<close>

text \<open>
  Permanent harness singletons are owned through a durable record that a trusted store observation
  binds by fingerprint; a run's firewall is deleted only with the evidence of its lifetime record.
  \<open>marshal\<close> encodes a record, \<open>sha256hex\<close> is the hexadecimal SHA-256 of bytes.
\<close>

definition OwnershipRecordSchemaV1 :: string where
  "OwnershipRecordSchemaV1 = ''ctrldb.ctrlboard.dev/ownership/v1''"

definition MaxPreMutationProofLifetime :: int where "MaxPreMutationProofLifetime = 5 * minute"

record PermanentOwnershipRecordV1 =
  po_SchemaVersion :: string
  po_RecordID :: string
  po_RecordGeneration :: "64 word"
  po_Identity :: ResourceIdentity
  po_ProviderID :: string
  po_DesiredStateFingerprint :: string
  po_DescriptionFingerprint :: string

record PermanentSingletonExpectation =
  px_Identity :: ResourceIdentity
  px_DesiredStateFingerprint :: string
  px_DescriptionFingerprint :: string

record PermanentSingletonObservation =
  pv_Identity :: ResourceIdentity
  pv_ProviderID :: string
  pv_DesiredStateFingerprint :: string
  pv_DescriptionFingerprint :: string
  pv_Revision :: string
  pv_ObservedAt :: gotime
  pv_ValidUntil :: gotime

record OwnershipRecordExpectation =
  ox_RecordID :: string
  ox_RecordGeneration :: "64 word"
  ox_Revision :: string
  ox_ObservedAt :: gotime
  ox_ValidUntil :: gotime

record PermanentSingletonProof =
  pp_ProjectID :: string
  pp_Expected :: PermanentSingletonExpectation
  pp_ExpectedRecord :: OwnershipRecordExpectation
  pp_Observed :: PermanentSingletonObservation
  pp_Record :: PermanentOwnershipRecordV1

definition ownership_error :: "string \<Rightarrow> string \<Rightarrow> guard_error" where
  "ownership_error path reason = Guard ErrInvalidOwnershipProof path reason"

definition permanentSingletonSupportsDescription :: "ResourceIdentity \<Rightarrow> bool" where
  "permanentSingletonSupportsDescription identity =
     (if ri_Service identity = ComputeServiceName \<and> ri_Kind identity = ComputeRouterNATKind then False
      else if ri_Service identity = RunServiceName \<and> ri_Kind identity = RunJobKind then False
      else True)"

definition supportedPermanentSingletonIdentity :: "ResourceIdentity \<Rightarrow> bool" where
  "supportedPermanentSingletonIdentity identity =
     (let kind = ri_Kind identity; scope = ri_Scope identity; service = ri_Service identity in
      if service = ComputeServiceName then
        (if kind = ComputeNetworkKind then scope = ResourceScopeGlobal
         else if kind = ComputeFirewallKind then
           scope = ResourceScopeGlobal \<and>
           (ri_Name identity = TestIAPSSHFirewallName \<or> ri_Name identity = TestInternalFirewallName)
         else if kind \<in> set [ComputeSubnetworkKind, ComputeRouterKind, ComputeRouterNATKind] then
           scope = ResourceScopeRegion
         else False)
      else if service = IAMServiceName then
        scope = ResourceScopeGlobal \<and> (kind = IAMServiceAccountKind \<or> kind = IAMRoleKind)
      else if service = RunServiceName then scope = ResourceScopeRegion \<and> kind = RunJobKind
      else if service = SchedulerServiceName then scope = ResourceScopeRegion \<and> kind = SchedulerJobKind
      else False)"

definition validatePermanentSingletonFingerprints ::
  "string \<Rightarrow> ResourceIdentity \<Rightarrow> string \<Rightarrow> string \<Rightarrow> guard_error option" where
  "validatePermanentSingletonFingerprints path identity state description =
     first_error
       [fail_if (\<not> isSHA256Fingerprint state)
          (ownership_error (path @ ''.desiredStateFingerprint'') ''must bind complete desired state''),
        fail_if (permanentSingletonSupportsDescription identity \<and> \<not> isSHA256Fingerprint description)
          (ownership_error (path @ ''.descriptionFingerprint'') ''is required for this provider kind''),
        fail_if (\<not> permanentSingletonSupportsDescription identity \<and> description \<noteq> [])
          (ownership_error (path @ ''.descriptionFingerprint'') ''must be absent for this provider kind'')]"

definition PermanentOwnershipRecordFingerprint ::
  "(PermanentOwnershipRecordV1 \<Rightarrow> string option) \<Rightarrow> (string \<Rightarrow> string) \<Rightarrow> PermanentOwnershipRecordV1 \<Rightarrow>
     guard_error + string" where
  "PermanentOwnershipRecordFingerprint marshal sha256hex rec =
     check (first_error
       [fail_if (po_SchemaVersion rec \<noteq> OwnershipRecordSchemaV1 \<or> \<not> identifierPattern (po_RecordID rec) \<or>
            po_RecordGeneration rec = 0 \<or> validateResourceIdentity (po_Identity rec) \<noteq> None \<or>
            \<not> supportedPermanentSingletonIdentity (po_Identity rec) \<or> po_ProviderID rec = [] \<or>
            trim_changes (po_ProviderID rec))
          (ownership_error ''record'' ''does not identify one complete supported singleton record''),
        validatePermanentSingletonFingerprints ''record'' (po_Identity rec) (po_DesiredStateFingerprint rec)
          (po_DescriptionFingerprint rec)])
     (canonicalJSONFingerprint marshal sha256hex rec)"

definition validateOwnershipRecordExpectation :: "OwnershipRecordExpectation \<Rightarrow> gotime \<Rightarrow> guard_error option" where
  "validateOwnershipRecordExpectation v now =
     first_error
       [fail_if (\<not> identifierPattern (ox_RecordID v) \<or> ox_RecordGeneration v = 0 \<or>
            \<not> isSHA256Fingerprint (ox_Revision v))
          (ownership_error ''expectedRecord'' ''does not identify one exhaustive durable record observation''),
        fail_if (validateUTCWindow (ox_ObservedAt v) (ox_ValidUntil v) MaxPreMutationProofLifetime \<noteq> None \<or>
            time_Before now (ox_ObservedAt v) \<or> \<not> time_Before now (ox_ValidUntil v))
          (ownership_error ''expectedRecord'' ''is not a fresh bounded control-store observation'')]"

definition validatePermanentSingletonExpectation ::
  "string \<Rightarrow> PermanentSingletonExpectation \<Rightarrow> guard_error option" where
  "validatePermanentSingletonExpectation projectID v =
     first_error
       [fail_if (validateResourceIdentity (px_Identity v) \<noteq> None \<or> ri_Project (px_Identity v) \<noteq> projectID \<or>
            \<not> supportedPermanentSingletonIdentity (px_Identity v))
          (ownership_error ''expected.identity'' ''is not an independently trusted harness singleton identity''),
        validatePermanentSingletonFingerprints ''expected'' (px_Identity v) (px_DesiredStateFingerprint v)
          (px_DescriptionFingerprint v)]"

definition validatePermanentSingletonObservation ::
  "string \<Rightarrow> PermanentSingletonObservation \<Rightarrow> gotime \<Rightarrow> guard_error option" where
  "validatePermanentSingletonObservation projectID v now =
     first_error
       [fail_if (validateResourceIdentity (pv_Identity v) \<noteq> None \<or> ri_Project (pv_Identity v) \<noteq> projectID \<or>
            \<not> supportedPermanentSingletonIdentity (pv_Identity v))
          (ownership_error ''observed.identity'' ''is not the expected project singleton identity''),
        fail_if (pv_ProviderID v = [] \<or> trim_changes (pv_ProviderID v) \<or> \<not> isSHA256Fingerprint (pv_Revision v))
          (ownership_error ''observed'' ''requires provider ID and an exhaustive observation revision''),
        fail_if (validateUTCWindow (pv_ObservedAt v) (pv_ValidUntil v) MaxPreMutationProofLifetime \<noteq> None \<or>
            time_Before now (pv_ObservedAt v) \<or> \<not> time_Before now (pv_ValidUntil v))
          (ownership_error ''observed'' ''is not a fresh bounded provider observation''),
        validatePermanentSingletonFingerprints ''observed'' (pv_Identity v) (pv_DesiredStateFingerprint v)
          (pv_DescriptionFingerprint v)]"

definition ValidatePermanentSingletonOwnership ::
  "(PermanentOwnershipRecordV1 \<Rightarrow> string option) \<Rightarrow> (string \<Rightarrow> string) \<Rightarrow> PermanentSingletonProof \<Rightarrow>
     gotime \<Rightarrow> guard_error option" where
  "ValidatePermanentSingletonOwnership marshal sha256hex proof now =
     (let x = pp_Expected proof; v = pp_Observed proof; rec = pp_Record proof; r = pp_ExpectedRecord proof in
      error_of (check (first_error
        [fail_if (\<not> projectIDPattern (pp_ProjectID proof))
           (ownership_error ''projectID'' ''must be an explicit canonical project''),
         fail_if (time_IsZero now) (ownership_error ''now'' ''must be an explicit mutation-boundary time''),
         fail_if (t_zone now \<noteq> 0) (ownership_error ''now'' ''must use UTC''),
         validatePermanentSingletonExpectation (pp_ProjectID proof) x,
         validatePermanentSingletonObservation (pp_ProjectID proof) v now,
         validateOwnershipRecordExpectation r now,
         fail_if (pv_Identity v \<noteq> px_Identity x \<or>
             pv_DesiredStateFingerprint v \<noteq> px_DesiredStateFingerprint x \<or>
             pv_DescriptionFingerprint v \<noteq> px_DescriptionFingerprint x)
           (ownership_error ''observed'' ''does not equal the complete desired singleton state'')])
      (bind_result (PermanentOwnershipRecordFingerprint marshal sha256hex rec) (\<lambda>recordRevision.
        check (first_error
          [fail_if (po_RecordID rec \<noteq> ox_RecordID r \<or> po_RecordGeneration rec \<noteq> ox_RecordGeneration r)
             (ownership_error ''record'' ''is not the current trusted control-store generation''),
           fail_if (recordRevision \<noteq> ox_Revision r)
             (ownership_error ''record'' ''contents do not match the trusted control-store revision''),
           fail_if (po_Identity rec \<noteq> px_Identity x \<or> po_ProviderID rec \<noteq> pv_ProviderID v \<or>
               po_DesiredStateFingerprint rec \<noteq> px_DesiredStateFingerprint x \<or>
               po_DescriptionFingerprint rec \<noteq> px_DescriptionFingerprint x)
             (ownership_error ''record'' ''does not match the desired singleton'')])
        (Inr ())))))"

subsection \<open>Cleanup of a run's firewall\<close>

record RunFirewallCleanupTarget =
  rt_Identity :: ResourceIdentity
  rt_Description :: string
  rt_RunLifetime :: RunLifetimeContract
  rt_ExpectedRecord :: OwnershipRecordExpectation
  rt_ObservedAt :: gotime

datatype RunFirewallCleanupMode =
    RunFirewallCleanupRecordedTeardown
  | RunFirewallCleanupExpiredWipe
  | RunFirewallCleanupOther string

definition ValidateRunFirewallCleanupTarget ::
  "(RunLifetimeContract \<Rightarrow> string option) \<Rightarrow> (string \<Rightarrow> string) \<Rightarrow> CleanupPolicy \<Rightarrow>
     RunFirewallCleanupTarget \<Rightarrow> RunFirewallCleanupMode \<Rightarrow> gotime \<Rightarrow> int \<Rightarrow> guard_error option" where
  "ValidateRunFirewallCleanupTarget marshal sha256hex policy target mode now maxLifetime =
     (let identity = rt_Identity target; contract = rt_RunLifetime target; r = rt_ExpectedRecord target in
      error_of (check (first_error
        [fail_if (\<not> projectIDPattern (cp_ProjectID policy) \<or> time_IsZero now \<or> maxLifetime \<le> 0)
           (ownership_error ''cleanup'' ''requires explicit project and time''),
         fail_if (mode \<noteq> RunFirewallCleanupRecordedTeardown \<and> mode \<noteq> RunFirewallCleanupExpiredWipe)
           (ownership_error ''cleanupMode'' ''is not a supported cleanup authority''),
         fail_if (t_zone now \<noteq> 0) (ownership_error ''now'' ''must use UTC''),
         fail_if (validateResourceIdentity identity \<noteq> None \<or> ri_Project identity \<noteq> cp_ProjectID policy \<or>
             ri_Service identity \<noteq> ComputeServiceName \<or> ri_Kind identity \<noteq> ComputeFirewallKind \<or>
             ri_Scope identity \<noteq> ResourceScopeGlobal)
           (ownership_error ''identity'' ''is not the exact configured-project classic firewall''),
         fail_if (\<not> isExactRunFirewallName (ri_Name identity) (lc_RunID contract))
           (ownership_error ''identity.name'' ''is not one of the two exact durable-record firewall identities'')])
      (case RunLifetimeContractFingerprint marshal sha256hex contract of
         Inl e \<Rightarrow> Inl (ownership_error ''invalid'' ''durable lifetime record'')
       | Inr fingerprint \<Rightarrow>
           check (first_error
             [fail_if (lc_ProjectID contract \<noteq> cp_ProjectID policy)
                (ownership_error ''runLifetime.projectID'' ''does not match the cleanup project''),
              validateOwnershipRecordExpectation r now,
              fail_if (ox_RecordID r \<noteq> lc_RecordID contract \<or> ox_RecordGeneration r \<noteq> lc_RecordGeneration contract)
                (ownership_error ''expectedRecord'' ''does not match the current run lifetime record''),
              fail_if (ox_Revision r \<noteq> fingerprint)
                (ownership_error ''expectedRecord'' ''revision does not bind the complete run lifetime record''),
              fail_if (rt_Description target \<noteq>
                  (case RunFirewallDescription fingerprint of Inl e \<Rightarrow> [] | Inr description \<Rightarrow> description))
                (ownership_error ''description'' ''does not match the durable lifetime record''),
              fail_if (time_IsZero (rt_ObservedAt target) \<or> time_After (rt_ObservedAt target) now \<or>
                  time_Before (rt_ObservedAt target) (lc_CreatedAt contract) \<or>
                  time_Sub now (rt_ObservedAt target) \<ge> MaxPreMutationProofLifetime)
                (ownership_error ''observedAt'' ''does not bind a current complete observation''),
              fail_if (t_zone (rt_ObservedAt target) \<noteq> 0) (ownership_error ''observedAt'' ''must use UTC''),
              fail_if (time_Sub (lc_ExpiresAt contract) (lc_CreatedAt contract) \<le> 0 \<or>
                  time_Sub (lc_ExpiresAt contract) (lc_CreatedAt contract) > maxLifetime)
                (ownership_error ''expiresAt'' ''exceeds the configured maximum lifetime''),
              fail_if (mode = RunFirewallCleanupExpiredWipe \<and> time_Before now (lc_ExpiresAt contract))
                (ownership_error ''expiresAt'' ''has not reached its recorded expiry'')])
           (Inr ()))))"

end
