(* ===== verification/IsolationGuard.thy ===== *)
theory IsolationGuard
  imports IsolationPermissions IsolationLocks IsolationOwnership
begin

section \<open>internal/isolation: the pre-mutation guard (guard.go)\<close>

text \<open>
  The composition of every isolation proof. \<open>AuthorizePreMutation\<close> evaluates all evidence and returns
  an opaque token, \<open>RevalidatePreMutation\<close> evaluates fresh evidence at the mutation boundary and hands
  out the provider requests only when nothing changed. \<open>json.Marshal\<close> is used at six types, the fields
  of \<open>encoders\<close>; \<open>sha256hex\<close> is the hexadecimal SHA-256 of bytes, which also stands for the raw digest
  of the token.
\<close>

record EvidenceFreshness =
  fs_Revision :: string
  fs_ObservedAt :: gotime
  fs_ValidUntil :: gotime

datatype MutationAction =
    MutationActionComputeFirewallInsert
  | MutationActionOther string

datatype TestPrincipalRole =
    TestPrincipalRoleOperator
  | TestPrincipalRoleDestructive
  | TestPrincipalRoleOther string

record CreateDesiredState =
  cd_Firewall :: "FirewallRule option"

record MutationIntent =
  in_Action :: MutationAction
  in_Target :: MutationTarget
  in_RequiredPrincipalRole :: TestPrincipalRole
  in_Create :: CreateDesiredState

record AuthorizedMutationIntent =
  ai_action :: MutationAction
  ai_target :: MutationTarget
  ai_requiredPrincipalRole :: TestPrincipalRole
  ai_create :: CreateDesiredState

record PreMutationPolicy =
  gp_ProjectID :: string
  gp_RunLimits :: RunLimits
  gp_TestCIDR :: string
  gp_FirewallMutationWindow :: int
  gp_TestOperatorPrincipal :: Principal
  gp_TestDestructivePrincipal :: Principal
  gp_PermissionInventory :: PolicyInventoryPin
  gp_NonDisposableEnvironmentInventory :: PolicyInventoryPin
  gp_ProductionCIDRInventory :: PolicyInventoryPin

record PreMutationInput =
  gi_Operation :: OperationBinding
  gi_RunID :: string
  gi_Targets :: "MutationTarget list"
  gi_Capacity :: CapacityProofInput
  gi_TestCIDR :: string
  gi_ProductionCIDRs :: "string list"
  gi_ExpectedNonDisposableEnvironments :: "EnvironmentIdentity list"
  gi_Locks :: "EnvironmentLock list"
  gi_MutationPrincipal :: Principal
  gi_MutationIntents :: "MutationIntent list"
  gi_Permissions :: PermissionProofInput
  gi_FirewallRules :: "FirewallRule list"
  gi_FirewallObservations :: "FirewallObservation list"
  gi_RunLifetime :: RunLifetimeContract
  gi_Freshness :: EvidenceFreshness

record preMutationPayload =
  gl_Policy :: PreMutationPolicy
  gl_Operation :: OperationBinding
  gl_RunID :: string
  gl_Targets :: "MutationTarget list"
  gl_Capacity :: CapacityProofInput
  gl_TestCIDR :: string
  gl_ProductionCIDRs :: "string list"
  gl_ExpectedNonDisposableEnvironments :: "EnvironmentIdentity list"
  gl_Locks :: "EnvironmentLock list"
  gl_MutationPrincipal :: Principal
  gl_MutationIntents :: "MutationIntent list"
  gl_Permissions :: PermissionProofInput
  gl_FirewallRules :: "FirewallRule list"
  gl_FirewallObservations :: "FirewallObservation list"
  gl_RunLifetime :: RunLifetimeContract
  gl_EvidenceRevision :: string

record encoders =
  enc_capacity :: "capacityPayload \<Rightarrow> string option"
  enc_environments :: "EnvironmentIdentity list \<Rightarrow> string option"
  enc_cidrs :: "string list \<Rightarrow> string option"
  enc_permissions :: "PermissionObservation list \<Rightarrow> string option"
  enc_lifetime :: "RunLifetimeContract \<Rightarrow> string option"
  enc_evidence :: "preMutationPayload \<Rightarrow> string option"

record PreMutationDecision =
  gd_fingerprint :: string
  gd_operation :: OperationBinding
  gd_authorizedAt :: gotime
  gd_validUntil :: gotime

datatype MutationDisposition = MutationDispositionReady | MutationDispositionConverged

record MutationBoundary =
  gb_operation :: OperationBinding
  gb_principal :: Principal
  gb_intents :: "AuthorizedMutationIntent list"
  gb_disposition :: MutationDisposition

subsection \<open>Freshness, policy and project\<close>

definition validateEvidenceFreshness :: "EvidenceFreshness \<Rightarrow> gotime \<Rightarrow> guard_error option" where
  "validateEvidenceFreshness freshness now =
     (let window = time_Sub (fs_ValidUntil freshness) (fs_ObservedAt freshness) in
      first_error
        [fail_if (\<not> isSHA256Fingerprint (fs_Revision freshness))
           (Guard ErrInvalidGuardInput ''freshness.revision'' ''must be a SHA-256 fingerprint''),
         fail_if (time_IsZero (fs_ObservedAt freshness) \<or> time_IsZero (fs_ValidUntil freshness) \<or> time_IsZero now)
           (Guard ErrInvalidGuardInput ''freshness'' ''must contain complete timestamps''),
         check_each (\<lambda>i v. fail_if (t_zone v \<noteq> 0)
             (Guard ErrInvalidGuardInput ''freshness'' ''timestamps must use UTC'')) 0
           [fs_ObservedAt freshness, fs_ValidUntil freshness, now],
         fail_if (window \<le> 0 \<or> window > MaxPreMutationProofLifetime)
           (Guard ErrStaleProof ''freshness'' ''must use a positive bounded validity window''),
         fail_if (time_Before now (fs_ObservedAt freshness) \<or> \<not> time_Before now (fs_ValidUntil freshness))
           (Guard ErrStaleProof ''now'' ''is outside the evidence validity window'')])"

definition policy_principal_check :: "nat \<Rightarrow> string \<times> Principal \<Rightarrow> guard_error option" where
  "policy_principal_check i p =
     fail_if (pq_Kind (snd p) \<noteq> PrincipalKindServiceAccount \<or> \<not> validPrincipal (snd p))
       (Guard ErrInvalidGuardInput (fst p) ''must identify one configured service account'')"

definition pinned_inventory ::
  "guard_error + string \<Rightarrow> PolicyInventoryPin \<Rightarrow> string \<Rightarrow> string \<Rightarrow> guard_error option" where
  "pinned_inventory fingerprint pin path reason =
     error_of (bind_result fingerprint (\<lambda>digest.
       check (fail_if (digest \<noteq> iv_Fingerprint pin) (Guard ErrInvalidGuardInput path reason)) (Inr ())))"

definition validatePreMutationPolicy ::
  "encoders \<Rightarrow> (string \<Rightarrow> string) \<Rightarrow> PreMutationPolicy \<Rightarrow> PreMutationInput \<Rightarrow> guard_error option" where
  "validatePreMutationPolicy enc sha256hex policy input =
     first_error
       [fail_if (\<not> projectIDPattern (gp_ProjectID policy))
          (Guard ErrInvalidGuardInput ''policy.projectID'' ''must be a canonical explicit project ID''),
        validateRunLimits (gp_RunLimits policy),
        fail_if (gp_FirewallMutationWindow policy \<le> 0 \<or>
            gp_FirewallMutationWindow policy > rl_MaxLifetime (gp_RunLimits policy))
          (Guard ErrInvalidGuardInput ''policy.firewallMutationWindow''
             ''must be positive and within the configured maximum lifetime''),
        check_each policy_principal_check 0
          [(''policy.testOperatorPrincipal'', gp_TestOperatorPrincipal policy),
           (''policy.testDestructivePrincipal'', gp_TestDestructivePrincipal policy)],
        fail_if (gp_TestOperatorPrincipal policy = gp_TestDestructivePrincipal policy)
          (Guard ErrInvalidGuardInput ''policy.testPrincipals''
             ''must identify distinct operator and destructive service accounts''),
        fail_if (gi_MutationPrincipal input \<noteq> gp_TestOperatorPrincipal policy)
          (permission_error ''mutationPrincipal'' ''does not match the configured test operator''),
        fail_if (gp_TestCIDR policy \<noteq> gi_TestCIDR input)
          (Guard ErrInvalidGuardInput ''testCIDR'' ''does not match the configured test-isolation network''),
        validateInventoryPin ''policy.permissionInventory'' (gp_PermissionInventory policy),
        validateInventoryPin ''policy.nonDisposableEnvironmentInventory''
          (gp_NonDisposableEnvironmentInventory policy),
        validateInventoryPin ''policy.productionCIDRInventory'' (gp_ProductionCIDRInventory policy),
        pinned_inventory
          (NonDisposableEnvironmentInventoryFingerprint (enc_environments enc) sha256hex
             (gi_ExpectedNonDisposableEnvironments input))
          (gp_NonDisposableEnvironmentInventory policy) ''policy.nonDisposableEnvironmentInventory''
          ''does not match the supplied complete environment set'',
        pinned_inventory
          (ProductionCIDRInventoryFingerprint (enc_cidrs enc) sha256hex (gi_ProductionCIDRs input))
          (gp_ProductionCIDRInventory policy) ''policy.productionCIDRInventory''
          ''does not match the supplied complete CIDR set'']"

definition requireProject :: "string \<Rightarrow> string \<Rightarrow> ResourceIdentity \<Rightarrow> guard_error option" where
  "requireProject projectID path identity =
     fail_if (ri_Project identity \<noteq> projectID)
       (Guard ErrInvalidGuardInput path ''does not match the configured project'')"

definition rule_project :: "string \<Rightarrow> string \<Rightarrow> string \<Rightarrow> FirewallRule \<Rightarrow> guard_error option" where
  "rule_project projectID path field rule =
     first_error
       [requireProject projectID (path @ field @ ''.identity.project'') (fr_Identity rule),
        requireProject projectID (path @ field @ ''.network.project'') (fr_Network rule)]"

definition validatePreMutationProject ::
  "string \<Rightarrow> PreMutationInput \<Rightarrow> MutationTarget list \<Rightarrow> guard_error option" where
  "validatePreMutationProject projectID input targets =
     first_error
       [check_each (\<lambda>index target. requireProject projectID
            (indexedField ''targets'' index @ ''.identity.project'') (mt_Identity target)) 0 targets,
        check_each (\<lambda>index instance'. requireProject projectID
            (indexedField ''capacity.instances'' index @ ''.identity.project'') (pn_Identity instance')) 0
          (ca_Instances (gi_Capacity input)),
        check_each (\<lambda>index disk. requireProject projectID
            (indexedField ''capacity.disks'' index @ ''.identity.project'') (pd_Identity disk)) 0
          (ca_Disks (gi_Capacity input)),
        check_each (\<lambda>index rule. rule_project projectID (indexedField ''firewallRules'' index) [] rule) 0
          (gi_FirewallRules input),
        check_each (\<lambda>index observation.
            let path = indexedField ''firewallObservations'' index in
            first_error
              [requireProject projectID (path @ ''.identity.project'') (fo_Identity observation),
               (case fo_PresentRule observation of
                  None \<Rightarrow> None
                | Some rule \<Rightarrow> rule_project projectID path ''.presentRule'' rule)]) 0
          (gi_FirewallObservations input),
        check_each (\<lambda>index observation. requireProject projectID
            (indexedField ''permissions.expected'' index @ ''.resource.project'') (pb_Resource observation)) 0
          (pf_Expected (gi_Permissions input)),
        check_each (\<lambda>index observation. requireProject projectID
            (indexedField ''permissions.observed'' index @ ''.resource.project'') (pb_Resource observation)) 0
          (pf_Observed (gi_Permissions input))]"

subsection \<open>Intents\<close>

definition cloneFirewallRules :: "FirewallRule list \<Rightarrow> FirewallRule list" where
  "cloneFirewallRules rules = map normalizeFirewallRule rules"

definition cloneFirewallObservations :: "FirewallObservation list \<Rightarrow> FirewallObservation list" where
  "cloneFirewallObservations observations =
     map (\<lambda>o'. o'\<lparr>fo_PresentRule := map_option normalizeFirewallRule (fo_PresentRule o')\<rparr>) observations"

definition cloneMutationIntent :: "MutationIntent \<Rightarrow> MutationIntent" where
  "cloneMutationIntent intent = intent
     \<lparr>in_Target := cloneMutationTarget (in_Target intent),
      in_Create := (in_Create intent)\<lparr>cd_Firewall :=
        (case cd_Firewall (in_Create intent) of
           None \<Rightarrow> None | Some firewall \<Rightarrow> Some (cloneFirewallRules [firewall] ! 0))\<rparr>\<rparr>"

definition cloneMutationIntents :: "MutationIntent list \<Rightarrow> MutationIntent list" where
  "cloneMutationIntents intents = map cloneMutationIntent intents"

definition cloneCapacityProof :: "CapacityProofInput \<Rightarrow> CapacityProofInput" where
  "cloneCapacityProof capacity =
     capacity\<lparr>ca_Instances := ca_Instances capacity, ca_Disks := ca_Disks capacity\<rparr>"

definition equalMutationTarget :: "MutationTarget \<Rightarrow> MutationTarget \<Rightarrow> bool" where
  "equalMutationTarget x y = (mt_Identity x = mt_Identity y \<and> mt_Labels x = mt_Labels y)"

abbreviation intent_key :: "MutationIntent \<Rightarrow> string" where
  "intent_key intent \<equiv> target_key (in_Target intent)"

record intents_state =
  ns_seen :: "string list"
  ns_validated :: "MutationIntent list"

text \<open>The typed create state of an intent whose target has been selected.\<close>

definition create_check ::
  "(string \<times> FirewallRule) list \<Rightarrow> string \<Rightarrow> MutationIntent \<Rightarrow> guard_error option" where
  "create_check firewallsByKey path intent =
     (if ri_Service (mt_Identity (in_Target intent)) = ComputeServiceName \<and>
         ri_Kind (mt_Identity (in_Target intent)) = ComputeFirewallKind then
        (case cd_Firewall (in_Create intent) of
           None \<Rightarrow> Some (Guard ErrInvalidGuardInput (path @ ''.create'') ''must contain typed firewall state'')
         | Some firewall \<Rightarrow>
             fail_if (case map_of firewallsByKey (intent_key intent) of
                 None \<Rightarrow> True | Some want \<Rightarrow> \<not> equalFirewallRule firewall want)
               (Guard ErrInvalidGuardInput (path @ ''.create.firewall'') ''does not match the validated firewall proof''))
      else Some (Guard ErrInvalidGuardInput (path @ ''.target'') ''has no admitted typed create state''))"

definition intent_step ::
  "string \<Rightarrow> (string \<times> MutationTarget) list \<Rightarrow> (string \<times> FirewallRule) list \<Rightarrow> nat \<Rightarrow> intents_state \<Rightarrow>
     MutationIntent \<Rightarrow> guard_error + intents_state" where
  "intent_step runID targetsByKey firewallsByKey index st proposed =
     (let path = indexedField ''mutationIntents'' index;
          selected = SelectRunFirewallMutationTargets runID [in_Target proposed] in
      check (first_error
        [fail_if (in_Action proposed \<noteq> MutationActionComputeFirewallInsert)
           (Guard ErrInvalidGuardInput (path @ ''.action'') ''is not an admitted provider action''),
         fail_if (in_RequiredPrincipalRole proposed \<noteq> TestPrincipalRoleOperator)
           (permission_error (path @ ''.requiredPrincipalRole'') ''does not select the configured test operator''),
         wrap_error (error_of selected) (path @ ''.target'') ''is not a valid run firewall target''])
      (bind_result selected (\<lambda>targets.
         let intent = proposed\<lparr>in_Target := targets ! 0\<rparr>; key = intent_key intent in
         check (first_error
           [fail_if (case map_of targetsByKey key of
                None \<Rightarrow> True | Some want \<Rightarrow> \<not> equalMutationTarget (in_Target intent) want)
              (Guard ErrInvalidGuardInput (path @ ''.target'') ''does not match one selected target''),
            fail_if (key \<in> set (ns_seen st))
              (Guard ErrInvalidGuardInput (path @ ''.target'') ''duplicates an earlier intent''),
            create_check firewallsByKey path intent])
         (Inr \<lparr>ns_seen = key # ns_seen st, ns_validated = ns_validated st @ [cloneMutationIntent intent]\<rparr>))))"

text \<open>The later entry of a Go map replaces the earlier.\<close>

definition targets_by_key :: "MutationTarget list \<Rightarrow> (string \<times> MutationTarget) list" where
  "targets_by_key targets = rev (map (\<lambda>t. (target_key t, t)) targets)"

definition firewalls_by_key :: "FirewallRule list \<Rightarrow> (string \<times> FirewallRule) list" where
  "firewalls_by_key rules = rev (map (\<lambda>r. (rule_key r, r)) rules)"

definition validateMutationIntents ::
  "PreMutationPolicy \<Rightarrow> PreMutationInput \<Rightarrow> MutationTarget list \<Rightarrow> guard_error + MutationIntent list" where
  "validateMutationIntents policy input targets =
     check (first_error
       [fail_if (length (gi_MutationIntents input) \<noteq> length targets)
          (Guard ErrInvalidGuardInput ''mutationIntents'' ''must contain exactly one intent per selected target''),
        fail_if (gi_MutationPrincipal input \<noteq> gp_TestOperatorPrincipal policy)
          (permission_error ''mutationPrincipal'' ''does not match the configured test operator'')])
     (bind_result
       (range_loop (intent_step (gi_RunID input) (targets_by_key targets) (firewalls_by_key (gi_FirewallRules input)))
          0 \<lparr>ns_seen = [], ns_validated = []\<rparr> (gi_MutationIntents input))
       (\<lambda>st.
         check (fail_if (length (ns_seen st) \<noteq> length (remdups (map target_key targets)))
             (Guard ErrInvalidGuardInput ''mutationIntents'' ''is missing a selected target''))
           (Inr (sort_key intent_key (ns_validated st)))))"

definition hasGranted ::
  "ResourceIdentity \<Rightarrow> PermissionObservation list \<Rightarrow> permissionObservationKey \<Rightarrow> bool" where
  "hasGranted resource values required =
     list_ex (\<lambda>observation. newPermissionObservationKey observation = required \<and>
       pb_Resource observation = resource \<and> pb_Granted observation) values"

definition validateEmittedIntentPermissions ::
  "string \<Rightarrow> PermissionProofInput \<Rightarrow> Principal \<Rightarrow> MutationIntent list \<Rightarrow> guard_error option" where
  "validateEmittedIntentPermissions projectID proof mutationPrincipal intents =
     (if \<not> list_ex (\<lambda>intent. in_Action intent = MutationActionComputeFirewallInsert) intents then None
      else case ProjectAuthorizationResource projectID of
        Inl e \<Rightarrow> Some e
      | Inr resource \<Rightarrow>
          check_each (\<lambda>i permission.
            let required = \<lparr>pk_identityKind = pq_Kind mutationPrincipal, pk_identitySubject = pq_Subject mutationPrincipal,
                  pk_resource = ri_CanonicalKey resource, pk_permission = permission\<rparr> in
            fail_if (\<not> hasGranted resource (pf_Expected proof) required \<or>
                \<not> hasGranted resource (pf_Observed proof) required)
              (permission_error ''permissions''
                 ''does not grant every permission required by the emitted firewall-insert action on the configured project''))
            0 computeFirewallInsertPermissions)"

subsection \<open>The fingerprint of the evidence\<close>

definition lock_sort_key :: "EnvironmentLock \<Rightarrow> string \<times> string \<times> string" where
  "lock_sort_key l = (el_Environment l, EnvironmentClass_string (el_Class l), el_RunID l)"

definition canonical_evidence ::
  "PreMutationPolicy \<Rightarrow> PreMutationInput \<Rightarrow> MutationTarget list \<Rightarrow> MutationIntent list \<Rightarrow> preMutationPayload" where
  "canonical_evidence policy input targets intents =
     (let capacity = cloneCapacityProof (gi_Capacity input) in
     \<lparr>gl_Policy = policy, gl_Operation = gi_Operation input, gl_RunID = gi_RunID input, gl_Targets = targets,
      gl_Capacity = capacity\<lparr>ca_Instances := sort_key instance_key (ca_Instances capacity),
        ca_Disks := sort_key disk_key (ca_Disks capacity)\<rparr>,
      gl_TestCIDR = gi_TestCIDR input, gl_ProductionCIDRs = sort (gi_ProductionCIDRs input),
      gl_ExpectedNonDisposableEnvironments =
        sort_key environment_sort_key (gi_ExpectedNonDisposableEnvironments input),
      gl_Locks = sort_key lock_sort_key (gi_Locks input), gl_MutationPrincipal = gi_MutationPrincipal input,
      gl_MutationIntents = sort_key intent_key (cloneMutationIntents intents),
      gl_Permissions = \<lparr>pf_Expected = sortPermissionObservations (pf_Expected (gi_Permissions input)),
        pf_Observed = sortPermissionObservations (pf_Observed (gi_Permissions input))\<rparr>,
      gl_FirewallRules =
        sort_key (\<lambda>r. FirewallPurpose_string (fr_Purpose r)) (cloneFirewallRules (gi_FirewallRules input)),
      gl_FirewallObservations =
        sort_key observation_key (cloneFirewallObservations (gi_FirewallObservations input)),
      gl_RunLifetime = gi_RunLifetime input, gl_EvidenceRevision = fs_Revision (gi_Freshness input)\<rparr>)"

definition preMutationFingerprint ::
  "encoders \<Rightarrow> (string \<Rightarrow> string) \<Rightarrow> PreMutationPolicy \<Rightarrow> PreMutationInput \<Rightarrow> MutationTarget list \<Rightarrow>
     MutationIntent list \<Rightarrow> guard_error + string" where
  "preMutationFingerprint enc sha256hex policy input targets intents =
     (case enc_evidence enc (canonical_evidence policy input targets intents) of
        None \<Rightarrow> Inl (Guard ErrInvalidGuardInput ''evidence'' ''could not be fingerprinted'')
      | Some encoded \<Rightarrow> Inr (sha256hex encoded))"

subsection \<open>Evaluation, authorization and revalidation\<close>

definition guard_context :: "PreMutationPolicy \<Rightarrow> PreMutationInput \<Rightarrow> gotime \<Rightarrow> FirewallValidationContext" where
  "guard_context policy input now =
     \<lparr>fc_RunID = gi_RunID input, fc_Plan = ca_Plan (gi_Capacity input), fc_Operation = gi_Operation input,
      fc_PlannedLifetime = ca_Lifetime (gi_Capacity input), fc_RunLimits = gp_RunLimits policy,
      fc_RunLifetime = gi_RunLifetime input, fc_FirewallMutationWindow = gp_FirewallMutationWindow policy,
      fc_ObservedAt = fs_ObservedAt (gi_Freshness input), fc_Now = now\<rparr>"

definition evaluatePreMutation ::
  "encoders \<Rightarrow> (string \<Rightarrow> string) \<Rightarrow> PreMutationPolicy \<Rightarrow> PreMutationInput \<Rightarrow> gotime \<Rightarrow>
     guard_error + MutationIntent list \<times> string" where
  "evaluatePreMutation enc sha256hex policy input now =
     check (first_error
       [validateOperationBinding (gi_Operation input),
        validateEvidenceFreshness (gi_Freshness input) now,
        validatePreMutationPolicy enc sha256hex policy input])
     (bind_result (SelectRunFirewallMutationTargets (gi_RunID input) (gi_Targets input)) (\<lambda>targets.
      check (first_error
       [validatePreMutationProject (gp_ProjectID policy) input targets,
        validateCapacityProof (enc_capacity enc) sha256hex (gi_Capacity input) (gp_RunLimits policy)
          (gi_RunID input) targets,
        ValidateNetworkCIDR (gi_TestCIDR input) (gi_ProductionCIDRs input),
        ValidateHarnessLocks (gi_Locks input) (gi_ExpectedNonDisposableEnvironments input) (gi_RunID input)
          (gi_MutationPrincipal input),
        ValidatePermissionProof (enc_permissions enc) sha256hex (gp_PermissionInventory policy)
          (gi_Permissions input) (gi_MutationPrincipal input),
        ValidateFirewallRules (enc_lifetime enc) sha256hex (gi_FirewallRules input)
          (gi_FirewallObservations input) (gi_ProductionCIDRs input) targets (guard_context policy input now)])
      (bind_result (validateMutationIntents policy input targets) (\<lambda>intents.
       check (validateEmittedIntentPermissions (gp_ProjectID policy) (gi_Permissions input)
           (gi_MutationPrincipal input) intents)
       (bind_result (preMutationFingerprint enc sha256hex policy input targets intents) (\<lambda>fingerprint.
          Inr (intents, fingerprint)))))))"

definition AuthorizePreMutation ::
  "encoders \<Rightarrow> (string \<Rightarrow> string) \<Rightarrow> PreMutationPolicy \<Rightarrow> PreMutationInput \<Rightarrow> gotime \<Rightarrow>
     guard_error + PreMutationDecision" where
  "AuthorizePreMutation enc sha256hex policy input now =
     bind_result (evaluatePreMutation enc sha256hex policy input now) (\<lambda>(intents, fingerprint).
       Inr \<lparr>gd_fingerprint = fingerprint, gd_operation = gi_Operation input, gd_authorizedAt = now,
            gd_validUntil = fs_ValidUntil (gi_Freshness input)\<rparr>)"

definition authorizeMutationIntents :: "MutationIntent list \<Rightarrow> AuthorizedMutationIntent list" where
  "authorizeMutationIntents intents =
     map (\<lambda>intent. let cloned = cloneMutationIntent intent in
       \<lparr>ai_action = in_Action cloned, ai_target = in_Target cloned,
        ai_requiredPrincipalRole = in_RequiredPrincipalRole cloned, ai_create = in_Create cloned\<rparr>) intents"

definition RevalidatePreMutation ::
  "encoders \<Rightarrow> (string \<Rightarrow> string) \<Rightarrow> PreMutationDecision \<Rightarrow> PreMutationPolicy \<Rightarrow> PreMutationInput \<Rightarrow>
     gotime \<Rightarrow> guard_error + MutationBoundary" where
  "RevalidatePreMutation enc sha256hex decision policy fresh now =
     check (first_error
       [fail_if (time_IsZero now) (Guard ErrInvalidGuardInput ''now'' ''must not be zero''),
        fail_if (time_IsZero (gd_authorizedAt decision) \<or> time_IsZero (gd_validUntil decision) \<or>
            time_Before now (gd_authorizedAt decision) \<or>
            \<not> time_After (fs_ObservedAt (gi_Freshness fresh)) (gd_authorizedAt decision) \<or>
            \<not> time_Equal (fs_ValidUntil (gi_Freshness fresh)) (gd_validUntil decision))
          (Guard ErrStaleProof ''freshness'' ''does not satisfy immediate revalidation'')])
     (bind_result (evaluatePreMutation enc sha256hex policy fresh now) (\<lambda>(intents, fingerprint).
       check (fail_if (fingerprint \<noteq> gd_fingerprint decision \<or> gi_Operation fresh \<noteq> gd_operation decision)
           (Guard ErrProofMismatch ''evidence'' ''changed since authorization''))
       (Inr \<lparr>gb_operation = gi_Operation fresh, gb_principal = gi_MutationPrincipal fresh,
             gb_intents = authorizeMutationIntents intents,
             gb_disposition =
               (if length intents = 0 then MutationDispositionConverged else MutationDispositionReady)\<rparr>)))"

subsection \<open>What a caller reads\<close>

definition cloneAuthorizedMutationIntents ::
  "AuthorizedMutationIntent list \<Rightarrow> AuthorizedMutationIntent list" where
  "cloneAuthorizedMutationIntents intents =
     map (\<lambda>intent. authorizeMutationIntents
       [\<lparr>in_Action = ai_action intent, in_Target = ai_target intent,
         in_RequiredPrincipalRole = ai_requiredPrincipalRole intent, in_Create = ai_create intent\<rparr>] ! 0) intents"

definition MutationBoundary_Operation :: "MutationBoundary \<Rightarrow> OperationBinding" where
  "MutationBoundary_Operation boundary = gb_operation boundary"

definition MutationBoundary_Principal :: "MutationBoundary \<Rightarrow> Principal" where
  "MutationBoundary_Principal boundary = gb_principal boundary"

definition MutationBoundary_Intents :: "MutationBoundary \<Rightarrow> AuthorizedMutationIntent list" where
  "MutationBoundary_Intents boundary = cloneAuthorizedMutationIntents (gb_intents boundary)"

definition MutationBoundary_Disposition :: "MutationBoundary \<Rightarrow> MutationDisposition" where
  "MutationBoundary_Disposition boundary = gb_disposition boundary"

definition AuthorizedMutationIntent_Target :: "AuthorizedMutationIntent \<Rightarrow> MutationTarget" where
  "AuthorizedMutationIntent_Target intent = cloneMutationTarget (ai_target intent)"

definition FirewallCreateState :: "AuthorizedMutationIntent \<Rightarrow> FirewallRule option" where
  "FirewallCreateState intent =
     (case cd_Firewall (ai_create intent) of
        None \<Rightarrow> None
      | Some firewall \<Rightarrow> Some (cloneFirewallRules [firewall] ! 0))"

end
