(* ===== verification/GoSearch.thy ===== *)
theory GoSearch
  imports GoStd
begin

section \<open>sort.Search and slices.BinarySearch\<close>

text \<open>The binary search of the standard library over a sorted list of strings, and what it finds.\<close>

text \<open>The half-open interval \<open>[i, j)\<close> of the loop.\<close>

function search_interval :: "string list \<Rightarrow> string \<Rightarrow> nat \<Rightarrow> nat \<Rightarrow> nat" where
  "search_interval xs target i j =
     (if i < j then
        (let h = (i + j) div 2 in
         if xs ! h < target then search_interval xs target (h + 1) j
         else search_interval xs target i h)
      else i)"
  by pat_completeness auto
termination by (relation "measure (\<lambda>(xs, target, i, j). j - i)") auto

declare search_interval.simps [simp del]

lemma search_interval_position:
  assumes "sorted xs" and "i \<le> j" and "j \<le> length xs"
    and "\<forall>k < i. xs ! k < target" and "\<forall>k. j \<le> k \<longrightarrow> k < length xs \<longrightarrow> target \<le> xs ! k"
  shows "(\<forall>k < search_interval xs target i j. xs ! k < target) \<and>
     search_interval xs target i j \<le> length xs \<and>
     (\<forall>k. search_interval xs target i j \<le> k \<longrightarrow> k < length xs \<longrightarrow> target \<le> xs ! k)"
  using assms
proof (induction xs target i j rule: search_interval.induct)
  case (1 xs target i j)
  show ?case
  proof (cases "i < j")
    case False
    then have "search_interval xs target i j = i" by (simp add: search_interval.simps [of xs target i j])
    moreover have "i = j" using False "1.prems"(2) by simp
    ultimately show ?thesis using "1.prems" by simp
  next
    case True
    define h where "h = (i + j) div 2"
    have h: "i \<le> h" "h < j" using True by (auto simp: h_def)
    show ?thesis
    proof (cases "xs ! h < target")
      case less: True
      have low: "\<forall>k < h + 1. xs ! k < target"
      proof (intro allI impI)
        fix k assume "k < h + 1"
        then have "xs ! k \<le> xs ! h"
          using "1.prems"(1,3) h by (intro sorted_nth_mono) auto
        with less show "xs ! k < target" by simp
      qed
      have step: "search_interval xs target i j = search_interval xs target (h + 1) j"
        using True less by (subst search_interval.simps) (simp add: h_def Let_def)
      have "h + 1 \<le> j" using h by simp
      then show ?thesis
        unfolding step by (rule "1.IH"(1) [OF True h_def less "1.prems"(1) _ "1.prems"(3) low "1.prems"(5)])
    next
      case ge: False
      have high: "\<forall>k. h \<le> k \<longrightarrow> k < length xs \<longrightarrow> target \<le> xs ! k"
      proof (intro allI impI)
        fix k assume "h \<le> k" "k < length xs"
        then have "xs ! h \<le> xs ! k" using "1.prems"(1) by (intro sorted_nth_mono)
        with ge show "target \<le> xs ! k" by simp
      qed
      have step: "search_interval xs target i j = search_interval xs target i h"
        using True ge by (subst search_interval.simps) (simp add: h_def Let_def)
      have "h \<le> length xs" using h "1.prems"(3) by simp
      then show ?thesis
        unfolding step by (rule "1.IH"(2) [OF True h_def ge "1.prems"(1) h(1) _ "1.prems"(4) high])
    qed
  qed
qed

lemma search_interval_finds:
  assumes "sorted xs"
  shows "search_interval xs s 0 (length xs) < length xs \<and>
      xs ! search_interval xs s 0 (length xs) = s \<longleftrightarrow> s \<in> set xs"
proof -
  let ?i = "search_interval xs s 0 (length xs)"
  have i: "\<forall>k < ?i. xs ! k < s" "?i \<le> length xs" "\<forall>k. ?i \<le> k \<longrightarrow> k < length xs \<longrightarrow> s \<le> xs ! k"
    using search_interval_position [OF assms, of 0 "length xs" s] by auto
  have "s \<in> set xs \<Longrightarrow> ?i < length xs \<and> xs ! ?i = s"
  proof -
    assume "s \<in> set xs"
    then obtain k where k: "k < length xs" "xs ! k = s" by (auto simp: in_set_conv_nth)
    then have "?i \<le> k" using i(1) by (metis leI less_irrefl)
    then have "xs ! ?i \<le> s" using k assms by (metis sorted_nth_mono)
    with \<open>?i \<le> k\<close> k i(3) show ?thesis by (metis le_less_trans le_refl order_antisym)
  qed
  moreover have "?i < length xs \<Longrightarrow> xs ! ?i = s \<Longrightarrow> s \<in> set xs" using nth_mem by metis
  ultimately show ?thesis by blast
qed

end
