(* ===== verification/HarnessState.thy ===== *)
theory HarnessState
  imports IsolationTargets SealedValue GoSearch
begin

section \<open>internal/isolation: the harness state (state.go)\<close>

text \<open>
  The durable state of the test harness: the approved bootstrap binding, the phase, the evidence of
  the last complete isolation test (T8) and a recorded drift. A \<open>*time.Time\<close> is an option; slices are
  copied by \<open>append(nil, xs...)\<close> before they are encoded, so a nil and an empty slice are the same
  list. \<open>marshal\<close> is \<open>json.Marshal\<close> of a payload, \<open>sha256hex\<close> the hexadecimal SHA-256 of bytes.
\<close>

definition HarnessStateSchemaV1 :: string where
  "HarnessStateSchemaV1 = ''ctrldb.ctrlboard.dev/harness-state/v1''"

definition WFTestWorkflowID :: string where "WFTestWorkflowID = ''WF-TEST-01''"

definition MaxT8EvidenceLifetime :: int where "MaxT8EvidenceLifetime = hour"

datatype BootstrapPhase =
    BootstrapPhasePending
  | BootstrapPhaseOpen
  | BootstrapPhaseOther string

datatype TestUsability =
    TestUsabilityUnusable
  | TestUsabilityUsable
  | TestUsabilityOther string

record HarnessResourceFingerprints =
  hf_Network :: string
  hf_RoleBindings :: string
  hf_ServiceAccounts :: string
  hf_WipeJob :: string
  hf_Scheduler :: string
  hf_Image :: string

record HarnessStateSeed =
  sd_ProjectID :: string
  sd_Environment :: string
  sd_EnvironmentClass :: string
  sd_ManifestHash :: string
  sd_ApprovedPlan :: PlanIdentity
  sd_OperationID :: string
  sd_BootstrapEnvelopeHash :: string
  sd_ControlRecordGeneration :: "64 word"
  sd_Resources :: HarnessResourceFingerprints
  sd_CleanupCapabilities :: "CleanupCapability list"
  sd_BootstrapSteps :: "string list"
  sd_RollbackSteps :: "string list"
  sd_ApprovedAt :: gotime
  sd_ApprovalValidUntil :: gotime

record harnessStatePayloadV1 =
  hp_ProjectID :: string
  hp_Environment :: string
  hp_EnvironmentClass :: string
  hp_ManifestHash :: string
  hp_ApprovedPlan :: PlanIdentity
  hp_OperationID :: string
  hp_BootstrapEnvelopeHash :: string
  hp_ControlRecordGeneration :: "64 word"
  hp_Resources :: HarnessResourceFingerprints
  hp_CleanupCapabilities :: "CleanupCapability list"
  hp_BootstrapSteps :: "string list"
  hp_RollbackSteps :: "string list"
  hp_ApprovedAt :: gotime
  hp_ApprovalValidUntil :: gotime
  hp_BootstrapPhase :: BootstrapPhase
  hp_BootstrapOpenedAt :: "gotime option"
  hp_TestUsability :: TestUsability
  hp_T8ObservationRevision :: string
  hp_T8ObservedAt :: "gotime option"
  hp_T8ValidUntil :: "gotime option"
  hp_DriftObservationRevision :: string
  hp_DriftDetectedAt :: "gotime option"

record HarnessStateV1 =
  hs_payload :: harnessStatePayloadV1
  hs_integrity :: string

record T8Evidence =
  te_Revision :: string
  te_ObservedAt :: gotime
  te_ValidUntil :: gotime

record HarnessDriftEvidence =
  de_Revision :: string
  de_DetectedAt :: gotime

subsection \<open>Validation\<close>

definition validateT8Evidence :: "T8Evidence \<Rightarrow> guard_error option" where
  "validateT8Evidence evidence =
     fail_if (\<not> isSHA256Fingerprint (te_Revision evidence) \<or>
         validateUTCWindow (te_ObservedAt evidence) (te_ValidUntil evidence) MaxT8EvidenceLifetime \<noteq> None)
       (Guard ErrHarnessStateStale ''t8'' ''must be a complete bounded UTC observation'')"

definition validateStepSet :: "string \<Rightarrow> string list \<Rightarrow> guard_error option" where
  "validateStepSet path values =
     first_error
       [fail_if (length values = 0) (Guard ErrInvalidHarnessState path ''must not be empty''),
        fail_if (\<not> sorted values) (Guard ErrInvalidHarnessState path ''must be canonical and sorted''),
        check_each (\<lambda>index v.
            fail_if (\<not> identifierPattern v \<or> (0 < index \<and> v = values ! (index - 1)))
              (Guard ErrInvalidHarnessState (indexedField path index) ''is invalid or duplicated''))
          0 values]"

definition invalid_state :: "string \<Rightarrow> string \<Rightarrow> guard_error" where
  "invalid_state path reason = Guard ErrInvalidHarnessState path reason"

definition binding_checks :: "harnessStatePayloadV1 \<Rightarrow> guard_error option list" where
  "binding_checks payload =
     [fail_if (\<not> projectIDPattern (hp_ProjectID payload) \<or> \<not> environmentPattern (hp_Environment payload) \<or>
         hp_EnvironmentClass payload \<noteq> ''disposable'' \<or> \<not> isSHA256Fingerprint (hp_ManifestHash payload) \<or>
         \<not> planIDPattern (pi_ID (hp_ApprovedPlan payload)) \<or>
         \<not> isSHA256Fingerprint (pi_Hash (hp_ApprovedPlan payload)) \<or>
         \<not> operationIDPattern (hp_OperationID payload) \<or>
         \<not> isSHA256Fingerprint (hp_BootstrapEnvelopeHash payload) \<or>
         hp_ControlRecordGeneration payload = 0)
        (invalid_state ''binding'' ''is incomplete or malformed''),
      check_each (\<lambda>i fingerprint.
          fail_if (\<not> isSHA256Fingerprint fingerprint)
            (invalid_state ''resources'' ''contains an invalid fingerprint'')) 0
        [hf_Network (hp_Resources payload), hf_RoleBindings (hp_Resources payload),
         hf_ServiceAccounts (hp_Resources payload), hf_WipeJob (hp_Resources payload),
         hf_Scheduler (hp_Resources payload), hf_Image (hp_Resources payload)],
      replace_error (invalid_state ''cleanup'' ''capabilities are not exact'')
        (ValidateCleanupCapabilities (hp_CleanupCapabilities payload)),
      validateStepSet ''bootstrapSteps'' (hp_BootstrapSteps payload),
      validateStepSet ''rollbackSteps'' (hp_RollbackSteps payload),
      replace_error (invalid_state ''approval'' ''does not contain a valid UTC window'')
        (validateUTCWindow (hp_ApprovedAt payload) (hp_ApprovalValidUntil payload) 0)]"

definition pending_checks :: "harnessStatePayloadV1 \<Rightarrow> guard_error option" where
  "pending_checks payload =
     fail_if (hp_TestUsability payload \<noteq> TestUsabilityUnusable \<or> hp_T8ObservationRevision payload \<noteq> [] \<or>
         hp_BootstrapOpenedAt payload \<noteq> None \<or> hp_T8ObservedAt payload \<noteq> None \<or>
         hp_T8ValidUntil payload \<noteq> None \<or> hp_DriftObservationRevision payload \<noteq> [] \<or>
         hp_DriftDetectedAt payload \<noteq> None)
       (invalid_state ''bootstrapPhase'' ''pending state cannot contain usable T8 evidence'')"

definition drift_checks :: "harnessStatePayloadV1 \<Rightarrow> guard_error option" where
  "drift_checks payload =
     (if hp_TestUsability payload = TestUsabilityUsable then
        fail_if (hp_DriftObservationRevision payload \<noteq> [] \<or> hp_DriftDetectedAt payload \<noteq> None)
          (invalid_state ''drift'' ''usable state cannot retain a drift boundary'')
      else
        (case (hp_DriftDetectedAt payload, hp_T8ObservedAt payload) of
           (Some drift, Some observed) \<Rightarrow>
             if \<not> isSHA256Fingerprint (hp_DriftObservationRevision payload) \<or> \<not> time_After drift observed
             then Some (invalid_state ''drift'' ''unusable state requires a drift observation strictly newer than T8'')
             else fail_if (t_zone drift \<noteq> 0) (invalid_state ''drift.detectedAt'' ''must use UTC'')
         | _ \<Rightarrow> Some (invalid_state ''drift'' ''unusable state requires a drift observation strictly newer than T8'')))"

definition open_checks :: "harnessStatePayloadV1 \<Rightarrow> guard_error option list" where
  "open_checks payload =
     [fail_if (hp_TestUsability payload \<noteq> TestUsabilityUsable \<and> hp_TestUsability payload \<noteq> TestUsabilityUnusable)
        (invalid_state ''testUsability'' ''is unknown''),
      (case (hp_T8ObservedAt payload, hp_T8ValidUntil payload) of
         (Some observed, Some valid) \<Rightarrow>
           replace_error (invalid_state ''t8'' ''does not contain complete evidence'')
             (validateT8Evidence \<lparr>te_Revision = hp_T8ObservationRevision payload, te_ObservedAt = observed,
                te_ValidUntil = valid\<rparr>)
       | _ \<Rightarrow> Some (invalid_state ''t8'' ''does not contain complete evidence'')),
      (case hp_BootstrapOpenedAt payload of
         None \<Rightarrow> Some (invalid_state ''bootstrapOpenedAt'' ''falls outside the approved bootstrap window'')
       | Some opened \<Rightarrow>
           first_error
             [fail_if (time_Before opened (hp_ApprovedAt payload) \<or>
                 \<not> time_Before opened (hp_ApprovalValidUntil payload))
                (invalid_state ''bootstrapOpenedAt'' ''falls outside the approved bootstrap window''),
              fail_if (t_zone opened \<noteq> 0) (invalid_state ''bootstrapOpenedAt'' ''must use UTC'')]),
      drift_checks payload]"

definition validatePayload :: "harnessStatePayloadV1 \<Rightarrow> guard_error option" where
  "validatePayload payload =
     first_error (binding_checks payload @
       (case hp_BootstrapPhase payload of
          BootstrapPhasePending \<Rightarrow> [pending_checks payload]
        | BootstrapPhaseOpen \<Rightarrow> open_checks payload
        | BootstrapPhaseOther s \<Rightarrow> [Some (invalid_state ''bootstrapPhase'' ''is unknown'')]))"

definition harnessPayloadFingerprint ::
  "(harnessStatePayloadV1 \<Rightarrow> string option) \<Rightarrow> (string \<Rightarrow> string) \<Rightarrow> harnessStatePayloadV1 \<Rightarrow>
     guard_error + string" where
  "harnessPayloadFingerprint marshal sha256hex payload =
     (case marshal payload of
        None \<Rightarrow> Inl (invalid_state ''state'' ''could not be fingerprinted'')
      | Some encoded \<Rightarrow> Inr (sha256hex encoded))"

definition state_validate ::
  "(harnessStatePayloadV1 \<Rightarrow> string option) \<Rightarrow> (string \<Rightarrow> string) \<Rightarrow> HarnessStateV1 \<Rightarrow> guard_error option" where
  "state_validate marshal sha256hex state =
     first_error
       [validatePayload (hs_payload state),
        (case harnessPayloadFingerprint marshal sha256hex (hs_payload state) of
           Inl e \<Rightarrow> Some (invalid_state ''integritySha256'' ''does not match the canonical state'')
         | Inr want \<Rightarrow>
             fail_if (want \<noteq> hs_integrity state)
               (invalid_state ''integritySha256'' ''does not match the canonical state''))]"

definition sealHarnessState ::
  "(harnessStatePayloadV1 \<Rightarrow> string option) \<Rightarrow> (string \<Rightarrow> string) \<Rightarrow> harnessStatePayloadV1 \<Rightarrow>
     guard_error + HarnessStateV1" where
  "sealHarnessState marshal sha256hex payload =
     check (validatePayload payload)
       (bind_result (harnessPayloadFingerprint marshal sha256hex payload) (\<lambda>fingerprint.
          Inr \<lparr>hs_payload = payload, hs_integrity = fingerprint\<rparr>))"

subsection \<open>Operations\<close>

definition NewPendingHarnessStateV1 ::
  "(harnessStatePayloadV1 \<Rightarrow> string option) \<Rightarrow> (string \<Rightarrow> string) \<Rightarrow> HarnessStateSeed \<Rightarrow>
     guard_error + HarnessStateV1" where
  "NewPendingHarnessStateV1 marshal sha256hex seed =
     sealHarnessState marshal sha256hex
       \<lparr>hp_ProjectID = sd_ProjectID seed, hp_Environment = sd_Environment seed,
        hp_EnvironmentClass = sd_EnvironmentClass seed, hp_ManifestHash = sd_ManifestHash seed,
        hp_ApprovedPlan = sd_ApprovedPlan seed, hp_OperationID = sd_OperationID seed,
        hp_BootstrapEnvelopeHash = sd_BootstrapEnvelopeHash seed,
        hp_ControlRecordGeneration = sd_ControlRecordGeneration seed, hp_Resources = sd_Resources seed,
        hp_CleanupCapabilities = sd_CleanupCapabilities seed, hp_BootstrapSteps = sd_BootstrapSteps seed,
        hp_RollbackSteps = sd_RollbackSteps seed, hp_ApprovedAt = sd_ApprovedAt seed,
        hp_ApprovalValidUntil = sd_ApprovalValidUntil seed,
        hp_BootstrapPhase = BootstrapPhasePending, hp_BootstrapOpenedAt = None,
        hp_TestUsability = TestUsabilityUnusable, hp_T8ObservationRevision = [], hp_T8ObservedAt = None,
        hp_T8ValidUntil = None, hp_DriftObservationRevision = [], hp_DriftDetectedAt = None\<rparr>"

definition with_t8 :: "T8Evidence \<Rightarrow> harnessStatePayloadV1 \<Rightarrow> harnessStatePayloadV1" where
  "with_t8 evidence payload = payload
     \<lparr>hp_T8ObservationRevision := te_Revision evidence, hp_T8ObservedAt := Some (te_ObservedAt evidence),
      hp_T8ValidUntil := Some (te_ValidUntil evidence)\<rparr>"

definition OpenAfterT8 ::
  "(harnessStatePayloadV1 \<Rightarrow> string option) \<Rightarrow> (string \<Rightarrow> string) \<Rightarrow> HarnessStateV1 \<Rightarrow> T8Evidence \<Rightarrow>
     gotime \<Rightarrow> guard_error + HarnessStateV1" where
  "OpenAfterT8 marshal sha256hex state evidence now =
     (let payload = hs_payload state in
      check (first_error
        [state_validate marshal sha256hex state,
         fail_if (hp_BootstrapPhase payload \<noteq> BootstrapPhasePending)
           (Guard ErrHarnessStateMismatch ''bootstrapPhase'' ''is already open''),
         validateT8Evidence evidence,
         fail_if (\<not> isFreshAt (te_ObservedAt evidence) (te_ValidUntil evidence) now)
           (Guard ErrHarnessStateStale ''now'' ''does not fall within the fresh T8 evidence window''),
         fail_if (time_Before now (hp_ApprovedAt payload) \<or>
             \<not> time_Before now (hp_ApprovalValidUntil payload) \<or>
             time_Before (te_ObservedAt evidence) (hp_ApprovedAt payload) \<or>
             \<not> time_Before (te_ObservedAt evidence) (hp_ApprovalValidUntil payload))
           (Guard ErrHarnessStateStale ''t8ObservedAt'' ''is outside the approved bootstrap window'')])
      (sealHarnessState marshal sha256hex (with_t8 evidence (payload
         \<lparr>hp_BootstrapPhase := BootstrapPhaseOpen, hp_BootstrapOpenedAt := Some now,
          hp_TestUsability := TestUsabilityUsable\<rparr>))))"

text \<open>Whether a drift changes the state: \<open>Inr False\<close> is the early return of the same state.\<close>

definition drift_advance :: "harnessStatePayloadV1 \<Rightarrow> HarnessDriftEvidence \<Rightarrow> guard_error + bool" where
  "drift_advance payload drift =
     (if hp_TestUsability payload = TestUsabilityUnusable then
        (case hp_DriftDetectedAt payload of
           None \<Rightarrow> Inl (invalid_state ''drift'' ''current unusable state has no drift boundary'')
         | Some detected \<Rightarrow>
             if de_Revision drift = hp_DriftObservationRevision payload \<and>
                time_Equal (de_DetectedAt drift) detected then Inr False
             else check (fail_if (\<not> time_After (de_DetectedAt drift) detected)
                 (Guard ErrHarnessStateStale ''drift.detectedAt'' ''does not advance the current drift boundary''))
               (Inr True))
      else Inr True)"

definition MarkTestsUnusable ::
  "(harnessStatePayloadV1 \<Rightarrow> string option) \<Rightarrow> (string \<Rightarrow> string) \<Rightarrow> HarnessStateV1 \<Rightarrow>
     HarnessDriftEvidence \<Rightarrow> guard_error + HarnessStateV1" where
  "MarkTestsUnusable marshal sha256hex state drift =
     (let payload = hs_payload state in
      check (first_error
        [state_validate marshal sha256hex state,
         fail_if (hp_BootstrapPhase payload \<noteq> BootstrapPhaseOpen)
           (Guard ErrHarnessStateMismatch ''bootstrapPhase'' ''is not open''),
         fail_if (\<not> isSHA256Fingerprint (de_Revision drift) \<or> time_IsZero (de_DetectedAt drift) \<or>
             (case hp_T8ObservedAt payload of None \<Rightarrow> True
              | Some observed \<Rightarrow> \<not> time_After (de_DetectedAt drift) observed))
           (invalid_state ''drift'' ''must bind a complete observation strictly newer than T8''),
         fail_if (t_zone (de_DetectedAt drift) \<noteq> 0) (invalid_state ''drift.detectedAt'' ''must use UTC'')])
      (bind_result (drift_advance payload drift) (\<lambda>advances.
         if advances then
           sealHarnessState marshal sha256hex (payload
             \<lparr>hp_TestUsability := TestUsabilityUnusable, hp_DriftObservationRevision := de_Revision drift,
              hp_DriftDetectedAt := Some (de_DetectedAt drift)\<rparr>)
         else Inr state)))"

definition RestoreTestsUsable ::
  "(harnessStatePayloadV1 \<Rightarrow> string option) \<Rightarrow> (string \<Rightarrow> string) \<Rightarrow> HarnessStateV1 \<Rightarrow> T8Evidence \<Rightarrow>
     gotime \<Rightarrow> guard_error + HarnessStateV1" where
  "RestoreTestsUsable marshal sha256hex state evidence now =
     (let payload = hs_payload state in
      check (first_error
        [state_validate marshal sha256hex state,
         fail_if (hp_BootstrapPhase payload \<noteq> BootstrapPhaseOpen)
           (Guard ErrHarnessStateMismatch ''bootstrapPhase'' ''is not open''),
         validateT8Evidence evidence,
         fail_if (\<not> isFreshAt (te_ObservedAt evidence) (te_ValidUntil evidence) now)
           (Guard ErrHarnessStateStale ''now'' ''does not fall within the replacement T8 evidence window''),
         fail_if (hp_TestUsability payload \<noteq> TestUsabilityUnusable \<or>
             (case hp_DriftDetectedAt payload of None \<Rightarrow> True
              | Some detected \<Rightarrow> \<not> time_After (te_ObservedAt evidence) detected))
           (Guard ErrHarnessStateStale ''t8ObservedAt'' ''is not strictly newer than the drift observation'')])
      (sealHarnessState marshal sha256hex ((with_t8 evidence (payload
         \<lparr>hp_TestUsability := TestUsabilityUsable\<rparr>))
         \<lparr>hp_DriftObservationRevision := [], hp_DriftDetectedAt := None\<rparr>)))"

definition RenewT8 ::
  "(harnessStatePayloadV1 \<Rightarrow> string option) \<Rightarrow> (string \<Rightarrow> string) \<Rightarrow> HarnessStateV1 \<Rightarrow> T8Evidence \<Rightarrow>
     gotime \<Rightarrow> guard_error + HarnessStateV1" where
  "RenewT8 marshal sha256hex state evidence now =
     (let payload = hs_payload state in
      check (first_error
        [state_validate marshal sha256hex state,
         fail_if (hp_BootstrapPhase payload \<noteq> BootstrapPhaseOpen \<or>
             hp_TestUsability payload \<noteq> TestUsabilityUsable \<or> hp_T8ObservedAt payload = None)
           (Guard ErrHarnessStateMismatch ''testUsability'' ''is not an unchanged usable harness''),
         validateT8Evidence evidence,
         fail_if (\<not> isFreshAt (te_ObservedAt evidence) (te_ValidUntil evidence) now \<or>
             (case hp_T8ObservedAt payload of None \<Rightarrow> True
              | Some observed \<Rightarrow> \<not> time_After (te_ObservedAt evidence) observed))
           (Guard ErrHarnessStateStale ''t8ObservedAt'' ''is not a fresh strictly newer T8 observation'')])
      (sealHarnessState marshal sha256hex (with_t8 evidence payload)))"


subsection \<open>The encoded document\<close>

record harnessStateWireV1 =
  hw_SchemaVersion :: string
  hw_State :: harnessStatePayloadV1
  hw_IntegritySHA256 :: string

definition CanonicalJSON ::
  "(harnessStatePayloadV1 \<Rightarrow> string option) \<Rightarrow> (string \<Rightarrow> string) \<Rightarrow>
     (harnessStateWireV1 \<Rightarrow> string option) \<Rightarrow> HarnessStateV1 \<Rightarrow> guard_error + string" where
  "CanonicalJSON marshal sha256hex marshal_wire state =
     check (state_validate marshal sha256hex state)
       (case marshal_wire \<lparr>hw_SchemaVersion = HarnessStateSchemaV1, hw_State = hs_payload state,
            hw_IntegritySHA256 = hs_integrity state\<rparr> of
          None \<Rightarrow> Inl (invalid_state ''document'' ''could not be encoded'')
        | Some encoded \<Rightarrow> Inr encoded)"

text \<open>
  \<open>decode\<close> is the decoder without unknown fields on the first value of the input, with the input that
  is left; \<open>at_end\<close> holds when a second \<open>Decode\<close> of what is left gives \<open>io.EOF\<close>.
\<close>

definition ParseHarnessStateV1 ::
  "(harnessStatePayloadV1 \<Rightarrow> string option) \<Rightarrow> (string \<Rightarrow> string) \<Rightarrow>
     (harnessStateWireV1 \<Rightarrow> string option) \<Rightarrow> (string \<Rightarrow> (harnessStateWireV1 \<times> string) option) \<Rightarrow>
     (string \<Rightarrow> bool) \<Rightarrow> string \<Rightarrow> guard_error + HarnessStateV1" where
  "ParseHarnessStateV1 marshal sha256hex marshal_wire decode at_end input =
     (case decode input of
        None \<Rightarrow> Inl (invalid_state ''document'' ''is malformed'')
      | Some (wire, trailing) \<Rightarrow>
          (let state = \<lparr>hs_payload = hw_State wire, hs_integrity = hw_IntegritySHA256 wire\<rparr> in
           check (first_error
             [fail_if (\<not> at_end trailing) (invalid_state ''document'' ''contains trailing data''),
              fail_if (hw_SchemaVersion wire \<noteq> HarnessStateSchemaV1 \<or>
                  \<not> isSHA256Fingerprint (hw_IntegritySHA256 wire))
                (invalid_state ''document'' ''has an unsupported schema or integrity value''),
              state_validate marshal sha256hex state,
              fail_if (harnessPayloadFingerprint marshal sha256hex (hs_payload state) \<noteq>
                  Inr (hs_integrity state))
                (invalid_state ''integritySha256'' ''does not match the canonical state''),
              fail_if (CanonicalJSON marshal sha256hex marshal_wire state \<noteq> Inr input)
                (invalid_state ''document'' ''is not canonical JSON'')])
           (Inr state)))"

subsection \<open>Searching a step\<close>

definition containsStep :: "string list \<Rightarrow> string \<Rightarrow> bool" where
  "containsStep values step =
     (let i = search_interval values step 0 (length values)
      in i < length values \<and> values ! i = step)"

text \<open>On a sorted slice the binary search finds exactly the members.\<close>

lemma containsStep_iff:
  assumes "sorted xs"
  shows "containsStep xs s \<longleftrightarrow> s \<in> set xs"
  by (simp add: containsStep_def Let_def search_interval_finds assms)

subsection \<open>What the checks say\<close>

text \<open>The approved binding: the payload without the fields that a transition may change.\<close>

definition binding_of :: "harnessStatePayloadV1 \<Rightarrow> harnessStatePayloadV1" where
  "binding_of payload = payload
     \<lparr>hp_BootstrapPhase := BootstrapPhasePending, hp_BootstrapOpenedAt := None,
      hp_TestUsability := TestUsabilityUnusable, hp_T8ObservationRevision := [], hp_T8ObservedAt := None,
      hp_T8ValidUntil := None, hp_DriftObservationRevision := [], hp_DriftDetectedAt := None\<rparr>"

lemma binding_checks_binding: "binding_checks (binding_of p) = binding_checks p"
  by (cases p) (simp add: binding_checks_def binding_of_def)

lemma strictly_sorted_steps:
  "sorted xs \<and> (\<forall>i < length xs. 0 < i \<longrightarrow> xs ! i \<noteq> xs ! (i - 1)) \<longleftrightarrow> sorted_wrt (<) (xs :: string list)"
proof -
  have "(\<forall>i < length xs. 0 < i \<longrightarrow> xs ! i \<noteq> xs ! (i - 1)) \<longleftrightarrow>
      (\<forall>i. Suc i < length xs \<longrightarrow> xs ! i \<noteq> xs ! Suc i)"
    by (auto simp: gr0_conv_Suc)
  then show ?thesis
    unfolding sorted_iff_nth_Suc sorted_wrt_iff_nth_Suc_transp [OF transp_on_less] less_le by blast
qed

lemma validateStepSet_None:
  "validateStepSet path xs = None \<longleftrightarrow> xs \<noteq> [] \<and> list_all identifierPattern xs \<and> sorted_wrt (<) xs"
proof -
  have "validateStepSet path xs = None \<longleftrightarrow> xs \<noteq> [] \<and> list_all identifierPattern xs \<and>
      (sorted xs \<and> (\<forall>i < length xs. 0 < i \<longrightarrow> xs ! i \<noteq> xs ! (i - 1)))"
    by (auto simp: validateStepSet_def check_each_None list_all_length)
  then show ?thesis by (simp only: strictly_sorted_steps)
qed

lemma validateT8Evidence_None:
  "validateT8Evidence e = None \<longleftrightarrow>
     sha256Pattern (te_Revision e) \<and> valid_utc (te_ObservedAt e) \<and> valid_utc (te_ValidUntil e) \<and>
     t_ns (te_ObservedAt e) < t_ns (te_ValidUntil e) \<and>
     t_ns (te_ValidUntil e) - t_ns (te_ObservedAt e) \<le> MaxT8EvidenceLifetime"
proof -
  have "0 < MaxT8EvidenceLifetime" "MaxT8EvidenceLifetime < max_int64" "0 \<le> MaxT8EvidenceLifetime"
    by (simp_all add: MaxT8EvidenceLifetime_def duration_defs int64_defs)
  then show ?thesis
    by (auto simp: validateT8Evidence_def isSHA256Fingerprint_iff validateUTCWindow_None time_Sub_le)
qed

text \<open>The binding is valid; a pending payload carries nothing else.\<close>

definition binding_ok :: "harnessStatePayloadV1 \<Rightarrow> bool" where
  "binding_ok payload = (first_error (binding_checks payload) = None)"

definition open_ok :: "harnessStatePayloadV1 \<Rightarrow> bool" where
  "open_ok p = (case (hp_BootstrapOpenedAt p, hp_T8ObservedAt p, hp_T8ValidUntil p) of
     (Some opened, Some observed, Some valid) \<Rightarrow>
       validateT8Evidence \<lparr>te_Revision = hp_T8ObservationRevision p, te_ObservedAt = observed,
         te_ValidUntil = valid\<rparr> = None \<and>
       t_ns (hp_ApprovedAt p) \<le> t_ns opened \<and> t_ns opened < t_ns (hp_ApprovalValidUntil p) \<and>
       t_zone opened = 0 \<and>
       (case hp_TestUsability p of
          TestUsabilityUsable \<Rightarrow> hp_DriftObservationRevision p = [] \<and> hp_DriftDetectedAt p = None
        | TestUsabilityUnusable \<Rightarrow>
            (case hp_DriftDetectedAt p of None \<Rightarrow> False
             | Some drift \<Rightarrow> sha256Pattern (hp_DriftObservationRevision p) \<and>
                 t_ns observed < t_ns drift \<and> t_zone drift = 0)
        | TestUsabilityOther s \<Rightarrow> False)
   | _ \<Rightarrow> False)"

lemma open_checks_None: "first_error (open_checks p) = None \<longleftrightarrow> open_ok p"
  by (auto simp: open_checks_def open_ok_def drift_checks_def isSHA256Fingerprint_iff time_After_def
      time_Before_def split: option.splits TestUsability.splits if_splits)

lemma pending_checks_None:
  "hp_BootstrapPhase p = BootstrapPhasePending \<Longrightarrow> pending_checks p = None \<longleftrightarrow> binding_of p = p"
  by (cases p) (auto simp: pending_checks_def binding_of_def)

lemma validatePayload_None:
  "validatePayload p = None \<longleftrightarrow>
     binding_ok p \<and>
     (case hp_BootstrapPhase p of
        BootstrapPhasePending \<Rightarrow> binding_of p = p
      | BootstrapPhaseOpen \<Rightarrow> open_ok p
      | BootstrapPhaseOther s \<Rightarrow> False)"
  by (auto simp: validatePayload_def binding_ok_def open_checks_None pending_checks_None
      split: BootstrapPhase.splits)

lemma sealHarnessState_Inr:
  "sealHarnessState marshal sha p = Inr t \<longleftrightarrow>
     validatePayload p = None \<and> (\<exists>b. marshal p = Some b \<and> t = \<lparr>hs_payload = p, hs_integrity = sha b\<rparr>)"
  by (auto simp: sealHarnessState_def bind_result_is_Inr harnessPayloadFingerprint_def split: option.splits)

lemma state_validate_None:
  "state_validate marshal sha s = None \<longleftrightarrow>
     validatePayload (hs_payload s) = None \<and>
     (\<exists>b. marshal (hs_payload s) = Some b \<and> hs_integrity s = sha b)"
  by (auto simp: state_validate_def harnessPayloadFingerprint_def split: option.splits)

text \<open>The state is a sealed value: its integrity is the digest of its payload.\<close>

interpretation harness_seal: sealed_value
  "\<lambda>s. validatePayload (hs_payload s)"
  "\<lambda>s. harnessPayloadFingerprint marshal sha256hex (hs_payload s)"
  hs_integrity "\<lambda>h s. s\<lparr>hs_integrity := h\<rparr>" "\<lambda>s. s" "\<lambda>h. True" "[]"
  "\<lambda>s. sealHarnessState marshal sha256hex (hs_payload s)"
  "state_validate marshal sha256hex" for marshal sha256hex
proof
  fix s t :: HarnessStateV1
  show "sealHarnessState marshal sha256hex (hs_payload s) = Inr t \<longleftrightarrow>
      validatePayload (hs_payload (s\<lparr>hs_integrity := []\<rparr>)) = None \<and>
      (\<exists>d. harnessPayloadFingerprint marshal sha256hex (hs_payload (s\<lparr>hs_integrity := []\<rparr>)) = Inr d \<and>
        t = s\<lparr>hs_integrity := d\<rparr>)"
    by (cases s) (auto simp: sealHarnessState_Inr harnessPayloadFingerprint_def split: option.splits)
next
  fix s :: HarnessStateV1
  show "state_validate marshal sha256hex s = None \<longleftrightarrow>
      validatePayload (hs_payload s) = None \<and>
      harnessPayloadFingerprint marshal sha256hex (hs_payload s) = Inr (hs_integrity s)"
    by (auto simp: state_validate_None harnessPayloadFingerprint_def split: option.splits)
qed simp_all

end
