(* ===== verification/HarnessTransitions.thy ===== *)
theory HarnessTransitions
  imports HarnessState
begin

section \<open>internal/isolation: the life of the harness state (state.go)\<close>

text \<open>
  The four operations that replace a harness state, as a step relation, and what holds of every state
  that they reach: it is valid and carries its own digest, its approved binding is the original one,
  the bootstrap opens once, the T8 boundary only advances, and a recorded drift is repaired by a newer
  T8 only.
\<close>

subsection \<open>Each operation, on a state it accepts\<close>

lemma sealed_state:
  "sealHarnessState marshal sha p = Inr t \<Longrightarrow> hs_payload t = p \<and> state_validate marshal sha t = None"
  by (auto simp: sealHarnessState_Inr state_validate_None)

lemma NewPending_Inr:
  assumes "NewPendingHarnessStateV1 marshal sha seed = Inr s"
  shows "state_validate marshal sha s = None" and "hp_BootstrapPhase (hs_payload s) = BootstrapPhasePending"
    and "hp_T8ObservedAt (hs_payload s) = None"
  using sealed_state [OF assms [unfolded NewPendingHarnessStateV1_def]] by auto

lemma OpenAfterT8_Inr:
  "OpenAfterT8 marshal sha s e now = Inr t \<longleftrightarrow>
     state_validate marshal sha s = None \<and> hp_BootstrapPhase (hs_payload s) = BootstrapPhasePending \<and>
     validateT8Evidence e = None \<and> isFreshAt (te_ObservedAt e) (te_ValidUntil e) now \<and>
     t_ns (hp_ApprovedAt (hs_payload s)) \<le> t_ns (te_ObservedAt e) \<and>
     t_ns now < t_ns (hp_ApprovalValidUntil (hs_payload s)) \<and>
     sealHarnessState marshal sha (with_t8 e (hs_payload s
       \<lparr>hp_BootstrapPhase := BootstrapPhaseOpen, hp_BootstrapOpenedAt := Some now,
        hp_TestUsability := TestUsabilityUsable\<rparr>)) = Inr t"
  by (auto simp: OpenAfterT8_def Let_def time_Before_def isFreshAt_iff)

definition drift_recordable :: "harnessStatePayloadV1 \<Rightarrow> HarnessDriftEvidence \<Rightarrow> bool" where
  "drift_recordable p d =
     (sha256Pattern (de_Revision d) \<and> valid_utc (de_DetectedAt d) \<and>
      (case hp_T8ObservedAt p of None \<Rightarrow> False | Some observed \<Rightarrow> t_ns observed < t_ns (de_DetectedAt d)))"

lemma MarkTestsUnusable_Inr:
  "MarkTestsUnusable marshal sha s d = Inr t \<longleftrightarrow>
     state_validate marshal sha s = None \<and> hp_BootstrapPhase (hs_payload s) = BootstrapPhaseOpen \<and>
     drift_recordable (hs_payload s) d \<and>
     (drift_advance (hs_payload s) d = Inr False \<and> t = s \<or>
      drift_advance (hs_payload s) d = Inr True \<and>
      sealHarnessState marshal sha (hs_payload s
        \<lparr>hp_TestUsability := TestUsabilityUnusable, hp_DriftObservationRevision := de_Revision d,
         hp_DriftDetectedAt := Some (de_DetectedAt d)\<rparr>) = Inr t)"
  by (auto simp: MarkTestsUnusable_def Let_def drift_recordable_def valid_utc_def isSHA256Fingerprint_iff
      time_After_def bind_result_is_Inr split: option.splits if_splits)

lemma RestoreTestsUsable_Inr:
  "RestoreTestsUsable marshal sha s e now = Inr t \<longleftrightarrow>
     state_validate marshal sha s = None \<and> hp_BootstrapPhase (hs_payload s) = BootstrapPhaseOpen \<and>
     validateT8Evidence e = None \<and> isFreshAt (te_ObservedAt e) (te_ValidUntil e) now \<and>
     hp_TestUsability (hs_payload s) = TestUsabilityUnusable \<and>
     (\<exists>d. hp_DriftDetectedAt (hs_payload s) = Some d \<and> t_ns d < t_ns (te_ObservedAt e)) \<and>
     sealHarnessState marshal sha ((with_t8 e (hs_payload s\<lparr>hp_TestUsability := TestUsabilityUsable\<rparr>))
       \<lparr>hp_DriftObservationRevision := [], hp_DriftDetectedAt := None\<rparr>) = Inr t"
  by (auto simp: RestoreTestsUsable_def Let_def time_After_def split: option.splits)

lemma RenewT8_Inr:
  "RenewT8 marshal sha s e now = Inr t \<longleftrightarrow>
     state_validate marshal sha s = None \<and> hp_BootstrapPhase (hs_payload s) = BootstrapPhaseOpen \<and>
     hp_TestUsability (hs_payload s) = TestUsabilityUsable \<and>
     validateT8Evidence e = None \<and> isFreshAt (te_ObservedAt e) (te_ValidUntil e) now \<and>
     (\<exists>b. hp_T8ObservedAt (hs_payload s) = Some b \<and> t_ns b < t_ns (te_ObservedAt e)) \<and>
     sealHarnessState marshal sha (with_t8 e (hs_payload s)) = Inr t"
  by (auto simp: RenewT8_def Let_def time_After_def split: option.splits)

subsection \<open>The step relation\<close>

inductive harness_step ::
  "(harnessStatePayloadV1 \<Rightarrow> string option) \<Rightarrow> (string \<Rightarrow> string) \<Rightarrow> HarnessStateV1 \<Rightarrow> HarnessStateV1 \<Rightarrow> bool"
  for marshal sha256hex where
  opened: "OpenAfterT8 marshal sha256hex s e now = Inr t \<Longrightarrow> harness_step marshal sha256hex s t"
| drifted: "MarkTestsUnusable marshal sha256hex s d = Inr t \<Longrightarrow> harness_step marshal sha256hex s t"
| restored: "RestoreTestsUsable marshal sha256hex s e now = Inr t \<Longrightarrow> harness_step marshal sha256hex s t"
| renewed: "RenewT8 marshal sha256hex s e now = Inr t \<Longrightarrow> harness_step marshal sha256hex s t"

inductive_cases harness_stepE: "harness_step marshal sha256hex s t"

abbreviation harness_steps ::
  "(harnessStatePayloadV1 \<Rightarrow> string option) \<Rightarrow> (string \<Rightarrow> string) \<Rightarrow> HarnessStateV1 \<Rightarrow> HarnessStateV1 \<Rightarrow> bool"
where
  "harness_steps marshal sha256hex \<equiv> (harness_step marshal sha256hex)\<^sup>*\<^sup>*"

abbreviation "state_phase s \<equiv> hp_BootstrapPhase (hs_payload s)"
abbreviation "state_t8 s \<equiv> hp_T8ObservedAt (hs_payload s)"
abbreviation "state_binding s \<equiv> binding_of (hs_payload s)"

lemma step_source_valid: "harness_step marshal sha s t \<Longrightarrow> state_validate marshal sha s = None"
  by (auto elim!: harness_stepE simp: OpenAfterT8_Inr MarkTestsUnusable_Inr RestoreTestsUsable_Inr RenewT8_Inr)

lemma step_valid: "harness_step marshal sha s t \<Longrightarrow> state_validate marshal sha t = None"
  by (auto elim!: harness_stepE simp: OpenAfterT8_Inr MarkTestsUnusable_Inr RestoreTestsUsable_Inr RenewT8_Inr
      dest: sealed_state)

lemma step_binding: "harness_step marshal sha s t \<Longrightarrow> state_binding t = state_binding s"
  by (auto elim!: harness_stepE simp: OpenAfterT8_Inr MarkTestsUnusable_Inr RestoreTestsUsable_Inr RenewT8_Inr
      with_t8_def binding_of_def dest!: sealed_state)

lemma step_open: "harness_step marshal sha s t \<Longrightarrow> state_phase t = BootstrapPhaseOpen"
  by (auto elim!: harness_stepE simp: OpenAfterT8_Inr MarkTestsUnusable_Inr RestoreTestsUsable_Inr RenewT8_Inr
      with_t8_def dest!: sealed_state)

lemma step_opened_at:
  "harness_step marshal sha s t \<Longrightarrow> state_phase s = BootstrapPhaseOpen \<Longrightarrow>
     hp_BootstrapOpenedAt (hs_payload t) = hp_BootstrapOpenedAt (hs_payload s)"
  by (auto elim!: harness_stepE simp: OpenAfterT8_Inr MarkTestsUnusable_Inr RestoreTestsUsable_Inr RenewT8_Inr
      with_t8_def dest!: sealed_state)

lemma valid_open_parts:
  assumes "state_validate marshal sha s = None" and "state_phase s = BootstrapPhaseOpen"
  shows "open_ok (hs_payload s)"
  using assms by (simp add: state_validate_None validatePayload_None)

lemma binding_of_t8: "hp_T8ObservedAt (binding_of p) = None"
  by (simp add: binding_of_def)

lemma valid_drift_after_t8:
  "state_validate marshal sha s = None \<Longrightarrow> state_phase s = BootstrapPhaseOpen \<Longrightarrow>
     hp_DriftDetectedAt (hs_payload s) = Some d \<Longrightarrow> state_t8 s = Some a \<Longrightarrow> t_ns a < t_ns d"
  using valid_open_parts [of marshal sha s]
  by (auto simp: open_ok_def split: option.splits TestUsability.splits)

lemma step_t8:
  assumes "harness_step marshal sha s t" and "state_t8 s = Some a"
  shows "\<exists>b. state_t8 t = Some b \<and> t_ns a \<le> t_ns b"
proof -
  have "state_phase s \<noteq> BootstrapPhasePending"
  proof
    assume "state_phase s = BootstrapPhasePending"
    then have "binding_of (hs_payload s) = hs_payload s"
      using step_source_valid [OF assms(1)] by (simp add: state_validate_None validatePayload_None)
    then have "hp_T8ObservedAt (hs_payload s) = None" by (metis binding_of_t8)
    with assms(2) show False by simp
  qed
  with assms show ?thesis
    by (auto elim!: harness_stepE simp: OpenAfterT8_Inr MarkTestsUnusable_Inr RestoreTestsUsable_Inr RenewT8_Inr
        with_t8_def dest!: sealed_state valid_drift_after_t8)
qed


subsection \<open>Runs\<close>

lemma steps_valid:
  "harness_steps marshal sha s t \<Longrightarrow> state_validate marshal sha s = None \<Longrightarrow> state_validate marshal sha t = None"
  by (induction rule: rtranclp_induct) (auto dest: step_valid)

lemma steps_binding: "harness_steps marshal sha s t \<Longrightarrow> state_binding t = state_binding s"
  by (induction rule: rtranclp_induct) (auto dest: step_binding)

lemma steps_open:
  "harness_steps marshal sha s t \<Longrightarrow> state_phase s = BootstrapPhaseOpen \<Longrightarrow>
     state_phase t = BootstrapPhaseOpen \<and>
     hp_BootstrapOpenedAt (hs_payload t) = hp_BootstrapOpenedAt (hs_payload s)"
  by (induction rule: rtranclp_induct) (auto dest: step_open step_opened_at)

lemma steps_t8:
  "harness_steps marshal sha s t \<Longrightarrow> state_t8 s = Some a \<Longrightarrow> \<exists>b. state_t8 t = Some b \<and> t_ns a \<le> t_ns b"
proof (induction rule: rtranclp_induct)
  case (step t u)
  then show ?case using step_t8 by (metis order_trans)
qed auto

text \<open>What a run preserves of a recorded drift: it is repaired by a T8 that was observed after it.\<close>

definition drift_pending_or_repaired :: "int \<Rightarrow> harnessStatePayloadV1 \<Rightarrow> bool" where
  "drift_pending_or_repaired d p =
     (hp_TestUsability p = TestUsabilityUnusable \<and>
        (\<exists>x. hp_DriftDetectedAt p = Some x \<and> d \<le> t_ns x) \<or>
      (\<exists>o8. hp_T8ObservedAt p = Some o8 \<and> d < t_ns o8))"

lemma step_drift:
  assumes "harness_step marshal sha s t" and "drift_pending_or_repaired d (hs_payload s)"
    and "state_phase s = BootstrapPhaseOpen"
  shows "drift_pending_or_repaired d (hs_payload t)"
  using assms(1)
proof (cases rule: harness_step.cases)
  case (opened e now)
  then show ?thesis using assms(3) by (simp add: OpenAfterT8_Inr)
next
  case (drifted x)
  then have *: "drift_advance (hs_payload s) x = Inr False \<and> t = s \<or>
      drift_advance (hs_payload s) x = Inr True \<and>
      hs_payload t = hs_payload s\<lparr>hp_TestUsability := TestUsabilityUnusable,
        hp_DriftObservationRevision := de_Revision x, hp_DriftDetectedAt := Some (de_DetectedAt x)\<rparr>"
    by (auto simp: MarkTestsUnusable_Inr dest: sealed_state)
  show ?thesis
  proof (cases "hp_TestUsability (hs_payload s) = TestUsabilityUnusable")
    case True
    then show ?thesis
      using * assms(2)
      by (auto simp: drift_advance_def drift_pending_or_repaired_def time_After_def
          split: option.splits if_splits)
  next
    case False
    then show ?thesis using * assms(2) by (auto simp: drift_pending_or_repaired_def)
  qed
next
  case (restored e now)
  then show ?thesis
    using assms(2) step_t8 [OF assms(1)]
    by (auto simp: RestoreTestsUsable_Inr drift_pending_or_repaired_def with_t8_def dest!: sealed_state)
next
  case (renewed e now)
  then show ?thesis
    using assms(2)
    by (auto simp: RenewT8_Inr drift_pending_or_repaired_def with_t8_def dest!: sealed_state)
qed

lemma steps_drift:
  "harness_steps marshal sha s t \<Longrightarrow> drift_pending_or_repaired d (hs_payload s) \<Longrightarrow>
     state_phase s = BootstrapPhaseOpen \<Longrightarrow> drift_pending_or_repaired d (hs_payload t)"
proof (induction rule: rtranclp_induct)
  case (step t u)
  then show ?case using step_drift steps_open by blast
qed

lemma drift_recorded:
  "MarkTestsUnusable marshal sha s drift = Inr u \<Longrightarrow>
     drift_pending_or_repaired (t_ns (de_DetectedAt drift)) (hs_payload u)"
  by (auto simp: MarkTestsUnusable_Inr drift_pending_or_repaired_def drift_advance_def time_Equal_def
      dest!: sealed_state split: option.splits if_splits)

end
