(* ===== verification/HarnessAdmission.thy ===== *)
theory HarnessAdmission
  imports HarnessTransitions
begin

section \<open>internal/isolation: admission under the harness state (admission.go)\<close>

text \<open>
  The global blockade: before T8 only the approved bootstrap envelope runs, afterwards a test runs
  only on fresh, usable and exact T8 evidence. The expectation is the trusted binding that the caller
  observed independently of the state; its times are values, the zero time standing for absence.
\<close>

datatype HarnessAction =
    HarnessActionBootstrapStep
  | HarnessActionRollbackStep
  | HarnessActionIntegrationTest
  | HarnessActionDestructiveTest
  | HarnessActionUnrelatedMutation
  | HarnessActionOther string

record HarnessStateExpectation =
  hx_ProjectID :: string
  hx_Environment :: string
  hx_EnvironmentClass :: string
  hx_ManifestHash :: string
  hx_ApprovedPlan :: PlanIdentity
  hx_OperationID :: string
  hx_BootstrapEnvelopeHash :: string
  hx_ControlRecordGeneration :: "64 word"
  hx_Resources :: HarnessResourceFingerprints
  hx_CleanupCapabilities :: "CleanupCapability list"
  hx_BootstrapSteps :: "string list"
  hx_RollbackSteps :: "string list"
  hx_ApprovedAt :: gotime
  hx_ApprovalValidUntil :: gotime
  hx_BootstrapPhase :: BootstrapPhase
  hx_BootstrapOpenedAt :: gotime
  hx_T8ObservationRevision :: string
  hx_T8ObservedAt :: gotime
  hx_T8ValidUntil :: gotime
  hx_TestUsability :: TestUsability
  hx_DriftObservationRevision :: string
  hx_DriftDetectedAt :: gotime

record HarnessAdmissionRequest =
  ha_Action :: HarnessAction
  ha_WorkflowID :: string
  ha_Plan :: PlanIdentity
  ha_OperationID :: string
  ha_BootstrapEnvelopeHash :: string
  ha_StepID :: string
  ha_T8ObservationRevision :: string
  ha_Expected :: HarnessStateExpectation
  ha_Now :: gotime

definition optionalTimeMatches :: "gotime option \<Rightarrow> gotime \<Rightarrow> bool" where
  "optionalTimeMatches actual expected =
     (case actual of None \<Rightarrow> time_IsZero expected | Some t \<Rightarrow> time_Equal t expected)"

definition equalCleanupCapabilities :: "CleanupCapability list \<Rightarrow> CleanupCapability list \<Rightarrow> bool" where
  "equalCleanupCapabilities xs ys =
     (length xs = length ys \<and> list_all (\<lambda>index. xs ! index = ys ! index) [0..<length xs])"

definition validateHarnessExpectation ::
  "HarnessStateV1 \<Rightarrow> HarnessStateExpectation \<Rightarrow> guard_error option" where
  "validateHarnessExpectation state expected =
     (let p = hs_payload state in
      first_error
        [fail_if (hp_ProjectID p \<noteq> hx_ProjectID expected \<or> hp_Environment p \<noteq> hx_Environment expected \<or>
            hp_EnvironmentClass p \<noteq> hx_EnvironmentClass expected \<or>
            hp_ManifestHash p \<noteq> hx_ManifestHash expected \<or>
            hp_ApprovedPlan p \<noteq> hx_ApprovedPlan expected \<or>
            hp_OperationID p \<noteq> hx_OperationID expected \<or>
            hp_BootstrapEnvelopeHash p \<noteq> hx_BootstrapEnvelopeHash expected \<or>
            hp_ControlRecordGeneration p \<noteq> hx_ControlRecordGeneration expected \<or>
            hp_Resources p \<noteq> hx_Resources expected \<or>
            hp_BootstrapSteps p \<noteq> hx_BootstrapSteps expected \<or>
            hp_RollbackSteps p \<noteq> hx_RollbackSteps expected \<or>
            \<not> time_Equal (hp_ApprovedAt p) (hx_ApprovedAt expected) \<or>
            \<not> time_Equal (hp_ApprovalValidUntil p) (hx_ApprovalValidUntil expected) \<or>
            hp_BootstrapPhase p \<noteq> hx_BootstrapPhase expected \<or>
            \<not> optionalTimeMatches (hp_BootstrapOpenedAt p) (hx_BootstrapOpenedAt expected) \<or>
            hp_TestUsability p \<noteq> hx_TestUsability expected \<or>
            hp_DriftObservationRevision p \<noteq> hx_DriftObservationRevision expected \<or>
            \<not> optionalTimeMatches (hp_DriftDetectedAt p) (hx_DriftDetectedAt expected))
           (Guard ErrHarnessStateMismatch ''binding''
              ''does not match trusted configuration and durable observation''),
         replace_error (Guard ErrHarnessStateMismatch ''approval'' ''trusted expectation is malformed'')
           (validateUTCWindow (hx_ApprovedAt expected) (hx_ApprovalValidUntil expected) 0),
         fail_if (ValidateCleanupCapabilities (hx_CleanupCapabilities expected) \<noteq> None \<or>
             \<not> equalCleanupCapabilities (hp_CleanupCapabilities p) (hx_CleanupCapabilities expected))
           (Guard ErrHarnessStateMismatch ''cleanupCapabilities'' ''does not match trusted policy''),
         (if hp_BootstrapPhase p = BootstrapPhasePending then
            fail_if (hx_T8ObservationRevision expected \<noteq> [] \<or> \<not> time_IsZero (hx_T8ObservedAt expected) \<or>
                \<not> time_IsZero (hx_T8ValidUntil expected))
              (Guard ErrHarnessStateMismatch ''t8'' ''pending trusted state cannot contain T8 evidence'')
          else
            (case (hp_T8ObservedAt p, hp_T8ValidUntil p) of
               (Some observed, Some valid) \<Rightarrow>
                 fail_if (hx_T8ObservationRevision expected \<noteq> hp_T8ObservationRevision p \<or>
                     \<not> time_Equal (hx_T8ObservedAt expected) observed \<or>
                     \<not> time_Equal (hx_T8ValidUntil expected) valid \<or>
                     validateT8Evidence \<lparr>te_Revision = hx_T8ObservationRevision expected,
                       te_ObservedAt = hx_T8ObservedAt expected, te_ValidUntil = hx_T8ValidUntil expected\<rparr> \<noteq> None)
                   (Guard ErrHarnessStateMismatch ''t8'' ''does not match the trusted complete T8 observation'')
             | _ \<Rightarrow> Some (Guard ErrHarnessStateMismatch ''t8''
                 ''does not match the trusted complete T8 observation'')))])"

definition admission_denied :: "string \<Rightarrow> string \<Rightarrow> guard_error" where
  "admission_denied path reason = Guard ErrHarnessAdmissionDenied path reason"

definition admitPendingHarnessAction ::
  "HarnessStateV1 \<Rightarrow> HarnessAdmissionRequest \<Rightarrow> guard_error option" where
  "admitPendingHarnessAction state request =
     (let p = hs_payload state;
          steps = (if ha_Action request = HarnessActionRollbackStep then hp_RollbackSteps p
                   else hp_BootstrapSteps p) in
      first_error
        [fail_if (ha_Action request \<noteq> HarnessActionBootstrapStep \<and> ha_Action request \<noteq> HarnessActionRollbackStep)
           (admission_denied ''bootstrapPhase'' ''admits only the approved WF-TEST-01 envelope''),
         fail_if (ha_WorkflowID request \<noteq> WFTestWorkflowID \<or> ha_Plan request \<noteq> hp_ApprovedPlan p \<or>
             ha_OperationID request \<noteq> hp_OperationID p \<or>
             ha_BootstrapEnvelopeHash request \<noteq> hp_BootstrapEnvelopeHash p)
           (admission_denied ''bootstrapBinding'' ''does not match the pending bootstrap envelope''),
         fail_if (\<not> containsStep steps (ha_StepID request))
           (admission_denied ''stepID'' ''is not recorded in the approved bootstrap envelope''),
         fail_if (time_Before (ha_Now request) (hp_ApprovedAt p))
           (Guard ErrHarnessStateStale ''approval'' ''precedes the approved bootstrap window''),
         fail_if (ha_Action request = HarnessActionBootstrapStep \<and>
             \<not> time_Before (ha_Now request) (hp_ApprovalValidUntil p))
           (Guard ErrHarnessStateStale ''approval'' ''is outside the approved bootstrap execution window'')])"

text \<open>\<open>*state.payload.T8ObservedAt\<close> is read only when \<open>T8ValidUntil\<close> is set; the state is valid then.\<close>

definition admitOpenHarnessAction ::
  "HarnessStateV1 \<Rightarrow> HarnessAdmissionRequest \<Rightarrow> guard_error option" where
  "admitOpenHarnessAction state request =
     (let p = hs_payload state in
      case ha_Action request of
        HarnessActionUnrelatedMutation \<Rightarrow> None
      | HarnessActionOther s \<Rightarrow> Some (admission_denied ''action'' ''is unknown'')
      | action \<Rightarrow>
          (if action = HarnessActionIntegrationTest \<or> action = HarnessActionDestructiveTest then
             fail_if (hp_TestUsability p \<noteq> TestUsabilityUsable \<or>
                 (case hp_T8ValidUntil p of None \<Rightarrow> True
                  | Some valid \<Rightarrow> \<not> time_Before (ha_Now request) valid \<or>
                      (case hp_T8ObservedAt p of None \<Rightarrow> True
                       | Some observed \<Rightarrow> time_Before (ha_Now request) observed)) \<or>
                 ha_T8ObservationRevision request \<noteq> hp_T8ObservationRevision p)
               (admission_denied ''t8'' ''is not fresh, usable, and exact'')
           else
             fail_if (ha_WorkflowID request \<noteq> WFTestWorkflowID)
               (admission_denied ''workflowID'' ''does not identify WF-TEST-01'')))"

definition AdmitHarnessAction ::
  "(harnessStatePayloadV1 \<Rightarrow> string option) \<Rightarrow> (string \<Rightarrow> string) \<Rightarrow> HarnessStateV1 \<Rightarrow>
     HarnessAdmissionRequest \<Rightarrow> guard_error option" where
  "AdmitHarnessAction marshal sha256hex state request =
     first_error
       [state_validate marshal sha256hex state,
        validateHarnessExpectation state (ha_Expected request),
        fail_if (time_IsZero (ha_Now request)) (admission_denied ''now'' ''must be explicit''),
        fail_if (t_zone (ha_Now request) \<noteq> 0) (admission_denied ''now'' ''must use UTC''),
        (if hp_BootstrapPhase (hs_payload state) = BootstrapPhasePending
         then admitPendingHarnessAction state request
         else admitOpenHarnessAction state request)]"

subsection \<open>What is admitted\<close>

lemma valid_steps_sorted:
  assumes "state_validate marshal sha s = None"
  shows "sorted (hp_BootstrapSteps (hs_payload s))" and "sorted (hp_RollbackSteps (hs_payload s))"
proof -
  have "sorted_wrt (<) (hp_BootstrapSteps (hs_payload s))" "sorted_wrt (<) (hp_RollbackSteps (hs_payload s))"
    using assms by (auto simp: state_validate_None validatePayload_None binding_ok_def binding_checks_def
        validateStepSet_None)
  then show "sorted (hp_BootstrapSteps (hs_payload s))" "sorted (hp_RollbackSteps (hs_payload s))"
    by (auto intro: sorted_wrt_mono_rel [of _ "(<)"] less_imp_le)
qed

lemma admit_parts:
  "AdmitHarnessAction marshal sha s r = None \<longleftrightarrow>
     state_validate marshal sha s = None \<and> validateHarnessExpectation s (ha_Expected r) = None \<and>
     valid_utc (ha_Now r) \<and>
     (if state_phase s = BootstrapPhasePending then admitPendingHarnessAction s r = None
      else admitOpenHarnessAction s r = None)"
  by (auto simp: AdmitHarnessAction_def valid_utc_def)

lemma admit_pending:
  assumes "state_validate marshal sha s = None"
  shows "admitPendingHarnessAction s r = None \<longleftrightarrow>
     ha_WorkflowID r = WFTestWorkflowID \<and> ha_Plan r = hp_ApprovedPlan (hs_payload s) \<and>
     ha_OperationID r = hp_OperationID (hs_payload s) \<and>
     ha_BootstrapEnvelopeHash r = hp_BootstrapEnvelopeHash (hs_payload s) \<and>
     t_ns (hp_ApprovedAt (hs_payload s)) \<le> t_ns (ha_Now r) \<and>
     (ha_Action r = HarnessActionBootstrapStep \<and> ha_StepID r \<in> set (hp_BootstrapSteps (hs_payload s)) \<and>
        t_ns (ha_Now r) < t_ns (hp_ApprovalValidUntil (hs_payload s)) \<or>
      ha_Action r = HarnessActionRollbackStep \<and> ha_StepID r \<in> set (hp_RollbackSteps (hs_payload s)))"
  using valid_steps_sorted [OF assms]
  by (auto simp: admitPendingHarnessAction_def Let_def containsStep_iff time_Before_def)

definition test_action :: "HarnessAction \<Rightarrow> bool" where
  "test_action a = (a = HarnessActionIntegrationTest \<or> a = HarnessActionDestructiveTest)"

lemma admit_open_test:
  "test_action (ha_Action r) \<Longrightarrow> admitOpenHarnessAction s r = None \<longleftrightarrow>
     hp_TestUsability (hs_payload s) = TestUsabilityUsable \<and>
     ha_T8ObservationRevision r = hp_T8ObservationRevision (hs_payload s) \<and>
     (\<exists>a b. state_t8 s = Some a \<and> hp_T8ValidUntil (hs_payload s) = Some b \<and>
        t_ns a \<le> t_ns (ha_Now r) \<and> t_ns (ha_Now r) < t_ns b)"
  by (auto simp: test_action_def admitOpenHarnessAction_def Let_def time_Before_def
      split: option.splits)

end
