(* ===== verification/HarnessGuarantees.thy ===== *)
theory HarnessGuarantees
  imports HarnessAdmission
begin

section \<open>internal/isolation: what the harness state and its admission guarantee\<close>

text \<open>
  The properties of \<open>state.go\<close> and \<open>admission.go\<close> over whole runs of the harness, each with a concrete
  run at which its hypotheses hold: a sample bootstrap that is opened, drifts and is restored, encoded
  by a constant \<open>marshal\<close> and a constant digest.
\<close>

subsection \<open>A sample run\<close>

definition sample_digest :: string where "sample_digest = replicate 64 CHR ''a''"

abbreviation sample_marshal :: "'a \<Rightarrow> string option" where "sample_marshal \<equiv> \<lambda>x. Some ''{}''"
abbreviation sample_sha :: "string \<Rightarrow> string" where "sample_sha \<equiv> \<lambda>b. sample_digest"

definition harness_seed :: HarnessStateSeed where
  "harness_seed =
     \<lparr>sd_ProjectID = ''sample-project'', sd_Environment = ''test'', sd_EnvironmentClass = ''disposable'',
      sd_ManifestHash = sample_digest,
      sd_ApprovedPlan = \<lparr>pi_ID = ''plan-0123456789abcdef'', pi_Hash = sample_digest\<rparr>,
      sd_OperationID = ''op-0123456789abcdef'', sd_BootstrapEnvelopeHash = sample_digest,
      sd_ControlRecordGeneration = 1,
      sd_Resources = \<lparr>hf_Network = sample_digest, hf_RoleBindings = sample_digest,
        hf_ServiceAccounts = sample_digest, hf_WipeJob = sample_digest, hf_Scheduler = sample_digest,
        hf_Image = sample_digest\<rparr>,
      sd_CleanupCapabilities = InitialCleanupCapabilities,
      sd_BootstrapSteps = [''create-vpc''], sd_RollbackSteps = [''delete-vpc''],
      sd_ApprovedAt = utc 100, sd_ApprovalValidUntil = utc 1000\<rparr>"

definition harness_pending :: HarnessStateV1 where
  "harness_pending = \<lparr>hs_payload =
     \<lparr>hp_ProjectID = ''sample-project'', hp_Environment = ''test'', hp_EnvironmentClass = ''disposable'',
      hp_ManifestHash = sample_digest,
      hp_ApprovedPlan = \<lparr>pi_ID = ''plan-0123456789abcdef'', pi_Hash = sample_digest\<rparr>,
      hp_OperationID = ''op-0123456789abcdef'', hp_BootstrapEnvelopeHash = sample_digest,
      hp_ControlRecordGeneration = 1,
      hp_Resources = \<lparr>hf_Network = sample_digest, hf_RoleBindings = sample_digest,
        hf_ServiceAccounts = sample_digest, hf_WipeJob = sample_digest, hf_Scheduler = sample_digest,
        hf_Image = sample_digest\<rparr>,
      hp_CleanupCapabilities = InitialCleanupCapabilities,
      hp_BootstrapSteps = [''create-vpc''], hp_RollbackSteps = [''delete-vpc''],
      hp_ApprovedAt = utc 100, hp_ApprovalValidUntil = utc 1000,
      hp_BootstrapPhase = BootstrapPhasePending, hp_BootstrapOpenedAt = None,
      hp_TestUsability = TestUsabilityUnusable, hp_T8ObservationRevision = [], hp_T8ObservedAt = None,
      hp_T8ValidUntil = None, hp_DriftObservationRevision = [], hp_DriftDetectedAt = None\<rparr>,
      hs_integrity = sample_digest\<rparr>"

definition sample_t8 :: "int \<Rightarrow> T8Evidence" where
  "sample_t8 n = \<lparr>te_Revision = sample_digest, te_ObservedAt = utc n, te_ValidUntil = utc (n + 100)\<rparr>"

definition sample_drift :: HarnessDriftEvidence where
  "sample_drift = \<lparr>de_Revision = sample_digest, de_DetectedAt = utc 300\<rparr>"

definition open_payload :: harnessStatePayloadV1 where
  "open_payload = with_t8 (sample_t8 200) ((hs_payload harness_pending)
     \<lparr>hp_BootstrapPhase := BootstrapPhaseOpen, hp_BootstrapOpenedAt := Some (utc 250),
      hp_TestUsability := TestUsabilityUsable\<rparr>)"

definition harness_open :: HarnessStateV1 where
  "harness_open = \<lparr>hs_payload = open_payload, hs_integrity = sample_digest\<rparr>"

definition harness_drifted :: HarnessStateV1 where
  "harness_drifted = \<lparr>hs_payload = open_payload
     \<lparr>hp_TestUsability := TestUsabilityUnusable, hp_DriftObservationRevision := sample_digest,
      hp_DriftDetectedAt := Some (utc 300)\<rparr>, hs_integrity = sample_digest\<rparr>"

definition harness_restored :: HarnessStateV1 where
  "harness_restored = \<lparr>hs_payload = (with_t8 (sample_t8 400) (open_payload
     \<lparr>hp_TestUsability := TestUsabilityUsable\<rparr>))
     \<lparr>hp_DriftObservationRevision := [], hp_DriftDetectedAt := None\<rparr>, hs_integrity = sample_digest\<rparr>"

lemmas harness_samples = harness_seed_def harness_pending_def open_payload_def harness_open_def
  harness_drifted_def harness_restored_def sample_t8_def sample_drift_def with_t8_def

lemma sample_digest_pattern: "sha256Pattern sample_digest"
  by (simp add: sample_digest_def sha256Pattern_def is_hex_def hex_lower_def)

lemma harness_sample_patterns:
  "projectIDPattern ''sample-project''" "environmentPattern ''test''"
  "planIDPattern ''plan-0123456789abcdef''" "operationIDPattern ''op-0123456789abcdef''"
  "identifierPattern ''create-vpc''" "identifierPattern ''delete-vpc''"
  by (simp_all add: pattern_defs char_class_defs)

lemma sample_binding: "binding_ok (hs_payload harness_pending)"
  by (simp add: binding_ok_def binding_checks_def harness_pending_def harness_sample_patterns
      isSHA256Fingerprint_iff sample_digest_pattern check_each_Cons_None validateStepSet_None
      ValidateCleanupCapabilities_None InitialCleanupCapabilities_def validateUTCWindow_None
      valid_utc_def time_defs del: check_each.simps(2))

lemma binding_ok_binding: "binding_ok (binding_of p) = binding_ok p"
  by (simp add: binding_ok_def binding_checks_binding)

lemma sample_bindings:
  "binding_ok open_payload" "binding_ok (hs_payload harness_drifted)" "binding_ok (hs_payload harness_restored)"
proof -
  have "binding_of open_payload = hs_payload harness_pending"
    "binding_of (hs_payload harness_drifted) = hs_payload harness_pending"
    "binding_of (hs_payload harness_restored) = hs_payload harness_pending"
    by (simp_all add: harness_samples binding_of_def)
  then show "binding_ok open_payload" "binding_ok (hs_payload harness_drifted)"
    "binding_ok (hs_payload harness_restored)"
    using sample_binding binding_ok_binding by metis+
qed

lemma sample_evidence: "0 < n \<Longrightarrow> validateT8Evidence (sample_t8 n) = None"
  by (simp add: validateT8Evidence_None sample_t8_def sample_digest_pattern valid_utc_def time_defs
      MaxT8EvidenceLifetime_def duration_defs)

lemma sample_open_ok:
  "open_ok open_payload" "open_ok (hs_payload harness_drifted)" "open_ok (hs_payload harness_restored)"
  using sample_evidence [of 200] sample_evidence [of 400] sample_digest_pattern
  by (simp_all add: open_ok_def harness_samples) (simp_all add: time_defs)

lemma sample_phases:
  "hp_BootstrapPhase open_payload = BootstrapPhaseOpen"
  "hp_BootstrapPhase (hs_payload harness_drifted) = BootstrapPhaseOpen"
  "hp_BootstrapPhase (hs_payload harness_restored) = BootstrapPhaseOpen"
  by (simp_all add: harness_samples)

lemma sample_valid:
  "state_validate sample_marshal sample_sha harness_pending = None"
  "state_validate sample_marshal sample_sha harness_open = None"
  "state_validate sample_marshal sample_sha harness_drifted = None"
  "state_validate sample_marshal sample_sha harness_restored = None"
proof -
  have "validatePayload (hs_payload harness_pending) = None"
    using sample_binding by (simp add: validatePayload_None) (simp add: harness_pending_def binding_of_def)
  then show "state_validate sample_marshal sample_sha harness_pending = None"
    by (simp add: state_validate_None) (simp add: harness_pending_def)
  show "state_validate sample_marshal sample_sha harness_open = None"
    using sample_bindings sample_open_ok sample_phases
    by (simp add: state_validate_None validatePayload_None harness_open_def)
  show "state_validate sample_marshal sample_sha harness_drifted = None"
    using sample_bindings sample_open_ok sample_phases
    by (simp add: state_validate_None validatePayload_None) (simp add: harness_drifted_def)
  show "state_validate sample_marshal sample_sha harness_restored = None"
    using sample_bindings sample_open_ok sample_phases
    by (simp add: state_validate_None validatePayload_None) (simp add: harness_restored_def)
qed

lemma sample_new: "NewPendingHarnessStateV1 sample_marshal sample_sha harness_seed = Inr harness_pending"
  using sample_valid(1)
  by (simp add: NewPendingHarnessStateV1_def sealHarnessState_Inr state_validate_None)
     (simp add: harness_samples)

lemma sample_opened:
  "OpenAfterT8 sample_marshal sample_sha harness_pending (sample_t8 200) (utc 250) = Inr harness_open"
  using sample_valid(1,2) sample_evidence [of 200]
  by (simp add: OpenAfterT8_Inr sealHarnessState_Inr state_validate_None harness_open_def)
     (simp add: open_payload_def harness_pending_def sample_t8_def with_t8_def isFreshAt_iff valid_utc_def time_defs)

lemma sample_drifted: "MarkTestsUnusable sample_marshal sample_sha harness_open sample_drift = Inr harness_drifted"
  using sample_valid(2,3) sample_digest_pattern
  by (simp add: MarkTestsUnusable_Inr sealHarnessState_Inr state_validate_None drift_recordable_def drift_advance_def)
     (simp add: harness_samples valid_utc_def time_defs)

lemma sample_restored:
  "RestoreTestsUsable sample_marshal sample_sha harness_drifted (sample_t8 400) (utc 450) = Inr harness_restored"
  using sample_valid(3,4) sample_evidence [of 400]
  by (simp add: RestoreTestsUsable_Inr sealHarnessState_Inr state_validate_None)
     (simp add: harness_samples isFreshAt_iff valid_utc_def time_defs)

lemma harness_sample_steps:
  "harness_steps sample_marshal sample_sha harness_pending harness_open"
  "harness_steps sample_marshal sample_sha harness_open harness_restored"
  "harness_steps sample_marshal sample_sha harness_drifted harness_restored"
  "harness_steps sample_marshal sample_sha harness_pending harness_restored"
proof -
  have 1: "harness_step sample_marshal sample_sha harness_pending harness_open"
    by (rule harness_step.opened [OF sample_opened])
  have 2: "harness_step sample_marshal sample_sha harness_open harness_drifted"
    by (rule harness_step.drifted [OF sample_drifted])
  have 3: "harness_step sample_marshal sample_sha harness_drifted harness_restored"
    by (rule harness_step.restored [OF sample_restored])
  show "harness_steps sample_marshal sample_sha harness_pending harness_open"
    "harness_steps sample_marshal sample_sha harness_drifted harness_restored"
    "harness_steps sample_marshal sample_sha harness_open harness_restored"
    "harness_steps sample_marshal sample_sha harness_pending harness_restored"
    using 1 2 3 by (meson converse_rtranclp_into_rtranclp r_into_rtranclp)+
qed


subsection \<open>The state\<close>

text \<open>
  C6. However the operations of the harness state follow one another from a new pending state, every
  state they produce is valid and carries the digest of its own payload, and its approved binding
  (project, plan, operation, envelope, resources, steps, approval window) is the one that was sealed
  at the start. The state leaves the pending phase at most once: it is still the initial state, or it
  is open, and then it was opened inside the approval window; and once open, every later state is open
  too, was opened at the same instant and refuses to be opened again.
\<close>

theorem harness_run_sealed:
  assumes "NewPendingHarnessStateV1 marshal sha256hex seed = Inr s"
    and "harness_steps marshal sha256hex s t"
  shows "state_validate marshal sha256hex t = None \<and>
    (\<exists>b. marshal (hs_payload t) = Some b \<and> hs_integrity t = sha256hex b) \<and> binding_of (hs_payload t) = hs_payload s \<and>
    (t = s \<or> hp_BootstrapPhase (hs_payload t) = BootstrapPhaseOpen \<and>
      (\<exists>opened. hp_BootstrapOpenedAt (hs_payload t) = Some opened \<and>
        t_ns (sd_ApprovedAt seed) \<le> t_ns opened \<and> t_ns opened < t_ns (sd_ApprovalValidUntil seed))) \<and>
    hp_BootstrapPhase (hs_payload s) = BootstrapPhasePending \<and>
    (hp_BootstrapPhase (hs_payload t) = BootstrapPhaseOpen \<longrightarrow>
      (\<forall>later. harness_steps marshal sha256hex t later \<longrightarrow>
        hp_BootstrapPhase (hs_payload later) = BootstrapPhaseOpen \<and>
        hp_BootstrapOpenedAt (hs_payload later) = hp_BootstrapOpenedAt (hs_payload t) \<and>
        (\<forall>evidence now. OpenAfterT8 marshal sha256hex later evidence now =
           Inl (Guard ErrHarnessStateMismatch ''bootstrapPhase'' ''is already open''))))"
proof -
  note new = NewPending_Inr [OF assms(1)]
  have payload: "sd_ApprovedAt seed = hp_ApprovedAt (hs_payload s)"
    "sd_ApprovalValidUntil seed = hp_ApprovalValidUntil (hs_payload s)"
    using sealed_state [OF assms(1) [unfolded NewPendingHarnessStateV1_def]] by simp_all
  have valid: "state_validate marshal sha256hex t = None" using steps_valid assms(2) new(1) by blast
  have s: "binding_of (hs_payload s) = hs_payload s"
    using new(1,2) by (simp add: state_validate_None validatePayload_None)
  then have binding: "binding_of (hs_payload t) = hs_payload s" using steps_binding [OF assms(2)] by simp
  have "t = s \<or> state_phase t = BootstrapPhaseOpen"
    using assms(2) by (cases rule: rtranclp.cases) (auto dest: step_open)
  moreover have "\<exists>opened. hp_BootstrapOpenedAt (hs_payload t) = Some opened \<and>
      t_ns (sd_ApprovedAt seed) \<le> t_ns opened \<and> t_ns opened < t_ns (sd_ApprovalValidUntil seed)"
    if "state_phase t = BootstrapPhaseOpen"
  proof -
    have "hp_ApprovedAt (hs_payload t) = hp_ApprovedAt (hs_payload s)"
      "hp_ApprovalValidUntil (hs_payload t) = hp_ApprovalValidUntil (hs_payload s)"
      unfolding binding [symmetric] by (simp_all add: binding_of_def)
    then show ?thesis
      using valid_open_parts [OF valid that] payload by (auto simp: open_ok_def split: option.splits)
  qed
  moreover have "state_phase later = BootstrapPhaseOpen \<and>
      hp_BootstrapOpenedAt (hs_payload later) = hp_BootstrapOpenedAt (hs_payload t) \<and>
      OpenAfterT8 marshal sha256hex later evidence now =
        Inl (Guard ErrHarnessStateMismatch ''bootstrapPhase'' ''is already open'')"
    if "state_phase t = BootstrapPhaseOpen" "harness_steps marshal sha256hex t later" for later evidence now
  proof -
    have "state_validate marshal sha256hex later = None" using steps_valid that(2) valid by blast
    moreover have "state_phase later = BootstrapPhaseOpen"
      "hp_BootstrapOpenedAt (hs_payload later) = hp_BootstrapOpenedAt (hs_payload t)"
      using steps_open that by blast+
    ultimately show ?thesis by (simp add: OpenAfterT8_def Let_def)
  qed
  moreover have "\<exists>b. marshal (hs_payload t) = Some b \<and> hs_integrity t = sha256hex b"
    using valid by (simp add: state_validate_None)
  ultimately show ?thesis using valid binding new(2) by blast
qed

lemma harness_run_sealed_witness:
  "state_validate sample_marshal sample_sha harness_restored = None \<and>
     binding_of (hs_payload harness_restored) = hs_payload harness_pending"
  using harness_run_sealed [OF sample_new harness_sample_steps(4)] by blast

text \<open>
  C34. A recorded drift is never forgotten. After \<open>MarkTestsUnusable\<close> accepts a drift, whatever
  operations follow, a state whose tests are usable again rests on T8 evidence that was observed
  strictly after that drift, even where several drifts and repairs lie between the two states.
\<close>

theorem drift_repaired_by_newer_t8:
  assumes "MarkTestsUnusable marshal sha256hex s drift = Inr u"
    and "harness_steps marshal sha256hex u t"
    and "hp_TestUsability (hs_payload t) = TestUsabilityUsable"
  shows "\<exists>observed. hp_T8ObservedAt (hs_payload t) = Some observed \<and>
    t_ns (de_DetectedAt drift) < t_ns observed"
proof -
  have "drift_pending_or_repaired (t_ns (de_DetectedAt drift)) (hs_payload u)"
    using drift_recorded [OF assms(1)] .
  moreover have "state_phase u = BootstrapPhaseOpen"
    using step_open [OF harness_step.drifted [OF assms(1)]] .
  ultimately have "drift_pending_or_repaired (t_ns (de_DetectedAt drift)) (hs_payload t)"
    using steps_drift assms(2) by blast
  with assms(3) show ?thesis by (auto simp: drift_pending_or_repaired_def)
qed

lemma drift_repaired_by_newer_t8_witness:
  "\<exists>observed. hp_T8ObservedAt (hs_payload harness_restored) = Some observed \<and> 300 < t_ns observed"
proof -
  have "hp_TestUsability (hs_payload harness_restored) = TestUsabilityUsable"
    by (simp add: harness_samples)
  from drift_repaired_by_newer_t8 [OF sample_drifted harness_sample_steps(3) this]
  show ?thesis by (simp add: sample_drift_def utc_def)
qed

text \<open>
  The bootstrap opens once and its evidence only advances. From a valid open state every later
  state is open, was opened at the same instant, refuses another \<open>OpenAfterT8\<close>, and its T8
  observation is not older than the earlier one.
\<close>

theorem harness_opens_once:
  assumes "state_validate marshal sha256hex s = None"
    and "hp_BootstrapPhase (hs_payload s) = BootstrapPhaseOpen"
    and "harness_steps marshal sha256hex s t"
  shows "hp_BootstrapPhase (hs_payload t) = BootstrapPhaseOpen \<and>
    hp_BootstrapOpenedAt (hs_payload t) = hp_BootstrapOpenedAt (hs_payload s) \<and>
    OpenAfterT8 marshal sha256hex t evidence now =
      Inl (Guard ErrHarnessStateMismatch ''bootstrapPhase'' ''is already open'') \<and>
    (\<exists>a b. hp_T8ObservedAt (hs_payload s) = Some a \<and> hp_T8ObservedAt (hs_payload t) = Some b \<and>
      t_ns a \<le> t_ns b)"
proof -
  have open_t: "state_phase t = BootstrapPhaseOpen"
    "hp_BootstrapOpenedAt (hs_payload t) = hp_BootstrapOpenedAt (hs_payload s)"
    using steps_open assms by blast+
  have "state_validate marshal sha256hex t = None" using steps_valid assms by blast
  then have "OpenAfterT8 marshal sha256hex t evidence now =
      Inl (Guard ErrHarnessStateMismatch ''bootstrapPhase'' ''is already open'')"
    using open_t by (simp add: OpenAfterT8_def Let_def)
  moreover obtain a where "state_t8 s = Some a"
    using valid_open_parts [OF assms(1,2)] by (auto simp: open_ok_def split: option.splits)
  ultimately show ?thesis using open_t steps_t8 [OF assms(3)] by blast
qed

lemma harness_opens_once_witness:
  "OpenAfterT8 sample_marshal sample_sha harness_restored (sample_t8 500) (utc 550) =
     Inl (Guard ErrHarnessStateMismatch ''bootstrapPhase'' ''is already open'')"
proof -
  have "hp_BootstrapPhase (hs_payload harness_open) = BootstrapPhaseOpen"
    using sample_phases(1) by (simp add: harness_open_def)
  from harness_opens_once [OF sample_valid(2) this harness_sample_steps(2)] show ?thesis by blast
qed

text \<open>
  The durable document is canonical: an input parses to a state exactly when it is the canonical
  encoding of that state, provided that the strict decoder reads back what the encoder wrote and that
  digests are hexadecimal SHA-256 values. In particular no two inputs parse to the same state.
\<close>

theorem harness_document_roundtrip:
  assumes "\<And>w b. marshal_wire w = Some b \<Longrightarrow> \<exists>rest. decode b = Some (w, rest) \<and> at_end rest"
    and "\<And>b. isSHA256Fingerprint (sha256hex b)"
  shows "ParseHarnessStateV1 marshal sha256hex marshal_wire decode at_end input = Inr s \<longleftrightarrow>
    CanonicalJSON marshal sha256hex marshal_wire s = Inr input"
proof
  assume "ParseHarnessStateV1 marshal sha256hex marshal_wire decode at_end input = Inr s"
  then show "CanonicalJSON marshal sha256hex marshal_wire s = Inr input"
    by (auto simp: ParseHarnessStateV1_def Let_def split: option.splits prod.splits)
next
  assume canonical: "CanonicalJSON marshal sha256hex marshal_wire s = Inr input"
  let ?w = "\<lparr>hw_SchemaVersion = HarnessStateSchemaV1, hw_State = hs_payload s,
    hw_IntegritySHA256 = hs_integrity s\<rparr>"
  from canonical have valid: "state_validate marshal sha256hex s = None" and "marshal_wire ?w = Some input"
    by (auto simp: CanonicalJSON_def split: option.splits)
  with assms(1) obtain rest where rest: "decode input = Some (?w, rest)" "at_end rest" by blast
  from valid have digest: "harnessPayloadFingerprint marshal sha256hex (hs_payload s) = Inr (hs_integrity s)"
    "isSHA256Fingerprint (hs_integrity s)"
    using assms(2) by (auto simp: state_validate_None harnessPayloadFingerprint_def)
  obtain p h where "s = \<lparr>hs_payload = p, hs_integrity = h\<rparr>" by (cases s)
  with rest digest valid canonical
  show "ParseHarnessStateV1 marshal sha256hex marshal_wire decode at_end input = Inr s"
    by (simp add: ParseHarnessStateV1_def Let_def)
qed

definition sample_wire :: harnessStateWireV1 where
  "sample_wire = \<lparr>hw_SchemaVersion = HarnessStateSchemaV1, hw_State = open_payload,
     hw_IntegritySHA256 = sample_digest\<rparr>"

lemma harness_document_roundtrip_witness:
  "ParseHarnessStateV1 sample_marshal sample_sha (\<lambda>w. if w = sample_wire then Some ''{open}'' else None)
     (\<lambda>b. Some (sample_wire, [])) (\<lambda>rest. rest = []) ''{open}'' = Inr harness_open"
proof -
  have "CanonicalJSON sample_marshal sample_sha (\<lambda>w. if w = sample_wire then Some ''{open}'' else None)
      harness_open = Inr ''{open}''"
    using sample_valid(2) by (simp add: CanonicalJSON_def) (simp add: sample_wire_def harness_open_def)
  then show ?thesis
    by (subst harness_document_roundtrip)
       (auto simp: isSHA256Fingerprint_iff sample_digest_pattern split: if_splits)
qed

subsection \<open>Admission\<close>

text \<open>
  The blockade before T8: on a pending harness an action is admitted exactly when it is a step
  that the approved envelope records for it (a forward step before the approval deadline, a rollback
  step also after it), under the approved workflow, plan, operation and envelope hash and not before
  the approval, and the state and its independently trusted expectation agree.
\<close>

theorem pending_harness_admits_only_the_envelope:
  assumes "hp_BootstrapPhase (hs_payload s) = BootstrapPhasePending"
  shows "AdmitHarnessAction marshal sha256hex s r = None \<longleftrightarrow>
    state_validate marshal sha256hex s = None \<and> validateHarnessExpectation s (ha_Expected r) = None \<and>
    valid_utc (ha_Now r) \<and>
    ha_WorkflowID r = WFTestWorkflowID \<and> ha_Plan r = hp_ApprovedPlan (hs_payload s) \<and>
    ha_OperationID r = hp_OperationID (hs_payload s) \<and>
    ha_BootstrapEnvelopeHash r = hp_BootstrapEnvelopeHash (hs_payload s) \<and>
    t_ns (hp_ApprovedAt (hs_payload s)) \<le> t_ns (ha_Now r) \<and>
    (ha_Action r = HarnessActionBootstrapStep \<and> ha_StepID r \<in> set (hp_BootstrapSteps (hs_payload s)) \<and>
       t_ns (ha_Now r) < t_ns (hp_ApprovalValidUntil (hs_payload s)) \<or>
     ha_Action r = HarnessActionRollbackStep \<and> ha_StepID r \<in> set (hp_RollbackSteps (hs_payload s)))"
  using assms admit_pending by (auto simp: admit_parts)

definition sample_expectation :: "HarnessStateV1 \<Rightarrow> HarnessStateExpectation" where
  "sample_expectation s = (let p = hs_payload s; at = (\<lambda>t. case t of None \<Rightarrow> time_zero | Some v \<Rightarrow> v) in
     \<lparr>hx_ProjectID = hp_ProjectID p, hx_Environment = hp_Environment p,
      hx_EnvironmentClass = hp_EnvironmentClass p, hx_ManifestHash = hp_ManifestHash p,
      hx_ApprovedPlan = hp_ApprovedPlan p, hx_OperationID = hp_OperationID p,
      hx_BootstrapEnvelopeHash = hp_BootstrapEnvelopeHash p,
      hx_ControlRecordGeneration = hp_ControlRecordGeneration p, hx_Resources = hp_Resources p,
      hx_CleanupCapabilities = hp_CleanupCapabilities p, hx_BootstrapSteps = hp_BootstrapSteps p,
      hx_RollbackSteps = hp_RollbackSteps p, hx_ApprovedAt = hp_ApprovedAt p,
      hx_ApprovalValidUntil = hp_ApprovalValidUntil p, hx_BootstrapPhase = hp_BootstrapPhase p,
      hx_BootstrapOpenedAt = at (hp_BootstrapOpenedAt p),
      hx_T8ObservationRevision = hp_T8ObservationRevision p, hx_T8ObservedAt = at (hp_T8ObservedAt p),
      hx_T8ValidUntil = at (hp_T8ValidUntil p), hx_TestUsability = hp_TestUsability p,
      hx_DriftObservationRevision = hp_DriftObservationRevision p,
      hx_DriftDetectedAt = at (hp_DriftDetectedAt p)\<rparr>)"

definition sample_request :: "HarnessStateV1 \<Rightarrow> HarnessAction \<Rightarrow> int \<Rightarrow> HarnessAdmissionRequest" where
  "sample_request s action now =
     \<lparr>ha_Action = action, ha_WorkflowID = WFTestWorkflowID, ha_Plan = hp_ApprovedPlan (hs_payload s),
      ha_OperationID = hp_OperationID (hs_payload s),
      ha_BootstrapEnvelopeHash = hp_BootstrapEnvelopeHash (hs_payload s),
      ha_StepID = ''delete-vpc'', ha_T8ObservationRevision = sample_digest,
      ha_Expected = sample_expectation s, ha_Now = utc now\<rparr>"

lemma sample_expected:
  "validateHarnessExpectation harness_pending (sample_expectation harness_pending) = None"
  "validateHarnessExpectation harness_restored (sample_expectation harness_restored) = None"
  using sample_evidence [of 400]
  by (simp_all add: validateHarnessExpectation_def sample_expectation_def harness_samples
      equalCleanupCapabilities_def InitialCleanupCapabilities_def initialCleanupCapabilities_def
      ValidateCleanupCapabilities_None validateUTCWindow_None valid_utc_def optionalTimeMatches_def
      time_defs upt_rec)

lemma pending_harness_admits_only_the_envelope_witness:
  "AdmitHarnessAction sample_marshal sample_sha harness_pending
     (sample_request harness_pending HarnessActionRollbackStep 5000) = None \<and>
   AdmitHarnessAction sample_marshal sample_sha harness_pending
     (sample_request harness_pending HarnessActionDestructiveTest 500) \<noteq> None"
proof -
  have pending: "hp_BootstrapPhase (hs_payload harness_pending) = BootstrapPhasePending"
    by (simp add: harness_pending_def)
  show ?thesis
    unfolding pending_harness_admits_only_the_envelope [OF pending]
    using sample_valid(1) sample_expected(1)
    by (simp add: sample_request_def valid_utc_def) (simp add: harness_pending_def time_defs)
qed

text \<open>
  C10. No test runs on evidence older than a known drift. Once \<open>MarkTestsUnusable\<close> accepted a drift,
  a test action that is admitted in any later state names, exactly, T8 evidence observed after the
  drift, at a time inside the validity window of that evidence, which is at most an hour long.
\<close>

theorem admitted_test_after_drift:
  assumes "MarkTestsUnusable marshal sha256hex s drift = Inr u"
    and "harness_steps marshal sha256hex u t"
    and "AdmitHarnessAction marshal sha256hex t r = None"
    and "test_action (ha_Action r)"
  shows "\<exists>observed valid. hp_T8ObservedAt (hs_payload t) = Some observed \<and>
    hp_T8ValidUntil (hs_payload t) = Some valid \<and>
    ha_T8ObservationRevision r = hp_T8ObservationRevision (hs_payload t) \<and>
    t_ns (de_DetectedAt drift) < t_ns observed \<and> t_ns observed \<le> t_ns (ha_Now r) \<and>
    t_ns (ha_Now r) < t_ns valid \<and> t_ns valid - t_ns observed \<le> MaxT8EvidenceLifetime"
proof -
  have u: "state_phase u = BootstrapPhaseOpen"
    using step_open [OF harness_step.drifted [OF assms(1)]] .
  then have t: "state_phase t = BootstrapPhaseOpen" using steps_open assms(2) by blast
  with assms(3,4) have admitted: "state_validate marshal sha256hex t = None"
    "hp_TestUsability (hs_payload t) = TestUsabilityUsable"
    "ha_T8ObservationRevision r = hp_T8ObservationRevision (hs_payload t)"
    "\<exists>a b. state_t8 t = Some a \<and> hp_T8ValidUntil (hs_payload t) = Some b \<and>
        t_ns a \<le> t_ns (ha_Now r) \<and> t_ns (ha_Now r) < t_ns b"
    by (auto simp: admit_parts admit_open_test)
  then obtain a b where ab: "state_t8 t = Some a" "hp_T8ValidUntil (hs_payload t) = Some b"
    "t_ns a \<le> t_ns (ha_Now r)" "t_ns (ha_Now r) < t_ns b" by blast
  have "drift_pending_or_repaired (t_ns (de_DetectedAt drift)) (hs_payload u)"
    using drift_recorded [OF assms(1)] .
  then have "t_ns (de_DetectedAt drift) < t_ns a"
    using steps_drift [OF assms(2) _ u] admitted(2) ab(1) by (auto simp: drift_pending_or_repaired_def)
  moreover have "t_ns b - t_ns a \<le> MaxT8EvidenceLifetime"
    using valid_open_parts [OF admitted(1) t] ab(1,2)
    by (auto simp: open_ok_def validateT8Evidence_None split: option.splits)
  ultimately show ?thesis using admitted(3) ab by blast
qed

lemma sample_test_admitted:
  "AdmitHarnessAction sample_marshal sample_sha harness_restored
     (sample_request harness_restored HarnessActionDestructiveTest 450) = None"
  using sample_valid(4) sample_expected(2) sample_phases(3)
  by (simp add: admit_parts admit_open_test test_action_def sample_request_def valid_utc_def)
     (simp add: harness_samples time_defs)

lemma admitted_test_after_drift_witness:
  "\<exists>observed. hp_T8ObservedAt (hs_payload harness_restored) = Some observed \<and> 300 < t_ns observed \<and>
     t_ns observed \<le> 450"
proof -
  have "test_action (ha_Action (sample_request harness_restored HarnessActionDestructiveTest 450))"
    by (simp add: sample_request_def test_action_def)
  from admitted_test_after_drift [OF sample_drifted harness_sample_steps(3) sample_test_admitted this]
  show ?thesis by (auto simp: sample_drift_def sample_request_def utc_def)
qed

end
