(* ===== verification/IsolationSamples.thy ===== *)
theory IsolationSamples
  imports IsolationCapacity IsolationNetwork HarnessGuarantees
begin

section \<open>Sample identities and inventories of a test run\<close>

text \<open>
  Concrete values for the witnesses of the isolation guards: the identities of a run called
  \<open>run-7\<close> in the project \<open>sample-project\<close>, its planned instance and disk, its caps and its network.
\<close>

definition sample_identity :: "string \<Rightarrow> ResourceScope \<Rightarrow> string \<Rightarrow> string \<Rightarrow> ResourceIdentity" where
  "sample_identity kind scope location name =
     (let i = \<lparr>ri_Project = ''sample-project'', ri_Service = ComputeServiceName, ri_Kind = kind,
               ri_Scope = scope, ri_Location = location, ri_ParentName = [], ri_Name = name,
               ri_CanonicalKey = []\<rparr>
      in i\<lparr>ri_CanonicalKey := (case CanonicalTargetKey i of Inl e \<Rightarrow> [] | Inr k \<Rightarrow> k)\<rparr>)"

lemma sample_identity_fields:
  "ri_Project (sample_identity k s l n) = ''sample-project''"
  "ri_Service (sample_identity k s l n) = ComputeServiceName"
  "ri_Kind (sample_identity k s l n) = k" "ri_Scope (sample_identity k s l n) = s"
  "ri_Location (sample_identity k s l n) = l" "ri_ParentName (sample_identity k s l n) = []"
  "ri_Name (sample_identity k s l n) = n"
  by (simp_all add: sample_identity_def Let_def)

lemma CanonicalTargetKey_with_key:
  "CanonicalTargetKey (i\<lparr>ri_CanonicalKey := d\<rparr>) = CanonicalTargetKey i"
  by (cases i) (simp only: CanonicalTargetKey_def target_scopePath_def target_parentPath_def
      validateKnownResourceScope_def ResourceIdentity.simps)

lemma sample_service: "servicePattern ComputeServiceName"
  by (simp add: servicePattern_def ComputeServiceName_def char_class_defs)

lemma sample_identity_valid:
  assumes "resourceKindPattern k" and "k \<noteq> ComputeRouterNATKind" and "computeResourceNamePattern n"
    and "resourceNamePattern n"
    and "\<exists>p. target_scopePath (sample_identity k s l n) = Inr p"
    and "validateKnownResourceScope (sample_identity k s l n) = None"
  shows "validateResourceIdentity (sample_identity k s l n) = None"
proof -
  let ?i = "sample_identity k s l n"
  let ?j = "\<lparr>ri_Project = ''sample-project'', ri_Service = ComputeServiceName, ri_Kind = k,
               ri_Scope = s, ri_Location = l, ri_ParentName = [], ri_Name = n,
               ri_CanonicalKey = []\<rparr>"
  have "target_parentPath ?i = Inr []"
    using assms(2) by (simp add: target_parentPath_def sample_identity_fields)
  then obtain key where key: "CanonicalTargetKey ?i = Inr key"
    using assms sample_service harness_sample_patterns(1)
    by (auto simp: CanonicalTargetKey_Inr sample_identity_fields)
  have "?i = ?j\<lparr>ri_CanonicalKey := (case CanonicalTargetKey ?j of Inl e \<Rightarrow> [] | Inr k \<Rightarrow> k)\<rparr>"
    by (simp add: sample_identity_def Let_def)
  moreover have "CanonicalTargetKey ?i = CanonicalTargetKey ?j"
    unfolding calculation by (rule CanonicalTargetKey_with_key)
  ultimately have "ri_CanonicalKey ?i = key" using key by simp
  with key show ?thesis by (simp add: validateResourceIdentity_None)
qed

lemma sample_identity_key:
  "validateResourceIdentity (sample_identity k s l n) = None \<Longrightarrow>
   validateResourceIdentity (sample_identity k' s' l' n') = None \<Longrightarrow>
   ri_CanonicalKey (sample_identity k s l n) = ri_CanonicalKey (sample_identity k' s' l' n') \<longleftrightarrow>
     k = k' \<and> s = s' \<and> l = l' \<and> n = n'"
  using validated_key_inject sample_identity_fields by metis

definition run_instance :: ResourceIdentity where
  "run_instance = sample_identity ComputeInstanceKind ResourceScopeZone ''us-central1-a'' ''ctrldb-test-run-7-node''"

definition run_disk :: ResourceIdentity where
  "run_disk = sample_identity ComputeDiskKind ResourceScopeZone ''us-central1-a'' ''ctrldb-test-run-7-data''"

definition run_ssh_firewall :: ResourceIdentity where
  "run_ssh_firewall = sample_identity ComputeFirewallKind ResourceScopeGlobal ''global'' ''ctrldb-test-run-7-iap-ssh''"

definition run_mongo_firewall :: ResourceIdentity where
  "run_mongo_firewall = sample_identity ComputeFirewallKind ResourceScopeGlobal ''global'' ''ctrldb-test-run-7-internal''"

definition test_network :: ResourceIdentity where
  "test_network = sample_identity ComputeNetworkKind ResourceScopeGlobal ''global'' ''ctrldb-test-vpc''"

lemmas sample_identities =
  run_instance_def run_disk_def run_ssh_firewall_def run_mongo_firewall_def test_network_def

lemma sample_names:
  "list_all (\<lambda>n. computeResourceNamePattern n \<and> resourceNamePattern n)
     [''ctrldb-test-run-7-node'', ''ctrldb-test-run-7-data'', ''ctrldb-test-run-7-iap-ssh'',
      ''ctrldb-test-run-7-internal'', ''ctrldb-test-vpc'']"
  by (simp add: isolation_pattern_defs environmentPattern_def char_class_defs)

lemma sample_kinds:
  "list_all resourceKindPattern [ComputeInstanceKind, ComputeDiskKind, ComputeFirewallKind, ComputeNetworkKind]"
  by (simp add: resourceKindPattern_def service_kinds char_class_defs)

lemma sample_zone: "zonePattern ''us-central1-a''"
  by (simp add: zonePattern_def region_parts_def char_class_defs)

lemma sample_identities_valid:
  "validateResourceIdentity run_instance = None" "validateResourceIdentity run_disk = None"
  "validateResourceIdentity run_ssh_firewall = None" "validateResourceIdentity run_mongo_firewall = None"
  "validateResourceIdentity test_network = None"
  using sample_names sample_kinds sample_zone unfolding sample_identities
  by (auto intro!: sample_identity_valid simp: target_scopePath_Inr sample_identity_fields
      validateKnownResourceScope_def) (simp_all add: service_kinds)

lemma sample_run_id: "ValidateRunID ''run-7'' = None"
  by (simp add: ValidateRunID_def maxRunIDLength_def runIDPattern_def is_lower_digit_def char_class_defs)

lemma sample_run_prefix: "TestResourcePrefix @ ''run-7'' @ ''-'' = ''ctrldb-test-run-7-''"
  by (simp add: TestResourcePrefix_def)

subsection \<open>Capacity\<close>

definition sample_limits :: RunLimits where
  "sample_limits = \<lparr>rl_MaxMachine = \<lparr>ms_VCPUs = 4, ms_MemoryMB = 16384\<rparr>, rl_MaxDiskGiB = 50,
     rl_MaxInstances = 3, rl_MaxLifetime = 4 * hour, rl_MaxEstimatedCostMicros = 5000000\<rparr>"

definition sample_capacity :: CapacityProofInput where
  "sample_capacity = \<lparr>ca_Plan = \<lparr>pi_ID = ''plan-0123456789abcdef'', pi_Hash = sample_digest\<rparr>,
     ca_SnapshotFingerprint = sample_digest,
     ca_Instances = [\<lparr>pn_Identity = run_instance, pn_RunID = ''run-7'',
       pn_Machine = \<lparr>ms_VCPUs = 2, ms_MemoryMB = 8192\<rparr>\<rparr>],
     ca_Disks = [\<lparr>pd_Identity = run_disk, pd_RunID = ''run-7'', pd_SizeGiB = 20\<rparr>],
     ca_Lifetime = 2 * hour, ca_EstimatedCostMicros = 1500000\<rparr>"

lemma sample_planned:
  "planned_instance_ok ''run-7'' \<lparr>pn_Identity = run_instance, pn_RunID = ''run-7'',
     pn_Machine = \<lparr>ms_VCPUs = 2, ms_MemoryMB = 8192\<rparr>\<rparr>"
  "planned_disk_ok ''run-7'' \<lparr>pd_Identity = run_disk, pd_RunID = ''run-7'', pd_SizeGiB = 20\<rparr>"
  using sample_identities_valid(1,2)
  by (simp_all add: planned_instance_ok_def planned_disk_ok_def)
     (simp_all add: sample_identities sample_identity_fields TestResourcePrefix_def)

lemma sample_capacity_proved:
  assumes "list_all (\<lambda>t. ri_Kind (mt_Identity t) = ComputeFirewallKind) ts"
  shows "validateCapacityProof sample_marshal sample_sha sample_capacity sample_limits ''run-7'' ts = None"
proof -
  have fingerprint: "check (plan_identity_check ''capacity.plan'' (ca_Plan sample_capacity))
      (CapacitySnapshotFingerprint sample_marshal sample_sha sample_capacity) = Inr sample_digest"
    by (simp add: CapacitySnapshotFingerprint_def plan_identity_check_def sample_capacity_def harness_sample_patterns
        isSHA256Fingerprint_iff sample_digest_pattern canonicalJSONFingerprint_def duration_defs)
  have pre: "RunResourcePrefix ''run-7'' = Inr (TestResourcePrefix @ ''run-7'' @ ''-'')"
    by (simp add: RunResourcePrefix_Inr sample_run_id)
  have targets: "check_each (target_in_inventory ks ds) i ts = None" for ks ds i
    using assms by (induction ts arbitrary: i) (auto simp: target_in_inventory_def Let_def service_kinds)
  show ?thesis
    unfolding validateCapacityProof_def fingerprint
    using sample_planned planned_loops [of "''run-7''"]
    by (simp add: sample_capacity_def sample_run_id pre targets del: check_unique.simps)
       (simp add: ValidateRunRequest_def validateRunLimits_def sample_limits_def maximum_machine_def
         maximum_disk_def duration_defs)
qed

lemma distinct_map_coarser: "distinct (map (\<lambda>x. g (f x)) xs) \<Longrightarrow> distinct (map f xs)"
  by (induction xs) auto

text \<open>
  A proved capacity inventory keeps the caps of the run for every single item: each planned
  instance and each planned disk belongs to the run and is within the machine and disk caps, there are
  at most as many instances as allowed, and lifetime and cost are within their caps. The code compares
  maxima over the inventory only. Every instance or disk that the run may mutate is in the inventory,
  whose items are pairwise different resources.
\<close>

theorem capacity_within_caps:
  assumes "validateCapacityProof marshal sha256hex c limits runID targets = None"
  shows "list_all (\<lambda>n. planned_instance_ok runID n \<and>
        ms_VCPUs (pn_Machine n) \<le> ms_VCPUs (rl_MaxMachine limits) \<and>
        ms_MemoryMB (pn_Machine n) \<le> ms_MemoryMB (rl_MaxMachine limits)) (ca_Instances c) \<and>
    int (length (ca_Instances c)) \<le> rl_MaxInstances limits \<and>
    list_all (\<lambda>d. planned_disk_ok runID d \<and> pd_SizeGiB d \<le> rl_MaxDiskGiB limits) (ca_Disks c) \<and>
    ca_Lifetime c \<le> rl_MaxLifetime limits \<and>
    ca_EstimatedCostMicros c \<le> rl_MaxEstimatedCostMicros limits \<and>
    distinct (map pn_Identity (ca_Instances c)) \<and> distinct (map pd_Identity (ca_Disks c)) \<and>
    list_all (\<lambda>t. labelCapableCleanupIdentity (mt_Identity t) \<longrightarrow>
        target_key t \<in> set (map instance_key (ca_Instances c) @ map disk_key (ca_Disks c))) targets"
proof -
  note parts = capacity_proof_parts [OF assms]
  note caps = ValidateRunRequest_caps [OF parts(9)]
  have instances: "list_all (\<lambda>n. planned_instance_ok runID n \<and>
      ms_VCPUs (pn_Machine n) \<le> ms_VCPUs (rl_MaxMachine limits) \<and>
      ms_MemoryMB (pn_Machine n) \<le> ms_MemoryMB (rl_MaxMachine limits)) (ca_Instances c)"
    unfolding list_all_iff
  proof (intro ballI conjI)
    fix n assume n: "n \<in> set (ca_Instances c)"
    then show "planned_instance_ok runID n" using parts(4) by (simp add: list_all_iff)
    show "ms_VCPUs (pn_Machine n) \<le> ms_VCPUs (rl_MaxMachine limits)"
      "ms_MemoryMB (pn_Machine n) \<le> ms_MemoryMB (rl_MaxMachine limits)"
      using maximum_machine_bound [OF n] caps by auto
  qed
  have disks: "list_all (\<lambda>d. planned_disk_ok runID d \<and> pd_SizeGiB d \<le> rl_MaxDiskGiB limits) (ca_Disks c)"
    unfolding list_all_iff
  proof (intro ballI conjI)
    fix d assume d: "d \<in> set (ca_Disks c)"
    then show "planned_disk_ok runID d" using parts(6) by (simp add: list_all_iff)
    show "pd_SizeGiB d \<le> rl_MaxDiskGiB limits" using maximum_disk_bound [OF d] caps by auto
  qed
  have distinct: "distinct (map pn_Identity (ca_Instances c))" "distinct (map pd_Identity (ca_Disks c))"
    using parts(5,7) by (blast intro: distinct_map_coarser [of ri_CanonicalKey])+
  have "target_key t \<in> set (map instance_key (ca_Instances c) @ map disk_key (ca_Disks c))"
    if t: "t \<in> set targets" "labelCapableCleanupIdentity (mt_Identity t)" for t
  proof -
    from t(1) obtain i where i: "i < length targets" "targets ! i = t" by (auto simp: in_set_conv_nth)
    then have "target_in_inventory (map instance_key (ca_Instances c))
        (map disk_key (ca_Disks c)) i t = None" using parts(8) [THEN spec, of i] by simp
    with t(2) show ?thesis
      by (auto simp: target_in_inventory_def Let_def labelCapableCleanupIdentity_iff split: if_splits)
  qed
  then have "list_all (\<lambda>t. labelCapableCleanupIdentity (mt_Identity t) \<longrightarrow>
      target_key t \<in> set (map instance_key (ca_Instances c) @ map disk_key (ca_Disks c))) targets"
    unfolding list_all_iff by blast
  with instances disks distinct caps show ?thesis by simp
qed

lemma capacity_within_caps_witness:
  "ca_Lifetime sample_capacity \<le> rl_MaxLifetime sample_limits \<and>
     distinct (map pn_Identity (ca_Instances sample_capacity))"
  using capacity_within_caps [OF sample_capacity_proved [of "[]"]] by simp

end
