(* ===== verification/FirewallGuarantees.thy ===== *)
theory FirewallGuarantees
  imports FirewallShape IsolationSamples
begin

section \<open>internal/isolation: what the firewall proof guarantees\<close>

text \<open>
  A validated rule is one of two fixed records, its sources avoid every production network, its
  lifetime record bounds the exposure, and the insert targets are exactly the absent rules.
\<close>

subsection \<open>Samples\<close>

definition sample_contract :: RunLifetimeContract where
  "sample_contract = \<lparr>lc_ProjectID = ''sample-project'', lc_RunID = ''run-7'',
     lc_Plan = \<lparr>pi_ID = ''plan-0123456789abcdef'', pi_Hash = sample_digest\<rparr>,
     lc_OperationID = ''op-0123456789abcdef'', lc_RecordID = ''lifetime-0123456789abcdef'',
     lc_RecordGeneration = 1, lc_CreatedAt = utc 1000, lc_ExpiresAt = utc (1000 + hour),
     lc_RevocationWorkflowID = TestHarnessRevocationWorkflowID\<rparr>"

definition sample_operation :: OperationBinding where
  "sample_operation = \<lparr>ob_OperationID = ''op-0123456789abcdef'', ob_StepID = ''open-firewall'', ob_Attempt = 1\<rparr>"

definition sample_context :: "int \<Rightarrow> int \<Rightarrow> FirewallValidationContext" where
  "sample_context observed now = \<lparr>fc_RunID = ''run-7'', fc_Plan = lc_Plan sample_contract,
     fc_Operation = sample_operation, fc_PlannedLifetime = 2 * hour, fc_RunLimits = sample_limits,
     fc_RunLifetime = sample_contract, fc_FirewallMutationWindow = 100, fc_ObservedAt = utc observed,
     fc_Now = utc now\<rparr>"

abbreviation sample_firewall_context :: FirewallValidationContext where
  "sample_firewall_context \<equiv> sample_context 1500 2000"

abbreviation sample_rule :: "FirewallPurpose \<Rightarrow> FirewallRule" where
  "sample_rule p \<equiv> expected_rule p ''run-7'' ''sample-project'' sample_digest"

abbreviation firewall_target :: "ResourceIdentity \<Rightarrow> MutationTarget" where
  "firewall_target i \<equiv> \<lparr>mt_Identity = i, mt_Labels = fmempty\<rparr>"

lemma sample_digest_fingerprint: "isSHA256Fingerprint sample_digest"
  by (simp add: isSHA256Fingerprint_iff sample_digest_pattern)

lemma sample_contract_fingerprint:
  "RunLifetimeContractFingerprint sample_marshal sample_sha sample_contract = Inr sample_digest"
proof -
  have "runLifetimeRecordIDPattern ''lifetime-0123456789abcdef''"
    by (simp add: runLifetimeRecordIDPattern_def is_hex_def hex_lower_def)
  then show ?thesis
    by (simp add: RunLifetimeContractFingerprint_def sample_contract_def harness_sample_patterns sample_run_id
        plan_identity_check_def sample_digest_fingerprint canonicalJSONFingerprint_def check_each_Cons_None
        time_defs duration_defs del: check_each.simps(2))
qed

lemma firewall_sample_times: "(1000 :: int) \<le> 1500" "(1500 :: int) \<le> 2000" "2000 \<le> hour"
  by (simp_all add: duration_defs)

lemma sample_context_lifetime:
  assumes "1000 \<le> o1" and "o1 \<le> n" and "n \<le> hour"
  shows "context_lifetime sample_marshal sample_sha (sample_context o1 n) = Inr sample_digest"
proof -
  have "validateOperationBinding sample_operation = None"
    by (simp add: validateOperationBinding_def sample_operation_def harness_sample_patterns)
       (simp add: identifierPattern_def char_class_defs)
  moreover have "first_error (lifetime_checks sample_contract ''run-7'' (lc_Plan sample_contract) sample_operation
      (2 * hour) sample_limits 100 (utc o1) (utc n)) = None"
    using calculation assms
    by (simp add: lifetime_checks_def sample_contract_def sample_operation_def sample_limits_def time_defs
        duration_defs int64_defs)
  ultimately show ?thesis
    by (simp add: context_lifetime_def validateRunLifetimeContract_def sample_context_def
        sample_contract_fingerprint bind_result_is_Inr)
qed

lemma sample_firewall_identities:
  "global_compute ''sample-project'' ComputeFirewallKind ''ctrldb-test-run-7-iap-ssh'' = run_ssh_firewall"
  "global_compute ''sample-project'' ComputeFirewallKind ''ctrldb-test-run-7-internal'' = run_mongo_firewall"
  "global_compute ''sample-project'' ComputeNetworkKind ''ctrldb-test-vpc'' = test_network"
  using global_compute_unique [OF sample_identities_valid(3)] global_compute_unique [OF sample_identities_valid(4)]
    global_compute_unique [OF sample_identities_valid(5)]
  by (simp_all add: run_ssh_firewall_def run_mongo_firewall_def test_network_def sample_identity_fields)
     (simp_all add: service_kinds)

lemma sample_rule_identities:
  "fr_Identity (sample_rule FirewallPurposeIAPSSH) = run_ssh_firewall"
  "fr_Identity (sample_rule FirewallPurposeInternalMongo) = run_mongo_firewall"
  "fr_Network (sample_rule p) = test_network"
  using sample_firewall_identities
  by (simp_all add: expected_rule_def Let_def purpose_suffix_def TestResourcePrefix_def TestVPCName_def)

lemma sample_iap_prefix: "parseCanonicalIPv4Prefix IAPTCPSourceCIDR = Some (0x23EBF000, 20)"
  by (simp add: IAPTCPSourceCIDR_def parseCanonicalIPv4Prefix_def parse_prefix_def parse_ipv4_def
      decimal_field_def digits_value_def byte_def prefix_Masked_def is_digit_def digits_def)

lemma sample_tag: "testTagPattern (testNodeTagPrefix @ take 49 sample_digest)"
  by (simp add: testTagPattern_def testNodeTagPrefix_def sample_digest_def bounded_name_def
      is_lower_digit_def is_ident_char_def is_lower_def lower_def last_append)

lemma normalize_expected: "normalizeFirewallRule (expected_rule p r proj fp) = expected_rule p r proj fp"
  by (simp add: normalizeFirewallRule_def expected_rule_def Let_def normalizeStrings_def cloneFirewallTrafficRules_def)

lemma sample_rule_valid:
  assumes "p = FirewallPurposeIAPSSH \<or> p = FirewallPurposeInternalMongo"
  shows "validateFirewallRule (sample_rule p) [''10.20.0.0/16''] ''run-7'' ''sample-project'' sample_digest = None"
proof -
  have production: "validateProductionCIDRs [''10.20.0.0/16''] = None"
    by (simp add: validateProductionCIDRs_None sample_networks)
  have tags: "validateTestTags path [testNodeTagPrefix @ take 49 sample_digest] required = None" for path required
    using sample_tag by (simp add: validateTestTags_def)
  have source: "source_outside_production [''10.20.0.0/16''] i IAPTCPSourceCIDR = None" for i
    by (simp add: source_outside_production_def sample_iap_prefix sample_networks prefixesOverlap_def
        prefix_Contains_def)
  have names: "RunFirewallRuleName ''run-7'' FirewallPurposeIAPSSH = Inr ''ctrldb-test-run-7-iap-ssh''"
    "RunFirewallRuleName ''run-7'' FirewallPurposeInternalMongo = Inr ''ctrldb-test-run-7-internal''"
    "RunNodeTag sample_digest = Inr (testNodeTagPrefix @ take 49 sample_digest)"
    "ri_Name run_ssh_firewall = ''ctrldb-test-run-7-iap-ssh''"
    "ri_Name run_mongo_firewall = ''ctrldb-test-run-7-internal''"
    by (simp_all add: RunFirewallRuleName_def RunResourcePrefix_def sample_run_id
        iapSSHFirewallRuleSuffix_def mongoFirewallRuleSuffix_def RunNodeTag_def fingerprint_check_def
        sample_digest_fingerprint TestResourcePrefix_def run_ssh_firewall_def run_mongo_firewall_def
        sample_identity_fields)
  have network: "ri_Service test_network = ComputeServiceName" "ri_Kind test_network = ComputeNetworkKind"
    "ri_Scope test_network = ResourceScopeGlobal" "ri_Name test_network = TestVPCName"
    "ri_Project test_network = ''sample-project''"
    by (simp_all add: test_network_def sample_identity_fields TestVPCName_def)
  have firewalls: "ri_Service i = ComputeServiceName \<and> ri_Kind i = ComputeFirewallKind \<and>
      ri_Scope i = ResourceScopeGlobal \<and> ri_Project i = ''sample-project''"
    if "i = run_ssh_firewall \<or> i = run_mongo_firewall" for i
    using that by (auto simp: run_ssh_firewall_def run_mongo_firewall_def sample_identity_fields)
  have parts: "fr_RunID (sample_rule p) = ''run-7''" "fr_Enabled (sample_rule p)"
    "fr_Description (sample_rule p) = firewallDescriptionPrefix @ sample_digest @ firewallDescriptionSuffix"
    "fr_Priority (sample_rule p) = FirewallPriority" "fr_Direction (sample_rule p) = FirewallDirectionIngress"
    "fr_Allowed (sample_rule p) = [\<lparr>ft_IPProtocol = FirewallIPProtocolTCP,
        ft_Ports = [if p = FirewallPurposeIAPSSH then FirewallPortSSH else FirewallPortMongo]\<rparr>]"
    "fr_Denied (sample_rule p) = []" "fr_DestinationCIDRs (sample_rule p) = []"
    "fr_SourceServiceAccounts (sample_rule p) = []" "fr_TargetServiceAccounts (sample_rule p) = []"
    "\<not> fl_Enabled (fr_LogConfig (sample_rule p))"
    "fl_Metadata (fr_LogConfig (sample_rule p)) = FirewallLogMetadataNone"
    "fr_ResourceManagerTags (sample_rule p) = fmempty"
    "fr_TargetTags (sample_rule p) = [testNodeTagPrefix @ take 49 sample_digest]"
    "fr_SourceCIDRs (sample_rule p) = (if p = FirewallPurposeIAPSSH then [IAPTCPSourceCIDR] else [])"
    "fr_SourceTags (sample_rule p) =
      (if p = FirewallPurposeIAPSSH then [] else [testNodeTagPrefix @ take 49 sample_digest])"
    "fr_Purpose (sample_rule p) = p" "fr_LifetimeContractFingerprint (sample_rule p) = sample_digest" for p
    by (simp_all add: expected_rule_def Let_def)
  show ?thesis
    using assms sample_identities_valid firewalls [of run_ssh_firewall, simplified]
      firewalls [of run_mongo_firewall, simplified]
    by (elim disjE)
       (simp_all add: validateFirewallRule_def normalize_expected firewall_rule_checks_def Let_def
         sample_run_id fingerprint_check_def sample_digest_fingerprint description_check parts
         sample_rule_identities network production tags source purpose_shape_def names)
qed


subsection \<open>The rule and its sources\<close>

text \<open>
  There is exactly one firewall rule that a run may own for each purpose. A rule that passes is,
  in every field, the fixed ingress rule of its purpose: TCP 22 from the IAP range, or TCP 27017 from
  the nodes of the run, to the nodes of the run on the test VPC, logging off, described by the
  fingerprint of its lifetime record. No address of its source ranges lies in a production network.
\<close>

theorem firewall_rule_exact:
  assumes "validateFirewallRule rule cidrs runID project fp = None"
  shows "rule = expected_rule (fr_Purpose rule) runID project fp \<and>
    (fr_Purpose rule = FirewallPurposeIAPSSH \<or> fr_Purpose rule = FirewallPurposeInternalMongo) \<and>
    (\<forall>a. list_ex (\<lambda>s. network_has s a) (fr_SourceCIDRs rule) \<longrightarrow>
       list_all (\<lambda>v. parseCanonicalIPv4Prefix v \<noteq> None \<and> \<not> network_has v a) cidrs)"
proof -
  note rule = validated_rule_expected [OF assms]
  have "list_all (\<lambda>v. parseCanonicalIPv4Prefix v \<noteq> None \<and> \<not> network_has v a) cidrs"
    if source: "s \<in> set (fr_SourceCIDRs rule)" "network_has s a" for s a
  proof -
    from source obtain i where i: "i < length (fr_SourceCIDRs rule)" "fr_SourceCIDRs rule ! i = s"
      by (auto simp: in_set_conv_nth)
    then have "source_outside_production cidrs i s = None"
      using rule(6) by (auto simp: check_each_None)
    then obtain p where p: "parseCanonicalIPv4Prefix s = Some p"
      "\<forall>k < length cidrs. \<not> (case parseCanonicalIPv4Prefix (cidrs ! k) of None \<Rightarrow> False
         | Some q \<Rightarrow> prefixesOverlap p q)"
      by (auto simp: source_outside_production_def check_each_None split: option.splits)
    have "prefix_Contains p a" using source(2) p(1) by (simp add: network_has_def)
    then have "\<not> network_has (cidrs ! k) a" if "k < length cidrs" for k
      using p(2) that by (auto simp: network_has_def prefixesOverlap_iff split: option.splits)
    then show ?thesis
      using rule(5) by (auto simp: validateProductionCIDRs_None list_all_length)
  qed
  with rule(1,2) show ?thesis by (auto simp: list_ex_iff)
qed

lemma firewall_rule_exact_witness:
  "\<not> network_has ''10.20.0.0/16'' 0x23EBF001 \<and>
     fr_Purpose (sample_rule FirewallPurposeIAPSSH) = FirewallPurposeIAPSSH"
proof -
  have "network_has IAPTCPSourceCIDR 0x23EBF001"
    by (simp add: network_has_def sample_iap_prefix prefix_Contains_def)
  then have "list_ex (\<lambda>s. network_has s 0x23EBF001) (fr_SourceCIDRs (sample_rule FirewallPurposeIAPSSH))"
    by (simp add: expected_rule_def Let_def)
  with firewall_rule_exact [OF sample_rule_valid [of FirewallPurposeIAPSSH]]
  have "list_all (\<lambda>v. parseCanonicalIPv4Prefix v \<noteq> None \<and> \<not> network_has v 0x23EBF001) [''10.20.0.0/16'']"
    by blast
  then show ?thesis by (simp add: expected_rule_def Let_def)
qed

subsection \<open>Convergence: insert exactly what is absent\<close>

definition sample_observations :: "FirewallObservation list" where
  "sample_observations =
     [\<lparr>fo_Identity = run_ssh_firewall, fo_State = FirewallObservationAbsent, fo_PresentRule = None\<rparr>,
      \<lparr>fo_Identity = run_mongo_firewall, fo_State = FirewallObservationPresent,
       fo_PresentRule = Some (sample_rule FirewallPurposeInternalMongo)\<rparr>]"

definition sample_rules :: "FirewallRule list" where
  "sample_rules = [sample_rule FirewallPurposeIAPSSH, sample_rule FirewallPurposeInternalMongo]"

lemma sample_firewall_keys: "ri_CanonicalKey run_ssh_firewall \<noteq> ri_CanonicalKey run_mongo_firewall"
proof -
  have "ri_Name run_ssh_firewall \<noteq> ri_Name run_mongo_firewall"
    by (simp add: run_ssh_firewall_def run_mongo_firewall_def sample_identity_fields)
  then have "run_ssh_firewall \<noteq> run_mongo_firewall" by metis
  then show ?thesis using validated_key_inject sample_identities_valid(3,4) by blast
qed

lemma sample_firewall_target_ok: "firewall_target_ok ''run-7'' (firewall_target run_ssh_firewall)"
  using sample_identities_valid(3) sample_run_id
  by (simp add: firewall_target_ok_def isExactRunFirewallName_iff)
     (simp add: run_ssh_firewall_def sample_identity_fields TestResourcePrefix_def)

lemma sample_firewalls_proved:
  assumes "1000 \<le> o1" and "o1 \<le> n" and "n \<le> hour"
  shows
  "ValidateFirewallRules sample_marshal sample_sha sample_rules sample_observations [''10.20.0.0/16'']
     [firewall_target run_ssh_firewall] (sample_context o1 n) = None"
proof -
  let ?valid = "\<lambda>rule. validateFirewallRule rule [''10.20.0.0/16''] ''run-7'' ''sample-project'' sample_digest"
  have valid: "?valid (sample_rule FirewallPurposeIAPSSH) = None"
    "?valid (sample_rule FirewallPurposeInternalMongo) = None"
    using sample_rule_valid by blast+
  have purposes: "fr_Purpose (sample_rule p) = p" for p by (simp add: expected_rule_def Let_def)
  have rules: "firewall_rules_ok ?valid sample_rules sample_observations"
    using valid sample_identities_valid sample_firewall_keys
    by (simp add: firewall_rules_ok_def sample_rules_def sample_observations_def observation_ok_def
        sample_rule_identities purposes equalFirewallRule_iff normalize_expected)
  have select: "SelectRunFirewallMutationTargets ''run-7'' [firewall_target run_ssh_firewall] =
      Inr [firewall_target run_ssh_firewall]"
    using sample_firewall_target_ok sample_run_id by (simp add: SelectRunFirewallMutationTargets_Inr)
  show ?thesis
    unfolding ValidateFirewallRules_None
    using rules select sample_context_lifetime [OF assms]
    by (simp add: sample_context_def sample_contract_def sample_observations_def)
qed

text \<open>What the loops leave, over the fixed rules.\<close>

lemma two_purposes:
  assumes "length rules = 2" and "distinct (map fr_Purpose rules)"
    and "FirewallPurposeIAPSSH \<in> set (map fr_Purpose rules)"
    and "FirewallPurposeInternalMongo \<in> set (map fr_Purpose rules)"
    and "\<And>x. x \<in> set rules \<Longrightarrow> x = E (fr_Purpose x)"
  shows "mset rules = {#E FirewallPurposeIAPSSH, E FirewallPurposeInternalMongo#}"
proof -
  from assms(1) obtain x y where rules: "rules = [x, y]"
    by (auto simp: length_Suc_conv eval_nat_numeral)
  have "fr_Purpose x = FirewallPurposeIAPSSH \<and> fr_Purpose y = FirewallPurposeInternalMongo \<or>
      fr_Purpose y = FirewallPurposeIAPSSH \<and> fr_Purpose x = FirewallPurposeInternalMongo"
    using assms(2-4) rules by auto
  moreover have "x = E (fr_Purpose x)" "y = E (fr_Purpose y)" using assms(5) rules by simp_all
  ultimately show ?thesis using rules by (elim disjE conjE) (simp_all add: add_mset_commute)
qed

lemma observation_of_rule:
  assumes "observation_ok valid (rev (map (\<lambda>r. (rule_key r, normalizeFirewallRule r)) rules)) ob"
    and "\<And>x. x \<in> set rules \<Longrightarrow> normalizeFirewallRule x = x"
    and "\<And>x. valid x = None \<Longrightarrow> normalizeFirewallRule x = x"
  shows "\<exists>x \<in> set rules. fo_Identity ob = fr_Identity x \<and>
    (case fo_PresentRule ob of None \<Rightarrow> fo_State ob = FirewallObservationAbsent
     | Some present \<Rightarrow> fo_State ob = FirewallObservationPresent \<and> present = x)"
proof -
  let ?m = "rev (map (\<lambda>r. (rule_key r, normalizeFirewallRule r)) rules)"
  from assms(1) obtain desired where d: "map_of ?m (observation_key ob) = Some desired"
    "fo_Identity ob = fr_Identity desired"
    "case fo_State ob of FirewallObservationAbsent \<Rightarrow> fo_PresentRule ob = None
     | FirewallObservationPresent \<Rightarrow> (case fo_PresentRule ob of None \<Rightarrow> False
         | Some present \<Rightarrow> valid present = None \<and> equalFirewallRule present desired)
     | FirewallObservationOther s \<Rightarrow> False"
    by (auto simp: observation_ok_def split: option.splits)
  from map_of_SomeD [OF d(1)] obtain x where x: "x \<in> set rules" "desired = normalizeFirewallRule x"
    by auto
  then have "desired = x" using assms(2) by simp
  with x d(2,3) assms(3) show ?thesis
    by (auto simp: equalFirewallRule_iff split: FirewallObservationState.splits option.splits)
qed

lemma validated_rule_identity:
  assumes "validateFirewallRule rule cidrs r proj fp = None"
  shows "validateResourceIdentity (fr_Identity rule) = None"
proof -
  have "fr_Identity (normalizeFirewallRule rule) = fr_Identity rule" by (simp add: normalizeFirewallRule_def)
  then show ?thesis
    using assms by (simp add: validateFirewallRule_def firewall_rule_checks_def Let_def)
qed

lemma mset_of_keys:
  assumes "distinct (map k xs)" and "distinct (map l ys)" and "set (map f xs) = set (map g ys)"
    and "\<And>x. x \<in> set xs \<Longrightarrow> k x = h (f x)" and "\<And>y. y \<in> set ys \<Longrightarrow> l y = h (g y)"
  shows "mset (map f xs) = mset (map g ys)"
proof -
  have "map k xs = map (\<lambda>x. h (f x)) xs" "map l ys = map (\<lambda>y. h (g y)) ys"
    using assms(4,5) by simp_all
  then have "distinct (map f xs)" "distinct (map g ys)"
    using assms(1,2) by (metis distinct_map_coarser)+
  with assms(3) show ?thesis by (metis set_eq_iff_mset_eq_distinct)
qed

lemma accepted_firewalls:
  assumes "ValidateFirewallRules marshal sha256hex rules observations cidrs targets c = None"
  obtains fp where "context_lifetime marshal sha256hex c = Inr fp"
    and "mset rules = {#expected_rule FirewallPurposeIAPSSH (fc_RunID c) (lc_ProjectID (fc_RunLifetime c)) fp,
      expected_rule FirewallPurposeInternalMongo (fc_RunID c) (lc_ProjectID (fc_RunLifetime c)) fp#}"
    and "mset (map fo_Identity observations) = mset (map fr_Identity rules)"
    and "list_all (\<lambda>x. case fo_PresentRule x of
        None \<Rightarrow> fo_State x = FirewallObservationAbsent
      | Some present \<Rightarrow> fo_State x = FirewallObservationPresent \<and> present \<in> set rules \<and>
          fr_Identity present = fo_Identity x) observations"
    and "mset (map mt_Identity targets) =
      mset (map fo_Identity (filter (\<lambda>x. fo_State x = FirewallObservationAbsent) observations))"
    and "distinct (map rule_key rules)" and "distinct (map observation_key observations)"
    and "\<And>x. x \<in> set rules \<Longrightarrow> validateResourceIdentity (fr_Identity x) = None"
proof -
  let ?E = "\<lambda>fp p. expected_rule p (fc_RunID c) (lc_ProjectID (fc_RunLifetime c)) fp"
  let ?absent = "filter (\<lambda>x. fo_State x = FirewallObservationAbsent) observations"
  from assms obtain fp selected where fp: "context_lifetime marshal sha256hex c = Inr fp"
    and select: "SelectRunFirewallMutationTargets (fc_RunID c) targets = Inr selected"
    and ok: "firewall_rules_ok (\<lambda>rule. validateFirewallRule rule cidrs (fc_RunID c)
      (lc_ProjectID (fc_RunLifetime c)) fp) rules observations"
    and keys: "set (map target_key targets) = set (map observation_key ?absent)"
    unfolding ValidateFirewallRules_None by blast
  let ?valid = "\<lambda>rule. validateFirewallRule rule cidrs (fc_RunID c) (lc_ProjectID (fc_RunLifetime c)) fp"
  have rule: "x = ?E fp (fr_Purpose x)" if "?valid x = None" for x
    using validated_rule_expected(1) [OF that] .
  then have normal: "normalizeFirewallRule x = x" if "?valid x = None" for x
    using normalize_expected that by metis
  have valid: "?valid x = None" if "x \<in> set rules" for x
    using ok that by (simp add: firewall_rules_ok_def list_all_iff)
  have rules: "mset rules = {#?E fp FirewallPurposeIAPSSH, ?E fp FirewallPurposeInternalMongo#}"
    by (rule two_purposes) (use ok valid rule in \<open>simp_all add: firewall_rules_ok_def\<close>)
  have observed: "\<exists>x \<in> set rules. fo_Identity ob = fr_Identity x \<and>
      (case fo_PresentRule ob of None \<Rightarrow> fo_State ob = FirewallObservationAbsent
       | Some present \<Rightarrow> fo_State ob = FirewallObservationPresent \<and> present = x)"
    if "ob \<in> set observations" for ob
    by (rule observation_of_rule [where valid = ?valid])
       (use ok that normal valid in \<open>simp_all add: firewall_rules_ok_def list_all_iff\<close>)
  have distinct: "distinct (map rule_key rules)" "distinct (map observation_key observations)"
    "length rules = 2" "length observations = 2"
    using ok by (simp_all add: firewall_rules_ok_def)
  have same: "set (map fo_Identity observations) = set (map fr_Identity rules)"
  proof (rule card_subset_eq)
    show "set (map fo_Identity observations) \<subseteq> set (map fr_Identity rules)" using observed by fastforce
    have "distinct (map fo_Identity observations)" "distinct (map fr_Identity rules)"
      using distinct(1,2) distinct_map_coarser [of ri_CanonicalKey] by blast+
    then show "card (set (map fo_Identity observations)) = card (set (map fr_Identity rules))"
      using distinct(3,4) by (metis distinct_card length_map)
  qed simp
  have identities: "mset (map fo_Identity observations) = mset (map fr_Identity rules)"
    by (rule mset_of_keys [OF distinct(2,1) same, where h = ri_CanonicalKey]) simp_all
  have present: "case fo_PresentRule x of None \<Rightarrow> fo_State x = FirewallObservationAbsent
      | Some present \<Rightarrow> fo_State x = FirewallObservationPresent \<and> present \<in> set rules \<and>
          fr_Identity present = fo_Identity x" if "x \<in> set observations" for x
    using observed [OF that] by (auto split: option.splits)
  have validated: "validateResourceIdentity (mt_Identity t) = None" if "t \<in> set targets" for t
    using select that by (auto simp: SelectRunFirewallMutationTargets_Inr list_all_iff firewall_target_ok_def)
  have validated': "validateResourceIdentity (fo_Identity x) = None" if "x \<in> set ?absent" for x
    using ok that by (auto simp: firewall_rules_ok_def list_all_iff observation_ok_def)
  have "set (map mt_Identity targets) = set (map fo_Identity ?absent)"
  proof (intro set_eqI iffI)
    fix i assume "i \<in> set (map mt_Identity targets)"
    then obtain t where t: "t \<in> set targets" "i = mt_Identity t" by auto
    then have "target_key t \<in> set (map observation_key ?absent)" using keys by fastforce
    then obtain x where x: "x \<in> set ?absent" "observation_key x = target_key t" by fastforce
    then have "fo_Identity x = mt_Identity t"
      using validated_key_inject [OF validated' [OF x(1)] validated [OF t(1)]] by blast
    with t(2) x(1) show "i \<in> set (map fo_Identity ?absent)" by (metis image_eqI list.set_map)
  next
    fix i assume "i \<in> set (map fo_Identity ?absent)"
    then obtain x where x: "x \<in> set ?absent" "i = fo_Identity x" by fastforce
    then have "observation_key x \<in> set (map target_key targets)" using keys by fastforce
    then obtain t where t: "t \<in> set targets" "target_key t = observation_key x" by fastforce
    then have "mt_Identity t = fo_Identity x"
      using validated_key_inject [OF validated [OF t(1)] validated' [OF x(1)]] by blast
    with t(1) x(2) show "i \<in> set (map mt_Identity targets)" by (metis image_eqI list.set_map)
  qed
  moreover have "distinct (map target_key targets)"
    using select by (simp add: SelectRunFirewallMutationTargets_Inr)
  moreover have "distinct (map observation_key ?absent)"
    using distinct(2) by (simp add: distinct_map_filter)
  ultimately have "mset (map mt_Identity targets) = mset (map fo_Identity ?absent)"
    by (intro mset_of_keys [where h = ri_CanonicalKey and k = target_key and l = observation_key]) simp_all
  moreover have "validateResourceIdentity (fr_Identity x) = None" if "x \<in> set rules" for x
    using validated_rule_identity [OF valid [OF that]] .
  ultimately show thesis
    using that [OF fp rules identities _ _ distinct(1,2)] present by (auto simp: list_all_iff)
qed

text \<open>
  The firewall gate converges. When it accepts, each of the two purposes has exactly one rule,
  both are the fixed rules of the run, each has been observed exactly once, every rule observed as
  present is already the fixed rule, and the targets that will be inserted are exactly the rules
  observed as absent: nothing present is inserted again, nothing absent is left out.
\<close>

theorem firewall_inserts_exactly_the_absent:
  assumes "ValidateFirewallRules marshal sha256hex rules observations cidrs targets c = None"
  shows "\<exists>fp. context_lifetime marshal sha256hex c = Inr fp \<and>
    mset rules = {#expected_rule FirewallPurposeIAPSSH (fc_RunID c) (lc_ProjectID (fc_RunLifetime c)) fp,
      expected_rule FirewallPurposeInternalMongo (fc_RunID c) (lc_ProjectID (fc_RunLifetime c)) fp#} \<and>
    mset (map fo_Identity observations) = mset (map fr_Identity rules) \<and>
    list_all (\<lambda>x. case fo_PresentRule x of
        None \<Rightarrow> fo_State x = FirewallObservationAbsent
      | Some present \<Rightarrow> fo_State x = FirewallObservationPresent \<and> present \<in> set rules \<and>
          fr_Identity present = fo_Identity x) observations \<and>
    mset (map mt_Identity targets) =
      mset (map fo_Identity (filter (\<lambda>x. fo_State x = FirewallObservationAbsent) observations))"
  by (rule accepted_firewalls [OF assms]) (intro exI conjI; assumption)

lemma firewall_inserts_exactly_the_absent_witness:
  "mset (map mt_Identity [firewall_target run_ssh_firewall]) =
     mset (map fo_Identity (filter (\<lambda>x. fo_State x = FirewallObservationAbsent) sample_observations))"
  using firewall_inserts_exactly_the_absent [OF sample_firewalls_proved [OF firewall_sample_times]] by blast

subsection \<open>The lifetime of the exposure\<close>

text \<open>
  An accepted lifetime record is live and bounded: it was created before the provider evidence
  was observed, which is not after the boundary time, it expires late enough to leave the approved
  mutation window, and it lasts neither longer than the planned lifetime nor than the configured
  maximum. The saturating subtraction of the code is exact for every bound below the largest Duration.
\<close>

theorem lifetime_record_bounds:
  assumes "context_lifetime marshal sha256hex c = Inr fp"
    and "fc_PlannedLifetime c < max_int64" and "rl_MaxLifetime (fc_RunLimits c) < max_int64"
  shows "valid_utc (lc_CreatedAt (fc_RunLifetime c)) \<and> valid_utc (lc_ExpiresAt (fc_RunLifetime c)) \<and>
    lc_RunID (fc_RunLifetime c) = fc_RunID c \<and> lc_Plan (fc_RunLifetime c) = fc_Plan c \<and>
    lc_OperationID (fc_RunLifetime c) = ob_OperationID (fc_Operation c) \<and>
    t_ns (lc_CreatedAt (fc_RunLifetime c)) \<le> t_ns (fc_ObservedAt c) \<and>
    t_ns (fc_ObservedAt c) \<le> t_ns (fc_Now c) \<and> 0 < fc_FirewallMutationWindow c \<and>
    t_ns (fc_Now c) + fc_FirewallMutationWindow c \<le> t_ns (lc_ExpiresAt (fc_RunLifetime c)) \<and>
    t_ns (lc_ExpiresAt (fc_RunLifetime c)) - t_ns (lc_CreatedAt (fc_RunLifetime c))
      \<le> min (fc_PlannedLifetime c) (rl_MaxLifetime (fc_RunLimits c))"
proof -
  from assms(1) have contract: "RunLifetimeContractFingerprint marshal sha256hex (fc_RunLifetime c) = Inr fp"
    and checks: "first_error (lifetime_checks (fc_RunLifetime c) (fc_RunID c) (fc_Plan c) (fc_Operation c)
      (fc_PlannedLifetime c) (fc_RunLimits c) (fc_FirewallMutationWindow c) (fc_ObservedAt c) (fc_Now c)) = None"
    by (auto simp: context_lifetime_def validateRunLifetimeContract_def bind_result_is_Inr)
  from contract have utc: "valid_utc (lc_CreatedAt (fc_RunLifetime c))" "valid_utc (lc_ExpiresAt (fc_RunLifetime c))"
    by (simp_all add: RunLifetimeContractFingerprint_def valid_utc_def check_each_Cons_None
        del: check_each.simps(2))
  let ?e = "lc_ExpiresAt (fc_RunLifetime c)" and ?b = "lc_CreatedAt (fc_RunLifetime c)"
  from checks have w: "0 < fc_FirewallMutationWindow c" "fc_FirewallMutationWindow c \<le> fc_PlannedLifetime c"
    "fc_FirewallMutationWindow c \<le> time_Sub ?e (fc_Now c)" "0 < fc_PlannedLifetime c"
    "0 < rl_MaxLifetime (fc_RunLimits c)" "time_Sub ?e ?b \<le> fc_PlannedLifetime c"
    "time_Sub ?e ?b \<le> rl_MaxLifetime (fc_RunLimits c)"
    by (simp_all add: lifetime_checks_def)
  then have "fc_FirewallMutationWindow c \<le> t_ns ?e - t_ns (fc_Now c)"
    using assms(2) by (subst (asm) time_Sub_ge) (auto simp: int64_defs)
  moreover have "t_ns ?e - t_ns ?b \<le> fc_PlannedLifetime c" "t_ns ?e - t_ns ?b \<le> rl_MaxLifetime (fc_RunLimits c)"
    using w(4-7) assms(2,3) time_Sub_le by (metis less_imp_le)+
  ultimately show ?thesis
    using checks utc w(1) by (simp add: lifetime_checks_def time_After_def)
qed

lemma lifetime_record_bounds_witness:
  "t_ns (fc_Now sample_firewall_context) + 100 \<le> t_ns (lc_ExpiresAt sample_contract)"
proof -
  have "fc_PlannedLifetime sample_firewall_context < max_int64"
    "rl_MaxLifetime (fc_RunLimits sample_firewall_context) < max_int64"
    by (simp_all add: sample_context_def sample_limits_def duration_defs int64_defs)
  from lifetime_record_bounds [OF sample_context_lifetime [OF firewall_sample_times] this]
  show ?thesis by (simp add: sample_context_def)
qed

end
