(* ===== verification/GuardEvidence.thy ===== *)
theory GuardEvidence
  imports IsolationGuard FirewallGuarantees
begin

section \<open>internal/isolation: what the pre-mutation guard accepts\<close>

text \<open>
  The evaluation of the evidence, part by part: the accepted intents are the insert requests of the
  selected targets, and the fingerprint is that of a canonical form of the evidence.
\<close>

subsection \<open>Intents\<close>

definition intent_ok ::
  "string \<Rightarrow> (string \<times> MutationTarget) list \<Rightarrow> (string \<times> FirewallRule) list \<Rightarrow> MutationIntent \<Rightarrow> bool" where
  "intent_ok r tm fm x =
     (in_Action x = MutationActionComputeFirewallInsert \<and> in_RequiredPrincipalRole x = TestPrincipalRoleOperator \<and>
      firewall_target_ok r (in_Target x) \<and> map_of tm (intent_key x) = Some (in_Target x) \<and>
      (\<exists>f want. cd_Firewall (in_Create x) = Some f \<and> map_of fm (intent_key x) = Some want \<and>
         equalFirewallRule f want))"

lemma select_one:
  "ValidateRunID r = None \<Longrightarrow>
   SelectRunFirewallMutationTargets r [t] = Inr ys \<longleftrightarrow> firewall_target_ok r t \<and> ys = [t]"
  by (auto simp: SelectRunFirewallMutationTargets_Inr)

lemma create_check_None:
  assumes "firewall_target_ok r (in_Target x)"
  shows "create_check fm path x = None \<longleftrightarrow>
     (\<exists>f want. cd_Firewall (in_Create x) = Some f \<and> map_of fm (intent_key x) = Some want \<and>
        equalFirewallRule f want)"
  using assms by (auto simp: create_check_def firewall_target_ok_def split: option.splits)

lemma equalMutationTarget_iff: "equalMutationTarget x y \<longleftrightarrow> x = y"
  by (cases x, cases y) (simp add: equalMutationTarget_def)

lemma intent_step_Inr:
  assumes "ValidateRunID r = None"
  shows "intent_step r tm fm i st x = Inr st' \<longleftrightarrow>
     intent_ok r tm fm x \<and> intent_key x \<notin> set (ns_seen st) \<and>
     st' = \<lparr>ns_seen = intent_key x # ns_seen st, ns_validated = ns_validated st @ [cloneMutationIntent x]\<rparr>"
proof (cases "firewall_target_ok r (in_Target x)")
  case True
  have one: "SelectRunFirewallMutationTargets r [in_Target x] = Inr [in_Target x]"
    using True select_one [OF assms] by blast
  have same: "x\<lparr>in_Target := in_Target x\<rparr> = x" by simp
  show ?thesis
    using create_check_None [OF True]
    by (simp add: intent_step_def Let_def one same intent_ok_def True)
       (auto simp: equalMutationTarget_iff split: option.splits)
next
  case False
  then have "\<exists>e. SelectRunFirewallMutationTargets r [in_Target x] = Inl e"
    using select_one [OF assms] by (metis sum.exhaust_sel sum.collapse)
  then show ?thesis using False by (auto simp: intent_step_def Let_def intent_ok_def)
qed

lemma intent_loop:
  assumes "ValidateRunID r = None"
  shows "range_loop (intent_step r tm fm) 0 \<lparr>ns_seen = [], ns_validated = []\<rparr> xs = Inr st \<longleftrightarrow>
    list_all (intent_ok r tm fm) xs \<and> distinct (map intent_key xs) \<and>
    st = \<lparr>ns_seen = rev (map intent_key xs), ns_validated = map cloneMutationIntent xs\<rparr>"
proof (induction xs arbitrary: st rule: rev_induct)
  case Nil
  then show ?case by auto
next
  case (snoc x xs)
  show ?case unfolding range_loop_snoc snoc.IH intent_step_Inr [OF assms] by auto
qed

lemma validateMutationIntents_Inr:
  assumes "ValidateRunID (gi_RunID input) = None" and "distinct (map target_key ts)"
  shows "validateMutationIntents policy input ts = Inr ys \<longleftrightarrow>
    gi_MutationPrincipal input = gp_TestOperatorPrincipal policy \<and>
    length (gi_MutationIntents input) = length ts \<and>
    list_all (intent_ok (gi_RunID input) (targets_by_key ts) (firewalls_by_key (gi_FirewallRules input)))
      (gi_MutationIntents input) \<and>
    distinct (map intent_key (gi_MutationIntents input)) \<and>
    ys = sort_key intent_key (map cloneMutationIntent (gi_MutationIntents input))"
  using assms
  by (auto simp: validateMutationIntents_def bind_result_is_Inr intent_loop distinct_remdups_id)

subsection \<open>The parts of an accepted evaluation\<close>

lemma evaluated_parts:
  assumes "evaluatePreMutation enc sha256hex policy input now = Inr (intents, h)"
  obtains targets where
    "validateOperationBinding (gi_Operation input) = None"
    and "validateEvidenceFreshness (gi_Freshness input) now = None"
    and "validatePreMutationPolicy enc sha256hex policy input = None"
    and "SelectRunFirewallMutationTargets (gi_RunID input) (gi_Targets input) = Inr targets"
    and "validatePreMutationProject (gp_ProjectID policy) input targets = None"
    and "validateCapacityProof (enc_capacity enc) sha256hex (gi_Capacity input) (gp_RunLimits policy)
          (gi_RunID input) targets = None"
    and "ValidateNetworkCIDR (gi_TestCIDR input) (gi_ProductionCIDRs input) = None"
    and "ValidateHarnessLocks (gi_Locks input) (gi_ExpectedNonDisposableEnvironments input) (gi_RunID input)
          (gi_MutationPrincipal input) = None"
    and "ValidatePermissionProof (enc_permissions enc) sha256hex (gp_PermissionInventory policy)
          (gi_Permissions input) (gi_MutationPrincipal input) = None"
    and "ValidateFirewallRules (enc_lifetime enc) sha256hex (gi_FirewallRules input)
          (gi_FirewallObservations input) (gi_ProductionCIDRs input) targets (guard_context policy input now) = None"
    and "validateMutationIntents policy input targets = Inr intents"
    and "validateEmittedIntentPermissions (gp_ProjectID policy) (gi_Permissions input)
          (gi_MutationPrincipal input) intents = None"
    and "preMutationFingerprint enc sha256hex policy input targets intents = Inr h"
  using assms that
  unfolding evaluatePreMutation_def
  by (auto simp: bind_result_is_Inr)

text \<open>The request that inserts a rule.\<close>

definition insert_request :: "FirewallRule \<Rightarrow> AuthorizedMutationIntent" where
  "insert_request rule =
     \<lparr>ai_action = MutationActionComputeFirewallInsert, ai_target = firewall_target (fr_Identity rule),
      ai_requiredPrincipalRole = TestPrincipalRoleOperator, ai_create = \<lparr>cd_Firewall = Some rule\<rparr>\<rparr>"

definition observed_absent :: "FirewallObservation list \<Rightarrow> ResourceIdentity \<Rightarrow> bool" where
  "observed_absent observations identity =
     list_ex (\<lambda>x. fo_Identity x = identity \<and> fo_State x = FirewallObservationAbsent) observations"

lemma authorized_intent:
  assumes ok: "intent_ok r (targets_by_key ts) (firewalls_by_key rules) x"
    and rules: "\<And>y. y \<in> set rules \<Longrightarrow> validateResourceIdentity (fr_Identity y) = None"
      "\<And>y. y \<in> set rules \<Longrightarrow> \<exists>p q proj fp. y = expected_rule p q proj fp"
  shows "\<exists>y \<in> set rules. rule_key y = intent_key x \<and> authorizeMutationIntents [cloneMutationIntent x] = [insert_request y]"
proof -
  from ok obtain f want where x: "in_Action x = MutationActionComputeFirewallInsert"
    "in_RequiredPrincipalRole x = TestPrincipalRoleOperator" "firewall_target_ok r (in_Target x)"
    "cd_Firewall (in_Create x) = Some f" "map_of (firewalls_by_key rules) (intent_key x) = Some want"
    "equalFirewallRule f want"
    by (auto simp: intent_ok_def)
  from map_of_SomeD [OF x(5)] have want: "want \<in> set rules" "rule_key want = intent_key x"
    by (auto simp: firewalls_by_key_def)
  from rules(2) [OF want(1)] have n: "normalizeFirewallRule want = want" using normalize_expected by metis
  then have f: "normalizeFirewallRule f = want" using x(6) by (simp add: equalFirewallRule_iff)
  have "mt_Identity (in_Target x) = fr_Identity want"
    using validated_key_inject [of "mt_Identity (in_Target x)" "fr_Identity want"] rules(1) [OF want(1)] want(2) x(3)
    by (auto simp: firewall_target_ok_def)
  moreover have "mt_Labels (in_Target x) = fmempty" using x(3) by (simp add: firewall_target_ok_def)
  ultimately have "in_Target x = firewall_target (fr_Identity want)" by (cases "in_Target x") simp
  then have "authorizeMutationIntents [cloneMutationIntent x] = [insert_request want]"
    using x(1,2,4) f n
    by (cases "in_Create x")
       (simp add: authorizeMutationIntents_def cloneMutationIntent_def cloneFirewallRules_def Let_def insert_request_def)
  with want show ?thesis by blast
qed

lemma absent_rules_authorized:
  fixes rules :: "FirewallRule list" and ts :: "MutationTarget list"
  defines "tm \<equiv> targets_by_key ts" and "fm \<equiv> firewalls_by_key rules"
  assumes xs: "list_all (intent_ok r tm fm) xs" "distinct (map intent_key xs)" "length xs = length ts"
    and rules: "\<And>y. y \<in> set rules \<Longrightarrow> validateResourceIdentity (fr_Identity y) = None"
      "\<And>y. y \<in> set rules \<Longrightarrow> \<exists>p q proj fp. y = expected_rule p q proj fp" "distinct (map rule_key rules)"
    and ts: "distinct (map target_key ts)"
      "set (map mt_Identity ts) = {i. observed_absent obs i \<and> i \<in> set (map fr_Identity rules)}"
  shows "mset (authorizeMutationIntents (map cloneMutationIntent xs)) =
    mset (map insert_request (filter (\<lambda>y. observed_absent obs (fr_Identity y)) rules))"
proof -
  let ?A = "\<lambda>x. authorizeMutationIntents [cloneMutationIntent x] ! 0"
  have one: "\<exists>y \<in> set rules. rule_key y = intent_key x \<and> ?A x = insert_request y" if "x \<in> set xs" for x
    using authorized_intent [of r ts rules x] rules xs(1) that by (fastforce simp: tm_def fm_def list_all_iff)
  have all: "authorizeMutationIntents (map cloneMutationIntent xs) = map ?A xs"
    by (simp add: authorizeMutationIntents_def)
  have keys: "set (map intent_key xs) = set (map target_key ts)"
  proof (rule card_subset_eq)
    have "intent_key x \<in> set (map target_key ts)" if "x \<in> set xs" for x
    proof -
      have "map_of tm (intent_key x) = Some (in_Target x)"
        using xs(1) that by (simp add: list_all_iff intent_ok_def)
      from map_of_SomeD [OF this] show ?thesis by (auto simp: tm_def targets_by_key_def)
    qed
    then show "set (map intent_key xs) \<subseteq> set (map target_key ts)" by auto
    show "card (set (map intent_key xs)) = card (set (map target_key ts))"
      using xs(2,3) ts(1) by (metis distinct_card length_map)
  qed simp
  have absent: "observed_absent obs (fr_Identity y) \<longleftrightarrow> rule_key y \<in> set (map intent_key xs)"
    if y: "y \<in> set rules" for y
  proof -
    have "observed_absent obs (fr_Identity y) \<longleftrightarrow> fr_Identity y \<in> set (map mt_Identity ts)"
      unfolding ts(2) using y by simp
    also have "\<dots> \<longleftrightarrow> rule_key y \<in> set (map target_key ts)"
    proof
      assume "rule_key y \<in> set (map target_key ts)"
      then obtain t where t: "t \<in> set ts" "target_key t = rule_key y" by auto
      then have "mt_Identity t \<in> set (map mt_Identity ts)" by simp
      then obtain z where "z \<in> set rules" "mt_Identity t = fr_Identity z" unfolding ts(2) by auto
      moreover from this have "z = y"
        using rules(3) y t(2) by (metis distinct_map inj_onD)
      ultimately show "fr_Identity y \<in> set (map mt_Identity ts)" using t(1) by (metis image_eqI list.set_map)
    qed auto
    finally show ?thesis using keys by simp
  qed
  have "set (map ?A xs) = set (map insert_request (filter (\<lambda>y. observed_absent obs (fr_Identity y)) rules))"
  proof (intro set_eqI iffI)
    fix a assume "a \<in> set (map ?A xs)"
    then obtain x where x: "x \<in> set xs" "a = ?A x" by auto
    with one obtain y where y: "y \<in> set rules" "rule_key y = intent_key x" "a = insert_request y" by metis
    then have "observed_absent obs (fr_Identity y)" using absent x(1) by auto
    with y show "a \<in> set (map insert_request (filter (\<lambda>y. observed_absent obs (fr_Identity y)) rules))" by simp
  next
    fix a assume "a \<in> set (map insert_request (filter (\<lambda>y. observed_absent obs (fr_Identity y)) rules))"
    then obtain y where y: "y \<in> set rules" "observed_absent obs (fr_Identity y)" "a = insert_request y" by auto
    then obtain x where x: "x \<in> set xs" "intent_key x = rule_key y" using absent by auto
    with one obtain z where "z \<in> set rules" "rule_key z = intent_key x" "?A x = insert_request z" by metis
    moreover from this have "z = y" using rules(3) y(1) x(2) by (simp add: distinct_map inj_on_def)
    ultimately have "a = ?A x" using y(3) by simp
    then show "a \<in> set (map ?A xs)" unfolding set_map using x(1) by (rule image_eqI)
  qed
  moreover have "target_key (ai_target (?A x)) = intent_key x" for x
    by (simp add: authorizeMutationIntents_def cloneMutationIntent_def Let_def)
  then have "map (\<lambda>x. target_key (ai_target (?A x))) xs = map intent_key xs" by simp
  then have "distinct (map (\<lambda>x. target_key (ai_target (?A x))) xs)" using xs(2) by (simp only:)
  then have "distinct (map ?A xs)" by (rule distinct_map_coarser)
  moreover have "distinct (map insert_request (filter (\<lambda>y. observed_absent obs (fr_Identity y)) rules))"
  proof -
    have "inj insert_request" by (rule injI) (simp add: insert_request_def)
    moreover have "distinct rules" using rules(3) by (simp add: distinct_map)
    ultimately show ?thesis by (auto simp: distinct_map intro: inj_on_subset)
  qed
  ultimately show ?thesis unfolding all by (metis set_eq_iff_mset_eq_distinct)
qed

lemma evaluated_intents:
  assumes "evaluatePreMutation enc sha256hex policy input now = Inr (intents, h)"
  obtains fp where "context_lifetime (enc_lifetime enc) sha256hex (guard_context policy input now) = Inr fp"
    and "gi_MutationPrincipal input = gp_TestOperatorPrincipal policy"
    and "lc_ProjectID (gi_RunLifetime input) = gp_ProjectID policy"
    and "mset (gi_FirewallRules input) =
      {#expected_rule FirewallPurposeIAPSSH (gi_RunID input) (gp_ProjectID policy) fp,
        expected_rule FirewallPurposeInternalMongo (gi_RunID input) (gp_ProjectID policy) fp#}"
    and "authorizeMutationIntents intents = sort_key (\<lambda>a. target_key (ai_target a))
      (map insert_request (filter (\<lambda>y. observed_absent (gi_FirewallObservations input) (fr_Identity y))
        (gi_FirewallRules input)))"
proof (rule evaluated_parts [OF assms])
  fix ts
  let ?obs = "gi_FirewallObservations input" and ?rules = "gi_FirewallRules input"
  let ?E = "\<lambda>fp p. expected_rule p (gi_RunID input) (lc_ProjectID (gi_RunLifetime input)) fp"
  let ?k = "\<lambda>a. target_key (ai_target a)"
  assume select: "SelectRunFirewallMutationTargets (gi_RunID input) (gi_Targets input) = Inr ts"
    and project: "validatePreMutationProject (gp_ProjectID policy) input ts = None"
    and firewalls: "ValidateFirewallRules (enc_lifetime enc) sha256hex ?rules ?obs (gi_ProductionCIDRs input) ts
      (guard_context policy input now) = None"
    and valid: "validateMutationIntents policy input ts = Inr intents"
  have ts: "ValidateRunID (gi_RunID input) = None" "distinct (map target_key ts)"
    using select firewall_targets.selected [OF select] by (simp_all add: SelectRunFirewallMutationTargets_Inr)
  note intents = valid [unfolded validateMutationIntents_Inr [OF ts]]
  from firewalls show thesis
  proof (rule accepted_firewalls)
    fix fp
    assume fp: "context_lifetime (enc_lifetime enc) sha256hex (guard_context policy input now) = Inr fp"
      and rules: "mset ?rules = {#expected_rule FirewallPurposeIAPSSH (fc_RunID (guard_context policy input now))
          (lc_ProjectID (fc_RunLifetime (guard_context policy input now))) fp,
        expected_rule FirewallPurposeInternalMongo (fc_RunID (guard_context policy input now))
          (lc_ProjectID (fc_RunLifetime (guard_context policy input now))) fp#}"
      and observed: "mset (map fo_Identity ?obs) = mset (map fr_Identity ?rules)"
      and targets: "mset (map mt_Identity ts) =
        mset (map fo_Identity (filter (\<lambda>x. fo_State x = FirewallObservationAbsent) ?obs))"
      and keys: "distinct (map rule_key ?rules)"
      and identities: "\<And>y. y \<in> set ?rules \<Longrightarrow> validateResourceIdentity (fr_Identity y) = None"
    have E: "mset ?rules = {#?E fp FirewallPurposeIAPSSH, ?E fp FirewallPurposeInternalMongo#}"
      using rules by (simp add: guard_context_def)
    then have members: "set ?rules = {?E fp FirewallPurposeIAPSSH, ?E fp FirewallPurposeInternalMongo}"
      by (metis set_mset_add_mset_insert set_mset_empty set_mset_mset)
    have "check_each (\<lambda>index rule. rule_project (gp_ProjectID policy) (indexedField ''firewallRules'' index) [] rule)
        0 ?rules = None"
      using project unfolding validatePreMutationProject_def first_error_Cons_None by blast
    then have "ri_Project (fr_Identity y) = gp_ProjectID policy" if "y \<in> set ?rules" for y
      using that by (auto simp: check_each_None rule_project_def requireProject_def in_set_conv_nth)
    then have "ri_Project (fr_Identity (?E fp FirewallPurposeIAPSSH)) = gp_ProjectID policy"
      using members by blast
    then have p: "lc_ProjectID (gi_RunLifetime input) = gp_ProjectID policy"
      by (simp add: expected_rule_def Let_def global_compute_def)
    have "set (map mt_Identity ts) = set (map fo_Identity (filter (\<lambda>x. fo_State x = FirewallObservationAbsent) ?obs))"
      using targets mset_eq_setD by blast
    also have "\<dots> = {i. observed_absent ?obs i \<and> i \<in> set (map fr_Identity ?rules)}"
      using mset_eq_setD [OF observed] unfolding observed_absent_def list_ex_iff set_map set_filter by blast
    finally have "mset (authorizeMutationIntents (map cloneMutationIntent (gi_MutationIntents input))) =
        mset (map insert_request (filter (\<lambda>y. observed_absent ?obs (fr_Identity y)) ?rules))"
      using intents keys identities members ts(2)
      by (intro absent_rules_authorized [where r = "gi_RunID input"]) auto
    moreover have "mset (authorizeMutationIntents intents) =
        mset (authorizeMutationIntents (map cloneMutationIntent (gi_MutationIntents input)))"
      using intents by (simp add: authorizeMutationIntents_def multiset.map_comp comp_def)
    moreover have "map ?k (authorizeMutationIntents intents) = map intent_key intents"
      by (simp add: authorizeMutationIntents_def cloneMutationIntent_def Let_def)
    then have "sorted (map ?k (authorizeMutationIntents intents))" using intents by simp
    moreover have "inj_on ?k (set (map insert_request (filter (\<lambda>y. observed_absent ?obs (fr_Identity y)) ?rules)))"
      using keys by (auto simp: insert_request_def inj_on_def distinct_map)
    ultimately have "authorizeMutationIntents intents = sort_key ?k
        (map insert_request (filter (\<lambda>y. observed_absent ?obs (fr_Identity y)) ?rules))"
      by (metis sort_key_inj_key_eq)
    with fp p E intents show thesis by (intro that) simp_all
  qed
qed

text \<open>Accepted observations cover the rules, each absent or present as one of them.\<close>

lemma evaluated_observations:
  assumes "evaluatePreMutation enc sha256hex policy input now = Inr (intents, h)"
  shows "mset (map fo_Identity (gi_FirewallObservations input)) = mset (map fr_Identity (gi_FirewallRules input)) \<and>
    (\<forall>x \<in> set (gi_FirewallObservations input).
      fo_State x = FirewallObservationAbsent \<and> fo_PresentRule x = None \<or>
      fo_State x = FirewallObservationPresent \<and> (\<exists>present \<in> set (gi_FirewallRules input).
        fo_PresentRule x = Some present \<and> fr_Identity present = fo_Identity x))"
proof (rule evaluated_parts [OF assms])
  fix ts
  let ?obs = "gi_FirewallObservations input" and ?rules = "gi_FirewallRules input"
  assume "ValidateFirewallRules (enc_lifetime enc) sha256hex ?rules ?obs (gi_ProductionCIDRs input) ts
    (guard_context policy input now) = None"
  then show ?thesis
  proof (rule accepted_firewalls)
    assume ids: "mset (map fo_Identity ?obs) = mset (map fr_Identity ?rules)"
    assume all: "list_all (\<lambda>x. case fo_PresentRule x of None \<Rightarrow> fo_State x = FirewallObservationAbsent
      | Some present \<Rightarrow> fo_State x = FirewallObservationPresent \<and> present \<in> set ?rules \<and>
          fr_Identity present = fo_Identity x) ?obs"
    have "fo_State x = FirewallObservationAbsent \<and> fo_PresentRule x = None \<or>
        fo_State x = FirewallObservationPresent \<and> (\<exists>present \<in> set ?rules.
          fo_PresentRule x = Some present \<and> fr_Identity present = fo_Identity x)" if "x \<in> set ?obs" for x
      using all that by (cases "fo_PresentRule x") (auto simp: list_all_iff)
    with ids show ?thesis by blast
  qed
qed

end
