(* ===== verification/GuardAgreement.thy ===== *)
theory GuardAgreement
  imports GuardEvidence
begin

section \<open>internal/isolation: the evidence is the same at the boundary\<close>

text \<open>
  The fingerprint that authorization records is the digest of a document in which every list of the
  evidence is sorted. Two accepted inputs have the same document exactly when they have the same
  policy and the same evidence up to the order in which it was discovered.
\<close>

definition same_evidence :: "PreMutationInput \<Rightarrow> PreMutationInput \<Rightarrow> bool" where
  "same_evidence a b \<longleftrightarrow>
     gi_Operation a = gi_Operation b \<and> gi_RunID a = gi_RunID b \<and> gi_TestCIDR a = gi_TestCIDR b \<and>
     gi_MutationPrincipal a = gi_MutationPrincipal b \<and> gi_RunLifetime a = gi_RunLifetime b \<and>
     fs_Revision (gi_Freshness a) = fs_Revision (gi_Freshness b) \<and>
     mset (gi_Targets a) = mset (gi_Targets b) \<and>
     (gi_Capacity a)\<lparr>ca_Instances := [], ca_Disks := []\<rparr> = (gi_Capacity b)\<lparr>ca_Instances := [], ca_Disks := []\<rparr> \<and>
     mset (ca_Instances (gi_Capacity a)) = mset (ca_Instances (gi_Capacity b)) \<and>
     mset (ca_Disks (gi_Capacity a)) = mset (ca_Disks (gi_Capacity b)) \<and>
     mset (gi_ProductionCIDRs a) = mset (gi_ProductionCIDRs b) \<and>
     mset (gi_ExpectedNonDisposableEnvironments a) = mset (gi_ExpectedNonDisposableEnvironments b) \<and>
     mset (gi_Locks a) = mset (gi_Locks b) \<and> mset (gi_MutationIntents a) = mset (gi_MutationIntents b) \<and>
     mset (pf_Expected (gi_Permissions a)) = mset (pf_Expected (gi_Permissions b)) \<and>
     mset (pf_Observed (gi_Permissions a)) = mset (pf_Observed (gi_Permissions b)) \<and>
     mset (gi_FirewallRules a) = mset (gi_FirewallRules b) \<and>
     mset (gi_FirewallObservations a) = mset (gi_FirewallObservations b)"

definition evidence_document :: "PreMutationPolicy \<Rightarrow> PreMutationInput \<Rightarrow> preMutationPayload" where
  "evidence_document policy input =
     canonical_evidence policy input (sort_key target_key (gi_Targets input))
       (sort_key intent_key (map cloneMutationIntent (gi_MutationIntents input)))"

subsection \<open>Lists that are sorted by a key without repetition\<close>

lemma sort_key_same:
  assumes "distinct (map k xs)"
  shows "sort_key k xs = sort_key k ys \<longleftrightarrow> mset xs = mset ys"
  using assms sort_key_unique by (metis mset_sort)

lemma sort_same: "sort xs = sort ys \<longleftrightarrow> mset xs = mset (ys :: 'a :: linorder list)"
proof
  assume "mset xs = mset ys"
  then show "sort xs = sort ys" by (intro sort_key_inj_key_eq) simp_all
qed (metis mset_sort)

text \<open>What makes the document a function of the evidence.\<close>

definition orderly :: "PreMutationInput \<Rightarrow> bool" where
  "orderly a \<longleftrightarrow>
     distinct (map target_key (gi_Targets a)) \<and> distinct (map instance_key (ca_Instances (gi_Capacity a))) \<and>
     distinct (map disk_key (ca_Disks (gi_Capacity a))) \<and>
     distinct (map environment_sort_key (gi_ExpectedNonDisposableEnvironments a)) \<and>
     distinct (map lock_sort_key (gi_Locks a)) \<and> distinct (map intent_key (gi_MutationIntents a)) \<and>
     distinct (map permission_sort_key (pf_Expected (gi_Permissions a))) \<and>
     distinct (map permission_sort_key (pf_Observed (gi_Permissions a))) \<and>
     distinct (map (\<lambda>r. FirewallPurpose_string (fr_Purpose r)) (gi_FirewallRules a)) \<and>
     distinct (map observation_key (gi_FirewallObservations a)) \<and>
     map normalizeFirewallRule (gi_FirewallRules a) = gi_FirewallRules a \<and>
     cloneFirewallObservations (gi_FirewallObservations a) = gi_FirewallObservations a \<and>
     map cloneMutationIntent (gi_MutationIntents a) = gi_MutationIntents a"

lemma orderly_document:
  assumes "orderly a"
  shows "evidence_document policy a =
    \<lparr>gl_Policy = policy, gl_Operation = gi_Operation a, gl_RunID = gi_RunID a,
     gl_Targets = sort_key target_key (gi_Targets a),
     gl_Capacity = (gi_Capacity a)\<lparr>ca_Instances := sort_key instance_key (ca_Instances (gi_Capacity a)),
       ca_Disks := sort_key disk_key (ca_Disks (gi_Capacity a))\<rparr>,
     gl_TestCIDR = gi_TestCIDR a, gl_ProductionCIDRs = sort (gi_ProductionCIDRs a),
     gl_ExpectedNonDisposableEnvironments = sort_key environment_sort_key (gi_ExpectedNonDisposableEnvironments a),
     gl_Locks = sort_key lock_sort_key (gi_Locks a), gl_MutationPrincipal = gi_MutationPrincipal a,
     gl_MutationIntents = sort_key intent_key (gi_MutationIntents a),
     gl_Permissions = \<lparr>pf_Expected = sort_key permission_sort_key (pf_Expected (gi_Permissions a)),
       pf_Observed = sort_key permission_sort_key (pf_Observed (gi_Permissions a))\<rparr>,
     gl_FirewallRules = sort_key (\<lambda>r. FirewallPurpose_string (fr_Purpose r)) (gi_FirewallRules a),
     gl_FirewallObservations = sort_key observation_key (gi_FirewallObservations a),
     gl_RunLifetime = gi_RunLifetime a, gl_EvidenceRevision = fs_Revision (gi_Freshness a)\<rparr>"
proof -
  let ?xs = "sort_key intent_key (gi_MutationIntents a)"
  have c: "map cloneMutationIntent (gi_MutationIntents a) = gi_MutationIntents a"
    using assms by (simp add: orderly_def)
  then have "cloneMutationIntent x = x" if "x \<in> set (gi_MutationIntents a)" for x
    using that by (metis map_idI map_eq_conv list.map_ident)
  then have "cloneMutationIntents ?xs = ?xs"
    unfolding cloneMutationIntents_def by (intro map_idI) simp
  then have "sort_key intent_key (cloneMutationIntents ?xs) = ?xs"
    by (simp add: sort_key_id_if_sorted)
  then show ?thesis
    using assms
    by (simp add: evidence_document_def canonical_evidence_def c orderly_def cloneFirewallRules_def
        cloneCapacityProof_def sortPermissionObservations_def Let_def)
qed

lemma capacity_parts:
  "(c :: CapacityProofInput)\<lparr>ca_Instances := i, ca_Disks := d\<rparr> = c'\<lparr>ca_Instances := i', ca_Disks := d'\<rparr> \<longleftrightarrow>
     c\<lparr>ca_Instances := [], ca_Disks := []\<rparr> = c'\<lparr>ca_Instances := [], ca_Disks := []\<rparr> \<and> i = i' \<and> d = d'"
  by (cases c, cases c') auto

lemma documents_equal:
  assumes "orderly a" and "orderly b"
  shows "evidence_document p a = evidence_document q b \<longleftrightarrow> p = q \<and> same_evidence a b"
proof -
  note d = assms(1) [unfolded orderly_def]
  have keys:
    "sort_key target_key (gi_Targets a) = sort_key target_key (gi_Targets b) \<longleftrightarrow>
       mset (gi_Targets a) = mset (gi_Targets b)"
    "sort_key instance_key (ca_Instances (gi_Capacity a)) = sort_key instance_key (ca_Instances (gi_Capacity b)) \<longleftrightarrow>
       mset (ca_Instances (gi_Capacity a)) = mset (ca_Instances (gi_Capacity b))"
    "sort_key disk_key (ca_Disks (gi_Capacity a)) = sort_key disk_key (ca_Disks (gi_Capacity b)) \<longleftrightarrow>
       mset (ca_Disks (gi_Capacity a)) = mset (ca_Disks (gi_Capacity b))"
    "sort_key environment_sort_key (gi_ExpectedNonDisposableEnvironments a) =
       sort_key environment_sort_key (gi_ExpectedNonDisposableEnvironments b) \<longleftrightarrow>
       mset (gi_ExpectedNonDisposableEnvironments a) = mset (gi_ExpectedNonDisposableEnvironments b)"
    "sort_key lock_sort_key (gi_Locks a) = sort_key lock_sort_key (gi_Locks b) \<longleftrightarrow>
       mset (gi_Locks a) = mset (gi_Locks b)"
    "sort_key intent_key (gi_MutationIntents a) = sort_key intent_key (gi_MutationIntents b) \<longleftrightarrow>
       mset (gi_MutationIntents a) = mset (gi_MutationIntents b)"
    "sort_key permission_sort_key (pf_Expected (gi_Permissions a)) =
       sort_key permission_sort_key (pf_Expected (gi_Permissions b)) \<longleftrightarrow>
       mset (pf_Expected (gi_Permissions a)) = mset (pf_Expected (gi_Permissions b))"
    "sort_key permission_sort_key (pf_Observed (gi_Permissions a)) =
       sort_key permission_sort_key (pf_Observed (gi_Permissions b)) \<longleftrightarrow>
       mset (pf_Observed (gi_Permissions a)) = mset (pf_Observed (gi_Permissions b))"
    "sort_key (\<lambda>r. FirewallPurpose_string (fr_Purpose r)) (gi_FirewallRules a) =
       sort_key (\<lambda>r. FirewallPurpose_string (fr_Purpose r)) (gi_FirewallRules b) \<longleftrightarrow>
       mset (gi_FirewallRules a) = mset (gi_FirewallRules b)"
    "sort_key observation_key (gi_FirewallObservations a) = sort_key observation_key (gi_FirewallObservations b) \<longleftrightarrow>
       mset (gi_FirewallObservations a) = mset (gi_FirewallObservations b)"
    by (rule sort_key_same; use d in blast)+
  note capacity = capacity_parts
    [where c = "gi_Capacity a" and i = "sort_key instance_key (ca_Instances (gi_Capacity a))"
       and d = "sort_key disk_key (ca_Disks (gi_Capacity a))" and c' = "gi_Capacity b"
       and i' = "sort_key instance_key (ca_Instances (gi_Capacity b))"
       and d' = "sort_key disk_key (ca_Disks (gi_Capacity b))"]
  show ?thesis
    unfolding orderly_document [OF assms(1)] orderly_document [OF assms(2)] same_evidence_def
      preMutationPayload.ext_inject PermissionProofInput.ext_inject capacity keys sort_same
    by blast
qed

subsection \<open>An accepted input is orderly\<close>

lemma harness_locks_distinct:
  assumes "ValidateHarnessLocks locks expected r p = None"
  shows "distinct (map lock_sort_key locks)" and "distinct (map environment_sort_key expected)"
proof -
  have e: "list_all non_disposable expected" "validPrincipal p" "distinct (map ei_Environment expected)"
    using assms by (simp_all add: ValidateHarnessLocks_None)
  have "distinct (map el_Environment locks)"
    using assms unfolding ValidateHarnessLocks_def
    by (auto simp: bind_result_is_Inr lock_loop [OF e(1,2)])
  then have "distinct (map (\<lambda>l. fst (lock_sort_key l)) locks)" by (simp add: lock_sort_key_def)
  then show "distinct (map lock_sort_key locks)" by (rule distinct_map_coarser)
  have "distinct (map (\<lambda>e. fst (environment_sort_key e)) expected)"
    using e(3) by (simp add: environment_sort_key_def)
  then show "distinct (map environment_sort_key expected)" by (rule distinct_map_coarser)
qed

lemma permissions_distinct:
  assumes "ValidatePermissionProof marshal sha256hex pin input p = None"
  shows "distinct (map permission_sort_key (pf_Expected input))"
    and "distinct (map permission_sort_key (pf_Observed input))"
proof -
  have e: "list_all (permission_ok p) (pf_Expected input)"
    "distinct (map newPermissionObservationKey (pf_Expected input))"
    "mset (pf_Observed input) = mset (pf_Expected input)"
    using assms by (simp_all add: ValidatePermissionProof_None)
  show *: "distinct (map permission_sort_key (pf_Expected input))"
  proof (rule distinct_map_finer [OF e(2)])
    fix x y assume "x \<in> set (pf_Expected input)" "y \<in> set (pf_Expected input)"
      and "permission_sort_key x = permission_sort_key y"
    then show "newPermissionObservationKey x = newPermissionObservationKey y"
      using e(1) by (auto simp: list_all_iff permission_ok_def permission_sort_key_def Let_def
          newPermissionObservationKey_def)
  qed
  have "mset (map permission_sort_key (pf_Observed input)) = mset (map permission_sort_key (pf_Expected input))"
    using e(3) by simp
  then show "distinct (map permission_sort_key (pf_Observed input))"
    using * mset_eq_imp_distinct_iff by blast
qed

lemma expected_rules_orderly:
  assumes "mset rules = {#expected_rule FirewallPurposeIAPSSH r proj fp, expected_rule FirewallPurposeInternalMongo r proj fp#}"
  shows "distinct (map (\<lambda>x. FirewallPurpose_string (fr_Purpose x)) rules)"
    and "\<And>x. x \<in> set rules \<Longrightarrow> \<exists>p. x = expected_rule p r proj fp"
    and "\<And>x. x \<in> set rules \<Longrightarrow> normalizeFirewallRule x = x"
proof -
  have "mset (map (\<lambda>x. FirewallPurpose_string (fr_Purpose x)) rules) = mset [''iap-ssh'', ''internal-mongodb'']"
    unfolding mset_map assms by (simp add: expected_rule_def Let_def)
  moreover have "distinct [''iap-ssh'', ''internal-mongodb'']" by simp
  ultimately show "distinct (map (\<lambda>x. FirewallPurpose_string (fr_Purpose x)) rules)"
    using mset_eq_imp_distinct_iff by blast
  have "set rules = set_mset (mset rules)" by simp
  then have m: "set rules = {expected_rule FirewallPurposeIAPSSH r proj fp, expected_rule FirewallPurposeInternalMongo r proj fp}"
    unfolding assms by simp
  then show e: "\<exists>p. x = expected_rule p r proj fp" if "x \<in> set rules" for x using that by blast
  show "normalizeFirewallRule x = x" if "x \<in> set rules" for x
    using e [OF that] normalize_expected by metis
qed

lemma accepted_intent_normal:
  assumes "intent_ok r tm (firewalls_by_key rules) x"
    and "\<And>y. y \<in> set rules \<Longrightarrow> \<exists>p. y = expected_rule p r' proj fp"
  shows "cloneMutationIntent x = x"
proof -
  from assms(1) obtain f want where f: "cd_Firewall (in_Create x) = Some f"
    "map_of (firewalls_by_key rules) (intent_key x) = Some want" "equalFirewallRule f want"
    by (auto simp: intent_ok_def)
  from map_of_SomeD [OF f(2)] have "want \<in> set rules" by (auto simp: firewalls_by_key_def)
  then obtain p where want: "want = expected_rule p r' proj fp" using assms(2) by blast
  with f(3) have "normalizeFirewallRule f = want" by (simp add: equalFirewallRule_iff normalize_expected)
  moreover from this have "f = want" unfolding want by (rule normal_form_expected)
  ultimately show ?thesis
    using f(1) by (simp add: cloneMutationIntent_def cloneFirewallRules_def)
qed

lemma evaluated_orderly:
  assumes "evaluatePreMutation enc sha256hex policy input now = Inr (intents, h)"
  shows "orderly input" and "map_option sha256hex (enc_evidence enc (evidence_document policy input)) = Some h"
    and "intents = sort_key intent_key (gi_MutationIntents input)"
proof -
  from assms obtain ts where
    policy: "validateEvidenceFreshness (gi_Freshness input) now = None"
    and select: "SelectRunFirewallMutationTargets (gi_RunID input) (gi_Targets input) = Inr ts"
    and capacity: "validateCapacityProof (enc_capacity enc) sha256hex (gi_Capacity input) (gp_RunLimits policy)
          (gi_RunID input) ts = None"
    and locks: "ValidateHarnessLocks (gi_Locks input) (gi_ExpectedNonDisposableEnvironments input) (gi_RunID input)
          (gi_MutationPrincipal input) = None"
    and permissions: "ValidatePermissionProof (enc_permissions enc) sha256hex (gp_PermissionInventory policy)
          (gi_Permissions input) (gi_MutationPrincipal input) = None"
    and firewalls: "ValidateFirewallRules (enc_lifetime enc) sha256hex (gi_FirewallRules input)
          (gi_FirewallObservations input) (gi_ProductionCIDRs input) ts (guard_context policy input now) = None"
    and valid: "validateMutationIntents policy input ts = Inr intents"
    and h: "preMutationFingerprint enc sha256hex policy input ts intents = Inr h"
    by (rule evaluated_parts)
  have ts: "ValidateRunID (gi_RunID input) = None" "distinct (map target_key (gi_Targets input))"
    "ts = sort_key target_key (gi_Targets input)" "distinct (map target_key ts)"
    using select firewall_targets.selected [OF select] by (simp_all add: SelectRunFirewallMutationTargets_Inr)
  note intents = valid [unfolded validateMutationIntents_Inr [OF ts(1,4)]]
  from firewalls obtain fp where
    rules: "mset (gi_FirewallRules input) =
      {#expected_rule FirewallPurposeIAPSSH (fc_RunID (guard_context policy input now))
          (lc_ProjectID (fc_RunLifetime (guard_context policy input now))) fp,
        expected_rule FirewallPurposeInternalMongo (fc_RunID (guard_context policy input now))
          (lc_ProjectID (fc_RunLifetime (guard_context policy input now))) fp#}"
    and present: "list_all (\<lambda>x. case fo_PresentRule x of
        None \<Rightarrow> fo_State x = FirewallObservationAbsent
      | Some present \<Rightarrow> fo_State x = FirewallObservationPresent \<and> present \<in> set (gi_FirewallRules input) \<and>
          fr_Identity present = fo_Identity x) (gi_FirewallObservations input)"
    and keys: "distinct (map observation_key (gi_FirewallObservations input))"
    by (rule accepted_firewalls)
  note orderly_rules = expected_rules_orderly [OF rules]
  have "cloneFirewallObservations (gi_FirewallObservations input) = gi_FirewallObservations input"
    unfolding cloneFirewallObservations_def
  proof (rule map_idI)
    fix x assume "x \<in> set (gi_FirewallObservations input)"
    then have "\<And>y. fo_PresentRule x = Some y \<Longrightarrow> y \<in> set (gi_FirewallRules input)"
      using present by (auto simp: list_all_iff)
    then have "map_option normalizeFirewallRule (fo_PresentRule x) = fo_PresentRule x"
      using orderly_rules(3) by (cases "fo_PresentRule x") auto
    then show "x\<lparr>fo_PresentRule := map_option normalizeFirewallRule (fo_PresentRule x)\<rparr> = x" by simp
  qed
  moreover have "map normalizeFirewallRule (gi_FirewallRules input) = gi_FirewallRules input"
    by (rule map_idI) (rule orderly_rules(3))
  moreover have clone: "map cloneMutationIntent (gi_MutationIntents input) = gi_MutationIntents input"
    using intents accepted_intent_normal [OF _ orderly_rules(2)]
    by (intro map_idI) (auto simp: list_all_iff)
  ultimately show "orderly input"
    unfolding orderly_def
    using ts(2) capacity_proof_parts(5,7) [OF capacity] harness_locks_distinct [OF locks]
      permissions_distinct [OF permissions] orderly_rules(1) keys intents by blast
  show "intents = sort_key intent_key (gi_MutationIntents input)"
    using intents unfolding clone by blast
  have "evidence_document policy input = canonical_evidence policy input ts intents"
    using intents unfolding evidence_document_def ts(3) by simp
  then show "map_option sha256hex (enc_evidence enc (evidence_document policy input)) = Some h"
    using h by (auto simp: preMutationFingerprint_def split: option.splits)
qed

end
