(* ===== verification/GuardSamples.thy ===== *)
theory GuardSamples
  imports GuardEvidence
begin

section \<open>A sample evidence set for the pre-mutation guard\<close>

text \<open>
  One run, \<open>run-7\<close>, whose SSH rule is absent and whose MongoDB rule is present, with complete capacity,
  network, lock and permission evidence; the encoders and the digest are constant.
\<close>

definition sample_operator :: Principal where
  "sample_operator = \<lparr>pq_Kind = PrincipalKindServiceAccount,
     pq_Subject = ''ctrldb-op@sample-project.iam.gserviceaccount.com''\<rparr>"

definition sample_destroyer :: Principal where
  "sample_destroyer = \<lparr>pq_Kind = PrincipalKindServiceAccount,
     pq_Subject = ''ctrldb-rm@sample-project.iam.gserviceaccount.com''\<rparr>"

definition sample_pin :: PolicyInventoryPin where
  "sample_pin = \<lparr>iv_ID = ''inventory'', iv_Version = ''v1'', iv_Fingerprint = sample_digest\<rparr>"

definition sample_encoders :: encoders where
  "sample_encoders = \<lparr>enc_capacity = sample_marshal, enc_environments = sample_marshal,
     enc_cidrs = sample_marshal, enc_permissions = sample_marshal, enc_lifetime = sample_marshal,
     enc_evidence = sample_marshal\<rparr>"

definition sample_policy :: PreMutationPolicy where
  "sample_policy = \<lparr>gp_ProjectID = ''sample-project'', gp_RunLimits = sample_limits,
     gp_TestCIDR = ''10.90.0.0/24'', gp_FirewallMutationWindow = 100,
     gp_TestOperatorPrincipal = sample_operator, gp_TestDestructivePrincipal = sample_destroyer,
     gp_PermissionInventory = sample_pin, gp_NonDisposableEnvironmentInventory = sample_pin,
     gp_ProductionCIDRInventory = sample_pin\<rparr>"

definition sample_project_resource :: ResourceIdentity where
  "sample_project_resource =
     \<lparr>ri_Project = ''sample-project'', ri_Service = CloudResourceManagerServiceName,
      ri_Kind = CloudResourceManagerProjectKind, ri_Scope = ResourceScopeGlobal, ri_Location = ''global'',
      ri_ParentName = [], ri_Name = ''sample-project'',
      ri_CanonicalKey = ''ctrldb-target-key:v1|sample-project|cloudresourcemanager.googleapis.com|global|projects|sample-project''\<rparr>"

definition sample_grant :: "string \<Rightarrow> PermissionObservation" where
  "sample_grant permission = \<lparr>pb_Identity = sample_operator, pb_Resource = sample_project_resource,
     pb_Permission = permission, pb_Granted = True\<rparr>"

definition sample_permissions :: PermissionProofInput where
  "sample_permissions =
     \<lparr>pf_Expected = map sample_grant computeFirewallInsertPermissions,
      pf_Observed = rev (map sample_grant computeFirewallInsertPermissions)\<rparr>"

definition sample_production :: EnvironmentIdentity where
  "sample_production = \<lparr>ei_Environment = ''production'', ei_Class = EnvironmentProduction\<rparr>"

definition sample_locks :: "EnvironmentLock list" where
  "sample_locks =
     [\<lparr>el_Environment = ''production'', el_Class = EnvironmentProduction, el_RunID = [],
       el_Active = False, el_Holder = zeroPrincipal\<rparr>,
      run_lock ''run-7'' sample_operator]"

definition sample_intent :: MutationIntent where
  "sample_intent = \<lparr>in_Action = MutationActionComputeFirewallInsert,
     in_Target = firewall_target run_ssh_firewall, in_RequiredPrincipalRole = TestPrincipalRoleOperator,
     in_Create = \<lparr>cd_Firewall = Some (sample_rule FirewallPurposeIAPSSH)\<rparr>\<rparr>"

definition sample_input :: "int \<Rightarrow> PreMutationInput" where
  "sample_input observed =
     \<lparr>gi_Operation = sample_operation, gi_RunID = ''run-7'', gi_Targets = [firewall_target run_ssh_firewall],
      gi_Capacity = sample_capacity, gi_TestCIDR = ''10.90.0.0/24'', gi_ProductionCIDRs = [''10.20.0.0/16''],
      gi_ExpectedNonDisposableEnvironments = [sample_production], gi_Locks = sample_locks,
      gi_MutationPrincipal = sample_operator, gi_MutationIntents = [sample_intent],
      gi_Permissions = sample_permissions, gi_FirewallRules = sample_rules,
      gi_FirewallObservations = sample_observations, gi_RunLifetime = sample_contract,
      gi_Freshness = \<lparr>fs_Revision = sample_digest, fs_ObservedAt = utc observed, fs_ValidUntil = utc 5000\<rparr>\<rparr>"

lemmas sample_guard = sample_policy_def sample_input_def sample_encoders_def

lemma sample_accounts:
  assumes "a = ''ctrldb-op'' \<or> a = ''ctrldb-rm''"
  shows "serviceAccountPattern (a @ ''@sample-project.iam.gserviceaccount.com'')"
proof -
  have split: "split_on CHR ''@'' (a @ ''@sample-project.iam.gserviceaccount.com'') =
      [a, ''sample-project.iam.gserviceaccount.com'']"
    using assms by auto
  have "projectIDPattern a"
    using assms by (auto simp: projectIDPattern_def char_class_defs)
  moreover have "has_suffix ''sample-project.iam.gserviceaccount.com'' ''.iam.gserviceaccount.com''"
    "trim_suffix ''sample-project.iam.gserviceaccount.com'' ''.iam.gserviceaccount.com'' = ''sample-project''"
    by (simp_all add: has_suffix_def trim_suffix_def)
  ultimately show ?thesis by (simp add: serviceAccountPattern_def split harness_sample_patterns(1))
qed

lemma sample_subjects:
  assumes "a = ''ctrldb-op'' \<or> a = ''ctrldb-rm''"
  shows "\<not> trim_changes (a @ ''@sample-project.iam.gserviceaccount.com'')"
    and "\<not> list_ex is_upper (a @ ''@sample-project.iam.gserviceaccount.com'')"
  using assms by (auto intro!: not_trimmed simp: byte_def is_upper_def upper_def)

lemma sample_principals: "validPrincipal sample_operator" "validPrincipal sample_destroyer"
  "sample_operator \<noteq> sample_destroyer"
  using sample_accounts [of "''ctrldb-op''"] sample_subjects [of "''ctrldb-op''"]
    sample_accounts [of "''ctrldb-rm''"] sample_subjects [of "''ctrldb-rm''"]
  by (simp_all add: validPrincipal_def sample_operator_def sample_destroyer_def)

lemma sample_pin_valid: "validateInventoryPin path sample_pin = None"
  by (simp add: validateInventoryPin_def sample_pin_def sample_digest_fingerprint)
     (simp add: identifierPattern_def inventoryVersionPattern_def char_class_defs)

lemma sample_resource: "validateResourceIdentity sample_project_resource = None"
  "ProjectAuthorizationResource ''sample-project'' = Inr sample_project_resource"
proof -
  have p: "servicePattern CloudResourceManagerServiceName" "resourceKindPattern CloudResourceManagerProjectKind"
    "resourceNamePattern ''sample-project''"
    by (simp_all add: isolation_pattern_defs service_kinds char_class_defs)
  have key: "CanonicalTargetKey (sample_project_resource\<lparr>ri_CanonicalKey := c\<rparr>) = Inr (ri_CanonicalKey sample_project_resource)" for c
    using p by (simp add: CanonicalTargetKey_Inr sample_project_resource_def harness_sample_patterns target_scopePath_def
        target_parentPath_def validateKnownResourceScope_def)
      (simp add: service_kinds)
  have "sample_project_resource = sample_project_resource\<lparr>ri_CanonicalKey := ri_CanonicalKey sample_project_resource\<rparr>"
    by simp
  then show "validateResourceIdentity sample_project_resource = None"
    unfolding validateResourceIdentity_None using key by metis
  show "ProjectAuthorizationResource ''sample-project'' = Inr sample_project_resource"
    using key [of "[]"]
    by (simp add: ProjectAuthorizationResource_def harness_sample_patterns Let_def sample_project_resource_def)
qed

lemma sample_grants_ok: "list_all (permission_ok sample_operator) (map sample_grant computeFirewallInsertPermissions)"
proof -
  have "permissionPattern ''compute.firewalls.create''" "permissionPattern ''compute.networks.updatePolicy''"
    by (simp_all add: permissionPattern_def char_class_defs)
  moreover have "\<not> isForbiddenServiceWrite ''compute.firewalls.create''"
    "\<not> isForbiddenServiceWrite ''compute.networks.updatePolicy''"
    by (simp_all add: isForbiddenServiceWrite_def permissionServiceAndAction_def Let_def)
  ultimately show ?thesis
    using sample_principals(1) sample_resource(1)
    by (simp add: computeFirewallInsertPermissions_def permission_ok_def sample_grant_def)
qed

lemma sample_permissions_proved:
  "ValidatePermissionProof sample_marshal sample_sha sample_pin sample_permissions sample_operator = None"
proof -
  have checks: "\<forall>k < length (map sample_grant computeFirewallInsertPermissions).
      validatePermissionObservation (indexedField ''expected'' (0 + k))
        (map sample_grant computeFirewallInsertPermissions ! k) = None"
    using sample_grants_ok sample_principals(1)
    by (auto simp: list_all_length validatePermissionObservation_None permission_ok_def)
  then have "PermissionInventoryFingerprint sample_marshal sample_sha
      (map sample_grant computeFirewallInsertPermissions) = Inr sample_digest"
    by (simp add: PermissionInventoryFingerprint_def check_each_None canonicalJSONFingerprint_def)
       (simp add: computeFirewallInsertPermissions_def)
  moreover have "distinct (map newPermissionObservationKey (map sample_grant computeFirewallInsertPermissions))"
    by (simp add: computeFirewallInsertPermissions_def newPermissionObservationKey_def sample_grant_def)
  ultimately show ?thesis
    unfolding ValidatePermissionProof_None
    using sample_grants_ok sample_principals(1) sample_pin_valid
    by (simp add: sample_permissions_def) (simp add: computeFirewallInsertPermissions_def sample_pin_def)
qed

lemma sample_non_disposable: "non_disposable sample_production"
  by (simp add: non_disposable_def sample_production_def TestEnvironmentLabel_def)
     (simp add: environmentPattern_def char_class_defs)

lemma sample_locks_proved: "ValidateHarnessLocks sample_locks [sample_production] ''run-7'' sample_operator = None"
  unfolding ValidateHarnessLocks_None
  using sample_run_id sample_principals(1) sample_non_disposable
  by (simp add: sample_locks_def run_lock_def foreign_lock_ok_def lock_identity_def sample_production_def)

lemma sample_policy_ok: "validatePreMutationPolicy sample_encoders sample_sha sample_policy (sample_input n) = None"
proof -
  have "expected_environments_check [sample_production] = None"
    using sample_non_disposable by (simp add: expected_environments_check_None)
  moreover have "validateProductionCIDRs [''10.20.0.0/16''] = None"
    by (simp add: validateProductionCIDRs_None sample_networks)
  moreover have "validateRunLimits sample_limits = None"
    by (simp add: validateRunLimits_def sample_limits_def duration_defs)
  ultimately show ?thesis
    using sample_principals sample_pin_valid
    by (simp add: validatePreMutationPolicy_def sample_guard harness_sample_patterns pinned_inventory_def
        NonDisposableEnvironmentInventoryFingerprint_def ProductionCIDRInventoryFingerprint_def
        policy_principal_check_def canonicalJSONFingerprint_def check_each_Cons_None
        del: check_each.simps(2))
      (simp add: sample_pin_def sample_limits_def duration_defs sample_operator_def sample_destroyer_def)
qed

lemma sample_projects:
  "ri_Project run_instance = ''sample-project''" "ri_Project run_disk = ''sample-project''"
  "ri_Project run_ssh_firewall = ''sample-project''" "ri_Project run_mongo_firewall = ''sample-project''"
  "ri_Project test_network = ''sample-project''" "ri_Project sample_project_resource = ''sample-project''"
  by (simp_all add: sample_identities sample_identity_fields sample_project_resource_def)

lemma sample_rule_project: "rule_project ''sample-project'' path field (sample_rule p) = None"
  if "p = FirewallPurposeIAPSSH \<or> p = FirewallPurposeInternalMongo"
  using that sample_projects sample_rule_identities by (auto simp: rule_project_def requireProject_def)

lemma sample_project_ok:
  "validatePreMutationProject ''sample-project'' (sample_input n) [firewall_target run_ssh_firewall] = None"
proof -
  let ?p = "requireProject ''sample-project''"
  have "check_each (\<lambda>i x. ?p (f i) (pb_Resource x)) 0 (pf_Expected sample_permissions) = None"
    "check_each (\<lambda>i x. ?p (f i) (pb_Resource x)) 0 (pf_Observed sample_permissions) = None" for f
    using sample_projects
    by (simp_all add: requireProject_def sample_permissions_def computeFirewallInsertPermissions_def sample_grant_def)
  moreover have "check_each (\<lambda>i x. rule_project ''sample-project'' (f i) [] x) 0 sample_rules = None" for f
    using sample_rule_project by (simp add: sample_rules_def)
  moreover have "check_each (\<lambda>index observation.
      let path = indexedField ''firewallObservations'' index in
      first_error [?p (path @ ''.identity.project'') (fo_Identity observation),
        (case fo_PresentRule observation of None \<Rightarrow> None
         | Some rule \<Rightarrow> rule_project ''sample-project'' path ''.presentRule'' rule)]) 0 sample_observations = None"
    using sample_rule_project sample_projects by (simp add: sample_observations_def requireProject_def Let_def)
  ultimately show ?thesis
    using sample_projects
    by (simp add: validatePreMutationProject_def sample_input_def sample_capacity_def requireProject_def)
qed

lemma sample_select:
  "SelectRunFirewallMutationTargets ''run-7'' [firewall_target run_ssh_firewall] =
     Inr [firewall_target run_ssh_firewall]"
  using sample_firewall_target_ok sample_run_id by (simp add: SelectRunFirewallMutationTargets_Inr)

lemma sample_intent_clone: "cloneMutationIntent sample_intent = sample_intent"
  by (simp add: cloneMutationIntent_def sample_intent_def cloneFirewallRules_def normalize_expected)

lemma sample_intents:
  "validateMutationIntents sample_policy (sample_input n) [firewall_target run_ssh_firewall] = Inr [sample_intent]"
proof -
  have run: "ValidateRunID (gi_RunID (sample_input n)) = None" using sample_run_id by (simp add: sample_input_def)
  have d: "distinct (map target_key [firewall_target run_ssh_firewall])" by simp
  have "intent_ok ''run-7'' (targets_by_key [firewall_target run_ssh_firewall]) (firewalls_by_key sample_rules) sample_intent"
    using sample_firewall_target_ok sample_firewall_keys
    by (simp add: intent_ok_def sample_intent_def targets_by_key_def firewalls_by_key_def sample_rules_def
        sample_rule_identities equalFirewallRule_iff)
  then show ?thesis
    unfolding validateMutationIntents_Inr [OF run d]
    by (simp add: sample_guard sample_intent_clone)
qed

lemma sample_emitted:
  "validateEmittedIntentPermissions ''sample-project'' sample_permissions sample_operator [sample_intent] = None"
  by (simp add: validateEmittedIntentPermissions_def sample_resource(2) computeFirewallInsertPermissions_def
      hasGranted_def sample_permissions_def sample_grant_def newPermissionObservationKey_def Let_def)

lemma sample_evaluated:
  assumes "1000 \<le> o1" and "o1 \<le> n" and "n < 5000"
  shows "evaluatePreMutation sample_encoders sample_sha sample_policy (sample_input o1) (utc n) =
    Inr ([sample_intent], sample_digest)"
proof -
  have times: "1000 \<le> o1" "o1 \<le> n" "n \<le> hour" using assms by (simp_all add: duration_defs)
  have context_eq: "guard_context sample_policy (sample_input o1) (utc n) = sample_context o1 n"
    by (simp add: guard_context_def sample_guard sample_context_def sample_capacity_def sample_contract_def)
  have "validateOperationBinding sample_operation = None"
    by (simp add: validateOperationBinding_def sample_operation_def harness_sample_patterns)
       (simp add: identifierPattern_def char_class_defs)
  moreover have "validateEvidenceFreshness (gi_Freshness (sample_input o1)) (utc n) = None"
    using assms sample_digest_fingerprint
    by (simp add: validateEvidenceFreshness_def sample_input_def MaxPreMutationProofLifetime_def time_defs
        duration_defs int64_defs Let_def)
  moreover have "validateCapacityProof sample_marshal sample_sha sample_capacity sample_limits ''run-7''
      [firewall_target run_ssh_firewall] = None"
    by (rule sample_capacity_proved) (simp add: run_ssh_firewall_def sample_identity_fields)
  moreover have "preMutationFingerprint sample_encoders sample_sha p i t x = Inr sample_digest" for p i t x
    by (simp add: preMutationFingerprint_def sample_encoders_def)
  ultimately show ?thesis
    using sample_policy_ok [of o1] sample_select sample_project_ok [of o1] sample_network_admitted sample_locks_proved
      sample_permissions_proved sample_firewalls_proved [OF times] sample_intents [of o1] sample_emitted context_eq
    by (simp add: evaluatePreMutation_def)
       (simp add: sample_guard)
qed

end
