(* ===== verification/GuardGuarantees.thy ===== *)
theory GuardGuarantees
  imports GuardAgreement GuardSamples
begin

section \<open>internal/isolation: what the pre-mutation guard guarantees\<close>

text \<open>
  A mutation boundary hands out the insert requests of the absent firewall rules and nothing else; the
  evidence on which it was authorized is the evidence found again at the boundary; and evidence that
  did not change is accepted again. The evidence families underneath are decided exactly.
\<close>

subsection \<open>What a boundary contains\<close>

lemma revalidated:
  assumes "RevalidatePreMutation enc sha256hex d policy fresh now = Inr b"
  obtains intents where "evaluatePreMutation enc sha256hex policy fresh now = Inr (intents, gd_fingerprint d)"
    and "b = \<lparr>gb_operation = gi_Operation fresh, gb_principal = gi_MutationPrincipal fresh,
      gb_intents = authorizeMutationIntents intents,
      gb_disposition = (if intents = [] then MutationDispositionConverged else MutationDispositionReady)\<rparr>"
    and "gi_Operation fresh = gd_operation d"
    and "t_ns (gd_authorizedAt d) \<le> t_ns now" and "t_ns (gd_authorizedAt d) < t_ns (fs_ObservedAt (gi_Freshness fresh))"
    and "t_ns (fs_ValidUntil (gi_Freshness fresh)) = t_ns (gd_validUntil d)"
    and "t_ns (gd_authorizedAt d) \<noteq> 0" and "t_ns (gd_validUntil d) \<noteq> 0"
  using assms that
  by (auto simp: RevalidatePreMutation_def bind_result_is_Inr time_Before_def time_After_def time_Equal_def time_IsZero_def)

lemma evidence_window:
  assumes "evaluatePreMutation enc sha256hex policy i t = Inr (xs, h)"
  shows "t_ns (fs_ObservedAt (gi_Freshness i)) \<le> t_ns t \<and> t_ns t < t_ns (fs_ValidUntil (gi_Freshness i)) \<and>
    t_ns (fs_ValidUntil (gi_Freshness i)) - t_ns (fs_ObservedAt (gi_Freshness i)) \<le> MaxPreMutationProofLifetime \<and>
    t_ns t \<noteq> 0 \<and> t_ns (fs_ValidUntil (gi_Freshness i)) \<noteq> 0"
proof -
  let ?f = "gi_Freshness i"
  from assms have "validateEvidenceFreshness ?f t = None" by (rule evaluated_parts)
  then have "time_Sub (fs_ValidUntil ?f) (fs_ObservedAt ?f) \<le> MaxPreMutationProofLifetime"
    "t_ns (fs_ObservedAt ?f) \<le> t_ns t" "t_ns t < t_ns (fs_ValidUntil ?f)" "t_ns t \<noteq> 0"
    "t_ns (fs_ValidUntil ?f) \<noteq> 0"
    by (simp_all add: validateEvidenceFreshness_def Let_def time_Before_def time_IsZero_def)
  then show ?thesis
    by (simp add: MaxPreMutationProofLifetime_def time_Sub_le duration_defs int64_defs)
qed

lemma clone_authorized:
  assumes "\<And>r. r \<in> set rules \<Longrightarrow> normalizeFirewallRule r = r"
  shows "cloneAuthorizedMutationIntents (map insert_request rules) = map insert_request rules"
  using assms
  by (auto simp: cloneAuthorizedMutationIntents_def authorizeMutationIntents_def insert_request_def
      cloneMutationIntent_def cloneFirewallRules_def Let_def)

text \<open>
  Two rules observed once each: one of them is not observed absent exactly when it is observed present, as it is.
\<close>

lemma two_rules_observed:
  assumes ids: "mset (map fo_Identity obs) = {#fr_Identity r, fr_Identity r'#}" and neq: "fr_Identity r \<noteq> fr_Identity r'"
    and each: "\<forall>x \<in> set obs. fo_State x = FirewallObservationAbsent \<and> fo_PresentRule x = None \<or>
      fo_State x = FirewallObservationPresent \<and> (\<exists>rule \<in> {r, r'}.
        fo_PresentRule x = Some rule \<and> fr_Identity rule = fo_Identity x)"
    and rule: "rule \<in> {r, r'}"
  shows "\<not> observed_absent obs (fr_Identity rule) \<longleftrightarrow> (\<exists>x \<in> set obs. fo_Identity x = fr_Identity rule \<and>
    fo_State x = FirewallObservationPresent \<and> fo_PresentRule x = Some rule)"
proof
  from ids have "set (map fo_Identity obs) = {fr_Identity r, fr_Identity r'}"
    by (metis set_mset_add_mset_insert set_mset_empty set_mset_mset)
  with rule obtain x where x: "x \<in> set obs" "fo_Identity x = fr_Identity rule"
    by (metis imageE insert_iff set_map singletonD)
  assume "\<not> observed_absent obs (fr_Identity rule)"
  then have "fo_State x \<noteq> FirewallObservationAbsent" using x by (auto simp: observed_absent_def list_ex_iff)
  then show "\<exists>x \<in> set obs. fo_Identity x = fr_Identity rule \<and>
      fo_State x = FirewallObservationPresent \<and> fo_PresentRule x = Some rule"
    using each x rule neq by fastforce
next
  have "mset (map fo_Identity obs) = mset [fr_Identity r, fr_Identity r']" using ids by simp
  then have "distinct (map fo_Identity obs)" using neq by (metis distinct_length_2_or_more distinct_singleton mset_eq_imp_distinct_iff)
  then have one: "x = y" if "x \<in> set obs" "y \<in> set obs" "fo_Identity x = fo_Identity y" for x y
    using that by (auto simp: distinct_map dest: inj_onD)
  assume "\<exists>x \<in> set obs. fo_Identity x = fr_Identity rule \<and>
      fo_State x = FirewallObservationPresent \<and> fo_PresentRule x = Some rule"
  then show "\<not> observed_absent obs (fr_Identity rule)"
    using one by (fastforce simp: observed_absent_def list_ex_iff)
qed

text \<open>The intents of an accepted evaluation as a caller reads them.\<close>

lemma evaluated_requests:
  assumes "evaluatePreMutation enc sha256hex policy input now = Inr (intents, h)"
  obtains fp where "context_lifetime (enc_lifetime enc) sha256hex (guard_context policy input now) = Inr fp"
    and "gi_MutationPrincipal input = gp_TestOperatorPrincipal policy"
    and "mset (gi_FirewallRules input) =
      {#expected_rule FirewallPurposeIAPSSH (gi_RunID input) (gp_ProjectID policy) fp,
        expected_rule FirewallPurposeInternalMongo (gi_RunID input) (gp_ProjectID policy) fp#}"
    and "cloneAuthorizedMutationIntents (authorizeMutationIntents intents) =
      sort_key (\<lambda>i. target_key (ai_target i)) (map insert_request
        (filter (\<lambda>r. observed_absent (gi_FirewallObservations input) (fr_Identity r))
          [expected_rule FirewallPurposeIAPSSH (gi_RunID input) (gp_ProjectID policy) fp,
           expected_rule FirewallPurposeInternalMongo (gi_RunID input) (gp_ProjectID policy) fp]))"
    and "cloneAuthorizedMutationIntents (authorizeMutationIntents intents) = [] \<longleftrightarrow> intents = []"
proof (rule evaluated_intents [OF assms])
  fix fp
  let ?ssh = "expected_rule FirewallPurposeIAPSSH (gi_RunID input) (gp_ProjectID policy) fp"
  let ?mongo = "expected_rule FirewallPurposeInternalMongo (gi_RunID input) (gp_ProjectID policy) fp"
  let ?fixed = "[?ssh, ?mongo]" and ?rules = "gi_FirewallRules input" and ?k = "\<lambda>i. target_key (ai_target i)"
  let ?absent = "\<lambda>r. observed_absent (gi_FirewallObservations input) (fr_Identity r)"
  assume fp: "context_lifetime (enc_lifetime enc) sha256hex (guard_context policy input now) = Inr fp"
    and principal: "gi_MutationPrincipal input = gp_TestOperatorPrincipal policy"
    and rules: "mset ?rules = {#?ssh, ?mongo#}"
    and authorized: "authorizeMutationIntents intents = sort_key ?k (map insert_request (filter ?absent ?rules))"
  have "rule_key ?ssh \<noteq> rule_key ?mongo"
    by (simp add: expected_rule_def Let_def global_compute_def purpose_suffix_def)
  then have keys: "distinct (map ?k (map insert_request ?fixed))" by (simp add: insert_request_def)
  have "mset ?rules = mset ?fixed" using rules by simp
  then have "mset (map insert_request (filter ?absent ?rules)) = mset (map insert_request (filter ?absent ?fixed))"
    by (metis mset_filter mset_map)
  moreover have "distinct (map ?k (map insert_request (filter ?absent ?fixed)))" using keys by auto
  ultimately have sorted: "authorizeMutationIntents intents = sort_key ?k (map insert_request (filter ?absent ?fixed))"
    unfolding authorized by (metis sort_key_unique)
  have "authorizeMutationIntents intents =
      map insert_request (sort_key (?k \<circ> insert_request) (filter ?absent ?fixed))"
    unfolding sorted by (rule sort_key_inj_key_eq) (use keys in \<open>auto simp: inj_on_def insert_request_def comp_def\<close>)
  moreover have "normalizeFirewallRule r = r"
    if "r \<in> set (sort_key (?k \<circ> insert_request) (filter ?absent ?fixed))" for r
  proof -
    have "r \<in> set ?fixed" using that by (metis filter_is_subset set_sort subsetD)
    then show ?thesis using normalize_expected by auto
  qed
  ultimately have "cloneAuthorizedMutationIntents (authorizeMutationIntents intents) = authorizeMutationIntents intents"
    using clone_authorized by metis
  moreover have "(authorizeMutationIntents intents = []) = (intents = [])" by (simp add: authorizeMutationIntents_def)
  ultimately show thesis using fp principal rules sorted by (intro that) simp_all
qed

text \<open>
  C2. The only thing a mutation boundary ever lets the harness do is to create the missing firewall
  rules of its run. A boundary that revalidation returns names the configured test operator and the
  authorized operation. The fresh observations are one of each of the two fixed rules, either absent or
  present exactly as the fixed rule; the requests a caller reads are exactly one insert, in the order of the
  target keys, for each rule observed absent; and convergence is reported, with no request, exactly when both
  rules were observed present.
\<close>

theorem boundary_inserts_the_absent_rules:
  assumes "RevalidatePreMutation enc sha256hex d policy fresh now = Inr b"
  shows "MutationBoundary_Principal b = gp_TestOperatorPrincipal policy \<and>
    MutationBoundary_Operation b = gd_operation d \<and>
    (\<exists>fp ssh mongo. context_lifetime (enc_lifetime enc) sha256hex (guard_context policy fresh now) = Inr fp \<and>
      ssh = expected_rule FirewallPurposeIAPSSH (gi_RunID fresh) (gp_ProjectID policy) fp \<and>
      mongo = expected_rule FirewallPurposeInternalMongo (gi_RunID fresh) (gp_ProjectID policy) fp \<and>
      mset (map fo_Identity (gi_FirewallObservations fresh)) = {#fr_Identity ssh, fr_Identity mongo#} \<and>
      (\<forall>x \<in> set (gi_FirewallObservations fresh).
        fo_State x = FirewallObservationAbsent \<and> fo_PresentRule x = None \<or>
        fo_State x = FirewallObservationPresent \<and> (\<exists>rule \<in> {ssh, mongo}.
          fo_PresentRule x = Some rule \<and> fr_Identity rule = fo_Identity x)) \<and>
      MutationBoundary_Intents b = sort_key (\<lambda>i. target_key (ai_target i)) (map insert_request
        (filter (\<lambda>r. observed_absent (gi_FirewallObservations fresh) (fr_Identity r)) [ssh, mongo])) \<and>
      (MutationBoundary_Disposition b = MutationDispositionConverged \<longleftrightarrow>
        (\<forall>rule \<in> {ssh, mongo}. \<exists>x \<in> set (gi_FirewallObservations fresh).
          fo_Identity x = fr_Identity rule \<and> fo_State x = FirewallObservationPresent \<and>
          fo_PresentRule x = Some rule)))  \<and>
    (MutationBoundary_Disposition b = MutationDispositionConverged \<longleftrightarrow> MutationBoundary_Intents b = [])"
proof -
  from assms obtain intents where
    evaluated: "evaluatePreMutation enc sha256hex policy fresh now = Inr (intents, gd_fingerprint d)"
    and b: "b = \<lparr>gb_operation = gi_Operation fresh, gb_principal = gi_MutationPrincipal fresh,
      gb_intents = authorizeMutationIntents intents,
      gb_disposition = (if intents = [] then MutationDispositionConverged else MutationDispositionReady)\<rparr>"
    and op: "gi_Operation fresh = gd_operation d"
    by (rule revalidated)
  let ?rule = "\<lambda>purpose fp. expected_rule purpose (gi_RunID fresh) (gp_ProjectID policy) fp"
  let ?obs = "gi_FirewallObservations fresh"
  from evaluated obtain fp where
    fp: "context_lifetime (enc_lifetime enc) sha256hex (guard_context policy fresh now) = Inr fp"
    and principal: "gi_MutationPrincipal fresh = gp_TestOperatorPrincipal policy"
    and rules: "mset (gi_FirewallRules fresh) = {#?rule FirewallPurposeIAPSSH fp, ?rule FirewallPurposeInternalMongo fp#}"
    and requests: "cloneAuthorizedMutationIntents (authorizeMutationIntents intents) =
      sort_key (\<lambda>i. target_key (ai_target i)) (map insert_request
        (filter (\<lambda>r. observed_absent ?obs (fr_Identity r))
          [?rule FirewallPurposeIAPSSH fp, ?rule FirewallPurposeInternalMongo fp]))"
    and empty: "cloneAuthorizedMutationIntents (authorizeMutationIntents intents) = [] \<longleftrightarrow> intents = []"
    by (rule evaluated_requests)
  let ?ssh = "?rule FirewallPurposeIAPSSH fp" and ?mongo = "?rule FirewallPurposeInternalMongo fp"
  have members: "set (gi_FirewallRules fresh) = {?ssh, ?mongo}"
    using rules by (metis set_mset_add_mset_insert set_mset_empty set_mset_mset)
  have ids: "mset (map fo_Identity ?obs) = {#fr_Identity ?ssh, fr_Identity ?mongo#}"
    using evaluated_observations [OF evaluated] rules by simp
  have each: "\<forall>x \<in> set ?obs. fo_State x = FirewallObservationAbsent \<and> fo_PresentRule x = None \<or>
      fo_State x = FirewallObservationPresent \<and> (\<exists>rule \<in> {?ssh, ?mongo}.
        fo_PresentRule x = Some rule \<and> fr_Identity rule = fo_Identity x)"
    using evaluated_observations [OF evaluated] unfolding members by blast
  have "fr_Identity ?ssh \<noteq> fr_Identity ?mongo"
    by (simp add: expected_rule_def Let_def global_compute_def purpose_suffix_def)
  note present = two_rules_observed [OF ids this each]
  have "intents = [] \<longleftrightarrow> (\<forall>rule \<in> {?ssh, ?mongo}. \<not> observed_absent ?obs (fr_Identity rule))"
    unfolding empty [symmetric] requests by (simp add: filter_empty_conv)
  then have converged: "intents = [] \<longleftrightarrow> (\<forall>rule \<in> {?ssh, ?mongo}. \<exists>x \<in> set ?obs. fo_Identity x = fr_Identity rule \<and>
      fo_State x = FirewallObservationPresent \<and> fo_PresentRule x = Some rule)"
    using present by blast
  have reads: "MutationBoundary_Principal b = gi_MutationPrincipal fresh" "MutationBoundary_Operation b = gi_Operation fresh"
    "MutationBoundary_Intents b = cloneAuthorizedMutationIntents (authorizeMutationIntents intents)"
    "MutationBoundary_Disposition b = MutationDispositionConverged \<longleftrightarrow> intents = []"
    by (simp_all add: b MutationBoundary_Principal_def MutationBoundary_Operation_def MutationBoundary_Intents_def
        MutationBoundary_Disposition_def)
  show ?thesis
    unfolding reads principal op empty
    by (intro conjI refl exI [of _ fp] exI [of _ ?ssh] exI [of _ ?mongo] fp ids each requests converged)
qed

lemma sample_authorized:
  "AuthorizePreMutation sample_encoders sample_sha sample_policy (sample_input 1500) (utc 2000) =
     Inr \<lparr>gd_fingerprint = sample_digest, gd_operation = sample_operation, gd_authorizedAt = utc 2000,
          gd_validUntil = utc 5000\<rparr>"
  using sample_evaluated [of 1500 2000]
  by (simp add: AuthorizePreMutation_def sample_input_def)

definition sample_boundary :: MutationBoundary where
  "sample_boundary = \<lparr>gb_operation = sample_operation, gb_principal = sample_operator,
     gb_intents = authorizeMutationIntents [sample_intent], gb_disposition = MutationDispositionReady\<rparr>"

definition sample_decision :: PreMutationDecision where
  "sample_decision = \<lparr>gd_fingerprint = sample_digest, gd_operation = sample_operation,
     gd_authorizedAt = utc 2000, gd_validUntil = utc 5000\<rparr>"

lemma sample_revalidated:
  "RevalidatePreMutation sample_encoders sample_sha sample_decision sample_policy (sample_input 2500) (utc 3000) =
     Inr sample_boundary"
proof -
  have "evaluatePreMutation sample_encoders sample_sha sample_policy (sample_input 2500) (utc 3000) =
      Inr ([sample_intent], sample_digest)"
    by (rule sample_evaluated) simp_all
  then show ?thesis
    unfolding RevalidatePreMutation_def
    by (simp add: sample_decision_def sample_boundary_def time_defs)
       (simp add: sample_input_def utc_def)
qed

lemma boundary_inserts_the_absent_rules_witness:
  "MutationBoundary_Principal sample_boundary = sample_operator \<and>
     (MutationBoundary_Disposition sample_boundary = MutationDispositionConverged \<longleftrightarrow>
      MutationBoundary_Intents sample_boundary = [])"
  using boundary_inserts_the_absent_rules [OF sample_revalidated] by (simp add: sample_policy_def)

subsection \<open>The evidence does not change between authorization and the boundary\<close>

text \<open>
  C1. There is no window between check and use. If an input is authorized at one time and fresh
  evidence revalidated against that decision at a later time, and the digest of the two canonical
  documents does not collide, then the policy is the same, the evidence is the same up to the order in
  which it was discovered, the fresh observation is strictly newer than the authorization, it has the
  same fixed expiry, which is still ahead, and the authorized observation is at most five minutes old.
\<close>

theorem boundary_evidence_unchanged:
  assumes "AuthorizePreMutation enc sha256hex policy input t1 = Inr d"
    and "RevalidatePreMutation enc sha256hex d policy' fresh t2 = Inr b"
    and collision_free: "map_option sha256hex (enc_evidence enc (evidence_document policy input)) =
      map_option sha256hex (enc_evidence enc (evidence_document policy' fresh)) \<Longrightarrow>
      evidence_document policy input = evidence_document policy' fresh"
  shows "policy' = policy \<and> same_evidence input fresh \<and>
    t_ns t1 < t_ns (fs_ObservedAt (gi_Freshness fresh)) \<and> t_ns (fs_ObservedAt (gi_Freshness fresh)) \<le> t_ns t2 \<and>
    t_ns t2 < t_ns (fs_ValidUntil (gi_Freshness input)) \<and>
    t_ns (fs_ValidUntil (gi_Freshness fresh)) = t_ns (fs_ValidUntil (gi_Freshness input)) \<and>
    t_ns t2 - t_ns (fs_ObservedAt (gi_Freshness input)) \<le> MaxPreMutationProofLifetime"
proof -
  from assms(1) obtain intents h where a: "evaluatePreMutation enc sha256hex policy input t1 = Inr (intents, h)"
    and d: "d = \<lparr>gd_fingerprint = h, gd_operation = gi_Operation input, gd_authorizedAt = t1,
      gd_validUntil = fs_ValidUntil (gi_Freshness input)\<rparr>"
    by (auto simp: AuthorizePreMutation_def bind_result_is_Inr)
  from assms(2) obtain intents' where
    f: "evaluatePreMutation enc sha256hex policy' fresh t2 = Inr (intents', gd_fingerprint d)"
    and times: "t_ns (gd_authorizedAt d) < t_ns (fs_ObservedAt (gi_Freshness fresh))"
      "t_ns (fs_ValidUntil (gi_Freshness fresh)) = t_ns (gd_validUntil d)"
    by (rule revalidated)
  have "gd_fingerprint d = h" using d by simp
  then have "evidence_document policy input = evidence_document policy' fresh"
    using evaluated_orderly(2) [OF a] evaluated_orderly(2) [OF f] by (intro collision_free) (simp only:)
  then have same: "policy = policy' \<and> same_evidence input fresh"
    using documents_equal [OF evaluated_orderly(1) [OF a] evaluated_orderly(1) [OF f]] by blast
  show ?thesis using same times d evidence_window [OF a] evidence_window [OF f] by simp
qed

lemma boundary_evidence_unchanged_witness: "same_evidence (sample_input 1500) (sample_input 2500)"
proof -
  have "evidence_document sample_policy (sample_input 1500) = evidence_document sample_policy (sample_input 2500)"
    by (simp add: evidence_document_def canonical_evidence_def sample_input_def Let_def)
  then show ?thesis
    using boundary_evidence_unchanged [OF sample_authorized [folded sample_decision_def] sample_revalidated]
    by blast
qed

text \<open>
  C28. Evidence that did not change is accepted again: after an authorization, a later observation with
  the same evidence in any order and the same expiry, that passes every proof at the boundary time,
  is revalidated whatever the encoder and the digest are.
\<close>

theorem unchanged_evidence_revalidates:
  assumes "AuthorizePreMutation enc sha256hex policy input t1 = Inr d"
    and "evaluatePreMutation enc sha256hex policy fresh t2 = Inr r"
    and "same_evidence input fresh"
    and "t_ns t1 < t_ns (fs_ObservedAt (gi_Freshness fresh))"
    and "t_ns (fs_ValidUntil (gi_Freshness fresh)) = t_ns (fs_ValidUntil (gi_Freshness input))"
  shows "\<exists>b. RevalidatePreMutation enc sha256hex d policy fresh t2 = Inr b \<and>
    mset (gb_intents b) = mset (authorizeMutationIntents (gi_MutationIntents input))"
proof -
  from assms(1) obtain intents h where a: "evaluatePreMutation enc sha256hex policy input t1 = Inr (intents, h)"
    and d: "d = \<lparr>gd_fingerprint = h, gd_operation = gi_Operation input, gd_authorizedAt = t1,
      gd_validUntil = fs_ValidUntil (gi_Freshness input)\<rparr>"
    by (auto simp: AuthorizePreMutation_def bind_result_is_Inr)
  obtain intents' h' where r: "r = (intents', h')" by (cases r)
  note f = assms(2) [unfolded r]
  have "evidence_document policy input = evidence_document policy fresh"
    using documents_equal [OF evaluated_orderly(1) [OF a] evaluated_orderly(1) [OF f]] assms(3) by blast
  then have h: "h' = h"
    using evaluated_orderly(2) [OF a] evaluated_orderly(2) [OF f] by simp
  have times: "t_ns t1 \<noteq> 0 \<and> t_ns t2 \<noteq> 0 \<and> t_ns (fs_ValidUntil (gi_Freshness input)) \<noteq> 0 \<and>
      t_ns (fs_ObservedAt (gi_Freshness fresh)) \<le> t_ns t2"
    using evidence_window [OF a] evidence_window [OF f] by blast
  have "gi_Operation fresh = gi_Operation input" "mset (gi_MutationIntents fresh) = mset (gi_MutationIntents input)"
    using assms(3) by (simp_all add: same_evidence_def)
  then show ?thesis
    using times assms(4,5) f h d evaluated_orderly(3) [OF f]
    by (simp add: RevalidatePreMutation_def time_IsZero_def time_Before_def time_After_def time_Equal_def
        authorizeMutationIntents_def)
qed

lemma unchanged_evidence_revalidates_witness:
  "\<exists>b. RevalidatePreMutation sample_encoders sample_sha sample_decision sample_policy (sample_input 2500) (utc 3000) = Inr b"
proof -
  have "evaluatePreMutation sample_encoders sample_sha sample_policy (sample_input 2500) (utc 3000) =
      Inr ([sample_intent], sample_digest)"
    by (rule sample_evaluated) simp_all
  moreover have "same_evidence (sample_input 1500) (sample_input 2500)"
    by (simp add: same_evidence_def sample_input_def)
  moreover have "t_ns (utc 2000) < t_ns (fs_ObservedAt (gi_Freshness (sample_input 2500)))"
    "t_ns (fs_ValidUntil (gi_Freshness (sample_input 2500))) = t_ns (fs_ValidUntil (gi_Freshness (sample_input 1500)))"
    by (simp_all add: sample_input_def utc_def)
  ultimately show ?thesis
    using unchanged_evidence_revalidates [OF sample_authorized [folded sample_decision_def]] by blast
qed

end
