(* ===== verification/EvidenceGuarantees.thy ===== *)
theory EvidenceGuarantees
  imports GuardSamples
begin

section \<open>internal/isolation: what each family of evidence guarantees\<close>

text \<open>
  Permissions, locks, permanent singletons, cleanup of firewalls and selection of targets: each guard
  decides exactly what its evidence says.
\<close>

subsection \<open>Permissions\<close>

text \<open>
  C33. The permission proof is exact. When it accepts, the observed tuples are the expected tuples in
  some order, none missing, none extra, each about the mutation principal and a canonical resource; the
  pinned fingerprint is that of the expectation; and no granted permission of Monitoring, Scheduler or
  Cloud Run is anything but one of the three read actions or the two named read permissions.
\<close>

theorem permission_proof_exact:
  assumes "ValidatePermissionProof marshal sha256hex pin input p = None"
  shows "mset (pf_Observed input) = mset (pf_Expected input) \<and>
    PermissionInventoryFingerprint marshal sha256hex (pf_Expected input) = Inr (iv_Fingerprint pin) \<and>
    list_all (\<lambda>x. pb_Identity x = p \<and> validateResourceIdentity (pb_Resource x) = None \<and>
      (pb_Granted x \<and> hd (split_on CHR ''.'' (pb_Permission x)) \<in> {''monitoring'', ''cloudscheduler'', ''run''} \<longrightarrow>
        last (split_on CHR ''.'' (pb_Permission x)) \<in> {''get'', ''list'', ''getIamPolicy''} \<or>
        pb_Permission x \<in> {''monitoring.timeSeries.query'', ''cloudscheduler.jobs.fullView''}))
      (pf_Observed input)"
proof -
  note accepted = assms [unfolded ValidatePermissionProof_None]
  have "pb_Identity x = p \<and> validateResourceIdentity (pb_Resource x) = None \<and>
      (pb_Granted x \<and> hd (split_on CHR ''.'' (pb_Permission x)) \<in> {''monitoring'', ''cloudscheduler'', ''run''} \<longrightarrow>
        last (split_on CHR ''.'' (pb_Permission x)) \<in> {''get'', ''list'', ''getIamPolicy''} \<or>
        pb_Permission x \<in> {''monitoring.timeSeries.query'', ''cloudscheduler.jobs.fullView''})"
    if "x \<in> set (pf_Observed input)" for x
  proof -
    have "x \<in> set (pf_Expected input)" using accepted that mset_eq_setD by blast
    then have ok: "permission_ok p x" using accepted by (simp add: list_all_iff)
    obtain w ws where parts: "split_on CHR ''.'' (pb_Permission x) = w # ws" "2 \<le> length ws"
      using ok by (cases "split_on CHR ''.'' (pb_Permission x)") (auto simp: permission_ok_def permissionPattern_def)
    then have "permissionServiceAndAction (pb_Permission x) = Some (w, last (w # ws))"
      by (auto simp: permissionServiceAndAction_def Let_def last_conv_nth)
    then show ?thesis
      using ok parts by (auto simp: permission_ok_def isForbiddenServiceWrite_def split: if_splits)
  qed
  with accepted show ?thesis by (simp add: list_all_iff)
qed

lemma permission_proof_exact_witness:
  "mset (pf_Observed sample_permissions) = mset (pf_Expected sample_permissions)"
  using permission_proof_exact [OF sample_permissions_proved] by blast

subsection \<open>Locks\<close>

text \<open>
  The lock evidence is decided exactly. For a valid run, a canonical principal and a non-empty,
  unambiguous set of declared environments, the guard accepts if and only if the harness holds the one
  disposable lock, that of its run, and the other observations are exactly the declared environments,
  each observed once, unheld or held by somebody else.
\<close>

theorem harness_locks_exact:
  assumes "ValidateRunID r = None" and "validPrincipal p" and "expected_environments_check expected = None"
  shows "ValidateHarnessLocks locks expected r p = None \<longleftrightarrow>
    filter (\<lambda>l. el_Class l = EnvironmentDisposable) locks =
      [\<lparr>el_Environment = TestEnvironmentLabel, el_Class = EnvironmentDisposable, el_RunID = r,
        el_Active = True, el_Holder = p\<rparr>] \<and>
    (let others = filter (\<lambda>l. el_Class l \<noteq> EnvironmentDisposable) locks in
     mset (map (\<lambda>l. (el_Environment l, el_Class l)) others) =
       mset (map (\<lambda>e. (ei_Environment e, ei_Class e)) expected) \<and>
     list_all (\<lambda>l. el_RunID l = [] \<and>
       (if el_Active l then validPrincipal (el_Holder l) \<and> el_Holder l \<noteq> p
        else el_Holder l = zeroPrincipal)) others)"
proof -
  let ?others = "filter (\<lambda>l. el_Class l \<noteq> EnvironmentDisposable) locks"
  let ?pair = "\<lambda>e. (ei_Environment e, ei_Class e)"
  have unpair: "image_mset (\<lambda>(n, c). \<lparr>ei_Environment = n, ei_Class = c\<rparr>) (image_mset ?pair M) = M"
    for M :: "EnvironmentIdentity multiset"
  proof (induction M)
    case (add x M)
    then show ?case by (cases x) simp
  qed simp
  have "mset (map lock_identity ?others) = mset expected \<longleftrightarrow>
      image_mset ?pair (mset (map lock_identity ?others)) = image_mset ?pair (mset expected)"
  proof
    assume a: "image_mset ?pair (mset (map lock_identity ?others)) = image_mset ?pair (mset expected)"
    show "mset (map lock_identity ?others) = mset expected"
      by (rule box_equals [OF _ unpair unpair]) (simp only: a)
  qed simp
  moreover have "image_mset ?pair (mset (map lock_identity ?others)) =
      mset (map (\<lambda>l. (el_Environment l, el_Class l)) ?others)"
    by (simp add: lock_identity_def multiset.map_comp comp_def)
  ultimately have "mset (map lock_identity ?others) = mset expected \<longleftrightarrow>
      mset (map (\<lambda>l. (el_Environment l, el_Class l)) ?others) = mset (map ?pair expected)"
    by (simp only: mset_map)
  then show ?thesis
    using assms
    by (auto simp: ValidateHarnessLocks_None expected_environments_check_None run_lock_def Let_def
        foreign_lock_ok_def list_all_iff)
qed

lemma harness_locks_exact_witness:
  "ValidateHarnessLocks [run_lock ''run-7'' sample_operator] [sample_production] ''run-7'' sample_operator \<noteq> None"
proof -
  have "expected_environments_check [sample_production] = None"
    using sample_non_disposable by (simp add: expected_environments_check_None)
  from harness_locks_exact [OF sample_run_id sample_principals(1) this, of "[run_lock ''run-7'' sample_operator]"]
  show ?thesis by (simp add: run_lock_def Let_def del: not_None_eq)
qed

subsection \<open>Permanent singletons\<close>

lemma fresh_expectation:
  assumes "validateOwnershipRecordExpectation r now = None"
  shows "ox_RecordGeneration r \<noteq> 0 \<and> isSHA256Fingerprint (ox_Revision r) \<and>
    t_ns (ox_ObservedAt r) \<le> t_ns now \<and> t_ns now < t_ns (ox_ValidUntil r) \<and>
    t_ns (ox_ValidUntil r) - t_ns (ox_ObservedAt r) \<le> MaxPreMutationProofLifetime"
  using assms validateUTCWindow_bounded [of "ox_ObservedAt r" "ox_ValidUntil r" MaxPreMutationProofLifetime]
  by (simp add: validateOwnershipRecordExpectation_def time_Before_def MaxPreMutationProofLifetime_def
      duration_defs int64_defs)

lemma fresh_singleton:
  assumes "validatePermanentSingletonObservation project v now = None"
  shows "validateResourceIdentity (pv_Identity v) = None \<and> ri_Project (pv_Identity v) = project \<and>
    pv_ProviderID v \<noteq> [] \<and> t_ns (pv_ObservedAt v) \<le> t_ns now \<and> t_ns now < t_ns (pv_ValidUntil v) \<and>
    t_ns (pv_ValidUntil v) - t_ns (pv_ObservedAt v) \<le> MaxPreMutationProofLifetime"
  using assms validateUTCWindow_bounded [of "pv_ObservedAt v" "pv_ValidUntil v" MaxPreMutationProofLifetime]
  by (simp add: validatePermanentSingletonObservation_def time_Before_def MaxPreMutationProofLifetime_def
      duration_defs int64_defs)

lemma owned_singleton:
  assumes "ValidatePermanentSingletonOwnership marshal sha256hex proof now = None"
  shows "validatePermanentSingletonObservation (pp_ProjectID proof) (pp_Observed proof) now = None"
    and "validateOwnershipRecordExpectation (pp_ExpectedRecord proof) now = None"
    and "pv_Identity (pp_Observed proof) = px_Identity (pp_Expected proof)"
    and "pv_DesiredStateFingerprint (pp_Observed proof) = px_DesiredStateFingerprint (pp_Expected proof)"
    and "pv_DescriptionFingerprint (pp_Observed proof) = px_DescriptionFingerprint (pp_Expected proof)"
    and "PermanentOwnershipRecordFingerprint marshal sha256hex (pp_Record proof) = Inr (ox_Revision (pp_ExpectedRecord proof))"
    and "po_RecordID (pp_Record proof) = ox_RecordID (pp_ExpectedRecord proof)"
    and "po_RecordGeneration (pp_Record proof) = ox_RecordGeneration (pp_ExpectedRecord proof)"
    and "po_Identity (pp_Record proof) = px_Identity (pp_Expected proof)"
    and "po_ProviderID (pp_Record proof) = pv_ProviderID (pp_Observed proof)"
    and "po_DesiredStateFingerprint (pp_Record proof) = px_DesiredStateFingerprint (pp_Expected proof)"
    and "po_DescriptionFingerprint (pp_Record proof) = px_DescriptionFingerprint (pp_Expected proof)"
  using assms unfolding ValidatePermanentSingletonOwnership_def Let_def
  by (auto simp: bind_result_is_Inr)

text \<open>
  A permanent singleton is never adopted by its name. When the proof accepts, the observed
  resource, the desired state and the durable record agree on identity, state and description, the
  record names the observed provider ID, its contents have the revision that the control store was seen
  to hold, and both observations contain the boundary time and span at most five minutes. Two accepted
  proofs against one store revision concern the same provider resource, unless the digest collides.
\<close>

theorem singleton_ownership_binds:
  assumes "ValidatePermanentSingletonOwnership marshal sha256hex proof now = None"
    and "ValidatePermanentSingletonOwnership marshal sha256hex other now' = None"
    and "ox_Revision (pp_ExpectedRecord other) = ox_Revision (pp_ExpectedRecord proof)"
    and collision_free: "map_option sha256hex (marshal (pp_Record other)) = map_option sha256hex (marshal (pp_Record proof)) \<Longrightarrow>
      pp_Record other = pp_Record proof"
  shows "pv_Identity (pp_Observed proof) = po_Identity (pp_Record proof) \<and>
    pv_ProviderID (pp_Observed proof) = po_ProviderID (pp_Record proof) \<and>
    pv_ProviderID (pp_Observed proof) \<noteq> [] \<and>
    pv_DesiredStateFingerprint (pp_Observed proof) = po_DesiredStateFingerprint (pp_Record proof) \<and>
    pv_DescriptionFingerprint (pp_Observed proof) = po_DescriptionFingerprint (pp_Record proof) \<and>
    ri_Project (pv_Identity (pp_Observed proof)) = pp_ProjectID proof \<and>
    t_ns (pv_ObservedAt (pp_Observed proof)) \<le> t_ns now \<and>
    t_ns now - t_ns (pv_ObservedAt (pp_Observed proof)) < MaxPreMutationProofLifetime \<and>
    t_ns now - t_ns (ox_ObservedAt (pp_ExpectedRecord proof)) < MaxPreMutationProofLifetime \<and>
    pv_Identity (pp_Observed other) = pv_Identity (pp_Observed proof) \<and>
    pv_ProviderID (pp_Observed other) = pv_ProviderID (pp_Observed proof)"
proof -
  note a = owned_singleton [OF assms(1)] and b = owned_singleton [OF assms(2)]
  have digest: "map_option sha256hex (marshal (pp_Record p)) = Some (ox_Revision (pp_ExpectedRecord p))"
    if "PermanentOwnershipRecordFingerprint marshal sha256hex (pp_Record p) = Inr (ox_Revision (pp_ExpectedRecord p))" for p
    using that by (auto simp: PermanentOwnershipRecordFingerprint_def canonicalJSONFingerprint_Inr)
  have "pp_Record other = pp_Record proof"
    by (rule collision_free) (simp only: digest [OF a(6)] digest [OF b(6)] assms(3))
  then have same: "pv_Identity (pp_Observed other) = pv_Identity (pp_Observed proof)"
    "pv_ProviderID (pp_Observed other) = pv_ProviderID (pp_Observed proof)"
    using a(3,9,10) b(3,9,10) by simp_all
  from fresh_singleton [OF a(1)] fresh_expectation [OF a(2)] same show ?thesis
    using a(3-5,9-12) by auto
qed

definition sample_singleton :: PermanentSingletonProof where
  "sample_singleton =
     \<lparr>pp_ProjectID = ''sample-project'',
      pp_Expected = \<lparr>px_Identity = test_network, px_DesiredStateFingerprint = sample_digest,
        px_DescriptionFingerprint = sample_digest\<rparr>,
      pp_ExpectedRecord = \<lparr>ox_RecordID = ''vpc'', ox_RecordGeneration = 3, ox_Revision = sample_digest,
        ox_ObservedAt = utc 100, ox_ValidUntil = utc 900\<rparr>,
      pp_Observed = \<lparr>pv_Identity = test_network, pv_ProviderID = ''77'',
        pv_DesiredStateFingerprint = sample_digest, pv_DescriptionFingerprint = sample_digest,
        pv_Revision = sample_digest, pv_ObservedAt = utc 200, pv_ValidUntil = utc 800\<rparr>,
      pp_Record = \<lparr>po_SchemaVersion = OwnershipRecordSchemaV1, po_RecordID = ''vpc'', po_RecordGeneration = 3,
        po_Identity = test_network, po_ProviderID = ''77'', po_DesiredStateFingerprint = sample_digest,
        po_DescriptionFingerprint = sample_digest\<rparr>\<rparr>"

lemma sample_singleton_owned:
  "ValidatePermanentSingletonOwnership sample_marshal sample_sha sample_singleton (utc 500) = None"
proof -
  have i: "ri_Project test_network = ''sample-project''" "ri_Service test_network = ComputeServiceName"
    "ri_Kind test_network = ComputeNetworkKind" "ri_Scope test_network = ResourceScopeGlobal"
    by (simp_all add: test_network_def sample_identity_fields)
  have support: "supportedPermanentSingletonIdentity test_network" "permanentSingletonSupportsDescription test_network"
    by (simp_all add: supportedPermanentSingletonIdentity_def permanentSingletonSupportsDescription_def i Let_def)
       (simp_all add: service_kinds)
  have "\<not> trim_changes ''77''" by (rule not_trimmed) (simp add: byte_def)
  moreover have "identifierPattern ''vpc''" by (simp add: identifierPattern_def char_class_defs)
  ultimately show ?thesis
    using support sample_identities_valid(5) sample_digest_fingerprint harness_sample_patterns
    by (simp add: ValidatePermanentSingletonOwnership_def sample_singleton_def Let_def i bind_result_is_Inr
        validatePermanentSingletonExpectation_def validatePermanentSingletonObservation_def
        validateOwnershipRecordExpectation_def validatePermanentSingletonFingerprints_def
        PermanentOwnershipRecordFingerprint_def canonicalJSONFingerprint_def validateUTCWindow_None
        valid_utc_def MaxPreMutationProofLifetime_def time_defs duration_defs int64_defs)
qed

lemma singleton_ownership_binds_witness:
  "pv_ProviderID (pp_Observed sample_singleton) = po_ProviderID (pp_Record sample_singleton)"
  using singleton_ownership_binds [OF sample_singleton_owned sample_singleton_owned refl refl] by blast

subsection \<open>Cleanup of a firewall\<close>

text \<open>
  A firewall is deleted only on the evidence of its run's durable record. An accepted cleanup
  target is one of the two firewalls of the recorded run in the configured project, carries the
  description that its lifetime record determines, the store observation has the digest of that record
  and its generation, the provider observation is less than five minutes old and not older than the run,
  the recorded lifetime is positive and within the maximum, and the nightly wipe has waited for its end.
\<close>

theorem firewall_cleanup_needs_its_record:
  assumes "ValidateRunFirewallCleanupTarget marshal sha256hex policy target mode now maxLifetime = None"
    and "maxLifetime < max_int64"
  shows "(\<exists>suffix \<in> {''-iap-ssh'', ''-internal''}. rt_Identity target =
      global_compute (cp_ProjectID policy) ComputeFirewallKind
        (TestResourcePrefix @ lc_RunID (rt_RunLifetime target) @ suffix)) \<and>
    RunLifetimeContractFingerprint marshal sha256hex (rt_RunLifetime target) =
      Inr (ox_Revision (rt_ExpectedRecord target)) \<and>
    rt_Description target =
      firewallDescriptionPrefix @ ox_Revision (rt_ExpectedRecord target) @ firewallDescriptionSuffix \<and>
    lc_ProjectID (rt_RunLifetime target) = cp_ProjectID policy \<and>
    ox_RecordGeneration (rt_ExpectedRecord target) = lc_RecordGeneration (rt_RunLifetime target) \<and>
    t_ns (lc_CreatedAt (rt_RunLifetime target)) \<le> t_ns (rt_ObservedAt target) \<and>
    t_ns (rt_ObservedAt target) \<le> t_ns now \<and>
    t_ns now - t_ns (rt_ObservedAt target) < MaxPreMutationProofLifetime \<and>
    t_ns (lc_CreatedAt (rt_RunLifetime target)) < t_ns (lc_ExpiresAt (rt_RunLifetime target)) \<and>
    t_ns (lc_ExpiresAt (rt_RunLifetime target)) - t_ns (lc_CreatedAt (rt_RunLifetime target)) \<le> maxLifetime \<and>
    (mode = RunFirewallCleanupRecordedTeardown \<or>
     mode = RunFirewallCleanupExpiredWipe \<and> t_ns (lc_ExpiresAt (rt_RunLifetime target)) \<le> t_ns now)"
proof -
  let ?i = "rt_Identity target" and ?c = "rt_RunLifetime target" and ?r = "rt_ExpectedRecord target"
  from assms(1) obtain fp where
    pre: "0 < maxLifetime" "mode = RunFirewallCleanupRecordedTeardown \<or> mode = RunFirewallCleanupExpiredWipe"
      "validateResourceIdentity ?i = None" "ri_Project ?i = cp_ProjectID policy" "ri_Service ?i = ComputeServiceName"
      "ri_Kind ?i = ComputeFirewallKind" "ri_Scope ?i = ResourceScopeGlobal"
      "isExactRunFirewallName (ri_Name ?i) (lc_RunID ?c)"
    and fp: "RunLifetimeContractFingerprint marshal sha256hex ?c = Inr fp"
    and post: "lc_ProjectID ?c = cp_ProjectID policy" "validateOwnershipRecordExpectation ?r now = None"
      "ox_RecordGeneration ?r = lc_RecordGeneration ?c" "ox_Revision ?r = fp"
      "rt_Description target = (case RunFirewallDescription fp of Inl e \<Rightarrow> [] | Inr description \<Rightarrow> description)"
      "t_ns (rt_ObservedAt target) \<le> t_ns now" "t_ns (lc_CreatedAt ?c) \<le> t_ns (rt_ObservedAt target)"
      "time_Sub now (rt_ObservedAt target) < MaxPreMutationProofLifetime"
      "0 < time_Sub (lc_ExpiresAt ?c) (lc_CreatedAt ?c)" "time_Sub (lc_ExpiresAt ?c) (lc_CreatedAt ?c) \<le> maxLifetime"
      "mode = RunFirewallCleanupExpiredWipe \<longrightarrow> t_ns (lc_ExpiresAt ?c) \<le> t_ns now"
    unfolding ValidateRunFirewallCleanupTarget_def Let_def
    by (auto simp: time_Before_def time_After_def split: sum.splits)
  have "ri_Kind ?i \<noteq> ComputeRouterNATKind" using pre(6) by (simp add: service_kinds)
  then have identity: "?i = global_compute (cp_ProjectID policy) ComputeFirewallKind (ri_Name ?i)"
    using global_compute_unique [OF pre(3,5,7)] pre(4,6) by simp
  have name: "ri_Name ?i = TestResourcePrefix @ lc_RunID ?c @ ''-iap-ssh'' \<or>
      ri_Name ?i = TestResourcePrefix @ lc_RunID ?c @ ''-internal''"
    using pre(8) by (simp add: isExactRunFirewallName_iff)
  have "isSHA256Fingerprint fp" using fresh_expectation [OF post(2)] post(4) by simp
  then have description: "rt_Description target = firewallDescriptionPrefix @ fp @ firewallDescriptionSuffix"
    using post(5) by (simp add: RunFirewallDescription_def fingerprint_check_def)
  have age: "t_ns now - t_ns (rt_ObservedAt target) < MaxPreMutationProofLifetime"
    using post(8) by (auto simp: time_Sub_def MaxPreMutationProofLifetime_def duration_defs int64_defs)
  have life: "t_ns (lc_ExpiresAt ?c) - t_ns (lc_CreatedAt ?c) \<le> maxLifetime"
    "t_ns (lc_CreatedAt ?c) < t_ns (lc_ExpiresAt ?c)"
    using post(9,10) pre(1) assms(2) time_Sub_le [of maxLifetime] by (auto simp: time_Sub_def int64_defs)
  from identity name have "\<exists>suffix \<in> {''-iap-ssh'', ''-internal''}. ?i =
      global_compute (cp_ProjectID policy) ComputeFirewallKind (TestResourcePrefix @ lc_RunID ?c @ suffix)"
    by (metis insert_iff)
  with fp post(1,3,4,6,7,11) pre(2) description age life show ?thesis by blast
qed

definition sample_wiped :: RunFirewallCleanupTarget where
  "sample_wiped =
     \<lparr>rt_Identity = run_ssh_firewall,
      rt_Description = firewallDescriptionPrefix @ sample_digest @ firewallDescriptionSuffix,
      rt_RunLifetime = sample_contract,
      rt_ExpectedRecord = \<lparr>ox_RecordID = lc_RecordID sample_contract, ox_RecordGeneration = 1,
        ox_Revision = sample_digest, ox_ObservedAt = utc (2 * hour), ox_ValidUntil = utc (2 * hour + minute)\<rparr>,
      rt_ObservedAt = utc (2 * hour)\<rparr>"

lemma sample_wiped_accepted:
  "ValidateRunFirewallCleanupTarget sample_marshal sample_sha \<lparr>cp_ProjectID = ''sample-project''\<rparr> sample_wiped
     RunFirewallCleanupExpiredWipe (utc (2 * hour + 10)) (4 * hour) = None"
proof -
  have i: "ri_Project run_ssh_firewall = ''sample-project''" "ri_Service run_ssh_firewall = ComputeServiceName"
    "ri_Kind run_ssh_firewall = ComputeFirewallKind" "ri_Scope run_ssh_firewall = ResourceScopeGlobal"
    by (simp_all add: run_ssh_firewall_def sample_identity_fields)
  have name: "isExactRunFirewallName (ri_Name run_ssh_firewall) ''run-7''"
    using sample_firewall_target_ok by (simp add: firewall_target_ok_def)
  have "identifierPattern ''lifetime-0123456789abcdef''" by (simp add: identifierPattern_def char_class_defs)
  then have r: "validateOwnershipRecordExpectation (rt_ExpectedRecord sample_wiped) (utc (2 * hour + 10)) = None"
    using sample_digest_fingerprint
    by (simp add: validateOwnershipRecordExpectation_def sample_wiped_def sample_contract_def validateUTCWindow_None
        valid_utc_def MaxPreMutationProofLifetime_def time_defs duration_defs int64_defs)
  have c: "lc_ProjectID sample_contract = ''sample-project''" "lc_RunID sample_contract = ''run-7''"
    "lc_RecordGeneration sample_contract = 1" "lc_CreatedAt sample_contract = utc 1000"
    "lc_ExpiresAt sample_contract = utc (1000 + hour)"
    by (simp_all add: sample_contract_def)
  have w: "rt_Identity sample_wiped = run_ssh_firewall" "rt_RunLifetime sample_wiped = sample_contract"
    "rt_Description sample_wiped = firewallDescriptionPrefix @ sample_digest @ firewallDescriptionSuffix"
    "rt_ObservedAt sample_wiped = utc (2 * hour)"
    "ox_RecordID (rt_ExpectedRecord sample_wiped) = lc_RecordID sample_contract"
    "ox_RecordGeneration (rt_ExpectedRecord sample_wiped) = 1"
    "ox_Revision (rt_ExpectedRecord sample_wiped) = sample_digest"
    by (simp_all add: sample_wiped_def)
  show ?thesis
    unfolding ValidateRunFirewallCleanupTarget_def Let_def w
    using r name sample_identities_valid(3) sample_digest_fingerprint
    by (simp add: i c sample_contract_fingerprint harness_sample_patterns RunFirewallDescription_def fingerprint_check_def)
       (simp add: MaxPreMutationProofLifetime_def time_defs duration_defs int64_defs)
qed

lemma firewall_cleanup_needs_its_record_witness:
  "t_ns (lc_ExpiresAt (rt_RunLifetime sample_wiped)) \<le> 2 * hour + 10"
proof -
  have "4 * hour < max_int64" by (simp add: duration_defs int64_defs)
  from firewall_cleanup_needs_its_record [OF sample_wiped_accepted this] show ?thesis by (simp add: utc_def)
qed

subsection \<open>Selection of targets\<close>

definition sample_labels :: string_map where
  "sample_labels = fmupd LabelRunID ''run-7'' (fmupd LabelPurpose TestResourcePurposeLabel
     (fmupd LabelEnvironment TestEnvironmentLabel (fmupd LabelManagedBy LabelManagedByValue fmempty)))"

definition sample_node :: MutationTarget where
  "sample_node = \<lparr>mt_Identity = run_instance, mt_Labels = sample_labels\<rparr>"

lemma sample_label_values:
  "value_at sample_labels LabelRunID = ''run-7''" "value_at sample_labels LabelManagedBy = LabelManagedByValue"
  "value_at sample_labels LabelEnvironment = TestEnvironmentLabel"
  "value_at sample_labels LabelPurpose = TestResourcePurposeLabel"
  by (simp_all add: sample_labels_def value_at_def resource_constants LabelRunID_def)

lemma sample_node_disposable:
  "IsTestResource \<lparr>gr_Name = ri_Name (mt_Identity sample_node), gr_Labels = mt_Labels sample_node\<rparr>"
proof -
  have "ri_Name run_instance = ''ctrldb-test-run-7-node''" by (simp add: run_instance_def sample_identity_fields)
  then show ?thesis
    using sample_names
    by (simp add: IsTestResource_iff sample_node_def sample_label_values computeResourceNamePattern_def
        has_prefix_iff TestResourcePrefix_def)
qed

lemma sample_node_ok: "run_target_ok ''run-7'' sample_node" "cleanup_target_ok \<lparr>cp_ProjectID = ''sample-project''\<rparr> sample_node"
proof -
  have i: "ri_Name run_instance = ''ctrldb-test-run-7-node''" "ri_Service run_instance = ComputeServiceName"
    "ri_Kind run_instance = ComputeInstanceKind" "ri_Project run_instance = ''sample-project''"
    by (simp_all add: run_instance_def sample_identity_fields)
  have l: "labelCapableCleanupIdentity run_instance" by (simp add: labelCapableCleanupIdentity_iff i)
  show "run_target_ok ''run-7'' sample_node" "cleanup_target_ok \<lparr>cp_ProjectID = ''sample-project''\<rparr> sample_node"
    using sample_node_disposable sample_identities_valid(1) l sample_run_id
    by (simp_all add: run_target_ok_def cleanup_target_ok_def validateMutationTarget_def sample_node_def i
        sample_label_values has_prefix_iff TestResourcePrefix_def)
qed

text \<open>
  The selection of a run's targets adds and drops nothing, has no repetition, is sorted by the
  canonical key and does not depend on the order of discovery; selecting again changes nothing; and a
  selected target belongs to this run only, is labelled disposable and is never one of the firewalls,
  which have their own proof.
\<close>

theorem run_targets_selected:
  assumes "SelectRunMutationTargets r xs = Inr ys"
  shows "mset ys = mset xs \<and> sorted (map target_key ys) \<and> distinct (map mt_Identity ys) \<and>
    (mset zs = mset xs \<longrightarrow> SelectRunMutationTargets r zs = Inr ys) \<and>
    SelectRunMutationTargets r ys = Inr ys \<and>
    list_all (\<lambda>t. IsTestResource \<lparr>gr_Name = ri_Name (mt_Identity t), gr_Labels = mt_Labels t\<rparr> \<and>
      ri_Kind (mt_Identity t) \<noteq> ComputeFirewallKind) ys \<and>
    (ys \<noteq> [] \<and> SelectRunMutationTargets q ys = Inr ws \<longrightarrow> q = r)"
proof -
  note s = run_targets.selected [OF assms]
  have "q = r" if "ys \<noteq> []" "SelectRunMutationTargets q ys = Inr ws"
  proof -
    from that have "run_target_ok q (hd ys)" by (simp add: SelectRunMutationTargets_Inr list_all_iff)
    moreover have "run_target_ok r (hd ys)" using s that(1) by (simp add: list_all_iff)
    ultimately show ?thesis by (rule run_target_one_run)
  qed
  moreover have "list_all (\<lambda>t. IsTestResource \<lparr>gr_Name = ri_Name (mt_Identity t), gr_Labels = mt_Labels t\<rparr> \<and>
      ri_Kind (mt_Identity t) \<noteq> ComputeFirewallKind) ys"
    using s run_target_disposable unfolding list_all_iff
    by (auto simp: run_target_ok_def labelCapableCleanupIdentity_iff service_kinds)
  moreover have "distinct (map mt_Identity ys)"
    using s distinct_map_coarser [of ri_CanonicalKey] by blast
  ultimately show ?thesis
    using s run_targets.order_irrelevant [OF assms] run_targets.selection_stable [OF assms] by blast
qed

lemma run_targets_selected_witness: "SelectRunMutationTargets ''run-7'' [sample_node] = Inr [sample_node]"
proof -
  have "SelectRunMutationTargets ''run-7'' [sample_node] = Inr [sample_node]"
    using sample_node_ok(1) sample_run_id by (simp add: SelectRunMutationTargets_Inr)
  from run_targets_selected [OF this] show ?thesis by blast
qed

text \<open>
  The nightly wipe selects exactly the expired: when the candidates are accepted, each is a
  labelled disposable resource of the cleanup project, and the selection consists of those that are at
  least the maximum lifetime old, in the order of their keys.
\<close>

theorem expired_targets_selected:
  assumes "SelectExpiredTargets policy candidates now maxLifetime = Inr ys" and "is_int64 maxLifetime"
  shows "mset ys = filter_mset (\<lambda>c. t_ns (et_CreatedAt c) + maxLifetime \<le> t_ns now) (mset candidates) \<and>
    sorted (map (\<lambda>c. target_key (et_Target c)) ys) \<and> 0 < maxLifetime \<and>
    list_all (\<lambda>c. ri_Project (mt_Identity (et_Target c)) = cp_ProjectID policy \<and>
      IsTestResource \<lparr>gr_Name = ri_Name (mt_Identity (et_Target c)), gr_Labels = mt_Labels (et_Target c)\<rparr> \<and>
      t_ns (et_CreatedAt c) \<le> t_ns now) candidates"
proof -
  note accepted = assms(1) [unfolded SelectExpiredTargets_Inr [OF assms(2)]]
  then have "ys = sort_key (\<lambda>c. target_key (et_Target c))
      (filter (\<lambda>c. t_ns (et_CreatedAt c) + maxLifetime \<le> t_ns now) candidates)"
    by (simp add: algebra_simps)
  then show ?thesis
    using accepted by (auto simp: list_all_iff cleanup_target_ok_def)
qed

lemma expired_targets_selected_witness:
  "mset [\<lparr>et_Target = sample_node, et_CreatedAt = utc 10\<rparr>] =
     filter_mset (\<lambda>c. t_ns (et_CreatedAt c) + 50 \<le> 100) (mset [\<lparr>et_Target = sample_node, et_CreatedAt = utc 10\<rparr>])"
proof -
  have "SelectExpiredTargets \<lparr>cp_ProjectID = ''sample-project''\<rparr> [\<lparr>et_Target = sample_node, et_CreatedAt = utc 10\<rparr>]
      (utc 100) 50 = Inr [\<lparr>et_Target = sample_node, et_CreatedAt = utc 10\<rparr>]"
    using sample_node_ok(2) harness_sample_patterns
    by (simp add: SelectExpiredTargets_Inr is_int64_def int64_defs time_IsZero_def utc_def)
  moreover have "is_int64 50" by (simp add: int64_defs)
  ultimately show ?thesis using expired_targets_selected by (fastforce simp: utc_def)
qed

end
