(* ===== verification/JsonTokens.thy ===== *)
theory JsonTokens
  imports Results
begin

section \<open>Strict JSON: token streams, schemas and the duplicate-key walk\<close>

text \<open>
  Several decoders of the packages first walk the tokens of a document with \<open>json.Decoder.Token\<close> and
  refuse null, duplicate keys, and keys or shapes outside a schema. A document is its lexemes (the
  bytes between white space and structure); \<open>decoder_Token\<close> and \<open>decoder_More\<close> are the state machine of
  \<open>encoding/json\<close> on them, with its stack of states. The walk is one function of the schema, with fuel;
  \<open>conforms\<close> is its reference definition on values.
\<close>

subsection \<open>Values and lexemes\<close>

datatype jscalar = JBool bool | JNumber string

datatype jvalue =
    JNull
  | JScalar jscalar
  | JString string
  | JArray "jvalue list"
  | JObject "(string \<times> jvalue) list"

datatype lexeme =
    OpenArray | CloseArray | OpenObject | CloseObject | Colon | Comma
  | NullLexeme | ScalarLexeme jscalar | StringLexeme string | BadLexeme

definition separated :: "lexeme list list \<Rightarrow> lexeme list" where
  "separated xss = (case xss of [] \<Rightarrow> [] | xs # yss \<Rightarrow> xs @ concat (map (\<lambda>ys. Comma # ys) yss))"

primrec lexemes :: "jvalue \<Rightarrow> lexeme list" where
  "lexemes JNull = [NullLexeme]"
| "lexemes (JScalar s) = [ScalarLexeme s]"
| "lexemes (JString s) = [StringLexeme s]"
| "lexemes (JArray vs) = OpenArray # separated (map lexemes vs) @ [CloseArray]"
| "lexemes (JObject ms) =
     OpenObject # separated (map (\<lambda>(k, ls). [StringLexeme k, Colon] @ ls) (map (map_prod id lexemes) ms))
       @ [CloseObject]"

subsection \<open>The decoder of encoding/json\<close>

datatype token_state =
    TopValue | ArrayStart | ArrayValue | ArrayComma
  | ObjectStart | ObjectKey | ObjectColon | ObjectValue | ObjectComma

record decoder =
  de_rest :: "lexeme list"
  de_state :: token_state
  de_stack :: "token_state list"

datatype token = Delim lexeme | StringToken string | ScalarToken jscalar | NullToken

datatype token_error = EndOfInput | SyntaxError

definition tokenValueAllowed :: "token_state \<Rightarrow> bool" where
  "tokenValueAllowed st \<longleftrightarrow> st \<in> {TopValue, ArrayStart, ArrayValue, ObjectValue}"

definition tokenValueEnd :: "token_state \<Rightarrow> token_state" where
  "tokenValueEnd st =
     (case st of ArrayStart \<Rightarrow> ArrayComma | ArrayValue \<Rightarrow> ArrayComma | ObjectValue \<Rightarrow> ObjectComma | _ \<Rightarrow> st)"

definition value_token ::
  "token \<Rightarrow> lexeme list \<Rightarrow> token_state \<Rightarrow> token_state list \<Rightarrow> token_error + token \<times> decoder" where
  "value_token t xs st stk =
     (if tokenValueAllowed st
      then Inr (t, \<lparr>de_rest = xs, de_state = tokenValueEnd st, de_stack = stk\<rparr>) else Inl SyntaxError)"

definition open_token ::
  "lexeme \<Rightarrow> token_state \<Rightarrow> lexeme list \<Rightarrow> token_state \<Rightarrow> token_state list \<Rightarrow> token_error + token \<times> decoder" where
  "open_token l inner xs st stk =
     (if tokenValueAllowed st
      then Inr (Delim l, \<lparr>de_rest = xs, de_state = inner, de_stack = st # stk\<rparr>) else Inl SyntaxError)"

definition close_token ::
  "lexeme \<Rightarrow> token_state set \<Rightarrow> lexeme list \<Rightarrow> token_state \<Rightarrow> token_state list \<Rightarrow> token_error + token \<times> decoder" where
  "close_token l allowed xs st stk =
     (if st \<in> allowed
      then (case stk of
          [] \<Rightarrow> Inl SyntaxError
        | outer # stk' \<Rightarrow> Inr (Delim l, \<lparr>de_rest = xs, de_state = tokenValueEnd outer, de_stack = stk'\<rparr>))
      else Inl SyntaxError)"

fun next_token :: "lexeme list \<Rightarrow> token_state \<Rightarrow> token_state list \<Rightarrow> token_error + token \<times> decoder" where
  "next_token [] st stk = Inl EndOfInput"
| "next_token (OpenArray # xs) st stk = open_token OpenArray ArrayStart xs st stk"
| "next_token (CloseArray # xs) st stk = close_token CloseArray {ArrayStart, ArrayComma} xs st stk"
| "next_token (OpenObject # xs) st stk = open_token OpenObject ObjectStart xs st stk"
| "next_token (CloseObject # xs) st stk = close_token CloseObject {ObjectStart, ObjectComma} xs st stk"
| "next_token (Colon # xs) st stk =
     (if st = ObjectColon then next_token xs ObjectValue stk else Inl SyntaxError)"
| "next_token (Comma # xs) st stk =
     (if st = ArrayComma then next_token xs ArrayValue stk
      else if st = ObjectComma then next_token xs ObjectKey stk else Inl SyntaxError)"
| "next_token (StringLexeme s # xs) st stk =
     (if st = ObjectStart \<or> st = ObjectKey
      then Inr (StringToken s, \<lparr>de_rest = xs, de_state = ObjectColon, de_stack = stk\<rparr>)
      else value_token (StringToken s) xs st stk)"
| "next_token (ScalarLexeme s # xs) st stk = value_token (ScalarToken s) xs st stk"
| "next_token (NullLexeme # xs) st stk = value_token NullToken xs st stk"
| "next_token (BadLexeme # xs) st stk = Inl SyntaxError"

definition decoder_Token :: "decoder \<Rightarrow> token_error + token \<times> decoder" where
  "decoder_Token d = next_token (de_rest d) (de_state d) (de_stack d)"

definition decoder_More :: "decoder \<Rightarrow> bool" where
  "decoder_More d = (case de_rest d of [] \<Rightarrow> False | x # xs \<Rightarrow> x \<noteq> CloseArray \<and> x \<noteq> CloseObject)"

definition NewDecoder :: "lexeme list \<Rightarrow> decoder" where
  "NewDecoder xs = \<lparr>de_rest = xs, de_state = TopValue, de_stack = []\<rparr>"

subsection \<open>Schemas and the walk\<close>

text \<open>\<open>AnySchema\<close> is the walk without a schema, of the packages that only refuse null and duplicates.\<close>

datatype json_schema =
    ScalarSchema
  | ObjectSchema "(string \<times> json_schema) list"
  | ArraySchema json_schema
  | AnySchema

datatype walk_error =
    MalformedJSON | NullNotAllowed | ScalarNotAllowed | ObjectNotAllowed | ArrayNotAllowed
  | KeyNotString | NoncanonicalKey | DuplicateKey | UnexpectedDelimiter | TrailingJSON | OutOfFuel

definition allows_scalar :: "json_schema \<Rightarrow> bool" where
  "allows_scalar s = (s = ScalarSchema \<or> s = AnySchema)"

definition allows_object :: "json_schema \<Rightarrow> bool" where
  "allows_object s = (case s of ObjectSchema fs \<Rightarrow> True | AnySchema \<Rightarrow> True | _ \<Rightarrow> False)"

definition child_schema :: "json_schema \<Rightarrow> string \<Rightarrow> json_schema option" where
  "child_schema s k = (case s of ObjectSchema fs \<Rightarrow> map_of fs k | AnySchema \<Rightarrow> Some AnySchema | _ \<Rightarrow> None)"

definition element_schema :: "json_schema \<Rightarrow> json_schema option" where
  "element_schema s = (case s of ArraySchema e \<Rightarrow> Some e | AnySchema \<Rightarrow> Some AnySchema | _ \<Rightarrow> None)"

definition close_composite :: "walk_error + decoder \<Rightarrow> walk_error + decoder" where
  "close_composite r =
     bind_result r (\<lambda>d. case decoder_Token d of Inl e \<Rightarrow> Inl MalformedJSON | Inr (t, d') \<Rightarrow> Inr d')"

fun consume :: "nat \<Rightarrow> json_schema \<Rightarrow> decoder \<Rightarrow> walk_error + decoder"
  and consume_members :: "nat \<Rightarrow> json_schema \<Rightarrow> string list \<Rightarrow> decoder \<Rightarrow> walk_error + decoder"
  and consume_elements :: "nat \<Rightarrow> json_schema \<Rightarrow> decoder \<Rightarrow> walk_error + decoder" where
  "consume 0 s d = Inl OutOfFuel"
| "consume (Suc n) s d =
     (case decoder_Token d of
        Inl e \<Rightarrow> Inl MalformedJSON
      | Inr (NullToken, d') \<Rightarrow> Inl NullNotAllowed
      | Inr (StringToken x, d') \<Rightarrow> (if allows_scalar s then Inr d' else Inl ScalarNotAllowed)
      | Inr (ScalarToken x, d') \<Rightarrow> (if allows_scalar s then Inr d' else Inl ScalarNotAllowed)
      | Inr (Delim l, d') \<Rightarrow>
          (if l = OpenObject
           then (if allows_object s then close_composite (consume_members n s [] d') else Inl ObjectNotAllowed)
           else if l = OpenArray
           then (case element_schema s of
               None \<Rightarrow> Inl ArrayNotAllowed
             | Some e \<Rightarrow> close_composite (consume_elements n e d'))
           else Inl UnexpectedDelimiter))"
| "consume_members 0 s seen d = Inl OutOfFuel"
| "consume_members (Suc n) s seen d =
     (if \<not> decoder_More d then Inr d
      else (case decoder_Token d of
          Inl e \<Rightarrow> Inl MalformedJSON
        | Inr (StringToken key, d') \<Rightarrow>
            (case child_schema s key of
               None \<Rightarrow> Inl NoncanonicalKey
             | Some c \<Rightarrow>
                 (if key \<in> set seen then Inl DuplicateKey
                  else bind_result (consume n c d') (consume_members n s (key # seen))))
        | Inr (t, d') \<Rightarrow> Inl KeyNotString))"
| "consume_elements 0 s d = Inl OutOfFuel"
| "consume_elements (Suc n) s d =
     (if \<not> decoder_More d then Inr d
      else bind_result (consume n s d) (consume_elements n s))"

text \<open>
  The walk of a whole document: one value, then the end. Two units of fuel per lexeme are enough.
  \<open>walk_as message\<close> is the walk with the error of a package.
\<close>

definition walk_as :: "(walk_error \<Rightarrow> 'e) \<Rightarrow> nat \<Rightarrow> json_schema \<Rightarrow> decoder \<Rightarrow> 'e + decoder" where
  "walk_as message n s d = (case consume n s d of Inl e \<Rightarrow> Inl (message e) | Inr d' \<Rightarrow> Inr d')"

definition walk_document :: "json_schema \<Rightarrow> lexeme list \<Rightarrow> walk_error option" where
  "walk_document s xs =
     (case consume (Suc (2 * length xs)) s (NewDecoder xs) of
        Inl e \<Rightarrow> Some e
      | Inr d \<Rightarrow> (if decoder_Token d = Inl EndOfInput then None else Some TrailingJSON))"

text \<open>The reference definition, on values.\<close>

fun conforms :: "json_schema \<Rightarrow> jvalue \<Rightarrow> bool" where
  "conforms s JNull = False"
| "conforms s (JScalar x) = allows_scalar s"
| "conforms s (JString x) = allows_scalar s"
| "conforms s (JArray vs) =
     (case element_schema s of None \<Rightarrow> False | Some e \<Rightarrow> (\<forall>v \<in> set vs. conforms e v))"
| "conforms s (JObject ms) =
     (allows_object s \<and> distinct (map fst ms) \<and>
      (\<forall>m \<in> set ms. case child_schema s (fst m) of None \<Rightarrow> False | Some c \<Rightarrow> conforms c (snd m)))"

subsection \<open>The token machine at the positions of the walk\<close>

text \<open>
  The walk asks for a value in four states and for a key in two. \<open>lead\<close> is the separator that the
  decoder skips there, \<open>inside\<close> the state once it is skipped, \<open>value_end\<close> the state after the value.
\<close>

definition value_states :: "token_state set" where
  "value_states = {TopValue, ArrayStart, ArrayComma, ObjectColon}"

definition key_states :: "token_state set" where
  "key_states = {ObjectStart, ObjectComma}"

definition lead :: "token_state \<Rightarrow> lexeme list" where
  "lead st = (case st of ArrayComma \<Rightarrow> [Comma] | ObjectComma \<Rightarrow> [Comma] | ObjectColon \<Rightarrow> [Colon] | _ \<Rightarrow> [])"

definition inside :: "token_state \<Rightarrow> token_state" where
  "inside st = (case st of ArrayComma \<Rightarrow> ArrayValue | ObjectColon \<Rightarrow> ObjectValue | _ \<Rightarrow> st)"

definition value_end :: "token_state \<Rightarrow> token_state" where
  "value_end st = tokenValueEnd (inside st)"

lemmas state_defs = value_states_def key_states_def lead_def inside_def value_end_def tokenValueEnd_def
  tokenValueAllowed_def

lemma value_end_simps [simp]:
  "value_end TopValue = TopValue" "value_end ArrayStart = ArrayComma" "value_end ArrayComma = ArrayComma"
  "value_end ObjectColon = ObjectComma"
  by (simp_all add: state_defs)

lemma lead_simps [simp]:
  "lead TopValue = []" "lead ArrayStart = []" "lead ObjectStart = []" "lead ArrayComma = [Comma]"
  "lead ObjectComma = [Comma]" "lead ObjectColon = [Colon]"
  by (simp_all add: lead_def)

lemma state_mem [simp]:
  "TopValue \<in> value_states" "ArrayStart \<in> value_states" "ArrayComma \<in> value_states" "ObjectColon \<in> value_states"
  "ObjectStart \<in> key_states" "ObjectComma \<in> key_states"
  by (simp_all add: value_states_def key_states_def)

text \<open>What the decoder returns where the walk expects a value.\<close>

lemma next_token_value:
  assumes "st \<in> value_states"
  shows "next_token (lead st @ ScalarLexeme x # xs) st stk =
      Inr (ScalarToken x, \<lparr>de_rest = xs, de_state = value_end st, de_stack = stk\<rparr>)"
    "next_token (lead st @ StringLexeme s # xs) st stk =
      Inr (StringToken s, \<lparr>de_rest = xs, de_state = value_end st, de_stack = stk\<rparr>)"
    "next_token (lead st @ OpenArray # xs) st stk =
      Inr (Delim OpenArray, \<lparr>de_rest = xs, de_state = ArrayStart, de_stack = inside st # stk\<rparr>)"
    "next_token (lead st @ OpenObject # xs) st stk =
      Inr (Delim OpenObject, \<lparr>de_rest = xs, de_state = ObjectStart, de_stack = inside st # stk\<rparr>)"
  using assms by (auto simp: value_states_def value_token_def open_token_def tokenValueAllowed_def inside_def
      value_end_def)

lemma next_token_value_cases:
  assumes "st \<in> value_states" and "next_token xs st stk = Inr (t, d)"
  shows "(\<exists>x ys. xs = lead st @ ScalarLexeme x # ys \<and> t = ScalarToken x \<and>
        d = \<lparr>de_rest = ys, de_state = value_end st, de_stack = stk\<rparr>) \<or>
     (\<exists>s ys. xs = lead st @ StringLexeme s # ys \<and> t = StringToken s \<and>
        d = \<lparr>de_rest = ys, de_state = value_end st, de_stack = stk\<rparr>) \<or>
     (\<exists>ys. xs = lead st @ OpenArray # ys \<and> t = Delim OpenArray \<and>
        d = \<lparr>de_rest = ys, de_state = ArrayStart, de_stack = inside st # stk\<rparr>) \<or>
     (\<exists>ys. xs = lead st @ OpenObject # ys \<and> t = Delim OpenObject \<and>
        d = \<lparr>de_rest = ys, de_state = ObjectStart, de_stack = inside st # stk\<rparr>) \<or>
     t = NullToken \<or> t = Delim CloseArray \<or> t = Delim CloseObject"
proof -
  have *: "(\<exists>x zs. ys = ScalarLexeme x # zs \<and> t = ScalarToken x \<and>
        d = \<lparr>de_rest = zs, de_state = tokenValueEnd st', de_stack = stk\<rparr>) \<or>
     (\<exists>s zs. ys = StringLexeme s # zs \<and> t = StringToken s \<and>
        d = \<lparr>de_rest = zs, de_state = tokenValueEnd st', de_stack = stk\<rparr>) \<or>
     (\<exists>zs. ys = OpenArray # zs \<and> t = Delim OpenArray \<and>
        d = \<lparr>de_rest = zs, de_state = ArrayStart, de_stack = st' # stk\<rparr>) \<or>
     (\<exists>zs. ys = OpenObject # zs \<and> t = Delim OpenObject \<and>
        d = \<lparr>de_rest = zs, de_state = ObjectStart, de_stack = st' # stk\<rparr>) \<or>
     t = NullToken \<or> t = Delim CloseArray \<or> t = Delim CloseObject"
    if "next_token ys st' stk = Inr (t, d)" "st' \<in> {TopValue, ArrayStart, ArrayValue, ObjectValue}" for ys st'
    using that by (cases "(ys, st', stk)" rule: next_token.cases)
      (auto simp: value_token_def open_token_def close_token_def split: if_splits list.splits)
  show ?thesis
  proof (cases "st = TopValue \<or> st = ArrayStart")
    case True
    then show ?thesis using * [OF assms(2)] by (auto simp: value_end_def inside_def)
  next
    case False
    then have st: "st = ArrayComma \<or> st = ObjectColon" using assms(1) by (auto simp: value_states_def)
    show ?thesis
    proof (cases xs)
      case Nil
      then show ?thesis using assms(2) by simp
    next
      case (Cons x ys)
      then show ?thesis using st assms(2) * [of ys ArrayValue] * [of ys ObjectValue]
        by (cases x)
          (auto simp: value_token_def open_token_def close_token_def tokenValueAllowed_def value_end_def
            inside_def split: if_splits list.splits)
    qed
  qed
qed

text \<open>Where it expects a key, and where it closes.\<close>

lemma next_token_key:
  "st \<in> key_states \<Longrightarrow> next_token (lead st @ StringLexeme k # xs) st stk =
     Inr (StringToken k, \<lparr>de_rest = xs, de_state = ObjectColon, de_stack = stk\<rparr>)"
  by (auto simp: key_states_def)

lemma next_token_key_cases:
  assumes "st \<in> key_states" and "next_token xs st stk = Inr (StringToken k, d)"
  shows "\<exists>ys. xs = lead st @ StringLexeme k # ys \<and> d = \<lparr>de_rest = ys, de_state = ObjectColon, de_stack = stk\<rparr>"
proof -
  have *: "\<exists>zs. ys = StringLexeme k # zs \<and> d = \<lparr>de_rest = zs, de_state = ObjectColon, de_stack = stk\<rparr>"
    if "next_token ys st' stk = Inr (StringToken k, d)" "st' \<in> {ObjectStart, ObjectKey}" for ys st'
    using that by (cases "(ys, st', stk)" rule: next_token.cases)
      (auto simp: value_token_def open_token_def close_token_def tokenValueAllowed_def split: if_splits list.splits)
  show ?thesis
  proof (cases "st = ObjectStart")
    case True
    then show ?thesis using * [OF assms(2)] by simp
  next
    case False
    then have "st = ObjectComma" using assms(1) by (simp add: key_states_def)
    then show ?thesis using assms(2) * [of _ ObjectKey]
      by (cases "(xs, st, stk)" rule: next_token.cases)
        (auto simp: value_token_def open_token_def close_token_def tokenValueAllowed_def split: if_splits list.splits)
  qed
qed

lemma close_composite_Inr:
  "close_composite r = Inr d' \<longleftrightarrow> (\<exists>d t. r = Inr d \<and> decoder_Token d = Inr (t, d'))"
  by (cases r) (auto simp: close_composite_def split: sum.splits prod.splits)

lemma close_array:
  assumes "st \<in> {ArrayStart, ArrayComma}" and "\<not> decoder_More \<lparr>de_rest = xs, de_state = st, de_stack = a # stk\<rparr>"
  shows "next_token xs st (a # stk) = Inr (t, d) \<longleftrightarrow>
     t = Delim CloseArray \<and> (\<exists>ys. xs = CloseArray # ys \<and>
       d = \<lparr>de_rest = ys, de_state = tokenValueEnd a, de_stack = stk\<rparr>)"
  using assms by (cases "(xs, st, a # stk)" rule: next_token.cases)
    (auto simp: decoder_More_def close_token_def)

lemma close_object:
  assumes "st \<in> key_states" and "\<not> decoder_More \<lparr>de_rest = xs, de_state = st, de_stack = a # stk\<rparr>"
  shows "next_token xs st (a # stk) = Inr (t, d) \<longleftrightarrow>
     t = Delim CloseObject \<and> (\<exists>ys. xs = CloseObject # ys \<and>
       d = \<lparr>de_rest = ys, de_state = tokenValueEnd a, de_stack = stk\<rparr>)"
  using assms by (cases "(xs, st, a # stk)" rule: next_token.cases)
    (auto simp: decoder_More_def close_token_def key_states_def)

subsection \<open>The walk accepts exactly the conforming values\<close>

fun array_text :: "token_state \<Rightarrow> jvalue list \<Rightarrow> lexeme list" where
  "array_text st [] = []"
| "array_text st (v # vs) = lead st @ lexemes v @ array_text ArrayComma vs"

fun object_text :: "token_state \<Rightarrow> (string \<times> jvalue) list \<Rightarrow> lexeme list" where
  "object_text st [] = []"
| "object_text st (m # ms) = lead st @ StringLexeme (fst m) # Colon # lexemes (snd m) @ object_text ObjectComma ms"

lemma array_text_comma: "array_text ArrayComma vs = concat (map (\<lambda>v. Comma # lexemes v) vs)"
  by (induction vs) auto

lemma object_text_comma:
  "object_text ObjectComma ms = concat (map (\<lambda>m. Comma # StringLexeme (fst m) # Colon # lexemes (snd m)) ms)"
  by (induction ms) auto

lemma lexemes_composite:
  "lexemes (JArray vs) = OpenArray # array_text ArrayStart vs @ [CloseArray]"
  "lexemes (JObject ms) = OpenObject # object_text ObjectStart ms @ [CloseObject]"
  by (cases vs; simp add: separated_def array_text_comma comp_def)
    (cases ms; simp add: separated_def object_text_comma comp_def case_prod_unfold)

declare lexemes.simps(4,5) [simp del]

definition member_conforms :: "json_schema \<Rightarrow> string \<times> jvalue \<Rightarrow> bool" where
  "member_conforms s m = (case child_schema s (fst m) of None \<Rightarrow> False | Some c \<Rightarrow> conforms c (snd m))"

lemma conforms_object:
  "conforms s (JObject ms) \<longleftrightarrow>
     allows_object s \<and> distinct (map fst ms) \<and> (\<forall>m \<in> set ms. member_conforms s m)"
  by (simp add: member_conforms_def)

lemma conforms_array:
  "conforms s (JArray vs) \<longleftrightarrow> (\<exists>e. element_schema s = Some e \<and> (\<forall>v \<in> set vs. conforms e v))"
  by (auto split: option.splits)

declare conforms.simps(4,5) [simp del]

lemma walk_sound:
  "\<And>d'. de_state d \<in> value_states \<Longrightarrow> consume n s d = Inr d' \<Longrightarrow>
     \<exists>v xs. de_rest d = lead (de_state d) @ lexemes v @ xs \<and> conforms s v \<and>
       d' = \<lparr>de_rest = xs, de_state = value_end (de_state d), de_stack = de_stack d\<rparr>"
  "\<And>d'. de_state d \<in> key_states \<Longrightarrow> consume_members n s seen d = Inr d' \<Longrightarrow>
     \<exists>ms xs st. de_rest d = object_text (de_state d) ms @ xs \<and> distinct (map fst ms) \<and>
       fst ` set ms \<inter> set seen = {} \<and> (\<forall>m \<in> set ms. member_conforms s m) \<and> st \<in> key_states \<and>
       d' = \<lparr>de_rest = xs, de_state = st, de_stack = de_stack d\<rparr> \<and> \<not> decoder_More d'"
  "\<And>d'. de_state d \<in> {ArrayStart, ArrayComma} \<Longrightarrow> consume_elements n s d = Inr d' \<Longrightarrow>
     \<exists>vs xs st. de_rest d = array_text (de_state d) vs @ xs \<and> (\<forall>v \<in> set vs. conforms s v) \<and>
       st \<in> {ArrayStart, ArrayComma} \<and>
       d' = \<lparr>de_rest = xs, de_state = st, de_stack = de_stack d\<rparr> \<and> \<not> decoder_More d'"
proof (induction n s d and n s seen d and n s d rule: consume_consume_members_consume_elements.induct)
  case (2 n s d)
  from "2.prems"(2) obtain t d1 where t: "decoder_Token d = Inr (t, d1)"
    by (cases "decoder_Token d") auto
  note cases = next_token_value_cases [OF "2.prems"(1) t [unfolded decoder_Token_def]]
  consider (scalar) x ys where "de_rest d = lead (de_state d) @ ScalarLexeme x # ys" "t = ScalarToken x"
      "d1 = \<lparr>de_rest = ys, de_state = value_end (de_state d), de_stack = de_stack d\<rparr>"
    | (str) x ys where "de_rest d = lead (de_state d) @ StringLexeme x # ys" "t = StringToken x"
      "d1 = \<lparr>de_rest = ys, de_state = value_end (de_state d), de_stack = de_stack d\<rparr>"
    | (arr) ys where "de_rest d = lead (de_state d) @ OpenArray # ys" "t = Delim OpenArray"
      "d1 = \<lparr>de_rest = ys, de_state = ArrayStart, de_stack = inside (de_state d) # de_stack d\<rparr>"
    | (obj) ys where "de_rest d = lead (de_state d) @ OpenObject # ys" "t = Delim OpenObject"
      "d1 = \<lparr>de_rest = ys, de_state = ObjectStart, de_stack = inside (de_state d) # de_stack d\<rparr>"
    using cases "2.prems"(2) t by (auto split: if_splits)
  then show ?case
  proof cases
    case scalar
    with "2.prems"(2) t show ?thesis by (intro exI [of _ "JScalar x"] exI [of _ ys]) (auto split: if_splits)
  next
    case str
    with "2.prems"(2) t show ?thesis by (intro exI [of _ "JString x"] exI [of _ ys]) (auto split: if_splits)
  next
    case arr
    with "2.prems"(2) t obtain e d2 where e: "element_schema s = Some e" "consume_elements n e d1 = Inr d2"
      and close: "\<exists>t. decoder_Token d2 = Inr (t, d')"
      by (auto simp: close_composite_Inr split: option.splits)
    from "2.IH"(2) [OF t refl arr(2) _ _ e(1), of d2] e(2) arr(3) obtain vs xs st where
      vs: "ys = array_text ArrayStart vs @ xs" "\<forall>v \<in> set vs. conforms e v" "st \<in> {ArrayStart, ArrayComma}"
      "d2 = \<lparr>de_rest = xs, de_state = st, de_stack = inside (de_state d) # de_stack d\<rparr>" "\<not> decoder_More d2"
      by auto
    with close close_array [OF vs(3), of xs "inside (de_state d)" "de_stack d"] obtain zs where
      "xs = CloseArray # zs" "d' = \<lparr>de_rest = zs, de_state = value_end (de_state d), de_stack = de_stack d\<rparr>"
      by (auto simp: decoder_Token_def value_end_def)
    with vs e(1) arr show ?thesis
      by (intro exI [of _ "JArray vs"] exI [of _ zs]) (simp add: lexemes_composite conforms_array)
  next
    case obj
    with "2.prems"(2) t obtain d2 where e: "allows_object s" "consume_members n s [] d1 = Inr d2"
      and close: "\<exists>t. decoder_Token d2 = Inr (t, d')"
      by (auto simp: close_composite_Inr split: if_splits)
    from "2.IH"(1) [OF t refl obj(2) _ e(1), of d2] e(2) obj(3) obtain ms xs st where
      ms: "ys = object_text ObjectStart ms @ xs" "distinct (map fst ms)" "\<forall>m \<in> set ms. member_conforms s m"
      "st \<in> key_states"
      "d2 = \<lparr>de_rest = xs, de_state = st, de_stack = inside (de_state d) # de_stack d\<rparr>" "\<not> decoder_More d2"
      by auto
    with close close_object [OF ms(4), of xs "inside (de_state d)" "de_stack d"] obtain zs where
      "xs = CloseObject # zs" "d' = \<lparr>de_rest = zs, de_state = value_end (de_state d), de_stack = de_stack d\<rparr>"
      by (auto simp: decoder_Token_def value_end_def)
    with ms e(1) obj show ?thesis
      by (intro exI [of _ "JObject ms"] exI [of _ zs]) (simp add: lexemes_composite conforms_object)
  qed
next
  case (4 n s seen d)
  show ?case
  proof (cases "decoder_More d")
    case False
    with "4.prems" show ?thesis
      by (intro exI [of _ "[]"] exI [of _ "de_rest d"] exI [of _ "de_state d"]) auto
  next
    case True
    with "4.prems"(2) obtain key d1 c d2 where t: "decoder_Token d = Inr (StringToken key, d1)"
      "child_schema s key = Some c" "key \<notin> set seen" "consume n c d1 = Inr d2"
      "consume_members n s (key # seen) d2 = Inr d'"
      by (auto simp: bind_result_is_Inr split: sum.splits prod.splits token.splits option.splits if_splits)
    from next_token_key_cases [OF "4.prems"(1) t(1) [unfolded decoder_Token_def]] obtain ys where
      ys: "de_rest d = lead (de_state d) @ StringLexeme key # ys"
      "d1 = \<lparr>de_rest = ys, de_state = ObjectColon, de_stack = de_stack d\<rparr>"
      by blast
    from "4.IH"(1) [of "(StringToken key, d1)" "StringToken key" d1 key c d2] True t ys obtain v zs where
      v: "ys = Colon # lexemes v @ zs" "conforms c v"
      "d2 = \<lparr>de_rest = zs, de_state = ObjectComma, de_stack = de_stack d\<rparr>"
      by auto
    from "4.IH"(2) [of "(StringToken key, d1)" "StringToken key" d1 key c d2 d'] True t v obtain ms xs st where
      ms: "zs = object_text ObjectComma ms @ xs" "distinct (map fst ms)" "fst ` set ms \<inter> set (key # seen) = {}"
      "\<forall>m \<in> set ms. member_conforms s m" "st \<in> key_states"
      "d' = \<lparr>de_rest = xs, de_state = st, de_stack = de_stack d\<rparr>" "\<not> decoder_More d'"
      by auto
    then show ?thesis using ys v t(2,3)
      by (intro exI [of _ "(key, v) # ms"] exI [of _ xs] exI [of _ st]) (auto simp: member_conforms_def)
  qed
next
  case (6 n s d)
  show ?case
  proof (cases "decoder_More d")
    case False
    with "6.prems" show ?thesis
      by (intro exI [of _ "[]"] exI [of _ "de_rest d"] exI [of _ "de_state d"]) auto
  next
    case True
    with "6.prems"(2) obtain d1 where t: "consume n s d = Inr d1" "consume_elements n s d1 = Inr d'"
      by (auto simp: bind_result_is_Inr)
    from "6.IH"(1) [of d1] True t(1) "6.prems"(1) obtain v zs where
      v: "de_rest d = lead (de_state d) @ lexemes v @ zs" "conforms s v"
      "d1 = \<lparr>de_rest = zs, de_state = ArrayComma, de_stack = de_stack d\<rparr>"
      by auto
    from "6.IH"(2) [of d1 d'] True t v(3) obtain vs xs st where
      vs: "zs = array_text ArrayComma vs @ xs" "\<forall>v \<in> set vs. conforms s v" "st \<in> {ArrayStart, ArrayComma}"
      "d' = \<lparr>de_rest = xs, de_state = st, de_stack = de_stack d\<rparr>" "\<not> decoder_More d'"
      by auto
    then show ?thesis using v by (intro exI [of _ "v # vs"] exI [of _ xs] exI [of _ st]) auto
  qed
qed auto

lemma more_value:
  "decoder_More \<lparr>de_rest = lead st @ lexemes v @ xs, de_state = st', de_stack = stk\<rparr>"
  by (cases v) (auto simp: decoder_More_def lead_def lexemes_composite split: token_state.splits)

lemma more_member:
  "decoder_More \<lparr>de_rest = lead st @ StringLexeme k # xs, de_state = st', de_stack = stk\<rparr>"
  by (auto simp: decoder_More_def lead_def split: token_state.splits)

lemma lexemes_Cons: "\<exists>x ys. lexemes v = x # ys"
  by (cases v) (auto simp: lexemes_composite)

lemma walk_complete:
  "\<And>v xs. de_state d \<in> value_states \<Longrightarrow> de_rest d = lead (de_state d) @ lexemes v @ xs \<Longrightarrow> conforms s v \<Longrightarrow>
     2 * length (de_rest d) < n \<Longrightarrow>
     consume n s d = Inr \<lparr>de_rest = xs, de_state = value_end (de_state d), de_stack = de_stack d\<rparr>"
  "\<And>ms xs. de_state d \<in> key_states \<Longrightarrow> de_rest d = object_text (de_state d) ms @ CloseObject # xs \<Longrightarrow>
     distinct (map fst ms) \<Longrightarrow> fst ` set ms \<inter> set seen = {} \<Longrightarrow> \<forall>m \<in> set ms. member_conforms s m \<Longrightarrow>
     Suc (2 * length (de_rest d)) < n \<Longrightarrow>
     consume_members n s seen d = Inr \<lparr>de_rest = CloseObject # xs,
       de_state = (if ms = [] then de_state d else ObjectComma), de_stack = de_stack d\<rparr>"
  "\<And>vs xs. de_state d \<in> {ArrayStart, ArrayComma} \<Longrightarrow> de_rest d = array_text (de_state d) vs @ CloseArray # xs \<Longrightarrow>
     \<forall>v \<in> set vs. conforms s v \<Longrightarrow> Suc (2 * length (de_rest d)) < n \<Longrightarrow>
     consume_elements n s d = Inr \<lparr>de_rest = CloseArray # xs,
       de_state = (if vs = [] then de_state d else ArrayComma), de_stack = de_stack d\<rparr>"
proof (induction n s d and n s seen d and n s d rule: consume_consume_members_consume_elements.induct)
  case (2 n s d)
  note tok = next_token_value [OF "2.prems"(1), where stk = "de_stack d"]
  show ?case
  proof (cases v)
    case JNull
    then show ?thesis using "2.prems" by simp
  next
    case (JScalar x)
    then show ?thesis using "2.prems" tok(1) by (simp add: decoder_Token_def)
  next
    case (JString x)
    then show ?thesis using "2.prems" tok(2) by (simp add: decoder_Token_def)
  next
    case (JArray vs)
    then obtain e where e: "element_schema s = Some e" "\<forall>v \<in> set vs. conforms e v"
      using "2.prems"(3) by (auto simp: conforms_array)
    define d1 where "d1 = \<lparr>de_rest = array_text ArrayStart vs @ CloseArray # xs, de_state = ArrayStart,
      de_stack = inside (de_state d) # de_stack d\<rparr>"
    have t: "decoder_Token d = Inr (Delim OpenArray, d1)"
      using "2.prems"(2) JArray tok(3) by (simp add: decoder_Token_def lexemes_composite d1_def)
    have "consume_elements n e d1 = Inr \<lparr>de_rest = CloseArray # xs,
        de_state = (if vs = [] then ArrayStart else ArrayComma), de_stack = de_stack d1\<rparr>"
      by (rule "2.IH"(2) [OF t refl refl _ refl e(1), of vs xs, THEN trans])
        (use e(2) "2.prems"(2,4) JArray in \<open>simp_all add: d1_def lexemes_composite\<close>)
    then show ?thesis using t e(1)
      by (auto simp: d1_def close_composite_def decoder_Token_def close_token_def value_end_def)
  next
    case (JObject ms)
    then have o: "allows_object s" "distinct (map fst ms)" "\<forall>m \<in> set ms. member_conforms s m"
      using "2.prems"(3) by (auto simp: conforms_object)
    define d1 where "d1 = \<lparr>de_rest = object_text ObjectStart ms @ CloseObject # xs, de_state = ObjectStart,
      de_stack = inside (de_state d) # de_stack d\<rparr>"
    have t: "decoder_Token d = Inr (Delim OpenObject, d1)"
      using "2.prems"(2) JObject tok(4) by (simp add: decoder_Token_def lexemes_composite d1_def)
    have "consume_members n s [] d1 = Inr \<lparr>de_rest = CloseObject # xs,
        de_state = (if ms = [] then ObjectStart else ObjectComma), de_stack = de_stack d1\<rparr>"
      by (rule "2.IH"(1) [OF t refl refl refl o(1), of ms xs, THEN trans])
        (use o "2.prems"(2,4) JObject in \<open>simp_all add: d1_def lexemes_composite\<close>)
    then show ?thesis using t o(1)
      by (auto simp: d1_def close_composite_def decoder_Token_def close_token_def value_end_def)
  qed
next
  case (4 n s seen d)
  show ?case
  proof (cases ms)
    case Nil
    then show ?thesis using "4.prems" by (simp add: decoder_More_def)
  next
    case (Cons m ms')
    obtain c where c: "child_schema s (fst m) = Some c" "conforms c (snd m)"
      using "4.prems"(5) Cons by (auto simp: member_conforms_def split: option.splits)
    define d1 where "d1 = \<lparr>de_rest = Colon # lexemes (snd m) @ object_text ObjectComma ms' @ CloseObject # xs,
      de_state = ObjectColon, de_stack = de_stack d\<rparr>"
    define d2 where "d2 = \<lparr>de_rest = object_text ObjectComma ms' @ CloseObject # xs,
      de_state = ObjectComma, de_stack = de_stack d\<rparr>"
    have rest: "de_rest d = lead (de_state d) @ StringLexeme (fst m) # de_rest d1"
      using "4.prems"(2) Cons by (simp add: d1_def)
    have t: "decoder_Token d = Inr (StringToken (fst m), d1)"
      using next_token_key [OF "4.prems"(1), of "fst m" "de_rest d1" "de_stack d"] rest
      by (simp add: decoder_Token_def d1_def)
    have more: "decoder_More d"
      using more_member [of "de_state d" "fst m" "de_rest d1" "de_state d" "de_stack d"] rest by (cases d) simp
    have fresh: "fst m \<notin> set seen" using "4.prems"(4) Cons by auto
    have len: "2 * length (de_rest d1) < n" "Suc (2 * length (de_rest d2)) < n" using "4.prems"(6) rest by (auto simp: d1_def d2_def)
    have v: "consume n c d1 = Inr d2"
      using "4.IH"(1) [OF _ t refl refl c(1) fresh, of "snd m" "de_rest d2"] more c(2) len(1)
      by (simp add: d1_def d2_def)
    have "consume_members n s (fst m # seen) d2 = Inr \<lparr>de_rest = CloseObject # xs,
        de_state = (if ms' = [] then ObjectComma else ObjectComma), de_stack = de_stack d2\<rparr>"
      using "4.IH"(2) [OF _ t refl refl c(1) fresh, of d2 ms' xs] more len(2) "4.prems"(3,4,5) Cons
      by (auto simp: d2_def)
    then show ?thesis using Cons more t c(1) fresh v by (simp add: d2_def)
  qed
next
  case (6 n s d)
  show ?case
  proof (cases vs)
    case Nil
    then show ?thesis using "6.prems" by (simp add: decoder_More_def)
  next
    case (Cons v vs')
    define d2 where "d2 = \<lparr>de_rest = array_text ArrayComma vs' @ CloseArray # xs,
      de_state = ArrayComma, de_stack = de_stack d\<rparr>"
    have rest: "de_rest d = lead (de_state d) @ lexemes v @ de_rest d2"
      using "6.prems"(2) Cons by (simp add: d2_def)
    have more: "decoder_More d"
      using more_value [of "de_state d" v "de_rest d2" "de_state d" "de_stack d"] rest by (cases d) simp
    have n: "Suc (2 * length (de_rest d2)) < n" using "6.prems"(4) rest lexemes_Cons [of v] by auto
    have v: "consume n s d = Inr d2"
      using "6.IH"(1) [of v "de_rest d2"] more rest "6.prems"(1,3,4) Cons by (auto simp: d2_def)
    have "consume_elements n s d2 = Inr \<lparr>de_rest = CloseArray # xs,
        de_state = (if vs' = [] then ArrayComma else ArrayComma), de_stack = de_stack d2\<rparr>"
      using "6.IH"(2) [of d2 vs' xs] more n "6.prems"(3) Cons by (auto simp: d2_def)
    then show ?thesis using Cons more v by (simp add: d2_def)
  qed
qed auto

text \<open>The fuel never runs out.\<close>

lemma walk_fuel:
  "de_state d \<in> value_states \<Longrightarrow> 2 * length (de_rest d) < n \<Longrightarrow> consume n s d \<noteq> Inl OutOfFuel"
  "de_state d \<in> key_states \<Longrightarrow> Suc (2 * length (de_rest d)) < n \<Longrightarrow> consume_members n s seen d \<noteq> Inl OutOfFuel"
  "de_state d \<in> {ArrayStart, ArrayComma} \<Longrightarrow> Suc (2 * length (de_rest d)) < n \<Longrightarrow>
     consume_elements n s d \<noteq> Inl OutOfFuel"
proof (induction n s d and n s seen d and n s d rule: consume_consume_members_consume_elements.induct)
  case (2 n s d)
  show ?case
  proof (cases "decoder_Token d")
    case (Inl e)
    then show ?thesis by simp
  next
    case (Inr td)
    then obtain t d1 where t: "decoder_Token d = Inr (t, d1)" by (cases td) auto
    note c = next_token_value_cases [OF "2.prems"(1) t [unfolded decoder_Token_def]]
    have "close_composite r \<noteq> Inl OutOfFuel" if "r \<noteq> Inl OutOfFuel" for r
      using that by (cases r) (auto simp: close_composite_def split: sum.splits)
    then show ?thesis using t c "2.IH"(1) [OF t refl] "2.IH"(2) [OF t refl] "2.prems"(2)
      by (auto split: option.splits)
  qed
next
  case (4 n s seen d)
  show ?case
  proof (cases "decoder_More d \<and> (\<exists>key d1 c. decoder_Token d = Inr (StringToken key, d1) \<and>
      child_schema s key = Some c \<and> key \<notin> set seen)")
    case False
    then show ?thesis
      by (auto split: sum.splits token.splits option.splits)
  next
    case True
    then obtain key d1 c where t: "decoder_More d" "decoder_Token d = Inr (StringToken key, d1)"
      "child_schema s key = Some c" "key \<notin> set seen" by blast
    from next_token_key_cases [OF "4.prems"(1) t(2) [unfolded decoder_Token_def]] obtain ys where
      ys: "de_rest d = lead (de_state d) @ StringLexeme key # ys"
      "d1 = \<lparr>de_rest = ys, de_state = ObjectColon, de_stack = de_stack d\<rparr>" by blast
    have v: "consume n c d1 \<noteq> Inl OutOfFuel"
      using "4.IH"(1) [OF _ t(2) refl refl t(3,4)] t(1) ys "4.prems"(2) by auto
    show ?thesis
    proof (cases "consume n c d1")
      case (Inl e)
      then show ?thesis using v t by simp
    next
      case (Inr d2)
      with walk_sound(1) [of d1 n c d2] ys obtain v zs where "ys = Colon # lexemes v @ zs"
        "d2 = \<lparr>de_rest = zs, de_state = ObjectComma, de_stack = de_stack d\<rparr>" by auto
      with Inr "4.IH"(2) [OF _ t(2) refl refl t(3,4), of d2] t ys "4.prems"(2) show ?thesis by auto
    qed
  qed
next
  case (6 n s d)
  show ?case
  proof (cases "decoder_More d")
    case False
    then show ?thesis by simp
  next
    case True
    have v: "consume n s d \<noteq> Inl OutOfFuel"
      using "6.IH"(1) True "6.prems" by auto
    show ?thesis
    proof (cases "consume n s d")
      case (Inl e)
      then show ?thesis using v True by simp
    next
      case (Inr d2)
      with walk_sound(1) [of d n s d2] "6.prems"(1) obtain v zs where
        zs: "de_rest d = lead (de_state d) @ lexemes v @ zs"
        "d2 = \<lparr>de_rest = zs, de_state = ArrayComma, de_stack = de_stack d\<rparr>" by auto
      then have "Suc (2 * length (de_rest d2)) < n" using lexemes_Cons [of v] "6.prems"(2) by auto
      with Inr "6.IH"(2) [of d2] True zs show ?thesis by auto
    qed
  qed
qed auto

theorem walk_document_fuel: "walk_document s xs \<noteq> Some OutOfFuel"
proof -
  have "consume (Suc (2 * length xs)) s (NewDecoder xs) \<noteq> Inl OutOfFuel"
    by (rule walk_fuel(1)) (simp_all add: NewDecoder_def)
  then show ?thesis by (auto simp: walk_document_def simp del: consume.simps split: sum.splits)
qed

lemma walk_document_accepts: "walk_document s xs = None \<longleftrightarrow> (\<exists>v. xs = lexemes v \<and> conforms s v)"
proof
  assume "walk_document s xs = None"
  then obtain d where d: "consume (Suc (2 * length xs)) s (NewDecoder xs) = Inr d" "decoder_Token d = Inl EndOfInput"
    by (auto simp: walk_document_def simp del: consume.simps split: sum.splits if_splits)
  with walk_sound(1) [of "NewDecoder xs" "Suc (2 * length xs)" s d] obtain v ys where
    v: "xs = lexemes v @ ys" "conforms s v" "d = \<lparr>de_rest = ys, de_state = TopValue, de_stack = []\<rparr>"
    by (auto simp: NewDecoder_def simp del: consume.simps)
  with d(2) have "ys = []"
    by (cases "(ys, TopValue, [] :: token_state list)" rule: next_token.cases)
      (auto simp: decoder_Token_def value_token_def open_token_def close_token_def tokenValueAllowed_def)
  with v show "\<exists>v. xs = lexemes v \<and> conforms s v" by auto
next
  assume "\<exists>v. xs = lexemes v \<and> conforms s v"
  then obtain v where "xs = lexemes v" "conforms s v" by blast
  with walk_complete(1) [of "NewDecoder xs" v "[]" s "Suc (2 * length xs)"] show "walk_document s xs = None"
    by (simp add: NewDecoder_def walk_document_def decoder_Token_def del: consume.simps)
qed

text \<open>
  C13. The token walk is exact. Run with its fuel on the lexemes of a document it accepts if and only if the
  document is one value that conforms to the schema, nothing after it: null nowhere, no object with a
  duplicate key, only the keys of the schema, scalars, objects and arrays only where the schema has
  them. A missing or doubled comma or colon, a bracket that closes the other kind and a cut-off document are
  refused.
\<close>

theorem walk_document_exact:
  "(walk_document s xs = None \<longleftrightarrow> (\<exists>v. xs = lexemes v \<and> conforms s v)) \<and> walk_document s xs \<noteq> Some OutOfFuel"
  by (rule conjI, rule walk_document_accepts, rule walk_document_fuel)

end
