(* ===== verification/JsonDocuments.thy ===== *)
theory JsonDocuments
  imports GoStd GoTime GoText JsonTokens
begin

section \<open>JSON documents of Go structs\<close>

text \<open>
  What \<open>encoding/json\<close> makes of a struct: an object with the fields in order, an omitted field being
  \<open>None\<close>. \<open>json.Unmarshal\<close> into a map of \<open>RawMessage\<close> keeps the last value of a key, takes null for the empty
  map and fails on everything else, also on the nil message of an absent key. A codec collects what
  the decoders take from the standard library for one type: the lexemes and the value of a document, the
  typed decoder with unknown fields refused (with whether nothing follows the value), and \<open>json.Marshal\<close>.
\<close>

record 'a json_codec =
  jc_lex :: "string \<Rightarrow> lexeme list"
  jc_parse :: "string \<Rightarrow> jvalue option"
  jc_decode :: "string \<Rightarrow> ('a \<times> bool) option"
  jc_marshal :: "'a \<Rightarrow> string option"

text \<open>
  The codec writes \<open>x\<close> as the bytes \<open>b\<close>, which denote the value \<open>v\<close>, and reads them back. \<open>encoding/json\<close>
  does so for a value whose strings are well-formed UTF-8.
\<close>

definition codec_roundtrip :: "'a json_codec \<Rightarrow> 'a \<Rightarrow> string \<Rightarrow> jvalue \<Rightarrow> bool" where
  "codec_roundtrip codec x b v \<longleftrightarrow>
     jc_marshal codec x = Some b \<and> jc_lex codec b = lexemes v \<and> jc_parse codec b = Some v \<and>
     jc_decode codec b = Some (x, True)"

text \<open>The messages of the two walks with a schema (policy/plan.go, workflow/journal.go).\<close>

definition walk_message :: "walk_error \<Rightarrow> string" where
  "walk_message e =
     (case e of
        MalformedJSON \<Rightarrow> ''contains malformed JSON''
      | NullNotAllowed \<Rightarrow> ''null is not allowed at this schema position''
      | ScalarNotAllowed \<Rightarrow> ''scalar has the wrong schema type''
      | ObjectNotAllowed \<Rightarrow> ''object is not allowed at this schema position''
      | ArrayNotAllowed \<Rightarrow> ''array is not allowed at this schema position''
      | KeyNotString \<Rightarrow> ''object key must be a string''
      | NoncanonicalKey \<Rightarrow> ''object contains a noncanonical key''
      | DuplicateKey \<Rightarrow> ''object contains a duplicate key''
      | UnexpectedDelimiter \<Rightarrow> ''contains an unexpected delimiter''
      | TrailingJSON \<Rightarrow> ''trailing JSON value''
      | OutOfFuel \<Rightarrow> [])"

subsection \<open>Structs\<close>

definition json_object :: "(string \<times> jvalue option) list \<Rightarrow> jvalue" where
  "json_object fs = JObject (List.map_filter (\<lambda>(k, v). map_option (Pair k) v) fs)"

definition json_array :: "('a \<Rightarrow> jvalue) \<Rightarrow> 'a list option \<Rightarrow> jvalue" where
  "json_array f xs = (case xs of None \<Rightarrow> JNull | Some ys \<Rightarrow> JArray (map f ys))"

definition json_bool :: "bool \<Rightarrow> jvalue" where
  "json_bool b = JScalar (JBool b)"

definition json_int :: "int \<Rightarrow> jvalue" where
  "json_int i = JScalar (JNumber (if i < 0 then CHR ''-'' # decimal (nat (- i)) else decimal (nat i)))"

text \<open>\<open>omitempty\<close> on a string and on a pointer.\<close>

definition omit_empty :: "string \<Rightarrow> jvalue option" where
  "omit_empty s = (if s = [] then None else Some (JString s))"

subsection \<open>Raw messages\<close>

definition raw_object :: "jvalue option \<Rightarrow> (string \<rightharpoonup> jvalue) option" where
  "raw_object raw =
     (case raw of Some (JObject ms) \<Rightarrow> Some (map_of (rev ms)) | Some JNull \<Rightarrow> Some Map.empty | _ \<Rightarrow> None)"

text \<open>\<open>json.Unmarshal\<close> into a slice of such maps: every element is an object or null.\<close>

fun raw_elements :: "jvalue list \<Rightarrow> (string \<rightharpoonup> jvalue) list option" where
  "raw_elements [] = Some []"
| "raw_elements (v # vs) =
     (case raw_object (Some v) of
        None \<Rightarrow> None
      | Some m \<Rightarrow> (case raw_elements vs of None \<Rightarrow> None | Some ms \<Rightarrow> Some (m # ms)))"

definition raw_array :: "jvalue option \<Rightarrow> (string \<rightharpoonup> jvalue) list option" where
  "raw_array raw =
     (case raw of Some (JArray vs) \<Rightarrow> raw_elements vs | Some JNull \<Rightarrow> Some [] | _ \<Rightarrow> None)"

subsection \<open>Lemmas\<close>

lemma first_error_map: "first_error (map f xs) = None \<longleftrightarrow> (\<forall>x \<in> set xs. f x = None)"
  by (induction xs) auto

lemma map_filter_keys:
  "map fst (List.map_filter (\<lambda>(k, v). map_option (Pair k) v) fs) = map fst (filter (\<lambda>f. snd f \<noteq> None) fs)"
  by (induction fs) (auto simp: List.map_filter_def)

lemma map_filter_mem:
  "m \<in> set (List.map_filter (\<lambda>(k, v). map_option (Pair k) v) fs) \<longleftrightarrow> (fst m, Some (snd m)) \<in> set fs"
proof (induction fs)
  case Nil
  then show ?case by (simp add: List.map_filter_def)
next
  case (Cons f fs)
  then show ?case
    by (cases f; cases "snd f"; cases m) (auto simp: map_filter_simps)
qed

text \<open>
  Well-formed UTF-8 (RFC 3629): the bytes of a sequence of Unicode scalar values. A string that is not well formed
  is not read back by \<open>encoding/json\<close>, which writes U+FFFD for each of its ill-formed bytes.
\<close>

definition utf8_encode :: "nat \<Rightarrow> nat list" where
  "utf8_encode r =
     (if r < 0x80 then [r]
      else if r < 0x800 then [0xC0 + r div 0x40, 0x80 + r mod 0x40]
      else if r < 0x10000 then [0xE0 + r div 0x1000, 0x80 + r div 0x40 mod 0x40, 0x80 + r mod 0x40]
      else [0xF0 + r div 0x40000, 0x80 + r div 0x1000 mod 0x40, 0x80 + r div 0x40 mod 0x40, 0x80 + r mod 0x40])"

definition valid_utf8 :: "string \<Rightarrow> bool" where
  "valid_utf8 s \<longleftrightarrow>
     (\<exists>rs. map byte s = concat (map utf8_encode rs) \<and> (\<forall>r \<in> set rs. r < 0xD800 \<or> 0xE000 \<le> r \<and> r < 0x110000))"

fun valid_text :: "jvalue \<Rightarrow> bool" where
  "valid_text JNull = True"
| "valid_text (JScalar x) = True"
| "valid_text (JString s) = valid_utf8 s"
| "valid_text (JArray vs) = (\<forall>v \<in> set vs. valid_text v)"
| "valid_text (JObject ms) = (\<forall>m \<in> set ms. valid_text (snd m))"

lemma valid_utf8_ascii: "list_all (\<lambda>c. byte c < 128) s \<Longrightarrow> valid_utf8 s"
proof -
  assume ascii: "list_all (\<lambda>c. byte c < 128) s"
  then have "concat (map utf8_encode (map byte s)) = map byte s"
    by (induction s) (simp_all add: utf8_encode_def)
  moreover have "\<forall>r \<in> set (map byte s). r < 0xD800" using ascii by (auto simp: list_all_iff)
  ultimately show ?thesis unfolding valid_utf8_def by (intro exI [of _ "map byte s"]) auto
qed

lemma valid_text_object: "valid_text (json_object fs) \<longleftrightarrow> list_all (\<lambda>f. case snd f of None \<Rightarrow> True | Some v \<Rightarrow> valid_text v) fs"
proof -
  have "valid_text (JObject (List.map_filter (\<lambda>(k, v). map_option (Pair k) v) fs)) \<longleftrightarrow>
      list_all (\<lambda>f. case snd f of None \<Rightarrow> True | Some v \<Rightarrow> valid_text v) fs"
    by (induction fs) (auto simp: map_filter_simps split: option.splits)
  then show ?thesis by (simp add: json_object_def)
qed

lemma valid_text_array: "valid_text (json_array f xs) \<longleftrightarrow> (case xs of None \<Rightarrow> True | Some ys \<Rightarrow> list_all (\<lambda>y. valid_text (f y)) ys)"
  by (simp add: json_array_def list_all_iff split: option.splits)

lemma valid_text_scalars [simp]: "valid_text (json_bool b)" "valid_text (json_int i)"
  by (simp_all add: json_bool_def json_int_def)

text \<open>A struct conforms to an object schema whose fields include all of its own.\<close>

definition field_conforms :: "(string \<times> json_schema) list \<Rightarrow> string \<times> jvalue option \<Rightarrow> bool" where
  "field_conforms cs f =
     (case snd f of None \<Rightarrow> True
      | Some x \<Rightarrow> (case map_of cs (fst f) of None \<Rightarrow> False | Some c \<Rightarrow> conforms c x))"

lemma conforms_struct:
  "distinct (map fst fs) \<Longrightarrow> list_all (field_conforms cs) fs \<Longrightarrow> conforms (ObjectSchema cs) (json_object fs)"
proof -
  assume d: "distinct (map fst fs)" and all: "list_all (field_conforms cs) fs"
  have "member_conforms (ObjectSchema cs) m" if "(fst m, Some (snd m)) \<in> set fs" for m
    using all that by (force simp: list_all_iff member_conforms_def child_schema_def field_conforms_def)
  then show ?thesis using d unfolding json_object_def conforms_object map_filter_keys map_filter_mem
    by (simp add: allows_object_def distinct_map_filter map_filter_mem)
qed

lemma field_conforms_simps [simp]:
  "field_conforms cs (k, None)"
  "field_conforms cs (k, Some x) \<longleftrightarrow> (case map_of cs k of None \<Rightarrow> False | Some c \<Rightarrow> conforms c x)"
  "field_conforms cs (k, omit_empty s) \<longleftrightarrow>
     (s = [] \<or> (case map_of cs k of None \<Rightarrow> False | Some c \<Rightarrow> conforms c (JString s)))"
  by (simp_all add: field_conforms_def omit_empty_def)

lemma field_conforms_map [simp]:
  "field_conforms cs (k, map_option f y) \<longleftrightarrow>
     (y = None \<or> (case map_of cs k of None \<Rightarrow> False | Some c \<Rightarrow> conforms c (f (the y))))"
  by (cases y) (simp_all add: field_conforms_def split: option.splits)

lemma conforms_list:
  "(\<And>x. x \<in> set xs \<Longrightarrow> conforms c (f x)) \<Longrightarrow> conforms (ArraySchema c) (json_array f (Some xs))"
  by (auto simp: conforms_array element_schema_def json_array_def)

lemma allows_scalar_simps [simp]: "allows_scalar ScalarSchema" "allows_scalar AnySchema"
  by (simp_all add: allows_scalar_def)

lemma conforms_leaves [simp]:
  "conforms ScalarSchema (JString s)" "conforms ScalarSchema (json_bool b)" "conforms ScalarSchema (json_int i)"
  "conforms ScalarSchema (JScalar x)"
  by (simp_all add: allows_scalar_def json_bool_def json_int_def)

definition struct_fields :: "(string \<times> jvalue option) list \<Rightarrow> string \<rightharpoonup> jvalue" where
  "struct_fields fs k = (case map_of fs k of None \<Rightarrow> None | Some v \<Rightarrow> v)"

lemma raw_object_struct [simp]:
  assumes "distinct (map fst fs)"
  shows "raw_object (Some (json_object fs)) = Some (struct_fields fs)"
proof -
  define ms where "ms = List.map_filter (\<lambda>(k, v). map_option (Pair k) v) fs"
  have d: "distinct (map fst ms)" unfolding ms_def map_filter_keys using assms by (simp add: distinct_map_filter)
  have "map_of (rev ms) k = struct_fields fs k" for k
  proof (cases "map_of ms k")
    case None
    then have "(k, Some x) \<notin> set fs" for x
      using map_filter_mem [of "(k, x)" fs] unfolding ms_def [symmetric] map_of_eq_None_iff by (auto simp: image_iff)
    then have "struct_fields fs k = None"
      by (metis (mono_tags, lifting) struct_fields_def map_of_SomeD not_None_eq option.case(1) option.case(2))
    moreover have "map_of (rev ms) k = None" using None by (auto simp: map_of_eq_None_iff)
    ultimately show ?thesis by simp
  next
    case (Some x)
    then have "(k, x) \<in> set ms" by (rule map_of_SomeD)
    moreover from this have "(k, Some x) \<in> set fs" using map_filter_mem [of "(k, x)" fs] by (simp add: ms_def)
    moreover have "distinct (map fst (rev ms))" using d by (simp add: rev_map [symmetric])
    ultimately show ?thesis using assms by (simp add: struct_fields_def)
  qed
  then show ?thesis by (auto simp: raw_object_def json_object_def ms_def [symmetric])
qed

lemma raw_array_structs:
  "(\<And>x. x \<in> set xs \<Longrightarrow> distinct (map fst (f x))) \<Longrightarrow>
     raw_array (Some (json_array (\<lambda>x. json_object (f x)) (Some xs))) = Some (map (\<lambda>x. struct_fields (f x)) xs)"
proof -
  assume d: "\<And>x. x \<in> set xs \<Longrightarrow> distinct (map fst (f x))"
  have "raw_elements (map (\<lambda>x. json_object (f x)) xs) = Some (map (\<lambda>x. struct_fields (f x)) xs)"
    using d by (induction xs) auto
  then show ?thesis by (simp add: raw_array_def json_array_def)
qed

end
