(* ===== verification/PlanDocument.thy ===== *)
theory PlanDocument
  imports PlanGuarantees JsonDocuments
begin

section \<open>internal/policy: decoding a plan (plan.go)\<close>

text \<open>
  \<open>DecodePlan\<close>: the walk against the closed schema of a plan, the typed decoder, the required fields
  of every object of the document, the invariants and the hash of the plan, and the comparison with the
  canonical encoding. \<open>plan_json\<close> is the value that \<open>json.Marshal\<close> writes by the struct tags of
  domain/plan.go; \<open>fmt_time\<close> and \<open>fmt_usd\<close> are the standard library's text of a time and of a \<open>float64\<close>.
\<close>

subsection \<open>The schema\<close>

definition scalars :: "string list \<Rightarrow> (string \<times> json_schema) list" where
  "scalars ks = map (\<lambda>k. (k, ScalarSchema)) ks"

definition planJSONStringArray :: json_schema where
  "planJSONStringArray = ArraySchema ScalarSchema"

definition planJSONResource :: json_schema where
  "planJSONResource = ObjectSchema (scalars [''kind'', ''scope'', ''name'', ''fingerprint''])"

definition planJSONRecoveryAsset :: json_schema where
  "planJSONRecoveryAsset = ObjectSchema
     ([(''resource'', planJSONResource), (''protects'', ArraySchema planJSONResource)] @
      scalars [''kind'', ''evidenceRef'', ''verifiedAt'', ''restoreTo''])"

definition planJSONExposureSource :: json_schema where
  "planJSONExposureSource = ObjectSchema (scalars [''kind'', ''value''])"

definition planJSONExposurePort :: json_schema where
  "planJSONExposurePort = ObjectSchema (scalars [''protocol'', ''number''])"

definition planJSONRetry :: json_schema where
  "planJSONRetry = ObjectSchema (scalars [''maxAttempts'', ''initialBackoffSeconds'', ''maxBackoffSeconds''])"

definition planJSONExposureControls :: json_schema where
  "planJSONExposureControls = ObjectSchema
     ([(''targets'', ArraySchema planJSONResource), (''sources'', ArraySchema planJSONExposureSource),
       (''ports'', ArraySchema planJSONExposurePort),
       (''tls'', ObjectSchema (scalars [''required'', ''hostnameVerification'', ''trust'']))] @
      scalars [''profile'', ''authentication'', ''expiresAt'', ''reviewAt'', ''auditLogging'',
        ''revocationWorkflowId'', ''simulationPreconditionId'', ''internetWide'',
        ''permanentInternetWideAcknowledged''])"

definition planJSONCost :: json_schema where
  "planJSONCost = ObjectSchema
     ([(''runRate'', ObjectSchema (scalars [''amountUSD'', ''period''])),
       (''items'', ArraySchema (ObjectSchema (scalars [''resource'', ''kind'', ''amountUSD'']))),
       (''incremental'', ObjectSchema (scalars [''amountUSD'', ''period'', ''plan''])),
       (''assumptions'', planJSONStringArray), (''unpriced'', planJSONStringArray),
       (''budget'', ObjectSchema (scalars [''state'', ''reason'', ''ceilingUSD'']))] @
      scalars [''source'', ''priceTableDate'', ''stale''])"

definition planJSONStep :: json_schema where
  "planJSONStep = ObjectSchema
     ([(''retry'', planJSONRetry), (''targets'', ArraySchema planJSONResource)] @
      scalars [''id'', ''executor'', ''executingIdentity'', ''commandRedacted'', ''idempotent'', ''cancelSafe'',
        ''timeoutSeconds'', ''successCondition'', ''failureBehavior''])"

definition planJSONRoot :: json_schema where
  "planJSONRoot = ObjectSchema
     (scalars [''planId'', ''planHash'', ''workflowId'', ''projectId'', ''environment'', ''environmentClass'',
        ''principal'', ''createdAt'', ''approvalClass'', ''expiresAt'', ''coolingOffSeconds'',
        ''stepUpRequired'', ''exposure'', ''pointOfNoReturn'', ''pointOfNoReturnTrigger''] @
      [(''exposureControls'', planJSONExposureControls),
       (''identity'', ObjectSchema (scalars [''default'', ''hostControlSteps'', ''deleteSteps'', ''bootstrapSteps''])),
       (''policyHash'', ObjectSchema (scalars [''local'', ''approved'', ''match''])),
       (''intent'', ObjectSchema (scalars [''validUntil'', ''windowStart''])),
       (''resources'', ArraySchema planJSONResource),
       (''preconditions'', ArraySchema (ObjectSchema (scalars [''id'', ''ok'', ''detail'']))),
       (''permissions'', ArraySchema (ObjectSchema
          ((''resource'', planJSONResource) # scalars [''stepId'', ''identity'', ''permission'', ''granted'']))),
       (''steps'', ArraySchema planJSONStep), (''cost'', planJSONCost),
       (''downtime'', ObjectSchema (scalars [''expectedSeconds'', ''kind''])),
       (''protection'', planJSONStringArray),
       (''rollback'', ObjectSchema
          [(''boundary'', ScalarSchema), (''assets'', ArraySchema planJSONRecoveryAsset)]),
       (''verification'', planJSONStringArray)])"

definition consumeUniqueJSONValue :: "nat \<Rightarrow> json_schema \<Rightarrow> decoder \<Rightarrow> plan_error + decoder" where
  "consumeUniqueJSONValue = walk_as (\<lambda>e. ErrInvalidPlan ''decode'' (walk_message e))"

definition rejectDuplicateJSONKeys :: "lexeme list \<Rightarrow> plan_error option" where
  "rejectDuplicateJSONKeys xs =
     (case consumeUniqueJSONValue (Suc (2 * length xs)) planJSONRoot (NewDecoder xs) of
        Inl e \<Rightarrow> Some e
      | Inr d \<Rightarrow> fail_if (decoder_Token d \<noteq> Inl EndOfInput) (ErrInvalidPlan ''decode'' ''trailing JSON value''))"

lemma rejectDuplicateJSONKeys_walk:
  "rejectDuplicateJSONKeys xs = None \<longleftrightarrow> walk_document planJSONRoot xs = None"
  by (auto simp: rejectDuplicateJSONKeys_def consumeUniqueJSONValue_def walk_as_def walk_document_def
      simp del: consume.simps split: sum.splits)

subsection \<open>Required fields\<close>

definition requireJSONFields :: "(string \<rightharpoonup> jvalue) \<Rightarrow> string \<Rightarrow> string list \<Rightarrow> plan_error option" where
  "requireJSONFields value path required =
     first_error (map (\<lambda>field. fail_if (value field = None)
       (ErrInvalidPlan (path @ ''.'' @ field) ''is required'')) required)"

definition requireNestedJSONFields :: "jvalue option \<Rightarrow> string \<Rightarrow> string list \<Rightarrow> plan_error option" where
  "requireNestedJSONFields raw path required =
     (case raw_object raw of
        None \<Rightarrow> Some (ErrInvalidPlan path ''must be an object'')
      | Some value \<Rightarrow> requireJSONFields value path required)"

definition element_path :: "string \<Rightarrow> nat \<Rightarrow> string" where
  "element_path path index = path @ ''['' @ decimal index @ '']''"

definition requireJSONArrayFields :: "jvalue option \<Rightarrow> string \<Rightarrow> string list \<Rightarrow> plan_error option" where
  "requireJSONArrayFields raw path required =
     (case raw_array raw of
        None \<Rightarrow> Some (ErrInvalidPlan path ''must be an array'')
      | Some values \<Rightarrow> check_each (\<lambda>i value. requireJSONFields value (element_path path i) required) 0 values)"

definition resource_fields :: "string list" where
  "resource_fields = [''kind'', ''scope'', ''name'', ''fingerprint'']"

definition required_asset :: "nat \<Rightarrow> (string \<rightharpoonup> jvalue) \<Rightarrow> plan_error option" where
  "required_asset index asset =
     (let path = element_path ''rollback.assets'' index in first_error
       [requireJSONFields asset path [''kind'', ''resource'', ''protects'', ''evidenceRef'', ''verifiedAt''],
        requireNestedJSONFields (asset ''resource'') (path @ ''.resource'') resource_fields,
        requireJSONArrayFields (asset ''protects'') (path @ ''.protects'') resource_fields,
        fail_if (asset ''kind'' = Some (JString (RecoveryAssetKind_string RecoveryAssetPBMRecoveryPoint)) \<and>
            asset ''restoreTo'' = None)
          (ErrInvalidPlan (path @ ''.restoreTo'') ''is required for a PBM recovery point'')])"

definition validateRequiredRecoveryAssetsJSON :: "jvalue option \<Rightarrow> plan_error option" where
  "validateRequiredRecoveryAssetsJSON raw =
     (case raw_array raw of
        None \<Rightarrow> Some (ErrInvalidPlan ''rollback.assets'' ''must be an array'')
      | Some assets \<Rightarrow> check_each required_asset 0 assets)"

definition validateRequiredExposureControlsJSON :: "jvalue option \<Rightarrow> plan_error option" where
  "validateRequiredExposureControlsJSON raw =
     (case raw_object raw of
        None \<Rightarrow> Some (ErrInvalidPlan ''exposureControls'' ''must be an object'')
      | Some controls \<Rightarrow> first_error
          [requireJSONFields controls ''exposureControls''
             [''profile'', ''targets'', ''sources'', ''ports'', ''authentication'', ''tls'', ''auditLogging'',
              ''revocationWorkflowId'', ''simulationPreconditionId'', ''internetWide'',
              ''permanentInternetWideAcknowledged''],
           requireJSONArrayFields (controls ''targets'') ''exposureControls.targets'' resource_fields,
           requireJSONArrayFields (controls ''sources'') ''exposureControls.sources'' [''kind'', ''value''],
           requireJSONArrayFields (controls ''ports'') ''exposureControls.ports'' [''protocol'', ''number''],
           requireNestedJSONFields (controls ''tls'') ''exposureControls.tls''
             [''required'', ''hostnameVerification'', ''trust'']])"

definition validateRequiredCostJSON :: "jvalue option \<Rightarrow> plan_error option" where
  "validateRequiredCostJSON raw =
     (case raw_object raw of
        None \<Rightarrow> Some (ErrInvalidPlan ''cost'' ''must be an object'')
      | Some cost \<Rightarrow> first_error
          [requireJSONFields cost ''cost''
             [''runRate'', ''items'', ''source'', ''priceTableDate'', ''stale'', ''assumptions'', ''unpriced'',
              ''budget''],
           requireNestedJSONFields (cost ''runRate'') ''cost.runRate'' [''amountUSD'', ''period''],
           requireJSONArrayFields (cost ''items'') ''cost.items'' [''resource'', ''kind'', ''amountUSD''],
           (case cost ''incremental'' of
              None \<Rightarrow> None
            | Some incremental \<Rightarrow> requireNestedJSONFields (Some incremental) ''cost.incremental''
                [''amountUSD'', ''period'', ''plan'']),
           requireNestedJSONFields (cost ''budget'') ''cost.budget'' [''state'']])"

definition required_permission :: "nat \<Rightarrow> (string \<rightharpoonup> jvalue) \<Rightarrow> plan_error option" where
  "required_permission index permission =
     requireNestedJSONFields (permission ''resource'') (element_path ''permissions'' index @ ''.resource'')
       resource_fields"

definition required_step :: "nat \<Rightarrow> (string \<rightharpoonup> jvalue) \<Rightarrow> plan_error option" where
  "required_step index step =
     (let path = element_path ''steps'' index in first_error
       [requireJSONFields step path
          [''id'', ''executor'', ''executingIdentity'', ''commandRedacted'', ''idempotent'', ''retry'',
           ''cancelSafe'', ''timeoutSeconds'', ''successCondition'', ''failureBehavior'', ''targets''],
        requireNestedJSONFields (step ''retry'') (path @ ''.retry'')
          [''maxAttempts'', ''initialBackoffSeconds'', ''maxBackoffSeconds''],
        requireJSONArrayFields (step ''targets'') (path @ ''.targets'') resource_fields])"

definition required_elements ::
  "string \<Rightarrow> (nat \<Rightarrow> (string \<rightharpoonup> jvalue) \<Rightarrow> plan_error option) \<Rightarrow> jvalue option \<Rightarrow> plan_error option" where
  "required_elements path f raw =
     (case raw_array raw of
        None \<Rightarrow> Some (ErrInvalidPlan path ''must be an array'')
      | Some values \<Rightarrow> check_each f 0 values)"

definition validateRequiredPlanJSON :: "jvalue option \<Rightarrow> plan_error option" where
  "validateRequiredPlanJSON raw =
     (case raw_object raw of
        None \<Rightarrow> Some (ErrInvalidPlan ''decode'' ''contains malformed JSON'')
      | Some plan \<Rightarrow> first_error
          [requireJSONFields plan ''plan''
             [''planId'', ''planHash'', ''workflowId'', ''projectId'', ''environment'', ''environmentClass'',
              ''principal'', ''createdAt'', ''approvalClass'', ''expiresAt'', ''coolingOffSeconds'', ''identity'',
              ''policyHash'', ''stepUpRequired'', ''resources'', ''preconditions'', ''permissions'', ''steps'',
              ''cost'', ''downtime'', ''exposure'', ''protection'', ''rollback'', ''verification''],
           requireNestedJSONFields (plan ''identity'') ''identity''
             [''default'', ''hostControlSteps'', ''deleteSteps'', ''bootstrapSteps''],
           requireNestedJSONFields (plan ''policyHash'') ''policyHash'' [''match''],
           (case plan ''intent'' of
              None \<Rightarrow> None
            | Some intent \<Rightarrow> requireNestedJSONFields (Some intent) ''intent'' [''validUntil'', ''windowStart'']),
           fail_if (plan ''pointOfNoReturn'' \<noteq> None \<and> plan ''pointOfNoReturnTrigger'' = None)
             (ErrInvalidPlan ''pointOfNoReturnTrigger'' ''is required with pointOfNoReturn''),
           requireJSONArrayFields (plan ''resources'') ''resources'' resource_fields,
           requireJSONArrayFields (plan ''preconditions'') ''preconditions'' [''id'', ''ok'', ''detail''],
           requireJSONArrayFields (plan ''permissions'') ''permissions''
             [''stepId'', ''identity'', ''permission'', ''resource'', ''granted''],
           required_elements ''permissions'' required_permission (plan ''permissions''),
           required_elements ''steps'' required_step (plan ''steps''),
           validateRequiredCostJSON (plan ''cost''),
           requireNestedJSONFields (plan ''downtime'') ''downtime'' [''expectedSeconds'', ''kind''],
           requireNestedJSONFields (plan ''rollback'') ''rollback'' [''boundary'', ''assets''],
           (case raw_object (plan ''rollback'') of
              None \<Rightarrow> Some (ErrInvalidPlan ''rollback'' ''must be an object'')
            | Some rollback \<Rightarrow> validateRequiredRecoveryAssetsJSON (rollback ''assets'')),
           (case plan ''exposureControls'' of
              None \<Rightarrow> None
            | Some controls \<Rightarrow> validateRequiredExposureControlsJSON (Some controls))])"

definition DecodePlan :: "Plan json_codec \<Rightarrow> (string \<Rightarrow> string) \<Rightarrow> string \<Rightarrow> plan_error + Plan" where
  "DecodePlan codec sha256hex encoded =
     check (rejectDuplicateJSONKeys (jc_lex codec encoded))
       (case jc_decode codec encoded of
          None \<Rightarrow> Inl (ErrInvalidPlan ''decode'' ''contains an invalid typed value'')
        | Some (plan, at_end) \<Rightarrow>
            check (first_error
              [fail_if (\<not> at_end) (ErrInvalidPlan ''decode'' ''trailing JSON value''),
               validateRequiredPlanJSON (jc_parse codec encoded),
               ValidatePlan (jc_marshal codec) sha256hex plan,
               fail_if (jc_marshal codec plan \<noteq> Some encoded)
                 (ErrInvalidPlan ''decode'' ''must use canonical PlanV1 JSON'')])
              (Inr plan))"

subsection \<open>The encoding of a plan\<close>

type_synonym struct = "(string \<times> jvalue option) list"

definition resource_json :: "PlanResource \<Rightarrow> struct" where
  "resource_json r =
     [(''kind'', Some (JString (pr_Kind r))), (''scope'', Some (JString (pr_Scope r))),
      (''name'', Some (JString (pr_Name r))), (''fingerprint'', Some (JString (pr_Fingerprint r)))]"

abbreviation resources_json :: "PlanResource list option \<Rightarrow> jvalue" where
  "resources_json \<equiv> json_array (\<lambda>r. json_object (resource_json r))"

definition precondition_json :: "PlanPrecondition \<Rightarrow> struct" where
  "precondition_json p =
     [(''id'', Some (JString (pp_ID p))), (''ok'', Some (json_bool (pp_OK p))),
      (''detail'', Some (JString (pp_Detail p)))]"

definition permission_json :: "PlanPermission \<Rightarrow> struct" where
  "permission_json p =
     [(''stepId'', Some (JString (pm_StepID p))),
      (''identity'', Some (JString (ExecutionIdentity_string (pm_Identity p)))),
      (''permission'', Some (JString (pm_Permission p))),
      (''resource'', Some (json_object (resource_json (pm_Resource p)))),
      (''granted'', Some (json_bool (pm_Granted p)))]"

definition retry_json :: "RetryPolicy \<Rightarrow> struct" where
  "retry_json r =
     [(''maxAttempts'', Some (json_int (uint (rp_MaxAttempts r)))),
      (''initialBackoffSeconds'', Some (json_int (rp_InitialBackoffSeconds r))),
      (''maxBackoffSeconds'', Some (json_int (rp_MaxBackoffSeconds r)))]"

definition plan_step_json :: "PlanStep \<Rightarrow> struct" where
  "plan_step_json s =
     [(''id'', Some (JString (ps_ID s))), (''executor'', Some (JString (ps_Executor s))),
      (''executingIdentity'', Some (JString (ExecutionIdentity_string (ps_ExecutingIdentity s)))),
      (''commandRedacted'', Some (JString (ps_CommandRedacted s))),
      (''idempotent'', Some (json_bool (ps_Idempotent s))), (''retry'', Some (json_object (retry_json (ps_Retry s)))),
      (''cancelSafe'', Some (json_bool (ps_CancelSafe s))), (''timeoutSeconds'', Some (json_int (ps_TimeoutSeconds s))),
      (''successCondition'', Some (JString (ps_SuccessCondition s))),
      (''failureBehavior'', Some (JString (FailureBehavior_string (ps_FailureBehavior s)))),
      (''targets'', Some (resources_json (ps_Targets s)))]"

definition recovery_json :: "(gotime \<Rightarrow> string) \<Rightarrow> PlanRecoveryAsset \<Rightarrow> struct" where
  "recovery_json fmt_time a =
     [(''kind'', Some (JString (RecoveryAssetKind_string (ra_Kind a)))),
      (''resource'', Some (json_object (resource_json (ra_Resource a)))),
      (''protects'', Some (resources_json (ra_Protects a))), (''evidenceRef'', Some (JString (ra_EvidenceRef a))),
      (''verifiedAt'', Some (JString (fmt_time (ra_VerifiedAt a)))),
      (''restoreTo'', map_option (\<lambda>t. JString (fmt_time t)) (ra_RestoreTo a))]"

definition source_json :: "PlanExposureSource \<Rightarrow> struct" where
  "source_json s =
     [(''kind'', Some (JString (ExposureSourceKind_string (xs_Kind s)))), (''value'', Some (JString (xs_Value s)))]"

definition port_json :: "PlanExposurePort \<Rightarrow> struct" where
  "port_json p =
     [(''protocol'', Some (JString (xp_Protocol p))), (''number'', Some (json_int (uint (xp_Number p))))]"

definition tls_json :: "PlanExposureTLS \<Rightarrow> struct" where
  "tls_json t =
     [(''required'', Some (json_bool (xt_Required t))),
      (''hostnameVerification'', Some (json_bool (xt_HostnameVerification t))),
      (''trust'', Some (JString (ExposureTrust_string (xt_Trust t))))]"

definition controls_json :: "(gotime \<Rightarrow> string) \<Rightarrow> PlanExposureControls \<Rightarrow> struct" where
  "controls_json fmt_time c =
     [(''profile'', Some (JString (ExposureProfile_string (xc_Profile c)))),
      (''targets'', Some (resources_json (xc_Targets c))),
      (''sources'', Some (json_array (\<lambda>s. json_object (source_json s)) (xc_Sources c))),
      (''ports'', Some (json_array (\<lambda>p. json_object (port_json p)) (xc_Ports c))),
      (''authentication'', Some (JString (ExposureAuthentication_string (xc_Authentication c)))),
      (''tls'', Some (json_object (tls_json (xc_TLS c)))),
      (''expiresAt'', map_option (\<lambda>t. JString (fmt_time t)) (xc_ExpiresAt c)),
      (''reviewAt'', map_option (\<lambda>t. JString (fmt_time t)) (xc_ReviewAt c)),
      (''auditLogging'', Some (json_bool (xc_AuditLogging c))),
      (''revocationWorkflowId'', Some (JString (xc_RevocationWorkflowID c))),
      (''simulationPreconditionId'', Some (JString (xc_SimulationPreconditionID c))),
      (''internetWide'', Some (json_bool (xc_InternetWide c))),
      (''permanentInternetWideAcknowledged'', Some (json_bool (xc_PermanentInternetWideAcknowledged c)))]"

definition rate_json :: "(usd \<Rightarrow> string) \<Rightarrow> PlanCostRate \<Rightarrow> struct" where
  "rate_json fmt_usd r =
     [(''amountUSD'', Some (JScalar (JNumber (fmt_usd (cr_AmountUSD r))))), (''period'', Some (JString (cr_Period r)))]"

definition item_json :: "(usd \<Rightarrow> string) \<Rightarrow> PlanCostItem \<Rightarrow> struct" where
  "item_json fmt_usd i =
     [(''resource'', Some (JString (ci_Resource i))), (''kind'', Some (JString (ci_Kind i))),
      (''amountUSD'', Some (JScalar (JNumber (fmt_usd (ci_AmountUSD i)))))]"

definition incremental_json :: "(usd \<Rightarrow> string) \<Rightarrow> PlanCostIncremental \<Rightarrow> struct" where
  "incremental_json fmt_usd i =
     [(''amountUSD'', Some (JScalar (JNumber (fmt_usd (cn_AmountUSD i))))),
      (''period'', Some (JString (cn_Period i))), (''plan'', Some (JString (cn_Plan i)))]"

text \<open>\<open>omitempty\<close> has no effect on the reason: it is a struct with its own \<open>MarshalJSON\<close>.\<close>

definition budget_json :: "(usd \<Rightarrow> string) \<Rightarrow> PlanCostBudget \<Rightarrow> struct" where
  "budget_json fmt_usd b =
     [(''state'', Some (JString (BudgetState_string (cb_State b)))), (''reason'', Some (JString (cb_Reason b))),
      (''ceilingUSD'', map_option (\<lambda>u. JScalar (JNumber (fmt_usd u))) (cb_CeilingUSD b))]"

definition cost_json :: "(usd \<Rightarrow> string) \<Rightarrow> PlanCost \<Rightarrow> struct" where
  "cost_json fmt_usd c =
     [(''runRate'', Some (json_object (rate_json fmt_usd (pc_RunRate c)))),
      (''items'', Some (json_array (\<lambda>i. json_object (item_json fmt_usd i)) (pc_Items c))),
      (''incremental'', map_option (\<lambda>i. json_object (incremental_json fmt_usd i)) (pc_Incremental c)),
      (''source'', Some (JString (CostSource_string (pc_Source c)))),
      (''priceTableDate'', Some (JString (pc_PriceTableDate c))), (''stale'', Some (json_bool (pc_Stale c))),
      (''assumptions'', Some (json_array JString (pc_Assumptions c))),
      (''unpriced'', Some (json_array JString (pc_Unpriced c))),
      (''budget'', Some (json_object (budget_json fmt_usd (pc_Budget c))))]"

definition identity_json :: "IdentityPlan \<Rightarrow> struct" where
  "identity_json i =
     [(''default'', Some (JString (ExecutionIdentity_string (ip_Default i)))),
      (''hostControlSteps'', Some (JString (ExecutionIdentity_string (ip_HostControlSteps i)))),
      (''deleteSteps'', Some (JString (ExecutionIdentity_string (ip_DeleteSteps i)))),
      (''bootstrapSteps'', Some (JString (ExecutionIdentity_string (ip_BootstrapSteps i))))]"

definition policy_hash_json :: "PlanPolicyHash \<Rightarrow> struct" where
  "policy_hash_json h =
     [(''local'', omit_empty (ph_Local h)), (''approved'', omit_empty (ph_Approved h)),
      (''match'', Some (json_bool (ph_Match h)))]"

definition intent_json :: "(gotime \<Rightarrow> string) \<Rightarrow> PlanIntent \<Rightarrow> struct" where
  "intent_json fmt_time i =
     [(''validUntil'', Some (JString (fmt_time (pi_ValidUntil i)))),
      (''windowStart'', Some (JString (fmt_time (pi_WindowStart i))))]"

definition downtime_json :: "PlanDowntime \<Rightarrow> struct" where
  "downtime_json d =
     [(''expectedSeconds'', Some (json_int (pd_ExpectedSeconds d))), (''kind'', Some (JString (pd_Kind d)))]"

definition rollback_json :: "(gotime \<Rightarrow> string) \<Rightarrow> PlanRollback \<Rightarrow> struct" where
  "rollback_json fmt_time r =
     [(''boundary'', Some (JString (rb_Boundary r))),
      (''assets'', Some (json_array (\<lambda>a. json_object (recovery_json fmt_time a)) (rb_Assets r)))]"

definition plan_fields :: "(gotime \<Rightarrow> string) \<Rightarrow> (usd \<Rightarrow> string) \<Rightarrow> Plan \<Rightarrow> struct" where
  "plan_fields fmt_time fmt_usd p =
     [(''planId'', Some (JString (pl_PlanID p))), (''planHash'', Some (JString (pl_PlanHash p))),
      (''workflowId'', Some (JString (pl_WorkflowID p))), (''projectId'', Some (JString (pl_ProjectID p))),
      (''environment'', Some (JString (pl_Environment p))),
      (''environmentClass'', Some (JString (EnvironmentClass_string (pl_EnvironmentClass p)))),
      (''principal'', Some (JString (pl_Principal p))), (''createdAt'', Some (JString (fmt_time (pl_CreatedAt p)))),
      (''approvalClass'', Some (JString (ApprovalClass_String (pl_ApprovalClass p)))),
      (''expiresAt'', Some (JString (fmt_time (pl_ExpiresAt p)))),
      (''coolingOffSeconds'', Some (json_int (pl_CoolingOffSeconds p))),
      (''identity'', Some (json_object (identity_json (pl_Identity p)))),
      (''policyHash'', Some (json_object (policy_hash_json (pl_PolicyHash p)))),
      (''stepUpRequired'', Some (json_bool (pl_StepUpRequired p))),
      (''intent'', map_option (\<lambda>i. json_object (intent_json fmt_time i)) (pl_Intent p)),
      (''resources'', Some (resources_json (pl_Resources p))),
      (''preconditions'', Some (json_array (\<lambda>x. json_object (precondition_json x)) (pl_Preconditions p))),
      (''permissions'', Some (json_array (\<lambda>x. json_object (permission_json x)) (pl_Permissions p))),
      (''steps'', Some (json_array (\<lambda>x. json_object (plan_step_json x)) (pl_Steps p))),
      (''cost'', Some (json_object (cost_json fmt_usd (pl_Cost p)))),
      (''downtime'', Some (json_object (downtime_json (pl_Downtime p)))),
      (''exposure'', Some (JString (ExposureDelta_string (pl_Exposure p)))),
      (''exposureControls'', map_option (\<lambda>c. json_object (controls_json fmt_time c)) (pl_ExposureControls p)),
      (''protection'', Some (json_array JString (pl_Protection p))),
      (''rollback'', Some (json_object (rollback_json fmt_time (pl_Rollback p)))),
      (''pointOfNoReturn'', omit_empty (pl_PointOfNoReturn p)),
      (''pointOfNoReturnTrigger'', omit_empty (PointOfNoReturnTrigger_string (pl_PointOfNoReturnTrigger p))),
      (''verification'', Some (json_array JString (pl_Verification p)))]"

abbreviation plan_json :: "(gotime \<Rightarrow> string) \<Rightarrow> (usd \<Rightarrow> string) \<Rightarrow> Plan \<Rightarrow> jvalue" where
  "plan_json fmt_time fmt_usd p \<equiv> json_object (plan_fields fmt_time fmt_usd p)"

subsection \<open>The schema describes the encoding\<close>

lemmas small_json_defs =
  resource_json_def precondition_json_def permission_json_def retry_json_def plan_step_json_def recovery_json_def
  source_json_def port_json_def tls_json_def controls_json_def rate_json_def item_json_def incremental_json_def
  budget_json_def cost_json_def identity_json_def policy_hash_json_def intent_json_def downtime_json_def
  rollback_json_def

lemma struct_distinct [simp]:
  "distinct (map fst (resource_json a1))" "distinct (map fst (precondition_json a2))"
  "distinct (map fst (permission_json a3))" "distinct (map fst (retry_json a4))"
  "distinct (map fst (plan_step_json a5))" "distinct (map fst (recovery_json f a6))"
  "distinct (map fst (source_json a7))" "distinct (map fst (port_json a8))" "distinct (map fst (tls_json a9))"
  "distinct (map fst (controls_json f b1))" "distinct (map fst (rate_json g b2))"
  "distinct (map fst (item_json g b3))" "distinct (map fst (incremental_json g b4))"
  "distinct (map fst (budget_json g b5))" "distinct (map fst (cost_json g b6))"
  "distinct (map fst (identity_json b7))" "distinct (map fst (policy_hash_json b8))"
  "distinct (map fst (intent_json f b9))" "distinct (map fst (downtime_json c1))"
  "distinct (map fst (rollback_json f c2))" "distinct (map fst (plan_fields f g c3))"
  by (simp_all add: small_json_defs plan_fields_def)

lemma struct_conforms [simp]:
  "conforms planJSONResource (json_object (resource_json a1))"
  "conforms planJSONRetry (json_object (retry_json a4))"
  "conforms planJSONExposureSource (json_object (source_json a7))"
  "conforms planJSONExposurePort (json_object (port_json a8))"
  "conforms (ObjectSchema (scalars [''required'', ''hostnameVerification'', ''trust''])) (json_object (tls_json a9))"
  "conforms (ObjectSchema (scalars [''id'', ''ok'', ''detail''])) (json_object (precondition_json a2))"
  "conforms (ObjectSchema (scalars [''amountUSD'', ''period''])) (json_object (rate_json g b2))"
  "conforms (ObjectSchema (scalars [''resource'', ''kind'', ''amountUSD''])) (json_object (item_json g b3))"
  "conforms (ObjectSchema (scalars [''amountUSD'', ''period'', ''plan''])) (json_object (incremental_json g b4))"
  "conforms (ObjectSchema (scalars [''state'', ''reason'', ''ceilingUSD''])) (json_object (budget_json g b5))"
  "conforms (ObjectSchema (scalars [''default'', ''hostControlSteps'', ''deleteSteps'', ''bootstrapSteps'']))
     (json_object (identity_json b7))"
  "conforms (ObjectSchema (scalars [''local'', ''approved'', ''match''])) (json_object (policy_hash_json b8))"
  "conforms (ObjectSchema (scalars [''validUntil'', ''windowStart''])) (json_object (intent_json f b9))"
  "conforms (ObjectSchema (scalars [''expectedSeconds'', ''kind''])) (json_object (downtime_json c1))"
  unfolding planJSONResource_def planJSONRetry_def planJSONExposureSource_def planJSONExposurePort_def
  by (rule conforms_struct; auto simp: small_json_defs scalars_def)+

text \<open>Looking a key up in the fields of a schema without unfolding the nested ones.\<close>

lemma scalars_lookup [simp]:
  "map_of (scalars ks) k = (if k \<in> set ks then Some ScalarSchema else None)"
  "map_of (scalars ks @ cs) k = (if k \<in> set ks then Some ScalarSchema else map_of cs k)"
  by (induction ks) (auto simp: scalars_def)

lemma array_conforms:
  "xs \<noteq> None \<Longrightarrow> (\<And>x. x \<in> set (elems xs) \<Longrightarrow> conforms c (f x)) \<Longrightarrow> conforms (ArraySchema c) (json_array f xs)"
  by (auto intro: conforms_list)

lemma permission_conforms:
  "conforms (ObjectSchema ((''resource'', planJSONResource) # scalars [''stepId'', ''identity'', ''permission'', ''granted'']))
     (json_object (permission_json p))"
  by (rule conforms_struct) (auto simp: permission_json_def)

lemma plan_step_conforms:
  "ps_Targets s \<noteq> None \<Longrightarrow> conforms planJSONStep (json_object (plan_step_json s))"
  unfolding planJSONStep_def by (rule conforms_struct) (auto simp: plan_step_json_def intro!: conforms_list)

lemma recovery_conforms:
  "ra_Protects a \<noteq> None \<Longrightarrow> conforms planJSONRecoveryAsset (json_object (recovery_json f a))"
  unfolding planJSONRecoveryAsset_def
  by (rule conforms_struct) (auto simp: recovery_json_def intro!: conforms_list)

lemma controls_conforms:
  "xc_Targets c \<noteq> None \<Longrightarrow> xc_Sources c \<noteq> None \<Longrightarrow> xc_Ports c \<noteq> None \<Longrightarrow>
     conforms planJSONExposureControls (json_object (controls_json f c))"
  unfolding planJSONExposureControls_def
  by (rule conforms_struct) (auto simp: controls_json_def intro!: conforms_list)

lemma cost_conforms:
  "pc_Items c \<noteq> None \<Longrightarrow> pc_Assumptions c \<noteq> None \<Longrightarrow> pc_Unpriced c \<noteq> None \<Longrightarrow>
     conforms planJSONCost (json_object (cost_json g c))"
  unfolding planJSONCost_def planJSONStringArray_def
  by (rule conforms_struct)
    (auto simp: cost_json_def intro!: conforms_list)

text \<open>The canonical collections of a plan: no nil slice anywhere.\<close>

lemma canonical_collections:
  assumes "validateCanonicalPlanCollections p = None"
  shows "pl_Resources p \<noteq> None" "pl_Preconditions p \<noteq> None" "pl_Permissions p \<noteq> None" "pl_Steps p \<noteq> None"
    "pc_Items (pl_Cost p) \<noteq> None" "pc_Assumptions (pl_Cost p) \<noteq> None" "pc_Unpriced (pl_Cost p) \<noteq> None"
    "pl_Protection p \<noteq> None" "rb_Assets (pl_Rollback p) \<noteq> None" "pl_Verification p \<noteq> None"
    "\<And>s. s \<in> set (elems (pl_Steps p)) \<Longrightarrow> ps_Targets s \<noteq> None"
    "\<And>a. a \<in> set (elems (rb_Assets (pl_Rollback p))) \<Longrightarrow> ra_Protects a \<noteq> None"
    "\<And>c. pl_ExposureControls p = Some c \<Longrightarrow> xc_Targets c \<noteq> None \<and> xc_Sources c \<noteq> None \<and> xc_Ports c \<noteq> None"
  using assms by (auto simp: validateCanonicalPlanCollections_def list_ex_iff)

lemma plan_conforms:
  assumes "validateCanonicalPlanCollections p = None"
  shows "conforms planJSONRoot (plan_json fmt_time fmt_usd p)"
proof -
  note c = canonical_collections [OF assms]
  have steps: "conforms (ArraySchema planJSONStep)
      (json_array (\<lambda>x. json_object (plan_step_json x)) (pl_Steps p))"
    using c(4,11) by (intro array_conforms plan_step_conforms)
  have assets: "conforms (ObjectSchema [(''boundary'', ScalarSchema), (''assets'', ArraySchema planJSONRecoveryAsset)])
      (json_object (rollback_json fmt_time (pl_Rollback p)))"
    by (rule conforms_struct)
      (use c(9,12) in \<open>auto simp: rollback_json_def intro!: array_conforms recovery_conforms\<close>)
  have arrays: "conforms (ArraySchema planJSONResource) (resources_json (pl_Resources p))"
    "conforms (ArraySchema (ObjectSchema (scalars [''id'', ''ok'', ''detail''])))
      (json_array (\<lambda>x. json_object (precondition_json x)) (pl_Preconditions p))"
    "conforms (ArraySchema (ObjectSchema
      ((''resource'', planJSONResource) # scalars [''stepId'', ''identity'', ''permission'', ''granted''])))
      (json_array (\<lambda>x. json_object (permission_json x)) (pl_Permissions p))"
    "conforms planJSONStringArray (json_array JString (pl_Protection p))"
    "conforms planJSONStringArray (json_array JString (pl_Verification p))"
    unfolding planJSONStringArray_def
    using c(1-3,8,10) by (auto intro!: array_conforms permission_conforms)
  have controls: "pl_ExposureControls p = None \<or>
      conforms planJSONExposureControls (json_object (controls_json fmt_time (the (pl_ExposureControls p))))"
    using c(13) by (cases "pl_ExposureControls p") (auto intro: controls_conforms)
  show ?thesis
    unfolding planJSONRoot_def
    by (rule conforms_struct)
      (use c(5-7) controls in \<open>simp_all add: plan_fields_def steps assets arrays cost_conforms
         del: map_of_append\<close>)
qed

subsection \<open>The required fields are always written\<close>

definition writes :: "struct \<Rightarrow> string list \<Rightarrow> bool" where
  "writes fs ks = list_all (\<lambda>k. struct_fields fs k \<noteq> None) ks"

lemma writes_fields: "writes fs ks \<Longrightarrow> requireJSONFields (struct_fields fs) path ks = None"
  by (auto simp: writes_def requireJSONFields_def list_all_iff first_error_map)

lemma writes_nested:
  "distinct (map fst fs) \<Longrightarrow> writes fs ks \<Longrightarrow> requireNestedJSONFields (Some (json_object fs)) path ks = None"
  by (simp add: requireNestedJSONFields_def writes_fields)

lemma writes_array:
  assumes "xs \<noteq> None" and "\<And>x. x \<in> set (elems xs) \<Longrightarrow> distinct (map fst (f x)) \<and> writes (f x) ks"
  shows "requireJSONArrayFields (Some (json_array (\<lambda>x. json_object (f x)) xs)) path ks = None"
  using assms
  by (auto simp: requireJSONArrayFields_def raw_array_structs check_each_None writes_fields)

lemma writes_elements:
  assumes "xs \<noteq> None" and "\<And>x. x \<in> set (elems xs) \<Longrightarrow> distinct (map fst (f x))"
    and "\<And>i x. x \<in> set (elems xs) \<Longrightarrow> g i (struct_fields (f x)) = None"
  shows "required_elements path g (Some (json_array (\<lambda>x. json_object (f x)) xs)) = None"
  using assms by (auto simp: required_elements_def raw_array_structs check_each_None)

lemmas writes_rules = writes_fields writes_nested writes_array

lemma struct_fields_simps [simp]:
  "struct_fields [] k = None"
  "struct_fields ((k', v) # fs) k = (if k = k' then v else struct_fields fs k)"
  by (simp_all add: struct_fields_def)

lemma small_writes [simp]:
  "writes (resource_json r) resource_fields"
  "writes (precondition_json x) [''id'', ''ok'', ''detail'']"
  "writes (permission_json p) [''stepId'', ''identity'', ''permission'', ''resource'', ''granted'']"
  "writes (retry_json t) [''maxAttempts'', ''initialBackoffSeconds'', ''maxBackoffSeconds'']"
  "writes (source_json s) [''kind'', ''value'']" "writes (port_json o') [''protocol'', ''number'']"
  "writes (tls_json l) [''required'', ''hostnameVerification'', ''trust'']"
  "writes (rate_json g a) [''amountUSD'', ''period'']" "writes (item_json g b) [''resource'', ''kind'', ''amountUSD'']"
  "writes (incremental_json g c) [''amountUSD'', ''period'', ''plan'']" "writes (budget_json g d) [''state'']"
  "writes (identity_json e) [''default'', ''hostControlSteps'', ''deleteSteps'', ''bootstrapSteps'']"
  "writes (policy_hash_json h) [''match'']" "writes (intent_json f i) [''validUntil'', ''windowStart'']"
  "writes (downtime_json j) [''expectedSeconds'', ''kind'']" "writes (rollback_json f k) [''boundary'', ''assets'']"
  by (simp_all add: writes_def small_json_defs resource_fields_def)

lemma permission_required: "required_permission i (struct_fields (permission_json p)) = None"
  by (simp add: required_permission_def permission_json_def writes_nested)

lemma step_required: "ps_Targets s \<noteq> None \<Longrightarrow> required_step i (struct_fields (plan_step_json s)) = None"
proof -
  assume t: "ps_Targets s \<noteq> None"
  have "requireJSONFields (struct_fields (plan_step_json s)) path
      [''id'', ''executor'', ''executingIdentity'', ''commandRedacted'', ''idempotent'', ''retry'',
       ''cancelSafe'', ''timeoutSeconds'', ''successCondition'', ''failureBehavior'', ''targets''] = None" for path
    by (rule writes_fields) (simp add: writes_def plan_step_json_def)
  moreover have "requireNestedJSONFields (struct_fields (plan_step_json s) ''retry'') path
      [''maxAttempts'', ''initialBackoffSeconds'', ''maxBackoffSeconds''] = None"
    "requireJSONArrayFields (struct_fields (plan_step_json s) ''targets'') path resource_fields = None" for path
    using t by (simp_all add: plan_step_json_def writes_nested writes_array)
  ultimately show ?thesis by (simp add: required_step_def Let_def)
qed

lemma asset_required:
  assumes "ra_Protects a \<noteq> None" and "ra_Kind a = RecoveryAssetPBMRecoveryPoint \<Longrightarrow> ra_RestoreTo a \<noteq> None"
    and "RecoveryAssetKind_Valid (ra_Kind a)"
  shows "required_asset i (struct_fields (recovery_json f a)) = None"
proof -
  have "ra_Kind a = RecoveryAssetPBMRecoveryPoint"
    if "RecoveryAssetKind_string (ra_Kind a) = RecoveryAssetKind_string RecoveryAssetPBMRecoveryPoint"
    using that assms(3) by (cases "ra_Kind a") (auto simp: RecoveryAssetKind_Valid_def recoveryAssetKind_registry_def)
  then have k: "struct_fields (recovery_json f a) ''kind'' =
      Some (JString (RecoveryAssetKind_string RecoveryAssetPBMRecoveryPoint)) \<Longrightarrow>
      struct_fields (recovery_json f a) ''restoreTo'' \<noteq> None"
    using assms(2) by (auto simp: recovery_json_def)
  have "requireJSONFields (struct_fields (recovery_json f a)) path
      [''kind'', ''resource'', ''protects'', ''evidenceRef'', ''verifiedAt''] = None" for path
    by (rule writes_fields) (simp add: writes_def recovery_json_def)
  moreover have "requireNestedJSONFields (struct_fields (recovery_json f a) ''resource'') path resource_fields = None"
    "requireJSONArrayFields (struct_fields (recovery_json f a) ''protects'') path resource_fields = None" for path
    using assms(1) by (simp_all add: recovery_json_def writes_nested writes_array)
  ultimately show ?thesis using k by (auto simp: required_asset_def Let_def)
qed

lemma controls_required:
  assumes "xc_Targets c \<noteq> None" "xc_Sources c \<noteq> None" "xc_Ports c \<noteq> None"
  shows "validateRequiredExposureControlsJSON (Some (json_object (controls_json f c))) = None"
proof -
  have "requireJSONFields (struct_fields (controls_json f c)) path
      [''profile'', ''targets'', ''sources'', ''ports'', ''authentication'', ''tls'', ''auditLogging'',
       ''revocationWorkflowId'', ''simulationPreconditionId'', ''internetWide'',
       ''permanentInternetWideAcknowledged''] = None" for path
    by (rule writes_fields) (simp add: writes_def controls_json_def)
  moreover have "requireJSONArrayFields (struct_fields (controls_json f c) ''targets'') path resource_fields = None"
    "requireJSONArrayFields (struct_fields (controls_json f c) ''sources'') path [''kind'', ''value''] = None"
    "requireJSONArrayFields (struct_fields (controls_json f c) ''ports'') path [''protocol'', ''number''] = None"
    "requireNestedJSONFields (struct_fields (controls_json f c) ''tls'') path
      [''required'', ''hostnameVerification'', ''trust''] = None" for path
    using assms by (simp_all add: controls_json_def writes_nested writes_array)
  ultimately show ?thesis by (simp add: validateRequiredExposureControlsJSON_def)
qed

lemma cost_required:
  assumes "pc_Items c \<noteq> None"
  shows "validateRequiredCostJSON (Some (json_object (cost_json g c))) = None"
proof -
  have "requireJSONFields (struct_fields (cost_json g c)) path
      [''runRate'', ''items'', ''source'', ''priceTableDate'', ''stale'', ''assumptions'', ''unpriced'',
       ''budget''] = None" for path
    by (rule writes_fields) (simp add: writes_def cost_json_def)
  moreover have "requireNestedJSONFields (struct_fields (cost_json g c) ''runRate'') path [''amountUSD'', ''period''] = None"
    "requireJSONArrayFields (struct_fields (cost_json g c) ''items'') path [''resource'', ''kind'', ''amountUSD''] = None"
    "requireNestedJSONFields (struct_fields (cost_json g c) ''budget'') path [''state''] = None" for path
    using assms by (simp_all add: cost_json_def writes_nested writes_array)
  moreover have "struct_fields (cost_json g c) ''incremental'' =
      map_option (\<lambda>i. json_object (incremental_json g i)) (pc_Incremental c)"
    by (simp add: cost_json_def)
  ultimately show ?thesis by (auto simp: validateRequiredCostJSON_def writes_nested split: option.splits)
qed

lemma plan_required:
  assumes "validatePlanStructure p = None"
  shows "validateRequiredPlanJSON (Some (plan_json fmt_time fmt_usd p)) = None"
proof -
  have can: "validateCanonicalPlanCollections p = None" using assms by (simp add: validatePlanStructure_def)
  note c = canonical_collections [OF can]
  have assets: "asset_ok p a" if "a \<in> set (elems (rb_Assets (pl_Rollback p)))" for a
    using validateRecoveryAssets_None [OF valid_plan_parts(5) [OF assms]] that by (simp add: list_all_iff)
  have kind: "RecoveryAssetKind_Valid (ra_Kind a)" "ra_Kind a = RecoveryAssetPBMRecoveryPoint \<Longrightarrow> ra_RestoreTo a \<noteq> None"
    if "a \<in> set (elems (rb_Assets (pl_Rollback p)))" for a
    using assets [OF that] by (auto simp: asset_ok_def split: RecoveryAssetKind.splits)
  have trigger: "pl_PointOfNoReturn p \<noteq> [] \<Longrightarrow> PointOfNoReturnTrigger_string (pl_PointOfNoReturnTrigger p) \<noteq> []"
    using assms by (cases "pl_PointOfNoReturnTrigger p")
      (auto simp: validatePlanStructure_def plan_content_checks_def Let_def)
  let ?f = "struct_fields (plan_fields fmt_time fmt_usd p)"
  have top: "requireJSONFields ?f ''plan''
      [''planId'', ''planHash'', ''workflowId'', ''projectId'', ''environment'', ''environmentClass'',
       ''principal'', ''createdAt'', ''approvalClass'', ''expiresAt'', ''coolingOffSeconds'', ''identity'',
       ''policyHash'', ''stepUpRequired'', ''resources'', ''preconditions'', ''permissions'', ''steps'',
       ''cost'', ''downtime'', ''exposure'', ''protection'', ''rollback'', ''verification''] = None"
    by (rule writes_fields) (simp add: writes_def plan_fields_def)
  have parts: "?f ''identity'' = Some (json_object (identity_json (pl_Identity p)))"
    "?f ''policyHash'' = Some (json_object (policy_hash_json (pl_PolicyHash p)))"
    "?f ''intent'' = map_option (\<lambda>i. json_object (intent_json fmt_time i)) (pl_Intent p)"
    "?f ''pointOfNoReturn'' = omit_empty (pl_PointOfNoReturn p)"
    "?f ''pointOfNoReturnTrigger'' = omit_empty (PointOfNoReturnTrigger_string (pl_PointOfNoReturnTrigger p))"
    "?f ''resources'' = Some (resources_json (pl_Resources p))"
    "?f ''preconditions'' = Some (json_array (\<lambda>x. json_object (precondition_json x)) (pl_Preconditions p))"
    "?f ''permissions'' = Some (json_array (\<lambda>x. json_object (permission_json x)) (pl_Permissions p))"
    "?f ''steps'' = Some (json_array (\<lambda>x. json_object (plan_step_json x)) (pl_Steps p))"
    "?f ''cost'' = Some (json_object (cost_json fmt_usd (pl_Cost p)))"
    "?f ''downtime'' = Some (json_object (downtime_json (pl_Downtime p)))"
    "?f ''rollback'' = Some (json_object (rollback_json fmt_time (pl_Rollback p)))"
    "?f ''exposureControls'' = map_option (\<lambda>c. json_object (controls_json fmt_time c)) (pl_ExposureControls p)"
    by (simp_all add: plan_fields_def)
  have rollback: "struct_fields (rollback_json fmt_time (pl_Rollback p)) ''assets'' =
      Some (json_array (\<lambda>a. json_object (recovery_json fmt_time a)) (rb_Assets (pl_Rollback p)))"
    by (simp add: rollback_json_def)
  have "required_elements ''steps'' required_step (Some (json_array (\<lambda>x. json_object (plan_step_json x)) (pl_Steps p))) = None"
    using c(4,11) by (intro writes_elements) (auto intro: step_required)
  moreover have "required_elements ''permissions'' required_permission
      (Some (json_array (\<lambda>x. json_object (permission_json x)) (pl_Permissions p))) = None"
    using c(3) by (intro writes_elements) (auto intro: permission_required)
  moreover have "validateRequiredRecoveryAssetsJSON
      (Some (json_array (\<lambda>a. json_object (recovery_json fmt_time a)) (rb_Assets (pl_Rollback p)))) = None"
    using writes_elements [of "rb_Assets (pl_Rollback p)" "recovery_json fmt_time" required_asset] c(9,12) kind
    by (simp add: required_elements_def validateRequiredRecoveryAssetsJSON_def asset_required split: option.splits)
  moreover have "validateRequiredExposureControlsJSON (Some (json_object (controls_json fmt_time x))) = None"
    if "pl_ExposureControls p = Some x" for x
    using c(13) [OF that] by (simp add: controls_required)
  ultimately show ?thesis
    using c(1,2,3,5) top trigger
    by (auto simp: validateRequiredPlanJSON_def parts rollback writes_nested writes_array cost_required
        omit_empty_def split: option.splits)
qed

text \<open>
  Decoding is the exact inverse of encoding. A document is accepted as the plan \<open>p\<close> exactly when its
  lexemes are those of a value with no null, no duplicate key and no key outside the closed schema, it
  decodes to \<open>p\<close>, every required field is present, and \<open>EncodePlan p\<close> succeeds with these bytes.
\<close>

theorem DecodePlan_exact:
  "DecodePlan codec sha256hex b = Inr p \<longleftrightarrow>
     (\<exists>v. jc_lex codec b = lexemes v \<and> conforms planJSONRoot v) \<and> jc_decode codec b = Some (p, True) \<and>
     validateRequiredPlanJSON (jc_parse codec b) = None \<and> EncodePlan (jc_marshal codec) sha256hex p = Inr b"
  by (auto simp: DecodePlan_def rejectDuplicateJSONKeys_walk walk_document_accepts EncodePlan_def split: option.splits)


lemma sample_plan_text: "valid_text (plan_json (\<lambda>t. ''t'') (\<lambda>u. ''1'') sample_plan_value)"
  by (simp add: valid_text_object valid_text_array plan_fields_def small_json_defs omit_empty_def
      sample_plan_for_def sample_step_def sample_resource_def sample_permission_def sample_db_def DefaultIdentityPlan_def
      ApprovalClass_String_def ApprovalDataDestructive_def sample_cost_def sample_controls_def sample_assets_def sample_target_def ApprovalClass_Valid_def
      approvalClassCount_def approvalClassNames_def)
    (simp add: valid_utf8_ascii byte_def)


end
