(* ===== verification/JournalDocument.thy ===== *)
theory JournalDocument
  imports Journal JsonDocuments
begin

section \<open>internal/workflow: decoding one journal entry (journal.go)\<close>

text \<open>
  \<open>DecodeJournalEntry\<close>: the walk against the closed schema, the typed decoder, the required fields of
  the part that the entry must have, the invariants of the entry and the comparison with the canonical
  encoding. \<open>journal_json\<close> is the value that \<open>json.Marshal\<close> writes by the struct tags of domain/journal.go;
  \<open>fmt_time\<close> is RFC 3339 of the standard library.
\<close>

definition journalJSONRoot :: json_schema where
  "journalJSONRoot = ObjectSchema
     [(''schema'', ScalarSchema), (''operationId'', ScalarSchema), (''planId'', ScalarSchema),
      (''contractHash'', ScalarSchema), (''sequence'', ScalarSchema), (''kind'', ScalarSchema),
      (''recordedAt'', ScalarSchema), (''operationState'', ScalarSchema),
      (''step'', ObjectSchema
        [(''id'', ScalarSchema), (''outcome'', ScalarSchema), (''executingIdentity'', ScalarSchema),
         (''attempt'', ScalarSchema), (''startedAt'', ScalarSchema), (''endedAt'', ScalarSchema),
         (''mutationOccurred'', ScalarSchema), (''resultSummary'', ScalarSchema)]),
      (''pause'', ObjectSchema
        [(''pausedAt'', ScalarSchema), (''pauseReason'', ScalarSchema), (''mutationOccurred'', ScalarSchema),
         (''resumeBy'', ScalarSchema), (''reapprovalRequired'', ScalarSchema)]),
      (''cancellation'', ObjectSchema
        [(''requestedAt'', ScalarSchema), (''currentStepId'', ScalarSchema),
         (''executionContractHash'', ScalarSchema), (''mutationObservation'', ScalarSchema),
         (''requiredRoute'', ScalarSchema)])]"

definition decode_error :: "string \<Rightarrow> journal_error" where
  "decode_error what = ErrInvalidJournalEntry ''decode'' what"

definition consumeUniqueJournalJSONValue :: "nat \<Rightarrow> json_schema \<Rightarrow> decoder \<Rightarrow> journal_error + decoder" where
  "consumeUniqueJournalJSONValue = walk_as (\<lambda>e. decode_error (walk_message e))"

definition rejectDuplicateJournalJSONKeys :: "lexeme list \<Rightarrow> journal_error option" where
  "rejectDuplicateJournalJSONKeys xs =
     (case consumeUniqueJournalJSONValue (Suc (2 * length xs)) journalJSONRoot (NewDecoder xs) of
        Inl e \<Rightarrow> Some e
      | Inr d \<Rightarrow> fail_if (decoder_Token d \<noteq> Inl EndOfInput) (decode_error ''trailing JSON value''))"

lemma rejectDuplicateJournalJSONKeys_walk:
  "rejectDuplicateJournalJSONKeys xs = None \<longleftrightarrow> walk_document journalJSONRoot xs = None"
  by (auto simp: rejectDuplicateJournalJSONKeys_def consumeUniqueJournalJSONValue_def walk_as_def walk_document_def
      simp del: consume.simps split: sum.splits)

text \<open>One required part: its object, then each of its fields.\<close>

definition require_part ::
  "(string \<rightharpoonup> jvalue) \<Rightarrow> string \<Rightarrow> string list \<Rightarrow> journal_error option" where
  "require_part document part required =
     (case raw_object (document part) of
        None \<Rightarrow> Some (ErrInvalidJournalEntry part ''must be an object'')
      | Some object \<Rightarrow> first_error (map (\<lambda>field. fail_if (object field = None)
          (ErrInvalidJournalEntry (part @ ''.'' @ field) ''is required'')) required))"

definition pause_fields :: "string list" where
  "pause_fields = [''pausedAt'', ''pauseReason'', ''mutationOccurred'', ''resumeBy'', ''reapprovalRequired'']"

definition step_fields :: "string list" where
  "step_fields = [''id'', ''outcome'', ''executingIdentity'', ''attempt'', ''startedAt'', ''mutationOccurred'',
     ''resultSummary'']"

definition cancellation_fields :: "string list" where
  "cancellation_fields = [''requestedAt'', ''currentStepId'', ''executionContractHash'', ''mutationObservation'',
     ''requiredRoute'']"

definition validateRequiredJournalJSON :: "jvalue option \<Rightarrow> JournalEntry \<Rightarrow> journal_error option" where
  "validateRequiredJournalJSON value entry =
     (let paused = je_OperationState entry = OperationPaused \<and> je_Pause entry \<noteq> None;
          stepped = je_Kind entry = JournalEntryStep \<and> je_Step entry \<noteq> None;
          cancelled = je_Kind entry = JournalEntryCancellationRequest \<and> je_Cancellation entry \<noteq> None
      in if \<not> paused \<and> \<not> stepped \<and> \<not> cancelled then None
         else (case raw_object value of
             None \<Rightarrow> Some (decode_error ''contains malformed JSON'')
           | Some document \<Rightarrow> first_error
               [if paused then require_part document ''pause'' pause_fields else None,
                if stepped then require_part document ''step'' step_fields else None,
                if cancelled then require_part document ''cancellation'' cancellation_fields else None]))"

definition DecodeJournalEntry :: "JournalEntry json_codec \<Rightarrow> string \<Rightarrow> journal_error + JournalEntry" where
  "DecodeJournalEntry codec encoded =
     check (rejectDuplicateJournalJSONKeys (jc_lex codec encoded))
       (case jc_decode codec encoded of
          None \<Rightarrow> Inl (decode_error ''contains an invalid typed value'')
        | Some (entry, at_end) \<Rightarrow>
            check (first_error
              [fail_if (\<not> at_end) (decode_error ''trailing JSON value''),
               validateRequiredJournalJSON (jc_parse codec encoded) entry,
               ValidateJournalEntry entry,
               fail_if (jc_marshal codec entry \<noteq> Some encoded)
                 (decode_error ''must use canonical JournalEntryV1 JSON'')])
              (Inr entry))"

subsection \<open>The encoding of an entry\<close>

definition pause_json :: "(gotime \<Rightarrow> string) \<Rightarrow> JournalPause \<Rightarrow> (string \<times> jvalue option) list" where
  "pause_json fmt_time p =
     [(''pausedAt'', Some (JString (fmt_time (jp_PausedAt p)))),
      (''pauseReason'', Some (JString (jp_PauseReason p))),
      (''mutationOccurred'', Some (json_bool (jp_MutationOccurred p))),
      (''resumeBy'', Some (JString (fmt_time (jp_ResumeBy p)))),
      (''reapprovalRequired'', Some (json_bool (jp_ReapprovalRequired p)))]"

definition step_json :: "(gotime \<Rightarrow> string) \<Rightarrow> JournalStep \<Rightarrow> (string \<times> jvalue option) list" where
  "step_json fmt_time s =
     [(''id'', Some (JString (jt_ID s))), (''outcome'', Some (JString (StepOutcome_string (jt_Outcome s)))),
      (''executingIdentity'', Some (JString (ExecutionIdentity_string (jt_ExecutingIdentity s)))),
      (''attempt'', Some (json_int (uint (jt_Attempt s)))),
      (''startedAt'', Some (JString (fmt_time (jt_StartedAt s)))),
      (''endedAt'', map_option (\<lambda>t. JString (fmt_time t)) (jt_EndedAt s)),
      (''mutationOccurred'', Some (json_bool (jt_MutationOccurred s))),
      (''resultSummary'', Some (JString (jt_ResultSummary s)))]"

definition cancellation_json ::
  "(gotime \<Rightarrow> string) \<Rightarrow> JournalCancellationRequest \<Rightarrow> (string \<times> jvalue option) list" where
  "cancellation_json fmt_time c =
     [(''requestedAt'', Some (JString (fmt_time (jc_RequestedAt c)))),
      (''currentStepId'', Some (JString (jc_CurrentStepID c))),
      (''executionContractHash'', Some (JString (jc_ExecutionContractHash c))),
      (''mutationObservation'', Some (JString (MutationObservation_string (jc_MutationObservation c)))),
      (''requiredRoute'', Some (JString (OperationState_string (jc_RequiredRoute c))))]"

definition journal_fields :: "(gotime \<Rightarrow> string) \<Rightarrow> JournalEntry \<Rightarrow> (string \<times> jvalue option) list" where
  "journal_fields fmt_time e =
     [(''schema'', Some (JString (je_Schema e))), (''operationId'', Some (JString (je_OperationID e))),
      (''planId'', Some (JString (je_PlanID e))), (''contractHash'', Some (JString (je_ContractHash e))),
      (''sequence'', Some (json_int (uint (je_Sequence e)))),
      (''kind'', Some (JString (JournalEntryKind_string (je_Kind e)))),
      (''recordedAt'', Some (JString (fmt_time (je_RecordedAt e)))),
      (''operationState'', Some (JString (OperationState_string (je_OperationState e)))),
      (''step'', map_option (\<lambda>s. json_object (step_json fmt_time s)) (je_Step e)),
      (''pause'', map_option (\<lambda>p. json_object (pause_json fmt_time p)) (je_Pause e)),
      (''cancellation'', map_option (\<lambda>c. json_object (cancellation_json fmt_time c)) (je_Cancellation e))]"

abbreviation journal_json :: "(gotime \<Rightarrow> string) \<Rightarrow> JournalEntry \<Rightarrow> jvalue" where
  "journal_json fmt_time e \<equiv> json_object (journal_fields fmt_time e)"

subsection \<open>Every entry that is encoded is decoded again\<close>

lemma journal_parts_distinct [simp]:
  "distinct (map fst (pause_json fmt_time p))" "distinct (map fst (step_json fmt_time s))"
  "distinct (map fst (cancellation_json fmt_time c))" "distinct (map fst (journal_fields fmt_time e))"
  by (simp_all add: pause_json_def step_json_def cancellation_json_def journal_fields_def)

lemma journal_conforms: "conforms journalJSONRoot (journal_json fmt_time e)"
  unfolding journalJSONRoot_def
  by (rule conforms_struct)
    (auto simp: journal_fields_def pause_json_def step_json_def cancellation_json_def
      intro!: conforms_struct)

lemma require_part_struct:
  assumes "document part = Some (json_object fs)" and "distinct (map fst fs)"
    and "list_all (\<lambda>f. struct_fields fs f \<noteq> None) required"
  shows "require_part document part required = None"
  using assms by (auto simp: require_part_def list_all_iff first_error_map)

lemma journal_required: "validateRequiredJournalJSON (Some (journal_json fmt_time e)) e = None"
proof -
  have p: "require_part (struct_fields (journal_fields fmt_time e)) ''pause'' pause_fields = None"
    if "je_Pause e = Some x" for x
    by (rule require_part_struct [of _ _ "pause_json fmt_time x"])
      (simp_all add: that struct_fields_def journal_fields_def pause_json_def pause_fields_def)
  have s: "require_part (struct_fields (journal_fields fmt_time e)) ''step'' step_fields = None"
    if "je_Step e = Some x" for x
    by (rule require_part_struct [of _ _ "step_json fmt_time x"])
      (simp_all add: that struct_fields_def journal_fields_def step_json_def step_fields_def)
  have c: "require_part (struct_fields (journal_fields fmt_time e)) ''cancellation'' cancellation_fields = None"
    if "je_Cancellation e = Some x" for x
    by (rule require_part_struct [of _ _ "cancellation_json fmt_time x"])
      (simp_all add: that struct_fields_def journal_fields_def cancellation_json_def cancellation_fields_def)
  show ?thesis using p s c by (auto simp: validateRequiredJournalJSON_def Let_def)
qed

theorem DecodeJournalEntry_Inr:
  "DecodeJournalEntry codec b = Inr e \<longleftrightarrow>
     (\<exists>v. jc_lex codec b = lexemes v \<and> conforms journalJSONRoot v) \<and> jc_decode codec b = Some (e, True) \<and>
     validateRequiredJournalJSON (jc_parse codec b) e = None \<and> EncodeJournalEntry (jc_marshal codec) e = Inr b"
  by (auto simp: DecodeJournalEntry_def rejectDuplicateJournalJSONKeys_walk walk_document_accepts
      EncodeJournalEntry_def split: option.splits)



end
