(* ===== verification/ControlStore.thy ===== *)
theory ControlStore
  imports Journal Results
begin

section \<open>internal/control: errors, object names and the object store (store.go)\<close>

text \<open>
  The durable store of the control plane. Object names can be made only by the typed constructors of
  the closed layout; the store keeps one object per name, with a generation the server assigns, its
  size and its CRC-32C. Every write is create-only or a compare-and-swap. The in-memory store is a
  record; the mutex makes its operations a sequence. A method is a function of the store that
  returns its result and the new store. A context is \<open>None\<close> when nil, else its \<open>Err()\<close>.
\<close>

subsection \<open>Errors of the package\<close>

datatype control_kind =
    ErrInvalidObjectName
  | ErrObjectNotFound
  | ErrPreconditionFailed
  | ErrInvalidStoreRequest
  | ErrInvalidBucketBinding
  | ErrInvalidEnvelope
  | ErrInvalidApprovalProof
  | ErrEnvelopeExpired
  | ErrInvalidStateDirectory
  | ErrEnvelopeConflict
  | ErrStateFileConflict
  | ErrInvalidStateFile
  | ErrPartialBootstrapBlocked
  | ErrHandoffOutOfOrder
  | ErrInvalidHandoffRecord
  | ErrInvalidHandoffPort
  | ErrStepNotAdmitted
  | ErrStepVerificationFailed
  | ErrApprovedPolicyMismatch
  | ErrSeedIncompatible

text \<open>A sentinel with its detail, or an error that is none of them; \<open>errors.Is\<close> is \<open>control_is\<close>.\<close>

datatype control_error =
    Control control_kind string
  | ForeignError string

definition control_is :: "control_kind \<Rightarrow> control_error \<Rightarrow> bool" where
  "control_is k e = (case e of Control k' detail \<Rightarrow> k = k' | ForeignError s \<Rightarrow> False)"

lemma control_is_simps [simp]:
  "control_is k (Control k' detail) \<longleftrightarrow> k = k'" "\<not> control_is k (ForeignError s)"
  by (simp_all add: control_is_def)

subsection \<open>Descriptors\<close>

type_synonym Generation = "64 word"

record ObjectDescriptor =
  od_Generation :: Generation
  od_Size :: int
  od_CRC32C :: "32 word"

text \<open>\<open>crc32.Checksum\<close> with the Castagnoli polynomial, bit by bit in reflected order.\<close>

unbundle bit_operations_syntax

definition crc32c_bit :: "32 word \<Rightarrow> 32 word" where
  "crc32c_bit crc = (if bit crc 0 then drop_bit 1 crc XOR 0x82F63B78 else drop_bit 1 crc)"

definition crc32c_byte :: "32 word \<Rightarrow> char \<Rightarrow> 32 word" where
  "crc32c_byte crc c = (crc32c_bit ^^ 8) (crc XOR of_char c)"

definition crc32c :: "string \<Rightarrow> 32 word" where
  "crc32c s = NOT (foldl crc32c_byte (NOT 0) s)"

definition DescribeContent :: "string \<Rightarrow> ObjectDescriptor" where
  "DescribeContent content =
     \<lparr>od_Generation = 0, od_Size = int (length content), od_CRC32C = crc32c content\<rparr>"

definition MatchesContent :: "ObjectDescriptor \<Rightarrow> string \<Rightarrow> bool" where
  "MatchesContent descriptor content =
     (let expected = DescribeContent content in
      od_Generation descriptor \<noteq> 0 \<and> od_Size descriptor = od_Size expected \<and>
      od_CRC32C descriptor = od_CRC32C expected)"

record StoredObject =
  so_Descriptor :: ObjectDescriptor
  so_Content :: string

subsection \<open>Object names\<close>

text \<open>
  A name of the control bucket and a name of the audit bucket are different types of the code, each a
  struct around a string that only the constructors below make.
\<close>

datatype ControlObjectName = ControlName (cn_value: string)
datatype AuditObjectName = AuditName (an_value: string)

definition invalidName :: "string \<Rightarrow> control_error" where
  "invalidName field = Control ErrInvalidObjectName field"

definition LockObjectName :: "string \<Rightarrow> control_error + ControlObjectName" where
  "LockObjectName environment =
     check (fail_if (\<not> environmentPattern environment) (invalidName ''environment''))
       (Inr (ControlName (''locks/'' @ environment @ ''.json'')))"

definition HarnessStateObjectName :: ControlObjectName where
  "HarnessStateObjectName = ControlName ''test/harness-state.json''"

definition OwnershipRecordObjectName :: "string \<Rightarrow> string \<Rightarrow> control_error + ControlObjectName" where
  "OwnershipRecordObjectName environment resourceID =
     check (fail_if (\<not> environmentPattern environment \<or> \<not> identifierPattern resourceID)
         (invalidName ''ownership record''))
       (Inr (ControlName (''test/ownership/'' @ environment @ ''/'' @ resourceID @ ''.json'')))"

definition LifetimeRecordObjectName :: "string \<Rightarrow> string \<Rightarrow> control_error + ControlObjectName" where
  "LifetimeRecordObjectName environment runID =
     check (fail_if (\<not> environmentPattern environment \<or> \<not> identifierPattern runID)
         (invalidName ''lifetime record''))
       (Inr (ControlName (''test/lifetime/'' @ environment @ ''/'' @ runID @ ''.json'')))"

definition AdoptionObjectName :: "string \<Rightarrow> control_error + ControlObjectName" where
  "AdoptionObjectName environment =
     check (fail_if (\<not> environmentPattern environment) (invalidName ''environment''))
       (Inr (ControlName (''adoption/'' @ environment @ ''.json'')))"

definition ApprovedPolicyObjectName :: "string \<Rightarrow> control_error + ControlObjectName" where
  "ApprovedPolicyObjectName environment =
     check (fail_if (\<not> environmentPattern environment) (invalidName ''environment''))
       (Inr (ControlName (''policy/'' @ environment @ ''/manifest-approved.json'')))"

definition CostCeilingObjectName :: "string \<Rightarrow> control_error + ControlObjectName" where
  "CostCeilingObjectName environment =
     check (fail_if (\<not> environmentPattern environment) (invalidName ''environment''))
       (Inr (ControlName (''policy/'' @ environment @ ''/cost-ceiling.json'')))"

definition PlanObjectName :: "string \<Rightarrow> string \<Rightarrow> control_error + AuditObjectName" where
  "PlanObjectName environment planID =
     check (fail_if (\<not> environmentPattern environment \<or> \<not> planIDPattern planID) (invalidName ''plan''))
       (Inr (AuditName (''plans/'' @ environment @ ''/'' @ planID @ ''.json'')))"

definition PlanApprovalObjectName :: "string \<Rightarrow> string \<Rightarrow> control_error + AuditObjectName" where
  "PlanApprovalObjectName environment planID =
     check (fail_if (\<not> environmentPattern environment \<or> \<not> planIDPattern planID)
         (invalidName ''plan approval''))
       (Inr (AuditName (''plans/'' @ environment @ ''/'' @ planID @ ''-approval.json'')))"

definition OperationRecordObjectName :: "string \<Rightarrow> string \<Rightarrow> control_error + AuditObjectName" where
  "OperationRecordObjectName environment operationID =
     check (fail_if (\<not> environmentPattern environment \<or> \<not> operationIDPattern operationID)
         (invalidName ''operation record''))
       (Inr (AuditName (''operations/'' @ environment @ ''/'' @ operationID @ ''.json'')))"

definition BootstrapEnvelopeObjectName :: "string \<Rightarrow> string \<Rightarrow> control_error + AuditObjectName" where
  "BootstrapEnvelopeObjectName environment operationID =
     check (fail_if (\<not> environmentPattern environment \<or> \<not> operationIDPattern operationID)
         (invalidName ''bootstrap envelope''))
       (Inr (AuditName (''operations/'' @ environment @ ''/'' @ operationID @ ''/bootstrap-envelope.json'')))"

definition JournalEntryObjectName :: "string \<Rightarrow> JournalEntry \<Rightarrow> control_error + AuditObjectName" where
  "JournalEntryObjectName environment entry =
     check (fail_if (\<not> environmentPattern environment) (invalidName ''environment''))
       (case JournalObjectName entry of
          Inl e \<Rightarrow> Inl (invalidName ''journal entry'')
        | Inr fileName \<Rightarrow> Inr (AuditName
            (''operations/'' @ environment @ ''/'' @ je_OperationID entry @ ''/steps/'' @ fileName)))"

subsection \<open>The in-memory store\<close>

record memoryObject =
  mo_descriptor :: ObjectDescriptor
  mo_content :: string

record memoryObjects =
  ms_generation :: Generation
  ms_objects :: "(string, memoryObject) fmap"

definition memory_empty :: memoryObjects where
  "memory_empty = \<lparr>ms_generation = 0, ms_objects = fmempty\<rparr>"

definition memory_put :: "string \<Rightarrow> string \<Rightarrow> memoryObjects \<Rightarrow> ObjectDescriptor \<times> memoryObjects" where
  "memory_put name content store =
     (let generation = ms_generation store + 1;
          descriptor = (DescribeContent content)\<lparr>od_Generation := generation\<rparr>
      in (descriptor, \<lparr>ms_generation = generation, ms_objects =
           fmupd name \<lparr>mo_descriptor = descriptor, mo_content = content\<rparr> (ms_objects store)\<rparr>))"

definition memory_create ::
  "string \<Rightarrow> string \<Rightarrow> memoryObjects \<Rightarrow> (control_error + ObjectDescriptor) \<times> memoryObjects" where
  "memory_create name content store =
     (if name = [] then (Inl (Control ErrInvalidStoreRequest []), store)
      else (case fmlookup (ms_objects store) name of
          Some x \<Rightarrow> (Inl (Control ErrPreconditionFailed (name @ '' exists'')), store)
        | None \<Rightarrow> (let (descriptor, store') = memory_put name content store in (Inr descriptor, store'))))"

definition memory_read :: "string \<Rightarrow> memoryObjects \<Rightarrow> control_error + StoredObject" where
  "memory_read name store =
     (if name = [] then Inl (Control ErrInvalidStoreRequest [])
      else (case fmlookup (ms_objects store) name of
          None \<Rightarrow> Inl (Control ErrObjectNotFound name)
        | Some x \<Rightarrow> Inr \<lparr>so_Descriptor = mo_descriptor x, so_Content = mo_content x\<rparr>))"

definition memory_compareAndSwap ::
  "string \<Rightarrow> Generation \<Rightarrow> string \<Rightarrow> memoryObjects \<Rightarrow> (control_error + ObjectDescriptor) \<times> memoryObjects" where
  "memory_compareAndSwap name expected content store =
     (if name = [] \<or> expected = 0 then (Inl (Control ErrInvalidStoreRequest []), store)
      else (case fmlookup (ms_objects store) name of
          None \<Rightarrow> (Inl (Control ErrObjectNotFound name), store)
        | Some x \<Rightarrow>
            (if od_Generation (mo_descriptor x) \<noteq> expected
             then (Inl (Control ErrPreconditionFailed (name @ '' generation moved'')), store)
             else (let (descriptor, store') = memory_put name content store in (Inr descriptor, store')))))"

definition memory_names :: "memoryObjects \<Rightarrow> string fset" where
  "memory_names store = fmdom (ms_objects store)"

text \<open>The two stores of the package: the context is checked first. The audit store has no swap.\<close>

type_synonym context_state = "string option option"

definition storeContext :: "context_state \<Rightarrow> control_error option" where
  "storeContext ctx =
     (case ctx of
        None \<Rightarrow> Some (Control ErrInvalidStoreRequest [])
      | Some None \<Rightarrow> None
      | Some (Some e) \<Rightarrow> Some (Control ErrInvalidStoreRequest e))"

definition MemoryControlStore_Create ::
  "context_state \<Rightarrow> ControlObjectName \<Rightarrow> string \<Rightarrow> memoryObjects \<Rightarrow>
     (control_error + ObjectDescriptor) \<times> memoryObjects" where
  "MemoryControlStore_Create ctx name content store =
     (case storeContext ctx of Some e \<Rightarrow> (Inl e, store) | None \<Rightarrow> memory_create (cn_value name) content store)"

definition MemoryControlStore_Read ::
  "context_state \<Rightarrow> ControlObjectName \<Rightarrow> memoryObjects \<Rightarrow> control_error + StoredObject" where
  "MemoryControlStore_Read ctx name store = check (storeContext ctx) (memory_read (cn_value name) store)"

definition MemoryControlStore_CompareAndSwap ::
  "context_state \<Rightarrow> ControlObjectName \<Rightarrow> Generation \<Rightarrow> string \<Rightarrow> memoryObjects \<Rightarrow>
     (control_error + ObjectDescriptor) \<times> memoryObjects" where
  "MemoryControlStore_CompareAndSwap ctx name expected content store =
     (case storeContext ctx of Some e \<Rightarrow> (Inl e, store)
      | None \<Rightarrow> memory_compareAndSwap (cn_value name) expected content store)"

definition MemoryAuditStore_Create ::
  "context_state \<Rightarrow> AuditObjectName \<Rightarrow> string \<Rightarrow> memoryObjects \<Rightarrow>
     (control_error + ObjectDescriptor) \<times> memoryObjects" where
  "MemoryAuditStore_Create ctx name content store =
     (case storeContext ctx of Some e \<Rightarrow> (Inl e, store) | None \<Rightarrow> memory_create (an_value name) content store)"

definition MemoryAuditStore_Read ::
  "context_state \<Rightarrow> AuditObjectName \<Rightarrow> memoryObjects \<Rightarrow> control_error + StoredObject" where
  "MemoryAuditStore_Read ctx name store = check (storeContext ctx) (memory_read (an_value name) store)"

end
