(* ===== verification/StoreContract.thy ===== *)
theory StoreContract
  imports ControlStore
begin

section \<open>What a generation-preconditioned store promises\<close>

text \<open>
  The contract of a durable store, as a locale: a request names an object, carries a content and
  expects either that the object does not exist or that it has one generation. An accepted
  request met its expectation, gets a generation that was never issued before and replaces the object; a
  refused one changes nothing. From this the locale proves what a client relies on: a swap
  replaces exactly the write whose generation it names, with no other write to that object in between.
  Both in-memory stores of the package interpret it.
\<close>

subsection \<open>Runs of a store\<close>

fun run_store :: "('o \<Rightarrow> 's \<Rightarrow> 'x \<times> 's) \<Rightarrow> 'o list \<Rightarrow> 's \<Rightarrow> 'x list \<times> 's" where
  "run_store step [] s = ([], s)"
| "run_store step (r # rs) s =
     (let (x, s') = step r s; (xs, t) = run_store step rs s' in (x # xs, t))"

lemma run_store_length [simp]: "length (fst (run_store step rs s)) = length rs"
  by (induction rs arbitrary: s) (auto simp: case_prod_unfold Let_def)

lemma run_store_append:
  "run_store step (rs @ qs) s =
     (let (xs, s') = run_store step rs s; (ys, t) = run_store step qs s' in (xs @ ys, t))"
  by (induction rs arbitrary: s) (auto simp: case_prod_unfold Let_def)

text \<open>
  The request number \<open>i\<close> was accepted with the descriptor \<open>d\<close>; it is the last accepted write to \<open>n\<close>.
\<close>

definition won :: "('e + ObjectDescriptor) list \<Rightarrow> nat \<Rightarrow> ObjectDescriptor \<Rightarrow> bool" where
  "won xs i d \<longleftrightarrow> i < length xs \<and> xs ! i = Inr d"

definition last_write :: "('o \<Rightarrow> string) \<Rightarrow> string \<Rightarrow> 'o list \<Rightarrow> ('e + ObjectDescriptor) list \<Rightarrow> nat \<Rightarrow> ObjectDescriptor \<Rightarrow> bool" where
  "last_write name n rs xs i d \<longleftrightarrow>
     won xs i d \<and> name (rs ! i) = n \<and> (\<forall>k d'. i < k \<and> won xs k d' \<longrightarrow> name (rs ! k) \<noteq> n)"

lemma won_snoc: "won (xs @ [x]) i d \<longleftrightarrow> won xs i d \<or> i = length xs \<and> x = Inr d"
  by (auto simp: won_def nth_append less_Suc_eq)

lemma won_less: "won xs i d \<Longrightarrow> i < length xs"
  by (simp add: won_def)

lemma last_write_refused:
  assumes "length xs = length rs" and "last_write name n rs xs i d"
  shows "last_write name n (rs @ [r]) (xs @ [Inl e]) i d"
  using assms unfolding last_write_def won_snoc by (auto simp: nth_append dest: won_less)

lemma last_write_other:
  "length xs = length rs \<Longrightarrow> name r \<noteq> n \<Longrightarrow>
     last_write name n rs xs i d \<Longrightarrow> last_write name n (rs @ [r]) (xs @ [x]) i d"
  by (auto simp: last_write_def won_snoc nth_append dest: won_less split: if_splits)

lemma last_write_here:
  "length xs = length rs \<Longrightarrow> last_write name (name r) (rs @ [r]) (xs @ [Inr d]) (length rs) d"
  by (auto simp: last_write_def won_snoc nth_append dest: won_less)

subsection \<open>The contract\<close>

locale generation_store =
  fixes step :: "'o \<Rightarrow> 's \<Rightarrow> ('e + ObjectDescriptor) \<times> 's"
    and name :: "'o \<Rightarrow> string"
    and content :: "'o \<Rightarrow> string"
    and expects :: "'o \<Rightarrow> Generation option"
    and look :: "'s \<Rightarrow> string \<Rightarrow> StoredObject option"
    and clock :: "'s \<Rightarrow> nat"
  assumes accepted: "step r s = (Inr d, t) \<Longrightarrow> Suc (clock s) < 2 ^ 64 \<Longrightarrow>
      (case expects r of
         None \<Rightarrow> look s (name r) = None
       | Some g \<Rightarrow> (\<exists>x. look s (name r) = Some x \<and> od_Generation (so_Descriptor x) = g)) \<and>
      unat (od_Generation d) = Suc (clock s) \<and> clock t = Suc (clock s) \<and> MatchesContent d (content r) \<and>
      look t = (look s)(name r \<mapsto> \<lparr>so_Descriptor = d, so_Content = content r\<rparr>)"
    and refused: "step r s = (Inl e, t) \<Longrightarrow> t = s"
begin

lemma step_clock: "step r s = (x, t) \<Longrightarrow> Suc (clock s) < 2 ^ 64 \<Longrightarrow> clock t \<le> Suc (clock s)"
  by (cases x) (auto dest: accepted refused)

text \<open>The store holds the last accepted write of every name, under generations that only grow.\<close>

definition faithful :: "'o list \<Rightarrow> ('e + ObjectDescriptor) list \<Rightarrow> 's \<Rightarrow> bool" where
  "faithful rs xs s \<longleftrightarrow>
     clock s \<le> length rs \<and>
     (\<forall>i d. won xs i d \<longrightarrow> unat (od_Generation d) \<le> clock s \<and> MatchesContent d (content (rs ! i))) \<and>
     (\<forall>i j d d'. won xs i d \<and> won xs j d' \<and> i < j \<longrightarrow> unat (od_Generation d) < unat (od_Generation d')) \<and>
     (\<forall>n x. look s n = Some x \<longrightarrow>
        (\<exists>i. last_write name n rs xs i (so_Descriptor x) \<and> content (rs ! i) = so_Content x))"

lemma faithful_refused:
  assumes f: "faithful rs xs s" and len: "length xs = length rs"
  shows "faithful (rs @ [r]) (xs @ [Inl e]) s"
proof -
  have same: "won (xs @ [Inl e]) i d = won xs i d" for i d by (simp add: won_snoc)
  have at: "(rs @ [r]) ! i = rs ! i" if "won xs i d" for i d
    using won_less [OF that] len by (simp add: nth_append)
  have "\<exists>i. last_write name n (rs @ [r]) (xs @ [Inl e]) i (so_Descriptor x) \<and> content ((rs @ [r]) ! i) = so_Content x"
    if look: "look s n = Some x" for n x
  proof -
    obtain i where i: "last_write name n rs xs i (so_Descriptor x)" "content (rs ! i) = so_Content x"
      using f look unfolding faithful_def by blast
    then have "won xs i (so_Descriptor x)" by (simp add: last_write_def)
    with i len show ?thesis by (intro exI [of _ i]) (simp add: last_write_refused at)
  qed
  then show ?thesis using f by (simp add: faithful_def same at)
qed

lemma faithful_accepted:
  assumes f: "faithful rs xs s" and len: "length xs = length rs"
    and step: "step r s = (Inr d, t)" and room: "Suc (length rs) < 2 ^ 64"
  shows "faithful (rs @ [r]) (xs @ [Inr d]) t"
proof -
  have clock: "clock s \<le> length rs" using f by (simp add: faithful_def)
  then have t: "unat (od_Generation d) = Suc (clock s)" "clock t = Suc (clock s)" "MatchesContent d (content r)"
    "look t = (look s)(name r \<mapsto> \<lparr>so_Descriptor = d, so_Content = content r\<rparr>)"
    using accepted [OF step] room by auto
  have at: "(rs @ [r]) ! i = rs ! i" if "won xs i d" for i d
    using won_less [OF that] len by (simp add: nth_append)
  have old: "unat (od_Generation d') \<le> clock s" "MatchesContent d' (content (rs ! i))" if "won xs i d'" for i d'
    using f that by (auto simp: faithful_def)
  have "\<exists>i. last_write name n (rs @ [r]) (xs @ [Inr d]) i (so_Descriptor x) \<and> content ((rs @ [r]) ! i) = so_Content x"
    if look: "look t n = Some x" for n x
  proof (cases "n = name r")
    case True
    then have "x = \<lparr>so_Descriptor = d, so_Content = content r\<rparr>" using look by (simp add: t(4))
    then show ?thesis using True len last_write_here [of xs rs name r d]
      by (intro exI [of _ "length rs"]) simp
  next
    case False
    then have "look s n = Some x" using look by (simp add: t(4))
    then obtain i where i: "last_write name n rs xs i (so_Descriptor x)" "content (rs ! i) = so_Content x"
      using f unfolding faithful_def by blast
    then have "won xs i (so_Descriptor x)" by (simp add: last_write_def)
    with i False len show ?thesis by (intro exI [of _ i]) (simp add: last_write_other at)
  qed
  moreover have "unat (od_Generation d') \<le> clock t \<and> MatchesContent d' (content ((rs @ [r]) ! i))"
    if "won (xs @ [Inr d]) i d'" for i d'
    using that unfolding won_snoc
  proof
    assume w: "won xs i d'"
    show ?thesis using old [OF w] t(2) by (simp add: at [OF w])
  next
    assume "i = length xs \<and> Inr d = (Inr d' :: 'e + ObjectDescriptor)"
    then show ?thesis using t len by simp
  qed
  moreover have "unat (od_Generation d') < unat (od_Generation d'')"
    if w: "won (xs @ [Inr d]) i d'" "won (xs @ [Inr d]) j d''" "i < j" for i j d' d''
  proof -
    have i: "won xs i d'" using w len by (auto simp: won_snoc dest: won_less)
    from w(2) show ?thesis unfolding won_snoc
    proof
      assume "won xs j d''"
      then show ?thesis using f i w(3) unfolding faithful_def by blast
    next
      assume "j = length xs \<and> Inr d = (Inr d'' :: 'e + ObjectDescriptor)"
      then show ?thesis using old(1) [OF i] t(1) by simp
    qed
  qed
  ultimately show ?thesis using clock t(2) unfolding faithful_def by (metis Suc_le_mono length_append_singleton)
qed

lemma run_faithful:
  assumes "\<And>n. look s n = None" and "clock s = 0" and "length rs < 2 ^ 64"
    and "run_store step rs s = (xs, t)"
  shows "faithful rs xs t"
  using assms(3,4)
proof (induction rs arbitrary: xs t rule: rev_induct)
  case Nil
  then show ?case using assms(1,2) by (auto simp: faithful_def won_def)
next
  case (snoc r rs)
  obtain ys u where run: "run_store step rs s = (ys, u)" by (cases "run_store step rs s")
  then have len: "length ys = length rs" using run_store_length [of step rs s] by simp
  obtain x v where step: "step r u = (x, v)" by (cases "step r u")
  with snoc.prems(2) run have t: "xs = ys @ [x]" "t = v" by (auto simp: run_store_append Let_def)
  have f: "faithful rs ys u" by (rule snoc.IH [OF _ run]) (use snoc.prems in simp)
  show ?case
  proof (cases x)
    case (Inl e)
    then show ?thesis using faithful_refused [OF f len] refused [of r u e v] step t by simp
  next
    case (Inr d)
    then show ?thesis using faithful_accepted [OF f len] step t snoc.prems by simp
  qed
qed

text \<open>A swap replaces the write whose generation it expects, and nothing was written in between.\<close>

lemma swap_replaces:
  assumes empty: "\<And>n. look s n = None" "clock s = 0" and room: "length rs < 2 ^ 64"
    and run: "run_store step rs s = (xs, t)" and j: "j < length rs" "xs ! j = Inr d" "expects (rs ! j) = Some g"
  shows "\<exists>i < j. name (rs ! i) = name (rs ! j) \<and> (\<exists>d'. xs ! i = Inr d' \<and> od_Generation d' = g) \<and>
    (\<forall>k. i < k \<and> k < j \<and> name (rs ! k) = name (rs ! j) \<longrightarrow> (\<exists>e. xs ! k = Inl e))"
proof -
  obtain ys u where before: "run_store step (take j rs) s = (ys, u)" by (cases "run_store step (take j rs) s")
  then have len: "length ys = j" using run_store_length [of step "take j rs" s] j(1) by simp
  have split: "rs = take j rs @ rs ! j # drop (Suc j) rs" using j(1) by (simp add: id_take_nth_drop)
  obtain x v where step: "step (rs ! j) u = (x, v)" by (cases "step (rs ! j) u")
  obtain zs w where rest: "run_store step (drop (Suc j) rs) v = (zs, w)" by (cases "run_store step (drop (Suc j) rs) v")
  have xs: "xs = ys @ x # zs"
    using run before step rest by (subst (asm) split) (auto simp: run_store_append Let_def)
  with len j(2) have x: "x = Inr d" by (simp add: nth_append)
  have f: "faithful (take j rs) ys u" by (rule run_faithful [OF empty _ before]) (use room in simp)
  then have "clock u \<le> j" using j(1) by (simp add: faithful_def)
  then have "\<exists>y. look u (name (rs ! j)) = Some y \<and> od_Generation (so_Descriptor y) = g"
    using accepted [of "rs ! j" u d v] step x j(1,3) room by simp
  then obtain y where y: "look u (name (rs ! j)) = Some y" "od_Generation (so_Descriptor y) = g" by blast
  with f obtain i where i: "last_write name (name (rs ! j)) (take j rs) ys i (so_Descriptor y)"
    unfolding faithful_def by blast
  then have w: "won ys i (so_Descriptor y)" "name (rs ! i) = name (rs ! j)" "i < j"
    using len j(1) by (auto simp: last_write_def dest: won_less)
  have same: "won xs k z = won ys k z" if "k < j" for k z
    using xs len that by (auto simp: won_def nth_append)
  have "\<exists>e. xs ! k = Inl e" if k: "i < k" "k < j" "name (rs ! k) = name (rs ! j)" for k
  proof -
    have "\<not> won ys k z" for z using i k j(1) by (auto simp: last_write_def)
    then have "\<not> won xs k z" for z using same k(2) by simp
    moreover have "k < length xs" using xs len k(2) by simp
    ultimately show ?thesis by (cases "xs ! k") (auto simp: won_def)
  qed
  moreover have "xs ! i = Inr (so_Descriptor y)" using same [OF w(3), of "so_Descriptor y"] w(1) by (auto simp only: won_def)
  ultimately show ?thesis using w y(2) by blast
qed

text \<open>Accepted writes get growing generations.\<close>

lemma generations_grow:
  assumes "\<And>n. look s n = None" "clock s = 0" "length rs < 2 ^ 64" "run_store step rs s = (xs, t)"
    and "i < k" "k < length rs" "xs ! i = Inr d" "xs ! k = Inr d'"
  shows "unat (od_Generation d) < unat (od_Generation d')"
proof -
  have "length xs = length rs" using assms(4) run_store_length [of step rs s] by simp
  then have "won xs i d" "won xs k d'" using assms(5-8) by (simp_all add: won_def)
  with run_faithful [OF assms(1-4)] assms(5) show ?thesis unfolding faithful_def by blast
qed

text \<open>The generation that a swap expects is spent by it: no other swap of the object that expects it is accepted.\<close>

lemma swap_spends_generation:
  assumes empty: "\<And>n. look s n = None" "clock s = 0" and room: "length rs < 2 ^ 64"
    and run: "run_store step rs s = (xs, t)"
    and j: "j < length rs" "xs ! j = Inr d" "expects (rs ! j) = Some g"
    and k: "k < length rs" "xs ! k = Inr d'" "expects (rs ! k) = Some g"
    and same: "name (rs ! j) = name (rs ! k)"
  shows "j = k"
proof -
  have spent: False
    if less: "a < b" and a: "a < length rs" "xs ! a = Inr da" "expects (rs ! a) = Some g"
      and b: "b < length rs" "xs ! b = Inr db" "expects (rs ! b) = Some g"
      and names: "name (rs ! a) = name (rs ! b)" for a b da db
  proof -
    obtain i di where i: "i < a" "xs ! i = Inr di" "od_Generation di = g"
      using swap_replaces [OF empty room run a] by blast
    obtain l dl where l: "l < b" "xs ! l = Inr dl" "od_Generation dl = g"
      "\<forall>k. l < k \<and> k < b \<and> name (rs ! k) = name (rs ! b) \<longrightarrow> (\<exists>e. xs ! k = Inl e)"
      using swap_replaces [OF empty room run b] by blast
    have "\<not> i < l" "\<not> l < i"
      using generations_grow [OF empty room run, of i l di dl] generations_grow [OF empty room run, of l i dl di]
        i l a(1) b(1) by auto
    then show False using l(4) i(1) less a(2) names by force
  qed
  show ?thesis using spent [of j k d d'] spent [of k j d' d] j k same by (cases j k rule: linorder_cases) auto
qed

text \<open>Objects are never rewritten by requests that expect absence.\<close>

lemma creates_preserve:
  assumes "\<And>r. r \<in> set rs \<Longrightarrow> expects r = None" and "clock s + length rs < 2 ^ 64"
    and "run_store step rs s = (xs, t)" and "look s n = Some x"
  shows "look t n = Some x"
  using assms
proof (induction rs arbitrary: s xs)
  case Nil
  then show ?case by simp
next
  case (Cons r rs)
  obtain y u where step: "step r s = (y, u)" by (cases "step r s")
  then have run: "run_store step rs u = (fst (run_store step rs u), t)"
    using Cons.prems(3) by (auto simp: case_prod_unfold Let_def)
  have "clock u \<le> Suc (clock s)" using step_clock [OF step] Cons.prems(2) by simp
  moreover have "look u n = Some x"
  proof (cases y)
    case (Inl e)
    then show ?thesis using refused step Cons.prems(4) by blast
  next
    case (Inr d)
    have "expects r = None" using Cons.prems(1) by simp
    then have "look s (name r) = None" "look u = (look s)(name r \<mapsto> \<lparr>so_Descriptor = d, so_Content = content r\<rparr>)"
      using accepted [of r s d u] step Inr Cons.prems(2) by auto
    then show ?thesis using Cons.prems(4) by auto
  qed
  ultimately show ?case using Cons.IH [OF _ _ run] Cons.prems(1,2) by simp
qed

end

end
