(* ===== verification/StoreGuarantees.thy ===== *)
theory StoreGuarantees
  imports StoreContract IsolationBase
begin

section \<open>What the stores of the control plane guarantee\<close>

text \<open>
  Sequences of requests to the in-memory control store and audit store (the mutex makes any
  concurrent use such a sequence), their contract, and what follows from it: a compare-and-swap never
  loses a write, audit objects are immutable, and no two objects share a name.
\<close>

datatype control_request =
    ControlCreate context_state ControlObjectName string
  | ControlSwap context_state ControlObjectName Generation string

fun control_step ::
  "control_request \<Rightarrow> memoryObjects \<Rightarrow> (control_error + ObjectDescriptor) \<times> memoryObjects" where
  "control_step (ControlCreate ctx name content) s = MemoryControlStore_Create ctx name content s"
| "control_step (ControlSwap ctx name expected content) s =
     MemoryControlStore_CompareAndSwap ctx name expected content s"

fun control_name :: "control_request \<Rightarrow> string" where
  "control_name (ControlCreate ctx name content) = cn_value name"
| "control_name (ControlSwap ctx name expected content) = cn_value name"

fun control_content :: "control_request \<Rightarrow> string" where
  "control_content (ControlCreate ctx name content) = content"
| "control_content (ControlSwap ctx name expected content) = content"

fun control_expects :: "control_request \<Rightarrow> Generation option" where
  "control_expects (ControlCreate ctx name content) = None"
| "control_expects (ControlSwap ctx name expected content) = Some expected"

datatype audit_request = AuditCreate context_state AuditObjectName string

fun audit_step ::
  "audit_request \<Rightarrow> memoryObjects \<Rightarrow> (control_error + ObjectDescriptor) \<times> memoryObjects" where
  "audit_step (AuditCreate ctx name content) s = MemoryAuditStore_Create ctx name content s"

fun audit_name :: "audit_request \<Rightarrow> string" where
  "audit_name (AuditCreate ctx name content) = an_value name"

fun audit_content :: "audit_request \<Rightarrow> string" where
  "audit_content (AuditCreate ctx name content) = content"

definition memory_object :: "memoryObjects \<Rightarrow> string \<Rightarrow> StoredObject option" where
  "memory_object s name =
     map_option (\<lambda>x. \<lparr>so_Descriptor = mo_descriptor x, so_Content = mo_content x\<rparr>) (fmlookup (ms_objects s) name)"

definition memory_clock :: "memoryObjects \<Rightarrow> nat" where
  "memory_clock s = unat (ms_generation s)"

lemma unat_Suc_word: "Suc (unat (w :: 64 word)) < 2 ^ 64 \<Longrightarrow> unat (w + 1) = Suc (unat w)"
  by (simp add: unat_word_ariths)

lemma memory_put_stored:
  assumes "memory_put name content s = (d, t)" and "Suc (memory_clock s) < 2 ^ 64"
  shows "unat (od_Generation d) = Suc (memory_clock s) \<and> memory_clock t = Suc (memory_clock s) \<and>
    MatchesContent d content \<and>
    memory_object t = (memory_object s)(name \<mapsto> \<lparr>so_Descriptor = d, so_Content = content\<rparr>)"
proof -
  let ?g = "ms_generation s + 1"
  have d: "d = (DescribeContent content)\<lparr>od_Generation := ?g\<rparr>"
    "t = \<lparr>ms_generation = ?g, ms_objects = fmupd name \<lparr>mo_descriptor = d, mo_content = content\<rparr> (ms_objects s)\<rparr>"
    using assms(1) by (auto simp: memory_put_def Let_def)
  have g: "unat ?g = Suc (memory_clock s)" using assms(2) by (simp add: memory_clock_def unat_Suc_word)
  then have "?g \<noteq> 0" by (metis nat.distinct(1) unat_0)
  then show ?thesis
    using g by (auto simp: d memory_clock_def memory_object_def MatchesContent_def DescribeContent_def fun_eq_iff)
qed

interpretation control_store: generation_store
  control_step control_name control_content control_expects memory_object memory_clock
proof
  fix r s d t
  assume step: "control_step r s = (Inr d, t)" and room: "Suc (memory_clock s) < 2 ^ 64"
  have put: "memory_put (control_name r) (control_content r) s = (d, t) \<and>
      (case control_expects r of
         None \<Rightarrow> memory_object s (control_name r) = None
       | Some g \<Rightarrow> (\<exists>x. memory_object s (control_name r) = Some x \<and> od_Generation (so_Descriptor x) = g))"
    using step
    by (cases r) (auto simp: MemoryControlStore_Create_def MemoryControlStore_CompareAndSwap_def memory_create_def
        memory_compareAndSwap_def memory_object_def Let_def split: option.splits if_splits prod.splits)
  then show "(case control_expects r of
         None \<Rightarrow> memory_object s (control_name r) = None
       | Some g \<Rightarrow> (\<exists>x. memory_object s (control_name r) = Some x \<and> od_Generation (so_Descriptor x) = g)) \<and>
      unat (od_Generation d) = Suc (memory_clock s) \<and> memory_clock t = Suc (memory_clock s) \<and>
      MatchesContent d (control_content r) \<and>
      memory_object t = (memory_object s)(control_name r \<mapsto> \<lparr>so_Descriptor = d, so_Content = control_content r\<rparr>)"
    using memory_put_stored [OF _ room] by blast
next
  fix r s e t
  assume "control_step r s = (Inl e, t)"
  then show "t = s"
    by (cases r) (auto simp: MemoryControlStore_Create_def MemoryControlStore_CompareAndSwap_def memory_create_def
        memory_compareAndSwap_def Let_def split: option.splits if_splits prod.splits)
qed

interpretation audit_store: generation_store
  audit_step audit_name audit_content "\<lambda>r. None" memory_object memory_clock
proof
  fix r s d t
  assume step: "audit_step r s = (Inr d, t)" and room: "Suc (memory_clock s) < 2 ^ 64"
  have put: "memory_put (audit_name r) (audit_content r) s = (d, t) \<and> memory_object s (audit_name r) = None"
    using step by (cases r) (auto simp: MemoryAuditStore_Create_def memory_create_def memory_object_def Let_def
        split: option.splits if_splits prod.splits)
  then show "(case (None :: Generation option) of
         None \<Rightarrow> memory_object s (audit_name r) = None
       | Some g \<Rightarrow> (\<exists>x. memory_object s (audit_name r) = Some x \<and> od_Generation (so_Descriptor x) = g)) \<and>
      unat (od_Generation d) = Suc (memory_clock s) \<and> memory_clock t = Suc (memory_clock s) \<and>
      MatchesContent d (audit_content r) \<and>
      memory_object t = (memory_object s)(audit_name r \<mapsto> \<lparr>so_Descriptor = d, so_Content = audit_content r\<rparr>)"
    using memory_put_stored [OF conjunct1 [OF put] room] by simp
next
  fix r s e t
  assume "audit_step r s = (Inl e, t)"
  then show "t = s"
    by (cases r) (auto simp: MemoryAuditStore_Create_def memory_create_def Let_def
        split: option.splits if_splits prod.splits)
qed

lemma memory_read_object:
  "memory_read name s = Inr x \<longleftrightarrow> name \<noteq> [] \<and> memory_object s name = Some x"
  by (auto simp: memory_read_def memory_object_def split: option.splits)

lemma memory_empty_object [simp]: "memory_object memory_empty n = None" "memory_clock memory_empty = 0"
  by (simp_all add: memory_object_def memory_empty_def memory_clock_def)

subsection \<open>Names\<close>

text \<open>Everything the control plane stores, and the name the code gives it.\<close>

datatype control_object =
    LockObject string
  | HarnessStateObject
  | OwnershipRecordObject string string
  | LifetimeRecordObject string string
  | AdoptionObject string
  | ApprovedPolicyObject string
  | CostCeilingObject string

fun control_object_name :: "control_object \<Rightarrow> control_error + ControlObjectName" where
  "control_object_name (LockObject e) = LockObjectName e"
| "control_object_name HarnessStateObject = Inr HarnessStateObjectName"
| "control_object_name (OwnershipRecordObject e r) = OwnershipRecordObjectName e r"
| "control_object_name (LifetimeRecordObject e r) = LifetimeRecordObjectName e r"
| "control_object_name (AdoptionObject e) = AdoptionObjectName e"
| "control_object_name (ApprovedPolicyObject e) = ApprovedPolicyObjectName e"
| "control_object_name (CostCeilingObject e) = CostCeilingObjectName e"

datatype audit_object =
    PlanObject string string
  | PlanApprovalObject string string
  | OperationRecordObject string string
  | BootstrapEnvelopeObject string string
  | JournalEntryObject string JournalEntry

fun audit_object_name :: "audit_object \<Rightarrow> control_error + AuditObjectName" where
  "audit_object_name (PlanObject e p) = PlanObjectName e p"
| "audit_object_name (PlanApprovalObject e p) = PlanApprovalObjectName e p"
| "audit_object_name (OperationRecordObject e q) = OperationRecordObjectName e q"
| "audit_object_name (BootstrapEnvelopeObject e q) = BootstrapEnvelopeObjectName e q"
| "audit_object_name (JournalEntryObject e j) = JournalEntryObjectName e j"

text \<open>Two journal entries are one object when operation, sequence and entry identifier agree.\<close>

fun same_audit_object :: "audit_object \<Rightarrow> audit_object \<Rightarrow> bool" where
  "same_audit_object (JournalEntryObject e j) (JournalEntryObject e' j') \<longleftrightarrow>
     e = e' \<and> je_OperationID j = je_OperationID j' \<and> je_Sequence j = je_Sequence j' \<and>
     journalEntryID j = journalEntryID j'"
| "same_audit_object a b \<longleftrightarrow> a = b"

definition slash_free :: "string \<Rightarrow> bool" where
  "slash_free s \<longleftrightarrow> CHR ''/'' \<notin> set s"

lemma not_slash: "is_ident_char c \<Longrightarrow> c \<noteq> CHR ''/''" "is_lower c \<Longrightarrow> c \<noteq> CHR ''/''"
  by (auto simp: char_class_defs)

lemma slash_free_identifier: "identifierPattern s \<Longrightarrow> slash_free s"
  by (cases s) (auto simp: identifierPattern_def slash_free_def list_all_iff dest: not_slash)

lemma slash_free_environment: "environmentPattern s \<Longrightarrow> slash_free s"
  by (cases s) (auto simp: environmentPattern_def slash_free_def list_all_iff dest: not_slash)

lemma slash_inject:
  "slash_free a \<Longrightarrow> slash_free b \<Longrightarrow> a @ CHR ''/'' # x = b @ CHR ''/'' # y \<longleftrightarrow> a = b \<and> x = y"
  unfolding slash_free_def by (rule separator_inject)

lemmas control_name_defs =
  LockObjectName_def HarnessStateObjectName_def OwnershipRecordObjectName_def LifetimeRecordObjectName_def
  AdoptionObjectName_def ApprovedPolicyObjectName_def CostCeilingObjectName_def

lemmas audit_name_defs =
  PlanObjectName_def PlanApprovalObjectName_def OperationRecordObjectName_def
  BootstrapEnvelopeObjectName_def

lemma control_names_injective:
  assumes "control_object_name a = Inr n" and "control_object_name b = Inr n"
  shows "a = b"
  using assms
  by (cases a; cases b)
     (auto simp: control_name_defs slash_inject slash_free_environment)

lemma operation_inject:
  "operationIDPattern a \<Longrightarrow> operationIDPattern b \<Longrightarrow> a @ x = b @ y \<longleftrightarrow> a = b \<and> x = y"
  by (simp add: operationIDPattern_def)

lemma no_longer_operation: "operationIDPattern a \<Longrightarrow> operationIDPattern (a @ c # x) = False"
  by (simp add: operationIDPattern_def)

lemma no_approval_suffix: "planIDPattern a \<Longrightarrow> planIDPattern (a @ ''-approval'') = False"
  by (simp add: planIDPattern_def)

lemma sequence_below: "unat (w :: 64 word) < 10 ^ 20"
proof -
  have "unat w < 2 ^ 64" using unsigned_less [of w] by simp
  then show ?thesis by simp
qed

lemma sequence_inject:
  "pad20 (unat v) @ x = pad20 (unat w) @ y \<longleftrightarrow> v = w \<and> x = y" for v w :: "64 word"
  using pad20_inject [OF sequence_below sequence_below, of v w]
    length_pad20 [OF sequence_below, of v] length_pad20 [OF sequence_below, of w]
  by (auto simp: word_unat_eq_iff)

lemma JournalEntryObjectName_Inr:
  "JournalEntryObjectName e j = Inr n \<longleftrightarrow> environmentPattern e \<and> ValidateJournalEntry j = None \<and>
     n = AuditName (''operations/'' @ e @ ''/'' @ je_OperationID j @ ''/steps/'' @
       pad20 (unat (je_Sequence j)) @ ''-'' @ journalEntryID j @ ''.json'')"
  by (auto simp: JournalEntryObjectName_def JournalObjectName_def split: option.splits)

lemma audit_names_injective:
  assumes "audit_object_name a = Inr n" and "audit_object_name b = Inr n"
  shows "same_audit_object a b"
proof -
  have "operationIDPattern (je_OperationID j)" if "ValidateJournalEntry j = None" for j
    using entry_valid_facts [OF that] by simp
  then show ?thesis
    using assms
    by (cases a; cases b)
       (auto simp: audit_name_defs JournalEntryObjectName_Inr slash_inject slash_free_environment
         operation_inject sequence_inject no_approval_suffix no_longer_operation)
qed

text \<open>
  The closed layout never mixes objects up: two objects of the control bucket, or two of the audit
  bucket, that are given one name are the same object, of the same kind, environment and identifiers
  (for journal entries: the same operation, sequence and entry).
\<close>

theorem object_names_separate:
  "(control_object_name a = Inr n \<and> control_object_name b = Inr n \<longrightarrow> a = b) \<and>
   (audit_object_name c = Inr m \<and> audit_object_name d = Inr m \<longrightarrow> same_audit_object c d)"
  using control_names_injective audit_names_injective by blast

lemma sample_object_names:
  "LockObjectName ''prod'' = Inr (ControlName ''locks/prod.json'')"
  "PlanObjectName ''prod'' ''plan-0123456789abcdef'' = Inr (AuditName ''plans/prod/plan-0123456789abcdef.json'')"
  by (simp_all add: LockObjectName_def PlanObjectName_def environmentPattern_def planIDPattern_def char_class_defs)

theorem object_names_separate_witness:
  "control_object_name (LockObject ''prod'') = Inr (ControlName ''locks/prod.json'') \<and>
   same_audit_object (PlanObject ''prod'' ''plan-0123456789abcdef'') (PlanObject ''prod'' ''plan-0123456789abcdef'')"
  using object_names_separate [of "LockObject ''prod''" "ControlName ''locks/prod.json''" "LockObject ''prod''"
      "PlanObject ''prod'' ''plan-0123456789abcdef''" "AuditName ''plans/prod/plan-0123456789abcdef.json''"
      "PlanObject ''prod'' ''plan-0123456789abcdef''"]
  by (simp add: sample_object_names)

subsection \<open>The stores\<close>

text \<open>
  C11. A compare-and-swap never loses a write. Whatever sequence of creations and swaps a new control
  store receives (fewer than 2^64 requests, so that the generation counter does not wrap), an accepted swap
  replaces exactly the earlier accepted write that was given the generation it expects, and no other write to
  that object was accepted in between; it gets a generation greater than every earlier one; and no other
  swap of the object that expects the same generation is accepted, before or after it.
\<close>

theorem swap_replaces_what_it_expects:
  assumes "run_store control_step rs memory_empty = (xs, s)" and "length rs < 2 ^ 64"
    and "j < length rs" and "rs ! j = ControlSwap ctx name g content" and "xs ! j = Inr d"
  shows "(\<exists>i < j. control_name (rs ! i) = cn_value name \<and> (\<exists>d'. xs ! i = Inr d' \<and> od_Generation d' = g) \<and>
      (\<forall>k. i < k \<and> k < j \<and> control_name (rs ! k) = cn_value name \<longrightarrow> (\<exists>e. xs ! k = Inl e))) \<and>
    (\<forall>k < j. \<forall>d'. xs ! k = Inr d' \<longrightarrow> unat (od_Generation d') < unat (od_Generation d)) \<and>
    (\<forall>k < length rs. \<forall>ctx' content'. k \<noteq> j \<and> rs ! k = ControlSwap ctx' name g content' \<longrightarrow> (\<exists>e. xs ! k = Inl e))"
proof -
  have "\<exists>e. xs ! k = Inl e" if "k < length rs" "k \<noteq> j" "rs ! k = ControlSwap ctx' name g content'" for k ctx' content'
    using control_store.swap_spends_generation [OF _ _ assms(2,1,3,5) _ that(1)] assms(4) that
    by (cases "xs ! k") auto
  moreover have "unat (od_Generation d') < unat (od_Generation d)" if "k < j" "xs ! k = Inr d'" for k d'
    using control_store.generations_grow [OF _ _ assms(2,1) that(1) assms(3) that(2) assms(5)] by simp
  ultimately show ?thesis
    using control_store.swap_replaces [OF _ _ assms(2,1,3,5)] assms(4) by simp
qed

text \<open>
  C12. The audit store is append-only. An object that can be read stays readable with the same
  content and descriptor whatever further requests the store receives, up to the largest generation.
\<close>

theorem audit_objects_immutable:
  assumes "MemoryAuditStore_Read ctx name s = Inr x"
    and "run_store audit_step rs s = (xs, t)" and "unat (ms_generation s) + length rs < 2 ^ 64"
  shows "MemoryAuditStore_Read ctx name t = Inr x"
proof -
  have "memory_object s (an_value name) = Some x" "an_value name \<noteq> []" "storeContext ctx = None"
    using assms(1) by (simp_all add: MemoryAuditStore_Read_def memory_read_object)
  moreover from this have "memory_object t (an_value name) = Some x"
    using audit_store.creates_preserve [OF _ _ assms(2)] assms(3) by (simp add: memory_clock_def)
  ultimately show ?thesis by (simp add: MemoryAuditStore_Read_def memory_read_object)
qed

text \<open>A control store that receives a creation and two swaps of the first generation.\<close>

definition sample_requests :: "control_request list" where
  "sample_requests =
     [ControlCreate (Some None) (ControlName ''locks/prod.json'') ''a'',
      ControlSwap (Some None) (ControlName ''locks/prod.json'') 1 ''b'',
      ControlSwap (Some None) (ControlName ''locks/prod.json'') 1 ''c'']"

lemmas memory_defs =
  MemoryControlStore_Create_def MemoryControlStore_CompareAndSwap_def MemoryAuditStore_Create_def
  MemoryAuditStore_Read_def storeContext_def memory_create_def memory_compareAndSwap_def memory_read_def
  memory_put_def memory_empty_def DescribeContent_def

theorem swap_replaces_what_it_expects_witness:
  "let (xs, s) = run_store control_step sample_requests memory_empty in
     (\<exists>d. xs ! 1 = Inr d) \<and> (\<exists>e. xs ! 2 = Inl e) \<and>
     (\<exists>i < 1. control_name (sample_requests ! i) = ''locks/prod.json'' \<and>
       (\<exists>d'. xs ! i = Inr d' \<and> od_Generation d' = 1))"
proof -
  obtain xs s where run: "run_store control_step sample_requests memory_empty = (xs, s)"
    by (cases "run_store control_step sample_requests memory_empty")
  then obtain d where xs: "xs ! 1 = Inr d"
    by (auto simp: sample_requests_def memory_defs Let_def)
  have "(\<exists>e. xs ! 2 = Inl e) \<and> (\<exists>i < 1. control_name (sample_requests ! i) = ''locks/prod.json'' \<and>
      (\<exists>d'. xs ! i = Inr d' \<and> od_Generation d' = 1))"
    using swap_replaces_what_it_expects [OF run, of 1 "Some None" "ControlName ''locks/prod.json''" 1 "''b''" d] xs
    by (auto simp: sample_requests_def dest: spec [of _ 2])
  with xs show ?thesis unfolding run Let_def prod.case by blast
qed

theorem audit_objects_immutable_witness:
  "let (x, s) = MemoryAuditStore_Create (Some None) (AuditName ''plans/a'') ''p'' memory_empty;
       (xs, t) = run_store audit_step [AuditCreate (Some None) (AuditName ''plans/a'') ''q''] s in
   \<exists>y. MemoryAuditStore_Read (Some None) (AuditName ''plans/a'') t = Inr y \<and> so_Content y = ''p''"
proof -
  obtain x s where s: "MemoryAuditStore_Create (Some None) (AuditName ''plans/a'') ''p'' memory_empty = (x, s)"
    by (cases "MemoryAuditStore_Create (Some None) (AuditName ''plans/a'') ''p'' memory_empty")
  obtain xs t where t: "run_store audit_step [AuditCreate (Some None) (AuditName ''plans/a'') ''q''] s = (xs, t)"
    by (cases "run_store audit_step [AuditCreate (Some None) (AuditName ''plans/a'') ''q''] s")
  obtain y where y: "MemoryAuditStore_Read (Some None) (AuditName ''plans/a'') s = Inr y" "so_Content y = ''p''"
    "unat (ms_generation s) = 1"
    using s by (auto simp: memory_defs Let_def)
  have "MemoryAuditStore_Read (Some None) (AuditName ''plans/a'') t = Inr y"
    using audit_objects_immutable [OF y(1) t] y(3) by simp
  with y(2) show ?thesis by (simp only: s t Let_def prod.case) blast
qed

end
