(* ===== verification/BootstrapTypes.thy ===== *)
theory BootstrapTypes
  imports ExecutionContract IsolationTargets
begin

section \<open>internal/isolation/bootstrap: the compiled plan (types.go)\<close>

text \<open>
  The documents of the WF-TEST-01 bootstrap plan: what is desired, the resources with the digests of
  their desired state, the limits, the pricing and permission evidence, the envelope binding and the
  step intents, and the compiled plan that seals them. The accessors of a compiled plan return
  detached copies; values have no aliases here, so a copy is the value. \<open>int64\<close> is \<open>int\<close>.
\<close>

definition CompiledPlanSchemaV1 :: string where
  "CompiledPlanSchemaV1 = ''ctrldb.ctrlboard.dev/wf-test-plan/v1''"

definition PermissionEvidenceSchemaV1 :: string where
  "PermissionEvidenceSchemaV1 = ''ctrldb.ctrlboard.dev/permission-evidence/v1''"

definition bootstrap_WorkflowID :: string where
  "bootstrap_WorkflowID = ''WF-TEST-01''"

record PricingEvidence =
  pe_MachineType :: string
  pe_Region :: string
  pe_Zone :: string
  pe_GuestCPUs :: int
  pe_MemoryMiB :: int
  pe_DiskGiB :: int
  pe_Instances :: int
  pe_LifetimeSeconds :: int
  pe_EstimatedRunMicros :: int
  pe_Currency :: string
  pe_PriceTableDate :: string
  pe_Schema :: string
  pe_Revision :: string
  pe_ObservedAt :: gotime
  pe_ValidUntil :: gotime

record PermissionGrant =
  pg_StepID :: string
  pg_Identity :: ExecutionIdentity
  pg_Permission :: string
  pg_Granted :: bool

record PermissionEvidence =
  px_Account :: string
  px_Project :: string
  px_Schema :: string
  px_Revision :: string
  px_ObservedAt :: gotime
  px_ValidUntil :: gotime
  px_Grants :: "PermissionGrant list"

datatype BootstrapResourceKind =
    ResourceBucket
  | ResourceNetwork
  | ResourceSubnetwork
  | ResourceRouter
  | ResourceNAT
  | ResourceFirewall
  | ResourceServiceAccount
  | ResourceCustomRole
  | ResourceRunJob
  | ResourceSchedulerJob
  | ResourceKindOther string

fun BootstrapResourceKind_string :: "BootstrapResourceKind \<Rightarrow> string" where
  "BootstrapResourceKind_string ResourceBucket = ''storage.bucket''"
| "BootstrapResourceKind_string ResourceNetwork = ''compute.network''"
| "BootstrapResourceKind_string ResourceSubnetwork = ''compute.subnetwork''"
| "BootstrapResourceKind_string ResourceRouter = ''compute.router''"
| "BootstrapResourceKind_string ResourceNAT = ''compute.nat''"
| "BootstrapResourceKind_string ResourceFirewall = ''compute.firewall''"
| "BootstrapResourceKind_string ResourceServiceAccount = ''iam.service-account''"
| "BootstrapResourceKind_string ResourceCustomRole = ''iam.custom-role''"
| "BootstrapResourceKind_string ResourceRunJob = ''run.job''"
| "BootstrapResourceKind_string ResourceSchedulerJob = ''scheduler.job''"
| "BootstrapResourceKind_string (ResourceKindOther s) = s"

datatype Permanence = PermanentSingleton | DisposableRun | PermanenceOther string

record DesiredResource =
  dr_ID :: string
  dr_Kind :: BootstrapResourceKind
  dr_Name :: string
  dr_Project :: string
  dr_Location :: string
  dr_ProviderID :: string
  dr_ParentProviderID :: string
  dr_Permanence :: Permanence
  dr_DesiredStateFingerprint :: string

record HarnessDesiredState =
  ds_Account :: string
  ds_Project :: string
  ds_Region :: string
  ds_Zone :: string
  ds_CIDR :: string
  ds_NamePrefix :: string
  ds_Labels :: string_map
  ds_ControlBucket :: string
  ds_AuditBucket :: string
  ds_VPC :: string
  ds_Subnet :: string
  ds_Router :: string
  ds_NAT :: string
  ds_IAPFirewall :: string
  ds_InternalFirewall :: string
  ds_NodeTag :: string
  ds_OperatorPrincipal :: string
  ds_DestructivePrincipal :: string
  ds_VMPrincipal :: string
  ds_WipePrincipal :: string
  ds_CIPrincipal :: string
  ds_OperatorRole :: string
  ds_DestructiveRole :: string
  ds_WipeRunJob :: string
  ds_WipeSchedulerJob :: string
  ds_WipeScheduleUTC :: string
  ds_ImageDigest :: string
  ds_PlanValiditySeconds :: int

record BootstrapRunLimits =
  bl_MaximumMachineType :: string
  bl_MaximumGuestCPUs :: int
  bl_MaximumMemoryMiB :: int
  bl_MaximumDiskGiB :: int
  bl_MaximumInstances :: int
  bl_MaximumLifetimeSec :: int
  bl_MaximumCostMicros :: int
  bl_EstimatedCostMicros :: int

record EnvelopeBinding =
  eb_WorkflowID :: string
  eb_PlanID :: string
  eb_PlanHash :: string
  eb_Account :: string
  eb_ManifestHash :: string
  eb_ObservationRevision :: string
  eb_PermissionRevision :: string
  eb_ObservedAt :: gotime
  eb_ValidUntil :: gotime
  eb_BindingSHA256 :: string

datatype IntentKind =
    IntentAuditBootstrap
  | IntentAuditRetention
  | IntentControlBucket
  | IntentBucketIAM
  | IntentSeedControl
  | IntentLockRoundTrip
  | IntentNetwork
  | IntentSubnet
  | IntentNAT
  | IntentFirewall
  | IntentIdentities
  | IntentControlPrefix
  | IntentNightlyWipe
  | IntentIsolationGate
  | IntentKindOther string

datatype PointOfNoReturnClass =
    PONRReversible
  | PONRAuditRetentionLock
  | PONRVerificationOnly
  | PONROther string

record HarnessTransition =
  ht_FromBootstrapPhase :: string
  ht_FromTestUsability :: string
  ht_ToBootstrapPhase :: string
  ht_ToTestUsability :: string

record StepIntent =
  si_StepID :: string
  si_Kind :: IntentKind
  si_EnvelopeBindingSHA256 :: string
  si_ExecutingIdentity :: ExecutionIdentity
  si_ResourceIDs :: "string list"
  si_Dependencies :: "string list"
  si_Preconditions :: "string list"
  si_Verification :: "string list"
  si_Retry :: RetryPolicy
  si_TimeoutSeconds :: int
  si_CancelSafe :: bool
  si_Compensation :: string
  si_PointOfNoReturn :: PointOfNoReturnClass
  si_Transition :: "HarnessTransition option"

record RiskSummary =
  rk_ExpectedCostCeilingMicros :: int
  rk_EstimatedRunCostMicros :: int
  rk_ExpectedDowntimeSeconds :: int
  rk_ProductionExposure :: string
  rk_PermanentResiduals :: "string list"
  rk_Risks :: "string list"
  rk_Rollback :: "string list"
  rk_Compensation :: "string list"
  rk_PointOfNoReturn :: string

record compiledPayloadV1 =
  cp_Plan :: Plan
  cp_Binding :: EnvelopeBinding
  cp_Desired :: HarnessDesiredState
  cp_DesiredResources :: "DesiredResource list"
  cp_Limits :: BootstrapRunLimits
  cp_Pricing :: PricingEvidence
  cp_Permissions :: PermissionEvidence
  cp_CleanupCapabilities :: "CleanupCapability list"
  cp_Intents :: "StepIntent list"
  cp_Risks :: RiskSummary

record compiledWireV1 =
  cw_SchemaVersion :: string
  cw_Payload :: compiledPayloadV1
  cw_DocumentSHA256 :: string

record CompiledPlan =
  cv_payload :: compiledPayloadV1
  cv_documentHash :: string
  cv_contract :: ExecutionContract

abbreviation plan_Plan :: "CompiledPlan \<Rightarrow> Plan" where
  "plan_Plan v \<equiv> cp_Plan (cv_payload v)"

abbreviation plan_Binding :: "CompiledPlan \<Rightarrow> EnvelopeBinding" where
  "plan_Binding v \<equiv> cp_Binding (cv_payload v)"

abbreviation plan_DesiredState :: "CompiledPlan \<Rightarrow> HarnessDesiredState" where
  "plan_DesiredState v \<equiv> cp_Desired (cv_payload v)"

abbreviation plan_DesiredResources :: "CompiledPlan \<Rightarrow> DesiredResource list" where
  "plan_DesiredResources v \<equiv> cp_DesiredResources (cv_payload v)"

abbreviation plan_Limits :: "CompiledPlan \<Rightarrow> BootstrapRunLimits" where
  "plan_Limits v \<equiv> cp_Limits (cv_payload v)"

abbreviation plan_Intents :: "CompiledPlan \<Rightarrow> StepIntent list" where
  "plan_Intents v \<equiv> cp_Intents (cv_payload v)"

end
