(* ===== verification/ControlIam.thy ===== *)
theory ControlIam
  imports BootstrapTypes ControlStore "HOL-Library.Product_Lexorder"
begin

section \<open>internal/control: bucket IAM (iam.go)\<close>

text \<open>
  The closed IAM policy of the two control-plane buckets: the bindings a step renders, what a valid
  binding is, which bindings a compensation removes, and how an observed condition is recognised.
  \<open>marshal\<close> is \<open>json.Marshal\<close> of a list of bindings, \<open>sha256hex\<close> the hexadecimal SHA-256.
\<close>

definition hashJSON :: "('a \<Rightarrow> string option) \<Rightarrow> (string \<Rightarrow> string) \<Rightarrow> 'a \<Rightarrow> string option" where
  "hashJSON marshal sha256hex x = map_option sha256hex (marshal x)"

definition RoleObjectUser :: string where "RoleObjectUser = ''roles/storage.objectUser''"
definition RoleObjectViewer :: string where "RoleObjectViewer = ''roles/storage.objectViewer''"
definition RoleObjectCreator :: string where "RoleObjectCreator = ''roles/storage.objectCreator''"
definition TestPrefix :: string where "TestPrefix = ''test/''"
definition WipePrefix :: string where "WipePrefix = ''test/wipe/''"

definition closedBindingRoles :: "string list" where
  "closedBindingRoles = [RoleObjectUser, RoleObjectViewer, RoleObjectCreator]"

definition closedBindingPrefix :: "string list" where
  "closedBindingPrefix = [TestPrefix, WipePrefix]"

text \<open>
  \<open>^serviceAccount:[a-z][a-z0-9-]{5,29}@[a-z][a-z0-9-]{4,28}[a-z0-9]\.iam\.gserviceaccount\.com$\<close>.
\<close>

definition serviceAccountMember :: "string \<Rightarrow> bool" where
  "serviceAccountMember s =
     (has_prefix s ''serviceAccount:'' \<and>
      (case split_on CHR ''@'' (drop 15 s) of
         [account, domain] \<Rightarrow>
           6 \<le> length account \<and> length account \<le> 30 \<and> is_lower (hd account) \<and>
           list_all is_ident_char (tl account) \<and> has_suffix domain ''.iam.gserviceaccount.com'' \<and>
           projectIDPattern (trim_suffix domain ''.iam.gserviceaccount.com'')
       | _ \<Rightarrow> False))"

record BucketBinding =
  bb_Bucket :: string
  bb_Role :: string
  bb_Member :: string
  bb_Prefix :: string
  bb_ConditionTitle :: string
  bb_ConditionExpression :: string

record BucketPolicy =
  bp_StepID :: string
  bp_Bindings :: "BucketBinding list"
  bp_Fingerprint :: string

definition binding_error :: "string \<Rightarrow> control_error" where
  "binding_error reason = Control ErrInvalidBucketBinding reason"

definition condition_expression :: "string \<Rightarrow> string \<Rightarrow> string" where
  "condition_expression bucket pre =
     ''resource.type == \"storage.googleapis.com/Object\" && resource.name.startsWith(\"projects/_/buckets/''
       @ bucket @ ''/objects/'' @ pre @ ''\")''"

definition bucket_binding :: "string \<Rightarrow> string \<Rightarrow> string \<Rightarrow> string \<Rightarrow> BucketBinding" where
  "bucket_binding bucket role member pre =
     \<lparr>bb_Bucket = bucket, bb_Role = role, bb_Member = member, bb_Prefix = pre,
      bb_ConditionTitle = ''ctrldb-'' @
        trim_suffix (map (\<lambda>c. if c = CHR ''/'' then CHR ''-'' else c) pre) ''-'' @ ''-'' @
        trim_prefix role ''roles/storage.'',
      bb_ConditionExpression = condition_expression bucket pre\<rparr>"

definition sort_binding_key :: "BucketBinding \<Rightarrow> string \<times> string \<times> string \<times> string" where
  "sort_binding_key b = (bb_Bucket b, bb_Role b, bb_Member b, bb_Prefix b)"

definition sortBindings :: "BucketBinding list \<Rightarrow> BucketBinding list" where
  "sortBindings values = sort_key sort_binding_key values"

text \<open>\<open>"serviceAccount:" + principal\<close>.\<close>

definition accountMember :: "string \<Rightarrow> string" where
  "accountMember principal_name = ''serviceAccount:'' @ principal_name"

definition harness_members :: "HarnessDesiredState \<Rightarrow> string list" where
  "harness_members desired = map accountMember
     [ds_OperatorPrincipal desired, ds_DestructivePrincipal desired, ds_VMPrincipal desired, ds_WipePrincipal desired]"

text \<open>What the two validators share: the closed role, the closed prefix, the shape of the member.\<close>

definition binding_shape :: "BucketBinding \<Rightarrow> control_error option list" where
  "binding_shape item =
     [fail_if (bb_Role item \<notin> set closedBindingRoles) (binding_error ''role is outside the closed set''),
      fail_if (bb_Prefix item \<notin> set closedBindingPrefix) (binding_error ''prefix is outside the disposable subtree''),
      fail_if (\<not> serviceAccountMember (bb_Member item)) (binding_error ''member is not a project service account'')]"

definition binding_condition :: "BucketBinding \<Rightarrow> control_error option" where
  "binding_condition item =
     fail_if (item \<noteq> bucket_binding (bb_Bucket item) (bb_Role item) (bb_Member item) (bb_Prefix item))
       (binding_error ''condition is not the exact resource-scoped expression'')"

definition ValidateBucketBinding :: "BucketBinding \<Rightarrow> HarnessDesiredState \<Rightarrow> control_error option" where
  "ValidateBucketBinding item desired =
     first_error
       ([fail_if (bb_Bucket item = [] \<or> bb_Bucket item \<noteq> ds_AuditBucket desired \<and>
            bb_Bucket item \<noteq> ds_ControlBucket desired)
           (binding_error ''bucket is not an approved control-plane bucket'')] @
        binding_shape item @
        [fail_if (bb_Member item \<notin> set (harness_members desired))
           (binding_error ''member is not an approved harness identity''),
         binding_condition item])"

definition ValidateBucketBindingShape :: "BucketBinding \<Rightarrow> string \<Rightarrow> string \<Rightarrow> control_error option" where
  "ValidateBucketBindingShape item auditBucket controlBucket =
     first_error
       ([fail_if (auditBucket = [] \<or> controlBucket = [] \<or> auditBucket = controlBucket \<or>
            bb_Bucket item \<noteq> auditBucket \<and> bb_Bucket item \<noteq> controlBucket)
           (binding_error ''bucket is not an approved control-plane bucket'')] @
        binding_shape item @ [binding_condition item])"

definition rendered_bindings :: "string \<Rightarrow> HarnessDesiredState \<Rightarrow> BucketBinding list option" where
  "rendered_bindings stepID desired =
     (let operator = accountMember (ds_OperatorPrincipal desired);
          destructive = accountMember (ds_DestructivePrincipal desired);
          vm = accountMember (ds_VMPrincipal desired);
          wipe = accountMember (ds_WipePrincipal desired);
          audit = ds_AuditBucket desired; control = ds_ControlBucket desired
      in if stepID = ''k3-bucket-iam'' then Some
           [bucket_binding audit RoleObjectCreator operator TestPrefix,
            bucket_binding audit RoleObjectViewer operator TestPrefix,
            bucket_binding audit RoleObjectCreator destructive TestPrefix,
            bucket_binding audit RoleObjectViewer destructive TestPrefix,
            bucket_binding audit RoleObjectCreator wipe TestPrefix,
            bucket_binding control RoleObjectCreator wipe WipePrefix,
            bucket_binding control RoleObjectViewer wipe TestPrefix,
            bucket_binding control RoleObjectViewer vm TestPrefix]
         else if stepID = ''t6-control-prefix'' then Some
           [bucket_binding control RoleObjectUser operator TestPrefix,
            bucket_binding control RoleObjectUser destructive TestPrefix]
         else None)"

definition RenderBucketPolicy ::
  "(BucketBinding list \<Rightarrow> string option) \<Rightarrow> (string \<Rightarrow> string) \<Rightarrow> string \<Rightarrow> HarnessDesiredState \<Rightarrow>
     control_error + BucketPolicy" where
  "RenderBucketPolicy marshal sha256hex stepID desired =
     (case rendered_bindings stepID desired of
        None \<Rightarrow> Inl (binding_error ''step renders no bucket policy'')
      | Some bindings \<Rightarrow>
          check (first_error
            [fail_if (ds_AuditBucket desired = [] \<or> ds_ControlBucket desired = [] \<or>
                ds_AuditBucket desired = ds_ControlBucket desired) (binding_error ''bucket identities''),
             check_each (\<lambda>i item. ValidateBucketBinding item desired) 0 bindings])
          (case hashJSON marshal sha256hex (sortBindings bindings) of
             None \<Rightarrow> Inl (binding_error ''fingerprint'')
           | Some fingerprint \<Rightarrow> Inr \<lparr>bp_StepID = stepID, bp_Bindings = sortBindings bindings,
               bp_Fingerprint = fingerprint\<rparr>))"

definition CompensationBindings :: "BucketBinding list \<Rightarrow> BucketBinding list \<Rightarrow> BucketBinding list" where
  "CompensationBindings rendered preexisting =
     sortBindings (filter (\<lambda>item. item \<notin> set preexisting) rendered)"

text \<open>The map of closed prefixes is searched in any order; at most one of them matches.\<close>

definition PrefixFromCondition :: "string \<Rightarrow> string \<Rightarrow> string" where
  "PrefixFromCondition bucket expression =
     (case find (\<lambda>pre. expression = bb_ConditionExpression (bucket_binding bucket RoleObjectViewer [] pre))
          closedBindingPrefix of
        None \<Rightarrow> []
      | Some pre \<Rightarrow> pre)"

subsection \<open>What a rendered policy grants\<close>

lemmas role_defs = RoleObjectUser_def RoleObjectViewer_def RoleObjectCreator_def
lemmas prefix_defs = TestPrefix_def WipePrefix_def closedBindingPrefix_def

lemma condition_inject: "condition_expression b p = condition_expression b q \<longleftrightarrow> p = q"
  by (simp add: condition_expression_def)

lemma bucket_binding_sel [simp]:
  "bb_Bucket (bucket_binding b r m p) = b" "bb_Role (bucket_binding b r m p) = r"
  "bb_Member (bucket_binding b r m p) = m" "bb_Prefix (bucket_binding b r m p) = p"
  "bb_ConditionExpression (bucket_binding b r m p) = condition_expression b p"
  by (simp_all add: bucket_binding_def)

lemma bucket_binding_inject:
  "bucket_binding b r m p = bucket_binding b' r' m' p' \<longleftrightarrow> b = b' \<and> r = r' \<and> m = m' \<and> p = p'"
  by (metis bucket_binding_sel(1,2,3,4))

lemma sortBindings_set [simp]: "set (sortBindings bs) = set bs" "mset (sortBindings bs) = mset bs"
  by (simp_all add: sortBindings_def)

lemma ValidateBucketBinding_None:
  "ValidateBucketBinding item desired = None \<longleftrightarrow>
     bb_Bucket item \<in> {ds_AuditBucket desired, ds_ControlBucket desired} - {[]} \<and>
     bb_Role item \<in> set closedBindingRoles \<and> bb_Prefix item \<in> set closedBindingPrefix \<and>
     serviceAccountMember (bb_Member item) \<and> bb_Member item \<in> set (harness_members desired) \<and>
     item = bucket_binding (bb_Bucket item) (bb_Role item) (bb_Member item) (bb_Prefix item)"
  by (auto simp: ValidateBucketBinding_def binding_shape_def binding_condition_def)

lemma RenderBucketPolicy_Inr:
  "RenderBucketPolicy marshal sha256hex stepID desired = Inr p \<longleftrightarrow>
     (\<exists>bs. rendered_bindings stepID desired = Some bs \<and> ds_AuditBucket desired \<noteq> [] \<and>
       ds_ControlBucket desired \<noteq> [] \<and> ds_AuditBucket desired \<noteq> ds_ControlBucket desired \<and>
       (\<forall>b \<in> set bs. ValidateBucketBinding b desired = None) \<and> bp_StepID p = stepID \<and>
       bp_Bindings p = sortBindings bs \<and> hashJSON marshal sha256hex (sortBindings bs) = Some (bp_Fingerprint p))"
  by (auto simp: RenderBucketPolicy_def check_each_None all_set_conv_all_nth split: option.splits)

text \<open>What a role lets its member do with an object under the prefix.\<close>

definition may_overwrite :: "BucketBinding \<Rightarrow> bool" where
  "may_overwrite b \<longleftrightarrow> bb_Role b \<notin> {RoleObjectViewer, RoleObjectCreator}"

definition may_create :: "BucketBinding \<Rightarrow> bool" where
  "may_create b \<longleftrightarrow> bb_Role b \<noteq> RoleObjectViewer"

lemma rendered_cases:
  assumes "rendered_bindings stepID desired = Some bs"
  shows "stepID = ''k3-bucket-iam'' \<and> length bs = 8 \<or> stepID = ''t6-control-prefix'' \<and> length bs = 2"
    "b \<in> set bs \<Longrightarrow> may_overwrite b \<Longrightarrow> bb_Bucket b = ds_ControlBucket desired \<and>
       bb_Member b \<in> {accountMember (ds_OperatorPrincipal desired), accountMember (ds_DestructivePrincipal desired)}"
    "b \<in> set bs \<Longrightarrow> bb_Bucket b = ds_ControlBucket desired \<Longrightarrow> may_create b \<Longrightarrow> \<not> may_overwrite b \<Longrightarrow>
       ds_AuditBucket desired \<noteq> ds_ControlBucket desired \<Longrightarrow>
       bb_Member b = accountMember (ds_WipePrincipal desired) \<and> bb_Prefix b = WipePrefix"
  using assms
  by (auto simp: rendered_bindings_def Let_def may_overwrite_def may_create_def role_defs split: if_splits)

lemma rendered_distinct:
  assumes "rendered_bindings stepID desired = Some bs" and "ds_AuditBucket desired \<noteq> ds_ControlBucket desired"
    and "distinct [ds_OperatorPrincipal desired, ds_DestructivePrincipal desired, ds_VMPrincipal desired,
      ds_WipePrincipal desired]"
  shows "distinct bs"
  using assms
  by (auto simp: rendered_bindings_def Let_def bucket_binding_def accountMember_def role_defs prefix_defs split: if_splits)

text \<open>
  C16. A rendered bucket policy is closed. It exists for the two steps K3 and T6 only, with eight and two
  bindings, and no binding occurs twice when the four harness accounts are different, as the configuration
  makes them. Each is on one of the two distinct control-plane buckets, for one of the four harness accounts,
  with the exact condition that confines it to objects under the disposable subtree. No binding lets anyone
  overwrite an object of the audit bucket, and on the control bucket only the operator and the destructive
  account may overwrite; the wipe account may create only its run records.
\<close>

theorem rendered_policy_closed:
  assumes "RenderBucketPolicy marshal sha256hex stepID desired = Inr p"
  shows "(stepID = ''k3-bucket-iam'' \<and> length (bp_Bindings p) = 8 \<or>
      stepID = ''t6-control-prefix'' \<and> length (bp_Bindings p) = 2) \<and>
    (distinct [ds_OperatorPrincipal desired, ds_DestructivePrincipal desired, ds_VMPrincipal desired,
       ds_WipePrincipal desired] \<longrightarrow> distinct (bp_Bindings p)) \<and>
    ds_AuditBucket desired \<noteq> ds_ControlBucket desired \<and>
    (\<forall>b \<in> set (bp_Bindings p).
      bb_Bucket b \<in> {ds_AuditBucket desired, ds_ControlBucket desired} \<and>
      bb_Member b \<in> set (harness_members desired) \<and> serviceAccountMember (bb_Member b) \<and>
      has_prefix (bb_Prefix b) ''test/'' \<and>
      bb_ConditionExpression b = condition_expression (bb_Bucket b) (bb_Prefix b) \<and>
      (may_overwrite b \<longrightarrow> bb_Bucket b = ds_ControlBucket desired \<and>
         bb_Member b \<in> {accountMember (ds_OperatorPrincipal desired),
           accountMember (ds_DestructivePrincipal desired)}) \<and>
      (bb_Bucket b = ds_ControlBucket desired \<and> may_create b \<and> \<not> may_overwrite b \<longrightarrow>
         bb_Member b = accountMember (ds_WipePrincipal desired) \<and> bb_Prefix b = WipePrefix))"
proof -
  from assms obtain bs where bs: "rendered_bindings stepID desired = Some bs"
    "ds_AuditBucket desired \<noteq> ds_ControlBucket desired"
    "\<forall>b \<in> set bs. ValidateBucketBinding b desired = None" "bp_Bindings p = sortBindings bs"
    by (auto simp: RenderBucketPolicy_Inr)
  have "length (bp_Bindings p) = length bs" using bs(4) by (simp add: sortBindings_def)
  moreover have "distinct (bp_Bindings p) = distinct bs" using bs(4) by (simp add: sortBindings_def)
  moreover have "has_prefix (bb_Prefix b) ''test/'' \<and>
      bb_ConditionExpression b = condition_expression (bb_Bucket b) (bb_Prefix b)"
    if "ValidateBucketBinding b desired = None" for b
  proof -
    from that have "bb_Prefix b \<in> set closedBindingPrefix"
      and b: "b = bucket_binding (bb_Bucket b) (bb_Role b) (bb_Member b) (bb_Prefix b)"
      by (simp_all add: ValidateBucketBinding_None)
    then have "has_prefix (bb_Prefix b) ''test/''" by (auto simp: prefix_defs)
    moreover have "bb_ConditionExpression b = condition_expression (bb_Bucket b) (bb_Prefix b)"
      using arg_cong [OF b, of bb_ConditionExpression] by simp
    ultimately show ?thesis ..
  qed
  ultimately show ?thesis
    using rendered_cases [OF bs(1)] rendered_distinct [OF bs(1,2)] bs(2-4)
    by (auto simp: ValidateBucketBinding_None)
qed

definition sample_desired_iam :: HarnessDesiredState where
  "sample_desired_iam =
     \<lparr>ds_Account = [], ds_Project = [], ds_Region = [], ds_Zone = [], ds_CIDR = [], ds_NamePrefix = [],
      ds_Labels = fmempty, ds_ControlBucket = ''control'', ds_AuditBucket = ''audit'', ds_VPC = [],
      ds_Subnet = [], ds_Router = [], ds_NAT = [], ds_IAPFirewall = [], ds_InternalFirewall = [],
      ds_NodeTag = [], ds_OperatorPrincipal = ''operator@project-1.iam.gserviceaccount.com'',
      ds_DestructivePrincipal = ''destroyer@project-1.iam.gserviceaccount.com'',
      ds_VMPrincipal = ''machine@project-1.iam.gserviceaccount.com'',
      ds_WipePrincipal = ''wipe-job@project-1.iam.gserviceaccount.com'', ds_CIPrincipal = [],
      ds_OperatorRole = [], ds_DestructiveRole = [], ds_WipeRunJob = [], ds_WipeSchedulerJob = [],
      ds_WipeScheduleUTC = [], ds_ImageDigest = [], ds_PlanValiditySeconds = 0\<rparr>"

lemma sample_members:
  "\<forall>m \<in> set (harness_members sample_desired_iam). serviceAccountMember m"
  by (simp add: sample_desired_iam_def harness_members_def accountMember_def serviceAccountMember_def projectIDPattern_def
      has_suffix_def trim_suffix_def char_class_defs)

lemma rendered_valid:
  assumes "rendered_bindings stepID desired = Some bs" and "\<forall>m \<in> set (harness_members desired). serviceAccountMember m"
    and "ds_AuditBucket desired \<noteq> []" and "ds_ControlBucket desired \<noteq> []"
  shows "\<forall>b \<in> set bs. ValidateBucketBinding b desired = None"
proof -
  have v: "ValidateBucketBinding (bucket_binding b r m p) desired = None"
    if "b = ds_AuditBucket desired \<or> b = ds_ControlBucket desired" "r \<in> set closedBindingRoles"
      "m \<in> set (harness_members desired)" "p \<in> set closedBindingPrefix" for b r m p
    using that assms(2-4) unfolding ValidateBucketBinding_None by auto
  have m: "accountMember (ds_OperatorPrincipal desired) \<in> set (harness_members desired)"
    "accountMember (ds_DestructivePrincipal desired) \<in> set (harness_members desired)"
    "accountMember (ds_VMPrincipal desired) \<in> set (harness_members desired)"
    "accountMember (ds_WipePrincipal desired) \<in> set (harness_members desired)"
    by (simp_all add: harness_members_def)
  have r: "RoleObjectUser \<in> set closedBindingRoles" "RoleObjectViewer \<in> set closedBindingRoles"
    "RoleObjectCreator \<in> set closedBindingRoles" "TestPrefix \<in> set closedBindingPrefix"
    "WipePrefix \<in> set closedBindingPrefix"
    by (simp_all add: closedBindingRoles_def closedBindingPrefix_def)
  show ?thesis
  proof (cases "stepID = ''k3-bucket-iam''")
    case True
    then show ?thesis using assms(1) unfolding rendered_bindings_def Let_def by (auto simp: v m r)
  next
    case False
    then show ?thesis using assms(1) unfolding rendered_bindings_def Let_def
      by (auto simp: v m r split: if_splits)
  qed
qed

lemma sample_render:
  "RenderBucketPolicy (\<lambda>bs. Some []) (\<lambda>s. s) ''k3-bucket-iam'' sample_desired_iam =
     Inr \<lparr>bp_StepID = ''k3-bucket-iam'',
       bp_Bindings = sortBindings (the (rendered_bindings ''k3-bucket-iam'' sample_desired_iam)), bp_Fingerprint = []\<rparr>"
proof -
  obtain bs where bs: "rendered_bindings ''k3-bucket-iam'' sample_desired_iam = Some bs"
    by (simp add: rendered_bindings_def Let_def)
  have d: "ds_AuditBucket sample_desired_iam = ''audit''" "ds_ControlBucket sample_desired_iam = ''control''"
    by (simp_all add: sample_desired_iam_def)
  show ?thesis
    unfolding RenderBucketPolicy_Inr using rendered_valid [OF bs sample_members] by (simp add: bs hashJSON_def d)
qed

theorem rendered_policy_closed_witness:
  "bb_Bucket ` set (filter may_overwrite (the (rendered_bindings ''k3-bucket-iam'' sample_desired_iam))) \<subseteq> {''control''} \<and>
   length (sortBindings (the (rendered_bindings ''k3-bucket-iam'' sample_desired_iam))) = 8"
  using rendered_policy_closed [OF sample_render]
  by (auto simp: sample_desired_iam_def [THEN arg_cong [where f = ds_ControlBucket]])

text \<open>
  An observed condition is recognised exactly: the prefix that is read back from a condition is the closed
  prefix it was rendered from, for every bucket, and any other text, also a condition on another bucket
  or a longer prefix, is recognised as none of ours.
\<close>

theorem PrefixFromCondition_exact:
  "PrefixFromCondition bucket expression = pre \<longleftrightarrow>
     pre \<in> set closedBindingPrefix \<and> expression = condition_expression bucket pre \<or>
     pre = [] \<and> expression \<notin> condition_expression bucket ` set closedBindingPrefix"
  by (auto simp: PrefixFromCondition_def prefix_defs condition_expression_def split: if_splits)

text \<open>
  Compensation undoes exactly what the step added. Adding the missing rendered bindings to those that
  existed gives every rendered binding, and removing the compensation set again leaves exactly the
  bindings that existed before, whether or not the step had already been run.
\<close>

theorem compensation_restores:
  "set preexisting \<union> set (CompensationBindings rendered preexisting) = set preexisting \<union> set rendered \<and>
   (set preexisting \<union> set (CompensationBindings rendered preexisting)) -
     set (CompensationBindings rendered preexisting) = set preexisting \<and>
   CompensationBindings rendered (rendered @ preexisting) = []"
  by (auto simp: CompensationBindings_def sortBindings_def)

end
