(* ===== verification/GoNetip.thy ===== *)
theory GoNetip
  imports GoStd
begin

section \<open>net/netip: addresses and prefixes of both families\<close>

text \<open>
  \<open>netip.ParseAddr\<close> and \<open>netip.ParsePrefix\<close> with IPv6: eight groups, one \<open>::\<close>, an IPv4 tail and a zone, which
  a prefix may not have. An IPv4-mapped IPv6 address is an IPv6 address, except for \<open>IsPrivate\<close>, which
  looks through the mapping. Two prefixes overlap if and only if they share an address.
\<close>

datatype netaddr = Addr4 ipv4 | Addr6 "128 word" string

type_synonym netprefix = "netaddr \<times> nat"

subsection \<open>Text\<close>

definition is_xdigit :: "char \<Rightarrow> bool" where
  "is_xdigit c = (is_digit c \<or> c \<in> set ''abcdefABCDEF'')"

definition xdigit_value :: "char \<Rightarrow> int" where
  "xdigit_value c =
     (if is_digit c then int (byte c) - 48 else if c \<in> set ''abcdef'' then int (byte c) - 87 else int (byte c) - 55)"

definition group_value :: "string \<Rightarrow> int" where
  "group_value s = foldl (\<lambda>n c. n * 16 + xdigit_value c) 0 s"

text \<open>The loop of \<open>parseIPv6\<close>: the groups so far, the place of the \<open>::\<close>, the text that is left.\<close>

function v6_loop :: "int list \<Rightarrow> nat option \<Rightarrow> string \<Rightarrow> (int list \<times> nat option \<times> string) option" where
  "v6_loop groups ellipsis s =
     (let field = takeWhile is_xdigit s; rest = dropWhile is_xdigit s; groups' = groups @ [group_value field] in
      if 8 \<le> length groups then Some (groups, ellipsis, s)
      else if field = [] \<or> 4 < length field then None
      else (case rest of
          [] \<Rightarrow> Some (groups', ellipsis, [])
        | c # after_colon \<Rightarrow>
            if c = CHR ''.'' then
              (if ellipsis = None \<and> length groups \<noteq> 6 \<or> 6 < length groups then None
               else (case parse_ipv4 s of
                   None \<Rightarrow> None
                 | Some a \<Rightarrow> Some (groups @ [uint a div 65536, uint a mod 65536], ellipsis, [])))
            else if c \<noteq> CHR '':'' \<or> after_colon = [] then None
            else if hd after_colon = CHR '':'' then
              (if ellipsis \<noteq> None then None
               else if tl after_colon = [] then Some (groups', Some (length groups'), [])
               else v6_loop groups' (Some (length groups')) (tl after_colon))
            else v6_loop groups' ellipsis after_colon))"
  by pat_completeness auto
termination
proof (relation "measure (\<lambda>(groups, ellipsis, s). length s)", simp)
  fix s :: string and c and after_colon and groups :: "int list" and ellipsis :: "nat option"
    and field rest groups'
  assume *: "field = takeWhile is_xdigit s" "rest = dropWhile is_xdigit s" "rest = c # after_colon"
    "\<not> (c \<noteq> CHR '':'' \<or> after_colon = [])"
  have "length s = length field + length rest"
    using *(1,2) by (metis length_append takeWhile_dropWhile_id)
  then have less: "length after_colon < length s" using *(3) by simp
  then show "((groups', Some (length groups'), tl after_colon), (groups, ellipsis, s))
      \<in> measure (\<lambda>(groups, ellipsis, s). length s)"
    by (simp add: le_less_trans [OF _ less])
  show "((groups', ellipsis, after_colon), (groups, ellipsis, s)) \<in> measure (\<lambda>(groups, ellipsis, s). length s)"
    using less by simp
qed

declare v6_loop.simps [simp del]

text \<open>The zeros of the \<open>::\<close>, at least one group of them.\<close>

definition v6_expand :: "int list \<times> nat option \<times> string \<Rightarrow> int list option" where
  "v6_expand r =
     (case r of (groups, ellipsis, rest) \<Rightarrow>
        if rest \<noteq> [] then None
        else (case ellipsis of
            None \<Rightarrow> if length groups < 8 then None else Some groups
          | Some e \<Rightarrow>
              if 8 \<le> length groups then None
              else Some (take e groups @ replicate (8 - length groups) 0 @ drop e groups)))"

definition v6_word :: "int list \<Rightarrow> 128 word" where
  "v6_word groups = word_of_int (foldl (\<lambda>n g. n * 65536 + g) 0 groups)"

definition parse_ipv6 :: "string \<Rightarrow> netaddr option" where
  "parse_ipv6 text =
     (let s = takeWhile (\<lambda>c. c \<noteq> CHR ''%'') text; tail = dropWhile (\<lambda>c. c \<noteq> CHR ''%'') text; zone = tl tail in
      if tail \<noteq> [] \<and> zone = [] then None
      else if s = ''::'' then Some (Addr6 0 zone)
      else
        (case Option.bind (if has_prefix s ''::'' then v6_loop [] (Some 0) (drop 2 s) else v6_loop [] None s) v6_expand of
           None \<Rightarrow> None
         | Some groups \<Rightarrow> Some (Addr6 (v6_word groups) zone)))"

text \<open>The first of \<open>.\<close>, \<open>:\<close> and \<open>%\<close> selects the family.\<close>

definition ParseAddr :: "string \<Rightarrow> netaddr option" where
  "ParseAddr s =
     (case dropWhile (\<lambda>c. c \<notin> set ''.:%'') s of
        [] \<Rightarrow> None
      | c # rest \<Rightarrow>
          if c = CHR ''.'' then map_option Addr4 (parse_ipv4 s)
          else if c = CHR '':'' then parse_ipv6 s else None)"

definition ParsePrefix :: "string \<Rightarrow> netprefix option" where
  "ParsePrefix s =
     (case split_on CHR ''/'' s of
        [a, b] \<Rightarrow>
          (case ParseAddr a of
             Some (Addr4 w) \<Rightarrow> map_option (\<lambda>bits. (Addr4 w, nat bits)) (decimal_field 32 b)
           | Some (Addr6 w zone) \<Rightarrow>
               if zone \<noteq> [] then None else map_option (\<lambda>bits. (Addr6 w [], nat bits)) (decimal_field 128 b)
           | None \<Rightarrow> None)
      | _ \<Rightarrow> None)"

subsection \<open>Prefixes\<close>

definition word_prefix :: "nat \<Rightarrow> 'a::len word \<Rightarrow> 'a word" where
  "word_prefix bits w = drop_bit (LENGTH('a) - bits) w"

fun netip_Masked :: "netprefix \<Rightarrow> netprefix" where
  "netip_Masked (Addr4 w, bits) = (Addr4 (push_bit (32 - bits) (drop_bit (32 - bits) w)), bits)"
| "netip_Masked (Addr6 w zone, bits) = (Addr6 (push_bit (128 - bits) (drop_bit (128 - bits) w)) zone, bits)"

fun netip_Overlaps :: "netprefix \<Rightarrow> netprefix \<Rightarrow> bool" where
  "netip_Overlaps (Addr4 v, m) (Addr4 w, n) = (word_prefix (min m n) v = word_prefix (min m n) w)"
| "netip_Overlaps (Addr6 v x, m) (Addr6 w y, n) = (word_prefix (min m n) v = word_prefix (min m n) w)"
| "netip_Overlaps p q = False"

fun netip_Contains :: "netprefix \<Rightarrow> netaddr \<Rightarrow> bool" where
  "netip_Contains (Addr4 w, n) (Addr4 a) = (word_prefix n a = word_prefix n w)"
| "netip_Contains (Addr6 w x, n) (Addr6 a zone) = (word_prefix n a = word_prefix n w)"
| "netip_Contains p a = False"

definition private4 :: "ipv4 \<Rightarrow> bool" where
  "private4 w = (word_prefix 8 w = 10 \<or> word_prefix 12 w = 0xAC1 \<or> word_prefix 16 w = 0xC0A8)"

text \<open>\<open>IsPrivate\<close>: RFC 1918, also behind an IPv4-mapped address, and \<open>fc00::/7\<close>.\<close>

fun netip_IsPrivate :: "netaddr \<Rightarrow> bool" where
  "netip_IsPrivate (Addr4 w) = private4 w"
| "netip_IsPrivate (Addr6 w zone) =
     (if word_prefix 96 w = 0xFFFF then private4 (ucast w) else word_prefix 7 w = 0x7E)"

lemma word_prefix_shorter:
  fixes u v :: "'a::len word"
  assumes "m \<le> n" and "word_prefix n u = word_prefix n v"
  shows "word_prefix m u = word_prefix m v"
proof -
  have "word_prefix m w = drop_bit (LENGTH('a) - m - (LENGTH('a) - n)) (word_prefix n w)" for w :: "'a word"
    using assms(1) by (simp only: word_prefix_def drop_bit_drop_bit) (rule arg_cong [where f = "\<lambda>k. drop_bit k w"], arith)
  then show ?thesis using assms(2) by simp
qed

lemma word_prefix_common:
  fixes u v :: "'a::len word"
  shows "word_prefix (min m n) u = word_prefix (min m n) v \<longleftrightarrow>
    (\<exists>a. word_prefix m a = word_prefix m u \<and> word_prefix n a = word_prefix n v)"
proof
  assume "word_prefix (min m n) u = word_prefix (min m n) v"
  then show "\<exists>a. word_prefix m a = word_prefix m u \<and> word_prefix n a = word_prefix n v"
    by (cases "m \<le> n") (auto simp: min_def)
next
  assume "\<exists>a. word_prefix m a = word_prefix m u \<and> word_prefix n a = word_prefix n v"
  then obtain a where "word_prefix m a = word_prefix m u" "word_prefix n a = word_prefix n v" by blast
  then show "word_prefix (min m n) u = word_prefix (min m n) v"
    using word_prefix_shorter [of "min m n" m a u] word_prefix_shorter [of "min m n" n a v] by simp
qed

lemma ex_addr4:
  "(\<exists>a. netip_Contains (Addr4 v, m) a \<and> netip_Contains (Addr4 w, n) a) \<longleftrightarrow>
     (\<exists>a. word_prefix m a = word_prefix m v \<and> word_prefix n a = word_prefix n w)"
proof
  assume "\<exists>a. netip_Contains (Addr4 v, m) a \<and> netip_Contains (Addr4 w, n) a"
  then obtain a where "netip_Contains (Addr4 v, m) a" "netip_Contains (Addr4 w, n) a" by blast
  then show "\<exists>a. word_prefix m a = word_prefix m v \<and> word_prefix n a = word_prefix n w"
    by (cases a) auto
next
  assume "\<exists>a. word_prefix m a = word_prefix m v \<and> word_prefix n a = word_prefix n w"
  then obtain a where "word_prefix m a = word_prefix m v" "word_prefix n a = word_prefix n w" by blast
  then have "netip_Contains (Addr4 v, m) (Addr4 a) \<and> netip_Contains (Addr4 w, n) (Addr4 a)" by simp
  then show "\<exists>a. netip_Contains (Addr4 v, m) a \<and> netip_Contains (Addr4 w, n) a" by blast
qed

lemma ex_addr6:
  "(\<exists>a. netip_Contains (Addr6 v x, m) a \<and> netip_Contains (Addr6 w y, n) a) \<longleftrightarrow>
     (\<exists>a. word_prefix m a = word_prefix m v \<and> word_prefix n a = word_prefix n w)"
proof
  assume "\<exists>a. netip_Contains (Addr6 v x, m) a \<and> netip_Contains (Addr6 w y, n) a"
  then obtain a where "netip_Contains (Addr6 v x, m) a" "netip_Contains (Addr6 w y, n) a" by blast
  then show "\<exists>a. word_prefix m a = word_prefix m v \<and> word_prefix n a = word_prefix n w"
    by (cases a) auto
next
  assume "\<exists>a. word_prefix m a = word_prefix m v \<and> word_prefix n a = word_prefix n w"
  then obtain a where "word_prefix m a = word_prefix m v" "word_prefix n a = word_prefix n w" by blast
  then have "netip_Contains (Addr6 v x, m) (Addr6 a []) \<and> netip_Contains (Addr6 w y, n) (Addr6 a [])" by simp
  then show "\<exists>a. netip_Contains (Addr6 v x, m) a \<and> netip_Contains (Addr6 w y, n) a" by blast
qed

lemma netip_Overlaps_iff:
  "netip_Overlaps p q \<longleftrightarrow> (\<exists>a. netip_Contains p a \<and> netip_Contains q a)"
proof (induction p q rule: netip_Overlaps.induct)
  case (1 v m w n)
  have "(\<exists>a. netip_Contains (Addr4 v, m) a \<and> netip_Contains (Addr4 w, n) a) \<longleftrightarrow>
      (\<exists>a. word_prefix m a = word_prefix m v \<and> word_prefix n a = word_prefix n w)"
    by (rule ex_addr4)
  then show ?case by (simp add: word_prefix_common)
next
  case (2 v x m w y n)
  have "(\<exists>a. netip_Contains (Addr6 v x, m) a \<and> netip_Contains (Addr6 w y, n) a) \<longleftrightarrow>
      (\<exists>a. word_prefix m a = word_prefix m v \<and> word_prefix n a = word_prefix n w)"
    by (rule ex_addr6)
  then show ?case by (simp add: word_prefix_common)
qed (auto elim: netip_Contains.elims)

end
