(* ===== verification/ObservationTypes.thy ===== *)
theory ObservationTypes
  imports GoNetip GoTime Results "HOL-Library.Product_Lexorder"
begin

section \<open>internal/observation: the evidence of a preflight (preflight.go)\<close>

text \<open>
  The records of one exhaustive observation of a project, the closed catalogue of sources, and the
  text forms a record may have: names, provider paths, protocols and ports. A kind, a state or an
  availability is a datatype with a constructor for every other string.
\<close>

datatype observation_error = Observation string string

definition SupportedGcloudVersion :: string where "SupportedGcloudVersion = ''560.0.0''"

definition GcloudCompletenessPolicy :: string where
  "GcloudCompletenessPolicy = ''gcloud-auto-pagination/unlimited''"

definition MaxEvidenceLifetime :: int where "MaxEvidenceLifetime = 5 * minute"

datatype Availability = AvailabilityUp | AvailabilityDown | AvailabilityDeprecated | AvailabilityOther string

datatype APIState = APIEnabled | APIDisabled | APIUnknown | APIStateOther string

datatype ObservedKind =
    ObservedNetwork | ObservedSubnetwork | ObservedRouter | ObservedNAT | ObservedFirewall
  | ObservedInstance | ObservedDisk | ObservedSnapshot | ObservedAddress | ObservedResourcePolicy
  | ObservedServiceAccount | ObservedCustomRole | ObservedBucket | ObservedSecret | ObservedRunJob
  | ObservedSchedulerJob | ObservedOther string

fun ObservedKind_string :: "ObservedKind \<Rightarrow> string" where
  "ObservedKind_string ObservedNetwork = ''compute.network''"
| "ObservedKind_string ObservedSubnetwork = ''compute.subnetwork''"
| "ObservedKind_string ObservedRouter = ''compute.router''"
| "ObservedKind_string ObservedNAT = ''compute.nat''"
| "ObservedKind_string ObservedFirewall = ''compute.firewall''"
| "ObservedKind_string ObservedInstance = ''compute.instance''"
| "ObservedKind_string ObservedDisk = ''compute.disk''"
| "ObservedKind_string ObservedSnapshot = ''compute.snapshot''"
| "ObservedKind_string ObservedAddress = ''compute.address''"
| "ObservedKind_string ObservedResourcePolicy = ''compute.resource-policy''"
| "ObservedKind_string ObservedServiceAccount = ''iam.service-account''"
| "ObservedKind_string ObservedCustomRole = ''iam.custom-role''"
| "ObservedKind_string ObservedBucket = ''storage.bucket''"
| "ObservedKind_string ObservedSecret = ''secretmanager.secret''"
| "ObservedKind_string ObservedRunJob = ''run.job''"
| "ObservedKind_string ObservedSchedulerJob = ''scheduler.job''"
| "ObservedKind_string (ObservedOther s) = s"

definition knownResourceKinds :: "ObservedKind list" where
  "knownResourceKinds =
     [ObservedNetwork, ObservedSubnetwork, ObservedRouter, ObservedNAT, ObservedFirewall, ObservedInstance,
      ObservedDisk, ObservedSnapshot, ObservedAddress, ObservedResourcePolicy, ObservedServiceAccount,
      ObservedCustomRole, ObservedBucket, ObservedSecret, ObservedRunJob, ObservedSchedulerJob]"

text \<open>A bucket name is global: a listing of one project cannot prove it absent.\<close>

definition absenceProofKinds :: "ObservedKind list" where
  "absenceProofKinds =
     [ObservedNetwork, ObservedSubnetwork, ObservedRouter, ObservedNAT, ObservedFirewall, ObservedInstance,
      ObservedDisk, ObservedSnapshot, ObservedAddress, ObservedResourcePolicy, ObservedServiceAccount,
      ObservedCustomRole, ObservedSecret, ObservedRunJob, ObservedSchedulerJob]"

definition requiredSchemas :: "string list" where
  "requiredSchemas =
     [''gcloud-560/apis-enabled-v1'', ''gcloud-560/auth-list-v1'', ''gcloud-560/compute-addresses-v1'',
      ''gcloud-560/compute-disks-v1'', ''gcloud-560/compute-firewalls-v1'', ''gcloud-560/compute-instances-v1'',
      ''gcloud-560/compute-machine-types-v1'', ''gcloud-560/compute-networks-v1'',
      ''gcloud-560/compute-regions-v1'', ''gcloud-560/compute-resource-policies-v1'',
      ''gcloud-560/compute-routers-v1'', ''gcloud-560/compute-snapshots-v1'',
      ''gcloud-560/compute-subnetworks-v1'', ''gcloud-560/compute-zones-v1'', ''gcloud-560/config-list-v1'',
      ''gcloud-560/iam-roles-v1'', ''gcloud-560/iam-service-accounts-v1'', ''gcloud-560/project-describe-v1'',
      ''gcloud-560/run-jobs-v1'', ''gcloud-560/scheduler-jobs-v1'', ''gcloud-560/secrets-v1'',
      ''gcloud-560/storage-buckets-v1'', ''gcloud-560/version-v1'']"

subsection \<open>Records\<close>

record ObservedRegion =
  or_Name :: string
  or_Availability :: Availability
  or_ProviderID :: string

record ObservedZone =
  oz_Name :: string
  oz_Region :: string
  oz_Availability :: Availability
  oz_ProviderID :: string

record ObservedMachineType =
  om_Name :: string
  om_Zone :: string
  om_GuestCPUs :: int
  om_MemoryMiB :: int
  om_SharedCPU :: bool
  om_Deprecated :: bool
  om_ProviderID :: string

record SubnetRange =
  sr_Name :: string
  sr_Project :: string
  sr_Region :: string
  sr_CIDR :: string
  sr_Secondary :: bool
  sr_ProviderID :: string

record ObservedResource =
  ob_Kind :: ObservedKind
  ob_Name :: string
  ob_Project :: string
  ob_Location :: string
  ob_ProviderID :: string
  ob_ImmutableID :: string

record APIService =
  as_Name :: string
  as_State :: APIState

record Protocol =
  ol_Name :: string
  ol_Ports :: "string list"

record ObservedFirewall =
  ow_Name :: string
  ow_Project :: string
  ow_ProviderID :: string
  ow_Direction :: string
  ow_Disabled :: bool
  ow_SourceRanges :: "string list"
  ow_Allowed :: "Protocol list"

text \<open>\<open>Seed\<close> and \<open>preflightPayload\<close> have the same fields.\<close>

record preflightPayload =
  pf_Account :: string
  pf_Project :: string
  pf_Region :: string
  pf_Zone :: string
  pf_GcloudVersion :: string
  pf_CompletenessPolicy :: string
  pf_ObservedAt :: gotime
  pf_ValidUntil :: gotime
  pf_Schemas :: "string list"
  pf_Regions :: "ObservedRegion list"
  pf_Zones :: "ObservedZone list"
  pf_MachineTypes :: "ObservedMachineType list"
  pf_SubnetRanges :: "SubnetRange list"
  pf_Resources :: "ObservedResource list"
  pf_APIs :: "APIService list"
  pf_Firewalls :: "ObservedFirewall list"
  pf_Exhaustive :: bool

type_synonym Seed = preflightPayload

record HarnessPreflight =
  hp_payload :: preflightPayload
  hp_revision :: string

subsection \<open>Names\<close>

definition is_space_char :: "char \<Rightarrow> bool" where
  "is_space_char c = (byte c \<in> {9, 10, 11, 12, 13, 32})"

text \<open>\<open>^[^[:space:]@]+@[^[:space:]@]+$\<close>.\<close>

definition accountPattern :: "string \<Rightarrow> bool" where
  "accountPattern s =
     (case split_on CHR ''@'' s of
        [a, b] \<Rightarrow> a \<noteq> [] \<and> b \<noteq> [] \<and> \<not> list_ex is_space_char s
      | _ \<Rightarrow> False)"

text \<open>\<open>^[a-z][a-z0-9-]{0,61}[a-z0-9]$\<close>.\<close>

definition locationPattern :: "string \<Rightarrow> bool" where
  "locationPattern s = (2 \<le> length s \<and> environmentPattern s)"

text \<open>\<open>^[a-z][a-z0-9-]*\.googleapis\.com$\<close>.\<close>

definition apiPattern :: "string \<Rightarrow> bool" where
  "apiPattern s =
     (let stem = trim_suffix s ''.googleapis.com'' in
      has_suffix s ''.googleapis.com'' \<and> stem \<noteq> [] \<and> is_lower (hd stem) \<and> list_all is_ident_char stem)"

text \<open>\<open>^[1-9][0-9]+$\<close>.\<close>

definition immutableIDPattern :: "string \<Rightarrow> bool" where
  "immutableIDPattern s = (2 \<le> length s \<and> list_all is_digit s \<and> hd s \<noteq> CHR ''0'')"

text \<open>\<open>^[a-z0-9][a-z0-9.-]{0,126}@[a-z0-9][a-z0-9.-]{0,126}\.gserviceaccount\.com$\<close>.\<close>

definition domain_part :: "string \<Rightarrow> bool" where
  "domain_part s =
     (s \<noteq> [] \<and> length s \<le> 127 \<and> (is_lower (hd s) \<or> is_digit (hd s)) \<and>
      list_all (\<lambda>c. is_ident_char c \<or> c = CHR ''.'') s)"

definition observedAccountPattern :: "string \<Rightarrow> bool" where
  "observedAccountPattern s =
     (case split_on CHR ''@'' s of
        [a, b] \<Rightarrow> domain_part a \<and> has_suffix b ''.gserviceaccount.com'' \<and>
          domain_part (trim_suffix b ''.gserviceaccount.com'')
      | _ \<Rightarrow> False)"

definition customRolePattern :: "string \<Rightarrow> bool" where
  "customRolePattern s = (s \<noteq> [] \<and> length s \<le> 64 \<and> list_all (\<lambda>c. is_alnum c \<or> c = CHR ''_'' \<or> c = CHR ''.'') s)"

definition secretNamePattern :: "string \<Rightarrow> bool" where
  "secretNamePattern s = (s \<noteq> [] \<and> length s \<le> 255 \<and> list_all (\<lambda>c. is_alnum c \<or> c = CHR ''_'' \<or> c = CHR ''-'') s)"

definition schedulerNamePattern :: "string \<Rightarrow> bool" where
  "schedulerNamePattern s = (s \<noteq> [] \<and> length s \<le> 500 \<and> list_all (\<lambda>c. is_alnum c \<or> c = CHR ''_'' \<or> c = CHR ''-'') s)"

definition lowerAlphaNumeric :: "char \<Rightarrow> bool" where
  "lowerAlphaNumeric c = (is_lower c \<or> is_digit c)"

definition validBucketName :: "string \<Rightarrow> bool" where
  "validBucketName s =
     (3 \<le> length s \<and> length s \<le> 222 \<and> ParseAddr s = None \<and>
      lowerAlphaNumeric (hd s) \<and> lowerAlphaNumeric (last s) \<and>
      list_all (\<lambda>w. w \<noteq> [] \<and> length w \<le> 63 \<and> list_all (\<lambda>c. is_ident_char c \<or> c = CHR ''_'') w)
        (split_on CHR ''.'' s))"

subsection \<open>Provider paths\<close>

text \<open>Every \<open>projects\<close> segment is followed by the project; the number of them.\<close>

fun project_scopes :: "string \<Rightarrow> string list \<Rightarrow> nat option" where
  "project_scopes project [] = Some 0"
| "project_scopes project [p] = (if p = ''projects'' then None else Some 0)"
| "project_scopes project (p # q # rest) =
     (if p = ''projects'' then (if q \<noteq> project then None else map_option Suc (project_scopes project (q # rest)))
      else project_scopes project (q # rest))"

definition validProviderID :: "string \<Rightarrow> string \<Rightarrow> bool" where
  "validProviderID v project =
     (v \<noteq> [] \<and> \<not> trim_changes v \<and> \<not> list_ex (\<lambda>c. byte c < 32 \<or> byte c = 127) v \<and>
      project_scopes project (split_on CHR ''/'' v) = Some 1)"

fun after_project :: "string \<Rightarrow> string list \<Rightarrow> string list option" where
  "after_project project (p # q # rest) =
     (if p = ''projects'' \<and> q = project then Some rest else after_project project (q # rest))"
| "after_project project ps = None"

definition providerPath :: "string \<Rightarrow> string \<Rightarrow> string list option" where
  "providerPath v project =
     (if validProviderID v project then after_project project (split_on CHR ''/'' v) else None)"

definition providerPathEquals :: "string \<Rightarrow> string \<Rightarrow> string list \<Rightarrow> bool" where
  "providerPathEquals v project expected = (providerPath v project = Some expected)"

definition validResourceLocation :: "ObservedResource \<Rightarrow> bool" where
  "validResourceLocation r =
     (case ob_Kind r of
        ObservedNetwork \<Rightarrow> ob_Location r = ''global''
      | ObservedFirewall \<Rightarrow> ob_Location r = ''global''
      | ObservedSnapshot \<Rightarrow> ob_Location r = ''global''
      | ObservedAddress \<Rightarrow> ob_Location r = ''global'' \<or> locationPattern (ob_Location r)
      | k \<Rightarrow> k \<in> set [ObservedSubnetwork, ObservedRouter, ObservedNAT, ObservedInstance, ObservedDisk,
            ObservedResourcePolicy] \<and> ob_Location r \<noteq> ''global'' \<and> locationPattern (ob_Location r))"

definition validResourceIdentity :: "ObservedResource \<Rightarrow> bool" where
  "validResourceIdentity r =
     (let name = ob_Name r; location = ob_Location r in
      case ob_Kind r of
        ObservedServiceAccount \<Rightarrow> observedAccountPattern name \<and> location = ''global''
      | ObservedCustomRole \<Rightarrow> customRolePattern name \<and> location = ''global''
      | ObservedBucket \<Rightarrow> validBucketName name \<and> locationPattern location
      | ObservedSecret \<Rightarrow> secretNamePattern name \<and> location = ''global''
      | ObservedRunJob \<Rightarrow> length name \<le> 49 \<and> environmentPattern name \<and> locationPattern location
      | ObservedSchedulerJob \<Rightarrow> schedulerNamePattern name \<and> locationPattern location
      | ObservedOther s \<Rightarrow> False
      | _ \<Rightarrow> environmentPattern name \<and> validResourceLocation r)"

definition validResourceProviderID :: "ObservedResource \<Rightarrow> bool" where
  "validResourceProviderID r =
     (let location = ob_Location r; name = ob_Name r;
          at = providerPathEquals (ob_ProviderID r) (ob_Project r) in
      case ob_Kind r of
        ObservedNetwork \<Rightarrow> at [''global'', ''networks'', name]
      | ObservedSubnetwork \<Rightarrow> at [''regions'', location, ''subnetworks'', name]
      | ObservedRouter \<Rightarrow> at [''regions'', location, ''routers'', name]
      | ObservedNAT \<Rightarrow>
          (case providerPath (ob_ProviderID r) (ob_Project r) of
             Some [a, b, c, d, e, f] \<Rightarrow> a = ''regions'' \<and> b = location \<and> c = ''routers'' \<and> d \<noteq> [] \<and>
               e = ''nats'' \<and> f = name
           | _ \<Rightarrow> False)
      | ObservedFirewall \<Rightarrow> at [''global'', ''firewalls'', name]
      | ObservedInstance \<Rightarrow> at [''zones'', location, ''instances'', name]
      | ObservedDisk \<Rightarrow> at [''zones'', location, ''disks'', name] \<or> at [''regions'', location, ''disks'', name]
      | ObservedSnapshot \<Rightarrow> at [''global'', ''snapshots'', name]
      | ObservedAddress \<Rightarrow> at [''global'', ''addresses'', name] \<or> at [''regions'', location, ''addresses'', name]
      | ObservedResourcePolicy \<Rightarrow> at [''regions'', location, ''resourcePolicies'', name]
      | ObservedServiceAccount \<Rightarrow> at [''serviceAccounts'', name]
      | ObservedCustomRole \<Rightarrow> at [''roles'', name]
      | ObservedBucket \<Rightarrow> at [''global'', ''storage.bucket'', name]
      | ObservedSecret \<Rightarrow> at [''secrets'', name]
      | ObservedRunJob \<Rightarrow> at [''regions'', location, ''run.job'', name]
      | ObservedSchedulerJob \<Rightarrow> at [''locations'', location, ''jobs'', name]
      | ObservedOther s \<Rightarrow> False)"

subsection \<open>Protocols and ports\<close>

definition validIPProtocol :: "string \<Rightarrow> bool" where
  "validIPProtocol s =
     (s \<in> set [''tcp'', ''udp'', ''icmp'', ''esp'', ''ah'', ''ipip'', ''sctp'', ''all''] \<or>
      decimal_field 255 s \<noteq> None)"

text \<open>\<open>ParseUint\<close> of 16 bits, and the same with the canonical digits only.\<close>

definition parse_port :: "string \<Rightarrow> int option" where
  "parse_port s =
     (if s \<noteq> [] \<and> list_all is_digit s \<and> digits_value s \<le> 65535 then Some (digits_value s) else None)"

definition canonicalPort :: "string \<Rightarrow> int option" where
  "canonicalPort s = decimal_field 65535 s"

definition validPortExpression :: "string \<Rightarrow> bool" where
  "validPortExpression s =
     (case map canonicalPort (split_on CHR ''-'' s) of
        [Some lo] \<Rightarrow> True
      | [Some lo, Some hi] \<Rightarrow> lo \<le> hi
      | _ \<Rightarrow> False)"

definition port_exposes :: "string \<Rightarrow> bool" where
  "port_exposes port =
     (port = ''27017'' \<or>
      (case map parse_port (split_on CHR ''-'' port) of
         [Some lo, Some hi] \<Rightarrow> lo \<le> 27017 \<and> hi \<ge> 27017
       | _ \<Rightarrow> False))"

definition exposesMongoDB :: "ObservedFirewall \<Rightarrow> bool" where
  "exposesMongoDB rule =
     (\<not> ow_Disabled rule \<and> ow_Direction rule = ''INGRESS'' \<and> ''0.0.0.0/0'' \<in> set (ow_SourceRanges rule) \<and>
      list_ex (\<lambda>allowed. ol_Name allowed \<in> set [''tcp'', ''6'', ''all''] \<and>
          (ol_Ports allowed = [] \<or> list_ex port_exposes (ol_Ports allowed)))
        (ow_Allowed rule))"

end
