(* ===== verification/ObservationPreflight.thy ===== *)
theory ObservationPreflight
  imports ObservationTypes GoSearch
begin

section \<open>internal/observation: building and asking a preflight (preflight.go)\<close>

text \<open>
  A preflight is built from a seed: its lists are sorted, every record is checked and the content is
  hashed without the two times. Sorting uses a stable sort; the code's sort is not stable, but lists
  with equal keys are refused by the validation that follows. \<open>marshal\<close> is \<open>json.Marshal\<close> of a payload.
\<close>

definition observationError :: "string \<Rightarrow> string \<Rightarrow> observation_error" where
  "observationError path reason = Observation path reason"

text \<open>
  A loop that checks an element, refuses a key seen before and then checks the element's parts.
\<close>

fun check_keyed :: "('a \<Rightarrow> 'e option) \<Rightarrow> ('a \<Rightarrow> 'k) \<Rightarrow> 'e \<Rightarrow> ('a \<Rightarrow> 'e option) \<Rightarrow> 'k list \<Rightarrow> 'a list \<Rightarrow> 'e option" where
  "check_keyed pre key dup post seen [] = None"
| "check_keyed pre key dup post seen (x # xs) =
     (case first_error [pre x, fail_if (key x \<in> set seen) dup, post x] of
        Some e \<Rightarrow> Some e
      | None \<Rightarrow> check_keyed pre key dup post (key x # seen) xs)"

lemma check_keyed_None:
  "check_keyed pre key dup post seen xs = None \<longleftrightarrow>
     (\<forall>x \<in> set xs. pre x = None \<and> post x = None) \<and> distinct (map key xs) \<and> set (map key xs) \<inter> set seen = {}"
  by (induction xs arbitrary: seen) (auto split: option.splits)

subsection \<open>Validation\<close>

definition validateObservationWindow :: "gotime \<Rightarrow> gotime \<Rightarrow> observation_error option" where
  "validateObservationWindow observedAt validUntil =
     first_error
       [fail_if (time_IsZero observedAt \<or> time_IsZero validUntil \<or> \<not> time_Before observedAt validUntil \<or>
           time_Sub validUntil observedAt > MaxEvidenceLifetime)
          (observationError ''observationWindow'' ''must be positive and bounded''),
        fail_if (t_zone observedAt \<noteq> 0) (observationError ''observedAt'' ''must use UTC''),
        fail_if (t_zone validUntil \<noteq> 0) (observationError ''validUntil'' ''must use UTC'')]"

definition hasDuplicateOrBlank :: "string list \<Rightarrow> bool" where
  "hasDuplicateOrBlank values = (list_ex (\<lambda>v. v = [] \<or> trim_changes v) values \<or> \<not> distinct values)"

definition validAvailability :: "Availability \<Rightarrow> bool" where
  "validAvailability v = (v = AvailabilityUp \<or> v = AvailabilityDown \<or> v = AvailabilityDeprecated)"

definition region_check :: "string \<Rightarrow> ObservedRegion \<Rightarrow> observation_error option" where
  "region_check project region =
     fail_if (\<not> locationPattern (or_Name region) \<or> \<not> validAvailability (or_Availability region) \<or>
         \<not> providerPathEquals (or_ProviderID region) project [''regions'', or_Name region])
       (observationError ''regions'' ''contains an invalid or cross-project record'')"

definition zone_check :: "string \<Rightarrow> ObservedRegion list \<Rightarrow> ObservedZone \<Rightarrow> observation_error option" where
  "zone_check project regions zone =
     first_error
       [fail_if (\<not> locationPattern (oz_Name zone) \<or> oz_Region zone = [] \<or> \<not> validAvailability (oz_Availability zone) \<or>
           \<not> providerPathEquals (oz_ProviderID zone) project [''zones'', oz_Name zone] \<or>
           \<not> has_prefix (oz_Name zone) (oz_Region zone @ ''-''))
          (observationError ''zones'' ''contains an invalid or cross-project record''),
        fail_if (oz_Region zone \<notin> set (map or_Name regions))
          (observationError ''zones'' ''references an unknown region'')]"

definition machine_check :: "string \<Rightarrow> string \<Rightarrow> ObservedMachineType \<Rightarrow> observation_error option" where
  "machine_check project zone machine =
     fail_if (\<not> locationPattern (om_Name machine) \<or> om_Zone machine \<noteq> zone \<or> om_GuestCPUs machine \<le> 0 \<or>
         om_MemoryMiB machine \<le> 0 \<or>
         \<not> providerPathEquals (om_ProviderID machine) project [''zones'', om_Zone machine, ''machineTypes'', om_Name machine])
       (observationError ''machineTypes'' ''contains an invalid, cross-zone, or cross-project record'')"

definition canonical_prefix :: "string \<Rightarrow> netprefix option" where
  "canonical_prefix cidr =
     (case ParsePrefix cidr of None \<Rightarrow> None | Some p \<Rightarrow> if p = netip_Masked p then Some p else None)"

definition subnet_check :: "string \<Rightarrow> SubnetRange \<Rightarrow> observation_error option" where
  "subnet_check project subnet =
     fail_if (canonical_prefix (sr_CIDR subnet) = None \<or> sr_Project subnet \<noteq> project \<or>
         \<not> locationPattern (sr_Region subnet) \<or>
         \<not> providerPathEquals (sr_ProviderID subnet) project
           [''regions'', sr_Region subnet, ''subnetworks'', sr_Name subnet])
       (observationError ''subnetRanges'' ''contains an invalid or cross-project record'')"

definition subnet_key :: "SubnetRange \<Rightarrow> string" where
  "subnet_key subnet = sr_ProviderID subnet @ [CHR 0x00] @ sr_CIDR subnet"

definition resource_check :: "string \<Rightarrow> ObservedResource \<Rightarrow> observation_error option" where
  "resource_check project resource =
     (let path = ''resources.'' @ ObservedKind_string (ob_Kind resource) in
      first_error
       [fail_if (ob_Kind resource \<notin> set knownResourceKinds \<or> ob_Project resource \<noteq> project \<or>
           \<not> validResourceIdentity resource \<or> \<not> validResourceProviderID resource)
          (observationError path ''contains an unknown, incomplete, or cross-project record''),
        if ob_Kind resource = ObservedServiceAccount
        then fail_if (\<not> immutableIDPattern (ob_ImmutableID resource))
          (observationError path ''contains an invalid immutable identity'')
        else fail_if (ob_ImmutableID resource \<noteq> [])
          (observationError path ''contains an unexpected immutable identity'')])"

definition resource_key :: "ObservedResource \<Rightarrow> string" where
  "resource_key resource = ObservedKind_string (ob_Kind resource) @ [CHR 0x00] @ ob_ProviderID resource"

definition api_check :: "APIService \<Rightarrow> observation_error option" where
  "api_check service =
     fail_if (\<not> apiPattern (as_Name service) \<or> as_State service \<noteq> APIEnabled \<and> as_State service \<noteq> APIDisabled)
       (observationError ''apis'' ''contains an invalid or unknown state'')"

definition firewall_check :: "string \<Rightarrow> ObservedFirewall \<Rightarrow> observation_error option" where
  "firewall_check project firewall =
     fail_if (ow_Project firewall \<noteq> project \<or> ow_Name firewall = [] \<or>
         \<not> providerPathEquals (ow_ProviderID firewall) project [''global'', ''firewalls'', ow_Name firewall] \<or>
         ow_Direction firewall \<noteq> ''INGRESS'' \<and> ow_Direction firewall \<noteq> ''EGRESS'')
       (observationError ''firewalls'' ''contains an invalid or cross-project record'')"

definition protocol_check :: "Protocol \<Rightarrow> observation_error option" where
  "protocol_check allowed =
     fail_if (\<not> validIPProtocol (ol_Name allowed)) (observationError ''firewalls'' ''contains an unsupported protocol'')"

definition ports_check :: "Protocol \<Rightarrow> observation_error option" where
  "ports_check allowed =
     fail_if (\<not> list_all validPortExpression (ol_Ports allowed))
       (observationError ''firewalls'' ''contains an invalid port expression'')"

definition firewall_parts :: "ObservedFirewall \<Rightarrow> observation_error option" where
  "firewall_parts firewall =
     first_error
       [fail_if (\<not> list_all (\<lambda>source. canonical_prefix source \<noteq> None) (ow_SourceRanges firewall))
          (observationError ''firewalls'' ''contains an invalid source CIDR''),
        check_keyed protocol_check ol_Name (observationError ''firewalls'' ''contains a duplicate protocol'')
          ports_check [] (ow_Allowed firewall)]"

definition no_check :: "'a \<Rightarrow> observation_error option" where "no_check x = None"

definition context_checks :: "preflightPayload \<Rightarrow> observation_error option list" where
  "context_checks v =
     [fail_if (\<not> pf_Exhaustive v) (observationError ''exhaustive'' ''must be true for absence proof''),
      fail_if (\<not> accountPattern (pf_Account v) \<or> \<not> projectIDPattern (pf_Project v) \<or> \<not> locationPattern (pf_Region v) \<or>
          \<not> locationPattern (pf_Zone v) \<or> \<not> has_prefix (pf_Zone v) (pf_Region v @ ''-''))
        (observationError ''context'' ''must contain one explicit matching account, project, region, and zone''),
      fail_if (pf_GcloudVersion v \<noteq> SupportedGcloudVersion) (observationError ''gcloudVersion'' ''is unsupported''),
      fail_if (pf_CompletenessPolicy v \<noteq> GcloudCompletenessPolicy)
        (observationError ''completenessPolicy'' ''is unsupported''),
      validateObservationWindow (pf_ObservedAt v) (pf_ValidUntil v),
      fail_if (hasDuplicateOrBlank (pf_Schemas v) \<or> length (pf_Schemas v) \<noteq> length requiredSchemas)
        (observationError ''schemas'' ''must be the complete unique source catalogue''),
      fail_if (pf_Schemas v \<noteq> requiredSchemas)
        (observationError ''schemas'' ''does not match the closed source catalogue'')]"

definition record_checks :: "preflightPayload \<Rightarrow> observation_error option list" where
  "record_checks v =
     [check_keyed (region_check (pf_Project v)) or_Name (observationError ''regions'' ''contains a duplicate identity'')
        no_check [] (pf_Regions v),
      fail_if (\<not> list_ex (\<lambda>r. or_Name r = pf_Region v \<and> or_Availability r = AvailabilityUp) (pf_Regions v))
        (observationError ''region'' ''is absent, unavailable, or deprecated''),
      check_keyed (zone_check (pf_Project v) (pf_Regions v)) oz_Name
        (observationError ''zones'' ''contains a duplicate identity'') no_check [] (pf_Zones v),
      fail_if (\<not> list_ex (\<lambda>z. oz_Name z = pf_Zone v \<and> oz_Region z = pf_Region v \<and>
            oz_Availability z = AvailabilityUp) (pf_Zones v))
        (observationError ''zone'' ''is absent, unavailable, deprecated, or outside the selected region''),
      check_keyed (machine_check (pf_Project v) (pf_Zone v)) om_Name
        (observationError ''machineTypes'' ''contains a duplicate identity'') no_check [] (pf_MachineTypes v),
      check_keyed (subnet_check (pf_Project v)) subnet_key
        (observationError ''subnetRanges'' ''contains a duplicate identity'') no_check [] (pf_SubnetRanges v),
      check_keyed (resource_check (pf_Project v)) resource_key
        (observationError ''resources'' ''contains a duplicate identity'') no_check [] (pf_Resources v),
      check_keyed api_check as_Name (observationError ''apis'' ''contains a duplicate service'') no_check [] (pf_APIs v),
      check_keyed (firewall_check (pf_Project v)) ow_ProviderID
        (observationError ''firewalls'' ''contains a duplicate identity'') firewall_parts [] (pf_Firewalls v)]"

definition validatePreflight :: "preflightPayload \<Rightarrow> observation_error option" where
  "validatePreflight v = first_error (context_checks v @ record_checks v)"

subsection \<open>Construction\<close>

definition sort_protocol :: "Protocol \<Rightarrow> Protocol" where
  "sort_protocol allowed = allowed\<lparr>ol_Ports := sort (ol_Ports allowed)\<rparr>"

definition sort_firewall :: "ObservedFirewall \<Rightarrow> ObservedFirewall" where
  "sort_firewall firewall =
     firewall\<lparr>ow_SourceRanges := sort (ow_SourceRanges firewall),
       ow_Allowed := sort_key ol_Name (map sort_protocol (ow_Allowed firewall))\<rparr>"

definition canonicalize_preflight :: "preflightPayload \<Rightarrow> preflightPayload" where
  "canonicalize_preflight v =
     v\<lparr>pf_Schemas := sort (pf_Schemas v),
       pf_Regions := sort_key or_Name (pf_Regions v),
       pf_Zones := sort_key oz_Name (pf_Zones v),
       pf_MachineTypes := sort_key om_Name (pf_MachineTypes v),
       pf_SubnetRanges := sort_key (\<lambda>s. (sr_ProviderID s, sr_CIDR s)) (pf_SubnetRanges v),
       pf_Resources := sort_key (\<lambda>r. (ObservedKind_string (ob_Kind r), ob_ProviderID r)) (pf_Resources v),
       pf_APIs := sort_key as_Name (pf_APIs v),
       pf_Firewalls := sort_key ow_ProviderID (map sort_firewall (pf_Firewalls v))\<rparr>"

definition NewHarnessPreflight ::
  "(preflightPayload \<Rightarrow> string option) \<Rightarrow> (string \<Rightarrow> string) \<Rightarrow> Seed \<Rightarrow> observation_error + HarnessPreflight" where
  "NewHarnessPreflight marshal sha256hex seed =
     (let payload = canonicalize_preflight seed in
      check (validatePreflight payload)
        (case marshal (payload\<lparr>pf_ObservedAt := time_zero, pf_ValidUntil := time_zero\<rparr>) of
           None \<Rightarrow> Inl (observationError ''canonical encoding'' ''failed'')
         | Some encoded \<Rightarrow> Inr \<lparr>hp_payload = payload, hp_revision = sha256hex encoded\<rparr>))"

subsection \<open>Questions\<close>

definition CompatibleRegions :: "HarnessPreflight \<Rightarrow> ObservedRegion list" where
  "CompatibleRegions v = filter (\<lambda>r. or_Availability r = AvailabilityUp) (pf_Regions (hp_payload v))"

definition CompatibleZones :: "HarnessPreflight \<Rightarrow> ObservedZone list" where
  "CompatibleZones v =
     filter (\<lambda>z. oz_Region z \<in> set (map or_Name (CompatibleRegions v)) \<and> oz_Availability z = AvailabilityUp)
       (pf_Zones (hp_payload v))"

definition CompatibleMachineTypes :: "HarnessPreflight \<Rightarrow> ObservedMachineType list" where
  "CompatibleMachineTypes v = filter (\<lambda>m. \<not> om_Deprecated m) (pf_MachineTypes (hp_payload v))"

definition preflight_APIState :: "HarnessPreflight \<Rightarrow> string \<Rightarrow> APIState" where
  "preflight_APIState v name =
     (let apis = pf_APIs (hp_payload v); index = search_interval (map as_Name apis) name 0 (length apis) in
      if index < length apis \<and> as_Name (apis ! index) = name then as_State (apis ! index) else APIUnknown)"

definition HasCollision :: "HarnessPreflight \<Rightarrow> ObservedKind \<Rightarrow> string \<Rightarrow> bool" where
  "HasCollision v kind name = list_ex (\<lambda>r. ob_Kind r = kind \<and> ob_Name r = name) (pf_Resources (hp_payload v))"

definition FreshAt :: "HarnessPreflight \<Rightarrow> gotime \<Rightarrow> bool" where
  "FreshAt v now =
     (\<not> time_IsZero now \<and> t_zone now = 0 \<and> \<not> time_Before now (pf_ObservedAt (hp_payload v)) \<and>
      time_Before now (pf_ValidUntil (hp_payload v)))"

definition ProvesAbsenceAt :: "HarnessPreflight \<Rightarrow> ObservedKind \<Rightarrow> string \<Rightarrow> gotime \<Rightarrow> observation_error + bool" where
  "ProvesAbsenceAt v kind name now =
     check (first_error
       [fail_if (\<not> pf_Exhaustive (hp_payload v) \<or> \<not> FreshAt v now)
          (observationError ''exhaustive'' ''is required for absence proof''),
        fail_if (kind \<notin> set absenceProofKinds \<or> name = [] \<or> trim_changes name)
          (observationError ''resource'' ''does not identify one supported kind and name'')])
     (Inr (\<not> HasCollision v kind name))"

definition overlap_step :: "netprefix \<Rightarrow> SubnetRange \<Rightarrow> (observation_error + bool) \<Rightarrow> observation_error + bool" where
  "overlap_step candidate existing rest =
     (case ParsePrefix (sr_CIDR existing) of
        None \<Rightarrow> Inl (observationError ''stored subnet CIDR'' ''is invalid'')
      | Some other \<Rightarrow> if netip_Overlaps candidate other then Inr True else rest)"

definition CIDROverlapsAt :: "HarnessPreflight \<Rightarrow> string \<Rightarrow> gotime \<Rightarrow> observation_error + bool" where
  "CIDROverlapsAt v candidate now =
     (if \<not> FreshAt v now then Inl (observationError ''freshness'' ''is required for CIDR comparison'')
      else (case ParsePrefix candidate of
          None \<Rightarrow> Inl (observationError ''candidate CIDR'' ''is not one canonical private prefix'')
        | Some p \<Rightarrow>
            if \<not> netip_IsPrivate (fst p) \<or> p \<noteq> netip_Masked p
            then Inl (observationError ''candidate CIDR'' ''is not one canonical private prefix'')
            else foldr (overlap_step p) (pf_SubnetRanges (hp_payload v)) (Inr False)))"

definition PublicMongoDBIngressAt :: "HarnessPreflight \<Rightarrow> gotime \<Rightarrow> observation_error + string list" where
  "PublicMongoDBIngressAt v now =
     (if \<not> FreshAt v now then Inl (observationError ''freshness'' ''is required for firewall evaluation'')
      else Inr (map ow_Name (filter exposesMongoDB (pf_Firewalls (hp_payload v)))))"

end
