(* ===== verification/ObservationSamples.thy ===== *)
theory ObservationSamples
  imports ObservationPreflight
begin

section \<open>A concrete preflight\<close>

definition sample_seed :: Seed where
  "sample_seed =
     \<lparr>pf_Account = ''ann@example.com'', pf_Project = ''project-1'', pf_Region = ''us-east1'', pf_Zone = ''us-east1-b'',
      pf_GcloudVersion = ''560.0.0'', pf_CompletenessPolicy = ''gcloud-auto-pagination/unlimited'',
      pf_ObservedAt = utc 1000000000, pf_ValidUntil = utc 200000000000, pf_Schemas = requiredSchemas,
      pf_Regions = [\<lparr>or_Name = ''us-east1'', or_Availability = AvailabilityUp,
        or_ProviderID = ''projects/project-1/regions/us-east1''\<rparr>],
      pf_Zones = [\<lparr>oz_Name = ''us-east1-b'', oz_Region = ''us-east1'', oz_Availability = AvailabilityUp,
        oz_ProviderID = ''projects/project-1/zones/us-east1-b''\<rparr>],
      pf_MachineTypes = [\<lparr>om_Name = ''e2-small'', om_Zone = ''us-east1-b'', om_GuestCPUs = 2, om_MemoryMiB = 2048,
        om_SharedCPU = True, om_Deprecated = False,
        om_ProviderID = ''projects/project-1/zones/us-east1-b/machineTypes/e2-small''\<rparr>],
      pf_SubnetRanges = [\<lparr>sr_Name = ''default'', sr_Project = ''project-1'', sr_Region = ''us-east1'',
        sr_CIDR = ''10.128.0.0/20'', sr_Secondary = False,
        sr_ProviderID = ''projects/project-1/regions/us-east1/subnetworks/default''\<rparr>],
      pf_Resources = [\<lparr>ob_Kind = ObservedNetwork, ob_Name = ''default'', ob_Project = ''project-1'',
        ob_Location = ''global'', ob_ProviderID = ''projects/project-1/global/networks/default'', ob_ImmutableID = []\<rparr>],
      pf_APIs = [],
      pf_Firewalls = [\<lparr>ow_Name = ''open'', ow_Project = ''project-1'',
        ow_ProviderID = ''projects/project-1/global/firewalls/open'', ow_Direction = ''INGRESS'', ow_Disabled = False,
        ow_SourceRanges = [''10.0.0.0/8'', ''0.0.0.0/0''],
        ow_Allowed = [\<lparr>ol_Name = ''tcp'', ol_Ports = [''27000-28000'']\<rparr>]\<rparr>],
      pf_Exhaustive = True\<rparr>"

lemma sample_schemas: "sort requiredSchemas = requiredSchemas"
  by (rule sorted_sort_id) (simp add: requiredSchemas_def less_char_def sorted1 sorted2 del: sorted_wrt.simps(2))

lemma sample_canonical:
  "canonicalize_preflight sample_seed = sample_seed\<lparr>pf_Firewalls := [(hd (pf_Firewalls sample_seed))\<lparr>
     ow_SourceRanges := [''0.0.0.0/0'', ''10.0.0.0/8'']\<rparr>]\<rparr>"
  by (simp add: canonicalize_preflight_def sample_seed_def sort_firewall_def sort_protocol_def sample_schemas less_char_def)

lemma provider_path_text:
  assumes "list_all (\<lambda>c. byte c < 127 \<and> 32 < byte c) v" and "v \<noteq> []"
    and "project_scopes project (split_on CHR ''/'' v) = Some 1"
  shows "providerPathEquals v project expected \<longleftrightarrow> after_project project (split_on CHR ''/'' v) = Some expected"
proof -
  have "list_all (\<lambda>c. byte c < 128 \<and> 32 < byte c) v" using assms(1) by (auto simp: list_all_iff)
  then have "validProviderID v project"
    using assms not_trimmed by (auto simp: validProviderID_def list_ex_iff list_all_iff)
  then show ?thesis by (simp add: providerPathEquals_def providerPath_def)
qed

lemma sample_paths:
  "providerPathEquals ''projects/project-1/regions/us-east1'' ''project-1'' [''regions'', ''us-east1'']"
  "providerPathEquals ''projects/project-1/zones/us-east1-b'' ''project-1'' [''zones'', ''us-east1-b'']"
  "providerPathEquals ''projects/project-1/zones/us-east1-b/machineTypes/e2-small'' ''project-1''
     [''zones'', ''us-east1-b'', ''machineTypes'', ''e2-small'']"
  "providerPathEquals ''projects/project-1/regions/us-east1/subnetworks/default'' ''project-1''
     [''regions'', ''us-east1'', ''subnetworks'', ''default'']"
  "providerPathEquals ''projects/project-1/global/networks/default'' ''project-1'' [''global'', ''networks'', ''default'']"
  "providerPathEquals ''projects/project-1/global/firewalls/open'' ''project-1'' [''global'', ''firewalls'', ''open'']"
  by (subst provider_path_text; simp add: byte_def)+

lemma sample_locations:
  "locationPattern ''us-east1''" "locationPattern ''us-east1-b''" "locationPattern ''e2-small''" "environmentPattern ''default''"
  "projectIDPattern ''project-1''" "accountPattern ''ann@example.com''"
  by (simp_all add: locationPattern_def environmentPattern_def projectIDPattern_def accountPattern_def char_class_defs
      is_space_char_def byte_def)

lemma sample_prefixes:
  "canonical_prefix ''10.128.0.0/20'' = Some (Addr4 0x0A800000, 20)"
  "canonical_prefix ''0.0.0.0/0'' = Some (Addr4 0, 0)" "canonical_prefix ''10.0.0.0/8'' = Some (Addr4 0x0A000000, 8)"
  by (simp_all add: canonical_prefix_def ParsePrefix_def ParseAddr_def parse_ipv4_def decimal_field_def char_class_defs
      digits_value_def byte_def)

lemma sample_schemas_listed: "\<not> hasDuplicateOrBlank requiredSchemas"
proof -
  have "list_all (\<lambda>s. list_all (\<lambda>c. byte c < 128 \<and> 32 < byte c) s \<and> s \<noteq> []) requiredSchemas"
    by (simp add: requiredSchemas_def byte_def)
  moreover have "distinct requiredSchemas" by (simp add: requiredSchemas_def)
  ultimately show ?thesis using not_trimmed unfolding hasDuplicateOrBlank_def list_all_iff list_ex_iff by blast
qed

lemma sample_window: "validateObservationWindow (utc 1000000000) (utc 200000000000) = None"
  by (simp add: validateObservationWindow_def MaxEvidenceLifetime_def time_defs duration_defs int64_defs)

lemma sample_ports: "validPortExpression ''27000-28000''"
  by (simp add: validPortExpression_def canonicalPort_def decimal_field_def char_class_defs digits_value_def byte_def)

lemma sample_seed_valid: "validatePreflight (canonicalize_preflight sample_seed) = None"
  unfolding sample_canonical validatePreflight_def
  by (simp add: context_checks_def record_checks_def sample_seed_def sample_locations sample_paths sample_prefixes
      sample_schemas_listed sample_window sample_ports SupportedGcloudVersion_def GcloudCompletenessPolicy_def
      region_check_def zone_check_def machine_check_def subnet_check_def resource_check_def firewall_check_def
      firewall_parts_def protocol_check_def ports_check_def no_check_def validAvailability_def knownResourceKinds_def
      validResourceIdentity_def validResourceLocation_def validResourceProviderID_def validIPProtocol_def)

text \<open>The parts of the built preflight that the questions read.\<close>

lemma sample_parts:
  "pf_Exhaustive (canonicalize_preflight sample_seed)"
  "pf_ObservedAt sample_seed = utc 1000000000"
  "pf_ValidUntil sample_seed = utc 200000000000"
  "\<not> list_ex (\<lambda>r. ob_Kind r = ObservedNetwork \<and> ob_Name r = ''other'') (pf_Resources (canonicalize_preflight sample_seed))"
  "pf_Firewalls (canonicalize_preflight sample_seed) =
     [\<lparr>ow_Name = ''open'', ow_Project = ''project-1'', ow_ProviderID = ''projects/project-1/global/firewalls/open'',
        ow_Direction = ''INGRESS'', ow_Disabled = False, ow_SourceRanges = [''0.0.0.0/0'', ''10.0.0.0/8''],
        ow_Allowed = [\<lparr>ol_Name = ''tcp'', ol_Ports = [''27000-28000'']\<rparr>]\<rparr>]"
  unfolding sample_canonical by (simp_all add: sample_seed_def)

lemma sample_preflight:
  "NewHarnessPreflight (\<lambda>v. Some []) (\<lambda>s. s) sample_seed =
     Inr \<lparr>hp_payload = canonicalize_preflight sample_seed, hp_revision = []\<rparr>"
  by (simp add: NewHarnessPreflight_def sample_seed_valid)

end
