(* ===== verification/ObservationGuarantees.thy ===== *)
theory ObservationGuarantees
  imports ObservationSamples KeyedSelection "HOL-Library.Multiset"
begin

section \<open>What a preflight guarantees\<close>

subsection \<open>The order of discovery\<close>

text \<open>Two firewalls that list the same sources, protocols and ports in some order.\<close>

definition same_firewall :: "ObservedFirewall \<Rightarrow> ObservedFirewall \<Rightarrow> bool" where
  "same_firewall f g \<longleftrightarrow> sort_firewall f = sort_firewall g"

text \<open>Two seeds that hold the same records, listed in some order.\<close>

definition same_records :: "Seed \<Rightarrow> Seed \<Rightarrow> bool" where
  "same_records s t \<longleftrightarrow>
     pf_Account s = pf_Account t \<and> pf_Project s = pf_Project t \<and> pf_Region s = pf_Region t \<and> pf_Zone s = pf_Zone t \<and>
     pf_GcloudVersion s = pf_GcloudVersion t \<and> pf_CompletenessPolicy s = pf_CompletenessPolicy t \<and>
     pf_Exhaustive s = pf_Exhaustive t \<and>
     mset (pf_Schemas s) = mset (pf_Schemas t) \<and> mset (pf_Regions s) = mset (pf_Regions t) \<and>
     mset (pf_Zones s) = mset (pf_Zones t) \<and> mset (pf_MachineTypes s) = mset (pf_MachineTypes t) \<and>
     mset (pf_SubnetRanges s) = mset (pf_SubnetRanges t) \<and> mset (pf_Resources s) = mset (pf_Resources t) \<and>
     mset (pf_APIs s) = mset (pf_APIs t) \<and>
     mset (map sort_firewall (pf_Firewalls s)) = mset (map sort_firewall (pf_Firewalls t))"

lemma NewHarnessPreflight_Inr:
  "NewHarnessPreflight marshal sha256hex seed = Inr p \<longleftrightarrow>
     validatePreflight (canonicalize_preflight seed) = None \<and> hp_payload p = canonicalize_preflight seed \<and>
     (\<exists>e. marshal ((canonicalize_preflight seed)\<lparr>pf_ObservedAt := time_zero, pf_ValidUntil := time_zero\<rparr>) = Some e \<and>
        hp_revision p = sha256hex e)"
  by (cases p) (auto simp: NewHarnessPreflight_def Let_def split: option.splits)

text \<open>What the checks of a payload say about its records.\<close>

lemma check_keyed_each: "check_keyed pre key dup post seen xs = None \<Longrightarrow> x \<in> set xs \<Longrightarrow> pre x = None \<and> post x = None"
  by (simp add: check_keyed_None)

lemma check_keyed_keys: "check_keyed pre key dup post [] xs = None \<Longrightarrow> distinct (map key xs)"
  by (simp add: check_keyed_None)

lemma validatePreflight_distinct:
  assumes "validatePreflight v = None"
  shows "distinct (map or_Name (pf_Regions v))" "distinct (map oz_Name (pf_Zones v))"
    "distinct (map om_Name (pf_MachineTypes v))" "distinct (map subnet_key (pf_SubnetRanges v))"
    "distinct (map resource_key (pf_Resources v))" "distinct (map as_Name (pf_APIs v))"
    "distinct (map ow_ProviderID (pf_Firewalls v))"
  using assms by (auto simp: validatePreflight_def record_checks_def dest: check_keyed_keys)

lemma validatePreflight_context:
  assumes "validatePreflight v = None"
  shows "pf_Exhaustive v" "pf_Schemas v = requiredSchemas"
    "validateObservationWindow (pf_ObservedAt v) (pf_ValidUntil v) = None"
  using assms by (simp_all add: validatePreflight_def context_checks_def)

lemma validatePreflight_subnets:
  assumes "validatePreflight v = None" and "s \<in> set (pf_SubnetRanges v)"
  shows "canonical_prefix (sr_CIDR s) \<noteq> None"
proof -
  have "check_keyed (subnet_check (pf_Project v)) subnet_key
      (observationError ''subnetRanges'' ''contains a duplicate identity'') no_check [] (pf_SubnetRanges v) = None"
    using assms(1) by (simp add: validatePreflight_def record_checks_def)
  then have "subnet_check (pf_Project v) s = None" using assms(2) by (rule check_keyed_each [THEN conjunct1])
  then show ?thesis by (simp add: subnet_check_def)
qed

lemma sorted_by_distinct: "distinct (map k (sort_key f xs)) \<longleftrightarrow> distinct (map k xs)"
proof -
  have "mset (map k (sort_key f xs)) = mset (map k xs)" by simp
  then show ?thesis by (rule mset_eq_imp_distinct_iff)
qed

lemma same_records_canonical:
  assumes "same_records s t" and "validatePreflight (canonicalize_preflight s) = None"
  shows "(canonicalize_preflight t)\<lparr>pf_ObservedAt := pf_ObservedAt s, pf_ValidUntil := pf_ValidUntil s\<rparr> =
    canonicalize_preflight s"
proof -
  note same = assms(1) [unfolded same_records_def]
  note valid = validatePreflight_distinct [OF assms(2), unfolded canonicalize_preflight_def, simplified, unfolded sorted_by_distinct]
  have subnets: "distinct (map (\<lambda>s. (sr_ProviderID s, sr_CIDR s)) (pf_SubnetRanges s))"
    using valid by (auto intro: distinct_map_finer simp: subnet_key_def)
  have resources: "distinct (map (\<lambda>r. (ObservedKind_string (ob_Kind r), ob_ProviderID r)) (pf_Resources s))"
    using valid by (auto intro: distinct_map_finer simp: resource_key_def)
  have "sort (pf_Schemas s) = sort (pf_Schemas t)" using same by (metis properties_for_sort mset_sort sorted_sort)
  moreover have "sort_key or_Name (pf_Regions s) = sort_key or_Name (pf_Regions t)"
    "sort_key oz_Name (pf_Zones s) = sort_key oz_Name (pf_Zones t)"
    "sort_key om_Name (pf_MachineTypes s) = sort_key om_Name (pf_MachineTypes t)"
    "sort_key (\<lambda>s. (sr_ProviderID s, sr_CIDR s)) (pf_SubnetRanges s) = sort_key (\<lambda>s. (sr_ProviderID s, sr_CIDR s)) (pf_SubnetRanges t)"
    "sort_key (\<lambda>r. (ObservedKind_string (ob_Kind r), ob_ProviderID r)) (pf_Resources s) =
       sort_key (\<lambda>r. (ObservedKind_string (ob_Kind r), ob_ProviderID r)) (pf_Resources t)"
    "sort_key as_Name (pf_APIs s) = sort_key as_Name (pf_APIs t)"
    "sort_key ow_ProviderID (map sort_firewall (pf_Firewalls s)) = sort_key ow_ProviderID (map sort_firewall (pf_Firewalls t))"
    using same valid subnets resources by (simp_all add: sort_key_unique comp_def)
  ultimately show ?thesis using same by (simp add: canonicalize_preflight_def)
qed

lemma validatePreflight_times:
  "validatePreflight v = None \<Longrightarrow> validateObservationWindow a b = None \<Longrightarrow>
     validatePreflight (v\<lparr>pf_ObservedAt := a, pf_ValidUntil := b\<rparr>) = None"
  unfolding validatePreflight_def context_checks_def record_checks_def by clarsimp

lemma canonical_times [simp]:
  "pf_ObservedAt (canonicalize_preflight v) = pf_ObservedAt v" "pf_ValidUntil (canonicalize_preflight v) = pf_ValidUntil v"
  by (simp_all add: canonicalize_preflight_def)

lemma restore_times:
  "x\<lparr>pf_ObservedAt := a, pf_ValidUntil := b\<rparr> = y \<Longrightarrow>
     x = y\<lparr>pf_ObservedAt := pf_ObservedAt x, pf_ValidUntil := pf_ValidUntil x\<rparr>" for x :: preflightPayload
  by auto

text \<open>The canonical records of a seed without the two times.\<close>

definition timeless_records :: "Seed \<Rightarrow> preflightPayload" where
  "timeless_records s = (canonicalize_preflight s)\<lparr>pf_ObservedAt := time_zero, pf_ValidUntil := time_zero\<rparr>"

lemma timeless_same_records:
  assumes "timeless_records s = timeless_records t"
  shows "same_records s t"
proof -
  let ?p = "canonicalize_preflight s" and ?q = "canonicalize_preflight t"
  have eq: "f (timeless_records s) = f (timeless_records t)" for f :: "preflightPayload \<Rightarrow> 'a" using assms by simp
  have records: "mset (sort_key f xs) = mset (sort_key f ys) \<longleftrightarrow> mset xs = mset ys" for f :: "'b \<Rightarrow> 'c::linorder" and xs ys
    by simp
  show ?thesis
    unfolding same_records_def
    using eq [of pf_Account] eq [of pf_Project] eq [of pf_Region] eq [of pf_Zone] eq [of pf_GcloudVersion]
      eq [of pf_CompletenessPolicy] eq [of pf_Exhaustive] eq [of "\<lambda>v. mset (pf_Schemas v)"]
      eq [of "\<lambda>v. mset (pf_Regions v)"] eq [of "\<lambda>v. mset (pf_Zones v)"] eq [of "\<lambda>v. mset (pf_MachineTypes v)"]
      eq [of "\<lambda>v. mset (pf_SubnetRanges v)"] eq [of "\<lambda>v. mset (pf_Resources v)"] eq [of "\<lambda>v. mset (pf_APIs v)"]
      eq [of "\<lambda>v. mset (pf_Firewalls v)"]
    by (simp add: timeless_records_def canonicalize_preflight_def)
qed

lemma revision_digest:
  assumes "NewHarnessPreflight marshal sha256hex s = Inr p"
  shows "map_option sha256hex (marshal (timeless_records s)) = Some (hp_revision p)"
proof -
  from assms obtain e where "marshal (timeless_records s) = Some e" "hp_revision p = sha256hex e"
    unfolding NewHarnessPreflight_Inr timeless_records_def by blast
  then show ?thesis by simp
qed

text \<open>
  C20. The revision of a preflight identifies what was observed, not how. If the digest does not collide on the
  two encodings without times, two accepted preflights have the same revision if and only if their seeds hold
  the same records, each list in any order; and a seed that lists the records of an accepted one in another
  order, taken at another time within bounds, is accepted with the same revision and the same canonical
  records. What the revision does not cover is exactly the two times.
\<close>

theorem revision_ignores_discovery_order:
  assumes "NewHarnessPreflight marshal sha256hex s = Inr p"
    and collision_free: "map_option sha256hex (marshal (timeless_records s)) =
      map_option sha256hex (marshal (timeless_records t)) \<Longrightarrow> timeless_records s = timeless_records t"
  shows "(\<forall>q. NewHarnessPreflight marshal sha256hex t = Inr q \<longrightarrow>
      (hp_revision q = hp_revision p \<longleftrightarrow> same_records s t)) \<and>
    (same_records s t \<and> validateObservationWindow (pf_ObservedAt t) (pf_ValidUntil t) = None \<longrightarrow>
      (\<exists>q. NewHarnessPreflight marshal sha256hex t = Inr q \<and> hp_revision q = hp_revision p \<and>
        hp_payload q = (hp_payload p)\<lparr>pf_ObservedAt := pf_ObservedAt t, pf_ValidUntil := pf_ValidUntil t\<rparr>))"
proof -
  let ?c = "canonicalize_preflight"
  from assms(1) have valid: "validatePreflight (?c s) = None" "hp_payload p = ?c s"
    by (simp_all add: NewHarnessPreflight_Inr)
  have t: "?c t = (?c s)\<lparr>pf_ObservedAt := pf_ObservedAt t, pf_ValidUntil := pf_ValidUntil t\<rparr>" if "same_records s t"
    using restore_times [OF same_records_canonical [OF that valid(1)]] by simp
  then have same: "timeless_records t = timeless_records s" if "same_records s t"
    using that by (simp add: timeless_records_def)
  have "hp_revision q = hp_revision p \<longleftrightarrow> same_records s t" if q: "NewHarnessPreflight marshal sha256hex t = Inr q" for q
  proof
    assume "hp_revision q = hp_revision p"
    then have "timeless_records s = timeless_records t"
      by (intro collision_free) (simp only: revision_digest [OF q] revision_digest [OF assms(1)])
    then show "same_records s t" by (rule timeless_same_records)
  next
    assume "same_records s t"
    from same [OF this] revision_digest [OF q] revision_digest [OF assms(1)]
    show "hp_revision q = hp_revision p" by simp
  qed
  moreover have "\<exists>q. NewHarnessPreflight marshal sha256hex t = Inr q \<and> hp_revision q = hp_revision p \<and>
      hp_payload q = (hp_payload p)\<lparr>pf_ObservedAt := pf_ObservedAt t, pf_ValidUntil := pf_ValidUntil t\<rparr>"
    if "same_records s t" "validateObservationWindow (pf_ObservedAt t) (pf_ValidUntil t) = None"
  proof -
    have "validatePreflight (?c t) = None"
      using validatePreflight_times [OF valid(1) that(2)] t [OF that(1)] by simp
    then show ?thesis
      using assms(1) t [OF that(1)] by (auto simp: NewHarnessPreflight_Inr intro!: exI [of _ "p\<lparr>hp_payload := ?c t\<rparr>"])
  qed
  ultimately show ?thesis by blast
qed

theorem revision_ignores_discovery_order_witness:
  "let s = sample_seed; t = s\<lparr>pf_Schemas := rev (pf_Schemas s), pf_ObservedAt := utc 5, pf_ValidUntil := utc 6\<rparr> in
   \<exists>q. NewHarnessPreflight (\<lambda>v. Some []) (\<lambda>x. x) t = Inr q \<and> pf_Schemas (hp_payload q) = requiredSchemas"
proof -
  let ?t = "sample_seed\<lparr>pf_Schemas := rev (pf_Schemas sample_seed), pf_ObservedAt := utc 5, pf_ValidUntil := utc 6\<rparr>"
  have same: "same_records sample_seed ?t" by (simp add: same_records_def)
  have "validatePreflight (canonicalize_preflight sample_seed) = None"
    using sample_preflight by (simp add: NewHarnessPreflight_Inr)
  then have "canonicalize_preflight ?t = (canonicalize_preflight sample_seed)\<lparr>pf_ObservedAt := utc 5, pf_ValidUntil := utc 6\<rparr>"
    using restore_times [OF same_records_canonical [OF same]] by simp
  then have "timeless_records sample_seed = timeless_records ?t" by (simp add: timeless_records_def)
  moreover have "validateObservationWindow (pf_ObservedAt ?t) (pf_ValidUntil ?t) = None"
    by (simp add: validateObservationWindow_def MaxEvidenceLifetime_def time_defs duration_defs int64_defs)
  ultimately show ?thesis
    using revision_ignores_discovery_order [OF sample_preflight, of ?t] same
    by (auto simp: Let_def sample_canonical) (simp add: sample_seed_def)
qed

subsection \<open>Absence\<close>

text \<open>
  C19. An absence proof means what it says. It is answered only from a preflight that read the whole closed
  catalogue of sources, within five minutes of the observation and inside its window, and only for kinds
  whose listing is complete (so never for a bucket, whose name is global); and then the answer is true if
  and only if no record of the seed has that kind and name.
\<close>

theorem absence_proof_exact:
  assumes "NewHarnessPreflight marshal sha256hex seed = Inr p" and "ProvesAbsenceAt p kind name now = Inr b"
  shows "(b \<longleftrightarrow> (kind, name) \<notin> (\<lambda>r. (ob_Kind r, ob_Name r)) ` set (pf_Resources seed)) \<and>
    kind \<in> set absenceProofKinds \<and> kind \<noteq> ObservedBucket \<and>
    pf_Exhaustive seed \<and> set (pf_Schemas seed) = set requiredSchemas \<and>
    t_ns (pf_ObservedAt seed) \<le> t_ns now \<and> t_ns now < t_ns (pf_ValidUntil seed) \<and>
    t_ns now - t_ns (pf_ObservedAt seed) < 5 * minute"
proof -
  from assms(1) have valid: "validatePreflight (canonicalize_preflight seed) = None"
    and p: "hp_payload p = canonicalize_preflight seed" by (simp_all add: NewHarnessPreflight_Inr)
  from validatePreflight_context [OF valid] have c: "pf_Exhaustive seed" "sort (pf_Schemas seed) = requiredSchemas"
    "validateObservationWindow (pf_ObservedAt seed) (pf_ValidUntil seed) = None"
    by (simp_all add: canonicalize_preflight_def)
  have "time_Sub (pf_ValidUntil seed) (pf_ObservedAt seed) \<le> 5 * minute"
    using c(3) by (simp add: validateObservationWindow_def MaxEvidenceLifetime_def)
  then have window: "t_ns (pf_ValidUntil seed) - t_ns (pf_ObservedAt seed) \<le> 5 * minute"
    by (subst (asm) time_Sub_le) (simp_all add: duration_defs int64_defs)
  have "set (pf_Resources (canonicalize_preflight seed)) = set (pf_Resources seed)"
    by (simp add: canonicalize_preflight_def)
  then have "HasCollision p kind name \<longleftrightarrow> (kind, name) \<in> (\<lambda>r. (ob_Kind r, ob_Name r)) ` set (pf_Resources seed)"
    by (auto simp: HasCollision_def p list_ex_iff)
  moreover have "set (pf_Schemas seed) = set requiredSchemas" using c(2) by (metis set_sort)
  moreover have "FreshAt p now" "kind \<in> set absenceProofKinds" "b \<longleftrightarrow> \<not> HasCollision p kind name"
    using assms(2) by (simp_all add: ProvesAbsenceAt_def)
  moreover from this have "kind \<noteq> ObservedBucket" by (auto simp: absenceProofKinds_def)
  ultimately show ?thesis using c(1) window by (simp add: FreshAt_def p time_defs)
qed

theorem absence_proof_exact_witness:
  "ProvesAbsenceAt \<lparr>hp_payload = canonicalize_preflight sample_seed, hp_revision = []\<rparr> ObservedNetwork ''other''
     (utc 2000000000) = Inr True \<and> (ObservedNetwork, ''other'') \<notin> (\<lambda>r. (ob_Kind r, ob_Name r)) ` set (pf_Resources sample_seed)"
proof -
  let ?p = "\<lparr>hp_payload = canonicalize_preflight sample_seed, hp_revision = []\<rparr>"
  have "ProvesAbsenceAt ?p ObservedNetwork ''other'' (utc 2000000000) = Inr True"
    using not_trimmed [of "''other''"]
    by (simp add: ProvesAbsenceAt_def FreshAt_def HasCollision_def absenceProofKinds_def sample_parts
        time_defs byte_def)
  then show ?thesis using absence_proof_exact [OF sample_preflight] by blast
qed

subsection \<open>The candidate network\<close>

text \<open>The addresses of a canonical prefix in text form; none for another text.\<close>

definition cidr_has :: "string \<Rightarrow> netaddr \<Rightarrow> bool" where
  "cidr_has cidr a = (case canonical_prefix cidr of None \<Rightarrow> False | Some q \<Rightarrow> netip_Contains q a)"

lemma overlap_step_parsed:
  "ParsePrefix (sr_CIDR s) = Some r \<Longrightarrow> overlap_step q s rest = (if netip_Overlaps q r then Inr True else rest)"
  by (simp add: overlap_step_def)

lemma overlap_fold:
  assumes "\<forall>s \<in> set ss. canonical_prefix (sr_CIDR s) \<noteq> None"
  shows "foldr (overlap_step q) ss (Inr False) = Inr (\<exists>s \<in> set ss. \<exists>a. netip_Contains q a \<and> cidr_has (sr_CIDR s) a)"
  using assms
proof (induction ss)
  case Nil
  then show ?case by simp
next
  case (Cons s ss)
  from Cons.prems obtain r where r: "ParsePrefix (sr_CIDR s) = Some r" "canonical_prefix (sr_CIDR s) = Some r"
    by (auto simp: canonical_prefix_def split: option.splits if_splits)
  have "netip_Overlaps q r \<longleftrightarrow> (\<exists>a. netip_Contains q a \<and> cidr_has (sr_CIDR s) a)"
    by (simp add: netip_Overlaps_iff cidr_has_def r)
  moreover have "foldr (overlap_step q) ss (Inr False) =
      Inr (\<exists>s \<in> set ss. \<exists>a. netip_Contains q a \<and> cidr_has (sr_CIDR s) a)"
    using Cons.prems by (intro Cons.IH) simp
  ultimately show ?case by (auto simp: overlap_step_parsed [OF r(1)])
qed

text \<open>
  C17. The network question is decided exactly. A preflight answers it for every fresh moment and every
  canonical candidate whose base address is private, without an error, and the answer is true if and only
  if some address lies both in the candidate and in one of the observed subnet ranges, of either family.
\<close>

theorem cidr_overlap_exact:
  assumes "NewHarnessPreflight marshal sha256hex seed = Inr p"
  shows "CIDROverlapsAt p cidr now = Inr b \<longleftrightarrow>
    FreshAt p now \<and> (\<exists>q. canonical_prefix cidr = Some q \<and> netip_IsPrivate (fst q)) \<and>
    (b \<longleftrightarrow> (\<exists>s \<in> set (pf_SubnetRanges seed). \<exists>a. cidr_has cidr a \<and> cidr_has (sr_CIDR s) a))"
proof -
  from assms have valid: "validatePreflight (canonicalize_preflight seed) = None"
    and p: "hp_payload p = canonicalize_preflight seed" by (simp_all add: NewHarnessPreflight_Inr)
  have ranges: "set (pf_SubnetRanges (hp_payload p)) = set (pf_SubnetRanges seed)"
    by (simp add: p canonicalize_preflight_def)
  have fold: "foldr (overlap_step q) (pf_SubnetRanges (hp_payload p)) (Inr False) =
      Inr (\<exists>s \<in> set (pf_SubnetRanges seed). \<exists>a. netip_Contains q a \<and> cidr_has (sr_CIDR s) a)" for q
    using overlap_fold [of "pf_SubnetRanges (hp_payload p)" q] validatePreflight_subnets [OF valid] ranges p by simp
  show ?thesis
    unfolding CIDROverlapsAt_def fold by (auto simp: canonical_prefix_def cidr_has_def split: option.splits if_splits)
qed

theorem cidr_overlap_exact_witness:
  "CIDROverlapsAt \<lparr>hp_payload = canonicalize_preflight sample_seed, hp_revision = []\<rparr> ''10.128.0.0/20''
     (utc 2000000000) = Inr True"
proof -
  have "cidr_has ''10.128.0.0/20'' (Addr4 0x0A800000)" by (simp add: cidr_has_def sample_prefixes)
  moreover have "FreshAt \<lparr>hp_payload = canonicalize_preflight sample_seed, hp_revision = []\<rparr> (utc 2000000000)"
    by (simp add: FreshAt_def sample_parts time_defs)
  moreover have "netip_IsPrivate (Addr4 0x0A800000)" by (simp add: private4_def word_prefix_def)
  ultimately show ?thesis
    using cidr_overlap_exact [OF sample_preflight, of "''10.128.0.0/20''" "utc 2000000000" True]
    by (auto simp: sample_prefixes) (auto simp: sample_seed_def)
qed

text \<open>
  Private means that the base address is. A candidate that is wider than the private block of its base,
  as here 192.168.0.0 to 192.175.255.255, is taken for a private prefix.
\<close>

lemma wide_candidate_taken_for_private:
  "canonical_prefix ''192.168.0.0/13'' = Some (Addr4 0xC0A80000, 13) \<and> netip_IsPrivate (Addr4 0xC0A80000) \<and>
   netip_Contains (Addr4 0xC0A80000, 13) (Addr4 0xC0AF0000) \<and> \<not> netip_IsPrivate (Addr4 0xC0AF0000)"
  by (simp add: canonical_prefix_def ParsePrefix_def ParseAddr_def parse_ipv4_def decimal_field_def char_class_defs
      digits_value_def byte_def private4_def word_prefix_def)

subsection \<open>Public ingress\<close>

text \<open>The port range that an expression of an accepted rule names.\<close>

definition port_covers :: "string \<Rightarrow> int \<Rightarrow> bool" where
  "port_covers port n =
     (case map canonicalPort (split_on CHR ''-'' port) of
        [Some k] \<Rightarrow> k = n
      | [Some lo, Some hi] \<Rightarrow> lo \<le> n \<and> n \<le> hi
      | _ \<Rightarrow> False)"

text \<open>A canonical decimal is determined by its value.\<close>

lemma digits_value_snoc: "digits_value (s @ [c]) = digits_value s * 10 + (int (byte c) - 48)"
  by (simp add: digits_value_def)

lemma digit_byte:
  assumes "is_digit c"
  shows "digit_char (byte c - 48) = c \<and> 48 \<le> byte c \<and> byte c - 48 < 10"
proof -
  have "c \<in> set ''0123456789''" using assms by (simp add: is_digit_def digits_def)
  then show ?thesis by (auto simp: digit_char_def digits_def byte_def)
qed

lemma digits_value_pos: "list_all is_digit s \<Longrightarrow> 0 \<le> digits_value s \<and> (s \<noteq> [] \<and> hd s \<noteq> CHR ''0'' \<longrightarrow> 0 < digits_value s)"
proof (induction s rule: rev_induct)
  case Nil
  then show ?case by (simp add: digits_value_def)
next
  case (snoc c s)
  then have c: "48 \<le> byte c" using digit_byte [of c] by simp
  have "s = [] \<Longrightarrow> hd (s @ [c]) \<noteq> CHR ''0'' \<Longrightarrow> byte c \<noteq> 48"
    using snoc.prems by (auto simp: is_digit_def digits_def byte_def)
  then show ?case using snoc c by (cases "s = []") (auto simp: digits_value_snoc, simp_all add: digits_value_def)
qed

lemma decimal_digits_value:
  "s \<noteq> [] \<Longrightarrow> list_all is_digit s \<Longrightarrow> length s = 1 \<or> hd s \<noteq> CHR ''0'' \<Longrightarrow> decimal (nat (digits_value s)) = s"
proof (induction s rule: rev_induct)
  case Nil
  then show ?case by simp
next
  case (snoc c s)
  have c: "digit_char (byte c - 48) = c" "48 \<le> byte c" "byte c - 48 < 10" using digit_byte [of c] snoc.prems by simp_all
  show ?case
  proof (cases "s = []")
    case True
    then have "nat (digits_value (s @ [c])) = byte c - 48" using c by (simp add: digits_value_def)
    then show ?thesis using c True by (simp add: decimal.simps)
  next
    case False
    then have s: "list_all is_digit s" "hd s \<noteq> CHR ''0''" using snoc.prems by (auto simp: length_Suc_conv)
    then have "0 < digits_value s" using digits_value_pos False by blast
    then obtain v where v: "digits_value s = int v" "0 < v" by (metis zero_less_imp_eq_int)
    then have k: "nat (digits_value (s @ [c])) = v * 10 + (byte c - 48)" using c by (simp add: digits_value_snoc)
    have "(v * 10 + (byte c - 48)) div 10 = v" "(v * 10 + (byte c - 48)) mod 10 = byte c - 48" using c(3) by simp_all
    moreover have "decimal v = s" using snoc.IH False s v by simp
    moreover have "digit_char (v * 10 + (byte c - 48)) = c" using c(1,3) by (simp add: digit_char_def)
    ultimately show ?thesis using v(2) by (simp add: k decimal.simps [of "v * 10 + (byte c - 48)"])
  qed
qed

lemma canonicalPort_unique: "canonicalPort s = Some k \<Longrightarrow> s = decimal (nat k)"
  using decimal_digits_value [of s] by (auto simp: canonicalPort_def decimal_field_def split: if_splits)

lemma canonical_parse_port: "canonicalPort s = Some k \<Longrightarrow> parse_port s = Some k"
  by (auto simp: canonicalPort_def decimal_field_def parse_port_def split: if_splits)

lemma split_on_single: "split_on c s = [t] \<Longrightarrow> t = s"
  by (induction c s arbitrary: t rule: split_on.induct) (auto split: if_splits list.splits)

lemma one_or_two:
  "(case xs of [Some lo] \<Rightarrow> True | [Some lo, Some hi] \<Rightarrow> lo \<le> (hi :: int) | _ \<Rightarrow> False) \<Longrightarrow>
     (\<exists>k. xs = [Some k]) \<or> (\<exists>lo hi. xs = [Some lo, Some hi])"
  by (cases xs; cases "tl xs"; cases "tl (tl xs)") (auto split: option.splits)

lemma port_exposes_covers:
  assumes "validPortExpression port"
  shows "port_exposes port \<longleftrightarrow> port_covers port 27017"
proof -
  have mongo: "decimal (nat 27017) = ''27017''" by (simp add: decimal.simps digit_char_def digits_def)
  have single: "map canonicalPort (split_on CHR ''-'' ''27017'') = [Some 27017]"
    by (simp add: canonicalPort_def decimal_field_def char_class_defs digits_value_def byte_def)
  obtain xs where xs: "map canonicalPort (split_on CHR ''-'' port) = xs" by simp
  have "(\<exists>k. xs = [Some k]) \<or> (\<exists>lo hi. xs = [Some lo, Some hi])"
    using assms unfolding validPortExpression_def xs by (rule one_or_two)
  then consider (one) k where "map canonicalPort (split_on CHR ''-'' port) = [Some k]"
    | (two) lo hi where "map canonicalPort (split_on CHR ''-'' port) = [Some lo, Some hi]"
    unfolding xs by blast
  then show ?thesis
  proof cases
    case one
    then have s: "split_on CHR ''-'' port = [port]" "canonicalPort port = Some k"
      using split_on_single [of "CHR ''-''" port] by (auto simp: map_eq_Cons_conv)
    have "k = 27017 \<Longrightarrow> port = ''27017''" using canonicalPort_unique [OF s(2)] mongo by simp
    moreover have "port = ''27017'' \<Longrightarrow> k = 27017" using one single by simp
    ultimately show ?thesis using one s canonical_parse_port [OF s(2)] by (auto simp: port_exposes_def port_covers_def)
  next
    case two
    then obtain a b where ab: "split_on CHR ''-'' port = [a, b]" "canonicalPort a = Some lo" "canonicalPort b = Some hi"
      by (auto simp: map_eq_Cons_conv)
    then have "port \<noteq> ''27017''" using single two by auto
    then show ?thesis
      using ab canonical_parse_port by (auto simp: port_exposes_def port_covers_def)
  qed
qed

lemma validatePreflight_ports:
  assumes "validatePreflight v = None" and "f \<in> set (pf_Firewalls v)" and "a \<in> set (ow_Allowed f)" and "port \<in> set (ol_Ports a)"
  shows "validPortExpression port"
proof -
  have "check_keyed (firewall_check (pf_Project v)) ow_ProviderID
      (observationError ''firewalls'' ''contains a duplicate identity'') firewall_parts [] (pf_Firewalls v) = None"
    using assms(1) by (simp add: validatePreflight_def record_checks_def)
  then have "firewall_parts f = None" using assms(2) by (rule check_keyed_each [THEN conjunct2])
  then have "check_keyed protocol_check ol_Name (observationError ''firewalls'' ''contains a duplicate protocol'')
      ports_check [] (ow_Allowed f) = None" by (simp add: firewall_parts_def)
  then have "ports_check a = None" using assms(3) by (rule check_keyed_each [THEN conjunct2])
  then show ?thesis using assms(4) by (simp add: ports_check_def list_all_iff)
qed

text \<open>The rule lets every IPv4 address reach the port over TCP.\<close>

definition open_to_ipv4 :: "ObservedFirewall \<Rightarrow> int \<Rightarrow> bool" where
  "open_to_ipv4 f n \<longleftrightarrow>
     \<not> ow_Disabled f \<and> ow_Direction f = ''INGRESS'' \<and> ''0.0.0.0/0'' \<in> set (ow_SourceRanges f) \<and>
     (\<exists>a \<in> set (ow_Allowed f). ol_Name a \<in> {''tcp'', ''6'', ''all''} \<and>
        (ol_Ports a = [] \<or> (\<exists>port \<in> set (ol_Ports a). port_covers port n)))"

lemma sort_is_empty: "sort xs = [] \<longleftrightarrow> xs = []"
  by (metis set_empty set_sort)

lemma open_to_ipv4_sorted: "open_to_ipv4 (sort_firewall f) n \<longleftrightarrow> open_to_ipv4 f n"
  by (auto simp: open_to_ipv4_def sort_firewall_def sort_protocol_def sort_is_empty)

lemma sort_firewall_name [simp]: "ow_Name (sort_firewall f) = ow_Name f"
  by (simp add: sort_firewall_def)

text \<open>
  C18. The public rules are found exactly. For a fresh moment the answer names the rules of the seed, and only
  those, that are enabled, ingress, name all of IPv4 as a source and let TCP through on MongoDB's port: by
  no port list, by the port itself or by a range that covers it.
\<close>

theorem public_ingress_exact:
  assumes "NewHarnessPreflight marshal sha256hex seed = Inr p" and "PublicMongoDBIngressAt p now = Inr names"
  shows "set names = ow_Name ` {f \<in> set (pf_Firewalls seed). open_to_ipv4 f 27017}"
proof -
  from assms(1) have valid: "validatePreflight (canonicalize_preflight seed) = None"
    and p: "hp_payload p = canonicalize_preflight seed" by (simp_all add: NewHarnessPreflight_Inr)
  let ?fs = "pf_Firewalls (hp_payload p)"
  have "exposesMongoDB f \<longleftrightarrow> open_to_ipv4 f 27017" if "f \<in> set ?fs" for f
    using port_exposes_covers [OF validatePreflight_ports [OF valid]] that p
    by (auto simp: exposesMongoDB_def open_to_ipv4_def list_ex_iff)
  then have "set names = ow_Name ` {f \<in> set ?fs. open_to_ipv4 f 27017}"
    using assms(2) by (auto simp: PublicMongoDBIngressAt_def split: if_splits)
  also have "set ?fs = sort_firewall ` set (pf_Firewalls seed)" by (simp add: p canonicalize_preflight_def)
  also have "ow_Name ` {f \<in> sort_firewall ` set (pf_Firewalls seed). open_to_ipv4 f 27017} =
      ow_Name ` {f \<in> set (pf_Firewalls seed). open_to_ipv4 f 27017}"
    by (force simp: open_to_ipv4_sorted image_iff)
  finally show ?thesis .
qed

theorem public_ingress_exact_witness:
  "PublicMongoDBIngressAt \<lparr>hp_payload = canonicalize_preflight sample_seed, hp_revision = []\<rparr> (utc 2000000000) =
     Inr [''open''] \<and> ''open'' \<in> ow_Name ` {f \<in> set (pf_Firewalls sample_seed). open_to_ipv4 f 27017}"
proof -
  have names: "PublicMongoDBIngressAt \<lparr>hp_payload = canonicalize_preflight sample_seed, hp_revision = []\<rparr>
      (utc 2000000000) = Inr [''open'']"
    by (simp add: PublicMongoDBIngressAt_def FreshAt_def sample_parts time_defs exposesMongoDB_def
        port_exposes_def parse_port_def char_class_defs digits_value_def byte_def)
  show ?thesis
    unfolding public_ingress_exact [OF sample_preflight names, symmetric] names by simp
qed

end
