(* ===== verification/Effects.thy ===== *)
theory Effects
  imports Results
begin

section \<open>Code with effects\<close>

text \<open>
  Code that calls the outside (a provider, the clock, the file system) is a tree: it has returned, or
  it waits for the reply to a call and continues with it. Nothing is assumed of the replies: a
  run is any sequence of calls with replies, and a run that stops early is a crash. An error
  is a value, \<open>Inl\<close>. \<open>ensures G Q p h\<close> is the weakest precondition of \<open>p\<close> after the history \<open>h\<close>: every
  call that \<open>p\<close> can make satisfies \<open>G\<close> at its point of the history, and every result satisfies \<open>Q\<close>.
\<close>

datatype ('c, 'r, 'a) effect =
    Return 'a
  | Call 'c "'r \<Rightarrow> ('c, 'r, 'a) effect"

text \<open>The sequence of two pieces of code, and the one that stops at an error.\<close>

primrec andthen ::
  "('c, 'r, 'a) effect \<Rightarrow> ('a \<Rightarrow> ('c, 'r, 'b) effect) \<Rightarrow> ('c, 'r, 'b) effect" where
  "andthen (Return a) f = f a"
| "andthen (Call c k) f = Call c (\<lambda>r. andthen (k r) f)"

definition attempt ::
  "('c, 'r, 'e + 'a) effect \<Rightarrow> ('a \<Rightarrow> ('c, 'r, 'e + 'b) effect) \<Rightarrow> ('c, 'r, 'e + 'b) effect" where
  "attempt p f = andthen p (\<lambda>x. case x of Inl e \<Rightarrow> Return (Inl e) | Inr a \<Rightarrow> f a)"

text \<open>A call, its reply read by \<open>view\<close>; a check; a value.\<close>

definition perform :: "'c \<Rightarrow> ('r \<Rightarrow> 'e + 'a) \<Rightarrow> ('c, 'r, 'e + 'a) effect" where
  "perform c view = Call c (\<lambda>r. Return (view r))"

definition require :: "'e option \<Rightarrow> ('c, 'r, 'e + unit) effect" where
  "require x = Return (check x (Inr ()))"

definition give :: "'a \<Rightarrow> ('c, 'r, 'e + 'a) effect" where
  "give a = Return (Inr a)"

definition fails :: "'e \<Rightarrow> ('c, 'r, 'e + 'a) effect" where
  "fails e = Return (Inl e)"

text \<open>A loop with an early return over a list, whose body has effects.\<close>

fun effect_loop ::
  "(nat \<Rightarrow> 's \<Rightarrow> 'x \<Rightarrow> ('c, 'r, 'e + 's) effect) \<Rightarrow> nat \<Rightarrow> 's \<Rightarrow> 'x list \<Rightarrow> ('c, 'r, 'e + 's) effect" where
  "effect_loop f i s [] = give s"
| "effect_loop f i s (x # xs) = attempt (f i s x) (\<lambda>s'. effect_loop f (Suc i) s' xs)"

subsection \<open>Runs\<close>

text \<open>The code that is left after the calls of \<open>h\<close> were made and answered as \<open>h\<close> says.\<close>

fun after :: "('c, 'r, 'a) effect \<Rightarrow> ('c \<times> 'r) list \<Rightarrow> ('c, 'r, 'a) effect option" where
  "after p [] = Some p"
| "after (Return a) (e # h) = None"
| "after (Call c k) (e # h) = (if fst e = c then after (k (snd e)) h else None)"

primrec pending :: "('c, 'r, 'a) effect \<Rightarrow> 'c option" where
  "pending (Return a) = None"
| "pending (Call c k) = Some c"

primrec result :: "('c, 'r, 'a) effect \<Rightarrow> 'a option" where
  "result (Return a) = Some a"
| "result (Call c k) = None"

text \<open>In a run of \<open>p\<close> the call \<open>c\<close> is made after the history \<open>h\<close>.\<close>

definition issues :: "('c, 'r, 'a) effect \<Rightarrow> ('c \<times> 'r) list \<Rightarrow> 'c \<Rightarrow> bool" where
  "issues p h c \<longleftrightarrow> (\<exists>q. after p h = Some q \<and> pending q = Some c)"

text \<open>A run of \<open>p\<close> returns \<open>a\<close> after the history \<open>h\<close>.\<close>

definition returns :: "('c, 'r, 'a) effect \<Rightarrow> ('c \<times> 'r) list \<Rightarrow> 'a \<Rightarrow> bool" where
  "returns p h a \<longleftrightarrow> after p h = Some (Return a)"

text \<open>Every run ends: the replies alone cannot keep the code busy.\<close>

lemma runs_end: "\<exists>h a. (\<forall>(c, r) \<in> set h. r = f c) \<and> returns p h a"
proof (induction p)
  case (Return a)
  have "returns (Return a) [] a" by (simp add: returns_def)
  then show ?case by (intro exI [of _ "[]"]) auto
next
  case (Call c k)
  then obtain h a where "\<forall>(c, r) \<in> set h. r = f c" "returns (k (f c)) h a" by blast
  then show ?case by (intro exI [of _ "(c, f c) # h"] exI [of _ a]) (auto simp: returns_def)
qed

subsection \<open>Weakest preconditions\<close>

primrec ensures ::
  "(('c \<times> 'r) list \<Rightarrow> 'c \<Rightarrow> bool) \<Rightarrow> (('c \<times> 'r) list \<Rightarrow> 'a \<Rightarrow> bool) \<Rightarrow>
     ('c, 'r, 'a) effect \<Rightarrow> ('c \<times> 'r) list \<Rightarrow> bool" where
  "ensures G Q (Return a) = (\<lambda>h. Q h a)"
| "ensures G Q (Call c k) = (\<lambda>h. G h c \<and> (\<forall>r. ensures G Q (k r) (h @ [(c, r)])))"

text \<open>What \<open>ensures\<close> promises holds in every run.\<close>

lemma ensures_after:
  "ensures G Q p h \<Longrightarrow> after p h' = Some q \<Longrightarrow> ensures G Q q (h @ h')"
proof (induction p h' arbitrary: h rule: after.induct)
  case (3 c k e h')
  from 3(3) have e: "fst e = c" "after (k (snd e)) h' = Some q" by (auto split: if_splits)
  from 3(2) e(1) have "ensures G Q (k (snd e)) (h @ [e])" by (cases e) auto
  from 3(1) [OF e(1) this e(2)] show ?case by simp
qed auto

theorem ensures_issues: "ensures G Q p [] \<Longrightarrow> issues p h c \<Longrightarrow> G h c"
  unfolding issues_def using ensures_after [of G Q p "[]" h]
  by (metis append_Nil effect.exhaust ensures.simps(2) option.inject option.distinct(1) pending.simps)

theorem ensures_returns: "ensures G Q p [] \<Longrightarrow> returns p h a \<Longrightarrow> Q h a"
  unfolding returns_def using ensures_after [of G Q p "[]" h "Return a"] by simp

subsection \<open>The rules of the calculus\<close>

named_theorems effect_rules \<open>weakest preconditions of the constructs\<close>

lemma ensures_andthen [effect_rules]:
  "ensures G Q (andthen p f) h = ensures G (\<lambda>h' a. ensures G Q (f a) h') p h"
  by (induction p arbitrary: h) auto

lemma ensures_attempt [effect_rules]:
  "ensures G Q (attempt p f) h =
     ensures G (\<lambda>h' x. case x of Inl e \<Rightarrow> Q h' (Inl e) | Inr a \<Rightarrow> ensures G Q (f a) h') p h"
proof -
  have "(\<lambda>h' x. ensures G Q (case x of Inl e \<Rightarrow> Return (Inl e) | Inr a \<Rightarrow> f a) h') =
      (\<lambda>h' x. case x of Inl e \<Rightarrow> Q h' (Inl e) | Inr a \<Rightarrow> ensures G Q (f a) h')"
    by (intro ext) (simp split: sum.splits)
  then show ?thesis by (simp add: attempt_def ensures_andthen)
qed

lemma ensures_perform [effect_rules]:
  "ensures G Q (perform c view) h \<longleftrightarrow> G h c \<and> (\<forall>r. Q (h @ [(c, r)]) (view r))"
  by (simp add: perform_def)

lemma ensures_require [effect_rules]:
  "ensures G Q (require x) h \<longleftrightarrow> (case x of None \<Rightarrow> Q h (Inr ()) | Some e \<Rightarrow> Q h (Inl e))"
  by (simp add: require_def check_def split: option.splits)

lemma ensures_give [effect_rules]: "ensures G Q (give a) h \<longleftrightarrow> Q h (Inr a)"
  by (simp add: give_def)

lemma ensures_fails [effect_rules]: "ensures G Q (fails e) h \<longleftrightarrow> Q h (Inl e)"
  by (simp add: fails_def)

lemma ensures_mono:
  "ensures G Q p h \<Longrightarrow> (\<And>h' c. G h' c \<Longrightarrow> G' h' c) \<Longrightarrow> (\<And>h' a. Q h' a \<Longrightarrow> Q' h' a) \<Longrightarrow> ensures G' Q' p h"
  by (induction p arbitrary: h) auto

text \<open>The history only grows.\<close>

lemma ensures_extends:
  "ensures G Q p h \<Longrightarrow> ensures G (\<lambda>h' a. (\<exists>t. h' = h @ t) \<and> Q h' a) p h"
proof (induction p arbitrary: h)
  case (Return a)
  then show ?case by simp
next
  case (Call c k)
  have "ensures G (\<lambda>h' a. (\<exists>t. h' = h @ t) \<and> Q h' a) (k r) (h @ [(c, r)])" for r
    by (rule ensures_mono [OF Call.IH [OF rangeI, of r "h @ [(c, r)]"]]) (use Call.prems in auto)
  with Call.prems show ?case by simp
qed

lemma ensures_conj:
  "ensures G Q p h \<Longrightarrow> ensures G' Q' p h \<Longrightarrow> ensures (\<lambda>h c. G h c \<and> G' h c) (\<lambda>h a. Q h a \<and> Q' h a) p h"
  by (induction p arbitrary: h) auto

text \<open>A loop keeps an invariant of the history, the index and the state.\<close>

lemma ensures_loop:
  assumes "I h i s"
    and "\<And>h' j s' x. I h' j s' \<Longrightarrow> x \<in> set xs \<Longrightarrow>
      ensures G (\<lambda>h'' r. case r of Inl e \<Rightarrow> Q h'' (Inl e) | Inr s'' \<Rightarrow> I h'' (Suc j) s'') (f j s' x) h'"
    and "\<And>h' s'. I h' (i + length xs) s' \<Longrightarrow> Q h' (Inr s')"
  shows "ensures G Q (effect_loop f i s xs) h"
  using assms
proof (induction xs arbitrary: h i s)
  case Nil
  then show ?case by (simp add: effect_rules)
next
  case (Cons x xs)
  have "ensures G (\<lambda>h'' r. case r of Inl e \<Rightarrow> Q h'' (Inl e) | Inr s'' \<Rightarrow> I h'' (Suc i) s'') (f i s x) h"
    by (rule Cons.prems(2) [OF Cons.prems(1)]) simp
  then show ?case
    by (auto simp: ensures_attempt elim!: ensures_mono split: sum.splits
        intro!: Cons.IH Cons.prems(2) Cons.prems(3))
qed

end
