(* ===== verification/ManifestPolicy.thy ===== *)
theory ManifestPolicy
  imports IsolationNetwork GoTime "HOL-Library.Product_Lexorder"
begin

section \<open>internal/config: manifest identity and policy (identity.go, policy.go)\<close>

text \<open>
  The header of a manifest and the rules that need no live resource: cooling-off and plan validity,
  data residency, the verification network, and the protection identities. \<open>manifestPolicyWire\<close> is the
  struct that the normalised document is decoded into, its anonymous structs flattened. A rule appends
  its violations; they are sorted and repetitions dropped, so that the error does not depend on the order of the rules.
\<close>

subsection \<open>The header\<close>

definition ManifestAPIVersion :: string where "ManifestAPIVersion = ''ctrldb.ctrlboard.dev/v1alpha1''"
definition ManifestKind :: string where "ManifestKind = ''MongoEnvironment''"

record ManifestMetadata =
  me_Name :: string
  me_Class :: EnvironmentClass

record ManifestIdentity =
  mi_APIVersion :: string
  mi_Kind :: string
  mi_Metadata :: ManifestMetadata

datatype identity_error = ErrInvalidManifestIdentity string string

definition ValidateManifestIdentity :: "ManifestIdentity \<Rightarrow> identity_error option" where
  "ValidateManifestIdentity identity =
     (let name = me_Name (mi_Metadata identity); class = me_Class (mi_Metadata identity) in
      first_error
       [fail_if (mi_APIVersion identity \<noteq> ManifestAPIVersion)
          (ErrInvalidManifestIdentity ''apiVersion'' (''must equal '' @ ManifestAPIVersion)),
        fail_if (mi_Kind identity \<noteq> ManifestKind)
          (ErrInvalidManifestIdentity ''kind'' (''must equal '' @ ManifestKind)),
        fail_if (\<not> environmentPattern name)
          (ErrInvalidManifestIdentity ''metadata.name''
            ''must be a lowercase DNS-label-style name of 1 to 63 characters''),
        fail_if (\<not> EnvironmentClass_Valid class)
          (ErrInvalidManifestIdentity ''metadata.class'' ''unknown value''),
        fail_if (class \<noteq> EnvironmentDisposable \<and> (name = ''test'' \<or> has_prefix name ''test-''))
          (ErrInvalidManifestIdentity ''metadata.name''
            ''the test namespace is reserved for disposable environments'')])"

subsection \<open>The projection\<close>

record manifestPolicyWire =
  mw_Class :: EnvironmentClass
  mw_Project :: string
  mw_Region :: string
  mw_Zone :: string
  mw_Network :: string
  mw_NetworkTag :: string
  mw_HostServiceAccount :: string
  mw_HostMembers :: "string list"
  mw_ReplicaZones :: "string list"
  mw_EscrowRegions :: "string list"
  mw_HomeRegion :: string
  mw_TopologyMembers :: "(string \<times> string) list"
  mw_ReplicationRegions :: "string list"
  mw_TransferServiceAccount :: string
  mw_VerificationVPC :: string
  mw_VerificationCIDR :: string
  mw_VerificationTag :: string
  mw_ProfileSources :: "string list list"
  mw_CoolingOff :: string
  mw_PlanValidity :: string
  mw_Acknowledged :: bool
  mw_Residency :: "string list"
  mw_TestCIDR :: "string option"

type_synonym policy_violation = "string \<times> string"

datatype policy_error = ErrManifestPolicyUnavailable | ManifestPolicyError "policy_violation list"

definition violation_if :: "bool \<Rightarrow> string \<Rightarrow> string \<Rightarrow> policy_violation list" where
  "violation_if c rule path = (if c then [(rule, path)] else [])"

definition indexedPath :: "string \<Rightarrow> nat \<Rightarrow> string \<Rightarrow> string" where
  "indexedPath base index field =
     (let path = base @ ''/'' @ decimal index in if field \<noteq> [] then path @ ''/'' @ field else path)"

text \<open>\<open>for index, x := range xs\<close> over a body that appends.\<close>

definition gather :: "(nat \<Rightarrow> 'a \<Rightarrow> 'b list) \<Rightarrow> 'a list \<Rightarrow> 'b list" where
  "gather f xs = concat (map2 f [0 ..< length xs] xs)"

subsection \<open>Durations\<close>

text \<open>\<open>big.Int.SetString\<close> in base 10: an optional sign and digits.\<close>

definition digits_int :: "string \<Rightarrow> int option" where
  "digits_int s = (if s \<noteq> [] \<and> list_all is_digit s then Some (digits_value s) else None)"

definition big_int :: "string \<Rightarrow> int option" where
  "big_int s =
     (if s \<noteq> [] \<and> hd s = CHR ''-'' then map_option uminus (digits_int (tl s))
      else if s \<noteq> [] \<and> hd s = CHR ''+'' then digits_int (tl s)
      else digits_int s)"

definition duration_unit :: "char \<Rightarrow> int option" where
  "duration_unit c =
     (if c = CHR ''s'' then Some 1 else if c = CHR ''m'' then Some 60
      else if c = CHR ''h'' then Some (60 * 60) else if c = CHR ''d'' then Some (24 * 60 * 60) else None)"

definition durationSeconds :: "string \<Rightarrow> int option" where
  "durationSeconds s =
     (if length s < 2 then None
      else (case (duration_unit (last s), big_int (butlast s)) of
          (Some multiplier, Some amount) \<Rightarrow> if amount < 0 then None else Some (amount * multiplier)
        | _ \<Rightarrow> None))"

definition classCoolingOffSeconds :: "EnvironmentClass \<Rightarrow> int" where
  "classCoolingOffSeconds class =
     (if class = EnvironmentProduction then 10 * 60 else if class = EnvironmentStaging then 5 * 60 else 0)"

definition validateClassPolicy :: "manifestPolicyWire \<Rightarrow> policy_violation list" where
  "validateClassPolicy manifest =
     (case durationSeconds (mw_CoolingOff manifest) of
        None \<Rightarrow> [(''CFG-02'', ''/spec/policy/dataDestructiveCoolingOff'')]
      | Some coolingOff \<Rightarrow>
          (case durationSeconds (mw_PlanValidity manifest) of
             None \<Rightarrow> [(''CFG-02'', ''/spec/policy/planValidity'')]
           | Some planValidity \<Rightarrow>
               violation_if (coolingOff < classCoolingOffSeconds (mw_Class manifest) \<and> \<not> mw_Acknowledged manifest)
                 ''CFG-02'' ''/spec/policy/dataDestructiveCoolingOff'' @
               violation_if (planValidity < coolingOff + 30 * 60) ''CFG-02'' ''/spec/policy/planValidity''))"

subsection \<open>Residency\<close>

text \<open>The text before the last \<open>-\<close> of a zone, empty without one.\<close>

definition before_last :: "char \<Rightarrow> string \<Rightarrow> string" where
  "before_last c s = rev (drop 1 (dropWhile (\<lambda>x. x \<noteq> c) (rev s)))"

definition regionFromZone :: "string \<Rightarrow> string" where
  "regionFromZone zone = before_last CHR ''-'' zone"

definition requireRegion :: "string list \<Rightarrow> string \<Rightarrow> string \<Rightarrow> policy_violation list" where
  "requireRegion allowed region path = violation_if (region \<notin> set allowed) ''CFG-09'' path"

definition requireZoneRegion :: "string list \<Rightarrow> string \<Rightarrow> string \<Rightarrow> policy_violation list" where
  "requireZoneRegion allowed zone path = requireRegion allowed (regionFromZone zone) path"

definition topology_member :: "string list \<Rightarrow> nat \<Rightarrow> string \<times> string \<Rightarrow> policy_violation list" where
  "topology_member allowed index member =
     (let regionPath = indexedPath ''/spec/topology/members'' index ''region'' in
      requireZoneRegion allowed (fst member) (indexedPath ''/spec/topology/members'' index ''zone'') @
      (if snd member \<noteq> [] then
         requireRegion allowed (snd member) regionPath @
         violation_if (snd member \<noteq> regionFromZone (fst member)) ''CFG-09'' regionPath
       else []))"

definition validateResidencyPolicy :: "manifestPolicyWire \<Rightarrow> policy_violation list" where
  "validateResidencyPolicy manifest =
     (let allowed = mw_Residency manifest in
      requireRegion allowed (mw_Region manifest) ''/spec/gcp/region'' @
      requireZoneRegion allowed (mw_Zone manifest) ''/spec/gcp/zone'' @
      violation_if (regionFromZone (mw_Zone manifest) \<noteq> mw_Region manifest) ''CFG-09'' ''/spec/gcp/zone'' @
      requireRegion allowed (mw_HomeRegion manifest) ''/spec/topology/homeRegion'' @
      gather (\<lambda>index zone. requireZoneRegion allowed zone (indexedPath ''/spec/host/members'' index ''zone''))
        (mw_HostMembers manifest) @
      gather (\<lambda>index zone. requireZoneRegion allowed zone (indexedPath ''/spec/host/dataDisk/replicaZones'' index []))
        (mw_ReplicaZones manifest) @
      gather (\<lambda>index region. requireRegion allowed region
          (indexedPath ''/spec/host/secretsEscrow/replicationRegions'' index []))
        (mw_EscrowRegions manifest) @
      gather (topology_member allowed) (mw_TopologyMembers manifest) @
      gather (\<lambda>index region. requireRegion allowed region (indexedPath ''/spec/pbm/replication/regions'' index []))
        (mw_ReplicationRegions manifest))"

subsection \<open>The verification network\<close>

definition canonicalPrivateIPv4Prefix :: "string \<Rightarrow> ipv4_prefix option" where
  "canonicalPrivateIPv4Prefix v =
     (case parse_prefix v of
        None \<Rightarrow> None
      | Some p \<Rightarrow>
          if p \<noteq> prefix_Masked p then None
          else if list_ex (\<lambda>r. snd p \<ge> snd r \<and> prefix_Contains r (fst p))
              [(0x0A000000, 8), (0xAC100000, 12), (0xC0A80000, 16)]
          then Some p else None)"

definition config_prefixesOverlap :: "ipv4_prefix \<Rightarrow> ipv4_prefix \<Rightarrow> bool" where
  "config_prefixesOverlap p q = (prefix_Contains p (fst q) \<or> prefix_Contains q (fst p))"

definition tag_sources :: "string \<Rightarrow> nat \<Rightarrow> string list \<Rightarrow> policy_violation list" where
  "tag_sources tag profileIndex sources =
     gather (\<lambda>sourceIndex v. violation_if (v = tag) ''CFG-16''
         (indexedPath ''/spec/access/profiles'' profileIndex ''sources'' @ ''/'' @ decimal sourceIndex @ ''/value''))
       sources"

definition validateVerificationNetworkPolicy :: "manifestPolicyWire \<Rightarrow> policy_violation list" where
  "validateVerificationNetworkPolicy manifest =
     (let verification = canonicalPrivateIPv4Prefix (mw_VerificationCIDR manifest);
          testPath = ''/spec/testIsolation/network/cidr'' in
      violation_if (mw_VerificationVPC manifest \<noteq> mw_Network manifest) ''CFG-16''
        ''/spec/pbm/verification/network/vpc'' @
      violation_if (mw_VerificationTag manifest = mw_NetworkTag manifest) ''CFG-16''
        ''/spec/pbm/verification/network/tag'' @
      gather (tag_sources (mw_VerificationTag manifest)) (mw_ProfileSources manifest) @
      violation_if (verification = None) ''CFG-16'' ''/spec/pbm/verification/network/cidr'' @
      (case mw_TestCIDR manifest of
         None \<Rightarrow> []
       | Some cidr \<Rightarrow>
           (let test = canonicalPrivateIPv4Prefix cidr in
            violation_if (test = None) ''CFG-16'' testPath @
            (case (verification, test) of
               (Some p, Some q) \<Rightarrow> violation_if (config_prefixesOverlap p q) ''CFG-16'' testPath
             | _ \<Rightarrow> []))))"

subsection \<open>The protection identities\<close>

definition after_last :: "char \<Rightarrow> string \<Rightarrow> string" where
  "after_last c s = rev (takeWhile (\<lambda>x. x \<noteq> c) (rev s))"

definition serviceAccountBelongsToProject :: "string \<Rightarrow> string \<Rightarrow> bool" where
  "serviceAccountBelongsToProject account project =
     (if before_last CHR ''@'' account = [] then False
      else
        (let host = after_last CHR ''@'' account; suffix = ''.iam.gserviceaccount.com'' in
         has_suffix host suffix \<and> trim_suffix host suffix = project))"

definition validateProtectionIdentityPolicy :: "manifestPolicyWire \<Rightarrow> policy_violation list" where
  "validateProtectionIdentityPolicy manifest =
     (let hostAccount = mw_HostServiceAccount manifest; transferAccount = mw_TransferServiceAccount manifest;
          transferPath = ''/spec/pbm/replication/transferServiceAccount'' in
      violation_if (\<not> serviceAccountBelongsToProject hostAccount (mw_Project manifest)) ''CFG-20''
        ''/spec/host/serviceAccount'' @
      violation_if (\<not> serviceAccountBelongsToProject transferAccount (mw_Project manifest)) ''CFG-20'' transferPath @
      violation_if (hostAccount = transferAccount) ''CFG-20'' transferPath)"

subsection \<open>The policy\<close>

definition manifest_violations :: "manifestPolicyWire \<Rightarrow> policy_violation list" where
  "manifest_violations manifest =
     validateClassPolicy manifest @ validateResidencyPolicy manifest @
     validateVerificationNetworkPolicy manifest @ validateProtectionIdentityPolicy manifest"

text \<open>\<open>unmarshal\<close> is \<open>json.Unmarshal\<close> of the normalised document into the struct.\<close>

definition validateManifestPolicy :: "(string \<Rightarrow> manifestPolicyWire option) \<Rightarrow> string \<Rightarrow> policy_error option" where
  "validateManifestPolicy unmarshal json =
     (case unmarshal json of
        None \<Rightarrow> Some ErrManifestPolicyUnavailable
      | Some manifest \<Rightarrow>
          (let violations = manifest_violations manifest in
           if violations = [] then None
           else Some (ManifestPolicyError (remdups_adj (sort_key (\<lambda>v. (fst v, snd v)) violations)))))"

end
