(* ===== verification/ManifestGuarantees.thy ===== *)
theory ManifestGuarantees
  imports ManifestPolicy
begin

section \<open>What an accepted manifest guarantees\<close>

lemma violation_if_Nil [simp]: "violation_if c rule path = [] \<longleftrightarrow> \<not> c"
  by (simp add: violation_if_def)

lemma gather_Nil: "gather f xs = [] \<longleftrightarrow> (\<forall>i < length xs. f i (xs ! i) = [])"
proof -
  have "map2 f [0 ..< length xs] xs = map (\<lambda>i. f i (xs ! i)) [0 ..< length xs]"
    by (rule nth_equalityI) simp_all
  then show ?thesis by (auto simp: gather_def)
qed

lemma gather_all: "(\<And>i x. f i x = [] \<longleftrightarrow> P x) \<Longrightarrow> gather f xs = [] \<longleftrightarrow> (\<forall>x \<in> set xs. P x)"
  by (simp add: gather_Nil all_set_conv_all_nth)

subsection \<open>The reference definition\<close>

text \<open>
  The region of a zone: the text before its last hyphen, which is empty for a zone without one.
\<close>

definition region_of :: "string \<Rightarrow> string \<Rightarrow> bool" where
  "region_of zone region \<longleftrightarrow>
     CHR ''-'' \<notin> set zone \<and> region = [] \<or>
     (\<exists>rest. CHR ''-'' \<notin> set rest \<and> zone = region @ ''-'' @ rest)"

text \<open>Every region that a manifest puts data in: of its zones, its members, replicas and backups.\<close>

definition data_regions :: "manifestPolicyWire \<Rightarrow> string set" where
  "data_regions m =
     {mw_Region m, mw_HomeRegion m} \<union> set (mw_EscrowRegions m) \<union> set (mw_ReplicationRegions m) \<union>
     {region. \<exists>zone \<in> {mw_Zone m} \<union> set (mw_HostMembers m) \<union> set (mw_ReplicaZones m) \<union>
        fst ` set (mw_TopologyMembers m). region_of zone region}"

text \<open>
  The number of seconds that a duration writes: digits in positional notation and a unit, with an optional
  sign, which is a minus only before zero.
\<close>

definition decimal_number :: "string \<Rightarrow> int" where
  "decimal_number ds = (\<Sum>i < length ds. (of_char (ds ! i) - of_char CHR ''0'') * 10 ^ (length ds - 1 - i))"

definition duration_text :: "string \<Rightarrow> int \<Rightarrow> bool" where
  "duration_text s seconds \<longleftrightarrow>
     (\<exists>sign ds u k. s = sign @ ds @ [u] \<and> sign \<in> {[], ''+'', ''-''} \<and> ds \<noteq> [] \<and> set ds \<subseteq> set ''0123456789'' \<and>
        (u, k) \<in> {(CHR ''s'', 1), (CHR ''m'', 60), (CHR ''h'', 3600), (CHR ''d'', 86400)} \<and>
        seconds = decimal_number ds * k \<and> (sign = ''-'' \<longrightarrow> decimal_number ds = 0))"

text \<open>The private address blocks of RFC 1918: 10.0.0.0/8, 172.16.0.0/12 and 192.168.0.0/16.\<close>

definition private_blocks :: "ipv4 set set" where
  "private_blocks = {{a. drop_bit 24 a = 10}, {a. drop_bit 20 a = 172 * 16 + 1}, {a. drop_bit 16 a = 192 * 256 + 168}}"

text \<open>
  The addresses of a private network that is written with its lowest address and lies within one block;
  none for any other text.
\<close>

definition private_network :: "string \<Rightarrow> ipv4 set" where
  "private_network cidr =
     (case parse_prefix cidr of
        None \<Rightarrow> {}
      | Some (base, bits) \<Rightarrow>
          let network = {a. drop_bit (32 - bits) a = drop_bit (32 - bits) base}
          in if (\<forall>a \<in> network. base \<le> a) \<and> (\<exists>block \<in> private_blocks. network \<subseteq> block) then network else {})"

definition account_of :: "string \<Rightarrow> string \<Rightarrow> bool" where
  "account_of project account \<longleftrightarrow>
     CHR ''@'' \<notin> set project \<and>
     (\<exists>name. name \<noteq> [] \<and> account = name @ ''@'' @ project @ ''.iam.gserviceaccount.com'')"

definition manifest_policy_ok :: "manifestPolicyWire \<Rightarrow> bool" where
  "manifest_policy_ok m \<longleftrightarrow>
     (\<exists>coolingOff planValidity.
        duration_text (mw_CoolingOff m) coolingOff \<and> duration_text (mw_PlanValidity m) planValidity \<and>
        (mw_Class m = EnvironmentProduction \<and> \<not> mw_Acknowledged m \<longrightarrow> 600 \<le> coolingOff) \<and>
        (mw_Class m = EnvironmentStaging \<and> \<not> mw_Acknowledged m \<longrightarrow> 300 \<le> coolingOff) \<and>
        coolingOff + 1800 \<le> planValidity) \<and>
     data_regions m \<subseteq> set (mw_Residency m) \<and> region_of (mw_Zone m) (mw_Region m) \<and>
     (\<forall>(zone, region) \<in> set (mw_TopologyMembers m). region \<noteq> [] \<longrightarrow> region_of zone region) \<and>
     mw_VerificationVPC m = mw_Network m \<and> mw_VerificationTag m \<noteq> mw_NetworkTag m \<and>
     mw_VerificationTag m \<notin> \<Union> (set ` set (mw_ProfileSources m)) \<and>
     private_network (mw_VerificationCIDR m) \<noteq> {} \<and>
     (\<forall>cidr. mw_TestCIDR m = Some cidr \<longrightarrow>
        private_network cidr \<noteq> {} \<and> private_network cidr \<inter> private_network (mw_VerificationCIDR m) = {}) \<and>
     account_of (mw_Project m) (mw_HostServiceAccount m) \<and>
     account_of (mw_Project m) (mw_TransferServiceAccount m) \<and>
     mw_HostServiceAccount m \<noteq> mw_TransferServiceAccount m"

subsection \<open>The rules one by one\<close>

lemma last_split: "c \<in> set s \<Longrightarrow> s = before_last c s @ c # after_last c s"
proof -
  assume "c \<in> set s"
  then have "dropWhile (\<lambda>x. x \<noteq> c) (rev s) \<noteq> []" by (simp add: dropWhile_eq_Nil_conv)
  then obtain d where "dropWhile (\<lambda>x. x \<noteq> c) (rev s) = c # d"
    by (metis (mono_tags, lifting) hd_dropWhile list.exhaust_sel)
  moreover have "rev s = takeWhile (\<lambda>x. x \<noteq> c) (rev s) @ dropWhile (\<lambda>x. x \<noteq> c) (rev s)" by simp
  ultimately show ?thesis
    unfolding before_last_def after_last_def by (metis append_Cons append_Nil append_assoc drop0 drop_Suc_Cons One_nat_def rev.simps(2) rev_append rev_rev_ident)
qed

lemma split_last:
  assumes "c \<notin> set t"
  shows "before_last c (s @ c # t) = s \<and> after_last c (s @ c # t) = t"
proof -
  have free: "x \<noteq> c" if "x \<in> set (rev t)" for x using assms that by auto
  then have "dropWhile (\<lambda>x. x \<noteq> c) (rev t @ c # rev s) = c # rev s"
    "takeWhile (\<lambda>x. x \<noteq> c) (rev t @ c # rev s) = rev t"
    by (simp_all only: dropWhile_append2 [of "rev t" "\<lambda>x. x \<noteq> c", OF free] takeWhile_append2 [of "rev t" "\<lambda>x. x \<noteq> c", OF free])
      simp_all
  then show ?thesis by (simp add: before_last_def after_last_def)
qed

lemma after_last_free: "c \<notin> set (after_last c s)"
  by (auto simp: after_last_def dest: set_takeWhileD)

lemma before_last_none: "c \<notin> set s \<Longrightarrow> before_last c s = []"
proof -
  assume "c \<notin> set s"
  then have none: "dropWhile (\<lambda>x. x \<noteq> c) (rev s) = []" by (auto simp: dropWhile_eq_Nil_conv)
  show ?thesis by (simp only: before_last_def none) simp
qed

lemma region_of_iff: "region_of zone region \<longleftrightarrow> region = regionFromZone zone"
proof (cases "CHR ''-'' \<in> set zone")
  case True
  then show ?thesis
    using last_split [OF True] after_last_free [of "CHR ''-''" zone]
    by (auto simp: region_of_def regionFromZone_def split_last intro!: exI [of _ "after_last CHR ''-'' zone"])
next
  case False
  then show ?thesis by (auto simp: region_of_def regionFromZone_def before_last_none)
qed

lemma decimal_number_snoc: "decimal_number (ds @ [c]) = decimal_number ds * 10 + (of_char c - of_char CHR ''0'')"
proof -
  have "(\<Sum>i < length ds. (of_char ((ds @ [c]) ! i) - of_char CHR ''0'') * 10 ^ (length ds - i)) =
      (\<Sum>i < length ds. (of_char (ds ! i) - of_char CHR ''0'') * 10 ^ (length ds - 1 - i) * (10 :: int))"
  proof (rule sum.cong)
    fix i assume "i \<in> {..<length ds}"
    then have "length ds - i = Suc (length ds - 1 - i)" "(ds @ [c]) ! i = ds ! i" by (auto simp: nth_append)
    then show "(of_char ((ds @ [c]) ! i) - of_char CHR ''0'') * 10 ^ (length ds - i) =
        (of_char (ds ! i) - of_char CHR ''0'') * 10 ^ (length ds - 1 - i) * (10 :: int)" by simp
  qed simp
  then show ?thesis by (simp add: decimal_number_def sum_distrib_right)
qed

lemma digits_value_decimal: "digits_value ds = decimal_number ds"
  by (induction ds rule: rev_induct)
    (simp add: decimal_number_def digits_value_def, simp add: decimal_number_snoc digits_value_def byte_def of_nat_of_char)

lemma digits_int_Some:
  "digits_int ds = Some n \<longleftrightarrow> ds \<noteq> [] \<and> set ds \<subseteq> set ''0123456789'' \<and> n = decimal_number ds"
proof -
  have "list_all is_digit ds \<longleftrightarrow> set ds \<subseteq> set ''0123456789''"
    unfolding list_all_iff is_digit_def digits_def by blast
  then show ?thesis by (auto simp: digits_int_def digits_value_decimal)
qed

lemma decimal_number_nonneg: "set ds \<subseteq> set ''0123456789'' \<Longrightarrow> 0 \<le> decimal_number ds"
proof (induction ds rule: rev_induct)
  case (snoc d ds)
  then have "d \<in> set ''0123456789''" by simp
  then have "of_char CHR ''0'' \<le> (of_char d :: int)" by auto
  with snoc show ?case by (simp add: decimal_number_snoc)
qed (simp add: decimal_number_def)

lemma big_int_Some:
  "big_int s = Some n \<longleftrightarrow> (\<exists>sign ds. s = sign @ ds \<and> sign \<in> {[], ''+'', ''-''} \<and> ds \<noteq> [] \<and>
     set ds \<subseteq> set ''0123456789'' \<and> n = (if sign = ''-'' then - decimal_number ds else decimal_number ds))"
    (is "_ = ?text")
proof
  assume b: "big_int s = Some n"
  show ?text
  proof (cases s)
    case (Cons c ds)
    consider "c = CHR ''-''" | "c = CHR ''+''" | "c \<noteq> CHR ''-''" "c \<noteq> CHR ''+''" by blast
    then show ?thesis
    proof cases
      case 1
      with b Cons show ?thesis
        by (intro exI [of _ "''-''"] exI [of _ ds]) (auto simp: big_int_def digits_int_Some)
    next
      case 2
      with b Cons show ?thesis
        by (intro exI [of _ "''+''"] exI [of _ ds]) (auto simp: big_int_def digits_int_Some)
    next
      case 3
      with b Cons show ?thesis
        by (intro exI [of _ "[]"] exI [of _ s]) (simp add: big_int_def digits_int_Some)
    qed
  qed (use b in \<open>simp add: big_int_def digits_int_def\<close>)
next
  assume ?text
  then obtain sign ds where t: "s = sign @ ds" "sign \<in> {[], ''+'', ''-''}" "ds \<noteq> []"
    "set ds \<subseteq> set ''0123456789''" "n = (if sign = ''-'' then - decimal_number ds else decimal_number ds)" by blast
  then have digits: "digits_int ds = Some (decimal_number ds)" by (simp add: digits_int_Some)
  from t(3) obtain c cs where ds: "ds = c # cs" by (cases ds) auto
  with t(4) have "c \<noteq> CHR ''-''" "c \<noteq> CHR ''+''" by auto
  then show "big_int s = Some n" using t(1,2,5) digits ds by (auto simp: big_int_def)
qed

lemma duration_unit_Some:
  "duration_unit u = Some k \<longleftrightarrow> (u, k) \<in> {(CHR ''s'', 1), (CHR ''m'', 60), (CHR ''h'', 3600), (CHR ''d'', 86400)}"
  by (auto simp: duration_unit_def)

lemma duration_text_iff: "durationSeconds s = Some n \<longleftrightarrow> duration_text s n"
proof
  assume d: "durationSeconds s = Some n"
  then obtain k v where k: "duration_unit (last s) = Some k" and v: "big_int (butlast s) = Some v"
    and n: "\<not> v < 0" "n = v * k"
    by (auto simp: durationSeconds_def split: if_splits option.splits)
  from d have "s \<noteq> []" by (auto simp: durationSeconds_def)
  then have s: "s = butlast s @ [last s]" by simp
  from v obtain sign ds where t: "butlast s = sign @ ds" "sign \<in> {[], ''+'', ''-''}" "ds \<noteq> []"
    "set ds \<subseteq> set ''0123456789''" "v = (if sign = ''-'' then - decimal_number ds else decimal_number ds)"
    unfolding big_int_Some by blast
  then have "sign = ''-'' \<longrightarrow> decimal_number ds = 0" using n(1) decimal_number_nonneg [of ds] by auto
  moreover from this have "n = decimal_number ds * k" using n(2) t(5) by auto
  moreover have "s = sign @ ds @ [last s]" using s t(1) by (metis append_assoc)
  ultimately show "duration_text s n" unfolding duration_text_def duration_unit_Some [symmetric] using t(2-4) k by blast
next
  assume "duration_text s n"
  then obtain sign ds u k where t: "s = sign @ ds @ [u]" "sign \<in> {[], ''+'', ''-''}" "ds \<noteq> []"
    "set ds \<subseteq> set ''0123456789''" "duration_unit u = Some k" "n = decimal_number ds * k"
    "sign = ''-'' \<longrightarrow> decimal_number ds = 0"
    unfolding duration_text_def duration_unit_Some by blast
  then have "big_int (sign @ ds) = Some (decimal_number ds)"
    unfolding big_int_Some by (intro exI [of _ sign] exI [of _ ds]) auto
  moreover have "butlast s = sign @ ds" "last s = u" "2 \<le> length s" using t(1,3) by (auto simp: butlast_append Suc_le_eq)
  ultimately show "durationSeconds s = Some n"
    using t(5,6) decimal_number_nonneg [OF t(4)] by (simp add: durationSeconds_def)
qed

text \<open>A prefix is written with its lowest address exactly when it is masked.\<close>

lemma lowest_address: "push_bit n (drop_bit n a) \<le> (a :: ipv4)"
proof -
  have "push_bit n (drop_bit n a) = and a (push_bit n (drop_bit n a))"
    by (rule bit_eqI) (auto simp: bit_simps)
  then show ?thesis using word_and_le2 [of a "push_bit n (drop_bit n a)"] by metis
qed

lemma masked_least:
  "(\<forall>a \<in> {a. drop_bit n a = drop_bit n base}. base \<le> a) \<longleftrightarrow> push_bit n (drop_bit n base) = (base :: ipv4)"
proof
  have "drop_bit n (push_bit n (drop_bit n base)) = drop_bit n base"
    by (rule bit_eqI) (auto simp: bit_simps dest: bit_imp_le_length)
  moreover assume "\<forall>a \<in> {a. drop_bit n a = drop_bit n base}. base \<le> a"
  ultimately have "base \<le> push_bit n (drop_bit n base)" by simp
  then show "push_bit n (drop_bit n base) = base" using lowest_address [of n base] by simp
next
  assume base: "push_bit n (drop_bit n base) = base"
  show "\<forall>a \<in> {a. drop_bit n a = drop_bit n base}. base \<le> a"
  proof
    fix a :: ipv4
    assume "a \<in> {a. drop_bit n a = drop_bit n base}"
    then show "base \<le> a" using lowest_address [of n a] base by simp
  qed
qed

text \<open>A network lies in the block of a shorter prefix exactly when its lowest address does.\<close>

lemma network_in_block:
  assumes "m \<le> 32" "n \<le> 32" "0 < m"
  shows "{a. drop_bit n a = drop_bit n base} \<subseteq> {a :: ipv4. drop_bit m a = drop_bit m block} \<longleftrightarrow>
    n \<le> m \<and> drop_bit m base = drop_bit m block"
proof
  assume sub: "{a. drop_bit n a = drop_bit n base} \<subseteq> {a. drop_bit m a = drop_bit m block}"
  then have same: "drop_bit m base = drop_bit m block" by blast
  moreover have "n \<le> m"
  proof (rule ccontr)
    assume "\<not> n \<le> m"
    then have m: "m < n" "m < 32" using assms by auto
    then have "drop_bit n (flip_bit m base) = drop_bit n base"
      by (intro bit_eqI) (auto simp: bit_simps dest: bit_imp_le_length)
    with sub have "drop_bit m (flip_bit m base) = drop_bit m base" using same by auto
    then have "bit (drop_bit m (flip_bit m base)) 0 = bit (drop_bit m base) 0" by simp
    with m(2) show False by (simp add: bit_simps)
  qed
  ultimately show "n \<le> m \<and> drop_bit m base = drop_bit m block" by blast
next
  assume le: "n \<le> m \<and> drop_bit m base = drop_bit m block"
  show "{a. drop_bit n a = drop_bit n base} \<subseteq> {a. drop_bit m a = drop_bit m block}"
  proof safe
    fix a :: ipv4 assume "drop_bit n a = drop_bit n base"
    then have "drop_bit (m - n) (drop_bit n a) = drop_bit (m - n) (drop_bit n base)" by simp
    then show "drop_bit m a = drop_bit m block" using le by simp
  qed
qed

lemma private_network_prefix:
  "private_network cidr = (case canonicalPrivateIPv4Prefix cidr of None \<Rightarrow> {} | Some p \<Rightarrow> {a. prefix_Contains p a})"
proof (cases "parse_prefix cidr")
  case None
  then show ?thesis by (simp add: private_network_def canonicalPrivateIPv4Prefix_def)
next
  case (Some p)
  obtain base bits where p: "p = (base, bits)" by (cases p)
  have bits: "bits \<le> 32"
    using Some p by (auto simp: parse_prefix_def decimal_field_def split: list.splits option.splits if_splits)
  let ?network = "{a. drop_bit (32 - bits) a = drop_bit (32 - bits) base}"
  have block: "?network \<subseteq> {a. drop_bit (32 - r) a = drop_bit (32 - r) block} \<longleftrightarrow>
      r \<le> bits \<and> prefix_Contains (block, r) base" if "r < 32" for r and block :: ipv4
    using network_in_block [of "32 - r" "32 - bits" base block] that bits
    by (auto simp: prefix_Contains_def)
  have "(\<exists>block \<in> private_blocks. ?network \<subseteq> block) \<longleftrightarrow>
      list_ex (\<lambda>r. snd p \<ge> snd r \<and> prefix_Contains r (fst p)) [(0x0A000000, 8), (0xAC100000, 12), (0xC0A80000, 16)]"
    using block [of 8 "0x0A000000"] block [of 12 "0xAC100000"] block [of 16 "0xC0A80000"]
    by (simp add: private_blocks_def p)
  then show ?thesis
    using masked_least [of "32 - bits" base]
    by (auto simp: private_network_def canonicalPrivateIPv4Prefix_def Some p Let_def prefix_Masked_def prefix_Contains_def)
qed

lemma private_network_empty: "private_network cidr = {} \<longleftrightarrow> canonicalPrivateIPv4Prefix cidr = None"
  by (auto simp: private_network_prefix prefix_Contains_def split: option.splits)

lemma class_policy_Nil:
  "validateClassPolicy m = [] \<longleftrightarrow>
     (\<exists>coolingOff planValidity.
        duration_text (mw_CoolingOff m) coolingOff \<and> duration_text (mw_PlanValidity m) planValidity \<and>
        (mw_Class m = EnvironmentProduction \<and> \<not> mw_Acknowledged m \<longrightarrow> 600 \<le> coolingOff) \<and>
        (mw_Class m = EnvironmentStaging \<and> \<not> mw_Acknowledged m \<longrightarrow> 300 \<le> coolingOff) \<and>
        coolingOff + 1800 \<le> planValidity)"
proof -
  have "0 \<le> n" if "durationSeconds s = Some n" for s n
    using that by (auto simp: durationSeconds_def duration_unit_def split: option.splits if_splits)
  then show ?thesis
    unfolding duration_text_iff [symmetric]
    by (auto simp: validateClassPolicy_def classCoolingOffSeconds_def not_less split: option.splits)
qed

lemma require_Nil [simp]:
  "requireRegion allowed r path = [] \<longleftrightarrow> r \<in> set allowed"
  "requireZoneRegion allowed z path = [] \<longleftrightarrow> regionFromZone z \<in> set allowed"
  by (simp_all add: requireRegion_def requireZoneRegion_def)

lemma topology_Nil:
  "topology_member allowed i member = [] \<longleftrightarrow>
     regionFromZone (fst member) \<in> set allowed \<and> (snd member \<noteq> [] \<longrightarrow> snd member = regionFromZone (fst member))"
  by (auto simp: topology_member_def Let_def)

lemma data_regions_zones:
  "data_regions m =
     {mw_Region m, mw_HomeRegion m} \<union> set (mw_EscrowRegions m) \<union> set (mw_ReplicationRegions m) \<union>
     regionFromZone ` ({mw_Zone m} \<union> set (mw_HostMembers m) \<union> set (mw_ReplicaZones m) \<union>
       fst ` set (mw_TopologyMembers m))"
  unfolding data_regions_def region_of_iff by blast

lemma residency_Nil:
  "validateResidencyPolicy m = [] \<longleftrightarrow>
     data_regions m \<subseteq> set (mw_Residency m) \<and> region_of (mw_Zone m) (mw_Region m) \<and>
     (\<forall>(zone, region) \<in> set (mw_TopologyMembers m). region \<noteq> [] \<longrightarrow> region_of zone region)"
proof -
  let ?ok = "\<lambda>r. r \<in> set (mw_Residency m)"
  have zones: "gather (\<lambda>i z. requireZoneRegion (mw_Residency m) z (p i)) xs = [] \<longleftrightarrow>
      (\<forall>z \<in> set xs. ?ok (regionFromZone z))" for p xs by (rule gather_all) simp
  have regions: "gather (\<lambda>i r. requireRegion (mw_Residency m) r (p i)) xs = [] \<longleftrightarrow> (\<forall>r \<in> set xs. ?ok r)" for p xs
    by (rule gather_all) simp
  have members: "gather (topology_member (mw_Residency m)) xs = [] \<longleftrightarrow>
      (\<forall>z \<in> set xs. ?ok (regionFromZone (fst z)) \<and> (snd z \<noteq> [] \<longrightarrow> snd z = regionFromZone (fst z)))" for xs
    by (rule gather_all) (rule topology_Nil)
  show ?thesis
    unfolding validateResidencyPolicy_def Let_def append_is_Nil_conv zones regions members data_regions_zones
      require_Nil violation_if_Nil region_of_iff by (auto simp: split_beta image_subset_iff Ball_def)
qed

lemma tag_sources_Nil: "tag_sources tag i sources = [] \<longleftrightarrow> tag \<notin> set sources"
proof -
  have "tag_sources tag i sources = [] \<longleftrightarrow> (\<forall>v \<in> set sources. v \<noteq> tag)"
    unfolding tag_sources_def by (rule gather_all) simp
  then show ?thesis by auto
qed

lemma verification_Nil:
  "validateVerificationNetworkPolicy m = [] \<longleftrightarrow>
     mw_VerificationVPC m = mw_Network m \<and> mw_VerificationTag m \<noteq> mw_NetworkTag m \<and>
     mw_VerificationTag m \<notin> \<Union> (set ` set (mw_ProfileSources m)) \<and>
     private_network (mw_VerificationCIDR m) \<noteq> {} \<and>
     (\<forall>cidr. mw_TestCIDR m = Some cidr \<longrightarrow>
        private_network cidr \<noteq> {} \<and> private_network cidr \<inter> private_network (mw_VerificationCIDR m) = {})"
proof -
  have sources: "gather (tag_sources tag) xss = [] \<longleftrightarrow> tag \<notin> \<Union> (set ` set xss)" for tag xss
  proof -
    have "gather (tag_sources tag) xss = [] \<longleftrightarrow> (\<forall>xs \<in> set xss. tag \<notin> set xs)"
      by (rule gather_all) (rule tag_sources_Nil)
    then show ?thesis by simp
  qed
  have overlap: "config_prefixesOverlap p q \<longleftrightarrow> {a. prefix_Contains q a} \<inter> {a. prefix_Contains p a} \<noteq> {}" for p q
    using prefixesOverlap_iff [of p q] by (auto simp: config_prefixesOverlap_def prefixesOverlap_def)
  show ?thesis
    unfolding validateVerificationNetworkPolicy_def Let_def append_is_Nil_conv sources violation_if_Nil
      private_network_empty
    by (auto simp: overlap private_network_prefix split: option.splits)
qed

lemma belongs_iff: "serviceAccountBelongsToProject account project \<longleftrightarrow> account_of project account"
proof
  assume belongs: "serviceAccountBelongsToProject account project"
  let ?host = "after_last CHR ''@'' account"
  have "before_last CHR ''@'' account \<noteq> []" and host: "?host = project @ ''.iam.gserviceaccount.com''"
    using belongs by (auto simp: serviceAccountBelongsToProject_def Let_def has_suffix_iff trim_suffix_def split: if_splits)
  moreover from this have "CHR ''@'' \<in> set account" using before_last_none by metis
  moreover have "CHR ''@'' \<notin> set project" using after_last_free [of "CHR ''@''" account] host by auto
  ultimately show "account_of project account"
    unfolding account_of_def by (metis last_split append_Cons append_Nil)
next
  assume "account_of project account"
  then show "serviceAccountBelongsToProject account project"
    by (auto simp: account_of_def serviceAccountBelongsToProject_def Let_def split_last has_suffix_iff trim_suffix_def)
qed

lemma protection_Nil:
  "validateProtectionIdentityPolicy m = [] \<longleftrightarrow>
     account_of (mw_Project m) (mw_HostServiceAccount m) \<and>
     account_of (mw_Project m) (mw_TransferServiceAccount m) \<and>
     mw_HostServiceAccount m \<noteq> mw_TransferServiceAccount m"
  by (simp add: validateProtectionIdentityPolicy_def Let_def belongs_iff)

subsection \<open>The policy as a whole\<close>

lemma strictly_sorted: "sorted xs \<Longrightarrow> sorted_wrt (<) (remdups_adj xs)"
proof (induction xs rule: induct_list012)
  case (3 x y zs)
  then have IH: "sorted_wrt (<) (remdups_adj (y # zs))" and "x \<le> y" "\<forall>z \<in> set zs. y \<le> z" by auto
  moreover from this have "x \<noteq> y \<Longrightarrow> \<forall>z \<in> set (remdups_adj (y # zs)). x < z" by force
  ultimately show ?case by auto
qed simp_all

lemma manifest_policy_iff:
  "validateManifestPolicy unmarshal json = None \<longleftrightarrow> (\<exists>m. unmarshal json = Some m \<and> manifest_policy_ok m)"
proof (cases "unmarshal json")
  case None
  then show ?thesis by (simp add: validateManifestPolicy_def)
next
  case (Some m)
  have "manifest_violations m = [] \<longleftrightarrow> manifest_policy_ok m"
    unfolding manifest_violations_def append_is_Nil_conv class_policy_Nil residency_Nil verification_Nil protection_Nil
      manifest_policy_ok_def by (simp only: conj_assoc)
  then show ?thesis by (simp add: validateManifestPolicy_def Some Let_def)
qed

text \<open>
  C26. The manifest policy accepts exactly the manifests that its rules describe: a plan outlives its cooling-off
  period, which is that of its class unless the exception was acknowledged, by half an hour; every region that
  holds data is an allowed residency; the verification network, and the test network if there is one, are
  written with their lowest address and lie within one RFC 1918 block, they share no address, and the
  verification tag is nobody's source; and the host and transfer accounts are two accounts of the project.
\<close>

theorem manifest_policy_exact:
  "validateManifestPolicy unmarshal json = None \<longleftrightarrow> (\<exists>m. unmarshal json = Some m \<and> manifest_policy_ok m)"
  by (rule manifest_policy_iff)

text \<open>
  The report of a rejected manifest is canonical: it holds every violation exactly once, in strictly
  increasing order of rule and path, whatever the order in which the rules found them.
\<close>

theorem manifest_report_canonical:
  assumes "validateManifestPolicy unmarshal json = Some (ManifestPolicyError vs)"
  shows "\<exists>m. unmarshal json = Some m \<and> set vs = set (manifest_violations m) \<and> vs \<noteq> [] \<and> sorted_wrt (<) vs"
proof -
  obtain m where m: "unmarshal json = Some m" "manifest_violations m \<noteq> []"
    "vs = remdups_adj (sort (manifest_violations m))"
    using assms by (auto simp: validateManifestPolicy_def Let_def split: option.splits if_splits)
  have "sorted_wrt (<) vs" using m(3) by (simp add: strictly_sorted)
  moreover have "set vs = set (manifest_violations m)" using m(3) by simp
  ultimately show ?thesis using m(1,2) by auto
qed

end
