(* ===== verification/ConfigHarness.thy ===== *)
theory ConfigHarness
  imports ManifestGuarantees GeneratedResource
begin

section \<open>internal/config: the harness configuration (harness.go)\<close>

text \<open>
  The projection of a manifest that the bootstrap planner uses. It repeats the schema and the policy
  validation and then converts durations, the cost cap and the principals. The schema validator and the
  JSON decoder are third-party or standard library: \<open>schema_ok\<close>, \<open>unmarshal\<close> and \<open>decode\<close>. The anonymous
  structs of the wire are flattened; a \<open>json.Number\<close> is its text. Accessors are the record's selectors.
\<close>

definition TestRouterName :: string where "TestRouterName = ''ctrldb-test-router''"
definition microsPerUSD :: int where "microsPerUSD = 1000000"

record ManifestDocument =
  md_identity :: ManifestIdentity
  md_normalizedJSON :: string

record harnessTestWire =
  wt_NamePrefix :: string
  wt_Labels :: string_map
  wt_OperatorServiceAccount :: string
  wt_DestructiveServiceAccount :: string
  wt_CIPrincipal :: string
  wt_VPC :: string
  wt_Subnet :: string
  wt_CIDR :: string
  wt_NAT :: string
  wt_MaxMachineType :: string
  wt_MaxDiskGiB :: int
  wt_MaxInstances :: int
  wt_MaxLifetime :: string
  wt_MaxEstimatedUSDPerRun :: string

record harnessManifestWire =
  wh_APIVersion :: string
  wh_Kind :: string
  wh_Metadata :: ManifestMetadata
  wh_Project :: string
  wh_Region :: string
  wh_Zone :: string
  wh_Discovery :: string
  wh_HostProject :: "string option"
  wh_HostServiceAccount :: string
  wh_StateBucket :: string
  wh_AuditBucket :: string
  wh_ReconcilerEnabled :: bool
  wh_SchedulerJob :: string
  wh_RunJob :: string
  wh_ReconcilerServiceAccount :: string
  wh_ImageDigest :: string
  wh_PlanValidity :: string
  wh_TestIsolation :: "harnessTestWire option"

record HarnessCaps =
  kc_maxMachineType :: string
  kc_maxDiskGiB :: int
  kc_maxInstances :: int
  kc_maxLifetime :: int
  kc_maxEstimatedCostMicros :: int

record HarnessConfiguration =
  kf_identity :: ManifestIdentity
  kf_manifestHash :: string
  kf_project :: string
  kf_region :: string
  kf_zone :: string
  kf_controlBucket :: string
  kf_auditBucket :: string
  kf_namePrefix :: string
  kf_labels :: string_map
  kf_operatorPrincipal :: string
  kf_destructive :: string
  kf_vmPrincipal :: string
  kf_ciPrincipal :: string
  kf_vpc :: string
  kf_subnet :: string
  kf_cidr :: string
  kf_router :: string
  kf_nat :: string
  kf_wipeSchedulerJob :: string
  kf_wipeRunJob :: string
  kf_wipeServiceAccount :: string
  kf_imageDigest :: string
  kf_reconcilerEnabled :: bool
  kf_planValidity :: int
  kf_caps :: HarnessCaps

datatype harness_error = ErrInvalidHarnessConfiguration string

subsection \<open>Principals\<close>

text \<open>
  \<open>principal://iam.googleapis.com/projects/N/locations/global/workloadIdentityPools/P/subject/S\<close> or
  \<open>principalSet://\<close> with \<open>attribute.repository/O/R\<close>; \<open>S\<close> may contain slashes.
\<close>

definition project_number :: "string \<Rightarrow> bool" where
  "project_number s = (s \<noteq> [] \<and> list_all is_digit s \<and> hd s \<noteq> CHR ''0'')"

definition pool_name :: "string \<Rightarrow> bool" where
  "pool_name s =
     (s \<noteq> [] \<and> length s \<le> 32 \<and> list_all is_ident_char s \<and> hd s \<noteq> CHR ''-'' \<and> last s \<noteq> CHR ''-'')"

definition repository_word :: "string \<Rightarrow> bool" where
  "repository_word s = (s \<noteq> [] \<and> list_all (\<lambda>c. is_alnum c \<or> c \<in> set ''_.-'') s)"

definition pool_path :: "string list \<Rightarrow> bool" where
  "pool_path ws =
     (7 \<le> length ws \<and> ws ! 0 = ''projects'' \<and> project_number (ws ! 1) \<and> ws ! 2 = ''locations'' \<and>
      ws ! 3 = ''global'' \<and> ws ! 4 = ''workloadIdentityPools'' \<and> pool_name (ws ! 5))"

definition workloadIdentityPrincipalPattern :: "string \<Rightarrow> bool" where
  "workloadIdentityPrincipalPattern s =
     (let one = ''principal://iam.googleapis.com/''; many = ''principalSet://iam.googleapis.com/'' in
      if has_prefix s one then
        (let ws = split_on CHR ''/'' (drop (length one) s); subject = drop 7 ws in
         pool_path ws \<and> ws ! 6 = ''subject'' \<and> subject \<noteq> [] \<and> hd subject \<noteq> [] \<and> is_alnum (hd (hd subject)) \<and>
         list_all (list_all (\<lambda>c. is_alnum c \<or> c \<in> set ''._:@-'')) subject)
      else if has_prefix s many then
        (let ws = split_on CHR ''/'' (drop (length many) s) in
         length ws = 9 \<and> pool_path ws \<and> ws ! 6 = ''attribute.repository'' \<and>
         repository_word (ws ! 7) \<and> repository_word (ws ! 8))
      else False)"

definition ValidateHarnessPrincipalSet ::
  "string \<Rightarrow> string \<Rightarrow> string \<Rightarrow> string \<Rightarrow> string \<Rightarrow> string \<Rightarrow> harness_error option" where
  "ValidateHarnessPrincipalSet project operator destructive vm wipe ci =
     first_error
       [check_unique id
          (\<lambda>i account. fail_if (\<not> serviceAccountPattern account \<or> \<not> serviceAccountBelongsToProject account project)
             (ErrInvalidHarnessConfiguration
                ''harness service accounts must be canonical identities in the configured project''))
          (\<lambda>i account. ErrInvalidHarnessConfiguration ''harness service accounts must be distinct'')
          0 [] [operator, destructive, vm, wipe],
        fail_if (\<not> workloadIdentityPrincipalPattern ci)
          (ErrInvalidHarnessConfiguration
             ''CI principal must identify one canonical workload identity subject or repository'')]"

subsection \<open>The cost cap\<close>

text \<open>
  \<open>big.Rat.SetString\<close> on the text of a JSON number: \<open>m\<close> and \<open>e\<close> with the value \<open>m * 10 ^ e\<close>. An exponent
  beyond \<open>int64\<close> is an error; one beyond a million after the fraction is counted is refused unless \<open>m\<close> is 0.
\<close>

definition split_number :: "string \<Rightarrow> string \<times> string option" where
  "split_number s =
     (let mark = (\<lambda>c. c \<noteq> CHR ''e'' \<and> c \<noteq> CHR ''E'') in
      (takeWhile mark s, case dropWhile mark s of [] \<Rightarrow> None | c # rest \<Rightarrow> Some rest))"

definition fixed_point :: "string \<Rightarrow> (int \<times> nat) option" where
  "fixed_point s =
     (case split_on CHR ''.'' s of
        [whole] \<Rightarrow> map_option (\<lambda>m. (m, 0)) (digits_int whole)
      | [whole, fraction] \<Rightarrow>
          if digits_int whole = None \<or> digits_int fraction = None then None
          else map_option (\<lambda>m. (m, length fraction)) (digits_int (whole @ fraction))
      | _ \<Rightarrow> None)"

definition number_parts :: "string \<Rightarrow> (int \<times> int) option" where
  "number_parts s =
     (let minus = (s \<noteq> [] \<and> hd s = CHR ''-''); parts = split_number (if minus then tl s else s) in
      case (fixed_point (fst parts), case snd parts of None \<Rightarrow> Some 0 | Some e \<Rightarrow> big_int e) of
        (Some (m, places), Some exponent) \<Rightarrow>
          if \<not> is_int64 exponent then None
          else Some (if minus then - m else m, exponent - int places)
      | _ \<Rightarrow> None)"

definition usdNumberToMicrosCeiling :: "string \<Rightarrow> int option" where
  "usdNumberToMicrosCeiling s =
     (case number_parts s of
        None \<Rightarrow> None
      | Some (m, e) \<Rightarrow>
          if m < 0 \<or> m \<noteq> 0 \<and> 1000000 < \<bar>e\<bar> then None
          else
            (let numerator = m * microsPerUSD * 10 ^ nat e; denominator = 10 ^ nat (- e);
                 quotient = numerator div denominator;
                 micros = (if numerator mod denominator \<noteq> 0 then quotient + 1 else quotient)
             in if is_int64 micros then Some micros else None))"

subsection \<open>The projection\<close>

definition blank_text :: "string \<Rightarrow> bool" where
  "blank_text s = list_all unicode_IsSpace (runes (map byte s))"

definition maximumDurationSeconds :: int where
  "maximumDurationSeconds = max_int64 div second"

definition positive_duration :: "string \<Rightarrow> int option" where
  "positive_duration s =
     (case durationSeconds s of
        None \<Rightarrow> None
      | Some n \<Rightarrow> if n \<le> 0 \<or> maximumDurationSeconds < n then None else Some (n * second))"

definition required_values :: "harnessManifestWire \<Rightarrow> harnessTestWire \<Rightarrow> string list" where
  "required_values wire test =
     [me_Name (wh_Metadata wire), wh_Project wire, wh_Region wire, wh_Zone wire, wh_StateBucket wire,
      wh_AuditBucket wire, wt_NamePrefix test, wt_OperatorServiceAccount test, wt_DestructiveServiceAccount test,
      wh_HostServiceAccount wire, wt_VPC test, wt_Subnet test, wt_CIDR test, wt_NAT test, wh_SchedulerJob wire,
      wh_RunJob wire, wh_ReconcilerServiceAccount wire, wh_ImageDigest wire, wt_MaxMachineType test]"

definition harness_value_checks :: "harnessManifestWire \<Rightarrow> harnessTestWire \<Rightarrow> harness_error option list" where
  "harness_value_checks wire test =
     [fail_if (list_ex blank_text (required_values wire test))
        (ErrInvalidHarnessConfiguration ''required value is absent''),
      fail_if (wh_StateBucket wire = wh_AuditBucket wire)
        (ErrInvalidHarnessConfiguration ''control and audit buckets must be distinct''),
      fail_if (wt_MaxDiskGiB test \<le> 0 \<or> wt_MaxInstances test \<le> 0)
        (ErrInvalidHarnessConfiguration ''invalid numeric caps''),
      ValidateHarnessPrincipalSet (wh_Project wire) (wt_OperatorServiceAccount test)
        (wt_DestructiveServiceAccount test) (wh_HostServiceAccount wire) (wh_ReconcilerServiceAccount wire)
        (wt_CIPrincipal test),
      fail_if (\<not> environmentPattern (wt_Subnet test))
        (ErrInvalidHarnessConfiguration ''test subnet must be a provider-valid Compute resource name''),
      fail_if (\<not> wh_ReconcilerEnabled wire)
        (ErrInvalidHarnessConfiguration ''disposable harness requires the wipe reconciler'')]"

definition harness_configuration ::
  "string \<Rightarrow> harnessManifestWire \<Rightarrow> harnessTestWire \<Rightarrow> int \<Rightarrow> int \<Rightarrow> int \<Rightarrow> HarnessConfiguration" where
  "harness_configuration hash wire test lifetime planValidity costMicros =
     \<lparr>kf_identity = \<lparr>mi_APIVersion = wh_APIVersion wire, mi_Kind = wh_Kind wire, mi_Metadata = wh_Metadata wire\<rparr>,
      kf_manifestHash = hash, kf_project = wh_Project wire, kf_region = wh_Region wire, kf_zone = wh_Zone wire,
      kf_controlBucket = wh_StateBucket wire, kf_auditBucket = wh_AuditBucket wire,
      kf_namePrefix = wt_NamePrefix test, kf_labels = wt_Labels test,
      kf_operatorPrincipal = wt_OperatorServiceAccount test, kf_destructive = wt_DestructiveServiceAccount test,
      kf_vmPrincipal = wh_HostServiceAccount wire, kf_ciPrincipal = wt_CIPrincipal test,
      kf_vpc = wt_VPC test, kf_subnet = wt_Subnet test, kf_cidr = wt_CIDR test, kf_router = TestRouterName,
      kf_nat = wt_NAT test, kf_wipeSchedulerJob = wh_SchedulerJob wire, kf_wipeRunJob = wh_RunJob wire,
      kf_wipeServiceAccount = wh_ReconcilerServiceAccount wire, kf_imageDigest = wh_ImageDigest wire,
      kf_reconcilerEnabled = wh_ReconcilerEnabled wire, kf_planValidity = planValidity,
      kf_caps = \<lparr>kc_maxMachineType = wt_MaxMachineType test, kc_maxDiskGiB = wt_MaxDiskGiB test,
        kc_maxInstances = wt_MaxInstances test, kc_maxLifetime = lifetime, kc_maxEstimatedCostMicros = costMicros\<rparr>\<rparr>"

definition project_harness :: "string \<Rightarrow> harnessManifestWire \<Rightarrow> harness_error + HarnessConfiguration" where
  "project_harness hash wire =
     (if EnvironmentClass_string (me_Class (wh_Metadata wire)) \<noteq> TestEnvironmentLabel then
        Inl (ErrInvalidHarnessConfiguration ''disposable testIsolation manifest required'')
      else case wh_TestIsolation wire of
        None \<Rightarrow> Inl (ErrInvalidHarnessConfiguration ''disposable testIsolation manifest required'')
      | Some test \<Rightarrow>
          if wh_Discovery wire \<noteq> ''user'' then
            Inl (ErrInvalidHarnessConfiguration ''disposable harness discovery must use the human identity'')
          else if wh_HostProject wire \<noteq> None then
            Inl (ErrInvalidHarnessConfiguration ''shared VPC is unsupported'')
          else case positive_duration (wt_MaxLifetime test) of
            None \<Rightarrow> Inl (ErrInvalidHarnessConfiguration ''invalid test lifetime'')
          | Some lifetime \<Rightarrow>
              (case positive_duration (wh_PlanValidity wire) of
                 None \<Rightarrow> Inl (ErrInvalidHarnessConfiguration ''invalid plan validity'')
               | Some planValidity \<Rightarrow>
                   (case usdNumberToMicrosCeiling (wt_MaxEstimatedUSDPerRun test) of
                      None \<Rightarrow> Inl (ErrInvalidHarnessConfiguration ''invalid test cost cap'')
                    | Some costMicros \<Rightarrow>
                        check (first_error (harness_value_checks wire test))
                          (Inr (harness_configuration hash wire test lifetime planValidity costMicros)))))"

definition HarnessConfigurationFromManifest ::
  "(string \<Rightarrow> bool) \<Rightarrow> (string \<Rightarrow> manifestPolicyWire option) \<Rightarrow> (string \<Rightarrow> harnessManifestWire option) \<Rightarrow>
   (string \<Rightarrow> string) \<Rightarrow> ManifestDocument \<Rightarrow> harness_error + HarnessConfiguration" where
  "HarnessConfigurationFromManifest schema_ok unmarshal decode sha256hex document =
     (let json = md_normalizedJSON document in
      check (first_error
        [fail_if (\<not> schema_ok json)
           (ErrInvalidHarnessConfiguration ''manifest has not passed schema validation''),
         fail_if (validateManifestPolicy unmarshal json \<noteq> None)
           (ErrInvalidHarnessConfiguration ''manifest has not passed policy validation'')])
        (case decode json of
           None \<Rightarrow> Inl (ErrInvalidHarnessConfiguration ''manifest projection unavailable'')
         | Some wire \<Rightarrow> project_harness (sha256hex json) wire))"

end
