(* ===== verification/ConfigGuarantees.thy ===== *)
theory ConfigGuarantees
  imports ConfigHarness Complex_Main
begin

section \<open>What a harness configuration guarantees\<close>

subsection \<open>The cost cap\<close>

text \<open>The amount that a number text denotes.\<close>

definition amount_of :: "int \<times> int \<Rightarrow> rat" where
  "amount_of p = of_int (fst p) * 10 powi (snd p)"

lemma ceiling_quotient:
  "0 < b \<Longrightarrow> (if a mod b \<noteq> 0 then a div b + 1 else a div b) = \<lceil>of_int a / (of_int b :: rat)\<rceil>"
proof -
  have "\<lceil>of_int a / (of_int b :: rat)\<rceil> = - \<lfloor>of_int (- a) / (of_int b :: rat)\<rfloor>" by (simp add: ceiling_def)
  also have "\<dots> = - (- a div b)" by (simp only: floor_divide_of_int_eq)
  finally show "0 < b \<Longrightarrow> ?thesis" by (simp add: zdiv_zminus1_eq_if)
qed

lemma scaled_amount:
  "amount_of (m, e) * of_int k = of_int (m * k * 10 ^ nat e) / of_int (10 ^ nat (- e))"
  by (cases "0 \<le> e") (simp_all add: amount_of_def power_int_def field_simps)

text \<open>
  C27. The cost cap of a manifest is never lowered by the conversion and raised by less than a millionth of a
  dollar: it is the least whole number of micro-dollars that is not below the amount in the text,
  it is not negative, and it is an \<open>int64\<close>.
\<close>

theorem cost_cap_rounds_up:
  assumes "usdNumberToMicrosCeiling s = Some c"
  shows "\<exists>p. number_parts s = Some p \<and> c = \<lceil>amount_of p * 1000000\<rceil> \<and> 0 \<le> c \<and> c \<le> max_int64"
proof -
  obtain m e where p: "number_parts s = Some (m, e)" "0 \<le> m" "is_int64 c"
    and c: "c = (let a = m * microsPerUSD * 10 ^ nat e; b = 10 ^ nat (- e); q = a div b
      in if a mod b \<noteq> 0 then q + 1 else q)"
    using assms by (auto simp: usdNumberToMicrosCeiling_def Let_def split: option.splits if_splits)
  have "c = \<lceil>of_int (m * microsPerUSD * 10 ^ nat e) / (of_int (10 ^ nat (- e)) :: rat)\<rceil>"
    unfolding c Let_def by (rule ceiling_quotient) simp
  also have "\<dots> = \<lceil>amount_of (m, e) * of_int microsPerUSD\<rceil>" by (simp only: scaled_amount)
  finally have "c = \<lceil>amount_of (m, e) * 1000000\<rceil>" by (simp add: microsPerUSD_def)
  moreover have "0 \<le> amount_of (m, e) * 1000000" using p(2) by (simp add: amount_of_def)
  moreover from this have "0 \<le> \<lceil>amount_of (m, e) * 1000000\<rceil>" by linarith
  ultimately show ?thesis using p by (auto simp: is_int64_def)
qed

theorem cost_cap_rounds_up_witness:
  "usdNumberToMicrosCeiling ''1.25e-5'' = Some 13 \<and> (13 :: int) = \<lceil>amount_of (125, -7) * 1000000\<rceil>"
proof -
  have parts: "number_parts ''1.25e-5'' = Some (125, -7)"
    by (simp add: number_parts_def split_number_def fixed_point_def big_int_def digits_int_def char_class_defs
        digits_value_def byte_def int64_defs Let_def)
  then have c: "usdNumberToMicrosCeiling ''1.25e-5'' = Some 13"
    by (simp add: usdNumberToMicrosCeiling_def microsPerUSD_def int64_defs Let_def)
  show ?thesis using cost_cap_rounds_up [OF c] c by (simp add: parts)
qed

subsection \<open>The configuration\<close>

definition harness_accounts :: "HarnessConfiguration \<Rightarrow> string list" where
  "harness_accounts c = [kf_operatorPrincipal c, kf_destructive c, kf_vmPrincipal c, kf_wipeServiceAccount c]"

text \<open>A duration that is a positive whole number of seconds.\<close>

definition whole_seconds :: "int \<Rightarrow> bool" where
  "whole_seconds d \<longleftrightarrow> 0 < d \<and> d \<le> max_int64 \<and> second dvd d"

lemma positive_duration_whole: "positive_duration s = Some d \<Longrightarrow> whole_seconds d"
  by (auto simp: positive_duration_def whole_seconds_def maximumDurationSeconds_def duration_defs int64_defs
      split: option.splits if_splits)

lemma principal_set_None:
  "ValidateHarnessPrincipalSet project a b c d ci = None \<longleftrightarrow>
     distinct [a, b, c, d] \<and> (\<forall>x \<in> {a, b, c, d}. serviceAccountPattern x \<and> account_of project x) \<and>
     workloadIdentityPrincipalPattern ci"
  unfolding ValidateHarnessPrincipalSet_def first_error_Cons_None check_unique_None belongs_iff
  by (auto simp: All_less_Suc)

lemma project_harness_Inr:
  "project_harness hash wire = Inr c \<longleftrightarrow>
     (\<exists>test lifetime validity micros.
        EnvironmentClass_string (me_Class (wh_Metadata wire)) = TestEnvironmentLabel \<and>
        wh_TestIsolation wire = Some test \<and> wh_Discovery wire = ''user'' \<and> wh_HostProject wire = None \<and>
        positive_duration (wt_MaxLifetime test) = Some lifetime \<and>
        positive_duration (wh_PlanValidity wire) = Some validity \<and>
        usdNumberToMicrosCeiling (wt_MaxEstimatedUSDPerRun test) = Some micros \<and>
        first_error (harness_value_checks wire test) = None \<and>
        c = harness_configuration hash wire test lifetime validity micros)"
  by (auto simp: project_harness_def split: option.splits)

text \<open>
  C25. A harness configuration can only come from a manifest that passed the policy, and what it promises holds
  whatever the manifest was: the wipe reconciler runs, the four service accounts are different canonical
  accounts of the project, the CI principal is one workload identity, the two buckets differ, durations are
  positive whole seconds that fit an \<open>int64\<close>, the disk and instance caps are positive, the cost cap is not negative and the hash is that of
  the manifest.
\<close>

theorem configuration_promises:
  assumes "HarnessConfigurationFromManifest schema_ok unmarshal decode sha256hex document = Inr c"
  shows "(\<exists>m. unmarshal (md_normalizedJSON document) = Some m \<and> manifest_policy_ok m) \<and>
    kf_manifestHash c = sha256hex (md_normalizedJSON document) \<and>
    EnvironmentClass_string (me_Class (mi_Metadata (kf_identity c))) = ''disposable'' \<and>
    kf_reconcilerEnabled c \<and> distinct (harness_accounts c) \<and>
    {a. serviceAccountPattern a \<and> account_of (kf_project c) a} \<supseteq> set (harness_accounts c) \<and>
    workloadIdentityPrincipalPattern (kf_ciPrincipal c) \<and> kf_controlBucket c \<noteq> kf_auditBucket c \<and>
    environmentPattern (kf_subnet c) \<and> kf_router c = ''ctrldb-test-router'' \<and>
    whole_seconds (kf_planValidity c) \<and> whole_seconds (kc_maxLifetime (kf_caps c)) \<and>
    0 < kc_maxDiskGiB (kf_caps c) \<and> 0 < kc_maxInstances (kf_caps c) \<and> 0 \<le> kc_maxEstimatedCostMicros (kf_caps c)"
proof -
  obtain wire where wire: "decode (md_normalizedJSON document) = Some wire"
    "project_harness (sha256hex (md_normalizedJSON document)) wire = Inr c"
    "validateManifestPolicy unmarshal (md_normalizedJSON document) = None"
    using assms by (auto simp: HarnessConfigurationFromManifest_def Let_def split: option.splits)
  then obtain test lifetime validity micros where
    parts: "positive_duration (wt_MaxLifetime test) = Some lifetime"
      "positive_duration (wh_PlanValidity wire) = Some validity"
      "usdNumberToMicrosCeiling (wt_MaxEstimatedUSDPerRun test) = Some micros"
    and vals: "first_error (harness_value_checks wire test) = None"
    and disposable: "EnvironmentClass_string (me_Class (wh_Metadata wire)) = TestEnvironmentLabel"
    and c: "c = harness_configuration (sha256hex (md_normalizedJSON document)) wire test lifetime validity micros"
    by (auto simp: project_harness_Inr)
  have "0 \<le> micros" using cost_cap_rounds_up [OF parts(3)] by blast
  moreover have "whole_seconds lifetime" "whole_seconds validity" using parts by (auto intro: positive_duration_whole)
  ultimately show ?thesis
    using wire(3) vals disposable unfolding manifest_policy_iff harness_value_checks_def
    by (auto simp: c harness_configuration_def harness_accounts_def principal_set_None TestEnvironmentLabel_def
        TestRouterName_def not_le)
qed

subsection \<open>A concrete manifest\<close>

definition sample_account :: "string \<Rightarrow> string" where
  "sample_account name = name @ ''@project-1.iam.gserviceaccount.com''"

definition sample_ci :: string where
  "sample_ci =
     ''principalSet://iam.googleapis.com/projects/123/locations/global/workloadIdentityPools/ci/attribute.repository/org/repo''"

definition sample_policy_wire :: manifestPolicyWire where
  "sample_policy_wire =
     \<lparr>mw_Class = EnvironmentDisposable, mw_Project = ''project-1'', mw_Region = ''us-east1'', mw_Zone = ''us-east1-b'',
      mw_Network = ''default'', mw_NetworkTag = ''mongo'', mw_HostServiceAccount = sample_account ''machine'',
      mw_HostMembers = [''us-east1-b''], mw_ReplicaZones = [''us-east1-b'', ''us-east1-c''], mw_EscrowRegions = [''us-east1''],
      mw_HomeRegion = ''us-east1'', mw_TopologyMembers = [(''us-east1-b'', [])], mw_ReplicationRegions = [''us-east4''],
      mw_TransferServiceAccount = sample_account ''transfer'', mw_VerificationVPC = ''default'',
      mw_VerificationCIDR = ''10.80.0.0/24'', mw_VerificationTag = ''verify'', mw_ProfileSources = [[''office'']],
      mw_CoolingOff = ''0m'', mw_PlanValidity = ''1h'', mw_Acknowledged = False,
      mw_Residency = [''us-east1'', ''us-east4''], mw_TestCIDR = Some ''10.90.0.0/24''\<rparr>"

definition sample_test_wire :: harnessTestWire where
  "sample_test_wire =
     \<lparr>wt_NamePrefix = ''ctrldb-test-'', wt_Labels = fmap_of_list [(''managed-by'', ''ctrldb'')],
      wt_OperatorServiceAccount = sample_account ''operator'',
      wt_DestructiveServiceAccount = sample_account ''destroyer'', wt_CIPrincipal = sample_ci,
      wt_VPC = ''ctrldb-test-vpc'', wt_Subnet = ''ctrldb-test-subnet'', wt_CIDR = ''10.90.0.0/24'',
      wt_NAT = ''ctrldb-test-nat'', wt_MaxMachineType = ''e2-small'', wt_MaxDiskGiB = 20, wt_MaxInstances = 1,
      wt_MaxLifetime = ''1h'', wt_MaxEstimatedUSDPerRun = ''5''\<rparr>"

definition sample_harness_wire :: harnessManifestWire where
  "sample_harness_wire =
     \<lparr>wh_APIVersion = ManifestAPIVersion, wh_Kind = ManifestKind,
      wh_Metadata = \<lparr>me_Name = ''test-one'', me_Class = EnvironmentDisposable\<rparr>, wh_Project = ''project-1'',
      wh_Region = ''us-east1'', wh_Zone = ''us-east1-b'', wh_Discovery = ''user'', wh_HostProject = None,
      wh_HostServiceAccount = sample_account ''machine'', wh_StateBucket = ''state-bucket'',
      wh_AuditBucket = ''audit-bucket'', wh_ReconcilerEnabled = True, wh_SchedulerJob = ''wipe-nightly'',
      wh_RunJob = ''wipe-run'', wh_ReconcilerServiceAccount = sample_account ''reconciler'',
      wh_ImageDigest = ''sha256:'' @ replicate 64 CHR ''a'', wh_PlanValidity = ''1h'',
      wh_TestIsolation = Some sample_test_wire\<rparr>"

lemma account_parts:
  assumes "projectIDPattern name" and "CHR ''@'' \<notin> set name"
  shows "serviceAccountPattern (sample_account name)" and "account_of ''project-1'' (sample_account name)"
proof -
  have "split_on c (s @ c # t) = s # split_on c t" if "c \<notin> set s" for c s t
    using that by (induction s) auto
  then have split: "split_on CHR ''@'' (sample_account name) = [name, ''project-1.iam.gserviceaccount.com'']"
    using assms(2) by (simp add: sample_account_def)
  have "projectIDPattern ''project-1''" by (simp add: projectIDPattern_def char_class_defs)
  then show "serviceAccountPattern (sample_account name)"
    using assms(1) by (simp add: serviceAccountPattern_def split has_suffix_def trim_suffix_def)
  show "account_of ''project-1'' (sample_account name)"
    using assms(1) by (auto simp: account_of_def sample_account_def projectIDPattern_def)
qed

lemma sample_accounts_ok:
  "name \<in> {''operator'', ''destroyer'', ''machine'', ''reconciler'', ''transfer''} \<Longrightarrow>
     projectIDPattern name \<and> CHR ''@'' \<notin> set name"
  by (auto simp: projectIDPattern_def char_class_defs)

lemma sample_ci_ok: "workloadIdentityPrincipalPattern sample_ci"
  by (simp add: workloadIdentityPrincipalPattern_def sample_ci_def pool_path_def project_number_def pool_name_def
      repository_word_def char_class_defs is_ident_char_def)

lemma visible_not_blank: "s \<noteq> [] \<Longrightarrow> list_all (\<lambda>c. byte c < 128 \<and> 32 < byte c) s \<Longrightarrow> \<not> blank_text s"
proof -
  assume s: "s \<noteq> []" "list_all (\<lambda>c. byte c < 128 \<and> 32 < byte c) s"
  then have "runes (map byte s) = map byte s" by (intro runes_ascii) (auto simp: list_all_iff)
  then show ?thesis using s by (cases s) (auto simp: blank_text_def unicode_IsSpace_def)
qed

lemma sample_policy_accepted: "manifest_policy_ok sample_policy_wire"
proof -
  have prefixes: "canonicalPrivateIPv4Prefix ''10.80.0.0/24'' = Some (0x0A500000, 24)"
    "canonicalPrivateIPv4Prefix ''10.90.0.0/24'' = Some (0x0A5A0000, 24)"
    by (simp_all add: canonicalPrivateIPv4Prefix_def parse_prefix_def parse_ipv4_def decimal_field_def char_class_defs
        digits_value_def byte_def prefix_Masked_def prefix_Contains_def)
  have durations: "duration_text ''0m'' 0" "duration_text ''1h'' 3600"
    by (simp_all add: duration_text_iff [symmetric] durationSeconds_def duration_unit_def big_int_def digits_int_def char_class_defs digits_value_def
        byte_def)
  have regions: "data_regions sample_policy_wire \<subseteq> {''us-east1'', ''us-east4''}"
    by (simp add: data_regions_zones sample_policy_wire_def regionFromZone_def before_last_def)
  have "private_network ''10.90.0.0/24'' \<inter> private_network ''10.80.0.0/24'' = {}"
    by (auto simp: private_network_prefix prefixes prefix_Contains_def)
  moreover have "private_network ''10.90.0.0/24'' \<noteq> {}" "private_network ''10.80.0.0/24'' \<noteq> {}"
    by (simp_all add: private_network_empty prefixes)
  moreover have "account_of ''project-1'' (sample_account ''machine'')" "account_of ''project-1'' (sample_account ''transfer'')"
    using sample_accounts_ok account_parts(2) by blast+
  moreover have "\<exists>coolingOff planValidity. duration_text ''0m'' coolingOff \<and> duration_text ''1h'' planValidity \<and>
      coolingOff + 1800 \<le> planValidity"
    using durations by (intro exI [of _ 0] exI [of _ 3600]) simp
  ultimately show ?thesis
    using regions by (simp add: manifest_policy_ok_def sample_policy_wire_def region_of_iff
        regionFromZone_def before_last_def) (simp add: sample_account_def)
qed

definition sample_configuration :: "string \<Rightarrow> HarnessConfiguration" where
  "sample_configuration hash =
     harness_configuration hash sample_harness_wire sample_test_wire (3600 * second) (3600 * second) 5000000"

lemma sample_values: "first_error (harness_value_checks sample_harness_wire sample_test_wire) = None"
proof -
  have principals: "ValidateHarnessPrincipalSet ''project-1'' (sample_account ''operator'') (sample_account ''destroyer'')
      (sample_account ''machine'') (sample_account ''reconciler'') sample_ci = None"
  proof -
    have ok: "serviceAccountPattern (sample_account n) \<and> account_of ''project-1'' (sample_account n)"
      if "n \<in> {''operator'', ''destroyer'', ''machine'', ''reconciler'', ''transfer''}" for n
      using sample_accounts_ok [OF that] account_parts by blast
    have "distinct [sample_account ''operator'', sample_account ''destroyer'', sample_account ''machine'',
        sample_account ''reconciler'']" by (simp add: sample_account_def)
    then show ?thesis unfolding principal_set_None using ok sample_ci_ok by (simp only: ball_simps) simp
  qed
  have "\<not> list_ex blank_text (required_values sample_harness_wire sample_test_wire)"
    by (simp add: required_values_def sample_harness_wire_def sample_test_wire_def sample_account_def
        visible_not_blank byte_def)
  moreover have "environmentPattern ''ctrldb-test-subnet''"
    by (simp add: environmentPattern_def char_class_defs is_ident_char_def)
  ultimately show ?thesis
    unfolding harness_value_checks_def first_error_Cons_None
    by (simp add: sample_harness_wire_def sample_test_wire_def principals)
qed

lemma sample_projection:
  "HarnessConfigurationFromManifest (\<lambda>j. True) (\<lambda>j. Some sample_policy_wire) (\<lambda>j. Some sample_harness_wire) h
     document = Inr (sample_configuration (h (md_normalizedJSON document)))"
proof -
  have lifetime: "positive_duration ''1h'' = Some (3600 * second)"
    by (simp add: positive_duration_def durationSeconds_def duration_unit_def big_int_def digits_int_def char_class_defs
        digits_value_def byte_def maximumDurationSeconds_def duration_defs int64_defs)
  have cap: "usdNumberToMicrosCeiling ''5'' = Some 5000000"
    by (simp add: usdNumberToMicrosCeiling_def number_parts_def split_number_def fixed_point_def digits_int_def
        char_class_defs digits_value_def byte_def int64_defs microsPerUSD_def)
  have "validateManifestPolicy (\<lambda>j. Some sample_policy_wire) json = None" for json
    unfolding manifest_policy_iff using sample_policy_accepted by simp
  moreover have "project_harness hash sample_harness_wire = Inr (sample_configuration hash)" for hash
    unfolding project_harness_Inr using sample_values lifetime cap
    by (simp add: sample_configuration_def)
      (simp add: sample_harness_wire_def sample_test_wire_def TestEnvironmentLabel_def)
  ultimately show ?thesis by (simp add: HarnessConfigurationFromManifest_def Let_def)
qed

theorem configuration_promises_witness:
  "distinct (harness_accounts (sample_configuration ''h'')) \<and> whole_seconds (kf_planValidity (sample_configuration ''h''))"
  using configuration_promises [OF sample_projection [of "\<lambda>j. ''h''"
        "\<lparr>md_identity = \<lparr>mi_APIVersion = [], mi_Kind = [], mi_Metadata = \<lparr>me_Name = [], me_Class = EnvironmentDisposable\<rparr>\<rparr>,
          md_normalizedJSON = []\<rparr>"]] by blast

text \<open>A manifest whose backups leave the residency is rejected with the place of the violation.\<close>

theorem manifest_report_canonical_witness:
  "manifest_violations (sample_policy_wire\<lparr>mw_ReplicationRegions := [''eu-west1'']\<rparr>) \<noteq> []"
proof -
  let ?m = "sample_policy_wire\<lparr>mw_ReplicationRegions := [''eu-west1'']\<rparr>"
  have "\<not> manifest_policy_ok ?m"
    by (simp add: manifest_policy_ok_def data_regions_def sample_policy_wire_def)
  then have "validateManifestPolicy (\<lambda>j. Some ?m) [] \<noteq> None" unfolding manifest_policy_iff by simp
  then obtain vs where "validateManifestPolicy (\<lambda>j. Some ?m) [] = Some (ManifestPolicyError vs)"
    by (auto simp: validateManifestPolicy_def Let_def split: if_splits)
  from manifest_report_canonical [OF this] show ?thesis by auto
qed

end
