(* ===== verification/BootstrapDesired.thy ===== *)
theory BootstrapDesired
  imports BootstrapTypes ObservationPreflight JsonDocuments ConfigHarness
begin

section \<open>internal/isolation/bootstrap: what the bootstrap creates (compile.go)\<close>

text \<open>
  The desired state of the harness, the sixteen resources with the digest of their desired state, the
  collision test against a preflight, and the registry of the fourteen steps, transcribed row by row.
  \<open>compile_lib\<close> collects what the compiler calls outside this package: \<open>json.Marshal\<close> for each type it is
  used at, \<open>json.Unmarshal\<close> into an empty plan (\<open>lb_reread\<close>), SHA-256 in hexadecimal, and \<open>sanitize\<close>, which is \<open>redact.Sanitize\<close>. The functions that only copy are identities.
\<close>

datatype bootstrap_error =
    ErrInvalidCompileRequest string
  | ErrPlanBlocked string
  | ErrInvalidCompiledPlan string

definition PricingSchemaV1 :: string where "PricingSchemaV1 = ''ctrldb.ctrlboard.dev/pricing-evidence/v1''"
definition minimumPlanValidity :: int where "minimumPlanValidity = 30 * minute"
definition maximumPricingAge :: int where "maximumPricingAge = 31 * 24 * hour"
definition maximumExactMicros :: int where "maximumExactMicros = 9007199254740992"
definition iapFirewallName :: string where "iapFirewallName = ''ctrldb-test-iap-ssh''"
definition internalFirewallName :: string where "internalFirewallName = ''ctrldb-test-internal''"
definition testNodeTag :: string where "testNodeTag = ''ctrldb-test-node''"
definition operatorRoleName :: string where "operatorRoleName = ''ctrldbTestOperator''"
definition destructiveRoleName :: string where "destructiveRoleName = ''ctrldbTestDestructive''"
definition wipeScheduleUTC :: string where "wipeScheduleUTC = ''0 20 * * *''"

lemmas protocol_names = iapFirewallName_def internalFirewallName_def testNodeTag_def operatorRoleName_def
  destructiveRoleName_def wipeScheduleUTC_def

definition RequiredAPIs :: "string list" where
  "RequiredAPIs =
     [''artifactregistry.googleapis.com'', ''cloudresourcemanager.googleapis.com'', ''cloudscheduler.googleapis.com'',
      ''compute.googleapis.com'', ''iam.googleapis.com'', ''iamcredentials.googleapis.com'', ''run.googleapis.com'',
      ''secretmanager.googleapis.com'', ''serviceusage.googleapis.com'', ''storage.googleapis.com'']"

record CompileRequest =
  cq_Configuration :: HarnessConfiguration
  cq_Preflight :: HarnessPreflight
  cq_PlanID :: string
  cq_CreatedAt :: gotime
  cq_ExpiresAt :: gotime
  cq_LocalPolicyHash :: string
  cq_ApprovedPolicyHash :: string
  cq_Pricing :: PricingEvidence
  cq_Permissions :: PermissionEvidence

abbreviation request_payload :: "CompileRequest \<Rightarrow> preflightPayload" where
  "request_payload r \<equiv> hp_payload (cq_Preflight r)"

subsection \<open>Descriptors and the library\<close>

record resourceStateV1 =
  zs_Mode :: string
  zs_CIDR :: string
  zs_Labels :: string_map
  zs_Source :: string
  zs_Targets :: "string list"
  zs_Protocol :: string
  zs_Port :: int
  zs_ScheduleUTC :: string
  zs_ImageDigest :: string
  zs_Principal :: string
  zs_ControlPrefix :: string

record resourceDescriptor =
  zd_Resource :: DesiredResource
  zd_State :: resourceStateV1

text \<open>The anonymous struct that a step's fingerprint covers.\<close>

type_synonym step_document = "string \<times> IntentKind \<times> DesiredResource list \<times> BootstrapRunLimits"

record compile_lib =
  lb_sha256hex :: "string \<Rightarrow> string"
  lb_sanitize :: "string \<Rightarrow> string"
  lb_plan :: "Plan \<Rightarrow> string option"
  lb_reread :: "string \<Rightarrow> Plan"
  lb_contract :: "contract_payload \<Rightarrow> string option"
  lb_pricing :: "PricingEvidence \<Rightarrow> string option"
  lb_permissions :: "PermissionEvidence \<Rightarrow> string option"
  lb_descriptor :: "resourceDescriptor \<Rightarrow> string option"
  lb_step :: "step_document \<Rightarrow> string option"
  lb_binding :: "EnvelopeBinding \<Rightarrow> string option"
  lb_resources :: "DesiredResource list \<Rightarrow> string option"
  lb_labels :: "string_map \<Rightarrow> string option"
  lb_intents :: "StepIntent list \<Rightarrow> string option"
  lb_risks :: "RiskSummary \<Rightarrow> string option"
  lb_payload :: "compiledPayloadV1 \<Rightarrow> string option"
  lb_wire :: "compiledWireV1 json_codec"

definition hashJSON :: "compile_lib \<Rightarrow> ('a \<Rightarrow> string option) \<Rightarrow> 'a \<Rightarrow> string option" where
  "hashJSON L marshal v = map_option (lb_sha256hex L) (marshal v)"

definition equalCanonicalValue :: "('a \<Rightarrow> string option) \<Rightarrow> 'a \<Rightarrow> 'a \<Rightarrow> bool" where
  "equalCanonicalValue marshal left right = (marshal left \<noteq> None \<and> marshal left = marshal right)"

subsection \<open>The desired state\<close>

definition desiredState :: "CompileRequest \<Rightarrow> HarnessDesiredState" where
  "desiredState request =
     (let c = cq_Configuration request in
      \<lparr>ds_Account = pf_Account (request_payload request), ds_Project = kf_project c, ds_Region = kf_region c,
       ds_Zone = kf_zone c, ds_CIDR = kf_cidr c, ds_NamePrefix = kf_namePrefix c, ds_Labels = kf_labels c,
       ds_ControlBucket = kf_controlBucket c, ds_AuditBucket = kf_auditBucket c, ds_VPC = kf_vpc c,
       ds_Subnet = kf_subnet c, ds_Router = kf_router c, ds_NAT = kf_nat c, ds_IAPFirewall = iapFirewallName,
       ds_InternalFirewall = internalFirewallName, ds_NodeTag = testNodeTag,
       ds_OperatorPrincipal = kf_operatorPrincipal c, ds_DestructivePrincipal = kf_destructive c,
       ds_VMPrincipal = kf_vmPrincipal c, ds_WipePrincipal = kf_wipeServiceAccount c,
       ds_CIPrincipal = kf_ciPrincipal c, ds_OperatorRole = operatorRoleName, ds_DestructiveRole = destructiveRoleName,
       ds_WipeRunJob = kf_wipeRunJob c, ds_WipeSchedulerJob = kf_wipeSchedulerJob c, ds_WipeScheduleUTC = wipeScheduleUTC,
       ds_ImageDigest = kf_imageDigest c, ds_PlanValiditySeconds = kf_planValidity c div second\<rparr>)"

definition join_slash :: "string list \<Rightarrow> string" where
  "join_slash ws = (case ws of [] \<Rightarrow> [] | w # vs \<Rightarrow> w @ concat (map (\<lambda>v. CHR ''/'' # v) vs))"

definition provider :: "string \<Rightarrow> string list \<Rightarrow> string" where
  "provider project parts = join_slash ([''projects'', project] @ parts)"

definition resource ::
  "string \<Rightarrow> BootstrapResourceKind \<Rightarrow> string \<Rightarrow> string \<Rightarrow> string \<Rightarrow> string \<Rightarrow> string \<Rightarrow> DesiredResource" where
  "resource name_id kind name project location providerID parent =
     \<lparr>dr_ID = name_id, dr_Kind = kind, dr_Name = name, dr_Project = project, dr_Location = location,
      dr_ProviderID = providerID, dr_ParentProviderID = parent, dr_Permanence = PermanentSingleton,
      dr_DesiredStateFingerprint = []\<rparr>"

definition bare_resources :: "HarnessDesiredState \<Rightarrow> DesiredResource list" where
  "bare_resources d =
     (let project = ds_Project d; region = ds_Region d; at = provider project;
          bucket = BootstrapResourceKind_string ResourceBucket; job = BootstrapResourceKind_string ResourceRunJob;
          network = at [''global'', ''networks'', ds_VPC d];
          router = at [''regions'', region, ''routers'', ds_Router d];
          account = (\<lambda>i name. resource i ResourceServiceAccount name project ''global''
            (at [''serviceAccounts'', name]) []);
          role = (\<lambda>i name. resource i ResourceCustomRole name project ''global'' (at [''roles'', name]) []);
          firewall = (\<lambda>i name. resource i ResourceFirewall name project ''global''
            (at [''global'', ''firewalls'', name]) network)
      in
      [resource ''audit-bucket'' ResourceBucket (ds_AuditBucket d) project region
         (at [''global'', bucket, ds_AuditBucket d]) [],
       resource ''control-bucket'' ResourceBucket (ds_ControlBucket d) project region
         (at [''global'', bucket, ds_ControlBucket d]) [],
       resource ''test-network'' ResourceNetwork (ds_VPC d) project ''global'' network [],
       resource ''test-subnet'' ResourceSubnetwork (ds_Subnet d) project region
         (at [''regions'', region, ''subnetworks'', ds_Subnet d]) network,
       resource ''test-router'' ResourceRouter (ds_Router d) project region router network,
       resource ''test-nat'' ResourceNAT (ds_NAT d) project region
         (at [''regions'', region, ''routers'', ds_Router d, ''nats'', ds_NAT d]) router,
       firewall ''test-iap-firewall'' (ds_IAPFirewall d),
       firewall ''test-internal-firewall'' (ds_InternalFirewall d),
       account ''test-operator-sa'' (ds_OperatorPrincipal d),
       account ''test-destructive-sa'' (ds_DestructivePrincipal d),
       account ''test-vm-sa'' (ds_VMPrincipal d),
       account ''test-wipe-sa'' (ds_WipePrincipal d),
       role ''test-operator-role'' (ds_OperatorRole d),
       role ''test-destructive-role'' (ds_DestructiveRole d),
       resource ''test-wipe-job'' ResourceRunJob (ds_WipeRunJob d) project region
         (at [''regions'', region, job, ds_WipeRunJob d]) [],
       resource ''test-wipe-scheduler'' ResourceSchedulerJob (ds_WipeSchedulerJob d) project region
         (at [''locations'', region, ''jobs'', ds_WipeSchedulerJob d]) (at [''regions'', region, job, ds_WipeRunJob d])])"

definition desired_mode :: "string \<Rightarrow> DesiredResource \<Rightarrow> HarnessDesiredState \<Rightarrow> resourceStateV1 \<Rightarrow> resourceStateV1" where
  "desired_mode i r d st =
     (if i = ''audit-bucket'' then
        st\<lparr>zs_Mode := ''ubla-pap-standard-versioned-retention-365d-locked-archive-after-365d''\<rparr>
      else if i = ''control-bucket'' then st\<lparr>zs_Mode := ''ubla-pap-standard-versioned-soft-delete-30d''\<rparr>
      else if i = ''test-network'' then st\<lparr>zs_Mode := ''custom-subnet''\<rparr>
      else if i = ''test-subnet'' then st\<lparr>zs_Mode := ''private-google-access'', zs_CIDR := ds_CIDR d\<rparr>
      else if i = ''test-router'' then st\<lparr>zs_Mode := ''custom-network-router''\<rparr>
      else if i = ''test-nat'' then st\<lparr>zs_Mode := ''auto-ip-all-subnet-ranges''\<rparr>
      else if i = ''test-iap-firewall'' then
        st\<lparr>zs_Mode := ''ingress'', zs_Source := ''35.235.240.0/20'', zs_Targets := [ds_NodeTag d],
          zs_Protocol := ''tcp'', zs_Port := 22\<rparr>
      else if i = ''test-internal-firewall'' then
        st\<lparr>zs_Mode := ''ingress'', zs_Source := ds_NodeTag d, zs_Targets := [ds_NodeTag d],
          zs_Protocol := ''tcp'', zs_Port := 27017\<rparr>
      else if i \<in> set [''test-operator-sa'', ''test-destructive-sa'', ''test-vm-sa'', ''test-wipe-sa''] then
        st\<lparr>zs_Mode := ''no-keys'', zs_Principal := dr_Name r\<rparr>
      else if i = ''test-operator-role'' then st\<lparr>zs_Mode := ''closed-test-operator-capability''\<rparr>
      else if i = ''test-destructive-role'' then st\<lparr>zs_Mode := ''closed-test-destructive-capability''\<rparr>
      else if i = ''test-wipe-job'' then
        st\<lparr>zs_Mode := ''test-wipe'', zs_ImageDigest := ds_ImageDigest d, zs_Principal := ds_WipePrincipal d\<rparr>
      else if i = ''test-wipe-scheduler'' then
        st\<lparr>zs_Mode := ''run-jobs-v2-oauth'', zs_ScheduleUTC := ds_WipeScheduleUTC d,
          zs_Principal := ds_WipePrincipal d\<rparr>
      else st)"

definition desiredResourceDescriptor :: "DesiredResource \<Rightarrow> HarnessDesiredState \<Rightarrow> resourceDescriptor" where
  "desiredResourceDescriptor r d =
     (let blank = \<lparr>zs_Mode = [], zs_CIDR = [], zs_Labels = fmempty, zs_Source = [], zs_Targets = [],
          zs_Protocol = [], zs_Port = 0, zs_ScheduleUTC = [], zs_ImageDigest = [], zs_Principal = [],
          zs_ControlPrefix = []\<rparr>
      in \<lparr>zd_Resource = r\<lparr>dr_DesiredStateFingerprint := []\<rparr>,
          zd_State = (desired_mode (dr_ID r) r d blank)\<lparr>zs_ControlPrefix := ''test/''\<rparr>\<rparr>)"

fun map_result :: "('a \<Rightarrow> 'e + 'b) \<Rightarrow> 'a list \<Rightarrow> 'e + 'b list" where
  "map_result f [] = Inr []"
| "map_result f (x # xs) = bind_result (f x) (\<lambda>y. bind_result (map_result f xs) (\<lambda>ys. Inr (y # ys)))"

definition with_fingerprint ::
  "compile_lib \<Rightarrow> HarnessDesiredState \<Rightarrow> DesiredResource \<Rightarrow> unit + DesiredResource" where
  "with_fingerprint L d r =
     (case hashJSON L (lb_descriptor L) (desiredResourceDescriptor r d) of
        None \<Rightarrow> Inl ()
      | Some h \<Rightarrow> Inr (r\<lparr>dr_DesiredStateFingerprint := h\<rparr>))"

definition buildDesiredResources :: "compile_lib \<Rightarrow> HarnessDesiredState \<Rightarrow> unit + DesiredResource list" where
  "buildDesiredResources L d = map_result (with_fingerprint L d) (bare_resources d)"

subsection \<open>Collisions\<close>

text \<open>The text from the first \<open>projects\<close> segment that another segment follows.\<close>

fun from_projects :: "string list \<Rightarrow> string list option" where
  "from_projects (p # q # rest) = (if p = ''projects'' then Some (p # q # rest) else from_projects (q # rest))"
| "from_projects ws = None"

definition canonicalProviderID :: "string \<Rightarrow> string" where
  "canonicalProviderID v =
     (case from_projects (split_on CHR ''/'' v) of None \<Rightarrow> v | Some ws \<Rightarrow> join_slash ws)"

definition collision :: "ObservedResource \<Rightarrow> DesiredResource \<Rightarrow> bootstrap_error option" where
  "collision observed target =
     (if ObservedKind_string (ob_Kind observed) \<noteq> BootstrapResourceKind_string (dr_Kind target) \<or>
         ob_Name observed \<noteq> dr_Name target \<or> ob_Project observed \<noteq> dr_Project target then None
      else if dr_Kind target = ResourceBucket then Some (ErrPlanBlocked ''bucket collision'')
      else fail_if (ob_Location observed = dr_Location target \<and>
          canonicalProviderID (ob_ProviderID observed) = dr_ProviderID target)
        (ErrPlanBlocked ''desired target collision''))"

definition rejectTargetCollisions :: "HarnessPreflight \<Rightarrow> DesiredResource list \<Rightarrow> bootstrap_error option" where
  "rejectTargetCollisions preflight desired =
     first_error (concat (map (\<lambda>observed. map (collision observed) desired) (pf_Resources (hp_payload preflight))))"

definition desiredResourcesByID :: "DesiredResource list \<Rightarrow> string list \<Rightarrow> DesiredResource list option" where
  "desiredResourcesByID resources identifiers =
     (let matching = (\<lambda>identifier. filter (\<lambda>r. dr_ID r = identifier) resources) in
      if list_ex (\<lambda>identifier. length (matching identifier) \<noteq> 1) identifiers then None
      else Some (map (\<lambda>identifier. last (matching identifier)) identifiers))"

subsection \<open>The step registry\<close>

record stepDefinition =
  df_id :: string
  df_kind :: IntentKind
  df_identity :: ExecutionIdentity
  df_resourceIDs :: "string list"
  df_dependencies :: "string list"
  df_preconditions :: "string list"
  df_verification :: "string list"
  df_retry :: RetryPolicy
  df_timeoutSeconds :: int
  df_cancelSafe :: bool
  df_compensation :: string
  df_ponr :: PointOfNoReturnClass
  df_transition :: "HarnessTransition option"
  df_permissions :: "string list"
  df_summary :: string
  df_success :: string
  df_failure :: FailureBehavior

definition allPreconditions :: "string list" where
  "allPreconditions =
     [''manifest-bound'', ''provider-context-bound'', ''observation-fresh'', ''schemas-complete'', ''cidr-clear'',
      ''api-set-enabled'', ''no-public-mongodb'', ''machine-cap-resolved'', ''cost-cap-respected'',
      ''target-identities-absent'', ''bucket-conflict-guarded'', ''capability-set-closed'', ''permissions-proven'',
      ''pre-t8-admission'']"

definition retry_policy :: "32 word \<Rightarrow> int \<Rightarrow> int \<Rightarrow> RetryPolicy" where
  "retry_policy attempts initial maximum =
     \<lparr>rp_MaxAttempts = attempts, rp_InitialBackoffSeconds = initial, rp_MaxBackoffSeconds = maximum\<rparr>"

definition open_harness :: HarnessTransition where
  "open_harness =
     \<lparr>ht_FromBootstrapPhase = ''pending'', ht_FromTestUsability = ''unusable'',
      ht_ToBootstrapPhase = ''open'', ht_ToTestUsability = ''usable''\<rparr>"

definition stepRegistry :: "DesiredResource list \<Rightarrow> stepDefinition list" where
  "stepRegistry resources =
     (let retry3210 = retry_policy 3 2 10; retry3520 = retry_policy 3 5 20; retry5220 = retry_policy 5 2 20;
          retry3530 = retry_policy 3 5 30; once = retry_policy 1 0 0 in
     [
      \<lparr>df_id = ''k1-audit-bootstrap'', df_kind = IntentAuditBootstrap, df_identity = IdentityHuman,
         df_resourceIDs = [''audit-bucket''], df_dependencies = [], df_preconditions = allPreconditions,
         df_verification = [''envelope hash and server generation match'', ''archive lifecycle has no delete rule''],
         df_retry = retry3210, df_timeoutSeconds = 120, df_cancelSafe = True,
         df_compensation = ''before retention lock remove only an audit bucket created by this operation'',
         df_ponr = PONRReversible, df_transition = None, df_permissions = [''storage.buckets.create'',
         ''storage.buckets.get'', ''storage.objects.create'', ''storage.objects.get''],
         df_summary = ''create and verify the audit bootstrap handoff'',
         df_success = ''the exact envelope is durable and verified before retention is locked'',
         df_failure = FailurePause\<rparr>,
       \<lparr>df_id = ''k1-retention-lock'', df_kind = IntentAuditRetention, df_identity = IdentityHuman,
         df_resourceIDs = [''audit-bucket''], df_dependencies = [''k1-audit-bootstrap''],
         df_preconditions = allPreconditions, df_verification = [''retention is locked for 365 days'',
         ''archive lifecycle has no delete rule''], df_retry = retry3210, df_timeoutSeconds = 60,
         df_cancelSafe = False,
         df_compensation = ''after the retention-lock mutation is observed pause and preserve the permanent audit bucket'',
         df_ponr = PONRAuditRetentionLock, df_transition = None, df_permissions = [''storage.buckets.get'',
         ''storage.buckets.update''], df_summary = ''lock the verified audit bucket retention policy'',
         df_success = ''the compliant 365-day audit retention policy is irreversibly locked'',
         df_failure = FailurePause\<rparr>,
       \<lparr>df_id = ''k2-control-bucket'', df_kind = IntentControlBucket, df_identity = IdentityHuman,
         df_resourceIDs = [''control-bucket''], df_dependencies = [''k1-retention-lock''],
         df_preconditions = allPreconditions, df_verification = [''control bucket desired state matches exactly''],
         df_retry = retry3210, df_timeoutSeconds = 60, df_cancelSafe = True,
         df_compensation = ''remove only a preexisting-empty control bucket created by this operation before durable state is written'',
         df_ponr = PONRReversible, df_transition = None, df_permissions = [''storage.buckets.create'',
         ''storage.buckets.get'', ''storage.buckets.update''],
         df_summary = ''create the permanent versioned control bucket'',
         df_success = ''the control bucket has exact UBLA, PAP, versioning, and soft-delete state'',
         df_failure = FailureRollback\<rparr>,
       \<lparr>df_id = ''k3-bucket-iam'', df_kind = IntentBucketIAM, df_identity = IdentityHuman,
         df_resourceIDs = [''audit-bucket'', ''control-bucket''], df_dependencies = [''k2-control-bucket''],
         df_preconditions = allPreconditions,
         df_verification = [''bucket IAM policies equal the closed rendered policy''], df_retry = retry5220,
         df_timeoutSeconds = 120, df_cancelSafe = True,
         df_compensation = ''remove only IAM bindings added by this operation'', df_ponr = PONRReversible,
         df_transition = None, df_permissions = [''storage.buckets.getIamPolicy'', ''storage.buckets.setIamPolicy''],
         df_summary = ''apply exact control and audit bucket IAM'',
         df_success = ''bucket IAM equals the closed prefix-scoped policy'', df_failure = FailureRollback\<rparr>,
       \<lparr>df_id = ''k4-seed-control'', df_kind = IntentSeedControl, df_identity = IdentityHuman,
         df_resourceIDs = [''control-bucket''], df_dependencies = [''k3-bucket-iam''],
         df_preconditions = allPreconditions,
         df_verification = [''seed objects exist and preexisting generations are unchanged''], df_retry = retry3210,
         df_timeoutSeconds = 30, df_cancelSafe = True,
         df_compensation = ''preserve all create-only seed objects and converge from their exact contents'',
         df_ponr = PONRReversible, df_transition = None, df_permissions = [''storage.objects.create'',
         ''storage.objects.get''], df_summary = ''create the exact control-store seed objects'',
         df_success = ''all required create-only seed objects are present'', df_failure = FailurePause\<rparr>,
       \<lparr>df_id = ''k5-lock-round-trip'', df_kind = IntentLockRoundTrip, df_identity = IdentityHuman,
         df_resourceIDs = [''control-bucket''], df_dependencies = [''k4-seed-control''],
         df_preconditions = allPreconditions,
         df_verification = [''generation-preconditioned acquire and release succeeds''], df_retry = once,
         df_timeoutSeconds = 30, df_cancelSafe = True,
         df_compensation = ''release only the lock generation acquired by this operation'', df_ponr = PONRReversible,
         df_transition = None, df_permissions = [''storage.objects.create'', ''storage.objects.get'',
         ''storage.objects.update''], df_summary = ''prove the control-store lock round trip'',
         df_success = ''one generation-bound lock is acquired and released'', df_failure = FailurePause\<rparr>,
       \<lparr>df_id = ''t1-network'', df_kind = IntentNetwork, df_identity = IdentityHuman,
         df_resourceIDs = [''test-network''], df_dependencies = [''k5-lock-round-trip''],
         df_preconditions = allPreconditions, df_verification = [''network identity and custom-subnet state match''],
         df_retry = retry3520, df_timeoutSeconds = 60, df_cancelSafe = True,
         df_compensation = ''explicit teardown may remove only the network recorded as created by this operation'',
         df_ponr = PONRReversible, df_transition = None, df_permissions = [''compute.networks.create'',
         ''compute.networks.get''], df_summary = ''create the dedicated custom-mode test network'',
         df_success = ''the exact permanent test network exists'', df_failure = FailureRollback\<rparr>,
       \<lparr>df_id = ''t2-subnet'', df_kind = IntentSubnet, df_identity = IdentityHuman,
         df_resourceIDs = [''test-subnet''], df_dependencies = [''t1-network''], df_preconditions = allPreconditions,
         df_verification = [''subnet range, region, network, and private Google access match''], df_retry = retry3520,
         df_timeoutSeconds = 60, df_cancelSafe = True,
         df_compensation = ''explicit teardown may remove only the subnet recorded as created by this operation'',
         df_ponr = PONRReversible, df_transition = None, df_permissions = [''compute.subnetworks.create'',
         ''compute.subnetworks.get''], df_summary = ''create the explicit non-overlapping test subnet'',
         df_success = ''the exact regional test subnet exists'', df_failure = FailureRollback\<rparr>,
       \<lparr>df_id = ''t3-nat'', df_kind = IntentNAT, df_identity = IdentityHuman,
         df_resourceIDs = [''test-router'', ''test-nat''], df_dependencies = [''t2-subnet''],
         df_preconditions = allPreconditions,
         df_verification = [''router and NAT identities and operational state match''], df_retry = retry3520,
         df_timeoutSeconds = 60, df_cancelSafe = True,
         df_compensation = ''explicit teardown removes only the recorded NAT and router in dependency order'',
         df_ponr = PONRReversible, df_transition = None, df_permissions = [''compute.routers.create'',
         ''compute.routers.get'', ''compute.routers.update''],
         df_summary = ''create the test router and auto-allocated Cloud NAT'',
         df_success = ''the exact regional router and operational NAT exist'', df_failure = FailureRollback\<rparr>,
       \<lparr>df_id = ''t4-firewall'', df_kind = IntentFirewall, df_identity = IdentityHuman,
         df_resourceIDs = [''test-iap-firewall'', ''test-internal-firewall''], df_dependencies = [''t3-nat''],
         df_preconditions = allPreconditions,
         df_verification = [''IAP SSH and node-internal MongoDB rules match exactly'',
         ''no public or non-test source and target is present''], df_retry = retry3520, df_timeoutSeconds = 60,
         df_cancelSafe = True, df_compensation = ''delete only firewall rules recorded as created by this operation'',
         df_ponr = PONRReversible, df_transition = None, df_permissions = [''compute.firewalls.create'',
         ''compute.firewalls.get''], df_summary = ''create the two closed test firewall rules'',
         df_success = ''only the exact IAP SSH and test-node MongoDB rules exist'',
         df_failure = FailureRollback\<rparr>,
       \<lparr>df_id = ''t5-identities'', df_kind = IntentIdentities, df_identity = IdentityHuman,
         df_resourceIDs = [''test-operator-sa'', ''test-destructive-sa'', ''test-vm-sa'', ''test-wipe-sa'',
         ''test-operator-role'', ''test-destructive-role''], df_dependencies = [''t4-firewall''],
         df_preconditions = allPreconditions, df_verification = [''service accounts have no keys'',
         ''role and conditional binding fingerprints match'', ''expected allows and denies are proven exactly''],
         df_retry = retry5220, df_timeoutSeconds = 180, df_cancelSafe = True,
         df_compensation = ''remove only roles, bindings, and service accounts created by this operation'',
         df_ponr = PONRReversible, df_transition = None, df_permissions = [''iam.roles.create'', ''iam.roles.get'',
         ''iam.roles.update'', ''iam.serviceAccounts.create'', ''iam.serviceAccounts.get'',
         ''iam.serviceAccounts.setIamPolicy'', ''resourcemanager.projects.getIamPolicy'',
         ''resourcemanager.projects.setIamPolicy''],
         df_summary = ''create test identities, closed roles, and conditional bindings'',
         df_success = ''identity desired state and exact permission matrix are proven'',
         df_failure = FailureRollback\<rparr>,
       \<lparr>df_id = ''t6-control-prefix'', df_kind = IntentControlPrefix, df_identity = IdentityHuman,
         df_resourceIDs = [''control-bucket''], df_dependencies = [''t5-identities''],
         df_preconditions = allPreconditions,
         df_verification = [''only the test control prefix bindings are present''], df_retry = retry5220,
         df_timeoutSeconds = 60, df_cancelSafe = True,
         df_compensation = ''remove only prefix bindings added by this operation'', df_ponr = PONRReversible,
         df_transition = None, df_permissions = [''storage.buckets.getIamPolicy'', ''storage.buckets.setIamPolicy''],
         df_summary = ''bind test identities to the control-store test prefix'',
         df_success = ''the exact test-prefix IAM bindings are present'', df_failure = FailureRollback\<rparr>,
       \<lparr>df_id = ''t7-nightly-wipe'', df_kind = IntentNightlyWipe, df_identity = IdentityHuman,
         df_resourceIDs = [''test-wipe-job'', ''test-wipe-scheduler''], df_dependencies = [''t6-control-prefix''],
         df_preconditions = allPreconditions, df_verification = [''wipe job image and identity match'',
         ''scheduler uses the exact Run Jobs v2 OAuth target'', ''first run reports zero deletions''],
         df_retry = retry3530, df_timeoutSeconds = 180, df_cancelSafe = True,
         df_compensation = ''delete only the job and scheduler recorded as created by this operation'',
         df_ponr = PONRReversible, df_transition = None, df_permissions = [''cloudscheduler.jobs.create'',
         ''cloudscheduler.jobs.get'', ''iam.serviceAccounts.actAs'', ''run.jobs.create'', ''run.jobs.get'',
         ''run.jobs.run''], df_summary = ''create and dry-run the immutable nightly wipe job'',
         df_success = ''the pinned wipe job and UTC scheduler exist and the first run deletes nothing'',
         df_failure = FailureRollback\<rparr>,
       \<lparr>df_id = ''t8-isolation-gate'', df_kind = IntentIsolationGate, df_identity = IdentityHuman,
         df_resourceIDs = map dr_ID resources, df_dependencies = [''t7-nightly-wipe''],
         df_preconditions = allPreconditions, df_verification = [''every TEST-ISO proof passes'',
         ''harness fingerprints and cleanup capabilities match'',
         ''pending and unusable may transition to open and usable''], df_retry = once, df_timeoutSeconds = 900,
         df_cancelSafe = True,
         df_compensation = ''on failure retain pending and unusable state and keep TEST-I, TEST-D, and unrelated mutation blocked'',
         df_ponr = PONRVerificationOnly, df_transition = Some open_harness,
         df_permissions = [''cloudscheduler.jobs.get'', ''compute.firewalls.get'', ''compute.networks.get'',
         ''compute.routers.get'', ''compute.subnetworks.get'', ''iam.roles.get'', ''iam.serviceAccounts.get'',
         ''iam.serviceAccounts.getIamPolicy'', ''resourcemanager.projects.getIamPolicy'', ''run.jobs.get'',
         ''storage.buckets.get'', ''storage.buckets.getIamPolicy''],
         df_summary = ''run the complete TEST-ISO gate without opening admission early'',
         df_success = ''every T8 proof passes and the proposed state transition is eligible to persist'',
         df_failure = FailurePause\<rparr>])"

definition expectedPermissionGrants :: "stepDefinition list \<Rightarrow> PermissionGrant list" where
  "expectedPermissionGrants definitions =
     concat (map (\<lambda>d. map (\<lambda>p. \<lparr>pg_StepID = df_id d, pg_Identity = df_identity d, pg_Permission = p, pg_Granted = True\<rparr>)
       (df_permissions d)) definitions)"

definition buildIntents :: "stepDefinition list \<Rightarrow> string \<Rightarrow> StepIntent list" where
  "buildIntents definitions binding =
     map (\<lambda>d. \<lparr>si_StepID = df_id d, si_Kind = df_kind d, si_EnvelopeBindingSHA256 = binding,
       si_ExecutingIdentity = df_identity d, si_ResourceIDs = df_resourceIDs d, si_Dependencies = df_dependencies d,
       si_Preconditions = df_preconditions d, si_Verification = df_verification d, si_Retry = df_retry d,
       si_TimeoutSeconds = df_timeoutSeconds d, si_CancelSafe = df_cancelSafe d,
       si_Compensation = df_compensation d, si_PointOfNoReturn = df_ponr d, si_Transition = df_transition d\<rparr>)
       definitions"

definition buildRiskSummary :: "BootstrapRunLimits \<Rightarrow> RiskSummary" where
  "buildRiskSummary limits =
     \<lparr>rk_ExpectedCostCeilingMicros = bl_MaximumCostMicros limits,
      rk_EstimatedRunCostMicros = bl_EstimatedCostMicros limits, rk_ExpectedDowntimeSeconds = 0,
      rk_ProductionExposure = ''none'',
      rk_PermanentResiduals = [''audit bucket with locked 365-day retention'', ''versioned control bucket'',
        ''test harness singletons''],
      rk_Risks = [''audit retention lock is irreversible'',
        ''partial bootstrap must resume only from the same envelope hash'',
        ''Cloud NAT and retained audit data continue to incur bounded cost''],
      rk_Rollback = [''before the audit retention lock, remove only resources created by this operation'',
        ''after the lock, preserve both control buckets and converge or pause''],
      rk_Compensation = [''remove only in-operation reversible bindings and harness objects'',
        ''never age-wipe permanent singletons''],
      rk_PointOfNoReturn =
        ''the irreversible boundary begins when K1 observes the audit bucket 365-day retention lock mutation''\<rparr>"

end
