(* ===== verification/BootstrapCompile.thy ===== *)
theory BootstrapCompile
  imports BootstrapDesired PlanDocument "HOL-Library.Log_Nat"
begin

section \<open>internal/isolation/bootstrap: the compiler and the compiled document (compile.go, canonical.go)\<close>

text \<open>
  \<open>Compile\<close> validates the request, builds the plan, its execution contract, the binding and the intents, and
  seals them; \<open>ParseCompiledPlan\<close> accepts only the canonical document of a payload that validates again.
  A dollar amount is a \<open>float64\<close> in lowest terms; the division and the product of \<open>microsToUSD\<close> are rounded to
  nearest, ties to even, written out on integers.
\<close>

subsection \<open>Dates\<close>

definition days_before_year :: "int \<Rightarrow> int" where
  "days_before_year y = (let n = y - 1 in 365 * n + n div 4 - n div 100 + n div 400)"

definition days_before_month :: "int \<Rightarrow> int \<Rightarrow> int" where
  "days_before_month y m = sum_list (map (\<lambda>k. days_in y k) [1 .. m - 1])"

text \<open>\<open>time.Parse(time.DateOnly, s)\<close>: midnight UTC of a calendar day.\<close>

definition parse_date :: "string \<Rightarrow> gotime option" where
  "parse_date s =
     (let y = digits_value (take 4 s); m = digits_value (take 2 (drop 5 s)); d = digits_value (drop 8 s) in
      if datePattern s \<and> real_date s
      then Some (utc ((days_before_year y + days_before_month y m + (d - 1)) * (24 * hour))) else None)"

subsection \<open>Amounts\<close>

text \<open>The double nearest to \<open>n / d\<close> as \<open>m * 2 ^ e\<close>, for positive \<open>n\<close> and \<open>d\<close> in the normal range.\<close>

definition scaled_fraction :: "int \<Rightarrow> int \<Rightarrow> int \<Rightarrow> int \<times> int" where
  "scaled_fraction n d e = (if 0 \<le> e then (n, d * 2 ^ nat e) else (n * 2 ^ nat (- e), d))"

definition round_half_even :: "int \<times> int \<Rightarrow> int" where
  "round_half_even f =
     (let q = fst f div snd f; r = fst f mod snd f in
      if 2 * r < snd f \<or> 2 * r = snd f \<and> even q then q else q + 1)"

definition double_exponent :: "int \<Rightarrow> int \<Rightarrow> int" where
  "double_exponent n d =
     (let e = bitlen n - bitlen d - 53; f = scaled_fraction n d e in
      if fst f div snd f < 2 ^ 53 then e else e + 1)"

definition nearest_double :: "int \<Rightarrow> int \<Rightarrow> int \<times> int" where
  "nearest_double n d =
     (if n = 0 then (0, 0)
      else (let e = double_exponent n d in (round_half_even (scaled_fraction n d e), e)))"

fun strip_twos :: "nat \<Rightarrow> int \<times> int \<Rightarrow> usd" where
  "strip_twos 0 (m, e) = Finite m e"
| "strip_twos (Suc k) (m, e) = (if m = 0 then Finite 0 0 else if even m then strip_twos k (m div 2, e + 1) else Finite m e)"

text \<open>\<open>math.Round\<close> of \<open>m * 2 ^ e\<close> with \<open>m\<close> not negative: half away from zero.\<close>

definition math_Round :: "int \<times> int \<Rightarrow> int" where
  "math_Round x =
     (if 0 \<le> snd x then fst x * 2 ^ nat (snd x)
      else (2 * fst x + 2 ^ nat (- snd x)) div (2 * 2 ^ nat (- snd x)))"

definition microsToUSD :: "int \<Rightarrow> usd \<times> bool" where
  "microsToUSD v =
     (if v < 0 \<or> v > maximumExactMicros then (Finite 0 0, False)
      else
        (let amount = nearest_double v 1000000;
             whole = scaled_fraction (fst amount * 1000000) 1 (- snd amount);
             product = nearest_double (fst whole) (snd whole)
         in (strip_twos 60 amount, math_Round product = v)))"

subsection \<open>Evidence\<close>

definition pricingEvidenceRevision :: "compile_lib \<Rightarrow> PricingEvidence \<Rightarrow> string option" where
  "pricingEvidenceRevision L price = hashJSON L (lb_pricing L) (price\<lparr>pe_Revision := []\<rparr>)"

definition price_date_check :: "PricingEvidence \<Rightarrow> gotime \<Rightarrow> bool" where
  "price_date_check price createdAt =
     (case parse_date (pe_PriceTableDate price) of
        None \<Rightarrow> False
      | Some d \<Rightarrow> \<not> time_After d createdAt \<and> time_Sub createdAt d \<le> maximumPricingAge)"

definition machine_offered :: "CompileRequest \<Rightarrow> ObservedMachineType \<Rightarrow> bool" where
  "machine_offered request machine =
     (let price = cq_Pricing request in
      om_Zone machine = kf_zone (cq_Configuration request) \<and> \<not> om_Deprecated machine \<and>
      om_GuestCPUs machine = pe_GuestCPUs price \<and> om_MemoryMiB machine = pe_MemoryMiB price)"

definition validatePricing :: "compile_lib \<Rightarrow> CompileRequest \<Rightarrow> bootstrap_error option" where
  "validatePricing L request =
     (let price = cq_Pricing request; c = cq_Configuration request; caps = kf_caps c; createdAt = cq_CreatedAt request;
          machines = filter (\<lambda>m. om_Name m = pe_MachineType price) (pf_MachineTypes (request_payload request)) in
      first_error
       [fail_if (pe_Schema price \<noteq> PricingSchemaV1 \<or> \<not> sha256Pattern (pe_Revision price) \<or>
           pe_MachineType price \<noteq> kc_maxMachineType caps \<or> pe_Region price \<noteq> kf_region c \<or>
           pe_Zone price \<noteq> kf_zone c \<or> pe_GuestCPUs price \<le> 0 \<or> pe_MemoryMiB price \<le> 0 \<or>
           pe_EstimatedRunMicros price < 0 \<or> pe_DiskGiB price \<noteq> kc_maxDiskGiB caps \<or>
           pe_Instances price \<noteq> kc_maxInstances caps \<or>
           pe_LifetimeSeconds price \<noteq> kc_maxLifetime caps div second \<or> pe_Currency price \<noteq> ''USD'' \<or>
           pe_EstimatedRunMicros price > maximumExactMicros \<or> \<not> valid_utc (pe_ObservedAt price) \<or>
           \<not> valid_utc (pe_ValidUntil price) \<or> \<not> time_Before (pe_ObservedAt price) (pe_ValidUntil price) \<or>
           time_Before createdAt (pe_ObservedAt price) \<or> \<not> time_Before createdAt (pe_ValidUntil price))
          (ErrInvalidCompileRequest ''pricing evidence''),
        fail_if (\<not> price_date_check price createdAt) (ErrInvalidCompileRequest ''price table date''),
        fail_if (pe_EstimatedRunMicros price > kc_maxEstimatedCostMicros caps) (ErrPlanBlocked ''run cost cap''),
        fail_if (pricingEvidenceRevision L price \<noteq> Some (pe_Revision price))
          (ErrInvalidCompileRequest ''pricing revision''),
        fail_if (\<not> list_all (machine_offered request) machines) (ErrPlanBlocked ''machine capability''),
        fail_if (length machines \<noteq> 1) (ErrPlanBlocked ''machine capability'')])"

definition validatePermissionEvidence_at ::
  "compile_lib \<Rightarrow> PermissionEvidence \<Rightarrow> stepDefinition list \<Rightarrow> string \<Rightarrow> string \<Rightarrow> gotime \<Rightarrow> bootstrap_error option" where
  "validatePermissionEvidence_at L evidence definitions account project now =
     (let expected = expectedPermissionGrants definitions; blocked = ErrPlanBlocked ''permission evidence'' in
      first_error
       [fail_if (px_Schema evidence \<noteq> PermissionEvidenceSchemaV1 \<or> px_Account evidence \<noteq> account \<or>
           px_Project evidence \<noteq> project \<or> \<not> valid_utc (px_ObservedAt evidence) \<or>
           \<not> valid_utc (px_ValidUntil evidence) \<or> \<not> time_Before (px_ObservedAt evidence) (px_ValidUntil evidence) \<or>
           time_Before now (px_ObservedAt evidence) \<or> \<not> time_Before now (px_ValidUntil evidence) \<or>
           \<not> sha256Pattern (px_Revision evidence)) blocked,
        fail_if (length (px_Grants evidence) \<noteq> length expected) blocked,
        check_each (\<lambda>index grant. fail_if (grant \<noteq> expected ! index \<or> \<not> pg_Granted grant) blocked)
          0 (px_Grants evidence),
        fail_if (hashJSON L (lb_permissions L) (evidence\<lparr>px_Revision := []\<rparr>) \<noteq> Some (px_Revision evidence)) blocked])"

subsection \<open>The request\<close>

definition validateCompileRequest :: "compile_lib \<Rightarrow> CompileRequest \<Rightarrow> bootstrap_error option" where
  "validateCompileRequest L request =
     (let c = cq_Configuration request; p = request_payload request; preflight = cq_Preflight request;
          createdAt = cq_CreatedAt request; expiresAt = cq_ExpiresAt request in
      first_error
       [fail_if (\<not> planIDPattern (cq_PlanID request)) (ErrInvalidCompileRequest ''plan ID''),
        fail_if (\<not> valid_utc createdAt \<or> \<not> valid_utc expiresAt \<or> \<not> time_After expiresAt createdAt \<or>
            time_Sub expiresAt createdAt < minimumPlanValidity \<or> kf_planValidity c \<le> 0 \<or>
            \<not> time_Equal expiresAt (time_Add createdAt (kf_planValidity c)))
          (ErrInvalidCompileRequest ''plan time window''),
        fail_if (\<not> sha256Pattern (cq_LocalPolicyHash request) \<or>
            cq_LocalPolicyHash request \<noteq> cq_ApprovedPolicyHash request)
          (ErrPlanBlocked ''approved policy hash''),
        fail_if (kf_manifestHash c = [] \<or> me_Name (mi_Metadata (kf_identity c)) = [] \<or> kf_project c = [] \<or>
            kf_region c = [] \<or> kf_zone c = [])
          (ErrInvalidCompileRequest ''harness configuration''),
        fail_if (pf_Project p \<noteq> kf_project c \<or> pf_Region p \<noteq> kf_region c \<or> pf_Zone p \<noteq> kf_zone c \<or>
            pf_Account p = [])
          (ErrPlanBlocked ''provider context''),
        fail_if (pf_GcloudVersion p \<noteq> SupportedGcloudVersion \<or>
            pf_CompletenessPolicy p \<noteq> GcloudCompletenessPolicy \<or> \<not> pf_Exhaustive p \<or>
            pf_Schemas p \<noteq> requiredSchemas)
          (ErrPlanBlocked ''observation provenance''),
        fail_if (\<not> FreshAt preflight createdAt) (ErrPlanBlocked ''stale observation''),
        fail_if (CIDROverlapsAt preflight (kf_cidr c) createdAt \<noteq> Inr False) (ErrPlanBlocked ''CIDR overlap''),
        fail_if (PublicMongoDBIngressAt preflight createdAt \<noteq> Inr []) (ErrPlanBlocked ''public MongoDB ingress''),
        fail_if (list_ex (\<lambda>service. preflight_APIState preflight service \<noteq> APIEnabled) RequiredAPIs)
          (ErrPlanBlocked ''required API state''),
        validatePricing L request])"

definition buildRunLimits :: "CompileRequest \<Rightarrow> bootstrap_error + BootstrapRunLimits" where
  "buildRunLimits request =
     (let caps = kf_caps (cq_Configuration request); price = cq_Pricing request; lifetime = kc_maxLifetime caps in
      if lifetime \<le> 0 \<or> lifetime mod second \<noteq> 0 \<or> kc_maxDiskGiB caps \<le> 0 \<or> kc_maxInstances caps \<le> 0 \<or>
         kc_maxEstimatedCostMicros caps < 0 \<or> kc_maxEstimatedCostMicros caps > maximumExactMicros
      then Inl (ErrInvalidCompileRequest ''run limits'')
      else Inr
        \<lparr>bl_MaximumMachineType = kc_maxMachineType caps, bl_MaximumGuestCPUs = pe_GuestCPUs price,
         bl_MaximumMemoryMiB = pe_MemoryMiB price, bl_MaximumDiskGiB = kc_maxDiskGiB caps,
         bl_MaximumInstances = kc_maxInstances caps, bl_MaximumLifetimeSec = lifetime div second,
         bl_MaximumCostMicros = kc_maxEstimatedCostMicros caps, bl_EstimatedCostMicros = pe_EstimatedRunMicros price\<rparr>)"

subsection \<open>The plan\<close>

definition planPreconditions :: "compile_lib \<Rightarrow> PlanPrecondition list" where
  "planPreconditions L =
     map (\<lambda>(id, detail). \<lparr>pp_ID = id, pp_OK = True, pp_Detail = lb_sanitize L detail\<rparr>)
      [(''manifest-bound'', ''validated disposable manifest is hash-bound''),
       (''provider-context-bound'', ''account, project, region, and zone match''),
       (''observation-fresh'', ''provider evidence is current''),
       (''schemas-complete'', ''the closed discovery catalogue is exhaustive''),
       (''cidr-clear'', ''the selected private CIDR does not overlap''),
       (''api-set-enabled'', ''every required Google Cloud API is enabled''),
       (''no-public-mongodb'', ''no contracted classic rule exposes MongoDB internet-wide''),
       (''machine-cap-resolved'', ''the selected cap machine has exact observed numeric dimensions''),
       (''cost-cap-respected'', ''the upward-rounded integer micro-USD estimate is within the manifest cap''),
       (''target-identities-absent'', ''no exact desired provider identity collides''),
       (''bucket-conflict-guarded'',
        ''M1-05 must treat create-time global bucket-name conflict as a blocking outcome''),
       (''capability-set-closed'', ''mutation and cleanup are limited to the recorded three-kind capability set''),
       (''permissions-proven'', ''every declared bootstrap permission has fresh exact positive evidence''),
       (''pre-t8-admission'', ''only this approved WF-TEST-01 envelope may mutate before T8'')]"

definition plan_resource :: "string \<Rightarrow> stepDefinition \<Rightarrow> string \<Rightarrow> PlanResource" where
  "plan_resource projectID d fingerprint =
     \<lparr>pr_Kind = ''bootstrap-action'', pr_Scope = ''projects/'' @ projectID @ ''/global'', pr_Name = df_id d,
      pr_Fingerprint = fingerprint\<rparr>"

text \<open>The resource of one step: its fingerprint covers the step, its targets and the limits.\<close>

definition step_resource ::
  "compile_lib \<Rightarrow> string \<Rightarrow> DesiredResource list \<Rightarrow> BootstrapRunLimits \<Rightarrow> stepDefinition \<Rightarrow>
   bootstrap_error + PlanResource" where
  "step_resource L projectID desired limits d =
     (case desiredResourcesByID desired (df_resourceIDs d) of
        None \<Rightarrow> Inl (ErrInvalidCompileRequest ''step resource binding'')
      | Some targets \<Rightarrow>
          (case hashJSON L (lb_step L) (df_id d, df_kind d, targets, limits) of
             None \<Rightarrow> Inl (ErrInvalidCompileRequest ''step fingerprint'')
           | Some fingerprint \<Rightarrow> Inr (plan_resource projectID d fingerprint)))"

definition plan_step_of :: "compile_lib \<Rightarrow> stepDefinition \<times> PlanResource \<Rightarrow> PlanStep" where
  "plan_step_of L x =
     (let d = fst x in
      \<lparr>ps_ID = df_id d, ps_Executor = ''typed-adapter'', ps_ExecutingIdentity = df_identity d,
       ps_CommandRedacted = lb_sanitize L (df_summary d), ps_Idempotent = True, ps_Retry = df_retry d,
       ps_CancelSafe = df_cancelSafe d, ps_TimeoutSeconds = df_timeoutSeconds d,
       ps_SuccessCondition = lb_sanitize L (df_success d), ps_FailureBehavior = df_failure d,
       ps_Targets = Some [snd x]\<rparr>)"

definition plan_permissions_of :: "stepDefinition \<times> PlanResource \<Rightarrow> PlanPermission list" where
  "plan_permissions_of x =
     map (\<lambda>p. \<lparr>pm_StepID = df_id (fst x), pm_Identity = df_identity (fst x), pm_Permission = p,
       pm_Resource = snd x, pm_Granted = True\<rparr>) (df_permissions (fst x))"

definition contract_step_of :: "compile_lib \<Rightarrow> stepDefinition \<Rightarrow> ExecutionStepContract" where
  "contract_step_of L d =
     \<lparr>sc_ID = df_id d, sc_Executor = ''typed-adapter'', sc_ExecutingIdentity = df_identity d,
      sc_CommandSummary = lb_sanitize L (df_summary d),
      sc_Effect = (if df_kind d = IntentIsolationGate then StepEffectRead else StepEffectMutation),
      sc_MinimumApproval = ApprovalSecuritySensitive, sc_TargetKinds = [''bootstrap-action''],
      sc_RequiredPermissions = df_permissions d, sc_RequiresStepUp = False, sc_RequiresRecoveryAsset = False,
      sc_ExposureRequirement = None, sc_Idempotent = True, sc_Retry = df_retry d, sc_CancelSafe = df_cancelSafe d,
      sc_TimeoutSeconds = df_timeoutSeconds d, sc_SuccessCondition = lb_sanitize L (df_success d),
      sc_FailureBehavior = df_failure d\<rparr>"

definition plan_cost :: "compile_lib \<Rightarrow> PricingEvidence \<Rightarrow> usd \<Rightarrow> usd \<Rightarrow> PlanCost" where
  "plan_cost L pricing estimateUSD ceilingUSD =
     \<lparr>pc_RunRate = \<lparr>cr_AmountUSD = estimateUSD, cr_Period = ''run''\<rparr>,
      pc_Items = Some [\<lparr>ci_Resource = ''wf-test-01'', ci_Kind = ''test-harness'', ci_AmountUSD = estimateUSD\<rparr>],
      pc_Incremental = None, pc_Source = CostSourceListPriceTable, pc_PriceTableDate = pe_PriceTableDate pricing,
      pc_Stale = False,
      pc_Assumptions = Some [lb_sanitize L
        ''estimate uses the explicitly selected region, machine shape, disk, count, and lifetime caps''],
      pc_Unpriced = Some [],
      pc_Budget = \<lparr>cb_State = BudgetOK, cb_Reason = [], cb_CeilingUSD = Some ceilingUSD\<rparr>\<rparr>"

record plan_header =
  lh_PlanID :: string
  lh_ProjectID :: string
  lh_Environment :: string
  lh_Account :: string
  lh_CreatedAt :: gotime
  lh_ExpiresAt :: gotime
  lh_LocalPolicyHash :: string
  lh_ApprovedPolicyHash :: string

definition unsealed_plan ::
  "compile_lib \<Rightarrow> plan_header \<Rightarrow> PlanCost \<Rightarrow> (stepDefinition \<times> PlanResource) list \<Rightarrow> Plan" where
  "unsealed_plan L h cost bound =
     \<lparr>pl_PlanID = lh_PlanID h, pl_PlanHash = [], pl_WorkflowID = bootstrap_WorkflowID, pl_ProjectID = lh_ProjectID h,
      pl_Environment = lh_Environment h, pl_EnvironmentClass = EnvironmentDisposable, pl_Principal = lh_Account h,
      pl_CreatedAt = lh_CreatedAt h, pl_ApprovalClass = ApprovalSecuritySensitive, pl_ExpiresAt = lh_ExpiresAt h,
      pl_CoolingOffSeconds = 0, pl_Identity = DefaultIdentityPlan,
      pl_PolicyHash = \<lparr>ph_Local = lh_LocalPolicyHash h, ph_Approved = lh_ApprovedPolicyHash h, ph_Match = True\<rparr>,
      pl_StepUpRequired = False, pl_Intent = None, pl_Resources = Some (map snd bound),
      pl_Preconditions = Some (planPreconditions L),
      pl_Permissions = Some (concat (map plan_permissions_of bound)), pl_Steps = Some (map (plan_step_of L) bound),
      pl_Cost = cost, pl_Downtime = \<lparr>pd_ExpectedSeconds = 0, pd_Kind = ''none''\<rparr>, pl_Exposure = ExposureNone,
      pl_ExposureControls = None,
      pl_Protection = Some
        [lb_sanitize L ''production resources remain outside the reserved disposable namespace'',
         lb_sanitize L ''permanent control resources are excluded from disposable cleanup''],
      pl_Rollback = \<lparr>rb_Boundary = ''audit-retention-lock'', rb_Assets = Some []\<rparr>,
      pl_PointOfNoReturn = ''k1-retention-lock'', pl_PointOfNoReturnTrigger = PointOfNoReturnMutationObserved,
      pl_Verification = Some
        [lb_sanitize L ''every desired provider object is re-observed at exact desired state'',
         lb_sanitize L ''T8 completes every TEST-ISO proof before opening test admission'']\<rparr>"

definition buildPlanValues ::
  "compile_lib \<Rightarrow> plan_header \<Rightarrow> PricingEvidence \<Rightarrow> stepDefinition list \<Rightarrow> DesiredResource list \<Rightarrow>
   BootstrapRunLimits \<Rightarrow> bootstrap_error + Plan \<times> ExecutionContract" where
  "buildPlanValues L h pricing definitions desired limits =
     bind_result (map_result (step_resource L (lh_ProjectID h) desired limits) definitions) (\<lambda>resources.
       case NewExecutionContract (lb_contract L) (lb_sha256hex L) bootstrap_WorkflowID ''audit-retention-lock''
           ''k1-retention-lock'' PointOfNoReturnMutationObserved (map (contract_step_of L) definitions) of
         Inl e \<Rightarrow> Inl (ErrInvalidCompileRequest ''execution contract'')
       | Inr contract \<Rightarrow>
           (let ceiling = microsToUSD (bl_MaximumCostMicros limits);
                estimate = microsToUSD (bl_EstimatedCostMicros limits) in
            if \<not> snd ceiling then Inl (ErrInvalidCompileRequest ''cost ceiling'')
            else if \<not> snd estimate then Inl (ErrInvalidCompileRequest ''cost estimate'')
            else case SealPlan (lb_plan L) (lb_sha256hex L)
                (unsealed_plan L h (plan_cost L pricing (fst estimate) (fst ceiling)) (zip definitions resources)) of
              Inl e \<Rightarrow> Inl (ErrInvalidCompileRequest ''PlanV1 validation'')
            | Inr sealed \<Rightarrow> Inr (sealed, contract)))"

definition request_header :: "CompileRequest \<Rightarrow> plan_header" where
  "request_header request =
     (let c = cq_Configuration request in
      \<lparr>lh_PlanID = cq_PlanID request, lh_ProjectID = kf_project c,
       lh_Environment = me_Name (mi_Metadata (kf_identity c)), lh_Account = pf_Account (request_payload request),
       lh_CreatedAt = cq_CreatedAt request, lh_ExpiresAt = cq_ExpiresAt request,
       lh_LocalPolicyHash = cq_LocalPolicyHash request, lh_ApprovedPolicyHash = cq_ApprovedPolicyHash request\<rparr>)"

definition buildEnvelopeBinding :: "compile_lib \<Rightarrow> CompileRequest \<Rightarrow> Plan \<Rightarrow> bootstrap_error + EnvelopeBinding" where
  "buildEnvelopeBinding L request plan =
     (let p = request_payload request;
          binding = \<lparr>eb_WorkflowID = bootstrap_WorkflowID, eb_PlanID = pl_PlanID plan, eb_PlanHash = pl_PlanHash plan,
            eb_Account = pf_Account p, eb_ManifestHash = kf_manifestHash (cq_Configuration request),
            eb_ObservationRevision = hp_revision (cq_Preflight request),
            eb_PermissionRevision = px_Revision (cq_Permissions request), eb_ObservedAt = pf_ObservedAt p,
            eb_ValidUntil = pf_ValidUntil p, eb_BindingSHA256 = []\<rparr>
      in case hashJSON L (lb_binding L) binding of
           None \<Rightarrow> Inl (ErrInvalidCompileRequest ''envelope binding'')
         | Some digest \<Rightarrow> Inr (binding\<lparr>eb_BindingSHA256 := digest\<rparr>))"

subsection \<open>Validation of a payload\<close>

definition desired_values :: "HarnessDesiredState \<Rightarrow> string list" where
  "desired_values d =
     [ds_ControlBucket d, ds_AuditBucket d, ds_VPC d, ds_Subnet d, ds_Router d, ds_NAT d, ds_IAPFirewall d,
      ds_InternalFirewall d, ds_NodeTag d, ds_OperatorPrincipal d, ds_DestructivePrincipal d, ds_VMPrincipal d,
      ds_WipePrincipal d, ds_CIPrincipal d, ds_OperatorRole d, ds_DestructiveRole d, ds_WipeRunJob d,
      ds_WipeSchedulerJob d, ds_ImageDigest d]"

definition harness_labels :: string_map where
  "harness_labels =
     fmupd LabelPurpose TestResourcePurposeLabel
       (fmupd LabelEnvironment TestEnvironmentLabel (fmupd LabelManagedBy LabelManagedByValue fmempty))"

definition validateDesiredState :: "compile_lib \<Rightarrow> HarnessDesiredState \<Rightarrow> Plan \<Rightarrow> bootstrap_error option" where
  "validateDesiredState L d plan =
     first_error
      [fail_if (ds_Account d \<noteq> pl_Principal plan \<or> ds_Project d \<noteq> pl_ProjectID plan \<or>
          \<not> projectIDPattern (ds_Project d) \<or> \<not> locationPattern (ds_Region d) \<or> \<not> locationPattern (ds_Zone d) \<or>
          \<not> has_prefix (ds_Zone d) (ds_Region d @ ''-''))
         (ErrInvalidCompiledPlan ''desired provider context''),
       fail_if (ds_PlanValiditySeconds d \<le> 0 \<or> ds_PlanValiditySeconds d > maximumDurationSeconds \<or>
          \<not> time_Equal (pl_ExpiresAt plan) (time_Add (pl_CreatedAt plan) (ds_PlanValiditySeconds d * second)))
         (ErrInvalidCompiledPlan ''plan validity''),
       fail_if (case canonical_prefix (ds_CIDR d) of None \<Rightarrow> True | Some p \<Rightarrow> \<not> netip_IsPrivate (fst p))
         (ErrInvalidCompiledPlan ''desired CIDR''),
       fail_if (\<not> equalCanonicalValue (lb_labels L) (ds_Labels d) harness_labels \<or> ds_NamePrefix d \<noteq> TestResourcePrefix)
         (ErrInvalidCompiledPlan ''desired labels''),
       fail_if (list_ex (\<lambda>v. v = [] \<or> trim_changes v) (desired_values d)) (ErrInvalidCompiledPlan ''desired value''),
       fail_if (ds_ControlBucket d = ds_AuditBucket d)
         (ErrInvalidCompiledPlan ''distinct control and audit buckets''),
       fail_if (ds_IAPFirewall d \<noteq> iapFirewallName \<or> ds_InternalFirewall d \<noteq> internalFirewallName \<or>
          ds_NodeTag d \<noteq> testNodeTag \<or> ds_OperatorRole d \<noteq> operatorRoleName \<or>
          ds_DestructiveRole d \<noteq> destructiveRoleName \<or> ds_WipeScheduleUTC d \<noteq> wipeScheduleUTC \<or>
          \<not> has_prefix (ds_ImageDigest d) ''sha256:'' \<or> \<not> sha256Pattern (trim_prefix (ds_ImageDigest d) ''sha256:''))
         (ErrInvalidCompiledPlan ''protocol-owned desired state''),
       replace_error (ErrInvalidCompiledPlan ''desired principals'')
         (ValidateHarnessPrincipalSet (ds_Project d) (ds_OperatorPrincipal d) (ds_DestructivePrincipal d)
           (ds_VMPrincipal d) (ds_WipePrincipal d) (ds_CIPrincipal d))]"

definition validateLimitsAndPricing ::
  "compile_lib \<Rightarrow> BootstrapRunLimits \<Rightarrow> PricingEvidence \<Rightarrow> Plan \<Rightarrow> HarnessDesiredState \<Rightarrow> bootstrap_error option" where
  "validateLimitsAndPricing L limits price plan d =
     first_error
      [fail_if (bl_MaximumMachineType limits = [] \<or> bl_MaximumMachineType limits \<noteq> pe_MachineType price \<or>
          pe_Region price \<noteq> ds_Region d \<or> pe_Zone price \<noteq> ds_Zone d \<or>
          \<not> has_prefix (pe_Zone price) (pe_Region price @ ''-'') \<or>
          bl_MaximumGuestCPUs limits \<noteq> pe_GuestCPUs price \<or> bl_MaximumMemoryMiB limits \<noteq> pe_MemoryMiB price \<or>
          bl_MaximumDiskGiB limits \<noteq> pe_DiskGiB price \<or> bl_MaximumInstances limits \<noteq> pe_Instances price \<or>
          bl_MaximumLifetimeSec limits \<noteq> pe_LifetimeSeconds price \<or> pe_Currency price \<noteq> ''USD'' \<or>
          bl_MaximumDiskGiB limits \<le> 0 \<or> bl_MaximumInstances limits \<le> 0 \<or> bl_MaximumLifetimeSec limits \<le> 0 \<or>
          bl_MaximumCostMicros limits < 0 \<or> bl_MaximumCostMicros limits > maximumExactMicros \<or>
          bl_EstimatedCostMicros limits \<noteq> pe_EstimatedRunMicros price \<or> bl_EstimatedCostMicros limits < 0 \<or>
          bl_EstimatedCostMicros limits > bl_MaximumCostMicros limits \<or> pe_Schema price \<noteq> PricingSchemaV1 \<or>
          \<not> sha256Pattern (pe_Revision price) \<or> \<not> valid_utc (pe_ObservedAt price) \<or>
          \<not> valid_utc (pe_ValidUntil price) \<or> \<not> time_Before (pe_ObservedAt price) (pe_ValidUntil price) \<or>
          time_After (pe_ObservedAt price) (pl_CreatedAt plan) \<or>
          \<not> time_Before (pl_CreatedAt plan) (pe_ValidUntil price))
         (ErrInvalidCompiledPlan ''limits or pricing''),
       fail_if (\<not> price_date_check price (pl_CreatedAt plan)) (ErrInvalidCompiledPlan ''price table date''),
       fail_if (pricingEvidenceRevision L price \<noteq> Some (pe_Revision price))
         (ErrInvalidCompiledPlan ''pricing revision'')]"

definition validateBinding :: "compile_lib \<Rightarrow> EnvelopeBinding \<Rightarrow> Plan \<Rightarrow> string \<Rightarrow> bootstrap_error option" where
  "validateBinding L binding plan permissionRevision =
     first_error
      [fail_if (eb_WorkflowID binding \<noteq> bootstrap_WorkflowID \<or> eb_PlanID binding \<noteq> pl_PlanID plan \<or>
          eb_PlanHash binding \<noteq> pl_PlanHash plan \<or> eb_Account binding \<noteq> pl_Principal plan \<or>
          \<not> sha256Pattern (eb_ManifestHash binding) \<or> \<not> sha256Pattern (eb_ObservationRevision binding) \<or>
          \<not> valid_utc (eb_ObservedAt binding) \<or> eb_PermissionRevision binding \<noteq> permissionRevision \<or>
          \<not> sha256Pattern (eb_PermissionRevision binding) \<or> \<not> valid_utc (eb_ValidUntil binding) \<or>
          \<not> time_Before (eb_ObservedAt binding) (eb_ValidUntil binding) \<or>
          time_Before (pl_CreatedAt plan) (eb_ObservedAt binding) \<or>
          \<not> time_Before (pl_CreatedAt plan) (eb_ValidUntil binding) \<or> \<not> sha256Pattern (eb_BindingSHA256 binding))
         (ErrInvalidCompiledPlan ''envelope binding''),
       fail_if (hashJSON L (lb_binding L) (binding\<lparr>eb_BindingSHA256 := []\<rparr>) \<noteq> Some (eb_BindingSHA256 binding))
         (ErrInvalidCompiledPlan ''envelope binding integrity'')]"

definition payload_header :: "compiledPayloadV1 \<Rightarrow> plan_header" where
  "payload_header v =
     (let plan = cp_Plan v in
      \<lparr>lh_PlanID = pl_PlanID plan, lh_ProjectID = ds_Project (cp_Desired v), lh_Environment = pl_Environment plan,
       lh_Account = ds_Account (cp_Desired v), lh_CreatedAt = pl_CreatedAt plan, lh_ExpiresAt = pl_ExpiresAt plan,
       lh_LocalPolicyHash = ph_Local (pl_PolicyHash plan), lh_ApprovedPolicyHash = ph_Approved (pl_PolicyHash plan)\<rparr>)"

definition validate_plan_binding ::
  "compile_lib \<Rightarrow> compiledPayloadV1 \<Rightarrow> DesiredResource list \<Rightarrow> bootstrap_error + ExecutionContract" where
  "validate_plan_binding L v expectedResources =
     (let definitions = stepRegistry expectedResources in
      case buildPlanValues L (payload_header v) (cp_Pricing v) definitions expectedResources (cp_Limits v) of
        Inl e \<Rightarrow> Inl (ErrInvalidCompiledPlan ''plan bindings'')
      | Inr (expectedPlan, contract) \<Rightarrow>
          check (first_error
            [fail_if (\<not> equalCanonicalValue (lb_plan L) expectedPlan (cp_Plan v))
               (ErrInvalidCompiledPlan ''plan bindings''),
             fail_if (\<not> equalCanonicalValue (lb_intents L)
                 (buildIntents definitions (eb_BindingSHA256 (cp_Binding v))) (cp_Intents v))
               (ErrInvalidCompiledPlan ''intent registry''),
             fail_if (\<not> equalCanonicalValue (lb_risks L) (buildRiskSummary (cp_Limits v)) (cp_Risks v))
               (ErrInvalidCompiledPlan ''risk summary'')])
            (Inr contract))"

definition validateCompiledPayload :: "compile_lib \<Rightarrow> compiledPayloadV1 \<Rightarrow> bootstrap_error + ExecutionContract" where
  "validateCompiledPayload L v =
     check (first_error
       [replace_error (ErrInvalidCompiledPlan ''PlanV1'') (ValidatePlan (lb_plan L) (lb_sha256hex L) (cp_Plan v)),
        validateDesiredState L (cp_Desired v) (cp_Plan v)])
       (case buildDesiredResources L (cp_Desired v) of
          Inl e \<Rightarrow> Inl (ErrInvalidCompiledPlan ''desired resources'')
        | Inr expectedResources \<Rightarrow>
            check (first_error
              [fail_if (\<not> equalCanonicalValue (lb_resources L) expectedResources (cp_DesiredResources v))
                 (ErrInvalidCompiledPlan ''desired resources''),
               validateLimitsAndPricing L (cp_Limits v) (cp_Pricing v) (cp_Plan v) (cp_Desired v),
               fail_if (cp_CleanupCapabilities v \<noteq> InitialCleanupCapabilities)
                 (ErrInvalidCompiledPlan ''cleanup capabilities''),
               replace_error (ErrInvalidCompiledPlan ''permission evidence'')
                 (validatePermissionEvidence_at L (cp_Permissions v) (stepRegistry expectedResources)
                    (ds_Account (cp_Desired v)) (ds_Project (cp_Desired v)) (pl_CreatedAt (cp_Plan v))),
               validateBinding L (cp_Binding v) (cp_Plan v) (px_Revision (cp_Permissions v))])
              (validate_plan_binding L v expectedResources))"

subsection \<open>Sealing and compiling\<close>

text \<open>\<open>clonePlan\<close> encodes a plan and decodes it again, without looking at the errors.\<close>

definition clonePlan :: "compile_lib \<Rightarrow> Plan \<Rightarrow> Plan" where
  "clonePlan L plan = lb_reread L (case lb_plan L plan of None \<Rightarrow> [] | Some encoded \<Rightarrow> encoded)"

definition clonePayload :: "compile_lib \<Rightarrow> compiledPayloadV1 \<Rightarrow> compiledPayloadV1" where
  "clonePayload L payload = payload\<lparr>cp_Plan := clonePlan L (cp_Plan payload)\<rparr>"

definition sealCompiled ::
  "compile_lib \<Rightarrow> compiledPayloadV1 \<Rightarrow> ExecutionContract \<Rightarrow> bootstrap_error + CompiledPlan" where
  "sealCompiled L payload contract =
     (case validateCompiledPayload L payload of
        Inl e \<Rightarrow> Inl (ErrInvalidCompiledPlan ''compiler output'')
      | Inr validated \<Rightarrow>
          if ec_digest validated \<noteq> ec_digest contract then Inl (ErrInvalidCompiledPlan ''compiler output'')
          else case hashJSON L (lb_payload L) payload of
            None \<Rightarrow> Inl (ErrInvalidCompiledPlan ''document hash'')
          | Some digest \<Rightarrow> Inr \<lparr>cv_payload = clonePayload L payload, cv_documentHash = digest, cv_contract = contract\<rparr>)"

definition compile_payload ::
  "CompileRequest \<Rightarrow> Plan \<Rightarrow> EnvelopeBinding \<Rightarrow> DesiredResource list \<Rightarrow> BootstrapRunLimits \<Rightarrow> compiledPayloadV1" where
  "compile_payload request plan binding resources limits =
     \<lparr>cp_Plan = plan, cp_Binding = binding, cp_Desired = desiredState request, cp_DesiredResources = resources,
      cp_Limits = limits, cp_Pricing = cq_Pricing request, cp_Permissions = cq_Permissions request,
      cp_CleanupCapabilities = InitialCleanupCapabilities,
      cp_Intents = buildIntents (stepRegistry resources) (eb_BindingSHA256 binding), cp_Risks = buildRiskSummary limits\<rparr>"

text \<open>What is built before the binding: the sealed plan, its contract, the resources and the limits.\<close>

definition compile_parts ::
  "compile_lib \<Rightarrow> CompileRequest \<Rightarrow>
   bootstrap_error + (Plan \<times> ExecutionContract \<times> DesiredResource list \<times> BootstrapRunLimits)" where
  "compile_parts L request =
     check (validateCompileRequest L request)
       (case buildDesiredResources L (desiredState request) of
          Inl e \<Rightarrow> Inl (ErrInvalidCompileRequest ''desired resources'')
        | Inr resources \<Rightarrow>
            check (rejectTargetCollisions (cq_Preflight request) resources)
              (bind_result (buildRunLimits request) (\<lambda>limits.
                 check (validatePermissionEvidence_at L (cq_Permissions request) (stepRegistry resources)
                     (pf_Account (request_payload request)) (kf_project (cq_Configuration request))
                     (cq_CreatedAt request))
                   (bind_result (buildPlanValues L (request_header request) (cq_Pricing request)
                       (stepRegistry resources) resources limits) (\<lambda>(plan, contract).
                      Inr (plan, contract, resources, limits))))))"

definition Compile :: "compile_lib \<Rightarrow> CompileRequest \<Rightarrow> bootstrap_error + CompiledPlan" where
  "Compile L request =
     bind_result (compile_parts L request) (\<lambda>(plan, contract, resources, limits).
       bind_result (buildEnvelopeBinding L request plan) (\<lambda>binding.
         sealCompiled L (compile_payload request plan binding resources limits) contract))"

subsection \<open>The canonical document\<close>

text \<open>
  The duplicate-key walk. Its two messages for a malformed token are one here: the document has passed
  \<open>json.Valid\<close> when it is walked.
\<close>

definition bootstrap_walk_error :: "walk_error \<Rightarrow> bootstrap_error" where
  "bootstrap_walk_error e =
     ErrInvalidCompiledPlan
      (case e of
         MalformedJSON \<Rightarrow> ''malformed or null JSON'' | NullNotAllowed \<Rightarrow> ''malformed or null JSON''
       | KeyNotString \<Rightarrow> ''object key'' | DuplicateKey \<Rightarrow> ''duplicate field''
       | UnexpectedDelimiter \<Rightarrow> ''JSON delimiter'' | TrailingJSON \<Rightarrow> ''trailing data'' | _ \<Rightarrow> [])"

definition rejectDuplicateKeys :: "lexeme list \<Rightarrow> bootstrap_error option" where
  "rejectDuplicateKeys xs = map_option bootstrap_walk_error (walk_document AnySchema xs)"

definition compiled_wire :: "compiledPayloadV1 \<Rightarrow> string \<Rightarrow> compiledWireV1" where
  "compiled_wire payload hash =
     \<lparr>cw_SchemaVersion = CompiledPlanSchemaV1, cw_Payload = payload, cw_DocumentSHA256 = hash\<rparr>"

definition CompiledPlan_CanonicalJSON :: "compile_lib \<Rightarrow> CompiledPlan \<Rightarrow> bootstrap_error + string" where
  "CompiledPlan_CanonicalJSON L v =
     (case validateCompiledPayload L (cv_payload v) of
        Inl e \<Rightarrow> Inl (ErrInvalidCompiledPlan ''payload'')
      | Inr contract \<Rightarrow>
          if ec_digest contract \<noteq> ec_digest (cv_contract v) then Inl (ErrInvalidCompiledPlan ''payload'')
          else if hashJSON L (lb_payload L) (cv_payload v) \<noteq> Some (cv_documentHash v)
          then Inl (ErrInvalidCompiledPlan ''document hash'')
          else case jc_marshal (lb_wire L) (compiled_wire (clonePayload L (cv_payload v)) (cv_documentHash v)) of
            None \<Rightarrow> Inl (ErrInvalidCompiledPlan ''encoding'')
          | Some encoded \<Rightarrow> Inr encoded)"

definition ParseCompiledPlan :: "compile_lib \<Rightarrow> string \<Rightarrow> bootstrap_error + CompiledPlan" where
  "ParseCompiledPlan L encoded =
     check (first_error
       [fail_if (encoded = [] \<or> jc_parse (lb_wire L) encoded = None) (ErrInvalidCompiledPlan ''document''),
        rejectDuplicateKeys (jc_lex (lb_wire L) encoded)])
       (case jc_decode (lb_wire L) encoded of
          None \<Rightarrow> Inl (ErrInvalidCompiledPlan ''document schema'')
        | Some (wire, at_end) \<Rightarrow>
            check (first_error
              [fail_if (\<not> at_end) (ErrInvalidCompiledPlan ''trailing data''),
               fail_if (cw_SchemaVersion wire \<noteq> CompiledPlanSchemaV1 \<or> \<not> sha256Pattern (cw_DocumentSHA256 wire))
                 (ErrInvalidCompiledPlan ''schema or document hash'')])
              (bind_result (validateCompiledPayload L (cw_Payload wire)) (\<lambda>contract.
                 check (first_error
                   [fail_if (hashJSON L (lb_payload L) (cw_Payload wire) \<noteq> Some (cw_DocumentSHA256 wire))
                      (ErrInvalidCompiledPlan ''document integrity''),
                    fail_if (jc_marshal (lb_wire L) wire \<noteq> Some encoded)
                      (ErrInvalidCompiledPlan ''noncanonical encoding'')])
                   (Inr \<lparr>cv_payload = clonePayload L (cw_Payload wire), cv_documentHash = cw_DocumentSHA256 wire,
                     cv_contract = contract\<rparr>))))"

end
