(* ===== verification/BootstrapDocument.thy ===== *)
theory BootstrapDocument
  imports BootstrapCompile
begin

section \<open>internal/isolation/bootstrap: the JSON value of a compiled plan (types.go)\<close>

text \<open>
  What \<open>json.Marshal\<close> writes for the wire document by its struct tags, a map as an object with sorted keys. The
  slices are never nil: those of a payload that validates are not empty or were made by \<open>cloneStrings\<close>.
  A value has no null and no duplicate key exactly if it conforms to \<open>AnySchema\<close>, so the walk of
  \<open>ParseCompiledPlan\<close> does not refuse what \<open>CanonicalJSON\<close> writes.
\<close>

abbreviation text_field :: "string \<Rightarrow> string \<Rightarrow> string \<times> jvalue option" where
  "text_field k s \<equiv> (k, Some (JString s))"

abbreviation int_field :: "string \<Rightarrow> int \<Rightarrow> string \<times> jvalue option" where
  "int_field k i \<equiv> (k, Some (json_int i))"

abbreviation texts_field :: "string \<Rightarrow> string list \<Rightarrow> string \<times> jvalue option" where
  "texts_field k xs \<equiv> (k, Some (JArray (map JString xs)))"

definition json_map :: "string_map \<Rightarrow> jvalue" where
  "json_map m = JObject (map (\<lambda>(k, v). (k, JString v)) (sorted_list_of_fmap m))"

fun Permanence_string :: "Permanence \<Rightarrow> string" where
  "Permanence_string PermanentSingleton = ''permanent-singleton''"
| "Permanence_string DisposableRun = ''disposable-run''"
| "Permanence_string (PermanenceOther s) = s"

fun IntentKind_string :: "IntentKind \<Rightarrow> string" where
  "IntentKind_string IntentAuditBootstrap = ''audit-bootstrap''"
| "IntentKind_string IntentAuditRetention = ''audit-retention-lock''"
| "IntentKind_string IntentControlBucket = ''control-bucket''"
| "IntentKind_string IntentBucketIAM = ''bucket-iam''"
| "IntentKind_string IntentSeedControl = ''seed-control''"
| "IntentKind_string IntentLockRoundTrip = ''lock-round-trip''"
| "IntentKind_string IntentNetwork = ''network''"
| "IntentKind_string IntentSubnet = ''subnet''"
| "IntentKind_string IntentNAT = ''nat''"
| "IntentKind_string IntentFirewall = ''firewall''"
| "IntentKind_string IntentIdentities = ''identities''"
| "IntentKind_string IntentControlPrefix = ''control-prefix''"
| "IntentKind_string IntentNightlyWipe = ''nightly-wipe''"
| "IntentKind_string IntentIsolationGate = ''isolation-gate''"
| "IntentKind_string (IntentKindOther s) = s"

fun PointOfNoReturnClass_string :: "PointOfNoReturnClass \<Rightarrow> string" where
  "PointOfNoReturnClass_string PONRReversible = ''reversible''"
| "PointOfNoReturnClass_string PONRAuditRetentionLock = ''audit-retention-lock''"
| "PointOfNoReturnClass_string PONRVerificationOnly = ''verification-only''"
| "PointOfNoReturnClass_string (PONROther s) = s"

fun CleanupCapability_string :: "CleanupCapability \<Rightarrow> string" where
  "CleanupCapability_string CleanupComputeInstances = ''compute.instances''"
| "CleanupCapability_string CleanupComputeDisks = ''compute.disks''"
| "CleanupCapability_string CleanupComputeFirewalls = ''compute.firewalls''"
| "CleanupCapability_string (CleanupOther s) = s"

definition pricing_json :: "(gotime \<Rightarrow> string) \<Rightarrow> PricingEvidence \<Rightarrow> struct" where
  "pricing_json fmt_time x =
     [text_field ''machineType'' (pe_MachineType x), text_field ''region'' (pe_Region x),
      text_field ''zone'' (pe_Zone x), int_field ''guestCpus'' (pe_GuestCPUs x),
      int_field ''memoryMiB'' (pe_MemoryMiB x), int_field ''diskGiB'' (pe_DiskGiB x),
      int_field ''instances'' (pe_Instances x), int_field ''lifetimeSeconds'' (pe_LifetimeSeconds x),
      int_field ''estimatedRunMicros'' (pe_EstimatedRunMicros x), text_field ''currency'' (pe_Currency x),
      text_field ''priceTableDate'' (pe_PriceTableDate x), text_field ''schema'' (pe_Schema x),
      text_field ''revision'' (pe_Revision x), text_field ''observedAt'' (fmt_time (pe_ObservedAt x)),
      text_field ''validUntil'' (fmt_time (pe_ValidUntil x))]"

definition grant_json :: "PermissionGrant \<Rightarrow> struct" where
  "grant_json x =
     [text_field ''stepId'' (pg_StepID x), text_field ''identity'' (ExecutionIdentity_string (pg_Identity x)),
      text_field ''permission'' (pg_Permission x), (''granted'', Some (json_bool (pg_Granted x)))]"

definition evidence_json :: "(gotime \<Rightarrow> string) \<Rightarrow> PermissionEvidence \<Rightarrow> struct" where
  "evidence_json fmt_time x =
     [text_field ''account'' (px_Account x), text_field ''project'' (px_Project x),
      text_field ''schema'' (px_Schema x), text_field ''revision'' (px_Revision x),
      text_field ''observedAt'' (fmt_time (px_ObservedAt x)), text_field ''validUntil'' (fmt_time (px_ValidUntil x)),
      (''grants'', Some (JArray (map (\<lambda>y. json_object (grant_json y)) (px_Grants x))))]"

definition desired_json :: "DesiredResource \<Rightarrow> struct" where
  "desired_json x =
     [text_field ''id'' (dr_ID x), text_field ''kind'' (BootstrapResourceKind_string (dr_Kind x)),
      text_field ''name'' (dr_Name x), text_field ''project'' (dr_Project x),
      text_field ''location'' (dr_Location x), text_field ''providerId'' (dr_ProviderID x),
      text_field ''parentProviderId'' (dr_ParentProviderID x),
      text_field ''permanence'' (Permanence_string (dr_Permanence x)),
      text_field ''desiredStateFingerprint'' (dr_DesiredStateFingerprint x)]"

definition state_json :: "HarnessDesiredState \<Rightarrow> struct" where
  "state_json x =
     [text_field ''account'' (ds_Account x), text_field ''project'' (ds_Project x),
      text_field ''region'' (ds_Region x), text_field ''zone'' (ds_Zone x), text_field ''cidr'' (ds_CIDR x),
      text_field ''namePrefix'' (ds_NamePrefix x), (''labels'', Some (json_map (ds_Labels x))),
      text_field ''controlBucket'' (ds_ControlBucket x), text_field ''auditBucket'' (ds_AuditBucket x),
      text_field ''vpc'' (ds_VPC x), text_field ''subnet'' (ds_Subnet x), text_field ''router'' (ds_Router x),
      text_field ''nat'' (ds_NAT x), text_field ''iapFirewall'' (ds_IAPFirewall x),
      text_field ''internalFirewall'' (ds_InternalFirewall x), text_field ''nodeTag'' (ds_NodeTag x),
      text_field ''operatorPrincipal'' (ds_OperatorPrincipal x),
      text_field ''destructivePrincipal'' (ds_DestructivePrincipal x), text_field ''vmPrincipal'' (ds_VMPrincipal x),
      text_field ''wipePrincipal'' (ds_WipePrincipal x), text_field ''ciPrincipal'' (ds_CIPrincipal x),
      text_field ''operatorRole'' (ds_OperatorRole x), text_field ''destructiveRole'' (ds_DestructiveRole x),
      text_field ''wipeRunJob'' (ds_WipeRunJob x), text_field ''wipeSchedulerJob'' (ds_WipeSchedulerJob x),
      text_field ''wipeScheduleUtc'' (ds_WipeScheduleUTC x), text_field ''imageDigest'' (ds_ImageDigest x),
      int_field ''planValiditySeconds'' (ds_PlanValiditySeconds x)]"

definition limits_json :: "BootstrapRunLimits \<Rightarrow> struct" where
  "limits_json x =
     [text_field ''maximumMachineType'' (bl_MaximumMachineType x),
      int_field ''maximumGuestCpus'' (bl_MaximumGuestCPUs x), int_field ''maximumMemoryMiB'' (bl_MaximumMemoryMiB x),
      int_field ''maximumDiskGiB'' (bl_MaximumDiskGiB x), int_field ''maximumInstances'' (bl_MaximumInstances x),
      int_field ''maximumLifetimeSeconds'' (bl_MaximumLifetimeSec x),
      int_field ''maximumCostMicros'' (bl_MaximumCostMicros x),
      int_field ''estimatedCostMicros'' (bl_EstimatedCostMicros x)]"

definition binding_json :: "(gotime \<Rightarrow> string) \<Rightarrow> EnvelopeBinding \<Rightarrow> struct" where
  "binding_json fmt_time x =
     [text_field ''workflowId'' (eb_WorkflowID x), text_field ''planId'' (eb_PlanID x),
      text_field ''planHash'' (eb_PlanHash x), text_field ''account'' (eb_Account x),
      text_field ''manifestHash'' (eb_ManifestHash x), text_field ''observationRevision'' (eb_ObservationRevision x),
      text_field ''permissionRevision'' (eb_PermissionRevision x),
      text_field ''observedAt'' (fmt_time (eb_ObservedAt x)), text_field ''validUntil'' (fmt_time (eb_ValidUntil x)),
      text_field ''bindingSha256'' (eb_BindingSHA256 x)]"

definition transition_json :: "HarnessTransition \<Rightarrow> struct" where
  "transition_json x =
     [text_field ''fromBootstrapPhase'' (ht_FromBootstrapPhase x),
      text_field ''fromTestUsability'' (ht_FromTestUsability x),
      text_field ''toBootstrapPhase'' (ht_ToBootstrapPhase x),
      text_field ''toTestUsability'' (ht_ToTestUsability x)]"

definition step_intent_json :: "StepIntent \<Rightarrow> struct" where
  "step_intent_json x =
     [text_field ''stepId'' (si_StepID x), text_field ''kind'' (IntentKind_string (si_Kind x)),
      text_field ''envelopeBindingSha256'' (si_EnvelopeBindingSHA256 x),
      text_field ''executingIdentity'' (ExecutionIdentity_string (si_ExecutingIdentity x)),
      texts_field ''resourceIds'' (si_ResourceIDs x), texts_field ''dependencies'' (si_Dependencies x),
      texts_field ''preconditions'' (si_Preconditions x), texts_field ''verification'' (si_Verification x),
      (''retry'', Some (json_object (retry_json (si_Retry x)))), int_field ''timeoutSeconds'' (si_TimeoutSeconds x),
      (''cancelSafe'', Some (json_bool (si_CancelSafe x))), text_field ''compensation'' (si_Compensation x),
      text_field ''pointOfNoReturn'' (PointOfNoReturnClass_string (si_PointOfNoReturn x)),
      (''transition'', map_option (\<lambda>t. json_object (transition_json t)) (si_Transition x))]"

definition risks_json :: "RiskSummary \<Rightarrow> struct" where
  "risks_json x =
     [int_field ''expectedCostCeilingMicros'' (rk_ExpectedCostCeilingMicros x),
      int_field ''estimatedRunCostMicros'' (rk_EstimatedRunCostMicros x),
      int_field ''expectedDowntimeSeconds'' (rk_ExpectedDowntimeSeconds x),
      text_field ''productionExposure'' (rk_ProductionExposure x),
      texts_field ''permanentResiduals'' (rk_PermanentResiduals x), texts_field ''risks'' (rk_Risks x),
      texts_field ''rollback'' (rk_Rollback x), texts_field ''compensation'' (rk_Compensation x),
      text_field ''pointOfNoReturn'' (rk_PointOfNoReturn x)]"

definition payload_json :: "(gotime \<Rightarrow> string) \<Rightarrow> (usd \<Rightarrow> string) \<Rightarrow> compiledPayloadV1 \<Rightarrow> struct" where
  "payload_json fmt_time fmt_usd x =
     [(''plan'', Some (plan_json fmt_time fmt_usd (cp_Plan x))),
      (''binding'', Some (json_object (binding_json fmt_time (cp_Binding x)))),
      (''desired'', Some (json_object (state_json (cp_Desired x)))),
      (''desiredResources'', Some (JArray (map (\<lambda>y. json_object (desired_json y)) (cp_DesiredResources x)))),
      (''limits'', Some (json_object (limits_json (cp_Limits x)))),
      (''pricing'', Some (json_object (pricing_json fmt_time (cp_Pricing x)))),
      (''permissions'', Some (json_object (evidence_json fmt_time (cp_Permissions x)))),
      texts_field ''cleanupCapabilities'' (map CleanupCapability_string (cp_CleanupCapabilities x)),
      (''intents'', Some (JArray (map (\<lambda>y. json_object (step_intent_json y)) (cp_Intents x)))),
      (''risks'', Some (json_object (risks_json (cp_Risks x))))]"

definition wire_json :: "(gotime \<Rightarrow> string) \<Rightarrow> (usd \<Rightarrow> string) \<Rightarrow> compiledWireV1 \<Rightarrow> struct" where
  "wire_json fmt_time fmt_usd x =
     [text_field ''schemaVersion'' (cw_SchemaVersion x),
      (''payload'', Some (json_object (payload_json fmt_time fmt_usd (cw_Payload x)))),
      text_field ''documentSha256'' (cw_DocumentSHA256 x)]"

subsection \<open>No null and no duplicate key\<close>

abbreviation plain :: "jvalue \<Rightarrow> bool" where
  "plain \<equiv> conforms AnySchema"

lemma plain_list: "plain (JArray vs) \<longleftrightarrow> (\<forall>v \<in> set vs. plain v)"
  by (simp add: conforms_array element_schema_def)

lemma plain_object: "plain (JObject ms) \<longleftrightarrow> distinct (map fst ms) \<and> (\<forall>m \<in> set ms. plain (snd m))"
  by (simp add: conforms_object allows_object_def member_conforms_def child_schema_def)

lemma conforms_plain: "conforms s v \<Longrightarrow> plain v"
proof (induction s v rule: conforms.induct)
  case (4 s vs)
  then obtain e where "element_schema s = Some e" "\<forall>v \<in> set vs. conforms e v" by (auto simp: conforms_array)
  with "4.IH" show ?case unfolding plain_list by blast
next
  case (5 s ms)
  have "plain (snd m)" if "m \<in> set ms" for m
  proof -
    from "5.prems" that have "member_conforms s m" by (simp add: conforms_object)
    then obtain c where "child_schema s (fst m) = Some c" "conforms c (snd m)"
      by (auto simp: member_conforms_def split: option.splits)
    with "5.IH" that show ?thesis by blast
  qed
  with "5.prems" show ?case unfolding plain_object by (simp add: conforms_object)
qed (auto simp: allows_scalar_def)

lemma plain_struct:
  "distinct (map fst fs) \<Longrightarrow> (\<forall>f \<in> set fs. case snd f of None \<Rightarrow> True | Some x \<Rightarrow> plain x) \<Longrightarrow> plain (json_object fs)"
  unfolding json_object_def plain_object map_filter_keys map_filter_mem
  by (force simp: distinct_map_filter map_filter_mem)

lemma plain_map: "plain (json_map m)"
  by (auto simp: json_map_def plain_object comp_def split_beta sorted_list_of_fmap_def sorted_list_of_fset.rep_eq)

lemma plain_leaves [simp]: "plain (JString s)" "plain (json_bool b)" "plain (json_int i)" "plain (JScalar x)"
  by (simp_all add: json_bool_def json_int_def)

lemmas compiled_json_defs =
  pricing_json_def grant_json_def evidence_json_def desired_json_def state_json_def limits_json_def binding_json_def
  transition_json_def step_intent_json_def risks_json_def retry_json_def

lemma plain_parts:
  "plain (json_object (pricing_json ft v1))" "plain (json_object (grant_json v2))"
  "plain (json_object (desired_json v4))" "plain (json_object (state_json v5))" "plain (json_object (limits_json v6))"
  "plain (json_object (binding_json ft v7))" "plain (json_object (transition_json v8))"
  "plain (json_object (retry_json v9))" "plain (json_object (risks_json v10))"
  by (rule plain_struct; simp add: compiled_json_defs plain_list plain_map)+

lemma plain_nested:
  "plain (json_object (evidence_json ft v))" "plain (json_object (step_intent_json w))"
  by (rule plain_struct; simp add: evidence_json_def step_intent_json_def plain_list plain_parts split: option.splits)+

lemma compiled_document_plain:
  assumes "plain (plan_json ft fu (cp_Plan (cw_Payload w)))"
  shows "plain (json_object (wire_json ft fu w))"
proof -
  have "plain (json_object (payload_json ft fu (cw_Payload w)))"
    by (rule plain_struct) (simp_all add: payload_json_def plain_list plain_parts plain_nested assms)
  then show ?thesis by (intro plain_struct) (simp_all add: wire_json_def)
qed

end
