(* ===== verification/BootstrapGuarantees.thy ===== *)
theory BootstrapGuarantees
  imports BootstrapDocument
begin

section \<open>What a compiled bootstrap plan guarantees\<close>

subsection \<open>The compiler and the validation of a payload in closed form\<close>

lemma buildPlanValues_Inr:
  "buildPlanValues L h pricing definitions desired limits = Inr (plan, contract) \<longleftrightarrow>
     (\<exists>resources.
        map_result (step_resource L (lh_ProjectID h) desired limits) definitions = Inr resources \<and>
        NewExecutionContract (lb_contract L) (lb_sha256hex L) bootstrap_WorkflowID ''audit-retention-lock''
          ''k1-retention-lock'' PointOfNoReturnMutationObserved (map (contract_step_of L) definitions) = Inr contract \<and>
        snd (microsToUSD (bl_MaximumCostMicros limits)) \<and> snd (microsToUSD (bl_EstimatedCostMicros limits)) \<and>
        SealPlan (lb_plan L) (lb_sha256hex L)
          (unsealed_plan L h (plan_cost L pricing (fst (microsToUSD (bl_EstimatedCostMicros limits)))
             (fst (microsToUSD (bl_MaximumCostMicros limits)))) (zip definitions resources)) = Inr plan)"
proof (cases "NewExecutionContract (lb_contract L) (lb_sha256hex L) bootstrap_WorkflowID ''audit-retention-lock''
          ''k1-retention-lock'' PointOfNoReturnMutationObserved (map (contract_step_of L) definitions)")
  case (Inl e)
  then show ?thesis by (simp add: buildPlanValues_def bind_result_is_Inr)
next
  case (Inr c)
  then show ?thesis
    unfolding buildPlanValues_def bind_result_is_Inr Let_def
    by (auto split: sum.split_asm if_split_asm split del: if_split)
qed

lemma compile_parts_Inr:
  "compile_parts L request = Inr (plan, contract, resources, limits) \<longleftrightarrow>
     validateCompileRequest L request = None \<and> buildDesiredResources L (desiredState request) = Inr resources \<and>
     rejectTargetCollisions (cq_Preflight request) resources = None \<and> buildRunLimits request = Inr limits \<and>
     validatePermissionEvidence_at L (cq_Permissions request) (stepRegistry resources)
       (pf_Account (request_payload request)) (kf_project (cq_Configuration request)) (cq_CreatedAt request) = None \<and>
     buildPlanValues L (request_header request) (cq_Pricing request) (stepRegistry resources) resources limits =
       Inr (plan, contract)"
  by (auto simp: compile_parts_def bind_result_is_Inr split: sum.splits)

lemma validate_plan_binding_Inr:
  "validate_plan_binding L v rs = Inr contract \<longleftrightarrow>
     (\<exists>plan. buildPlanValues L (payload_header v) (cp_Pricing v) (stepRegistry rs) rs (cp_Limits v) =
         Inr (plan, contract) \<and>
       equalCanonicalValue (lb_plan L) plan (cp_Plan v) \<and>
       equalCanonicalValue (lb_intents L) (buildIntents (stepRegistry rs) (eb_BindingSHA256 (cp_Binding v)))
         (cp_Intents v) \<and>
       equalCanonicalValue (lb_risks L) (buildRiskSummary (cp_Limits v)) (cp_Risks v))"
  by (auto simp: validate_plan_binding_def Let_def split: sum.splits)

lemma validateCompiledPayload_Inr:
  "validateCompiledPayload L v = Inr contract \<longleftrightarrow>
     ValidatePlan (lb_plan L) (lb_sha256hex L) (cp_Plan v) = None \<and>
     validateDesiredState L (cp_Desired v) (cp_Plan v) = None \<and>
     (\<exists>rs. buildDesiredResources L (cp_Desired v) = Inr rs \<and>
       equalCanonicalValue (lb_resources L) rs (cp_DesiredResources v) \<and>
       validateLimitsAndPricing L (cp_Limits v) (cp_Pricing v) (cp_Plan v) (cp_Desired v) = None \<and>
       cp_CleanupCapabilities v = InitialCleanupCapabilities \<and>
       validatePermissionEvidence_at L (cp_Permissions v) (stepRegistry rs) (ds_Account (cp_Desired v))
         (ds_Project (cp_Desired v)) (pl_CreatedAt (cp_Plan v)) = None \<and>
       validateBinding L (cp_Binding v) (cp_Plan v) (px_Revision (cp_Permissions v)) = None \<and>
       validate_plan_binding L v rs = Inr contract)"
  by (auto simp: validateCompiledPayload_def split: sum.splits)

lemma sealCompiled_Inr:
  "sealCompiled L payload contract = Inr v \<longleftrightarrow>
     (\<exists>validated digest. validateCompiledPayload L payload = Inr validated \<and> ec_digest validated = ec_digest contract \<and>
       hashJSON L (lb_payload L) payload = Some digest \<and>
       v = \<lparr>cv_payload = clonePayload L payload, cv_documentHash = digest, cv_contract = contract\<rparr>)"
  by (auto simp: sealCompiled_def split: sum.splits option.splits if_splits)

lemma Compile_Inr:
  "Compile L request = Inr v \<longleftrightarrow>
     (\<exists>plan contract resources limits binding.
        compile_parts L request = Inr (plan, contract, resources, limits) \<and>
        buildEnvelopeBinding L request plan = Inr binding \<and>
        sealCompiled L (compile_payload request plan binding resources limits) contract = Inr v)"
  by (auto simp: Compile_def bind_result_is_Inr)

subsection \<open>The contract depends on the registry only\<close>

lemma built_contract_unique:
  "buildPlanValues L h p ds rs l = Inr (plan, c) \<Longrightarrow> buildPlanValues L h' p' ds rs' l' = Inr (plan', c') \<Longrightarrow> c = c'"
  by (auto simp: buildPlanValues_Inr)

lemma validated_contract:
  assumes "compile_parts L request = Inr (plan, contract, resources, limits)"
    and "cp_Desired v = desiredState request" and "validateCompiledPayload L v = Inr validated"
  shows "validated = contract"
  using assms built_contract_unique by (fastforce simp: compile_parts_Inr validateCompiledPayload_Inr validate_plan_binding_Inr)

subsection \<open>Round trip\<close>

lemma compiled_payload_revalidates:
  assumes "compile_parts L request = Inr (plan, contract, resources, limits)" and "clonePlan L plan = plan"
    and "Compile L request = Inr v"
  shows "validateCompiledPayload L (cv_payload v) = Inr (cv_contract v)" and "clonePayload L (cv_payload v) = cv_payload v"
    and "hashJSON L (lb_payload L) (cv_payload v) = Some (cv_documentHash v)"
proof -
  obtain binding digest validated where
    valid: "validateCompiledPayload L (compile_payload request plan binding resources limits) = Inr validated"
    and hash: "hashJSON L (lb_payload L) (compile_payload request plan binding resources limits) = Some digest"
    and v: "v = \<lparr>cv_payload = clonePayload L (compile_payload request plan binding resources limits),
      cv_documentHash = digest, cv_contract = contract\<rparr>"
    using assms(1,3) by (auto simp: Compile_Inr sealCompiled_Inr)
  show clone: "clonePayload L (cv_payload v) = cv_payload v"
    using assms(2) by (simp add: v clonePayload_def compile_payload_def)
  have same: "cv_payload v = compile_payload request plan binding resources limits"
    using assms(2) by (simp add: v clonePayload_def compile_payload_def)
  show "validateCompiledPayload L (cv_payload v) = Inr (cv_contract v)"
    using valid validated_contract [OF assms(1) _ valid] by (simp add: same) (simp add: v compile_payload_def)
  show "hashJSON L (lb_payload L) (cv_payload v) = Some (cv_documentHash v)" using hash unfolding same by (simp add: v)
qed

lemma document_accepted:
  assumes "validateCompiledPayload L (cv_payload v) = Inr (cv_contract v)" and "clonePayload L (cv_payload v) = cv_payload v"
    and "hashJSON L (lb_payload L) (cv_payload v) = Some (cv_documentHash v)"
    and "\<forall>s. sha256Pattern (lb_sha256hex L s)" and "b \<noteq> []"
    and "codec_roundtrip (lb_wire L) (compiled_wire (cv_payload v) (cv_documentHash v)) b
      (json_object (wire_json fmt_time fmt_usd (compiled_wire (cv_payload v) (cv_documentHash v))))"
  shows "ParseCompiledPlan L b = Inr v"
proof -
  have "sha256Pattern (cv_documentHash v)" using assms(3,4) by (auto simp: hashJSON_def) metis
  moreover have "rejectDuplicateKeys (jc_lex (lb_wire L) b) = None"
  proof -
    have "validatePlanStructure (cp_Plan (cv_payload v)) = None"
      using assms(1) by (auto simp: validateCompiledPayload_Inr ValidatePlan_def VerifyPlanHash_def split: option.splits)
    then have "plain (plan_json fmt_time fmt_usd (cp_Plan (cv_payload v)))"
      by (intro conforms_plain [OF plan_conforms]) (simp add: validatePlanStructure_def)
    then have "plain (json_object (wire_json fmt_time fmt_usd (compiled_wire (cv_payload v) (cv_documentHash v))))"
      by (intro compiled_document_plain) (simp add: compiled_wire_def)
    then show ?thesis
      using assms(6) by (auto simp: rejectDuplicateKeys_def codec_roundtrip_def walk_document_accepts)
  qed
  ultimately show ?thesis
    using assms by (simp add: ParseCompiledPlan_def codec_roundtrip_def) (simp add: compiled_wire_def)
qed

text \<open>
  C23. A plan that the compiler made survives its own document. Its canonical bytes are accepted by the parser,
  whose walk refuses null and duplicate keys, whose decoder refuses unknown fields and which recomputes
  every digest, the plan, the intents and the contract; and the parser returns the very same compiled plan.
  The codec is one that reads back the document of this plan, and re-reading the sealed plan gives it back.
\<close>

theorem compiled_plan_parses:
  assumes "compile_parts L request = Inr (plan, contract, resources, limits)" and "clonePlan L plan = plan"
    and "Compile L request = Inr v" and "\<forall>s. sha256Pattern (lb_sha256hex L s)" and "b \<noteq> []"
    and "codec_roundtrip (lb_wire L) (compiled_wire (cv_payload v) (cv_documentHash v)) b
      (json_object (wire_json fmt_time fmt_usd (compiled_wire (cv_payload v) (cv_documentHash v))))"
  shows "CompiledPlan_CanonicalJSON L v = Inr b \<and> ParseCompiledPlan L b = Inr v"
  using compiled_payload_revalidates [OF assms(1-3)] document_accepted [OF _ _ _ assms(4-6)] assms(6)
  by (simp add: CompiledPlan_CanonicalJSON_def codec_roundtrip_def)

end
