(* ===== verification/BootstrapAssembly.thy ===== *)
theory BootstrapAssembly
  imports BootstrapGuarantees
begin

section \<open>The registry of bootstrap steps always assembles a valid plan\<close>

text \<open>
  The collections that \<open>buildPlanValues\<close> derives from the step registry pass every check of the plan policy,
  for any project and any fingerprints: one resource and one step for each definition, and one permission for
  each permission of a definition. So only the header, the amounts and the libraries can make it fail.
\<close>

subsection \<open>From steps to plan collections\<close>

lemma check_all_None: "check_each (\<lambda>i. f) 0 xs = None \<longleftrightarrow> (\<forall>x \<in> set xs. f x = None)"
  by (simp add: check_each_None all_set_conv_all_nth)

lemma last_by_unique: "distinct (map key xs) \<Longrightarrow> x \<in> set xs \<Longrightarrow> last_by key xs (key x) = Some x"
proof (induction xs rule: rev_induct)
  case (snoc y ys)
  then show ?case by (cases "x = y") (auto simp: last_by_def)
qed simp

lemma distinct_by_coarser:
  assumes "distinct (map g xs)" and "\<And>x y. x \<in> set xs \<Longrightarrow> y \<in> set xs \<Longrightarrow> f x = f y \<Longrightarrow> g x = g y"
  shows "distinct (map f xs)"
  using assms(1)
proof (rule contrapos_pp)
  assume "\<not> distinct (map f xs)"
  then have "\<not> distinct xs \<or> \<not> inj_on f (set xs)" by (simp add: distinct_map)
  then have "\<not> distinct xs \<or> \<not> inj_on g (set xs)" using assms(2) unfolding inj_on_def by blast
  then show "\<not> distinct (map g xs)" by (simp add: distinct_map)
qed

lemma plan_steps_run:
  assumes "\<forall>s \<in> set steps. step_ok resources s"
    and "distinct (map ps_ID steps)" and "set (map ps_ID steps) \<inter> set (ss_seen st) = {}"
  shows "\<exists>st'. range_loop (plan_step resources) i st steps = Inr st' \<and>
    set (ss_seen st') = set (map ps_ID steps) \<union> set (ss_seen st) \<and>
    set (ss_covered st') = step_keys steps \<union> set (ss_covered st)"
  using assms
proof (induction steps arbitrary: i st)
  case Nil
  then show ?case by (simp add: step_keys_def)
next
  case (Cons s ss)
  let ?st = "\<lparr>ss_seen = ps_ID s # ss_seen st, ss_covered = map planResourceKey (elems (ps_Targets s)) @ ss_covered st\<rparr>"
  have "plan_step resources i st s = Inr ?st" using Cons.prems by (auto simp: plan_step_Inr)
  moreover obtain st' where "range_loop (plan_step resources) (Suc i) ?st ss = Inr st'"
    "set (ss_seen st') = set (map ps_ID ss) \<union> set (ss_seen ?st)"
    "set (ss_covered st') = step_keys ss \<union> set (ss_covered ?st)"
    using Cons.IH [of ?st "Suc i"] Cons.prems by auto
  ultimately show ?case by (auto simp: step_keys_def)
qed

lemma validateSteps_accepts:
  assumes "steps \<noteq> []" and "\<forall>s \<in> set steps. step_ok resources s" and "distinct (map ps_ID steps)"
    and "card (step_keys steps) = length resources" and "ponr \<in> set (map ps_ID steps)"
  shows "validateSteps steps ponr resources = None"
  using assms plan_steps_run [OF assms(2,3), of "\<lparr>ss_seen = [], ss_covered = []\<rparr>" 0]
  by (auto simp: validateSteps_def length_remdups_card_conv)

definition good_definitions :: "compile_lib \<Rightarrow> stepDefinition list \<Rightarrow> bool" where
  "good_definitions L ds \<longleftrightarrow>
     ds \<noteq> [] \<and> distinct (map df_id ds) \<and> (\<forall>d \<in> set ds. step_contract_ok (contract_step_of L d))"

definition bound_to :: "string \<Rightarrow> stepDefinition list \<Rightarrow> string list \<Rightarrow> (stepDefinition \<times> PlanResource) list" where
  "bound_to project ds fps = zip ds (map2 (plan_resource project) ds fps)"

lemma bound_mem:
  "length fps = length ds \<Longrightarrow> x \<in> set (bound_to project ds fps) \<longleftrightarrow>
     (\<exists>k < length ds. x = (ds ! k, plan_resource project (ds ! k) (fps ! k)))"
  by (auto simp: bound_to_def in_set_zip in_set_conv_nth)

lemma bound_maps:
  assumes "length fps = length ds"
  shows "map fst (bound_to project ds fps) = ds"
    and "map snd (bound_to project ds fps) = map2 (plan_resource project) ds fps"
    and "map pr_Name (map snd (bound_to project ds fps)) = map df_id ds"
  using assms by (auto simp: bound_to_def plan_resource_def intro: nth_equalityI)

lemma global_scope: "projectIDPattern p \<Longrightarrow> resourceScopeProject (''projects/'' @ p @ ''/global'') = Some p"
proof -
  assume p: "projectIDPattern p"
  have free: "split_on c (s @ c # t) = s # split_on c t" if "c \<notin> set s" for c s t
    using that by (induction s) auto
  have "\<not> is_lower CHR ''/''" "\<not> is_ident_char CHR ''/''" by (simp_all add: char_class_defs is_ident_char_def)
  then have slash: "CHR ''/'' \<notin> set p" using p by (cases p) (auto simp: projectIDPattern_def list_all_iff)
  show ?thesis
    using p free [OF slash, of "''global''"] by (simp add: resourceScopeProject_def)
qed

definition assembled :: "compile_lib \<Rightarrow> string \<Rightarrow> stepDefinition list \<Rightarrow> string list \<Rightarrow> bool" where
  "assembled L project ds fps \<longleftrightarrow>
     good_definitions L ds \<and> length fps = length ds \<and> [] \<notin> set fps \<and> projectIDPattern project"

lemma assembled_definition:
  "assembled L project ds fps \<Longrightarrow> x \<in> set (bound_to project ds fps) \<Longrightarrow> step_contract_ok (contract_step_of L (fst x))"
  by (auto simp: bound_mem good_definitions_def assembled_def)

lemma assembled_resource:
  "assembled L project ds fps \<Longrightarrow> x \<in> set (bound_to project ds fps) \<Longrightarrow>
     \<exists>fp. snd x = plan_resource project (fst x) fp \<and> fp \<noteq> []"
  by (auto simp: bound_mem assembled_def) (metis nth_mem)

lemma bound_place:
  "x \<in> set (bound_to project ds fps) \<Longrightarrow>
     pr_Scope (snd x) = ''projects/'' @ project @ ''/global'' \<and> pr_Kind (snd x) = ''bootstrap-action''"
  by (cases x) (auto simp: bound_to_def set_zip plan_resource_def)

lemma assembled_resource_ok:
  assumes "assembled L project ds fps" and "r \<in> set (map snd (bound_to project ds fps))"
  shows "resource_ok project r"
proof -
  obtain x where x: "x \<in> set (bound_to project ds fps)" "r = snd x" using assms(2) by auto
  have "identifierPattern ''bootstrap-action''" by (simp add: identifierPattern_def char_class_defs is_ident_char_def)
  moreover have "resourceScopeProject (''projects/'' @ project @ ''/global'') = Some project"
    using assms(1) by (intro global_scope) (simp add: assembled_def)
  ultimately show ?thesis
    using assembled_resource [OF assms(1) x(1)] assembled_definition [OF assms(1) x(1)]
    by (auto simp: x(2) resource_ok_def plan_resource_def step_contract_ok_def contract_step_of_def)
qed

lemma assembled_names:
  assumes "assembled L project ds fps"
  shows "distinct (map pr_Name (map snd (bound_to project ds fps)))"
  using assms bound_maps(3) [of fps ds project] by (simp add: good_definitions_def assembled_def)

lemma assembled_keys:
  assumes ok: "assembled L project ds fps"
  shows "distinct (map planResourceKey (map snd (bound_to project ds fps)))"
proof (rule distinct_by_coarser [OF assembled_names [OF ok]])
  fix r t
  assume rt: "r \<in> set (map snd (bound_to project ds fps))" "t \<in> set (map snd (bound_to project ds fps))"
    and key: "planResourceKey r = planResourceKey t"
  have "nul_free (pr_Name r)" "nul_free (pr_Name t)"
    using assembled_resource_ok [OF ok] rt by (auto simp: resource_ok_def intro: identifier_nul_free)
  moreover have "pr_Name r @ nul @ pr_Fingerprint r = pr_Name t @ nul @ pr_Fingerprint t"
  proof -
    obtain x y where "x \<in> set (bound_to project ds fps)" "r = snd x" "y \<in> set (bound_to project ds fps)" "t = snd y"
      using rt by (auto simp del: split_paired_All)
    then have "pr_Scope r = pr_Scope t" "pr_Kind r = pr_Kind t" using bound_place by metis+
    then show ?thesis using key by (simp add: planResourceKey_def)
  qed
  ultimately show "pr_Name r = pr_Name t" using append_nul_inject by blast
qed

lemma assembled_resources_valid:
  assumes ok: "assembled L project ds fps"
  shows "validateResources (map snd (bound_to project ds fps)) project = None"
proof -
  have "distinct (map stable_id (map snd (bound_to project ds fps)))"
    by (rule distinct_by_coarser [OF assembled_names [OF ok]]) (simp add: stable_id_def)
  then show ?thesis using assembled_resource_ok [OF ok] by (auto simp: validateResources_None)
qed

lemma assembled_ids:
  assumes "assembled L project ds fps"
  shows "map ps_ID (map (plan_step_of L) (bound_to project ds fps)) = map df_id ds"
proof -
  have "map fst (bound_to project ds fps) = ds" using assms by (intro bound_maps) (simp add: assembled_def)
  then have "map df_id ds = map (df_id \<circ> fst) (bound_to project ds fps)" by (metis map_map)
  then show ?thesis by (simp add: plan_step_of_def Let_def comp_def)
qed

lemma assembled_nonempty:
  assumes "assembled L project ds fps"
  shows "bound_to project ds fps \<noteq> []"
  using assembled_ids [OF assms] assms by (auto simp: assembled_def good_definitions_def)

lemma assembled_steps_valid:
  assumes ok: "assembled L project ds fps" and "ponr \<in> set (map df_id ds)"
  shows "validateSteps (map (plan_step_of L) (bound_to project ds fps)) ponr (map snd (bound_to project ds fps)) = None"
    (is "validateSteps ?steps ponr ?resources = None")
proof (rule validateSteps_accepts)
  have "step_keys ?steps = set (map planResourceKey ?resources)"
    by (auto simp: step_keys_def plan_step_of_def Let_def)
  then show "card (step_keys ?steps) = length ?resources" using distinct_card [OF assembled_keys [OF ok]] by simp
  show "?steps \<noteq> []" using assembled_nonempty [OF ok] by simp
  show "distinct (map ps_ID ?steps)" unfolding assembled_ids [OF ok] using ok by (simp add: assembled_def good_definitions_def)
  show "ponr \<in> set (map ps_ID ?steps)" unfolding assembled_ids [OF ok] by fact
  show "\<forall>s \<in> set ?steps. step_ok ?resources s"
  proof
    fix s
    assume "s \<in> set ?steps"
    then obtain x where x: "x \<in> set (bound_to project ds fps)" "s = plan_step_of L x" by auto
    have "last_by planResourceKey ?resources (planResourceKey (snd x)) = Some (snd x)"
      using x(1) by (intro last_by_unique [OF assembled_keys [OF ok]]) simp
    then show "step_ok ?resources s"
      using assembled_definition [OF ok x(1)]
      by (simp add: x(2) step_ok_def plan_step_of_def Let_def step_contract_ok_def contract_step_of_def)
  qed
qed

subsection \<open>The permissions\<close>

lemma step_permission_nul_free: "permissionPattern s \<Longrightarrow> nul_free s"
proof -
  assume p: "permissionPattern s"
  have "\<not> is_lower (CHR 0x00)" "\<not> is_upper (CHR 0x00)" "\<not> is_digit (CHR 0x00)" "\<not> is_alnum (CHR 0x00)"
    by (simp_all add: char_class_defs)
  then have "nul_free w" if "w \<in> set (split_on CHR ''.'' s)" for w
    using p that by (cases w) (auto simp: permissionPattern_def nul_free_def list_all_iff split: list.splits dest: bspec [where x = "CHR 0x00"])
  then show ?thesis using set_split_on [of s "CHR ''.''"] by (auto simp: nul_free_def)
qed

lemma identity_nul_free: "ExecutionIdentity_Valid i \<Longrightarrow> nul_free (ExecutionIdentity_string i)"
  by (cases i) (auto simp: ExecutionIdentity_Valid_def nul_free_def executionIdentity_registry_def)

lemma pairs_distinct:
  "distinct (map df_id ds) \<Longrightarrow> \<forall>d \<in> set ds. distinct (df_permissions d) \<Longrightarrow>
     distinct (concat (map (\<lambda>d. map (Pair (df_id d)) (df_permissions d)) ds))"
proof (induction ds)
  case (Cons d ds)
  then show ?case by (auto simp: distinct_map inj_on_def image_iff) 
qed simp

lemma assembled_permission:
  assumes ok: "assembled L project ds fps" and "p \<in> set (concat (map plan_permissions_of (bound_to project ds fps)))"
  obtains x where "x \<in> set (bound_to project ds fps)" "pm_StepID p = df_id (fst x)" "pm_Identity p = df_identity (fst x)"
    "pm_Resource p = snd x" "pm_Permission p \<in> set (df_permissions (fst x))" "permissionPattern (pm_Permission p)"
  using assms(2) assembled_definition [OF ok]
  by (auto simp: plan_permissions_of_def step_contract_ok_def contract_step_of_def)

lemma assembled_permission_keys:
  assumes ok: "assembled L project ds fps"
  shows "distinct (map permission_key (concat (map plan_permissions_of (bound_to project ds fps))))"
proof (rule distinct_by_coarser [where g = "\<lambda>p. (pm_StepID p, pm_Permission p)"])
  have "map fst (bound_to project ds fps) = ds" using ok by (intro bound_maps) (simp add: assembled_def)
  then have "map (\<lambda>p. (pm_StepID p, pm_Permission p)) (concat (map plan_permissions_of (bound_to project ds fps))) =
      concat (map ((\<lambda>d. map (Pair (df_id d)) (df_permissions d)) \<circ> fst) (bound_to project ds fps))"
    by (simp add: map_concat plan_permissions_of_def comp_def)
  also have "\<dots> = concat (map (\<lambda>d. map (Pair (df_id d)) (df_permissions d)) ds)"
    using \<open>map fst _ = ds\<close> by (metis map_map)
  also have "distinct \<dots>"
    using ok by (intro pairs_distinct) (auto simp: assembled_def good_definitions_def step_contract_ok_def contract_step_of_def)
  finally show "distinct (map (\<lambda>p. (pm_StepID p, pm_Permission p)) (concat (map plan_permissions_of (bound_to project ds fps))))" .
next
  fix p q
  assume "p \<in> set (concat (map plan_permissions_of (bound_to project ds fps)))"
    and "q \<in> set (concat (map plan_permissions_of (bound_to project ds fps)))" and key: "permission_key p = permission_key q"
  then obtain x y where x: "x \<in> set (bound_to project ds fps)" "pm_StepID p = df_id (fst x)"
      "pm_Identity p = df_identity (fst x)" "permissionPattern (pm_Permission p)"
    and y: "y \<in> set (bound_to project ds fps)" "pm_StepID q = df_id (fst y)" "pm_Identity q = df_identity (fst y)"
      "permissionPattern (pm_Permission q)" by (metis assembled_permission [OF ok])
  have free: "nul_free (pm_StepID p)" "nul_free (pm_StepID q)" "nul_free (ExecutionIdentity_string (pm_Identity p))"
    "nul_free (ExecutionIdentity_string (pm_Identity q))" "nul_free (pm_Permission p)" "nul_free (pm_Permission q)"
    using x y assembled_definition [OF ok x(1)] assembled_definition [OF ok y(1)] step_permission_nul_free
    by (auto simp: step_contract_ok_def contract_step_of_def intro: identifier_nul_free identity_nul_free)
  note one = append_nul_inject [OF free(1,2) key [unfolded permission_key_def]]
  note two = append_nul_inject [OF free(3,4) conjunct2 [OF one]]
  from one two append_nul_inject [OF free(5,6) conjunct2 [OF two]]
  show "(pm_StepID p, pm_Permission p) = (pm_StepID q, pm_Permission q)" by simp
qed

lemma assembled_permissions_valid:
  assumes ok: "assembled L project ds fps"
  shows "validatePermissions (concat (map plan_permissions_of (bound_to project ds fps))) ac
    (map (plan_step_of L) (bound_to project ds fps)) (map snd (bound_to project ds fps)) = None"
    (is "validatePermissions ?ps ac ?steps ?rs = None")
proof -
  have shape: "permission_shape ?steps ?rs i p = None" if p: "p \<in> set ?ps" for i p
  proof -
    obtain x where x: "x \<in> set (bound_to project ds fps)" "pm_StepID p = df_id (fst x)"
      "pm_Identity p = df_identity (fst x)" "pm_Resource p = snd x" "permissionPattern (pm_Permission p)"
      using p by (rule assembled_permission [OF ok])
    have "distinct (map ps_ID ?steps)" unfolding assembled_ids [OF ok] using ok by (simp add: assembled_def good_definitions_def)
    then have "last_by ps_ID ?steps (ps_ID (plan_step_of L x)) = Some (plan_step_of L x)"
      by (rule last_by_unique) (use x(1) in simp)
    moreover have "last_by planResourceKey ?rs (planResourceKey (snd x)) = Some (snd x)"
      using x(1) by (intro last_by_unique [OF assembled_keys [OF ok]]) simp
    ultimately show ?thesis
      using x assembled_definition [OF ok x(1)]
      by (simp add: permission_shape_def plan_step_of_def Let_def step_contract_ok_def contract_step_of_def)
  qed
  have covered: "\<exists>p \<in> set ?ps. pm_StepID p = df_id (fst x) \<and> pm_Identity p = df_identity (fst x) \<and> pm_Resource p = snd x"
    if x: "x \<in> set (bound_to project ds fps)" for x
  proof -
    obtain w where "w \<in> set (df_permissions (fst x))"
      using assembled_definition [OF ok x] by (cases "df_permissions (fst x)") (auto simp: step_contract_ok_def contract_step_of_def)
    then show ?thesis using x by (intro bexI [of _ "\<lparr>pm_StepID = df_id (fst x), pm_Identity = df_identity (fst x),
      pm_Permission = w, pm_Resource = snd x, pm_Granted = True\<rparr>"]) (auto simp: plan_permissions_of_def)
  qed
  then have "?ps \<noteq> []" using assembled_nonempty [OF ok] by (metis empty_iff empty_set last_in_set)
  moreover have "check_each (\<lambda>i step. first_error
      [fail_if (ps_ID step \<notin> set (map pm_StepID ?ps)) (ErrInvalidPlan ''permissions'' ''must cover every mutating-plan step''),
       fail_if (ps_ExecutingIdentity step \<notin> set (map pm_Identity ?ps))
         (ErrInvalidPlan ''permissions'' ''must cover every executing identity'')]) 0 ?steps = None"
  proof -
    have "ps_ID s \<in> set (map pm_StepID ?ps) \<and> ps_ExecutingIdentity s \<in> set (map pm_Identity ?ps)" if "s \<in> set ?steps" for s
    proof -
      obtain x where "x \<in> set (bound_to project ds fps)" "s = plan_step_of L x" using \<open>s \<in> set ?steps\<close> by auto
      moreover obtain p where "p \<in> set ?ps" "pm_StepID p = df_id (fst x)" "pm_Identity p = df_identity (fst x)"
        using covered calculation(1) by blast
      ultimately show ?thesis by (simp add: plan_step_of_def Let_def del: set_concat) (metis image_eqI)
    qed
    then show ?thesis unfolding check_all_None by (simp del: set_map set_concat)
  qed
  moreover have "check_each (\<lambda>i r. fail_if (planResourceKey r \<notin> set (map (\<lambda>p. planResourceKey (pm_Resource p)) ?ps))
      (ErrInvalidPlan ''permissions'' ''must cover every affected resource'')) 0 ?rs = None"
  proof -
    have "planResourceKey r \<in> set (map (\<lambda>p. planResourceKey (pm_Resource p)) ?ps)" if "r \<in> set ?rs" for r
    proof -
      obtain x where "x \<in> set (bound_to project ds fps)" "r = snd x" using \<open>r \<in> set ?rs\<close> by auto
      then obtain p where "p \<in> set ?ps" "pm_Resource p = r" using covered by blast
      then show ?thesis by (auto simp del: set_concat)
    qed
    then show ?thesis unfolding check_all_None by (simp del: set_map set_concat)
  qed
  moreover have "check_unique permission_key (permission_shape ?steps ?rs)
      (\<lambda>i p. ErrInvalidPlan (''permissions['' @ decimal i @ '']'') ''duplicates a step, identity, permission, and resource'')
      0 [] ?ps = None"
  proof -
    have "\<forall>k < length ?ps. permission_shape ?steps ?rs (0 + k) (?ps ! k) = None" by (intro allI impI shape nth_mem)
    then show ?thesis unfolding check_unique_None using assembled_permission_keys [OF ok] by simp
  qed
  ultimately show ?thesis unfolding validatePermissions_def by simp
qed

subsection \<open>The registry\<close>

definition sanitize_keeps_text :: "compile_lib \<Rightarrow> bool" where
  "sanitize_keeps_text L \<longleftrightarrow> (\<forall>s. s \<noteq> [] \<longrightarrow> lb_sanitize L s \<noteq> [])"

lemma registry_ids:
  "map df_id (stepRegistry rs) =
     [''k1-audit-bootstrap'', ''k1-retention-lock'', ''k2-control-bucket'', ''k3-bucket-iam'', ''k4-seed-control'',
      ''k5-lock-round-trip'', ''t1-network'', ''t2-subnet'', ''t3-nat'', ''t4-firewall'', ''t5-identities'',
      ''t6-control-prefix'', ''t7-nightly-wipe'', ''t8-isolation-gate'']"
  by (simp add: stepRegistry_def Let_def)

definition definition_shape :: "stepDefinition \<Rightarrow> bool" where
  "definition_shape d \<longleftrightarrow>
     identifierPattern (df_id d) \<and> ExecutionIdentity_Valid (df_identity d) \<and> RetryPolicy_Valid (df_retry d) \<and>
     0 < df_timeoutSeconds d \<and> df_timeoutSeconds d \<le> MaxStepTimeoutSeconds \<and> df_summary d \<noteq> [] \<and> df_success d \<noteq> [] \<and>
     FailureBehavior_Valid (df_failure d) \<and> df_permissions d \<noteq> [] \<and> distinct (df_permissions d) \<and>
     list_all permissionPattern (df_permissions d)"

lemma registry_shapes: "list_all definition_shape (stepRegistry rs)"
proof -
  have "list_all definition_shape (stepRegistry [])" by code_simp
  moreover have "list_all definition_shape (stepRegistry rs) = list_all definition_shape (stepRegistry [])"
    by (simp add: stepRegistry_def Let_def definition_shape_def)
  ultimately show ?thesis by simp
qed

lemma registry_good:
  assumes "sanitize_keeps_text L"
  shows "good_definitions L (stepRegistry rs)"
proof -
  have "step_contract_ok (contract_step_of L d)" if "d \<in> set (stepRegistry rs)" for d
  proof -
    have "definition_shape d" using registry_shapes that by (auto simp: list_all_iff)
    moreover have "identifierPattern ''bootstrap-action''" "identifierPattern ''typed-adapter''"
      by (simp_all add: identifierPattern_def char_class_defs is_ident_char_def)
    ultimately show ?thesis
      using assms by (auto simp: sanitize_keeps_text_def definition_shape_def step_contract_ok_def contract_step_of_def
          list_all_iff StepEffect_Valid_def stepEffect_registry_def ApprovalSecuritySensitive_def ApprovalRead_def ApprovalClass_Valid_def
          approvalClassCount_def ApprovalDataDestructive_def)
  qed
  then show ?thesis
    unfolding good_definitions_def registry_ids by (auto simp: stepRegistry_def Let_def)
qed

subsection \<open>Building the plan\<close>

lemma double_nonneg: "0 \<le> n \<Longrightarrow> 0 < d \<Longrightarrow> 0 \<le> fst (nearest_double n d)"
proof -
  assume nd: "0 \<le> n" "0 < d"
  have "0 \<le> fst (scaled_fraction n d e) div snd (scaled_fraction n d e)" for e
    using nd by (auto simp: scaled_fraction_def intro!: pos_imp_zdiv_nonneg_iff [THEN iffD2])
  then have "0 \<le> round_half_even (scaled_fraction n d e)" for e
    by (simp add: round_half_even_def Let_def)
  then show ?thesis by (simp add: nearest_double_def Let_def)
qed

lemma stripped_nonneg: "0 \<le> m \<Longrightarrow> \<exists>m' e'. strip_twos k (m, e) = Finite m' e' \<and> 0 \<le> m'"
  by (induction k "(m, e)" arbitrary: m e rule: strip_twos.induct) auto

lemma amount_valid: "validateAmount path (fst (microsToUSD v)) = None"
  using stripped_nonneg [OF double_nonneg [of v 1000000], of 60 "snd (nearest_double v 1000000)"]
  by (auto simp: validateAmount_def microsToUSD_def Let_def)

lemma total_map_result:
  "(\<And>x. x \<in> set xs \<Longrightarrow> \<exists>y. f x = Inr y) \<Longrightarrow> \<exists>ys. map_result f xs = Inr ys"
  by (induction xs) (auto, fastforce)

lemma map_result_mem:
  "map_result f xs = Inr ys \<Longrightarrow> length ys = length xs \<and> (\<forall>k < length xs. f (xs ! k) = Inr (ys ! k))"
  by (induction f xs arbitrary: ys rule: map_result.induct) (auto simp: bind_result_is_Inr nth_Cons split: nat.splits)

lemma built_ids:
  assumes "buildDesiredResources L d = Inr rs"
  shows "map dr_ID rs = map dr_ID (bare_resources d)"
proof -
  have "dr_ID r' = dr_ID r" if "with_fingerprint L d r = Inr r'" for r r'
    using that by (auto simp: with_fingerprint_def split: option.splits)
  then show ?thesis
    using map_result_mem [OF assms [unfolded buildDesiredResources_def]] by (auto intro: nth_equalityI)
qed

definition bootstrap_resource_ids :: "string list" where
  "bootstrap_resource_ids =
     [''audit-bucket'', ''control-bucket'', ''test-network'', ''test-subnet'', ''test-router'', ''test-nat'',
      ''test-iap-firewall'', ''test-internal-firewall'', ''test-operator-sa'', ''test-destructive-sa'', ''test-vm-sa'',
      ''test-wipe-sa'', ''test-operator-role'', ''test-destructive-role'', ''test-wipe-job'', ''test-wipe-scheduler'']"

lemma bare_ids: "map dr_ID (bare_resources d) = bootstrap_resource_ids"
  by (simp add: bare_resources_def resource_def Let_def bootstrap_resource_ids_def)

lemma resources_found:
  assumes "distinct (map dr_ID rs)" and "set wanted \<subseteq> set (map dr_ID rs)"
  shows "desiredResourcesByID rs wanted \<noteq> None"
proof -
  have "length (filter (\<lambda>r. dr_ID r = i) rs) = 1" if "i \<in> set (map dr_ID rs)" for i
    using assms(1) that by (induction rs) (auto simp: filter_empty_conv image_iff)
  then show ?thesis using assms(2) by (auto simp: desiredResourcesByID_def Let_def list_ex_iff)
qed

lemma registry_resources: "d \<in> set (stepRegistry rs) \<Longrightarrow> set (df_resourceIDs d) \<subseteq> set bootstrap_resource_ids \<union> set (map dr_ID rs)"
  by (auto simp: stepRegistry_def Let_def bootstrap_resource_ids_def)

lemma steps_resourced:
  assumes "\<forall>x. lb_step L x \<noteq> None" and "\<forall>s. sha256Pattern (lb_sha256hex L s)"
    and "distinct (map dr_ID rs)" and "set bootstrap_resource_ids \<subseteq> set (map dr_ID rs)"
  shows "\<exists>fps. map_result (step_resource L project rs limits) (stepRegistry rs) =
      Inr (map2 (plan_resource project) (stepRegistry rs) fps) \<and> length fps = length (stepRegistry rs) \<and> [] \<notin> set fps"
proof -
  have "\<exists>fp. step_resource L project rs limits d = Inr (plan_resource project d fp) \<and> fp \<noteq> []"
    if d: "d \<in> set (stepRegistry rs)" for d
  proof -
    have "desiredResourcesByID rs (df_resourceIDs d) \<noteq> None"
      using registry_resources [OF d] assms(3,4) by (intro resources_found) auto
    then obtain targets where targets: "desiredResourcesByID rs (df_resourceIDs d) = Some targets" by blast
    obtain e where "lb_step L (df_id d, df_kind d, targets, limits) = Some e" using assms(1) by blast
    moreover have "lb_sha256hex L s \<noteq> []" for s using spec [OF assms(2), of s] by (auto simp: sha256Pattern_def)
    ultimately show ?thesis
      using targets by (intro exI [of _ "lb_sha256hex L e"]) (simp add: step_resource_def hashJSON_def)
  qed
  then obtain f where f: "\<And>d. d \<in> set (stepRegistry rs) \<Longrightarrow>
      step_resource L project rs limits d = Inr (plan_resource project d (f d)) \<and> f d \<noteq> []" by metis
  have "map_result g ds = Inr (map2 p ds (map f ds))" if "\<And>d. d \<in> set ds \<Longrightarrow> g d = Inr (p d (f d))"
    for g :: "stepDefinition \<Rightarrow> bootstrap_error + PlanResource" and p ds
    using that by (induction ds) auto
  moreover have "[] \<notin> f ` set (stepRegistry rs)" using f by force
  ultimately show ?thesis using f by (intro exI [of _ "map f (stepRegistry rs)"]) simp
qed

lemma contract_builds:
  assumes "good_definitions L ds" and "\<forall>x. lb_contract L x \<noteq> None" and "''k1-retention-lock'' \<in> set (map df_id ds)"
  shows "\<exists>c. NewExecutionContract (lb_contract L) (lb_sha256hex L) bootstrap_WorkflowID ''audit-retention-lock''
     ''k1-retention-lock'' PointOfNoReturnMutationObserved (map (contract_step_of L) ds) = Inr c"
proof -
  have "workflowIDPattern bootstrap_WorkflowID \<and> identifierPattern ''audit-retention-lock'' \<and>
      PointOfNoReturnTrigger_Valid PointOfNoReturnMutationObserved" by code_simp
  moreover have "exposures (map (contract_step_of L) ds) = {}" by (auto simp: exposures_def contract_step_of_def)
  moreover have ids: "map sc_ID (map (contract_step_of L) ds) = map df_id ds" by (simp add: contract_step_of_def)
  moreover have "''k1-retention-lock'' \<in> sc_ID ` set (map (contract_step_of L) ds)"
    using assms(3) ids by (metis set_map)
  moreover have "map (contract_step_of L) ds \<noteq> []" "\<forall>s \<in> set (map (contract_step_of L) ds). step_contract_ok s"
    using assms(1) by (auto simp: good_definitions_def)
  moreover have "distinct (map df_id ds)" using assms(1) by (simp add: good_definitions_def)
  ultimately have "contract_spec bootstrap_WorkflowID ''audit-retention-lock'' ''k1-retention-lock''
      PointOfNoReturnMutationObserved (map (contract_step_of L) ds)"
    unfolding contract_spec_def agree_def by (simp only: ball_empty) simp
  then show ?thesis using assms(2) unfolding contract_accepts_iff by blast
qed

definition header_ok :: "plan_header \<Rightarrow> bool" where
  "header_ok h \<longleftrightarrow>
     planIDPattern (lh_PlanID h) \<and> projectIDPattern (lh_ProjectID h) \<and> environmentPattern (lh_Environment h) \<and>
     validatePrincipal (lh_Account h) = None \<and> validateUTCTime ''createdAt'' (lh_CreatedAt h) = None \<and>
     validateUTCTime ''expiresAt'' (lh_ExpiresAt h) = None \<and> time_After (lh_ExpiresAt h) (lh_CreatedAt h) \<and>
     sha256Pattern (lh_LocalPolicyHash h) \<and> sha256Pattern (lh_ApprovedPolicyHash h) \<and>
     lh_LocalPolicyHash h = lh_ApprovedPolicyHash h"

definition sealable :: "compile_lib \<Rightarrow> plan_header \<Rightarrow> PricingEvidence \<Rightarrow> usd \<Rightarrow> usd \<Rightarrow> stepDefinition list \<Rightarrow> string list \<Rightarrow> Plan" where
  "sealable L h pricing estimate limit ds fps =
     (unsealed_plan L h (plan_cost L pricing estimate limit) (bound_to (lh_ProjectID h) ds fps))\<lparr>pl_PlanHash := zeroPlanHash\<rparr>"

lemma sealable_identity:
  "first_error (plan_identity_checks (sealable L h pricing estimate limit ds fps)) = None \<longleftrightarrow> header_ok h"
proof -
  have "workflowIDPattern bootstrap_WorkflowID \<and> validateIdentityPlan DefaultIdentityPlan = None \<and>
      ApprovalClass_Valid ApprovalSecuritySensitive \<and> EnvironmentClass_Valid EnvironmentDisposable \<and>
      EnvironmentDisposable \<noteq> EnvironmentProduction \<and> sha256Pattern zeroPlanHash \<and> \<not> sha256Pattern []" by code_simp
  moreover have "\<not> 0 > time_Sub e c div second" if "time_After e c" for e c
    using that by (auto simp: time_defs duration_defs int64_defs pos_imp_zdiv_neg_iff)
  ultimately show ?thesis
    by (auto simp: plan_identity_checks_def sealable_def unsealed_plan_def header_ok_def validatePolicyHash_def)
qed

lemma preconditions_valid: "validatePreconditions (planPreconditions L) = None"
proof -
  have "list_all (\<lambda>p. identifierPattern (pp_ID p)) (planPreconditions L)"
    by (simp add: planPreconditions_def identifierPattern_def char_class_defs is_ident_char_def)
  moreover have "distinct (map pp_ID (planPreconditions L))" by (simp add: planPreconditions_def)
  ultimately show ?thesis
    unfolding validatePreconditions_def check_unique_None by (auto simp: list_all_length)
qed

lemma cost_valid:
  "validateCost (plan_cost L pricing (fst (microsToUSD m)) (fst (microsToUSD n))) = None \<longleftrightarrow>
     datePattern (pe_PriceTableDate pricing) \<and> real_date (pe_PriceTableDate pricing)"
proof -
  have "CostSource_Valid CostSourceListPriceTable \<and> BudgetState_Valid BudgetOK" by code_simp
  then show ?thesis by (auto simp: validateCost_def plan_cost_def amount_valid)
qed

lemma sealable_content:
  assumes "assembled L (lh_ProjectID h) ds fps" and "''k1-retention-lock'' \<in> set (map df_id ds)"
    and "cost = plan_cost L pricing (fst (microsToUSD m)) (fst (microsToUSD n))"
  shows "first_error (plan_content_checks ((unsealed_plan L h cost (bound_to (lh_ProjectID h) ds fps))\<lparr>pl_PlanHash := zeroPlanHash\<rparr>)) = None \<longleftrightarrow>
     datePattern (pe_PriceTableDate pricing) \<and> real_date (pe_PriceTableDate pricing)"
proof -
  let ?p = "(unsealed_plan L h cost (bound_to (lh_ProjectID h) ds fps))\<lparr>pl_PlanHash := zeroPlanHash\<rparr>"
  have trigger: "PointOfNoReturnTrigger_Valid PointOfNoReturnMutationObserved \<and> ExposureDelta_Valid ExposureNone" by code_simp
  have fields: "pl_ProjectID ?p = lh_ProjectID h" "elems (pl_Resources ?p) = map snd (bound_to (lh_ProjectID h) ds fps)"
    "elems (pl_Steps ?p) = map (plan_step_of L) (bound_to (lh_ProjectID h) ds fps)"
    "elems (pl_Permissions ?p) = concat (map plan_permissions_of (bound_to (lh_ProjectID h) ds fps))"
    "elems (pl_Preconditions ?p) = planPreconditions L" "pl_PointOfNoReturn ?p = ''k1-retention-lock''"
    "pl_PointOfNoReturnTrigger ?p = PointOfNoReturnMutationObserved" "pl_Cost ?p = cost"
    "pd_ExpectedSeconds (pl_Downtime ?p) = 0" "pd_Kind (pl_Downtime ?p) \<noteq> []" "pl_Exposure ?p = ExposureNone"
    "validateExposureControls ?p = None" "elems (pl_Protection ?p) \<noteq> []" "rb_Boundary (pl_Rollback ?p) \<noteq> []"
    "elems (pl_Verification ?p) \<noteq> []" "validateRecoveryAssets ?p = None"
    by (simp_all add: unsealed_plan_def validateExposureControls_def validateRecoveryAssets_def
        ApprovalSecuritySensitive_def ApprovalDataDestructive_def Let_def)
  have cost: "validateCost cost = None \<longleftrightarrow> datePattern (pe_PriceTableDate pricing) \<and> real_date (pe_PriceTableDate pricing)"
    using cost_valid assms(3) by simp
  show ?thesis
    unfolding plan_content_checks_def Let_def fields(1-9) fields(11,12,16)
    using assembled_resources_valid [OF assms(1)] assembled_steps_valid [OF assms(1,2)] assembled_nonempty [OF assms(1)]
      assembled_permissions_valid [OF assms(1)] preconditions_valid trigger
      fields(10,13,14,15)
    by (simp add: cost)
qed

lemma sealable_collections:
  "validateCanonicalPlanCollections ((unsealed_plan L h (plan_cost L pricing e c) bound)\<lparr>pl_PlanHash := zeroPlanHash\<rparr>) = None \<and>
   normalizePlanCollections (unsealed_plan L h (plan_cost L pricing e c) bound) = unsealed_plan L h (plan_cost L pricing e c) bound"
  by (auto simp: validateCanonicalPlanCollections_def normalizePlanCollections_def unsealed_plan_def plan_cost_def
      plan_step_of_def Let_def list_ex_iff)

text \<open>
  C22. Building a plan never fails because of the registry. With encoders that do not fail, a digest in
  hexadecimal and a sanitizer that keeps a text a text, the resources, steps and permissions that are built for
  any desired state pass the whole plan policy and its execution contract; a plan is built exactly when its
  header is canonical, its price table has a date and both amounts are exact.
\<close>

theorem plan_built_exactly:
  assumes "buildDesiredResources L d = Inr rs" and "sanitize_keeps_text L" and "\<forall>s. sha256Pattern (lb_sha256hex L s)"
    and "\<forall>x. lb_step L x \<noteq> None" and "\<forall>x. lb_contract L x \<noteq> None" and "\<forall>x. lb_plan L x \<noteq> None"
  shows "(\<exists>plan contract. buildPlanValues L h pricing (stepRegistry rs) rs limits = Inr (plan, contract)) \<longleftrightarrow>
     header_ok h \<and> datePattern (pe_PriceTableDate pricing) \<and> real_date (pe_PriceTableDate pricing) \<and>
     snd (microsToUSD (bl_MaximumCostMicros limits)) \<and> snd (microsToUSD (bl_EstimatedCostMicros limits))"
proof -
  let ?ds = "stepRegistry rs"
  let ?cost = "plan_cost L pricing (fst (microsToUSD (bl_EstimatedCostMicros limits))) (fst (microsToUSD (bl_MaximumCostMicros limits)))"
  have ids: "map dr_ID rs = bootstrap_resource_ids" using built_ids [OF assms(1)] bare_ids by simp
  have "distinct bootstrap_resource_ids" by (simp add: bootstrap_resource_ids_def)
  then obtain fps where fps: "map_result (step_resource L (lh_ProjectID h) rs limits) ?ds =
      Inr (map2 (plan_resource (lh_ProjectID h)) ?ds fps)" "length fps = length ?ds" "[] \<notin> set fps"
    using steps_resourced [OF assms(4,3), of rs "lh_ProjectID h" limits] ids by auto
  obtain c where c: "NewExecutionContract (lb_contract L) (lb_sha256hex L) bootstrap_WorkflowID ''audit-retention-lock''
     ''k1-retention-lock'' PointOfNoReturnMutationObserved (map (contract_step_of L) ?ds) = Inr c"
    using contract_builds [OF registry_good [OF assms(2)] assms(5), of rs] by (auto simp: registry_ids)
  let ?p = "unsealed_plan L h ?cost (bound_to (lh_ProjectID h) ?ds fps)"
  have content: "first_error (plan_content_checks (?p\<lparr>pl_PlanHash := zeroPlanHash\<rparr>)) = None \<longleftrightarrow>
      datePattern (pe_PriceTableDate pricing) \<and> real_date (pe_PriceTableDate pricing)" if "header_ok h"
    using that fps(2,3) registry_good [OF assms(2)]
    by (intro sealable_content) (auto simp: assembled_def header_ok_def registry_ids)
  obtain e where "lb_plan L (?p\<lparr>pl_PlanHash := []\<rparr>) = Some e" using assms(6) by blast
  then have "(\<exists>plan. SealPlan (lb_plan L) (lb_sha256hex L) ?p = Inr plan) \<longleftrightarrow>
      validatePlanStructure (?p\<lparr>pl_PlanHash := zeroPlanHash\<rparr>) = None"
    using sealable_collections [of L h pricing]
    by (auto simp: SealPlan_def Let_def computePlanHash_def split: option.splits)
  also have "\<dots> \<longleftrightarrow> header_ok h \<and> datePattern (pe_PriceTableDate pricing) \<and> real_date (pe_PriceTableDate pricing)"
    using sealable_identity content sealable_collections [of L h pricing]
    by (auto simp: validatePlanStructure_def sealable_def)
  finally show ?thesis
    using fps(1) c by (auto simp: buildPlanValues_Inr bound_to_def)
qed

end
