(* ===== verification/BootstrapSealing.thy ===== *)
theory BootstrapSealing
  imports BootstrapAssembly
begin

section \<open>Sealing a compiled bootstrap plan\<close>

text \<open>
  \<open>sealCompiled\<close> validates what the compiler built as if it came from a document. Here that second validation
  is reduced to the three validators that look at something new, and \<open>Compile\<close> to what it asks of a request.
\<close>

lemma built_plan_fields:
  assumes "buildPlanValues L h pricing ds rs limits = Inr (plan, contract)"
  shows "pl_PlanID plan = lh_PlanID h" "pl_ProjectID plan = lh_ProjectID h" "pl_Environment plan = lh_Environment h"
    "pl_Principal plan = lh_Account h" "pl_CreatedAt plan = lh_CreatedAt h" "pl_ExpiresAt plan = lh_ExpiresAt h"
    "ph_Local (pl_PolicyHash plan) = lh_LocalPolicyHash h" "ph_Approved (pl_PolicyHash plan) = lh_ApprovedPolicyHash h"
    "pl_ApprovalClass plan = ApprovalSecuritySensitive" "pl_EnvironmentClass plan = EnvironmentDisposable"
    "map ps_ID (elems (pl_Steps plan)) = map df_id ds"
    "pl_PointOfNoReturn plan = ''k1-retention-lock''" "pl_Exposure plan = ExposureNone"
proof -
  obtain resources cost where resources: "map_result (step_resource L (lh_ProjectID h) rs limits) ds = Inr resources"
    and sealed: "SealPlan (lb_plan L) (lb_sha256hex L) (unsealed_plan L h (plan_cost L pricing (fst cost) (snd cost)) (zip ds resources)) = Inr plan"
    using assms by (auto simp: buildPlanValues_Inr)
  obtain digest where p: "plan = (unsealed_plan L h (plan_cost L pricing (fst cost) (snd cost)) (zip ds resources))\<lparr>pl_PlanHash := digest\<rparr>"
    using sealed sealable_collections [of L h pricing]
    by (auto simp: SealPlan_def Let_def computePlanHash_def split: option.splits)
  have len: "length resources = length ds" using map_result_mem [OF resources] by simp
  show "pl_PlanID plan = lh_PlanID h" "pl_ProjectID plan = lh_ProjectID h" "pl_Environment plan = lh_Environment h"
    "pl_Principal plan = lh_Account h" "pl_CreatedAt plan = lh_CreatedAt h" "pl_ExpiresAt plan = lh_ExpiresAt h"
    "ph_Local (pl_PolicyHash plan) = lh_LocalPolicyHash h" "ph_Approved (pl_PolicyHash plan) = lh_ApprovedPolicyHash h"
    "pl_ApprovalClass plan = ApprovalSecuritySensitive" "pl_EnvironmentClass plan = EnvironmentDisposable"
    "pl_PointOfNoReturn plan = ''k1-retention-lock''" "pl_Exposure plan = ExposureNone"
    by (simp_all add: p unsealed_plan_def)
  have "map (df_id \<circ> fst) (zip ds resources) = map df_id ds" using len by (simp flip: map_map)
  then show "map ps_ID (elems (pl_Steps plan)) = map df_id ds"
    by (simp add: p unsealed_plan_def plan_step_of_def Let_def comp_def)
qed

lemma built_plan_valid:
  assumes "buildPlanValues L h pricing ds rs limits = Inr (plan, contract)" and "\<forall>s. sha256Pattern (lb_sha256hex L s)"
  shows "ValidatePlan (lb_plan L) (lb_sha256hex L) plan = None" and "sha256Pattern (pl_PlanHash plan)"
proof -
  obtain q where sealed: "SealPlan (lb_plan L) (lb_sha256hex L) q = Inr plan" using assms(1) by (auto simp: buildPlanValues_Inr)
  then show canonical: "sha256Pattern (pl_PlanHash plan)" using SealPlan_hash assms(2) by metis
  show "ValidatePlan (lb_plan L) (lb_sha256hex L) plan = None"
    using plan_seal.seal_verifies [OF sealed canonical] by (simp add: ValidatePlan_def)
qed

definition encodes :: "compile_lib \<Rightarrow> bool" where
  "encodes L \<longleftrightarrow>
     (\<forall>x. lb_step L x \<noteq> None) \<and> (\<forall>x. lb_contract L x \<noteq> None) \<and> (\<forall>x. lb_plan L x \<noteq> None) \<and>
     (\<forall>x. lb_descriptor L x \<noteq> None) \<and> (\<forall>x. lb_binding L x \<noteq> None) \<and> (\<forall>x. lb_resources L x \<noteq> None) \<and>
     (\<forall>x. lb_intents L x \<noteq> None) \<and> (\<forall>x. lb_risks L x \<noteq> None) \<and> (\<forall>x. lb_payload L x \<noteq> None)"

lemma compiled_header:
  "payload_header (compile_payload request plan binding resources limits) =
     (request_header request)\<lparr>lh_PlanID := pl_PlanID plan, lh_Environment := pl_Environment plan,
       lh_CreatedAt := pl_CreatedAt plan, lh_ExpiresAt := pl_ExpiresAt plan,
       lh_LocalPolicyHash := ph_Local (pl_PolicyHash plan), lh_ApprovedPolicyHash := ph_Approved (pl_PolicyHash plan)\<rparr>"
  by (simp add: payload_header_def request_header_def compile_payload_def desiredState_def Let_def)

lemma compiled_payload_validates:
  assumes parts: "compile_parts L request = Inr (plan, contract, resources, limits)" and "encodes L"
    and "\<forall>s. sha256Pattern (lb_sha256hex L s)"
  shows "validateCompiledPayload L (compile_payload request plan binding resources limits) = Inr contract \<longleftrightarrow>
     validateDesiredState L (desiredState request) plan = None \<and>
     validateLimitsAndPricing L limits (cq_Pricing request) plan (desiredState request) = None \<and>
     validateBinding L binding plan (px_Revision (cq_Permissions request)) = None"
proof -
  let ?v = "compile_payload request plan binding resources limits"
  have built: "buildPlanValues L (request_header request) (cq_Pricing request) (stepRegistry resources) resources limits =
      Inr (plan, contract)"
    and resources: "buildDesiredResources L (desiredState request) = Inr resources"
    and granted: "validatePermissionEvidence_at L (cq_Permissions request) (stepRegistry resources)
       (pf_Account (request_payload request)) (kf_project (cq_Configuration request)) (cq_CreatedAt request) = None"
    using parts by (auto simp: compile_parts_Inr)
  note fields = built_plan_fields [OF built]
  have header: "payload_header ?v = request_header request" by (simp add: compiled_header fields)
  have "cp_Desired ?v = desiredState request" "cp_Plan ?v = plan" "cp_DesiredResources ?v = resources" "cp_Limits ?v = limits"
    "cp_Pricing ?v = cq_Pricing request" "cp_Permissions ?v = cq_Permissions request"
    "cp_CleanupCapabilities ?v = InitialCleanupCapabilities" "cp_Binding ?v = binding"
    "cp_Intents ?v = buildIntents (stepRegistry resources) (eb_BindingSHA256 binding)" "cp_Risks ?v = buildRiskSummary limits"
    by (simp_all add: compile_payload_def)
  moreover have "ds_Account (desiredState request) = pf_Account (request_payload request)"
    "ds_Project (desiredState request) = kf_project (cq_Configuration request)" "pl_CreatedAt plan = cq_CreatedAt request"
    by (simp_all add: desiredState_def Let_def fields request_header_def)
  ultimately show ?thesis
    using built_plan_valid [OF built assms(3)] resources granted built assms(2) header
    by (auto simp: validateCompiledPayload_Inr validate_plan_binding_Inr equalCanonicalValue_def encodes_def)
qed

end
