(* ===== verification/BootstrapSafety.thy ===== *)
theory BootstrapSafety
  imports BootstrapSealing
begin

section \<open>What compiling a bootstrap plan guarantees\<close>

text \<open>An observed resource that already holds the identity of a desired one; any bucket of the same name does.\<close>

definition holds_identity :: "ObservedResource \<Rightarrow> DesiredResource \<Rightarrow> bool" where
  "holds_identity observed target \<longleftrightarrow>
     ObservedKind_string (ob_Kind observed) = BootstrapResourceKind_string (dr_Kind target) \<and>
     ob_Name observed = dr_Name target \<and> ob_Project observed = dr_Project target \<and>
     (dr_Kind target = ResourceBucket \<or>
      ob_Location observed = dr_Location target \<and> canonicalProviderID (ob_ProviderID observed) = dr_ProviderID target)"

lemma no_collision:
  "rejectTargetCollisions preflight desired = None \<longleftrightarrow>
     (\<forall>observed \<in> set (pf_Resources (hp_payload preflight)). \<forall>target \<in> set desired. \<not> holds_identity observed target)"
proof -
  have "collision observed target = None \<longleftrightarrow> \<not> holds_identity observed target" for observed target
    by (auto simp: collision_def holds_identity_def)
  moreover have "first_error (concat xss) = None \<longleftrightarrow> (\<forall>xs \<in> set xss. first_error xs = None)"
    for xss :: "bootstrap_error option list list" by (induction xss) auto
  ultimately show ?thesis by (simp add: rejectTargetCollisions_def first_error_map)
qed

lemma granted_exactly:
  assumes "validatePermissionEvidence_at L evidence ds account project now = None"
  shows "px_Grants evidence = expectedPermissionGrants ds \<and> list_all pg_Granted (px_Grants evidence) \<and>
    px_Account evidence = account \<and> px_Project evidence = project"
proof -
  have "length (px_Grants evidence) = length (expectedPermissionGrants ds)"
    and "\<forall>k < length (px_Grants evidence). px_Grants evidence ! k = expectedPermissionGrants ds ! k \<and> pg_Granted (px_Grants evidence ! k)"
    using assms by (auto simp: validatePermissionEvidence_at_def Let_def check_each_None)
  then show ?thesis
    using assms by (auto simp: validatePermissionEvidence_at_def Let_def list_all_length intro!: nth_equalityI)
qed

lemma priced_within_cap:
  assumes "validatePricing L request = None" and "buildRunLimits request = Inr limits"
  shows "0 \<le> bl_EstimatedCostMicros limits \<and> bl_EstimatedCostMicros limits \<le> bl_MaximumCostMicros limits \<and>
    bl_EstimatedCostMicros limits = pe_EstimatedRunMicros (cq_Pricing request) \<and>
    bl_MaximumCostMicros limits = kc_maxEstimatedCostMicros (kf_caps (cq_Configuration request)) \<and>
    bl_MaximumCostMicros limits \<le> 2 ^ 53 \<and>
    bl_MaximumMachineType limits = kc_maxMachineType (kf_caps (cq_Configuration request)) \<and>
    bl_MaximumGuestCPUs limits = pe_GuestCPUs (cq_Pricing request) \<and>
    bl_MaximumMemoryMiB limits = pe_MemoryMiB (cq_Pricing request) \<and>
    (\<exists>m \<in> set (pf_MachineTypes (request_payload request)). om_Name m = bl_MaximumMachineType limits \<and>
      om_Zone m = kf_zone (cq_Configuration request) \<and> \<not> om_Deprecated m \<and>
      om_GuestCPUs m = bl_MaximumGuestCPUs limits \<and> om_MemoryMiB m = bl_MaximumMemoryMiB limits)"
proof -
  let ?ms = "filter (\<lambda>m. om_Name m = pe_MachineType (cq_Pricing request)) (pf_MachineTypes (request_payload request))"
  have "length ?ms = 1" "list_all (machine_offered request) ?ms"
    using assms(1) unfolding validatePricing_def Let_def first_error_Cons_None fail_if_None by blast+
  then obtain m where "m \<in> set ?ms" "machine_offered request m" by (cases ?ms) auto
  then have "\<exists>m \<in> set (pf_MachineTypes (request_payload request)). om_Name m = pe_MachineType (cq_Pricing request) \<and>
      om_Zone m = kf_zone (cq_Configuration request) \<and> \<not> om_Deprecated m \<and>
      om_GuestCPUs m = pe_GuestCPUs (cq_Pricing request) \<and> om_MemoryMiB m = pe_MemoryMiB (cq_Pricing request)"
    by (auto simp: machine_offered_def Let_def)
  moreover have "pe_MachineType (cq_Pricing request) = kc_maxMachineType (kf_caps (cq_Configuration request))"
    "\<not> pe_EstimatedRunMicros (cq_Pricing request) < 0"
    "\<not> kc_maxEstimatedCostMicros (kf_caps (cq_Configuration request)) < pe_EstimatedRunMicros (cq_Pricing request)"
    using assms(1) unfolding validatePricing_def Let_def first_error_Cons_None fail_if_None by blast+
  ultimately show ?thesis
    using assms(2) by (auto simp: buildRunLimits_def Let_def maximumExactMicros_def split: if_splits)
qed

text \<open>
  C21. A plan that was compiled rests on what was observed. The observation is fresh and complete, the network does
  not overlap an observed range, no rule exposes MongoDB to the internet, every required API is enabled, no
  observed resource holds the identity of a desired one, and the machine type of the cost cap is offered in the
  zone, not deprecated, with the processors and the memory that were priced and that the limits carry; the
  evidence grants exactly the permissions of the registry; the local policy is the approved one; and the
  estimated cost is the priced one and within the cap of the manifest.
\<close>

theorem compile_is_safe:
  assumes "Compile L request = Inr v"
  shows "let c = cq_Configuration request; now = cq_CreatedAt request; p = cp_Plan (cv_payload v) in
    FreshAt (cq_Preflight request) now \<and> pf_Exhaustive (request_payload request) \<and>
    CIDROverlapsAt (cq_Preflight request) (kf_cidr c) now = Inr False \<and>
    PublicMongoDBIngressAt (cq_Preflight request) now = Inr [] \<and>
    list_all (\<lambda>s. preflight_APIState (cq_Preflight request) s = APIEnabled) RequiredAPIs \<and>
    (\<forall>observed \<in> set (pf_Resources (request_payload request)). \<forall>target \<in> set (plan_DesiredResources v).
       \<not> holds_identity observed target) \<and>
    (\<exists>m \<in> set (pf_MachineTypes (request_payload request)). om_Name m = kc_maxMachineType (kf_caps c) \<and>
       om_Name m = bl_MaximumMachineType (plan_Limits v) \<and> om_Zone m = kf_zone c \<and> \<not> om_Deprecated m \<and>
       om_GuestCPUs m = pe_GuestCPUs (cq_Pricing request) \<and> om_MemoryMiB m = pe_MemoryMiB (cq_Pricing request) \<and>
       om_GuestCPUs m = bl_MaximumGuestCPUs (plan_Limits v) \<and> om_MemoryMiB m = bl_MaximumMemoryMiB (plan_Limits v)) \<and>
    px_Grants (cq_Permissions request) = expectedPermissionGrants (stepRegistry (plan_DesiredResources v)) \<and>
    list_all pg_Granted (px_Grants (cq_Permissions request)) \<and>
    cq_LocalPolicyHash request = cq_ApprovedPolicyHash request \<and>
    bl_EstimatedCostMicros (plan_Limits v) = pe_EstimatedRunMicros (cq_Pricing request) \<and>
    0 \<le> bl_EstimatedCostMicros (plan_Limits v) \<and>
    bl_EstimatedCostMicros (plan_Limits v) \<le> bl_MaximumCostMicros (plan_Limits v) \<and>
    bl_MaximumCostMicros (plan_Limits v) = kc_maxEstimatedCostMicros (kf_caps c) \<and>
    time_Equal (cq_ExpiresAt request) (time_Add now (kf_planValidity c))"
proof -
  obtain plan contract resources limits binding digest where
    parts: "compile_parts L request = Inr (plan, contract, resources, limits)"
    and v: "cv_payload v = clonePayload L (compile_payload request plan binding resources limits)"
    using assms by (auto simp: Compile_Inr sealCompiled_Inr)
  have ok: "validateCompileRequest L request = None" "rejectTargetCollisions (cq_Preflight request) resources = None"
    "buildRunLimits request = Inr limits"
    "validatePermissionEvidence_at L (cq_Permissions request) (stepRegistry resources)
       (pf_Account (request_payload request)) (kf_project (cq_Configuration request)) (cq_CreatedAt request) = None"
    using parts by (simp_all add: compile_parts_Inr)
  have "validatePricing L request = None" using ok(1) by (simp add: validateCompileRequest_def Let_def)
  note cost = priced_within_cap [OF this ok(3)]
  have "plan_DesiredResources v = resources" "plan_Limits v = limits"
    by (simp_all add: v clonePayload_def compile_payload_def)
  moreover from cost have "\<exists>m \<in> set (pf_MachineTypes (request_payload request)).
      om_Name m = kc_maxMachineType (kf_caps (cq_Configuration request)) \<and> om_Name m = bl_MaximumMachineType limits \<and>
      om_Zone m = kf_zone (cq_Configuration request) \<and> \<not> om_Deprecated m \<and>
      om_GuestCPUs m = pe_GuestCPUs (cq_Pricing request) \<and> om_MemoryMiB m = pe_MemoryMiB (cq_Pricing request) \<and>
      om_GuestCPUs m = bl_MaximumGuestCPUs limits \<and> om_MemoryMiB m = bl_MaximumMemoryMiB limits"
    by metis
  ultimately show ?thesis
    using ok(1) ok(2) granted_exactly [OF ok(4)] cost unfolding Let_def
    by (intro conjI) (simp_all add: validateCompileRequest_def Let_def no_collision list_all_iff list_ex_iff)
qed

subsection \<open>A parsed plan\<close>

text \<open>
  C24. A document has no freedom of its own. Whatever the parser accepts carries, byte for byte, the plan, the
  resources, the intents and the risks that the compiler would derive from its desired state, its header and
  its limits, with the contract of the registry and the grants of the registry; the document is the encoding
  of what was decoded and its digest is that of the payload.
\<close>

theorem parsed_plan_is_rebuilt:
  assumes "ParseCompiledPlan L encoded = Inr v"
  shows "\<exists>w rs plan. jc_decode (lb_wire L) encoded = Some (w, True) \<and> jc_marshal (lb_wire L) w = Some encoded \<and>
    cv_payload v = clonePayload L (cw_Payload w) \<and> hashJSON L (lb_payload L) (cw_Payload w) = Some (cv_documentHash v) \<and>
    buildDesiredResources L (plan_DesiredState v) = Inr rs \<and> lb_resources L rs = lb_resources L (plan_DesiredResources v) \<and>
    buildPlanValues L (payload_header (cw_Payload w)) (cp_Pricing (cw_Payload w)) (stepRegistry rs) rs (plan_Limits v) =
      Inr (plan, cv_contract v) \<and> lb_plan L plan = lb_plan L (cp_Plan (cw_Payload w)) \<and>
    lb_intents L (buildIntents (stepRegistry rs) (eb_BindingSHA256 (plan_Binding v))) = lb_intents L (plan_Intents v) \<and>
    lb_risks L (buildRiskSummary (plan_Limits v)) = lb_risks L (cp_Risks (cw_Payload w)) \<and>
    px_Grants (cp_Permissions (cw_Payload w)) = expectedPermissionGrants (stepRegistry rs)"
proof -
  obtain w contract where w: "jc_decode (lb_wire L) encoded = Some (w, True)" "jc_marshal (lb_wire L) w = Some encoded"
    "hashJSON L (lb_payload L) (cw_Payload w) = Some (cw_DocumentSHA256 w)"
    and valid: "validateCompiledPayload L (cw_Payload w) = Inr contract"
    and v: "v = \<lparr>cv_payload = clonePayload L (cw_Payload w), cv_documentHash = cw_DocumentSHA256 w, cv_contract = contract\<rparr>"
    using assms by (auto simp: ParseCompiledPlan_def bind_result_is_Inr split: option.splits)
  obtain rs where rs: "buildDesiredResources L (cp_Desired (cw_Payload w)) = Inr rs"
    "equalCanonicalValue (lb_resources L) rs (cp_DesiredResources (cw_Payload w))"
    "validatePermissionEvidence_at L (cp_Permissions (cw_Payload w)) (stepRegistry rs) (ds_Account (cp_Desired (cw_Payload w)))
       (ds_Project (cp_Desired (cw_Payload w))) (pl_CreatedAt (cp_Plan (cw_Payload w))) = None"
    "validate_plan_binding L (cw_Payload w) rs = Inr contract"
    using valid unfolding validateCompiledPayload_Inr by blast
  from rs(4) obtain plan where plan: "buildPlanValues L (payload_header (cw_Payload w)) (cp_Pricing (cw_Payload w))
      (stepRegistry rs) rs (cp_Limits (cw_Payload w)) = Inr (plan, contract)"
    "equalCanonicalValue (lb_plan L) plan (cp_Plan (cw_Payload w))"
    "equalCanonicalValue (lb_intents L) (buildIntents (stepRegistry rs) (eb_BindingSHA256 (cp_Binding (cw_Payload w))))
       (cp_Intents (cw_Payload w))"
    "equalCanonicalValue (lb_risks L) (buildRiskSummary (cp_Limits (cw_Payload w))) (cp_Risks (cw_Payload w))"
    unfolding validate_plan_binding_Inr by blast
  show ?thesis
    using w rs plan granted_exactly [OF rs(3)]
    by (intro exI [of _ w] exI [of _ rs] exI [of _ plan]) (simp add: v clonePayload_def equalCanonicalValue_def)
qed

text \<open>
  The order of the bootstrap. Every step depends on the step before it and on nothing else, no identifier
  occurs twice, the only irreversible step is the retention lock, which only the verified audit handoff
  precedes, and only the last step, which mutates nothing, may open the harness, after all resources.
\<close>

theorem bootstrap_is_a_chain:
  "let intents = buildIntents (stepRegistry rs) binding in
     map si_Dependencies intents = [] # map (\<lambda>i. [si_StepID i]) (butlast intents) \<and> distinct (map si_StepID intents) \<and>
     map si_StepID (filter (\<lambda>i. si_PointOfNoReturn i = PONRAuditRetentionLock) intents) = [''k1-retention-lock''] \<and>
     map si_StepID (takeWhile (\<lambda>i. si_PointOfNoReturn i \<noteq> PONRAuditRetentionLock) intents) = [''k1-audit-bootstrap''] \<and>
     filter (\<lambda>i. si_Transition i \<noteq> None) intents = [last intents] \<and> si_ResourceIDs (last intents) = map dr_ID rs \<and>
     map sc_Effect (map (contract_step_of L) (stepRegistry rs)) =
       replicate (length intents - 1) StepEffectMutation @ [StepEffectRead]"
  by (simp add: buildIntents_def stepRegistry_def Let_def contract_step_of_def numeral_eq_Suc)

text \<open>Not every amount within the bound of the compiler is exact as a number of dollars.\<close>

lemma inexact_amount: "4401007155700604 \<le> maximumExactMicros \<and> \<not> snd (microsToUSD 4401007155700604)"
  by code_simp

end
