(* ===== verification/BootstrapSamples.thy ===== *)
theory BootstrapSamples
  imports BootstrapSafety ConfigGuarantees ObservationSamples
begin

section \<open>A concrete bootstrap request\<close>

text \<open>
  The library of the sample writes every value as the same text and digests every text to the same name, so
  that the witnesses exercise the compiler and not the encoder; only the plan is read back.
\<close>

definition sample_hash :: string where "sample_hash = replicate 64 CHR ''a''"

definition sample_lib :: "Plan \<Rightarrow> compiledWireV1 json_codec \<Rightarrow> compile_lib" where
  "sample_lib plan codec =
     \<lparr>lb_sha256hex = (\<lambda>s. sample_hash), lb_sanitize = (\<lambda>s. s), lb_plan = (\<lambda>v. Some ''{}''), lb_reread = (\<lambda>s. plan),
      lb_contract = (\<lambda>v. Some ''{}''), lb_pricing = (\<lambda>v. Some ''{}''), lb_permissions = (\<lambda>v. Some ''{}''),
      lb_descriptor = (\<lambda>v. Some ''{}''), lb_step = (\<lambda>v. Some ''{}''), lb_binding = (\<lambda>v. Some ''{}''),
      lb_resources = (\<lambda>v. Some ''{}''), lb_labels = (\<lambda>v. Some ''{}''), lb_intents = (\<lambda>v. Some ''{}''),
      lb_risks = (\<lambda>v. Some ''{}''), lb_payload = (\<lambda>v. Some ''{}''), lb_wire = codec\<rparr>"

definition sample_evidence :: preflightPayload where
  "sample_evidence = sample_seed\<lparr>pf_APIs := map (\<lambda>s. \<lparr>as_Name = s, as_State = APIEnabled\<rparr>) RequiredAPIs,
     pf_Firewalls := []\<rparr>"

definition sample_pricing :: PricingEvidence where
  "sample_pricing =
     \<lparr>pe_MachineType = ''e2-small'', pe_Region = ''us-east1'', pe_Zone = ''us-east1-b'', pe_GuestCPUs = 2,
      pe_MemoryMiB = 2048, pe_DiskGiB = 20, pe_Instances = 1, pe_LifetimeSeconds = 3600, pe_EstimatedRunMicros = 1250000,
      pe_Currency = ''USD'', pe_PriceTableDate = ''0001-01-01'', pe_Schema = PricingSchemaV1, pe_Revision = sample_hash,
      pe_ObservedAt = utc 1000000000, pe_ValidUntil = utc 200000000000\<rparr>"

definition sample_grants :: PermissionEvidence where
  "sample_grants =
     \<lparr>px_Account = ''ann@example.com'', px_Project = ''project-1'', px_Schema = PermissionEvidenceSchemaV1,
      px_Revision = sample_hash, px_ObservedAt = utc 1000000000, px_ValidUntil = utc 200000000000,
      px_Grants = expectedPermissionGrants (stepRegistry [])\<rparr>"

definition sample_request :: CompileRequest where
  "sample_request =
     \<lparr>cq_Configuration = sample_configuration sample_hash,
      cq_Preflight = \<lparr>hp_payload = sample_evidence, hp_revision = sample_hash\<rparr>, cq_PlanID = ''plan-0123456789abcdef'',
      cq_CreatedAt = utc 2000000000, cq_ExpiresAt = utc (2000000000 + 3600 * second), cq_LocalPolicyHash = sample_hash,
      cq_ApprovedPolicyHash = sample_hash, cq_Pricing = sample_pricing, cq_Permissions = sample_grants\<rparr>"


definition sample_limits :: BootstrapRunLimits where
  "sample_limits = \<lparr>bl_MaximumMachineType = ''e2-small'', bl_MaximumGuestCPUs = 2, bl_MaximumMemoryMiB = 2048,
     bl_MaximumDiskGiB = 20, bl_MaximumInstances = 1, bl_MaximumLifetimeSec = 3600, bl_MaximumCostMicros = 5000000,
     bl_EstimatedCostMicros = 1250000\<rparr>"

definition sample_built :: "DesiredResource list" where
  "sample_built = map (\<lambda>r. r\<lparr>dr_DesiredStateFingerprint := sample_hash\<rparr>) (bare_resources (desiredState sample_request))"

subsection \<open>The request compiles\<close>

lemma sample_hash_pattern: "sha256Pattern sample_hash"
  by (simp add: sample_hash_def sha256Pattern_def char_class_defs)

lemma sample_lib_ok:
  "encodes (sample_lib plan codec)" "sanitize_keeps_text (sample_lib plan codec)"
  "\<forall>s. sha256Pattern (lb_sha256hex (sample_lib plan codec) s)"
  by (simp_all add: encodes_def sanitize_keeps_text_def sample_lib_def sample_hash_pattern)

lemma sample_validated: "validateCompileRequest (sample_lib plan codec) sample_request = None"
  by code_simp

lemma sample_limited: "buildRunLimits sample_request = Inr sample_limits"
  by code_simp

lemma map_result_total: "map_result (\<lambda>x. Inr (f x)) xs = Inr (map f xs)"
  by (induction xs) simp_all

lemma sample_resources_built: "buildDesiredResources (sample_lib plan codec) (desiredState sample_request) = Inr sample_built"
proof -
  have "with_fingerprint (sample_lib plan codec) d = (\<lambda>r. Inr (r\<lparr>dr_DesiredStateFingerprint := sample_hash\<rparr>))" for d
    by (rule ext) (simp add: with_fingerprint_def hashJSON_def sample_lib_def)
  then show ?thesis by (simp add: buildDesiredResources_def map_result_total sample_built_def)
qed

lemma sample_uncollided: "rejectTargetCollisions (cq_Preflight sample_request) sample_built = None"
  by code_simp

lemma registry_grants: "expectedPermissionGrants (stepRegistry rs) = expectedPermissionGrants (stepRegistry [])"
  by (simp add: expectedPermissionGrants_def stepRegistry_def Let_def)

lemma sample_granted:
  "validatePermissionEvidence_at (sample_lib plan codec) (cq_Permissions sample_request) (stepRegistry sample_built)
     (pf_Account (request_payload sample_request)) (kf_project (cq_Configuration sample_request))
     (cq_CreatedAt sample_request) = None"
proof -
  let ?gs = "expectedPermissionGrants (stepRegistry [])"
  have "\<forall>g \<in> set ?gs. pg_Granted g" by (auto simp: expectedPermissionGrants_def)
  then have "check_each (\<lambda>index grant. fail_if (grant \<noteq> ?gs ! index \<or> \<not> pg_Granted grant) (ErrPlanBlocked ''permission evidence'')) 0 ?gs = None"
    by (simp add: check_each_None)
  moreover have "valid_utc (utc 1000000000)" "valid_utc (utc 200000000000)" "time_Before (utc 1000000000) (utc 200000000000)"
    "\<not> time_Before (utc 2000000000) (utc 1000000000)" "time_Before (utc 2000000000) (utc 200000000000)" by code_simp+
  ultimately show ?thesis
    unfolding validatePermissionEvidence_at_def registry_grants [of sample_built]
    by (simp add: Let_def sample_request_def sample_grants_def sample_evidence_def sample_seed_def sample_hash_pattern
        sample_configuration_def harness_configuration_def sample_harness_wire_def hashJSON_def sample_lib_def)
qed

lemma sample_account_principal: "validatePrincipal ''ann@example.com'' = None"
proof -
  have "list_all (\<lambda>c. byte c < 128 \<and> 32 < byte c) ''ann@example.com''" by (simp add: byte_def)
  moreover from this have "runes (map byte ''ann@example.com'') = map byte ''ann@example.com''"
    by (intro runes_ascii) (auto simp: list_all_iff)
  ultimately show ?thesis
    using not_trimmed [of "''ann@example.com''"]
    by (simp add: validatePrincipal_def byte_def unicode_IsSpace_def unicode_IsControl_def)
qed

lemma sample_header: "header_ok (request_header sample_request)"
proof -
  have "validateUTCTime path (utc 2000000000) = None" "validateUTCTime path (utc (2000000000 + 3600 * second)) = None"
    "time_After (utc (2000000000 + 3600 * second)) (utc 2000000000)" for path
    by (simp_all add: validateUTCTime_def time_defs duration_defs)
  moreover have "planIDPattern ''plan-0123456789abcdef'' \<and> environmentPattern ''test-one''" by code_simp
  ultimately show ?thesis
    by (simp add: header_ok_def request_header_def sample_request_def sample_configuration_def harness_configuration_def
        sample_harness_wire_def sample_evidence_def sample_seed_def sample_account_principal sample_locations
        sample_hash_pattern Let_def)
qed

lemma sample_amounts:
  "datePattern (pe_PriceTableDate sample_pricing) \<and> real_date (pe_PriceTableDate sample_pricing) \<and>
   snd (microsToUSD (bl_MaximumCostMicros sample_limits)) \<and> snd (microsToUSD (bl_EstimatedCostMicros sample_limits))"
  by code_simp

lemma sample_plan_built:
  "\<exists>p contract. buildPlanValues (sample_lib plan codec) (request_header sample_request) sample_pricing
     (stepRegistry sample_built) sample_built sample_limits = Inr (p, contract)"
  using plan_built_exactly [OF sample_resources_built sample_lib_ok(2,3), of plan codec "request_header sample_request"]
    sample_header sample_amounts by (simp add: sample_lib_def)

lemma sample_built_parts:
  "\<exists>p contract. compile_parts (sample_lib plan codec) sample_request = Inr (p, contract, sample_built, sample_limits)"
  using sample_plan_built [of plan codec] sample_validated sample_resources_built sample_uncollided sample_limited sample_granted
  by (simp add: compile_parts_Inr) (simp add: sample_request_def)

definition sample_binding :: "Plan \<Rightarrow> EnvelopeBinding" where
  "sample_binding p = \<lparr>eb_WorkflowID = bootstrap_WorkflowID, eb_PlanID = pl_PlanID p, eb_PlanHash = pl_PlanHash p,
     eb_Account = ''ann@example.com'', eb_ManifestHash = sample_hash, eb_ObservationRevision = sample_hash,
     eb_PermissionRevision = sample_hash, eb_ObservedAt = utc 1000000000, eb_ValidUntil = utc 200000000000,
     eb_BindingSHA256 = sample_hash\<rparr>"

lemma sample_bound: "buildEnvelopeBinding (sample_lib plan codec) sample_request p = Inr (sample_binding p)"
  by (simp add: buildEnvelopeBinding_def hashJSON_def sample_lib_def sample_request_def sample_evidence_def sample_seed_def
      sample_grants_def sample_configuration_def harness_configuration_def Let_def sample_binding_def)

lemma sample_desired:
  "desiredState sample_request =
     \<lparr>ds_Account = ''ann@example.com'', ds_Project = ''project-1'', ds_Region = ''us-east1'', ds_Zone = ''us-east1-b'',
      ds_CIDR = ''10.90.0.0/24'', ds_NamePrefix = ''ctrldb-test-'', ds_Labels = fmap_of_list [(''managed-by'', ''ctrldb'')],
      ds_ControlBucket = ''state-bucket'', ds_AuditBucket = ''audit-bucket'', ds_VPC = ''ctrldb-test-vpc'',
      ds_Subnet = ''ctrldb-test-subnet'', ds_Router = TestRouterName, ds_NAT = ''ctrldb-test-nat'',
      ds_IAPFirewall = iapFirewallName, ds_InternalFirewall = internalFirewallName, ds_NodeTag = testNodeTag,
      ds_OperatorPrincipal = sample_account ''operator'', ds_DestructivePrincipal = sample_account ''destroyer'',
      ds_VMPrincipal = sample_account ''machine'', ds_WipePrincipal = sample_account ''reconciler'', ds_CIPrincipal = sample_ci,
      ds_OperatorRole = operatorRoleName, ds_DestructiveRole = destructiveRoleName, ds_WipeRunJob = ''wipe-run'',
      ds_WipeSchedulerJob = ''wipe-nightly'', ds_WipeScheduleUTC = wipeScheduleUTC,
      ds_ImageDigest = ''sha256:'' @ sample_hash, ds_PlanValiditySeconds = 3600\<rparr>"
  by (simp add: desiredState_def sample_request_def sample_configuration_def harness_configuration_def
      sample_harness_wire_def sample_test_wire_def sample_evidence_def sample_seed_def Let_def sample_hash_def duration_defs)

lemma sample_principal_set:
  "ValidateHarnessPrincipalSet ''project-1'' (sample_account ''operator'') (sample_account ''destroyer'')
     (sample_account ''machine'') (sample_account ''reconciler'') sample_ci = None"
  using sample_values unfolding harness_value_checks_def first_error_Cons_None
  by (simp add: sample_harness_wire_def sample_test_wire_def)

lemma sample_untrimmed: "\<not> list_ex (\<lambda>v. v = [] \<or> trim_changes v) (desired_values (desiredState sample_request))"
proof -
  have "list_all (\<lambda>v. v \<noteq> [] \<and> list_all (\<lambda>c. byte c < 128 \<and> 32 < byte c) v) (desired_values (desiredState sample_request))"
    by (simp add: sample_desired desired_values_def sample_account_def sample_ci_def TestRouterName_def protocol_names
        sample_hash_def byte_def)
  then show ?thesis using not_trimmed by (auto simp: list_all_iff list_ex_iff)
qed

lemma sample_desired_valid:
  assumes "pl_Principal p = ''ann@example.com''" and "pl_ProjectID p = ''project-1''"
    and "pl_CreatedAt p = utc 2000000000" and "pl_ExpiresAt p = utc (2000000000 + 3600 * second)"
  shows "validateDesiredState (sample_lib plan codec) (desiredState sample_request) p = None"
proof -
  have "time_Equal (utc (2000000000 + 3600 * second)) (time_Add (utc 2000000000) (3600 * second))"
    "(3600 :: int) \<le> maximumDurationSeconds"
    by (simp_all add: time_Add_def time_defs duration_defs int64_defs maximumDurationSeconds_def)
  moreover have "canonical_prefix ''10.90.0.0/24'' = Some (Addr4 0x0A5A0000, 24)" "netip_IsPrivate (Addr4 0x0A5A0000)"
    by code_simp+
  moreover have "sha256Pattern (trim_prefix (''sha256:'' @ sample_hash) ''sha256:'')" "has_prefix (''sha256:'' @ sample_hash) ''sha256:''"
    using sample_hash_pattern by (simp_all add: trim_prefix_def)
  moreover have "TestResourcePrefix = ''ctrldb-test-''" by code_simp
  ultimately show ?thesis
    using sample_untrimmed
    by (simp add: validateDesiredState_def assms sample_desired sample_locations sample_principal_set equalCanonicalValue_def
        sample_lib_def)
qed

lemma sample_priced:
  assumes "pl_CreatedAt p = utc 2000000000"
  shows "validateLimitsAndPricing (sample_lib plan codec) sample_limits (cq_Pricing sample_request) p (desiredState sample_request) = None"
proof -
  have "price_date_check sample_pricing (utc 2000000000)" by code_simp
  moreover have "valid_utc (utc 1000000000)" "valid_utc (utc 200000000000)" "time_Before (utc 1000000000) (utc 200000000000)"
    "\<not> time_After (utc 1000000000) (utc 2000000000)" "time_Before (utc 2000000000) (utc 200000000000)"
    "has_prefix ''us-east1-b'' (''us-east1'' @ ''-'')" by code_simp+
  moreover have "cq_Pricing sample_request = sample_pricing" "pe_Revision sample_pricing = sample_hash"
    by (simp_all add: sample_request_def sample_pricing_def)
  ultimately show ?thesis
    by (simp add: validateLimitsAndPricing_def pricingEvidenceRevision_def hashJSON_def sample_lib_def sample_desired assms
        sample_hash_pattern) (simp add: sample_limits_def sample_pricing_def maximumExactMicros_def)
qed

lemma sample_binding_valid:
  assumes "pl_Principal p = ''ann@example.com''" and "pl_CreatedAt p = utc 2000000000"
  shows "validateBinding (sample_lib plan codec) (sample_binding p) p (px_Revision (cq_Permissions sample_request)) = None"
proof -
  have "valid_utc (utc 1000000000)" "valid_utc (utc 200000000000)" "time_Before (utc 1000000000) (utc 200000000000)"
    "\<not> time_Before (utc 2000000000) (utc 1000000000)" "time_Before (utc 2000000000) (utc 200000000000)" by code_simp+
  moreover have "px_Revision (cq_Permissions sample_request) = sample_hash" by (simp add: sample_request_def sample_grants_def)
  ultimately show ?thesis
    by (simp add: validateBinding_def sample_binding_def hashJSON_def sample_lib_def assms sample_hash_pattern)
qed

lemma sample_lib_sel:
  "lb_sha256hex (sample_lib plan codec) = (\<lambda>s. sample_hash)" "lb_sanitize (sample_lib plan codec) = (\<lambda>s. s)"
  "lb_plan (sample_lib plan codec) = (\<lambda>v. Some ''{}'')" "lb_contract (sample_lib plan codec) = (\<lambda>v. Some ''{}'')"
  "lb_step (sample_lib plan codec) = (\<lambda>v. Some ''{}'')" "lb_payload (sample_lib plan codec) = (\<lambda>v. Some ''{}'')"
  "lb_reread (sample_lib plan codec) = (\<lambda>s. plan)" "lb_wire (sample_lib plan codec) = codec"
  by (simp_all add: sample_lib_def)

text \<open>What is built does not depend on the plan that is read back nor on the codec of the document.\<close>

lemma sample_lib_same:
  "buildPlanValues (sample_lib plan codec) h pricing ds rs limits = buildPlanValues (sample_lib plan' codec') h pricing ds rs limits"
proof -
  have parts: "step_resource (sample_lib plan codec) = step_resource (sample_lib plan' codec')"
    "contract_step_of (sample_lib plan codec) = contract_step_of (sample_lib plan' codec')"
    "plan_step_of (sample_lib plan codec) = plan_step_of (sample_lib plan' codec')"
    "planPreconditions (sample_lib plan codec) = planPreconditions (sample_lib plan' codec')"
    "plan_cost (sample_lib plan codec) = plan_cost (sample_lib plan' codec')"
    by (auto simp: fun_eq_iff step_resource_def contract_step_of_def plan_step_of_def planPreconditions_def plan_cost_def
        hashJSON_def sample_lib_sel Let_def split: option.split)
  have "unsealed_plan (sample_lib plan codec) = unsealed_plan (sample_lib plan' codec')"
    by (intro ext) (simp add: unsealed_plan_def parts sample_lib_sel)
  note parts = parts this
  show ?thesis unfolding buildPlanValues_def parts sample_lib_sel ..
qed

lemma sample_compiles:
  obtains p contract where
    "\<And>codec. compile_parts (sample_lib p codec) sample_request = Inr (p, contract, sample_built, sample_limits)"
    "\<And>codec. Compile (sample_lib p codec) sample_request =
       Inr \<lparr>cv_payload = compile_payload sample_request p (sample_binding p) sample_built sample_limits,
         cv_documentHash = sample_hash, cv_contract = contract\<rparr>"
proof -
  fix some_plan some_codec
  obtain p contract where built: "buildPlanValues (sample_lib some_plan some_codec) (request_header sample_request)
      sample_pricing (stepRegistry sample_built) sample_built sample_limits = Inr (p, contract)"
    using sample_plan_built by blast
  then have parts: "compile_parts (sample_lib p codec) sample_request = Inr (p, contract, sample_built, sample_limits)" for codec
    using sample_validated sample_resources_built sample_uncollided sample_limited sample_granted
      sample_lib_same [of some_plan some_codec _ _ _ _ _ p codec]
    by (simp add: compile_parts_Inr) (simp add: sample_request_def)
  have header: "lh_Account (request_header sample_request) = ''ann@example.com''"
    "lh_ProjectID (request_header sample_request) = ''project-1''" "lh_CreatedAt (request_header sample_request) = utc 2000000000"
    "lh_ExpiresAt (request_header sample_request) = utc (2000000000 + 3600 * second)"
    by (simp_all add: request_header_def sample_request_def sample_evidence_def sample_seed_def sample_configuration_def
        harness_configuration_def sample_harness_wire_def Let_def)
  have "validateCompiledPayload (sample_lib p codec) (compile_payload sample_request p (sample_binding p) sample_built sample_limits)
      = Inr contract" for codec
    unfolding compiled_payload_validates [OF parts sample_lib_ok(1,3)]
    using built_plan_fields [OF built] header sample_desired_valid sample_priced sample_binding_valid by simp
  then have "Compile (sample_lib p codec) sample_request =
      Inr \<lparr>cv_payload = compile_payload sample_request p (sample_binding p) sample_built sample_limits,
        cv_documentHash = sample_hash, cv_contract = contract\<rparr>" for codec
    unfolding Compile_Inr using parts sample_bound
    by (auto simp: sealCompiled_Inr hashJSON_def clonePayload_def clonePlan_def sample_lib_sel compile_payload_def)
  with parts show thesis by (rule that)
qed

theorem plan_built_exactly_witness:
  "header_ok (request_header sample_request) \<and>
   (\<exists>plan contract. buildPlanValues (sample_lib PlanSamples.sample_plan_value
       \<lparr>jc_lex = (\<lambda>b. []), jc_parse = (\<lambda>b. None), jc_decode = (\<lambda>b. None), jc_marshal = (\<lambda>v. None)\<rparr>)
     (request_header sample_request) sample_pricing (stepRegistry sample_built) sample_built sample_limits = Inr (plan, contract))"
  using plan_built_exactly [OF sample_resources_built sample_lib_ok(2,3),
      of PlanSamples.sample_plan_value "\<lparr>jc_lex = (\<lambda>b. []), jc_parse = (\<lambda>b. None), jc_decode = (\<lambda>b. None), jc_marshal = (\<lambda>v. None)\<rparr>"
        "request_header sample_request"]
    sample_header sample_amounts by (simp add: sample_lib_def)

theorem compile_is_safe_witness:
  "\<exists>L v. Compile L sample_request = Inr v \<and> px_Grants (cq_Permissions sample_request) = expectedPermissionGrants (stepRegistry (plan_DesiredResources v))"
proof -
  fix codec
  obtain p contract where "Compile (sample_lib p codec) sample_request =
      Inr \<lparr>cv_payload = compile_payload sample_request p (sample_binding p) sample_built sample_limits,
        cv_documentHash = sample_hash, cv_contract = contract\<rparr>" using sample_compiles by metis
  from this compile_is_safe [OF this] show ?thesis unfolding Let_def by blast
qed

definition sample_document :: "Plan \<Rightarrow> compiledWireV1 \<times> jvalue" where
  "sample_document p =
     (let w = compiled_wire (compile_payload sample_request p (sample_binding p) sample_built sample_limits) sample_hash
      in (w, json_object (wire_json (\<lambda>t. ''t'') (\<lambda>u. ''1'') w)))"

definition reading_lib :: "Plan \<Rightarrow> compile_lib" where
  "reading_lib p = sample_lib p
     \<lparr>jc_lex = (\<lambda>b. lexemes (snd (sample_document p))), jc_parse = (\<lambda>b. Some (snd (sample_document p))),
      jc_decode = (\<lambda>b. Some (fst (sample_document p), True)), jc_marshal = (\<lambda>v. Some ''{}'')\<rparr>"

lemma sample_reading:
  obtains p contract v where "compile_parts (reading_lib p) sample_request = Inr (p, contract, sample_built, sample_limits)"
    "Compile (reading_lib p) sample_request = Inr v" "clonePlan (reading_lib p) p = p"
    "\<forall>s. sha256Pattern (lb_sha256hex (reading_lib p) s)"
    "codec_roundtrip (lb_wire (reading_lib p)) (compiled_wire (cv_payload v) (cv_documentHash v)) ''{}''
      (json_object (wire_json (\<lambda>t. ''t'') (\<lambda>u. ''1'') (compiled_wire (cv_payload v) (cv_documentHash v))))"
proof -
  obtain p contract where
    parts: "\<And>codec. compile_parts (sample_lib p codec) sample_request = Inr (p, contract, sample_built, sample_limits)"
    and compiled: "\<And>codec. Compile (sample_lib p codec) sample_request =
       Inr \<lparr>cv_payload = compile_payload sample_request p (sample_binding p) sample_built sample_limits,
         cv_documentHash = sample_hash, cv_contract = contract\<rparr>" using sample_compiles by metis
  have same: "reading_lib p = sample_lib p (lb_wire (reading_lib p))" by (simp add: reading_lib_def sample_lib_sel)
  show thesis
    by (rule that [of p contract, OF parts [of "lb_wire (reading_lib p)", folded same] compiled [of "lb_wire (reading_lib p)", folded same]])
      (simp_all add: clonePlan_def reading_lib_def sample_lib_sel sample_hash_pattern codec_roundtrip_def sample_document_def Let_def)
qed

theorem compiled_plan_parses_witness:
  "\<exists>L v. Compile L sample_request = Inr v \<and> ParseCompiledPlan L ''{}'' = Inr v"
proof (rule sample_reading)
  fix p contract v
  assume "compile_parts (reading_lib p) sample_request = Inr (p, contract, sample_built, sample_limits)"
    "clonePlan (reading_lib p) p = p" "Compile (reading_lib p) sample_request = Inr v"
    "\<forall>s. sha256Pattern (lb_sha256hex (reading_lib p) s)"
    "codec_roundtrip (lb_wire (reading_lib p)) (compiled_wire (cv_payload v) (cv_documentHash v)) ''{}''
      (json_object (wire_json (\<lambda>t. ''t'') (\<lambda>u. ''1'') (compiled_wire (cv_payload v) (cv_documentHash v))))"
  from compiled_plan_parses [OF this(1-4) _ this(5)] this(3) show ?thesis by blast
qed

theorem parsed_plan_is_rebuilt_witness:
  "\<exists>L v rs. ParseCompiledPlan L ''{}'' = Inr v \<and> buildDesiredResources L (plan_DesiredState v) = Inr rs"
proof (rule sample_reading)
  fix p contract v
  assume parts: "compile_parts (reading_lib p) sample_request = Inr (p, contract, sample_built, sample_limits)"
    "clonePlan (reading_lib p) p = p" "Compile (reading_lib p) sample_request = Inr v"
    and "\<forall>s. sha256Pattern (lb_sha256hex (reading_lib p) s)"
    "codec_roundtrip (lb_wire (reading_lib p)) (compiled_wire (cv_payload v) (cv_documentHash v)) ''{}''
      (json_object (wire_json (\<lambda>t. ''t'') (\<lambda>u. ''1'') (compiled_wire (cv_payload v) (cv_documentHash v))))"
  then have "ParseCompiledPlan (reading_lib p) ''{}'' = Inr v"
    using document_accepted [OF compiled_payload_revalidates [OF parts]] by blast
  from this parsed_plan_is_rebuilt [OF this] show ?thesis by blast
qed

end
