(* ===== verification/Spec2Isabelle.thy ===== *)
theory Spec2Isabelle
  imports Retry Definitions CancellationJournal PlanGateGuarantees GuardGuarantees EvidenceGuarantees
    PlanDocument JournalDocument StoreGuarantees ControlIam ObservationGuarantees Effects ConfigGuarantees BootstrapSamples
begin

text \<open>
  CtrlDB is a command-line program that plans and carries out changes of database infrastructure. A
  change is compiled to an immutable plan, approved, executed step by step by a workflow that keeps an
  append-only journal, and, in tests, fenced by an isolation guard. The development models the packages
  that decide what may happen: \<^theory_text>\<open>domain\<close>, \<^theory_text>\<open>workflow\<close>, \<^theory_text>\<open>policy\<close>, \<^theory_text>\<open>isolation\<close> and the policy, harness
  and label part of \<^theory_text>\<open>config\<close>, all under src/internal.

  Conventions. A Go struct is a record whose fields carry a two-letter prefix, an enumeration type over
  \<open>string\<close> is a datatype with a constructor for every other string, a nil slice and an empty slice are
  told apart where the code can (\<open>go_slice\<close>), a map is a finite map, a time is its nanosecond count with
  its zone offset (\<open>gotime\<close>), and a \<open>Duration\<close> is an integer whose subtraction saturates as \<open>time.Sub\<close>
  does. Fixed-width integers are \<open>w word\<close> where arithmetic could wrap. An error is a value: \<open>Inl e\<close> of a
  sum, or \<open>Some e\<close> of a validator that returns only an error; a chain of early returns is
  \<open>first_error\<close>, a loop with early returns is \<open>range_loop\<close>, \<open>check_each\<close> or \<open>check_unique\<close>.
  Wrapped errors keep the kind, the path and the reason, not the rendered message.

  Parameters. \<open>json.Marshal\<close>, SHA-256 and the strict JSON decoder are not under src/. They are arguments
  (\<open>marshal\<close>, \<open>enc\<close>, \<open>sha256hex\<close>, \<open>decode\<close>, \<open>at_end\<close>). No property assumes that a digest is injective: where
  a collision matters the hypothesis names the two documents whose digests must not collide. A witness
  instantiates every parameter with a concrete function.

  Foundations. Prelude holds the shared hints and list lemmas. GoText, GoTime, GoStd and Results are the
  fragments of the Go library that the code uses: text and pattern matching, times, prefixes, slices,
  and results. KeyedSelection and SealedValue are interfaces as locales: a selection that is sorted by a
  key, and a value sealed by a digest of itself. GeneratedResource models config/resource.go.

  Domain. Domain and DomainEnums model domain/environment.go, exposure.go, identity.go, operation.go,
  approval.go, journal.go, retry.go and permission.go; the codec of each enumeration interprets one
  locale. PlanTypes and ExecutionContract model domain/plan.go, with the exact contents of an accepted
  execution contract.

  Workflow. Machine models workflow/machine.go (the lifecycle and its reachability search), Retry
  workflow/retry.go, Definitions workflow/definition.go, Journal workflow/journal.go (the validation of
  an entry and the replay of a history by a fold over a state) and CancellationController workflow/cancellation.go
  (an explicit store for the shared pointers). The lemmas show that an accepted journal is a run of the
  machine, that a cancelled operation has no unrecorded mutation, that a restored controller agrees with
  the journal, and that a lifecycle ends. CancellationJournal holds what spans the two.

  Policy. PlanPolicy and PlanSeal model policy/plan.go, PlanGate models policy/permission.go. PlanSamples,
  PlanGuarantees and PlanGateGuarantees hold what an accepted plan and an opened gate guarantee.

  Isolation. IsolationBase, IsolationTargets, IsolationNetwork, IsolationCapacity, IsolationLocks and
  IsolationGuard model isolation/guard.go, from the identity of a target to the mutation boundary
  (\<open>AuthorizePreMutation\<close>, \<open>RevalidatePreMutation\<close>). IsolationFirewall and FirewallShape model
  isolation/firewall.go, IsolationOwnership isolation/ownership.go, IsolationPermissions
  isolation/permission_proof.go, HarnessState and HarnessTransitions isolation/state.go and
  HarnessAdmission isolation/admission.go. HarnessGuarantees treats the harness as a transition system:
  \<open>harness_steps\<close> is reachability by the operations of the state, its invariants go by rule induction.
  FirewallGuarantees shows that a rule that passes is one fixed rule in every field, and GuardEvidence
  that an evaluated input has intents in closed form. GuardAgreement decides when two inputs have the
  same canonical document, so that GuardGuarantees can show that the evidence cannot change between
  authorization and mutation and that unchanged evidence is accepted. EvidenceGuarantees holds the
  exactness of the permission, lock, ownership and cleanup proofs. IsolationSamples and GuardSamples are
  the concrete inputs of the witnesses.

  Control plane and documents. ControlStore models control/store.go, the typed object names and the
  generation-checked stores; StoreContract is the law of such a store as a locale and StoreGuarantees its
  interpretations. ControlIam models control/iam.go on the types of isolation/bootstrap/types.go
  (BootstrapTypes). JsonTokens models the token stream of the standard JSON decoder and the schema walk
  that the packages run over it before they decode; JsonDocuments holds what the documents share, and
  PlanDocument and JournalDocument the strict decoders of policy/plan.go and workflow/journal.go.

  Observation. GoNetip models the addresses and prefixes of net/netip, of both families, and GoSearch the
  binary search of the standard library. ObservationTypes and ObservationPreflight model
  observation/preflight.go: what one reading of the cloud may contain, its canonical order and revision,
  and the questions asked of it. ObservationGuarantees decides each question exactly: absence, the overlap
  of a candidate network, and the rules open to the public. ObservationSamples is the concrete preflight.

  Configuration. ManifestPolicy models config/identity.go and config/policy.go, ManifestGuarantees decides
  the policy against its reference \<open>manifest_policy_ok\<close>. ConfigHarness models config/harness.go, the
  projection of a manifest on a harness configuration; ConfigGuarantees holds what a configuration promises,
  that its cost cap is rounded up and never down, and the manifest of the witnesses. The schema validation of
  the manifest is a parameter of the projection.

  Bootstrap compiler. BootstrapTypes, BootstrapDesired and BootstrapCompile model isolation/bootstrap/types.go,
  compile.go and canonical.go: the sixteen desired resources, the registry of fourteen steps, the evidence a
  request needs, the plan, its binding and the compiled document. BootstrapDocument holds the document as
  the struct tags describe it. BootstrapGuarantees puts the compiler and the validation of a payload in closed
  form and shows that a compiled plan survives its own document; BootstrapAssembly that the registry always
  assembles a plan that the whole plan policy accepts, BootstrapSealing what the second validation of the
  compiler adds, and BootstrapSafety what a compiled plan and a parsed one rest on. BootstrapSamples compiles
  one request for the witnesses. The library of the compiler (\<open>compile_lib\<close>) collects its parameters: \<open>json.Marshal\<close> at each
  type, SHA-256, the decoder, and \<open>redact.Sanitize\<close>. A dollar amount is a double: \<open>microsToUSD\<close> writes the
  rounding of the division and of the product out on integers.

  Effects. Code that calls the outside is a tree of calls, and \<open>ensures\<close> its weakest precondition.

  Termination and fuel. Every definition is total. The searches of the machine run on the finite list of
  its states. The JSON walk has fuel, two units for each lexeme and one more; \<open>walk_document_exact\<close> shows
  that it never runs out.

  Not modelled. The other control-plane files (seeds, handoff, executor, envelopes, state directory), the
  command runner, redaction, the decoding and the schema of a manifest, the cloud adapters and the
  architecture checker.
\<close>

end
